(* ===== verification/Prelude.thy ===== *)
theory Prelude
  imports Main "HOL-Library.AList" "HOL-Library.Char_ord" "HOL-Library.List_Lexorder"
begin

text \<open>
  Shared vocabulary of the development: results of code that may raise, Python
  strings (as character lists, ordered by code point), Python dictionaries in
  insertion order, and the sorted-set idiom \<open>sorted(set(xs))\<close> the service uses for
  every list of reason codes and refused names.
\<close>

named_theorems result_simps \<open>evaluation of computations that may raise\<close>
named_theorems dict_simps \<open>facts about insertion-ordered dictionaries\<close>

section \<open>Computations that may raise\<close>

text \<open>\<open>Inl e\<close> is the raised error, \<open>Inr x\<close> the returned value.\<close>

type_synonym ('e, 'a) result = "'e + 'a"

fun bind_result :: "('e, 'a) result \<Rightarrow> ('a \<Rightarrow> ('e, 'b) result) \<Rightarrow> ('e, 'b) result" where
  "bind_result (Inl e) f = Inl e"
| "bind_result (Inr x) f = f x"

definition raise_if :: "bool \<Rightarrow> 'e \<Rightarrow> ('e, unit) result" where
  "raise_if b e = (if b then Inl e else Inr ())"

fun map_result :: "('a \<Rightarrow> ('e, 'b) result) \<Rightarrow> 'a list \<Rightarrow> ('e, 'b list) result" where
  "map_result f [] = Inr []"
| "map_result f (x # xs) =
     bind_result (f x) (\<lambda>y. bind_result (map_result f xs) (\<lambda>ys. Inr (y # ys)))"

definition is_ok :: "('e, 'a) result \<Rightarrow> bool" where
  "is_ok r = (case r of Inl _ \<Rightarrow> False | Inr _ \<Rightarrow> True)"

lemma bind_result_Inr_iff [result_simps]:
  "bind_result r f = Inr y \<longleftrightarrow> (\<exists>x. r = Inr x \<and> f x = Inr y)"
  by (cases r) auto

lemma bind_result_Inl_iff [result_simps]:
  "bind_result r f = Inl e \<longleftrightarrow> r = Inl e \<or> (\<exists>x. r = Inr x \<and> f x = Inl e)"
  by (cases r) auto

lemma raise_if_Inr_iff [result_simps]: "raise_if b e = Inr u \<longleftrightarrow> \<not> b"
  by (simp add: raise_if_def)

lemma raise_if_Inl_iff [result_simps]: "raise_if b e = Inl e' \<longleftrightarrow> b \<and> e' = e"
  by (auto simp: raise_if_def)

lemma map_result_Inr_length: "map_result f xs = Inr ys \<Longrightarrow> length ys = length xs"
  by (induction xs arbitrary: ys) (auto simp: result_simps)

section \<open>Python strings\<close>

text \<open>
  A string is a list of characters, each one code point below 256; comparison is
  lexicographic by code point, as Python's.  \<open>str.strip\<close> removes the characters
  Python counts as white space in that range.  Case mapping is given for ASCII letters;
  every other character is its own upper and lower case.
\<close>

definition py_isspace :: "char \<Rightarrow> bool" where
  "py_isspace c \<longleftrightarrow>
     of_char c \<in> {9, 10, 11, 12, 13, 28, 29, 30, 31, 32, 133, 160 :: nat}"

definition py_lstrip :: "string \<Rightarrow> string" where
  "py_lstrip s = dropWhile py_isspace s"

definition py_strip :: "string \<Rightarrow> string" where
  "py_strip s = rev (py_lstrip (rev (py_lstrip s)))"

definition char_upper :: "char \<Rightarrow> char" where
  "char_upper c = (let n = of_char c :: nat in
     if 97 \<le> n \<and> n \<le> 122 then char_of (n - 32) else c)"

definition char_lower :: "char \<Rightarrow> char" where
  "char_lower c = (let n = of_char c :: nat in
     if 65 \<le> n \<and> n \<le> 90 then char_of (n + 32) else c)"

definition py_upper :: "string \<Rightarrow> string" where
  "py_upper s = map char_upper s"

definition py_lower :: "string \<Rightarrow> string" where
  "py_lower s = map char_lower s"

definition starts_with :: "string \<Rightarrow> string \<Rightarrow> bool" where
  "starts_with s p \<longleftrightarrow> take (length p) s = p"

text \<open>\<open>str(n)\<close> of a natural number, and \<open>sep.join(parts)\<close>.\<close>

fun digits_of :: "nat \<Rightarrow> string" where
  "digits_of n = (if n < 10 then [char_of (48 + n)]
     else digits_of (n div 10) @ [char_of (48 + n mod 10)])"

declare digits_of.simps [simp del]

fun str_join :: "string \<Rightarrow> string list \<Rightarrow> string" where
  "str_join sep [] = []"
| "str_join sep [s] = s"
| "str_join sep (s # t # ss) = s @ sep @ str_join sep (t # ss)"

text \<open>\<open>str(n)\<close> of an integer.\<close>

definition str_int :: "int \<Rightarrow> string" where
  "str_int n = (if n < 0 then CHR ''-'' # digits_of (nat (- n)) else digits_of (nat n))"

text \<open>The code points of a string, and the value of a run of decimal digits.\<close>

definition ascii :: "string \<Rightarrow> nat list" where
  "ascii s = map of_char s"

definition digits_value :: "nat list \<Rightarrow> nat" where
  "digits_value ds = foldl (\<lambda>n d. n * 10 + (d - 48)) 0 ds"

text \<open>
  \<open>int(text)\<close> on the stripped text: an optional sign, then decimal digits with single underscores
  between them, at most 4300 of them.
\<close>

fun int_digits :: "string \<Rightarrow> string option" where
  "int_digits [] = None"
| "int_digits [c] = (if CHR ''0'' \<le> c \<and> c \<le> CHR ''9'' then Some [c] else None)"
| "int_digits (c # d # cs) =
     (if \<not> (CHR ''0'' \<le> c \<and> c \<le> CHR ''9'') then None
      else map_option (Cons c) (int_digits (if d = CHR ''_'' then cs else d # cs)))"

definition py_int :: "string \<Rightarrow> int option" where
  "py_int text =
     (let s = py_strip text;
          neg = (s \<noteq> [] \<and> hd s = CHR ''-'');
          body = (if s \<noteq> [] \<and> hd s \<in> {CHR ''-'', CHR ''+''} then tl s else s)
      in case int_digits body of
           None \<Rightarrow> None
         | Some ds \<Rightarrow>
             if 4300 < length ds then None
             else Some ((if neg then - 1 else 1) * int (digits_value (ascii ds))))"

lemma py_lstrip_Cons_not_space: "py_lstrip s = c # cs \<Longrightarrow> \<not> py_isspace c"
  by (induction s) (auto simp: py_lstrip_def split: if_splits)

lemma py_lstrip_idem: "py_lstrip (py_lstrip s) = py_lstrip s"
  by (simp add: py_lstrip_def dropWhile_idem)

lemma py_lstrip_rstrip_first:
  "s = [] \<or> \<not> py_isspace (hd s) \<Longrightarrow>
     rev (py_lstrip (rev s)) = [] \<or> \<not> py_isspace (hd (rev (py_lstrip (rev s))))"
proof -
  assume s: "s = [] \<or> \<not> py_isspace (hd s)"
  obtain w where w: "s = rev (py_lstrip (rev s)) @ w"
    unfolding py_lstrip_def by (metis rev_append rev_rev_ident takeWhile_dropWhile_id)
  show ?thesis
    using s by (subst (asm) w, subst (asm) (2) w) (cases "rev (py_lstrip (rev s))"; auto)
qed

lemma py_lstrip_id: "s = [] \<or> \<not> py_isspace (hd s) \<Longrightarrow> py_lstrip s = s"
  by (cases s) (auto simp: py_lstrip_def)

lemma hd_py_lstrip: "py_lstrip s = [] \<or> \<not> py_isspace (hd (py_lstrip s))"
  by (cases "py_lstrip s") (auto dest: py_lstrip_Cons_not_space)

lemma py_strip_idem [simp]: "py_strip (py_strip s) = py_strip s"
proof -
  let ?t = "py_lstrip s"
  have "py_lstrip (rev (py_lstrip (rev ?t))) = rev (py_lstrip (rev ?t))"
    by (rule py_lstrip_id [OF py_lstrip_rstrip_first [OF hd_py_lstrip]])
  then show ?thesis
    by (simp add: py_strip_def py_lstrip_idem)
qed

lemma py_strip_Nil [simp]: "py_strip [] = []"
  by (simp add: py_strip_def py_lstrip_def)

lemma length_py_strip: "length (py_strip s) \<le> length s"
proof -
  have "length (py_lstrip t) \<le> length t" for t
    by (simp add: py_lstrip_def length_dropWhile_le)
  from this [of "rev (py_lstrip s)"] this [of s] show ?thesis
    by (simp add: py_strip_def)
qed

lemma char_upper_idem [simp]: "char_upper (char_upper c) = char_upper c"
proof -
  have "of_char (char_of (n - 32) :: char) = (n - 32 :: nat)" if "97 \<le> n \<and> n \<le> 122" for n :: nat
  proof -
    have "n - 32 < 256" using that by linarith
    then show ?thesis by simp
  qed
  then show ?thesis by (auto simp: char_upper_def Let_def simp del: of_char_of)
qed

lemma py_upper_idem [simp]: "py_upper (py_upper s) = py_upper s"
  by (simp add: py_upper_def)

section \<open>Insertion-ordered dictionaries\<close>

text \<open>
  A Python dictionary is an association list with distinct keys in insertion order:
  assigning an existing key keeps its place, a new key goes to the end, which is what
  \<^const>\<open>AList.update\<close> does.
\<close>

type_synonym ('k, 'v) dict = "('k \<times> 'v) list"

definition dict_of_items :: "('k \<times> 'v) list \<Rightarrow> ('k, 'v) dict" where
  "dict_of_items kvs = fold (\<lambda>(k, v) d. AList.update k v d) kvs []"

definition dict_keys :: "('k, 'v) dict \<Rightarrow> 'k list" where
  "dict_keys d = map fst d"

definition dict_get :: "('k, 'v) dict \<Rightarrow> 'k \<Rightarrow> 'v \<Rightarrow> 'v" where
  "dict_get d k v = (case map_of d k of None \<Rightarrow> v | Some w \<Rightarrow> w)"

text \<open>\<open>d.update(other)\<close>.\<close>

definition dict_update :: "('k, 'v) dict \<Rightarrow> ('k, 'v) dict \<Rightarrow> ('k, 'v) dict" where
  "dict_update d other = foldl (\<lambda>m (k, v). AList.update k v m) d other"

lemma map_of_dict_update [dict_simps]:
  "map_of (dict_update d other) k = (case map_of (rev other) k of None \<Rightarrow> map_of d k | Some v \<Rightarrow> Some v)"
  by (induction other rule: rev_induct) (auto simp: dict_update_def update_conv split: option.splits)

lemma distinct_fold_update [dict_simps]:
  "distinct (map fst d) \<Longrightarrow> distinct (map fst (fold (\<lambda>(k, v) d. AList.update k v d) kvs d))"
  by (induction kvs arbitrary: d) (auto simp: distinct_update)

lemma distinct_dict_of_items [dict_simps, simp]: "distinct (map fst (dict_of_items kvs))"
  by (simp add: dict_of_items_def distinct_fold_update)

lemma keys_fold_update:
  "fst ` set (fold (\<lambda>(k, v) d. AList.update k v d) kvs d) = fst ` set d \<union> fst ` set kvs"
  by (induction kvs arbitrary: d) (auto simp: AList.dom_update split: prod.splits)

lemma keys_dict_of_items [dict_simps]: "fst ` set (dict_of_items kvs) = fst ` set kvs"
  by (simp add: dict_of_items_def keys_fold_update)

lemma update_fresh: "k \<notin> fst ` set d \<Longrightarrow> AList.update k v d = d @ [(k, v)]"
  by (induction d) auto

lemma dict_of_items_distinct_aux:
  "distinct (map fst (d @ kvs)) \<Longrightarrow> fold (\<lambda>(k, v) d. AList.update k v d) kvs d = d @ kvs"
proof (induction kvs arbitrary: d)
  case Nil
  then show ?case by simp
next
  case (Cons kv kvs)
  obtain k v where kv: "kv = (k, v)" by force
  with Cons.prems have "k \<notin> fst ` set d" by auto
  with Cons show ?case by (simp add: kv update_fresh)
qed

lemma dict_of_items_distinct [dict_simps]:
  "distinct (map fst kvs) \<Longrightarrow> dict_of_items kvs = kvs"
  by (simp add: dict_of_items_def dict_of_items_distinct_aux)

section \<open>Sorted sets of names\<close>

text \<open>\<open>sorted(set(xs))\<close>, \<open>sorted(set(xs) - set(ys))\<close> and the names that occur twice.\<close>

definition sorted_set :: "'a::linorder list \<Rightarrow> 'a list" where
  "sorted_set xs = sort (remdups xs)"

definition sorted_diff :: "'a::linorder list \<Rightarrow> 'a list \<Rightarrow> 'a list" where
  "sorted_diff xs ys = sorted_set (filter (\<lambda>x. x \<notin> set ys) xs)"

definition duplicates :: "'a::linorder list \<Rightarrow> 'a list" where
  "duplicates xs = sorted_set (filter (\<lambda>x. 1 < count_list xs x) xs)"

lemma set_sorted_set [simp]: "set (sorted_set xs) = set xs"
  by (simp add: sorted_set_def)

lemma sorted_sorted_set [simp]: "sorted (sorted_set xs)"
  by (simp add: sorted_set_def)

lemma distinct_sorted_set [simp]: "distinct (sorted_set xs)"
  by (simp add: sorted_set_def)

lemma sorted_set_Nil_iff [simp]: "sorted_set xs = [] \<longleftrightarrow> xs = []"
  by (metis set_empty set_sorted_set)

lemma set_sorted_diff [simp]: "set (sorted_diff xs ys) = set xs - set ys"
  by (auto simp: sorted_diff_def)

lemma sorted_diff_Nil_iff: "sorted_diff xs ys = [] \<longleftrightarrow> set xs \<subseteq> set ys"
  by (metis Diff_eq_empty_iff set_empty set_sorted_diff)

lemma count_list_pos_iff: "0 < count_list xs x \<longleftrightarrow> x \<in> set xs"
  by (metis count_list_0_iff gr0I less_numeral_extra(3))

lemma count_list_gt_1_iff: "(\<exists>x. 1 < count_list xs x) \<longleftrightarrow> \<not> distinct xs"
proof (induction xs)
  case Nil
  then show ?case by simp
next
  case (Cons a xs)
  have "(\<exists>x. 1 < count_list (a # xs) x) \<longleftrightarrow> a \<in> set xs \<or> (\<exists>x. 1 < count_list xs x)"
    by (auto simp: count_list_pos_iff) (metis less_SucI One_nat_def count_list_pos_iff zero_less_Suc less_trans)+
  also have "\<dots> \<longleftrightarrow> a \<in> set xs \<or> \<not> distinct xs" by (simp only: Cons.IH)
  finally show ?case by simp
qed

lemma duplicates_Nil_iff: "duplicates xs = [] \<longleftrightarrow> distinct xs"
proof -
  have "duplicates xs = [] \<longleftrightarrow> (\<forall>x\<in>set xs. \<not> 1 < count_list xs x)"
    by (simp add: duplicates_def filter_empty_conv)
  also have "\<dots> \<longleftrightarrow> \<not> (\<exists>x. 1 < count_list xs x)"
    by (metis count_list_0_iff not_less_zero)
  also have "\<dots> \<longleftrightarrow> distinct xs" by (simp only: count_list_gt_1_iff not_not)
  finally show ?thesis .
qed

section \<open>Sorting by a key\<close>

lemma sort_key_Cons_least:
  assumes "sort_key f xs = y # ys"
  shows "y \<in> set xs \<and> (\<forall>x\<in>set xs. f y \<le> f x)"
proof -
  have "set (y # ys) = set xs" "sorted (map f (y # ys))"
    using assms by (metis set_sort, metis sorted_sort_key)
  then show ?thesis by auto
qed

section \<open>Comprehensions that skip\<close>

lemma set_map_filter: "set (List.map_filter f xs) = {y. \<exists>x\<in>set xs. f x = Some y}"
  by (force simp: List.map_filter_def)

lemma map_filter_Nil_iff: "List.map_filter f xs = [] \<longleftrightarrow> (\<forall>x\<in>set xs. f x = None)"
  by (auto simp: List.map_filter_def filter_empty_conv)

end
