(* ===== verification/Dates.thy ===== *)
theory Dates
  imports Main Prelude
begin

text \<open>
  Calendar dates as \<open>datetime.date\<close> has them: year, month, day, ordered
  lexicographically, with the proleptic Gregorian ordinal that date subtraction uses and
  the ISO form the service writes into its references.  Instants are microseconds since
  the epoch in UTC.
\<close>

datatype date = Date (date_year: int) (date_month: int) (date_day: int)

type_synonym instant = int

instantiation date :: linorder
begin

definition less_eq_date :: "date \<Rightarrow> date \<Rightarrow> bool" where
  "less_eq_date a b \<longleftrightarrow> date_year a < date_year b \<or> date_year a = date_year b \<and>
     (date_month a < date_month b \<or> date_month a = date_month b \<and> date_day a \<le> date_day b)"

definition less_date :: "date \<Rightarrow> date \<Rightarrow> bool" where
  "less_date a b \<longleftrightarrow> date_year a < date_year b \<or> date_year a = date_year b \<and>
     (date_month a < date_month b \<or> date_month a = date_month b \<and> date_day a < date_day b)"

instance
  by standard (auto simp: less_eq_date_def less_date_def date.expand)

end

section \<open>Ordinals\<close>

definition is_leap :: "int \<Rightarrow> bool" where
  "is_leap y \<longleftrightarrow> y mod 4 = 0 \<and> (y mod 100 \<noteq> 0 \<or> y mod 400 = 0)"

definition days_in_month :: "int \<Rightarrow> int \<Rightarrow> int" where
  "days_in_month y m =
     (if m = 2 then (if is_leap y then 29 else 28)
      else if m \<in> {4, 6, 9, 11} then 30 else 31)"

definition valid_date :: "date \<Rightarrow> bool" where
  "valid_date d \<longleftrightarrow> 1 \<le> date_year d \<and> date_year d \<le> 9999 \<and>
     1 \<le> date_month d \<and> date_month d \<le> 12 \<and>
     1 \<le> date_day d \<and> date_day d \<le> days_in_month (date_year d) (date_month d)"

definition days_before_year :: "int \<Rightarrow> int" where
  "days_before_year y = (let p = y - 1 in p * 365 + p div 4 - p div 100 + p div 400)"

definition days_before_month :: "int \<Rightarrow> int \<Rightarrow> int" where
  "days_before_month y m =
     (if m = 1 then 0 else if m = 2 then 31 else
      [59, 90, 120, 151, 181, 212, 243, 273, 304, 334] ! nat (m - 3)
        + (if is_leap y then 1 else 0))"

definition toordinal :: "date \<Rightarrow> int" where
  "toordinal d = days_before_year (date_year d) +
     days_before_month (date_year d) (date_month d) + date_day d"

text \<open>\<open>(a - b).days\<close>\<close>

definition days_between :: "date \<Rightarrow> date \<Rightarrow> int" where
  "days_between a b = toordinal a - toordinal b"

lemma month_cases:
  assumes "1 \<le> m" "m \<le> (12 :: int)"
  obtains "m = 1" | "m = 2" | "m = 3" | "m = 4" | "m = 5" | "m = 6"
    | "m = 7" | "m = 8" | "m = 9" | "m = 10" | "m = 11" | "m = 12"
proof -
  have "m \<in> {1, 2, 3, 4, 5, 6, 7, 8, 9, 10, 11, 12}"
    using assms unfolding insert_iff empty_iff by presburger
  then show thesis using that by blast
qed

lemma days_before_next_month:
  assumes "1 \<le> m" "m < 12"
  shows "days_before_month y (m + 1) = days_before_month y m + days_in_month y m"
proof -
  from assms have "1 \<le> m" "m \<le> 12" by auto
  then show ?thesis
    using assms by (cases m rule: month_cases) (simp_all add: days_before_month_def days_in_month_def)
qed

lemma days_before_month_mono:
  assumes "1 \<le> m" "m < n" "n \<le> 12"
  shows "days_before_month y m + days_in_month y m \<le> days_before_month y n"
  using assms(2,3)
proof (induction n rule: int_gr_induct)
  case base
  with assms(1) show ?case by (simp add: days_before_next_month)
next
  case (step n)
  have "0 \<le> days_in_month y n" by (simp add: days_in_month_def)
  with step assms(1) days_before_next_month [of n y] show ?case by simp
qed

lemma days_in_year:
  "days_before_month y 12 + 31 = (if is_leap y then 366 else 365)"
  by (simp add: days_before_month_def)

lemma div_pred:
  assumes "0 < (k :: int)"
  shows "y div k = (y - 1) div k + (if y mod k = 0 then 1 else 0)"
proof (cases "y mod k = 0")
  case True
  then have "y - 1 = (y div k - 1) * k + (k - 1)"
    by (metis add.commute add_0 diff_add_cancel diff_diff_eq2 diff_minus_eq_add div_mult_mod_eq
        left_diff_distrib mult_1 uminus_add_conv_diff)
  then have "(y - 1) div k = y div k - 1"
    using assms by (intro int_div_pos_eq [where r = "k - 1"]) (auto simp: mult.commute)
  with True show ?thesis by simp
next
  case False
  have "y - 1 = k * (y div k) + (y mod k - 1)" by simp
  then have "(y - 1) div k = y div k"
    using assms False pos_mod_bound [OF assms, of y] pos_mod_sign [OF assms, of y]
    by (intro int_div_pos_eq [where r = "y mod k - 1"]) linarith+
  with False show ?thesis by simp
qed

lemma leap_divisors:
  "(y::int) mod 400 = 0 \<Longrightarrow> y mod 100 = 0" "(y::int) mod 100 = 0 \<Longrightarrow> y mod 4 = 0"
proof -
  have d: "100 dvd (400 :: int)" "4 dvd (100 :: int)" by simp_all
  show "y mod 400 = 0 \<Longrightarrow> y mod 100 = 0"
    unfolding mod_eq_0_iff_dvd using d(1) by (rule dvd_trans)
  show "y mod 100 = 0 \<Longrightarrow> y mod 4 = 0"
    unfolding mod_eq_0_iff_dvd using d(2) by (rule dvd_trans)
qed

lemma days_before_next_year:
  "days_before_year (y + 1) = days_before_year y + (if is_leap y then 366 else 365)"
proof -
  let ?z = "\<lambda>k. if y mod k = 0 then 1 else (0 :: int)"
  have q: "y div 4 = (y - 1) div 4 + ?z 4" "y div 100 = (y - 1) div 100 + ?z 100"
    "y div 400 = (y - 1) div 400 + ?z 400"
    by (rule div_pred, rule zero_less_numeral)+
  have r: "y * 365 + (a + u) - (b + v) + (c + w)
    = ((y - 1) * 365 + a - b + c) + (365 + (u - v + w))" for a b c u v w :: int
    by (simp only: algebra_simps)
  have "days_before_year (y + 1) = days_before_year y + (365 + (?z 4 - ?z 100 + ?z 400))"
    unfolding days_before_year_def Let_def add_diff_cancel q by (rule r)
  also have "365 + (?z 4 - ?z 100 + ?z 400) = (if is_leap y then 366 else 365)"
    using leap_divisors [of y] unfolding is_leap_def
    by (cases "y mod 4 = 0"; cases "y mod 100 = 0"; cases "y mod 400 = 0") simp_all
  finally show ?thesis .
qed

lemma days_before_year_mono: "y < z \<Longrightarrow> days_before_year (y + 1) \<le> days_before_year z"
proof (induction z rule: int_gr_induct)
  case base
  then show ?case by simp
next
  case (step z)
  then show ?case by (simp add: days_before_next_year [of z])
qed

lemma day_of_year_bound:
  assumes "valid_date d"
  shows "days_before_month (date_year d) (date_month d) + date_day d
    \<le> (if is_leap (date_year d) then 366 else 365)"
proof (cases "date_month d = 12")
  case True
  with assms days_in_year [of "date_year d"] show ?thesis
    by (simp add: valid_date_def days_in_month_def)
next
  case False
  with assms have "days_before_month (date_year d) (date_month d)
      + days_in_month (date_year d) (date_month d) \<le> days_before_month (date_year d) 12"
    by (intro days_before_month_mono) (auto simp: valid_date_def)
  with assms days_in_year [of "date_year d"] show ?thesis by (simp add: valid_date_def)
qed

text \<open>On valid dates the ordinal is strictly increasing, so date order is day order.\<close>

lemma toordinal_strict_mono:
  assumes "valid_date a" "valid_date b" "a < b"
  shows "toordinal a < toordinal b"
proof -
  consider "date_year a < date_year b"
    | "date_year a = date_year b" "date_month a < date_month b"
    | "date_year a = date_year b" "date_month a = date_month b" "date_day a < date_day b"
    using assms(3) by (auto simp: less_date_def)
  then show ?thesis
  proof cases
    case 1
    have "0 \<le> days_before_month (date_year b) (date_month b)"
      using days_before_month_mono [of 1 "date_month b" "date_year b"] assms(2)
      by (cases "date_month b = 1")
        (auto simp: valid_date_def days_before_month_def days_in_month_def)
    moreover have "1 \<le> date_day b" using assms(2) by (simp add: valid_date_def)
    ultimately show ?thesis
      using days_before_year_mono [OF 1] days_before_next_year [of "date_year a"]
        day_of_year_bound [OF assms(1)]
      by (simp add: toordinal_def)
  next
    case 2
    then have "days_before_month (date_year a) (date_month a)
        + days_in_month (date_year a) (date_month a)
      \<le> days_before_month (date_year a) (date_month b)"
      using assms by (intro days_before_month_mono) (auto simp: valid_date_def)
    with 2 assms show ?thesis by (simp add: toordinal_def valid_date_def)
  next
    case 3
    then show ?thesis by (simp add: toordinal_def)
  qed
qed

lemma toordinal_less_iff:
  "valid_date a \<Longrightarrow> valid_date b \<Longrightarrow> toordinal a < toordinal b \<longleftrightarrow> a < b"
  using toordinal_strict_mono [of a b] toordinal_strict_mono [of b a]
  by (cases a b rule: linorder_cases) auto

lemma days_between_le_0_iff:
  "valid_date a \<Longrightarrow> valid_date b \<Longrightarrow> days_between a b \<le> 0 \<longleftrightarrow> a \<le> b"
  using toordinal_less_iff [of b a] by (auto simp: days_between_def not_le [symmetric])

section \<open>ISO form\<close>

definition pad0 :: "nat \<Rightarrow> string \<Rightarrow> string" where
  "pad0 w s = replicate (w - length s) (CHR ''0'') @ s"

definition isoformat :: "date \<Rightarrow> string" where
  "isoformat d = pad0 4 (digits_of (nat (date_year d))) @ ''-'' @
     pad0 2 (digits_of (nat (date_month d))) @ ''-'' @ pad0 2 (digits_of (nat (date_day d)))"

lemma isoformat_example: "isoformat (Date 2026 5 3) = ''2026-05-03''"
  by code_simp

end
