(* ===== verification/Float64.thy ===== *)
theory Float64
  imports Complex_Main "HOL-Library.Log_Nat" Prelude
begin

text \<open>
  Python floats: IEEE 754 binary64 arithmetic, rounded to nearest, ties to even, over the
  finite values, each held as the rational number it denotes (the two zeros are one
  value).  Values at or above \<open>2 ^ 1024\<close> do not arise in the components that use this
  theory: their operands are weights, shocks and ratios bounded by small constants.
  \<open>py_round6\<close> is \<open>round(x, 6)\<close>: the exact value rounded half-even to six decimals, then
  the nearest float.  \<open>py_sum\<close> is \<open>sum()\<close> over floats as CPython 3.12 and later compute
  it (Neumaier compensation); the project requires Python 3.12.
\<close>

named_theorems float_simps \<open>rewriting of float operations on exact values\<close>
named_theorems float_mono \<open>monotonicity and sign of float operations\<close>

section \<open>Rounding to an integer, ties to even\<close>

definition round_half_even :: "rat \<Rightarrow> int" where
  "round_half_even x = (let f = \<lfloor>x\<rfloor>; d = x - of_int f in
     if d < 1 / 2 then f else if 1 / 2 < d then f + 1 else if even f then f else f + 1)"

lemma round_half_even_of_int [simp]: "round_half_even (of_int n) = n"
  by (simp add: round_half_even_def)

lemma round_half_even_near: "\<bar>of_int (round_half_even x) - x\<bar> \<le> 1 / 2"
proof -
  have "of_int \<lfloor>x\<rfloor> \<le> x" "x < of_int \<lfloor>x\<rfloor> + 1"
    using floor_correct [of x] by simp_all
  then show ?thesis by (auto simp: round_half_even_def Let_def abs_le_iff)
qed

lemma round_half_even_floor: "round_half_even x = \<lfloor>x\<rfloor> \<or> round_half_even x = \<lfloor>x\<rfloor> + 1"
  by (simp add: round_half_even_def Let_def)

lemma round_half_even_mono: "x \<le> y \<Longrightarrow> round_half_even x \<le> round_half_even y"
proof -
  assume le: "x \<le> y"
  then have fl: "\<lfloor>x\<rfloor> \<le> \<lfloor>y\<rfloor>" by (rule floor_mono)
  show ?thesis
  proof (cases "\<lfloor>x\<rfloor> = \<lfloor>y\<rfloor>")
    case True
    with le show ?thesis by (auto simp: round_half_even_def Let_def)
  next
    case False
    with fl have "\<lfloor>x\<rfloor> + 1 \<le> \<lfloor>y\<rfloor>" by simp
    with round_half_even_floor [of x] round_half_even_floor [of y] show ?thesis by linarith
  qed
qed

lemma round_half_even_minus [simp]: "round_half_even (- x) = - round_half_even x"
proof (cases "x = of_int \<lfloor>x\<rfloor>")
  case True
  then show ?thesis by (metis of_int_minus round_half_even_of_int)
next
  case False
  have lo: "of_int \<lfloor>x\<rfloor> < x" using False floor_correct [of x] by linarith
  have hi: "x < of_int \<lfloor>x\<rfloor> + 1" using floor_correct [of x] by simp
  have "\<lfloor>- x\<rfloor> = - \<lfloor>x\<rfloor> - 1"
    by (rule floor_unique) (use lo hi in auto)
  then show ?thesis by (auto simp: round_half_even_def Let_def)
qed

section \<open>The binade of a positive rational\<close>

definition two_pow :: "int \<Rightarrow> rat" where
  "two_pow e = (if 0 \<le> e then 2 ^ nat e else 1 / 2 ^ nat (- e))"

lemma two_pow_powi: "two_pow e = 2 powi e"
  by (simp add: two_pow_def power_int_def inverse_eq_divide power_divide)

lemma two_pow_pos [simp]: "0 < two_pow e"
  by (simp add: two_pow_powi)

lemma two_pow_nz [simp]: "two_pow e \<noteq> 0"
  by (simp add: two_pow_powi)

lemma two_pow_add: "two_pow (a + b) = two_pow a * two_pow b"
  by (simp add: two_pow_powi power_int_add)

lemma two_pow_strict_mono: "a < b \<Longrightarrow> two_pow a < two_pow b"
  by (simp add: two_pow_powi power_int_strict_increasing)

lemma two_pow_less_iff [simp]: "two_pow a < two_pow b \<longleftrightarrow> a < b"
  by (metis less_asym linorder_neqE_linordered_idom two_pow_strict_mono)

lemma two_pow_le_iff [simp]: "two_pow a \<le> two_pow b \<longleftrightarrow> a \<le> b"
  by (metis linorder_not_le two_pow_less_iff)

lemma two_pow_0 [simp]: "two_pow 0 = 1"
  by (simp add: two_pow_def)

lemma two_pow_int: "0 \<le> e \<Longrightarrow> two_pow e = of_int (2 ^ nat e)"
  by (simp add: two_pow_def)

definition flog2 :: "rat \<Rightarrow> int" where
  "flog2 x = (case quotient_of x of (a, b) \<Rightarrow>
     let e = bitlen a - bitlen b in if two_pow e \<le> x then e else e - 1)"

lemma bitlen_two_pow:
  assumes "0 < a"
  shows "two_pow (bitlen a - 1) \<le> of_int a" "of_int a < two_pow (bitlen a)"
proof -
  have b: "2 ^ nat (bitlen a - 1) \<le> a" "a < 2 ^ nat (bitlen a)"
    using bitlen_bounds [OF assms] by auto
  have pos: "0 < bitlen a"
    using assms bitlen_eq_zero_iff [of a] bitlen_nonneg [of a] by linarith
  show "two_pow (bitlen a - 1) \<le> of_int a"
    using b(1) pos by (simp add: two_pow_int del: of_int_power)
  show "of_int a < two_pow (bitlen a)"
    using b(2) pos by (simp add: two_pow_int del: of_int_power)
qed

lemma flog2_bounds:
  assumes "0 < x"
  shows "two_pow (flog2 x) \<le> x" "x < two_pow (flog2 x + 1)"
proof -
  obtain a b where q: "quotient_of x = (a, b)" by force
  then have b: "0 < b" and x: "x = of_int a / of_int b"
    by (simp_all add: quotient_of_denom_pos quotient_of_div)
  with assms have a: "0 < a" by (simp add: zero_less_divide_iff)
  let ?e = "bitlen a - bitlen b"
  have rb: "(0::rat) < of_int b" using b by simp
  have "x < two_pow (bitlen a) / two_pow (bitlen b - 1)"
    unfolding x using bitlen_two_pow(2) [OF a] bitlen_two_pow(1) [OF b] rb
    by (intro frac_less) (simp_all add: a less_imp_le)
  also have "\<dots> = two_pow (?e + 1)"
    by (simp add: two_pow_powi algebra_simps flip: power_int_diff)
  finally have hi: "x < two_pow (?e + 1)" .
  have "two_pow (?e - 1) = two_pow (bitlen a - 1) / two_pow (bitlen b)"
    by (simp add: two_pow_powi algebra_simps flip: power_int_diff)
  also have "\<dots> \<le> x"
    unfolding x using bitlen_two_pow(1) [OF a] bitlen_two_pow(2) [OF b] rb
    by (intro frac_le) (simp_all add: a less_imp_le)
  finally have lo: "two_pow (?e - 1) \<le> x" .
  show "two_pow (flog2 x) \<le> x" "x < two_pow (flog2 x + 1)"
    using hi lo by (auto simp: flog2_def q Let_def)
qed

lemma flog2_unique:
  assumes "two_pow e \<le> x" "x < two_pow (e + 1)"
  shows "flog2 x = e"
proof -
  have "0 < x" using assms(1) two_pow_pos [of e] by linarith
  note b = flog2_bounds [OF this]
  have "two_pow e < two_pow (flog2 x + 1)" using assms(1) b(2) by linarith
  moreover have "two_pow (flog2 x) < two_pow (e + 1)" using assms(2) b(1) by linarith
  ultimately show ?thesis by simp
qed

lemma flog2_mono: "0 < x \<Longrightarrow> x \<le> y \<Longrightarrow> flog2 x \<le> flog2 y"
proof -
  assume x: "0 < x" and le: "x \<le> y"
  then have "two_pow (flog2 x) < two_pow (flog2 y + 1)"
    using flog2_bounds(1) [OF x] flog2_bounds(2) [of y] by linarith
  then show ?thesis by simp
qed


section \<open>Rounding to binary64\<close>

definition ulp_exp :: "rat \<Rightarrow> int" where
  "ulp_exp x = max (flog2 \<bar>x\<bar> - 52) (- 1074)"

definition rnd :: "rat \<Rightarrow> rat" where
  "rnd x = (if x = 0 then 0 else
     of_int (round_half_even (x / two_pow (ulp_exp x))) * two_pow (ulp_exp x))"

lemma ulp_exp_minus [simp]: "ulp_exp (- x) = ulp_exp x"
  by (simp add: ulp_exp_def)

lemma rnd_0 [simp]: "rnd 0 = 0"
  by (simp add: rnd_def)

lemma rnd_minus [simp, float_simps]: "rnd (- x) = - rnd x"
  by (simp add: rnd_def)

lemma two_pow_quotient_int:
  assumes "a \<le> b"
  shows "two_pow b = of_int (2 ^ nat (b - a)) * two_pow a"
proof -
  have "two_pow b = two_pow (b - a) * two_pow a" by (simp flip: two_pow_add)
  with assms show ?thesis by (simp add: two_pow_int)
qed

lemma rnd_le_grid:
  assumes "x \<noteq> 0" "x \<le> of_int m * two_pow k" "ulp_exp x \<le> k"
  shows "rnd x \<le> of_int m * two_pow k"
proof -
  let ?u = "two_pow (ulp_exp x)"
  let ?q = "m * 2 ^ nat (k - ulp_exp x)"
  have g: "of_int m * two_pow k = of_int ?q * ?u"
    using two_pow_quotient_int [OF assms(3)] by simp
  have "x / ?u \<le> of_int ?q" using assms(2) unfolding g by (simp add: pos_divide_le_eq)
  then have "round_half_even (x / ?u) \<le> ?q"
    using round_half_even_mono [of "x / ?u" "of_int ?q"] by (simp only: round_half_even_of_int)
  then have "(of_int (round_half_even (x / ?u)) :: rat) \<le> of_int ?q" by (simp only: of_int_le_iff)
  then have "of_int (round_half_even (x / ?u)) * ?u \<le> of_int ?q * ?u"
    by (rule mult_right_mono) (simp add: less_imp_le)
  then show ?thesis unfolding g using assms(1) by (simp add: rnd_def)
qed

lemma rnd_ge_grid:
  assumes "x \<noteq> 0" "of_int m * two_pow k \<le> x" "ulp_exp x \<le> k"
  shows "of_int m * two_pow k \<le> rnd x"
proof -
  have "- x \<le> of_int (- m) * two_pow k" using assms(2) by simp
  then have "rnd (- x) \<le> of_int (- m) * two_pow k"
    using assms(1,3) by (intro rnd_le_grid) auto
  then show ?thesis by simp
qed

lemma rnd_exact:
  assumes "x = of_int m * two_pow k" "ulp_exp x \<le> k"
  shows "rnd x = x"
proof (cases "x = 0")
  case True
  then show ?thesis by simp
next
  case False
  have "rnd x \<le> of_int m * two_pow k" "of_int m * two_pow k \<le> rnd x"
    using assms False by (auto intro: rnd_le_grid rnd_ge_grid)
  with assms(1) show ?thesis by simp
qed

lemma rnd_nonneg [float_mono]: "0 \<le> x \<Longrightarrow> 0 \<le> rnd x"
  using rnd_ge_grid [of x 0 "ulp_exp x"] by (cases "x = 0") auto

lemma rnd_mono_pos:
  assumes "0 < x" "x \<le> y"
  shows "rnd x \<le> rnd y"
proof (cases "ulp_exp x = ulp_exp y")
  case True
  have "x / two_pow (ulp_exp y) \<le> y / two_pow (ulp_exp y)"
    using assms(2) by (simp add: divide_right_mono less_imp_le)
  then have "(of_int (round_half_even (x / two_pow (ulp_exp y))) :: rat)
      \<le> of_int (round_half_even (y / two_pow (ulp_exp y)))"
    by (simp only: of_int_le_iff round_half_even_mono)
  then have "of_int (round_half_even (x / two_pow (ulp_exp y))) * two_pow (ulp_exp y)
      \<le> of_int (round_half_even (y / two_pow (ulp_exp y))) * two_pow (ulp_exp y)"
    by (rule mult_right_mono) (simp add: less_imp_le)
  with assms True show ?thesis by (simp add: rnd_def)
next
  case False
  have y: "0 < y" using assms by linarith
  have "flog2 x \<le> flog2 y" using assms by (rule flog2_mono)
  with False assms y have fl: "flog2 x + 1 \<le> flog2 y" and ux: "ulp_exp x \<le> flog2 y"
    and uy: "ulp_exp y \<le> flog2 y"
    by (auto simp: ulp_exp_def max_def split: if_splits)
  let ?p = "of_int 1 * two_pow (flog2 y)"
  have "x \<le> ?p" using flog2_bounds(2) [OF assms(1)] fl two_pow_le_iff [of "flog2 x + 1" "flog2 y"]
    by linarith
  then have "rnd x \<le> ?p" using assms(1) ux by (intro rnd_le_grid) auto
  moreover have "?p \<le> rnd y" using y uy flog2_bounds(1) [OF y] by (intro rnd_ge_grid) auto
  ultimately show ?thesis by linarith
qed

lemma rnd_mono [float_mono]: "x \<le> y \<Longrightarrow> rnd x \<le> rnd y"
proof -
  assume le: "x \<le> y"
  consider "0 < x" | "x \<le> 0" "0 \<le> y" | "y < 0" by linarith
  then show ?thesis
  proof cases
    case 1
    with le show ?thesis by (intro rnd_mono_pos)
  next
    case 2
    then show ?thesis using rnd_nonneg [of "- x"] rnd_nonneg [of y] by simp
  next
    case 3
    with le have "rnd (- y) \<le> rnd (- x)" by (intro rnd_mono_pos) auto
    then show ?thesis by simp
  qed
qed

lemma rnd_idem_pos:
  assumes "0 < x"
  shows "rnd (rnd x) = rnd x"
proof (cases "rnd x = 0")
  case True
  then show ?thesis by simp
next
  case False
  let ?e = "ulp_exp x"
  have r: "rnd x = of_int (round_half_even (x / two_pow ?e)) * two_pow ?e"
    using assms by (simp add: rnd_def)
  have pos: "0 < rnd x" using False rnd_nonneg [of x] assms by linarith
  show ?thesis
  proof (cases "ulp_exp (rnd x) \<le> ?e")
    case True
    with r show ?thesis by (rule rnd_exact)
  next
    case False
    define k where "k = max (flog2 x + 1) ?e"
    have tk: "flog2 (two_pow k) = k" by (rule flog2_unique) auto
    have "x \<le> two_pow k"
      using flog2_bounds(2) [OF assms] two_pow_le_iff [of "flog2 x + 1" k]
      unfolding k_def by linarith
    then have le: "rnd x \<le> of_int 1 * two_pow k"
      using assms by (intro rnd_le_grid) (auto simp: k_def)
    then have "flog2 (rnd x) \<le> k" using flog2_mono [OF pos, of "two_pow k"] tk by simp
    moreover have "?e + 52 < flog2 (rnd x)" "flog2 x \<le> ?e + 52"
      using False pos assms by (auto simp: ulp_exp_def max_def split: if_splits)
    ultimately have eq: "flog2 (rnd x) = k" by (auto simp: k_def max_def split: if_splits)
    then have "two_pow k \<le> rnd x" using flog2_bounds(1) [OF pos] by simp
    with le have "rnd x = of_int 1 * two_pow k" by simp
    moreover have "ulp_exp (rnd x) \<le> k"
      using eq pos False by (auto simp: ulp_exp_def max_def split: if_splits)
    ultimately show ?thesis by (intro rnd_exact [where k = k and m = 1]) auto
  qed
qed

lemma rnd_idem [simp]: "rnd (rnd x) = rnd x"
proof -
  consider "0 < x" | "x = 0" | "0 < - x" by linarith
  then show ?thesis
  proof cases
    case 3
    from rnd_idem_pos [OF this] show ?thesis by simp
  qed (auto simp: rnd_idem_pos)
qed

lemma rnd_of_int_pos: "0 < n \<Longrightarrow> n \<le> 2 ^ 53 \<Longrightarrow> rnd (of_int n) = of_int n"
proof -
  assume n: "0 < n" "n \<le> 2 ^ 53"
  have "two_pow (flog2 (of_int n)) \<le> of_int n" using n by (intro flog2_bounds) auto
  also have "\<dots> \<le> of_int (2 ^ 53)" using n by (simp only: of_int_le_iff)
  finally have le: "two_pow (flog2 (of_int n)) \<le> two_pow 53" by (simp add: two_pow_def)
  show ?thesis
  proof (cases "flog2 (of_int n) = 53")
    case True
    then have "two_pow 53 \<le> of_int n" using flog2_bounds(1) [of "of_int n"] n by simp
    moreover have "(of_int n :: rat) \<le> two_pow 53"
      using n of_int_le_iff [of n "2 ^ 53", where 'a = rat] by (simp add: two_pow_def)
    ultimately have "of_int n = of_int 1 * two_pow 53" by simp
    moreover have "ulp_exp (of_int n) \<le> 53" using True n by (simp add: ulp_exp_def)
    ultimately show ?thesis by (intro rnd_exact [where k = 53 and m = 1]) auto
  next
    case False
    with le have "flog2 (of_int n) \<le> 52" by simp
    then show ?thesis
      by (intro rnd_exact [where k = 0 and m = n]) (auto simp: ulp_exp_def n abs_of_pos)
  qed
qed

lemma rnd_of_int: "\<bar>n\<bar> \<le> 2 ^ 53 \<Longrightarrow> rnd (of_int n) = of_int n"
  using rnd_of_int_pos [of n] rnd_of_int_pos [of "- n"]
  by (cases n "0 :: int" rule: linorder_cases) auto

lemma rnd_1 [simp]: "rnd 1 = 1"
  using rnd_of_int [of 1] by simp

section \<open>Arithmetic, round and sum\<close>

type_synonym f64 = rat

definition is_f64 :: "f64 \<Rightarrow> bool" where
  "is_f64 x \<longleftrightarrow> rnd x = x"

definition fadd :: "f64 \<Rightarrow> f64 \<Rightarrow> f64" where
  "fadd x y = rnd (x + y)"

definition fsub :: "f64 \<Rightarrow> f64 \<Rightarrow> f64" where
  "fsub x y = rnd (x - y)"

definition fmul :: "f64 \<Rightarrow> f64 \<Rightarrow> f64" where
  "fmul x y = rnd (x * y)"

definition fdiv :: "f64 \<Rightarrow> f64 \<Rightarrow> f64" where
  "fdiv x y = rnd (x / y)"

text \<open>A decimal literal of the source is the nearest float.\<close>

definition flit :: "rat \<Rightarrow> f64" where
  "flit q = rnd q"

definition py_round6 :: "f64 \<Rightarrow> f64" where
  "py_round6 x = rnd (of_int (round_half_even (x * 10 ^ 6)) / 10 ^ 6)"

text \<open>
  \<open>sum(xs)\<close>: the integer start value 0 meets the first float in an ordinary addition;
  from then on CPython keeps the running sum \<open>s\<close> and a compensation \<open>c\<close>, added at the end.
\<close>

fun neumaier :: "f64 \<Rightarrow> f64 \<Rightarrow> f64 list \<Rightarrow> f64" where
  "neumaier s c [] = (if c \<noteq> 0 then fadd s c else s)"
| "neumaier s c (x # xs) = (let t = fadd s x in
     neumaier t
       (if \<bar>x\<bar> \<le> \<bar>s\<bar> then fadd c (fadd (fsub s t) x) else fadd c (fadd (fsub x t) s)) xs)"

fun py_sum :: "f64 list \<Rightarrow> f64" where
  "py_sum [] = 0"
| "py_sum (x # xs) = neumaier (fadd 0 x) 0 xs"

text \<open>Sums written as a loop with \<open>+=\<close> carry no compensation.\<close>

definition loop_sum :: "f64 list \<Rightarrow> f64" where
  "loop_sum xs = foldl fadd 0 xs"

lemma is_f64_ops [simp]:
  "is_f64 0" "is_f64 1" "is_f64 (fadd x y)" "is_f64 (fsub x y)" "is_f64 (fmul x y)"
  "is_f64 (fdiv x y)" "is_f64 (flit q)" "is_f64 (py_round6 x)"
  by (simp_all add: is_f64_def fadd_def fsub_def fmul_def fdiv_def flit_def py_round6_def)

lemma is_f64_minus [simp]: "is_f64 (- x) \<longleftrightarrow> is_f64 x"
  by (simp add: is_f64_def)

lemma fadd_0 [simp]: "is_f64 x \<Longrightarrow> fadd 0 x = x" "is_f64 x \<Longrightarrow> fadd x 0 = x"
  by (simp_all add: fadd_def is_f64_def)

lemma fadd_mono [float_mono]: "a \<le> a' \<Longrightarrow> b \<le> b' \<Longrightarrow> fadd a b \<le> fadd a' b'"
  unfolding fadd_def by (intro rnd_mono add_mono)

lemma fadd_nonneg [float_mono]: "0 \<le> a \<Longrightarrow> 0 \<le> b \<Longrightarrow> 0 \<le> fadd a b"
  unfolding fadd_def by (intro rnd_nonneg add_nonneg_nonneg)

lemma fadd_ge_left [float_mono]: "is_f64 a \<Longrightarrow> 0 \<le> b \<Longrightarrow> a \<le> fadd a b"
  using rnd_mono [of a "a + b"] by (simp add: fadd_def is_f64_def)

lemma fmul_mono_right [float_mono]: "0 \<le> c \<Longrightarrow> a \<le> b \<Longrightarrow> fmul a c \<le> fmul b c"
  unfolding fmul_def by (intro rnd_mono mult_right_mono)

lemma fmul_nonneg [float_mono]: "0 \<le> a \<Longrightarrow> 0 \<le> b \<Longrightarrow> 0 \<le> fmul a b"
  unfolding fmul_def by (intro rnd_nonneg mult_nonneg_nonneg)

lemma fmul_minus [float_simps]: "fmul (- a) b = - fmul a b" "fmul a (- b) = - fmul a b"
  by (simp_all add: fmul_def)

lemma fmul_0 [simp]: "fmul 0 b = 0" "fmul a 0 = 0"
  by (simp_all add: fmul_def)

lemma fdiv_nonneg [float_mono]: "0 \<le> a \<Longrightarrow> 0 \<le> b \<Longrightarrow> 0 \<le> fdiv a b"
  unfolding fdiv_def by (intro rnd_nonneg divide_nonneg_nonneg)

lemma fdiv_le_1 [float_mono]: "0 \<le> a \<Longrightarrow> a \<le> b \<Longrightarrow> fdiv a b \<le> 1"
  using rnd_mono [of "a / b" 1] by (cases "b = 0") (simp_all add: fdiv_def divide_le_eq_1)

lemma py_round6_mono [float_mono]: "x \<le> y \<Longrightarrow> py_round6 x \<le> py_round6 y"
proof -
  assume "x \<le> y"
  then have "round_half_even (x * 10 ^ 6) \<le> round_half_even (y * 10 ^ 6)"
    by (intro round_half_even_mono mult_right_mono) auto
  then have "(of_int (round_half_even (x * 10 ^ 6)) :: rat) \<le> of_int (round_half_even (y * 10 ^ 6))"
    by (simp only: of_int_le_iff)
  then show ?thesis
    unfolding py_round6_def by (intro rnd_mono divide_right_mono) auto
qed

lemma round_half_even_0 [simp]: "round_half_even 0 = 0"
  using round_half_even_of_int [of 0] by simp

lemma py_round6_0 [simp]: "py_round6 0 = 0"
  by (simp add: py_round6_def)

lemma py_round6_nonneg [float_mono]: "0 \<le> x \<Longrightarrow> 0 \<le> py_round6 x"
  using py_round6_mono [of 0 x] by simp

lemma py_round6_minus [float_simps]: "py_round6 (- x) = - py_round6 x"
  by (simp add: py_round6_def)

lemma foldl_fadd_ge:
  "is_f64 a \<Longrightarrow> \<forall>x\<in>set xs. 0 \<le> x \<Longrightarrow> a \<le> foldl fadd a xs"
proof (induction xs arbitrary: a)
  case Nil
  then show ?case by simp
next
  case (Cons x xs)
  then have "a \<le> fadd a x" "fadd a x \<le> foldl fadd (fadd a x) xs"
    by (auto intro: fadd_ge_left)
  then show ?case by simp
qed

lemma loop_sum_nonneg [float_mono]: "\<forall>x\<in>set xs. 0 \<le> x \<Longrightarrow> 0 \<le> loop_sum xs"
  unfolding loop_sum_def by (rule foldl_fadd_ge) auto

lemma foldl_fadd_mono:
  "a \<le> b \<Longrightarrow> list_all2 (\<le>) xs ys \<Longrightarrow> foldl fadd a xs \<le> foldl fadd b ys"
proof (induction xs arbitrary: a b ys)
  case Nil
  then show ?case by simp
next
  case (Cons x xs)
  then obtain y ys' where "ys = y # ys'" "x \<le> y" "list_all2 (\<le>) xs ys'"
    by (auto simp: list_all2_Cons1)
  with Cons show ?case by (simp add: fadd_mono)
qed

lemma loop_sum_mono [float_mono]: "list_all2 (\<le>) xs ys \<Longrightarrow> loop_sum xs \<le> loop_sum ys"
  unfolding loop_sum_def by (intro foldl_fadd_mono) auto

lemma loop_sum_zeros: "\<forall>x\<in>set xs. x = 0 \<Longrightarrow> loop_sum xs = 0"
proof -
  have "\<forall>x\<in>set xs. x = 0 \<Longrightarrow> foldl fadd 0 xs = 0" for xs :: "f64 list"
    by (induction xs) auto
  then show "\<forall>x\<in>set xs. x = 0 \<Longrightarrow> loop_sum xs = 0" by (simp add: loop_sum_def)
qed

section \<open>Error of rounding, and rounding twice\<close>

lemma rnd_near:
  assumes "x \<noteq> 0"
  shows "\<bar>rnd x - x\<bar> \<le> two_pow (ulp_exp x) / 2"
proof -
  let ?u = "two_pow (ulp_exp x)"
  have "rnd x - x = (of_int (round_half_even (x / ?u)) - x / ?u) * ?u"
    using assms by (simp add: rnd_def left_diff_distrib)
  then have "\<bar>rnd x - x\<bar> = \<bar>of_int (round_half_even (x / ?u)) - x / ?u\<bar> * ?u"
    by (simp add: abs_mult abs_of_pos)
  also have "\<dots> \<le> 1 / 2 * ?u"
    by (intro mult_right_mono round_half_even_near) (simp add: less_imp_le)
  finally show ?thesis by simp
qed

lemma rnd_rel_error:
  assumes "two_pow (- 1022) \<le> \<bar>x\<bar>"
  shows "\<bar>rnd x - x\<bar> \<le> \<bar>x\<bar> * two_pow (- 53)"
proof -
  have pos: "0 < \<bar>x\<bar>" using assms two_pow_pos [of "- 1022"] by linarith
  have "two_pow (- 1022) < two_pow (flog2 \<bar>x\<bar> + 1)"
    using assms flog2_bounds(2) [OF pos] by linarith
  then have "ulp_exp x = flog2 \<bar>x\<bar> - 52" by (simp add: ulp_exp_def)
  then have e: "ulp_exp x = flog2 \<bar>x\<bar> + - 53 + 1" by simp
  have "two_pow 1 = 2" by (simp add: two_pow_def)
  then have "two_pow (ulp_exp x) / 2 = two_pow (flog2 \<bar>x\<bar>) * two_pow (- 53)"
    unfolding e two_pow_add by simp
  also have "\<dots> \<le> \<bar>x\<bar> * two_pow (- 53)"
    by (intro mult_right_mono flog2_bounds pos) (simp add: less_imp_le)
  finally show ?thesis using rnd_near [of x] pos by auto
qed

lemma round_half_even_close:
  assumes "\<bar>x - of_int n\<bar> < 1 / 2"
  shows "round_half_even x = n"
proof -
  have "\<bar>of_int (round_half_even x) - x\<bar> \<le> 1 / 2" by (rule round_half_even_near)
  with assms have "\<bar>of_int (round_half_even x) - (of_int n :: rat)\<bar> < 1" by linarith
  then have "\<bar>round_half_even x - n\<bar> < 1"
    by (metis of_int_1 of_int_abs of_int_diff of_int_less_iff)
  then show ?thesis by linarith
qed

lemma py_round6_of_sixth:
  assumes "\<bar>n\<bar> \<le> 2 ^ 50"
  shows "py_round6 (rnd (of_int n / 10 ^ 6)) = rnd (of_int n / 10 ^ 6)"
proof (cases "n = 0")
  case True
  then show ?thesis by simp
next
  case False
  let ?x = "of_int n / 10 ^ 6 :: rat"
  have "1 \<le> \<bar>n\<bar>" using False by simp
  then have "(1 :: rat) \<le> \<bar>of_int n\<bar>" by (metis of_int_1_le_iff of_int_abs)
  then have x: "1 / 10 ^ 6 \<le> \<bar>?x\<bar>" by (simp add: abs_divide divide_right_mono)
  have "two_pow (- 1022) \<le> two_pow (- 20)" by simp
  also have "\<dots> \<le> 1 / 10 ^ 6" by (simp add: two_pow_def)
  finally have "\<bar>rnd ?x - ?x\<bar> \<le> \<bar>?x\<bar> * two_pow (- 53)"
    using x by (intro rnd_rel_error) linarith
  then have "\<bar>rnd ?x - ?x\<bar> * 10 ^ 6 \<le> \<bar>?x\<bar> * two_pow (- 53) * 10 ^ 6"
    by (rule mult_right_mono) simp
  moreover have "\<bar>rnd ?x * 10 ^ 6 - of_int n\<bar> = \<bar>rnd ?x - ?x\<bar> * 10 ^ 6"
    using abs_mult [of "rnd ?x - ?x" "10 ^ 6"] by (simp add: left_diff_distrib)
  moreover have "\<bar>?x\<bar> * two_pow (- 53) * 10 ^ 6 = \<bar>of_int n\<bar> * two_pow (- 53)"
    by (simp add: abs_divide)
  moreover have "(of_int \<bar>n\<bar> :: rat) \<le> of_int (2 ^ 50)"
    using assms by (simp only: of_int_le_iff)
  then have "of_int \<bar>n\<bar> * two_pow (- 53) \<le> of_int (2 ^ 50) * two_pow (- 53)"
    by (rule mult_right_mono) (simp add: less_imp_le)
  then have "\<bar>of_int n\<bar> * two_pow (- 53) \<le> of_int (2 ^ 50) * two_pow (- 53)"
    by (simp only: of_int_abs)
  moreover have "of_int (2 ^ 50) * two_pow (- 53) = (1 / 8 :: rat)"
    by (simp add: two_pow_def)
  ultimately have "\<bar>rnd ?x * 10 ^ 6 - of_int n\<bar> < 1 / 2" by linarith
  then show ?thesis by (simp add: py_round6_def round_half_even_close)
qed

lemma py_round6_idem:
  assumes "\<bar>x\<bar> \<le> 2 ^ 29"
  shows "py_round6 (py_round6 x) = py_round6 x"
proof -
  let ?n = "round_half_even (x * 10 ^ 6)"
  have "\<bar>of_int ?n - x * 10 ^ 6\<bar> \<le> 1 / 2" by (rule round_half_even_near)
  moreover have "\<bar>x * 10 ^ 6\<bar> \<le> 2 ^ 29 * 10 ^ 6" using assms by (simp add: abs_mult)
  ultimately have "\<bar>of_int ?n\<bar> \<le> (2 ^ 50 :: rat)" unfolding abs_le_iff by simp
  then have "of_int \<bar>?n\<bar> \<le> (of_int (2 ^ 50) :: rat)" by simp
  then have "\<bar>?n\<bar> \<le> 2 ^ 50" by (simp only: of_int_le_iff)
  then show ?thesis unfolding py_round6_def [of x] by (rule py_round6_of_sixth)
qed

section \<open>Printing with six decimals\<close>

fun decimal_digits :: "nat \<Rightarrow> nat \<Rightarrow> string" where
  "decimal_digits 0 n = []"
| "decimal_digits (Suc w) n = decimal_digits w (n div 10) @ [char_of (48 + n mod 10)]"

text \<open>\<open>f"{x:.6f}"\<close>\<close>

definition format_6f :: "f64 \<Rightarrow> string" where
  "format_6f x = (let n = round_half_even (\<bar>x\<bar> * 10 ^ 6) in
     (if x < 0 then ''-'' else []) @ digits_of (nat (n div 10 ^ 6)) @ ''.'' @
     decimal_digits 6 (nat (n mod 10 ^ 6)))"

section \<open>Reading a text\<close>

text \<open>What \<open>float(text)\<close> gives: a \<open>ValueError\<close>, an infinity or NaN, or a finite number.\<close>

datatype float_reading = NotAFloat | NotFiniteFloat | FiniteFloat f64

type_synonym parse_float = "string \<Rightarrow> float_reading"

end
