(* ===== verification/Paging.thy ===== *)
theory Paging
  imports Main Prelude
begin

text \<open>
  Cursor paging, as the interface between the service that hands out pages and the store that
  reads them.  The provider reads at most one row more than a page after the cursor's key; the
  client keeps a page, takes the extra row as the sign that more follow, and continues from the
  key of the last row it kept.  The client's lemma is that following the cursors from the
  start returns every row once, in order, and ends.
\<close>

definition after_cursor :: "('r \<Rightarrow> 'k::linorder) \<Rightarrow> 'k option \<Rightarrow> 'r list \<Rightarrow> 'r list" where
  "after_cursor key after rows =
     filter (\<lambda>r. case after of None \<Rightarrow> True | Some k \<Rightarrow> k < key r) rows"

text \<open>One page: the rows kept and the cursor of the next page.\<close>

definition page_of :: "('r \<Rightarrow> 'k) \<Rightarrow> nat \<Rightarrow> 'r list \<Rightarrow> 'r list \<times> 'k option" where
  "page_of key limit rows =
     (let kept = take limit rows in
      (kept, if limit < length rows \<and> kept \<noteq> [] then Some (key (last kept)) else None))"

text \<open>Following the cursors for at most \<open>fuel\<close> pages; \<open>None\<close> is an unfinished walk.\<close>

fun walk_pages :: "nat \<Rightarrow> ('k option \<Rightarrow> 'r list \<times> 'k option) \<Rightarrow> 'k option \<Rightarrow> 'r list option" where
  "walk_pages 0 step after = None"
| "walk_pages (Suc fuel) step after =
     (case step after of
        (rows, None) \<Rightarrow> Some rows
      | (rows, Some k) \<Rightarrow> map_option (append rows) (walk_pages fuel step (Some k)))"

lemma strict_sorted_drop:
  fixes key :: "'r \<Rightarrow> 'k::linorder"
  assumes s: "sorted_wrt (<) (map key rows)" and n: "0 < n" "n \<le> length rows"
  shows "filter (\<lambda>r. key (rows ! (n - 1)) < key r) rows = drop n rows"
proof -
  let ?k = "key (rows ! (n - 1))"
  have less: "key (rows ! i) < key (rows ! j)" if "i < j" "j < length rows" for i j
    using s that by (simp add: sorted_wrt_iff_nth_less)
  have "\<not> ?k < key r" if r: "r \<in> set (take n rows)" for r
  proof -
    from r obtain i where i: "i < n" "i < length rows" "r = rows ! i"
      by (auto simp: in_set_conv_nth)
    show ?thesis
    proof (cases "i = n - 1")
      case True
      then show ?thesis using i by simp
    next
      case False
      then have "key (rows ! i) < ?k" using i n by (intro less) simp_all
      then show ?thesis using i(3) by (simp add: less_imp_le leD)
    qed
  qed
  then have 1: "filter (\<lambda>r. ?k < key r) (take n rows) = []"
    by (simp only: filter_empty_conv) blast
  have "?k < key r" if r: "r \<in> set (drop n rows)" for r
  proof -
    from r obtain i where i: "n + i < length rows" "r = rows ! (n + i)"
      unfolding in_set_conv_nth by (metis add.commute length_drop less_diff_conv n(2) nth_drop)
    have "?k < key (rows ! (n + i))" using i n by (intro less) simp_all
    with i(2) show ?thesis by simp
  qed
  then have 2: "filter (\<lambda>r. ?k < key r) (drop n rows) = drop n rows"
    by (simp only: filter_id_conv) blast
  have "filter (\<lambda>r. ?k < key r) (take n rows @ drop n rows) = drop n rows"
    by (simp only: filter_append 1 2 append_Nil)
  then show ?thesis by simp
qed

locale paged_listing =
  fixes page :: "'db \<Rightarrow> 'k::linorder option \<Rightarrow> nat \<Rightarrow> 'r list option"
    and valid :: "'db \<Rightarrow> bool" and listing :: "'db \<Rightarrow> 'r list" and key :: "'r \<Rightarrow> 'k"
  assumes page_eq: "valid db \<Longrightarrow>
      page db after limit = Some (take (limit + 1) (after_cursor key after (listing db)))"
    and listing_sorted: "valid db \<Longrightarrow> sorted_wrt (<) (map key (listing db))"
begin

definition page_step :: "'db \<Rightarrow> nat \<Rightarrow> 'k option \<Rightarrow> 'r list \<times> 'k option" where
  "page_step db limit after =
     (case page db after limit of None \<Rightarrow> ([], None) | Some rows \<Rightarrow> page_of key limit rows)"

lemma page_step_drop:
  assumes v: "valid db" and l: "0 < limit" and n: "n \<le> length (listing db)"
    and a: "after_cursor key after (listing db) = drop n (listing db)"
  shows "page_step db limit after =
     (take limit (drop n (listing db)),
      if limit < length (listing db) - n then Some (key (listing db ! (n + limit - 1))) else None)"
proof -
  let ?rest = "drop n (listing db)"
  have p: "page_step db limit after = page_of key limit (take (limit + 1) ?rest)"
    by (simp add: page_step_def page_eq [OF v] a)
  have t: "take limit (take (limit + 1) ?rest) = take limit ?rest" by simp
  show ?thesis
  proof (cases "limit < length (listing db) - n")
    case True
    then have "take limit ?rest \<noteq> []" using l by auto
    moreover have "last (take limit ?rest) = listing db ! (n + limit - 1)"
      using calculation True l by (subst last_conv_nth) auto
    moreover have "limit < length (take (limit + 1) ?rest)" using True by simp
    ultimately show ?thesis using True by (simp only: p page_of_def Let_def t if_True simp_thms)
  next
    case False
    then have "\<not> limit < length (take (limit + 1) ?rest)" by simp
    then show ?thesis using False by (simp only: p page_of_def Let_def t if_False simp_thms)
  qed
qed

lemma walk_from:
  assumes v: "valid db" and l: "0 < limit"
  shows "n \<le> length (listing db) \<Longrightarrow> after_cursor key after (listing db) = drop n (listing db) \<Longrightarrow>
     length (listing db) - n \<le> fuel * limit \<Longrightarrow> 0 < fuel \<Longrightarrow>
     walk_pages fuel (page_step db limit) after = Some (drop n (listing db))"
proof (induction fuel arbitrary: n after)
  case 0
  then show ?case by simp
next
  case (Suc fuel)
  let ?rows = "listing db"
  note step = page_step_drop [OF v l Suc.prems(1,2)]
  show ?case
  proof (cases "limit < length ?rows - n")
    case False
    then show ?thesis by (simp add: step)
  next
    case True
    let ?m = "n + limit"
    have m: "?m \<le> length ?rows" "0 < ?m" using True l by auto
    have cursor: "after_cursor key (Some (key (?rows ! (?m - 1)))) ?rows = drop ?m ?rows"
      using strict_sorted_drop [OF listing_sorted [OF v] m(2,1)] by (simp add: after_cursor_def)
    have fuel: "length ?rows - ?m \<le> fuel * limit" "0 < fuel"
      using Suc.prems(3) True by (auto intro: gr0I)
    have "walk_pages fuel (page_step db limit) (Some (key (?rows ! (?m - 1)))) = Some (drop ?m ?rows)"
      by (rule Suc.IH [OF m(1) cursor fuel])
    moreover have "take limit (drop n ?rows) @ drop ?m ?rows = drop n ?rows"
      by (metis append_take_drop_id drop_drop add.commute)
    ultimately show ?thesis using True by (simp add: step)
  qed
qed

lemma walk_complete:
  assumes "valid db" "0 < limit" "length (listing db) \<le> fuel * limit" "0 < fuel"
  shows "walk_pages fuel (page_step db limit) None = Some (listing db)"
  using walk_from [OF assms(1,2), of 0 None] assms(3,4) by (simp add: after_cursor_def)

end

end
