(* ===== verification/JobStore.thy ===== *)
theory JobStore
  imports Main "HOL-Library.Product_Lexorder" Prelude Dates Float64 Paging
begin

text \<open>
  The durable scenario-job store (scenario_jobs/store.py over the tables of db/models.py).
  The database is the list of job rows and the list of contribution rows; every method of
  the store is one transaction, a function from the database to a result and the database it
  commits.  A raised error commits nothing.  \<open>uuid4()\<close> values are arguments.  Rows that
  another open transaction holds are the argument \<open>locked\<close>: \<open>SKIP LOCKED\<close> passes over them.
  A row and the record returned to callers have the same fields and are one record;
  timestamps are instants, so the adapter's restoration of a missing zone is the identity.
\<close>

section \<open>Rows\<close>

datatype job_status = Queued | Running | Succeeded | Failed

record job =
  jb_job_id :: string
  jb_tenant_id :: string
  jb_idempotency_key :: string
  jb_request_fingerprint :: string
  jb_scenario_pack_id :: string
  jb_scenario_pack_revision :: string
  jb_immutable_request_json :: string
  jb_status :: job_status
  jb_actor_id :: "string option"
  jb_correlation_id :: "string option"
  jb_claim_token :: "string option"
  jb_lease_expires_at :: "instant option"
  jb_attempt_count :: nat
  jb_failure_code :: "string option"
  jb_failure_detail :: "string option"
  jb_result_json :: "string option"
  jb_completed_at :: "instant option"
  jb_submitted_at :: instant
  jb_expires_at :: instant

record contribution =
  cr_job_id :: string
  cr_scenario_id :: string
  cr_ordinal :: nat
  cr_security_id :: string
  cr_display_name :: "string option"
  cr_bucket :: string
  cr_weight :: f64
  cr_shock_pct :: f64
  cr_contribution_loss_pct :: f64

record job_db =
  db_jobs :: "job list"
  db_contributions :: "contribution list"

text \<open>
  The declared widths of the string columns, which PostgreSQL enforces on insertion
  (\<open>DataError\<close>); claim tokens are \<open>uuid4()\<close> texts and always fit theirs.
\<close>

definition fits :: "nat \<Rightarrow> string \<Rightarrow> bool" where
  "fits n s \<longleftrightarrow> length s \<le> n"

definition fits_opt :: "nat \<Rightarrow> string option \<Rightarrow> bool" where
  "fits_opt n v = (case v of None \<Rightarrow> True | Some s \<Rightarrow> fits n s)"

definition job_columns_fit :: "job \<Rightarrow> bool" where
  "job_columns_fit j \<longleftrightarrow>
     fits 36 (jb_job_id j) \<and> fits 128 (jb_tenant_id j) \<and> fits 128 (jb_idempotency_key j) \<and>
     fits 71 (jb_request_fingerprint j) \<and> fits 128 (jb_scenario_pack_id j) \<and>
     fits 71 (jb_scenario_pack_revision j) \<and> fits_opt 256 (jb_actor_id j) \<and>
     fits_opt 256 (jb_correlation_id j)"

definition contribution_columns_fit :: "contribution \<Rightarrow> bool" where
  "contribution_columns_fit c \<longleftrightarrow>
     fits 128 (cr_scenario_id c) \<and> fits 256 (cr_security_id c) \<and>
     fits_opt 512 (cr_display_name c) \<and> fits 128 (cr_bucket c)"

definition empty_db :: job_db where
  "empty_db = \<lparr>db_jobs = [], db_contributions = []\<rparr>"

definition find_job :: "job_db \<Rightarrow> string \<Rightarrow> job option" where
  "find_job db job_id = find (\<lambda>j. jb_job_id j = job_id) (db_jobs db)"

definition update_job :: "string \<Rightarrow> (job \<Rightarrow> job) \<Rightarrow> job_db \<Rightarrow> job_db" where
  "update_job job_id f db =
     db\<lparr>db_jobs := map (\<lambda>j. if jb_job_id j = job_id then f j else j) (db_jobs db)\<rparr>"

section \<open>Admission\<close>

record submission =
  sb_tenant_id :: string
  sb_idempotency_key :: string
  sb_request_fingerprint :: string
  sb_scenario_pack_id :: string
  sb_scenario_pack_revision :: string
  sb_immutable_request_json :: string
  sb_actor_id :: "string option"
  sb_correlation_id :: "string option"
  sb_submitted_at :: instant
  sb_expires_at :: instant

datatype submit_error = IdempotencyConflict | OutcomeNotVisible | ColumnTooLong

definition candidate_job :: "string \<Rightarrow> submission \<Rightarrow> job" where
  "candidate_job job_id s =
     \<lparr>jb_job_id = job_id, jb_tenant_id = sb_tenant_id s,
      jb_idempotency_key = sb_idempotency_key s,
      jb_request_fingerprint = sb_request_fingerprint s,
      jb_scenario_pack_id = sb_scenario_pack_id s,
      jb_scenario_pack_revision = sb_scenario_pack_revision s,
      jb_immutable_request_json = sb_immutable_request_json s,
      jb_status = Queued, jb_actor_id = sb_actor_id s, jb_correlation_id = sb_correlation_id s,
      jb_claim_token = None, jb_lease_expires_at = None, jb_attempt_count = 0,
      jb_failure_code = None, jb_failure_detail = None, jb_result_json = None,
      jb_completed_at = None, jb_submitted_at = sb_submitted_at s,
      jb_expires_at = sb_expires_at s\<rparr>"

text \<open>The primary key and the uniqueness of (tenant, key); \<open>None\<close> is \<open>IntegrityError\<close>.\<close>

definition same_key :: "string \<Rightarrow> string \<Rightarrow> job \<Rightarrow> bool" where
  "same_key tenant_id idempotency_key j \<longleftrightarrow>
     jb_tenant_id j = tenant_id \<and> jb_idempotency_key j = idempotency_key"

definition insert_job :: "job \<Rightarrow> job_db \<Rightarrow> job_db option" where
  "insert_job c db =
     (if \<exists>j\<in>set (db_jobs db). jb_job_id j = jb_job_id c \<or>
           same_key (jb_tenant_id c) (jb_idempotency_key c) j
      then None else Some (db\<lparr>db_jobs := db_jobs db @ [c]\<rparr>))"

definition get_by_key :: "job_db \<Rightarrow> string \<Rightarrow> string \<Rightarrow> job option" where
  "get_by_key db tenant_id idempotency_key = find (same_key tenant_id idempotency_key) (db_jobs db)"

definition submit :: "string \<Rightarrow> submission \<Rightarrow> job_db \<Rightarrow> (submit_error, job \<times> bool) result \<times> job_db" where
  "submit new_job_id s db =
     (let candidate = candidate_job new_job_id s in
      if \<not> job_columns_fit candidate then (Inl ColumnTooLong, db)
      else case insert_job candidate db of
        Some db' \<Rightarrow> (Inr (candidate, True), db')
      | None \<Rightarrow>
          (case get_by_key db (sb_tenant_id s) (sb_idempotency_key s) of
             None \<Rightarrow> (Inl OutcomeNotVisible, db)
           | Some existing \<Rightarrow>
               if jb_request_fingerprint existing \<noteq> sb_request_fingerprint s
               then (Inl IdempotencyConflict, db) else (Inr (existing, False), db)))"

definition get_for_tenant :: "job_db \<Rightarrow> string \<Rightarrow> string \<Rightarrow> job option" where
  "get_for_tenant db tenant_id job_id =
     find (\<lambda>j. jb_tenant_id j = tenant_id \<and> jb_job_id j = job_id) (db_jobs db)"

section \<open>Claims\<close>

datatype store_value_error =
  LeaseNotAfterClaim | ForeignContribution | ContributionRejected | LimitNotPositive

definition claim_candidate :: "instant \<Rightarrow> job \<Rightarrow> bool" where
  "claim_candidate now j \<longleftrightarrow>
     (jb_status j = Queued \<or>
      (jb_status j = Running \<and> (case jb_lease_expires_at j of None \<Rightarrow> False | Some l \<Rightarrow> l \<le> now))) \<and>
     now < jb_expires_at j"

definition claim_order :: "job \<Rightarrow> instant \<times> string" where
  "claim_order j = (jb_submitted_at j, jb_job_id j)"

definition mark_claimed :: "string \<Rightarrow> instant \<Rightarrow> job \<Rightarrow> job" where
  "mark_claimed token lease j =
     j\<lparr>jb_status := Running, jb_claim_token := Some token, jb_lease_expires_at := Some lease,
       jb_attempt_count := jb_attempt_count j + 1, jb_failure_code := None,
       jb_failure_detail := None\<rparr>"

definition claim_next ::
  "instant \<Rightarrow> instant \<Rightarrow> string \<Rightarrow> string list \<Rightarrow> job_db \<Rightarrow>
     (store_value_error, job option) result \<times> job_db"
where
  "claim_next now lease_expires_at new_token locked db =
     (if lease_expires_at \<le> now then (Inl LeaseNotAfterClaim, db)
      else case sort_key claim_order
          (filter (\<lambda>j. claim_candidate now j \<and> jb_job_id j \<notin> set locked) (db_jobs db)) of
        [] \<Rightarrow> (Inr None, db)
      | j # _ \<Rightarrow>
          (Inr (Some (mark_claimed new_token lease_expires_at j)),
           update_job (jb_job_id j) (mark_claimed new_token lease_expires_at) db))"

definition holds_claim :: "string \<Rightarrow> job \<Rightarrow> bool" where
  "holds_claim token j \<longleftrightarrow> jb_status j = Running \<and> jb_claim_token j = Some token"

definition mark_failed :: "string \<Rightarrow> string \<Rightarrow> instant \<Rightarrow> job \<Rightarrow> job" where
  "mark_failed code detail failed_at j =
     j\<lparr>jb_status := Failed, jb_lease_expires_at := Some failed_at,
       jb_completed_at := Some failed_at, jb_failure_code := Some code,
       jb_failure_detail := Some detail\<rparr>"

definition fail_claim ::
  "string \<Rightarrow> string \<Rightarrow> string \<Rightarrow> string \<Rightarrow> instant \<Rightarrow> job_db \<Rightarrow> bool \<times> job_db"
where
  "fail_claim job_id token code detail failed_at db =
     (case find_job db job_id of
        None \<Rightarrow> (False, db)
      | Some j \<Rightarrow>
          if \<not> holds_claim token j then (False, db)
          else (True, update_job job_id (mark_failed code detail failed_at) db))"

definition contribution_pk :: "contribution \<Rightarrow> string \<times> string \<times> nat" where
  "contribution_pk c = (cr_job_id c, cr_scenario_id c, cr_ordinal c)"

definition add_contributions :: "contribution list \<Rightarrow> job_db \<Rightarrow> job_db option" where
  "add_contributions rows db =
     (let all = db_contributions db @ rows in
      if distinct (map contribution_pk all) \<and> list_all contribution_columns_fit rows
      then Some (db\<lparr>db_contributions := all\<rparr>) else None)"

definition mark_succeeded :: "string \<Rightarrow> instant \<Rightarrow> job \<Rightarrow> job" where
  "mark_succeeded result_json completed_at j =
     j\<lparr>jb_status := Succeeded, jb_result_json := Some result_json,
       jb_completed_at := Some completed_at, jb_lease_expires_at := Some completed_at,
       jb_failure_code := None, jb_failure_detail := None\<rparr>"

definition complete_claim ::
  "string \<Rightarrow> string \<Rightarrow> string \<Rightarrow> contribution list \<Rightarrow> instant \<Rightarrow> job_db \<Rightarrow>
     (store_value_error, bool) result \<times> job_db"
where
  "complete_claim job_id token result_json rows completed_at db =
     (case find_job db job_id of
        None \<Rightarrow> (Inr False, db)
      | Some j \<Rightarrow>
          if \<not> holds_claim token j then (Inr False, db)
          else if \<exists>c\<in>set rows. cr_job_id c \<noteq> job_id then (Inl ForeignContribution, db)
          else case add_contributions rows db of
            None \<Rightarrow> (Inl ContributionRejected, db)
          | Some db' \<Rightarrow>
              (Inr True, update_job job_id (mark_succeeded result_json completed_at) db'))"

section \<open>Reads and retention\<close>

definition page_order :: "contribution \<Rightarrow> string \<times> nat" where
  "page_order c = (cr_scenario_id c, cr_ordinal c)"

text \<open>The contributions after a cursor, in page order.\<close>

definition rows_after :: "(string \<times> nat) option \<Rightarrow> contribution list \<Rightarrow> contribution list" where
  "rows_after after rows =
     sort_key page_order (filter (\<lambda>c. case after of None \<Rightarrow> True
       | Some (scenario_id, ordinal) \<Rightarrow>
           scenario_id < cr_scenario_id c \<or>
           (cr_scenario_id c = scenario_id \<and> ordinal < cr_ordinal c)) rows)"

definition contribution_page ::
  "job_db \<Rightarrow> string \<Rightarrow> string \<Rightarrow> (string \<times> nat) option \<Rightarrow> nat \<Rightarrow> contribution list option"
where
  "contribution_page db tenant_id job_id after limit =
     (case get_for_tenant db tenant_id job_id of
        None \<Rightarrow> None
      | Some j \<Rightarrow>
          if jb_status j \<noteq> Succeeded then None
          else Some (take (limit + 1)
            (rows_after after (filter (\<lambda>c. cr_job_id c = job_id) (db_contributions db)))))"

definition expiry_order :: "job \<Rightarrow> instant \<times> string" where
  "expiry_order j = (jb_expires_at j, jb_job_id j)"

definition delete_expired ::
  "instant \<Rightarrow> int \<Rightarrow> string list \<Rightarrow> job_db \<Rightarrow> (store_value_error, nat) result \<times> job_db"
where
  "delete_expired now limit locked db =
     (if limit \<le> 0 then (Inl LimitNotPositive, db)
      else let job_ids = map jb_job_id (take (nat limit) (sort_key expiry_order
             (filter (\<lambda>j. jb_expires_at j \<le> now \<and> jb_job_id j \<notin> set locked) (db_jobs db))))
        in if job_ids = [] then (Inr 0, db)
           else (Inr (length job_ids),
             \<lparr>db_jobs = filter (\<lambda>j. jb_job_id j \<notin> set job_ids) (db_jobs db),
              db_contributions =
                filter (\<lambda>c. cr_job_id c \<notin> set job_ids) (db_contributions db)\<rparr>))"

section \<open>Lookups and updates\<close>

lemma find_job_SomeD: "find_job db i = Some j \<Longrightarrow> j \<in> set (db_jobs db) \<and> jb_job_id j = i"
  by (auto simp: find_job_def find_Some_iff)

lemma find_job_None_iff: "find_job db i = None \<longleftrightarrow> i \<notin> jb_job_id ` set (db_jobs db)"
  by (auto simp: find_job_def find_None_iff)

lemma find_distinct:
  "distinct (map f xs) \<Longrightarrow> x \<in> set xs \<Longrightarrow> find (\<lambda>y. f y = f x) xs = Some x"
  by (induction xs) (auto intro: rev_image_eqI)

lemma find_job_member:
  "distinct (map jb_job_id (db_jobs db)) \<Longrightarrow> j \<in> set (db_jobs db) \<Longrightarrow>
     find_job db (jb_job_id j) = Some j"
  by (simp add: find_job_def find_distinct)

text \<open>The columns no transaction writes after admission.\<close>

definition same_input :: "job \<Rightarrow> job \<Rightarrow> bool" where
  "same_input j k \<longleftrightarrow>
     jb_job_id j = jb_job_id k \<and> jb_tenant_id j = jb_tenant_id k \<and>
     jb_idempotency_key j = jb_idempotency_key k \<and>
     jb_request_fingerprint j = jb_request_fingerprint k \<and>
     jb_scenario_pack_id j = jb_scenario_pack_id k \<and>
     jb_scenario_pack_revision j = jb_scenario_pack_revision k \<and>
     jb_immutable_request_json j = jb_immutable_request_json k \<and>
     jb_actor_id j = jb_actor_id k \<and> jb_correlation_id j = jb_correlation_id k \<and>
     jb_submitted_at j = jb_submitted_at k \<and> jb_expires_at j = jb_expires_at k"

definition keeps_input :: "(job \<Rightarrow> job) \<Rightarrow> bool" where
  "keeps_input f \<longleftrightarrow> (\<forall>j. same_input j (f j))"

lemma same_input_refl [simp]: "same_input j j"
  by (simp add: same_input_def)

lemma same_input_trans [trans]: "same_input i j \<Longrightarrow> same_input j k \<Longrightarrow> same_input i k"
  by (simp add: same_input_def)

lemma keeps_input_marks [simp]:
  "keeps_input (mark_claimed token lease)" "keeps_input (mark_failed code detail ts)"
  "keeps_input (mark_succeeded res ts)"
  by (simp_all add: keeps_input_def same_input_def mark_claimed_def mark_failed_def
      mark_succeeded_def)

lemma keeps_input_columns:
  assumes "keeps_input f"
  shows "jb_job_id (f j) = jb_job_id j" "jb_tenant_id (f j) = jb_tenant_id j"
    "jb_idempotency_key (f j) = jb_idempotency_key j"
  using assms by (auto simp: keeps_input_def same_input_def)

lemma update_job_columns:
  assumes "keeps_input f"
  shows "map jb_job_id (db_jobs (update_job i f db)) = map jb_job_id (db_jobs db)"
    "map (\<lambda>j. (jb_tenant_id j, jb_idempotency_key j)) (db_jobs (update_job i f db)) =
     map (\<lambda>j. (jb_tenant_id j, jb_idempotency_key j)) (db_jobs db)"
  using assms by (auto simp: update_job_def keeps_input_columns)

lemma update_job_contributions [simp]:
  "db_contributions (update_job i f db) = db_contributions db"
  by (simp add: update_job_def)

lemma set_update_job:
  "set (db_jobs (update_job i f db)) =
     (\<lambda>j. if jb_job_id j = i then f j else j) ` set (db_jobs db)"
  by (simp add: update_job_def)

lemma find_update_job:
  assumes "keeps_input f"
  shows "find_job (update_job i f db) k =
     (if k = i then map_option f (find_job db k) else find_job db k)"
proof -
  have "find (\<lambda>j. jb_job_id j = k) (map (\<lambda>j. if jb_job_id j = i then f j else j) js) =
      (if k = i then map_option f (find (\<lambda>j. jb_job_id j = k) js)
       else find (\<lambda>j. jb_job_id j = k) js)" for js
    by (induction js) (auto simp: keeps_input_columns [OF assms])
  then show ?thesis by (simp add: find_job_def update_job_def)
qed

lemma find_append_job:
  "find_job (db\<lparr>db_jobs := db_jobs db @ [c]\<rparr>) i =
     (case find_job db i of Some j \<Rightarrow> Some j
      | None \<Rightarrow> if jb_job_id c = i then Some c else None)"
proof -
  have "find P (xs @ [c]) = (case find P xs of Some e \<Rightarrow> Some e | None \<Rightarrow> if P c then Some c else None)"
    for P and xs :: "job list" by (induction xs) auto
  then show ?thesis by (simp add: find_job_def)
qed

section \<open>The store's invariant\<close>

text \<open>Which columns are set in which state.\<close>

definition job_ok :: "job \<Rightarrow> bool" where
  "job_ok j = (case jb_status j of
     Queued \<Rightarrow> jb_claim_token j = None \<and> jb_lease_expires_at j = None \<and> jb_attempt_count j = 0 \<and>
       jb_failure_code j = None \<and> jb_failure_detail j = None \<and> jb_result_json j = None \<and>
       jb_completed_at j = None
   | Running \<Rightarrow> jb_claim_token j \<noteq> None \<and> jb_lease_expires_at j \<noteq> None \<and>
       0 < jb_attempt_count j \<and> jb_failure_code j = None \<and> jb_failure_detail j = None \<and>
       jb_result_json j = None \<and> jb_completed_at j = None
   | Succeeded \<Rightarrow> jb_claim_token j \<noteq> None \<and> 0 < jb_attempt_count j \<and> jb_failure_code j = None \<and>
       jb_failure_detail j = None \<and> jb_result_json j \<noteq> None \<and> jb_completed_at j \<noteq> None \<and>
       jb_lease_expires_at j = jb_completed_at j
   | Failed \<Rightarrow> jb_claim_token j \<noteq> None \<and> 0 < jb_attempt_count j \<and> jb_failure_code j \<noteq> None \<and>
       jb_failure_detail j \<noteq> None \<and> jb_result_json j = None \<and> jb_completed_at j \<noteq> None \<and>
       jb_lease_expires_at j = jb_completed_at j)"

definition succeeded_ids :: "job_db \<Rightarrow> string set" where
  "succeeded_ids db = jb_job_id ` {j \<in> set (db_jobs db). jb_status j = Succeeded}"

definition db_inv :: "job_db \<Rightarrow> bool" where
  "db_inv db \<longleftrightarrow>
     distinct (map jb_job_id (db_jobs db)) \<and>
     distinct (map (\<lambda>j. (jb_tenant_id j, jb_idempotency_key j)) (db_jobs db)) \<and>
     list_all job_ok (db_jobs db) \<and>
     distinct (map contribution_pk (db_contributions db)) \<and>
     cr_job_id ` set (db_contributions db) \<subseteq> succeeded_ids db"

lemma db_inv_empty [simp]: "db_inv empty_db"
  by (simp add: db_inv_def empty_db_def)

lemma db_inv_find: "db_inv db \<Longrightarrow> find_job db i = Some j \<Longrightarrow> job_ok j"
  by (auto simp: db_inv_def list_all_iff dest: find_job_SomeD)

lemma db_inv_distinct_ids: "db_inv db \<Longrightarrow> distinct (map jb_job_id (db_jobs db))"
  by (simp add: db_inv_def)

lemma succeeded_ids_find:
  "db_inv db \<Longrightarrow> i \<in> succeeded_ids db \<longleftrightarrow> (\<exists>j. find_job db i = Some j \<and> jb_status j = Succeeded)"
  by (auto simp: succeeded_ids_def db_inv_def find_job_member dest: find_job_SomeD)

lemma db_inv_update_job:
  assumes inv: "db_inv db" and f: "keeps_input f" and j: "find_job db i = Some j"
    and ok: "job_ok (f j)" and live: "jb_status j \<noteq> Succeeded"
  shows "db_inv (update_job i f db)" "succeeded_ids db \<subseteq> succeeded_ids (update_job i f db)"
proof -
  have only: "k = j" if "k \<in> set (db_jobs db)" "jb_job_id k = i" for k
    using that j find_job_member [OF db_inv_distinct_ids [OF inv]] by force
  show *: "succeeded_ids db \<subseteq> succeeded_ids (update_job i f db)"
  proof
    fix x assume "x \<in> succeeded_ids db"
    then obtain k where k: "k \<in> set (db_jobs db)" "jb_status k = Succeeded" "x = jb_job_id k"
      by (auto simp: succeeded_ids_def)
    with only live have "jb_job_id k \<noteq> i" by auto
    with k have "k \<in> set (db_jobs (update_job i f db))" by (force simp: set_update_job)
    with k show "x \<in> succeeded_ids (update_job i f db)" by (auto simp: succeeded_ids_def)
  qed
  have "list_all job_ok (db_jobs (update_job i f db))"
    using inv ok only by (auto simp: db_inv_def list_all_iff set_update_job)
  then show "db_inv (update_job i f db)"
    using inv * by (auto simp: db_inv_def update_job_columns [OF f])
qed

lemma db_inv_submit: "db_inv db \<Longrightarrow> db_inv (snd (submit i s db))"
  by (auto simp: submit_def insert_job_def same_key_def Let_def candidate_job_def db_inv_def
      job_ok_def succeeded_ids_def image_iff split: option.splits)

lemma job_ok_mark_claimed:
  "job_ok j \<Longrightarrow> claim_candidate now j \<Longrightarrow> job_ok (mark_claimed token lease j)"
  by (auto simp: job_ok_def mark_claimed_def claim_candidate_def split: job_status.splits)

lemma job_ok_mark_failed:
  "job_ok j \<Longrightarrow> holds_claim token j \<Longrightarrow> job_ok (mark_failed code detail ts j)"
  by (auto simp: job_ok_def mark_failed_def holds_claim_def)

lemma job_ok_mark_succeeded:
  "job_ok j \<Longrightarrow> holds_claim token j \<Longrightarrow> job_ok (mark_succeeded res ts j)"
  by (auto simp: job_ok_def mark_succeeded_def holds_claim_def)

lemma claim_next_cases:
  assumes inv: "db_inv db"
  obtains (invalid) "lease \<le> now" "claim_next now lease token locked db = (Inl LeaseNotAfterClaim, db)"
  | (none) "now < lease" "claim_next now lease token locked db = (Inr None, db)"
      "\<forall>j\<in>set (db_jobs db). claim_candidate now j \<longrightarrow> jb_job_id j \<in> set locked"
  | (claimed) j where "now < lease" "find_job db (jb_job_id j) = Some j" "claim_candidate now j"
      "jb_job_id j \<notin> set locked"
      "\<forall>k\<in>set (db_jobs db). claim_candidate now k \<and> jb_job_id k \<notin> set locked \<longrightarrow>
         claim_order j \<le> claim_order k"
      "claim_next now lease token locked db =
         (Inr (Some (mark_claimed token lease j)),
          update_job (jb_job_id j) (mark_claimed token lease) db)"
proof (cases "lease \<le> now")
  case True
  then show ?thesis by (intro invalid) (simp_all add: claim_next_def)
next
  case False
  let ?c = "filter (\<lambda>j. claim_candidate now j \<and> jb_job_id j \<notin> set locked) (db_jobs db)"
  show ?thesis
  proof (cases "sort_key claim_order ?c")
    case Nil
    then have "?c = []" by (metis set_empty set_sort)
    with False Nil show ?thesis
      by (intro none) (auto simp: claim_next_def filter_empty_conv)
  next
    case (Cons j js)
    from sort_key_Cons_least [OF this] have "j \<in> set ?c" "\<forall>k\<in>set ?c. claim_order j \<le> claim_order k"
      by auto
    with False Cons inv show ?thesis
      by (intro claimed [of j]) (auto simp: claim_next_def find_job_member db_inv_distinct_ids)
  qed
qed

lemma db_inv_claim_next:
  assumes "db_inv db"
  shows "db_inv (snd (claim_next now lease token locked db))"
  using assms
proof (cases rule: claim_next_cases [of db lease now token locked])
  case (claimed j)
  moreover have "jb_status j \<noteq> Succeeded" using claimed by (auto simp: claim_candidate_def)
  ultimately show ?thesis
    using assms by (auto intro!: db_inv_update_job(1) job_ok_mark_claimed dest: db_inv_find)
qed (use assms in simp_all)

lemma db_inv_fail_claim: "db_inv db \<Longrightarrow> db_inv (snd (fail_claim i token code detail ts db))"
  by (auto simp: fail_claim_def holds_claim_def split: option.splits
      intro!: db_inv_update_job(1) job_ok_mark_failed dest: db_inv_find)

lemma add_contributions_SomeD:
  "add_contributions rows db = Some db' \<Longrightarrow>
     db' = db\<lparr>db_contributions := db_contributions db @ rows\<rparr> \<and>
     distinct (map contribution_pk (db_contributions db @ rows)) \<and>
     list_all contribution_columns_fit rows"
  by (auto simp: add_contributions_def Let_def split: if_splits)

lemma complete_claim_cases:
  obtains (missing) "find_job db i = None"
      "complete_claim i token res rows ts db = (Inr False, db)"
  | (fenced) j where "find_job db i = Some j" "\<not> holds_claim token j"
      "complete_claim i token res rows ts db = (Inr False, db)"
  | (foreign) j where "find_job db i = Some j" "holds_claim token j"
      "\<exists>c\<in>set rows. cr_job_id c \<noteq> i"
      "complete_claim i token res rows ts db = (Inl ForeignContribution, db)"
  | (rejected) j where "find_job db i = Some j" "holds_claim token j"
      "\<forall>c\<in>set rows. cr_job_id c = i"
      "\<not> (distinct (map contribution_pk (db_contributions db @ rows)) \<and>
          list_all contribution_columns_fit rows)"
      "complete_claim i token res rows ts db = (Inl ContributionRejected, db)"
  | (published) j where "find_job db i = Some j" "holds_claim token j"
      "\<forall>c\<in>set rows. cr_job_id c = i"
      "distinct (map contribution_pk (db_contributions db @ rows))"
      "list_all contribution_columns_fit rows"
      "complete_claim i token res rows ts db = (Inr True,
         update_job i (mark_succeeded res ts)
           (db\<lparr>db_contributions := db_contributions db @ rows\<rparr>))"
proof (cases "find_job db i")
  case None
  then show ?thesis by (intro missing) (simp_all add: complete_claim_def)
next
  case (Some j)
  consider "\<not> holds_claim token j" | "holds_claim token j" "\<exists>c\<in>set rows. cr_job_id c \<noteq> i"
    | "holds_claim token j" "\<forall>c\<in>set rows. cr_job_id c = i" by blast
  then show ?thesis
  proof cases
    case 1
    with Some show ?thesis by (intro fenced [of j]) (simp_all add: complete_claim_def)
  next
    case 2
    with Some show ?thesis by (intro foreign [of j]) (simp_all add: complete_claim_def)
  next
    case 3
    with Some show ?thesis
      by (cases "distinct (map contribution_pk (db_contributions db @ rows)) \<and>
            list_all contribution_columns_fit rows")
        (intro published [of j] rejected [of j];
          auto simp: complete_claim_def add_contributions_def Let_def)+
  qed
qed

lemma db_inv_complete_claim:
  assumes inv: "db_inv db"
  shows "db_inv (snd (complete_claim i token res rows ts db))"
proof (cases rule: complete_claim_cases [of db i token res rows ts])
  case (published j)
  let ?f = "mark_succeeded res ts" and ?db = "db\<lparr>db_contributions := db_contributions db @ rows\<rparr>"
  have live: "jb_status j \<noteq> Succeeded" using published by (simp add: holds_claim_def)
  have ok: "job_ok (?f j)"
    using inv published by (auto intro: job_ok_mark_succeeded dest: db_inv_find)
  note upd = db_inv_update_job [where f = ?f, OF inv _ published(1) ok live, simplified]
  have eq: "update_job i ?f ?db = (update_job i ?f db)\<lparr>db_contributions := db_contributions db @ rows\<rparr>"
    by (simp add: update_job_def)
  have "?f j \<in> set (db_jobs (update_job i ?f db))"
    using published(1) find_job_SomeD by (force simp: set_update_job)
  moreover have "jb_job_id (?f j) = i" "jb_status (?f j) = Succeeded"
    using published(1) by (auto simp: mark_succeeded_def dest: find_job_SomeD)
  ultimately have "i \<in> succeeded_ids (update_job i ?f db)" by (auto simp: succeeded_ids_def)
  moreover have "succeeded_ids (update_job i ?f ?db) = succeeded_ids (update_job i ?f db)"
    by (simp add: eq succeeded_ids_def)
  ultimately show ?thesis
    using upd published inv by (auto simp: db_inv_def eq)
qed (use inv in simp_all)

text \<open>Retention: the jobs \<open>ids\<close> and their contributions are removed together.\<close>

definition remove_jobs :: "string list \<Rightarrow> job_db \<Rightarrow> job_db" where
  "remove_jobs ids db =
     \<lparr>db_jobs = filter (\<lambda>j. jb_job_id j \<notin> set ids) (db_jobs db),
      db_contributions = filter (\<lambda>c. cr_job_id c \<notin> set ids) (db_contributions db)\<rparr>"

lemma distinct_map_filterI: "distinct (map f xs) \<Longrightarrow> distinct (map f (filter P xs))"
  by (induction xs) auto

lemma db_inv_remove_jobs:
  assumes "db_inv db"
  shows "db_inv (remove_jobs ids db)"
proof -
  have "cr_job_id ` set (db_contributions (remove_jobs ids db)) \<subseteq> succeeded_ids (remove_jobs ids db)"
  proof
    fix i assume "i \<in> cr_job_id ` set (db_contributions (remove_jobs ids db))"
    then have "i \<notin> set ids" "i \<in> succeeded_ids db"
      using assms by (auto simp: remove_jobs_def db_inv_def)
    then show "i \<in> succeeded_ids (remove_jobs ids db)"
      by (auto simp: succeeded_ids_def remove_jobs_def)
  qed
  with assms show ?thesis
    by (auto simp: db_inv_def list_all_iff distinct_map_filterI)
      (simp_all add: remove_jobs_def distinct_map_filterI)
qed

definition expired_batch :: "instant \<Rightarrow> int \<Rightarrow> string list \<Rightarrow> job_db \<Rightarrow> job list" where
  "expired_batch now limit locked db = take (nat limit) (sort_key expiry_order
     (filter (\<lambda>j. jb_expires_at j \<le> now \<and> jb_job_id j \<notin> set locked) (db_jobs db)))"

lemma remove_no_jobs [simp]: "remove_jobs [] db = db"
  by (simp add: remove_jobs_def)

lemma delete_expired_alt:
  "delete_expired now limit locked db =
     (if limit \<le> 0 then (Inl LimitNotPositive, db)
      else (Inr (length (expired_batch now limit locked db)),
            remove_jobs (map jb_job_id (expired_batch now limit locked db)) db))"
proof -
  have "delete_expired now limit locked db =
     (if limit \<le> 0 then (Inl LimitNotPositive, db)
      else let ids = map jb_job_id (expired_batch now limit locked db) in
        if ids = [] then (Inr 0, db) else (Inr (length ids), remove_jobs ids db))"
    by (simp only: delete_expired_def expired_batch_def remove_jobs_def)
  then show ?thesis by (auto simp: Let_def)
qed

lemma db_inv_delete_expired: "db_inv db \<Longrightarrow> db_inv (snd (delete_expired now limit locked db))"
  by (simp add: delete_expired_alt db_inv_remove_jobs)

section \<open>Properties of the store\<close>

lemma insert_job_None_iff:
  "insert_job c db = None \<longleftrightarrow>
     jb_job_id c \<in> jb_job_id ` set (db_jobs db) \<or>
     get_by_key db (jb_tenant_id c) (jb_idempotency_key c) \<noteq> None"
  by (auto simp: insert_job_def get_by_key_def find_None_iff intro: rev_image_eqI)

lemma submit_alt:
  "submit i s db = (if \<not> job_columns_fit (candidate_job i s) then (Inl ColumnTooLong, db)
     else case get_by_key db (sb_tenant_id s) (sb_idempotency_key s) of
       Some e \<Rightarrow> (if jb_request_fingerprint e = sb_request_fingerprint s
                  then Inr (e, False) else Inl IdempotencyConflict, db)
     | None \<Rightarrow> if i \<in> jb_job_id ` set (db_jobs db) then (Inl OutcomeNotVisible, db)
               else (Inr (candidate_job i s, True),
                     db\<lparr>db_jobs := db_jobs db @ [candidate_job i s]\<rparr>))"
proof (cases "insert_job (candidate_job i s) db")
  case None
  then show ?thesis
    using insert_job_None_iff [of "candidate_job i s" db]
    by (auto simp: submit_def Let_def candidate_job_def split: option.splits)
next
  case (Some db')
  then have "db' = db\<lparr>db_jobs := db_jobs db @ [candidate_job i s]\<rparr>"
    by (auto simp: insert_job_def split: if_splits)
  with Some show ?thesis
    using insert_job_None_iff [of "candidate_job i s" db]
    by (auto simp: submit_def Let_def candidate_job_def split: option.splits)
qed

lemma get_by_key_append:
  "get_by_key (db\<lparr>db_jobs := db_jobs db @ [j]\<rparr>) t k =
     (case get_by_key db t k of Some e \<Rightarrow> Some e
      | None \<Rightarrow> if same_key t k j then Some j else None)"
proof -
  have "find P (xs @ [j]) = (case find P xs of Some e \<Rightarrow> Some e | None \<Rightarrow> if P j then Some j else None)"
    for P and xs :: "job list" by (induction xs) auto
  then show ?thesis by (simp add: get_by_key_def)
qed

text \<open>
  Admission inserts first and looks the key up only after the database refuses the row;
  on every branch that is the same as looking the tenant's key up first: an existing job with
  the same fingerprint is replayed, one with another fingerprint is a conflict, and only a new
  key adds a row, which is queued and unclaimed.  Errors, a value wider than its column among
  them, and replays leave the database alone.
\<close>

theorem submit_is_lookup_first:
  "submit i s db = (if \<not> job_columns_fit (candidate_job i s) then (Inl ColumnTooLong, db)
     else case get_by_key db (sb_tenant_id s) (sb_idempotency_key s) of
       Some e \<Rightarrow> (if jb_request_fingerprint e = sb_request_fingerprint s
                  then Inr (e, False) else Inl IdempotencyConflict, db)
     | None \<Rightarrow> if i \<in> jb_job_id ` set (db_jobs db) then (Inl OutcomeNotVisible, db)
               else (Inr (candidate_job i s, True),
                     db\<lparr>db_jobs := db_jobs db @ [candidate_job i s]\<rparr>))"
  by (rule submit_alt)

text \<open>
  A submission that was answered with a job is answered with the same job, and without
  touching the database, whenever the tenant repeats the key and the fingerprint, whatever
  identity, timestamps or actor the repeated call carries.
\<close>

theorem replay_is_idempotent:
  assumes "submit i s db = (Inr (j, created), db')"
    and "sb_tenant_id s' = sb_tenant_id s" "sb_idempotency_key s' = sb_idempotency_key s"
      "sb_request_fingerprint s' = sb_request_fingerprint s"
    and "job_columns_fit (candidate_job i' s')"
  shows "submit i' s' db' = (Inr (j, False), db')"
  using assms
  by (auto simp: submit_alt get_by_key_append same_key_def candidate_job_def
      split: option.splits if_splits)

definition sample_submission :: submission where
  "sample_submission = \<lparr>sb_tenant_id = ''T1'', sb_idempotency_key = ''K1'',
     sb_request_fingerprint = ''F1'', sb_scenario_pack_id = ''GLOBAL_REGIME_RESILIENCE'',
     sb_scenario_pack_revision = ''R1'', sb_immutable_request_json = ''{}'', sb_actor_id = None,
     sb_correlation_id = None, sb_submitted_at = 0, sb_expires_at = 100\<rparr>"

definition sample_db :: job_db where
  "sample_db = snd (submit ''J2'' (sample_submission\<lparr>sb_idempotency_key := ''K2'', sb_submitted_at := 5\<rparr>)
     (snd (submit ''J1'' sample_submission empty_db)))"

lemmas sample_db_simps = job_columns_fit_def fits_def fits_opt_def sample_db_def sample_submission_def submit_alt candidate_job_def empty_db_def
  get_by_key_def same_key_def

lemma db_inv_sample_db: "db_inv sample_db"
  unfolding sample_db_def by (intro db_inv_submit db_inv_empty)

theorem replay_is_idempotent_witness:
  "submit ''J9'' (sample_submission\<lparr>sb_submitted_at := 7\<rparr>) (snd (submit ''J1'' sample_submission empty_db)) =
     (Inr (candidate_job ''J1'' sample_submission, False), snd (submit ''J1'' sample_submission empty_db))"
  by (rule replay_is_idempotent [where i = "''J1''" and s = sample_submission and db = empty_db
        and created = True]) (simp_all add: sample_db_simps)

text \<open>
  A claim is served from the claimable rows (queued, or running with an expired lease,
  and not past retention) that no other transaction holds, and it is the one first in
  submission order.  The claimed row carries the new token and lease and one more attempt;
  every other row is unchanged.
\<close>

theorem claim_next_serves_oldest:
  assumes "db_inv db" and "claim_next now lease token locked db = (Inr (Some j'), db')"
  shows "\<exists>j. find_job db (jb_job_id j') = Some j \<and> jb_job_id j \<notin> set locked \<and>
           (jb_status j = Queued \<or>
            jb_status j = Running \<and> (\<exists>l. jb_lease_expires_at j = Some l \<and> l \<le> now)) \<and>
           now < jb_expires_at j \<and>
           jb_status j' = Running \<and> jb_claim_token j' = Some token \<and>
           jb_lease_expires_at j' = Some lease \<and> jb_attempt_count j' = jb_attempt_count j + 1 \<and>
           same_input j j' \<and>
           (\<forall>k\<in>set (db_jobs db). claim_candidate now k \<and> jb_job_id k \<notin> set locked \<longrightarrow>
              jb_submitted_at j < jb_submitted_at k \<or>
              jb_submitted_at j = jb_submitted_at k \<and> jb_job_id j \<le> jb_job_id k) \<and>
           find_job db' (jb_job_id j') = Some j' \<and>
           (\<forall>i. i \<noteq> jb_job_id j' \<longrightarrow> find_job db' i = find_job db i)"
  using assms(1)
proof (cases rule: claim_next_cases [of db lease now token locked])
  case (claimed j)
  with assms(2) have j': "j' = mark_claimed token lease j"
    and db': "db' = update_job (jb_job_id j) (mark_claimed token lease) db" by auto
  then have id: "jb_job_id j' = jb_job_id j" by (simp add: keeps_input_columns)
  have marked: "jb_status j' = Running \<and> jb_claim_token j' = Some token \<and>
      jb_lease_expires_at j' = Some lease \<and> jb_attempt_count j' = jb_attempt_count j + 1 \<and> same_input j j'"
    by (simp add: j' mark_claimed_def same_input_def)
  have order: "jb_submitted_at j < jb_submitted_at k \<or>
      jb_submitted_at j = jb_submitted_at k \<and> jb_job_id j \<le> jb_job_id k"
    if "k \<in> set (db_jobs db)" "claim_candidate now k" "jb_job_id k \<notin> set locked" for k
    using claimed that by (auto simp: claim_order_def less_eq_prod_def)
  show ?thesis
    by (intro exI [of _ j]) (use claimed marked order db' id j' in
        \<open>auto simp: find_update_job claim_candidate_def split: option.splits\<close>)
qed (use assms(2) in simp_all)

lemma claimable_sample:
  "claim_next 10 20 ''tok'' [] sample_db =
     (Inr (Some (mark_claimed ''tok'' 20 (candidate_job ''J1'' sample_submission))),
      update_job ''J1'' (mark_claimed ''tok'' 20) sample_db)"
  by code_simp

theorem claim_next_serves_oldest_witness:
  "\<exists>j. find_job sample_db ''J1'' = Some j \<and> 10 < jb_expires_at j"
proof -
  have "jb_job_id (mark_claimed ''tok'' 20 (candidate_job ''J1'' sample_submission)) = ''J1''"
    by (simp add: mark_claimed_def candidate_job_def)
  with claim_next_serves_oldest [OF db_inv_sample_db claimable_sample] show ?thesis by auto
qed

lemma unheld_claim_fenced:
  assumes "\<nexists>j. find_job db i = Some j \<and> holds_claim token j"
  shows "complete_claim i token res rows ts db = (Inr False, db)"
    "fail_claim i token code detail ts db = (False, db)"
  using assms by (auto simp: complete_claim_def fail_claim_def split: option.splits)

text \<open>
  C2: Fencing.  A caller whose token is not the one durably recorded on a running row
  changes nothing, neither by publishing a result nor by recording a failure, and is told so.
\<close>

theorem stale_claim_changes_nothing:
  assumes "\<nexists>j. find_job db i = Some j \<and> holds_claim token j"
  shows "complete_claim i token res rows ts db = (Inr False, db) \<and>
     fail_claim i token code detail ts db = (False, db)"
  using unheld_claim_fenced [OF assms] by simp

theorem stale_claim_changes_nothing_witness:
  "complete_claim ''J1'' ''old'' ''{}'' [] 30 sample_db = (Inr False, sample_db) \<and>
     fail_claim ''J1'' ''old'' ''X'' ''X'' 30 sample_db = (False, sample_db)"
  by (rule stale_claim_changes_nothing)
    (simp add: find_job_def holds_claim_def sample_db_simps)

lemma no_contributions_of_claimed:
  assumes "db_inv db" "find_job db i = Some j" "holds_claim token j"
  shows "filter (\<lambda>c. cr_job_id c = i) (db_contributions db) = []"
proof -
  have "i \<notin> succeeded_ids db"
    using assms by (auto simp: succeeded_ids_find holds_claim_def)
  then show ?thesis
    using assms by (auto simp: db_inv_def filter_empty_conv)
qed

lemma distinct_new_identities:
  assumes "db_inv db" "find_job db i = Some j" "holds_claim token j" "list_all (\<lambda>c. cr_job_id c = i) rows"
  shows "distinct (map contribution_pk (db_contributions db @ rows)) \<longleftrightarrow>
    distinct (map (\<lambda>c. (cr_scenario_id c, cr_ordinal c)) rows)"
proof -
  have pk: "map contribution_pk rows = map (Pair i) (map (\<lambda>c. (cr_scenario_id c, cr_ordinal c)) rows)"
    using assms(4) by (simp add: contribution_pk_def list_all_iff)
  have "contribution_pk ` set (db_contributions db) \<inter> contribution_pk ` set rows = {}"
    using no_contributions_of_claimed [OF assms(1-3)] assms(4)
    by (auto simp: filter_empty_conv contribution_pk_def list_all_iff)
  moreover have "distinct (map contribution_pk rows) \<longleftrightarrow> distinct (map (\<lambda>c. (cr_scenario_id c, cr_ordinal c)) rows)"
    unfolding pk by (simp only: distinct_map [of "Pair i"]) (simp add: inj_on_def)
  ultimately show ?thesis using assms(1) by (simp add: db_inv_def)
qed

lemma other_jobs_kept:
  "keeps_input f \<Longrightarrow> filter (\<lambda>j. jb_job_id j \<noteq> i) (db_jobs (update_job i f db)) = filter (\<lambda>j. jb_job_id j \<noteq> i) (db_jobs db)"
proof -
  assume f: "keeps_input f"
  have "filter (\<lambda>j. jb_job_id j \<noteq> i) (map (\<lambda>j. if jb_job_id j = i then f j else j) js) = filter (\<lambda>j. jb_job_id j \<noteq> i) js" for js
    by (induction js) (simp_all add: keeps_input_columns [OF f])
  then show ?thesis by (simp add: update_job_def)
qed

text \<open>
  C1: Publication is all or nothing.  It happens exactly when the token is current, every row
  belongs to the job and fits its columns, and no two rows have the same identity; then the job is the
  succeeded one, its contributions are exactly the rows published, and no other job and no contribution of
  another job is touched.  In every other case the database is unchanged.
\<close>

theorem complete_claim_all_or_nothing:
  assumes "db_inv db"
  shows "(fst (complete_claim i token res rows ts db) = Inr True \<longleftrightarrow>
       (\<exists>j. find_job db i = Some j \<and> holds_claim token j) \<and>
       list_all (\<lambda>c. cr_job_id c = i \<and> contribution_columns_fit c) rows \<and>
       distinct (map (\<lambda>c. (cr_scenario_id c, cr_ordinal c)) rows)) \<and>
    (case complete_claim i token res rows ts db of
     (Inr True, db') \<Rightarrow> (\<exists>j. find_job db i = Some j \<and> holds_claim token j \<and>
         find_job db' i = Some (mark_succeeded res ts j)) \<and>
       filter (\<lambda>j. jb_job_id j \<noteq> i) (db_jobs db') = filter (\<lambda>j. jb_job_id j \<noteq> i) (db_jobs db) \<and>
       filter (\<lambda>c. cr_job_id c = i) (db_contributions db') = rows \<and>
       filter (\<lambda>c. cr_job_id c \<noteq> i) (db_contributions db') =
         filter (\<lambda>c. cr_job_id c \<noteq> i) (db_contributions db)
   | (_, db') \<Rightarrow> db' = db)"
proof -
  have new: "find_job db i = Some j \<Longrightarrow> holds_claim token j \<Longrightarrow> list_all (\<lambda>c. cr_job_id c = i) rows \<Longrightarrow>
      distinct (map contribution_pk (db_contributions db @ rows)) \<longleftrightarrow>
      distinct (map (\<lambda>c. (cr_scenario_id c, cr_ordinal c)) rows)" for j
    by (rule distinct_new_identities [OF assms])
  show ?thesis
  proof (cases rule: complete_claim_cases [of db i token res rows ts])
    case (published j)
    have "filter (\<lambda>c. cr_job_id c = i) (db_contributions db) = []"
      by (rule no_contributions_of_claimed [OF assms published(1,2)])
    moreover have "filter (\<lambda>c. cr_job_id c = i) rows = rows" "filter (\<lambda>c. cr_job_id c \<noteq> i) rows = []"
      using published by (auto simp: filter_id_conv filter_empty_conv)
    moreover have "find_job (db\<lparr>db_contributions := r\<rparr>) i = find_job db i" for r
      by (simp add: find_job_def)
    ultimately show ?thesis
      using published new [OF published(1,2)] by (simp add: find_update_job other_jobs_kept list_all_iff)
  next
    case (rejected j)
    then show ?thesis using new [OF rejected(1,2)] by (auto simp: list_all_iff)
  qed (auto simp: list_all_iff)
qed

definition claimed_sample :: job_db where
  "claimed_sample = snd (claim_next 10 20 ''tok'' [] sample_db)"

lemma db_inv_claimed_sample: "db_inv claimed_sample"
  unfolding claimed_sample_def by (rule db_inv_claim_next [OF db_inv_sample_db])

lemma complete_sample: "fst (complete_claim ''J1'' ''tok'' ''{}'' [] 15 claimed_sample) = Inr True"
  by code_simp

theorem complete_claim_all_or_nothing_witness:
  "\<exists>j. find_job (snd (complete_claim ''J1'' ''tok'' ''{}'' [] 15 claimed_sample)) ''J1'' =
     Some (mark_succeeded ''{}'' 15 j)"
  using complete_claim_all_or_nothing [OF db_inv_claimed_sample, where i = "''J1''" and token = "''tok''"
      and res = "''{}''" and rows = "[]" and ts = 15]
    complete_sample by (auto split: prod.splits)

section \<open>Retention\<close>

lemma sort_key_take_least:
  assumes "x \<in> set (take n (sort_key f xs))" "y \<in> set xs" "y \<notin> set (take n (sort_key f xs))"
  shows "f x \<le> f y"
proof -
  let ?s = "sort_key f xs"
  have "sorted (map f (take n ?s @ drop n ?s))" by simp
  moreover have "y \<in> set (drop n ?s)"
    using assms(2,3) by (metis UnE append_take_drop_id set_append set_sort)
  ultimately show ?thesis using assms(1) by (auto simp: sorted_append simp del: append_take_drop_id)
qed

lemma find_remove_jobs:
  "find_job (remove_jobs ids db) i = (if i \<in> set ids then None else find_job db i)"
proof -
  have "find (\<lambda>j. jb_job_id j = i) (filter (\<lambda>j. jb_job_id j \<notin> set ids) js) =
      (if i \<in> set ids then None else find (\<lambda>j. jb_job_id j = i) js)" for js
    by (induction js) auto
  then show ?thesis by (simp only: find_job_def remove_jobs_def job_db.select_convs)
qed

lemma expired_batch_member:
  assumes inv: "db_inv db" and j: "find_job db i = Some j"
  shows "i \<in> jb_job_id ` set (expired_batch now limit locked db) \<longleftrightarrow>
     j \<in> set (expired_batch now limit locked db)"
proof -
  have "set (expired_batch now limit locked db) \<subseteq> set (db_jobs db)"
    using set_take_subset by (force simp: expired_batch_def)
  moreover have "k = j" if "k \<in> set (db_jobs db)" "jb_job_id k = i" for k
    using that j find_job_member [OF db_inv_distinct_ids [OF inv]] by force
  ultimately show ?thesis using find_job_SomeD [OF j] by blast
qed

lemma expired_batch_eligible:
  assumes "j \<in> set (expired_batch now limit locked db)"
  shows "jb_expires_at j \<le> now" "jb_job_id j \<notin> set locked" "j \<in> set (db_jobs db)"
proof -
  have "j \<in> set (filter (\<lambda>j. jb_expires_at j \<le> now \<and> jb_job_id j \<notin> set locked) (db_jobs db))"
    using in_set_takeD [OF assms [unfolded expired_batch_def]] by (simp only: set_sort)
  then show "jb_expires_at j \<le> now" "jb_job_id j \<notin> set locked" "j \<in> set (db_jobs db)" by auto
qed

text \<open>
  A retention batch removes no more than its limit and only rows past their expiry that no
  other transaction holds; a row it removes expired no later than any eligible row it leaves.
  Every other row is unchanged, and a contribution survives exactly when its job was not removed.
\<close>

theorem delete_expired_only_expired:
  assumes inv: "db_inv db" and del: "delete_expired now limit locked db = (Inr n, db')"
  shows "int n \<le> limit \<and>
     (\<forall>i j. find_job db i = Some j \<longrightarrow> find_job db' i = Some j \<or>
        (find_job db' i = None \<and> jb_expires_at j \<le> now \<and> i \<notin> set locked)) \<and>
     (\<forall>i j k l. find_job db i = Some j \<and> find_job db' i = None \<and> find_job db' k = Some l \<and>
        jb_expires_at l \<le> now \<and> k \<notin> set locked \<longrightarrow> expiry_order j \<le> expiry_order l) \<and>
     db_contributions db' = filter (\<lambda>c. find_job db' (cr_job_id c) \<noteq> None) (db_contributions db)"
proof -
  let ?b = "expired_batch now limit locked db"
  have lim: "0 < limit" and n: "n = length ?b" and db': "db' = remove_jobs (map jb_job_id ?b) db"
    using del by (auto simp: delete_expired_alt split: if_splits)
  have find': "find_job db' i = (if i \<in> jb_job_id ` set ?b then None else find_job db i)" for i
    by (simp add: db' find_remove_jobs)
  have "int n \<le> limit" using lim by (simp add: n expired_batch_def)
  moreover have "find_job db' i = Some j \<or>
      (find_job db' i = None \<and> jb_expires_at j \<le> now \<and> i \<notin> set locked)"
    if j: "find_job db i = Some j" for i j
  proof (cases "i \<in> jb_job_id ` set ?b")
    case True
    then have "j \<in> set ?b" using expired_batch_member [OF inv j] by simp
    with True show ?thesis using expired_batch_eligible find_job_SomeD [OF j] find' by auto
  qed (use j find' in simp)
  moreover have "expiry_order j \<le> expiry_order l"
    if ij: "find_job db i = Some j" "find_job db' i = None" and kl: "find_job db' k = Some l"
      and l: "jb_expires_at l \<le> now" "k \<notin> set locked" for i j k l
  proof -
    have "j \<in> set ?b" using ij expired_batch_member [OF inv ij(1)] by (simp add: find' split: if_splits)
    moreover have k: "find_job db k = Some l" "k \<notin> jb_job_id ` set ?b"
      using kl by (auto simp: find' split: if_splits)
    moreover have "l \<notin> set ?b" using k expired_batch_member [OF inv k(1)] by simp
    moreover have "l \<in> set (filter (\<lambda>j. jb_expires_at j \<le> now \<and> jb_job_id j \<notin> set locked) (db_jobs db))"
      using find_job_SomeD [OF k(1)] l by auto
    ultimately show ?thesis unfolding expired_batch_def by (blast intro: sort_key_take_least)
  qed
  moreover have "db_contributions db' = filter (\<lambda>c. find_job db' (cr_job_id c) \<noteq> None) (db_contributions db)"
  proof -
    have "find_job db (cr_job_id c) \<noteq> None" if "c \<in> set (db_contributions db)" for c
      using that inv by (auto simp: db_inv_def succeeded_ids_def find_job_None_iff)
    then have "cr_job_id c \<notin> set (map jb_job_id ?b) \<longleftrightarrow> find_job db' (cr_job_id c) \<noteq> None"
      if "c \<in> set (db_contributions db)" for c
      using that by (auto simp: find')
    then show ?thesis by (simp only: db' remove_jobs_def job_db.select_convs cong: filter_cong)
  qed
  ultimately show ?thesis by blast
qed

theorem delete_expired_only_expired_witness:
  "int 1 \<le> 1 \<and> find_job (snd (delete_expired 100 1 [] sample_db)) ''J1'' = None"
proof -
  have d: "delete_expired 100 1 [] sample_db = (Inr 1, remove_jobs [''J1''] sample_db)"
    by code_simp
  show ?thesis
    using delete_expired_only_expired [OF db_inv_sample_db d] by (simp add: d find_remove_jobs)
qed

section \<open>Tenants\<close>

text \<open>What one tenant owns of the database.\<close>

definition tenant_view :: "string \<Rightarrow> job_db \<Rightarrow> job_db" where
  "tenant_view t db =
     (let own = filter (\<lambda>j. jb_tenant_id j = t) (db_jobs db) in
      \<lparr>db_jobs = own,
       db_contributions =
         filter (\<lambda>c. cr_job_id c \<in> jb_job_id ` set own) (db_contributions db)\<rparr>)"

lemma tenant_view_append:
  "jb_tenant_id c \<noteq> t \<Longrightarrow> tenant_view t (db\<lparr>db_jobs := db_jobs db @ [c]\<rparr>) = tenant_view t db"
  by (simp add: tenant_view_def)

lemma find_filter: "find P (filter Q xs) = find (\<lambda>x. Q x \<and> P x) xs"
  by (induction xs) auto

lemma get_for_tenant_view: "get_for_tenant (tenant_view t db) t i = get_for_tenant db t i"
  by (simp add: get_for_tenant_def tenant_view_def Let_def find_filter)

lemma get_for_tenant_SomeD:
  "get_for_tenant db t i = Some j \<Longrightarrow> j \<in> set (db_jobs db) \<and> jb_tenant_id j = t \<and> jb_job_id j = i"
  by (auto simp: get_for_tenant_def find_Some_iff)

lemma contribution_page_view:
  "contribution_page (tenant_view t db) t i after limit = contribution_page db t i after limit"
proof (cases "get_for_tenant db t i")
  case (Some j)
  from get_for_tenant_SomeD [OF this]
  have "i \<in> jb_job_id ` set (filter (\<lambda>j. jb_tenant_id j = t) (db_jobs db))" by auto
  then have "filter (\<lambda>c. cr_job_id c = i) (db_contributions (tenant_view t db)) =
      filter (\<lambda>c. cr_job_id c = i) (db_contributions db)"
    by (auto simp: tenant_view_def Let_def intro: filter_cong)
  with Some show ?thesis by (simp add: contribution_page_def get_for_tenant_view)
qed (simp add: contribution_page_def get_for_tenant_view)

lemma get_by_key_view: "get_by_key (tenant_view t db) t k = get_by_key db t k"
  by (simp add: get_by_key_def tenant_view_def Let_def find_filter same_key_def cong: find_cong)

text \<open>
  C9: Tenants do not see each other.  A status read, a contribution page and the outcome of a
  submission under an unused identity depend only on the rows of the tenant asking, and a
  submission leaves what every other tenant owns as it was.
\<close>

theorem tenant_noninterference:
  assumes "t' \<noteq> sb_tenant_id s" and "k \<notin> jb_job_id ` set (db_jobs db)"
  shows "get_for_tenant (tenant_view t db) t i = get_for_tenant db t i \<and>
    contribution_page (tenant_view t db) t i after limit = contribution_page db t i after limit \<and>
    fst (submit k s (tenant_view (sb_tenant_id s) db)) = fst (submit k s db) \<and>
    tenant_view t' (snd (submit k s db)) = tenant_view t' db"
proof -
  have "k \<notin> jb_job_id ` set (db_jobs (tenant_view (sb_tenant_id s) db))"
    using assms(2) by (auto simp: tenant_view_def Let_def)
  then have "fst (submit k s (tenant_view (sb_tenant_id s) db)) = fst (submit k s db)"
    using assms(2) by (simp add: submit_alt get_by_key_view split: option.splits)
  moreover have "tenant_view t' (snd (submit k s db)) = tenant_view t' db"
    using assms(1) by (simp add: submit_alt tenant_view_append candidate_job_def split: option.splits)
  ultimately show ?thesis by (simp add: get_for_tenant_view contribution_page_view)
qed

theorem tenant_noninterference_witness:
  "\<exists>r. get_for_tenant (tenant_view ''T1'' sample_db) ''T1'' ''J1'' = r \<and>
     tenant_view ''T1'' (snd (submit ''J3'' (sample_submission\<lparr>sb_tenant_id := ''T2''\<rparr>) sample_db)) =
     tenant_view ''T1'' sample_db"
  using tenant_noninterference [where t' = "''T1''" and t = "''T1''" and k = "''J3''" and db = sample_db
      and s = "sample_submission\<lparr>sb_tenant_id := ''T2''\<rparr>" and i = "''J1''"]
  by (simp add: sample_db_simps)

section \<open>Contribution pages\<close>

text \<open>
  The listing a reader pages through: a database, a tenant and a job.  It is valid when the
  store's invariant holds and the tenant owns the succeeded job.
\<close>

definition job_listing :: "job_db \<times> string \<times> string \<Rightarrow> contribution list" where
  "job_listing q = (case q of (db, t, i) \<Rightarrow>
     sort_key page_order (filter (\<lambda>c. cr_job_id c = i) (db_contributions db)))"

definition readable :: "job_db \<times> string \<times> string \<Rightarrow> bool" where
  "readable q \<longleftrightarrow> (case q of (db, t, i) \<Rightarrow> db_inv db \<and>
     (\<exists>j. get_for_tenant db t i = Some j \<and> jb_status j = Succeeded))"

definition read_page ::
  "job_db \<times> string \<times> string \<Rightarrow> (string \<times> nat) option \<Rightarrow> nat \<Rightarrow> contribution list option"
where
  "read_page q after limit = (case q of (db, t, i) \<Rightarrow> contribution_page db t i after limit)"

lemma rows_after_alt: "rows_after after rows = after_cursor page_order after (sort_key page_order rows)"
  by (auto simp: rows_after_def after_cursor_def filter_sort page_order_def less_prod_def
      split: option.splits prod.splits intro!: arg_cong [where f = "sort_key page_order"] filter_cong)

lemma job_listing_sorted:
  assumes "db_inv db"
  shows "sorted_wrt (<) (map page_order (job_listing (db, t, i)))"
proof -
  let ?rows = "filter (\<lambda>c. cr_job_id c = i) (db_contributions db)"
  have "distinct (map contribution_pk ?rows)"
    using assms by (simp add: db_inv_def distinct_map_filterI)
  then have "distinct (map page_order ?rows)"
    by (auto simp: distinct_map inj_on_def contribution_pk_def page_order_def)
  then have "distinct (map page_order (job_listing (db, t, i)))"
    by (simp add: job_listing_def distinct_map)
  then show ?thesis by (simp add: strict_sorted_iff job_listing_def)
qed

interpretation pages: paged_listing read_page readable job_listing page_order
proof unfold_locales
  fix q and after :: "(string \<times> nat) option" and limit
  assume q: "readable q"
  obtain db t i where dti: "q = (db, t, i)" by (cases q)
  from q show "read_page q after limit =
      Some (take (limit + 1) (after_cursor page_order after (job_listing q)))"
    by (auto simp: dti readable_def read_page_def contribution_page_def job_listing_def rows_after_alt)
  from q show "sorted_wrt (<) (map page_order (job_listing q))"
    by (auto simp: dti readable_def job_listing_sorted simp del: job_listing_def)
qed

end
