(* ===== verification/Severity.thy ===== *)
theory Severity
  imports Main Prelude
begin

text \<open>
  The two ways the service combines postures, as interfaces: keeping the more severe of two
  states by a numeric severity, and picking the first reason of a fixed precedence that
  occurs among the reasons collected.
\<close>

section \<open>Severity joins\<close>

locale severity_join =
  fixes severity :: "'s \<Rightarrow> nat" and join :: "'s \<Rightarrow> 's \<Rightarrow> 's"
  assumes join_eq: "join l r = (if severity r \<le> severity l then l else r)"
    and severity_inj: "severity l = severity r \<Longrightarrow> l = r"
begin

lemma severity_join_max: "severity (join l r) = max (severity l) (severity r)"
  by (simp add: join_eq)

lemma join_commute: "join l r = join r l"
  by (rule severity_inj) (simp add: severity_join_max max.commute)

lemma join_assoc: "join (join a b) c = join a (join b c)"
  by (rule severity_inj) (simp add: severity_join_max max.assoc)

lemma join_idem [simp]: "join a a = a"
  by (rule severity_inj) (simp add: severity_join_max)

lemma join_bottom:
  assumes "severity a = 0"
  shows "join l r = a \<longleftrightarrow> l = a \<and> r = a"
proof -
  have "join l r = a \<longleftrightarrow> severity (join l r) = 0"
    using assms by (metis severity_inj)
  also have "\<dots> \<longleftrightarrow> severity l = 0 \<and> severity r = 0"
    by (auto simp: severity_join_max max_def)
  also have "\<dots> \<longleftrightarrow> l = a \<and> r = a"
    using assms by (metis severity_inj)
  finally show ?thesis .
qed

lemma fold_join_severity:
  "severity (foldl join s xs) = foldl max (severity s) (map severity xs)"
  by (induction xs arbitrary: s) (simp_all add: severity_join_max)

end

section \<open>Precedence lists\<close>

locale precedence =
  fixes ranked :: "'r list" and pick :: "'r list \<Rightarrow> 'r option"
  assumes pick_eq: "pick rs = find (\<lambda>r. r \<in> set rs) ranked"
begin

lemma pick_member: "pick rs = Some r \<Longrightarrow> r \<in> set rs \<and> r \<in> set ranked"
  by (auto simp: pick_eq find_Some_iff)

lemma pick_None_iff: "pick rs = None \<longleftrightarrow> set ranked \<inter> set rs = {}"
  by (auto simp: pick_eq find_None_iff)

lemma pick_total: "r \<in> set rs \<Longrightarrow> r \<in> set ranked \<Longrightarrow> \<exists>q. pick rs = Some q"
  using pick_None_iff [of rs] by (cases "pick rs") auto

lemma pick_most_severe:
  assumes "pick rs = Some (ranked ! i)" "i < length ranked" "distinct ranked"
    and "j < i"
  shows "ranked ! j \<notin> set rs"
proof -
  from assms(1) obtain k where k: "k < length ranked" "ranked ! k = ranked ! i"
    "\<forall>m<k. ranked ! m \<notin> set rs"
    by (auto simp: pick_eq find_Some_iff)
  with assms(2,3) have "k = i" by (simp add: nth_eq_iff_index_eq)
  with k assms(4) show ?thesis by simp
qed

lemma pick_cong_set: "set rs = set qs \<Longrightarrow> pick rs = pick qs"
  by (simp add: pick_eq)

lemma pick_more:
  assumes "pick rs = Some r"
  shows "\<exists>q. pick (qs @ rs) = Some q"
proof -
  have "r \<in> set (qs @ rs)" "r \<in> set ranked" using pick_member [OF assms] by auto
  then show ?thesis by (rule pick_total)
qed

end

end
