(* ===== verification/ScenarioCatalog.thy ===== *)
theory ScenarioCatalog
  imports Main Prelude Dates Float64 Severity
begin

text \<open>
  The governed scenario packs (services/scenario_pack_catalog.py) and their governance
  evidence (services/scenario_governance.py, contracts/scenario_common_outputs.py,
  contracts/scenario_governance_outputs.py).
\<close>

section \<open>Scenario packs\<close>

record scenario_definition =
  sd_scenario_id :: string
  sd_display_name :: string
  sd_shock_by_bucket :: "(string, f64) dict"

definition SCENARIO_PACKS :: "(string, scenario_definition list) dict" where
  "SCENARIO_PACKS = [(''CIO_REGIME_2026_Q2'',
     [\<lparr>sd_scenario_id = ''growth_slowdown'',
       sd_display_name = ''Growth slowdown'',
       sd_shock_by_bucket =
         [(''EQUITY'', - flit (12 / 100)), (''FIXED_INCOME'', - flit (3 / 100)),
          (''ALTERNATIVES'', - flit (6 / 100)), (''CASH'', 0)]\<rparr>,
      \<lparr>sd_scenario_id = ''rates_up_inflation'',
       sd_display_name = ''Rates up and inflation persistence'',
       sd_shock_by_bucket =
         [(''EQUITY'', - flit (8 / 100)), (''FIXED_INCOME'', - flit (7 / 100)),
          (''ALTERNATIVES'', - flit (4 / 100)), (''CASH'', 0)]\<rparr>,
      \<lparr>sd_scenario_id = ''risk_off_liquidity'',
       sd_display_name = ''Risk-off liquidity shock'',
       sd_shock_by_bucket =
         [(''EQUITY'', - flit (18 / 100)), (''FIXED_INCOME'', - flit (2 / 100)),
          (''ALTERNATIVES'', - flit (10 / 100)), (''CASH'', 0)]\<rparr>])]"

definition SUPPORTED_BUCKETS :: "string list" where
  "SUPPORTED_BUCKETS = [''EQUITY'', ''FIXED_INCOME'', ''ALTERNATIVES'', ''CASH'']"

section \<open>Postures\<close>

datatype supportability_state = Ready | Degraded | PendingReview | Blocked
datatype approval_status = Approved | NotApproved
datatype effective_period_status = Active | NotYetEffective | Expired
datatype applicability_status = Applicable | ApplicabilityPendingReview | NotApplicable

fun severity :: "supportability_state \<Rightarrow> nat" where
  "severity Ready = 0"
| "severity PendingReview = 1"
| "severity Degraded = 2"
| "severity Blocked = 3"

definition most_severe_supportability ::
  "supportability_state \<Rightarrow> supportability_state \<Rightarrow> supportability_state"
where
  "most_severe_supportability l r = (if severity r \<le> severity l then l else r)"

interpretation support: severity_join severity most_severe_supportability
proof
  fix l r :: supportability_state
  show "most_severe_supportability l r = (if severity r \<le> severity l then l else r)"
    by (rule most_severe_supportability_def)
  show "severity l = severity r \<Longrightarrow> l = r"
    by (cases l; cases r) simp_all
qed

section \<open>Governance\<close>

record governance_definition =
  gd_cio_approval_status :: approval_status
  gd_cio_approval_ref :: string
  gd_approved_by :: string
  gd_approved_at :: instant
  gd_effective_from :: date
  gd_effective_to :: date
  gd_applicability_scope :: "string list"
  gd_applicable_portfolio_ids :: "string list"
  gd_methodology_ref :: string

record governance_evidence =
  ge_cio_approval_status :: approval_status
  ge_cio_approval_ref :: string
  ge_approved_by :: string
  ge_approved_at :: instant
  ge_effective_from :: date
  ge_effective_to :: date
  ge_effective_period_status :: effective_period_status
  ge_applicability_status :: applicability_status
  ge_applicability_scope :: "string list"
  ge_portfolio_applicability_ref :: "string option"
  ge_methodology_ref :: string

text \<open>2026-04-15 09:00 UTC in microseconds since the epoch.\<close>

definition SCENARIO_PACK_GOVERNANCE :: "(string, governance_definition) dict" where
  "SCENARIO_PACK_GOVERNANCE = [(''CIO_REGIME_2026_Q2'',
     \<lparr>gd_cio_approval_status = Approved,
      gd_cio_approval_ref = ''CIO-REGIME-2026-Q2-APPROVAL'',
      gd_approved_by = ''CIO Risk Committee'',
      gd_approved_at = 1776243600 * 1000000,
      gd_effective_from = Date 2026 4 1,
      gd_effective_to = Date 2026 6 30,
      gd_applicability_scope = [''DISCRETIONARY_PRIVATE_BANKING_BALANCED''],
      gd_applicable_portfolio_ids = [''PB_SG_GLOBAL_BAL_001''],
      gd_methodology_ref =
        ''docs/methodologies/metrics/regime-scenario-pack-evaluation.md''\<rparr>)]"

record cio_approval_decision =
  ca_reason_codes :: "string list"
  ca_supportability :: supportability_state

record effective_period_decision =
  ep_status :: effective_period_status
  ep_reason_codes :: "string list"
  ep_supportability :: supportability_state

record portfolio_applicability_decision =
  pa_status :: applicability_status
  pa_portfolio_applicability_ref :: "string option"
  pa_reason_codes :: "string list"
  pa_supportability :: supportability_state

record governance_evaluation =
  gv_evidence :: governance_evidence
  gv_reason_codes :: "string list"
  gv_supportability :: supportability_state

definition decide_cio_approval :: "governance_definition \<Rightarrow> cio_approval_decision" where
  "decide_cio_approval g =
     (if gd_cio_approval_status g \<noteq> Approved then
        \<lparr>ca_reason_codes = [''REGIME_SCENARIO_CIO_APPROVAL_NOT_CONFIRMED''],
         ca_supportability = Blocked\<rparr>
      else \<lparr>ca_reason_codes = [], ca_supportability = Ready\<rparr>)"

definition decide_effective_period ::
  "governance_definition \<Rightarrow> date \<Rightarrow> effective_period_decision"
where
  "decide_effective_period g as_of =
     (if as_of < gd_effective_from g then
        \<lparr>ep_status = NotYetEffective,
         ep_reason_codes = [''REGIME_SCENARIO_EFFECTIVE_PERIOD_EXCEPTION''],
         ep_supportability = Degraded\<rparr>
      else if gd_effective_to g < as_of then
        \<lparr>ep_status = Expired,
         ep_reason_codes = [''REGIME_SCENARIO_EFFECTIVE_PERIOD_EXCEPTION''],
         ep_supportability = Degraded\<rparr>
      else \<lparr>ep_status = Active, ep_reason_codes = [], ep_supportability = Ready\<rparr>)"

definition decide_portfolio_applicability ::
  "governance_definition \<Rightarrow> string option \<Rightarrow> portfolio_applicability_decision"
where
  "decide_portfolio_applicability g portfolio_id =
     (case portfolio_id of
        None \<Rightarrow>
          \<lparr>pa_status = ApplicabilityPendingReview, pa_portfolio_applicability_ref = None,
           pa_reason_codes = [''REGIME_SCENARIO_PORTFOLIO_APPLICABILITY_NOT_CONFIRMED''],
           pa_supportability = PendingReview\<rparr>
      | Some p \<Rightarrow>
          if p \<in> set (gd_applicable_portfolio_ids g) then
            \<lparr>pa_status = Applicable,
             pa_portfolio_applicability_ref = Some (gd_cio_approval_ref g @ ''-APP-'' @ p),
             pa_reason_codes = [], pa_supportability = Ready\<rparr>
          else
            \<lparr>pa_status = NotApplicable, pa_portfolio_applicability_ref = None,
             pa_reason_codes = [''REGIME_SCENARIO_PORTFOLIO_NOT_APPLICABLE''],
             pa_supportability = Blocked\<rparr>)"

definition make_governance_evidence ::
  "governance_definition \<Rightarrow> effective_period_decision \<Rightarrow> portfolio_applicability_decision \<Rightarrow>
     governance_evidence"
where
  "make_governance_evidence g ep pa =
     \<lparr>ge_cio_approval_status = gd_cio_approval_status g,
      ge_cio_approval_ref = gd_cio_approval_ref g,
      ge_approved_by = gd_approved_by g,
      ge_approved_at = gd_approved_at g,
      ge_effective_from = gd_effective_from g,
      ge_effective_to = gd_effective_to g,
      ge_effective_period_status = ep_status ep,
      ge_applicability_status = pa_status pa,
      ge_applicability_scope = gd_applicability_scope g,
      ge_portfolio_applicability_ref = pa_portfolio_applicability_ref pa,
      ge_methodology_ref = gd_methodology_ref g\<rparr>"

text \<open>\<open>None\<close> is the \<open>KeyError\<close> of a pack without governance.\<close>

definition evaluate_governance_evidence ::
  "string \<Rightarrow> string option \<Rightarrow> date \<Rightarrow> governance_evaluation option"
where
  "evaluate_governance_evidence scenario_pack_id portfolio_id as_of_date =
     (case map_of SCENARIO_PACK_GOVERNANCE scenario_pack_id of
        None \<Rightarrow> None
      | Some g \<Rightarrow>
          let approval = decide_cio_approval g;
              ep = decide_effective_period g as_of_date;
              s1 = most_severe_supportability (ca_supportability approval) (ep_supportability ep);
              pa = decide_portfolio_applicability g portfolio_id;
              s2 = most_severe_supportability s1 (pa_supportability pa)
          in Some \<lparr>gv_evidence = make_governance_evidence g ep pa,
               gv_reason_codes = ca_reason_codes approval @ ep_reason_codes ep @ pa_reason_codes pa,
               gv_supportability = s2\<rparr>)"

lemma packs_governed:
  "fst ` set SCENARIO_PACKS = fst ` set SCENARIO_PACK_GOVERNANCE"
  by (simp add: SCENARIO_PACKS_def SCENARIO_PACK_GOVERNANCE_def)

lemma pack_has_governance:
  "map_of SCENARIO_PACKS p \<noteq> None \<Longrightarrow> \<exists>g. map_of SCENARIO_PACK_GOVERNANCE p = Some g"
  by (auto simp: SCENARIO_PACKS_def SCENARIO_PACK_GOVERNANCE_def split: if_splits)

lemma governance_total:
  "map_of SCENARIO_PACKS p \<noteq> None \<Longrightarrow> \<exists>v. evaluate_governance_evidence p q d = Some v"
  by (drule pack_has_governance) (auto simp: evaluate_governance_evidence_def Let_def)

text \<open>For any governance definition, the combined posture is ready exactly when the CIO
  approval is in place, the date lies in the effective period and the portfolio is listed;
  an absent approval or an unlisted portfolio is always blocked, whatever else holds.\<close>

theorem governance_ready_iff:
  "(case map_of SCENARIO_PACK_GOVERNANCE p of None \<Rightarrow> evaluate_governance_evidence p q d = None
    | Some g \<Rightarrow> \<exists>v. evaluate_governance_evidence p q d = Some v \<and>
        (gv_supportability v = Ready \<longleftrightarrow>
           gd_cio_approval_status g = Approved \<and>
           gd_effective_from g \<le> d \<and> d \<le> gd_effective_to g \<and>
           q \<in> Some ` set (gd_applicable_portfolio_ids g)) \<and>
        (gv_supportability v = Blocked \<longleftrightarrow>
           \<not> (gd_cio_approval_status g = Approved \<and>
              q \<in> insert None (Some ` set (gd_applicable_portfolio_ids g)))) \<and>
        (gv_reason_codes v = [] \<longleftrightarrow> gv_supportability v = Ready))"
proof (cases "map_of SCENARIO_PACK_GOVERNANCE p")
  case None
  then show ?thesis by (simp add: evaluate_governance_evidence_def)
next
  case (Some g)
  then show ?thesis
    by (auto simp: evaluate_governance_evidence_def Let_def decide_cio_approval_def
        decide_effective_period_def decide_portfolio_applicability_def
        most_severe_supportability_def not_less split: option.splits)
qed

end
