(* ===== verification/ScenarioInputs.thy ===== *)
theory ScenarioInputs
  imports Main Prelude Dates Float64
begin

text \<open>
  The scenario request contracts: the synchronous request
  (contracts/scenario_inputs.py, RegimeScenarioPackRequest) and the durable-job request
  (scenario_jobs/contracts.py, RegimeScenarioPackJobRequest).  Both have the same fields and
  are one record here; they differ in the number of exposure components they admit.
  \<open>FieldConstraint\<close> is a declared field bound refused before the model validator runs,
  \<open>ValidatorError\<close> a \<open>ValueError\<close> of the validator with its message.
\<close>

datatype contract_error = FieldConstraint string | ValidatorError string

record scenario_exposure =
  se_bucket :: string
  se_weight :: f64

record exposure_component =
  ec_security_id :: string
  ec_display_name :: "string option"
  ec_bucket :: string
  ec_weight :: f64

record scenario_request =
  sr_scenario_pack_id :: string
  sr_portfolio_id :: "string option"
  sr_as_of_date :: date
  sr_exposures :: "scenario_exposure list"
  sr_exposure_components :: "exposure_component list"
  sr_maximum_allowed_loss_pct :: f64

definition SCENARIO_ALLOCATION_TOLERANCE :: f64 where
  "SCENARIO_ALLOCATION_TOLERANCE = flit (1 / 10 ^ 6)"

definition SCENARIO_MAX_EXPOSURE_BUCKETS :: nat where
  "SCENARIO_MAX_EXPOSURE_BUCKETS = 16"

definition SCENARIO_MAX_EXPOSURE_COMPONENTS :: nat where
  "SCENARIO_MAX_EXPOSURE_COMPONENTS = 250"

definition SCENARIO_MAX_POSITION_CONTRIBUTION_ROWS :: nat where
  "SCENARIO_MAX_POSITION_CONTRIBUTION_ROWS = SCENARIO_MAX_EXPOSURE_COMPONENTS"

definition SCENARIO_JOB_MAX_EXPOSURE_COMPONENTS :: nat where
  "SCENARIO_JOB_MAX_EXPOSURE_COMPONENTS = 1000"

section \<open>Declared field bounds\<close>

definition unit_interval :: "f64 \<Rightarrow> bool" where
  "unit_interval w \<longleftrightarrow> 0 \<le> w \<and> w \<le> 1"

definition scenario_exposure_fields :: "scenario_exposure \<Rightarrow> (contract_error, unit) result" where
  "scenario_exposure_fields e = raise_if (\<not> unit_interval (se_weight e)) (FieldConstraint ''weight'')"

definition exposure_component_fields :: "exposure_component \<Rightarrow> (contract_error, unit) result" where
  "exposure_component_fields c = raise_if (\<not> unit_interval (ec_weight c)) (FieldConstraint ''weight'')"

definition request_fields :: "nat \<Rightarrow> scenario_request \<Rightarrow> (contract_error, unit) result" where
  "request_fields max_components r =
     bind_result (raise_if (SCENARIO_MAX_EXPOSURE_BUCKETS < length (sr_exposures r))
       (FieldConstraint ''exposures'')) (\<lambda>_.
     bind_result (map_result scenario_exposure_fields (sr_exposures r)) (\<lambda>_.
     bind_result (raise_if (max_components < length (sr_exposure_components r))
       (FieldConstraint ''exposure_components'')) (\<lambda>_.
     bind_result (map_result exposure_component_fields (sr_exposure_components r)) (\<lambda>_.
     raise_if (\<not> unit_interval (sr_maximum_allowed_loss_pct r))
       (FieldConstraint ''maximum_allowed_loss_pct'')))))"

section \<open>Allocation\<close>

definition full_allocation :: "f64 list \<Rightarrow> bool" where
  "full_allocation weights \<longleftrightarrow> \<bar>fsub (py_sum weights) 1\<bar> \<le> SCENARIO_ALLOCATION_TOLERANCE"

definition validate_full_allocation :: "f64 list \<Rightarrow> string \<Rightarrow> (contract_error, unit) result" where
  "validate_full_allocation weights field_name =
     (let total = py_sum weights in
      raise_if (SCENARIO_ALLOCATION_TOLERANCE < \<bar>fsub total 1\<bar>)
        (ValidatorError (field_name @ '' weights must sum to 1.0 within 1e-06; received ''
           @ format_6f total)))"

definition exposure_by_bucket :: "scenario_request \<Rightarrow> (string, f64) dict" where
  "exposure_by_bucket r =
     dict_of_items (map (\<lambda>e. (py_upper (se_bucket e), se_weight e)) (sr_exposures r))"

definition component_totals :: "exposure_component list \<Rightarrow> (string, f64) dict" where
  "component_totals cs = fold (\<lambda>c d. let bucket = py_upper (ec_bucket c) in
     AList.update bucket (fadd (dict_get d bucket 0) (ec_weight c)) d) cs []"

text \<open>The indexing \<open>exposure_by_bucket[bucket]\<close> runs only when no bucket is unknown.\<close>

definition mismatched_buckets :: "(string, f64) dict \<Rightarrow> (string, f64) dict \<Rightarrow> string list" where
  "mismatched_buckets totals exposures =
     map fst (filter (\<lambda>(bucket, w). flit (1 / 10 ^ 6) < \<bar>fsub w (dict_get exposures bucket 0)\<bar>)
       (sort_key fst totals))"

section \<open>The job validator\<close>

definition validate_exposure_buckets :: "scenario_exposure list \<Rightarrow> (contract_error, unit) result" where
  "validate_exposure_buckets exposures =
     bind_result (raise_if (exposures = [])
       (ValidatorError ''exposures must contain at least one scenario exposure bucket'')) (\<lambda>_.
     let normalized_buckets = map (\<lambda>e. py_upper (se_bucket e)) exposures;
         duplicate_buckets = duplicates normalized_buckets in
     bind_result (raise_if (duplicate_buckets \<noteq> [])
       (ValidatorError (''exposures must contain unique scenario buckets: ''
          @ str_join '', '' duplicate_buckets))) (\<lambda>_.
     validate_full_allocation (map se_weight exposures) ''exposures''))"

definition validate_exposure_components ::
  "scenario_request \<Rightarrow> (contract_error, unit) result"
where
  "validate_exposure_components r =
     (let exposures = exposure_by_bucket r;
          totals = component_totals (sr_exposure_components r);
          unknown = sorted_diff (dict_keys totals) (dict_keys exposures);
          mismatched = mismatched_buckets totals exposures in
      bind_result (raise_if (unknown \<noteq> [])
        (ValidatorError (''exposure_components contain buckets absent from exposures: ''
           @ str_join '', '' unknown))) (\<lambda>_.
      bind_result (raise_if (mismatched \<noteq> [])
        (ValidatorError (''exposure_components must reconcile to exposures for buckets: ''
           @ str_join '', '' mismatched))) (\<lambda>_.
      validate_full_allocation (map ec_weight (sr_exposure_components r)) ''exposure_components'')))"

definition job_request_validator :: "scenario_request \<Rightarrow> (contract_error, unit) result" where
  "job_request_validator r =
     bind_result (validate_exposure_buckets (sr_exposures r)) (\<lambda>_.
       if sr_exposure_components r = [] then Inr () else validate_exposure_components r)"

section \<open>The synchronous validator\<close>

text \<open>Written out in one method in the source, the error of each stage in turn.\<close>

definition pack_request_validator :: "scenario_request \<Rightarrow> (contract_error, unit) result" where
  "pack_request_validator r =
     (let exposures = sr_exposures r; components = sr_exposure_components r;
          normalized_buckets = map (\<lambda>e. py_upper (se_bucket e)) exposures;
          duplicate_buckets = duplicates normalized_buckets;
          ebb = exposure_by_bucket r; totals = component_totals components;
          unknown = sorted_diff (dict_keys totals) (dict_keys ebb);
          mismatched = mismatched_buckets totals ebb in
      if exposures = [] then
        Inl (ValidatorError ''exposures must contain at least one scenario exposure bucket'')
      else if duplicate_buckets \<noteq> [] then
        Inl (ValidatorError (''exposures must contain unique scenario buckets: ''
          @ str_join '', '' duplicate_buckets))
      else case validate_full_allocation (map se_weight exposures) ''exposures'' of
        Inl e \<Rightarrow> Inl e
      | Inr _ \<Rightarrow>
          if components = [] then Inr ()
          else if unknown \<noteq> [] then
            Inl (ValidatorError (''exposure_components contain buckets absent from exposures: ''
              @ str_join '', '' unknown))
          else if mismatched \<noteq> [] then
            Inl (ValidatorError (''exposure_components must reconcile to exposures for buckets: ''
              @ str_join '', '' mismatched))
          else validate_full_allocation (map ec_weight components) ''exposure_components'')"

definition validate_pack_request :: "scenario_request \<Rightarrow> (contract_error, scenario_request) result" where
  "validate_pack_request r =
     bind_result (request_fields SCENARIO_MAX_EXPOSURE_COMPONENTS r) (\<lambda>_.
     bind_result (pack_request_validator r) (\<lambda>_. Inr r))"

definition validate_job_request :: "scenario_request \<Rightarrow> (contract_error, scenario_request) result" where
  "validate_job_request r =
     bind_result (request_fields SCENARIO_JOB_MAX_EXPOSURE_COMPONENTS r) (\<lambda>_.
     bind_result (job_request_validator r) (\<lambda>_. Inr r))"

section \<open>What validation establishes\<close>

lemma map_result_raise_if_iff:
  "(\<exists>us. map_result (\<lambda>x. raise_if (\<not> P x) e) xs = Inr us) \<longleftrightarrow> (\<forall>x\<in>set xs. P x)"
  by (induction xs) (auto simp: result_simps)

lemma request_fields_ok_iff:
  "request_fields n r = Inr () \<longleftrightarrow>
     length (sr_exposures r) \<le> SCENARIO_MAX_EXPOSURE_BUCKETS \<and>
     (\<forall>e\<in>set (sr_exposures r). unit_interval (se_weight e)) \<and>
     length (sr_exposure_components r) \<le> n \<and>
     (\<forall>c\<in>set (sr_exposure_components r). unit_interval (ec_weight c)) \<and>
     unit_interval (sr_maximum_allowed_loss_pct r)"
  unfolding request_fields_def scenario_exposure_fields_def exposure_component_fields_def
  by (simp add: result_simps not_less map_result_raise_if_iff)

lemma validate_full_allocation_ok [result_simps]:
  "validate_full_allocation ws f = Inr () \<longleftrightarrow> full_allocation ws"
  by (auto simp: validate_full_allocation_def full_allocation_def Let_def result_simps not_less)

lemma keys_component_totals:
  "set (dict_keys (component_totals cs)) = (\<lambda>c. py_upper (ec_bucket c)) ` set cs"
proof -
  have "fst ` set (fold (\<lambda>c d. let bucket = py_upper (ec_bucket c) in
      AList.update bucket (fadd (dict_get d bucket 0) (ec_weight c)) d) cs d)
    = fst ` set d \<union> (\<lambda>c. py_upper (ec_bucket c)) ` set cs" for d
    by (induction cs arbitrary: d) (auto simp: AList.dom_update Let_def)
  then show ?thesis by (simp add: component_totals_def dict_keys_def)
qed

lemma keys_exposure_by_bucket:
  "set (dict_keys (exposure_by_bucket r)) = (\<lambda>e. py_upper (se_bucket e)) ` set (sr_exposures r)"
  by (simp add: exposure_by_bucket_def dict_keys_def keys_dict_of_items image_image)

definition accepted_request :: "nat \<Rightarrow> scenario_request \<Rightarrow> bool" where
  "accepted_request n r \<longleftrightarrow> request_fields n r = Inr () \<and>
     sr_exposures r \<noteq> [] \<and>
     distinct (map (\<lambda>e. py_upper (se_bucket e)) (sr_exposures r)) \<and>
     full_allocation (map se_weight (sr_exposures r)) \<and>
     (sr_exposure_components r = [] \<or>
       (\<lambda>c. py_upper (ec_bucket c)) ` set (sr_exposure_components r)
         \<subseteq> (\<lambda>e. py_upper (se_bucket e)) ` set (sr_exposures r) \<and>
       mismatched_buckets (component_totals (sr_exposure_components r)) (exposure_by_bucket r) = [] \<and>
       full_allocation (map ec_weight (sr_exposure_components r)))"

lemma pack_validator_eq: "pack_request_validator r = job_request_validator r"
  by (auto simp: job_request_validator_def pack_request_validator_def validate_exposure_buckets_def
      validate_exposure_components_def raise_if_def Let_def split: sum.splits)

text \<open>The validator written out in the synchronous contract and the factored one of the
  durable-job contract accept and refuse the same requests, with the same message.\<close>

theorem validators_agree: "job_request_validator r = pack_request_validator r"
  by (simp add: pack_validator_eq)

lemma job_request_validator_ok:
  "job_request_validator r = Inr () \<longleftrightarrow>
     sr_exposures r \<noteq> [] \<and> distinct (map (\<lambda>e. py_upper (se_bucket e)) (sr_exposures r)) \<and>
     full_allocation (map se_weight (sr_exposures r)) \<and>
     (sr_exposure_components r = [] \<or>
       (\<lambda>c. py_upper (ec_bucket c)) ` set (sr_exposure_components r)
         \<subseteq> (\<lambda>e. py_upper (se_bucket e)) ` set (sr_exposures r) \<and>
       mismatched_buckets (component_totals (sr_exposure_components r)) (exposure_by_bucket r) = [] \<and>
       full_allocation (map ec_weight (sr_exposure_components r)))"
  unfolding job_request_validator_def validate_exposure_buckets_def
    validate_exposure_components_def Let_def
  by (auto simp: result_simps duplicates_Nil_iff sorted_diff_Nil_iff keys_component_totals
      keys_exposure_by_bucket)

text \<open>A request is admitted, unchanged, exactly when its buckets are unique up to case,
  its weights form a full allocation within the tolerance, and its components, if any, name
  known buckets, reconcile with each bucket and form a full allocation themselves; the two
  contracts differ only in the number of components.\<close>

theorem admitted_request_iff:
  "(validate_job_request r = Inr s \<longleftrightarrow>
      s = r \<and> accepted_request SCENARIO_JOB_MAX_EXPOSURE_COMPONENTS r) \<and>
   (validate_pack_request r = Inr s \<longleftrightarrow>
      s = r \<and> accepted_request SCENARIO_MAX_EXPOSURE_COMPONENTS r)"
proof -
  have "(\<exists>u. job_request_validator r = Inr u) \<longleftrightarrow> job_request_validator r = Inr ()"
    by auto
  then show ?thesis
    unfolding validate_job_request_def validate_pack_request_def accepted_request_def pack_validator_eq
    by (auto simp: result_simps job_request_validator_ok)
qed

lemma accepted_exposures:
  "accepted_request n r \<Longrightarrow>
     exposure_by_bucket r = map (\<lambda>e. (py_upper (se_bucket e), se_weight e)) (sr_exposures r)"
  by (simp add: accepted_request_def exposure_by_bucket_def dict_of_items_distinct comp_def)

lemma accepted_bounds:
  "accepted_request n r \<Longrightarrow>
     length (sr_exposures r) \<le> 16 \<and> (\<forall>e\<in>set (sr_exposures r). 0 \<le> se_weight e \<and> se_weight e \<le> 1) \<and>
     (\<forall>c\<in>set (sr_exposure_components r). 0 \<le> ec_weight c \<and> ec_weight c \<le> 1) \<and>
     length (sr_exposure_components r) \<le> n"
  by (auto simp: accepted_request_def request_fields_ok_iff unit_interval_def
      SCENARIO_MAX_EXPOSURE_BUCKETS_def)

end
