(* ===== verification/ScenarioEngine.thy ===== *)
theory ScenarioEngine
  imports Main "HOL-Library.Product_Lexorder" "HOL-Library.Multiset" ScenarioCatalog ScenarioInputs
begin

text \<open>
  Evaluation of a regime scenario pack (services/scenario_engine.py) and its response
  contract (contracts/scenario_result_outputs.py, scenario_response_outputs.py,
  scenario_metadata_outputs.py).  The request fingerprint is a parameter: the SHA-256 of the
  pydantic dump of the request.
\<close>

section \<open>Response contract\<close>

record position_contribution =
  pc_security_id :: string
  pc_display_name :: "string option"
  pc_bucket :: string
  pc_weight :: f64
  pc_shock_pct :: f64
  pc_contribution_loss_pct :: f64

record scenario_result =
  sc_scenario_id :: string
  sc_display_name :: string
  sc_expected_loss_pct :: f64
  sc_shock_by_bucket :: "(string, f64) dict"
  sc_position_contributions :: "position_contribution list"

record evaluation_metadata =
  em_product_name :: string
  em_product_version :: string
  em_source_service :: string
  em_source_services :: "string list"
  em_correlation_id :: "string option"
  em_lineage_version :: string
  em_request_fingerprint :: string
  em_calculation_supportability :: supportability_state

record pack_response =
  pr_scenario_pack_id :: string
  pr_portfolio_id :: "string option"
  pr_as_of_date :: date
  pr_worst_case_loss_pct :: f64
  pr_maximum_allowed_loss_pct :: f64
  pr_breach :: bool
  pr_scenario_results :: "scenario_result list"
  pr_governance_evidence :: governance_evidence
  pr_reason_codes :: "string list"
  pr_metadata :: evaluation_metadata

datatype engine_error = UnsupportedPack string | RowBound string | PackKeyError string

section \<open>One scenario\<close>

definition shock_for :: "scenario_definition \<Rightarrow> string \<Rightarrow> f64" where
  "shock_for s bucket = dict_get (sd_shock_by_bucket s) bucket 0"

definition loss_of :: "f64 \<Rightarrow> f64 \<Rightarrow> f64" where
  "loss_of weight shock = max (- fmul weight shock) 0"

definition scenario_loss :: "scenario_definition \<Rightarrow> (string, f64) dict \<Rightarrow> f64" where
  "scenario_loss s exposures =
     foldl (\<lambda>loss (bucket, weight). fadd loss (loss_of weight (shock_for s bucket))) 0 exposures"

definition contribution_key :: "position_contribution \<Rightarrow> f64 \<times> string \<times> string" where
  "contribution_key row = (- pc_contribution_loss_pct row, pc_bucket row, pc_security_id row)"

definition component_contribution ::
  "scenario_definition \<Rightarrow> exposure_component \<Rightarrow> position_contribution"
where
  "component_contribution s c =
     (let bucket = py_upper (ec_bucket c); shock = shock_for s bucket in
      \<lparr>pc_security_id = ec_security_id c, pc_display_name = ec_display_name c,
       pc_bucket = bucket, pc_weight = ec_weight c, pc_shock_pct = shock,
       pc_contribution_loss_pct = py_round6 (loss_of (ec_weight c) shock)\<rparr>)"

definition evaluate_position_contributions ::
  "scenario_definition \<Rightarrow> exposure_component list \<Rightarrow> position_contribution list"
where
  "evaluate_position_contributions s components =
     sort_key contribution_key (map (component_contribution s) components)"

definition evaluate_scenario ::
  "scenario_definition \<Rightarrow> (string, f64) dict \<Rightarrow> exposure_component list \<Rightarrow> scenario_result"
where
  "evaluate_scenario s exposures components =
     \<lparr>sc_scenario_id = sd_scenario_id s, sc_display_name = sd_display_name s,
      sc_expected_loss_pct = py_round6 (scenario_loss s exposures),
      sc_shock_by_bucket = sd_shock_by_bucket s,
      sc_position_contributions = evaluate_position_contributions s components\<rparr>"

section \<open>The pack\<close>

record pack_context =
  cx_scenario_pack :: "scenario_definition list"
  cx_exposure_by_bucket :: "(string, f64) dict"
  cx_governance_evidence :: governance_evidence
  cx_reason_codes :: "string list"
  cx_supportability :: supportability_state

record pack_evaluation =
  pe_scenario_results :: "scenario_result list"
  pe_worst_case_loss :: f64
  pe_breach :: bool
  pe_governance_evidence :: governance_evidence
  pe_reason_codes :: "string list"
  pe_supportability :: supportability_state

definition scenario_pack_context :: "scenario_request \<Rightarrow> (engine_error, pack_context) result" where
  "scenario_pack_context r =
     (case map_of SCENARIO_PACKS (sr_scenario_pack_id r) of
        None \<Rightarrow> Inl (PackKeyError (sr_scenario_pack_id r))
      | Some pack \<Rightarrow>
          let exposures = exposure_by_bucket r;
              unsupported = sorted_diff (dict_keys exposures) SUPPORTED_BUCKETS;
              s0 = (if unsupported \<noteq> [] then Degraded else Ready) in
          case evaluate_governance_evidence (sr_scenario_pack_id r) (sr_portfolio_id r)
                 (sr_as_of_date r) of
            None \<Rightarrow> Inl (PackKeyError (sr_scenario_pack_id r))
          | Some g \<Rightarrow>
              Inr \<lparr>cx_scenario_pack = pack, cx_exposure_by_bucket = exposures,
                cx_governance_evidence = gv_evidence g,
                cx_reason_codes = [''REGIME_SCENARIO_PACK_READY'']
                  @ (if unsupported \<noteq> [] then [''REGIME_SCENARIO_UNSUPPORTED_EXPOSURE_BUCKET''] else [])
                  @ gv_reason_codes g,
                cx_supportability = most_severe_supportability s0 (gv_supportability g)\<rparr>)"

definition scenario_results ::
  "pack_context \<Rightarrow> exposure_component list \<Rightarrow> scenario_result list"
where
  "scenario_results cx components =
     map (\<lambda>s. evaluate_scenario s (cx_exposure_by_bucket cx) components) (cx_scenario_pack cx)"

definition supportability_after_breach :: "bool \<Rightarrow> supportability_state \<Rightarrow> supportability_state" where
  "supportability_after_breach breach s = (if breach \<and> s = Ready then PendingReview else s)"

text \<open>\<open>max(xs, default=0.0)\<close>\<close>

fun py_max :: "f64 list \<Rightarrow> f64" where
  "py_max [] = 0"
| "py_max (x # xs) = foldl max x xs"

definition evaluate_scenario_pack_context ::
  "scenario_request \<Rightarrow> (engine_error, pack_evaluation) result"
where
  "evaluate_scenario_pack_context r =
     bind_result (scenario_pack_context r) (\<lambda>cx.
       let results = scenario_results cx (sr_exposure_components r);
           worst = py_max (map sc_expected_loss_pct results);
           breach = sr_maximum_allowed_loss_pct r < worst;
           codes = cx_reason_codes cx
             @ (if breach then [''REGIME_SCENARIO_POLICY_THRESHOLD_BREACH''] else [])
       in Inr \<lparr>pe_scenario_results = results, pe_worst_case_loss = worst, pe_breach = breach,
            pe_governance_evidence = cx_governance_evidence cx,
            pe_reason_codes = sorted_set codes,
            pe_supportability = supportability_after_breach breach (cx_supportability cx)\<rparr>)"

definition response_from_evaluation ::
  "(scenario_request \<Rightarrow> string) \<Rightarrow> scenario_request \<Rightarrow> (engine_error, pack_response) result"
where
  "response_from_evaluation fingerprint r =
     bind_result (evaluate_scenario_pack_context r) (\<lambda>e.
       Inr \<lparr>pr_scenario_pack_id = sr_scenario_pack_id r, pr_portfolio_id = sr_portfolio_id r,
         pr_as_of_date = sr_as_of_date r,
         pr_worst_case_loss_pct = py_round6 (pe_worst_case_loss e),
         pr_maximum_allowed_loss_pct = sr_maximum_allowed_loss_pct r,
         pr_breach = pe_breach e, pr_scenario_results = pe_scenario_results e,
         pr_governance_evidence = pe_governance_evidence e, pr_reason_codes = pe_reason_codes e,
         pr_metadata =
           \<lparr>em_product_name = ''RegimeScenarioPackEvaluation'', em_product_version = ''v1'',
            em_source_service = ''lotus-risk'', em_source_services = [''lotus-risk''],
            em_correlation_id = None,
            em_lineage_version = ''risk-regime-scenario-pack-evaluation.v1'',
            em_request_fingerprint = fingerprint r,
            em_calculation_supportability = pe_supportability e\<rparr>\<rparr>)"

definition validate_position_contribution_row_bound ::
  "scenario_request \<Rightarrow> (engine_error, unit) result"
where
  "validate_position_contribution_row_bound r =
     (case map_of SCENARIO_PACKS (sr_scenario_pack_id r) of
        None \<Rightarrow> Inl (PackKeyError (sr_scenario_pack_id r))
      | Some pack \<Rightarrow>
          let scenario_count = length pack in
          if scenario_count = 0 then Inr ()
          else let max_components = SCENARIO_MAX_POSITION_CONTRIBUTION_ROWS div scenario_count in
            if max_components < length (sr_exposure_components r) then
              let returned_rows = length (sr_exposure_components r) * scenario_count in
              Inl (RowBound (''exposure_components would emit '' @ digits_of returned_rows
                @ '' position contribution rows across '' @ digits_of scenario_count
                @ '' scenarios; maximum returned rows is ''
                @ digits_of SCENARIO_MAX_POSITION_CONTRIBUTION_ROWS))
            else Inr ())"

definition evaluate_regime_scenario_pack ::
  "(scenario_request \<Rightarrow> string) \<Rightarrow> scenario_request \<Rightarrow> (engine_error, pack_response) result"
where
  "evaluate_regime_scenario_pack fingerprint r =
     (if map_of SCENARIO_PACKS (sr_scenario_pack_id r) = None
      then Inl (UnsupportedPack (''Unsupported scenario_pack_id: '' @ sr_scenario_pack_id r))
      else bind_result (validate_position_contribution_row_bound r) (\<lambda>_.
        response_from_evaluation fingerprint r))"

definition evaluate_large_regime_scenario_job ::
  "(scenario_request \<Rightarrow> string) \<Rightarrow> scenario_request \<Rightarrow> (engine_error, pack_response) result"
where
  "evaluate_large_regime_scenario_job fingerprint r =
     (if map_of SCENARIO_PACKS (sr_scenario_pack_id r) = None
      then Inl (UnsupportedPack (''Unsupported scenario_pack_id: '' @ sr_scenario_pack_id r))
      else response_from_evaluation fingerprint r)"

section \<open>Losses\<close>

lemma loss_of_nonneg [simp]: "0 \<le> loss_of w s"
  by (simp add: loss_of_def)

lemma loss_of_mono: "s \<le> 0 \<Longrightarrow> w \<le> v \<Longrightarrow> loss_of w s \<le> loss_of v s"
  using fmul_mono_right [of "- s" w v] by (simp add: loss_of_def fmul_minus max.coboundedI1)

lemma loss_of_le_1:
  assumes "0 \<le> w" "w \<le> 1" "- 1 \<le> s"
  shows "loss_of w s \<le> 1"
proof -
  have "w * - s \<le> 1"
  proof (cases "0 \<le> - s")
    case True
    with assms have "w * - s \<le> 1 * 1" by (intro mult_mono) auto
    then show ?thesis by simp
  next
    case False
    with assms have "w * - s \<le> 0" by (intro mult_nonneg_nonpos) auto
    then show ?thesis by simp
  qed
  then have "rnd (w * - s) \<le> 1" using rnd_mono [of "w * - s" 1] by simp
  then show ?thesis by (simp add: loss_of_def fmul_def)
qed

lemma scenario_loss_loop_sum:
  "scenario_loss s es = loop_sum (map (\<lambda>(b, w). loss_of w (shock_for s b)) es)"
  unfolding scenario_loss_def loop_sum_def foldl_map by (simp add: case_prod_unfold)

lemma scenario_loss_nonneg: "0 \<le> scenario_loss s es"
  unfolding scenario_loss_loop_sum by (rule loop_sum_nonneg) auto

lemma scenario_loss_mono:
  assumes "\<forall>b. shock_for s b \<le> 0" "list_all2 (\<lambda>x y. fst x = fst y \<and> snd x \<le> snd y) es fs"
  shows "scenario_loss s es \<le> scenario_loss s fs"
  unfolding scenario_loss_loop_sum
proof (rule loop_sum_mono)
  show "list_all2 (\<le>) (map (\<lambda>(b, w). loss_of w (shock_for s b)) es)
      (map (\<lambda>(b, w). loss_of w (shock_for s b)) fs)"
    using assms by (auto simp: list_all2_map1 list_all2_map2 case_prod_unfold
        elim!: list_all2_mono intro!: loss_of_mono)
qed

lemma loop_sum_le_length:
  assumes "\<forall>x\<in>set xs. x \<le> 1" "int (length xs) \<le> 2 ^ 53"
  shows "loop_sum xs \<le> of_nat (length xs)"
  using assms
proof (induction xs rule: rev_induct)
  case Nil
  then show ?case by (simp add: loop_sum_def)
next
  case (snoc x xs)
  then have "loop_sum xs + x \<le> of_int (int (length xs) + 1)" by (simp add: add_mono)
  then have "rnd (loop_sum xs + x) \<le> rnd (of_int (int (length xs) + 1))" by (rule rnd_mono)
  also have "\<dots> = of_int (int (length xs) + 1)" using snoc.prems by (intro rnd_of_int) auto
  finally show ?case by (simp add: loop_sum_def fadd_def)
qed

lemma foldl_max_ge: "(x :: f64) \<le> foldl max x xs"
  by (induction xs arbitrary: x) (auto intro: order_trans [OF max.cobounded1])

lemma foldl_max_bounds:
  fixes x :: f64
  shows "foldl max x xs \<in> set (x # xs)" "\<forall>y\<in>set (x # xs). y \<le> foldl max x xs"
proof -
  show "foldl max x xs \<in> set (x # xs)"
    by (induction xs arbitrary: x) (auto simp: max_def split: if_splits)
  have "\<forall>y\<in>set xs. y \<le> foldl max x xs"
    by (induction xs arbitrary: x) (auto intro: order_trans [OF max.cobounded2 foldl_max_ge])
  then show "\<forall>y\<in>set (x # xs). y \<le> foldl max x xs" by (simp add: foldl_max_ge)
qed

lemma py_max_upper: "y \<in> set xs \<Longrightarrow> y \<le> py_max xs"
  by (cases xs) (use foldl_max_bounds in auto)

lemma py_max_in: "xs \<noteq> [] \<Longrightarrow> py_max xs \<in> set xs"
  by (cases xs) (use foldl_max_bounds in auto)

lemma less_py_max_iff: "xs \<noteq> [] \<Longrightarrow> m < py_max xs \<longleftrightarrow> (\<exists>x\<in>set xs. m < x)"
  using py_max_in [of xs] py_max_upper [of _ xs] by force

section \<open>The governed packs\<close>

lemma pack_shocks:
  assumes "map_of SCENARIO_PACKS p = Some pack" "s \<in> set pack"
  shows "- 1 \<le> shock_for s b \<and> shock_for s b \<le> 0"
proof -
  have "0 \<le> flit q \<and> flit q \<le> 1" if "0 \<le> q" "q \<le> 1" for q
    using that rnd_mono [of q 1] rnd_nonneg [of q] by (simp add: flit_def)
  then show ?thesis
    using assms by (auto simp: SCENARIO_PACKS_def shock_for_def dict_get_def split: if_splits)
qed

lemma pack_nonempty: "map_of SCENARIO_PACKS p = Some pack \<Longrightarrow> pack \<noteq> []"
  by (auto simp: SCENARIO_PACKS_def split: if_splits)

lemma context_cases:
  "case map_of SCENARIO_PACKS (sr_scenario_pack_id r) of
     None \<Rightarrow> scenario_pack_context r = Inl (PackKeyError (sr_scenario_pack_id r))
   | Some pack \<Rightarrow> \<exists>cx. scenario_pack_context r = Inr cx \<and> cx_scenario_pack cx = pack \<and>
       cx_exposure_by_bucket cx = exposure_by_bucket r"
proof (cases "map_of SCENARIO_PACKS (sr_scenario_pack_id r)")
  case None
  then show ?thesis by (simp add: scenario_pack_context_def)
next
  case (Some pack)
  with governance_total [of "sr_scenario_pack_id r" "sr_portfolio_id r" "sr_as_of_date r"]
  obtain g where "evaluate_governance_evidence (sr_scenario_pack_id r) (sr_portfolio_id r)
      (sr_as_of_date r) = Some g"
    by auto
  with Some show ?thesis by (simp add: scenario_pack_context_def Let_def)
qed

lemma response_total:
  assumes "map_of SCENARIO_PACKS (sr_scenario_pack_id r) = Some pack"
  shows "\<exists>v. response_from_evaluation fp r = Inr v"
  using context_cases [of r] assms
  by (auto simp: response_from_evaluation_def evaluate_scenario_pack_context_def Let_def)

section \<open>Properties\<close>

lemma results_shape:
  assumes "map_of SCENARIO_PACKS (sr_scenario_pack_id r) = Some pack"
    and "response_from_evaluation fp r = Inr v"
  shows "pr_scenario_results v =
      map (\<lambda>s. evaluate_scenario s (exposure_by_bucket r) (sr_exposure_components r)) pack"
    and "pr_breach v \<longleftrightarrow> sr_maximum_allowed_loss_pct r
      < py_max (map sc_expected_loss_pct (pr_scenario_results v))"
    and "pr_worst_case_loss_pct v
      = py_round6 (py_max (map sc_expected_loss_pct (pr_scenario_results v)))"
  using assms context_cases [of r]
  by (auto simp: response_from_evaluation_def evaluate_scenario_pack_context_def Let_def
      result_simps scenario_results_def)

lemma large_is_response:
  "evaluate_large_regime_scenario_job fp r = Inr v \<longleftrightarrow>
     (\<exists>pack. map_of SCENARIO_PACKS (sr_scenario_pack_id r) = Some pack) \<and>
     response_from_evaluation fp r = Inr v"
  by (auto simp: evaluate_large_regime_scenario_job_def)

lemma contributions_length [simp]: "length (evaluate_position_contributions s cs) = length cs"
  by (simp add: evaluate_position_contributions_def)

lemma row_bound_cases:
  assumes "map_of SCENARIO_PACKS (sr_scenario_pack_id r) = Some pack"
  shows "if 250 div length pack < length (sr_exposure_components r)
    then \<exists>m. validate_position_contribution_row_bound r = Inl (RowBound m)
    else validate_position_contribution_row_bound r = Inr ()"
  using assms pack_nonempty [OF assms]
  by (simp add: validate_position_contribution_row_bound_def Let_def
      SCENARIO_MAX_POSITION_CONTRIBUTION_ROWS_def SCENARIO_MAX_EXPOSURE_COMPONENTS_def)

text \<open>Synchronous evaluation answers every request: an unknown pack and an input that would
  emit more than 250 contribution rows are refused with their own error, everything else is
  evaluated, and a response never carries more than 250 rows.  The lookups of the pack and of
  its governance never fail.\<close>

theorem synchronous_outcome:
  "case map_of SCENARIO_PACKS (sr_scenario_pack_id r) of
     None \<Rightarrow> evaluate_regime_scenario_pack fp r
       = Inl (UnsupportedPack (''Unsupported scenario_pack_id: '' @ sr_scenario_pack_id r))
   | Some pack \<Rightarrow>
       (if 250 div length pack < length (sr_exposure_components r)
        then \<exists>m. evaluate_regime_scenario_pack fp r = Inl (RowBound m)
        else \<exists>v. evaluate_regime_scenario_pack fp r = Inr v \<and>
          sum_list (map (\<lambda>s. length (sc_position_contributions s)) (pr_scenario_results v)) \<le> 250)"
proof (cases "map_of SCENARIO_PACKS (sr_scenario_pack_id r)")
  case None
  then show ?thesis by (simp add: evaluate_regime_scenario_pack_def)
next
  case (Some pack)
  obtain v where v: "response_from_evaluation fp r = Inr v" using response_total [OF Some] by blast
  have "sum_list (map (\<lambda>s. length (sc_position_contributions s)) (pr_scenario_results v))
      = length pack * length (sr_exposure_components r)"
    by (simp add: results_shape(1) [OF Some v] evaluate_scenario_def comp_def sum_list_triv)
  moreover have "length pack * length (sr_exposure_components r) \<le> 250"
    if "\<not> 250 div length pack < length (sr_exposure_components r)"
    using mult_le_mono2 [of "length (sr_exposure_components r)" "250 div length pack" "length pack"]
      that times_div_less_eq_dividend [of "length pack" 250] by linarith
  ultimately show ?thesis
    using Some row_bound_cases [OF Some] v
    by (auto simp: evaluate_regime_scenario_pack_def split: if_splits)
qed

text \<open>The durable-job evaluation and the synchronous one return the same response whenever
  the synchronous one returns one; the job only lifts the row bound.\<close>

theorem job_evaluation_extends_synchronous:
  "evaluate_regime_scenario_pack fp r =
     (case map_of SCENARIO_PACKS (sr_scenario_pack_id r) of
        None \<Rightarrow> evaluate_large_regime_scenario_job fp r
      | Some pack \<Rightarrow>
          if 250 div length pack < length (sr_exposure_components r)
          then bind_result (validate_position_contribution_row_bound r)
            (\<lambda>_. evaluate_large_regime_scenario_job fp r)
          else evaluate_large_regime_scenario_job fp r)"
proof (cases "map_of SCENARIO_PACKS (sr_scenario_pack_id r)")
  case None
  then show ?thesis
    by (simp add: evaluate_regime_scenario_pack_def evaluate_large_regime_scenario_job_def)
next
  case (Some pack)
  with row_bound_cases [OF Some] show ?thesis
    by (auto simp: evaluate_regime_scenario_pack_def evaluate_large_regime_scenario_job_def
        split: if_splits)
qed

lemma pack_loss_bounds:
  assumes "accepted_request n r" "map_of SCENARIO_PACKS p = Some pack" "s \<in> set pack"
  shows "0 \<le> scenario_loss s (exposure_by_bucket r)" "scenario_loss s (exposure_by_bucket r) \<le> 16"
proof -
  show "0 \<le> scenario_loss s (exposure_by_bucket r)" by (rule scenario_loss_nonneg)
  let ?ls = "map (\<lambda>e. loss_of (se_weight e) (shock_for s (py_upper (se_bucket e)))) (sr_exposures r)"
  note b = accepted_bounds [OF assms(1)]
  have "scenario_loss s (exposure_by_bucket r) = loop_sum ?ls"
    by (simp add: scenario_loss_loop_sum accepted_exposures [OF assms(1)] comp_def)
  also have "\<dots> \<le> of_nat (length ?ls)"
    using b pack_shocks [OF assms(2,3)] by (intro loop_sum_le_length) (auto intro!: loss_of_le_1)
  also have "\<dots> \<le> 16" using b by simp
  finally show "scenario_loss s (exposure_by_bucket r) \<le> 16" .
qed

lemma py_round6_le_16: "0 \<le> x \<Longrightarrow> x \<le> 16 \<Longrightarrow> py_round6 (py_round6 x) = py_round6 x"
  by (rule py_round6_idem) simp

text \<open>For an admitted request the reported worst-case loss is exactly the largest scenario
  loss in the response, every scenario loss is non-negative, and the breach flag is set exactly
  when some scenario loses more than the consumer's threshold; the second rounding changes
  nothing.\<close>

theorem worst_case_loss_is_maximum:
  assumes "accepted_request n r" "evaluate_large_regime_scenario_job fp r = Inr v"
  shows "(\<exists>s\<in>set (pr_scenario_results v). sc_expected_loss_pct s = pr_worst_case_loss_pct v) \<and>
    (\<forall>s\<in>set (pr_scenario_results v). 0 \<le> sc_expected_loss_pct s \<and>
       sc_expected_loss_pct s \<le> pr_worst_case_loss_pct v) \<and>
    (pr_breach v \<longleftrightarrow> (\<exists>s\<in>set (pr_scenario_results v).
       sr_maximum_allowed_loss_pct r < sc_expected_loss_pct s))"
proof -
  from assms(2) obtain pack where pack: "map_of SCENARIO_PACKS (sr_scenario_pack_id r) = Some pack"
    and v: "response_from_evaluation fp r = Inr v"
    by (auto simp: large_is_response)
  let ?ls = "map sc_expected_loss_pct (pr_scenario_results v)"
  have nonempty: "?ls \<noteq> []"
    using pack_nonempty [OF pack] by (simp add: results_shape(1) [OF pack v])
  have each: "0 \<le> x \<and> py_round6 x = x" if "x \<in> set ?ls" for x
  proof -
    from that obtain s where s: "s \<in> set pack" "x = py_round6 (scenario_loss s (exposure_by_bucket r))"
      by (auto simp: results_shape(1) [OF pack v] evaluate_scenario_def)
    from pack_loss_bounds [OF assms(1) pack s(1)] show ?thesis
      unfolding s(2) by (simp add: py_round6_le_16 py_round6_nonneg)
  qed
  have worst: "pr_worst_case_loss_pct v = py_max ?ls"
    using each [OF py_max_in [OF nonempty]] by (simp add: results_shape(3) [OF pack v])
  show ?thesis
    using py_max_in [OF nonempty] py_max_upper [of _ ?ls] each
      less_py_max_iff [OF nonempty, of "sr_maximum_allowed_loss_pct r"]
    by (auto simp: worst results_shape(2) [OF pack v])
qed

text \<open>In every governed scenario, more exposure to a bucket never lowers the loss: with the
  same buckets and no smaller weights the loss before and after rounding is no smaller, and no
  exposure to a shocked bucket loses exactly nothing.\<close>

theorem scenario_loss_monotone:
  assumes "map_of SCENARIO_PACKS p = Some pack" "s \<in> set pack"
    and "list_all2 (\<lambda>x y. fst x = fst y \<and> snd x \<le> snd y) es fs"
  shows "sc_expected_loss_pct (evaluate_scenario s es cs) \<le> sc_expected_loss_pct (evaluate_scenario s fs ds)
    \<and> ((\<forall>(b, w)\<in>set es. shock_for s b = 0 \<or> w = 0) \<longrightarrow>
        sc_expected_loss_pct (evaluate_scenario s es cs) = 0)"
proof -
  have "scenario_loss s es \<le> scenario_loss s fs"
    using pack_shocks [OF assms(1,2)] assms(3) by (intro scenario_loss_mono) auto
  moreover have "scenario_loss s es = 0" if "\<forall>(b, w)\<in>set es. shock_for s b = 0 \<or> w = 0"
    unfolding scenario_loss_loop_sum
    by (rule loop_sum_zeros) (use that in \<open>auto simp: loss_of_def\<close>)
  ultimately show ?thesis by (simp add: evaluate_scenario_def py_round6_mono)
qed

text \<open>The contribution rows of a scenario are exactly one row per submitted component,
  with that component's weight and upper-case bucket and a non-negative loss, ordered by
  falling loss, then bucket, then security.\<close>

theorem contributions_are_components:
  "mset (evaluate_position_contributions s cs) = image_mset (component_contribution s) (mset cs) \<and>
   sorted (map contribution_key (evaluate_position_contributions s cs)) \<and>
   (\<forall>row\<in>set (evaluate_position_contributions s cs). 0 \<le> pc_contribution_loss_pct row \<and>
      (\<exists>c\<in>set cs. pc_security_id row = ec_security_id c \<and> pc_bucket row = py_upper (ec_bucket c) \<and>
        pc_weight row = ec_weight c))"
  by (auto simp: evaluate_position_contributions_def component_contribution_def Let_def
      py_round6_nonneg)

text \<open>A response is labelled ready only when nothing qualifies it: the posture is ready
  exactly when every bucket is supported, the pack's governance is ready for that portfolio and
  date, and the threshold is not breached; unsupported buckets never leave it better than
  degraded.\<close>

theorem response_ready_iff:
  assumes "evaluate_large_regime_scenario_job fp r = Inr v"
    and "evaluate_governance_evidence (sr_scenario_pack_id r) (sr_portfolio_id r) (sr_as_of_date r)
      = Some g"
  shows "(em_calculation_supportability (pr_metadata v) = Ready \<longleftrightarrow>
      set (dict_keys (exposure_by_bucket r)) \<subseteq> set SUPPORTED_BUCKETS \<and>
      gv_supportability g = Ready \<and> \<not> pr_breach v) \<and>
    severity (if set (dict_keys (exposure_by_bucket r)) \<subseteq> set SUPPORTED_BUCKETS then Ready
      else Degraded) \<le> severity (em_calculation_supportability (pr_metadata v)) \<and>
    severity (gv_supportability g) \<le> severity (em_calculation_supportability (pr_metadata v))"
proof -
  let ?s0 = "if set (dict_keys (exposure_by_bucket r)) \<subseteq> set SUPPORTED_BUCKETS then Ready else Degraded"
  have "em_calculation_supportability (pr_metadata v)
      = supportability_after_breach (pr_breach v) (most_severe_supportability ?s0 (gv_supportability g))"
    using assms
    by (auto simp: large_is_response response_from_evaluation_def evaluate_scenario_pack_context_def
        scenario_pack_context_def Let_def result_simps sorted_diff_Nil_iff split: if_splits)
  moreover have "severity s \<le> severity (supportability_after_breach b s)" for b s
    by (simp add: supportability_after_breach_def)
  ultimately show ?thesis
    using support.join_bottom [of Ready ?s0 "gv_supportability g"]
    by (auto simp: supportability_after_breach_def support.severity_join_max)
qed

section \<open>A concrete request\<close>

definition sample_request :: scenario_request where
  "sample_request =
     \<lparr>sr_scenario_pack_id = ''CIO_REGIME_2026_Q2'',
      sr_portfolio_id = Some ''PB_SG_GLOBAL_BAL_001'',
      sr_as_of_date = Date 2026 5 3,
      sr_exposures = [\<lparr>se_bucket = ''equity'', se_weight = flit (55 / 100)\<rparr>,
        \<lparr>se_bucket = ''FIXED_INCOME'', se_weight = flit (35 / 100)\<rparr>,
        \<lparr>se_bucket = ''CASH'', se_weight = flit (1 / 10)\<rparr>],
      sr_exposure_components = [],
      sr_maximum_allowed_loss_pct = flit (12 / 100)\<rparr>"

definition sample_components :: "exposure_component list" where
  "sample_components =
     [\<lparr>ec_security_id = ''FO_BD_1'', ec_display_name = None, ec_bucket = ''fixed_income'',
       ec_weight = flit (35 / 100)\<rparr>,
      \<lparr>ec_security_id = ''FO_EQ_1'', ec_display_name = Some ''Apple Inc.'', ec_bucket = ''EQUITY'',
       ec_weight = flit (55 / 100)\<rparr>]"

lemma sample_pack:
  "\<exists>pack s ss. map_of SCENARIO_PACKS ''CIO_REGIME_2026_Q2'' = Some pack \<and> pack = s # ss"
  by (simp add: SCENARIO_PACKS_def)

lemma sample_accepted: "accepted_request 1000 sample_request"
  by code_simp

lemma sample_evaluates: "\<exists>v. evaluate_large_regime_scenario_job (\<lambda>_. ''fp'') sample_request = Inr v"
  using response_total [of sample_request] sample_pack
  by (auto simp: large_is_response sample_request_def)

theorem worst_case_loss_witness:
  "\<exists>v. evaluate_large_regime_scenario_job (\<lambda>_. ''fp'') sample_request = Inr v \<and>
     pr_worst_case_loss_pct v \<in> sc_expected_loss_pct ` set (pr_scenario_results v)"
proof -
  obtain v where v: "evaluate_large_regime_scenario_job (\<lambda>_. ''fp'') sample_request = Inr v"
    using sample_evaluates by blast
  from worst_case_loss_is_maximum [OF sample_accepted v] v show ?thesis by force
qed

theorem scenario_loss_monotone_witness:
  "\<exists>s\<in>set (the (map_of SCENARIO_PACKS ''CIO_REGIME_2026_Q2'')).
     sc_expected_loss_pct (evaluate_scenario s [(''EQUITY'', 0)] []) = 0 \<and>
     sc_expected_loss_pct (evaluate_scenario s [(''EQUITY'', 0)] [])
       \<le> sc_expected_loss_pct (evaluate_scenario s [(''EQUITY'', flit (1 / 2))] [])"
proof -
  obtain pack s ss where p: "map_of SCENARIO_PACKS ''CIO_REGIME_2026_Q2'' = Some pack"
    and s: "pack = s # ss"
    using sample_pack by blast
  have "list_all2 (\<lambda>x y. fst x = fst y \<and> snd x \<le> snd y) [(''EQUITY'', 0)]
      [(''EQUITY'', flit (1 / 2))]"
    using rnd_nonneg [of "1 / 2"] by (simp add: flit_def)
  from scenario_loss_monotone [OF p _ this, of s "[]" "[]"] s
  have "sc_expected_loss_pct (evaluate_scenario s [(''EQUITY'', 0)] [])
      \<le> sc_expected_loss_pct (evaluate_scenario s [(''EQUITY'', flit (1 / 2))] [])" by simp
  then show ?thesis
    using p s by (auto simp: evaluate_scenario_def scenario_loss_def loss_of_def)
qed

theorem contributions_are_components_witness:
  "\<exists>s\<in>set (the (map_of SCENARIO_PACKS ''CIO_REGIME_2026_Q2'')).
     size (mset (evaluate_position_contributions s sample_components)) = 2 \<and>
     sorted (map contribution_key (evaluate_position_contributions s sample_components))"
proof -
  obtain pack s ss where p: "map_of SCENARIO_PACKS ''CIO_REGIME_2026_Q2'' = Some pack"
    and s: "pack = s # ss"
    using sample_pack by blast
  have "size (mset (evaluate_position_contributions s sample_components)) = 2 \<and>
      sorted (map contribution_key (evaluate_position_contributions s sample_components))"
    using contributions_are_components [of s sample_components]
    by (simp add: sample_components_def)
  with p s show ?thesis by auto
qed

theorem response_ready_witness:
  "\<exists>v. evaluate_large_regime_scenario_job (\<lambda>_. ''fp'') sample_request = Inr v \<and>
     (em_calculation_supportability (pr_metadata v) = Ready \<longleftrightarrow> \<not> pr_breach v)"
proof -
  obtain v where v: "evaluate_large_regime_scenario_job (\<lambda>_. ''fp'') sample_request = Inr v"
    using sample_evaluates by blast
  have g: "\<exists>g. evaluate_governance_evidence (sr_scenario_pack_id sample_request)
      (sr_portfolio_id sample_request) (sr_as_of_date sample_request) = Some g \<and>
      gv_supportability g = Ready"
    by (simp add: sample_request_def evaluate_governance_evidence_def SCENARIO_PACK_GOVERNANCE_def
        decide_cio_approval_def decide_effective_period_def decide_portfolio_applicability_def
        less_date_def most_severe_supportability_def Let_def)
  have b: "set (dict_keys (exposure_by_bucket sample_request)) \<subseteq> set SUPPORTED_BUCKETS"
    by (simp add: keys_exposure_by_bucket) (simp add: sample_request_def SUPPORTED_BUCKETS_def,
      code_simp)
  from g obtain g where "evaluate_governance_evidence (sr_scenario_pack_id sample_request)
      (sr_portfolio_id sample_request) (sr_as_of_date sample_request) = Some g"
    and "gv_supportability g = Ready"
    by blast
  with response_ready_iff [OF v, of g] b v show ?thesis by auto
qed

end
