(* ===== verification/JobWorker.thy ===== *)
theory JobWorker
  imports Main JobStore ScenarioEngine
begin

text \<open>
  The scenario-job worker (scenario_jobs/worker.py) and the revision of a pack
  (scenario_jobs/identity.py).  What json, pydantic's typing and SHA-256 compute is a parameter:
  \<open>decode\<close> reads the persisted request (\<open>None\<close> when it raises), \<open>encode\<close> serialises a result,
  \<open>fingerprint\<close> is the digest of a request and \<open>digest\<close> of a canonical pack; the field bounds
  and the validator of the request contract are the model's own.  Processing a job is two
  transactions, and \<open>others\<close> is what everybody else commits between them.
\<close>

section \<open>Pack revisions\<close>

definition canonical_pack ::
  "scenario_definition list \<Rightarrow> (string \<times> string \<times> (string, f64) dict) list"
where
  "canonical_pack pack = map (\<lambda>s. (sd_scenario_id s, sd_display_name s,
     dict_of_items (sort_key fst (sd_shock_by_bucket s)))) pack"

type_synonym digest = "(string \<times> string \<times> (string, f64) dict) list \<Rightarrow> string"

text \<open>\<open>None\<close> is the \<open>KeyError\<close> of an unknown pack.\<close>

definition scenario_pack_revision :: "digest \<Rightarrow> string \<Rightarrow> string option" where
  "scenario_pack_revision digest pack_id =
     map_option (\<lambda>pack. ''sha256:'' @ digest (canonical_pack pack)) (map_of SCENARIO_PACKS pack_id)"

section \<open>Evaluating a claim\<close>

datatype claim_verdict =
  Publish pack_response | Qualified string | InvalidInput

definition evaluate_immutable_request ::
  "(string \<Rightarrow> scenario_request option) \<Rightarrow> digest \<Rightarrow> (scenario_request \<Rightarrow> string) \<Rightarrow> job \<Rightarrow> claim_verdict"
where
  "evaluate_immutable_request decode digest fingerprint claim =
     (case decode (jb_immutable_request_json claim) of
        None \<Rightarrow> InvalidInput
      | Some raw \<Rightarrow>
     (case validate_job_request raw of
        Inl _ \<Rightarrow> InvalidInput
      | Inr request \<Rightarrow>
     (case scenario_pack_revision digest (sr_scenario_pack_id request) of
        None \<Rightarrow> InvalidInput
      | Some revision \<Rightarrow>
          if revision \<noteq> jb_scenario_pack_revision claim
          then Qualified ''SCENARIO_PACK_REVISION_UNAVAILABLE''
          else (case evaluate_large_regime_scenario_job fingerprint request of
                  Inl _ \<Rightarrow> InvalidInput
                | Inr evaluation \<Rightarrow> Publish evaluation))))"

definition aggregate_result :: "pack_response \<Rightarrow> pack_response" where
  "aggregate_result v = v\<lparr>pr_scenario_results :=
     map (\<lambda>s. s\<lparr>sc_position_contributions := []\<rparr>) (pr_scenario_results v)\<rparr>"

definition contribution_records :: "string \<Rightarrow> pack_response \<Rightarrow> contribution list" where
  "contribution_records job_id v =
     concat (map (\<lambda>s. map (\<lambda>(ordinal, c).
         \<lparr>cr_job_id = job_id, cr_scenario_id = sc_scenario_id s, cr_ordinal = ordinal,
          cr_security_id = pc_security_id c, cr_display_name = pc_display_name c,
          cr_bucket = pc_bucket c, cr_weight = pc_weight c, cr_shock_pct = pc_shock_pct c,
          cr_contribution_loss_pct = pc_contribution_loss_pct c\<rparr>)
       (List.enumerate 0 (sc_position_contributions s))) (pr_scenario_results v))"

datatype execution_outcome =
  Idle | OSucceeded | StaleClaim | QualifiedFailure | OInvalidInput | RetryableError

definition INVALID_INPUT_CODE :: string where
  "INVALID_INPUT_CODE = ''SCENARIO_EVALUATION_INVALID_INPUT''"

definition INVALID_INPUT_DETAIL :: string where
  "INVALID_INPUT_DETAIL = ''Persisted scenario job input could not be evaluated.''"

definition record_claim_failure ::
  "job \<Rightarrow> string \<Rightarrow> instant \<Rightarrow> string \<Rightarrow> string \<Rightarrow> execution_outcome \<Rightarrow> job_db \<Rightarrow>
     execution_outcome \<times> job_db"
where
  "record_claim_failure claim token failed_at code detail terminal_outcome db =
     (let (failed, db') = fail_claim (jb_job_id claim) token code detail failed_at db in
      (if failed then terminal_outcome else StaleClaim, db'))"

text \<open>
  The second transaction.  Only the database's own refusal of the rows leaves the worker as an exception,
  with the outcome still \<open>retryable_error\<close>; its \<open>ValueError\<close> is an invalid input.
\<close>

definition finish_claim ::
  "(pack_response \<Rightarrow> string) \<Rightarrow> job \<Rightarrow> string \<Rightarrow> claim_verdict \<Rightarrow> instant \<Rightarrow> instant \<Rightarrow> job_db \<Rightarrow>
     execution_outcome \<times> job_db"
where
  "finish_claim encode claim token verdict completed_at failed_at db =
     (case verdict of
        Publish v \<Rightarrow>
          (case complete_claim (jb_job_id claim) token (encode (aggregate_result v))
                  (contribution_records (jb_job_id claim) v) completed_at db of
             (Inr completed, db') \<Rightarrow> (if completed then OSucceeded else StaleClaim, db')
           | (Inl ContributionRejected, db') \<Rightarrow> (RetryableError, db')
           | (Inl _, db') \<Rightarrow>
               record_claim_failure claim token failed_at INVALID_INPUT_CODE INVALID_INPUT_DETAIL
                 OInvalidInput db')
      | Qualified code \<Rightarrow>
          record_claim_failure claim token failed_at code code QualifiedFailure db
      | InvalidInput \<Rightarrow>
          record_claim_failure claim token failed_at INVALID_INPUT_CODE INVALID_INPUT_DETAIL
            OInvalidInput db)"

datatype worker_error = LeaseSecondsNotPositive | StoreRaised

text \<open>The microseconds of \<open>timedelta(seconds = n)\<close>.\<close>

definition seconds :: "int \<Rightarrow> int" where
  "seconds n = n * 10 ^ 6"

record worker_env =
  we_decode :: "string \<Rightarrow> scenario_request option"
  we_encode :: "pack_response \<Rightarrow> string"
  we_digest :: digest
  we_fingerprint :: "scenario_request \<Rightarrow> string"

text \<open>
  One invocation: the recorded outcome, the value returned or error raised, the database.
  The clock readings of the second transaction are \<open>completed_at\<close> and \<open>failed_at\<close>.
\<close>

definition process_one_scenario_job ::
  "worker_env \<Rightarrow> instant \<Rightarrow> int \<Rightarrow> string \<Rightarrow> string list \<Rightarrow> (job_db \<Rightarrow> job_db) \<Rightarrow>
     instant \<Rightarrow> instant \<Rightarrow> job_db \<Rightarrow>
     (execution_outcome option \<times> (worker_error, string option) result) \<times> job_db"
where
  "process_one_scenario_job env claimed_at lease_seconds new_token locked others completed_at
     failed_at db =
     (if lease_seconds \<le> 0 then ((None, Inl LeaseSecondsNotPositive), db)
      else case claim_next claimed_at (claimed_at + seconds lease_seconds) new_token locked db of
        (Inl _, db') \<Rightarrow> ((Some RetryableError, Inl StoreRaised), db')
      | (Inr None, db') \<Rightarrow> ((Some Idle, Inr None), db')
      | (Inr (Some claim), db') \<Rightarrow>
          (let verdict = evaluate_immutable_request (we_decode env) (we_digest env)
                 (we_fingerprint env) claim;
               (outcome, db'') = finish_claim (we_encode env) claim new_token verdict completed_at
                 failed_at (others db')
           in ((Some outcome,
                if outcome = RetryableError then Inl StoreRaised else Inr (Some (jb_job_id claim))),
               db'')))"

definition cleanup_expired_scenario_jobs ::
  "instant \<Rightarrow> int \<Rightarrow> string list \<Rightarrow> job_db \<Rightarrow> (store_value_error, nat) result \<times> job_db"
where
  "cleanup_expired_scenario_jobs now limit locked db = delete_expired now limit locked db"

text \<open>The default lease, and argparse's \<open>_positive_int\<close> on an already parsed integer.\<close>

definition DEFAULT_LEASE_SECONDS :: int where
  "DEFAULT_LEASE_SECONDS = 300"

definition positive_int :: "int \<Rightarrow> int option" where
  "positive_int parsed = (if parsed \<le> 0 then None else Some parsed)"

section \<open>Contribution rows\<close>

lemma contribution_records_job: "c \<in> set (contribution_records i v) \<Longrightarrow> cr_job_id c = i"
  by (auto simp: contribution_records_def)

lemma contribution_records_scenario:
  "cr_scenario_id ` set (contribution_records i v) \<subseteq> sc_scenario_id ` set (pr_scenario_results v)"
  by (auto simp: contribution_records_def)

lemma distinct_one_scenario:
  "distinct (map contribution_pk (map (\<lambda>(n, c). f n c) (List.enumerate 0 cs)))"
  if "\<And>n c. contribution_pk (f n c) = (i, s, n)"
proof -
  have "map contribution_pk (map (\<lambda>(n, c). f n c) (List.enumerate 0 cs)) =
      map (\<lambda>p. (i, s, fst p)) (List.enumerate 0 cs)"
    by (simp add: that case_prod_unfold)
  then show ?thesis
    by (auto simp: distinct_map inj_on_def in_set_enumerate_eq simp del: map_map)
qed

lemma contribution_records_append:
  "pr_scenario_results v = rs @ qs \<Longrightarrow>
     contribution_records i v =
       contribution_records i (v\<lparr>pr_scenario_results := rs\<rparr>) @
       contribution_records i (v\<lparr>pr_scenario_results := qs\<rparr>)"
  by (simp add: contribution_records_def)

lemma distinct_contribution_records:
  "distinct (map sc_scenario_id (pr_scenario_results v)) \<Longrightarrow>
     distinct (map contribution_pk (contribution_records i v))"
proof (induction "pr_scenario_results v" arbitrary: v)
  case Nil
  then show ?case by (simp add: contribution_records_def)
next
  case (Cons s ss)
  let ?w = "v\<lparr>pr_scenario_results := ss\<rparr>" and ?u = "v\<lparr>pr_scenario_results := [s]\<rparr>"
  have split: "contribution_records i v = contribution_records i ?u @ contribution_records i ?w"
    using Cons.hyps(2) contribution_records_append [of v "[s]" ss i] by simp
  have 1: "distinct (map contribution_pk (contribution_records i ?w))"
    using Cons.hyps(1) [of ?w] Cons.prems Cons.hyps(2) [symmetric] by simp
  have 2: "distinct (map contribution_pk (contribution_records i ?u))"
    unfolding contribution_records_def
    by (simp add: distinct_one_scenario [where i = i and s = "sc_scenario_id s"] contribution_pk_def
        del: map_map)
  have "cr_scenario_id c \<noteq> cr_scenario_id d"
    if "c \<in> set (contribution_records i ?u)" "d \<in> set (contribution_records i ?w)" for c d
  proof -
    have "cr_scenario_id c = sc_scenario_id s"
      using subsetD [OF contribution_records_scenario imageI [OF that(1)]] by simp
    moreover have "cr_scenario_id d \<in> sc_scenario_id ` set ss"
      using subsetD [OF contribution_records_scenario imageI [OF that(2)]] by simp
    ultimately show ?thesis using Cons.prems Cons.hyps(2) [symmetric] by auto
  qed
  then show ?case
    using 1 2 by (auto simp: split contribution_pk_def)
qed

section \<open>The verdict\<close>

lemma pack_ids_distinct:
  "map_of SCENARIO_PACKS p = Some pack \<Longrightarrow> distinct (map sd_scenario_id pack)"
  by (auto simp: SCENARIO_PACKS_def split: if_splits)

lemma evaluation_scenario_ids:
  assumes "evaluate_large_regime_scenario_job fp r = Inr v"
  shows "distinct (map sc_scenario_id (pr_scenario_results v))"
proof -
  from assms obtain pack where pack: "map_of SCENARIO_PACKS (sr_scenario_pack_id r) = Some pack"
    and v: "response_from_evaluation fp r = Inr v"
    by (auto simp: evaluate_large_regime_scenario_job_def split: if_splits)
  from context_cases [of r] pack obtain cx where
    cx: "scenario_pack_context r = Inr cx" "cx_scenario_pack cx = pack" by auto
  have "pr_scenario_results v = scenario_results cx (sr_exposure_components r)"
    using v by (auto simp: response_from_evaluation_def evaluate_scenario_pack_context_def cx(1) Let_def)
  then have "map sc_scenario_id (pr_scenario_results v) = map sd_scenario_id pack"
    by (simp add: scenario_results_def cx(2) evaluate_scenario_def comp_def)
  then show ?thesis using pack_ids_distinct [OF pack] by simp
qed

lemma verdict_Publish_iff:
  "evaluate_immutable_request decode digest fp claim = Publish v \<longleftrightarrow>
     (\<exists>r. decode (jb_immutable_request_json claim) = Some r \<and> validate_job_request r = Inr r \<and>
        scenario_pack_revision digest (sr_scenario_pack_id r) = Some (jb_scenario_pack_revision claim) \<and>
        evaluate_large_regime_scenario_job fp r = Inr v)"
  by (auto simp: evaluate_immutable_request_def validate_job_request_def result_simps
      split: option.splits sum.splits)

lemma verdict_ids:
  "evaluate_immutable_request decode digest fp claim = Publish v \<Longrightarrow>
     distinct (map sc_scenario_id (pr_scenario_results v))"
  by (auto simp: verdict_Publish_iff dest: evaluation_scenario_ids)

section \<open>The second transaction\<close>

lemma fail_claim_held:
  assumes "find_job db i = Some j" "holds_claim token j"
  shows "fail_claim i token code detail ts db = (True, update_job i (mark_failed code detail ts) db)"
  using assms by (simp add: fail_claim_def)

lemma no_contributions_while_running:
  assumes "db_inv db" "find_job db i = Some j" "jb_status j \<noteq> Succeeded"
  shows "i \<notin> cr_job_id ` set (db_contributions db)"
  using assms succeeded_ids_find [OF assms(1), of i] by (auto simp: db_inv_def)

lemma complete_claim_held:
  assumes inv: "db_inv db" and j: "find_job db i = Some j" "holds_claim token j"
    and ids: "distinct (map sc_scenario_id (pr_scenario_results v))"
    and fit: "list_all contribution_columns_fit (contribution_records i v)"
  shows "complete_claim i token res (contribution_records i v) ts db =
     (Inr True, update_job i (mark_succeeded res ts)
        (db\<lparr>db_contributions := db_contributions db @ contribution_records i v\<rparr>))"
proof -
  have "i \<notin> cr_job_id ` set (db_contributions db)"
    using no_contributions_while_running [OF inv j(1)] j(2) by (simp add: holds_claim_def)
  then have "contribution_pk ` set (db_contributions db) \<inter>
      contribution_pk ` set (contribution_records i v) = {}"
    using contribution_records_job [of _ i v] by (force simp: contribution_pk_def)
  then have "distinct (map contribution_pk (db_contributions db @ contribution_records i v))"
    using inv distinct_contribution_records [OF ids, of i] by (auto simp: db_inv_def)
  moreover have "\<not> (\<exists>c\<in>set (contribution_records i v). cr_job_id c \<noteq> i)"
    by (auto dest: contribution_records_job)
  ultimately show ?thesis
    using j fit by (simp add: complete_claim_def add_contributions_def)
qed

lemma complete_claim_unstorable:
  assumes "\<not> list_all contribution_columns_fit (contribution_records i v)"
    and "find_job db i = Some j" "holds_claim token j"
  shows "complete_claim i token res (contribution_records i v) ts db = (Inl ContributionRejected, db)"
proof -
  have "\<not> (\<exists>c\<in>set (contribution_records i v). cr_job_id c \<noteq> i)"
    by (auto dest: contribution_records_job)
  then show ?thesis using assms by (simp add: complete_claim_def add_contributions_def)
qed

text \<open>How a verdict resolves the row that holds the claim.\<close>

definition resolved_row :: "(pack_response \<Rightarrow> string) \<Rightarrow> claim_verdict \<Rightarrow> instant \<Rightarrow> instant \<Rightarrow> job \<Rightarrow> job" where
  "resolved_row encode verdict completed_at failed_at j =
     (case verdict of
        Publish v \<Rightarrow> mark_succeeded (encode (aggregate_result v)) completed_at j
      | Qualified code \<Rightarrow> mark_failed code code failed_at j
      | InvalidInput \<Rightarrow> mark_failed INVALID_INPUT_CODE INVALID_INPUT_DETAIL failed_at j)"

definition verdict_outcome :: "claim_verdict \<Rightarrow> execution_outcome" where
  "verdict_outcome verdict = (case verdict of
     Publish _ \<Rightarrow> OSucceeded | Qualified _ \<Rightarrow> QualifiedFailure | InvalidInput \<Rightarrow> OInvalidInput)"

definition verdict_rows :: "string \<Rightarrow> claim_verdict \<Rightarrow> contribution list" where
  "verdict_rows job_id verdict = (case verdict of
     Publish v \<Rightarrow> contribution_records job_id v | _ \<Rightarrow> [])"

definition verdict_ok :: "claim_verdict \<Rightarrow> bool" where
  "verdict_ok verdict = (case verdict of
     Publish v \<Rightarrow> distinct (map sc_scenario_id (pr_scenario_results v)) | _ \<Rightarrow> True)"

text \<open>Whether the rows of a verdict fit the columns they are published in.\<close>

definition storable :: "string \<Rightarrow> claim_verdict \<Rightarrow> bool" where
  "storable job_id verdict \<longleftrightarrow> list_all contribution_columns_fit (verdict_rows job_id verdict)"

lemma verdict_ok_evaluated [simp]: "verdict_ok (evaluate_immutable_request decode digest fp claim)"
  by (auto simp: verdict_ok_def split: claim_verdict.splits dest: verdict_ids)

lemma finish_claim_held:
  assumes "db_inv db" "find_job db (jb_job_id claim) = Some j" "holds_claim token j"
    and "verdict_ok verdict" "storable (jb_job_id claim) verdict"
  shows "finish_claim encode claim token verdict completed_at failed_at db =
     (verdict_outcome verdict,
      update_job (jb_job_id claim) (resolved_row encode verdict completed_at failed_at)
        (db\<lparr>db_contributions := db_contributions db @ verdict_rows (jb_job_id claim) verdict\<rparr>))"
proof (cases verdict)
  case (Publish v)
  then show ?thesis
    using complete_claim_held [OF assms(1-3)] assms(4,5)
    by (simp add: finish_claim_def verdict_ok_def verdict_outcome_def resolved_row_def [abs_def]
        verdict_rows_def storable_def)
qed (use fail_claim_held [OF assms(2,3)] in
    \<open>simp_all add: finish_claim_def record_claim_failure_def verdict_outcome_def
       resolved_row_def [abs_def] verdict_rows_def\<close>)

lemma finish_claim_unstorable:
  assumes "find_job db (jb_job_id claim) = Some j" "holds_claim token j"
    and "\<not> storable (jb_job_id claim) verdict"
  shows "finish_claim encode claim token verdict completed_at failed_at db = (RetryableError, db)"
proof -
  obtain v where v: "verdict = Publish v"
    using assms(3) by (cases verdict) (auto simp: storable_def verdict_rows_def)
  then show ?thesis
    using complete_claim_unstorable [OF _ assms(1,2), of v] assms(3)
    by (simp add: finish_claim_def storable_def verdict_rows_def)
qed

lemma finish_claim_stale:
  assumes "\<nexists>j. find_job db (jb_job_id claim) = Some j \<and> holds_claim token j"
  shows "finish_claim encode claim token verdict completed_at failed_at db = (StaleClaim, db)"
  using unheld_claim_fenced [OF assms]
  by (auto simp: finish_claim_def record_claim_failure_def split: claim_verdict.splits)

lemma db_inv_finish_claim:
  assumes "db_inv db"
  shows "db_inv (snd (finish_claim encode claim token verdict completed_at failed_at db))"
  using assms db_inv_complete_claim db_inv_fail_claim
  by (auto simp: finish_claim_def record_claim_failure_def case_prod_unfold Let_def
      split: claim_verdict.splits sum.splits store_value_error.splits)

lemma candidate_job_id: "jb_job_id (candidate_job i s) = i"
  by (simp add: candidate_job_def)

lemma holds_claim_marked: "holds_claim token (mark_claimed token lease j)"
  by (simp add: holds_claim_def mark_claimed_def)

text \<open>
  The second transaction of a worker, whatever happened since its claim.  If the row still
  carries the worker's token, the verdict on the persisted request decides the row: a
  publication succeeds when its rows fit the contribution columns, a changed pack revision and an
  input that cannot be evaluated become terminal failures with their codes; a publication whose
  rows do not fit is raised and writes nothing.  Without the token nothing is written.
\<close>

theorem finish_claim_outcome:
  assumes "db_inv db"
    and "verdict = evaluate_immutable_request decode digest fp claim"
  shows "finish_claim encode claim token verdict completed_at failed_at db =
    (case find_job db (jb_job_id claim) of
       None \<Rightarrow> (StaleClaim, db)
     | Some j \<Rightarrow>
         if \<not> holds_claim token j then (StaleClaim, db)
         else if \<not> storable (jb_job_id claim) verdict then (RetryableError, db)
         else (verdict_outcome verdict,
               update_job (jb_job_id claim) (resolved_row encode verdict completed_at failed_at)
                 (db\<lparr>db_contributions := db_contributions db @ verdict_rows (jb_job_id claim) verdict\<rparr>)))"
  using assms
  by (auto simp: finish_claim_held finish_claim_stale finish_claim_unstorable split: option.split)

theorem finish_claim_outcome_witness:
  "finish_claim (\<lambda>_. ''{}'') (candidate_job ''J1'' sample_submission) ''tok''
     (evaluate_immutable_request (\<lambda>_. None) (\<lambda>_. ''d'') (\<lambda>_. ''f'') (candidate_job ''J1'' sample_submission))
     15 16 claimed_sample =
   (OInvalidInput, update_job ''J1'' (mark_failed INVALID_INPUT_CODE INVALID_INPUT_DETAIL 16) claimed_sample)"
proof -
  have f: "find_job claimed_sample ''J1'' = Some (mark_claimed ''tok'' 20 (candidate_job ''J1'' sample_submission))"
    by code_simp
  have v: "evaluate_immutable_request (\<lambda>_. None) (\<lambda>_. ''d'') (\<lambda>_. ''f'') (candidate_job ''J1'' sample_submission) = InvalidInput"
    by (simp add: evaluate_immutable_request_def)
  show ?thesis
    using finish_claim_outcome [OF db_inv_claimed_sample refl, of "\<lambda>_. ''{}''"
        "candidate_job ''J1'' sample_submission" "''tok''" "\<lambda>_. None" "\<lambda>_. ''d''" "\<lambda>_. ''f''" 15 16]
    by (simp add: v f candidate_job_id holds_claim_marked verdict_outcome_def
        resolved_row_def [abs_def] verdict_rows_def storable_def)
qed

section \<open>Whole invocations\<close>

definition claimable :: "instant \<Rightarrow> job_db \<Rightarrow> job list" where
  "claimable now db = filter (claim_candidate now) (db_jobs db)"

definition terminal :: "job \<Rightarrow> bool" where
  "terminal j \<longleftrightarrow> jb_status j = Succeeded \<or> jb_status j = Failed"

lemma terminal_resolved_row [simp]: "terminal (resolved_row encode verdict ct ft j)"
  by (simp add: terminal_def resolved_row_def mark_succeeded_def mark_failed_def
      split: claim_verdict.split)

lemma keeps_input_resolved_row [simp]: "keeps_input (resolved_row encode verdict ct ft)"
  by (cases verdict) (simp_all add: resolved_row_def [abs_def])

lemma terminal_not_claimable: "terminal j \<Longrightarrow> \<not> claim_candidate now j"
  by (auto simp: terminal_def claim_candidate_def)

lemma seconds_pos [simp]: "0 < seconds n \<longleftrightarrow> 0 < n" "seconds n \<le> 0 \<longleftrightarrow> n \<le> 0"
  by (simp_all add: seconds_def)

lemma find_job_contributions [simp]:
  "find_job (db\<lparr>db_contributions := cs\<rparr>) i = find_job db i"
  by (simp add: find_job_def)

lemma verdict_outcome_not_retryable [simp]: "verdict_outcome verdict \<noteq> RetryableError"
  by (simp add: verdict_outcome_def split: claim_verdict.split)

lemma finish_claim_retryable:
  assumes "db_inv db" "verdict_ok verdict"
    and "fst (finish_claim encode claim token verdict ct ft db) = RetryableError"
  shows "snd (finish_claim encode claim token verdict ct ft db) = db \<and>
     \<not> storable (jb_job_id claim) verdict"
proof (cases "\<exists>j. find_job db (jb_job_id claim) = Some j \<and> holds_claim token j")
  case True
  then show ?thesis
    using assms by (cases "storable (jb_job_id claim) verdict")
      (auto simp: finish_claim_held finish_claim_unstorable)
next
  case False
  then show ?thesis using assms(3) by (simp add: finish_claim_stale)
qed

text \<open>The verdict on a row, which depends on its admitted columns only.\<close>

definition job_verdict :: "worker_env \<Rightarrow> job \<Rightarrow> claim_verdict" where
  "job_verdict env j =
     evaluate_immutable_request (we_decode env) (we_digest env) (we_fingerprint env) j"

definition storable_job :: "worker_env \<Rightarrow> job \<Rightarrow> bool" where
  "storable_job env j \<longleftrightarrow> storable (jb_job_id j) (job_verdict env j)"

lemma verdict_mark_claimed:
  "evaluate_immutable_request d g fp (mark_claimed token lease j) = evaluate_immutable_request d g fp j"
proof -
  have "jb_immutable_request_json (mark_claimed token lease j) = jb_immutable_request_json j"
    "jb_scenario_pack_revision (mark_claimed token lease j) = jb_scenario_pack_revision j"
    by (simp_all add: mark_claimed_def)
  then show ?thesis by (simp only: evaluate_immutable_request_def)
qed

lemma process_one_store:
  assumes "db_inv db" and "\<And>d. db_inv d \<Longrightarrow> db_inv (others d)" and "0 < lease_seconds"
  shows "db_inv (snd (process_one_scenario_job env now lease_seconds token locked others ct ft db)) \<and>
     (fst (fst (process_one_scenario_job env now lease_seconds token locked others ct ft db)) =
        Some RetryableError \<longrightarrow>
      (\<exists>j\<in>set (db_jobs db). \<not> storable_job env j \<and>
        snd (process_one_scenario_job env now lease_seconds token locked others ct ft db) =
        others (update_job (jb_job_id j) (mark_claimed token (now + seconds lease_seconds)) db)))"
  using assms(1)
proof (cases rule: claim_next_cases [of db "now + seconds lease_seconds" now token locked])
  case invalid
  then show ?thesis using assms(3) by simp
next
  case none
  then show ?thesis using assms by (simp add: process_one_scenario_job_def)
next
  case (claimed j)
  let ?c = "mark_claimed token (now + seconds lease_seconds) j"
  let ?v = "evaluate_immutable_request (we_decode env) (we_digest env) (we_fingerprint env) ?c"
  let ?d = "others (update_job (jb_job_id j) (mark_claimed token (now + seconds lease_seconds)) db)"
  have d: "db_inv ?d"
    using db_inv_claim_next [OF assms(1), of now "now + seconds lease_seconds" token locked] claimed
    by (intro assms(2)) simp
  have run: "process_one_scenario_job env now lease_seconds token locked others ct ft db =
      (let (outcome, db'') = finish_claim (we_encode env) ?c token ?v ct ft ?d in
       ((Some outcome, if outcome = RetryableError then Inl StoreRaised else Inr (Some (jb_job_id ?c))), db''))"
    using assms(3) claimed by (simp add: process_one_scenario_job_def)
  have "j \<in> set (db_jobs db)" using find_job_SomeD [OF claimed(2)] by simp
  moreover have "storable_job env j \<longleftrightarrow> storable (jb_job_id ?c) ?v"
    by (simp add: storable_job_def job_verdict_def verdict_mark_claimed keeps_input_columns)
  ultimately show ?thesis
    using db_inv_finish_claim [OF d, of "we_encode env" ?c token ?v ct ft]
      finish_claim_retryable [OF d verdict_ok_evaluated, of "we_encode env" ?c token _ _ _ ?c ct ft]
    unfolding run by (auto simp: case_prod_unfold Let_def)
qed

text \<open>
  A worker invocation keeps the store's invariant whatever others commit between its two
  transactions, and its retryable outcome, kept for a raised store error, arises only for a job
  whose rows do not fit their columns; then its second transaction has written nothing.
\<close>

theorem worker_keeps_store:
  assumes "db_inv db" and "\<And>d. db_inv d \<Longrightarrow> db_inv (others d)" and "0 < lease_seconds"
  shows "db_inv (snd (process_one_scenario_job env now lease_seconds token locked others ct ft db)) \<and>
     (fst (fst (process_one_scenario_job env now lease_seconds token locked others ct ft db)) =
        Some RetryableError \<longrightarrow>
      (\<exists>j\<in>set (db_jobs db). \<not> storable_job env j \<and>
        snd (process_one_scenario_job env now lease_seconds token locked others ct ft db) =
        others (update_job (jb_job_id j) (mark_claimed token (now + seconds lease_seconds)) db)))"
  by (rule process_one_store [OF assms])

definition sample_env :: worker_env where
  "sample_env = \<lparr>we_decode = (\<lambda>_. None), we_encode = (\<lambda>_. ''{}''), we_digest = (\<lambda>_. ''d''),
     we_fingerprint = (\<lambda>_. ''f'')\<rparr>"

theorem worker_keeps_store_witness:
  "db_inv (snd (process_one_scenario_job sample_env 10 300 ''tok'' []
     (\<lambda>d. snd (delete_expired 200 10 [] d)) 15 16 sample_db))"
  using worker_keeps_store [OF db_inv_sample_db, of "\<lambda>d. snd (delete_expired 200 10 [] d)" 300]
    db_inv_delete_expired by simp

lemma process_one_claims:
  assumes inv: "db_inv db" and ls: "0 < ls" and some: "claimable now db \<noteq> []"
  obtains j where "find_job db (jb_job_id j) = Some j" "j \<in> set (claimable now db)"
    "\<forall>k\<in>set (claimable now db). claim_order j \<le> claim_order k"
    "storable_job env j \<Longrightarrow> process_one_scenario_job env now ls token [] id ct ft db =
       ((Some (verdict_outcome (job_verdict env j)), Inr (Some (jb_job_id j))),
        update_job (jb_job_id j) (\<lambda>k. resolved_row (we_encode env) (job_verdict env j) ct ft
            (mark_claimed token (now + seconds ls) k))
          (db\<lparr>db_contributions := db_contributions db @ verdict_rows (jb_job_id j) (job_verdict env j)\<rparr>))"
    "\<not> storable_job env j \<Longrightarrow> process_one_scenario_job env now ls token [] id ct ft db =
       ((Some RetryableError, Inl StoreRaised),
        update_job (jb_job_id j) (mark_claimed token (now + seconds ls)) db)"
  using inv
proof (cases rule: claim_next_cases [of db "now + seconds ls" now token "[]"])
  case invalid
  then show ?thesis using ls by simp
next
  case none
  then show ?thesis using some by (auto simp: claimable_def filter_empty_conv)
next
  case (claimed j)
  let ?m = "mark_claimed token (now + seconds ls)"
  let ?v = "job_verdict env j"
  let ?d = "update_job (jb_job_id j) ?m db"
  have id: "jb_job_id (?m j) = jb_job_id j" by (simp add: keeps_input_columns)
  have d: "db_inv ?d"
    using db_inv_claim_next [OF inv, of now "now + seconds ls" token "[]"] claimed by simp
  have f: "find_job ?d (jb_job_id (?m j)) = Some (?m j)"
    using claimed by (simp add: find_update_job id)
  have fuse: "update_job i g (update_job i ?m db\<lparr>db_contributions := cs\<rparr>) =
      update_job i (\<lambda>k. g (?m k)) (db\<lparr>db_contributions := cs\<rparr>)" for g i cs
    by (simp add: update_job_def keeps_input_columns)
  have run: "process_one_scenario_job env now ls token [] id ct ft db =
      (let (outcome, db'') = finish_claim (we_encode env) (?m j) token ?v ct ft ?d in
       ((Some outcome, if outcome = RetryableError then Inl StoreRaised else Inr (Some (jb_job_id j))), db''))"
    using ls claimed
    by (simp add: process_one_scenario_job_def job_verdict_def verdict_mark_claimed id cong: if_cong)
  have ok: "verdict_ok ?v" by (simp add: job_verdict_def)
  show ?thesis
  proof (rule that [of j])
    show "j \<in> set (claimable now db)"
      using claimed find_job_SomeD [OF claimed(2)] by (simp add: claimable_def)
    assume "storable_job env j"
    then have "storable (jb_job_id (?m j)) ?v" by (simp add: storable_job_def id)
    then show "process_one_scenario_job env now ls token [] id ct ft db =
       ((Some (verdict_outcome ?v), Inr (Some (jb_job_id j))),
        update_job (jb_job_id j) (\<lambda>k. resolved_row (we_encode env) ?v ct ft (?m k))
          (db\<lparr>db_contributions := db_contributions db @ verdict_rows (jb_job_id j) ?v\<rparr>))"
      unfolding run by (simp add: finish_claim_held [OF d f holds_claim_marked ok] id fuse)
  next
    assume "\<not> storable_job env j"
    then have "\<not> storable (jb_job_id (?m j)) ?v" by (simp add: storable_job_def id)
    then show "process_one_scenario_job env now ls token [] id ct ft db =
       ((Some RetryableError, Inl StoreRaised), ?d)"
      unfolding run by (simp add: finish_claim_unstorable [OF f holds_claim_marked])
  qed (use claimed in \<open>simp_all add: claimable_def\<close>)
qed

lemma length_filter_map_one:
  assumes "distinct (map f xs)" "x \<in> set xs" "P x" "\<not> P (g x)"
  shows "Suc (length (filter P (map (\<lambda>y. if f y = f x then g y else y) xs))) = length (filter P xs)"
  using assms
proof (induction xs)
  case (Cons a xs)
  show ?case
  proof (cases "a = x")
    case True
    then have "f x \<notin> f ` set xs" using Cons.prems(1) by simp
    then have "map (\<lambda>y. if f y = f x then g y else y) xs = xs"
      by (intro map_idI) (metis image_eqI)
    with True Cons.prems show ?thesis by simp
  next
    case False
    then have "x \<in> set xs" "f a \<noteq> f x" using Cons.prems by auto
    with Cons show ?thesis by simp
  qed
qed simp

lemma jobs_update_job:
  "db_jobs (update_job i g (db\<lparr>db_contributions := cs\<rparr>)) =
     map (\<lambda>y. if jb_job_id y = i then g y else y) (db_jobs db)"
  by (simp add: update_job_def)

lemma process_one_resolves_one:
  assumes inv: "db_inv db" and ls: "0 < ls" and some: "claimable now db \<noteq> []"
    and st: "\<forall>j\<in>set (claimable now db). storable_job env j"
  shows "Suc (length (claimable now (snd (process_one_scenario_job env now ls token [] id ct ft db)))) =
     length (claimable now db)"
    "set (claimable now (snd (process_one_scenario_job env now ls token [] id ct ft db)))
       \<subseteq> set (claimable now db)"
proof -
  obtain j where j: "find_job db (jb_job_id j) = Some j" "j \<in> set (claimable now db)"
    and "storable_job env j \<Longrightarrow> snd (process_one_scenario_job env now ls token [] id ct ft db) =
        update_job (jb_job_id j) (\<lambda>k. resolved_row (we_encode env) (job_verdict env j) ct ft
            (mark_claimed token (now + seconds ls) k))
          (db\<lparr>db_contributions := db_contributions db @ verdict_rows (jb_job_id j) (job_verdict env j)\<rparr>)"
    by (rule process_one_claims [OF inv ls some, of env token ct ft]) (metis snd_conv)
  then have "snd (process_one_scenario_job env now ls token [] id ct ft db) =
        update_job (jb_job_id j) (\<lambda>k. resolved_row (we_encode env) (job_verdict env j) ct ft
            (mark_claimed token (now + seconds ls) k))
          (db\<lparr>db_contributions := db_contributions db @ verdict_rows (jb_job_id j) (job_verdict env j)\<rparr>)"
    using st by blast
  let ?g = "\<lambda>k. resolved_row (we_encode env) (job_verdict env j) ct ft
      (mark_claimed token (now + seconds ls) k)"
  have jobs: "db_jobs (snd (process_one_scenario_job env now ls token [] id ct ft db)) =
      map (\<lambda>y. if jb_job_id y = jb_job_id j then ?g y else y) (db_jobs db)"
    using \<open>snd (process_one_scenario_job env now ls token [] id ct ft db) = _\<close>
    by (simp only: jobs_update_job)
  have no: "\<not> claim_candidate now (?g k)" for k by (rule terminal_not_claimable) simp
  have "Suc (length (filter (claim_candidate now)
      (map (\<lambda>y. if jb_job_id y = jb_job_id j then ?g y else y) (db_jobs db)))) =
      length (filter (claim_candidate now) (db_jobs db))"
    by (intro length_filter_map_one db_inv_distinct_ids [OF inv] no)
      (use j in \<open>simp_all add: claimable_def\<close>)
  then show "Suc (length (claimable now (snd (process_one_scenario_job env now ls token [] id ct ft db)))) =
     length (claimable now db)"
    by (simp only: claimable_def jobs)
  show "set (claimable now (snd (process_one_scenario_job env now ls token [] id ct ft db)))
       \<subseteq> set (claimable now db)"
    using no by (auto simp: claimable_def jobs split: if_splits)
qed

text \<open>Repeated invocations, each with its own token and clock readings.\<close>

fun worker_runs ::
  "worker_env \<Rightarrow> instant \<Rightarrow> int \<Rightarrow> (string \<times> instant \<times> instant) list \<Rightarrow> job_db \<Rightarrow> job_db"
where
  "worker_runs env now ls [] db = db"
| "worker_runs env now ls ((token, ct, ft) # rest) db =
     worker_runs env now ls rest (snd (process_one_scenario_job env now ls token [] id ct ft db))"

lemma db_inv_process_one:
  "db_inv db \<Longrightarrow> 0 < ls \<Longrightarrow> db_inv (snd (process_one_scenario_job env now ls token [] id ct ft db))"
  by (rule process_one_store [THEN conjunct1]) simp_all

lemma drained:
  assumes "db_inv db" and "0 < ls" and "length runs = length (claimable now db)"
    and "\<forall>j\<in>set (claimable now db). storable_job env j"
  shows "claimable now (worker_runs env now ls runs db) = []"
  using assms
proof (induction runs arbitrary: db)
  case (Cons run runs)
  obtain token ct ft where run: "run = (token, ct, ft)" by (cases run)
  let ?db = "snd (process_one_scenario_job env now ls token [] id ct ft db)"
  have "claimable now db \<noteq> []" using Cons.prems(3) by auto
  note one = process_one_resolves_one [OF Cons.prems(1,2) this Cons.prems(4), of token ct ft]
  have "claimable now (worker_runs env now ls runs ?db) = []"
    by (rule Cons.IH) (use Cons.prems one in \<open>auto simp: db_inv_process_one\<close>)
  then show ?case by (simp add: run)
qed simp

text \<open>
  C11: The queue drains.  Undisturbed invocations, as many as there are claimable jobs, leave no
  job claimable when every publication fits its columns, whatever else the persisted inputs are:
  an input that cannot be evaluated is resolved too and blocks nothing behind it.
\<close>

theorem worker_drains_queue:
  assumes "db_inv db" and "0 < ls" and "length runs = length (claimable now db)"
    and "\<forall>j\<in>set (claimable now db). storable_job env j"
  shows "claimable now (worker_runs env now ls runs db) = []"
  by (rule drained [OF assms])

lemma sample_env_storable: "storable_job sample_env j"
  by (simp add: storable_job_def job_verdict_def storable_def sample_env_def
      evaluate_immutable_request_def verdict_rows_def)

theorem worker_drains_queue_witness:
  "claimable 10 (worker_runs sample_env 10 300 [(''a'', 11, 12), (''b'', 13, 14)] sample_db) = []"
proof (rule worker_drains_queue [OF db_inv_sample_db])
  show "length [(''a'', 11 :: int, 12 :: int), (''b'', 13, 14)] = length (claimable 10 sample_db)"
    by code_simp
qed (simp_all add: sample_env_storable)

section \<open>A job that cannot be stored\<close>

text \<open>
  A security identifier has no length bound in the request contract, but its column holds
  256 characters.  When the oldest claimable job's rows do not fit, the invocation raises after
  claiming it and resolves nothing; once the lease is over, the same job is claimable again in the
  same place of the queue, until its retention ends.
\<close>

theorem unstorable_job_holds_the_queue:
  assumes "db_inv db" and "0 < ls" and "j \<in> set (claimable now db)"
    and "\<forall>k\<in>set (claimable now db). k \<noteq> j \<longrightarrow> claim_order j < claim_order k"
    and "\<not> storable_job env j"
  shows "process_one_scenario_job env now ls token [] id ct ft db =
       ((Some RetryableError, Inl StoreRaised),
        update_job (jb_job_id j) (mark_claimed token (now + seconds ls)) db) \<and>
     (now + seconds ls \<le> now' \<and> now' < jb_expires_at j \<longrightarrow>
        claim_candidate now' (mark_claimed token (now + seconds ls) j) \<and>
        claim_order (mark_claimed token (now + seconds ls) j) = claim_order j)"
proof -
  have "claimable now db \<noteq> []" using assms(3) by auto
  from process_one_claims [OF assms(1,2) this, of env token ct ft]
  obtain k where k: "k \<in> set (claimable now db)"
    "\<forall>l\<in>set (claimable now db). claim_order k \<le> claim_order l"
    and run: "\<not> storable_job env k \<Longrightarrow> process_one_scenario_job env now ls token [] id ct ft db =
       ((Some RetryableError, Inl StoreRaised),
        update_job (jb_job_id k) (mark_claimed token (now + seconds ls)) db)"
    by metis
  have "k = j" using k assms(3,4) by (metis leD)
  then show ?thesis
    using run assms(5) by (simp add: claim_candidate_def mark_claimed_def claim_order_def)
qed

lemma contribution_records_security:
  assumes "s \<in> set (pr_scenario_results v)" "c \<in> set (sc_position_contributions s)"
  shows "\<exists>r\<in>set (contribution_records i v). cr_security_id r = pc_security_id c"
proof -
  obtain n where "n < length (sc_position_contributions s)" "sc_position_contributions s ! n = c"
    using assms(2) by (auto simp: in_set_conv_nth)
  then have "(n, c) \<in> set (List.enumerate 0 (sc_position_contributions s))"
    by (simp add: in_set_enumerate_eq)
  with assms(1) show ?thesis by (force simp: contribution_records_def)
qed

lemma long_security_unstorable:
  assumes v: "evaluate_large_regime_scenario_job fp r = Inr v"
    and c: "c \<in> set (sr_exposure_components r)" "256 < length (ec_security_id c)"
  shows "\<not> list_all contribution_columns_fit (contribution_records i v)"
proof -
  from v obtain pack where pack: "map_of SCENARIO_PACKS (sr_scenario_pack_id r) = Some pack"
    and v': "response_from_evaluation fp r = Inr v"
    by (auto simp: evaluate_large_regime_scenario_job_def split: if_splits)
  from context_cases [of r] pack obtain cx where
    cx: "scenario_pack_context r = Inr cx" "cx_scenario_pack cx = pack" by auto
  have res: "pr_scenario_results v = scenario_results cx (sr_exposure_components r)"
    using v' by (auto simp: response_from_evaluation_def evaluate_scenario_pack_context_def cx(1) Let_def)
  obtain s where s: "s \<in> set pack" using pack_nonempty [OF pack] by (cases pack) auto
  let ?s = "evaluate_scenario s (cx_exposure_by_bucket cx) (sr_exposure_components r)"
  have "?s \<in> set (pr_scenario_results v)" using s by (simp add: res scenario_results_def cx(2))
  moreover have "component_contribution s c \<in> set (sc_position_contributions ?s)"
    using c(1) by (simp add: evaluate_scenario_def evaluate_position_contributions_def)
  ultimately obtain w where "w \<in> set (contribution_records i v)"
    "cr_security_id w = pc_security_id (component_contribution s c)"
    using contribution_records_security by blast
  moreover from this have "\<not> contribution_columns_fit w"
    using c(2) by (simp add: contribution_columns_fit_def fits_def component_contribution_def Let_def)
  ultimately show ?thesis by (auto simp: list_all_iff)
qed

definition long_request :: scenario_request where
  "long_request = sample_request\<lparr>
     sr_exposures := [\<lparr>se_bucket = ''EQUITY'', se_weight = 1\<rparr>],
     sr_exposure_components := [\<lparr>ec_security_id = replicate 257 CHR ''x'', ec_display_name = None,
       ec_bucket = ''EQUITY'', ec_weight = 1\<rparr>]\<rparr>"

definition long_env :: worker_env where
  "long_env = sample_env\<lparr>we_decode := (\<lambda>_. Some long_request)\<rparr>"

definition long_db :: job_db where
  "long_db = snd (submit ''J1'' (sample_submission\<lparr>sb_scenario_pack_revision := ''sha256:d'',
     sb_expires_at := 10 ^ 12\<rparr>) empty_db)"

lemma long_request_valid: "validate_job_request long_request = Inr long_request"
proof -
  have "is_ok (request_fields 1000 long_request)" by code_simp
  moreover have "is_ok (job_request_validator long_request)" by code_simp
  ultimately show ?thesis
    by (auto simp: validate_job_request_def SCENARIO_JOB_MAX_EXPOSURE_COMPONENTS_def result_simps
        is_ok_def split: sum.splits)
qed

theorem unstorable_job_holds_the_queue_witness:
  "\<exists>db'. process_one_scenario_job long_env 10 300 ''tok'' [] id 15 16 long_db =
     ((Some RetryableError, Inl StoreRaised), db')"
proof -
  let ?j = "candidate_job ''J1'' (sample_submission\<lparr>sb_scenario_pack_revision := ''sha256:d'',
      sb_expires_at := 10 ^ 12\<rparr>)"
  have inv: "db_inv long_db" unfolding long_db_def by (intro db_inv_submit db_inv_empty)
  have jobs: "claimable 10 long_db = [?j]" by code_simp
  obtain pack where pack: "map_of SCENARIO_PACKS (sr_scenario_pack_id long_request) = Some pack"
    using sample_pack by (auto simp: long_request_def sample_request_def)
  from response_total [OF pack, of "\<lambda>_. ''f''"] pack obtain v where
    v: "evaluate_large_regime_scenario_job (\<lambda>_. ''f'') long_request = Inr v"
    by (auto simp: large_is_response)
  have "job_verdict long_env ?j = Publish v"
    using pack v by (simp add: job_verdict_def verdict_Publish_iff long_env_def sample_env_def
        long_request_valid scenario_pack_revision_def) (simp add: candidate_job_def)
  moreover have "\<not> list_all contribution_columns_fit (contribution_records (jb_job_id ?j) v)"
    by (rule long_security_unstorable [OF v, of "hd (sr_exposure_components long_request)"])
      (simp_all add: long_request_def)
  ultimately have "\<not> storable_job long_env ?j"
    by (simp add: storable_job_def storable_def verdict_rows_def)
  with unstorable_job_holds_the_queue [OF inv, of 300 ?j 10 long_env "''tok''" 15 16 0] jobs
  show ?thesis by simp
qed

end
