(* ===== verification/JobSystem.thy ===== *)
theory JobSystem
  imports Main JobWorker
begin

text \<open>
  The job store under concurrency: any number of API processes, workers and cleanup runs, each
  transaction of scenario_jobs/store.py one step of the system.  A worker that dies between its
  two transactions takes no step.  Identities and claim tokens are \<open>uuid4()\<close> values, so a step
  that draws one draws an unused one; the system remembers the values drawn and, for the
  statements only, what has been published.
\<close>

section \<open>An interface of durable rows\<close>

text \<open>
  What a client of a durable table relies on: a step keeps the invariant, keeps what was
  admitted, leaves final rows alone, never brings a removed row back, and puts only fresh
  tokens on rows.
\<close>

locale durable_rows =
  fixes step :: "'s \<Rightarrow> 's \<Rightarrow> bool" and inv :: "'s \<Rightarrow> bool"
    and row :: "'s \<Rightarrow> 'i \<Rightarrow> 'r option" and used :: "'s \<Rightarrow> 'i \<Rightarrow> bool"
    and same :: "'r \<Rightarrow> 'r \<Rightarrow> bool" and final :: "'r \<Rightarrow> bool"
    and token :: "'r \<Rightarrow> 'k option" and issued :: "'s \<Rightarrow> 'k \<Rightarrow> bool"
  assumes inv_step: "inv s \<Longrightarrow> step s t \<Longrightarrow> inv t"
    and row_step: "inv s \<Longrightarrow> step s t \<Longrightarrow> row s i = Some r \<Longrightarrow> row t i = Some q \<Longrightarrow>
      same r q \<and> (final r \<longrightarrow> q = r)"
    and gone_step: "inv s \<Longrightarrow> step s t \<Longrightarrow> row s i = None \<Longrightarrow> used s i \<Longrightarrow> row t i = None"
    and used_step: "step s t \<Longrightarrow> used s i \<Longrightarrow> used t i"
    and row_used: "inv s \<Longrightarrow> row s i = Some r \<Longrightarrow> used s i"
    and token_step: "inv s \<Longrightarrow> step s t \<Longrightarrow> issued s k \<Longrightarrow> row t i = Some q \<Longrightarrow> token q = Some k \<Longrightarrow>
      \<exists>r. row s i = Some r \<and> token r = Some k"
    and issued_step: "step s t \<Longrightarrow> issued s k \<Longrightarrow> issued t k"
    and same_refl: "same r r"
    and same_trans: "same r q \<Longrightarrow> same q p \<Longrightarrow> same r p"
begin

lemma inv_run: "step\<^sup>*\<^sup>* s t \<Longrightarrow> inv s \<Longrightarrow> inv t"
  by (induction rule: rtranclp_induct) (auto intro: inv_step)

lemma used_run: "step\<^sup>*\<^sup>* s t \<Longrightarrow> used s i \<Longrightarrow> used t i"
  by (induction rule: rtranclp_induct) (auto intro: used_step)

lemma issued_run: "step\<^sup>*\<^sup>* s t \<Longrightarrow> issued s k \<Longrightarrow> issued t k"
  by (induction rule: rtranclp_induct) (auto intro: issued_step)

lemma gone_run:
  "step\<^sup>*\<^sup>* s t \<Longrightarrow> inv s \<Longrightarrow> row s i = None \<Longrightarrow> used s i \<Longrightarrow> row t i = None"
  by (induction rule: rtranclp_induct) (auto intro: gone_step inv_run used_run)

lemma row_run:
  assumes "step\<^sup>*\<^sup>* s t" "inv s" "row s i = Some r" "row t i = Some q"
  shows "same r q \<and> (final r \<longrightarrow> q = r)"
  using assms
proof (induction arbitrary: q rule: rtranclp_induct)
  case base
  then show ?case by (simp add: same_refl)
next
  case (step t u)
  have inv: "inv t" using step.hyps(1) step.prems(1) by (rule inv_run)
  obtain p where p: "row t i = Some p"
    using gone_step [OF inv step.hyps(2)] step.prems used_run [OF step.hyps(1)] row_used
    by (cases "row t i") auto
  have "same r p \<and> (final r \<longrightarrow> p = r)" using step.IH step.prems(1,2) p by blast
  moreover have "same p q \<and> (final p \<longrightarrow> q = p)"
    by (rule row_step [OF inv step.hyps(2) p step.prems(3)])
  ultimately show ?case using same_trans by blast
qed

lemma superseded_run:
  assumes "step\<^sup>*\<^sup>* s t" "inv s" "issued s k" "\<nexists>r. row s i = Some r \<and> token r = Some k"
  shows "\<nexists>r. row t i = Some r \<and> token r = Some k"
  using assms
proof (induction rule: rtranclp_induct)
  case (step t u)
  then show ?case
    using token_step [OF inv_run [OF step.hyps(1)] step.hyps(2) issued_run [OF step.hyps(1)]] by blast
qed

end

section \<open>The system\<close>

record job_system =
  js_db :: job_db
  js_ids :: "string list"
  js_tokens :: "string list"
  js_published :: "(string \<times> string) list"

definition initial_system :: job_system where
  "initial_system = \<lparr>js_db = empty_db, js_ids = [], js_tokens = [], js_published = []\<rparr>"

inductive job_step :: "job_system \<Rightarrow> job_system \<Rightarrow> bool" where
  Submit: "i \<notin> set (js_ids s) \<Longrightarrow>
    job_step s (s\<lparr>js_db := snd (submit i sub (js_db s)), js_ids := i # js_ids s\<rparr>)"
| Claim: "token \<notin> set (js_tokens s) \<Longrightarrow>
    job_step s (s\<lparr>js_db := snd (claim_next now lease token locked (js_db s)),
      js_tokens := token # js_tokens s\<rparr>)"
| Complete: "complete_claim i token res rows ts (js_db s) = (r, db') \<Longrightarrow>
    job_step s (s\<lparr>js_db := db',
      js_published := (if r = Inr True then (i, res) # js_published s else js_published s)\<rparr>)"
| Fail: "job_step s (s\<lparr>js_db := snd (fail_claim i token code detail ts (js_db s))\<rparr>)"
| Cleanup: "job_step s (s\<lparr>js_db := snd (delete_expired now limit locked (js_db s))\<rparr>)"

inductive_cases job_stepE: "job_step s t"

definition reachable :: "job_system \<Rightarrow> bool" where
  "reachable s \<longleftrightarrow> job_step\<^sup>*\<^sup>* initial_system s"

text \<open>
  The invariant: the store's own, rows and their tokens were drawn, and a published job is
  gone or is the succeeded row with the result published.
\<close>

definition system_inv :: "job_system \<Rightarrow> bool" where
  "system_inv s \<longleftrightarrow> db_inv (js_db s) \<and>
     (\<forall>i j. find_job (js_db s) i = Some j \<longrightarrow> i \<in> set (js_ids s) \<and>
        (\<forall>k. jb_claim_token j = Some k \<longrightarrow> k \<in> set (js_tokens s))) \<and>
     distinct (map fst (js_published s)) \<and>
     (\<forall>i res. (i, res) \<in> set (js_published s) \<longrightarrow> i \<in> set (js_ids s) \<and>
        (\<forall>j. find_job (js_db s) i = Some j \<longrightarrow>
           jb_status j = Succeeded \<and> jb_result_json j = Some res))"

section \<open>What one transaction does to a row\<close>

text \<open>
  A transaction changes a row in one of five ways: it leaves it, admits it, claims it, resolves
  it for the holder of its token, or removes it.
\<close>

inductive row_change :: "job_system \<Rightarrow> job_system \<Rightarrow> string \<Rightarrow> job option \<Rightarrow> job option \<Rightarrow> bool"
  for s t :: job_system and i :: string
where
  Keep: "row_change s t i r r"
| Admit: "i \<notin> set (js_ids s) \<Longrightarrow> i \<in> set (js_ids t) \<Longrightarrow> jb_claim_token c = None \<Longrightarrow>
    \<not> terminal c \<Longrightarrow> row_change s t i None (Some c)"
| Take: "\<not> terminal j \<Longrightarrow> token \<notin> set (js_tokens s) \<Longrightarrow> token \<in> set (js_tokens t) \<Longrightarrow>
    row_change s t i (Some j) (Some (mark_claimed token lease j))"
| Resolve: "holds_claim token j \<Longrightarrow> terminal q \<Longrightarrow> same_input j q \<Longrightarrow>
    jb_claim_token q = jb_claim_token j \<Longrightarrow> row_change s t i (Some j) (Some q)"
| Remove: "row_change s t i (Some j) None"

inductive_cases row_changeE: "row_change s t i r q"

lemma system_inv_db: "system_inv s \<Longrightarrow> db_inv (js_db s)"
  by (simp add: system_inv_def)

lemma find_submit_job:
  "find_job (snd (submit i sub db)) k = find_job db k \<or>
     (k = i \<and> find_job db k = None \<and> find_job (snd (submit i sub db)) k = Some (candidate_job i sub))"
  by (auto simp: submit_alt find_append_job candidate_job_id split: option.splits)

lemma submit_row:
  assumes "i \<notin> set (js_ids s)" "i \<in> set (js_ids t)"
  shows "row_change s t k (find_job (js_db s) k) (find_job (snd (submit i sub (js_db s))) k)"
proof -
  have "row_change s t i None (Some (candidate_job i sub))"
    by (rule row_change.Admit) (use assms in \<open>simp_all add: candidate_job_def terminal_def\<close>)
  then show ?thesis
    using find_submit_job [of i sub "js_db s" k] by (auto intro: row_change.Keep)
qed

lemma claim_row:
  assumes "db_inv (js_db s)" "token \<notin> set (js_tokens s)" "token \<in> set (js_tokens t)"
  shows "row_change s t k (find_job (js_db s) k)
     (find_job (snd (claim_next now lease token locked (js_db s))) k)"
  using assms(1)
proof (cases rule: claim_next_cases [of "js_db s" lease now token locked])
  case (claimed j)
  have "\<not> terminal j" using claimed(3) terminal_not_claimable by blast
  then show ?thesis
    using claimed assms(2,3) by (auto simp: find_update_job intro: row_change.Keep row_change.Take)
qed (simp_all add: row_change.Keep)

lemma complete_row:
  "row_change s t k (find_job (js_db s) k) (find_job (snd (complete_claim i token res rows ts (js_db s))) k)"
proof (cases rule: complete_claim_cases [of "js_db s" i token res rows ts])
  case (published j)
  then show ?thesis
    by (auto simp: find_update_job terminal_def mark_succeeded_def same_input_def
        intro: row_change.Keep row_change.Resolve)
qed (simp_all add: row_change.Keep)

lemma fail_row:
  "row_change s t k (find_job (js_db s) k) (find_job (snd (fail_claim i token code detail ts (js_db s))) k)"
proof (cases "\<exists>j. find_job (js_db s) i = Some j \<and> holds_claim token j")
  case True
  then obtain j where j: "find_job (js_db s) i = Some j" "holds_claim token j" by blast
  have "row_change s t k (Some j) (Some (mark_failed code detail ts j))"
    by (rule row_change.Resolve [OF j(2)])
      (simp_all add: terminal_def mark_failed_def same_input_def)
  then show ?thesis
    using j by (auto simp: fail_claim_held find_update_job intro: row_change.Keep)
next
  case False
  then show ?thesis by (simp add: unheld_claim_fenced row_change.Keep)
qed

lemma cleanup_row:
  "row_change s t k (find_job (js_db s) k) (find_job (snd (delete_expired now limit locked (js_db s))) k)"
  by (cases "find_job (js_db s) k")
    (auto simp: delete_expired_alt find_remove_jobs intro: row_change.Keep row_change.Remove)

lemma step_row:
  assumes "job_step s t" "db_inv (js_db s)"
  shows "row_change s t i (find_job (js_db s) i) (find_job (js_db t) i)"
  using assms
proof (cases rule: job_step.cases)
  case (Complete i' token res rows ts r db')
  then show ?thesis using complete_row [of s t i i' token res rows ts] by simp
qed (simp_all add: submit_row claim_row fail_row cleanup_row)

lemma step_drawn:
  assumes "job_step s t"
  shows "set (js_ids s) \<subseteq> set (js_ids t)" "set (js_tokens s) \<subseteq> set (js_tokens t)"
  using assms by (auto elim!: job_stepE)

lemma step_db_inv: "job_step s t \<Longrightarrow> db_inv (js_db s) \<Longrightarrow> db_inv (js_db t)"
proof (induction rule: job_step.induct)
  case (Complete i token res rows ts s r db')
  then show ?case using db_inv_complete_claim [of "js_db s" i token res rows ts] by simp
qed (simp_all add: db_inv_submit db_inv_claim_next db_inv_fail_claim db_inv_delete_expired)

lemma system_inv_row:
  assumes "system_inv s" "find_job (js_db s) i = Some j"
  shows "i \<in> set (js_ids s)" "jb_claim_token j = Some k \<Longrightarrow> k \<in> set (js_tokens s)"
  using assms by (auto simp: system_inv_def)

lemma row_change_drawn:
  assumes step: "job_step s t" and inv: "system_inv s" and q: "find_job (js_db t) i = Some q"
  shows "i \<in> set (js_ids t) \<and> (\<forall>k. jb_claim_token q = Some k \<longrightarrow> k \<in> set (js_tokens t))"
  using step_row [OF step system_inv_db [OF inv], of i, unfolded q]
proof (cases rule: row_change.cases)
  case Keep
  from system_inv_row [OF inv Keep [symmetric]] show ?thesis using step_drawn [OF step] by blast
next
  case (Take j token lease)
  with system_inv_row(1) [OF inv Take(1)] show ?thesis
    using step_drawn [OF step] by (auto simp: mark_claimed_def)
next
  case (Resolve token j)
  with system_inv_row [OF inv Resolve(1)] show ?thesis
    using step_drawn [OF step] by auto
qed simp_all

lemma step_published:
  assumes "job_step s t"
  obtains "js_published t = js_published s"
  | i j res where "js_published t = (i, res) # js_published s" "find_job (js_db s) i = Some j"
      "jb_status j = Running" "\<exists>q. find_job (js_db t) i = Some q \<and> jb_status q = Succeeded \<and>
      jb_result_json q = Some res"
  using assms
proof (cases rule: job_step.cases)
  case (Complete i token res rows ts r db')
  show ?thesis
  proof (cases "r = Inr True")
    case True
    with Complete(2) have c: "complete_claim i token res rows ts (js_db s) = (Inr True, db')" by simp
    show ?thesis
    proof (cases rule: complete_claim_cases [of "js_db s" i token res rows ts])
      case (published j)
      with c True Complete(1) show ?thesis
        by (intro that(2) [of i res j]) (auto simp: find_update_job holds_claim_def mark_succeeded_def)
    qed (use c in simp_all)
  qed (use Complete that(1) in simp)
qed (use that(1) in simp_all)

lemma terminal_row_kept:
  "row_change s t i (Some j) q \<Longrightarrow> terminal j \<Longrightarrow> q = Some j \<or> q = None"
  by (auto simp: terminal_def holds_claim_def elim!: row_changeE)

lemma system_inv_step:
  assumes step: "job_step s t" and inv: "system_inv s"
  shows "system_inv t"
proof -
  note row = step_row [OF step system_inv_db [OF inv]]
  have db_t: "db_inv (js_db t)" using step_db_inv [OF step system_inv_db [OF inv]] .
  have drawn: "i \<in> set (js_ids t) \<and> (\<forall>k. jb_claim_token j = Some k \<longrightarrow> k \<in> set (js_tokens t))"
    if "find_job (js_db t) i = Some j" for i j
    using row_change_drawn [OF step inv that] .
  have old: "i \<in> set (js_ids t) \<and> (\<forall>j. find_job (js_db t) i = Some j \<longrightarrow>
       jb_status j = Succeeded \<and> jb_result_json j = Some res)"
    if p: "(i, res) \<in> set (js_published s)" for i res
  proof -
    have i: "i \<in> set (js_ids s)" and f: "\<And>j. find_job (js_db s) i = Some j \<Longrightarrow>
        jb_status j = Succeeded \<and> jb_result_json j = Some res"
      using p inv by (auto simp: system_inv_def)
    show ?thesis
      using row [of i] f i step_drawn(1) [OF step]
      by (cases "find_job (js_db s) i")
        (auto dest: terminal_row_kept simp: terminal_def elim: row_changeE)
  qed
  show ?thesis
  proof (cases rule: step_published [OF step])
    case 1
    then show ?thesis using inv db_t drawn old by (simp add: system_inv_def)
  next
    case (2 i j res)
    have "i \<notin> fst ` set (js_published s)" using inv 2(2,3) by (force simp: system_inv_def)
    then show ?thesis
      using inv db_t old drawn 2(1,4) by (auto simp: system_inv_def)
  qed
qed

section \<open>The system provides the interface\<close>

lemma row_change_some:
  "row_change s t i (Some j) (Some q) \<Longrightarrow> same_input j q \<and> (terminal j \<longrightarrow> q = j)"
  by (auto simp: terminal_def holds_claim_def keeps_input_def [symmetric] same_input_def
      mark_claimed_def elim!: row_changeE)

lemma row_change_none:
  "row_change s t i None r \<Longrightarrow> i \<in> set (js_ids s) \<Longrightarrow> r = None"
  by (auto elim: row_changeE)

lemma row_change_token:
  assumes "row_change s t i r (Some q)" "k \<in> set (js_tokens s)" "jb_claim_token q = Some k"
  shows "\<exists>j. r = Some j \<and> jb_claim_token j = Some k"
  using assms by (auto simp: mark_claimed_def elim: row_changeE)

interpretation jobs: durable_rows job_step system_inv "\<lambda>s. find_job (js_db s)"
  "\<lambda>s i. i \<in> set (js_ids s)" same_input terminal jb_claim_token "\<lambda>s k. k \<in> set (js_tokens s)"
proof unfold_locales
  fix s t :: job_system and i :: string
  assume inv: "system_inv s" and step: "job_step s t"
  note row = step_row [OF step system_inv_db [OF inv], of i]
  show "system_inv t" using system_inv_step [OF step inv] .
  show "same_input r q \<and> (terminal r \<longrightarrow> q = r)"
    if "find_job (js_db s) i = Some r" "find_job (js_db t) i = Some q" for r q
    using row that row_change_some by simp
  show "find_job (js_db t) i = None" if "find_job (js_db s) i = None" "i \<in> set (js_ids s)"
    using row that row_change_none by simp
  show "\<exists>r. find_job (js_db s) i = Some r \<and> jb_claim_token r = Some k"
    if "k \<in> set (js_tokens s)" "find_job (js_db t) i = Some q" "jb_claim_token q = Some k" for k q
    using row_change_token [of s t i _ q k] row that by simp
next
  fix s :: job_system and i j
  assume "system_inv s" "find_job (js_db s) i = Some j"
  then show "i \<in> set (js_ids s)" by (rule system_inv_row(1))
next
  fix r q p assume "same_input r q" "same_input q p"
  then show "same_input r p" by (rule same_input_trans)
qed (use step_drawn in \<open>blast+\<close>, simp)

lemma system_inv_initial: "system_inv initial_system"
  by (simp add: system_inv_def initial_system_def) (simp add: find_job_def empty_db_def)

lemma reachable_inv: "reachable s \<Longrightarrow> system_inv s"
  unfolding reachable_def by (erule jobs.inv_run) (rule system_inv_initial)

section \<open>Properties of the system\<close>

text \<open>
  C3: In every reachable state of concurrently submitting, claiming, publishing, failing and
  cleaning processes the store is consistent: identities and (tenant, key) pairs are unique, each
  row's columns fit its status, and contribution rows exist only for succeeded jobs.
\<close>

theorem reachable_store_consistent:
  assumes "reachable s"
  shows "distinct (map jb_job_id (db_jobs (js_db s))) \<and>
     distinct (map (\<lambda>j. (jb_tenant_id j, jb_idempotency_key j)) (db_jobs (js_db s))) \<and>
     list_all job_ok (db_jobs (js_db s)) \<and>
     distinct (map contribution_pk (db_contributions (js_db s))) \<and>
     cr_job_id ` set (db_contributions (js_db s)) \<subseteq> succeeded_ids (js_db s)"
  using system_inv_db [OF reachable_inv [OF assms]] by (simp add: db_inv_def)

definition submitted_system :: job_system where
  "submitted_system = initial_system\<lparr>js_db := snd (submit ''J1'' sample_submission empty_db), js_ids := [''J1'']\<rparr>"

definition claimed_system :: job_system where
  "claimed_system = submitted_system\<lparr>js_db := snd (claim_next 10 20 ''a'' [] (js_db submitted_system)),
     js_tokens := [''a'']\<rparr>"

definition reclaimed_system :: job_system where
  "reclaimed_system = claimed_system\<lparr>js_db := snd (claim_next 30 40 ''b'' [] (js_db claimed_system)),
     js_tokens := [''b'', ''a'']\<rparr>"

lemma reachable_submitted: "reachable submitted_system"
proof -
  have "job_step initial_system submitted_system"
    using job_step.Submit [of "''J1''" initial_system sample_submission]
    by (simp add: submitted_system_def initial_system_def)
  then show ?thesis by (simp add: reachable_def)
qed

lemma step_claimed: "job_step submitted_system claimed_system"
  using job_step.Claim [of "''a''" submitted_system 10 20 "[]"]
  by (simp add: claimed_system_def submitted_system_def initial_system_def)

lemma step_reclaimed: "job_step claimed_system reclaimed_system"
  using job_step.Claim [of "''b''" claimed_system 30 40 "[]"]
  by (simp add: reclaimed_system_def claimed_system_def submitted_system_def initial_system_def)

lemma reachable_claimed: "reachable claimed_system"
  using reachable_submitted step_claimed unfolding reachable_def by (rule rtranclp.rtrancl_into_rtrancl)

lemma reachable_reclaimed: "reachable reclaimed_system"
  using reachable_claimed step_reclaimed unfolding reachable_def by (rule rtranclp.rtrancl_into_rtrancl)

theorem reachable_store_consistent_witness:
  "list_all job_ok (db_jobs (js_db reclaimed_system))"
  using reachable_store_consistent [OF reachable_reclaimed] by simp

text \<open>
  C4: At most one publication per job, ever.  However many workers hold or held a claim on it,
  no job identity is published twice, and a published job that is still retained is the succeeded
  row with exactly the result that was published.
\<close>

theorem published_once:
  assumes "reachable s"
  shows "distinct (map fst (js_published s)) \<and>
     (\<forall>i res j. (i, res) \<in> set (js_published s) \<and> find_job (js_db s) i = Some j \<longrightarrow>
        jb_status j = Succeeded \<and> jb_result_json j = Some res)"
  using reachable_inv [OF assms] by (auto simp: system_inv_def)

definition published_system :: job_system where
  "published_system = reclaimed_system\<lparr>
     js_db := snd (complete_claim ''J1'' ''b'' ''{}'' [] 35 (js_db reclaimed_system)),
     js_published := [(''J1'', ''{}'')]\<rparr>"

lemma reclaimed_row:
  "find_job (js_db reclaimed_system) ''J1'' =
     Some (mark_claimed ''b'' 40 (mark_claimed ''a'' 20 (candidate_job ''J1'' sample_submission)))"
  by code_simp

lemma step_published_sample: "job_step reclaimed_system published_system"
proof -
  have "fst (complete_claim ''J1'' ''b'' ''{}'' [] 35 (js_db reclaimed_system)) = Inr True"
    by code_simp
  then obtain db' where c: "complete_claim ''J1'' ''b'' ''{}'' [] 35 (js_db reclaimed_system) = (Inr True, db')"
    by (metis fst_conv surj_pair)
  show ?thesis
    using job_step.Complete [OF c] c
    by (simp add: published_system_def reclaimed_system_def claimed_system_def submitted_system_def
        initial_system_def)
qed

lemma reachable_published: "reachable published_system"
  using reachable_reclaimed step_published_sample unfolding reachable_def
  by (rule rtranclp.rtrancl_into_rtrancl)

theorem published_once_witness:
  "\<exists>j. find_job (js_db published_system) ''J1'' = Some j \<and> jb_status j = Succeeded \<and>
     jb_result_json j = Some ''{}''"
proof -
  have "find_job (js_db published_system) ''J1'' \<noteq> None" by code_simp
  then obtain j where j: "find_job (js_db published_system) ''J1'' = Some j" by blast
  have "(''J1'', ''{}'') \<in> set (js_published published_system)" by (simp add: published_system_def)
  with j published_once [OF reachable_published] show ?thesis by blast
qed

text \<open>
  Durable evidence.  From any reachable state on, whatever runs concurrently, what was
  admitted with a job never changes, a terminal row never changes at all, and a row that retention
  removed never comes back.
\<close>

theorem rows_are_durable:
  assumes "reachable s" and "job_step\<^sup>*\<^sup>* s t"
  shows "(\<forall>j q. find_job (js_db s) i = Some j \<and> find_job (js_db t) i = Some q \<longrightarrow>
        same_input j q \<and> (terminal j \<longrightarrow> q = j)) \<and>
     (find_job (js_db s) i = None \<and> i \<in> set (js_ids s) \<longrightarrow> find_job (js_db t) i = None)"
  using jobs.row_run [OF assms(2) reachable_inv [OF assms(1)]]
    jobs.gone_run [OF assms(2) reachable_inv [OF assms(1)]] by blast

theorem rows_are_durable_witness:
  "\<exists>j q. find_job (js_db claimed_system) ''J1'' = Some j \<and>
     find_job (js_db published_system) ''J1'' = Some q \<and> same_input j q"
proof -
  have "find_job (js_db claimed_system) ''J1'' \<noteq> None" "find_job (js_db published_system) ''J1'' \<noteq> None"
    by code_simp+
  moreover have "job_step\<^sup>*\<^sup>* claimed_system published_system"
    using step_reclaimed step_published_sample by auto
  ultimately show ?thesis using rows_are_durable [OF reachable_claimed] by blast
qed

text \<open>
  A claim once superseded stays superseded.  If a drawn token is not the one on the row, then in
  every later state its holder can neither publish nor fail the job: both calls change nothing
  and answer that they did not.
\<close>

theorem superseded_claim_stays_fenced:
  assumes "reachable s" and "job_step\<^sup>*\<^sup>* s t" and "token \<in> set (js_tokens s)"
    and "\<nexists>j. find_job (js_db s) i = Some j \<and> jb_claim_token j = Some token"
  shows "complete_claim i token res rows ts (js_db t) = (Inr False, js_db t) \<and>
     fail_claim i token code detail ts (js_db t) = (False, js_db t)"
proof -
  have "\<nexists>j. find_job (js_db t) i = Some j \<and> holds_claim token j"
    using jobs.superseded_run [OF assms(2) reachable_inv [OF assms(1)] assms(3,4)]
    by (auto simp: holds_claim_def)
  then show ?thesis by (simp add: unheld_claim_fenced)
qed

theorem superseded_claim_stays_fenced_witness:
  "complete_claim ''J1'' ''a'' ''{}'' [] 50 (js_db published_system) = (Inr False, js_db published_system)"
proof -
  have "job_step\<^sup>*\<^sup>* reclaimed_system published_system" using step_published_sample by auto
  moreover have "''a'' \<in> set (js_tokens reclaimed_system)" by (simp add: reclaimed_system_def)
  moreover have "\<nexists>j. find_job (js_db reclaimed_system) ''J1'' = Some j \<and> jb_claim_token j = Some ''a''"
    by (simp add: reclaimed_row mark_claimed_def)
  ultimately show ?thesis
    using superseded_claim_stays_fenced [OF reachable_reclaimed] by blast
qed

lemma live_job_claimable:
  assumes "db_inv db" "j \<in> set (db_jobs db)" "\<not> terminal j" "now < jb_expires_at j"
    and "\<And>l. jb_lease_expires_at j = Some l \<Longrightarrow> l \<le> now"
  shows "claim_candidate now j"
proof -
  have "job_ok j" using assms(1,2) by (auto simp: db_inv_def list_all_iff)
  then show ?thesis
    using assms(3-5) by (cases "jb_status j") (auto simp: job_ok_def claim_candidate_def terminal_def)
qed

text \<open>
  No crash loses a job.  In any reachable state, with workers dead anywhere between their
  transactions, once their leases are past every job within its retention is claimable, and one
  worker's invocations, as many as there are such jobs, leave none of them claimable when their
  publications fit their columns.
\<close>

theorem crashes_lose_no_job:
  assumes "reachable s" and "0 < ls"
    and leases: "\<forall>j\<in>set (db_jobs (js_db s)). \<forall>l. jb_lease_expires_at j = Some l \<longrightarrow> l \<le> now"
    and "length runs = length (claimable now (js_db s))"
    and "\<forall>j\<in>set (claimable now (js_db s)). storable_job env j"
  shows "(\<forall>j\<in>set (db_jobs (js_db s)). \<not> terminal j \<and> now < jb_expires_at j \<longrightarrow>
        j \<in> set (claimable now (js_db s))) \<and>
     claimable now (worker_runs env now ls runs (js_db s)) = []"
proof
  note inv = system_inv_db [OF reachable_inv [OF assms(1)]]
  show "\<forall>j\<in>set (db_jobs (js_db s)). \<not> terminal j \<and> now < jb_expires_at j \<longrightarrow>
        j \<in> set (claimable now (js_db s))"
    using live_job_claimable [OF inv] leases by (auto simp: claimable_def)
  show "claimable now (worker_runs env now ls runs (js_db s)) = []"
    by (rule drained [OF inv assms(2,4,5)])
qed

theorem crashes_lose_no_job_witness:
  "claimable 60 (worker_runs sample_env 60 300 [(''c'', 61, 62)] (js_db claimed_system)) = []"
proof -
  have l: "list_all (\<lambda>j. case jb_lease_expires_at j of None \<Rightarrow> True | Some l \<Rightarrow> l \<le> 60) (db_jobs (js_db claimed_system))"
    by code_simp
  have n: "length [(''c'', 61 :: int, 62 :: int)] = length (claimable 60 (js_db claimed_system))"
    by code_simp
  show ?thesis
    by (rule conjunct2 [OF crashes_lose_no_job [OF reachable_claimed _ _ n]])
      (use l in \<open>auto simp: list_all_iff sample_env_storable\<close>)
qed

end
