(* ===== verification/Authority.thy ===== *)
theory Authority
  imports Main Prelude
begin

text \<open>
  Tenant authority: the admission of the \<open>X-Tenant-Id\<close> header, the per-request headers
  derived from it (contracts/downstream_authority.py), and the raw-header admission of a
  scenario job's owner and replay key (scenario_jobs/request_headers.py,
  scenario_jobs/identity.py).
\<close>

section \<open>Downstream authority\<close>

definition TENANT_ID_HEADER :: string where
  "TENANT_ID_HEADER = ''X-Tenant-Id''"

definition CORRELATION_ID_HEADER :: string where
  "CORRELATION_ID_HEADER = ''X-Correlation-Id''"

definition MAX_TENANT_ID_LENGTH :: nat where
  "MAX_TENANT_ID_LENGTH = 128"

record tenant_authority_error =
  tae_status_code :: int
  tae_code :: string
  tae_message :: string

definition missing_tenant_authority :: tenant_authority_error where
  "missing_tenant_authority =
     \<lparr>tae_status_code = 401, tae_code = ''MISSING_TENANT_AUTHORITY'',
      tae_message = ''Stateful input requires X-Tenant-Id before any upstream request is made.''\<rparr>"

definition invalid_tenant_authority :: tenant_authority_error where
  "invalid_tenant_authority =
     \<lparr>tae_status_code = 400, tae_code = ''INVALID_TENANT_AUTHORITY'',
      tae_message = ''X-Tenant-Id must not exceed 128 characters after trimming.''\<rparr>"

record downstream_authority =
  da_tenant_id :: string
  da_correlation_id :: "string option"

definition admit_downstream_authority ::
  "string option \<Rightarrow> string option \<Rightarrow> (tenant_authority_error, downstream_authority) result"
where
  "admit_downstream_authority tenant_id correlation_id =
     (let normalized = (case tenant_id of None \<Rightarrow> [] | Some t \<Rightarrow> py_strip t) in
      if normalized = [] then Inl missing_tenant_authority
      else if MAX_TENANT_ID_LENGTH < length normalized then Inl invalid_tenant_authority
      else Inr \<lparr>da_tenant_id = normalized, da_correlation_id = correlation_id\<rparr>)"

definition required_downstream_authority ::
  "downstream_authority option \<Rightarrow> (tenant_authority_error, downstream_authority) result"
where
  "required_downstream_authority a =
     (case a of None \<Rightarrow> Inl missing_tenant_authority | Some x \<Rightarrow> Inr x)"

definition downstream_authority_headers :: "downstream_authority \<Rightarrow> (string, string) dict" where
  "downstream_authority_headers a =
     (let headers = [(TENANT_ID_HEADER, da_tenant_id a)] in
      case da_correlation_id a of
        None \<Rightarrow> headers
      | Some c \<Rightarrow> if c = [] then headers else AList.update CORRELATION_ID_HEADER c headers)"

definition admitted_tenant :: "string \<Rightarrow> bool" where
  "admitted_tenant t \<longleftrightarrow> t \<noteq> [] \<and> py_strip t = t \<and> length t \<le> MAX_TENANT_ID_LENGTH"

lemma admitted_authority:
  "admit_downstream_authority t c = Inr a \<Longrightarrow>
     admitted_tenant (da_tenant_id a) \<and> da_correlation_id a = c \<and>
     (\<exists>raw. t = Some raw \<and> da_tenant_id a = py_strip raw)"
  by (auto simp: admit_downstream_authority_def admitted_tenant_def Let_def
      split: if_splits option.splits)

lemma admit_refusal_iff:
  "(\<exists>e. admit_downstream_authority t c = Inl e) \<longleftrightarrow>
     \<not> (\<exists>raw. t = Some raw \<and> admitted_tenant (py_strip raw))"
  by (auto simp: admit_downstream_authority_def admitted_tenant_def Let_def split: option.splits)

section \<open>Scenario-job request headers\<close>

text \<open>
  The request is seen through \<open>headers.getlist\<close>, the web framework's list of the values
  supplied under a name.  \<open>ValueErr\<close> is a raised \<open>ValueError\<close>, \<open>HttpErr\<close> a raised
  \<open>HTTPException\<close> with its status.
\<close>

datatype request_error = ValueErr string | HttpErr int string

type_synonym getlist = "string \<Rightarrow> string list"

definition IDEMPOTENCY_KEY_HEADER :: string where
  "IDEMPOTENCY_KEY_HEADER = ''Idempotency-Key''"

definition normalize_idempotency_key :: "string option \<Rightarrow> (request_error, string) result" where
  "normalize_idempotency_key v =
     (let normalized = (case v of None \<Rightarrow> [] | Some s \<Rightarrow> py_strip s) in
      if normalized = [] then
        Inl (ValueErr ''Idempotency-Key is required for scenario evaluation job submission'')
      else if 128 < length normalized then
        Inl (ValueErr ''Idempotency-Key must not exceed 128 characters after trimming'')
      else Inr normalized)"

definition single_header_value :: "getlist \<Rightarrow> string \<Rightarrow> (request_error, string option) result" where
  "single_header_value getlist name =
     (let values = getlist name in
      if 1 < length values then Inl (ValueErr (name @ '' must be supplied exactly once''))
      else Inr (case values of [] \<Rightarrow> None | v # _ \<Rightarrow> Some v))"

definition scenario_job_tenant_id :: "getlist \<Rightarrow> (request_error, string option) result" where
  "scenario_job_tenant_id getlist = single_header_value getlist TENANT_ID_HEADER"

definition scenario_job_idempotency_key :: "getlist \<Rightarrow> (request_error, string) result" where
  "scenario_job_idempotency_key getlist =
     bind_result (single_header_value getlist IDEMPOTENCY_KEY_HEADER) (\<lambda>value.
       case value of
         None \<Rightarrow> Inl (HttpErr 422
           ''Idempotency-Key header is required for scenario evaluation job submission'')
       | Some v \<Rightarrow> normalize_idempotency_key (Some v))"

lemma normalized_key:
  "normalize_idempotency_key v = Inr k \<longleftrightarrow>
     (\<exists>raw. v = Some raw \<and> k = py_strip raw \<and> k \<noteq> [] \<and> length k \<le> 128)"
  by (auto simp: normalize_idempotency_key_def Let_def split: option.splits)

text \<open>The admitted tenant is exactly the caller's own header, trimmed, non-blank and
  within the bound; every other header value is refused, a missing or blank one with 401 and
  an oversized one with 400, and an admitted authority is put on every downstream call.\<close>

theorem tenant_admission_fails_closed:
  "case admit_downstream_authority t c of
     Inl e \<Rightarrow> (case t of None \<Rightarrow> e = missing_tenant_authority
               | Some raw \<Rightarrow> (if py_strip raw = [] then e = missing_tenant_authority
                   else 128 < length (py_strip raw) \<and> e = invalid_tenant_authority))
   | Inr a \<Rightarrow> admitted_tenant (da_tenant_id a) \<and> t \<noteq> None \<and> da_tenant_id a = py_strip (the t) \<and>
       map_of (downstream_authority_headers a) TENANT_ID_HEADER = Some (py_strip (the t))"
  by (auto simp: admit_downstream_authority_def admitted_tenant_def MAX_TENANT_ID_LENGTH_def
      downstream_authority_headers_def TENANT_ID_HEADER_def CORRELATION_ID_HEADER_def Let_def
      split: option.splits)

text \<open>A replay key is admitted only from a single header value, and what is admitted is
  that value trimmed, non-blank and at most 128 characters; two values are always refused,
  whatever their order.\<close>

theorem single_replay_key:
  "scenario_job_idempotency_key getlist = Inr k \<longleftrightarrow>
     (\<exists>v. getlist IDEMPOTENCY_KEY_HEADER = [v] \<and> k = py_strip v \<and> k \<noteq> [] \<and> length k \<le> 128)"
proof (cases "getlist IDEMPOTENCY_KEY_HEADER")
  case Nil
  then show ?thesis
    by (simp add: scenario_job_idempotency_key_def single_header_value_def Let_def)
next
  case (Cons v vs)
  then show ?thesis
    by (cases vs)
      (auto simp: scenario_job_idempotency_key_def single_header_value_def Let_def normalized_key)
qed

end
