(* ===== verification/Cursor.thy ===== *)
theory Cursor
  imports Main Prelude
begin

text \<open>
  The page cursor of scenario_jobs/service.py: \<open>[scenario_id, ordinal]\<close> as compact JSON, in
  URL-safe base64 without padding, and its admission from an arbitrary caller's string.  What
  the standard library computes is written out: the ASCII escaping of \<open>json.dumps\<close>, base64 with
  its lenient decoder (characters outside the alphabet are skipped, a completed padding ends the
  input), strict UTF-8, and the JSON texts the decoder accepts, which are exactly those of a
  two-element array of a string and an integer or Boolean; every other text raises.  Bytes and code points
  are naturals.  A decoded identity with a code point above 255 has no counterpart among the
  model's strings and is answered as invalid.
\<close>

section \<open>Base64\<close>

definition B64_ALPHABET :: string where
  "B64_ALPHABET = ''ABCDEFGHIJKLMNOPQRSTUVWXYZabcdefghijklmnopqrstuvwxyz0123456789-_''"

definition b64_char :: "nat \<Rightarrow> char" where
  "b64_char v = B64_ALPHABET ! v"

text \<open>The decoder reads \<open>+\<close> and \<open>/\<close> as well, which \<open>-\<close> and \<open>_\<close> are translated to.\<close>

definition b64_index :: "char \<Rightarrow> nat option" where
  "b64_index c =
     map_of (zip B64_ALPHABET [0..<64])
       (if c = CHR ''+'' then CHR ''-'' else if c = CHR ''/'' then CHR ''_'' else c)"

text \<open>Encoding, with the padding stripped.\<close>

fun b64_encode :: "nat list \<Rightarrow> string" where
  "b64_encode [] = []"
| "b64_encode [a] = [b64_char (a div 4), b64_char (a mod 4 * 16)]"
| "b64_encode [a, b] =
     [b64_char (a div 4), b64_char (a mod 4 * 16 + b div 16), b64_char (b mod 16 * 4)]"
| "b64_encode (a # b # c # bs) =
     [b64_char (a div 4), b64_char (a mod 4 * 16 + b div 16), b64_char (b mod 16 * 4 + c div 64),
      b64_char (c mod 64)] @ b64_encode bs"

text \<open>\<open>binascii.a2b_base64\<close>: position in the quad, bits left over, padding seen.\<close>

fun a2b_base64 :: "nat \<Rightarrow> nat \<Rightarrow> nat \<Rightarrow> string \<Rightarrow> nat list option" where
  "a2b_base64 q left pads [] = (if q = 0 then Some [] else None)"
| "a2b_base64 q left pads (c # cs) =
     (if c = CHR ''='' then
        if 2 \<le> q \<and> 4 \<le> q + (pads + 1) then Some []
        else a2b_base64 q left (if 2 \<le> q then pads + 1 else pads) cs
      else case b64_index c of
        None \<Rightarrow> a2b_base64 q left pads cs
      | Some v \<Rightarrow>
          if q = 0 then a2b_base64 1 v 0 cs
          else if q = 1 then
            map_option (Cons (left * 4 + v div 16)) (a2b_base64 2 (v mod 16) 0 cs)
          else if q = 2 then
            map_option (Cons (left * 16 + v div 4)) (a2b_base64 3 (v mod 4) 0 cs)
          else map_option (Cons (left * 64 + v)) (a2b_base64 0 0 0 cs))"

definition b64_padding :: "string \<Rightarrow> string" where
  "b64_padding s = replicate (nat (- int (length s) mod 4)) (CHR ''='')"

definition urlsafe_b64decode :: "string \<Rightarrow> nat list option" where
  "urlsafe_b64decode s =
     (if list_all (\<lambda>c. (of_char c :: nat) < 128) s then a2b_base64 0 0 0 s else None)"

lemma b64_alphabet:
  "length B64_ALPHABET = 64" "distinct B64_ALPHABET"
  "list_all (\<lambda>c. c \<notin> {CHR ''='', CHR ''+'', CHR ''/''} \<and> (of_char c :: nat) < 128) B64_ALPHABET"
  by (simp_all add: B64_ALPHABET_def)

lemma b64_index_char:
  assumes "v < 64"
  shows "b64_index (b64_char v) = Some v" "b64_char v \<noteq> CHR ''=''"
    "(of_char (b64_char v) :: nat) < 128"
proof -
  have "b64_char v \<in> set B64_ALPHABET"
    using assms b64_alphabet(1) by (simp add: b64_char_def)
  then have c: "b64_char v \<notin> {CHR ''='', CHR ''+'', CHR ''/''} \<and> (of_char (b64_char v) :: nat) < 128"
    by (rule bspec [OF b64_alphabet(3) [unfolded list_all_iff]])
  have "map_of (zip B64_ALPHABET [0..<64]) (B64_ALPHABET ! v) = Some ([0..<64] ! v)"
    by (rule map_of_zip_nth) (use assms b64_alphabet in simp_all)
  with c assms show "b64_index (b64_char v) = Some v" by (simp add: b64_index_def b64_char_def)
  from c show "b64_char v \<noteq> CHR ''=''" "(of_char (b64_char v) :: nat) < 128" by simp_all
qed

lemma b64_step:
  assumes "v < 64"
  shows "a2b_base64 q left pads (b64_char v # cs) =
    (if q = 0 then a2b_base64 1 v 0 cs
     else if q = 1 then map_option (Cons (left * 4 + v div 16)) (a2b_base64 2 (v mod 16) 0 cs)
     else if q = 2 then map_option (Cons (left * 16 + v div 4)) (a2b_base64 3 (v mod 4) 0 cs)
     else map_option (Cons (left * 64 + v)) (a2b_base64 0 0 0 cs))"
  using b64_index_char [OF assms] by simp

lemma b64_pad: "a2b_base64 2 left 0 ''=='' = Some []" "a2b_base64 3 left 0 ''='' = Some []"
  by simp_all

declare a2b_base64.simps(2) [simp del]

lemma split_digits:
  fixes x y n :: nat
  assumes "y < n"
  shows "(x * n + y) div n = x" "(x * n + y) mod n = y"
  using assms by simp_all

lemma quad_arith:
  fixes a b c :: nat
  assumes "a < 256" "b < 256" "c < 256"
  shows "a div 4 < 64" "a mod 4 * 16 + b div 16 < 64" "b mod 16 * 4 + c div 64 < 64" "c mod 64 < 64"
    "a div 4 * 4 + (a mod 4 * 16 + b div 16) div 16 = a"
    "(a mod 4 * 16 + b div 16) mod 16 * 16 + (b mod 16 * 4 + c div 64) div 4 = b"
    "(b mod 16 * 4 + c div 64) mod 4 * 64 + c mod 64 = c"
proof -
  have b: "b div 16 < 16" and c: "c div 64 < 4" using assms by simp_all
  have m: "a mod 4 < 4" "b mod 16 < 16" by simp_all
  show "a div 4 < 64" "c mod 64 < 64" using assms by simp_all
  show "a mod 4 * 16 + b div 16 < 64" using b m by linarith
  show "b mod 16 * 4 + c div 64 < 64" using c m by linarith
  show "a div 4 * 4 + (a mod 4 * 16 + b div 16) div 16 = a"
    by (simp only: split_digits [OF b] div_mult_mod_eq)
  show "(a mod 4 * 16 + b div 16) mod 16 * 16 + (b mod 16 * 4 + c div 64) div 4 = b"
    by (simp only: split_digits [OF b] split_digits [OF c] div_mult_mod_eq)
  show "(b mod 16 * 4 + c div 64) mod 4 * 64 + c mod 64 = c"
    by (simp only: split_digits [OF c] div_mult_mod_eq)
qed

fun padding_for :: "nat list \<Rightarrow> string" where
  "padding_for [] = []"
| "padding_for [a] = ''==''"
| "padding_for [a, b] = ''=''"
| "padding_for (a # b # c # bs) = padding_for bs"

lemma pad_add_4: "- int (Suc (Suc (Suc (Suc n)))) mod 4 = - int n mod 4"
  by presburger

lemma b64_padding_encode: "b64_padding (b64_encode bs) = padding_for bs"
proof (induction bs rule: padding_for.induct)
  case (4 a b c bs)
  then show ?case by (simp add: b64_padding_def pad_add_4 del: of_nat_Suc)
qed (simp_all add: b64_padding_def numeral_2_eq_2)

lemma a2b_encode:
  "list_all (\<lambda>b. b < 256) bs \<Longrightarrow> a2b_base64 0 0 0 (b64_encode bs @ padding_for bs) = Some bs"
proof (induction bs rule: padding_for.induct)
  case (2 a)
  then show ?case
    using quad_arith [of a 0 0] by (simp add: b64_step b64_pad)
next
  case (3 a b)
  then show ?case
    using quad_arith [of a b 0] by (simp add: b64_step b64_pad)
next
  case (4 a b c bs)
  then have "b < 256" "c < 256" by simp_all
  then have "b div 16 < 16" "c div 64 < 4" by simp_all
  with 4 show ?case using quad_arith [of a b c] by (simp add: b64_step)
qed simp

lemma b64_ascii:
  "list_all (\<lambda>b. b < 256) bs \<Longrightarrow> list_all (\<lambda>c. (of_char c :: nat) < 128) (b64_encode bs @ padding_for bs)"
proof (induction bs rule: padding_for.induct)
  case (2 a)
  then show ?case using quad_arith(1-4) [of a 0 0] by (simp add: b64_index_char)
next
  case (3 a b)
  then show ?case using quad_arith(1-4) [of a b 0] by (simp add: b64_index_char)
next
  case (4 a b c bs)
  then show ?case using quad_arith(1-4) [of a b c] by (simp add: b64_index_char)
qed simp

lemma urlsafe_b64_roundtrip:
  "list_all (\<lambda>b. b < 256) bs \<Longrightarrow>
     urlsafe_b64decode (b64_encode bs @ b64_padding (b64_encode bs)) = Some bs"
  using a2b_encode b64_ascii by (simp only: urlsafe_b64decode_def b64_padding_encode if_True)

section \<open>JSON\<close>

definition hex_digit :: "nat \<Rightarrow> nat" where
  "hex_digit v = (if v < 10 then 48 + v else 87 + v)"

text \<open>The ASCII escaping of one character, and \<open>json.dumps([s, n], separators=(",", ":"))\<close>.\<close>

definition json_escape :: "nat \<Rightarrow> nat list" where
  "json_escape c =
     (if c = 34 then [92, 34] else if c = 92 then [92, 92]
      else if c = 10 then [92, 110] else if c = 13 then [92, 114] else if c = 9 then [92, 116]
      else if c = 12 then [92, 102] else if c = 8 then [92, 98]
      else if 32 \<le> c \<and> c \<le> 126 then [c]
      else [92, 117, 48, 48, hex_digit (c div 16), hex_digit (c mod 16)])"

definition json_string :: "string \<Rightarrow> nat list" where
  "json_string s = [34] @ concat (map json_escape (ascii s)) @ [34]"

definition json_cursor :: "string \<Rightarrow> nat \<Rightarrow> nat list" where
  "json_cursor scenario_id ordinal =
     [91] @ json_string scenario_id @ [44] @ ascii (digits_of ordinal) @ [93]"

definition encode_contribution_cursor :: "string \<Rightarrow> nat \<Rightarrow> string" where
  "encode_contribution_cursor scenario_id ordinal = b64_encode (json_cursor scenario_id ordinal)"

text \<open>Strict UTF-8 of a list of bytes, as code points.\<close>

definition cont_byte :: "nat \<Rightarrow> bool" where
  "cont_byte b \<longleftrightarrow> 128 \<le> b \<and> b < 192"

fun utf8_decode :: "nat list \<Rightarrow> nat list option" where
  "utf8_decode [] = Some []"
| "utf8_decode (a # bs) =
     (if a < 128 then map_option (Cons a) (utf8_decode bs)
      else if 194 \<le> a \<and> a < 224 then
        (case bs of b # bs' \<Rightarrow>
           if cont_byte b then map_option (Cons ((a - 192) * 64 + (b - 128))) (utf8_decode bs') else None
         | _ \<Rightarrow> None)
      else if 224 \<le> a \<and> a < 240 then
        (case bs of b # c # bs' \<Rightarrow>
           if cont_byte b \<and> cont_byte c \<and> (a = 224 \<longrightarrow> 160 \<le> b) \<and> (a = 237 \<longrightarrow> b < 160)
           then map_option (Cons ((a - 224) * 4096 + (b - 128) * 64 + (c - 128))) (utf8_decode bs')
           else None
         | _ \<Rightarrow> None)
      else if 240 \<le> a \<and> a < 245 then
        (case bs of b # c # d # bs' \<Rightarrow>
           if cont_byte b \<and> cont_byte c \<and> cont_byte d \<and> (a = 240 \<longrightarrow> 144 \<le> b) \<and> (a = 244 \<longrightarrow> b < 144)
           then map_option (Cons ((a - 240) * 262144 + (b - 128) * 4096 + (c - 128) * 64 + (d - 128)))
             (utf8_decode bs')
           else None
         | _ \<Rightarrow> None)
      else None)"

definition json_skip :: "nat list \<Rightarrow> nat list" where
  "json_skip cs = dropWhile (\<lambda>c. c \<in> {32, 9, 10, 13}) cs"

definition hex_value :: "nat \<Rightarrow> nat option" where
  "hex_value c = (if 48 \<le> c \<and> c \<le> 57 then Some (c - 48)
     else if 97 \<le> c \<and> c \<le> 102 then Some (c - 87)
     else if 65 \<le> c \<and> c \<le> 70 then Some (c - 55) else None)"

definition hex4 :: "nat list \<Rightarrow> nat option" where
  "hex4 cs = (case map hex_value cs of
     [Some a, Some b, Some c, Some d] \<Rightarrow> Some (((a * 16 + b) * 16 + c) * 16 + d) | _ \<Rightarrow> None)"

definition simple_escape :: "nat \<Rightarrow> nat option" where
  "simple_escape c = map_of [(34, 34), (92, 92), (47, 47), (98, 8), (102, 12), (110, 10), (114, 13), (116, 9)] c"

text \<open>The characters of a string after its opening quote, and what follows the closing one.\<close>

fun json_chars :: "nat list \<Rightarrow> (nat list \<times> nat list) option" where
  "json_chars [] = None"
| "json_chars (c # cs) =
     (if c = 34 then Some ([], cs)
      else if c = 92 then
        (case cs of
           [] \<Rightarrow> None
         | e # cs' \<Rightarrow>
             if e = 117 then
               (case cs' of
                  h1 # h2 # h3 # h4 # rest \<Rightarrow>
                    (case hex4 [h1, h2, h3, h4] of
                       None \<Rightarrow> None
                     | Some v \<Rightarrow> map_option (apfst (Cons v)) (json_chars rest))
                | _ \<Rightarrow> None)
             else (case simple_escape e of
                     None \<Rightarrow> None
                   | Some v \<Rightarrow> map_option (apfst (Cons v)) (json_chars cs')))
      else if c < 32 then None
      else map_option (apfst (Cons c)) (json_chars cs))"

definition is_digit :: "nat \<Rightarrow> bool" where
  "is_digit c \<longleftrightarrow> 48 \<le> c \<and> c \<le> 57"

text \<open>
  An integer or Boolean and what follows it; a Boolean is the integer 0 or 1.  A leading zero
  stands alone, and a literal of more than 4300 digits is refused.
\<close>

definition json_int :: "nat list \<Rightarrow> (int \<times> nat list) option" where
  "json_int cs =
     (if take 4 cs = ascii ''true'' then Some (1, drop 4 cs)
      else if take 5 cs = ascii ''false'' then Some (0, drop 5 cs)
      else let neg = (cs \<noteq> [] \<and> hd cs = 45);
               body = (if neg then tl cs else cs);
               ds = (if body \<noteq> [] \<and> hd body = 48 then [48] else takeWhile is_digit body)
        in if ds = [] \<or> 4300 < length ds then None
           else Some ((if neg then - int (digits_value ds) else int (digits_value ds)),
                  drop (length ds) body))"

text \<open>The decoded pair; \<open>None\<close> is the \<open>ValueError\<close> of an invalid cursor.\<close>

definition json_pair :: "nat list \<Rightarrow> (nat list \<times> int) option" where
  "json_pair cs =
     (case json_skip cs of
        [] \<Rightarrow> None
      | a # cs1 \<Rightarrow>
     (if a \<noteq> 91 then None else case json_skip cs1 of
        [] \<Rightarrow> None
      | q # cs2 \<Rightarrow>
     (if q \<noteq> 34 then None else case json_chars cs2 of
        None \<Rightarrow> None
      | Some (s, cs3) \<Rightarrow>
     (case json_skip cs3 of
        [] \<Rightarrow> None
      | comma # cs4 \<Rightarrow>
     (if comma \<noteq> 44 then None else case json_int (json_skip cs4) of
        None \<Rightarrow> None
      | Some (n, cs5) \<Rightarrow>
     (case json_skip cs5 of
        [] \<Rightarrow> None
      | close # cs6 \<Rightarrow> if close = 93 \<and> json_skip cs6 = [] then Some (s, n) else None))))))"

definition decode_contribution_cursor :: "string \<Rightarrow> (string \<times> nat) option" where
  "decode_contribution_cursor cursor =
     (case urlsafe_b64decode (cursor @ b64_padding cursor) of
        None \<Rightarrow> None
      | Some bs \<Rightarrow>
     (case utf8_decode bs of
        None \<Rightarrow> None
      | Some cs \<Rightarrow>
     (case json_pair cs of
        None \<Rightarrow> None
      | Some (s, n) \<Rightarrow>
          if s = [] \<or> n < 0 \<or> \<not> list_all (\<lambda>c. c < 256) s then None
          else Some (map char_of s, nat n))))"

section \<open>The round trip\<close>

lemma utf8_decode_ascii: "list_all (\<lambda>b. b < 128) bs \<Longrightarrow> utf8_decode bs = Some bs"
  by (induction bs) auto

lemma ascii_bound: "c \<in> set (ascii s) \<Longrightarrow> c < 256"
  by (auto simp: ascii_def)

lemma map_char_ascii [simp]: "map char_of (ascii s) = s"
  by (simp add: ascii_def comp_def)

lemma hex_digit:
  assumes "v < 16"
  shows "hex_value (hex_digit v) = Some v" "hex_digit v < 128"
  using assms by (auto simp: hex_value_def hex_digit_def)

lemma json_escape_bound: "c < 256 \<Longrightarrow> list_all (\<lambda>b. b < 128) (json_escape c)"
proof -
  assume "c < 256"
  then have "c div 16 < 16" by simp
  then show ?thesis by (simp add: json_escape_def hex_digit)
qed

lemma hex4_byte:
  assumes "c < 256"
  shows "hex4 [48, 48, hex_digit (c div 16), hex_digit (c mod 16)] = Some c"
proof -
  have "c div 16 < 16" using assms by simp
  moreover have "hex_value 48 = Some 0" by (simp add: hex_value_def)
  ultimately show ?thesis by (simp add: hex4_def hex_digit)
qed

lemma json_chars_escape:
  assumes "c < 256"
  shows "json_chars (json_escape c @ t) = map_option (apfst (Cons c)) (json_chars t)"
proof (cases "c \<in> {34, 92, 10, 13, 9, 12, 8}")
  case True
  then show ?thesis by (auto simp: json_escape_def simple_escape_def)
next
  case False
  then show ?thesis
    using hex4_byte [OF assms] by (auto simp: json_escape_def)
qed

lemma json_chars_string:
  "list_all (\<lambda>c. c < 256) cs \<Longrightarrow> json_chars (concat (map json_escape cs) @ 34 # t) = Some (cs, t)"
  by (induction cs) (simp_all add: json_chars_escape)

lemma digits_of_props:
  "digits_of n \<noteq> [] \<and> list_all is_digit (ascii (digits_of n)) \<and>
     digits_value (ascii (digits_of n)) = n \<and> (hd (ascii (digits_of n)) = 48 \<longrightarrow> n = 0)"
proof (induction n rule: digits_of.induct)
  case (1 n)
  show ?case
  proof (cases "n < 10")
    case True
    then show ?thesis
      by (subst (1 2 3 4) digits_of.simps) (auto simp: ascii_def is_digit_def digits_value_def)
  next
    case False
    have d: "digits_of n = digits_of (n div 10) @ [char_of (48 + n mod 10)]"
      using False by (subst digits_of.simps) simp
    have b: "48 + n mod 10 < 256" by (rule less_trans [of _ 58]) simp_all
    have a: "ascii (digits_of n) = ascii (digits_of (n div 10)) @ [48 + n mod 10]"
      using b by (simp add: d ascii_def)
    have ih: "digits_of (n div 10) \<noteq> []" "list_all is_digit (ascii (digits_of (n div 10)))"
      "digits_value (ascii (digits_of (n div 10))) = n div 10"
      "hd (ascii (digits_of (n div 10))) = 48 \<longrightarrow> n div 10 = 0"
      using 1 False by blast+
    have "ascii (digits_of (n div 10)) \<noteq> []" using ih(1) by (simp add: ascii_def)
    moreover have "is_digit (48 + n mod 10)" by (simp add: is_digit_def less_Suc_eq_le [symmetric])
    moreover have "n div 10 \<noteq> 0" using False by simp
    moreover have "digits_of n \<noteq> []" by (simp add: d)
    ultimately show ?thesis
      using ih by (simp add: a digits_value_def)
  qed
qed

lemma json_int_plain:
  assumes "take 4 cs \<noteq> ascii ''true''" "take 5 cs \<noteq> ascii ''false''" "cs \<noteq> []" "hd cs \<noteq> 45"
    and "(if hd cs = 48 then [48] else takeWhile is_digit cs) = ds" "ds \<noteq> []" "length ds \<le> 4300"
  shows "json_int cs = Some (int (digits_value ds), drop (length ds) cs)"
  using assms by (auto simp: json_int_def Let_def)

lemma json_int_digits:
  assumes "length (digits_of n) \<le> 4300"
  shows "json_int (ascii (digits_of n) @ 93 # t) = Some (int n, 93 # t)"
proof -
  let ?ds = "ascii (digits_of n)"
  have ds: "?ds \<noteq> []" "list_all is_digit ?ds" "digits_value ?ds = n" "hd ?ds = 48 \<longrightarrow> n = 0"
    using digits_of_props [of n] by (auto simp: ascii_def)
  have h: "is_digit (hd ?ds)" using ds by (cases ?ds) auto
  have len: "length ?ds = length (digits_of n)" by (simp add: ascii_def)
  have no_word: "take k (?ds @ 93 # t) \<noteq> ascii (c # w)" if "\<not> is_digit (of_char c)" for k c w
    using h that ds(1) by (cases ?ds; cases k) (auto simp: ascii_def)
  have "take 4 (?ds @ 93 # t) \<noteq> ascii ''true''" "take 5 (?ds @ 93 # t) \<noteq> ascii ''false''"
    by (rule no_word, simp add: is_digit_def)+
  moreover have "hd (?ds @ 93 # t) \<noteq> 45" using h ds(1) by (auto simp: is_digit_def)
  moreover have "(if hd (?ds @ 93 # t) = 48 then [48] else takeWhile is_digit (?ds @ 93 # t)) = ?ds"
  proof (cases "hd ?ds = 48")
    case True
    then have "n = 0" using ds(4) by simp
    then show ?thesis by (simp add: ascii_def digits_of.simps)
  next
    case False
    have "takeWhile is_digit (?ds @ 93 # t) = ?ds"
      using ds(2) by (subst takeWhile_append2) (auto simp: list_all_iff is_digit_def)
    with False ds(1) show ?thesis by simp
  qed
  ultimately have "json_int (?ds @ 93 # t) = Some (int (digits_value ?ds), drop (length ?ds) (?ds @ 93 # t))"
    by (intro json_int_plain) (use ds(1) assms len in simp_all)
  then show ?thesis using ds(3) by simp
qed

lemma skip_other: "c \<notin> {32, 9, 10, 13} \<Longrightarrow> json_skip (c # cs) = c # cs"
  by (simp add: json_skip_def)

lemma json_pair_cursor:
  assumes "length (digits_of n) \<le> 4300"
  shows "json_pair (json_cursor s n) = Some (ascii s, int n)"
proof -
  have "list_all (\<lambda>c. c < 256) (ascii s)" by (auto simp: list_all_iff dest: ascii_bound)
  note str = json_chars_string [OF this, of "44 # ascii (digits_of n) @ [93]"]
  have "json_skip (ascii (digits_of n) @ [93]) = ascii (digits_of n) @ [93]"
  proof -
    have "ascii (digits_of n) \<noteq> []" "list_all is_digit (ascii (digits_of n))"
      using digits_of_props [of n] by (auto simp: ascii_def)
    then show ?thesis by (cases "ascii (digits_of n)") (auto simp: is_digit_def skip_other)
  qed
  then show ?thesis
    using str json_int_digits [OF assms, of "[]"]
    by (simp add: json_pair_def json_cursor_def json_string_def skip_other) (simp add: json_skip_def)
qed

lemma json_cursor_ascii: "list_all (\<lambda>b. b < 128) (json_cursor s n)"
proof -
  have "list_all is_digit (ascii (digits_of n))" using digits_of_props [of n] by simp
  then have "list_all (\<lambda>b. b < 128) (ascii (digits_of n))"
    by (auto simp: list_all_iff is_digit_def)
  moreover have "list_all (\<lambda>b. b < 128) (concat (map json_escape (ascii s)))"
    using json_escape_bound ascii_bound by (fastforce simp: list_all_iff)
  ultimately show ?thesis by (simp add: json_cursor_def json_string_def)
qed

lemma cursor_roundtrip:
  assumes "s \<noteq> []" "length (digits_of n) \<le> 4300"
  shows "decode_contribution_cursor (encode_contribution_cursor s n) = Some (s, n)"
proof -
  let ?bs = "json_cursor s n"
  have "list_all (\<lambda>b. b < 256) ?bs" using json_cursor_ascii [of s n] by (auto simp: list_all_iff)
  from urlsafe_b64_roundtrip [OF this] have
    "urlsafe_b64decode (encode_contribution_cursor s n @ b64_padding (encode_contribution_cursor s n)) = Some ?bs"
    by (simp add: encode_contribution_cursor_def)
  moreover have "ascii s \<noteq> []" "list_all (\<lambda>c. c < 256) (ascii s)"
    using assms(1) by (auto simp: ascii_def list_all_iff)
  ultimately show ?thesis
    using utf8_decode_ascii [OF json_cursor_ascii] json_pair_cursor [OF assms(2)]
    by (simp add: decode_contribution_cursor_def)
qed

text \<open>
  C17: The cursor a page hands out is read back as exactly the row it names, whatever characters
  the scenario identity holds, and two different rows never share a cursor.
\<close>

theorem cursor_identifies_row:
  assumes "s \<noteq> []" and "s' \<noteq> []" and "length (digits_of n) \<le> 4300" and "length (digits_of n') \<le> 4300"
  shows "decode_contribution_cursor (encode_contribution_cursor s n) = Some (s, n) \<and>
     (encode_contribution_cursor s n = encode_contribution_cursor s' n' \<longleftrightarrow> s = s' \<and> n = n')"
  using cursor_roundtrip [OF assms(1,3)] cursor_roundtrip [OF assms(2,4)] by (metis option.inject prod.inject)

theorem cursor_identifies_row_witness:
  "decode_contribution_cursor (encode_contribution_cursor ''growth_slowdown'' 249) =
     Some (''growth_slowdown'', 249)"
  using cursor_identifies_row [of "''growth_slowdown''" "''growth_slowdown''" 249 249]
  by (simp add: digits_of.simps)

end
