(* ===== verification/JobService.thy ===== *)
theory JobService
  imports Main JobWorker Authority Cursor
begin

text \<open>
  The API side of scenario jobs: schema readiness (scenario_jobs/schema.py), the configured
  store, retention, submission, status and contribution pages (scenario_jobs/service.py), and the
  three route handlers (routers/scenario_jobs.py) down to the status they answer.  Parameters are
  the environment, what database reflection reports, the digests, the JSON codecs, and the
  \<open>uuid4()\<close> and clock values of the call.
\<close>

section \<open>Schema readiness\<close>

text \<open>
  What reflection reports of a table: a constraint has its columns under one of two names, and an
  expression in an index is a missing column name.
\<close>

record constraint =
  ck_column_names :: "string option list option"
  ck_constrained_columns :: "string option list option"

record index_info =
  ix_constraint :: constraint
  ix_unique :: bool

record table_info =
  tb_columns :: "string list"
  tb_primary_key :: constraint
  tb_unique_constraints :: "constraint list"
  tb_indexes :: "index_info list"

type_synonym schema = "string \<Rightarrow> table_info option"

definition JOB_TABLE :: string where
  "JOB_TABLE = ''scenario_evaluation_jobs''"

definition CONTRIBUTION_TABLE :: string where
  "CONTRIBUTION_TABLE = ''scenario_evaluation_job_contributions''"

definition REQUIRED_JOB_COLUMNS :: "string list" where
  "REQUIRED_JOB_COLUMNS =
     [''job_id'', ''tenant_id'', ''idempotency_key'', ''request_fingerprint'', ''scenario_pack_id'',
      ''scenario_pack_revision'', ''immutable_request_json'', ''status'', ''actor_id'',
      ''correlation_id'', ''claim_token'', ''lease_expires_at'', ''attempt_count'', ''failure_code'',
      ''failure_detail'', ''result_json'', ''completed_at'', ''submitted_at'', ''expires_at'']"

definition REQUIRED_CONTRIBUTION_COLUMNS :: "string list" where
  "REQUIRED_CONTRIBUTION_COLUMNS =
     [''job_id'', ''scenario_id'', ''ordinal'', ''security_id'', ''display_name'', ''bucket'',
      ''weight'', ''shock_pct'', ''contribution_loss_pct'']"

definition constraint_columns :: "constraint \<Rightarrow> string set" where
  "constraint_columns c =
     (let names = (case ck_column_names c of
         Some (n # ns) \<Rightarrow> n # ns
       | _ \<Rightarrow> (case ck_constrained_columns c of Some ns \<Rightarrow> ns | None \<Rightarrow> []))
      in set (List.map_filter id names))"

definition has_required_job_columns :: "table_info \<Rightarrow> bool" where
  "has_required_job_columns t \<longleftrightarrow> set REQUIRED_JOB_COLUMNS \<subseteq> set (tb_columns t)"

definition has_required_primary_key :: "table_info \<Rightarrow> bool" where
  "has_required_primary_key t \<longleftrightarrow> constraint_columns (tb_primary_key t) = {''job_id''}"

definition has_required_unique_keys :: "table_info \<Rightarrow> bool" where
  "has_required_unique_keys t \<longleftrightarrow>
     {''tenant_id'', ''idempotency_key''} \<in>
       constraint_columns ` set (tb_unique_constraints t) \<union>
       (\<lambda>i. constraint_columns (ix_constraint i)) ` set (filter ix_unique (tb_indexes t))"

definition has_required_contribution_table :: "schema \<Rightarrow> bool" where
  "has_required_contribution_table schema =
     (case schema CONTRIBUTION_TABLE of
        None \<Rightarrow> False
      | Some t \<Rightarrow> set REQUIRED_CONTRIBUTION_COLUMNS \<subseteq> set (tb_columns t) \<and>
          constraint_columns (tb_primary_key t) = {''job_id'', ''scenario_id'', ''ordinal''})"

text \<open>\<open>None\<close> is a \<open>SQLAlchemyError\<close> while reflecting.\<close>

definition is_scenario_job_schema_ready :: "schema option \<Rightarrow> bool" where
  "is_scenario_job_schema_ready inspected =
     (case inspected of
        None \<Rightarrow> False
      | Some schema \<Rightarrow>
          (case schema JOB_TABLE of
             None \<Rightarrow> False
           | Some t \<Rightarrow> has_required_job_columns t \<and> has_required_primary_key t \<and>
               has_required_unique_keys t \<and> has_required_contribution_table schema))"

section \<open>Configuration\<close>

datatype service_error =
  StoreUnavailable string | UnsupportedPackId string | AdmissionConflict
| OutcomeNotYetVisible | DatabaseError | OverflowErr | InvalidCursor | StoredResultInvalid string

text \<open>
  A store that opens is what reflection reports of it; \<open>connect\<close> gives \<open>None\<close> when the engine
  cannot be created.
\<close>

definition configured_scenario_job_store ::
  "string option \<Rightarrow> (string \<Rightarrow> schema option option) \<Rightarrow> (service_error, unit) result"
where
  "configured_scenario_job_store url_env connect =
     (let database_url = py_strip (case url_env of None \<Rightarrow> [] | Some u \<Rightarrow> u) in
      if database_url = [] then Inl (StoreUnavailable ''Scenario job admission is unavailable because LOTUS_RISK_SCENARIO_JOB_DATABASE_URL is not configured'')
      else case connect database_url of
        None \<Rightarrow> Inl (StoreUnavailable ''Scenario job store configuration is invalid'')
      | Some inspected \<Rightarrow>
          if is_scenario_job_schema_ready inspected then Inr ()
          else Inl (StoreUnavailable ''Scenario job admission is unavailable because the configured store is not migrated or reachable''))"

definition RETENTION_ERROR :: service_error where
  "RETENTION_ERROR = StoreUnavailable ''Scenario job admission requires a positive LOTUS_RISK_SCENARIO_JOB_RETENTION_HOURS''"

definition retention_hours :: "string option \<Rightarrow> (service_error, int) result" where
  "retention_hours raw_env =
     (case py_int (py_strip (case raw_env of None \<Rightarrow> [] | Some r \<Rightarrow> r)) of
        None \<Rightarrow> Inl RETENTION_ERROR
      | Some v \<Rightarrow> if v \<le> 0 then Inl RETENTION_ERROR else Inr v)"

section \<open>Submission\<close>

record job_accepted =
  ja_job_id :: string
  ja_status :: job_status
  ja_request_fingerprint :: string
  ja_scenario_pack_revision :: string
  ja_expires_at :: instant

text \<open>The last representable instant, 9999-12-31T23:59:59.999999Z, in microseconds since the epoch.\<close>

definition MAX_INSTANT :: instant where
  "MAX_INSTANT = 253402300799999999"

definition add_hours :: "instant \<Rightarrow> int \<Rightarrow> (service_error, instant) result" where
  "add_hours t hours =
     (let expires = t + seconds (hours * 3600) in
      if MAX_INSTANT < expires then Inl OverflowErr else Inr expires)"

record submit_call =
  sc_env_retention :: "string option"
  sc_digest :: digest
  sc_fingerprint :: "scenario_request \<Rightarrow> string"
  sc_encode_request :: "scenario_request \<Rightarrow> string"
  sc_new_job_id :: string
  sc_now :: instant

definition accepted_of :: "job \<Rightarrow> job_accepted" where
  "accepted_of j = \<lparr>ja_job_id = jb_job_id j, ja_status = jb_status j,
     ja_request_fingerprint = jb_request_fingerprint j,
     ja_scenario_pack_revision = jb_scenario_pack_revision j, ja_expires_at = jb_expires_at j\<rparr>"

text \<open>
  The revision is computed for a pack that was just found in the catalogue, so its \<open>KeyError\<close>
  branch is not taken.
\<close>

definition submit_scenario_job ::
  "submit_call \<Rightarrow> string \<Rightarrow> string \<Rightarrow> scenario_request \<Rightarrow> string option \<Rightarrow> string option \<Rightarrow>
     job_db \<Rightarrow> (service_error, job_accepted) result \<times> job_db"
where
  "submit_scenario_job call tenant_id idempotency_key request actor_id correlation_id db =
     (case scenario_pack_revision (sc_digest call) (sr_scenario_pack_id request) of
        None \<Rightarrow> (Inl (UnsupportedPackId (''Unsupported scenario_pack_id: '' @ sr_scenario_pack_id request)), db)
      | Some revision \<Rightarrow>
     (case bind_result (retention_hours (sc_env_retention call)) (add_hours (sc_now call)) of
        Inl e \<Rightarrow> (Inl e, db)
      | Inr expires_at \<Rightarrow>
     (case submit (sc_new_job_id call)
            \<lparr>sb_tenant_id = tenant_id, sb_idempotency_key = idempotency_key,
             sb_request_fingerprint = sc_fingerprint call request,
             sb_scenario_pack_id = sr_scenario_pack_id request,
             sb_scenario_pack_revision = revision,
             sb_immutable_request_json = sc_encode_request call request,
             sb_actor_id = actor_id, sb_correlation_id = correlation_id,
             sb_submitted_at = sc_now call, sb_expires_at = expires_at\<rparr> db of
        (Inl IdempotencyConflict, db') \<Rightarrow> (Inl AdmissionConflict, db')
      | (Inl OutcomeNotVisible, db') \<Rightarrow> (Inl OutcomeNotYetVisible, db')
      | (Inl ColumnTooLong, db') \<Rightarrow> (Inl DatabaseError, db')
      | (Inr (j, _), db') \<Rightarrow> (Inr (accepted_of j), db'))))"

section \<open>Status and contribution pages\<close>

record job_status_response =
  js_accepted :: job_accepted
  js_submitted_at :: instant
  js_failure_code :: "string option"
  js_completed_at :: "instant option"
  js_result :: "pack_response option"

text \<open>\<open>decode_result\<close> parses a stored result; \<open>None\<close> is its \<open>ValueError\<close>.\<close>

definition scenario_job_status_response ::
  "(string \<Rightarrow> pack_response option) \<Rightarrow> job_db \<Rightarrow> string \<Rightarrow> string \<Rightarrow>
     (service_error, job_status_response option) result"
where
  "scenario_job_status_response decode_result db tenant_id job_id =
     (case get_for_tenant db tenant_id job_id of
        None \<Rightarrow> Inr None
      | Some j \<Rightarrow>
          let response = (\<lambda>r. \<lparr>js_accepted = accepted_of j, js_submitted_at = jb_submitted_at j,
                js_failure_code = jb_failure_code j, js_completed_at = jb_completed_at j,
                js_result = r\<rparr>) in
          case jb_result_json j of
            None \<Rightarrow> Inr (Some (response None))
          | Some text \<Rightarrow>
              (case decode_result text of
                 None \<Rightarrow> Inl (StoredResultInvalid text)
               | Some r \<Rightarrow> Inr (Some (response (Some r)))))"

record job_contribution =
  jc_scenario_id :: string
  jc_security_id :: string
  jc_display_name :: "string option"
  jc_bucket :: string
  jc_weight :: f64
  jc_shock_pct :: f64
  jc_contribution_loss_pct :: f64

record contribution_page_response =
  jp_job_id :: string
  jp_contributions :: "job_contribution list"
  jp_next_cursor :: "string option"

definition page_row :: "contribution \<Rightarrow> job_contribution" where
  "page_row c = \<lparr>jc_scenario_id = cr_scenario_id c, jc_security_id = cr_security_id c,
     jc_display_name = cr_display_name c, jc_bucket = cr_bucket c, jc_weight = cr_weight c,
     jc_shock_pct = cr_shock_pct c, jc_contribution_loss_pct = cr_contribution_loss_pct c\<rparr>"

definition scenario_job_contribution_page ::
  "job_db \<Rightarrow> string \<Rightarrow> string \<Rightarrow> string option \<Rightarrow> nat \<Rightarrow>
     (service_error, contribution_page_response option) result"
where
  "scenario_job_contribution_page db tenant_id job_id cursor limit =
     (case (case cursor of None \<Rightarrow> Some None
            | Some c \<Rightarrow> map_option Some (decode_contribution_cursor c)) of
        None \<Rightarrow> Inl InvalidCursor
      | Some after \<Rightarrow>
     (case contribution_page db tenant_id job_id after limit of
        None \<Rightarrow> Inr None
      | Some rows \<Rightarrow>
          let page_rows = take limit rows;
              next_cursor = (if limit < length rows \<and> page_rows \<noteq> []
                then Some (encode_contribution_cursor (cr_scenario_id (last page_rows))
                       (cr_ordinal (last page_rows)))
                else None)
          in Inr (Some \<lparr>jp_job_id = job_id, jp_contributions = map page_row page_rows,
                jp_next_cursor = next_cursor\<rparr>)))"

section \<open>Route handlers\<close>

text \<open>
  What a handler ends in: a body with its status, an HTTP error, an exception some registered
  handler maps to a status (api_errors.py: \<open>TenantAuthorityError\<close> to its own, \<open>ValueError\<close> to
  400), or one that none does, which the server answers as 500.
\<close>

datatype 'a route_outcome = Answered int 'a | Refused int string | Unhandled service_error

definition SERVICE_UNAVAILABLE :: int where
  "SERVICE_UNAVAILABLE = 503"

definition tenant_refusal :: "tenant_authority_error \<Rightarrow> 'a route_outcome" where
  "tenant_refusal e = Refused (tae_status_code e) (tae_message e)"

definition store_refusal :: "service_error \<Rightarrow> 'a route_outcome" where
  "store_refusal e = (case e of StoreUnavailable m \<Rightarrow> Refused SERVICE_UNAVAILABLE m | _ \<Rightarrow> Unhandled e)"

text \<open>
  The \<open>ValueError\<close>s of the service, in the form the registered handler answers them; the text of
  a validation error is pydantic's and stands for the stored text here.
\<close>

definition escaped :: "service_error \<Rightarrow> 'a route_outcome" where
  "escaped e = (case e of
     UnsupportedPackId m \<Rightarrow> Refused 400 m
   | InvalidCursor \<Rightarrow> Refused 400 ''scenario job contribution cursor is invalid''
   | StoredResultInvalid m \<Rightarrow> Refused 400 m
   | AdmissionConflict \<Rightarrow> Refused 400 ''Idempotency-Key was previously used with different scenario job input''
   | _ \<Rightarrow> Unhandled e)"

definition submit_regime_scenario_pack_job ::
  "string option \<Rightarrow> (string \<Rightarrow> schema option option) \<Rightarrow> submit_call \<Rightarrow> scenario_request \<Rightarrow>
     string option \<Rightarrow> string option \<Rightarrow> string option \<Rightarrow> string \<Rightarrow> job_db \<Rightarrow>
     job_accepted route_outcome \<times> job_db"
where
  "submit_regime_scenario_pack_job url_env connect call payload tenant_id actor_id correlation_id
     idempotency_key db =
     (case admit_downstream_authority tenant_id correlation_id of
        Inl e \<Rightarrow> (tenant_refusal e, db)
      | Inr authority \<Rightarrow>
     (case configured_scenario_job_store url_env connect of
        Inl e \<Rightarrow> (store_refusal e, db)
      | Inr _ \<Rightarrow>
     (case submit_scenario_job call (da_tenant_id authority) idempotency_key payload actor_id
             (da_correlation_id authority) db of
        (Inl AdmissionConflict, db') \<Rightarrow>
          (Refused 409 ''Idempotency-Key was previously used with different scenario job input'', db')
      | (Inl e, db') \<Rightarrow> (escaped e, db')
      | (Inr accepted, db') \<Rightarrow> (Answered 202 accepted, db'))))"

definition get_regime_scenario_pack_job ::
  "string option \<Rightarrow> (string \<Rightarrow> schema option option) \<Rightarrow> (string \<Rightarrow> pack_response option) \<Rightarrow>
     string \<Rightarrow> string option \<Rightarrow> string option \<Rightarrow> job_db \<Rightarrow> job_status_response route_outcome"
where
  "get_regime_scenario_pack_job url_env connect decode_result job_id tenant_id correlation_id db =
     (case admit_downstream_authority tenant_id correlation_id of
        Inl e \<Rightarrow> tenant_refusal e
      | Inr authority \<Rightarrow>
     (case configured_scenario_job_store url_env connect of
        Inl e \<Rightarrow> store_refusal e
      | Inr _ \<Rightarrow>
     (case scenario_job_status_response decode_result db (da_tenant_id authority) job_id of
        Inl e \<Rightarrow> escaped e
      | Inr None \<Rightarrow> Refused 404 ''Scenario evaluation job not found''
      | Inr (Some response) \<Rightarrow> Answered 200 response)))"

text \<open>The query bounds on the page size are admitted before the handler runs.\<close>

definition valid_page_limit :: "nat \<Rightarrow> bool" where
  "valid_page_limit limit \<longleftrightarrow> 1 \<le> limit \<and> limit \<le> 250"

definition valid_cursor_length :: "string option \<Rightarrow> bool" where
  "valid_cursor_length cursor = (case cursor of None \<Rightarrow> True | Some c \<Rightarrow> length c \<le> 512)"

definition get_regime_scenario_pack_job_contributions ::
  "string option \<Rightarrow> (string \<Rightarrow> schema option option) \<Rightarrow> string \<Rightarrow> string option \<Rightarrow> string option \<Rightarrow>
     string option \<Rightarrow> nat \<Rightarrow> job_db \<Rightarrow> contribution_page_response route_outcome"
where
  "get_regime_scenario_pack_job_contributions url_env connect job_id tenant_id correlation_id cursor
     limit db =
     (if \<not> valid_page_limit limit \<or> \<not> valid_cursor_length cursor
      then Refused 422 ''Request validation failed''
      else case admit_downstream_authority tenant_id correlation_id of
        Inl e \<Rightarrow> tenant_refusal e
      | Inr authority \<Rightarrow>
     (case configured_scenario_job_store url_env connect of
        Inl e \<Rightarrow> store_refusal e
      | Inr _ \<Rightarrow>
     (case scenario_job_contribution_page db (da_tenant_id authority) job_id cursor limit of
        Inl e \<Rightarrow> escaped e
      | Inr None \<Rightarrow> Refused 404 ''Scenario evaluation job contributions not found''
      | Inr (Some page) \<Rightarrow> Answered 200 page)))"

section \<open>Readiness\<close>

lemma schema_ready_iff:
  "is_scenario_job_schema_ready (Some schema) \<longleftrightarrow>
     (\<exists>t c. schema JOB_TABLE = Some t \<and> schema CONTRIBUTION_TABLE = Some c \<and>
        has_required_job_columns t \<and> has_required_primary_key t \<and> has_required_unique_keys t \<and>
        set REQUIRED_CONTRIBUTION_COLUMNS \<subseteq> set (tb_columns c) \<and>
        constraint_columns (tb_primary_key c) = {''job_id'', ''scenario_id'', ''ordinal''})"
  by (auto simp: is_scenario_job_schema_ready_def has_required_contribution_table_def
      split: option.splits)

text \<open>A later schema with at least the columns and keys of an earlier one.\<close>

definition table_extends :: "table_info \<Rightarrow> table_info \<Rightarrow> bool" where
  "table_extends old new \<longleftrightarrow>
     set (tb_columns old) \<subseteq> set (tb_columns new) \<and> tb_primary_key new = tb_primary_key old \<and>
     set (tb_unique_constraints old) \<subseteq> set (tb_unique_constraints new) \<and>
     set (tb_indexes old) \<subseteq> set (tb_indexes new)"

lemma unique_keys_extend:
  "table_extends old new \<Longrightarrow> has_required_unique_keys old \<Longrightarrow> has_required_unique_keys new"
  unfolding table_extends_def has_required_unique_keys_def by auto

text \<open>
  Readiness is a minimum, not an equality.  A migration that adds tables, columns, unique
  constraints or indexes keeps a ready schema ready.
\<close>

theorem migrations_keep_readiness:
  assumes "is_scenario_job_schema_ready (Some old)"
    and "\<And>name t. old name = Some t \<Longrightarrow> \<exists>t'. new name = Some t' \<and> table_extends t t'"
  shows "is_scenario_job_schema_ready (Some new)"
proof -
  obtain t c where t: "old JOB_TABLE = Some t" "has_required_job_columns t"
      "has_required_primary_key t" "has_required_unique_keys t"
    and c: "old CONTRIBUTION_TABLE = Some c" "set REQUIRED_CONTRIBUTION_COLUMNS \<subseteq> set (tb_columns c)"
      "constraint_columns (tb_primary_key c) = {''job_id'', ''scenario_id'', ''ordinal''}"
    using assms(1) by (auto simp: schema_ready_iff)
  from assms(2) [OF t(1)] obtain t' where t': "new JOB_TABLE = Some t'" "table_extends t t'" by blast
  from assms(2) [OF c(1)] obtain c' where c': "new CONTRIBUTION_TABLE = Some c'" "table_extends c c'" by blast
  have "has_required_unique_keys t'" by (rule unique_keys_extend [OF t'(2) t(4)])
  moreover have "has_required_job_columns t'" "has_required_primary_key t'"
    using t(2,3) t'(2)
    by (simp_all only: table_extends_def has_required_job_columns_def has_required_primary_key_def)
      blast
  moreover have "set REQUIRED_CONTRIBUTION_COLUMNS \<subseteq> set (tb_columns c')" "tb_primary_key c' = tb_primary_key c"
    using c(2) c'(2) unfolding table_extends_def by blast+
  ultimately show ?thesis using t'(1) c'(1) c(3) unfolding schema_ready_iff by metis
qed

definition sample_key :: "string list \<Rightarrow> constraint" where
  "sample_key names = \<lparr>ck_column_names = None, ck_constrained_columns = Some (map Some names)\<rparr>"

definition migrated_schema :: schema where
  "migrated_schema =
     [JOB_TABLE \<mapsto> \<lparr>tb_columns = REQUIRED_JOB_COLUMNS, tb_primary_key = sample_key [''job_id''],
        tb_unique_constraints = [sample_key [''tenant_id'', ''idempotency_key'']], tb_indexes = []\<rparr>,
      CONTRIBUTION_TABLE \<mapsto> \<lparr>tb_columns = REQUIRED_CONTRIBUTION_COLUMNS,
        tb_primary_key = sample_key [''job_id'', ''scenario_id'', ''ordinal''],
        tb_unique_constraints = [], tb_indexes = []\<rparr>]"

lemma constraint_columns_sample_key: "constraint_columns (sample_key names) = set names"
proof -
  have "List.map_filter id (map Some xs) = xs" for xs :: "string list"
    by (induction xs) (simp_all add: map_filter_simps)
  then show ?thesis by (simp add: constraint_columns_def sample_key_def)
qed

lemma migrated_ready: "is_scenario_job_schema_ready (Some migrated_schema)"
  by (simp add: schema_ready_iff migrated_schema_def has_required_job_columns_def
      has_required_primary_key_def has_required_unique_keys_def constraint_columns_sample_key
      JOB_TABLE_def CONTRIBUTION_TABLE_def)

theorem migrations_keep_readiness_witness:
  "is_scenario_job_schema_ready (Some (migrated_schema(''audit'' \<mapsto>
     \<lparr>tb_columns = [], tb_primary_key = sample_key [], tb_unique_constraints = [], tb_indexes = []\<rparr>)))"
  by (rule migrations_keep_readiness [OF migrated_ready])
    (auto simp: migrated_schema_def table_extends_def JOB_TABLE_def CONTRIBUTION_TABLE_def split: if_splits)

section \<open>Submission through the route\<close>

lemma submit_service_error:
  "submit_scenario_job call t k r actor corr db = (Inl e, db') \<Longrightarrow> db' = db"
  by (auto simp: submit_scenario_job_def submit_alt
      split: option.splits sum.splits submit_error.splits prod.splits if_splits)

lemma submit_service_ok:
  assumes "db_inv db" "submit_scenario_job call t k r actor corr db = (Inr a, db')"
  obtains j where "find_job db' (ja_job_id a) = Some j" "a = accepted_of j" "jb_tenant_id j = t"
    "jb_idempotency_key j = k" "jb_request_fingerprint j = sc_fingerprint call r"
    "\<And>i q. find_job db i = Some q \<Longrightarrow> find_job db' i = Some q"
proof -
  from assms(2) obtain revision expires j created where
    sub: "submit (sc_new_job_id call)
        \<lparr>sb_tenant_id = t, sb_idempotency_key = k, sb_request_fingerprint = sc_fingerprint call r,
         sb_scenario_pack_id = sr_scenario_pack_id r, sb_scenario_pack_revision = revision,
         sb_immutable_request_json = sc_encode_request call r, sb_actor_id = actor,
         sb_correlation_id = corr, sb_submitted_at = sc_now call, sb_expires_at = expires\<rparr> db =
       (Inr (j, created), db')"
    and a: "a = accepted_of j"
    by (auto simp: submit_scenario_job_def
        split: option.splits sum.splits submit_error.splits prod.splits)
  show ?thesis
  proof (cases "get_by_key db t k")
    case (Some e)
    then have "j = e" "db' = db" "jb_request_fingerprint e = sc_fingerprint call r"
      using sub by (auto simp: submit_alt split: if_splits)
    moreover have "find_job db (jb_job_id e) = Some e" "jb_tenant_id e = t" "jb_idempotency_key e = k"
      using Some find_job_member [OF db_inv_distinct_ids [OF assms(1)], of e]
      by (auto simp: get_by_key_def find_Some_iff same_key_def)
    ultimately show ?thesis using that a by (simp add: accepted_of_def)
  next
    case None
    then have new: "sc_new_job_id call \<notin> jb_job_id ` set (db_jobs db)"
      and db': "db' = db\<lparr>db_jobs := db_jobs db @ [j]\<rparr>"
      and j: "jb_job_id j = sc_new_job_id call" "jb_tenant_id j = t" "jb_idempotency_key j = k"
        "jb_request_fingerprint j = sc_fingerprint call r"
      using sub by (auto simp: submit_alt candidate_job_def split: if_splits)
    have "find_job db' (jb_job_id j) = Some j"
      using new find_job_None_iff [of db "sc_new_job_id call"] by (simp add: db' find_append_job j)
    then show ?thesis using that a j by (simp add: accepted_of_def db' find_append_job)
  qed
qed

text \<open>
  C10: What 202 means.  A submission answered as accepted belongs to the caller's own admitted
  tenant, and the job answered is durable under that tenant, the replay key and the fingerprint of
  the request, with every job there was before still there; every other answer, an error
  included, leaves the database as it was.
\<close>

theorem accepted_submission_is_durable:
  assumes "db_inv db"
  shows "case submit_regime_scenario_pack_job url connect call r t actor corr k db of
     (Answered status a, db') \<Rightarrow> status = 202 \<and>
        (\<exists>raw j. t = Some raw \<and> admitted_tenant (py_strip raw) \<and> jb_tenant_id j = py_strip raw \<and>
           jb_idempotency_key j = k \<and> jb_request_fingerprint j = sc_fingerprint call r \<and>
           find_job db' (ja_job_id a) = Some j \<and> a = accepted_of j) \<and>
        (\<forall>i q. find_job db i = Some q \<longrightarrow> find_job db' i = Some q)
   | (_, db') \<Rightarrow> db' = db"
proof (cases "admit_downstream_authority t corr")
  case (Inl e)
  then show ?thesis by (simp add: submit_regime_scenario_pack_job_def tenant_refusal_def)
next
  case (Inr authority)
  note auth = admitted_authority [OF Inr]
  show ?thesis
  proof (cases "configured_scenario_job_store url connect")
    case (Inl e)
    then show ?thesis using Inr
      by (cases e) (simp_all add: submit_regime_scenario_pack_job_def store_refusal_def)
  next
    case (Inr u)
    obtain res db' where sub: "submit_scenario_job call (da_tenant_id authority) k r actor
        (da_correlation_id authority) db = (res, db')" by force
    show ?thesis
    proof (cases res)
      case (Inl e)
      then have "db' = db" using sub submit_service_error by simp
      then show ?thesis
        using \<open>admit_downstream_authority t corr = Inr authority\<close> \<open>configured_scenario_job_store url connect = Inr u\<close> sub Inl
        by (cases e) (simp_all add: submit_regime_scenario_pack_job_def escaped_def)
    next
      case res: (Inr a)
      show ?thesis
      proof (rule submit_service_ok [OF assms sub [unfolded res]])
        fix j
        assume "find_job db' (ja_job_id a) = Some j" "a = accepted_of j"
          "jb_tenant_id j = da_tenant_id authority" "jb_idempotency_key j = k"
          "jb_request_fingerprint j = sc_fingerprint call r"
          and "\<And>i q. find_job db i = Some q \<Longrightarrow> find_job db' i = Some q"
        moreover have "submit_regime_scenario_pack_job url connect call r t actor corr k db = (Answered 202 a, db')"
          using \<open>admit_downstream_authority t corr = Inr authority\<close> \<open>configured_scenario_job_store url connect = Inr u\<close> sub res
          by (simp add: submit_regime_scenario_pack_job_def)
        ultimately show ?thesis using auth by auto
      qed
    qed
  qed
qed

definition sample_call :: submit_call where
  "sample_call = \<lparr>sc_env_retention = Some ''24'', sc_digest = (\<lambda>_. ''d''), sc_fingerprint = (\<lambda>_. ''sha256:f''),
     sc_encode_request = (\<lambda>_. ''{}''), sc_new_job_id = ''J7'', sc_now = 5\<rparr>"

theorem accepted_submission_is_durable_witness:
  "\<exists>a db' j. submit_regime_scenario_pack_job (Some ''sqlite://'') (\<lambda>_. Some (Some migrated_schema)) sample_call
     sample_request (Some '' tenant-sg '') None None ''K7'' sample_db = (Answered 202 a, db') \<and>
     find_job db' (ja_job_id a) = Some j \<and> jb_tenant_id j = ''tenant-sg''"
proof -
  let ?run = "submit_regime_scenario_pack_job (Some ''sqlite://'') (\<lambda>_. Some (Some migrated_schema)) sample_call
     sample_request (Some '' tenant-sg '') None None ''K7'' sample_db"
  have store: "configured_scenario_job_store (Some ''sqlite://'') (\<lambda>_. Some (Some migrated_schema)) = Inr ()"
    using migrated_ready
    by (simp add: configured_scenario_job_store_def py_strip_def py_lstrip_def py_isspace_def)
  have auth: "admit_downstream_authority (Some '' tenant-sg '') None =
      Inr \<lparr>da_tenant_id = ''tenant-sg'', da_correlation_id = None\<rparr>" by code_simp
  have sub: "is_ok (fst (submit_scenario_job sample_call ''tenant-sg'' ''K7'' sample_request None None sample_db))"
    by code_simp
  then obtain a db' where "submit_scenario_job sample_call ''tenant-sg'' ''K7'' sample_request None None sample_db = (Inr a, db')"
    by (cases "submit_scenario_job sample_call ''tenant-sg'' ''K7'' sample_request None None sample_db")
      (auto simp: is_ok_def split: sum.splits)
  then have run: "?run = (Answered 202 a, db')"
    by (simp add: submit_regime_scenario_pack_job_def store auth)
  have strip: "py_strip '' tenant-sg '' = ''tenant-sg''" by code_simp
  show ?thesis
    using accepted_submission_is_durable [OF db_inv_sample_db, where url = "Some ''sqlite://''" and
        connect = "\<lambda>_. Some (Some migrated_schema)" and call = sample_call and r = sample_request and
        t = "Some '' tenant-sg ''" and actor = None and corr = None and k = "''K7''"]
    by (auto simp: run strip)
qed

text \<open>
  The store's unavailability is the 503 the route declares only while the store is
  configured: a retention setting that is missing, unreadable or not positive raises the same
  exception past the handler that would have answered it, and the caller gets the server's 500.
\<close>

theorem misconfigured_retention_escapes:
  assumes "admit_downstream_authority t corr = Inr authority"
    and "configured_scenario_job_store url connect = Inr ()"
    and "map_of SCENARIO_PACKS (sr_scenario_pack_id r) = Some pack"
    and "retention_hours (sc_env_retention call) = Inl RETENTION_ERROR"
  shows "submit_regime_scenario_pack_job url connect call r t actor corr k db =
     (Unhandled RETENTION_ERROR, db)"
  using assms
  by (simp add: submit_regime_scenario_pack_job_def submit_scenario_job_def
      scenario_pack_revision_def escaped_def RETENTION_ERROR_def)

theorem misconfigured_retention_escapes_witness:
  "submit_regime_scenario_pack_job (Some ''sqlite://'') (\<lambda>_. Some (Some migrated_schema))
     (sample_call\<lparr>sc_env_retention := None\<rparr>) sample_request (Some ''tenant-sg'') None None ''K7'' empty_db =
   (Unhandled RETENTION_ERROR, empty_db)"
proof (rule misconfigured_retention_escapes)
  show "admit_downstream_authority (Some ''tenant-sg'') None =
      Inr \<lparr>da_tenant_id = ''tenant-sg'', da_correlation_id = None\<rparr>" by code_simp
  show "configured_scenario_job_store (Some ''sqlite://'') (\<lambda>_. Some (Some migrated_schema)) = Inr ()"
    using migrated_ready
    by (simp add: configured_scenario_job_store_def py_strip_def py_lstrip_def py_isspace_def)
  show "map_of SCENARIO_PACKS (sr_scenario_pack_id sample_request) =
      Some (the (map_of SCENARIO_PACKS (sr_scenario_pack_id sample_request)))"
    using sample_pack by (auto simp: sample_request_def)
  show "retention_hours (sc_env_retention (sample_call\<lparr>sc_env_retention := None\<rparr>)) = Inl RETENTION_ERROR"
    by (simp add: retention_hours_def py_int_def)
qed

section \<open>Reads through the routes\<close>

lemma get_for_tenant_foreign:
  assumes "db_inv db" "find_job db i = Some j" "jb_tenant_id j \<noteq> t"
  shows "get_for_tenant db t i = None"
proof (rule ccontr)
  assume "get_for_tenant db t i \<noteq> None"
  then obtain q where "get_for_tenant db t i = Some q" by blast
  from get_for_tenant_SomeD [OF this] have q: "q \<in> set (db_jobs db)" "jb_tenant_id q = t" "jb_job_id q = i"
    by auto
  from find_job_member [OF db_inv_distinct_ids [OF assms(1)] q(1)] q assms(2,3) show False by simp
qed

lemma get_for_tenant_empty: "get_for_tenant empty_db t i = None"
  by (simp add: get_for_tenant_def empty_db_def)

text \<open>
  A job of another tenant is indistinguishable from no job: both read routes answer a foreign
  identity exactly as they answer it on an empty database.
\<close>

theorem foreign_job_is_not_found:
  assumes "db_inv db" and "find_job db i = Some j"
    and "admit_downstream_authority t corr = Inr authority" and "jb_tenant_id j \<noteq> da_tenant_id authority"
  shows "get_regime_scenario_pack_job url connect dec i t corr db =
       get_regime_scenario_pack_job url connect dec i t corr empty_db \<and>
     get_regime_scenario_pack_job_contributions url connect i t corr cursor limit db =
       get_regime_scenario_pack_job_contributions url connect i t corr cursor limit empty_db"
proof -
  have "get_for_tenant db (da_tenant_id authority) i = get_for_tenant empty_db (da_tenant_id authority) i"
    using get_for_tenant_foreign [OF assms(1,2,4)] by (simp add: get_for_tenant_empty)
  moreover from this have "contribution_page db (da_tenant_id authority) i after n =
      contribution_page empty_db (da_tenant_id authority) i after n" for after n
    by (simp add: contribution_page_def get_for_tenant_empty)
  ultimately have "scenario_job_status_response dec db (da_tenant_id authority) i =
      scenario_job_status_response dec empty_db (da_tenant_id authority) i"
    "scenario_job_contribution_page db (da_tenant_id authority) i cursor limit =
      scenario_job_contribution_page empty_db (da_tenant_id authority) i cursor limit"
    by (simp_all only: scenario_job_status_response_def scenario_job_contribution_page_def)
  then show ?thesis
    by (simp only: get_regime_scenario_pack_job_def get_regime_scenario_pack_job_contributions_def
        assms(3) sum.case simp_thms)
qed

theorem foreign_job_is_not_found_witness:
  "get_regime_scenario_pack_job (Some ''db'') (\<lambda>_. Some (Some migrated_schema)) (\<lambda>_. None)
       ''J1'' (Some ''T2'') None sample_db =
     get_regime_scenario_pack_job (Some ''db'') (\<lambda>_. Some (Some migrated_schema)) (\<lambda>_. None)
       ''J1'' (Some ''T2'') None empty_db"
proof -
  have auth: "admit_downstream_authority (Some ''T2'') None = Inr \<lparr>da_tenant_id = ''T2'', da_correlation_id = None\<rparr>"
    by code_simp
  have row: "find_job sample_db ''J1'' = Some (candidate_job ''J1'' sample_submission)" by code_simp
  show ?thesis
    using foreign_job_is_not_found [OF db_inv_sample_db row auth,
      of "Some ''db''" "\<lambda>_. Some (Some migrated_schema)" "\<lambda>_. None"]
    by (simp add: candidate_job_def sample_submission_def)
qed

section \<open>Walking the pages\<close>

text \<open>The client of the contribution route: a cursor in, a page and the next cursor out.\<close>

definition page_client :: "job_db \<Rightarrow> string \<Rightarrow> string \<Rightarrow> nat \<Rightarrow> string option \<Rightarrow>
    job_contribution list \<times> string option"
where
  "page_client db tenant_id job_id limit cursor =
     (case scenario_job_contribution_page db tenant_id job_id cursor limit of
        Inr (Some page) \<Rightarrow> (jp_contributions page, jp_next_cursor page)
      | _ \<Rightarrow> ([], None))"

definition cursor_ready :: "contribution \<Rightarrow> bool" where
  "cursor_ready c \<longleftrightarrow> cr_scenario_id c \<noteq> [] \<and> length (digits_of (cr_ordinal c)) \<le> 4300"

definition cursor_of :: "string \<times> nat \<Rightarrow> string" where
  "cursor_of k = encode_contribution_cursor (fst k) (snd k)"

lemma page_client_step:
  assumes dec: "(case cursor of None \<Rightarrow> after = None
      | Some c \<Rightarrow> after = decode_contribution_cursor c \<and> after \<noteq> None)"
  shows "page_client db t i limit cursor =
     (case pages.page_step (db, t, i) limit after of
        (rows, next) \<Rightarrow> (map page_row rows, map_option cursor_of next))"
proof -
  have "(case cursor of None \<Rightarrow> Some None | Some c \<Rightarrow> map_option Some (decode_contribution_cursor c)) = Some after"
    using dec by (cases cursor) auto
  then show ?thesis
    by (simp add: page_client_def scenario_job_contribution_page_def pages.page_step_def
        read_page_def page_of_def Let_def cursor_of_def page_order_def split: option.split)
qed

lemma page_step_cursor:
  assumes "pages.page_step (db, t, i) limit after = (rows, Some k)"
  shows "\<exists>c\<in>set (db_contributions db). k = page_order c"
proof -
  from assms obtain all where all: "contribution_page db t i after limit = Some all"
    and k: "k = page_order (last (take limit all))" "take limit all \<noteq> []"
    by (auto simp: pages.page_step_def read_page_def page_of_def Let_def split: option.splits if_splits)
  have "last (take limit all) \<in> set all" using k(2) by (meson in_set_takeD last_in_set)
  also have "set all \<subseteq> set (db_contributions db)"
    using all by (auto simp: contribution_page_def rows_after_def split: option.splits if_splits
        dest!: in_set_takeD)
  finally show ?thesis using k(1) by blast
qed

lemma walk_client:
  assumes ready: "list_all cursor_ready (db_contributions db)"
    and "(case cursor of None \<Rightarrow> after = None
      | Some c \<Rightarrow> after = decode_contribution_cursor c \<and> after \<noteq> None)"
  shows "walk_pages fuel (page_client db t i limit) cursor =
     map_option (map page_row) (walk_pages fuel (pages.page_step (db, t, i) limit) after)"
  using assms(2)
proof (induction fuel arbitrary: cursor after)
  case (Suc fuel)
  obtain rows "next" where step: "pages.page_step (db, t, i) limit after = (rows, next)" by force
  show ?case
  proof (cases "next")
    case None
    then show ?thesis by (simp add: page_client_step [OF Suc.prems] step)
  next
    case (Some k)
    from page_step_cursor [OF step [unfolded Some]] obtain c where
      c: "c \<in> set (db_contributions db)" "k = page_order c" by blast
    have "decode_contribution_cursor (cursor_of k) = Some k"
      using ready c by (auto simp: list_all_iff cursor_ready_def cursor_of_def page_order_def
          cursor_roundtrip)
    then have "walk_pages fuel (page_client db t i limit) (Some (cursor_of k)) =
        map_option (map page_row) (walk_pages fuel (pages.page_step (db, t, i) limit) (Some k))"
      by (intro Suc.IH) simp
    then show ?thesis
      by (simp add: page_client_step [OF Suc.prems] step Some option.map_comp comp_def)
  qed
qed simp

text \<open>
  C8: Following the cursors from the first page on, with any page size, returns every
  contribution of a succeeded job once, in (scenario, ordinal) order, and ends: a page more than
  the rows divided by the size is always enough.
\<close>

theorem cursor_walk_is_complete:
  assumes "db_inv db" and "get_for_tenant db t i = Some j" and "jb_status j = Succeeded"
    and "list_all cursor_ready (db_contributions db)" and "0 < limit"
  shows "walk_pages (length (job_listing (db, t, i)) div limit + 1) (page_client db t i limit) None =
     Some (map page_row (sort_key page_order
       (filter (\<lambda>c. cr_job_id c = i) (db_contributions db))))"
proof -
  let ?n = "length (job_listing (db, t, i))"
  have "?n = ?n div limit * limit + ?n mod limit" by simp
  also have "\<dots> \<le> (?n div limit + 1) * limit"
    using mod_less_divisor [OF assms(5), of ?n] unfolding distrib_right by linarith
  finally have n: "?n \<le> (?n div limit + 1) * limit" .
  have "readable (db, t, i)" using assms(1-3) by (simp add: readable_def)
  from pages.walk_complete [OF this assms(5) n] show ?thesis
    by (simp add: walk_client [OF assms(4), of None None] job_listing_def del: walk_pages.simps)
qed

definition paged_db :: job_db where
  "paged_db = snd (complete_claim ''J1'' ''tok'' ''{}''
     (map (\<lambda>n. \<lparr>cr_job_id = ''J1'', cr_scenario_id = ''growth_slowdown'', cr_ordinal = n, cr_security_id = ''S'',
        cr_display_name = None, cr_bucket = ''EQUITY'', cr_weight = 0, cr_shock_pct = 0,
        cr_contribution_loss_pct = 0\<rparr>) [0, 1, 2]) 15 claimed_sample)"

theorem cursor_walk_is_complete_witness:
  "\<exists>rows. walk_pages 2 (page_client paged_db ''T1'' ''J1'' 2) None = Some rows \<and> length rows = 3"
proof -
  have inv: "db_inv paged_db"
    unfolding paged_db_def by (rule db_inv_complete_claim [OF db_inv_claimed_sample])
  have "get_for_tenant paged_db ''T1'' ''J1'' \<noteq> None" by code_simp
  then obtain j where j: "get_for_tenant paged_db ''T1'' ''J1'' = Some j" by blast
  have "jb_status (the (get_for_tenant paged_db ''T1'' ''J1'')) = Succeeded" by code_simp
  with j have s: "jb_status j = Succeeded" by simp
  have r: "list_all cursor_ready (db_contributions paged_db)" by code_simp
  have l: "length (job_listing (paged_db, ''T1'', ''J1'')) = 3" by code_simp
  have e: "(3 :: nat) div 2 + 1 = 2" by simp
  have "walk_pages 2 (page_client paged_db ''T1'' ''J1'' 2) None =
      Some (map page_row (job_listing (paged_db, ''T1'', ''J1'')))"
    using cursor_walk_is_complete [OF inv j s r, of 2]
    by (simp only: l e zero_less_numeral simp_thms) (simp only: job_listing_def prod.case)
  with l show ?thesis by simp
qed

end
