(* ===== verification/Supportability.thy ===== *)
theory Supportability
  imports Main Prelude Dates Severity
begin

text \<open>
  Calculation supportability (services/supportability_periods.py and
  services/calculation_supportability.py over the vocabulary of contracts/risk_common_inputs.py,
  contracts/risk_response_contexts.py and contracts/stateful_returns_source_evidence.py): how the
  outcome of a calculation is qualified by one state and one reason.  A period result is read
  through the attributes the source looks up; an attribute a result class does not have is
  \<open>None\<close>.  The metrics emitted for operators are not modelled.
\<close>

section \<open>Vocabulary\<close>

datatype risk_state =
  StateReady | StateStale | StateDegraded | StateEmpty | StateError | StatePermissionBlocked
| StateUnsupported

datatype risk_reason =
  CalculationComplete | BenchmarkUnavailable | GroupReturnSeriesUnavailable
| CalculationQualityIssue | InsufficientAlignedObservations | InsufficientObservations
| NoReturnObservations | PermissionBlocked | StaleSourceObservations | UnsupportedInputMode

datatype freshness_bucket = FreshCurrent | FreshSameDay | FreshStale | FreshUnknown

record supportability =
  su_state :: risk_state
  su_reason :: risk_reason
  su_freshness_bucket :: freshness_bucket
  su_degraded_metric_count :: nat
  su_empty_period_count :: nat
  su_evaluated_period_count :: nat

text \<open>
  The contexts of a result that may declare a missing dependency.  \<open>dc_requested\<close> is whether the
  attribute is literally \<open>True\<close>; a context that is a plain dictionary has none of the attributes.
\<close>

record dependency_context =
  dc_requested :: bool
  dc_reason :: string
  dc_applied :: "bool option"
  dc_available :: "bool option"
  dc_aligned :: "bool option"

record attribution_set =
  as_total_value_present :: bool
  as_empirical :: bool

record period_result =
  pd_portfolio_observation_count :: "nat option"
  pd_series_count :: "nat option"
  pd_error :: "string option"
  pd_relative_context :: "dependency_context option"
  pd_benchmark_context :: "dependency_context option"
  pd_risk_free_context :: "dependency_context option"
  pd_attribution_sets :: "attribution_set list"
  pd_metric_errors :: "string option list"

type_synonym period_results = "(string \<times> period_result) list"

record source_evidence =
  sv_missing_points :: nat
  sv_stale :: bool

section \<open>Reasons\<close>

definition SUPPORTABILITY_REASON_PRECEDENCE :: "risk_reason list" where
  "SUPPORTABILITY_REASON_PRECEDENCE =
     [PermissionBlocked, UnsupportedInputMode, NoReturnObservations, BenchmarkUnavailable,
      InsufficientAlignedObservations, InsufficientObservations, GroupReturnSeriesUnavailable,
      StaleSourceObservations, CalculationQualityIssue]"

definition NOT_A_DEGRADATION_REASON :: "risk_reason list" where
  "NOT_A_DEGRADATION_REASON = [CalculationComplete]"

definition supportability_reason_for_error :: "string \<Rightarrow> risk_reason" where
  "supportability_reason_for_error error =
     (if error \<in> {''Benchmark returns required for benchmark-dependent metric'', ''BENCHMARK_UNAVAILABLE''}
      then BenchmarkUnavailable
      else if error \<in> {''Insufficient aligned observations'', ''NO_ALIGNED_OBSERVATIONS''}
      then InsufficientAlignedObservations
      else if error = ''Insufficient data'' then InsufficientObservations
      else CalculationQualityIssue)"

text \<open>The selection loop; \<open>None\<close> is its \<open>ValueError\<close>.\<close>

fun first_available :: "risk_reason list \<Rightarrow> risk_reason list \<Rightarrow> risk_reason option" where
  "first_available [] available = None"
| "first_available (r # rs) available =
     (if r \<in> set available then Some r else first_available rs available)"

definition select_supportability_reason :: "risk_reason list \<Rightarrow> risk_reason option" where
  "select_supportability_reason reasons = first_available SUPPORTABILITY_REASON_PRECEDENCE reasons"

section \<open>Periods\<close>

definition observation_count :: "period_result \<Rightarrow> nat option" where
  "observation_count p =
     (case pd_portfolio_observation_count p of Some n \<Rightarrow> Some n | None \<Rightarrow> pd_series_count p)"

fun context_degradation :: "dependency_context option list \<Rightarrow> risk_reason option" where
  "context_degradation [] = None"
| "context_degradation (None # cs) = context_degradation cs"
| "context_degradation (Some c # cs) =
     (if \<not> dc_requested c then context_degradation cs
      else if dc_applied c = Some False \<or> dc_available c = Some False
      then Some (supportability_reason_for_error (dc_reason c))
      else if dc_aligned c = Some False then Some InsufficientAlignedObservations
      else context_degradation cs)"

definition dependency_degradation_reason :: "period_result \<Rightarrow> risk_reason option" where
  "dependency_degradation_reason p =
     context_degradation [pd_relative_context p, pd_benchmark_context p, pd_risk_free_context p]"

record period_assessment =
  pa_degraded_reasons :: "risk_reason list"
  pa_empty_period_count :: nat
  pa_degraded_result_count :: nat

definition assess_one :: "period_assessment \<Rightarrow> string \<times> period_result \<Rightarrow> period_assessment" where
  "assess_one a kp =
     (let p = snd kp;
          a1 = (if observation_count p = Some 0
                then a\<lparr>pa_empty_period_count := pa_empty_period_count a + 1\<rparr> else a);
          found = (case pd_error p of
              Some e \<Rightarrow> Some (supportability_reason_for_error e)
            | None \<Rightarrow> dependency_degradation_reason p)
      in case found of
           None \<Rightarrow> a1
         | Some r \<Rightarrow> a1\<lparr>pa_degraded_result_count := pa_degraded_result_count a1 + 1,
             pa_degraded_reasons := pa_degraded_reasons a1 @ [r]\<rparr>)"

definition assess_period_results :: "period_results \<Rightarrow> period_assessment" where
  "assess_period_results results = foldl assess_one
     \<lparr>pa_degraded_reasons = [], pa_empty_period_count = 0, pa_degraded_result_count = 0\<rparr> results"

text \<open>The outcome of the periods; \<open>None\<close> would be the \<open>ValueError\<close> of an unranked reason.\<close>

definition period_results_supportability_state ::
  "freshness_bucket \<Rightarrow> period_assessment \<Rightarrow> nat \<Rightarrow> supportability option"
where
  "period_results_supportability_state freshness a evaluated =
     (let build = (\<lambda>state reason degraded empty.
            \<lparr>su_state = state, su_reason = reason, su_freshness_bucket = freshness,
             su_degraded_metric_count = degraded, su_empty_period_count = empty,
             su_evaluated_period_count = evaluated\<rparr>)
      in if pa_degraded_result_count a \<noteq> 0 then
           map_option (\<lambda>reason. build StateDegraded reason (pa_degraded_result_count a)
             (pa_empty_period_count a)) (select_supportability_reason (pa_degraded_reasons a))
         else if pa_empty_period_count a \<noteq> 0 then
           Some (build StateEmpty InsufficientObservations 0 (pa_empty_period_count a))
         else if freshness = FreshStale then Some (build StateStale StaleSourceObservations 0 0)
         else Some (build StateReady CalculationComplete 0 0))"

section \<open>Responses\<close>

definition default_calculation_supportability :: supportability where
  "default_calculation_supportability =
     \<lparr>su_state = StateReady, su_reason = CalculationComplete, su_freshness_bucket = FreshUnknown,
      su_degraded_metric_count = 0, su_empty_period_count = 0, su_evaluated_period_count = 0\<rparr>"

text \<open>Only the dates of the return observations matter here.\<close>

fun latest_date :: "date list \<Rightarrow> date option" where
  "latest_date [] = None"
| "latest_date (d # ds) = Some (foldl max d ds)"

definition freshness_bucket_from_returns :: "date list \<Rightarrow> date \<Rightarrow> freshness_bucket" where
  "freshness_bucket_from_returns returns as_of =
     (case latest_date returns of
        None \<Rightarrow> FreshUnknown
      | Some latest \<Rightarrow>
          let age_days = days_between as_of latest in
          if age_days \<le> 0 then FreshCurrent
          else if age_days \<le> 1 then FreshSameDay else FreshStale)"

definition supportability_from_period_results ::
  "date list \<Rightarrow> date \<Rightarrow> period_results \<Rightarrow> supportability option"
where
  "supportability_from_period_results returns as_of results =
     (let freshness = freshness_bucket_from_returns returns as_of in
      if returns = [] then
        Some \<lparr>su_state = StateEmpty, su_reason = NoReturnObservations,
          su_freshness_bucket = freshness, su_degraded_metric_count = 0,
          su_empty_period_count = 0, su_evaluated_period_count = length results\<rparr>
      else period_results_supportability_state freshness (assess_period_results results)
        (length results))"

definition source_reasons :: "source_evidence \<Rightarrow> risk_reason list" where
  "source_reasons e =
     (if sv_missing_points e \<noteq> 0 then [CalculationQualityIssue] else []) @
     (if sv_stale e then [StaleSourceObservations] else [])"

definition compose_returns_source_supportability ::
  "supportability \<Rightarrow> source_evidence \<Rightarrow> supportability option"
where
  "compose_returns_source_supportability s e =
     (let source = source_reasons e in
      if source = [] then Some s
      else map_option (\<lambda>reason.
        \<lparr>su_state = (if reason = su_reason s then su_state s
           else if reason = StaleSourceObservations then StateStale else StateDegraded),
         su_reason = reason,
         su_freshness_bucket = (if sv_stale e then FreshStale else su_freshness_bucket s),
         su_degraded_metric_count = su_degraded_metric_count s,
         su_empty_period_count = su_empty_period_count s,
         su_evaluated_period_count = su_evaluated_period_count s\<rparr>)
        (select_supportability_reason
          (source @ (if su_state s \<noteq> StateReady then [su_reason s] else []))))"

definition all_calculated_sets_are_empirical :: "period_results \<Rightarrow> bool" where
  "all_calculated_sets_are_empirical results =
     (let calculated = filter as_total_value_present
            (concat (map (\<lambda>kp. pd_attribution_sets (snd kp)) results))
      in calculated \<noteq> [] \<and> list_all as_empirical calculated)"

definition supportability_from_attribution_results ::
  "date list \<Rightarrow> date \<Rightarrow> period_results \<Rightarrow> supportability option"
where
  "supportability_from_attribution_results returns as_of results =
     (case supportability_from_period_results returns as_of results of
        None \<Rightarrow> None
      | Some baseline \<Rightarrow>
          if returns = [] \<or> all_calculated_sets_are_empirical results then Some baseline
          else let a = assess_period_results results in
            map_option (\<lambda>reason.
              \<lparr>su_state = StateDegraded, su_reason = reason,
               su_freshness_bucket = su_freshness_bucket baseline,
               su_degraded_metric_count = pa_degraded_result_count a,
               su_empty_period_count = pa_empty_period_count a,
               su_evaluated_period_count = length results\<rparr>)
              (select_supportability_reason (pa_degraded_reasons a @ [GroupReturnSeriesUnavailable])))"

record metric_scan =
  ms_degraded_reasons :: "risk_reason list"
  ms_empty_period_count :: nat
  ms_degraded_metric_count :: nat

definition scan_risk_metric_supportability :: "period_results \<Rightarrow> metric_scan" where
  "scan_risk_metric_supportability results =
     (let errors = concat (map (\<lambda>kp. List.map_filter id (pd_metric_errors (snd kp))) results) in
      \<lparr>ms_degraded_reasons = map supportability_reason_for_error errors,
       ms_empty_period_count =
         length (filter (\<lambda>kp. pd_portfolio_observation_count (snd kp) = Some 0) results),
       ms_degraded_metric_count = length errors\<rparr>)"

definition supportability_from_risk_metric_results ::
  "date list \<Rightarrow> date \<Rightarrow> period_results \<Rightarrow> supportability option"
where
  "supportability_from_risk_metric_results returns as_of results =
     (case supportability_from_period_results returns as_of results of
        None \<Rightarrow> None
      | Some s \<Rightarrow>
          if su_state s = StateEmpty then Some s
          else let scan = scan_risk_metric_supportability results in
            if ms_degraded_metric_count scan \<noteq> 0 then
              map_option (\<lambda>reason.
                \<lparr>su_state = StateDegraded, su_reason = reason,
                 su_freshness_bucket = freshness_bucket_from_returns returns as_of,
                 su_degraded_metric_count = ms_degraded_metric_count scan,
                 su_empty_period_count = ms_empty_period_count scan,
                 su_evaluated_period_count = length results\<rparr>)
                (select_supportability_reason (ms_degraded_reasons scan))
            else Some s)"

definition supportability_from_concentration_response ::
  "nat \<Rightarrow> nat \<Rightarrow> nat \<Rightarrow> nat \<Rightarrow> string option \<Rightarrow> supportability"
where
  "supportability_from_concentration_response covered_current covered_proposed total_current
     total_proposed issuer_note =
     (let total = total_current + total_proposed; covered = covered_current + covered_proposed in
      if total = 0 then
        \<lparr>su_state = StateEmpty, su_reason = InsufficientObservations, su_freshness_bucket = FreshUnknown,
         su_degraded_metric_count = 0, su_empty_period_count = 1, su_evaluated_period_count = 1\<rparr>
      else if covered = 0 \<or> (issuer_note \<noteq> None \<and> issuer_note \<noteq> Some []) then
        \<lparr>su_state = StateDegraded, su_reason = CalculationQualityIssue, su_freshness_bucket = FreshUnknown,
         su_degraded_metric_count = 1, su_empty_period_count = 0, su_evaluated_period_count = 1\<rparr>
      else
        \<lparr>su_state = StateReady, su_reason = CalculationComplete, su_freshness_bucket = FreshCurrent,
         su_degraded_metric_count = 0, su_empty_period_count = 0, su_evaluated_period_count = 1\<rparr>)"

section \<open>The precedence\<close>

lemma first_available_find: "first_available rs available = find (\<lambda>r. r \<in> set available) rs"
  by (induction rs) auto

interpretation reason: precedence SUPPORTABILITY_REASON_PRECEDENCE select_supportability_reason
  by unfold_locales (simp add: select_supportability_reason_def first_available_find)

definition reason_rank :: "risk_reason \<Rightarrow> nat" where
  "reason_rank r = length (takeWhile (\<lambda>q. q \<noteq> r) SUPPORTABILITY_REASON_PRECEDENCE)"

lemma ranked_iff: "r \<in> set SUPPORTABILITY_REASON_PRECEDENCE \<longleftrightarrow> r \<noteq> CalculationComplete"
  by (cases r) (simp_all add: SUPPORTABILITY_REASON_PRECEDENCE_def)

lemma find_rank:
  assumes "distinct xs" "find P xs = Some r" "q \<in> set xs" "P q"
  shows "length (takeWhile (\<lambda>y. y \<noteq> r) xs) \<le> length (takeWhile (\<lambda>y. y \<noteq> q) xs)"
  using assms by (induction xs) (auto split: if_splits)

lemma select_least_rank:
  assumes "select_supportability_reason rs = Some r" "q \<in> set rs" "q \<noteq> CalculationComplete"
  shows "reason_rank r \<le> reason_rank q"
  unfolding reason_rank_def
proof (rule find_rank [where P = "\<lambda>r. r \<in> set rs"])
  show "distinct SUPPORTABILITY_REASON_PRECEDENCE" by (simp add: SUPPORTABILITY_REASON_PRECEDENCE_def)
  show "find (\<lambda>r. r \<in> set rs) SUPPORTABILITY_REASON_PRECEDENCE = Some r"
    using assms(1) by (simp add: reason.pick_eq)
qed (use assms in \<open>simp_all add: ranked_iff\<close>)

lemma select_total:
  assumes "r \<in> set rs" "r \<noteq> CalculationComplete"
  obtains q where "select_supportability_reason rs = Some q" "q \<in> set rs" "q \<noteq> CalculationComplete"
proof -
  from reason.pick_total [OF assms(1)] assms(2) obtain q where q: "select_supportability_reason rs = Some q"
    by (auto simp: ranked_iff)
  with reason.pick_member [OF q] show ?thesis using that by (simp add: ranked_iff)
qed

text \<open>
  The precedence is total over the degradation reasons: a selection fails only when nothing but
  the reason of a complete calculation is offered, and otherwise it returns the offered reason of
  the lowest rank, whatever the order and multiplicity in which reasons were collected.
\<close>

theorem reason_selection_is_most_severe:
  "case select_supportability_reason rs of
     None \<Rightarrow> set rs \<subseteq> set NOT_A_DEGRADATION_REASON
   | Some r \<Rightarrow> r \<in> set rs \<and>
       reason_rank r = Min (reason_rank ` (set rs - set NOT_A_DEGRADATION_REASON))"
proof (cases "select_supportability_reason rs")
  case None
  then show ?thesis
    using reason.pick_None_iff [of rs] by (auto simp: ranked_iff NOT_A_DEGRADATION_REASON_def)
next
  case (Some r)
  from reason.pick_member [OF Some] have r: "r \<in> set rs" "r \<noteq> CalculationComplete"
    by (simp_all add: ranked_iff)
  then have "Min (reason_rank ` (set rs - {CalculationComplete})) = reason_rank r"
    using select_least_rank [OF Some] by (intro Min_eqI) auto
  with r Some show ?thesis by (simp add: NOT_A_DEGRADATION_REASON_def)
qed

section \<open>Periods\<close>

definition period_degradation :: "period_result \<Rightarrow> risk_reason option" where
  "period_degradation p = (case pd_error p of
     Some e \<Rightarrow> Some (supportability_reason_for_error e) | None \<Rightarrow> dependency_degradation_reason p)"

lemma error_reason_ranked [simp]: "supportability_reason_for_error e \<noteq> CalculationComplete"
  by (simp add: supportability_reason_for_error_def)

lemma context_degradation_ranked: "context_degradation cs \<noteq> Some CalculationComplete"
  by (induction cs rule: context_degradation.induct) auto

lemma period_degradation_ranked: "period_degradation p \<noteq> Some CalculationComplete"
  using context_degradation_ranked
  by (auto simp: period_degradation_def dependency_degradation_reason_def split: option.splits)

lemma foldl_assess_one:
  "foldl assess_one a results =
     \<lparr>pa_degraded_reasons = pa_degraded_reasons a @
        List.map_filter (\<lambda>kp. period_degradation (snd kp)) results,
      pa_empty_period_count = pa_empty_period_count a +
        length (filter (\<lambda>kp. observation_count (snd kp) = Some 0) results),
      pa_degraded_result_count = pa_degraded_result_count a +
        length (List.map_filter (\<lambda>kp. period_degradation (snd kp)) results)\<rparr>"
proof (induction results arbitrary: a)
  case Nil
  then show ?case by (simp add: map_filter_simps)
next
  case (Cons kp results)
  then show ?case
    by (cases "period_degradation (snd kp)")
      (simp_all add: assess_one_def period_degradation_def Let_def map_filter_simps split: option.split)
qed

lemma assess_period_results_eq:
  "assess_period_results results =
     \<lparr>pa_degraded_reasons = List.map_filter (\<lambda>kp. period_degradation (snd kp)) results,
      pa_empty_period_count = length (filter (\<lambda>kp. observation_count (snd kp) = Some 0) results),
      pa_degraded_result_count = length (List.map_filter (\<lambda>kp. period_degradation (snd kp)) results)\<rparr>"
  by (simp add: assess_period_results_def foldl_assess_one)

lemma set_map_filter_period:
  "CalculationComplete \<notin> set (List.map_filter (\<lambda>kp. period_degradation (snd kp)) results)"
  by (induction results) (auto simp: map_filter_simps period_degradation_ranked split: option.splits)

definition sound_supportability :: "supportability \<Rightarrow> bool" where
  "sound_supportability s \<longleftrightarrow> (su_state s = StateReady \<longleftrightarrow> su_reason s = CalculationComplete)"

lemma select_period_reasons:
  assumes "rs \<noteq> []" "CalculationComplete \<notin> set rs"
  obtains q where "select_supportability_reason rs = Some q" "q \<in> set rs" "q \<noteq> CalculationComplete"
  using assms select_total [of "hd rs" rs] by (metis hd_in_set)

definition clean_results :: "period_results \<Rightarrow> bool" where
  "clean_results results \<longleftrightarrow>
     list_all (\<lambda>kp. period_degradation (snd kp) = None \<and> observation_count (snd kp) \<noteq> Some 0) results"

lemma period_supportability_cases:
  obtains s where "supportability_from_period_results returns as_of results = Some s"
    "sound_supportability s"
    "su_state s = StateReady \<longleftrightarrow> returns \<noteq> [] \<and> clean_results results \<and>
       freshness_bucket_from_returns returns as_of \<noteq> FreshStale"
    "su_evaluated_period_count s = length results"
proof (cases "returns = []")
  case True
  then show ?thesis
    by (intro that [of "\<lparr>su_state = StateEmpty, su_reason = NoReturnObservations,
          su_freshness_bucket = freshness_bucket_from_returns returns as_of,
          su_degraded_metric_count = 0, su_empty_period_count = 0,
          su_evaluated_period_count = length results\<rparr>"])
      (simp_all add: supportability_from_period_results_def sound_supportability_def Let_def)
next
  case False
  let ?rs = "List.map_filter (\<lambda>kp. period_degradation (snd kp)) results"
  let ?n = "length (filter (\<lambda>kp. observation_count (snd kp) = Some 0) results)"
  have clean: "clean_results results \<longleftrightarrow> ?rs = [] \<and> ?n = 0"
    by (auto simp: clean_results_def map_filter_Nil_iff list_all_iff filter_empty_conv)
  have run: "supportability_from_period_results returns as_of results =
      period_results_supportability_state (freshness_bucket_from_returns returns as_of)
        (assess_period_results results) (length results)"
    using False by (simp add: supportability_from_period_results_def Let_def)
  show ?thesis
  proof (cases "?rs = []")
    case True
    then show ?thesis
      using that False clean
      by (cases "?n = 0"; cases "freshness_bucket_from_returns returns as_of = FreshStale")
        (simp_all add: run period_results_supportability_state_def assess_period_results_eq
          sound_supportability_def Let_def)
  next
    case rs: False
    obtain q where "select_supportability_reason ?rs = Some q" "q \<noteq> CalculationComplete"
      using select_period_reasons [OF rs set_map_filter_period] by metis
    then show ?thesis
      using that rs clean
      by (simp add: run period_results_supportability_state_def assess_period_results_eq
          sound_supportability_def Let_def)
  qed
qed

text \<open>
  Qualifying the periods of a calculation never raises, and it answers ready exactly when
  there are observations, no period carries an error or a missing dependency or is empty, and the
  latest observation is not stale; the reason is that of a complete calculation exactly then.
\<close>

theorem ready_means_clean_periods:
  "\<exists>s. supportability_from_period_results returns as_of results = Some s \<and>
     (su_state s = StateReady \<longleftrightarrow> su_reason s = CalculationComplete) \<and>
     (su_state s = StateReady \<longleftrightarrow> returns \<noteq> [] \<and> clean_results results \<and>
        freshness_bucket_from_returns returns as_of \<noteq> FreshStale)"
  by (rule period_supportability_cases [of returns as_of results])
    (auto simp: sound_supportability_def)

section \<open>Composition with the source's evidence\<close>

lemma compose_cases:
  assumes "sound_supportability s"
  obtains t where "compose_returns_source_supportability s e = Some t" "sound_supportability t"
    "su_state t = StateReady \<longleftrightarrow> su_state s = StateReady \<and> source_reasons e = []"
    "su_state s \<noteq> StateReady \<Longrightarrow> reason_rank (su_reason t) \<le> reason_rank (su_reason s)"
proof (cases "source_reasons e = []")
  case True
  then show ?thesis
    using that [of s] assms by (simp add: compose_returns_source_supportability_def)
next
  case False
  let ?all = "source_reasons e @ (if su_state s \<noteq> StateReady then [su_reason s] else [])"
  have ne: "CalculationComplete \<notin> set ?all"
    using assms by (auto simp: source_reasons_def sound_supportability_def)
  obtain q where q: "select_supportability_reason ?all = Some q" "q \<noteq> CalculationComplete" "q \<in> set ?all"
    using select_period_reasons [OF _ ne] False by (metis append_is_Nil_conv)
  have rank: "reason_rank q \<le> reason_rank (su_reason s)" if "su_state s \<noteq> StateReady"
    using select_least_rank [OF q(1), of "su_reason s"] that assms by (simp add: sound_supportability_def)
  show ?thesis
    using that False q rank assms
    by (cases "q = su_reason s"; cases "q = StaleSourceObservations")
      (auto simp: compose_returns_source_supportability_def sound_supportability_def Let_def)
qed

text \<open>
  C18: Composing a calculation with the evidence of its source never raises and never upgrades: the
  result is ready only when the calculation was ready and the evidence is complete and current,
  and the reason of a degraded calculation is kept or replaced by a more severe one.
\<close>

theorem composition_never_upgrades:
  assumes "su_state s = StateReady \<longleftrightarrow> su_reason s = CalculationComplete"
  shows "\<exists>t. compose_returns_source_supportability s e = Some t \<and>
     (su_state t = StateReady \<longleftrightarrow> su_state s = StateReady \<and> sv_missing_points e = 0 \<and> \<not> sv_stale e) \<and>
     (su_state s \<noteq> StateReady \<longrightarrow> reason_rank (su_reason t) \<le> reason_rank (su_reason s))"
proof -
  have "source_reasons e = [] \<longleftrightarrow> sv_missing_points e = 0 \<and> \<not> sv_stale e"
    by (simp add: source_reasons_def)
  then show ?thesis
    using compose_cases [of s e] assms unfolding sound_supportability_def by metis
qed

theorem composition_never_upgrades_witness:
  "\<exists>t. compose_returns_source_supportability default_calculation_supportability
     \<lparr>sv_missing_points = 1, sv_stale = False\<rparr> = Some t \<and> su_state t \<noteq> StateReady"
  using composition_never_upgrades [of default_calculation_supportability
      "\<lparr>sv_missing_points = 1, sv_stale = False\<rparr>"]
  by (auto simp: default_calculation_supportability_def)

section \<open>Attribution and metrics\<close>

text \<open>
  A historical attribution is ready only when everything calculated in it is empirical, and
  then exactly when its periods are; a response with any weight proxy in it, or with nothing
  calculated, is never ready.  Qualifying it never raises.
\<close>

theorem attribution_ready_needs_empirical_sets:
  "\<exists>s. supportability_from_attribution_results returns as_of results = Some s \<and>
     (su_state s = StateReady \<longleftrightarrow> all_calculated_sets_are_empirical results \<and> returns \<noteq> [] \<and>
        clean_results results \<and> freshness_bucket_from_returns returns as_of \<noteq> FreshStale)"
proof -
  obtain b where b: "supportability_from_period_results returns as_of results = Some b"
    "su_state b = StateReady \<longleftrightarrow> returns \<noteq> [] \<and> clean_results results \<and>
       freshness_bucket_from_returns returns as_of \<noteq> FreshStale"
    by (rule period_supportability_cases)
  show ?thesis
  proof (cases "returns = [] \<or> all_calculated_sets_are_empirical results")
    case True
    with b show ?thesis by (auto simp: supportability_from_attribution_results_def)
  next
    case False
    have "GroupReturnSeriesUnavailable \<in>
        set (pa_degraded_reasons (assess_period_results results) @ [GroupReturnSeriesUnavailable])" by simp
    then obtain q where "select_supportability_reason
        (pa_degraded_reasons (assess_period_results results) @ [GroupReturnSeriesUnavailable]) = Some q"
      by (rule select_total) simp_all
    with b False show ?thesis
      by (simp add: supportability_from_attribution_results_def Let_def)
  qed
qed

text \<open>
  For risk metrics an empty period settles the answer before the metrics are looked at: when the
  period results carry no error of their own, as risk results never do, one empty period makes the
  response empty with a count of no degraded metrics, whatever errors its metrics carry.
\<close>

theorem empty_period_hides_metric_errors:
  assumes "returns \<noteq> []" and "list_all (\<lambda>kp. period_degradation (snd kp) = None) results"
    and "\<exists>kp\<in>set results. observation_count (snd kp) = Some 0"
  shows "\<exists>s. supportability_from_risk_metric_results returns as_of results = Some s \<and>
     su_state s = StateEmpty \<and> su_reason s = InsufficientObservations \<and> su_degraded_metric_count s = 0"
proof -
  have "List.map_filter (\<lambda>kp. period_degradation (snd kp)) results = []"
    using assms(2) by (simp add: map_filter_Nil_iff list_all_iff)
  moreover have "filter (\<lambda>kp. observation_count (snd kp) = Some 0) results \<noteq> []"
    using assms(3) by (auto simp: filter_empty_conv)
  ultimately show ?thesis
    using assms(1)
    by (simp add: supportability_from_risk_metric_results_def supportability_from_period_results_def
        period_results_supportability_state_def assess_period_results_eq Let_def)
qed

definition sample_period :: "nat \<Rightarrow> string option list \<Rightarrow> period_result" where
  "sample_period n errors = \<lparr>pd_portfolio_observation_count = Some n, pd_series_count = None,
     pd_error = None, pd_relative_context = None, pd_benchmark_context = None,
     pd_risk_free_context = None, pd_attribution_sets = [], pd_metric_errors = errors\<rparr>"

theorem empty_period_hides_metric_errors_witness:
  "\<exists>s. supportability_from_risk_metric_results [Date 2026 1 5] (Date 2026 1 5)
       [(''YTD'', sample_period 60 [Some ''BENCHMARK_UNAVAILABLE'']),
        (''1D'', sample_period 0 [Some ''Insufficient data''])] = Some s \<and>
     su_degraded_metric_count s = 0 \<and>
     ms_degraded_metric_count (scan_risk_metric_supportability
       [(''YTD'', sample_period 60 [Some ''BENCHMARK_UNAVAILABLE'']),
        (''1D'', sample_period 0 [Some ''Insufficient data''])]) = 2"
proof -
  let ?r = "[(''YTD'', sample_period 60 [Some ''BENCHMARK_UNAVAILABLE'']),
      (''1D'', sample_period 0 [Some ''Insufficient data''])]"
  have "\<exists>s. supportability_from_risk_metric_results [Date 2026 1 5] (Date 2026 1 5) ?r = Some s \<and>
      su_state s = StateEmpty \<and> su_reason s = InsufficientObservations \<and> su_degraded_metric_count s = 0"
    by (rule empty_period_hides_metric_errors)
      (simp_all add: sample_period_def period_degradation_def dependency_degradation_reason_def
        observation_count_def)
  moreover have "ms_degraded_metric_count (scan_risk_metric_supportability ?r) = 2"
    by (simp add: scan_risk_metric_supportability_def sample_period_def map_filter_simps)
  ultimately show ?thesis by blast
qed

text \<open>Concentration: the response is ready exactly when something is covered and no note is left.\<close>

lemma concentration_ready_iff:
  "su_state (supportability_from_concentration_response cc cp tc tp note) = StateReady \<longleftrightarrow>
     0 < tc + tp \<and> 0 < cc + cp \<and> (note = None \<or> note = Some [])"
  by (auto simp: supportability_from_concentration_response_def Let_def)

end
