(* ===== verification/RiskEventCohort.thy ===== *)
theory RiskEventCohort
  imports Main Prelude Dates Float64
begin

text \<open>
  The risk-event affected cohort (services/risk_event_cohort_engine.py and the contracts
  risk_event_cohort_inputs.py, risk_event_cohort_portfolio_outputs.py,
  risk_event_cohort_metadata.py, risk_event_cohort_response.py, risk_event_cohort_common.py).  The
  request fingerprint is a parameter.  A weight on the wire may be a number that is not finite;
  every other number is a finite binary64.
\<close>

section \<open>Request\<close>

datatype wire_weight = Finite f64 | NotFinite

fun finite_weight :: "wire_weight \<Rightarrow> f64" where
  "finite_weight (Finite w) = w"
| "finite_weight NotFinite = 0"

record portfolio_exposure =
  px_portfolio_id :: string
  px_exposure_weights :: "(string, wire_weight) dict"
  px_mandate_id :: "string option"
  px_portfolio_manager_id :: "string option"

record cohort_request =
  cq_risk_event_id :: string
  cq_as_of_date :: date
  cq_portfolios :: "portfolio_exposure list"
  cq_minimum_impact_score :: f64

definition RISK_EVENT_ALLOCATION_TOLERANCE :: f64 where
  "RISK_EVENT_ALLOCATION_TOLERANCE = flit (1 / 10 ^ 6)"

definition RISK_EVENT_MAX_CANDIDATE_PORTFOLIOS :: nat where
  "RISK_EVENT_MAX_CANDIDATE_PORTFOLIOS = 250"

definition RISK_EVENT_MAX_EXPOSURE_BUCKETS_PER_PORTFOLIO :: nat where
  "RISK_EVENT_MAX_EXPOSURE_BUCKETS_PER_PORTFOLIO = 16"

datatype cohort_error = FieldBound string | InvalidRequest string | UnsupportedEvent string

definition validate_exposure_weights :: "portfolio_exposure \<Rightarrow> (cohort_error, unit) result" where
  "validate_exposure_weights p =
     (let weights = map snd (px_exposure_weights p);
          normalized_buckets = map (\<lambda>(b, w). py_upper b) (px_exposure_weights p);
          duplicate_buckets = duplicates normalized_buckets in
      if px_exposure_weights p = [] then
        Inl (InvalidRequest ''exposure_weights must contain at least one exposure bucket'')
      else if duplicate_buckets \<noteq> [] then
        Inl (InvalidRequest (''exposure_weights must contain unique exposure buckets: ''
          @ str_join '', '' duplicate_buckets))
      else if NotFinite \<in> set weights then
        Inl (InvalidRequest ''exposure_weights must contain only finite values'')
      else if list_ex (\<lambda>w. finite_weight w < 0) weights then
        Inl (InvalidRequest ''exposure_weights must be non-negative'')
      else if list_ex (\<lambda>w. 1 < finite_weight w) weights then
        Inl (InvalidRequest ''exposure_weights must be less than or equal to 1.0 per bucket'')
      else let total = py_sum (map finite_weight weights) in
        if RISK_EVENT_ALLOCATION_TOLERANCE < \<bar>fsub total 1\<bar> then
          Inl (InvalidRequest (''exposure_weights must sum to 1.0 within 1e-06; received ''
            @ format_6f total))
        else Inr ())"

definition portfolio_fields :: "portfolio_exposure \<Rightarrow> (cohort_error, unit) result" where
  "portfolio_fields p =
     bind_result (raise_if (RISK_EVENT_MAX_EXPOSURE_BUCKETS_PER_PORTFOLIO < length (px_exposure_weights p))
       (FieldBound ''exposure_weights'')) (\<lambda>_. validate_exposure_weights p)"

definition validate_candidate_portfolios :: "cohort_request \<Rightarrow> (cohort_error, unit) result" where
  "validate_candidate_portfolios r =
     (let duplicate_portfolio_ids = duplicates (map px_portfolio_id (cq_portfolios r)) in
      if cq_portfolios r = [] then
        Inl (InvalidRequest ''portfolios must contain at least one candidate portfolio'')
      else if duplicate_portfolio_ids \<noteq> [] then
        Inl (InvalidRequest (''portfolios must contain unique portfolio_id values: ''
          @ str_join '', '' duplicate_portfolio_ids))
      else Inr ())"

definition validate_cohort_request :: "cohort_request \<Rightarrow> (cohort_error, cohort_request) result" where
  "validate_cohort_request r =
     bind_result (raise_if (RISK_EVENT_MAX_CANDIDATE_PORTFOLIOS < length (cq_portfolios r))
       (FieldBound ''portfolios'')) (\<lambda>_.
     bind_result (map_result portfolio_fields (cq_portfolios r)) (\<lambda>_.
     bind_result (raise_if (cq_minimum_impact_score r < 0) (FieldBound ''minimum_impact_score'')) (\<lambda>_.
     bind_result (validate_candidate_portfolios r) (\<lambda>_. Inr r))))"

section \<open>Catalogue\<close>

record risk_event_definition =
  rd_risk_event_id :: string
  rd_display_name :: string
  rd_shock_by_bucket :: "(string, f64) dict"

definition RISK_EVENTS :: "(string \<times> risk_event_definition) list" where
  "RISK_EVENTS =
     [(''RISK_EVENT_2026_Q2_RATES_UP'',
       \<lparr>rd_risk_event_id = ''RISK_EVENT_2026_Q2_RATES_UP'',
        rd_display_name = ''Rates-up inflation persistence'',
        rd_shock_by_bucket = [(''EQUITY'', - flit (4 / 100)), (''FIXED_INCOME'', - flit (15 / 100)),
          (''ALTERNATIVES'', - flit (3 / 100)), (''CASH'', 0)]\<rparr>),
      (''RISK_EVENT_2026_Q2_RISK_OFF'',
       \<lparr>rd_risk_event_id = ''RISK_EVENT_2026_Q2_RISK_OFF'',
        rd_display_name = ''Risk-off liquidity stress'',
        rd_shock_by_bucket = [(''EQUITY'', - flit (18 / 100)), (''FIXED_INCOME'', - flit (2 / 100)),
          (''ALTERNATIVES'', - flit (1 / 10)), (''CASH'', 0)]\<rparr>)]"

section \<open>Evaluation\<close>

record portfolio_evaluation =
  pv_portfolio :: portfolio_exposure
  pv_impact_score :: f64
  pv_dominant_bucket :: string
  pv_bucket_impacts :: "(string, f64) dict"
  pv_unsupported_buckets :: "string list"

text \<open>\<open>max(d, key=abs value, default="UNKNOWN")\<close>: the first bucket of the largest value.\<close>

definition dominant_bucket :: "(string, f64) dict \<Rightarrow> string" where
  "dominant_bucket impacts = (case impacts of
     [] \<Rightarrow> ''UNKNOWN''
   | first # rest \<Rightarrow> fst (foldl (\<lambda>best kv. if \<bar>snd best\<bar> < \<bar>snd kv\<bar> then kv else best) first rest))"

definition evaluate_portfolio_exposure ::
  "risk_event_definition \<Rightarrow> portfolio_exposure \<Rightarrow> portfolio_evaluation"
where
  "evaluate_portfolio_exposure event p =
     (let normalized_exposures = dict_of_items
            (map (\<lambda>(b, w). (py_upper b, finite_weight w)) (px_exposure_weights p));
          unsupported = sorted_diff (dict_keys normalized_exposures)
            (dict_keys (rd_shock_by_bucket event));
          bucket_impacts = map (\<lambda>(b, w).
            (b, py_round6 (fmul w (dict_get (rd_shock_by_bucket event) b 0)))) normalized_exposures
      in \<lparr>pv_portfolio = p,
          pv_impact_score = py_round6 (py_sum (map (\<lambda>(b, v). \<bar>v\<bar>) bucket_impacts)),
          pv_dominant_bucket = dominant_bucket bucket_impacts,
          pv_bucket_impacts = bucket_impacts,
          pv_unsupported_buckets = unsupported\<rparr>)"

definition is_affected :: "f64 \<Rightarrow> portfolio_evaluation \<Rightarrow> bool" where
  "is_affected minimum_impact_score e \<longleftrightarrow>
     minimum_impact_score \<le> pv_impact_score e \<and> pv_unsupported_buckets e = []"

text \<open>An affected row and an excluded row have the same fields.\<close>

record cohort_row =
  cw_portfolio_id :: string
  cw_mandate_id :: "string option"
  cw_portfolio_manager_id :: "string option"
  cw_impact_score :: f64
  cw_dominant_bucket :: string
  cw_bucket_impacts :: "(string, f64) dict"
  cw_source_ref :: string
  cw_reason_codes :: "string list"

definition cohort_row_of :: "cohort_request \<Rightarrow> string list \<Rightarrow> portfolio_evaluation \<Rightarrow> cohort_row" where
  "cohort_row_of r codes e =
     (let p = pv_portfolio e in
      \<lparr>cw_portfolio_id = px_portfolio_id p, cw_mandate_id = px_mandate_id p,
       cw_portfolio_manager_id = px_portfolio_manager_id p,
       cw_impact_score = pv_impact_score e, cw_dominant_bucket = pv_dominant_bucket e,
       cw_bucket_impacts = pv_bucket_impacts e,
       cw_source_ref = ''risk-event-cohort:'' @ cq_risk_event_id r @ '':'' @
         isoformat (cq_as_of_date r) @ '':'' @ px_portfolio_id p,
       cw_reason_codes = codes\<rparr>)"

definition affected_portfolio :: "cohort_request \<Rightarrow> portfolio_evaluation \<Rightarrow> cohort_row" where
  "affected_portfolio r e = cohort_row_of r [''RISK_EVENT_THRESHOLD_BREACHED''] e"

definition excluded_portfolio :: "cohort_request \<Rightarrow> portfolio_evaluation \<Rightarrow> cohort_row" where
  "excluded_portfolio r e = cohort_row_of r
     (if pv_unsupported_buckets e \<noteq> [] then [''RISK_EVENT_UNSUPPORTED_EXPOSURE_BUCKET'']
      else [''RISK_EVENT_BELOW_THRESHOLD'']) e"

definition cohort_step ::
  "cohort_request \<Rightarrow> risk_event_definition \<Rightarrow> cohort_row list \<times> cohort_row list \<Rightarrow>
     portfolio_exposure \<Rightarrow> cohort_row list \<times> cohort_row list"
where
  "cohort_step r event acc p =
     (let e = evaluate_portfolio_exposure event p; (affected, excluded) = acc in
      if is_affected (cq_minimum_impact_score r) e
      then (affected @ [affected_portfolio r e], excluded)
      else (affected, excluded @ [excluded_portfolio r e]))"

definition risk_event_cohort_membership ::
  "cohort_request \<Rightarrow> risk_event_definition \<Rightarrow> cohort_row list \<times> cohort_row list"
where
  "risk_event_cohort_membership r event = foldl (cohort_step r event) ([], []) (cq_portfolios r)"

datatype cohort_state = CohortReady | CohortDegraded | CohortPendingReview | CohortBlocked

definition cohort_supportability_state ::
  "cohort_row list \<Rightarrow> cohort_row list \<Rightarrow> cohort_state \<times> string list"
where
  "cohort_supportability_state affected excluded =
     (let unsupported_bucket_seen =
            list_ex (\<lambda>w. ''RISK_EVENT_UNSUPPORTED_EXPOSURE_BUCKET'' \<in> set (cw_reason_codes w)) excluded;
          reason_codes =
            (if unsupported_bucket_seen then [''RISK_EVENT_PARTIAL_UNSUPPORTED_EXPOSURE_BUCKETS''] else []) @
            (if affected = [] then [''RISK_EVENT_NO_AFFECTED_PORTFOLIOS''] else [])
      in if unsupported_bucket_seen then (CohortDegraded, sort reason_codes)
         else if affected = [] then (CohortPendingReview, reason_codes)
         else (CohortReady, [''RISK_EVENT_AFFECTED_COHORT_READY'']))"

record cohort_metadata =
  cm_product_name :: string
  cm_product_version :: string
  cm_source_service :: string
  cm_source_services :: "string list"
  cm_lineage_version :: string
  cm_request_fingerprint :: string
  cm_calculation_supportability :: cohort_state

record cohort_response =
  co_cohort_id :: string
  co_risk_event_id :: string
  co_display_name :: string
  co_as_of_date :: date
  co_affected_portfolios :: "cohort_row list"
  co_excluded_portfolios :: "cohort_row list"
  co_reason_codes :: "string list"
  co_metadata :: cohort_metadata

definition remove_prefix :: "string \<Rightarrow> string \<Rightarrow> string" where
  "remove_prefix p s = (if starts_with s p then drop (length p) s else s)"

definition cohort_id_of :: "string \<Rightarrow> string" where
  "cohort_id_of request_fingerprint =
     ''risk_event_cohort_'' @ take 16 (remove_prefix ''sha256:'' request_fingerprint)"

definition evaluate_risk_event_affected_cohort ::
  "(cohort_request \<Rightarrow> string) \<Rightarrow> cohort_request \<Rightarrow> (cohort_error, cohort_response) result"
where
  "evaluate_risk_event_affected_cohort fingerprint r =
     (case map_of RISK_EVENTS (cq_risk_event_id r) of
        None \<Rightarrow> Inl (UnsupportedEvent (''Unsupported risk_event_id: '' @ cq_risk_event_id r))
      | Some event \<Rightarrow>
          let (affected, excluded) = risk_event_cohort_membership r event;
              (state, reason_codes) = cohort_supportability_state affected excluded
          in Inr \<lparr>co_cohort_id = cohort_id_of (fingerprint r),
               co_risk_event_id = cq_risk_event_id r, co_display_name = rd_display_name event,
               co_as_of_date = cq_as_of_date r, co_affected_portfolios = affected,
               co_excluded_portfolios = excluded, co_reason_codes = sorted_set reason_codes,
               co_metadata =
                 \<lparr>cm_product_name = ''RiskEventAffectedCohort'', cm_product_version = ''v1'',
                  cm_source_service = ''lotus-risk'', cm_source_services = [''lotus-risk''],
                  cm_lineage_version = ''risk-event-affected-cohort.v1'',
                  cm_request_fingerprint = fingerprint r,
                  cm_calculation_supportability = state\<rparr>\<rparr>)"

section \<open>Membership\<close>

definition affected_by :: "cohort_request \<Rightarrow> risk_event_definition \<Rightarrow> portfolio_exposure \<Rightarrow> bool" where
  "affected_by r event p \<longleftrightarrow>
     is_affected (cq_minimum_impact_score r) (evaluate_portfolio_exposure event p)"

lemma foldl_cohort_step:
  "foldl (cohort_step r event) acc ps =
     (fst acc @ map (\<lambda>p. affected_portfolio r (evaluate_portfolio_exposure event p))
        (filter (affected_by r event) ps),
      snd acc @ map (\<lambda>p. excluded_portfolio r (evaluate_portfolio_exposure event p))
        (filter (\<lambda>p. \<not> affected_by r event p) ps))"
  by (induction ps arbitrary: acc)
    (auto simp: cohort_step_def affected_by_def Let_def split: prod.splits)

lemma membership_eq:
  "risk_event_cohort_membership r event =
     (map (\<lambda>p. affected_portfolio r (evaluate_portfolio_exposure event p))
        (filter (affected_by r event) (cq_portfolios r)),
      map (\<lambda>p. excluded_portfolio r (evaluate_portfolio_exposure event p))
        (filter (\<lambda>p. \<not> affected_by r event p) (cq_portfolios r)))"
  by (simp add: risk_event_cohort_membership_def foldl_cohort_step)

definition supported_buckets :: "risk_event_definition \<Rightarrow> portfolio_exposure \<Rightarrow> bool" where
  "supported_buckets event p \<longleftrightarrow>
     py_upper ` fst ` set (px_exposure_weights p) \<subseteq> fst ` set (rd_shock_by_bucket event)"

lemma unsupported_Nil_iff:
  "pv_unsupported_buckets (evaluate_portfolio_exposure event p) = [] \<longleftrightarrow> supported_buckets event p"
proof -
  have "fst ` (\<lambda>(b, w). (py_upper b, finite_weight w)) ` set (px_exposure_weights p) =
      py_upper ` fst ` set (px_exposure_weights p)" by force
  then show ?thesis
    by (simp add: evaluate_portfolio_exposure_def Let_def sorted_diff_Nil_iff dict_keys_def
        keys_dict_of_items supported_buckets_def)
qed

lemma portfolio_of_evaluation [simp]:
  "pv_portfolio (evaluate_portfolio_exposure event p) = p"
  by (simp add: evaluate_portfolio_exposure_def Let_def)

lemma row_id [simp]:
  "cw_portfolio_id (affected_portfolio r (evaluate_portfolio_exposure event p)) = px_portfolio_id p"
  "cw_portfolio_id (excluded_portfolio r (evaluate_portfolio_exposure event p)) = px_portfolio_id p"
  by (simp_all add: affected_portfolio_def excluded_portfolio_def cohort_row_of_def Let_def)

lemma affected_by_iff:
  "affected_by r event p \<longleftrightarrow> supported_buckets event p \<and>
     cq_minimum_impact_score r \<le> pv_impact_score (evaluate_portfolio_exposure event p)"
  by (auto simp: affected_by_def is_affected_def unsupported_Nil_iff)

lemma excluded_codes:
  "cw_reason_codes (excluded_portfolio r (evaluate_portfolio_exposure event p)) =
     (if supported_buckets event p then [''RISK_EVENT_BELOW_THRESHOLD'']
      else [''RISK_EVENT_UNSUPPORTED_EXPOSURE_BUCKET''])"
  by (simp add: excluded_portfolio_def cohort_row_of_def Let_def unsupported_Nil_iff)

lemma evaluate_cohort_InrD:
  assumes "evaluate_risk_event_affected_cohort fp r = Inr v"
  obtains event where "map_of RISK_EVENTS (cq_risk_event_id r) = Some event"
    "co_affected_portfolios v = map (\<lambda>p. affected_portfolio r (evaluate_portfolio_exposure event p))
        (filter (affected_by r event) (cq_portfolios r))"
    "co_excluded_portfolios v = map (\<lambda>p. excluded_portfolio r (evaluate_portfolio_exposure event p))
        (filter (\<lambda>p. \<not> affected_by r event p) (cq_portfolios r))"
    "cm_calculation_supportability (co_metadata v) =
       fst (cohort_supportability_state (co_affected_portfolios v) (co_excluded_portfolios v))"
  using assms
  by (auto simp: evaluate_risk_event_affected_cohort_def membership_eq Let_def
      split: option.splits prod.splits)

text \<open>
  The cohort partitions the candidates in the order of the request: a portfolio is affected
  exactly when every exposure bucket of it is one the event shocks and its impact score reaches the
  threshold, every other candidate is excluded, and the row says which of the two it failed.
\<close>

theorem cohort_partitions_candidates:
  assumes "evaluate_risk_event_affected_cohort fp r = Inr v"
    and "map_of RISK_EVENTS (cq_risk_event_id r) = Some event"
  shows "map cw_portfolio_id (co_affected_portfolios v) =
       map px_portfolio_id (filter (\<lambda>p. supported_buckets event p \<and>
         cq_minimum_impact_score r \<le> pv_impact_score (evaluate_portfolio_exposure event p))
         (cq_portfolios r)) \<and>
     map (\<lambda>w. (cw_portfolio_id w, cw_reason_codes w)) (co_excluded_portfolios v) =
       map (\<lambda>p. (px_portfolio_id p, if supported_buckets event p then [''RISK_EVENT_BELOW_THRESHOLD'']
           else [''RISK_EVENT_UNSUPPORTED_EXPOSURE_BUCKET'']))
         (filter (\<lambda>p. \<not> (supported_buckets event p \<and>
           cq_minimum_impact_score r \<le> pv_impact_score (evaluate_portfolio_exposure event p)))
         (cq_portfolios r))"
proof (rule evaluate_cohort_InrD [OF assms(1)])
  fix e assume "map_of RISK_EVENTS (cq_risk_event_id r) = Some e"
    and "co_affected_portfolios v = map (\<lambda>p. affected_portfolio r (evaluate_portfolio_exposure e p))
        (filter (affected_by r e) (cq_portfolios r))"
      "co_excluded_portfolios v = map (\<lambda>p. excluded_portfolio r (evaluate_portfolio_exposure e p))
        (filter (\<lambda>p. \<not> affected_by r e p) (cq_portfolios r))"
  then show ?thesis
    using assms(2) by (simp add: comp_def excluded_codes affected_by_iff [abs_def])
qed

definition sample_portfolio :: "string \<Rightarrow> string \<Rightarrow> portfolio_exposure" where
  "sample_portfolio i bucket = \<lparr>px_portfolio_id = i, px_exposure_weights = [(bucket, Finite 1)],
     px_mandate_id = None, px_portfolio_manager_id = None\<rparr>"

definition sample_cohort_request :: cohort_request where
  "sample_cohort_request =
     \<lparr>cq_risk_event_id = ''RISK_EVENT_2026_Q2_RISK_OFF'', cq_as_of_date = Date 2026 5 10,
      cq_portfolios = [sample_portfolio ''P1'' ''cash'', sample_portfolio ''P2'' ''equity'',
        sample_portfolio ''P3'' ''CRYPTO''],
      cq_minimum_impact_score = flit (5 / 100)\<rparr>"

lemma sample_cohort: "\<exists>v. evaluate_risk_event_affected_cohort (\<lambda>_. ''sha256:f'') sample_cohort_request = Inr v"
  by (simp add: evaluate_risk_event_affected_cohort_def sample_cohort_request_def RISK_EVENTS_def
      case_prod_unfold Let_def)

lemma sample_upper: "py_upper ''equity'' = ''EQUITY''" "py_upper ''cash'' = ''CASH''" "py_upper ''CRYPTO'' = ''CRYPTO''"
  by code_simp+

lemma sample_scores:
  "pv_impact_score (evaluate_portfolio_exposure (the (map_of RISK_EVENTS ''RISK_EVENT_2026_Q2_RISK_OFF''))
     (sample_portfolio i ''equity'')) = py_round6 (py_sum [\<bar>py_round6 (fmul 1 (- flit (18 / 100)))\<bar>])"
  "pv_impact_score (evaluate_portfolio_exposure (the (map_of RISK_EVENTS ''RISK_EVENT_2026_Q2_RISK_OFF''))
     (sample_portfolio i ''cash'')) = py_round6 (py_sum [0])"
  by (simp_all add: evaluate_portfolio_exposure_def RISK_EVENTS_def sample_portfolio_def dict_of_items_def
      dict_get_def sample_upper Let_def del: py_sum.simps)

lemma sample_score_values:
  "flit (5 / 100) \<le> py_round6 (py_sum [\<bar>py_round6 (fmul 1 (- flit (18 / 100)))\<bar>])"
  "\<not> flit (5 / 100) \<le> py_round6 (py_sum [0])"
  by code_simp+

lemma sample_supported:
  "supported_buckets (the (map_of RISK_EVENTS ''RISK_EVENT_2026_Q2_RISK_OFF'')) (sample_portfolio i ''equity'')"
  "supported_buckets (the (map_of RISK_EVENTS ''RISK_EVENT_2026_Q2_RISK_OFF'')) (sample_portfolio i ''cash'')"
  "\<not> supported_buckets (the (map_of RISK_EVENTS ''RISK_EVENT_2026_Q2_RISK_OFF'')) (sample_portfolio i ''CRYPTO'')"
  by (simp_all add: supported_buckets_def RISK_EVENTS_def sample_portfolio_def sample_upper)

lemma filter_sample:
  assumes "\<not> q p1" "q p2" "\<not> q p3" "s p1" "\<not> s p3"
  shows "map f (filter q [p1, p2, p3]) = [f p2]"
    "map (\<lambda>p. (f p, if s p then u else w)) (filter (\<lambda>p. \<not> q p) [p1, p2, p3]) = [(f p1, u), (f p3, w)]"
  using assms by simp_all

theorem cohort_partitions_candidates_witness:
  "\<exists>v. evaluate_risk_event_affected_cohort (\<lambda>_. ''sha256:f'') sample_cohort_request = Inr v \<and>
     map cw_portfolio_id (co_affected_portfolios v) = [''P2''] \<and>
     map (\<lambda>w. (cw_portfolio_id w, cw_reason_codes w)) (co_excluded_portfolios v) =
       [(''P1'', [''RISK_EVENT_BELOW_THRESHOLD'']), (''P3'', [''RISK_EVENT_UNSUPPORTED_EXPOSURE_BUCKET''])]"
proof -
  obtain v where v: "evaluate_risk_event_affected_cohort (\<lambda>_. ''sha256:f'') sample_cohort_request = Inr v"
    using sample_cohort by blast
  obtain e where e: "map_of RISK_EVENTS (cq_risk_event_id sample_cohort_request) = Some e"
    and e': "e = the (map_of RISK_EVENTS ''RISK_EVENT_2026_Q2_RISK_OFF'')"
    by (simp add: RISK_EVENTS_def sample_cohort_request_def)
  obtain p1 p2 p3 where ps: "cq_portfolios sample_cohort_request = [p1, p2, p3]"
    and p: "p1 = sample_portfolio ''P1'' ''cash''" "p2 = sample_portfolio ''P2'' ''equity''"
      "p3 = sample_portfolio ''P3'' ''CRYPTO''"
    by (simp add: sample_cohort_request_def)
  have m: "cq_minimum_impact_score sample_cohort_request = flit (5 / 100)"
    by (simp add: sample_cohort_request_def)
  note sup = sample_supported [of "''P2''", folded e' p] sample_supported [of "''P1''", folded e' p]
    sample_supported [of "''P3''", folded e' p]
  note filter = filter_sample [of "\<lambda>p. supported_buckets e p \<and> flit (5 / 100) \<le>
      pv_impact_score (evaluate_portfolio_exposure e p)" p1 p2 p3 "supported_buckets e"]
  have low: "\<not> flit (5 / 100) \<le> pv_impact_score (evaluate_portfolio_exposure e p1)"
    unfolding e' p(1) sample_scores by (rule sample_score_values)
  have high: "flit (5 / 100) \<le> pv_impact_score (evaluate_portfolio_exposure e p2)"
    unfolding e' p(2) sample_scores by (rule sample_score_values)
  have ids: "px_portfolio_id p1 = ''P1''" "px_portfolio_id p2 = ''P2''" "px_portfolio_id p3 = ''P3''"
    by (simp_all add: p sample_portfolio_def)
  have 1: "map px_portfolio_id (filter (\<lambda>p. supported_buckets e p \<and>
      flit (5 / 100) \<le> pv_impact_score (evaluate_portfolio_exposure e p)) [p1, p2, p3]) = [''P2'']"
    unfolding ids [symmetric] by (rule filter(1)) (use low high sup in blast)+
  show ?thesis
    using cohort_partitions_candidates [OF v e] v low high sup
    by (simp only: ps m 1 filter(2) ids) (intro exI [of _ v], simp add: ids)
qed

section \<open>Posture\<close>

text \<open>
  The posture of the cohort as a whole is degraded when some candidate holds a bucket the event
  does not shock, otherwise pending review when no candidate is affected, and ready otherwise; it
  is never blocked.
\<close>

theorem cohort_posture:
  assumes "evaluate_risk_event_affected_cohort fp r = Inr v"
    and "map_of RISK_EVENTS (cq_risk_event_id r) = Some event"
  shows "cm_calculation_supportability (co_metadata v) =
     (if \<not> list_all (supported_buckets event) (cq_portfolios r) then CohortDegraded
      else if list_all (\<lambda>p. pv_impact_score (evaluate_portfolio_exposure event p)
        < cq_minimum_impact_score r) (cq_portfolios r) then CohortPendingReview
      else CohortReady)"
proof (rule evaluate_cohort_InrD [OF assms(1)])
  fix e assume e: "map_of RISK_EVENTS (cq_risk_event_id r) = Some e"
    and aff: "co_affected_portfolios v = map (\<lambda>p. affected_portfolio r (evaluate_portfolio_exposure e p))
        (filter (affected_by r e) (cq_portfolios r))"
    and exc: "co_excluded_portfolios v = map (\<lambda>p. excluded_portfolio r (evaluate_portfolio_exposure e p))
        (filter (\<lambda>p. \<not> affected_by r e p) (cq_portfolios r))"
    and st: "cm_calculation_supportability (co_metadata v) =
       fst (cohort_supportability_state (co_affected_portfolios v) (co_excluded_portfolios v))"
  have eq: "e = event" using e assms(2) by simp
  have seen: "list_ex (\<lambda>w. ''RISK_EVENT_UNSUPPORTED_EXPOSURE_BUCKET'' \<in> set (cw_reason_codes w))
      (co_excluded_portfolios v) \<longleftrightarrow> \<not> list_all (supported_buckets event) (cq_portfolios r)"
    by (auto simp: exc list_ex_iff list_all_iff excluded_codes affected_by_iff eq split: if_splits)
  have none: "co_affected_portfolios v = [] \<longleftrightarrow> (\<forall>p\<in>set (cq_portfolios r). \<not> affected_by r event p)"
    by (simp add: aff filter_empty_conv eq)
  show ?thesis
    using seen none unfolding st cohort_supportability_state_def Let_def
    by (auto simp: list_all_iff affected_by_iff not_le)
qed

theorem cohort_posture_witness:
  "\<exists>v. evaluate_risk_event_affected_cohort (\<lambda>_. ''sha256:f'') sample_cohort_request = Inr v \<and>
     cm_calculation_supportability (co_metadata v) = CohortDegraded"
proof -
  obtain v where v: "evaluate_risk_event_affected_cohort (\<lambda>_. ''sha256:f'') sample_cohort_request = Inr v"
    using sample_cohort by blast
  have e: "map_of RISK_EVENTS (cq_risk_event_id sample_cohort_request) =
      Some (the (map_of RISK_EVENTS (cq_risk_event_id sample_cohort_request)))"
    by (simp add: RISK_EVENTS_def sample_cohort_request_def)
  have "\<not> list_all (supported_buckets (the (map_of RISK_EVENTS (cq_risk_event_id sample_cohort_request))))
      (cq_portfolios sample_cohort_request)"
    using sample_supported(3) by (simp add: sample_cohort_request_def)
  then show ?thesis using cohort_posture [OF v e] v by auto
qed

section \<open>Dominant bucket\<close>

lemma foldl_dominant:
  fixes best :: "string \<times> f64"
  defines "res \<equiv> \<lambda>rest. foldl (\<lambda>best kv. if \<bar>snd best\<bar> < \<bar>snd kv\<bar> then kv else best) best rest"
  shows "res rest \<in> set (best # rest) \<and> (\<forall>kv\<in>set (best # rest). \<bar>snd kv\<bar> \<le> \<bar>snd (res rest)\<bar>)"
proof (induction rest rule: rev_induct)
  case Nil
  then show ?case by (simp add: res_def)
next
  case (snoc kv rest)
  have "res (rest @ [kv]) = (if \<bar>snd (res rest)\<bar> < \<bar>snd kv\<bar> then kv else res rest)"
    by (simp add: res_def)
  with snoc show ?case by auto
qed

text \<open>
  The dominant bucket of an evaluated portfolio is one of its own buckets whose impact is the
  largest in absolute value, as soon as it has any.
\<close>

theorem dominant_bucket_is_largest:
  assumes "px_exposure_weights p \<noteq> []"
  shows "\<exists>v. (pv_dominant_bucket (evaluate_portfolio_exposure event p), v)
       \<in> set (pv_bucket_impacts (evaluate_portfolio_exposure event p)) \<and>
     list_all (\<lambda>kv. \<bar>snd kv\<bar> \<le> \<bar>v\<bar>) (pv_bucket_impacts (evaluate_portfolio_exposure event p))"
proof -
  let ?e = "evaluate_portfolio_exposure event p"
  have "set (dict_of_items (map (\<lambda>(b, w). (py_upper b, finite_weight w)) (px_exposure_weights p))) \<noteq> {}"
    using keys_dict_of_items [of "map (\<lambda>(b, w). (py_upper b, finite_weight w)) (px_exposure_weights p)"]
      assms by (metis image_is_empty list.map_disc_iff set_empty)
  then have "pv_bucket_impacts ?e \<noteq> []" by (auto simp: evaluate_portfolio_exposure_def Let_def)
  then obtain kv rest where kvs: "pv_bucket_impacts ?e = kv # rest" by (metis neq_Nil_conv)
  have d: "pv_dominant_bucket ?e = dominant_bucket (pv_bucket_impacts ?e)"
    by (simp add: evaluate_portfolio_exposure_def Let_def)
  let ?r = "foldl (\<lambda>best kv. if \<bar>snd best\<bar> < \<bar>snd kv\<bar> then kv else best) kv rest"
  have "?r \<in> set (pv_bucket_impacts ?e)" "\<forall>q\<in>set (pv_bucket_impacts ?e). \<bar>snd q\<bar> \<le> \<bar>snd ?r\<bar>"
    using foldl_dominant [where best = kv and rest = rest] by (auto simp: kvs)
  moreover have "pv_dominant_bucket ?e = fst ?r" by (simp add: d kvs dominant_bucket_def)
  ultimately show ?thesis by (intro exI [of _ "snd ?r"]) (simp add: list_all_iff)
qed

theorem dominant_bucket_is_largest_witness:
  "\<exists>v. (pv_dominant_bucket (evaluate_portfolio_exposure
       (the (map_of RISK_EVENTS ''RISK_EVENT_2026_Q2_RISK_OFF'')) (sample_portfolio ''P2'' ''equity'')), v)
     \<in> set (pv_bucket_impacts (evaluate_portfolio_exposure
       (the (map_of RISK_EVENTS ''RISK_EVENT_2026_Q2_RISK_OFF'')) (sample_portfolio ''P2'' ''equity'')))"
  using dominant_bucket_is_largest [of "sample_portfolio ''P2'' ''equity''"
      "the (map_of RISK_EVENTS ''RISK_EVENT_2026_Q2_RISK_OFF'')"]
  by (auto simp: sample_portfolio_def)

section \<open>Admission\<close>

definition valid_weights :: "portfolio_exposure \<Rightarrow> bool" where
  "valid_weights p \<longleftrightarrow>
     px_exposure_weights p \<noteq> [] \<and> length (px_exposure_weights p) \<le> 16 \<and>
     distinct (map (\<lambda>kv. py_upper (fst kv)) (px_exposure_weights p)) \<and>
     list_all (\<lambda>kv. snd kv \<noteq> NotFinite \<and> 0 \<le> finite_weight (snd kv) \<and> finite_weight (snd kv) \<le> 1)
       (px_exposure_weights p) \<and>
     \<bar>fsub (py_sum (map (\<lambda>kv. finite_weight (snd kv)) (px_exposure_weights p))) 1\<bar>
       \<le> RISK_EVENT_ALLOCATION_TOLERANCE"

lemma weights_in_range_iff:
  "list_all (\<lambda>kv. snd kv \<noteq> NotFinite \<and> 0 \<le> finite_weight (snd kv) \<and> finite_weight (snd kv) \<le> 1) kvs \<longleftrightarrow>
     NotFinite \<notin> set (map snd kvs) \<and> \<not> list_ex (\<lambda>w. finite_weight w < 0) (map snd kvs) \<and>
     \<not> list_ex (\<lambda>w. 1 < finite_weight w) (map snd kvs)"
  by (induction kvs) auto

lemma portfolio_fields_iff: "portfolio_fields p = Inr () \<longleftrightarrow> valid_weights p"
proof -
  let ?kvs = "px_exposure_weights p"
  have names: "map (\<lambda>(b, w). py_upper b) ?kvs = map (\<lambda>kv. py_upper (fst kv)) ?kvs"
    and vals: "map finite_weight (map snd ?kvs) = map (\<lambda>kv. finite_weight (snd kv)) ?kvs"
    by (simp_all add: case_prod_unfold)
  have "validate_exposure_weights p = Inr () \<longleftrightarrow> ?kvs \<noteq> [] \<and>
      distinct (map (\<lambda>kv. py_upper (fst kv)) ?kvs) \<and> NotFinite \<notin> set (map snd ?kvs) \<and>
      \<not> list_ex (\<lambda>w. finite_weight w < 0) (map snd ?kvs) \<and>
      \<not> list_ex (\<lambda>w. 1 < finite_weight w) (map snd ?kvs) \<and>
      \<bar>fsub (py_sum (map (\<lambda>kv. finite_weight (snd kv)) ?kvs)) 1\<bar> \<le> RISK_EVENT_ALLOCATION_TOLERANCE"
    unfolding validate_exposure_weights_def Let_def names vals
    by (simp add: duplicates_Nil_iff not_less del: map_map set_map list_ex_iff)
  then show ?thesis
    unfolding valid_weights_def weights_in_range_iff portfolio_fields_def
    by (auto simp: result_simps RISK_EVENT_MAX_EXPOSURE_BUCKETS_PER_PORTFOLIO_def not_less
        simp del: set_map)
qed

lemma map_result_unit_iff: "(\<exists>us. map_result f xs = Inr (us :: unit list)) \<longleftrightarrow> list_all (\<lambda>x. f x = Inr ()) xs"
  by (induction xs) (auto simp: result_simps)

text \<open>
  A cohort request is admitted exactly when it names between 1 and 250 distinct portfolios,
  each with at most 16 distinct buckets of finite weights between 0 and 1 that sum to 1 within the
  tolerance, and a threshold that is not negative; admission changes nothing in it.
\<close>

theorem admitted_cohort_iff:
  "validate_cohort_request r = Inr r' \<longleftrightarrow>
     r' = r \<and> cq_portfolios r \<noteq> [] \<and> length (cq_portfolios r) \<le> 250 \<and>
     distinct (map px_portfolio_id (cq_portfolios r)) \<and>
     list_all valid_weights (cq_portfolios r) \<and> 0 \<le> cq_minimum_impact_score r"
proof -
  have fields: "(\<exists>us. map_result portfolio_fields (cq_portfolios r) = Inr us) \<longleftrightarrow>
      list_all valid_weights (cq_portfolios r)"
    by (simp add: map_result_unit_iff portfolio_fields_iff)
  have candidates: "validate_candidate_portfolios r = Inr u \<longleftrightarrow>
      cq_portfolios r \<noteq> [] \<and> distinct (map px_portfolio_id (cq_portfolios r))" for u
    by (auto simp: validate_candidate_portfolios_def Let_def duplicates_Nil_iff)
  show ?thesis
    unfolding validate_cohort_request_def
    by (simp only: result_simps candidates) (use fields in \<open>auto simp: RISK_EVENT_MAX_CANDIDATE_PORTFOLIOS_def\<close>)
qed

end
