(* ===== verification/Json.thy ===== *)
theory Json
  imports Main Float64
begin

text \<open>
  JSON values as \<open>json.loads\<close> gives them, the accessors the service reads them with
  (\<open>_as_str\<close>, \<open>_as_int\<close> and dictionary lookup in services/concentration/parsing.py), and
  \<open>Decimal(str(value))\<close>.  An object is an ordered dictionary; a number is an integer, a finite
  float, or one of the non-finite floats the parser also accepts.
\<close>

datatype special_number = QuietNaN | SignalingNaN | PlusInfinite | MinusInfinite

datatype json =
  JNull | JBool bool | JInt int | JFloat f64 | JNonFinite special_number | JString string | JArray "json list"
| JObject "(string \<times> json) list"

type_synonym json_object = "(string \<times> json) list"

definition json_get :: "json_object \<Rightarrow> string \<Rightarrow> json" where
  "json_get obj name = (case map_of obj name of None \<Rightarrow> JNull | Some v \<Rightarrow> v)"

definition as_str :: "json \<Rightarrow> string option" where
  "as_str v = (case v of JString s \<Rightarrow> Some s | _ \<Rightarrow> None)"

text \<open>A missing, null, false, zero or empty value is false.\<close>

fun json_truthy :: "json \<Rightarrow> bool" where
  "json_truthy JNull = False"
| "json_truthy (JBool b) = b"
| "json_truthy (JInt n) = (n \<noteq> 0)"
| "json_truthy (JFloat x) = (x \<noteq> 0)"
| "json_truthy (JNonFinite x) = True"
| "json_truthy (JString s) = (s \<noteq> [])"
| "json_truthy (JArray xs) = (xs \<noteq> [])"
| "json_truthy (JObject kvs) = (kvs \<noteq> [])"

section \<open>Optional strings\<close>

text \<open>\<open>a or b\<close> of two optional strings, of which the empty one is false.\<close>

definition str_truthy :: "string option \<Rightarrow> bool" where
  "str_truthy s = (case s of None \<Rightarrow> False | Some t \<Rightarrow> t \<noteq> [])"

definition str_or :: "string option \<Rightarrow> string option \<Rightarrow> string option" where
  "str_or a b = (if str_truthy a then a else b)"

lemma str_or_truthy: "str_truthy (str_or a b) \<longleftrightarrow> str_truthy a \<or> str_truthy b"
  by (simp add: str_or_def)

section \<open>Integers in JSON\<close>

text \<open>
  \<open>str.isdigit\<close>: non-empty, every character a decimal digit or one of the superscripts 1, 2 and 3,
  which \<open>int\<close> refuses.  A Boolean is an integer.  \<open>Inl message\<close> is the \<open>ValueError\<close> of \<open>int\<close>, its
  message up to the digit counts in it.
\<close>

definition is_digit_char :: "char \<Rightarrow> bool" where
  "is_digit_char c \<longleftrightarrow> (let n = of_char c :: nat in 48 \<le> n \<and> n \<le> 57 \<or> n \<in> {178, 179, 185})"

definition str_isdigit :: "string \<Rightarrow> bool" where
  "str_isdigit s \<longleftrightarrow> s \<noteq> [] \<and> list_all is_digit_char s"

definition int_error :: "string \<Rightarrow> string" where
  "int_error s =
     (if list_all is_digit_char s \<and> int_digits s \<noteq> None
      then ''Exceeds the limit (4300 digits) for integer string conversion''
      else ''invalid literal for int() with base 10: '' @ [CHR 0x27] @ s @ [CHR 0x27])"

definition as_int :: "json \<Rightarrow> (string, int option) result" where
  "as_int v =
     (case v of
        JInt n \<Rightarrow> Inr (Some n)
      | JBool b \<Rightarrow> Inr (Some (if b then 1 else 0))
      | JString s \<Rightarrow>
          if str_isdigit s
          then (case py_int s of None \<Rightarrow> Inl (int_error s) | Some n \<Rightarrow> Inr (Some n))
          else Inr None
      | _ \<Rightarrow> Inr None)"

section \<open>Decimals\<close>

text \<open>
  \<open>Decimal(text)\<close>: surrounding white space and all underscores are dropped; then a sign, digits
  with at most one point among or after them, and an exponent; or an infinity or NaN in any case.
\<close>

datatype decimal_reading = NotADecimal | NonFiniteDecimal special_number | FiniteDecimal rat

definition is_ascii_digit :: "char \<Rightarrow> bool" where
  "is_ascii_digit c \<longleftrightarrow> (let n = of_char c :: nat in 48 \<le> n \<and> n \<le> 57)"

definition decimal_scale :: "int \<Rightarrow> rat" where
  "decimal_scale e = (if 0 \<le> e then 10 ^ nat e else 1 / 10 ^ nat (- e))"

definition split_sign :: "string \<Rightarrow> bool \<times> string" where
  "split_sign s =
     (case s of c # cs \<Rightarrow> if c = CHR ''-'' then (True, cs) else if c = CHR ''+'' then (False, cs) else (False, s)
      | [] \<Rightarrow> (False, []))"

text \<open>The exponent part, after the digits: nothing, or \<open>E\<close> with a signed run of digits.\<close>

definition decimal_exponent :: "string \<Rightarrow> int option" where
  "decimal_exponent s =
     (case s of
        [] \<Rightarrow> Some 0
      | c # cs \<Rightarrow>
          if char_upper c \<noteq> CHR ''E'' then None
          else (case split_sign cs of (neg, ds) \<Rightarrow>
            if ds = [] \<or> \<not> list_all is_ascii_digit ds then None
            else Some ((if neg then - 1 else 1) * int (digits_value (ascii ds)))))"

definition decimal_number :: "string \<Rightarrow> rat option" where
  "decimal_number s =
     (let whole = takeWhile is_ascii_digit s; rest = dropWhile is_ascii_digit s;
          pointed = (rest \<noteq> [] \<and> hd rest = CHR ''.'');
          frac = (if pointed then takeWhile is_ascii_digit (tl rest) else []);
          tail = (if pointed then dropWhile is_ascii_digit (tl rest) else rest)
      in if whole = [] \<and> frac = [] then None
         else case decimal_exponent tail of
           None \<Rightarrow> None
         | Some e \<Rightarrow>
             Some (of_nat (digits_value (ascii (whole @ frac))) * decimal_scale (e - int (length frac))))"

definition decimal_special :: "bool \<Rightarrow> string \<Rightarrow> special_number option" where
  "decimal_special neg s =
     (let u = py_upper s; signaling = starts_with u ''SNAN''; v = (if signaling then tl u else u) in
      if u \<in> {''INF'', ''INFINITY''} then Some (if neg then MinusInfinite else PlusInfinite)
      else if starts_with v ''NAN'' \<and> list_all is_ascii_digit (drop 3 v)
      then Some (if signaling then SignalingNaN else QuietNaN)
      else None)"

definition decimal_text :: "string \<Rightarrow> decimal_reading" where
  "decimal_text text =
     (case split_sign (filter (\<lambda>c. c \<noteq> CHR ''_'') (py_strip text)) of (neg, body) \<Rightarrow>
        case decimal_number body of
          Some q \<Rightarrow> FiniteDecimal (if neg then - q else q)
        | None \<Rightarrow>
            (case decimal_special neg body of None \<Rightarrow> NotADecimal | Some x \<Rightarrow> NonFiniteDecimal x))"

text \<open>
  \<open>Decimal(str(value))\<close>.  The text of a float is the shortest one that reads back as it, and every
  use below compares the decimal with zero and reads it back as a float, so the float's own value
  stands for it.  The texts of Booleans, null, arrays and objects are no decimals.
\<close>

definition decimal_of_json :: "json \<Rightarrow> decimal_reading" where
  "decimal_of_json v =
     (case v of
        JInt n \<Rightarrow> FiniteDecimal (of_int n)
      | JFloat x \<Rightarrow> FiniteDecimal x
      | JNonFinite x \<Rightarrow> NonFiniteDecimal x
      | JString s \<Rightarrow> decimal_text s
      | _ \<Rightarrow> NotADecimal)"

lemma decimal_examples:
  "decimal_text '' -1_0.25E1 '' = FiniteDecimal (- 1025 / 10)"
  "decimal_text ''.5'' = FiniteDecimal (1 / 2)"
  "decimal_text ''sNaN12'' = NonFiniteDecimal SignalingNaN"
  "decimal_text ''-Infinity'' = NonFiniteDecimal MinusInfinite"
  "decimal_text ''1e'' = NotADecimal"
  by code_simp+

end
