(* ===== verification/Principal.thy ===== *)
theory Principal
  imports Main Prelude
begin

text \<open>
  Verified principals: the identity and grant values of security/models.py, the provider
  boundary of security/ports.py, the resolution of security/resolution.py, the deployment posture
  of security/configuration.py, and the use a request makes of its principal
  (dependencies/request_context.py).  The verifier and the grant store are injected at run time
  and are parameters: functions that may return, return something of the wrong type, or raise.
\<close>

section \<open>Identities and grants\<close>

text \<open>\<open>Denied\<close> is a raised \<open>PrincipalDenied\<close>, \<open>Unavailable\<close> a \<open>SecurityProviderUnavailable\<close>.\<close>

datatype security_error = Denied string int | Unavailable

text \<open>A field of a provider's object: a string, \<open>None\<close>, or a value of another type.\<close>

datatype field_value = Text string | NoValue | Foreign

record verified_credential =
  vc_subject :: field_value
  vc_tenant_id :: field_value
  vc_kind :: field_value
  vc_credential_id :: field_value
  vc_actor :: field_value

definition require_identity_text :: "field_value \<Rightarrow> nat \<Rightarrow> (security_error, unit) result" where
  "require_identity_text v maximum =
     (case v of
        Text s \<Rightarrow> raise_if (py_strip s = [] \<or> s \<noteq> py_strip s \<or> maximum < length s) Unavailable
      | _ \<Rightarrow> Inl Unavailable)"

definition require_valid_provider_result :: "verified_credential \<Rightarrow> (security_error, unit) result" where
  "require_valid_provider_result c =
     bind_result (require_identity_text (vc_subject c) 512) (\<lambda>_.
     bind_result (require_identity_text (vc_tenant_id c) 128) (\<lambda>_.
     bind_result (require_identity_text (vc_credential_id c) 512) (\<lambda>_.
     bind_result
       (raise_if (vc_kind c \<notin> {Text ''user'', Text ''service'', Text ''delegated''}) Unavailable) (\<lambda>_.
     if vc_kind c = Text ''delegated'' then require_identity_text (vc_actor c) 512
     else raise_if (vc_actor c \<noteq> NoValue) Unavailable))))"

record grant_set =
  gs_capabilities :: "string set"
  gs_portfolio_ids :: "string set"

text \<open>
  The constructor refuses a blank or untrimmed name, so a provider cannot hand over such a set:
  its call raises instead.
\<close>

definition grant_set_of :: "string set \<Rightarrow> string set \<Rightarrow> (security_error, grant_set) result" where
  "grant_set_of capabilities portfolio_ids =
     (if (\<exists>v\<in>capabilities \<union> portfolio_ids. py_strip v = [] \<or> v \<noteq> py_strip v) then Inl Unavailable
      else Inr \<lparr>gs_capabilities = capabilities, gs_portfolio_ids = portfolio_ids\<rparr>)"

definition well_formed_grants :: "grant_set \<Rightarrow> bool" where
  "well_formed_grants g \<longleftrightarrow>
     grant_set_of (gs_capabilities g) (gs_portfolio_ids g) = Inr g"

record resolved_principal =
  rp_credential :: verified_credential
  rp_grants :: grant_set

definition require_portfolios :: "resolved_principal \<Rightarrow> string list \<Rightarrow> (security_error, unit) result" where
  "require_portfolios p portfolio_ids =
     raise_if (\<not> set portfolio_ids \<subseteq> gs_portfolio_ids (rp_grants p))
       (Denied ''portfolio_outside_scope'' 403)"

section \<open>The provider boundary\<close>

text \<open>
  What a provider's operation does: it raises, returns a value that is not of the declared type,
  or returns.  A verifier may also raise a \<open>PrincipalDenied\<close>, whose reason and status are
  whatever the provider put there, \<open>None\<close> standing for a value of another type.
\<close>

datatype 'a provider_outcome =
  ProviderRaised | WrongType | ProviderReturned 'a | ProviderDenied "string option" "int option"

definition security_provider_call :: "'a provider_outcome \<Rightarrow> (security_error, 'a option) result" where
  "security_provider_call outcome =
     (case outcome of
        ProviderReturned x \<Rightarrow> Inr (Some x)
      | WrongType \<Rightarrow> Inr None
      | ProviderRaised \<Rightarrow> Inl Unavailable
      | ProviderDenied reason status \<Rightarrow> Inl Unavailable)"

definition DECLARED_VERIFIER_DENIALS :: "(string, int) dict" where
  "DECLARED_VERIFIER_DENIALS =
     [(''missing_credential'', 401), (''malformed_credential'', 401), (''expired_credential'', 401),
      (''wrong_audience'', 401), (''wrong_issuer'', 401), (''unknown_key_id'', 401),
      (''revoked_principal'', 401), (''present_but_unverified'', 401),
      (''tenant_not_a_member'', 403), (''capability_not_granted'', 403),
      (''portfolio_outside_scope'', 403), (''delegated_capability_not_held_by_user'', 403),
      (''grant_store_unavailable'', 503)]"

definition credential_verifier_call :: "'a provider_outcome \<Rightarrow> (security_error, 'a option) result" where
  "credential_verifier_call outcome =
     (case outcome of
        ProviderReturned x \<Rightarrow> Inr (Some x)
      | WrongType \<Rightarrow> Inr None
      | ProviderRaised \<Rightarrow> Inl Unavailable
      | ProviderDenied (Some reason) (Some status) \<Rightarrow>
          (case map_of DECLARED_VERIFIER_DENIALS reason of
             None \<Rightarrow> Inl Unavailable
           | Some expected \<Rightarrow>
               if status \<noteq> expected then Inl Unavailable else Inl (Denied reason expected))
      | ProviderDenied _ _ \<Rightarrow> Inl Unavailable)"

text \<open>A value that fails its type test is answered as an unavailable provider.\<close>

definition typed :: "'a option \<Rightarrow> (security_error, 'a) result" where
  "typed v = (case v of None \<Rightarrow> Inl Unavailable | Some x \<Rightarrow> Inr x)"

definition provider_value :: "'a provider_outcome \<Rightarrow> (security_error, 'a) result" where
  "provider_value outcome = bind_result (security_provider_call outcome) typed"

definition verifier_value :: "'a provider_outcome \<Rightarrow> (security_error, 'a) result" where
  "verifier_value outcome = bind_result (credential_verifier_call outcome) typed"

record grant_store =
  tenant_members :: "field_value \<Rightarrow> field_value \<Rightarrow> bool provider_outcome"
  grants_for :: "field_value \<Rightarrow> field_value \<Rightarrow> grant_set provider_outcome"
  application_grants_for :: "field_value \<Rightarrow> field_value \<Rightarrow> grant_set provider_outcome"

record principal_providers =
  pp_verifier :: "(string \<Rightarrow> verified_credential provider_outcome) option"
  pp_grant_store :: "grant_store option"

section \<open>Resolution\<close>

definition require_membership ::
  "grant_store \<Rightarrow> field_value \<Rightarrow> field_value \<Rightarrow> (security_error, unit) result"
where
  "require_membership store subject tenant =
     bind_result (provider_value (tenant_members store subject tenant)) (\<lambda>membership. raise_if (\<not> membership) (Denied ''tenant_not_a_member'' 403))"

text \<open>\<open>capability not in grants.capabilities\<close>; \<open>None\<close> is in no set of strings.\<close>

definition lacks :: "string option \<Rightarrow> grant_set \<Rightarrow> bool" where
  "lacks capability grants =
     (case capability of None \<Rightarrow> True | Some c \<Rightarrow> c \<notin> gs_capabilities grants)"

definition delegated_grants ::
  "verified_credential \<Rightarrow> grant_set \<Rightarrow> grant_store \<Rightarrow> string option \<Rightarrow> (security_error, grant_set) result"
where
  "delegated_grants cred grants store capability =
     bind_result (raise_if (vc_actor cred = NoValue) (Denied ''malformed_credential'' 401)) (\<lambda>_.
     bind_result (require_membership store (vc_actor cred) (vc_tenant_id cred)) (\<lambda>_.
     bind_result (provider_value (application_grants_for store (vc_actor cred) (vc_tenant_id cred)))
       (\<lambda>application.
     bind_result
       (raise_if (lacks capability grants \<and> \<not> lacks capability application)
         (Denied ''delegated_capability_not_held_by_user'' 403)) (\<lambda>_.
     grant_set_of (gs_capabilities grants \<inter> gs_capabilities application)
             (gs_portfolio_ids grants \<inter> gs_portfolio_ids application)))))"

text \<open>The body of the \<open>try\<close> block, and the handler that turns an unavailable provider into a denial.\<close>

definition resolve_verified ::
  "string \<Rightarrow> string option \<Rightarrow> (string \<Rightarrow> verified_credential provider_outcome) \<Rightarrow> grant_store option \<Rightarrow>
     (security_error, resolved_principal) result"
where
  "resolve_verified credential capability verify store_opt =
     bind_result (verifier_value (verify credential)) (\<lambda>cred.
     bind_result (require_valid_provider_result cred) (\<lambda>_.
     case store_opt of
       None \<Rightarrow> Inl (Denied ''grant_store_unavailable'' 503)
     | Some store \<Rightarrow>
         bind_result (require_membership store (vc_subject cred) (vc_tenant_id cred)) (\<lambda>_.
         bind_result (provider_value (grants_for store (vc_subject cred) (vc_tenant_id cred)))
           (\<lambda>held.
         bind_result
           (if vc_kind cred = Text ''delegated''
            then delegated_grants cred held store capability else Inr held)
           (\<lambda>grants.
         bind_result (raise_if (lacks capability grants) (Denied ''capability_not_granted'' 403)) (\<lambda>_.
         Inr \<lparr>rp_credential = cred, rp_grants = grants\<rparr>))))))"

definition resolve_principal ::
  "string option \<Rightarrow> string option \<Rightarrow> principal_providers \<Rightarrow> (security_error, resolved_principal) result"
where
  "resolve_principal credential capability providers =
     (case (case credential of None \<Rightarrow> [] | Some c \<Rightarrow> c) of
        [] \<Rightarrow> Inl (Denied ''missing_credential'' 401)
      | ch # chs \<Rightarrow>
     (case pp_verifier providers of
        None \<Rightarrow> Inl (Denied ''grant_store_unavailable'' 503)
      | Some verify \<Rightarrow>
     (case resolve_verified (ch # chs) capability verify (pp_grant_store providers) of
        Inl Unavailable \<Rightarrow> Inl (Denied ''grant_store_unavailable'' 503)
      | r \<Rightarrow> r)))"


section \<open>What a request does with its principal\<close>

text \<open>
  \<open>posture\<close> is the configured posture of the application, if there is one.  \<open>Inl (s, d)\<close> is a
  raised \<open>HTTPException\<close>; the Boolean of \<open>require_portfolio_scope\<close> is the
  \<open>portfolio_scope_denied\<close> mark it leaves on the request.
\<close>

type_synonym http_error = "int \<times> string"

definition request_principal ::
  "string option \<Rightarrow> resolved_principal option \<Rightarrow> (http_error, resolved_principal option) result"
where
  "request_principal posture resolved =
     (case resolved of
        Some p \<Rightarrow> Inr (Some p)
      | None \<Rightarrow> if posture = Some ''verified'' then Inl (503, ''grant_store_unavailable'') else Inr None)"

definition request_actor_id ::
  "string option \<Rightarrow> resolved_principal option \<Rightarrow> string option \<Rightarrow> (http_error, field_value) result"
where
  "request_actor_id posture resolved header =
     bind_result (request_principal posture resolved) (\<lambda>p. case p of
       Some q \<Rightarrow> Inr (vc_subject (rp_credential q))
     | None \<Rightarrow> Inr (case header of None \<Rightarrow> NoValue | Some h \<Rightarrow> Text h))"

definition request_tenant_id ::
  "string option \<Rightarrow> resolved_principal option \<Rightarrow> string option \<Rightarrow> (http_error, field_value) result"
where
  "request_tenant_id posture resolved header =
     bind_result (request_principal posture resolved) (\<lambda>p. case p of
       Some q \<Rightarrow> Inr (vc_tenant_id (rp_credential q))
     | None \<Rightarrow> Inr (case header of None \<Rightarrow> NoValue | Some h \<Rightarrow> Text h))"

definition require_portfolio_scope ::
  "string option \<Rightarrow> resolved_principal option \<Rightarrow> string list \<Rightarrow> (http_error, unit) result \<times> bool"
where
  "require_portfolio_scope posture resolved portfolio_ids =
     (case request_principal posture resolved of
        Inl e \<Rightarrow> (Inl e, False)
      | Inr None \<Rightarrow> (Inr (), False)
      | Inr (Some p) \<Rightarrow>
          (case require_portfolios p portfolio_ids of
             Inl (Denied reason status) \<Rightarrow> (Inl (status, reason), True)
           | Inl Unavailable \<Rightarrow> (Inl (503, ''grant_store_unavailable''), False)
           | Inr _ \<Rightarrow> (Inr (), False)))"

section \<open>Deployment posture\<close>

type_synonym environment = "string \<Rightarrow> string option"

definition env_get :: "environment \<Rightarrow> string \<Rightarrow> string \<Rightarrow> string" where
  "env_get env name fallback = (case env name of None \<Rightarrow> fallback | Some v \<Rightarrow> v)"

definition env_enabled :: "environment \<Rightarrow> string \<Rightarrow> string \<Rightarrow> bool" where
  "env_enabled env name fallback \<longleftrightarrow>
     py_lower (py_strip (env_get env name fallback)) \<in> {''1'', ''true'', ''yes'', ''on''}"

record principal_security_configuration =
  ps_posture :: string
  ps_environment :: string

text \<open>\<open>Inl reason\<close> is a raised \<open>RuntimeError(reason)\<close>.\<close>

definition security_from_environment ::
  "environment \<Rightarrow> (string, principal_security_configuration) result"
where
  "security_from_environment env =
     (let enforced = env_enabled env ''ENTERPRISE_ENFORCE_RUNTIME_CONFIG'' ''false'' in
      bind_result (raise_if (enforced \<and> env ''LOTUS_RISK_PRINCIPAL_POSTURE'' = None)
        ''missing_principal_posture'') (\<lambda>_.
      bind_result (raise_if (enforced \<and> env ''LOTUS_RISK_DEPLOYMENT_ENVIRONMENT'' = None)
        ''missing_deployment_environment'') (\<lambda>_.
      let posture = env_get env ''LOTUS_RISK_PRINCIPAL_POSTURE'' ''header-trust'';
          environment = env_get env ''LOTUS_RISK_DEPLOYMENT_ENVIRONMENT'' ''local'' in
      bind_result (raise_if (posture \<notin> {''header-trust'', ''verified''})
        ''invalid_principal_posture'') (\<lambda>_.
      bind_result (raise_if (environment \<notin> {''local'', ''dev'', ''test'', ''staging'', ''production''})
        ''invalid_deployment_environment'') (\<lambda>_.
      bind_result (raise_if (posture = ''header-trust'' \<and> environment \<notin> {''local'', ''dev''})
        ''header_trust_requires_local_or_dev'') (\<lambda>_.
      Inr \<lparr>ps_posture = posture, ps_environment = environment\<rparr>))))))"

lemma security_configuration:
  assumes "security_from_environment env = Inr c"
  shows "(ps_posture c = ''header-trust'' \<or> ps_posture c = ''verified'') \<and>
    (ps_posture c = ''header-trust'' \<longrightarrow> ps_environment c = ''local'' \<or> ps_environment c = ''dev'')"
proof -
  from assms show ?thesis
    by (simp only: security_from_environment_def Let_def bind_result_Inr_iff raise_if_Inr_iff
        sum.inject insert_iff empty_iff not_not de_Morgan_conj)
      (elim exE conjE, hypsubst, simp only: principal_security_configuration.simps, simp)
qed

section \<open>Lemmas\<close>

lemma provider_call_Inr_iff [result_simps]:
  "provider_value r = Inr x \<longleftrightarrow> r = ProviderReturned x"
  by (cases r) (auto simp: provider_value_def security_provider_call_def typed_def)

lemma provider_call_Inl [result_simps]:
  "provider_value r = Inl e \<longleftrightarrow>
     (\<forall>x. r \<noteq> ProviderReturned x) \<and> e = Unavailable"
  by (cases r) (auto simp: provider_value_def security_provider_call_def typed_def)

lemma verifier_call_Inr_iff [result_simps]:
  "verifier_value r = Inr x \<longleftrightarrow> r = ProviderReturned x"
  by (cases r) (auto simp: verifier_value_def credential_verifier_call_def typed_def
      split: option.splits if_splits)

definition declared_denial :: "security_error \<Rightarrow> bool" where
  "declared_denial e =
     (case e of Denied reason status \<Rightarrow> map_of DECLARED_VERIFIER_DENIALS reason = Some status
      | Unavailable \<Rightarrow> True)"

lemma verifier_call_declared:
  "verifier_value r = Inl e \<Longrightarrow> declared_denial e"
  by (cases r) (auto simp: verifier_value_def credential_verifier_call_def typed_def declared_denial_def
      split: option.splits if_splits)

definition identity_text :: "field_value \<Rightarrow> nat \<Rightarrow> bool" where
  "identity_text v n = (case v of Text s \<Rightarrow> s \<noteq> [] \<and> py_strip s = s \<and> length s \<le> n | _ \<Rightarrow> False)"

definition valid_identity :: "verified_credential \<Rightarrow> bool" where
  "valid_identity c \<longleftrightarrow>
     identity_text (vc_subject c) 512 \<and> identity_text (vc_tenant_id c) 128 \<and>
     identity_text (vc_credential_id c) 512 \<and>
     (if vc_kind c = Text ''delegated'' then identity_text (vc_actor c) 512
      else vc_kind c \<in> {Text ''user'', Text ''service''} \<and> vc_actor c = NoValue)"

lemma require_identity_text_iff:
  "require_identity_text v n = Inr u \<longleftrightarrow> identity_text v n"
  by (cases v) (auto simp: require_identity_text_def identity_text_def result_simps)

lemma require_identity_text_Inl: "require_identity_text v n = Inl e \<Longrightarrow> e = Unavailable"
  by (cases v) (auto simp: require_identity_text_def result_simps)

lemma require_valid_iff: "require_valid_provider_result c = Inr u \<longleftrightarrow> valid_identity c"
  by (auto simp: require_valid_provider_result_def valid_identity_def result_simps
      require_identity_text_iff split: if_splits)

lemma require_valid_Inl: "require_valid_provider_result c = Inl e \<Longrightarrow> e = Unavailable"
  by (auto simp: require_valid_provider_result_def result_simps
      dest: require_identity_text_Inl split: if_splits)

lemma require_membership_iff [result_simps]:
  "require_membership store s t = Inr u \<longleftrightarrow> tenant_members store s t = ProviderReturned True"
  by (auto simp: require_membership_def result_simps)

lemma require_membership_declared:
  "require_membership store s t = Inl e \<Longrightarrow> declared_denial e"
  by (auto simp: require_membership_def result_simps declared_denial_def
      DECLARED_VERIFIER_DENIALS_def)

definition meet :: "grant_set \<Rightarrow> grant_set \<Rightarrow> grant_set" where
  "meet g h = \<lparr>gs_capabilities = gs_capabilities g \<inter> gs_capabilities h,
     gs_portfolio_ids = gs_portfolio_ids g \<inter> gs_portfolio_ids h\<rparr>"

lemma grant_set_of_Inr: "grant_set_of c p = Inr g \<Longrightarrow> g = \<lparr>gs_capabilities = c, gs_portfolio_ids = p\<rparr>"
  by (auto simp: grant_set_of_def split: if_splits)

lemma grant_set_of_Inl: "grant_set_of c p = Inl e \<Longrightarrow> e = Unavailable"
  by (auto simp: grant_set_of_def split: if_splits)

lemma well_formed_meet: "well_formed_grants g \<Longrightarrow> well_formed_grants (meet g h)"
  by (auto simp: well_formed_grants_def grant_set_of_def meet_def split: if_splits)

lemma lacks_iff [simp]: "lacks cap g \<longleftrightarrow> (\<forall>k. cap = Some k \<longrightarrow> k \<notin> gs_capabilities g)"
  by (auto simp: lacks_def split: option.splits)

lemma meet_select [simp]:
  "gs_capabilities (meet g h) = gs_capabilities g \<inter> gs_capabilities h"
  "gs_portfolio_ids (meet g h) = gs_portfolio_ids g \<inter> gs_portfolio_ids h"
  by (simp_all add: meet_def)

lemma grant_set_of_iff:
  "grant_set_of (gs_capabilities u \<inter> gs_capabilities a) (gs_portfolio_ids u \<inter> gs_portfolio_ids a) = Inr g
     \<longleftrightarrow> g = meet u a \<and> well_formed_grants (meet u a)"
  by (auto simp: well_formed_grants_def meet_def dest: grant_set_of_Inr)

lemma delegated_grants_iff:
  assumes "vc_actor c \<noteq> NoValue"
  shows "delegated_grants c u store cap = Inr g \<longleftrightarrow>
    tenant_members store (vc_actor c) (vc_tenant_id c) = ProviderReturned True \<and>
    (\<exists>a. application_grants_for store (vc_actor c) (vc_tenant_id c) = ProviderReturned a \<and>
      (lacks cap u \<longrightarrow> lacks cap a) \<and>
      g = meet u a \<and> well_formed_grants (meet u a))"
  using assms by (auto simp: delegated_grants_def result_simps grant_set_of_iff split: option.splits)

lemma declared [simp]:
  "declared_denial Unavailable"
  "declared_denial (Denied ''grant_store_unavailable'' 503)"
  "declared_denial (Denied ''capability_not_granted'' 403)"
  "declared_denial (Denied ''malformed_credential'' 401)"
  "declared_denial (Denied ''missing_credential'' 401)"
  "declared_denial (Denied ''delegated_capability_not_held_by_user'' 403)"
  by (simp_all add: declared_denial_def DECLARED_VERIFIER_DENIALS_def)

lemma delegated_grants_declared:
  "delegated_grants c u store cap = Inl e \<Longrightarrow> declared_denial e"
  by (auto simp: delegated_grants_def result_simps
      dest: grant_set_of_Inl intro: require_membership_declared split: if_splits)

definition member :: "grant_store \<Rightarrow> field_value \<Rightarrow> field_value \<Rightarrow> bool" where
  "member store who tenant \<longleftrightarrow> tenant_members store who tenant = ProviderReturned True"

definition established_grants ::
  "grant_store \<Rightarrow> verified_credential \<Rightarrow> grant_set \<Rightarrow> bool"
where
  "established_grants store c g \<longleftrightarrow>
     member store (vc_subject c) (vc_tenant_id c) \<and>
     (\<exists>u. grants_for store (vc_subject c) (vc_tenant_id c) = ProviderReturned u \<and>
        (if vc_kind c = Text ''delegated'' then
           member store (vc_actor c) (vc_tenant_id c) \<and>
           (\<exists>a. application_grants_for store (vc_actor c) (vc_tenant_id c) = ProviderReturned a \<and>
              g = meet u a \<and> well_formed_grants g)
         else g = u))"

lemma resolve_verified_iff:
  "resolve_verified token cap verify store_opt = Inr p \<longleftrightarrow>
     (\<exists>store k. store_opt = Some store \<and> cap = Some k \<and>
        verify token = ProviderReturned (rp_credential p) \<and> valid_identity (rp_credential p) \<and>
        established_grants store (rp_credential p) (rp_grants p) \<and> k \<in> gs_capabilities (rp_grants p))"
  (is "?l \<longleftrightarrow> ?r")
proof -
  obtain c g where p: "p = \<lparr>rp_credential = c, rp_grants = g\<rparr>" by (cases p) simp
  have actor: "vc_actor c \<noteq> NoValue" if "valid_identity c" "vc_kind c = Text ''delegated''"
    using that by (auto simp: valid_identity_def identity_text_def)
  show ?thesis
  proof (cases "\<exists>store k. store_opt = Some store \<and> cap = Some k \<and> verify token = ProviderReturned c \<and>
      valid_identity c")
    case False
    then show ?thesis
      by (auto simp: p resolve_verified_def result_simps require_valid_iff
          split: option.splits if_splits)
  next
    case True
    then obtain store k where t: "store_opt = Some store" "cap = Some k"
      "verify token = ProviderReturned c" "valid_identity c" by blast
    show ?thesis
      using t(4) actor
      by (cases "vc_kind c = Text ''delegated''")
        (auto simp: p resolve_verified_def t(1-3) result_simps require_valid_iff established_grants_def
          member_def delegated_grants_iff split: if_splits)
  qed
qed

lemma require_valid_declared: "require_valid_provider_result c = Inl e \<Longrightarrow> declared_denial e"
  by (drule require_valid_Inl) simp

lemma resolve_verified_declared:
  assumes "resolve_verified token cap verify store_opt = Inl e"
  shows "declared_denial e"
  using assms
  by (auto simp: resolve_verified_def result_simps
      intro: verifier_call_declared require_valid_declared
      require_membership_declared delegated_grants_declared split: option.splits if_splits)

lemma resolved_principal_iff:
  "resolve_principal credential capability providers = Inr p \<longleftrightarrow>
     (\<exists>token verify store k.
        credential = Some token \<and> token \<noteq> [] \<and> pp_verifier providers = Some verify \<and>
        pp_grant_store providers = Some store \<and> capability = Some k \<and>
        verify token = ProviderReturned (rp_credential p) \<and> valid_identity (rp_credential p) \<and>
        established_grants store (rp_credential p) (rp_grants p) \<and> k \<in> gs_capabilities (rp_grants p))"
proof -
  have drop: "(case r of Inl Unavailable \<Rightarrow> Inl (Denied ''grant_store_unavailable'' 503) | x \<Rightarrow> x) = Inr p
      \<longleftrightarrow> r = Inr p" for r :: "(security_error, resolved_principal) result"
    by (auto split: sum.splits security_error.splits)
  show ?thesis
    by (cases credential)
      (auto simp: resolve_principal_def drop resolve_verified_iff split: list.splits option.splits)
qed


text \<open>C7: a principal is resolved exactly when the bearer credential is non-empty, the verifier
  returned a valid identity for it, the subject is a member of its tenant, the required capability
  is among the established grants, and the grants are the subject's own or, for a delegated
  identity, what the subject and the acting application both hold.\<close>

theorem resolution_is_exact:
  "resolve_principal credential capability providers = Inr p \<longleftrightarrow>
     (\<exists>token verify store k.
        credential = Some token \<and> token \<noteq> [] \<and> pp_verifier providers = Some verify \<and>
        pp_grant_store providers = Some store \<and> capability = Some k \<and>
        verify token = ProviderReturned (rp_credential p) \<and> valid_identity (rp_credential p) \<and>
        established_grants store (rp_credential p) (rp_grants p) \<and> k \<in> gs_capabilities (rp_grants p))"
  by (rule resolved_principal_iff)

definition providers_failed :: "principal_providers \<Rightarrow> string \<Rightarrow> bool" where
  "providers_failed providers token =
     (case pp_verifier providers of
        None \<Rightarrow> True
      | Some verify \<Rightarrow>
          (case verify token of
             ProviderReturned c \<Rightarrow> \<not> valid_identity c \<or>
               (case pp_grant_store providers of
                  None \<Rightarrow> True
                | Some store \<Rightarrow>
                    (\<forall>b. tenant_members store (vc_subject c) (vc_tenant_id c) \<noteq> ProviderReturned b) \<or>
                    member store (vc_subject c) (vc_tenant_id c) \<and>
                    (\<forall>g. grants_for store (vc_subject c) (vc_tenant_id c) \<noteq> ProviderReturned g))
           | ProviderDenied (Some r) (Some s) \<Rightarrow> map_of DECLARED_VERIFIER_DENIALS r \<noteq> Some s
           | _ \<Rightarrow> True))"

lemma resolve_verified_failed:
  assumes "pp_verifier providers = Some verify" "providers_failed providers token"
  shows "resolve_verified token cap verify (pp_grant_store providers)
           \<in> {Inl Unavailable, Inl (Denied ''grant_store_unavailable'' 503)}"
proof (cases "verify token")
  case (ProviderReturned c)
  then have v: "verifier_value (verify token) = Inr c" by (simp add: result_simps)
  show ?thesis
  proof (cases "valid_identity c")
    case False
    then obtain e where "require_valid_provider_result c = Inl e"
      by (metis require_valid_iff sum.exhaust)
    then show ?thesis
      using v require_valid_Inl [of c e] by (simp add: resolve_verified_def)
  next
    case True
    then have valid: "require_valid_provider_result c = Inr ()" by (simp add: require_valid_iff)
    show ?thesis
      using assms ProviderReturned True v valid
      by (cases "pp_grant_store providers"; cases "tenant_members (the (pp_grant_store providers))
            (vc_subject c) (vc_tenant_id c)"; cases "grants_for (the (pp_grant_store providers))
            (vc_subject c) (vc_tenant_id c)")
        (auto simp: resolve_verified_def providers_failed_def member_def require_membership_def
          provider_value_def security_provider_call_def typed_def raise_if_def)
  qed
qed (use assms in \<open>auto simp: resolve_verified_def providers_failed_def verifier_value_def
    credential_verifier_call_def typed_def split: option.splits\<close>)

lemma resolve_principal_failed:
  assumes "token \<noteq> []" "providers_failed providers token"
  shows "resolve_principal (Some token) capability providers =
           Inl (Denied ''grant_store_unavailable'' 503)"
  using assms resolve_verified_failed [of providers _ token capability]
  by (cases token; cases "pp_verifier providers") (fastforce simp: resolve_principal_def)+

lemma resolve_principal_declared:
  assumes "resolve_principal credential capability providers = Inl e"
  shows "\<exists>reason status. e = Denied reason status \<and>
           map_of DECLARED_VERIFIER_DENIALS reason = Some status"
proof -
  have "e \<noteq> Unavailable \<and> declared_denial e"
    using assms resolve_verified_declared
    by (auto simp: resolve_principal_def
        split: list.splits option.splits sum.splits security_error.splits if_splits)
  then show ?thesis by (cases e) (auto simp: declared_denial_def)
qed

text \<open>Every refusal of a principal is one of the thirteen declared denials with its declared
  status; and when the verifier raises anything undeclared, returns a foreign value or an invalid
  identity, or the store is absent or fails to answer for membership or grants, the refusal is
  grant_store_unavailable with 503, so no provider error reaches the caller.\<close>

theorem refusals_are_declared:
  assumes "resolve_principal credential capability providers = Inl e"
  shows "(\<exists>reason status. e = Denied reason status \<and>
           map_of DECLARED_VERIFIER_DENIALS reason = Some status) \<and>
         (\<forall>token. credential = Some token \<and> token \<noteq> [] \<and> providers_failed providers token \<longrightarrow>
           e = Denied ''grant_store_unavailable'' 503)"
  using resolve_principal_declared [OF assms] assms resolve_principal_failed by auto

definition sample_credential :: verified_credential where
  "sample_credential = \<lparr>vc_subject = Text ''u1'', vc_tenant_id = Text ''t1'', vc_kind = Text ''delegated'',
     vc_credential_id = Text ''c1'', vc_actor = Text ''app''\<rparr>"

text \<open>A store whose membership answers and whose grants call raises.\<close>

definition sample_store :: grant_store where
  "sample_store = \<lparr>tenant_members = (\<lambda>_ _. ProviderReturned True), grants_for = (\<lambda>_ _. ProviderRaised),
     application_grants_for = (\<lambda>_ _. WrongType)\<rparr>"

definition sample_providers :: principal_providers where
  "sample_providers = \<lparr>pp_verifier = Some (\<lambda>_. ProviderReturned sample_credential),
     pp_grant_store = Some sample_store\<rparr>"

theorem refusals_are_declared_witness:
  "resolve_principal (Some ''token'') (Some ''risk.write'') sample_providers =
     Inl (Denied ''grant_store_unavailable'' 503) \<and>
   (\<exists>reason status. Denied ''grant_store_unavailable'' 503 = Denied reason status \<and>
      map_of DECLARED_VERIFIER_DENIALS reason = Some status)"
proof -
  have r: "resolve_principal (Some ''token'') (Some ''risk.write'') sample_providers =
      Inl (Denied ''grant_store_unavailable'' 503)"
    by code_simp
  with refusals_are_declared [OF r] show ?thesis by blast
qed

end
