(* ===== verification/Enterprise.thy ===== *)
theory Enterprise
  imports Main Json Principal
begin

text \<open>
  Enterprise controls that read the process environment: operator capability rules and write
  authorization (enterprise_authorization.py), the trusted-ingress marker
  (enterprise_trusted_ingress.py), the start-up validation of the runtime configuration
  (enterprise_readiness.py, integrations/downstream_profile_env.py), and redaction
  (enterprise_audit.py).  The environment, \<open>json.loads\<close> (\<open>None\<close> when it raises) and the reading of a
  text by \<open>float\<close> are parameters.
\<close>

section \<open>Redaction\<close>

definition REDACT_FIELDS :: "string set" where
  "REDACT_FIELDS =
     {''password'', ''secret'', ''token'', ''authorization'', ''access_token'', ''id_token'',
      ''refresh_token'', ''cookie'', ''session_secret'', ''capability_set'', ''ssn'',
      ''account_number'', ''client_email''}"

fun redact_sensitive :: "json \<Rightarrow> json" where
  "redact_sensitive (JObject kvs) =
     JObject (map (\<lambda>(k, v). (k,
       if py_lower k \<in> REDACT_FIELDS then JString ''***REDACTED***'' else redact_sensitive v)) kvs)"
| "redact_sensitive (JArray xs) = JArray (map redact_sensitive xs)"
| "redact_sensitive v = v"

section \<open>Environment\<close>

type_synonym json_loads = "string \<Rightarrow> json option"

definition load_json_map :: "json_loads \<Rightarrow> environment \<Rightarrow> string \<Rightarrow> (string, json) dict" where
  "load_json_map loads env name =
     (case loads (env_get env name ''{}'') of Some (JObject kvs) \<Rightarrow> kvs | _ \<Rightarrow> [])"

definition env_int :: "environment \<Rightarrow> string \<Rightarrow> int \<Rightarrow> int" where
  "env_int env name fallback =
     (case env name of None \<Rightarrow> fallback
      | Some raw \<Rightarrow> (case py_int raw of None \<Rightarrow> fallback | Some v \<Rightarrow> v))"

definition env_has_value :: "environment \<Rightarrow> string \<Rightarrow> bool" where
  "env_has_value env name \<longleftrightarrow> py_strip (env_get env name []) \<noteq> []"

definition env_positive_int :: "environment \<Rightarrow> string \<Rightarrow> int option" where
  "env_positive_int env name =
     (case env name of None \<Rightarrow> None
      | Some raw \<Rightarrow> (case py_int raw of None \<Rightarrow> None
          | Some v \<Rightarrow> if 0 < v then Some v else None))"

definition env_has_positive_int :: "environment \<Rightarrow> string \<Rightarrow> bool" where
  "env_has_positive_int env name \<longleftrightarrow>
     (case env name of None \<Rightarrow> False
      | Some raw \<Rightarrow> (case py_int raw of None \<Rightarrow> False | Some v \<Rightarrow> 0 < v))"

definition enterprise_policy_version :: "environment \<Rightarrow> string" where
  "enterprise_policy_version env = env_get env ''ENTERPRISE_POLICY_VERSION'' ''1.0.0''"

definition load_feature_flags :: "json_loads \<Rightarrow> environment \<Rightarrow> (string, json) dict" where
  "load_feature_flags loads env = load_json_map loads env ''ENTERPRISE_FEATURE_FLAGS_JSON''"

section \<open>Capability rules\<close>

definition WRITE_METHODS :: "string set" where
  "WRITE_METHODS = {''POST'', ''PUT'', ''PATCH'', ''DELETE''}"

definition SUPPORTED_WRITE_ROUTES :: "(string \<times> string) list" where
  "SUPPORTED_WRITE_ROUTES =
     [(''POST'', ''/analytics/risk/calculate''),
      (''POST'', ''/analytics/risk/concentration''),
      (''POST'', ''/analytics/risk/drawdown''),
      (''POST'', ''/analytics/risk/historical-attribution''),
      (''POST'', ''/analytics/risk/mandate-health-context''),
      (''POST'', ''/analytics/risk/regime-scenario-pack/evaluate''),
      (''POST'', ''/analytics/risk/regime-scenario-pack/jobs''),
      (''POST'', ''/analytics/risk/risk-event-cohorts/evaluate''),
      (''POST'', ''/analytics/risk/rolling-metrics'')]"

definition is_blank :: "char \<Rightarrow> bool" where
  "is_blank c \<longleftrightarrow> c = CHR '' ''"

text \<open>\<open>key.partition(" ")\<close>: what precedes the first blank, whether there is one, what follows it.\<close>

definition partition_blank :: "string \<Rightarrow> string \<times> bool \<times> string" where
  "partition_blank key =
     (let front = takeWhile (\<lambda>c. \<not> is_blank c) key; back = dropWhile (\<lambda>c. \<not> is_blank c) key
      in (front, back \<noteq> [], tl back))"

definition valid_capability_rule :: "string \<Rightarrow> json \<Rightarrow> bool" where
  "valid_capability_rule key v =
     (case v of
        JString capability \<Rightarrow>
          if py_strip capability = [] then False
          else if key \<noteq> py_strip key \<or> capability \<noteq> py_strip capability then False
          else (let (meth, separator, path) = partition_blank key in
                separator \<and> py_upper meth \<in> WRITE_METHODS \<and> starts_with path ''/'')
      | _ \<Rightarrow> False)"

fun string_entry :: "string \<times> json \<Rightarrow> (string \<times> string) option" where
  "string_entry (k, v) =
     (if valid_capability_rule k v then (case v of JString s \<Rightarrow> Some (k, s) | _ \<Rightarrow> None) else None)"

definition load_capability_rules :: "json_loads \<Rightarrow> environment \<Rightarrow> (string, string) dict" where
  "load_capability_rules loads env =
     List.map_filter string_entry (load_json_map loads env ''ENTERPRISE_CAPABILITY_RULES_JSON'')"

definition rstrip_slash :: "string \<Rightarrow> string" where
  "rstrip_slash s = rev (dropWhile (\<lambda>c. c = CHR ''/'') (rev s))"

definition path_matches_rule :: "string \<Rightarrow> string \<Rightarrow> bool" where
  "path_matches_rule path rule_path \<longleftrightarrow>
     (let normalized = (if rstrip_slash rule_path = [] then ''/'' else rstrip_slash rule_path)
      in path = normalized \<or> starts_with path (normalized @ ''/''))"

text \<open>\<open>max(items, key=item[0])\<close>: the first item with the largest number.\<close>

fun first_longest :: "nat \<times> 'a \<Rightarrow> (nat \<times> 'a) list \<Rightarrow> nat \<times> 'a" where
  "first_longest best [] = best"
| "first_longest best (x # xs) = first_longest (if fst best < fst x then x else best) xs"

definition rule_match :: "string \<Rightarrow> string \<Rightarrow> string \<times> string \<Rightarrow> (nat \<times> string) option" where
  "rule_match meth path = (\<lambda>(key, capability).
     let prefix = meth @ '' ''; rule_path = drop (length prefix) key in
     if starts_with (py_upper key) prefix \<and> path_matches_rule path rule_path
     then Some (length (rstrip_slash rule_path), capability) else None)"

definition required_capability_from_rules ::
  "(string, string) dict \<Rightarrow> string \<Rightarrow> string \<Rightarrow> string option"
where
  "required_capability_from_rules rules meth path =
     (case List.map_filter (rule_match (py_upper meth) path) rules of
        [] \<Rightarrow> None
      | m # ms \<Rightarrow> Some (snd (first_longest m ms)))"

definition required_capability ::
  "json_loads \<Rightarrow> environment \<Rightarrow> string \<Rightarrow> string \<Rightarrow> string option"
where
  "required_capability loads env meth path =
     required_capability_from_rules (load_capability_rules loads env) meth path"

definition missing_supported_write_route_capability_rules ::
  "(string, string) dict \<Rightarrow> string list"
where
  "missing_supported_write_route_capability_rules rules =
     map (\<lambda>(meth, path). meth @ '' '' @ path)
       (filter (\<lambda>(meth, path). required_capability_from_rules rules meth path = None)
         SUPPORTED_WRITE_ROUTES)"

section \<open>Write authorization\<close>

definition REQUIRED_HEADERS :: "string list" where
  "REQUIRED_HEADERS = map py_lower [''X-Actor-Id'', ''X-Tenant-Id'', ''X-Role'', ''X-Correlation-Id'']"

definition authorization_enforced :: "environment \<Rightarrow> string \<Rightarrow> bool" where
  "authorization_enforced env meth \<longleftrightarrow>
     py_upper meth \<in> WRITE_METHODS \<and> env_enabled env ''ENTERPRISE_ENFORCE_AUTHZ'' ''false''"

definition normalized_headers :: "(string, string) dict \<Rightarrow> (string, string) dict" where
  "normalized_headers headers = dict_of_items (map (\<lambda>(k, v). (py_lower k, v)) headers)"

definition missing_required_headers :: "(string, string) dict \<Rightarrow> string list" where
  "missing_required_headers headers =
     sorted_set (filter (\<lambda>h. dict_get headers h [] = []) REQUIRED_HEADERS)"

definition has_service_identity :: "(string, string) dict \<Rightarrow> bool" where
  "has_service_identity headers \<longleftrightarrow>
     dict_get headers ''x-service-identity'' [] \<noteq> [] \<or> dict_get headers ''authorization'' [] \<noteq> []"

text \<open>\<open>text.split(",")\<close>.\<close>

fun split_commas :: "string \<Rightarrow> string list" where
  "split_commas [] = [[]]"
| "split_commas (c # cs) =
     (if c = CHR '','' then [] # split_commas cs
      else (case split_commas cs of [] \<Rightarrow> [[c]] | p # ps \<Rightarrow> (c # p) # ps))"

definition capability_set :: "(string, string) dict \<Rightarrow> string set" where
  "capability_set headers =
     set (filter (\<lambda>p. p \<noteq> []) (map py_strip (split_commas (dict_get headers ''x-capabilities'' []))))"

definition missing_capability_reason ::
  "json_loads \<Rightarrow> environment \<Rightarrow> string \<Rightarrow> string \<Rightarrow> (string, string) dict \<Rightarrow> string option"
where
  "missing_capability_reason loads env meth path headers =
     (case required_capability loads env meth path of
        None \<Rightarrow> Some ''missing_capability_rule''
      | Some needed \<Rightarrow>
          if needed \<noteq> [] \<and> needed \<notin> capability_set headers then Some (''missing_capability:'' @ needed)
          else None)"

definition authorize_write_request ::
  "json_loads \<Rightarrow> environment \<Rightarrow> string \<Rightarrow> string \<Rightarrow> (string, string) dict \<Rightarrow> bool \<times> string option"
where
  "authorize_write_request loads env meth path headers =
     (if \<not> authorization_enforced env meth then (True, None) else
      let normalized = normalized_headers headers; missing = missing_required_headers normalized in
      if missing \<noteq> [] then (False, Some (''missing_headers:'' @ str_join '','' missing))
      else if \<not> has_service_identity normalized then (False, Some ''missing_service_identity'')
      else case missing_capability_reason loads env meth path normalized of
             None \<Rightarrow> (True, None)
           | Some reason \<Rightarrow> (False, Some reason))"

section \<open>Trusted ingress\<close>

definition PROTECTED_OPERATIONAL_PATHS :: "string list" where
  "PROTECTED_OPERATIONAL_PATHS = [''/ops'', ''/ops/trust-telemetry'', ''/metrics'']"

definition ingress_secret :: "environment \<Rightarrow> string" where
  "ingress_secret env = py_strip (env_get env ''ENTERPRISE_TRUSTED_INGRESS_SECRET'' [])"

definition trusted_ingress_config_issues :: "environment \<Rightarrow> string list" where
  "trusted_ingress_config_issues env =
     (if ingress_secret env = [] then [''missing_trusted_ingress_secret''] else [])"

definition trusted_ingress_required :: "string \<Rightarrow> string \<Rightarrow> bool" where
  "trusted_ingress_required meth path \<longleftrightarrow>
     py_upper meth \<in> WRITE_METHODS \<or> path \<in> set PROTECTED_OPERATIONAL_PATHS"

text \<open>
  \<open>compare_digest\<close> of two strings raises \<open>TypeError\<close> when either has a character outside ASCII.
\<close>

datatype type_error = NonAsciiString

definition is_ascii :: "string \<Rightarrow> bool" where
  "is_ascii s \<longleftrightarrow> list_all (\<lambda>c. of_char c < (128 :: nat)) s"

definition compare_digest :: "string \<Rightarrow> string \<Rightarrow> (type_error, bool) result" where
  "compare_digest a b = (if is_ascii a \<and> is_ascii b then Inr (a = b) else Inl NonAsciiString)"

definition TRUSTED_INGRESS_HEADER :: string where
  "TRUSTED_INGRESS_HEADER = ''X-Lotus-Trusted-Ingress''"

definition trusted_ingress_authorized ::
  "environment \<Rightarrow> (string, string) dict \<Rightarrow> (type_error, bool) result"
where
  "trusted_ingress_authorized env headers =
     (let expected = ingress_secret env;
          supplied = dict_get (normalized_headers headers) (py_lower TRUSTED_INGRESS_HEADER) [] in
      if expected = [] then Inr True
      else if supplied = [] then Inr False else compare_digest supplied expected)"

section \<open>Runtime configuration\<close>

definition DOWNSTREAM_RUNTIME_FLOAT_SETTINGS :: "string list" where
  "DOWNSTREAM_RUNTIME_FLOAT_SETTINGS =
     [''LOTUS_CORE_TIMEOUT_SECONDS'', ''LOTUS_CORE_KEEPALIVE_EXPIRY_SECONDS'',
      ''LOTUS_PERFORMANCE_TIMEOUT_SECONDS'', ''LOTUS_PERFORMANCE_KEEPALIVE_EXPIRY_SECONDS'',
      ''LOTUS_PERFORMANCE_ASYNC_POLL_INTERVAL_SECONDS'']"

definition DOWNSTREAM_RUNTIME_INT_SETTINGS :: "string list" where
  "DOWNSTREAM_RUNTIME_INT_SETTINGS =
     [''LOTUS_CORE_MAX_CONNECTIONS'', ''LOTUS_CORE_MAX_KEEPALIVE_CONNECTIONS'',
      ''LOTUS_PERFORMANCE_MAX_CONNECTIONS'', ''LOTUS_PERFORMANCE_MAX_KEEPALIVE_CONNECTIONS'',
      ''LOTUS_PERFORMANCE_ASYNC_MAX_POLLS'']"

definition has_invalid_positive_float_override :: "parse_float \<Rightarrow> environment \<Rightarrow> string \<Rightarrow> bool" where
  "has_invalid_positive_float_override floats env name =
     (case env name of None \<Rightarrow> False
      | Some raw \<Rightarrow> (case floats raw of
            NotAFloat \<Rightarrow> True | NotFiniteFloat \<Rightarrow> True | FiniteFloat v \<Rightarrow> v \<le> 0))"

definition has_invalid_positive_int_override :: "environment \<Rightarrow> string \<Rightarrow> bool" where
  "has_invalid_positive_int_override env name =
     (case env name of None \<Rightarrow> False
      | Some raw \<Rightarrow> (case py_int raw of None \<Rightarrow> True | Some v \<Rightarrow> v \<le> 0))"

definition invalid_downstream_runtime_setting_issues :: "parse_float \<Rightarrow> environment \<Rightarrow> string list" where
  "invalid_downstream_runtime_setting_issues floats env =
     map (\<lambda>name. ''invalid_downstream_runtime_setting:'' @ name)
       (filter (has_invalid_positive_float_override floats env) DOWNSTREAM_RUNTIME_FLOAT_SETTINGS @
        filter (has_invalid_positive_int_override env) DOWNSTREAM_RUNTIME_INT_SETTINGS)"

definition base_runtime_config_issues :: "environment \<Rightarrow> string list" where
  "base_runtime_config_issues env =
     (if py_strip (enterprise_policy_version env) = [] then [''missing_policy_version''] else []) @
     (let rotation_days = env_int env ''ENTERPRISE_SECRET_ROTATION_DAYS'' 90 in
      if rotation_days \<le> 0 \<or> 90 < rotation_days then [''secret_rotation_days_out_of_range''] else []) @
     (if env_enabled env ''ENTERPRISE_ENFORCE_AUTHZ'' ''false'' \<and>
         \<not> env_has_value env ''ENTERPRISE_PRIMARY_KEY_ID'' then [''missing_primary_key_id''] else [])"

definition BODY_LIMIT_CHECKS :: "(string \<times> string \<times> string) list" where
  "BODY_LIMIT_CHECKS =
     [(''ENTERPRISE_INGRESS_MAX_BODY_BYTES'', ''missing_or_invalid_ingress_max_body_bytes'',
       ''ingress_max_body_bytes_exceeds_app_limit''),
      (''ENTERPRISE_ASGI_MAX_BODY_BYTES'', ''missing_or_invalid_asgi_max_body_bytes'',
       ''asgi_max_body_bytes_exceeds_app_limit'')]"

definition external_body_limit_proof_issues :: "environment \<Rightarrow> string list" where
  "external_body_limit_proof_issues env =
     (let app_limit = env_positive_int env ''ENTERPRISE_MAX_WRITE_PAYLOAD_BYTES'' in
      concat (map (\<lambda>(env_name, missing_issue, exceeds_issue).
        case env_positive_int env env_name of
          None \<Rightarrow> [missing_issue]
        | Some external_limit \<Rightarrow>
            (case app_limit of None \<Rightarrow> []
             | Some limit \<Rightarrow> if limit < external_limit then [exceeds_issue] else []))
        BODY_LIMIT_CHECKS))"

definition BANK_REQUIRED_VALUES :: "(string \<times> string) list" where
  "BANK_REQUIRED_VALUES =
     [(''ENTERPRISE_POLICY_VERSION'', ''missing_policy_version''),
      (''ENTERPRISE_PRIMARY_KEY_ID'', ''missing_primary_key_id''),
      (''ENTERPRISE_SECRET_ROTATION_DAYS'', ''missing_secret_rotation_days''),
      (''LOTUS_CORE_BASE_URL'', ''missing_lotus_core_base_url''),
      (''LOTUS_PERFORMANCE_BASE_URL'', ''missing_lotus_performance_base_url'')]"

definition enterprise_bank_config_issues ::
  "json_loads \<Rightarrow> parse_float \<Rightarrow> environment \<Rightarrow> string list"
where
  "enterprise_bank_config_issues loads floats env =
     (case security_from_environment env of Inl reason \<Rightarrow> [reason] | Inr _ \<Rightarrow> []) @
     (if env_enabled env ''ENTERPRISE_ENFORCE_AUTHZ'' ''false'' then []
      else [''authorization_not_enforced'']) @
     map snd (filter (\<lambda>(name, _). \<not> env_has_value env name) BANK_REQUIRED_VALUES) @
     (let rules = load_capability_rules loads env in
      (if rules = [] then [''missing_capability_rules''] else []) @
      map (\<lambda>route_key. ''missing_capability_rule:'' @ route_key)
        (missing_supported_write_route_capability_rules rules)) @
     (if env_has_positive_int env ''ENTERPRISE_MAX_WRITE_PAYLOAD_BYTES'' then []
      else [''missing_or_invalid_max_write_payload_bytes'']) @
     external_body_limit_proof_issues env @
     trusted_ingress_config_issues env @
     invalid_downstream_runtime_setting_issues floats env"

text \<open>\<open>list(dict.fromkeys(issues))\<close> keeps the first occurrence of each.\<close>

definition first_occurrences :: "'a list \<Rightarrow> 'a list" where
  "first_occurrences xs = rev (remdups (rev xs))"

text \<open>\<open>Inl message\<close> is the \<open>RuntimeError\<close> that stops the start-up.\<close>

definition validate_enterprise_runtime_config ::
  "json_loads \<Rightarrow> parse_float \<Rightarrow> environment \<Rightarrow> (string, string list) result"
where
  "validate_enterprise_runtime_config loads floats env =
     (let enforced = env_enabled env ''ENTERPRISE_ENFORCE_RUNTIME_CONFIG'' ''false'';
          issues = first_occurrences (base_runtime_config_issues env @
            (if enforced then enterprise_bank_config_issues loads floats env else [])) in
      if issues \<noteq> [] \<and> enforced
      then Inl (''enterprise_runtime_config_invalid:'' @ str_join '','' issues)
      else Inr issues)"

section \<open>Capability rules decide by the longest match\<close>

lemma first_longest_spec:
  "first_longest best xs \<in> set (best # xs) \<and>
     (\<forall>x\<in>set (best # xs). fst x \<le> fst (first_longest best xs))"
proof (induction xs arbitrary: best)
  case Nil
  then show ?case by simp
next
  case (Cons x xs)
  show ?case using Cons.IH [of "if fst best < fst x then x else best"]
    by (auto split: if_splits)
qed

lemma rule_is_valid:
  "(key, capability) \<in> set (load_capability_rules loads env) \<Longrightarrow>
     valid_capability_rule key (JString capability)"
  by (auto simp: load_capability_rules_def set_map_filter split: if_splits json.splits)

lemma rule_capability_nonblank:
  "(key, capability) \<in> set (load_capability_rules loads env) \<Longrightarrow> capability \<noteq> []"
  by (drule rule_is_valid) (auto simp: valid_capability_rule_def)

definition rule_applies :: "string \<Rightarrow> string \<Rightarrow> string \<Rightarrow> bool" where
  "rule_applies meth path key \<longleftrightarrow>
     starts_with (py_upper key) (py_upper meth @ '' '') \<and>
     path_matches_rule path (drop (length meth + 1) key)"

definition rule_specificity :: "string \<Rightarrow> string \<Rightarrow> nat" where
  "rule_specificity meth key = length (rstrip_slash (drop (length meth + 1) key))"

lemma rule_match_iff:
  "rule_match (py_upper meth) path (key, capability) = Some (n, c) \<longleftrightarrow>
     rule_applies meth path key \<and> n = rule_specificity meth key \<and> c = capability"
  by (auto simp: rule_match_def rule_applies_def rule_specificity_def Let_def py_upper_def)

lemma rule_match_None_iff:
  "rule_match (py_upper meth) path (key, capability) = None \<longleftrightarrow> \<not> rule_applies meth path key"
  by (auto simp: rule_match_def rule_applies_def Let_def py_upper_def)

lemma required_from_rules_None_iff:
  "required_capability_from_rules rules meth path = None \<longleftrightarrow>
     (\<forall>(key, c)\<in>set rules. \<not> rule_applies meth path key)"
proof -
  have "required_capability_from_rules rules meth path = None \<longleftrightarrow>
      List.map_filter (rule_match (py_upper meth) path) rules = []"
    by (simp add: required_capability_from_rules_def split: list.splits)
  then show ?thesis
    by (simp add: map_filter_Nil_iff Ball_def split_paired_All rule_match_None_iff)
qed

text \<open>The capability a write requires is that of a valid operator rule for its method and
  path, and no applicable rule is more specific; a route no rule applies to has none.\<close>

theorem longest_rule_decides:
  "case required_capability loads env meth path of
     None \<Rightarrow> \<not> (\<exists>key capability. (key, capability) \<in> set (load_capability_rules loads env) \<and>
                rule_applies meth path key)
   | Some capability \<Rightarrow> \<exists>key.
       (key, capability) \<in> set (load_capability_rules loads env) \<and> rule_applies meth path key \<and>
       valid_capability_rule key (JString capability) \<and>
       \<not> (\<exists>other c. (other, c) \<in> set (load_capability_rules loads env) \<and>
           rule_applies meth path other \<and> rule_specificity meth key < rule_specificity meth other)"
proof (cases "List.map_filter (rule_match (py_upper meth) path) (load_capability_rules loads env)")
  case Nil
  then have "required_capability loads env meth path = None"
    by (simp add: required_capability_def required_capability_from_rules_def)
  then show ?thesis
    using required_from_rules_None_iff [of "load_capability_rules loads env" meth path]
    by (auto simp: required_capability_def)
next
  case (Cons m ms)
  let ?rules = "load_capability_rules loads env"
  obtain n c where best: "first_longest m ms = (n, c)" by fastforce
  have spec: "(n, c) \<in> set (m # ms)" "\<forall>x\<in>set (m # ms). fst x \<le> n"
    using first_longest_spec [of m ms] best by auto
  have ms: "set (m # ms) = {y. \<exists>x\<in>set ?rules. rule_match (py_upper meth) path x = Some y}"
    using Cons set_map_filter [of "rule_match (py_upper meth) path" ?rules] by simp
  from spec(1) obtain key where key: "(key, c) \<in> set ?rules" "rule_applies meth path key"
    "n = rule_specificity meth key"
    unfolding ms by (auto simp: rule_match_iff)
  have "rule_specificity meth other \<le> n"
    if "(other, d) \<in> set ?rules" "rule_applies meth path other" for other d
  proof -
    have "rule_match (py_upper meth) path (other, d) = Some (rule_specificity meth other, d)"
      using that(2) by (simp add: rule_match_iff)
    with that(1) have "(rule_specificity meth other, d) \<in> set (m # ms)" unfolding ms by blast
    with spec(2) show ?thesis by force
  qed
  with key show ?thesis
    using Cons best rule_is_valid [OF key(1)]
    by (auto simp: required_capability_def required_capability_from_rules_def)
      (metis leD)
qed

lemma required_is_a_rule:
  assumes "required_capability loads env meth path = Some capability"
  shows "\<exists>key. (key, capability) \<in> set (load_capability_rules loads env)"
proof -
  from assms obtain m ms where m:
    "List.map_filter (rule_match (py_upper meth) path) (load_capability_rules loads env) = m # ms"
    "capability = snd (first_longest m ms)"
    by (auto simp: required_capability_def required_capability_from_rules_def split: list.splits)
  have "first_longest m ms \<in> set (m # ms)" using first_longest_spec [of m ms] by blast
  then have "\<exists>x\<in>set (load_capability_rules loads env).
      rule_match (py_upper meth) path x = Some (first_longest m ms)"
    unfolding m(1) [symmetric] set_map_filter by simp
  then show ?thesis
    using m(2) by (cases "first_longest m ms") (auto simp: rule_match_iff)
qed

section \<open>Write authorization\<close>

lemma required_capability_nonblank:
  "required_capability loads env meth path = Some capability \<Longrightarrow> capability \<noteq> []"
  using rule_capability_nonblank [of _ capability loads env]
    required_is_a_rule [of loads env meth path capability] by blast

lemma auth_granted:
  assumes "authorization_enforced env meth"
    and "fst (authorize_write_request loads env meth path headers)"
  shows "missing_required_headers (normalized_headers headers) = [] \<and>
    has_service_identity (normalized_headers headers) \<and>
    (\<exists>capability. required_capability loads env meth path = Some capability \<and>
       capability \<in> capability_set (normalized_headers headers))"
  using assms required_capability_nonblank [of loads env meth path]
  by (auto simp: authorize_write_request_def missing_capability_reason_def Let_def
      split: option.splits if_splits)

text \<open>With authorization enforced, a write is let through exactly when the four required
  headers are present, a service identity is present, the most specific applicable rule names a
  capability, and the caller's own capability header lists it; a refusal always carries a reason.\<close>

theorem write_authorization_is_exact:
  "case authorize_write_request loads env meth path headers of
     (allowed, reason) \<Rightarrow>
       (allowed \<longleftrightarrow> reason = None) \<and>
       (allowed \<longleftrightarrow> \<not> authorization_enforced env meth \<or>
          (let h = normalized_headers headers in
             missing_required_headers h = [] \<and> has_service_identity h \<and>
             (\<exists>capability. required_capability loads env meth path = Some capability \<and>
                capability \<in> capability_set h)))"
  using required_capability_nonblank [of loads env meth path]
  by (auto simp: authorize_write_request_def missing_capability_reason_def Let_def
      split: option.splits)

section \<open>An accepted bank configuration\<close>

lemma first_occurrences_Nil_iff [simp]: "first_occurrences xs = [] \<longleftrightarrow> xs = []"
  by (simp add: first_occurrences_def)

lemma validated_configuration:
  assumes "validate_enterprise_runtime_config loads floats env = Inr issues"
    and "env_enabled env ''ENTERPRISE_ENFORCE_RUNTIME_CONFIG'' ''false''"
  shows "base_runtime_config_issues env = [] \<and> enterprise_bank_config_issues loads floats env = []"
  using assms by (auto simp: validate_enterprise_runtime_config_def Let_def split: if_splits)

lemma body_limits_proved:
  assumes "external_body_limit_proof_issues env = []"
    and "env_positive_int env ''ENTERPRISE_MAX_WRITE_PAYLOAD_BYTES'' = Some limit"
    and "name \<in> {''ENTERPRISE_INGRESS_MAX_BODY_BYTES'', ''ENTERPRISE_ASGI_MAX_BODY_BYTES''}"
  shows "\<exists>n. env_positive_int env name = Some n \<and> 0 < n \<and> n \<le> limit"
  using assms
  by (auto simp: external_body_limit_proof_issues_def BODY_LIMIT_CHECKS_def env_positive_int_def
      split: option.splits if_splits)

lemma supported_routes_covered:
  assumes "missing_supported_write_route_capability_rules rules = []"
    and "(meth, path) \<in> set SUPPORTED_WRITE_ROUTES"
  shows "required_capability_from_rules rules meth path \<noteq> None"
  using assms by (auto simp: missing_supported_write_route_capability_rules_def filter_empty_conv)

lemma supported_routes_are_writes:
  "list_all (\<lambda>(meth, path). py_upper meth \<in> WRITE_METHODS) SUPPORTED_WRITE_ROUTES"
  by code_simp

lemma rotation_in_range:
  "base_runtime_config_issues env = [] \<Longrightarrow>
     0 < env_int env ''ENTERPRISE_SECRET_ROTATION_DAYS'' 90 \<and>
     env_int env ''ENTERPRISE_SECRET_ROTATION_DAYS'' 90 \<le> 90"
  by (auto simp: base_runtime_config_issues_def Let_def split: if_splits)

lemma bank_issues_empty:
  assumes "enterprise_bank_config_issues loads floats env = []"
  shows "is_ok (security_from_environment env)"
    and "env_enabled env ''ENTERPRISE_ENFORCE_AUTHZ'' ''false''"
    and "missing_supported_write_route_capability_rules (load_capability_rules loads env) = []"
    and "env_has_positive_int env ''ENTERPRISE_MAX_WRITE_PAYLOAD_BYTES''"
    and "external_body_limit_proof_issues env = []"
    and "ingress_secret env \<noteq> []"
    and "invalid_downstream_runtime_setting_issues floats env = []"
  using assms
  by (auto simp: enterprise_bank_config_issues_def Let_def trusted_ingress_config_issues_def
      is_ok_def split: if_splits sum.splits)

lemma positive_int_iff:
  "env_has_positive_int env name \<longleftrightarrow> (\<exists>n. env_positive_int env name = Some n \<and> 0 < n)"
  by (auto simp: env_has_positive_int_def env_positive_int_def split: option.splits)

text \<open>When enforcement is on and start-up validation does not raise, the deployment is one in
  which the posture is valid (header trust only in local or dev), authorization is enforced, every
  supported write route has a capability rule, the trusted-ingress secret is set, the secret
  rotation is between 1 and 90 days, and both outer body limits are positive and within the
  application's own.\<close>

theorem accepted_configuration_is_bank_ready:
  assumes accepted: "validate_enterprise_runtime_config loads floats env = Inr issues"
    and enforced: "env_enabled env ''ENTERPRISE_ENFORCE_RUNTIME_CONFIG'' ''false''"
  shows "(\<exists>c. security_from_environment env = Inr c \<and>
            (ps_posture c = ''verified'' \<or>
             ps_posture c = ''header-trust'' \<and> ps_environment c \<in> {''local'', ''dev''})) \<and>
         (\<forall>(meth, path)\<in>set SUPPORTED_WRITE_ROUTES. authorization_enforced env meth \<and>
            required_capability loads env meth path \<noteq> None) \<and>
         ingress_secret env \<noteq> [] \<and>
         0 < env_int env ''ENTERPRISE_SECRET_ROTATION_DAYS'' 90 \<and>
         env_int env ''ENTERPRISE_SECRET_ROTATION_DAYS'' 90 \<le> 90 \<and>
         (\<exists>limit. env_positive_int env ''ENTERPRISE_MAX_WRITE_PAYLOAD_BYTES'' = Some limit \<and>
            (\<forall>name\<in>{''ENTERPRISE_INGRESS_MAX_BODY_BYTES'', ''ENTERPRISE_ASGI_MAX_BODY_BYTES''}.
               \<exists>n. env_positive_int env name = Some n \<and> 0 < n \<and> n \<le> limit))"
  (is "?posture \<and> ?routes \<and> ?rest")
proof (intro conjI)
  from validated_configuration [OF accepted enforced]
  have base: "base_runtime_config_issues env = []" and bank: "enterprise_bank_config_issues loads floats env = []"
    by auto
  note b = bank_issues_empty [OF bank]
  from b(1) obtain c where c: "security_from_environment env = Inr c"
    by (auto simp: is_ok_def split: sum.splits)
  with security_configuration [OF c] show ?posture by auto
  show ?routes
    using supported_routes_covered [OF b(3)] supported_routes_are_writes b(2)
    by (auto simp: list_all_iff authorization_enforced_def required_capability_def)
  show "ingress_secret env \<noteq> []" by (rule b(6))
  show "0 < env_int env ''ENTERPRISE_SECRET_ROTATION_DAYS'' 90"
    "env_int env ''ENTERPRISE_SECRET_ROTATION_DAYS'' 90 \<le> 90"
    using rotation_in_range [OF base] by auto
  from b(4) obtain limit where limit: "env_positive_int env ''ENTERPRISE_MAX_WRITE_PAYLOAD_BYTES'' = Some limit"
    by (auto simp: positive_int_iff)
  with body_limits_proved [OF b(5) limit]
  show "\<exists>limit. env_positive_int env ''ENTERPRISE_MAX_WRITE_PAYLOAD_BYTES'' = Some limit \<and>
      (\<forall>name\<in>{''ENTERPRISE_INGRESS_MAX_BODY_BYTES'', ''ENTERPRISE_ASGI_MAX_BODY_BYTES''}.
         \<exists>n. env_positive_int env name = Some n \<and> 0 < n \<and> n \<le> limit)"
    by blast
qed

text \<open>A complete bank environment: every setting present, one rule for all risk routes.\<close>

definition sample_bank_environment :: environment where
  "sample_bank_environment = map_of
     [(''ENTERPRISE_ENFORCE_RUNTIME_CONFIG'', ''true''), (''ENTERPRISE_ENFORCE_AUTHZ'', '' On ''),
      (''LOTUS_RISK_PRINCIPAL_POSTURE'', ''verified''),
      (''LOTUS_RISK_DEPLOYMENT_ENVIRONMENT'', ''production''),
      (''ENTERPRISE_POLICY_VERSION'', ''2.0''), (''ENTERPRISE_PRIMARY_KEY_ID'', ''key-1''),
      (''ENTERPRISE_SECRET_ROTATION_DAYS'', ''30''),
      (''LOTUS_CORE_BASE_URL'', ''https://core''), (''LOTUS_PERFORMANCE_BASE_URL'', ''https://perf''),
      (''ENTERPRISE_CAPABILITY_RULES_JSON'', ''rules''),
      (''ENTERPRISE_MAX_WRITE_PAYLOAD_BYTES'', ''64''),
      (''ENTERPRISE_INGRESS_MAX_BODY_BYTES'', ''6_4''),
      (''ENTERPRISE_ASGI_MAX_BODY_BYTES'', ''32''),
      (''ENTERPRISE_TRUSTED_INGRESS_SECRET'', ''s3cret'')]"

definition sample_loads :: json_loads where
  "sample_loads text =
     (if text = ''rules''
      then Some (JObject [(''POST /analytics/risk'', JString ''risk.write''), (''GET /x'', JString ''no'')])
      else Some (JObject []))"

theorem accepted_configuration_is_bank_ready_witness:
  "validate_enterprise_runtime_config sample_loads (\<lambda>_. NotAFloat) sample_bank_environment = Inr [] \<and>
   ingress_secret sample_bank_environment \<noteq> [] \<and>
   env_int sample_bank_environment ''ENTERPRISE_SECRET_ROTATION_DAYS'' 90 \<le> 90"
proof -
  have a: "validate_enterprise_runtime_config sample_loads (\<lambda>_. NotAFloat) sample_bank_environment = Inr []"
  proof -
    have base: "base_runtime_config_issues sample_bank_environment = []" by code_simp
    have bank: "enterprise_bank_config_issues sample_loads (\<lambda>_. NotAFloat) sample_bank_environment = []"
      by code_simp
    show ?thesis
      by (simp add: validate_enterprise_runtime_config_def base bank Let_def first_occurrences_def)
  qed
  have e: "env_enabled sample_bank_environment ''ENTERPRISE_ENFORCE_RUNTIME_CONFIG'' ''false''"
    by code_simp
  from accepted_configuration_is_bank_ready [OF a e] a show ?thesis by blast
qed

end
