(* ===== verification/Admission.thy ===== *)
theory Admission
  imports Main Enterprise
begin

text \<open>
  Request admission: the audit middleware of enterprise_readiness.py in its two postures, the error
  body of error_response.py, and the audit events of enterprise_audit.py.  The rest of the
  application, \<open>call_next\<close>, is a parameter: a function of the request and of the principal that
  admission put on it, answering a response and whether it marked the portfolio scope as denied.
\<close>

section \<open>Requests, responses and audit events\<close>

text \<open>
  Header names are in lower case, as the server delivers them, in the order received;
  \<open>rq_correlation_id\<close> is what the outer middleware put on the request state.
\<close>

record http_request =
  rq_method :: string
  rq_path :: string
  rq_headers :: "(string \<times> string) list"
  rq_correlation_id :: "string option"

definition header_get :: "http_request \<Rightarrow> string \<Rightarrow> string option" where
  "header_get rq name = map_of (rq_headers rq) (py_lower name)"

definition header_values :: "http_request \<Rightarrow> string \<Rightarrow> string list" where
  "header_values rq name = map snd (filter (\<lambda>(k, v). k = py_lower name) (rq_headers rq))"

text \<open>\<open>dict(request.headers)\<close>: of a repeated name, the first value.\<close>

definition header_dict :: "http_request \<Rightarrow> (string, string) dict" where
  "header_dict rq =
     dict_of_items (map (\<lambda>(k, v). (k, dict_get (rq_headers rq) k v)) (rq_headers rq))"

record error_body =
  eb_type :: "string option"
  eb_title :: "string option"
  eb_status :: "int option"
  eb_detail :: "string option"
  eb_instance :: "string option"
  eb_code :: string
  eb_message :: string
  eb_correlation_id :: "string option"
  eb_details :: "json option"

record http_response =
  rs_status :: int
  rs_body :: "error_body option"
  rs_headers :: "(string, string) dict"

definition problem_type :: "string \<Rightarrow> string" where
  "problem_type code =
     ''urn:lotus-risk:error:'' @ map (\<lambda>c. if c = CHR ''_'' then CHR ''-'' else c) (py_lower code)"

definition is_letter :: "char \<Rightarrow> bool" where
  "is_letter c \<longleftrightarrow> char_upper c \<noteq> char_lower c"

text \<open>\<open>str.title\<close>: a letter after a non-letter in upper case, every other letter in lower case.\<close>

fun title_from :: "bool \<Rightarrow> string \<Rightarrow> string" where
  "title_from after [] = []"
| "title_from after (c # cs) =
     (if after then char_lower c else char_upper c) # title_from (is_letter c) cs"

definition problem_title :: "string \<Rightarrow> string" where
  "problem_title code =
     title_from False (map (\<lambda>c. if c = CHR ''_'' then CHR '' '' else c) code)"

definition resolve_correlation_id :: "http_request \<Rightarrow> string option" where
  "resolve_correlation_id rq =
     (case rq_correlation_id rq of
        Some (c # cs) \<Rightarrow> Some (c # cs)
      | _ \<Rightarrow> (case header_get rq ''X-Correlation-Id'' of
                Some (c # cs) \<Rightarrow> Some (c # cs) | _ \<Rightarrow> None))"

definition build_error_payload ::
  "http_request \<Rightarrow> int option \<Rightarrow> string \<Rightarrow> string \<Rightarrow> json option \<Rightarrow> error_body"
where
  "build_error_payload rq status_code code message details =
     (let given = (\<lambda>s. case status_code of None \<Rightarrow> None | Some _ \<Rightarrow> Some s) in
      \<lparr>eb_type = given (problem_type code), eb_title = given (problem_title code),
       eb_status = status_code, eb_detail = given message, eb_instance = given (rq_path rq),
       eb_code = code, eb_message = message, eb_correlation_id = resolve_correlation_id rq,
       eb_details = details\<rparr>)"

definition error_response ::
  "http_request \<Rightarrow> int \<Rightarrow> string \<Rightarrow> string \<Rightarrow> json option \<Rightarrow> http_response"
where
  "error_response rq status_code code message details =
     \<lparr>rs_status = status_code,
      rs_body = Some (build_error_payload rq (Some status_code) code message details),
      rs_headers = []\<rparr>"

text \<open>
  An audit event, without the time of day it is stamped with.  Identity fields are whatever the
  header or the principal holds.
\<close>

record audit_event =
  ae_service :: string
  ae_action :: string
  ae_actor_id :: field_value
  ae_tenant_id :: field_value
  ae_role :: field_value
  ae_correlation_id :: string
  ae_policy_version :: string
  ae_metadata :: json

definition emit_audit_event ::
  "environment \<Rightarrow> string \<Rightarrow> field_value \<Rightarrow> field_value \<Rightarrow> field_value \<Rightarrow> string option \<Rightarrow> json \<Rightarrow> audit_event"
where
  "emit_audit_event env action actor_id tenant_id role correlation_id metadata =
     \<lparr>ae_service = ''lotus-risk'', ae_action = action, ae_actor_id = actor_id,
      ae_tenant_id = tenant_id, ae_role = role,
      ae_correlation_id = (case correlation_id of None \<Rightarrow> [] | Some c \<Rightarrow> c),
      ae_policy_version = enterprise_policy_version env,
      ae_metadata = redact_sensitive metadata\<rparr>"

section \<open>The middleware\<close>

record app_state =
  as_env :: environment
  as_loads :: json_loads
  as_posture :: "string option"
  as_providers :: principal_providers

type_synonym call_next = "http_request \<Rightarrow> resolved_principal option \<Rightarrow> http_response \<times> bool"

text \<open>
  What admission does with a request: the response, the audit events in order, and whether
  \<open>call_next\<close> ran, with the principal it ran under.
\<close>

record admission =
  ad_response :: http_response
  ad_audit :: "audit_event list"
  ad_ran :: "resolved_principal option option"

definition content_length :: "http_request \<Rightarrow> int" where
  "content_length rq =
     (case py_int (case header_get rq ''content-length'' of None \<Rightarrow> ''0'' | Some v \<Rightarrow> v) of
        None \<Rightarrow> 0 | Some n \<Rightarrow> n)"

definition max_write_payload_bytes :: "environment \<Rightarrow> int" where
  "max_write_payload_bytes env = env_int env ''ENTERPRISE_MAX_WRITE_PAYLOAD_BYTES'' 1048576"

definition payload_limit_response :: "app_state \<Rightarrow> http_request \<Rightarrow> http_response option" where
  "payload_limit_response app rq =
     (if rq_method rq \<notin> WRITE_METHODS then None
      else if content_length rq \<le> max_write_payload_bytes (as_env app) then None
      else Some (error_response rq 413 ''PAYLOAD_TOO_LARGE'' ''payload_too_large'' None))"

definition header_or :: "http_request \<Rightarrow> string \<Rightarrow> string \<Rightarrow> field_value" where
  "header_or rq name fallback = Text (case header_get rq name of None \<Rightarrow> fallback | Some v \<Rightarrow> v)"

definition reason_object :: "string option \<Rightarrow> json" where
  "reason_object reason =
     JObject [(''reason'', case reason of None \<Rightarrow> JNull | Some r \<Rightarrow> JString r)]"

definition authorization_denied ::
  "app_state \<Rightarrow> http_request \<Rightarrow> string option \<Rightarrow> http_response \<times> audit_event"
where
  "authorization_denied app rq reason =
     (error_response rq 403 ''AUTHORIZATION_DENIED'' ''authorization_policy_denied''
        (Some (reason_object reason)),
      emit_audit_event (as_env app) (''DENY '' @ rq_method rq @ '' '' @ rq_path rq)
        (header_or rq ''X-Actor-Id'' ''unknown'') (header_or rq ''X-Tenant-Id'' ''default'')
        (header_or rq ''X-Role'' ''unknown'') (header_get rq ''X-Correlation-Id'')
        (reason_object reason))"

definition trusted_ingress_denied :: "app_state \<Rightarrow> http_request \<Rightarrow> http_response \<times> audit_event" where
  "trusted_ingress_denied app rq =
     (error_response rq 403 ''AUTHORIZATION_DENIED'' ''authorization_policy_denied''
        (Some (reason_object (Some ''missing_trusted_ingress''))),
      emit_audit_event (as_env app) (''DENY '' @ rq_method rq @ '' '' @ rq_path rq)
        (Text ''unverified'') (Text ''unverified'') (Text ''unverified'') None
        (reason_object (Some ''missing_trusted_ingress'')))"

definition write_audit_events ::
  "app_state \<Rightarrow> http_request \<Rightarrow> resolved_principal option \<Rightarrow> http_response \<Rightarrow> bool \<Rightarrow> audit_event list"
where
  "write_audit_events app rq resolved response scope_denied_mark =
     (if rq_method rq \<notin> WRITE_METHODS then [] else
      let scope_denied = (resolved \<noteq> None \<and> rs_status response = 403 \<and> scope_denied_mark);
          metadata = JObject ([(''status_code'', JInt (rs_status response))] @
            (if scope_denied then [(''reason'', JString ''portfolio_outside_scope'')] else []));
          action = (if scope_denied then ''DENY '' else []) @ rq_method rq @ '' '' @ rq_path rq in
      [case resolved of
         Some p \<Rightarrow> emit_audit_event (as_env app) action (vc_subject (rp_credential p))
           (vc_tenant_id (rp_credential p)) (vc_kind (rp_credential p)) (rq_correlation_id rq) metadata
       | None \<Rightarrow> emit_audit_event (as_env app) action (header_or rq ''X-Actor-Id'' ''unknown'')
           (header_or rq ''X-Tenant-Id'' ''default'') (header_or rq ''X-Role'' ''unknown'')
           (header_get rq ''X-Correlation-Id'') metadata])"

definition SECURITY_RESPONSE_HEADERS :: "(string, string) dict" where
  "SECURITY_RESPONSE_HEADERS =
     [(''Cache-Control'', ''no-store''), (''Referrer-Policy'', ''no-referrer''),
      (''X-Content-Type-Options'', ''nosniff'')]"

definition apply_enterprise_response_headers :: "app_state \<Rightarrow> http_response \<Rightarrow> http_response" where
  "apply_enterprise_response_headers app response =
     response\<lparr>rs_headers := fold (\<lambda>(k, v) d. AList.update k v d)
       ((''X-Enterprise-Policy-Version'', enterprise_policy_version (as_env app)) #
        SECURITY_RESPONSE_HEADERS) (rs_headers response)\<rparr>"

definition refuse_with :: "app_state \<Rightarrow> http_response \<Rightarrow> audit_event list \<Rightarrow> admission" where
  "refuse_with app response events =
     \<lparr>ad_response = apply_enterprise_response_headers app response, ad_audit = events, ad_ran = None\<rparr>"

text \<open>\<open>call_next\<close> followed by the write audit event and the response headers.\<close>

definition run_next ::
  "app_state \<Rightarrow> call_next \<Rightarrow> http_request \<Rightarrow> resolved_principal option \<Rightarrow> admission"
where
  "run_next app next_handler rq resolved =
     (case next_handler rq resolved of (response, mark) \<Rightarrow>
        \<lparr>ad_response = apply_enterprise_response_headers app response,
         ad_audit = write_audit_events app rq resolved response mark, ad_ran = Some resolved\<rparr>)"

definition VERIFIED_WRITE_ROUTES :: "string set" where
  "VERIFIED_WRITE_ROUTES =
     {''/analytics/risk/concentration'', ''/analytics/risk/regime-scenario-pack/evaluate'',
      ''/analytics/risk/risk-event-cohorts/evaluate''}"

definition ends_with_slash :: "string \<Rightarrow> bool" where
  "ends_with_slash s \<longleftrightarrow> s \<noteq> [] \<and> last s = CHR ''/''"

definition verified_route_path :: "http_request \<Rightarrow> (security_error, string) result" where
  "verified_route_path rq =
     (let path = rq_path rq;
          canonical = (if ends_with_slash path \<and> butlast path \<in> VERIFIED_WRITE_ROUTES
                       then butlast path else path) in
      if rq_method rq \<noteq> ''POST'' \<or> canonical \<notin> VERIFIED_WRITE_ROUTES
      then Inl (Denied ''capability_not_granted'' 403) else Inr canonical)"

definition bearer_credential :: "http_request \<Rightarrow> (security_error, string option) result" where
  "bearer_credential rq =
     (case header_values rq ''Authorization'' of
        [] \<Rightarrow> Inr None
      | [h] \<Rightarrow> if py_lower (take 7 h) \<noteq> ''bearer '' then Inl (Denied ''malformed_credential'' 401)
               else Inr (Some (drop 7 h))
      | _ \<Rightarrow> Inl (Denied ''malformed_credential'' 401))"

definition verified_principal :: "app_state \<Rightarrow> http_request \<Rightarrow> (security_error, resolved_principal) result" where
  "verified_principal app rq =
     bind_result (verified_route_path rq) (\<lambda>canonical_path.
     bind_result (bearer_credential rq) (\<lambda>credential.
     resolve_principal credential
       (required_capability (as_loads app) (as_env app) (rq_method rq) canonical_path)
       (as_providers app)))"

definition verified_denial_response :: "http_request \<Rightarrow> string \<Rightarrow> int \<Rightarrow> http_response" where
  "verified_denial_response rq reason status =
     (let response = error_response rq status ''AUTHORIZATION_DENIED'' reason None in
      if status = 401
      then response\<lparr>rs_headers := AList.update ''WWW-Authenticate'' ''Bearer'' (rs_headers response)\<rparr>
      else response)"

definition JOBS_PREFIX :: string where
  "JOBS_PREFIX = ''/analytics/risk/regime-scenario-pack/jobs''"

text \<open>
  \<open>resolve_principal\<close> never raises \<open>SecurityProviderUnavailable\<close> and the two calls before it raise
  only denials, so the last branch of the refusals is the one for an exception no handler names.
\<close>

datatype middleware_error = IngressTypeError | ProviderUnavailableEscaped

definition verified_admission ::
  "app_state \<Rightarrow> call_next \<Rightarrow> http_request \<Rightarrow> (middleware_error, admission) result"
where
  "verified_admission app next_handler rq =
     (if \<not> (trusted_ingress_required (rq_method rq) (rq_path rq) \<or> starts_with (rq_path rq) JOBS_PREFIX)
      then Inr ((run_next app next_handler rq None)\<lparr>ad_audit := []\<rparr>)
      else case payload_limit_response app rq of
        Some response \<Rightarrow> Inr (refuse_with app response [])
      | None \<Rightarrow>
     (case verified_principal app rq of
        Inr p \<Rightarrow> Inr (run_next app next_handler rq (Some p))
      | Inl (Denied reason status) \<Rightarrow>
          Inr (refuse_with app (verified_denial_response rq reason status)
            [emit_audit_event (as_env app) (''DENY '' @ rq_method rq @ '' '' @ rq_path rq)
              (Text ''unverified'') (Text ''unverified'') (Text ''unverified'') (rq_correlation_id rq)
              (reason_object (Some reason))])
      | Inl Unavailable \<Rightarrow> Inl ProviderUnavailableEscaped))"

definition header_trust_admission ::
  "app_state \<Rightarrow> call_next \<Rightarrow> http_request \<Rightarrow> (middleware_error, admission) result"
where
  "header_trust_admission app next_handler rq =
     (case (if trusted_ingress_required (rq_method rq) (rq_path rq)
            then trusted_ingress_authorized (as_env app) (header_dict rq) else Inr True) of
        Inl NonAsciiString \<Rightarrow> Inl IngressTypeError
      | Inr False \<Rightarrow>
          (case trusted_ingress_denied app rq of (response, event) \<Rightarrow>
             Inr (refuse_with app response [event]))
      | Inr True \<Rightarrow>
     (case payload_limit_response app rq of
        Some response \<Rightarrow> Inr (refuse_with app response [])
      | None \<Rightarrow>
     (case authorize_write_request (as_loads app) (as_env app) (rq_method rq) (rq_path rq)
            (header_dict rq) of
        (False, reason) \<Rightarrow>
          (case authorization_denied app rq reason of (response, event) \<Rightarrow>
             Inr (refuse_with app response [event]))
      | (True, _) \<Rightarrow> Inr (run_next app next_handler rq None))))"

definition enterprise_middleware ::
  "app_state \<Rightarrow> call_next \<Rightarrow> http_request \<Rightarrow> (middleware_error, admission) result"
where
  "enterprise_middleware app next_handler rq =
     (if as_posture app = Some ''verified'' then verified_admission app next_handler rq
      else header_trust_admission app next_handler rq)"

section \<open>Redaction\<close>

text \<open>
  A place in a JSON value is a list of positions; \<open>at_path\<close> gives the keys passed on the way, \<open>None\<close>
  for an array position, and the value found there.
\<close>

fun at_path :: "json \<Rightarrow> nat list \<Rightarrow> (string option list \<times> json) option" where
  "at_path v [] = Some ([], v)"
| "at_path (JObject kvs) (i # is) =
     (if i < length kvs
      then map_option (apfst (Cons (Some (fst (kvs ! i))))) (at_path (snd (kvs ! i)) is) else None)"
| "at_path (JArray xs) (i # is) =
     (if i < length xs then map_option (apfst (Cons None)) (at_path (xs ! i) is) else None)"
| "at_path _ (i # is) = None"

definition hidden :: "string option list \<Rightarrow> bool" where
  "hidden ks \<longleftrightarrow> (\<exists>k. Some k \<in> set ks \<and> py_lower k \<in> REDACT_FIELDS)"

lemma hidden_simps [simp]:
  "\<not> hidden []"
  "hidden (None # ks) = hidden ks"
  "hidden (Some k # ks) \<longleftrightarrow> py_lower k \<in> REDACT_FIELDS \<or> hidden ks"
  by (auto simp: hidden_def)

lemma at_path_string [simp]: "at_path (JString s) is = (if is = [] then Some ([], JString s) else None)"
  by (cases "is") auto

lemma at_path_keys_length: "at_path j is = Some (ks, v) \<Longrightarrow> length ks = length is"
  by (induction j "is" arbitrary: ks v rule: at_path.induct) (auto split: if_splits)

text \<open>Redaction replaces exactly the values under a sensitive key, whatever its case and
  however deep, by the marker, hides everything below them, and keeps the shape, the keys and every
  other value, which it redacts in turn.\<close>

theorem redaction_is_exact:
  "at_path (redact_sensitive j) path =
     (case at_path j path of
        None \<Rightarrow> None
      | Some (ks, v) \<Rightarrow>
          if \<not> hidden ks then Some (ks, redact_sensitive v)
          else if \<not> hidden (butlast ks) then Some (ks, JString ''***REDACTED***'')
          else None)"
proof (induction j path rule: at_path.induct)
  case (2 kvs i "is")
  show ?case
  proof (cases "i < length kvs")
    case False
    then show ?thesis by simp
  next
    case True
    obtain k v where kv: "kvs ! i = (k, v)" by fastforce
    show ?thesis
    proof (cases "py_lower k \<in> REDACT_FIELDS")
      case True
      have "ks = [] \<longleftrightarrow> is = []" if "at_path v is = Some (ks, w)" for ks w
        using at_path_keys_length [OF that] by auto
      then show ?thesis using True \<open>i < length kvs\<close> kv
        by (auto split: option.splits)
    next
      case False
      then show ?thesis using 2 \<open>i < length kvs\<close> kv
        by (auto split: option.splits)
    qed
  qed
next
  case (3 xs i "is")
  then show ?case by (auto split: option.splits)
qed (auto)

section \<open>Header-trust posture\<close>

lemma ad_ran_simps [simp]:
  "ad_ran (refuse_with app r es) = None"
  "ad_ran (run_next app h rq p) = Some p"
  "ad_audit (refuse_with app r es) = es"
  by (simp_all add: refuse_with_def run_next_def split: prod.splits)

lemma header_trust_ran:
  assumes "header_trust_admission app next_handler rq = Inr a" "ad_ran a \<noteq> None"
  shows "(trusted_ingress_required (rq_method rq) (rq_path rq) \<longrightarrow>
            trusted_ingress_authorized (as_env app) (header_dict rq) = Inr True) \<and>
         payload_limit_response app rq = None \<and>
         fst (authorize_write_request (as_loads app) (as_env app) (rq_method rq) (rq_path rq) (header_dict rq))"
  using assms
  by (auto simp: header_trust_admission_def
      split: if_splits sum.splits bool.splits option.splits prod.splits type_error.splits)

lemma ingress_authorized:
  assumes "trusted_ingress_authorized env headers = Inr True" "ingress_secret env \<noteq> []"
  shows "dict_get (normalized_headers headers) ''x-lotus-trusted-ingress'' [] = ingress_secret env"
proof -
  have h: "py_lower TRUSTED_INGRESS_HEADER = ''x-lotus-trusted-ingress''" by code_simp
  show ?thesis
    using assms by (auto simp: trusted_ingress_authorized_def compare_digest_def Let_def h split: if_splits)
qed

lemma WRITE_METHODS_upper: "meth \<in> WRITE_METHODS \<Longrightarrow> py_upper meth \<in> WRITE_METHODS"
proof -
  have "py_upper ''POST'' = ''POST''" "py_upper ''PUT'' = ''PUT''" "py_upper ''PATCH'' = ''PATCH''"
    "py_upper ''DELETE'' = ''DELETE''"
    by code_simp+
  then show "meth \<in> WRITE_METHODS \<Longrightarrow> py_upper meth \<in> WRITE_METHODS"
    unfolding WRITE_METHODS_def by fastforce
qed

text \<open>C6: behind an accepted bank configuration in the header-trust posture, a write reaches the
  application only with the secret ingress marker, all required headers, a service identity and the
  capability of its most specific rule, and with a declared size within the application limit.\<close>

theorem bank_write_needs_every_proof:
  assumes accepted: "validate_enterprise_runtime_config (as_loads app) floats (as_env app) = Inr issues"
    and enforced: "env_enabled (as_env app) ''ENTERPRISE_ENFORCE_RUNTIME_CONFIG'' ''false''"
    and posture: "as_posture app \<noteq> Some ''verified''"
    and "write": "rq_method rq \<in> WRITE_METHODS"
    and ran: "enterprise_middleware app next_handler rq = Inr a" "ad_ran a \<noteq> None"
  shows "ingress_secret (as_env app) \<noteq> [] \<and>
         dict_get (normalized_headers (header_dict rq)) ''x-lotus-trusted-ingress'' [] =
           ingress_secret (as_env app) \<and>
         missing_required_headers (normalized_headers (header_dict rq)) = [] \<and>
         has_service_identity (normalized_headers (header_dict rq)) \<and>
         (\<exists>capability. required_capability (as_loads app) (as_env app) (rq_method rq) (rq_path rq) =
              Some capability \<and> capability \<in> capability_set (normalized_headers (header_dict rq))) \<and>
         content_length rq \<le> max_write_payload_bytes (as_env app)"
proof -
  from ran(1) posture have "header_trust_admission app next_handler rq = Inr a"
    by (simp add: enterprise_middleware_def)
  from header_trust_ran [OF this ran(2)] have
    required: "trusted_ingress_required (rq_method rq) (rq_path rq) \<longrightarrow>
      trusted_ingress_authorized (as_env app) (header_dict rq) = Inr True"
    and payload: "payload_limit_response app rq = None"
    and auth: "fst (authorize_write_request (as_loads app) (as_env app) (rq_method rq) (rq_path rq)
      (header_dict rq))"
    by auto
  have up: "py_upper (rq_method rq) \<in> WRITE_METHODS" using "write" by (rule WRITE_METHODS_upper)
  have bank: "enterprise_bank_config_issues (as_loads app) floats (as_env app) = []"
    using validated_configuration [OF accepted enforced] by blast
  have secret: "ingress_secret (as_env app) \<noteq> []" by (rule bank_issues_empty(6) [OF bank])
  have marker: "dict_get (normalized_headers (header_dict rq)) ''x-lotus-trusted-ingress'' [] =
      ingress_secret (as_env app)"
    using required up secret by (intro ingress_authorized) (auto simp: trusted_ingress_required_def)
  have enf: "authorization_enforced (as_env app) (rq_method rq)"
    using up bank_issues_empty(2) [OF bank] by (simp add: authorization_enforced_def)
  have "content_length rq \<le> max_write_payload_bytes (as_env app)"
    using payload "write" by (auto simp: payload_limit_response_def split: if_splits)
  with secret marker auth_granted [OF enf auth] show ?thesis by blast
qed

definition sample_app :: "string \<Rightarrow> principal_providers \<Rightarrow> app_state" where
  "sample_app posture providers =
     \<lparr>as_env = sample_bank_environment
        (''LOTUS_RISK_PRINCIPAL_POSTURE'' \<mapsto> posture, ''LOTUS_RISK_DEPLOYMENT_ENVIRONMENT'' \<mapsto> ''dev''),
      as_loads = sample_loads, as_posture = Some posture, as_providers = providers\<rparr>"

definition no_providers :: principal_providers where
  "no_providers = \<lparr>pp_verifier = None, pp_grant_store = None\<rparr>"

definition sample_write :: "(string \<times> string) list \<Rightarrow> http_request" where
  "sample_write extra =
     \<lparr>rq_method = ''POST'', rq_path = ''/analytics/risk/concentration'',
      rq_headers = extra @ [(''x-actor-id'', ''a''), (''x-tenant-id'', ''t''), (''x-role'', ''r''),
        (''x-correlation-id'', ''c''), (''x-service-identity'', ''svc''),
        (''x-capabilities'', ''other, risk.write'')],
      rq_correlation_id = Some ''c''\<rparr>"

definition sample_next :: call_next where
  "sample_next rq p = (\<lparr>rs_status = 200, rs_body = None, rs_headers = []\<rparr>, False)"

theorem bank_write_needs_every_proof_witness:
  "\<exists>a. enterprise_middleware (sample_app ''header-trust'' no_providers) sample_next
         (sample_write [(''x-lotus-trusted-ingress'', ''s3cret'')]) = Inr a \<and>
       ad_ran a = Some None \<and>
       has_service_identity (normalized_headers (header_dict
         (sample_write [(''x-lotus-trusted-ingress'', ''s3cret'')])))"
proof -
  let ?app = "sample_app ''header-trust'' no_providers"
  let ?rq = "sample_write [(''x-lotus-trusted-ingress'', ''s3cret'')]"
  have ran: "enterprise_middleware ?app sample_next ?rq = Inr (run_next ?app sample_next ?rq None)"
  proof -
    have "enterprise_middleware ?app sample_next ?rq = header_trust_admission ?app sample_next ?rq"
      by (simp add: enterprise_middleware_def sample_app_def)
    moreover have "trusted_ingress_authorized (as_env ?app) (header_dict ?rq) = Inr True" by code_simp
    moreover have "payload_limit_response ?app ?rq = None" by code_simp
    moreover have "authorize_write_request (as_loads ?app) (as_env ?app) (rq_method ?rq) (rq_path ?rq)
        (header_dict ?rq) = (True, None)"
      by code_simp
    ultimately show ?thesis by (simp add: header_trust_admission_def)
  qed
  have base: "base_runtime_config_issues (as_env ?app) = []" by code_simp
  have bank: "enterprise_bank_config_issues (as_loads ?app) (\<lambda>_. NotAFloat) (as_env ?app) = []"
    by code_simp
  have valid: "validate_enterprise_runtime_config (as_loads ?app) (\<lambda>_. NotAFloat) (as_env ?app) = Inr []"
    by (simp add: validate_enterprise_runtime_config_def base bank Let_def first_occurrences_def)
  have enforced: "env_enabled (as_env ?app) ''ENTERPRISE_ENFORCE_RUNTIME_CONFIG'' ''false''" by code_simp
  have "as_posture ?app \<noteq> Some ''verified''" "rq_method ?rq \<in> WRITE_METHODS" by code_simp+
  from bank_write_needs_every_proof [OF valid enforced this ran] ran show ?thesis by simp
qed

text \<open>In the header-trust posture with an ingress secret, a protected request whose ingress
  marker holds a character outside ASCII is not refused with 403: the comparison raises, and the
  exception leaves the middleware with no response and no audit event.\<close>

theorem non_ascii_marker_escapes:
  assumes "as_posture app \<noteq> Some ''verified''" "ingress_secret (as_env app) \<noteq> []"
    and "trusted_ingress_required (rq_method rq) (rq_path rq)"
    and "\<not> is_ascii (dict_get (normalized_headers (header_dict rq)) (py_lower TRUSTED_INGRESS_HEADER) [])"
  shows "enterprise_middleware app next_handler rq = Inl IngressTypeError"
proof -
  have "dict_get (normalized_headers (header_dict rq)) (py_lower TRUSTED_INGRESS_HEADER) [] \<noteq> []"
    using assms(4) by (auto simp: is_ascii_def)
  then show ?thesis
    using assms
    by (simp add: enterprise_middleware_def header_trust_admission_def trusted_ingress_authorized_def
        compare_digest_def Let_def)
qed

theorem non_ascii_marker_escapes_witness:
  "enterprise_middleware (sample_app ''header-trust'' no_providers) sample_next
     (sample_write [(''x-lotus-trusted-ingress'', [CHR 0xE9])]) = Inl IngressTypeError"
  by (rule non_ascii_marker_escapes; code_simp)

section \<open>Verified posture\<close>

lemma verified_principal_Inr:
  assumes "verified_principal app rq = Inr p"
  obtains path capability store where
    "rq_method rq = ''POST''" "path \<in> VERIFIED_WRITE_ROUTES"
    "rq_path rq = path \<or> rq_path rq = path @ ''/''"
    "required_capability (as_loads app) (as_env app) ''POST'' path = Some capability"
    "capability \<in> gs_capabilities (rp_grants p)"
    "pp_grant_store (as_providers app) = Some store"
    "valid_identity (rp_credential p)" "established_grants store (rp_credential p) (rp_grants p)"
proof -
  from assms obtain path token where p: "verified_route_path rq = Inr path"
    "resolve_principal token
       (required_capability (as_loads app) (as_env app) (rq_method rq) path) (as_providers app) = Inr p"
    by (auto simp: verified_principal_def result_simps)
  from p(1) have route: "rq_method rq = ''POST''" "path \<in> VERIFIED_WRITE_ROUTES"
    "path = rq_path rq \<or> (ends_with_slash (rq_path rq) \<and> path = butlast (rq_path rq))"
    by (auto simp: verified_route_path_def Let_def split: if_splits)
  from route(3) have slash: "rq_path rq = path \<or> rq_path rq = path @ ''/''"
    by (auto simp: ends_with_slash_def) (metis append_butlast_last_id)
  from p(2) obtain store where "pp_grant_store (as_providers app) = Some store"
    "valid_identity (rp_credential p)" "established_grants store (rp_credential p) (rp_grants p)"
    "\<exists>k. required_capability (as_loads app) (as_env app) (rq_method rq) path = Some k \<and>
       k \<in> gs_capabilities (rp_grants p)"
    by (auto simp: resolved_principal_iff)
  with route slash that show thesis by auto
qed

lemma verified_principal_declared:
  assumes "verified_principal app rq = Inl e"
  shows "\<exists>reason status. e = Denied reason status \<and> status \<in> {401, 403, 503}"
proof -
  have codes: "status \<in> {401, 403, 503}" if "map_of DECLARED_VERIFIER_DENIALS reason = Some status"
    for reason status
    using map_of_SomeD [OF that] by (auto simp: DECLARED_VERIFIER_DENIALS_def)
  from assms consider "verified_route_path rq = Inl e" | "bearer_credential rq = Inl e"
    | token capability where "resolve_principal token capability (as_providers app) = Inl e"
    by (auto simp: verified_principal_def result_simps)
  then show ?thesis
  proof cases
    case 1
    then show ?thesis by (auto simp: verified_route_path_def Let_def split: if_splits)
  next
    case 2
    then show ?thesis by (auto simp: bearer_credential_def split: list.splits if_splits)
  next
    case 3
    from resolve_principal_declared [OF this] codes show ?thesis by blast
  qed
qed

lemma refuse_with_status [simp]:
  "rs_status (ad_response (refuse_with app r es)) = rs_status r"
  by (simp add: refuse_with_def apply_enterprise_response_headers_def)

lemma payload_limit_status: "payload_limit_response app rq = Some r \<Longrightarrow> rs_status r = 413"
  by (auto simp: payload_limit_response_def error_response_def split: if_splits)

lemma denial_status [simp]: "rs_status (verified_denial_response rq reason status) = status"
  by (simp add: verified_denial_response_def error_response_def Let_def)

text \<open>C5: in the verified posture every request is answered, and either it is not a protected one,
  or it ran under a resolved principal: a POST to one of the three pilot routes, whose most specific
  rule's capability is among grants established for a valid identity; or it was refused with 401,
  403, 413 or 503, and no event about it names an identity the caller claimed.\<close>

theorem verified_posture_is_closed:
  assumes "as_posture app = Some ''verified''"
  shows "case enterprise_middleware app next_handler rq of
      Inl e \<Rightarrow> False
    | Inr a \<Rightarrow> (case ad_ran a of
        None \<Rightarrow> rs_status (ad_response a) \<in> {401, 403, 413, 503} \<and>
                (\<forall>event\<in>set (ad_audit a). ae_actor_id event = Text ''unverified'' \<and>
                   ae_tenant_id event = Text ''unverified'' \<and> ae_role event = Text ''unverified'')
      | Some None \<Rightarrow> py_upper (rq_method rq) \<notin> WRITE_METHODS \<and>
                rq_path rq \<notin> set PROTECTED_OPERATIONAL_PATHS \<and> \<not> starts_with (rq_path rq) JOBS_PREFIX
      | Some (Some p) \<Rightarrow> rq_method rq = ''POST'' \<and> valid_identity (rp_credential p) \<and>
                (\<exists>path capability store. path \<in> VERIFIED_WRITE_ROUTES \<and>
                   (rq_path rq = path \<or> rq_path rq = path @ ''/'') \<and>
                   required_capability (as_loads app) (as_env app) ''POST'' path = Some capability \<and>
                   capability \<in> gs_capabilities (rp_grants p) \<and>
                   pp_grant_store (as_providers app) = Some store \<and>
                   established_grants store (rp_credential p) (rp_grants p)))"
proof -
  have mw: "enterprise_middleware app next_handler rq = verified_admission app next_handler rq"
    using assms by (simp add: enterprise_middleware_def)
  show ?thesis
  proof (cases "trusted_ingress_required (rq_method rq) (rq_path rq) \<or> starts_with (rq_path rq) JOBS_PREFIX")
    case False
    then show ?thesis
      by (auto simp: mw verified_admission_def trusted_ingress_required_def)
  next
    case protected: True
    show ?thesis
    proof (cases "payload_limit_response app rq")
      case (Some r)
      with protected payload_limit_status [OF Some] show ?thesis
        by (simp add: mw verified_admission_def)
    next
      case None
      show ?thesis
      proof (cases "verified_principal app rq")
        case (Inl e)
        from verified_principal_declared [OF Inl] obtain reason status
          where "e = Denied reason status" "status \<in> {401, 403, 503}" by blast
        with None Inl protected show ?thesis
          by (auto simp: mw verified_admission_def emit_audit_event_def)
      next
        case (Inr p)
        from verified_principal_Inr [OF Inr] None Inr protected show ?thesis
          by (simp add: mw verified_admission_def) metis
      qed
    qed
  qed
qed

text \<open>A user who holds the capability, resolved by a store that knows the user.\<close>

definition sample_user :: verified_credential where
  "sample_user = \<lparr>vc_subject = Text ''u1'', vc_tenant_id = Text ''t1'', vc_kind = Text ''user'',
     vc_credential_id = Text ''c1'', vc_actor = NoValue\<rparr>"

definition user_providers :: principal_providers where
  "user_providers =
     \<lparr>pp_verifier = Some (\<lambda>_. ProviderReturned sample_user),
      pp_grant_store = Some \<lparr>tenant_members = (\<lambda>_ _. ProviderReturned True),
        grants_for = (\<lambda>_ _. ProviderReturned
          \<lparr>gs_capabilities = {''risk.write''}, gs_portfolio_ids = {''P1''}\<rparr>),
        application_grants_for = (\<lambda>_ _. ProviderRaised)\<rparr>\<rparr>"

theorem verified_posture_is_closed_witness:
  "\<exists>a p. enterprise_middleware (sample_app ''verified'' user_providers) sample_next
           (sample_write [(''authorization'', ''Bearer tok'')]) = Inr a \<and>
         ad_ran a = Some (Some p) \<and> rp_credential p = sample_user \<and> valid_identity (rp_credential p)"
proof -
  let ?app = "sample_app ''verified'' user_providers"
  let ?rq = "sample_write [(''authorization'', ''Bearer tok'')]"
  let ?p = "\<lparr>rp_credential = sample_user,
    rp_grants = \<lparr>gs_capabilities = {''risk.write''}, gs_portfolio_ids = {''P1''}\<rparr>\<rparr>"
  have posture: "as_posture ?app = Some ''verified''" by (simp add: sample_app_def)
  have p: "verified_principal ?app ?rq = Inr ?p"
  proof -
    have "verified_route_path ?rq = Inr ''/analytics/risk/concentration''" by code_simp
    moreover have "bearer_credential ?rq = Inr (Some ''tok'')" by code_simp
    moreover have "required_capability (as_loads ?app) (as_env ?app) (rq_method ?rq)
        ''/analytics/risk/concentration'' = Some ''risk.write''"
      by code_simp
    moreover have "resolve_principal (Some ''tok'') (Some ''risk.write'') user_providers = Inr ?p"
      by code_simp
    ultimately show ?thesis by (simp add: verified_principal_def sample_app_def)
  qed
  have "trusted_ingress_required (rq_method ?rq) (rq_path ?rq)" by code_simp
  moreover have "payload_limit_response ?app ?rq = None" by code_simp
  ultimately have "enterprise_middleware ?app sample_next ?rq = Inr (run_next ?app sample_next ?rq (Some ?p))"
    using p by (simp add: enterprise_middleware_def posture verified_admission_def)
  with verified_posture_is_closed [of ?app ?rq sample_next, OF posture] show ?thesis by simp
qed

end
