(* ===== verification/ConcentrationInputs.thy ===== *)
theory ConcentrationInputs
  imports Main Json Dates
begin

text \<open>
  The concentration request: contracts/concentration_common_inputs.py,
  concentration_stateless_inputs.py, concentration_stateful_inputs.py,
  concentration_simulation_inputs.py and concentration_request_inputs.py, with the bounds pydantic
  checks on fields and the model validators.  A number a caller may leave out is an option; a
  non-finite one, which the parser accepts, is kept apart.
\<close>

datatype number_input = Number f64 | PlusInfinity | MinusInfinity | NotANumber

datatype input_mode = Stateless | Stateful | Simulation
datatype issuer_grouping_level = LegalIssuer | UltimateParent
datatype enrichment_policy = UseCallerOnly | MergeCallerThenCore | CoreOnly

text \<open>
  A current and a projected position have the same fields under different names: the market value
  is \<open>market_value_base\<close> or \<open>projected_market_value_base\<close>, the quantity \<open>quantity\<close> or
  \<open>proposed_quantity\<close>, the weight \<open>weight\<close> or \<open>projected_weight\<close>.
\<close>

record position_input =
  pi_security_id :: string
  pi_security_name :: "string option"
  pi_quantity :: "number_input option"
  pi_market_value :: "number_input option"
  pi_weight :: "number_input option"
  pi_issuer_id :: "string option"
  pi_ultimate_parent_issuer_id :: "string option"

record issuer_mapping_input =
  im_security_id :: string
  im_issuer_id :: "string option"
  im_issuer_name :: "string option"
  im_ultimate_parent_issuer_id :: "string option"
  im_ultimate_parent_issuer_name :: "string option"

section \<open>Stateless input\<close>

text \<open>
  \<open>projected_positions\<close> is \<open>None\<close> when the caller left the field out: its value is then the empty
  list, but the field is not among those set.
\<close>

record stateless_input =
  sl_current_positions :: "position_input list"
  sl_projected_positions :: "position_input list option"
  sl_top_n :: int

definition projected_positions :: "stateless_input \<Rightarrow> position_input list" where
  "projected_positions payload =
     (case sl_projected_positions payload of None \<Rightarrow> [] | Some ps \<Rightarrow> ps)"

definition projection_supplied :: "stateless_input \<Rightarrow> bool" where
  "projection_supplied payload \<longleftrightarrow> sl_projected_positions payload \<noteq> None"

datatype exposure_basis = MarketValueBase | QuantityProxy

text \<open>\<open>Inl message\<close> is a raised \<open>ValueError\<close>.\<close>

definition state_exposure_basis ::
  "position_input list \<Rightarrow> string \<Rightarrow> (string, exposure_basis option) result"
where
  "state_exposure_basis positions state_name =
     (if positions = [] then Inr None
      else if list_ex (\<lambda>p. pi_market_value p \<noteq> None) positions then
        (if \<not> list_all (\<lambda>p. pi_market_value p \<noteq> None) positions
         then Inl (state_name @ '' positions cannot mix market-value and quantity exposure bases'')
         else Inr (Some MarketValueBase))
      else if \<not> list_all (\<lambda>p. pi_quantity p \<noteq> None) positions
      then Inl (state_name @ '' positions require every row to provide market value or quantity'')
      else Inr (Some QuantityProxy))"

definition stateless_exposure_basis :: "stateless_input \<Rightarrow> (string, exposure_basis option) result" where
  "stateless_exposure_basis payload =
     bind_result (state_exposure_basis (sl_current_positions payload) ''current'') (\<lambda>current_basis.
     bind_result (state_exposure_basis (projected_positions payload) ''projected'') (\<lambda>projected_basis.
     bind_result
       (raise_if (current_basis \<noteq> None \<and> projected_basis \<noteq> None \<and> current_basis \<noteq> projected_basis)
         ''current and projected positions must use the same exposure basis'') (\<lambda>_.
     Inr (if current_basis \<noteq> None then current_basis else projected_basis))))"

definition valid_top_n :: "int \<Rightarrow> bool" where
  "valid_top_n n \<longleftrightarrow> 1 \<le> n \<and> n \<le> 100"

definition validate_stateless_input :: "stateless_input \<Rightarrow> (string, stateless_input) result" where
  "validate_stateless_input payload =
     bind_result (raise_if (\<not> valid_top_n (sl_top_n payload)) ''top_n'') (\<lambda>_.
     bind_result (stateless_exposure_basis payload) (\<lambda>_. Inr payload))"

section \<open>Stateful and simulation input\<close>

record stateful_input =
  sf_portfolio_id :: string
  sf_as_of_date :: date
  sf_reporting_currency :: "string option"
  sf_include_cash_positions :: bool
  sf_include_zero_quantity_positions :: bool
  sf_top_n :: int
  sf_issuer_mappings :: "issuer_mapping_input list"

definition validate_stateful_input :: "'a stateful_input_scheme \<Rightarrow> (string, 'a stateful_input_scheme) result" where
  "validate_stateful_input s =
     bind_result (raise_if (\<not> valid_top_n (sf_top_n s)) ''top_n'') (\<lambda>_. Inr s)"

record simulation_change =
  sg_security_id :: string
  sg_transaction_type :: string
  sg_quantity :: "number_input option"
  sg_price :: "number_input option"
  sg_amount :: "number_input option"
  sg_currency :: "string option"
  sg_effective_date :: "date option"
  sg_metadata :: "json_object option"

text \<open>A field with \<open>gt=0\<close>: absent, or above zero, which plus infinity is and NaN is not.\<close>

definition positive_or_absent :: "number_input option \<Rightarrow> bool" where
  "positive_or_absent v = (case v of None \<Rightarrow> True | Some (Number x) \<Rightarrow> 0 < x | Some PlusInfinity \<Rightarrow> True | _ \<Rightarrow> False)"

definition validate_simulation_change :: "simulation_change \<Rightarrow> (string, simulation_change) result" where
  "validate_simulation_change c =
     (let kind = py_upper (py_strip (sg_transaction_type c)) in
      bind_result (raise_if (kind \<notin> {''BUY'', ''SELL''}) ''transaction_type'') (\<lambda>_.
      bind_result (raise_if (\<not> positive_or_absent (sg_quantity c)) ''quantity'') (\<lambda>_.
      bind_result (raise_if (\<not> positive_or_absent (sg_price c)) ''price'') (\<lambda>_.
      bind_result (raise_if (\<not> positive_or_absent (sg_amount c)) ''amount'') (\<lambda>_.
      bind_result (raise_if (sg_quantity c = None \<and> sg_amount c = None)
        ''simulation_changes[].quantity or simulation_changes[].amount is required for BUY/SELL'') (\<lambda>_.
      Inr (c\<lparr>sg_transaction_type := kind\<rparr>)))))))"

record simulation_input = stateful_input +
  sn_simulation_changes :: "simulation_change list"
  sn_session_id :: "string option"
  sn_start_new_session :: bool
  sn_session_ttl_hours :: "int option"
  sn_expected_version :: "int option"

definition validate_simulation_input :: "simulation_input \<Rightarrow> (string, simulation_input) result" where
  "validate_simulation_input s =
     bind_result (validate_stateful_input s) (\<lambda>_.
     bind_result (map_result validate_simulation_change (sn_simulation_changes s)) (\<lambda>changes.
     bind_result (raise_if (case sn_session_ttl_hours s of None \<Rightarrow> False | Some h \<Rightarrow> h < 1 \<or> 168 < h)
       ''session_ttl_hours'') (\<lambda>_.
     bind_result (raise_if (case sn_expected_version s of None \<Rightarrow> False | Some v \<Rightarrow> v < 1)
       ''expected_version'') (\<lambda>_.
     bind_result (raise_if (str_truthy (sn_session_id s) \<and> \<not> sn_start_new_session s \<and>
         sn_session_ttl_hours s \<noteq> None)
       ''simulation_input.session_ttl_hours is not allowed when reusing simulation_input.session_id'')
       (\<lambda>_. Inr (s\<lparr>sn_simulation_changes := changes\<rparr>))))))"

section \<open>The request\<close>

record concentration_request =
  cq_input_mode :: input_mode
  cq_stateless_input :: "stateless_input option"
  cq_stateful_input :: "stateful_input option"
  cq_simulation_input :: "simulation_input option"
  cq_issuer_grouping_level :: issuer_grouping_level
  cq_enrichment_policy :: enrichment_policy

definition validate_optional ::
  "('a \<Rightarrow> (string, 'a) result) \<Rightarrow> 'a option \<Rightarrow> (string, 'a option) result"
where
  "validate_optional f v =
     (case v of None \<Rightarrow> Inr None | Some x \<Rightarrow> bind_result (f x) (\<lambda>y. Inr (Some y)))"

definition default_stateless_input :: stateless_input where
  "default_stateless_input =
     \<lparr>sl_current_positions = [], sl_projected_positions = None, sl_top_n = 10\<rparr>"

definition validate_concentration_request ::
  "concentration_request \<Rightarrow> (string, concentration_request) result"
where
  "validate_concentration_request r =
     bind_result (validate_optional validate_stateless_input (cq_stateless_input r)) (\<lambda>stateless.
     bind_result (validate_optional validate_stateful_input (cq_stateful_input r)) (\<lambda>stateful.
     bind_result (validate_optional validate_simulation_input (cq_simulation_input r)) (\<lambda>simulation.
     bind_result (raise_if (cq_input_mode r = Stateful \<and> stateful = None)
       ''stateful_input is required when input_mode=stateful'') (\<lambda>_.
     bind_result (raise_if (cq_input_mode r = Simulation \<and> simulation = None)
       ''simulation_input is required when input_mode=simulation'') (\<lambda>_.
     Inr (r\<lparr>cq_stateless_input :=
              (if cq_input_mode r = Stateless \<and> stateless = None
               then Some default_stateless_input else stateless),
            cq_stateful_input := stateful, cq_simulation_input := simulation\<rparr>))))))"

section \<open>Homogeneous exposures\<close>

text \<open>What one basis for all the rows of a state means.\<close>

fun rows_on_basis :: "exposure_basis option \<Rightarrow> position_input list \<Rightarrow> bool" where
  "rows_on_basis None ps \<longleftrightarrow> ps = []"
| "rows_on_basis (Some MarketValueBase) ps \<longleftrightarrow> (\<forall>p\<in>set ps. pi_market_value p \<noteq> None)"
| "rows_on_basis (Some QuantityProxy) ps \<longleftrightarrow>
     (\<forall>p\<in>set ps. pi_market_value p = None \<and> pi_quantity p \<noteq> None)"

lemma state_exposure_basis_iff:
  "state_exposure_basis ps name = Inr b \<longleftrightarrow>
     (if ps = [] then b = None else b \<noteq> None \<and> rows_on_basis b ps)"
  by (cases b; cases "the b")
    (auto simp: state_exposure_basis_def list_ex_iff list_all_iff neq_Nil_conv)

lemma exposure_basis_uniform:
  "stateless_exposure_basis payload = Inr basis \<longleftrightarrow>
     (if sl_current_positions payload @ projected_positions payload = [] then basis = None
      else basis \<noteq> None \<and> rows_on_basis basis (sl_current_positions payload @ projected_positions payload))"
proof -
  let ?c = "sl_current_positions payload" and ?p = "projected_positions payload"
  have split: "rows_on_basis (Some b) (?c @ ?p) \<longleftrightarrow> rows_on_basis (Some b) ?c \<and> rows_on_basis (Some b) ?p"
    for b by (cases b) auto
  show ?thesis
  proof (cases "?c = [] \<or> ?p = []")
    case True
    then show ?thesis
      by (auto simp: stateless_exposure_basis_def result_simps state_exposure_basis_iff split: if_splits)
  next
    case False
    then have "stateless_exposure_basis payload = Inr basis \<longleftrightarrow>
        (\<exists>a b. a \<noteq> None \<and> rows_on_basis a ?c \<and> b \<noteq> None \<and> rows_on_basis b ?p \<and> a = b \<and> basis = a)"
      by (auto simp: stateless_exposure_basis_def result_simps state_exposure_basis_iff)
    with False show ?thesis by (cases basis) (auto simp: split)
  qed
qed

text \<open>C16: a stateless payload is accepted on a basis exactly when every row of both states is on
  that one basis: all with a market value, or all with a quantity and no market value; a payload
  with no rows has no basis, and every mixture is refused.\<close>

theorem exposure_basis_is_uniform:
  "stateless_exposure_basis payload = Inr basis \<longleftrightarrow>
     (if sl_current_positions payload @ projected_positions payload = [] then basis = None
      else basis \<noteq> None \<and> rows_on_basis basis (sl_current_positions payload @ projected_positions payload))"
  by (rule exposure_basis_uniform)

end
