(* ===== verification/ConcentrationMath.thy ===== *)
theory ConcentrationMath
  imports Main Json "HOL-Library.Product_Lexorder"
begin

text \<open>
  Concentration measures over entries: services/concentration/math.py and datamodels.py.  Values are
  floats of at most \<open>2 ^ 1023\<close>, so that no sum of a portfolio's overflows.
\<close>

section \<open>Entries\<close>

record issuer_identity =
  ii_issuer_id :: string
  ii_issuer_name :: "string option"

record position_entry =
  po_security_id :: "string option"
  po_security_name :: "string option"
  po_value :: f64

record issuer_entry =
  ie_issuer_id :: "string option"
  ie_issuer_name :: "string option"
  ie_value :: f64

record driver_value =
  dv_id :: "string option"
  dv_name :: "string option"
  dv_weight :: f64

section \<open>Measures\<close>

definition abs_total :: "f64 list \<Rightarrow> f64" where
  "abs_total values = py_sum (map abs values)"

definition compute_hhi :: "f64 list \<Rightarrow> f64" where
  "compute_hhi values =
     (let total = abs_total values in
      if total \<le> 0 then 0
      else let weights = map (\<lambda>v. fdiv \<bar>v\<bar> total) values in
        fmul (py_sum (map (\<lambda>w. fmul w w) weights)) 10000)"

definition single_position_metrics :: "f64 list \<Rightarrow> int \<Rightarrow> f64 \<times> f64" where
  "single_position_metrics values top_n =
     (let total = abs_total values in
      if total \<le> 0 then (0, 0)
      else let weights = rev (sort (map (\<lambda>v. fdiv \<bar>v\<bar> total) values)) in
        (hd weights, py_sum (take (nat top_n) weights)))"

text \<open>\<open>max(entries, key=key)\<close>: the first entry whose key no other exceeds.\<close>

fun first_max :: "('a \<Rightarrow> 'k::linorder) \<Rightarrow> 'a \<Rightarrow> 'a list \<Rightarrow> 'a" where
  "first_max key best [] = best"
| "first_max key best (x # xs) = first_max key (if key best < key x then x else best) xs"

definition driver_key :: "f64 \<Rightarrow> string option \<Rightarrow> f64 \<times> string" where
  "driver_key v i = (\<bar>v\<bar>, case i of None \<Rightarrow> [] | Some s \<Rightarrow> s)"

definition no_driver :: driver_value where
  "no_driver = \<lparr>dv_id = None, dv_name = None, dv_weight = 0\<rparr>"

definition top_position_driver :: "position_entry list \<Rightarrow> driver_value" where
  "top_position_driver entries =
     (let total = abs_total (map po_value entries) in
      case entries of
        [] \<Rightarrow> no_driver
      | e # es \<Rightarrow>
          if total \<le> 0 then no_driver
          else let top_entry = first_max (\<lambda>x. driver_key (po_value x) (po_security_id x)) e es in
            \<lparr>dv_id = po_security_id top_entry, dv_name = po_security_name top_entry,
             dv_weight = py_round6 (fdiv \<bar>po_value top_entry\<bar> total)\<rparr>)"

definition top_issuer_driver :: "issuer_entry list \<Rightarrow> driver_value" where
  "top_issuer_driver entries =
     (let total = abs_total (map ie_value entries) in
      case entries of
        [] \<Rightarrow> no_driver
      | e # es \<Rightarrow>
          if total \<le> 0 then no_driver
          else let top_entry = first_max (\<lambda>x. driver_key (ie_value x) (ie_issuer_id x)) e es in
            \<lparr>dv_id = ie_issuer_id top_entry, dv_name = ie_issuer_name top_entry,
             dv_weight = py_round6 (fdiv \<bar>ie_value top_entry\<bar> total)\<rparr>)"

definition coverage_ratio :: "nat \<Rightarrow> nat \<Rightarrow> f64" where
  "coverage_ratio covered counted =
     (if counted = 0 then 0 else py_round6 (fdiv (of_nat covered) (of_nat counted)))"

definition uncovered_count :: "nat \<Rightarrow> nat \<Rightarrow> nat" where
  "uncovered_count covered counted = counted - covered"

section \<open>The driver is the heaviest entry\<close>

lemma first_max_spec:
  "first_max key b xs \<in> set (b # xs) \<and> (\<forall>x\<in>set (b # xs). key x \<le> key (first_max key b xs))"
proof (induction xs arbitrary: b)
  case Nil
  then show ?case by simp
next
  case (Cons x xs)
  have IH: "first_max key c xs \<in> set (c # xs)"
    "\<forall>y\<in>set (c # xs). key y \<le> key (first_max key c xs)" for c
    using Cons.IH by blast+
  show ?case
  proof (cases "key b < key x")
    case True
    with IH [of x] show ?thesis by (auto intro: order.trans less_imp_le)
  next
    case False
    with IH [of b] show ?thesis by (auto intro: order.trans)
  qed
qed

lemma driver_key_le: "driver_key v i \<le> driver_key w j \<Longrightarrow> \<bar>v\<bar> \<le> \<bar>w\<bar>"
  by (auto simp: driver_key_def less_eq_prod_def)

lemma hd_rev_sort:
  assumes "xs \<noteq> []"
  shows "hd (rev (sort xs)) \<in> set xs \<and> (\<forall>x\<in>set xs. x \<le> hd (rev (sort xs)))"
proof -
  have ne: "sort xs \<noteq> []" using assms by (metis set_empty set_sort)
  then obtain ys y where ys: "sort xs = ys @ [y]" by (metis rev_exhaust)
  have "sorted (ys @ [y])" using sorted_sort [of xs] by (simp only: ys)
  then have "\<forall>x\<in>set (ys @ [y]). x \<le> y" by (auto simp: sorted_append)
  moreover have s: "set xs = set (ys @ [y])" by (metis set_sort ys)
  moreover have "hd (rev (sort xs)) = y" by (simp add: ys)
  ultimately show ?thesis by (simp only: s) simp
qed

lemma fdiv_mono_left: "0 < t \<Longrightarrow> x \<le> y \<Longrightarrow> fdiv x t \<le> fdiv y t"
  unfolding fdiv_def by (intro rnd_mono divide_right_mono) simp_all

lemma fdiv_nonneg_pos: "0 < t \<Longrightarrow> 0 \<le> x \<Longrightarrow> 0 \<le> fdiv x t"
  unfolding fdiv_def by (intro rnd_nonneg divide_nonneg_pos)

lemma top_weight_of_max:
  assumes "0 < abs_total (map f es)" "m \<in> set es" "\<forall>x\<in>set es. \<bar>f x\<bar> \<le> \<bar>f m\<bar>"
  shows "fst (single_position_metrics (map f es) n) = fdiv \<bar>f m\<bar> (abs_total (map f es))"
proof -
  let ?t = "abs_total (map f es)" and ?ws = "map (\<lambda>v. fdiv \<bar>v\<bar> (abs_total (map f es))) (map f es)"
  have ne: "?ws \<noteq> []" using assms(2) by auto
  have top: "hd (rev (sort ?ws)) \<in> set ?ws" "\<forall>x\<in>set ?ws. x \<le> hd (rev (sort ?ws))"
    using hd_rev_sort [OF ne] by blast+
  have "fdiv \<bar>f m\<bar> ?t \<in> set ?ws" using assms(2) by auto
  moreover have "\<forall>x\<in>set ?ws. x \<le> fdiv \<bar>f m\<bar> ?t"
    using assms(1,3) by (auto intro: fdiv_mono_left)
  ultimately have "hd (rev (sort ?ws)) = fdiv \<bar>f m\<bar> ?t" using top by (meson antisym)
  then show ?thesis using assms(1) by (simp add: single_position_metrics_def Let_def)
qed

text \<open>The position reported as the driver of a state is one of its entries, none is heavier,
  and its reported weight is the state's top position weight, rounded; a state whose values add up
  to nothing has no driver and a top weight of zero.\<close>

theorem driver_is_heaviest_position:
  "if abs_total (map po_value entries) \<le> 0 then
     top_position_driver entries = no_driver \<and>
     single_position_metrics (map po_value entries) n = (0, 0)
   else \<exists>e\<in>set entries.
     dv_id (top_position_driver entries) = po_security_id e \<and>
     dv_name (top_position_driver entries) = po_security_name e \<and>
     dv_weight (top_position_driver entries) =
       py_round6 (fst (single_position_metrics (map po_value entries) n)) \<and>
     \<not> (\<exists>x\<in>set entries. \<bar>po_value e\<bar> < \<bar>po_value x\<bar>)"
proof (cases "abs_total (map po_value entries) \<le> 0")
  case True
  then show ?thesis
    by (cases entries) (simp_all add: top_position_driver_def single_position_metrics_def Let_def)
next
  case False
  then obtain e es where entries: "entries = e # es"
    by (cases entries) (auto simp: abs_total_def)
  let ?key = "\<lambda>x. driver_key (po_value x) (po_security_id x)"
  let ?m = "first_max ?key e es"
  have m: "?m \<in> set entries" "\<forall>x\<in>set entries. \<bar>po_value x\<bar> \<le> \<bar>po_value ?m\<bar>"
    using first_max_spec [of ?key e es] by (auto simp: entries intro: driver_key_le)
  have "top_position_driver entries = \<lparr>dv_id = po_security_id ?m, dv_name = po_security_name ?m,
      dv_weight = py_round6 (fdiv \<bar>po_value ?m\<bar> (abs_total (map po_value entries)))\<rparr>"
    using False by (simp add: top_position_driver_def entries Let_def)
  moreover have "fst (single_position_metrics (map po_value entries) n) =
      fdiv \<bar>po_value ?m\<bar> (abs_total (map po_value entries))"
    using False m by (intro top_weight_of_max) auto
  ultimately show ?thesis
    using False m by (auto intro!: bexI [of _ ?m])
qed

end
