(* ===== verification/ConcentrationIssuers.thy ===== *)
theory ConcentrationIssuers
  imports Main ConcentrationInputs ConcentrationMath
begin

text \<open>
  Issuer authority and grouping: services/concentration/issuer_mapping.py, parsing.py,
  snapshot_display_names.py and stateless_issuer_mapping.py.  A map from securities to issuers is an
  ordered dictionary; payloads of lotus-core are JSON values.
\<close>

type_synonym issuer_map = "(string, issuer_identity) dict"

section \<open>Whose issuer\<close>

text \<open>The identifier and name at the requested level, the parent's falling back on the issuer's own.\<close>

definition issuer_key ::
  "issuer_grouping_level \<Rightarrow> string option \<Rightarrow> string option \<Rightarrow> string option \<Rightarrow> string option \<Rightarrow>
     issuer_identity option"
where
  "issuer_key level issuer_id issuer_name parent_id parent_name =
     (let resolved_id = (if level = UltimateParent then str_or parent_id issuer_id else issuer_id);
          resolved_name = (if level = UltimateParent then str_or parent_name issuer_name else issuer_name)
      in if \<not> str_truthy resolved_id then None
         else Some \<lparr>ii_issuer_id = the resolved_id, ii_issuer_name = resolved_name\<rparr>)"

definition issuer_key_from_mapping ::
  "issuer_mapping_input \<Rightarrow> issuer_grouping_level \<Rightarrow> issuer_identity option"
where
  "issuer_key_from_mapping mapping level =
     issuer_key level (im_issuer_id mapping) (im_issuer_name mapping)
       (im_ultimate_parent_issuer_id mapping) (im_ultimate_parent_issuer_name mapping)"

definition issuer_key_from_position :: "position_input \<Rightarrow> issuer_grouping_level \<Rightarrow> issuer_identity option" where
  "issuer_key_from_position position level =
     issuer_key level (pi_issuer_id position) None (pi_ultimate_parent_issuer_id position) None"

definition put_issuer :: "string \<Rightarrow> issuer_identity option \<Rightarrow> issuer_map \<Rightarrow> issuer_map" where
  "put_issuer security_id key m =
     (case key of None \<Rightarrow> m | Some identity \<Rightarrow> AList.update security_id identity m)"

definition caller_issuer_map :: "issuer_mapping_input list \<Rightarrow> issuer_grouping_level \<Rightarrow> issuer_map" where
  "caller_issuer_map mappings level =
     foldl (\<lambda>m mapping. put_issuer (im_security_id mapping) (issuer_key_from_mapping mapping level) m)
       [] mappings"

definition issuer_map_from_positions :: "position_input list \<Rightarrow> issuer_grouping_level \<Rightarrow> issuer_map" where
  "issuer_map_from_positions positions level =
     foldl (\<lambda>m p. put_issuer (pi_security_id p) (issuer_key_from_position p level) m) [] positions"

definition merge_issuer_maps :: "issuer_map \<Rightarrow> issuer_map \<Rightarrow> enrichment_policy \<Rightarrow> issuer_map" where
  "merge_issuer_maps caller_map core_map policy =
     (case policy of
        UseCallerOnly \<Rightarrow> caller_map
      | CoreOnly \<Rightarrow> core_map
      | MergeCallerThenCore \<Rightarrow> dict_update core_map caller_map)"

text \<open>The identity a row of lotus-core's enrichment gives its security.\<close>

definition issuer_of_row :: "json_object \<Rightarrow> issuer_grouping_level \<Rightarrow> string option \<times> string option" where
  "issuer_of_row row level =
     (let field = (\<lambda>name. as_str (json_get row name)) in
      if level = UltimateParent
      then (str_or (field ''ultimate_parent_issuer_id'') (field ''issuer_id''),
            str_or (field ''ultimate_parent_issuer_name'') (field ''issuer_name''))
      else (field ''issuer_id'', field ''issuer_name''))"

definition put_row :: "issuer_grouping_level \<Rightarrow> issuer_map \<Rightarrow> json \<Rightarrow> issuer_map" where
  "put_row level m v =
     (case v of
        JObject row \<Rightarrow>
          (case (as_str (json_get row ''security_id''), issuer_of_row row level) of
             (security_id, issuer_id, issuer_name) \<Rightarrow>
               if str_truthy security_id \<and> str_truthy issuer_id
               then AList.update (the security_id)
                 \<lparr>ii_issuer_id = the issuer_id, ii_issuer_name = issuer_name\<rparr> m
               else m)
      | _ \<Rightarrow> m)"

definition extract_issuer_map ::
  "json_object \<Rightarrow> issuer_grouping_level \<Rightarrow> issuer_map \<times> string option"
where
  "extract_issuer_map sections level =
     (case json_get sections ''instrument_enrichment'' of
        JArray enrichment \<Rightarrow>
          (let m = foldl (put_row level) [] enrichment in
           if m = [] then ([], Some ''issuer_id missing in lotus-core instrument_enrichment'')
           else (m, None))
      | _ \<Rightarrow> ([], Some ''instrument_enrichment missing from lotus-core snapshot''))"

definition issuer_map_from_core_records :: "json list \<Rightarrow> issuer_grouping_level \<Rightarrow> issuer_map" where
  "issuer_map_from_core_records records level = foldl (put_row level) [] records"

section \<open>Display names\<close>

definition security_names_from_enrichment :: "json list \<Rightarrow> (string, string) dict" where
  "security_names_from_enrichment enrichment =
     foldl (\<lambda>names v. case v of
         JObject row \<Rightarrow>
           (let security_id = as_str (json_get row ''security_id'');
                instrument_name = as_str (json_get row ''instrument_name'') in
            if str_truthy security_id \<and> str_truthy instrument_name
            then AList.update (the security_id) (the instrument_name) names else names)
       | _ \<Rightarrow> names) [] enrichment"

definition name_row :: "(string, string) dict \<Rightarrow> json \<Rightarrow> json" where
  "name_row names v =
     (case v of
        JObject row \<Rightarrow>
          (case as_str (json_get row ''security_id'') of
             None \<Rightarrow> v
           | Some security_id \<Rightarrow>
               (case map_of names security_id of
                  Some name \<Rightarrow>
                    if security_id \<noteq> [] \<and> map_of row ''instrument_name'' = None
                    then JObject (row @ [(''instrument_name'', JString name)]) else v
                | None \<Rightarrow> v))
      | _ \<Rightarrow> v)"

definition POSITION_SECTIONS :: "string list" where
  "POSITION_SECTIONS = [''positions_baseline'', ''positions_projected'', ''positions_delta'']"

definition apply_snapshot_display_names :: "json_object \<Rightarrow> json_object" where
  "apply_snapshot_display_names sections =
     (case json_get sections ''instrument_enrichment'' of
        JArray enrichment \<Rightarrow>
          (let names = security_names_from_enrichment enrichment in
           map (\<lambda>(k, v). (k, case v of
             JArray rows \<Rightarrow> if k \<in> set POSITION_SECTIONS then JArray (map (name_row names) rows) else v
           | _ \<Rightarrow> v)) sections)
      | _ \<Rightarrow> sections)"

section \<open>Grouping by issuer\<close>

definition issuer_of :: "issuer_map \<Rightarrow> position_entry \<Rightarrow> issuer_identity option" where
  "issuer_of m row =
     (case po_security_id row of None \<Rightarrow> None | Some s \<Rightarrow> if s = [] then None else map_of m s)"

text \<open>Issuer totals, in order of first appearance, and the number of rows with an issuer.\<close>

definition add_to_issuer ::
  "(string, issuer_entry) dict \<Rightarrow> issuer_identity \<Rightarrow> f64 \<Rightarrow> (string, issuer_entry) dict"
where
  "add_to_issuer totals issuer v =
     (case map_of totals (ii_issuer_id issuer) of
        None \<Rightarrow> AList.update (ii_issuer_id issuer)
          \<lparr>ie_issuer_id = Some (ii_issuer_id issuer), ie_issuer_name = ii_issuer_name issuer, ie_value = v\<rparr>
          totals
      | Some existing \<Rightarrow>
          AList.update (ii_issuer_id issuer) (existing\<lparr>ie_value := fadd (ie_value existing) v\<rparr>) totals)"

record weighted_rows =
  wr_positions :: "position_entry list"
  wr_issuers :: "issuer_entry list"
  wr_covered :: nat
  wr_total :: nat

definition weight_row ::
  "issuer_map \<Rightarrow> (string, issuer_entry) dict \<times> nat \<times> nat \<Rightarrow> position_entry \<Rightarrow>
     (string, issuer_entry) dict \<times> nat \<times> nat"
where
  "weight_row m acc row =
     (case acc of (totals, covered, counted) \<Rightarrow>
        (case issuer_of m row of
           None \<Rightarrow> (totals, covered, counted + 1)
         | Some issuer \<Rightarrow> (add_to_issuer totals issuer (po_value row), covered + 1, counted + 1)))"

definition to_weighted_values :: "position_entry list \<Rightarrow> issuer_map \<Rightarrow> weighted_rows" where
  "to_weighted_values rows m =
     (case foldl (weight_row m) ([], 0, 0) rows of (totals, covered, counted) \<Rightarrow>
        \<lparr>wr_positions = rows, wr_issuers = map snd totals, wr_covered = covered, wr_total = counted\<rparr>)"

section \<open>Rows of a lotus-core snapshot\<close>

text \<open>\<open>Inl reason\<close> is the \<open>ValueError\<close> or \<open>TypeError\<close> raised, by its text.\<close>

definition snapshot_market_value :: "json_object \<Rightarrow> (string, f64 option) result" where
  "snapshot_market_value position =
     (case json_get position ''market_value_base'' of
        JNull \<Rightarrow> Inl ''missing_market_value_base''
      | raw \<Rightarrow>
          (case decimal_of_json raw of
             FiniteDecimal q \<Rightarrow> Inr (if 0 < q then Some (rnd q) else None)
           | _ \<Rightarrow> Inl ''invalid_market_value_base''))"

definition snapshot_position_entry :: "json_object \<Rightarrow> (string, position_entry option) result" where
  "snapshot_position_entry position =
     bind_result (snapshot_market_value position) (\<lambda>candidate.
       case candidate of
         None \<Rightarrow> Inr None
       | Some v \<Rightarrow> Inr (Some \<lparr>po_security_id = as_str (json_get position ''security_id''),
           po_security_name = as_str (json_get position ''instrument_name''), po_value = v\<rparr>))"

text \<open>What a \<open>for\<close> loop over the value meets: rows, or the \<open>TypeError\<close> of a value it cannot iterate.\<close>

definition not_iterable :: "string \<Rightarrow> string" where
  "not_iterable type_name = [CHR 0x27] @ type_name @ [CHR 0x27] @ '' object is not iterable''"

definition iterate_positions :: "json \<Rightarrow> (string, json list) result" where
  "iterate_positions v =
     (case v of
        JArray rows \<Rightarrow> Inr rows
      | JString s \<Rightarrow> Inr (map (\<lambda>c. JString [c]) s)
      | JObject kvs \<Rightarrow> Inr (map (\<lambda>(k, x). JString k) kvs)
      | JBool b \<Rightarrow> Inl (not_iterable ''bool'')
      | JInt n \<Rightarrow> Inl (not_iterable ''int'')
      | JNull \<Rightarrow> Inl (not_iterable ''NoneType'')
      | _ \<Rightarrow> Inl (not_iterable ''float''))"

fun extract_rows ::
  "issuer_map \<Rightarrow> json list \<Rightarrow> position_entry list \<times> (string, issuer_entry) dict \<times> nat \<times> nat \<Rightarrow>
     (string, position_entry list \<times> (string, issuer_entry) dict \<times> nat \<times> nat) result"
where
  "extract_rows m [] acc = Inr acc"
| "extract_rows m (v # vs) (entries, totals, covered, counted) =
     (case v of
        JObject position \<Rightarrow>
          bind_result (snapshot_position_entry position) (\<lambda>candidate.
            case candidate of
              None \<Rightarrow> extract_rows m vs (entries, totals, covered, counted)
            | Some e \<Rightarrow>
                (case issuer_of m e of
                   None \<Rightarrow> extract_rows m vs (entries @ [e], totals, covered, counted + 1)
                 | Some issuer \<Rightarrow>
                     extract_rows m vs (entries @ [e], add_to_issuer totals issuer (po_value e),
                       covered + 1, counted + 1)))
      | _ \<Rightarrow> Inl ''invalid_position_row'')"

definition extract_values_with_issuer_from_snapshot ::
  "json \<Rightarrow> issuer_map \<Rightarrow> (string, weighted_rows) result"
where
  "extract_values_with_issuer_from_snapshot positions m =
     (if \<not> json_truthy positions
      then Inr \<lparr>wr_positions = [], wr_issuers = [], wr_covered = 0, wr_total = 0\<rparr>
      else bind_result (iterate_positions positions) (\<lambda>rows.
        bind_result (extract_rows m rows ([], [], 0, 0)) (\<lambda>(entries, totals, covered, counted).
          Inr \<lparr>wr_positions = entries, wr_issuers = map snd totals, wr_covered = covered,
            wr_total = counted\<rparr>)))"

section \<open>Extraction is weighting\<close>

definition parse_position :: "json \<Rightarrow> (string, position_entry option) result" where
  "parse_position v = (case v of JObject position \<Rightarrow> snapshot_position_entry position
     | _ \<Rightarrow> Inl ''invalid_position_row'')"

definition present :: "'a option list \<Rightarrow> 'a list" where
  "present xs = List.map_filter id xs"

lemma present_simps [simp]:
  "present [] = []" "present (None # xs) = present xs" "present (Some x # xs) = x # present xs"
  by (simp_all add: present_def map_filter_simps)

lemma extract_rows_weighs:
  "extract_rows m vs (entries, acc) =
     bind_result (map_result parse_position vs) (\<lambda>os.
       Inr (entries @ present os, foldl (weight_row m) acc (present os)))"
proof (induction vs arbitrary: entries acc)
  case Nil
  then show ?case by simp
next
  case (Cons v vs)
  obtain totals covered counted where acc: "acc = (totals, covered, counted)" by (cases acc) auto
  show ?case
  proof (cases "parse_position v")
    case (Inl e)
    then show ?thesis by (cases v) (auto simp: acc parse_position_def)
  next
    case (Inr candidate)
    then obtain position where v: "v = JObject position"
      "snapshot_position_entry position = Inr candidate"
      by (cases v) (auto simp: parse_position_def)
    show ?thesis
    proof (cases candidate)
      case None
      then show ?thesis
        using v Inr Cons.IH [of entries acc]
        by (cases "map_result parse_position vs") (simp_all add: acc)
    next
      case (Some e)
      then show ?thesis
        using v Inr Cons.IH [of "entries @ [e]" "weight_row m acc e"]
        by (cases "map_result parse_position vs"; cases "issuer_of m e") (simp_all add: acc weight_row_def)
    qed
  qed
qed

text \<open>Reading the positions of a snapshot in one pass, parsing and grouping each row as it comes,
  is parsing every row and then grouping the accepted ones as a stateless payload's rows are grouped;
  one unreadable row refuses the section with that row's reason, wherever the loop stood.\<close>

theorem snapshot_extraction_is_weighting:
  "extract_values_with_issuer_from_snapshot (JArray rows) m =
     bind_result (map_result parse_position rows) (\<lambda>os. Inr (to_weighted_values (present os) m))"
proof (cases "rows = []")
  case True
  then show ?thesis
    by (simp add: extract_values_with_issuer_from_snapshot_def to_weighted_values_def)
next
  case False
  then show ?thesis
    by (cases "map_result parse_position rows")
      (auto simp: extract_values_with_issuer_from_snapshot_def iterate_positions_def
        extract_rows_weighs to_weighted_values_def split: prod.splits)
qed

section \<open>The groups\<close>

definition group_value :: "f64 list \<Rightarrow> f64" where
  "group_value vs = (case vs of [] \<Rightarrow> 0 | v # ws \<Rightarrow> foldl fadd v ws)"

definition rows_of :: "issuer_map \<Rightarrow> string \<Rightarrow> position_entry list \<Rightarrow> position_entry list" where
  "rows_of m i rows = filter (\<lambda>r. \<exists>identity. issuer_of m r = Some identity \<and> ii_issuer_id identity = i) rows"

definition mapped_rows :: "issuer_map \<Rightarrow> position_entry list \<Rightarrow> position_entry list" where
  "mapped_rows m rows = filter (\<lambda>r. issuer_of m r \<noteq> None) rows"

definition grouping_inv ::
  "issuer_map \<Rightarrow> position_entry list \<Rightarrow> (string, issuer_entry) dict \<times> nat \<times> nat \<Rightarrow> bool"
where
  "grouping_inv m rows acc =
     (case acc of (totals, covered, counted) \<Rightarrow>
        distinct (map fst totals) \<and> counted = length rows \<and> covered = length (mapped_rows m rows) \<and>
        (\<forall>i e. map_of totals i = Some e \<longrightarrow> ie_issuer_id e = Some i \<and> rows_of m i rows \<noteq> [] \<and>
           ie_value e = group_value (map po_value (rows_of m i rows))) \<and>
        (\<forall>i. map_of totals i = None \<longrightarrow> rows_of m i rows = []))"

lemma group_value_single [simp]: "group_value [v] = v"
  by (simp add: group_value_def)

lemma group_value_snoc: "vs \<noteq> [] \<Longrightarrow> group_value (vs @ [v]) = fadd (group_value vs) v"
  by (cases vs) (simp_all add: group_value_def)

lemma rows_of_snoc:
  "rows_of m i (rows @ [r]) = rows_of m i rows @
     (if \<exists>identity. issuer_of m r = Some identity \<and> ii_issuer_id identity = i then [r] else [])"
  by (simp add: rows_of_def)

lemma grouping_inv_step:
  assumes "grouping_inv m rows acc"
  shows "grouping_inv m (rows @ [r]) (weight_row m acc r)"
proof -
  obtain totals covered counted where acc: "acc = (totals, covered, counted)" by (cases acc) auto
  show ?thesis
  proof (cases "issuer_of m r")
    case None
    then show ?thesis
      using assms by (simp add: acc grouping_inv_def weight_row_def mapped_rows_def rows_of_snoc)
  next
    case (Some identity)
    then show ?thesis
      using assms
      by (cases "map_of totals (ii_issuer_id identity)")
        (auto simp: acc grouping_inv_def weight_row_def add_to_issuer_def mapped_rows_def rows_of_snoc
          update_conv distinct_update group_value_snoc)
  qed
qed

lemma grouping_inv_rows: "grouping_inv m rows (foldl (weight_row m) ([], 0, 0) rows)"
proof (induction rows rule: rev_induct)
  case Nil
  then show ?case by (simp add: grouping_inv_def mapped_rows_def rows_of_def)
next
  case (snoc r rows)
  then show ?case by (simp add: grouping_inv_step)
qed

text \<open>Grouping counts every row once and covers exactly the rows whose security has an issuer;
  no issuer appears twice, each issuer's value is the running float sum of exactly its rows' values in
  their order, and every issuer of a row appears.\<close>

theorem grouping_partitions_rows:
  "case to_weighted_values rows m of w \<Rightarrow>
     wr_positions w = rows \<and> wr_total w = length rows \<and> wr_covered w = length (mapped_rows m rows) \<and>
     distinct (map ie_issuer_id (wr_issuers w)) \<and>
     (\<forall>i. Some i \<in> ie_issuer_id ` set (wr_issuers w) \<longleftrightarrow> rows_of m i rows \<noteq> []) \<and>
     list_all (\<lambda>e. ie_value e = group_value (map po_value (rows_of m (the (ie_issuer_id e)) rows)))
       (wr_issuers w)"
proof -
  obtain totals covered counted
    where run: "foldl (weight_row m) ([], 0, 0) rows = (totals, covered, counted)"
    by (cases "foldl (weight_row m) ([], 0, 0) rows") auto
  have inv: "distinct (map fst totals)" "counted = length rows" "covered = length (mapped_rows m rows)"
    "\<And>i e. map_of totals i = Some e \<Longrightarrow> ie_issuer_id e = Some i \<and> rows_of m i rows \<noteq> [] \<and>
       ie_value e = group_value (map po_value (rows_of m i rows))"
    "\<And>i. map_of totals i = None \<Longrightarrow> rows_of m i rows = []"
    using grouping_inv_rows [of m rows] by (auto simp: run grouping_inv_def)
  have entry: "ie_issuer_id e = Some i \<and> rows_of m i rows \<noteq> [] \<and>
      ie_value e = group_value (map po_value (rows_of m i rows))" if "(i, e) \<in> set totals" for i e
    using inv(4) map_of_is_SomeI [OF inv(1) that] by blast
  have ids: "map ie_issuer_id (map snd totals) = map Some (map fst totals)"
    using entry by (auto simp: comp_def)
  have members: "Some i \<in> ie_issuer_id ` set (map snd totals) \<longleftrightarrow> rows_of m i rows \<noteq> []" for i
  proof -
    have "Some i \<in> ie_issuer_id ` set (map snd totals) \<longleftrightarrow> i \<in> fst ` set totals"
      by (metis (no_types, lifting) ids image_eqI imageE list.set_map option.inject)
    also have "\<dots> \<longleftrightarrow> map_of totals i \<noteq> None" by (simp add: map_of_eq_None_iff)
    also have "\<dots> \<longleftrightarrow> rows_of m i rows \<noteq> []" using inv(4) inv(5) by fastforce
    finally show ?thesis .
  qed
  have "distinct (map ie_issuer_id (map snd totals))"
    unfolding ids using inv(1) by (auto simp: distinct_map intro: comp_inj_on)
  moreover have "list_all (\<lambda>e. ie_value e =
      group_value (map po_value (rows_of m (the (ie_issuer_id e)) rows))) (map snd totals)"
    using entry by (auto simp: list_all_iff)
  ultimately show ?thesis
    using inv(2,3) members by (simp add: to_weighted_values_def run)
qed

end
