(* ===== verification/Upstream.thy ===== *)
theory Upstream
  imports Main Json Authority
begin

text \<open>
  Downstream calls: upstream_errors.py, integrations/upstream_operations.py,
  upstream_error_classification.py, downstream_request_execution.py, lotus_core_transport.py and
  lotus_core_operations.py.  The peer at the other end of a call is a parameter: it answers each
  request, with everything sent before it in view.  What the service does is a trace of events:
  requests sent, requests recorded for operators, and pauses.
\<close>

named_theorems io_simps \<open>evaluation of computations over a trace\<close>
named_theorems emits_intros \<open>what a computation appends to its trace\<close>

section \<open>Errors\<close>

record upstream_error =
  ue_service :: string
  ue_operation :: string
  ue_status_code :: int
  ue_code :: string
  ue_message :: string
  ue_details :: "(string, json) dict"
  ue_retryable :: bool

text \<open>
  What a calculation may raise.  \<open>UpstreamServiceError\<close> is a \<open>ValueError\<close> of its own; the refusal of a
  tenant is not a \<open>ValueError\<close>, and \<open>Escaped\<close> is an exception of another class, given by its name, that
  no handler of the service answers.
\<close>

datatype calculation_error =
  UpstreamFailure upstream_error | PlainValueError string | AuthorityRefused tenant_authority_error
| Escaped string

definition is_value_error :: "calculation_error \<Rightarrow> bool" where
  "is_value_error e = (case e of AuthorityRefused _ \<Rightarrow> False | Escaped _ \<Rightarrow> False | _ \<Rightarrow> True)"

definition dependency_details ::
  "string \<Rightarrow> string \<Rightarrow> string \<Rightarrow> (string, json) dict \<Rightarrow> (string, json) dict"
where
  "dependency_details service operation category extra =
     dict_update [(''service'', JString service), (''operation'', JString operation),
       (''category'', JString category)] extra"

definition invalid_upstream_payload ::
  "string \<Rightarrow> string \<Rightarrow> string \<Rightarrow> (string, json) dict \<Rightarrow> upstream_error"
where
  "invalid_upstream_payload service operation message details =
     \<lparr>ue_service = service, ue_operation = operation, ue_status_code = 502,
      ue_code = ''UPSTREAM_INVALID_RESPONSE'', ue_message = message,
      ue_details = dependency_details service operation ''invalid_response'' details,
      ue_retryable = False\<rparr>"

definition missing_upstream_data ::
  "string \<Rightarrow> string \<Rightarrow> string \<Rightarrow> (string, json) dict \<Rightarrow> upstream_error"
where
  "missing_upstream_data service operation message details =
     \<lparr>ue_service = service, ue_operation = operation, ue_status_code = 424,
      ue_code = ''FAILED_DEPENDENCY'', ue_message = message,
      ue_details = dependency_details service operation ''data_gap'' details,
      ue_retryable = False\<rparr>"

section \<open>Classification\<close>

record http_error_profile =
  hp_response_status :: int
  hp_code :: string
  hp_category :: string
  hp_verb :: string
  hp_retryable :: bool

definition upstream_http_error_profile :: "int \<Rightarrow> http_error_profile" where
  "upstream_http_error_profile upstream_status =
     (if upstream_status = 429 then
        \<lparr>hp_response_status = 503, hp_code = ''UPSTREAM_THROTTLED'', hp_category = ''throttled'',
         hp_verb = ''throttled'', hp_retryable = True\<rparr>
      else if 500 \<le> upstream_status then
        \<lparr>hp_response_status = 502, hp_code = ''UPSTREAM_FAILURE'', hp_category = ''upstream_failure'',
         hp_verb = ''failed'', hp_retryable = True\<rparr>
      else
        \<lparr>hp_response_status = 424, hp_code = ''FAILED_DEPENDENCY'', hp_category = ''rejected_request'',
         hp_verb = ''rejected request'', hp_retryable = False\<rparr>)"

definition classify_upstream_http_error :: "string \<Rightarrow> string \<Rightarrow> int \<Rightarrow> upstream_error" where
  "classify_upstream_http_error service operation upstream_status =
     (let profile = upstream_http_error_profile upstream_status in
      \<lparr>ue_service = service, ue_operation = operation, ue_status_code = hp_response_status profile,
       ue_code = hp_code profile,
       ue_message = service @ '' '' @ operation @ '' '' @ hp_verb profile @ '' ('' @
         str_int upstream_status @ '')'',
       ue_details = dependency_details service operation (hp_category profile)
         [(''upstream_status_code'', JInt upstream_status)],
       ue_retryable = hp_retryable profile\<rparr>)"

text \<open>A request that got no response: \<open>httpx.TimeoutException\<close>, or another \<open>httpx.HTTPError\<close>.\<close>

datatype transport_error = TimedOut | TransportFailed

definition classify_upstream_transport_error ::
  "string \<Rightarrow> string \<Rightarrow> transport_error \<Rightarrow> upstream_error"
where
  "classify_upstream_transport_error service operation e =
     (case e of
        TimedOut \<Rightarrow>
          \<lparr>ue_service = service, ue_operation = operation, ue_status_code = 504,
           ue_code = ''UPSTREAM_TIMEOUT'', ue_message = service @ '' '' @ operation @ '' timed out'',
           ue_details = dependency_details service operation ''timeout'' [], ue_retryable = True\<rparr>
      | TransportFailed \<Rightarrow>
          \<lparr>ue_service = service, ue_operation = operation, ue_status_code = 503,
           ue_code = ''UPSTREAM_UNAVAILABLE'', ue_message = service @ '' '' @ operation @ '' unavailable'',
           ue_details = dependency_details service operation ''transport'' [], ue_retryable = True\<rparr>)"

section \<open>Traces\<close>

record http_call =
  hc_method :: string
  hc_url :: string
  hc_body :: "json option"
  hc_headers :: "(string, string) dict"

record observation =
  ob_dependency :: string
  ob_operation :: string
  ob_outcome :: string
  ob_category :: string

datatype event = Sent http_call | Recorded observation | Paused f64

type_synonym trace = "event list"

text \<open>A body that is not JSON is given by the text of the \<open>ValueError\<close> that \<open>response.json()\<close> raises.\<close>

datatype http_body = JsonBody json | NotJson string
datatype http_reply = Response int http_body | NoResponse transport_error

type_synonym http_peer = "trace \<Rightarrow> http_reply"
type_synonym 'a io = "trace \<Rightarrow> (calculation_error, 'a) result \<times> trace"

definition return_io :: "'a \<Rightarrow> 'a io" where
  "return_io x t = (Inr x, t)"

definition raise_io :: "calculation_error \<Rightarrow> 'a io" where
  "raise_io e t = (Inl e, t)"

definition bind_io :: "'a io \<Rightarrow> ('a \<Rightarrow> 'b io) \<Rightarrow> 'b io" where
  "bind_io m f t = (case m t of (Inl e, u) \<Rightarrow> (Inl e, u) | (Inr x, u) \<Rightarrow> f x u)"

definition lift_io :: "(calculation_error, 'a) result \<Rightarrow> 'a io" where
  "lift_io r t = (r, t)"

definition emit_event :: "event \<Rightarrow> unit io" where
  "emit_event e t = (Inr (), t @ [e])"

definition send_request :: "http_peer \<Rightarrow> http_call \<Rightarrow> http_reply io" where
  "send_request peer call t = (Inr (peer (t @ [Sent call])), t @ [Sent call])"

lemma io_basic_simps [simp, io_simps]:
  "return_io x t = (Inr x, t)" "raise_io e t = (Inl e, t)" "lift_io r t = (r, t)"
  "emit_event ev t = (Inr (), t @ [ev])"
  "send_request peer call t = (Inr (peer (t @ [Sent call])), t @ [Sent call])"
  by (simp_all add: return_io_def raise_io_def lift_io_def emit_event_def send_request_def)

lemma bind_io_simps [simp, io_simps]:
  "bind_io (return_io x) f = f x" "bind_io (raise_io e) f = raise_io e"
  "bind_io (lift_io (Inl e)) f = raise_io e" "bind_io (lift_io (Inr x)) f = f x"
  by (simp_all add: bind_io_def fun_eq_iff)

lemma bind_io_assoc: "bind_io (bind_io m f) g = bind_io m (\<lambda>x. bind_io (f x) g)"
  by (simp add: bind_io_def fun_eq_iff split: prod.splits sum.splits)

lemma bind_io_Inr_iff [result_simps]:
  "bind_io m f t = (Inr y, u) \<longleftrightarrow> (\<exists>x v. m t = (Inr x, v) \<and> f x v = (Inr y, u))"
  by (auto simp: bind_io_def split: prod.splits sum.splits)

lemma bind_io_InrE:
  assumes "bind_io m f t = (Inr y, u)"
  obtains x v where "m t = (Inr x, v)" "f x v = (Inr y, u)"
  using assms by (auto simp: bind_io_Inr_iff)

section \<open>What is appended\<close>

text \<open>A computation only extends its trace, and every event it adds satisfies \<open>P\<close>.\<close>

definition emits :: "(event \<Rightarrow> bool) \<Rightarrow> 'a io \<Rightarrow> bool" where
  "emits P m \<longleftrightarrow> (\<forall>t. \<exists>es. snd (m t) = t @ es \<and> list_all P es)"

lemma emitsE:
  assumes "emits P m"
  obtains es where "snd (m t) = t @ es" "list_all P es"
  using assms by (auto simp: emits_def)

lemma emits_bind [emits_intros]:
  assumes m: "emits P m" and f: "\<And>x. emits P (f x)"
  shows "emits P (bind_io m f)"
proof -
  have "\<exists>es. snd (bind_io m f t) = t @ es \<and> list_all P es" for t
  proof -
    obtain es where es: "snd (m t) = t @ es" "list_all P es" by (rule emitsE [OF m])
    show ?thesis
    proof (cases "m t")
      case (Pair r u)
      have u: "u = t @ es" using es(1) by (simp add: Pair)
      show ?thesis
      proof (cases r)
        case (Inl e)
        then show ?thesis using es u by (auto simp: bind_io_def Pair)
      next
        case (Inr x)
        obtain fs where "snd (f x u) = u @ fs" "list_all P fs" by (rule emitsE [OF f])
        then have "snd (bind_io m f t) = t @ (es @ fs)" "list_all P (es @ fs)"
          using es u by (simp_all add: bind_io_def Pair Inr)
        then show ?thesis by blast
      qed
    qed
  qed
  then show ?thesis by (simp add: emits_def)
qed

lemma emits_basic [emits_intros]:
  "emits P (return_io x)" "emits P (raise_io e)" "emits P (lift_io r)"
  "P ev \<Longrightarrow> emits P (emit_event ev)" "P (Sent call) \<Longrightarrow> emits P (send_request peer call)"
  by (simp_all add: emits_def)

lemma emits_case_option [emits_intros]:
  "(x = None \<Longrightarrow> emits P a) \<Longrightarrow> (\<And>y. x = Some y \<Longrightarrow> emits P (b y)) \<Longrightarrow>
     emits P (case x of None \<Rightarrow> a | Some y \<Rightarrow> b y)"
  by (cases x) auto

lemma emits_if [emits_intros]:
  "(c \<Longrightarrow> emits P a) \<Longrightarrow> (\<not> c \<Longrightarrow> emits P b) \<Longrightarrow> emits P (if c then a else b)"
  by simp

lemma emits_mono: "emits P m \<Longrightarrow> (\<And>e. P e \<Longrightarrow> Q e) \<Longrightarrow> emits Q m"
  unfolding emits_def by (metis list.pred_mono_strong)

text \<open>The requests among the events, and computations that make at most \<open>n\<close> of them.\<close>

definition requests_in :: "trace \<Rightarrow> nat" where
  "requests_in es = length (filter (\<lambda>ev. case ev of Sent _ \<Rightarrow> True | _ \<Rightarrow> False) es)"

lemma requests_in_simps [simp]:
  "requests_in [] = 0" "requests_in (Sent c # es) = Suc (requests_in es)"
  "requests_in (Recorded r # es) = requests_in es" "requests_in (Paused d # es) = requests_in es"
  "requests_in (es @ fs) = requests_in es + requests_in fs"
  by (simp_all add: requests_in_def)

lemma requests_in_zero: "(\<forall>c. Sent c \<notin> set es) \<Longrightarrow> requests_in es = 0"
  by (induction es) (auto simp: requests_in_def split: event.splits)

definition sent_calls :: "trace \<Rightarrow> http_call list" where
  "sent_calls es = List.map_filter (\<lambda>ev. case ev of Sent c \<Rightarrow> Some c | _ \<Rightarrow> None) es"

lemma sent_calls_simps [simp]:
  "sent_calls [] = []" "sent_calls (Sent c # es) = c # sent_calls es"
  "sent_calls (Recorded r # es) = sent_calls es" "sent_calls (Paused d # es) = sent_calls es"
  "sent_calls (es @ fs) = sent_calls es @ sent_calls fs"
  by (simp_all add: sent_calls_def map_filter_simps List.map_filter_def)

lemma sent_calls_Nil: "(\<forall>c. Sent c \<notin> set es) \<Longrightarrow> sent_calls es = []"
  by (induction es) (auto simp: sent_calls_def map_filter_simps split: event.splits)

definition at_most :: "nat \<Rightarrow> 'a io \<Rightarrow> bool" where
  "at_most n m \<longleftrightarrow> (\<forall>t. requests_in (snd (m t)) \<le> requests_in t + n)"

lemma at_most_bind:
  assumes "at_most a m" "\<And>x. at_most b (f x)" "a + b \<le> n"
  shows "at_most n (bind_io m f)"
proof -
  have "requests_in (snd (bind_io m f t)) \<le> requests_in t + n" for t
  proof (cases "m t")
    case (Pair r u)
    have u: "requests_in u \<le> requests_in t + a" using assms(1) Pair by (metis at_most_def snd_conv)
    show ?thesis
    proof (cases r)
      case (Inl e)
      then show ?thesis using u assms(3) by (simp add: bind_io_def Pair)
    next
      case (Inr x)
      have "requests_in (snd (f x u)) \<le> requests_in u + b" using assms(2) by (simp add: at_most_def)
      then show ?thesis using u assms(3) by (simp add: bind_io_def Pair Inr)
    qed
  qed
  then show ?thesis by (simp add: at_most_def)
qed

lemma at_most_basic [emits_intros]:
  "at_most n (return_io x)" "at_most n (raise_io e)" "at_most n (lift_io r)"
  "at_most n (emit_event (Paused d))" "at_most n (emit_event (Recorded r'))"
  by (simp_all add: at_most_def)

lemma at_most_if [emits_intros]:
  "(c \<Longrightarrow> at_most n a) \<Longrightarrow> (\<not> c \<Longrightarrow> at_most n b) \<Longrightarrow> at_most n (if c then a else b)"
  by simp

lemma at_most_mono: "at_most a m \<Longrightarrow> a \<le> b \<Longrightarrow> at_most b m"
  unfolding at_most_def by (meson add_left_mono le_trans)

section \<open>Executing a request\<close>

definition record_upstream_request :: "string \<Rightarrow> string \<Rightarrow> string \<Rightarrow> string \<Rightarrow> unit io" where
  "record_upstream_request dependency operation outcome category =
     emit_event (Recorded \<lparr>ob_dependency = dependency, ob_operation = operation,
       ob_outcome = outcome, ob_category = category\<rparr>)"

text \<open>\<open>str(category or exc.code)\<close>.\<close>

definition failure_category :: "upstream_error \<Rightarrow> string" where
  "failure_category e =
     (case map_of (ue_details e) ''category'' of
        Some (JString (c # cs)) \<Rightarrow> c # cs
      | _ \<Rightarrow> ue_code e)"

definition raise_recorded_upstream_error :: "string \<Rightarrow> string \<Rightarrow> upstream_error \<Rightarrow> 'a io" where
  "raise_recorded_upstream_error dependency operation e =
     bind_io (record_upstream_request dependency operation ''failure'' (failure_category e))
       (\<lambda>_. raise_io (UpstreamFailure e))"

text \<open>\<open>raise_for_status\<close> raises for every status that is not a success.\<close>

definition execute_downstream_request ::
  "http_peer \<Rightarrow> string \<Rightarrow> string \<Rightarrow> http_call \<Rightarrow> int list \<Rightarrow> (int \<times> http_body) io"
where
  "execute_downstream_request peer dependency operation call accepted =
     bind_io (send_request peer call) (\<lambda>reply.
       case reply of
         Response status body \<Rightarrow>
           if status \<in> set accepted \<or> 200 \<le> status \<and> status < 300 then return_io (status, body)
           else raise_recorded_upstream_error dependency operation
             (classify_upstream_http_error dependency operation status)
       | NoResponse e \<Rightarrow>
           raise_recorded_upstream_error dependency operation
             (classify_upstream_transport_error dependency operation e))"

type_synonym 'a parse = "int \<Rightarrow> http_body \<Rightarrow> (calculation_error, 'a) result"

definition execute_downstream_request_json ::
  "http_peer \<Rightarrow> string \<Rightarrow> string \<Rightarrow> http_call \<Rightarrow> 'a parse \<Rightarrow> bool \<Rightarrow> int list \<Rightarrow> 'a io"
where
  "execute_downstream_request_json peer dependency operation call parse record_success accepted =
     bind_io (execute_downstream_request peer dependency operation call accepted) (\<lambda>(status, body).
       case parse status body of
         Inl (UpstreamFailure e) \<Rightarrow> raise_recorded_upstream_error dependency operation e
       | Inl e \<Rightarrow> raise_io e
       | Inr parsed \<Rightarrow>
           if record_success
           then bind_io (record_upstream_request dependency operation ''success'' ''ok'')
             (\<lambda>_. return_io parsed)
           else return_io parsed)"

text \<open>\<open>response.json()\<close>, and the check that it is an object.\<close>

definition response_json :: "http_body \<Rightarrow> (calculation_error, json) result" where
  "response_json body = (case body of JsonBody v \<Rightarrow> Inr v | NotJson m \<Rightarrow> Inl (PlainValueError m))"

definition dict_payload ::
  "string \<Rightarrow> string \<Rightarrow> string \<Rightarrow> http_body \<Rightarrow> (calculation_error, json_object) result"
where
  "dict_payload service operation invalid_message body =
     bind_result (response_json body) (\<lambda>payload.
       case payload of
         JObject kvs \<Rightarrow> Inr kvs
       | _ \<Rightarrow> Inl (UpstreamFailure (invalid_upstream_payload service operation invalid_message [])))"

section \<open>Failures are classified\<close>

lemma details_lookup [dict_simps]:
  "map_of (dependency_details service operation category extra) name =
     (case map_of (rev extra) name of
        Some v \<Rightarrow> Some v
      | None \<Rightarrow> map_of [(''service'', JString service), (''operation'', JString operation),
          (''category'', JString category)] name)"
  unfolding dependency_details_def map_of_dict_update
  by (cases "map_of (rev extra) name") simp_all

lemma category_of_errors [simp]:
  "failure_category (invalid_upstream_payload service operation message []) = ''invalid_response''"
  "failure_category (classify_upstream_http_error service operation status) =
     hp_category (upstream_http_error_profile status)"
  "failure_category (classify_upstream_transport_error service operation e) =
     (case e of TimedOut \<Rightarrow> ''timeout'' | TransportFailed \<Rightarrow> ''transport'')"
  by (simp_all add: failure_category_def invalid_upstream_payload_def classify_upstream_http_error_def
      classify_upstream_transport_error_def upstream_http_error_profile_def details_lookup Let_def
      split: transport_error.splits)

lemma emits_execute [emits_intros]:
  assumes "P (Sent call)" "\<And>outcome category. P (Recorded \<lparr>ob_dependency = dependency,
    ob_operation = operation, ob_outcome = outcome, ob_category = category\<rparr>)"
  shows "emits P (execute_downstream_request_json peer dependency operation call parse rs accepted)"
proof -
  have fail: "emits P (raise_recorded_upstream_error dependency operation e)" for e
    unfolding raise_recorded_upstream_error_def record_upstream_request_def
    by (intro emits_intros assms)
  have reply: "emits P (case reply of
      Response status body \<Rightarrow>
        if status \<in> set accepted \<or> 200 \<le> status \<and> status < 300 then return_io (status, body)
        else raise_recorded_upstream_error dependency operation
          (classify_upstream_http_error dependency operation status)
    | NoResponse e \<Rightarrow> raise_recorded_upstream_error dependency operation
          (classify_upstream_transport_error dependency operation e))" for reply
    by (cases reply) (auto intro: emits_intros fail)
  have parsed: "emits P (case parse status body of
      Inl (UpstreamFailure e) \<Rightarrow> raise_recorded_upstream_error dependency operation e
    | Inl e \<Rightarrow> raise_io e
    | Inr parsed \<Rightarrow>
        if rs then bind_io (record_upstream_request dependency operation ''success'' ''ok'')
          (\<lambda>_. return_io parsed)
        else return_io parsed)" for status body
    unfolding record_upstream_request_def
    by (cases "parse status body"; cases "projl (parse status body)")
      (auto intro!: emits_intros fail assms)
  show ?thesis
    unfolding execute_downstream_request_json_def execute_downstream_request_def
    by (intro emits_intros; (rule assms reply | (clarsimp simp: split_paired_all intro!: parsed)))
qed

lemma downstream_call_first:
  "\<exists>rest. snd (execute_downstream_request_json peer dependency operation call parse rs accepted t) =
     t @ Sent call # rest \<and> (\<forall>c. Sent c \<notin> set rest)"
  by (auto simp: execute_downstream_request_json_def execute_downstream_request_def bind_io_def
      raise_recorded_upstream_error_def record_upstream_request_def
      split: http_reply.splits sum.splits calculation_error.splits)

lemma sent_calls_execute:
  "execute_downstream_request_json peer dependency operation call parse rs accepted t = (r, u) \<Longrightarrow>
     sent_calls u = sent_calls t @ [call]"
  using downstream_call_first [of peer dependency operation call parse rs accepted t]
  by (auto simp: sent_calls_Nil)

lemma at_most_execute:
  "at_most 1 (execute_downstream_request_json peer dependency operation call parse rs accepted)"
proof -
  have "requests_in (snd (execute_downstream_request_json peer dependency operation call parse rs
      accepted t)) = requests_in t + 1" for t
    using downstream_call_first [of peer dependency operation call parse rs accepted t]
    by (auto simp: requests_in_zero)
  then show ?thesis by (simp add: at_most_def)
qed

lemma execute_json_Inr:
  assumes "execute_downstream_request_json peer dependency operation call parse rs accepted t = (Inr x, u)"
  shows "\<exists>status body rest. peer (t @ [Sent call]) = Response status body \<and>
    (status \<in> set accepted \<or> 200 \<le> status \<and> status < 300) \<and> parse status body = Inr x \<and>
    u = t @ Sent call # rest"
  using assms
  by (auto simp: execute_downstream_request_json_def execute_downstream_request_def bind_io_def
      raise_recorded_upstream_error_def record_upstream_request_def
      split: http_reply.splits sum.splits calculation_error.splits if_splits)

lemma execute_json_ok:
  assumes "peer (t @ [Sent call]) = Response status body" "parse status body = Inr x"
    "status \<in> set accepted \<or> 200 \<le> status \<and> status < 300"
  shows "execute_downstream_request_json peer dependency operation call parse False accepted t =
    (Inr x, t @ [Sent call])"
  using assms by (simp add: execute_downstream_request_json_def execute_downstream_request_def bind_io_def)

lemma dict_payload_Inr_iff:
  "dict_payload service operation message body = Inr kvs \<longleftrightarrow> body = JsonBody (JObject kvs)"
  by (cases body) (auto simp: dict_payload_def response_json_def split: json.splits)

definition retryable_reply :: "http_reply \<Rightarrow> bool" where
  "retryable_reply reply =
     (case reply of NoResponse _ \<Rightarrow> True | Response status _ \<Rightarrow> status = 429 \<or> 500 \<le> status)"

definition success_status :: "int \<Rightarrow> bool" where
  "success_status status \<longleftrightarrow> 200 \<le> status \<and> status < 300"

text \<open>What the peer answered to a call, after everything sent before it: a success with an object.\<close>

definition json_reply :: "http_peer \<Rightarrow> trace \<Rightarrow> http_call \<Rightarrow> json_object \<Rightarrow> bool" where
  "json_reply peer t call answer \<longleftrightarrow>
     (\<exists>status. peer (t @ [Sent call]) = Response status (JsonBody (JObject answer)) \<and> success_status status)"

lemma execute_json_reply:
  assumes "execute_downstream_request_json peer dependency operation call
    (\<lambda>_. dict_payload dependency operation message) record_success [] t = (Inr answer, u)"
  shows "json_reply peer t call answer" "\<exists>rest. u = t @ Sent call # rest \<and> sent_calls rest = []"
proof -
  show "json_reply peer t call answer"
    using execute_json_Inr [OF assms] by (auto simp: json_reply_def dict_payload_Inr_iff success_status_def)
  show "\<exists>rest. u = t @ Sent call # rest \<and> sent_calls rest = []"
    using downstream_call_first [of peer dependency operation call "\<lambda>_. dict_payload dependency operation message"
        record_success "[]" t] assms
    by (auto intro: sent_calls_Nil)
qed

text \<open>The events of a request that was answered: it is sent first, nothing else is sent, and this is its answer.\<close>

definition call_answered :: "http_peer \<Rightarrow> trace \<Rightarrow> http_call \<Rightarrow> json_object \<Rightarrow> event list \<Rightarrow> bool" where
  "call_answered peer t call answer events \<longleftrightarrow>
     json_reply peer t call answer \<and> (\<exists>rest. events = Sent call # rest \<and> sent_calls rest = [])"

lemma execute_call_answered:
  assumes "execute_downstream_request_json peer dependency operation call
    (\<lambda>_. dict_payload dependency operation message) record_success [] t = (Inr answer, u)"
  shows "\<exists>events. u = t @ events \<and> call_answered peer t call answer events"
  using execute_json_reply [OF assms] by (auto simp: call_answered_def)

lemma call_answered_sends: "call_answered peer t call answer events \<Longrightarrow> sent_calls events = [call]"
  by (auto simp: call_answered_def)

lemma request_outcome:
  "case execute_downstream_request_json peer dependency operation call
      (\<lambda>_. dict_payload dependency operation message) True [] t of
     (Inr kvs, u) \<Rightarrow>
       (\<exists>status. peer (t @ [Sent call]) = Response status (JsonBody (JObject kvs)) \<and> success_status status) \<and>
       u = t @ [Sent call, Recorded \<lparr>ob_dependency = dependency, ob_operation = operation,
         ob_outcome = ''success'', ob_category = ''ok''\<rparr>]
   | (Inl (UpstreamFailure e), u) \<Rightarrow>
       (\<forall>status kvs. peer (t @ [Sent call]) \<noteq> Response status (JsonBody (JObject kvs)) \<or>
          \<not> success_status status) \<and>
       (ue_retryable e \<longleftrightarrow> retryable_reply (peer (t @ [Sent call]))) \<and>
       ue_status_code e \<in> {424, 502, 503, 504} \<and>
       map_of (ue_details e) ''service'' = Some (JString dependency) \<and>
       map_of (ue_details e) ''operation'' = Some (JString operation) \<and>
       map_of (ue_details e) ''category'' = Some (JString (failure_category e)) \<and>
       u = t @ [Sent call, Recorded \<lparr>ob_dependency = dependency, ob_operation = operation,
         ob_outcome = ''failure'', ob_category = failure_category e\<rparr>]
   | (Inl e, u) \<Rightarrow> u = t @ [Sent call] \<and>
       (\<exists>status m. e = PlainValueError m \<and>
          peer (t @ [Sent call]) = Response status (NotJson m) \<and> success_status status)"
proof (cases "peer (t @ [Sent call])")
  case (NoResponse e)
  then show ?thesis
    by (cases e) (simp_all add: execute_downstream_request_json_def execute_downstream_request_def
        bind_io_def raise_recorded_upstream_error_def record_upstream_request_def details_lookup
        classify_upstream_transport_error_def failure_category_def retryable_reply_def)
next
  case (Response status body)
  show ?thesis
  proof (cases "success_status status")
    case False
    then have "\<not> (200 \<le> status \<and> status < 300)" by (simp add: success_status_def)
    with Response False show ?thesis
      by (auto simp: execute_downstream_request_json_def execute_downstream_request_def
          bind_io_def raise_recorded_upstream_error_def record_upstream_request_def details_lookup
          classify_upstream_http_error_def upstream_http_error_profile_def failure_category_def
          retryable_reply_def Let_def)
  next
    case True
    then have st: "200 \<le> status" "status < 300" "status \<noteq> 429" "\<not> 500 \<le> status"
      by (simp_all add: success_status_def)
    show ?thesis
    proof (cases body)
      case (NotJson m)
      with Response True st show ?thesis
        by (simp add: execute_downstream_request_json_def execute_downstream_request_def
            bind_io_def dict_payload_def response_json_def)
    next
      case (JsonBody v)
      with Response True st show ?thesis
        by (cases v) (simp_all add: execute_downstream_request_json_def execute_downstream_request_def
            bind_io_def dict_payload_def response_json_def raise_recorded_upstream_error_def
            record_upstream_request_def invalid_upstream_payload_def details_lookup
            failure_category_def retryable_reply_def)
    qed
  qed
qed

text \<open>A downstream request for an object sends one call and answers with the object exactly when
  the response is a success with a JSON object as its body.  Every other response, and none at all, is
  an upstream error, recorded once under its category and naming dependency and operation: a caller may
  retry it exactly when there was no response, the dependency throttled or it failed, and the status
  is 424, 502, 503 or 504.  The one exception is a success whose body is no JSON: the parser's own
  error leaves the service, neither classified nor recorded.\<close>

theorem downstream_request_outcome:
  "case execute_downstream_request_json peer dependency operation call
      (\<lambda>_. dict_payload dependency operation message) True [] t of
     (Inr kvs, u) \<Rightarrow>
       (\<exists>status. peer (t @ [Sent call]) = Response status (JsonBody (JObject kvs)) \<and> success_status status) \<and>
       u = t @ [Sent call, Recorded \<lparr>ob_dependency = dependency, ob_operation = operation,
         ob_outcome = ''success'', ob_category = ''ok''\<rparr>]
   | (Inl (UpstreamFailure e), u) \<Rightarrow>
       (\<forall>status kvs. peer (t @ [Sent call]) \<noteq> Response status (JsonBody (JObject kvs)) \<or>
          \<not> success_status status) \<and>
       (ue_retryable e \<longleftrightarrow> retryable_reply (peer (t @ [Sent call]))) \<and>
       ue_status_code e \<in> {424, 502, 503, 504} \<and>
       map_of (ue_details e) ''service'' = Some (JString dependency) \<and>
       map_of (ue_details e) ''operation'' = Some (JString operation) \<and>
       map_of (ue_details e) ''category'' = Some (JString (failure_category e)) \<and>
       u = t @ [Sent call, Recorded \<lparr>ob_dependency = dependency, ob_operation = operation,
         ob_outcome = ''failure'', ob_category = failure_category e\<rparr>]
   | (Inl e, u) \<Rightarrow> u = t @ [Sent call] \<and>
       (\<exists>status m. e = PlainValueError m \<and>
          peer (t @ [Sent call]) = Response status (NotJson m) \<and> success_status status)"
  by (rule request_outcome)

end
