(* ===== verification/CoreClient.thy ===== *)
theory CoreClient
  imports Main Upstream
begin

text \<open>
  The lotus-core client: integrations/lotus_core_client.py over lotus_core_operations.py and
  lotus_core_transport.py.  A client is its peer and its base URL; who owns the connection pool
  makes no difference to what is sent.
\<close>

section \<open>Operations\<close>

definition LOTUS_CORE_CREATE_SIMULATION_SESSION_OPERATION :: string where
  "LOTUS_CORE_CREATE_SIMULATION_SESSION_OPERATION = ''/simulation-sessions''"

definition LOTUS_CORE_ADD_SIMULATION_CHANGES_OPERATION :: string where
  "LOTUS_CORE_ADD_SIMULATION_CHANGES_OPERATION = ''/simulation-sessions/{session_id}/changes''"

definition LOTUS_CORE_SNAPSHOT_OPERATION :: string where
  "LOTUS_CORE_SNAPSHOT_OPERATION = ''/integration/portfolios/{portfolio_id}/core-snapshot''"

definition LOTUS_CORE_INSTRUMENT_ENRICHMENT_OPERATION :: string where
  "LOTUS_CORE_INSTRUMENT_ENRICHMENT_OPERATION = ''/integration/instruments/enrichment-bulk''"

definition LOTUS_CORE_POSITION_TIMESERIES_OPERATION :: string where
  "LOTUS_CORE_POSITION_TIMESERIES_OPERATION =
     ''/integration/portfolios/{portfolio_id}/analytics/position-timeseries''"

definition LOTUS_CORE_RISK_FREE_SERIES_OPERATION :: string where
  "LOTUS_CORE_RISK_FREE_SERIES_OPERATION = ''/integration/reference/risk-free-series''"

definition LOTUS_CORE_RISK_FREE_COVERAGE_OPERATION :: string where
  "LOTUS_CORE_RISK_FREE_COVERAGE_OPERATION = ''/integration/reference/risk-free-series/coverage''"

section \<open>Transport\<close>

record core_client =
  cc_peer :: http_peer
  cc_base_url :: string

definition execute_with_client ::
  "core_client \<Rightarrow> string \<Rightarrow> string \<Rightarrow> string \<Rightarrow> json_object \<Rightarrow> (string, string) dict \<Rightarrow> json_object io"
where
  "execute_with_client client http_method path operation payload headers =
     execute_downstream_request_json (cc_peer client) ''lotus-core'' operation
       \<lparr>hc_method = http_method, hc_url = cc_base_url client @ path, hc_body = Some (JObject payload),
        hc_headers = headers\<rparr>
       (\<lambda>_. dict_payload ''lotus-core'' operation
         (''lotus-core returned invalid JSON payload for '' @ path)) True []"

definition tenant_scoped_headers ::
  "downstream_authority \<Rightarrow> (string, string) dict \<Rightarrow> (string, string) dict"
where
  "tenant_scoped_headers authority extra = dict_update extra (downstream_authority_headers authority)"

definition execute_lotus_core_tenant_scoped_request ::
  "core_client \<Rightarrow> string \<Rightarrow> string \<Rightarrow> string \<Rightarrow> json_object \<Rightarrow> downstream_authority \<Rightarrow>
     (string, string) dict \<Rightarrow> json_object io"
where
  "execute_lotus_core_tenant_scoped_request client http_method path operation payload authority extra =
     execute_with_client client http_method path operation payload
       (tenant_scoped_headers authority extra)"

definition execute_lotus_core_json_request ::
  "core_client \<Rightarrow> string \<Rightarrow> string \<Rightarrow> string \<Rightarrow> json_object \<Rightarrow> string option \<Rightarrow>
     downstream_authority option \<Rightarrow> (string, string) dict \<Rightarrow> json_object io"
where
  "execute_lotus_core_json_request client http_method path operation payload correlation_id authority extra =
     execute_with_client client http_method path operation payload
       (case authority of
          Some a \<Rightarrow> tenant_scoped_headers a extra
        | None \<Rightarrow>
            if str_truthy correlation_id
            then AList.update ''X-Correlation-Id'' (the correlation_id) extra else extra)"

section \<open>Payloads\<close>

definition RISK_CONSUMER_SYSTEM :: string where
  "RISK_CONSUMER_SYSTEM = ''lotus-risk''"

definition risk_core_payload :: "json_object \<Rightarrow> (calculation_error, json_object) result" where
  "risk_core_payload payload =
     (case map_of payload ''consumer_system'' of
        Some v \<Rightarrow>
          if v \<noteq> JString RISK_CONSUMER_SYSTEM
          then Inl (PlainValueError ''Core consumer disagrees with lotus-risk.'')
          else Inr (AList.update ''consumer_system'' (JString RISK_CONSUMER_SYSTEM) payload)
      | None \<Rightarrow> Inr (AList.update ''consumer_system'' (JString RISK_CONSUMER_SYSTEM) payload))"

definition risk_core_snapshot_payload ::
  "json_object \<Rightarrow> downstream_authority \<Rightarrow> (calculation_error, json_object) result"
where
  "risk_core_snapshot_payload payload authority =
     (if (case map_of payload ''tenant_id'' of
            None \<Rightarrow> False | Some v \<Rightarrow> v \<noteq> JString (da_tenant_id authority))
      then Inl (PlainValueError ''Core snapshot tenant disagrees with admitted authority.'')
      else bind_result (risk_core_payload payload) (\<lambda>p.
        Inr (AList.update ''tenant_id'' (JString (da_tenant_id authority)) p)))"

definition build_simulation_session_payload ::
  "string \<Rightarrow> int option \<Rightarrow> string option \<Rightarrow> json_object"
where
  "build_simulation_session_payload portfolio_id ttl_hours created_by =
     [(''portfolio_id'', JString portfolio_id)] @
     (case ttl_hours of None \<Rightarrow> [] | Some h \<Rightarrow> [(''ttl_hours'', JInt h)]) @
     (if str_truthy created_by then [(''created_by'', JString (the created_by))] else [])"

section \<open>Requests\<close>

definition create_simulation_session ::
  "core_client \<Rightarrow> string \<Rightarrow> int option \<Rightarrow> string option \<Rightarrow> downstream_authority \<Rightarrow> json_object io"
where
  "create_simulation_session client portfolio_id ttl_hours created_by authority =
     execute_lotus_core_tenant_scoped_request client ''POST'' ''/simulation-sessions''
       LOTUS_CORE_CREATE_SIMULATION_SESSION_OPERATION
       (build_simulation_session_payload portfolio_id ttl_hours created_by) authority []"

definition add_simulation_changes ::
  "core_client \<Rightarrow> string \<Rightarrow> json list \<Rightarrow> downstream_authority \<Rightarrow> string \<Rightarrow> string \<Rightarrow> json_object io"
where
  "add_simulation_changes client session_id changes authority idempotency_key change_set_fingerprint =
     execute_lotus_core_tenant_scoped_request client ''POST''
       (''/simulation-sessions/'' @ session_id @ ''/changes'')
       LOTUS_CORE_ADD_SIMULATION_CHANGES_OPERATION [(''changes'', JArray changes)] authority
       [(''Idempotency-Key'', idempotency_key),
        (''X-Lotus-Change-Set-Fingerprint'', change_set_fingerprint)]"

definition snapshot_path :: "string \<Rightarrow> string" where
  "snapshot_path portfolio_id = ''/integration/portfolios/'' @ portfolio_id @ ''/core-snapshot''"

definition get_core_snapshot ::
  "core_client \<Rightarrow> string \<Rightarrow> json_object \<Rightarrow> downstream_authority \<Rightarrow> json_object io"
where
  "get_core_snapshot client portfolio_id request_payload authority =
     bind_io (lift_io (risk_core_snapshot_payload request_payload authority)) (\<lambda>payload.
       execute_lotus_core_tenant_scoped_request client ''POST'' (snapshot_path portfolio_id)
         LOTUS_CORE_SNAPSHOT_OPERATION payload authority [])"

definition get_instrument_enrichment ::
  "core_client \<Rightarrow> string list \<Rightarrow> string option \<Rightarrow> json_object io"
where
  "get_instrument_enrichment client security_ids correlation_id =
     execute_lotus_core_json_request client ''POST'' ''/integration/instruments/enrichment-bulk''
       LOTUS_CORE_INSTRUMENT_ENRICHMENT_OPERATION
       [(''security_ids'', JArray (map JString security_ids))] correlation_id None []"

definition get_position_analytics_timeseries ::
  "core_client \<Rightarrow> string \<Rightarrow> json_object \<Rightarrow> downstream_authority \<Rightarrow> json_object io"
where
  "get_position_analytics_timeseries client portfolio_id request_payload authority =
     bind_io (lift_io (risk_core_payload request_payload)) (\<lambda>payload.
       execute_lotus_core_tenant_scoped_request client ''POST''
         (''/integration/portfolios/'' @ portfolio_id @ ''/analytics/position-timeseries'')
         LOTUS_CORE_POSITION_TIMESERIES_OPERATION payload authority [])"

definition get_risk_free_series ::
  "core_client \<Rightarrow> json_object \<Rightarrow> downstream_authority \<Rightarrow> json_object io"
where
  "get_risk_free_series client request_payload authority =
     execute_lotus_core_json_request client ''POST'' ''/integration/reference/risk-free-series''
       LOTUS_CORE_RISK_FREE_SERIES_OPERATION request_payload (da_correlation_id authority)
       (Some authority) []"

definition get_risk_free_coverage ::
  "core_client \<Rightarrow> string \<Rightarrow> json_object \<Rightarrow> downstream_authority \<Rightarrow> json_object io"
where
  "get_risk_free_coverage client currency request_payload authority =
     execute_lotus_core_json_request client ''POST''
       (''/integration/reference/risk-free-series/coverage?currency='' @ currency)
       LOTUS_CORE_RISK_FREE_COVERAGE_OPERATION request_payload (da_correlation_id authority)
       (Some authority) []"

section \<open>Tenant binding\<close>

text \<open>The event sends nothing, or sends under this authority.\<close>

definition under_authority :: "downstream_authority \<Rightarrow> event \<Rightarrow> bool" where
  "under_authority authority ev =
     (case ev of
        Sent call \<Rightarrow>
          map_of (hc_headers call) TENANT_ID_HEADER = Some (da_tenant_id authority) \<and>
          (\<forall>c. da_correlation_id authority = Some c \<and> c \<noteq> [] \<longrightarrow>
             map_of (hc_headers call) CORRELATION_ID_HEADER = Some c)
      | _ \<Rightarrow> True)"

lemma map_of_authority_headers [dict_simps]:
  "map_of (rev (downstream_authority_headers a)) TENANT_ID_HEADER = Some (da_tenant_id a)"
  "da_correlation_id a = Some c \<Longrightarrow> c \<noteq> [] \<Longrightarrow>
     map_of (rev (downstream_authority_headers a)) CORRELATION_ID_HEADER = Some c"
  by (auto simp: downstream_authority_headers_def TENANT_ID_HEADER_def CORRELATION_ID_HEADER_def
      Let_def split: option.splits)

lemma tenant_scoped_under_authority:
  "hc_headers call = tenant_scoped_headers a extra \<Longrightarrow> under_authority a (Sent call)"
  by (auto simp: under_authority_def tenant_scoped_headers_def map_of_dict_update map_of_authority_headers)

lemma emits_client [emits_intros]:
  assumes "P (Sent \<lparr>hc_method = http_method, hc_url = cc_base_url client @ path,
      hc_body = Some (JObject payload), hc_headers = headers\<rparr>)"
    "\<And>outcome category. P (Recorded \<lparr>ob_dependency = ''lotus-core'', ob_operation = operation,
      ob_outcome = outcome, ob_category = category\<rparr>)"
  shows "emits P (execute_with_client client http_method path operation payload headers)"
  unfolding execute_with_client_def by (intro emits_execute assms)

lemma at_most_client: "at_most 1 (execute_with_client client http_method path operation payload headers)"
  unfolding execute_with_client_def by (rule at_most_execute)

lemma at_most_core_reads:
  "at_most 1 (get_position_analytics_timeseries client portfolio_id payload authority)"
  "at_most 1 (get_instrument_enrichment client security_ids correlation_id)"
  unfolding get_position_analytics_timeseries_def get_instrument_enrichment_def
    execute_lotus_core_tenant_scoped_request_def execute_lotus_core_json_request_def
  by (rule at_most_bind [where a = 0 and b = 1], rule emits_intros, rule at_most_client, simp)
    (rule at_most_client)

lemma emits_tenant_scoped:
  "emits (under_authority a)
     (execute_lotus_core_tenant_scoped_request client http_method path operation payload a extra)"
  unfolding execute_lotus_core_tenant_scoped_request_def
  by (intro emits_client) (simp_all add: tenant_scoped_under_authority, simp add: under_authority_def)

lemma core_calls_under_authority [emits_intros]:
  "emits (under_authority a) (create_simulation_session client portfolio_id ttl created_by a)"
  "emits (under_authority a) (add_simulation_changes client session_id changes a key fingerprint)"
  "emits (under_authority a) (get_core_snapshot client portfolio_id payload a)"
  "emits (under_authority a) (get_position_analytics_timeseries client portfolio_id payload a)"
  unfolding create_simulation_session_def add_simulation_changes_def get_core_snapshot_def
    get_position_analytics_timeseries_def
  by (intro emits_intros emits_tenant_scoped)+

lemma risk_core_snapshot_payload_iff:
  "risk_core_snapshot_payload payload a = Inr p \<longleftrightarrow>
     map_of payload ''tenant_id'' \<in> {None, Some (JString (da_tenant_id a))} \<and>
     map_of payload ''consumer_system'' \<in> {None, Some (JString RISK_CONSUMER_SYSTEM)} \<and>
     p = AList.update ''tenant_id'' (JString (da_tenant_id a))
       (AList.update ''consumer_system'' (JString RISK_CONSUMER_SYSTEM) payload)"
  by (auto simp: risk_core_snapshot_payload_def risk_core_payload_def split: option.splits if_splits)

text \<open>A snapshot request names one tenant: the tenant in its body and the one in its headers are
  the admitted authority's, and it names lotus-risk as its consumer; a payload that names another
  tenant or another consumer is refused and nothing is sent.\<close>

theorem snapshot_request_names_one_tenant:
  "if map_of payload ''tenant_id'' \<in> {None, Some (JString (da_tenant_id a))} \<and>
      map_of payload ''consumer_system'' \<in> {None, Some (JString RISK_CONSUMER_SYSTEM)}
   then \<exists>call kvs rest. snd (get_core_snapshot client portfolio_id payload a t) = t @ Sent call # rest \<and>
     hc_body call = Some (JObject kvs) \<and> map_of kvs ''tenant_id'' = Some (JString (da_tenant_id a)) \<and>
     map_of kvs ''consumer_system'' = Some (JString RISK_CONSUMER_SYSTEM) \<and>
     map_of (hc_headers call) TENANT_ID_HEADER = Some (da_tenant_id a) \<and>
     (\<forall>c. Sent c \<notin> set rest)
   else \<exists>m. get_core_snapshot client portfolio_id payload a t = (Inl (PlainValueError m), t)"
proof (cases "risk_core_snapshot_payload payload a")
  case (Inl e)
  then obtain m where "e = PlainValueError m"
    by (auto simp: risk_core_snapshot_payload_def risk_core_payload_def split: option.splits if_splits)
  with Inl show ?thesis
    using risk_core_snapshot_payload_iff [of payload a]
    by (auto simp: get_core_snapshot_def)
next
  case (Inr p)
  let ?call = "\<lparr>hc_method = ''POST'', hc_url = cc_base_url client @ snapshot_path portfolio_id,
    hc_body = Some (JObject p), hc_headers = tenant_scoped_headers a []\<rparr>"
  have p: "map_of p ''tenant_id'' = Some (JString (da_tenant_id a))"
    "map_of p ''consumer_system'' = Some (JString RISK_CONSUMER_SYSTEM)"
    using Inr by (auto simp: risk_core_snapshot_payload_iff update_conv)
  have "map_of (hc_headers ?call) TENANT_ID_HEADER = Some (da_tenant_id a)"
    by (simp add: tenant_scoped_headers_def map_of_dict_update map_of_authority_headers)
  moreover have "\<exists>rest. snd (get_core_snapshot client portfolio_id payload a t) = t @ Sent ?call # rest \<and>
      (\<forall>c. Sent c \<notin> set rest)"
    using downstream_call_first [of "cc_peer client" "''lotus-core''"] Inr
    by (simp add: get_core_snapshot_def execute_lotus_core_tenant_scoped_request_def
        execute_with_client_def)
  ultimately show ?thesis
    using p Inr by (auto simp: risk_core_snapshot_payload_iff)
qed

end
