(* ===== verification/ConcentrationSession.thy ===== *)
theory ConcentrationSession
  imports Main ConcentrationInputs CoreClient
begin

text \<open>
  Simulation sessions of lotus-core: services/concentration/simulation_session.py,
  upstream_contracts.py, lineage.py and audit_lineage.py.  The digests, SHA-256 over a canonical JSON
  text, and \<open>datetime.fromisoformat\<close> are parameters; a date and time is a text.
\<close>

definition SERVICE_NAME :: string where
  "SERVICE_NAME = ''lotus-risk''"

definition LOTUS_CORE_SERVICE :: string where
  "LOTUS_CORE_SERVICE = ''lotus-core''"

record audit_functions =
  af_fingerprint_payload :: "json \<Rightarrow> string"
  af_fingerprint_model :: "concentration_request \<Rightarrow> string"
  af_fromisoformat :: "string \<Rightarrow> string option"

section \<open>Invalid payloads of lotus-core\<close>

definition invalid_core_snapshot_payload :: "string \<Rightarrow> string \<Rightarrow> upstream_error" where
  "invalid_core_snapshot_payload snapshot_mode reason =
     invalid_upstream_payload LOTUS_CORE_SERVICE LOTUS_CORE_SNAPSHOT_OPERATION
       (''lotus-core concentration '' @ py_lower snapshot_mode @
        '' snapshot returned invalid response payload'')
       [(''snapshot_mode'', JString snapshot_mode), (''reason'', JString reason)]"

definition invalid_create_simulation_session_payload :: "string \<Rightarrow> upstream_error" where
  "invalid_create_simulation_session_payload reason =
     invalid_upstream_payload LOTUS_CORE_SERVICE LOTUS_CORE_CREATE_SIMULATION_SESSION_OPERATION
       ''lotus-core create simulation session returned invalid response payload''
       [(''reason'', JString reason)]"

section \<open>Reading\<close>

definition replace_Z :: "string \<Rightarrow> string" where
  "replace_Z s = concat (map (\<lambda>c. if c = CHR ''Z'' then ''+00:00'' else [c]) s)"

definition as_datetime :: "audit_functions \<Rightarrow> json \<Rightarrow> string option" where
  "as_datetime af v = (case v of JString s \<Rightarrow> af_fromisoformat af (replace_Z s) | _ \<Rightarrow> None)"

definition int_or :: "int option \<Rightarrow> int option \<Rightarrow> int option" where
  "int_or a b = (case a of None \<Rightarrow> b | Some n \<Rightarrow> if n = 0 then b else a)"

definition lift_value_error :: "(string, 'a) result \<Rightarrow> (calculation_error, 'a) result" where
  "lift_value_error r = (case r of Inl m \<Rightarrow> Inl (PlainValueError m) | Inr x \<Rightarrow> Inr x)"

section \<open>The session\<close>

record simulation_session =
  ss_session_id :: string
  ss_version :: "int option"
  ss_expires_at :: "string option"

definition created_simulation_session ::
  "audit_functions \<Rightarrow> json_object \<Rightarrow> (calculation_error, simulation_session) result"
where
  "created_simulation_session af response =
     (case json_get response ''session'' of
        JObject session_record \<Rightarrow>
          (case as_str (json_get session_record ''session_id'') of
             Some (c # cs) \<Rightarrow>
               bind_result (lift_value_error (as_int (json_get session_record ''version''))) (\<lambda>version.
                 Inr \<lparr>ss_session_id = c # cs, ss_version = version,
                   ss_expires_at = as_datetime af (json_get session_record ''expires_at'')\<rparr>)
           | _ \<Rightarrow> Inl (UpstreamFailure
               (invalid_create_simulation_session_payload ''missing_session_id'')))
      | _ \<Rightarrow> Inl (UpstreamFailure
          (invalid_create_simulation_session_payload ''missing_session_record'')))"

definition should_create_session :: "simulation_input \<Rightarrow> bool" where
  "should_create_session simulation \<longleftrightarrow>
     sn_start_new_session simulation \<or> \<not> str_truthy (sn_session_id simulation)"

definition resolve_simulation_session ::
  "audit_functions \<Rightarrow> core_client \<Rightarrow> simulation_input \<Rightarrow> downstream_authority \<Rightarrow> string option \<Rightarrow>
     simulation_session io"
where
  "resolve_simulation_session af client simulation authority actor_id =
     (if should_create_session simulation then
        bind_io (create_simulation_session client (sf_portfolio_id simulation)
          (sn_session_ttl_hours simulation) (str_or actor_id (Some SERVICE_NAME)) authority)
          (\<lambda>response. lift_io (created_simulation_session af response))
      else
        (case sn_session_id simulation of
           None \<Rightarrow> raise_io (PlainValueError ''simulation session_id could not be resolved'')
         | Some session_id \<Rightarrow>
             return_io \<lparr>ss_session_id = session_id, ss_version = None, ss_expires_at = None\<rparr>))"

section \<open>Changes\<close>

definition SIMULATION_IDEMPOTENCY_KEY_MAX_LENGTH :: nat where
  "SIMULATION_IDEMPOTENCY_KEY_MAX_LENGTH = 128"

definition validate_simulation_idempotency_key :: "string option \<Rightarrow> (calculation_error, string) result" where
  "validate_simulation_idempotency_key idempotency_key =
     (let normalized = (case idempotency_key of None \<Rightarrow> [] | Some k \<Rightarrow> py_strip k) in
      if normalized = [] then Inl (PlainValueError
        ''Idempotency-Key header is required when simulation_input.simulation_changes is not empty'')
      else if SIMULATION_IDEMPOTENCY_KEY_MAX_LENGTH < length normalized then Inl (PlainValueError
        ''Idempotency-Key header must be 128 characters or fewer for concentration simulation'')
      else Inr normalized)"

text \<open>
  \<open>model_dump(mode="json", exclude_none=True)\<close> of a change: the fields that are set, in order.  The client's
  encoder refuses a number that is not finite; that refusal is not modelled.
\<close>

definition json_of_number :: "number_input \<Rightarrow> json" where
  "json_of_number v =
     (case v of
        Number x \<Rightarrow> JFloat x
      | PlusInfinity \<Rightarrow> JNonFinite PlusInfinite
      | MinusInfinity \<Rightarrow> JNonFinite MinusInfinite
      | NotANumber \<Rightarrow> JNonFinite QuietNaN)"

definition dump_field :: "string \<Rightarrow> ('a \<Rightarrow> json) \<Rightarrow> 'a option \<Rightarrow> json_object" where
  "dump_field name f v = (case v of None \<Rightarrow> [] | Some x \<Rightarrow> [(name, f x)])"

definition dump_change :: "simulation_change \<Rightarrow> json" where
  "dump_change change = JObject
     (dump_field ''security_id'' JString (Some (sg_security_id change)) @
      dump_field ''transaction_type'' JString (Some (sg_transaction_type change)) @
      dump_field ''quantity'' json_of_number (sg_quantity change) @
      dump_field ''price'' json_of_number (sg_price change) @
      dump_field ''amount'' json_of_number (sg_amount change) @
      dump_field ''currency'' JString (sg_currency change) @
      dump_field ''effective_date'' (\<lambda>d. JString (isoformat d)) (sg_effective_date change) @
      dump_field ''metadata'' JObject (sg_metadata change))"

definition change_set_fingerprint ::
  "audit_functions \<Rightarrow> simulation_session \<Rightarrow> simulation_input \<Rightarrow> json list \<Rightarrow> string"
where
  "change_set_fingerprint af session simulation changes =
     af_fingerprint_payload af (JObject
       [(''portfolio_id'', JString (sf_portfolio_id simulation)),
        (''session_id'', JString (ss_session_id session)), (''changes'', JArray changes)])"

definition apply_simulation_changes ::
  "audit_functions \<Rightarrow> core_client \<Rightarrow> simulation_input \<Rightarrow> simulation_session \<Rightarrow> downstream_authority \<Rightarrow>
     string option \<Rightarrow> simulation_session io"
where
  "apply_simulation_changes af client simulation session authority idempotency_key =
     (if sn_simulation_changes simulation = [] then return_io session
      else let payload = map dump_change (sn_simulation_changes simulation) in
        bind_io (lift_io (validate_simulation_idempotency_key idempotency_key)) (\<lambda>key.
        bind_io (add_simulation_changes client (ss_session_id session) payload authority key
          (change_set_fingerprint af session simulation payload)) (\<lambda>response.
        bind_io (lift_io (lift_value_error (as_int (json_get response ''version'')))) (\<lambda>version.
          return_io (session\<lparr>ss_version := int_or version (ss_version session)\<rparr>)))))"

text \<open>The key is checked before anything is sent.\<close>

definition resolve_applied_simulation_session ::
  "audit_functions \<Rightarrow> core_client \<Rightarrow> simulation_input \<Rightarrow> downstream_authority \<Rightarrow> string option \<Rightarrow>
     string option \<Rightarrow> simulation_session io"
where
  "resolve_applied_simulation_session af client simulation authority actor_id idempotency_key =
     bind_io (if sn_simulation_changes simulation \<noteq> []
              then bind_io (lift_io (validate_simulation_idempotency_key idempotency_key))
                (\<lambda>_. return_io ())
              else return_io ()) (\<lambda>_.
     bind_io (resolve_simulation_session af client simulation authority actor_id) (\<lambda>session.
       apply_simulation_changes af client simulation session authority idempotency_key))"

section \<open>The snapshot request\<close>

definition snapshot_options :: "'a stateful_input_scheme \<Rightarrow> json" where
  "snapshot_options s = JObject
     [(''include_zero_quantity_positions'', JBool (sf_include_zero_quantity_positions s)),
      (''include_cash_positions'', JBool (sf_include_cash_positions s)),
      (''position_basis'', JString ''market_value_base''),
      (''weight_basis'', JString ''total_market_value_base'')]"

definition reporting_currency_field :: "'a stateful_input_scheme \<Rightarrow> json_object" where
  "reporting_currency_field s =
     (if str_truthy (sf_reporting_currency s)
      then [(''reporting_currency'', JString (the (sf_reporting_currency s)))] else [])"

definition simulation_snapshot_payload :: "simulation_input \<Rightarrow> simulation_session \<Rightarrow> json_object" where
  "simulation_snapshot_payload simulation session =
     (let expected_version = int_or (sn_expected_version simulation) (ss_version session) in
      [(''as_of_date'', JString (isoformat (sf_as_of_date simulation))),
       (''snapshot_mode'', JString ''SIMULATION''),
       (''sections'', JArray (map JString [''positions_baseline'', ''positions_projected'',
          ''positions_delta'', ''portfolio_totals'', ''instrument_enrichment''])),
       (''simulation'', JObject ((''session_id'', JString (ss_session_id session)) #
          dump_field ''expected_version'' JInt expected_version)),
       (''options'', snapshot_options simulation)] @ reporting_currency_field simulation)"

definition stateful_snapshot_payload :: "stateful_input \<Rightarrow> json_object" where
  "stateful_snapshot_payload stateful =
     [(''as_of_date'', JString (isoformat (sf_as_of_date stateful))),
      (''snapshot_mode'', JString ''BASELINE''),
      (''sections'', JArray (map JString [''positions_baseline'', ''portfolio_totals'',
         ''instrument_enrichment''])),
      (''options'', snapshot_options stateful)] @ reporting_currency_field stateful"

definition session_with_snapshot_version ::
  "simulation_session \<Rightarrow> json_object \<Rightarrow> (calculation_error, simulation_session) result"
where
  "session_with_snapshot_version session snapshot =
     (case json_get snapshot ''simulation'' of
        JObject snapshot_simulation \<Rightarrow>
          bind_result (lift_value_error (as_int (json_get snapshot_simulation ''version''))) (\<lambda>version.
            Inr (session\<lparr>ss_version := int_or version (ss_version session)\<rparr>))
      | _ \<Rightarrow> Inr session)"

section \<open>Lineage\<close>

definition upstream_request_fingerprint ::
  "audit_functions \<Rightarrow> string \<Rightarrow> string \<Rightarrow> json \<Rightarrow> (string, string) dict"
where
  "upstream_request_fingerprint af service operation payload =
     [(service @ '':'' @ operation, af_fingerprint_payload af payload)]"

definition core_snapshot_upstream_fingerprint ::
  "audit_functions \<Rightarrow> string \<Rightarrow> json_object \<Rightarrow> (string, string) dict"
where
  "core_snapshot_upstream_fingerprint af portfolio_id snapshot_payload =
     upstream_request_fingerprint af LOTUS_CORE_SERVICE LOTUS_CORE_SNAPSHOT_OPERATION
       (JObject [(''portfolio_id'', JString portfolio_id), (''request_payload'', JObject snapshot_payload)])"

definition ordered_source_services :: "string list \<Rightarrow> string list" where
  "ordered_source_services services =
     foldl (\<lambda>ordered service. if service \<in> set ordered then ordered else ordered @ [service]) []
       (''lotus-risk'' # services)"

end
