(* ===== verification/ConcentrationResolvers.thy ===== *)
theory ConcentrationResolvers
  imports Main ConcentrationIssuers ConcentrationSession
begin

text \<open>
  From a request to the input of the computation: services/concentration/parsing.py (stateless
  payloads and valuation contexts), stateless_issuer_mapping.py, stateless_resolver.py,
  stateful_snapshot.py, resolvers.py, simulation_snapshot.py, simulation_resolver.py and metadata.py.
  The snapshot's sections are renamed in place by the code; here the renamed sections are passed on.
\<close>

section \<open>Contexts, metadata and the input of the computation\<close>

record valuation_context =
  vx_portfolio_currency :: "string option"
  vx_reporting_currency :: "string option"
  vx_position_basis :: "string option"
  vx_weight_basis :: "string option"

record concentration_metadata =
  cm_request_fingerprint :: string
  cm_source_services :: "string list"
  cm_upstream_request_fingerprints :: "(string, string) dict"
  cm_as_of_date :: "date option"
  cm_portfolio_id :: "string option"
  cm_correlation_id :: "string option"
  cm_simulation_session_id :: "string option"
  cm_simulation_session_version :: "int option"
  cm_session_expires_at :: "string option"
  cm_issuer_grouping_level :: issuer_grouping_level
  cm_enrichment_policy :: enrichment_policy
  cm_include_cash_positions :: "bool option"
  cm_include_zero_quantity_positions :: "bool option"

record computation_input =
  ci_input_mode :: input_mode
  ci_current_positions :: "position_entry list"
  ci_proposed_positions :: "position_entry list"
  ci_top_n :: int
  ci_current_issuers :: "issuer_entry list"
  ci_proposed_issuers :: "issuer_entry list"
  ci_covered_current :: nat
  ci_covered_proposed :: nat
  ci_total_current :: nat
  ci_total_proposed :: nat
  ci_use_current_when_proposed_empty :: bool
  ci_issuer_note :: "string option"
  ci_valuation_context :: "valuation_context option"
  ci_metadata :: concentration_metadata

definition build_metadata ::
  "audit_functions \<Rightarrow> concentration_request \<Rightarrow> string option \<Rightarrow> concentration_metadata"
where
  "build_metadata af request correlation_id =
     \<lparr>cm_request_fingerprint = af_fingerprint_model af request,
      cm_source_services = [''lotus-risk''], cm_upstream_request_fingerprints = [],
      cm_as_of_date = None, cm_portfolio_id = None, cm_correlation_id = correlation_id,
      cm_simulation_session_id = None, cm_simulation_session_version = None,
      cm_session_expires_at = None,
      cm_issuer_grouping_level = cq_issuer_grouping_level request,
      cm_enrichment_policy = cq_enrichment_policy request,
      cm_include_cash_positions = None, cm_include_zero_quantity_positions = None\<rparr>"

text \<open>What the modes that read a snapshot add: the portfolio, the source and the request's digest.\<close>

definition snapshot_metadata ::
  "audit_functions \<Rightarrow> concentration_request \<Rightarrow> 'a stateful_input_scheme \<Rightarrow> string option \<Rightarrow> json_object \<Rightarrow>
     concentration_metadata"
where
  "snapshot_metadata af request s correlation_id payload =
     (build_metadata af request correlation_id)
       \<lparr>cm_as_of_date := Some (sf_as_of_date s), cm_portfolio_id := Some (sf_portfolio_id s),
        cm_include_cash_positions := Some (sf_include_cash_positions s),
        cm_include_zero_quantity_positions := Some (sf_include_zero_quantity_positions s),
        cm_source_services := ordered_source_services [''lotus-core''],
        cm_upstream_request_fingerprints :=
          core_snapshot_upstream_fingerprint af (sf_portfolio_id s) payload\<rparr>"

definition extract_valuation_context :: "json \<Rightarrow> valuation_context option" where
  "extract_valuation_context raw =
     (case raw of
        JObject kvs \<Rightarrow>
          Some \<lparr>vx_portfolio_currency = as_str (json_get kvs ''portfolio_currency''),
            vx_reporting_currency = as_str (json_get kvs ''reporting_currency''),
            vx_position_basis = as_str (json_get kvs ''position_basis''),
            vx_weight_basis = as_str (json_get kvs ''weight_basis'')\<rparr>
      | _ \<Rightarrow> None)"

definition market_value_valuation_context :: "json \<Rightarrow> valuation_context option" where
  "market_value_valuation_context raw =
     map_option (\<lambda>c. c\<lparr>vx_position_basis := Some ''market_value_base'',
       vx_weight_basis := Some ''total_market_value_base''\<rparr>) (extract_valuation_context raw)"

section \<open>Stateless\<close>

definition to_decimal :: "number_input option \<Rightarrow> f64 option" where
  "to_decimal v = (case v of Some (Number x) \<Rightarrow> if 0 < x then Some x else None | _ \<Rightarrow> None)"

definition payload_rows ::
  "exposure_basis option \<Rightarrow> position_input list \<Rightarrow> position_entry list"
where
  "payload_rows basis positions =
     List.map_filter (\<lambda>p.
       map_option (\<lambda>v. \<lparr>po_security_id = Some (pi_security_id p), po_security_name = pi_security_name p,
         po_value = v\<rparr>)
         (to_decimal (if basis = Some MarketValueBase then pi_market_value p else pi_quantity p))) positions"

definition extract_values_from_stateless_payload ::
  "stateless_input \<Rightarrow> (string, position_entry list \<times> position_entry list) result"
where
  "extract_values_from_stateless_payload payload =
     bind_result (stateless_exposure_basis payload) (\<lambda>basis.
       Inr (payload_rows basis (sl_current_positions payload),
            payload_rows basis (projected_positions payload)))"

definition stateless_caller_issuer_maps ::
  "stateless_input \<Rightarrow> issuer_grouping_level \<Rightarrow> issuer_map \<times> issuer_map"
where
  "stateless_caller_issuer_maps payload level =
     (let current_map = issuer_map_from_positions (sl_current_positions payload) level in
      (current_map,
       dict_update current_map (issuer_map_from_positions (projected_positions payload) level)))"

definition stateless_security_ids :: "position_entry list \<Rightarrow> string list" where
  "stateless_security_ids rows = sorted_set (List.map_filter po_security_id rows)"

text \<open>\<open>except ValueError\<close>.\<close>

definition catch_value_error :: "'a io \<Rightarrow> 'a io \<Rightarrow> 'a io" where
  "catch_value_error m h t =
     (case m t of (Inl e, u) \<Rightarrow> if is_value_error e then h u else (Inl e, u) | r \<Rightarrow> r)"

definition stateless_core_issuer_map ::
  "concentration_request \<Rightarrow> position_entry list \<Rightarrow> core_client option \<Rightarrow> string option \<Rightarrow>
     (issuer_map \<times> string option) io"
where
  "stateless_core_issuer_map request rows client correlation_id =
     (if cq_enrichment_policy request = UseCallerOnly then return_io ([], None)
      else case client of
        None \<Rightarrow> return_io ([], None)
      | Some c \<Rightarrow>
          let security_ids = stateless_security_ids rows in
          if security_ids = [] then return_io ([], None)
          else catch_value_error
            (bind_io (get_instrument_enrichment c security_ids correlation_id) (\<lambda>payload.
              return_io (case json_get payload ''records'' of
                  JArray records \<Rightarrow>
                    (issuer_map_from_core_records records (cq_issuer_grouping_level request), None)
                | _ \<Rightarrow> ([], Some ''lotus-core enrichment payload missing records list''))))
            (return_io ([], Some ''lotus-core enrichment unavailable for stateless issuer mapping'')))"

record weighted_state =
  ws_current :: weighted_rows
  ws_proposed :: weighted_rows
  ws_issuer_note :: "string option"

definition weighted_stateless_state ::
  "position_entry list \<Rightarrow> position_entry list \<Rightarrow> issuer_map \<Rightarrow> issuer_map \<Rightarrow> string option \<Rightarrow> bool \<Rightarrow>
     weighted_state"
where
  "weighted_stateless_state current_rows proposed_rows current_map proposed_map issuer_note supplied =
     (let current = to_weighted_values current_rows current_map;
          proposed = to_weighted_values proposed_rows proposed_map
      in \<lparr>ws_current = current,
          ws_proposed = (if supplied then proposed else current),
          ws_issuer_note =
            (if issuer_note = None \<and> (0 < wr_total current \<or> 0 < wr_total proposed) \<and>
                wr_covered current = 0 \<and> wr_covered proposed = 0
             then Some ''issuer mapping unavailable for stateless payload'' else issuer_note)\<rparr>)"

definition stateless_valuation_context :: "exposure_basis option \<Rightarrow> valuation_context option" where
  "stateless_valuation_context basis =
     map_option (\<lambda>b.
       \<lparr>vx_portfolio_currency = None, vx_reporting_currency = None,
        vx_position_basis = Some (case b of MarketValueBase \<Rightarrow> ''market_value_base''
          | QuantityProxy \<Rightarrow> ''quantity_proxy''),
        vx_weight_basis = Some (case b of MarketValueBase \<Rightarrow> ''total_market_value_base''
          | QuantityProxy \<Rightarrow> ''total_quantity_proxy'')\<rparr>) basis"

text \<open>The input of a computation from the weighted rows of its two states.\<close>

definition computation_of ::
  "input_mode \<Rightarrow> int \<Rightarrow> weighted_rows \<Rightarrow> weighted_rows \<Rightarrow> bool \<Rightarrow> string option \<Rightarrow>
     valuation_context option \<Rightarrow> concentration_metadata \<Rightarrow> computation_input"
where
  "computation_of mode top_n current proposed use_current note context metadata =
     \<lparr>ci_input_mode = mode, ci_current_positions = wr_positions current,
      ci_proposed_positions = wr_positions proposed, ci_top_n = top_n,
      ci_current_issuers = wr_issuers current, ci_proposed_issuers = wr_issuers proposed,
      ci_covered_current = wr_covered current, ci_covered_proposed = wr_covered proposed,
      ci_total_current = wr_total current, ci_total_proposed = wr_total proposed,
      ci_use_current_when_proposed_empty = use_current, ci_issuer_note = note,
      ci_valuation_context = context, ci_metadata = metadata\<rparr>"

definition resolve_stateless ::
  "audit_functions \<Rightarrow> concentration_request \<Rightarrow> core_client option \<Rightarrow> string option \<Rightarrow> computation_input io"
where
  "resolve_stateless af request client correlation_id =
     (case cq_stateless_input request of
        None \<Rightarrow> raise_io (PlainValueError ''stateless_input is required when input_mode=stateless'')
      | Some payload \<Rightarrow>
          bind_io (lift_io (lift_value_error (extract_values_from_stateless_payload payload)))
            (\<lambda>(current_rows, proposed_rows).
          bind_io (stateless_core_issuer_map request (current_rows @ proposed_rows) client correlation_id)
            (\<lambda>(core_map, note).
          let maps = stateless_caller_issuer_maps payload (cq_issuer_grouping_level request);
              policy = cq_enrichment_policy request;
              state = weighted_stateless_state current_rows proposed_rows
                (merge_issuer_maps (fst maps) core_map policy)
                (merge_issuer_maps (snd maps) core_map policy) note (projection_supplied payload)
          in bind_io (lift_io (lift_value_error (stateless_exposure_basis payload))) (\<lambda>basis.
            return_io (computation_of Stateless (sl_top_n payload) (ws_current state) (ws_proposed state)
              (\<not> projection_supplied payload) (ws_issuer_note state)
              (stateless_valuation_context basis) (build_metadata af request correlation_id))))))"

section \<open>Snapshots\<close>

definition snapshot_sections :: "string \<Rightarrow> json_object \<Rightarrow> (calculation_error, json_object) result" where
  "snapshot_sections snapshot_mode snapshot =
     (case json_get snapshot ''sections'' of
        JObject sections \<Rightarrow> Inr sections
      | _ \<Rightarrow> Inl (UpstreamFailure (invalid_core_snapshot_payload snapshot_mode ''missing_sections'')))"

definition issuer_map_from_snapshot_sections ::
  "concentration_request \<Rightarrow> json_object \<Rightarrow> issuer_mapping_input list \<Rightarrow> issuer_map \<times> string option"
where
  "issuer_map_from_snapshot_sections request sections mappings =
     (case extract_issuer_map sections (cq_issuer_grouping_level request) of (core_map, note) \<Rightarrow>
        (merge_issuer_maps (caller_issuer_map mappings (cq_issuer_grouping_level request)) core_map
           (cq_enrichment_policy request), note))"

text \<open>Extraction with its \<open>TypeError\<close> or \<open>ValueError\<close> turned into an upstream error.\<close>

definition read_positions ::
  "string \<Rightarrow> json \<Rightarrow> issuer_map \<Rightarrow> (calculation_error, weighted_rows) result"
where
  "read_positions snapshot_mode positions issuers =
     (case extract_values_with_issuer_from_snapshot positions issuers of
        Inl reason \<Rightarrow> Inl (UpstreamFailure (invalid_core_snapshot_payload snapshot_mode reason))
      | Inr rows \<Rightarrow> Inr rows)"

definition resolve_stateful ::
  "audit_functions \<Rightarrow> concentration_request \<Rightarrow> core_client \<Rightarrow> downstream_authority \<Rightarrow> computation_input io"
where
  "resolve_stateful af request client authority =
     (case cq_stateful_input request of
        None \<Rightarrow> raise_io (PlainValueError ''stateful_input is required when input_mode=stateful'')
      | Some stateful \<Rightarrow>
          let payload = stateful_snapshot_payload stateful in
          bind_io (get_core_snapshot client (sf_portfolio_id stateful) payload authority) (\<lambda>snapshot.
          bind_io (lift_io (snapshot_sections ''BASELINE'' snapshot)) (\<lambda>sections0.
          let sections = apply_snapshot_display_names sections0;
              mapping = issuer_map_from_snapshot_sections request sections0
                (sf_issuer_mappings stateful)
          in bind_io (lift_io (read_positions ''BASELINE'' (json_get sections ''positions_baseline'') (fst mapping)))
            (\<lambda>rows.
            return_io (computation_of Stateful (sf_top_n stateful) rows rows True (snd mapping)
              (market_value_valuation_context (json_get snapshot ''valuation_context''))
              (snapshot_metadata af request stateful (da_correlation_id authority) payload))))))"

definition simulation_snapshot_state ::
  "json_object \<Rightarrow> issuer_map \<Rightarrow> (calculation_error, weighted_rows \<times> weighted_rows) result"
where
  "simulation_snapshot_state sections issuers =
     (case map_of sections ''positions_projected'' of
        None \<Rightarrow> Inl (UpstreamFailure
          (invalid_core_snapshot_payload ''SIMULATION'' ''missing_positions_projected''))
      | Some (JArray projected) \<Rightarrow>
          bind_result (read_positions ''SIMULATION'' (json_get sections ''positions_baseline'') issuers)
            (\<lambda>baseline_rows.
          bind_result (read_positions ''SIMULATION'' (JArray projected) issuers) (\<lambda>projected_rows.
            Inr (baseline_rows, projected_rows)))
      | Some _ \<Rightarrow> Inl (UpstreamFailure
          (invalid_core_snapshot_payload ''SIMULATION'' ''invalid_positions_projected'')))"

definition resolve_simulation ::
  "audit_functions \<Rightarrow> concentration_request \<Rightarrow> core_client \<Rightarrow> downstream_authority \<Rightarrow> string option \<Rightarrow>
     string option \<Rightarrow> computation_input io"
where
  "resolve_simulation af request client authority actor_id idempotency_key =
     (case cq_simulation_input request of
        None \<Rightarrow> raise_io (PlainValueError ''simulation_input is required when input_mode=simulation'')
      | Some simulation \<Rightarrow>
          bind_io (resolve_applied_simulation_session af client simulation authority actor_id
            idempotency_key) (\<lambda>session0.
          let payload = simulation_snapshot_payload simulation session0 in
          bind_io (get_core_snapshot client (sf_portfolio_id simulation) payload authority) (\<lambda>snapshot.
          bind_io (lift_io (snapshot_sections ''SIMULATION'' snapshot)) (\<lambda>sections0.
          let sections = apply_snapshot_display_names sections0;
              mapping = issuer_map_from_snapshot_sections request sections0
                (sf_issuer_mappings simulation)
          in bind_io (lift_io (simulation_snapshot_state sections (fst mapping))) (\<lambda>(baseline, projected).
             bind_io (lift_io (session_with_snapshot_version session0 snapshot)) (\<lambda>session.
            return_io (computation_of Simulation (sf_top_n simulation) baseline projected False (snd mapping)
              (market_value_valuation_context (json_get snapshot ''valuation_context''))
              ((snapshot_metadata af request simulation (da_correlation_id authority) payload)
                \<lparr>cm_simulation_session_id := Some (ss_session_id session),
                 cm_simulation_session_version := ss_version session,
                 cm_session_expires_at := ss_expires_at session\<rparr>))))))))"

section \<open>The calls of a simulation\<close>

definition core_post ::
  "core_client \<Rightarrow> string \<Rightarrow> json_object \<Rightarrow> downstream_authority \<Rightarrow> (string, string) dict \<Rightarrow> http_call"
where
  "core_post client path payload a extra =
     \<lparr>hc_method = ''POST'', hc_url = cc_base_url client @ path, hc_body = Some (JObject payload),
      hc_headers = tenant_scoped_headers a extra\<rparr>"

text \<open>
  The calls a simulation makes: a session where one is to be created, the changes where there are any,
  under the trimmed key and the digest of the change set, and the snapshot of that same session.
\<close>

definition create_calls ::
  "core_client \<Rightarrow> simulation_input \<Rightarrow> downstream_authority \<Rightarrow> string option \<Rightarrow> http_call list"
where
  "create_calls client s a actor =
     (if should_create_session s
      then [core_post client ''/simulation-sessions'' (build_simulation_session_payload
        (sf_portfolio_id s) (sn_session_ttl_hours s) (str_or actor (Some SERVICE_NAME))) a []]
      else [])"

definition change_calls ::
  "audit_functions \<Rightarrow> core_client \<Rightarrow> simulation_input \<Rightarrow> downstream_authority \<Rightarrow> string option \<Rightarrow>
     simulation_session \<Rightarrow> http_call list"
where
  "change_calls af client s a key session =
     (if sn_simulation_changes s = [] then []
      else [core_post client (''/simulation-sessions/'' @ ss_session_id session @ ''/changes'')
        [(''changes'', JArray (map dump_change (sn_simulation_changes s)))] a
        [(''Idempotency-Key'', py_strip (the key)),
         (''X-Lotus-Change-Set-Fingerprint'',
            change_set_fingerprint af session s (map dump_change (sn_simulation_changes s)))]])"

definition snapshot_call ::
  "core_client \<Rightarrow> simulation_input \<Rightarrow> downstream_authority \<Rightarrow> simulation_session \<Rightarrow> http_call"
where
  "snapshot_call client s a session =
     core_post client (snapshot_path (sf_portfolio_id s))
       (AList.update ''tenant_id'' (JString (da_tenant_id a))
         (AList.update ''consumer_system'' (JString RISK_CONSUMER_SYSTEM)
           (simulation_snapshot_payload s session))) a []"

text \<open>
  The session a simulation opens is the one whose creation was answered, and the caller's own where none is
  created; its changes are sent for that session, and give it the version of their answer.
\<close>

definition opened_session ::
  "audit_functions \<Rightarrow> core_client \<Rightarrow> simulation_input \<Rightarrow> downstream_authority \<Rightarrow> string option \<Rightarrow> trace \<Rightarrow>
     event list \<Rightarrow> simulation_session \<Rightarrow> bool"
where
  "opened_session af client s a actor t events session \<longleftrightarrow>
     (if should_create_session s
      then \<exists>call reply. create_calls client s a actor = [call] \<and> call_answered (cc_peer client) t call reply events \<and>
        created_simulation_session af reply = Inr session
      else events = [] \<and> sn_session_id s = Some (ss_session_id session) \<and> ss_version session = None \<and>
        ss_expires_at session = None)"

definition changed_session ::
  "audit_functions \<Rightarrow> core_client \<Rightarrow> simulation_input \<Rightarrow> downstream_authority \<Rightarrow> string option \<Rightarrow> trace \<Rightarrow>
     event list \<Rightarrow> simulation_session \<Rightarrow> simulation_session \<Rightarrow> bool"
where
  "changed_session af client s a key t events opened session \<longleftrightarrow>
     (if sn_simulation_changes s = [] then events = [] \<and> session = opened
      else \<exists>call reply version. change_calls af client s a key opened = [call] \<and>
        call_answered (cc_peer client) t call reply events \<and> as_int (json_get reply ''version'') = Inr version \<and>
        session = opened\<lparr>ss_version := int_or version (ss_version opened)\<rparr>)"

lemma tenant_scoped_answered:
  assumes "execute_lotus_core_tenant_scoped_request client ''POST'' path operation payload a extra t = (Inr answer, u)"
  shows "\<exists>events. u = t @ events \<and> call_answered (cc_peer client) t (core_post client path payload a extra) answer events"
  using execute_call_answered [OF assms [unfolded execute_lotus_core_tenant_scoped_request_def execute_with_client_def]]
  by (simp add: core_post_def)

lemma session_calls:
  assumes "resolve_simulation_session af client s a actor t = (Inr session, u)"
  shows "\<exists>events. u = t @ events \<and> opened_session af client s a actor t events session"
proof (cases "should_create_session s")
  case True
  then obtain reply where
    created: "create_simulation_session client (sf_portfolio_id s) (sn_session_ttl_hours s)
      (str_or actor (Some SERVICE_NAME)) a t = (Inr reply, u)" "created_simulation_session af reply = Inr session"
    using assms by (auto simp: resolve_simulation_session_def elim!: bind_io_InrE)
  from tenant_scoped_answered [OF created(1) [unfolded create_simulation_session_def]] created(2) True
  show ?thesis by (auto simp: opened_session_def create_calls_def)
next
  case False
  with assms show ?thesis by (auto simp: resolve_simulation_session_def opened_session_def split: option.splits)
qed

lemma valid_key_iff:
  "validate_simulation_idempotency_key key = Inr k \<longleftrightarrow>
     (\<exists>raw. key = Some raw \<and> k = py_strip raw \<and> k \<noteq> [] \<and> length k \<le> 128)"
  by (auto simp: validate_simulation_idempotency_key_def SIMULATION_IDEMPOTENCY_KEY_MAX_LENGTH_def
      Let_def split: option.splits)

lemma lift_value_error_Inr_iff: "lift_value_error r = Inr x \<longleftrightarrow> r = Inr x"
  by (cases r) (simp_all add: lift_value_error_def)

lemma applied_calls:
  assumes "apply_simulation_changes af client s opened a key t = (Inr session, u)"
  shows "\<exists>events. u = t @ events \<and> changed_session af client s a key t events opened session"
    "sn_simulation_changes s \<noteq> [] \<Longrightarrow> \<exists>k. validate_simulation_idempotency_key key = Inr k"
proof -
  have "(\<exists>events. u = t @ events \<and> changed_session af client s a key t events opened session) \<and>
      (sn_simulation_changes s \<noteq> [] \<longrightarrow> (\<exists>k. validate_simulation_idempotency_key key = Inr k))"
  proof (cases "sn_simulation_changes s = []")
    case True
    with assms show ?thesis by (simp add: apply_simulation_changes_def changed_session_def)
  next
    case False
    let ?changes = "map dump_change (sn_simulation_changes s)"
    from False assms obtain k reply version where key: "validate_simulation_idempotency_key key = Inr k"
      and add: "add_simulation_changes client (ss_session_id opened) ?changes a k
        (change_set_fingerprint af opened s ?changes) t = (Inr reply, u)"
      and version: "as_int (json_get reply ''version'') = Inr version"
        "session = opened\<lparr>ss_version := int_or version (ss_version opened)\<rparr>"
      by (auto simp: apply_simulation_changes_def Let_def lift_value_error_Inr_iff elim!: bind_io_InrE)
    from key have "change_calls af client s a key opened =
        [core_post client (''/simulation-sessions/'' @ ss_session_id opened @ ''/changes'') [(''changes'', JArray ?changes)] a
          [(''Idempotency-Key'', k), (''X-Lotus-Change-Set-Fingerprint'', change_set_fingerprint af opened s ?changes)]]"
      using False by (auto simp: change_calls_def valid_key_iff)
    with tenant_scoped_answered [OF add [unfolded add_simulation_changes_def]] key version False show ?thesis
      by (auto simp: changed_session_def)
  qed
  then show "\<exists>events. u = t @ events \<and> changed_session af client s a key t events opened session"
    "sn_simulation_changes s \<noteq> [] \<Longrightarrow> \<exists>k. validate_simulation_idempotency_key key = Inr k" by blast+
qed

lemma resolved_session_calls:
  assumes "resolve_applied_simulation_session af client s a actor key t = (Inr session, u)"
  obtains es fs opened where "u = t @ es @ fs" "opened_session af client s a actor t es opened"
    "changed_session af client s a key (t @ es) fs opened session"
    "sn_simulation_changes s \<noteq> [] \<Longrightarrow> \<exists>k. validate_simulation_idempotency_key key = Inr k"
proof -
  obtain opened v where
    created: "resolve_simulation_session af client s a actor t = (Inr opened, v)" and
    applied: "apply_simulation_changes af client s opened a key v = (Inr session, u)"
    using assms
    by (auto simp: resolve_applied_simulation_session_def split: if_splits elim!: bind_io_InrE)
  from session_calls [OF created] applied_calls [OF applied] that show thesis by fastforce
qed

lemma opened_session_sends:
  "opened_session af client s a actor t events session \<Longrightarrow> sent_calls events = create_calls client s a actor"
  by (auto simp: opened_session_def create_calls_def dest: call_answered_sends split: if_splits)

lemma changed_session_keeps:
  "changed_session af client s a key t events opened session \<Longrightarrow>
     ss_session_id session = ss_session_id opened \<and> ss_expires_at session = ss_expires_at opened"
  by (auto simp: changed_session_def split: if_splits)

lemma changed_session_sends:
  assumes "changed_session af client s a key t events opened session"
  shows "sent_calls events = change_calls af client s a key session"
proof -
  have "change_calls af client s a key session = change_calls af client s a key opened"
    using changed_session_keeps [OF assms] by (simp add: change_calls_def change_set_fingerprint_def)
  with assms show "sent_calls events = change_calls af client s a key session"
    by (auto simp: changed_session_def dest: call_answered_sends split: if_splits) (simp add: change_calls_def)
qed

lemma snapshot_payload_unnamed:
  "map_of (simulation_snapshot_payload s session) ''tenant_id'' = None"
  "map_of (simulation_snapshot_payload s session) ''consumer_system'' = None"
  by (simp_all add: simulation_snapshot_payload_def reporting_currency_field_def Let_def)

lemma snapshot_calls:
  assumes "get_core_snapshot client (sf_portfolio_id s) (simulation_snapshot_payload s session) a t = (Inr x, u)"
  shows "\<exists>events. u = t @ events \<and> call_answered (cc_peer client) t (snapshot_call client s a session) x events"
  using assms
  by (auto simp: get_core_snapshot_def snapshot_call_def result_simps risk_core_snapshot_payload_iff
      snapshot_payload_unnamed elim!: bind_io_InrE dest!: tenant_scoped_answered)

lemma session_kept:
  "session_with_snapshot_version session snapshot = Inr session' \<Longrightarrow>
     ss_session_id session' = ss_session_id session \<and> ss_expires_at session' = ss_expires_at session"
  by (auto simp: session_with_snapshot_version_def result_simps split: json.splits)

text \<open>C13: a simulation that is answered has made exactly these calls, in this order: the creation of a
  session where the request asks for one or names none, its changes where there are any, under the
  caller's trimmed replay key, and the snapshot of the same session.  That session is the one lotus-core's
  answer to the creation names, with its version and expiry, and the caller's own only where none was
  created; the changes give it the version they were answered with and the snapshot's answer the version
  that is reported with it.  A request with changes and no usable key is refused before anything is sent.\<close>

theorem simulation_call_order:
  "case resolve_simulation af (request\<lparr>cq_simulation_input := Some s\<rparr>) client a actor key t of
      (Inr p, u) \<Rightarrow> \<exists>es fs gs opened session snapshot reported.
        u = t @ es @ fs @ gs \<and> opened_session af client s a actor t es opened \<and>
        changed_session af client s a key (t @ es) fs opened session \<and>
        call_answered (cc_peer client) (t @ es @ fs) (snapshot_call client s a session) snapshot gs \<and>
        session_with_snapshot_version session snapshot = Inr reported \<and>
        sent_calls u = sent_calls t @ create_calls client s a actor @
          change_calls af client s a key session @ [snapshot_call client s a session] \<and>
        ss_session_id session = ss_session_id opened \<and> ss_session_id reported = ss_session_id opened \<and>
        cm_simulation_session_id (ci_metadata p) = Some (ss_session_id opened) \<and>
        cm_simulation_session_version (ci_metadata p) = ss_version reported \<and>
        cm_session_expires_at (ci_metadata p) = ss_expires_at opened \<and>
        (should_create_session s \<or> sn_session_id s = Some (ss_session_id session)) \<and>
        (sn_simulation_changes s = [] \<or> (\<exists>k. validate_simulation_idempotency_key key = Inr k))
    | (Inl e, u) \<Rightarrow>
        sn_simulation_changes s = [] \<or>
        (case validate_simulation_idempotency_key key of Inl e' \<Rightarrow> e = e' \<and> u = t | Inr _ \<Rightarrow> True)"
proof (cases "fst (resolve_simulation af (request\<lparr>cq_simulation_input := Some s\<rparr>) client a actor key t)")
  case (Inl e)
  let ?request = "request\<lparr>cq_simulation_input := Some s\<rparr>"
  have "sn_simulation_changes s \<noteq> [] \<Longrightarrow> validate_simulation_idempotency_key key = Inl e' \<Longrightarrow>
      resolve_simulation af ?request client a actor key t = (Inl e', t)" for e'
    by (simp add: resolve_simulation_def resolve_applied_simulation_session_def)
  with Inl show ?thesis
    by (cases "resolve_simulation af ?request client a actor key t") (auto split: sum.splits)
next
  case (Inr p)
  let ?request = "request\<lparr>cq_simulation_input := Some s\<rparr>"
  from Inr obtain u where run: "resolve_simulation af ?request client a actor key t = (Inr p, u)"
    by (cases "resolve_simulation af ?request client a actor key t") auto
  then obtain session v snapshot reported where
    sess: "resolve_applied_simulation_session af client s a actor key t = (Inr session, v)" and
    snap: "get_core_snapshot client (sf_portfolio_id s) (simulation_snapshot_payload s session) a v =
      (Inr snapshot, u)" and
    version: "session_with_snapshot_version session snapshot = Inr reported" and
    metadata: "cm_simulation_session_id (ci_metadata p) = Some (ss_session_id reported)"
      "cm_simulation_session_version (ci_metadata p) = ss_version reported"
      "cm_session_expires_at (ci_metadata p) = ss_expires_at reported"
    unfolding resolve_simulation_def Let_def
    by (auto simp: computation_of_def split: prod.splits elim!: bind_io_InrE)
  from resolved_session_calls [OF sess] obtain es fs opened where
    v: "v = t @ es @ fs" and opened: "opened_session af client s a actor t es opened"
    and changed: "changed_session af client s a key (t @ es) fs opened session"
    and key: "sn_simulation_changes s \<noteq> [] \<Longrightarrow> \<exists>k. validate_simulation_idempotency_key key = Inr k"
    by blast
  from snapshot_calls [OF snap] obtain gs where
    gs: "u = v @ gs" "call_answered (cc_peer client) v (snapshot_call client s a session) snapshot gs" by blast
  note kept = session_kept [OF version] changed_session_keeps [OF changed]
  have "sent_calls u = sent_calls t @ create_calls client s a actor @
      change_calls af client s a key session @ [snapshot_call client s a session]"
    using opened_session_sends [OF opened] changed_session_sends [OF changed] call_answered_sends [OF gs(2)] v gs(1)
    by simp
  moreover have "should_create_session s \<or> sn_session_id s = Some (ss_session_id session)"
    using opened kept by (auto simp: opened_session_def split: if_splits)
  ultimately show ?thesis
    using opened changed gs v version metadata key kept
    unfolding run prod.case sum.case
    by - (rule exI [of _ es], rule exI [of _ fs], rule exI [of _ gs], rule exI [of _ opened], rule exI [of _ session],
        rule exI [of _ snapshot], rule exI [of _ reported], auto)
qed

end
