(* ===== verification/ConcentrationEngine.thy ===== *)
theory ConcentrationEngine
  imports Main ConcentrationResolvers Supportability Principal
begin

text \<open>
  The response and the route: services/concentration/response_metrics.py, response_builder.py,
  services/concentration_engine.py and routers/concentration.py, with the response contracts of
  contracts/concentration_position_metric_outputs.py, concentration_issuer_metric_outputs.py and
  concentration_response_envelope_outputs.py.
\<close>

section \<open>Metrics\<close>

record position_concentration_metrics =
  pm_hhi_current :: f64
  pm_hhi_proposed :: f64
  pm_top_current :: f64
  pm_top_proposed :: f64
  pm_top_n_current :: f64
  pm_top_n_proposed :: f64
  pm_driver_current :: driver_value
  pm_driver_proposed :: driver_value

datatype coverage_status = CoverageComplete | CoveragePartial | CoverageUnavailable

record issuer_concentration_metrics =
  mm_hhi_current :: f64
  mm_hhi_proposed :: f64
  mm_top_current :: f64
  mm_top_proposed :: f64
  mm_driver_current :: driver_value
  mm_driver_proposed :: driver_value
  mm_coverage_status :: coverage_status

definition issuer_coverage_status :: "computation_input \<Rightarrow> coverage_status" where
  "issuer_coverage_status p =
     (if ci_total_current p = 0 \<and> ci_total_proposed p = 0 then CoverageUnavailable
      else if ci_covered_current p = ci_total_current p \<and> ci_covered_proposed p = ci_total_proposed p
      then CoverageComplete
      else if 0 < ci_covered_current p \<or> 0 < ci_covered_proposed p then CoveragePartial
      else CoverageUnavailable)"

definition position_metrics :: "computation_input \<Rightarrow> position_concentration_metrics" where
  "position_metrics p =
     (let current_values = map po_value (ci_current_positions p);
          proposed_values = map po_value (ci_proposed_positions p);
          current_hhi = compute_hhi current_values;
          fallback = (ci_use_current_when_proposed_empty p \<and> proposed_values = []);
          current_top = single_position_metrics current_values (ci_top_n p);
          proposed_top = (if fallback then current_top
            else single_position_metrics proposed_values (ci_top_n p));
          current_driver = top_position_driver (ci_current_positions p)
      in \<lparr>pm_hhi_current = current_hhi,
          pm_hhi_proposed = (if fallback then current_hhi else compute_hhi proposed_values),
          pm_top_current = fst current_top, pm_top_proposed = fst proposed_top,
          pm_top_n_current = snd current_top, pm_top_n_proposed = snd proposed_top,
          pm_driver_current = current_driver,
          pm_driver_proposed = (if fallback then current_driver
            else top_position_driver (ci_proposed_positions p))\<rparr>)"

definition issuer_metrics :: "computation_input \<Rightarrow> issuer_concentration_metrics" where
  "issuer_metrics p =
     (let current_values = map ie_value (ci_current_issuers p);
          proposed_values = map ie_value (ci_proposed_issuers p);
          current_hhi = compute_hhi current_values;
          fallback = (ci_use_current_when_proposed_empty p \<and> proposed_values = []);
          current_top = fst (single_position_metrics current_values 1);
          current_driver = top_issuer_driver (ci_current_issuers p)
      in \<lparr>mm_hhi_current = current_hhi,
          mm_hhi_proposed = (if fallback then current_hhi else compute_hhi proposed_values),
          mm_top_current = current_top,
          mm_top_proposed = (if fallback then current_top
            else fst (single_position_metrics proposed_values 1)),
          mm_driver_current = current_driver,
          mm_driver_proposed = (if fallback then current_driver
            else top_issuer_driver (ci_proposed_issuers p)),
          mm_coverage_status = issuer_coverage_status p\<rparr>)"

section \<open>The response\<close>

record risk_proxy =
  xp_hhi_current :: f64
  xp_hhi_proposed :: f64
  xp_hhi_delta :: f64

record single_position_concentration =
  sp_top_current :: f64
  sp_top_proposed :: f64
  sp_top_delta :: f64
  sp_top_n_current :: f64
  sp_top_n_proposed :: f64
  sp_top_n_delta :: f64
  sp_top_n :: int
  sp_driver_current :: driver_value
  sp_driver_proposed :: driver_value

record issuer_concentration =
  ic_hhi_current :: f64
  ic_hhi_proposed :: f64
  ic_hhi_delta :: f64
  ic_top_current :: f64
  ic_top_proposed :: f64
  ic_top_delta :: f64
  ic_coverage_status :: coverage_status
  ic_covered_current :: nat
  ic_covered_proposed :: nat
  ic_total_current :: nat
  ic_total_proposed :: nat
  ic_uncovered_current :: nat
  ic_uncovered_proposed :: nat
  ic_coverage_ratio_current :: f64
  ic_coverage_ratio_proposed :: f64
  ic_note :: "string option"
  ic_driver_current :: driver_value
  ic_driver_proposed :: driver_value

record concentration_response =
  cr_input_mode :: input_mode
  cr_risk_proxy :: risk_proxy
  cr_single_position :: single_position_concentration
  cr_issuer :: issuer_concentration
  cr_valuation_context :: "valuation_context option"
  cr_metadata :: concentration_metadata
  cr_supportability :: supportability

definition build_risk_proxy :: "position_concentration_metrics \<Rightarrow> risk_proxy" where
  "build_risk_proxy m =
     \<lparr>xp_hhi_current = py_round6 (pm_hhi_current m), xp_hhi_proposed = py_round6 (pm_hhi_proposed m),
      xp_hhi_delta = py_round6 (fsub (pm_hhi_proposed m) (pm_hhi_current m))\<rparr>"

definition build_single_position_concentration ::
  "computation_input \<Rightarrow> position_concentration_metrics \<Rightarrow> single_position_concentration"
where
  "build_single_position_concentration p m =
     \<lparr>sp_top_current = py_round6 (pm_top_current m), sp_top_proposed = py_round6 (pm_top_proposed m),
      sp_top_delta = py_round6 (fsub (pm_top_proposed m) (pm_top_current m)),
      sp_top_n_current = py_round6 (pm_top_n_current m),
      sp_top_n_proposed = py_round6 (pm_top_n_proposed m),
      sp_top_n_delta = py_round6 (fsub (pm_top_n_proposed m) (pm_top_n_current m)),
      sp_top_n = ci_top_n p,
      sp_driver_current = pm_driver_current m, sp_driver_proposed = pm_driver_proposed m\<rparr>"

definition build_issuer_concentration ::
  "computation_input \<Rightarrow> issuer_concentration_metrics \<Rightarrow> issuer_concentration"
where
  "build_issuer_concentration p m =
     \<lparr>ic_hhi_current = py_round6 (mm_hhi_current m), ic_hhi_proposed = py_round6 (mm_hhi_proposed m),
      ic_hhi_delta = py_round6 (fsub (mm_hhi_proposed m) (mm_hhi_current m)),
      ic_top_current = py_round6 (mm_top_current m), ic_top_proposed = py_round6 (mm_top_proposed m),
      ic_top_delta = py_round6 (fsub (mm_top_proposed m) (mm_top_current m)),
      ic_coverage_status = mm_coverage_status m,
      ic_covered_current = ci_covered_current p, ic_covered_proposed = ci_covered_proposed p,
      ic_total_current = ci_total_current p, ic_total_proposed = ci_total_proposed p,
      ic_uncovered_current = uncovered_count (ci_covered_current p) (ci_total_current p),
      ic_uncovered_proposed = uncovered_count (ci_covered_proposed p) (ci_total_proposed p),
      ic_coverage_ratio_current = coverage_ratio (ci_covered_current p) (ci_total_current p),
      ic_coverage_ratio_proposed = coverage_ratio (ci_covered_proposed p) (ci_total_proposed p),
      ic_note = ci_issuer_note p,
      ic_driver_current = mm_driver_current m, ic_driver_proposed = mm_driver_proposed m\<rparr>"

definition concentration_supportability :: "computation_input \<Rightarrow> supportability" where
  "concentration_supportability p =
     supportability_from_concentration_response (ci_covered_current p) (ci_covered_proposed p)
       (ci_total_current p) (ci_total_proposed p) (ci_issuer_note p)"

definition build_response :: "computation_input \<Rightarrow> concentration_response" where
  "build_response p =
     (let m = position_metrics p in
      \<lparr>cr_input_mode = ci_input_mode p, cr_risk_proxy = build_risk_proxy m,
       cr_single_position = build_single_position_concentration p m,
       cr_issuer = build_issuer_concentration p (issuer_metrics p),
       cr_valuation_context = ci_valuation_context p, cr_metadata = ci_metadata p,
       cr_supportability = concentration_supportability p\<rparr>)"

section \<open>The engine\<close>

definition calculate_concentration ::
  "audit_functions \<Rightarrow> concentration_request \<Rightarrow> downstream_authority option \<Rightarrow> core_client option \<Rightarrow>
     string option \<Rightarrow> string option \<Rightarrow> string option \<Rightarrow> concentration_response io"
where
  "calculate_concentration af request authority client correlation_id actor_id idempotency_key =
     (case cq_input_mode request of
        Stateless \<Rightarrow>
          bind_io (resolve_stateless af request client correlation_id) (\<lambda>p. return_io (build_response p))
      | mode \<Rightarrow>
          (case client of
             None \<Rightarrow> raise_io (PlainValueError
               ''lotus-core client is required for stateful and simulation input modes'')
           | Some c \<Rightarrow>
               (case required_downstream_authority authority of
                  Inl e \<Rightarrow> raise_io (AuthorityRefused e)
                | Inr a \<Rightarrow>
                    bind_io (if mode = Stateful then resolve_stateful af request c a
                             else resolve_simulation af request c a actor_id idempotency_key)
                      (\<lambda>p. return_io (build_response p)))))"

section \<open>The route\<close>

datatype route_error =
  HttpFailure int string | CalculationFailure calculation_error | RuntimeCompositionFailure

record concentration_caller =
  cl_posture :: "string option"
  cl_principal :: "resolved_principal option"
  cl_tenant_header :: "string option"
  cl_actor_header :: "string option"
  cl_correlation_id :: "string option"
  cl_idempotency_key :: "string option"

text \<open>A principal's tenant or subject is text; the header may be missing.\<close>

definition field_text :: "field_value \<Rightarrow> string option" where
  "field_text v = (case v of Text s \<Rightarrow> Some s | _ \<Rightarrow> None)"

definition portfolios_named :: "concentration_request \<Rightarrow> string list" where
  "portfolios_named request =
     (case cq_stateful_input request of None \<Rightarrow> [] | Some s \<Rightarrow> [sf_portfolio_id s]) @
     (case cq_simulation_input request of None \<Rightarrow> [] | Some s \<Rightarrow> [sf_portfolio_id s])"

definition lift_http :: "(http_error, 'a) result \<Rightarrow> (route_error, 'a) result" where
  "lift_http r = (case r of Inl (status, detail) \<Rightarrow> Inl (HttpFailure status detail) | Inr x \<Rightarrow> Inr x)"

text \<open>What the route decides before the observed calculation: tenant and actor, scope, authority.\<close>

definition admit_concentration ::
  "concentration_caller \<Rightarrow> concentration_request \<Rightarrow>
     (route_error, downstream_authority option \<times> string option) result"
where
  "admit_concentration caller request =
     bind_result (lift_http (request_tenant_id (cl_posture caller) (cl_principal caller)
       (cl_tenant_header caller))) (\<lambda>tenant.
     bind_result (lift_http (request_actor_id (cl_posture caller) (cl_principal caller)
       (cl_actor_header caller))) (\<lambda>actor.
     bind_result (lift_http (fst (require_portfolio_scope (cl_posture caller) (cl_principal caller)
       (portfolios_named request)))) (\<lambda>_.
     if cq_input_mode request = Stateless then Inr (None, field_text actor)
     else (case admit_downstream_authority (field_text tenant) (cl_correlation_id caller) of
         Inl e \<Rightarrow> Inl (CalculationFailure (AuthorityRefused e))
       | Inr a \<Rightarrow> Inr (Some a, field_text actor)))))"

text \<open>A client the runtime does not have is an error of its composition, except in stateless mode.\<close>

definition analytics_risk_concentration ::
  "audit_functions \<Rightarrow> core_client option \<Rightarrow> concentration_caller \<Rightarrow> concentration_request \<Rightarrow> trace \<Rightarrow>
     (route_error, concentration_response) result \<times> trace"
where
  "analytics_risk_concentration af client caller request t =
     (case admit_concentration caller request of
        Inl e \<Rightarrow> (Inl e, t)
      | Inr (authority, actor) \<Rightarrow>
          if cq_input_mode request \<noteq> Stateless \<and> client = None
          then (Inl RuntimeCompositionFailure, t)
          else (case calculate_concentration af request authority client (cl_correlation_id caller)
             actor (cl_idempotency_key caller) t of
             (Inl e, u) \<Rightarrow> (Inl (CalculationFailure e), u)
           | (Inr response, u) \<Rightarrow> (Inr response, u)))"

section \<open>The tenant of every call\<close>

lemma emits_session [emits_intros]:
  "emits (under_authority a) (resolve_applied_simulation_session af client simulation a actor key)"
  unfolding resolve_applied_simulation_session_def resolve_simulation_session_def
    apply_simulation_changes_def Let_def
  by (intro emits_intros)

lemma emits_resolvers:
  "emits (under_authority a) (resolve_stateful af request client a)"
  "emits (under_authority a) (resolve_simulation af request client a actor key)"
  unfolding resolve_stateful_def resolve_simulation_def Let_def
  by (auto intro!: emits_intros split: prod.splits)

lemma lift_http_Inr_iff [result_simps]: "lift_http r = Inr x \<longleftrightarrow> r = Inr x"
  by (cases r) (auto simp: lift_http_def)

text \<open>A verified principal may read every portfolio the request names.\<close>

definition within_scope :: "concentration_caller \<Rightarrow> concentration_request \<Rightarrow> bool" where
  "within_scope caller request \<longleftrightarrow>
     (case cl_principal caller of
        None \<Rightarrow> True
      | Some p \<Rightarrow> set (portfolios_named request) \<subseteq> gs_portfolio_ids (rp_grants p))"

lemma admit_concentration_Inr:
  assumes "admit_concentration caller request = Inr (authority, actor)"
  shows "(case authority of
      None \<Rightarrow> cq_input_mode request = Stateless
    | Some a \<Rightarrow> cq_input_mode request \<noteq> Stateless \<and> admitted_tenant (da_tenant_id a) \<and>
        (\<exists>raw. da_tenant_id a = py_strip raw \<and>
          (case cl_principal caller of
             None \<Rightarrow> cl_tenant_header caller = Some raw
           | Some p \<Rightarrow> vc_tenant_id (rp_credential p) = Text raw))) \<and>
    within_scope caller request"
proof -
  obtain tenant where tenant: "request_tenant_id (cl_posture caller) (cl_principal caller)
      (cl_tenant_header caller) = Inr tenant"
    and scope: "fst (require_portfolio_scope (cl_posture caller) (cl_principal caller)
      (portfolios_named request)) = Inr ()"
    and rest: "if cq_input_mode request = Stateless then authority = None
      else \<exists>a. authority = Some a \<and>
        admit_downstream_authority (field_text tenant) (cl_correlation_id caller) = Inr a"
    using assms unfolding admit_concentration_def result_simps
    by (fastforce split: sum.splits if_splits)
  have named: "within_scope caller request"
    using scope
    by (auto simp: within_scope_def require_portfolio_scope_def request_principal_def
        require_portfolios_def raise_if_def split: if_splits option.splits)
  have source: "case cl_principal caller of None \<Rightarrow> cl_tenant_header caller = Some raw
      | Some p \<Rightarrow> vc_tenant_id (rp_credential p) = Text raw" if "field_text tenant = Some raw" for raw
    using tenant that
    by (auto simp: request_tenant_id_def request_principal_def result_simps field_text_def
        split: option.splits if_splits field_value.splits)
  show ?thesis
  proof (cases "cq_input_mode request = Stateless")
    case True
    then show ?thesis using rest named by auto
  next
    case False
    then obtain a where a: "authority = Some a"
      "admit_downstream_authority (field_text tenant) (cl_correlation_id caller) = Inr a"
      using rest by auto
    from admitted_authority [OF a(2)] obtain raw where
      "field_text tenant = Some raw" "da_tenant_id a = py_strip raw" "admitted_tenant (da_tenant_id a)"
      by blast
    then show ?thesis using a(1) False named source by auto
  qed
qed

lemma emits_enrichment:
  "emits (\<lambda>ev. case ev of Sent call \<Rightarrow> map_of (hc_headers call) TENANT_ID_HEADER = None | _ \<Rightarrow> True)
     (get_instrument_enrichment client ids correlation_id)"
  unfolding get_instrument_enrichment_def execute_lotus_core_json_request_def
  by (intro emits_client) (simp_all add: TENANT_ID_HEADER_def)

lemma emits_catch [emits_intros]:
  assumes m: "emits P m" and h: "emits P h"
  shows "emits P (catch_value_error m h)"
proof -
  have "\<exists>es. snd (catch_value_error m h t) = t @ es \<and> list_all P es" for t
  proof -
    obtain es where es: "snd (m t) = t @ es" "list_all P es" by (rule emitsE [OF m])
    obtain fs where fs: "snd (h (t @ es)) = (t @ es) @ fs" "list_all P fs" by (rule emitsE [OF h])
    show ?thesis
      using es fs by (cases "m t"; cases "fst (m t)")
        (auto simp: catch_value_error_def intro: exI [of _ es] exI [of _ "es @ fs"])
  qed
  then show ?thesis by (simp add: emits_def)
qed

lemma emits_stateless:
  "emits (\<lambda>ev. case ev of Sent call \<Rightarrow> map_of (hc_headers call) TENANT_ID_HEADER = None | _ \<Rightarrow> True)
     (resolve_stateless af request client correlation_id)"
  unfolding resolve_stateless_def stateless_core_issuer_map_def Let_def
  by (auto intro!: emits_intros emits_enrichment split: prod.splits)

text \<open>C12: a concentration request that is not admitted makes no downstream call: a caller whose
  principal does not reach every portfolio it names, or who needs a tenant and has none.  An admitted
  stateful or simulated one makes every call under one admitted tenant, the verified principal's own
  where there is one and the caller's header otherwise; a stateless one never sends a tenant.\<close>

theorem concentration_calls_are_admitted:
  "\<exists>es. snd (analytics_risk_concentration af client caller request t) = t @ es \<and>
     (case admit_concentration caller request of
        Inl e \<Rightarrow> es = [] \<and> fst (analytics_risk_concentration af client caller request t) = Inl e
      | Inr (None, actor) \<Rightarrow> cq_input_mode request = Stateless \<and> within_scope caller request \<and>
          list_all (\<lambda>ev. case ev of Sent call \<Rightarrow> map_of (hc_headers call) TENANT_ID_HEADER = None
            | _ \<Rightarrow> True) es
      | Inr (Some a, actor) \<Rightarrow> list_all (under_authority a) es \<and> admitted_tenant (da_tenant_id a) \<and>
          within_scope caller request \<and>
          (\<exists>raw. da_tenant_id a = py_strip raw \<and>
            (case cl_principal caller of
               None \<Rightarrow> cl_tenant_header caller = Some raw
             | Some p \<Rightarrow> vc_tenant_id (rp_credential p) = Text raw)))"
proof (cases "admit_concentration caller request")
  case (Inl e)
  then show ?thesis by (simp add: analytics_risk_concentration_def)
next
  case (Inr admitted)
  obtain authority actor where pair: "admitted = (authority, actor)" by force
  note admit = admit_concentration_Inr [OF Inr [unfolded pair]]
  let ?run = "calculate_concentration af request authority client (cl_correlation_id caller) actor
    (cl_idempotency_key caller)"
  have snd_route: "snd (analytics_risk_concentration af client caller request t) =
      (if cq_input_mode request \<noteq> Stateless \<and> client = None then t else snd (?run t))"
    by (simp add: analytics_risk_concentration_def Inr pair split: prod.splits sum.splits)
  show ?thesis
  proof (cases authority)
    case None
    have "emits (\<lambda>ev. case ev of Sent call \<Rightarrow> map_of (hc_headers call) TENANT_ID_HEADER = None
        | _ \<Rightarrow> True) ?run"
      using admit None unfolding calculate_concentration_def
      by (auto intro!: emits_intros emits_stateless)
    from emitsE [OF this, of t] show ?thesis
      using admit None by (simp add: snd_route Inr pair) blast
  next
    case (Some a)
    have "emits (under_authority a) ?run"
      using admit Some unfolding calculate_concentration_def required_downstream_authority_def
      by (cases "cq_input_mode request") (auto intro!: emits_intros emits_resolvers)
    from emitsE [OF this, of t] show ?thesis
      using admit Some by (simp add: snd_route Inr pair) (metis append_Nil2 list.pred_inject(1))
  qed
qed

section \<open>The baseline and the projection\<close>

text \<open>The request with this stateless payload and this projection, or none.\<close>

definition with_projection ::
  "concentration_request \<Rightarrow> stateless_input \<Rightarrow> position_input list option \<Rightarrow> concentration_request"
where
  "with_projection request sl projection =
     request\<lparr>cq_stateless_input := Some (sl\<lparr>sl_projected_positions := projection\<rparr>)\<rparr>"

lemma basis_of_current:
  assumes "stateless_exposure_basis payload = Inr basis" "sl_current_positions payload \<noteq> []"
  shows "basis = (if pi_market_value (hd (sl_current_positions payload)) \<noteq> None
    then Some MarketValueBase else Some QuantityProxy)"
  using assms by (cases basis; cases "the basis"; cases "sl_current_positions payload")
    (auto simp: exposure_basis_uniform)

lemma stateless_current_rows:
  assumes "stateless_exposure_basis (sl\<lparr>sl_projected_positions := projection\<rparr>) = Inr basis"
    "stateless_exposure_basis (sl\<lparr>sl_projected_positions := projection'\<rparr>) = Inr basis'"
  shows "payload_rows basis (sl_current_positions sl) = payload_rows basis' (sl_current_positions sl)"
proof (cases "sl_current_positions sl = []")
  case True
  then show ?thesis by (simp add: payload_rows_def map_filter_simps)
next
  case False
  then show ?thesis using basis_of_current [OF assms(1)] basis_of_current [OF assms(2)] by simp
qed

definition stateless_outcome ::
  "audit_functions \<Rightarrow> concentration_request \<Rightarrow> stateless_input \<Rightarrow> position_input list option \<Rightarrow>
     string option \<Rightarrow> exposure_basis option \<Rightarrow> issuer_map \<Rightarrow> string option \<Rightarrow> computation_input"
where
  "stateless_outcome af request sl projection c basis core_map remark =
     (let maps = stateless_caller_issuer_maps (sl\<lparr>sl_projected_positions := projection\<rparr>)
             (cq_issuer_grouping_level request);
           state = weighted_stateless_state (payload_rows basis (sl_current_positions sl))
             (payload_rows basis (case projection of None \<Rightarrow> [] | Some ps \<Rightarrow> ps))
             (merge_issuer_maps (fst maps) core_map (cq_enrichment_policy request))
             (merge_issuer_maps (snd maps) core_map (cq_enrichment_policy request)) remark
             (projection \<noteq> None)
         in computation_of Stateless (sl_top_n sl) (ws_current state) (ws_proposed state)
           (projection = None) (ws_issuer_note state) (stateless_valuation_context basis)
           (build_metadata af (with_projection request sl projection) c))"

lemma resolve_stateless_Inr:
  assumes "resolve_stateless af (with_projection request sl projection) client c t = (Inr p, u)"
  obtains basis core_map remark v where
    "stateless_exposure_basis (sl\<lparr>sl_projected_positions := projection\<rparr>) = Inr basis"
    "stateless_core_issuer_map (with_projection request sl projection)
       (payload_rows basis (sl_current_positions sl) @
        payload_rows basis (case projection of None \<Rightarrow> [] | Some ps \<Rightarrow> ps)) client c t =
       (Inr (core_map, remark), v)"
    "p = stateless_outcome af request sl projection c basis core_map remark"
proof -
  obtain core_map remark v basis where
    "stateless_exposure_basis (sl\<lparr>sl_projected_positions := projection\<rparr>) = Inr basis"
    "stateless_core_issuer_map (with_projection request sl projection)
       (payload_rows basis (sl_current_positions sl) @
        payload_rows basis (case projection of None \<Rightarrow> [] | Some ps \<Rightarrow> ps)) client c t =
       (Inr (core_map, remark), v)" and
    rest: "p = stateless_outcome af request sl projection c basis core_map remark"
    using assms
    unfolding resolve_stateless_def with_projection_def extract_values_from_stateless_payload_def
      lift_value_error_def
    by (auto simp: projected_positions_def projection_supplied_def stateless_outcome_def Let_def
        with_projection_def
        split: sum.splits elim!: bind_io_InrE)
  then show ?thesis by (rule that)
qed

text \<open>The baseline a response reports: by position, and by issuer.\<close>

definition position_baseline ::
  "concentration_response \<Rightarrow> f64 \<times> f64 \<times> f64 \<times> driver_value \<times> nat"
where
  "position_baseline r =
     (xp_hhi_current (cr_risk_proxy r), sp_top_current (cr_single_position r),
      sp_top_n_current (cr_single_position r), sp_driver_current (cr_single_position r),
      ic_total_current (cr_issuer r))"

definition issuer_baseline :: "concentration_response \<Rightarrow> f64 \<times> f64 \<times> driver_value \<times> nat \<times> f64" where
  "issuer_baseline r =
     (ic_hhi_current (cr_issuer r), ic_top_current (cr_issuer r), ic_driver_current (cr_issuer r),
      ic_covered_current (cr_issuer r), ic_coverage_ratio_current (cr_issuer r))"

lemmas response_defs =
  build_response_def build_risk_proxy_def build_single_position_concentration_def
  build_issuer_concentration_def position_metrics_def issuer_metrics_def

lemma weighted_positions [simp]: "wr_positions (to_weighted_values rows m) = rows"
  by (simp add: to_weighted_values_def split: prod.splits)

lemma no_rows_weighted [simp]:
  "to_weighted_values [] m = \<lparr>wr_positions = [], wr_issuers = [], wr_covered = 0, wr_total = 0\<rparr>"
  by (simp add: to_weighted_values_def)

lemma weighted_total [simp]: "wr_total (to_weighted_values rows m) = length rows"
  using grouping_inv_rows [of m rows]
  by (simp add: to_weighted_values_def grouping_inv_def split: prod.splits)

text \<open>Two stateless requests that differ in their projections, even in who answers the enrichment
  call, report the same position baseline; and where issuers come from the caller alone, the same
  issuer baseline: no projected row rewrites a fact about the current portfolio.\<close>

theorem projection_never_rewrites_baseline:
  assumes "resolve_stateless af (with_projection request sl projection) client c t = (Inr p, u)"
    and "resolve_stateless af (with_projection request sl projection') client' c t' = (Inr p', u')"
  shows "position_baseline (build_response p) = position_baseline (build_response p') \<and>
    (cq_enrichment_policy request \<noteq> UseCallerOnly \<or>
     issuer_baseline (build_response p) = issuer_baseline (build_response p'))"
proof -
  from resolve_stateless_Inr [OF assms(1)] obtain basis core_map remark where
    basis: "stateless_exposure_basis (sl\<lparr>sl_projected_positions := projection\<rparr>) = Inr basis" and
    p: "p = stateless_outcome af request sl projection c basis core_map remark"
    by blast
  from resolve_stateless_Inr [OF assms(2)] obtain basis' core_map' remark' where
    basis': "stateless_exposure_basis (sl\<lparr>sl_projected_positions := projection'\<rparr>) = Inr basis'" and
    p': "p' = stateless_outcome af request sl projection' c basis' core_map' remark'"
    by blast
  have rows: "payload_rows basis (sl_current_positions sl) = payload_rows basis' (sl_current_positions sl)"
    by (rule stateless_current_rows [OF basis basis'])
  show ?thesis
    unfolding p p'
    by (simp add: stateless_outcome_def Let_def computation_of_def weighted_stateless_state_def response_defs
        position_baseline_def issuer_baseline_def stateless_caller_issuer_maps_def merge_issuer_maps_def rows)
qed

lemma fsub_self [simp]: "fsub x x = 0"
  by (simp add: fsub_def)

text \<open>Leaving the projection out and supplying an empty one are not the same: without one the
  proposed state is the current one and every change is zero; with one that counts no row, empty or all
  non-positive, the proposed measures are zero and there is no proposed driver.\<close>

theorem empty_projection_is_not_omission:
  assumes "resolve_stateless af (with_projection request sl projection) client c t = (Inr p, u)"
  shows "case projection of
      None \<Rightarrow>
        ci_proposed_positions p = ci_current_positions p \<and> ci_proposed_issuers p = ci_current_issuers p \<and>
        ci_covered_proposed p = ci_covered_current p \<and> ci_total_proposed p = ci_total_current p \<and>
        xp_hhi_delta (cr_risk_proxy (build_response p)) = 0 \<and>
        sp_top_delta (cr_single_position (build_response p)) = 0 \<and>
        sp_top_n_delta (cr_single_position (build_response p)) = 0 \<and>
        ic_hhi_delta (cr_issuer (build_response p)) = 0 \<and>
        ic_top_delta (cr_issuer (build_response p)) = 0
    | Some ps \<Rightarrow>
        ci_total_proposed p = length (ci_proposed_positions p) \<and>
        (if list_ex (\<lambda>q. to_decimal (pi_market_value q) \<noteq> None \<or> to_decimal (pi_quantity q) \<noteq> None) ps
         then True
         else xp_hhi_proposed (cr_risk_proxy (build_response p)) = 0 \<and>
           sp_top_proposed (cr_single_position (build_response p)) = 0 \<and>
           sp_top_n_proposed (cr_single_position (build_response p)) = 0 \<and>
           sp_driver_proposed (cr_single_position (build_response p)) = no_driver \<and>
           ic_hhi_proposed (cr_issuer (build_response p)) = 0 \<and>
           ic_driver_proposed (cr_issuer (build_response p)) = no_driver \<and>
           ic_total_proposed (cr_issuer (build_response p)) = 0)"
proof -
  from resolve_stateless_Inr [OF assms] obtain basis core_map remark where
    p: "p = stateless_outcome af request sl projection c basis core_map remark"
    by blast
  show ?thesis
  proof (cases projection)
    case None
    then show ?thesis
      unfolding p by (simp add: stateless_outcome_def Let_def computation_of_def weighted_stateless_state_def response_defs)
  next
    case (Some ps)
    have none: "payload_rows basis ps = []"
      if "\<not> list_ex (\<lambda>q. to_decimal (pi_market_value q) \<noteq> None \<or> to_decimal (pi_quantity q) \<noteq> None) ps"
      using that by (auto simp: payload_rows_def map_filter_Nil_iff list_ex_iff)
    show ?thesis
      unfolding p using none Some
      by (simp add: stateless_outcome_def Let_def computation_of_def weighted_stateless_state_def response_defs
          compute_hhi_def single_position_metrics_def top_position_driver_def top_issuer_driver_def
          abs_total_def no_rows_weighted)
  qed
qed

section \<open>Examples\<close>

definition sample_audit :: audit_functions where
  "sample_audit = \<lparr>af_fingerprint_payload = (\<lambda>_. []), af_fingerprint_model = (\<lambda>_. []),
     af_fromisoformat = (\<lambda>_. None)\<rparr>"

definition sample_position :: "string \<Rightarrow> string \<Rightarrow> f64 \<Rightarrow> position_input" where
  "sample_position security issuer v =
     \<lparr>pi_security_id = security, pi_security_name = None, pi_quantity = None,
      pi_market_value = Some (Number v), pi_weight = None, pi_issuer_id = Some issuer,
      pi_ultimate_parent_issuer_id = None\<rparr>"

definition sample_stateless :: stateless_input where
  "sample_stateless = \<lparr>sl_current_positions = [sample_position ''A'' ''I'' 3, sample_position ''B'' ''J'' 1],
     sl_projected_positions = None, sl_top_n = 10\<rparr>"

definition sample_request :: concentration_request where
  "sample_request = \<lparr>cq_input_mode = Stateless, cq_stateless_input = Some sample_stateless,
     cq_stateful_input = None, cq_simulation_input = None, cq_issuer_grouping_level = UltimateParent,
     cq_enrichment_policy = UseCallerOnly\<rparr>"

definition sample_run :: "position_input list option \<Rightarrow> (calculation_error, computation_input) result \<times> trace" where
  "sample_run projection = resolve_stateless sample_audit
     (with_projection sample_request sample_stateless projection) None None []"

lemma sample_run_ok: "is_ok (fst (sample_run (Some [])))" "is_ok (fst (sample_run None))"
  "is_ok (fst (sample_run (Some [sample_position ''A'' ''K'' 5])))"
  by code_simp+

lemma sample_run_Inr:
  "is_ok (fst (sample_run projection)) \<Longrightarrow>
     resolve_stateless sample_audit (with_projection sample_request sample_stateless projection) None None [] =
       (Inr (projr (fst (sample_run projection))), snd (sample_run projection))"
  by (cases "fst (sample_run projection)"; cases "sample_run projection")
    (auto simp: sample_run_def is_ok_def)

theorem projection_never_rewrites_baseline_witness:
  "position_baseline (build_response (projr (fst (sample_run None)))) =
     position_baseline (build_response (projr (fst (sample_run (Some [sample_position ''A'' ''K'' 5]))))) \<and>
   issuer_baseline (build_response (projr (fst (sample_run None)))) =
     issuer_baseline (build_response (projr (fst (sample_run (Some [sample_position ''A'' ''K'' 5])))))"
  using projection_never_rewrites_baseline
      [OF sample_run_Inr [OF sample_run_ok(2)] sample_run_Inr [OF sample_run_ok(3)]]
  by (simp add: sample_request_def)

theorem empty_projection_is_not_omission_witness:
  "xp_hhi_proposed (cr_risk_proxy (build_response (projr (fst (sample_run (Some [])))))) = 0"
  using empty_projection_is_not_omission [OF sample_run_Inr [OF sample_run_ok(1)]] by simp

section \<open>The note of the core enrichment\<close>

lemma resolve_stateful_Inr:
  assumes "resolve_stateful af request client a t = (Inr p, u)" "cq_stateful_input request = Some s"
  obtains snapshot sections where
    "get_core_snapshot client (sf_portfolio_id s) (stateful_snapshot_payload s) a t = (Inr snapshot, u)"
    "snapshot_sections ''BASELINE'' snapshot = Inr sections"
    "ci_issuer_note p = snd (extract_issuer_map sections (cq_issuer_grouping_level request))"
proof -
  obtain snapshot sections rows where
    snap: "get_core_snapshot client (sf_portfolio_id s) (stateful_snapshot_payload s) a t = (Inr snapshot, u)"
      "snapshot_sections ''BASELINE'' snapshot = Inr sections" and
    p: "p = computation_of Stateful (sf_top_n s) rows rows True
      (snd (issuer_map_from_snapshot_sections request sections (sf_issuer_mappings s)))
      (market_value_valuation_context (json_get snapshot ''valuation_context''))
      (snapshot_metadata af request s (da_correlation_id a) (stateful_snapshot_payload s))"
    using assms unfolding resolve_stateful_def Let_def
    by (auto elim!: bind_io_InrE)
  have "ci_issuer_note p = snd (extract_issuer_map sections (cq_issuer_grouping_level request))"
    unfolding p computation_of_def issuer_map_from_snapshot_sections_def
    by (simp split: prod.splits)
  then show ?thesis
    using snap by (intro that)
qed

lemma issuer_note_truthy: "snd (extract_issuer_map sections level) \<noteq> Some []"
  by (auto simp: extract_issuer_map_def Let_def split: json.splits if_splits)

text \<open>The stateful request with these caller mappings under this policy.\<close>

definition with_mappings ::
  "concentration_request \<Rightarrow> stateful_input \<Rightarrow> issuer_mapping_input list \<Rightarrow> enrichment_policy \<Rightarrow>
     concentration_request"
where
  "with_mappings request s ms policy =
     request\<lparr>cq_stateful_input := Some (s\<lparr>sf_issuer_mappings := ms\<rparr>),
       cq_enrichment_policy := policy\<rparr>"

lemma mappings_unused_in_request:
  "stateful_snapshot_payload (s\<lparr>sf_issuer_mappings := ms\<rparr>) = stateful_snapshot_payload s"
  by (simp add: stateful_snapshot_payload_def snapshot_options_def reporting_currency_field_def)

text \<open>The caller's issuer mappings and the enrichment policy change neither what is asked of
  lotus-core nor the note about its enrichment: where that enrichment names no issuer, the response is
  never ready, however completely the caller's own mappings cover the portfolio.\<close>

theorem caller_mappings_keep_the_note:
  assumes "resolve_stateful af (with_mappings request s ms policy) client a t = (Inr p, u)"
    and "resolve_stateful af (with_mappings request s ms' policy') client a t = (Inr p', u')"
  shows "u' = u \<and> ci_issuer_note p' = ci_issuer_note p \<and>
    (ci_issuer_note p = None \<or> su_state (cr_supportability (build_response p')) \<noteq> StateReady)"
proof -
  have stateful: "cq_stateful_input (with_mappings request s ms policy) = Some (s\<lparr>sf_issuer_mappings := ms\<rparr>)"
    "cq_stateful_input (with_mappings request s ms' policy') = Some (s\<lparr>sf_issuer_mappings := ms'\<rparr>)"
    by (simp_all add: with_mappings_def)
  from resolve_stateful_Inr [OF assms(1) stateful(1)] obtain snapshot sections where
    r: "get_core_snapshot client (sf_portfolio_id s) (stateful_snapshot_payload s) a t = (Inr snapshot, u)"
      "snapshot_sections ''BASELINE'' snapshot = Inr sections"
      "ci_issuer_note p = snd (extract_issuer_map sections (cq_issuer_grouping_level request))"
    by (auto simp: mappings_unused_in_request with_mappings_def)
  from resolve_stateful_Inr [OF assms(2) stateful(2)] obtain snapshot' sections' where
    r': "get_core_snapshot client (sf_portfolio_id s) (stateful_snapshot_payload s) a t = (Inr snapshot', u')"
      "snapshot_sections ''BASELINE'' snapshot' = Inr sections'"
      "ci_issuer_note p' = snd (extract_issuer_map sections' (cq_issuer_grouping_level request))"
    by (auto simp: mappings_unused_in_request with_mappings_def)
  have same: "u' = u" "ci_issuer_note p' = ci_issuer_note p" using r r' by auto
  have "su_state (cr_supportability (build_response p')) \<noteq> StateReady" if "ci_issuer_note p' \<noteq> None"
    using that issuer_note_truthy [of sections'] r'(3)
    by (auto simp: build_response_def concentration_supportability_def
        supportability_from_concentration_response_def Let_def)
  then show ?thesis using same by auto
qed

definition sample_core :: core_client where
  "sample_core = \<lparr>cc_peer = (\<lambda>_. Response 200 (JsonBody (JObject [(''sections'', JObject
     [(''positions_baseline'', JArray [JObject [(''security_id'', JString ''A''),
       (''market_value_base'', JInt 4)]])])]))), cc_base_url = ''http://c''\<rparr>"

definition sample_stateful :: stateful_input where
  "sample_stateful = \<lparr>sf_portfolio_id = ''P'', sf_as_of_date = Date 2026 2 27,
     sf_reporting_currency = None, sf_include_cash_positions = True,
     sf_include_zero_quantity_positions = False, sf_top_n = 10, sf_issuer_mappings = []\<rparr>"

definition sample_mapping :: issuer_mapping_input where
  "sample_mapping = \<lparr>im_security_id = ''A'', im_issuer_id = Some ''I'', im_issuer_name = None,
     im_ultimate_parent_issuer_id = None, im_ultimate_parent_issuer_name = None\<rparr>"

definition sample_stateful_run ::
  "issuer_mapping_input list \<Rightarrow> (calculation_error, computation_input) result \<times> trace"
where
  "sample_stateful_run ms = resolve_stateful sample_audit
     (with_mappings sample_request sample_stateful ms UseCallerOnly) sample_core
     \<lparr>da_tenant_id = ''t'', da_correlation_id = None\<rparr> []"

lemma sample_stateful_ok:
  "is_ok (fst (sample_stateful_run []))" "is_ok (fst (sample_stateful_run [sample_mapping]))"
  "issuer_coverage_status (projr (fst (sample_stateful_run [sample_mapping]))) = CoverageComplete"
  "ci_issuer_note (projr (fst (sample_stateful_run []))) \<noteq> None"
  by code_simp+

lemma sample_stateful_Inr:
  "is_ok (fst (sample_stateful_run ms)) \<Longrightarrow>
     resolve_stateful sample_audit (with_mappings sample_request sample_stateful ms UseCallerOnly) sample_core
       \<lparr>da_tenant_id = ''t'', da_correlation_id = None\<rparr> [] =
       (Inr (projr (fst (sample_stateful_run ms))), snd (sample_stateful_run ms))"
  by (cases "fst (sample_stateful_run ms)"; cases "sample_stateful_run ms")
    (auto simp: sample_stateful_run_def is_ok_def)

theorem caller_mappings_keep_the_note_witness:
  "issuer_coverage_status (projr (fst (sample_stateful_run [sample_mapping]))) = CoverageComplete \<and>
   su_state (cr_supportability (build_response (projr (fst (sample_stateful_run [sample_mapping]))))) \<noteq> StateReady"
  using caller_mappings_keep_the_note [OF sample_stateful_Inr [OF sample_stateful_ok(1)]
      sample_stateful_Inr [OF sample_stateful_ok(2)]] sample_stateful_ok(3,4) by simp

end
