(* ===== verification/ApiErrors.thy ===== *)
theory ApiErrors
  imports Main Admission ConcentrationEngine
begin

text \<open>
  The exception handlers of api_errors.py: the error response every exception of a route becomes.  The
  framework picks the handler of the nearest class, so an upstream failure, a \<open>ValueError\<close> itself, has
  its own.
\<close>

section \<open>Handlers\<close>

definition default_error_code :: "int \<Rightarrow> string" where
  "default_error_code status_code =
     (if status_code = 404 then ''RESOURCE_NOT_FOUND''
      else if status_code = 403 then ''AUTHORIZATION_DENIED''
      else if status_code = 413 then ''PAYLOAD_TOO_LARGE''
      else if status_code = 422 then ''INVALID_REQUEST''
      else if status_code = 400 then ''INVALID_INPUT''
      else ''REQUEST_REJECTED'')"

definition PUBLIC_MESSAGES :: "(string, string) dict" where
  "PUBLIC_MESSAGES =
     [(''FAILED_DEPENDENCY'', ''Required upstream dependency data is unavailable.''),
      (''UPSTREAM_FAILURE'', ''Upstream dependency failed.''),
      (''UPSTREAM_INVALID_RESPONSE'', ''Upstream dependency returned an invalid response.''),
      (''UPSTREAM_THROTTLED'', ''Upstream dependency is temporarily throttled.''),
      (''UPSTREAM_TIMEOUT'', ''Upstream dependency timed out.''),
      (''UPSTREAM_UNAVAILABLE'', ''Upstream dependency is unavailable.'')]"

definition public_upstream_message :: "upstream_error \<Rightarrow> string" where
  "public_upstream_message e = dict_get PUBLIC_MESSAGES (ue_code e) ''Upstream dependency failed.''"

definition handle_http_exception :: "http_request \<Rightarrow> int \<Rightarrow> string \<Rightarrow> http_response" where
  "handle_http_exception rq status_code detail =
     error_response rq status_code (default_error_code status_code) detail None"

definition handle_validation_error :: "http_request \<Rightarrow> json \<Rightarrow> http_response" where
  "handle_validation_error rq errors =
     error_response rq 422 ''INVALID_REQUEST'' ''Request validation failed'' (Some errors)"

definition handle_value_error :: "http_request \<Rightarrow> string \<Rightarrow> http_response" where
  "handle_value_error rq message = error_response rq 400 ''INVALID_INPUT'' message None"

definition handle_upstream_service_error :: "http_request \<Rightarrow> upstream_error \<Rightarrow> http_response" where
  "handle_upstream_service_error rq e =
     error_response rq (ue_status_code e) (ue_code e) (public_upstream_message e)
       (Some (JObject (AList.update ''retryable'' (JBool (ue_retryable e)) (ue_details e))))"

definition handle_tenant_authority_error :: "http_request \<Rightarrow> tenant_authority_error \<Rightarrow> http_response" where
  "handle_tenant_authority_error rq e =
     error_response rq (tae_status_code e) (tae_code e) (tae_message e) None"

definition handle_runtime_composition_error :: "http_request \<Rightarrow> string \<Rightarrow> string \<Rightarrow> http_response" where
  "handle_runtime_composition_error rq dependency_name state_attribute =
     error_response rq 500 ''RUNTIME_COMPOSITION_ERROR''
       ''Runtime dependency composition is not initialized.''
       (Some (JObject [(''dependency'', JString dependency_name),
         (''state_attribute'', JString state_attribute)]))"

text \<open>An exception without a handler is answered by the server itself, with no body of the service.\<close>

definition unhandled_response :: http_response where
  "unhandled_response = \<lparr>rs_status = 500, rs_body = None, rs_headers = []\<rparr>"

definition handle_service_error :: "http_request \<Rightarrow> calculation_error \<Rightarrow> http_response" where
  "handle_service_error rq e =
     (case e of
        UpstreamFailure ue \<Rightarrow> handle_upstream_service_error rq ue
      | PlainValueError m \<Rightarrow> handle_value_error rq m
      | AuthorityRefused tae \<Rightarrow> handle_tenant_authority_error rq tae
      | Escaped _ \<Rightarrow> unhandled_response)"

definition handle_route_error :: "http_request \<Rightarrow> route_error \<Rightarrow> http_response" where
  "handle_route_error rq e =
     (case e of
        HttpFailure status detail \<Rightarrow> handle_http_exception rq status detail
      | CalculationFailure se \<Rightarrow> handle_service_error rq se
      | RuntimeCompositionFailure \<Rightarrow> handle_runtime_composition_error rq ''lotus-core'' ''lotus_core_client'')"

section \<open>What a failed dependency looks like from outside\<close>

definition body_of :: "http_response \<Rightarrow> error_body" where
  "body_of response = the (rs_body response)"

lemma body_of_error_response [simp]:
  "rs_status (error_response rq s c m d) = s"
  "eb_code (body_of (error_response rq s c m d)) = c"
  "eb_message (body_of (error_response rq s c m d)) = m"
  "eb_detail (body_of (error_response rq s c m d)) = Some m"
  "eb_details (body_of (error_response rq s c m d)) = d"
  by (simp_all add: error_response_def build_error_payload_def body_of_def)

text \<open>A success whose body is no JSON, by the text of the parser's error.\<close>

definition unparsed_success :: "http_reply \<Rightarrow> string option" where
  "unparsed_success reply =
     (case reply of
        Response status (NotJson m) \<Rightarrow> if success_status status then Some m else None
      | _ \<Rightarrow> None)"

lemma unparsed_is_plain:
  "peer (t @ [Sent call]) = Response status (NotJson m) \<Longrightarrow> success_status status \<Longrightarrow>
     fst (execute_downstream_request_json peer dependency operation call
       (\<lambda>_. dict_payload dependency operation message) True [] t) = Inl (PlainValueError m)"
  by (simp add: execute_downstream_request_json_def execute_downstream_request_def bind_io_def
      success_status_def dict_payload_def response_json_def)

lemma public_message_known: "public_upstream_message e \<in> snd ` set PUBLIC_MESSAGES"
  by (simp add: public_upstream_message_def PUBLIC_MESSAGES_def dict_get_def)

lemma retryable_detail:
  "map_of (AList.update ''retryable'' v d) ''retryable'' = Some v"
  "name \<noteq> ''retryable'' \<Longrightarrow> map_of (AList.update ''retryable'' v d) name = map_of d name"
  by (simp_all add: update_conv)

text \<open>When a call to lotus-core fails, what its caller is told is one of six fixed messages with a
  424, 502, 503 or 504, the dependency, the operation and whether to retry; no text of the dependency
  is in the message.  The exception: a success whose body is no JSON is answered 400, as if the caller
  had sent bad input, with the parser's text as the message.\<close>

theorem failed_dependency_response:
  "case execute_with_client client http_method path operation payload headers t of
     (Inl e, u) \<Rightarrow>
       (let response = handle_service_error rq e;
            reply = cc_peer client (t @ [Sent \<lparr>hc_method = http_method,
              hc_url = cc_base_url client @ path, hc_body = Some (JObject payload), hc_headers = headers\<rparr>])
        in case unparsed_success reply of
             Some m \<Rightarrow> rs_status response = 400 \<and> eb_code (body_of response) = ''INVALID_INPUT'' \<and>
               eb_message (body_of response) = m
           | None \<Rightarrow> rs_status response \<in> {424, 502, 503, 504} \<and>
               eb_message (body_of response) \<in> snd ` set PUBLIC_MESSAGES \<and>
               (\<exists>details. eb_details (body_of response) = Some (JObject details) \<and>
                  map_of details ''service'' = Some (JString ''lotus-core'') \<and>
                  map_of details ''operation'' = Some (JString operation) \<and>
                  map_of details ''retryable'' = Some (JBool (retryable_reply reply))))
   | (Inr _, u) \<Rightarrow> True"
proof (cases "execute_with_client client http_method path operation payload headers t")
  case (Pair r u)
  let ?call = "\<lparr>hc_method = http_method, hc_url = cc_base_url client @ path,
    hc_body = Some (JObject payload), hc_headers = headers\<rparr>"
  note run = Pair [unfolded execute_with_client_def]
  show ?thesis
  proof (cases r)
    case (Inr kvs)
    then show ?thesis by (simp add: Pair)
  next
    case (Inl e)
    let ?reply = "cc_peer client (t @ [Sent ?call])"
    note outcome = request_outcome [where peer = "cc_peer client" and dependency = "''lotus-core''" and
        operation = operation and call = ?call and t = t and
        message = "''lotus-core returned invalid JSON payload for '' @ path", unfolded run Inl prod.case]
    have plain: "e = PlainValueError m" if "?reply = Response status (NotJson m)" "success_status status"
      for status m
      using unparsed_is_plain [where peer = "cc_peer client" and dependency = "''lotus-core''" and
          operation = operation and call = ?call and t = t and
          message = "''lotus-core returned invalid JSON payload for '' @ path", OF that, unfolded run]
      by (simp add: Inl)
    show ?thesis
    proof (cases e)
      case (UpstreamFailure ue)
      have "unparsed_success ?reply = None"
        using plain UpstreamFailure
        by (cases ?reply) (auto simp: unparsed_success_def split: http_body.splits)
      with outcome show ?thesis
        by (simp add: Pair Inl UpstreamFailure Let_def handle_service_error_def
            handle_upstream_service_error_def public_message_known retryable_detail)
    next
      case (PlainValueError m)
      with outcome obtain status where "?reply = Response status (NotJson m)" "success_status status"
        by auto
      then have "unparsed_success ?reply = Some m" by (simp add: unparsed_success_def)
      then show ?thesis
        by (simp add: Pair Inl PlainValueError Let_def handle_service_error_def handle_value_error_def)
    next
      case (AuthorityRefused tae)
      with outcome show ?thesis by simp
    next
      case (Escaped k)
      with outcome show ?thesis by simp
    qed
  qed
qed

end
