(* ===== verification/PerformanceClient.thy ===== *)
theory PerformanceClient
  imports Main Upstream
begin

text \<open>
  The lotus-performance client: integrations/lotus_performance_transport.py,
  performance_async_execution.py, performance_returns_series_async.py and
  performance_returns_payloads.py.  A submit may be accepted with 202; the result is then polled, at
  most a configured number of times, with a pause after every round.  The loop of \<open>range(max_polls)\<close>
  is a recursion on the number of rounds left.
\<close>

section \<open>Workflows\<close>

record async_operations =
  ao_submit :: string
  ao_status :: string
  ao_result :: string
  ao_workflow_name :: string
  ao_bind_result_calculation_id :: bool

definition RETURNS_SERIES_ASYNC_OPERATIONS :: async_operations where
  "RETURNS_SERIES_ASYNC_OPERATIONS =
     \<lparr>ao_submit = ''/integration/returns/series'',
      ao_status = ''/integration/returns/series/status/{calculation_id}'',
      ao_result = ''/integration/returns/series/results/{calculation_id}'',
      ao_workflow_name = ''returns-series'', ao_bind_result_calculation_id = True\<rparr>"

definition CONTRIBUTION_ASYNC_OPERATIONS :: async_operations where
  "CONTRIBUTION_ASYNC_OPERATIONS =
     \<lparr>ao_submit = ''/performance/contribution'',
      ao_status = ''/performance/executions/{calculation_id}'',
      ao_result = ''/performance/contribution/results/{calculation_id}'',
      ao_workflow_name = ''contribution'', ao_bind_result_calculation_id = False\<rparr>"

record performance_client =
  pc_peer :: http_peer
  pc_base_url :: string
  pc_async_max_polls :: nat
  pc_async_poll_interval_seconds :: f64

section \<open>The accepted payload\<close>

definition rooted :: "json \<Rightarrow> string option" where
  "rooted v = (case v of JString (c # cs) \<Rightarrow> if c = CHR ''/'' then Some (c # cs) else None | _ \<Rightarrow> None)"

definition performance_payload_error ::
  "string \<Rightarrow> string \<Rightarrow> (string, json) dict \<Rightarrow> calculation_error"
where
  "performance_payload_error operation message details =
     UpstreamFailure (invalid_upstream_payload ''lotus-performance'' operation message details)"

definition async_accepted_paths ::
  "json_object \<Rightarrow> async_operations \<Rightarrow> (calculation_error, string \<times> string option) result"
where
  "async_accepted_paths accepted operations =
     (case rooted (json_get accepted ''result_path'') of
        None \<Rightarrow> Inl (performance_payload_error (ao_submit operations)
          ''lotus-performance async accepted payload missing result_path'' [])
      | Some result_path \<Rightarrow>
          (case json_get accepted ''poll_path'' of
             JNull \<Rightarrow> Inr (result_path, None)
           | v \<Rightarrow>
               (case rooted v of
                  None \<Rightarrow> Inl (performance_payload_error (ao_submit operations)
                    ''lotus-performance async accepted payload has invalid poll_path'' [])
                | Some poll_path \<Rightarrow> Inr (result_path, Some poll_path))))"

definition accepted_calculation_id ::
  "json_object \<Rightarrow> async_operations \<Rightarrow> (calculation_error, string) result"
where
  "accepted_calculation_id accepted operations =
     (case json_get accepted ''calculation_id'' of
        JString s \<Rightarrow>
          if py_strip s \<noteq> [] then Inr s
          else Inl (performance_payload_error (ao_submit operations)
            ''lotus-performance async accepted payload missing calculation_id''
            [(''field'', JString ''calculation_id'')])
      | _ \<Rightarrow> Inl (performance_payload_error (ao_submit operations)
            ''lotus-performance async accepted payload missing calculation_id''
            [(''field'', JString ''calculation_id'')]))"

definition async_failure :: "json_object \<Rightarrow> async_operations \<Rightarrow> calculation_error" where
  "async_failure execution operations =
     UpstreamFailure (missing_upstream_data ''lotus-performance'' (ao_submit operations)
       (''lotus-performance async '' @ ao_workflow_name operations @ '' failed'' @
        (case json_get execution ''error_message'' of
           JString (c # cs) \<Rightarrow> '': '' @ c # cs | _ \<Rightarrow> [])) [])"

definition async_poll_timeout :: "string \<Rightarrow> async_operations \<Rightarrow> calculation_error" where
  "async_poll_timeout last_status operations =
     UpstreamFailure (missing_upstream_data ''lotus-performance'' (ao_submit operations)
       (''lotus-performance async '' @ ao_workflow_name operations @
        '' did not complete within polling budget (last_status='' @ last_status @ '')'') [])"

definition required_async_result ::
  "json_object option \<Rightarrow> string \<Rightarrow> async_operations \<Rightarrow> (calculation_error, json_object) result"
where
  "required_async_result result_payload accepted_id operations =
     (case result_payload of
        None \<Rightarrow> Inl (UpstreamFailure (missing_upstream_data ''lotus-performance'' (ao_submit operations)
          (''lotus-performance async '' @ ao_workflow_name operations @ '' result returned no payload'') []))
      | Some payload \<Rightarrow>
          if ao_bind_result_calculation_id operations \<and>
            json_get payload ''calculation_id'' \<noteq> JString accepted_id
          then Inl (performance_payload_error (ao_result operations)
            (''lotus-performance async '' @ ao_workflow_name operations @
             '' result calculation_id does not match accepted execution'')
            [(''field'', JString ''calculation_id'')])
          else Inr payload)"

definition optional_dict_payload ::
  "string \<Rightarrow> string \<Rightarrow> http_body \<Rightarrow> (calculation_error, json_object option) result"
where
  "optional_dict_payload invalid_message operation body =
     bind_result (response_json body) (\<lambda>payload.
       case payload of
         JNull \<Rightarrow> Inr None
       | JObject kvs \<Rightarrow> Inr (Some kvs)
       | _ \<Rightarrow> Inl (performance_payload_error operation invalid_message []))"

section \<open>Polling\<close>

definition get_call :: "performance_client \<Rightarrow> (string, string) dict \<Rightarrow> string \<Rightarrow> http_call" where
  "get_call client headers path =
     \<lparr>hc_method = ''GET'', hc_url = pc_base_url client @ path, hc_body = None, hc_headers = headers\<rparr>"

definition poll_status ::
  "performance_client \<Rightarrow> (string, string) dict \<Rightarrow> async_operations \<Rightarrow> string \<Rightarrow> string \<Rightarrow> string io"
where
  "poll_status client headers operations poll_path last_status =
     bind_io (execute_downstream_request_json (pc_peer client) ''lotus-performance''
       (ao_status operations) (get_call client headers poll_path)
       (\<lambda>_. dict_payload ''lotus-performance'' (ao_status operations)
         (''lotus-performance returned invalid JSON payload for '' @ poll_path)) False [])
       (\<lambda>execution.
         let status = json_get execution ''status'' in
         if status = JString ''failed'' then raise_io (async_failure execution operations)
         else return_io (case status of JString s \<Rightarrow> s | _ \<Rightarrow> last_status))"

definition result_parse :: "async_operations \<Rightarrow> (int \<times> json_object option) parse" where
  "result_parse operations status body =
     (if status \<in> {202, 404} then Inr (status, None)
      else bind_result (optional_dict_payload
        ''lotus-performance returned invalid async result payload'' (ao_result operations) body)
        (\<lambda>p. Inr (status, p)))"

definition get_result ::
  "performance_client \<Rightarrow> (string, string) dict \<Rightarrow> async_operations \<Rightarrow> string \<Rightarrow>
     (int \<times> json_object option) io"
where
  "get_result client headers operations result_path =
     execute_downstream_request_json (pc_peer client) ''lotus-performance'' (ao_result operations)
       (get_call client headers result_path) (result_parse operations) False [202, 404]"

definition poll_once ::
  "performance_client \<Rightarrow> (string, string) dict \<Rightarrow> async_operations \<Rightarrow> string \<Rightarrow> string option \<Rightarrow>
     string \<Rightarrow> string \<Rightarrow> (json_object option \<times> string) io"
where
  "poll_once client headers operations result_path poll_path accepted_id last_status =
     bind_io (case poll_path of
         None \<Rightarrow> return_io last_status
       | Some p \<Rightarrow> poll_status client headers operations p last_status) (\<lambda>next_status.
     bind_io (get_result client headers operations result_path) (\<lambda>(result_status, result_payload).
       if result_status \<noteq> 200 then return_io (None, next_status)
       else bind_io (lift_io (required_async_result result_payload accepted_id operations)) (\<lambda>payload.
         return_io (Some payload, next_status))))"

fun poll_rounds ::
  "performance_client \<Rightarrow> (string, string) dict \<Rightarrow> async_operations \<Rightarrow> string \<Rightarrow> string option \<Rightarrow>
     string \<Rightarrow> nat \<Rightarrow> string \<Rightarrow> json_object io"
where
  "poll_rounds client headers operations result_path poll_path accepted_id 0 last_status =
     raise_io (async_poll_timeout last_status operations)"
| "poll_rounds client headers operations result_path poll_path accepted_id (Suc n) last_status =
     bind_io (poll_once client headers operations result_path poll_path accepted_id last_status)
       (\<lambda>(result_payload, next_status).
         case result_payload of
           Some payload \<Rightarrow> return_io payload
         | None \<Rightarrow>
             bind_io (emit_event (Paused (pc_async_poll_interval_seconds client))) (\<lambda>_.
               poll_rounds client headers operations result_path poll_path accepted_id n next_status))"

definition poll_async_result ::
  "performance_client \<Rightarrow> (string, string) dict \<Rightarrow> async_operations \<Rightarrow> json_object \<Rightarrow> json_object io"
where
  "poll_async_result client headers operations accepted =
     bind_io (lift_io (async_accepted_paths accepted operations)) (\<lambda>(result_path, poll_path).
     bind_io (lift_io (accepted_calculation_id accepted operations)) (\<lambda>accepted_id.
       poll_rounds client headers operations result_path poll_path accepted_id
         (pc_async_max_polls client) ''pending''))"

section \<open>Submission\<close>

definition post_call ::
  "performance_client \<Rightarrow> (string, string) dict \<Rightarrow> string \<Rightarrow> json_object \<Rightarrow> http_call"
where
  "post_call client headers path payload =
     \<lparr>hc_method = ''POST'', hc_url = pc_base_url client @ path, hc_body = Some (JObject payload),
      hc_headers = headers\<rparr>"

definition submit_parse :: "async_operations \<Rightarrow> (int \<times> json_object) parse" where
  "submit_parse operations status body =
     bind_result (dict_payload ''lotus-performance'' (ao_submit operations)
       (if status = 202 then ''lotus-performance returned invalid async accepted payload''
        else ''lotus-performance returned invalid JSON payload'') body)
       (\<lambda>payload. Inr (status, payload))"

definition execute_async_workflow_request ::
  "performance_client \<Rightarrow> async_operations \<Rightarrow> json_object \<Rightarrow> downstream_authority \<Rightarrow> json_object io"
where
  "execute_async_workflow_request client operations request_payload authority =
     (let headers = downstream_authority_headers authority in
      bind_io (execute_downstream_request_json (pc_peer client) ''lotus-performance''
        (ao_submit operations) (post_call client headers (ao_submit operations) request_payload)
        (submit_parse operations) False []) (\<lambda>(status_code, payload).
      bind_io (if status_code = 202 then poll_async_result client headers operations payload
               else return_io payload) (\<lambda>answer.
      bind_io (record_upstream_request ''lotus-performance'' (ao_submit operations) ''success'' ''ok'')
        (\<lambda>_. return_io answer))))"

definition execute_returns_series_request ::
  "performance_client \<Rightarrow> json_object \<Rightarrow> downstream_authority \<Rightarrow> json_object io"
where
  "execute_returns_series_request client request_payload authority =
     execute_async_workflow_request client RETURNS_SERIES_ASYNC_OPERATIONS request_payload authority"

definition execute_contribution_request ::
  "performance_client \<Rightarrow> json_object \<Rightarrow> downstream_authority \<Rightarrow> json_object io"
where
  "execute_contribution_request client request_payload authority =
     execute_async_workflow_request client CONTRIBUTION_ASYNC_OPERATIONS request_payload authority"

definition execute_performance_read ::
  "performance_client \<Rightarrow> string \<Rightarrow> string \<Rightarrow> json_object \<Rightarrow> downstream_authority \<Rightarrow> json_object io"
where
  "execute_performance_read client operation invalid_message request_payload authority =
     execute_downstream_request_json (pc_peer client) ''lotus-performance'' operation
       (post_call client (downstream_authority_headers authority) operation request_payload)
       (\<lambda>_. dict_payload ''lotus-performance'' operation invalid_message) True []"

definition execute_benchmark_exposure_context_request ::
  "performance_client \<Rightarrow> json_object \<Rightarrow> downstream_authority \<Rightarrow> json_object io"
where
  "execute_benchmark_exposure_context_request client =
     execute_performance_read client ''/integration/benchmarks/exposure-context''
       ''lotus-performance returned invalid benchmark exposure context payload''"

definition execute_group_return_evidence_request ::
  "performance_client \<Rightarrow> json_object \<Rightarrow> downstream_authority \<Rightarrow> json_object io"
where
  "execute_group_return_evidence_request client =
     execute_performance_read client ''/integration/attribution/group-return-evidence/v1''
       ''lotus-performance returned invalid group-return evidence payload''"

section \<open>Polling is bounded\<close>

definition headed_by :: "performance_client \<Rightarrow> (string, string) dict \<Rightarrow> event \<Rightarrow> bool" where
  "headed_by client headers ev =
     (case ev of
        Sent call \<Rightarrow> hc_headers call = headers \<and> starts_with (hc_url call) (pc_base_url client)
      | _ \<Rightarrow> True)"

lemma headed_by_calls [simp]:
  "headed_by client headers (Sent (get_call client headers path))"
  "headed_by client headers (Sent (post_call client headers path payload))"
  "headed_by client headers (Recorded r)" "headed_by client headers (Paused d)"
  by (simp_all add: headed_by_def get_call_def post_call_def starts_with_def)

lemma emits_status:
  "emits (headed_by client headers) (poll_status client headers operations poll_path last_status)"
  unfolding poll_status_def Let_def by (intro emits_intros) simp_all

lemma emits_result:
  "emits (headed_by client headers) (get_result client headers operations result_path)"
  unfolding get_result_def by (intro emits_intros) simp_all

lemma emits_once:
  "emits (headed_by client headers)
     (poll_once client headers operations result_path poll_path accepted_id last_status)"
  unfolding poll_once_def
  by (auto intro!: emits_intros emits_status emits_result split: prod.splits)

lemma emits_rounds:
  "emits (headed_by client headers)
     (poll_rounds client headers operations result_path poll_path accepted_id n last_status)"
  by (induction n arbitrary: last_status)
    (auto intro!: emits_intros emits_once split: prod.splits)

lemma at_most_once:
  "at_most 2 (poll_once client headers operations result_path poll_path accepted_id last_status)"
proof -
  have status: "at_most 1 (case poll_path of None \<Rightarrow> return_io last_status
      | Some p \<Rightarrow> poll_status client headers operations p last_status)"
    by (cases poll_path)
      (auto simp: poll_status_def Let_def intro!: emits_intros at_most_bind [OF at_most_execute])
  have rest: "at_most 1 (bind_io (get_result client headers operations result_path)
      (\<lambda>(result_status, result_payload).
        if result_status \<noteq> 200 then return_io (None, next_status)
        else bind_io (lift_io (required_async_result result_payload accepted_id operations))
          (\<lambda>payload. return_io (Some payload, next_status))))" for next_status
    unfolding get_result_def
    by (rule at_most_bind [OF at_most_execute, where b = 0])
      (auto split: prod.splits intro!: emits_intros at_most_bind [where a = 0 and b = 0])
  show ?thesis
    unfolding poll_once_def by (rule at_most_bind [OF status rest]) simp
qed

lemma at_most_rounds:
  "at_most (2 * n) (poll_rounds client headers operations result_path poll_path accepted_id n last_status)"
proof (induction n arbitrary: last_status)
  case 0
  show ?case unfolding poll_rounds.simps by (rule at_most_basic)
next
  case (Suc n)
  show ?case
    unfolding poll_rounds.simps
    by (rule at_most_bind [OF at_most_once, where b = "2 * n"])
      (auto split: prod.splits option.splits
        intro!: emits_intros at_most_bind [where a = 0 and b = "2 * n"] Suc.IH)
qed

lemma async_workflow_calls:
  "\<exists>es. snd (execute_async_workflow_request client operations payload a t) = t @ es \<and>
     requests_in es \<le> 1 + 2 * pc_async_max_polls client \<and>
     list_all (headed_by client (downstream_authority_headers a)) es"
proof -
  let ?w = "execute_async_workflow_request client operations payload a"
  have polls: "at_most (2 * pc_async_max_polls client)
      (poll_async_result client headers operations accepted)" for headers accepted
    unfolding poll_async_result_def
    by (rule at_most_bind [where a = 0 and b = "2 * pc_async_max_polls client"])
      (auto split: prod.splits intro!: emits_intros at_most_rounds
        at_most_bind [where a = 0 and b = "2 * pc_async_max_polls client"])
  have record_last: "at_most 0 (bind_io (emit_event (Recorded r)) (\<lambda>_. return_io answer))" for r and answer :: json_object
    by (rule at_most_bind [where a = 0 and b = 0]) (auto intro: emits_intros)
  have answered: "at_most (2 * pc_async_max_polls client)
      (if status = 202 then poll_async_result client headers operations accepted
       else return_io accepted)" for headers accepted and status :: int
    by (auto intro: emits_intros polls)
  have bounded: "at_most (1 + 2 * pc_async_max_polls client) ?w"
    unfolding execute_async_workflow_request_def Let_def record_upstream_request_def
    by (rule at_most_bind [OF at_most_execute, where b = "2 * pc_async_max_polls client"],
        simp only: split_paired_all prod.case, rule at_most_bind [OF answered record_last], simp_all)
  have "emits (headed_by client (downstream_authority_headers a)) ?w"
    unfolding execute_async_workflow_request_def Let_def record_upstream_request_def
      poll_async_result_def
    by (auto split: prod.splits intro!: emits_intros emits_rounds)
  then obtain es where "snd (?w t) = t @ es" "list_all (headed_by client (downstream_authority_headers a)) es"
    by (rule emitsE)
  moreover from this have "requests_in es \<le> 1 + 2 * pc_async_max_polls client"
    using bounded unfolding at_most_def by (metis add_le_cancel_left requests_in_simps(5))
  ultimately show ?thesis by blast
qed

text \<open>A workflow sends at most one submit and two requests per poll, and every one of them, the
  submit and each status or result poll, carries the same headers, those of the submitting
  authority, and goes to the client's own base URL.\<close>

theorem async_workflow_is_bounded:
  "\<exists>es. snd (execute_async_workflow_request client operations payload a t) = t @ es \<and>
     requests_in es \<le> 1 + 2 * pc_async_max_polls client \<and>
     list_all (headed_by client (downstream_authority_headers a)) es"
  by (rule async_workflow_calls)

section \<open>The answer is the accepted execution's\<close>

text \<open>The answer was the body of a 200 to a request for the result, and it names the execution.\<close>

definition answered_by ::
  "performance_client \<Rightarrow> (string, string) dict \<Rightarrow> async_operations \<Rightarrow> string \<Rightarrow> string \<Rightarrow> json_object \<Rightarrow>
     trace \<Rightarrow> bool"
where
  "answered_by client headers operations result_path accepted_id answer u \<longleftrightarrow>
     (\<exists>v rest. u = v @ Sent (get_call client headers result_path) # rest \<and>
        pc_peer client (v @ [Sent (get_call client headers result_path)]) =
          Response 200 (JsonBody (JObject answer))) \<and>
     (ao_bind_result_calculation_id operations \<longrightarrow>
        json_get answer ''calculation_id'' = JString accepted_id)"

lemma poll_once_answer:
  assumes "poll_once client headers operations result_path poll_path accepted_id last_status t =
    (Inr (Some answer, s), u)"
  shows "answered_by client headers operations result_path accepted_id answer u"
proof -
  obtain next_status v status payload where
    got: "get_result client headers operations result_path v = (Inr (status, payload), u)"
    and ok: "status = 200" "required_async_result payload accepted_id operations = Inr answer"
    using assms
    by (auto simp: poll_once_def bind_io_Inr_iff split: if_splits prod.splits)
  from execute_json_Inr [OF got [unfolded get_result_def]] obtain body rest where
    reply: "pc_peer client (v @ [Sent (get_call client headers result_path)]) = Response 200 body"
      "result_parse operations 200 body = Inr (status, payload)"
      "u = v @ Sent (get_call client headers result_path) # rest"
    using ok(1) by (auto simp: result_parse_def result_simps split: if_splits)
  have "payload = Some answer" and bound: "ao_bind_result_calculation_id operations \<Longrightarrow>
      json_get answer ''calculation_id'' = JString accepted_id"
    using ok(2) by (auto simp: required_async_result_def split: option.splits if_splits)
  then have "body = JsonBody (JObject answer)"
    using reply(2)
    by (auto simp: result_parse_def result_simps optional_dict_payload_def response_json_def
        performance_payload_error_def split: http_body.splits json.splits)
  then show ?thesis using reply bound unfolding answered_by_def by blast
qed

lemma answered_by_append:
  "answered_by client headers operations result_path accepted_id answer u \<Longrightarrow>
     answered_by client headers operations result_path accepted_id answer (u @ w)"
  by (fastforce simp: answered_by_def)

lemma poll_rounds_answer:
  "poll_rounds client headers operations result_path poll_path accepted_id n last_status t = (Inr answer, u) \<Longrightarrow>
     answered_by client headers operations result_path accepted_id answer u"
proof (induction n arbitrary: last_status t)
  case 0
  then show ?case by simp
next
  case (Suc n)
  then show ?case
    by (auto simp: bind_io_Inr_iff split: option.splits intro: poll_once_answer)
qed

text \<open>
  The answer of a workflow that is started after \<open>t\<close> and has answered when \<open>u\<close> is what was sent: the submit's
  own body, or the body of the result it was accepted for.
\<close>

definition workflow_answer ::
  "performance_client \<Rightarrow> async_operations \<Rightarrow> json_object \<Rightarrow> downstream_authority \<Rightarrow> trace \<Rightarrow> json_object \<Rightarrow>
     trace \<Rightarrow> bool"
where
  "workflow_answer client operations payload a t answer u \<longleftrightarrow>
     (\<exists>status accepted.
        pc_peer client (t @ [Sent (post_call client (downstream_authority_headers a)
          (ao_submit operations) payload)]) = Response status (JsonBody (JObject accepted)) \<and>
        success_status status \<and>
        (if status \<noteq> 202 then answer = accepted
         else \<exists>result_path accepted_id.
           rooted (json_get accepted ''result_path'') = Some result_path \<and>
           json_get accepted ''calculation_id'' = JString accepted_id \<and>
           answered_by client (downstream_authority_headers a) operations result_path accepted_id answer u))"

lemma workflow_answered:
  assumes "execute_async_workflow_request client operations payload a t = (Inr answer, u)"
  shows "workflow_answer client operations payload a t answer u"
proof -
  let ?h = "downstream_authority_headers a"
  let ?c = "post_call client ?h (ao_submit operations) payload"
  obtain accepted_reply v where
    submit: "execute_downstream_request_json (pc_peer client) ''lotus-performance'' (ao_submit operations)
      ?c (submit_parse operations) False [] t = (Inr accepted_reply, v)"
    and rest0: "(case accepted_reply of (status_code, payload) \<Rightarrow>
      bind_io (if status_code = 202 then poll_async_result client ?h operations payload
               else return_io payload) (\<lambda>answer.
      bind_io (record_upstream_request ''lotus-performance'' (ao_submit operations) ''success'' ''ok'')
        (\<lambda>_. return_io answer))) v = (Inr answer, u)"
    using assms unfolding execute_async_workflow_request_def Let_def by (rule bind_io_InrE)
  obtain status accepted where pair: "accepted_reply = (status, accepted)" by force
  obtain v' where rest: "(if status = 202 then poll_async_result client ?h operations accepted
      else return_io accepted) v = (Inr answer, v')" "\<exists>w. u = v' @ w"
    using rest0 unfolding pair prod.case
    by (elim bind_io_InrE) (auto simp: record_upstream_request_def)
  have reply: "pc_peer client (t @ [Sent ?c]) = Response status (JsonBody (JObject accepted))"
    "success_status status"
    using execute_json_Inr [OF submit]
    by (auto simp: pair submit_parse_def bind_result_Inr_iff dict_payload_Inr_iff success_status_def)
  show ?thesis
  proof (cases "status = 202")
    case False
    then show ?thesis using reply rest by (auto simp: workflow_answer_def)
  next
    case True
    obtain result_path poll_path accepted_id where
      paths: "async_accepted_paths accepted operations = Inr (result_path, poll_path)"
        "accepted_calculation_id accepted operations = Inr accepted_id"
      and run: "poll_rounds client ?h operations result_path poll_path accepted_id
        (pc_async_max_polls client) ''pending'' v = (Inr answer, v')"
      using rest(1) True by (auto simp: poll_async_result_def bind_io_Inr_iff split: prod.splits)
    have "rooted (json_get accepted ''result_path'') = Some result_path"
      "json_get accepted ''calculation_id'' = JString accepted_id"
      using paths by (auto simp: async_accepted_paths_def accepted_calculation_id_def
          split: option.splits json.splits if_splits)
    then show ?thesis
      using reply True poll_rounds_answer [OF run] rest(2)
      unfolding workflow_answer_def by (auto intro: answered_by_append)
  qed
qed

text \<open>C15: what a workflow answers is what its own submission led to: the submit's own body unless it
  was accepted with 202, and otherwise the body of a 200 at the accepted result path, which for a
  bound workflow names the accepted calculation.\<close>

theorem async_answer_is_bound:
  assumes "execute_async_workflow_request client operations payload a t = (Inr answer, u)"
  shows "\<exists>status accepted.
    pc_peer client (t @ [Sent (post_call client (downstream_authority_headers a)
      (ao_submit operations) payload)]) = Response status (JsonBody (JObject accepted)) \<and>
    success_status status \<and>
    (if status \<noteq> 202 then answer = accepted
     else \<exists>result_path accepted_id.
       rooted (json_get accepted ''result_path'') = Some result_path \<and>
       json_get accepted ''calculation_id'' = JString accepted_id \<and>
       answered_by client (downstream_authority_headers a) operations result_path accepted_id answer u)"
  using workflow_answered [OF assms] by (simp only: workflow_answer_def)

section \<open>A result that becomes ready is returned\<close>

text \<open>
  A producer that has the result pending at the first \<open>k\<close> requests for it, answering 202 or 404, and
  ready from then on, and whose status, where it has a path for it, never says the execution failed.
\<close>

definition producer_completes ::
  "performance_client \<Rightarrow> (string, string) dict \<Rightarrow> string \<Rightarrow> string option \<Rightarrow> nat \<Rightarrow> json_object \<Rightarrow> bool"
where
  "producer_completes client headers result_path poll_path k answer \<longleftrightarrow>
     poll_path \<noteq> Some result_path \<and>
     (\<forall>u. let ask = Sent (get_call client headers result_path); reply = pc_peer client (u @ [ask]) in
        if count_list u ask < k
        then (\<exists>body. reply = Response 202 body) \<or> (\<exists>body. reply = Response 404 body)
        else reply = Response 200 (JsonBody (JObject answer))) \<and>
     (\<forall>p u. poll_path = Some p \<longrightarrow>
        (\<exists>status kvs. pc_peer client (u @ [Sent (get_call client headers p)]) =
            Response status (JsonBody (JObject kvs)) \<and> success_status status \<and>
            json_get kvs ''status'' \<noteq> JString ''failed''))"

lemma get_call_inject [simp]:
  "get_call client headers p = get_call client headers q \<longleftrightarrow> p = q"
  by (simp add: get_call_def)

lemma status_polled:
  assumes "producer_completes client headers result_path poll_path k answer"
  shows "\<exists>s v. (case poll_path of None \<Rightarrow> return_io last_status
      | Some p \<Rightarrow> poll_status client headers operations p last_status) u = (Inr s, v) \<and>
    count_list v (Sent (get_call client headers result_path)) =
      count_list u (Sent (get_call client headers result_path))"
proof (cases poll_path)
  case None
  then show ?thesis by simp
next
  case (Some p)
  obtain status kvs where reply: "pc_peer client (u @ [Sent (get_call client headers p)]) =
      Response status (JsonBody (JObject kvs))" "success_status status"
      "json_get kvs ''status'' \<noteq> JString ''failed''"
    using assms Some unfolding producer_completes_def by blast
  have "p \<noteq> result_path" using assms Some by (auto simp: producer_completes_def)
  moreover have "execute_downstream_request_json (pc_peer client) ''lotus-performance''
      (ao_status operations) (get_call client headers p)
      (\<lambda>_. dict_payload ''lotus-performance'' (ao_status operations) m) False [] u =
      (Inr kvs, u @ [Sent (get_call client headers p)])" for m
    using reply by (intro execute_json_ok) (auto simp: dict_payload_Inr_iff success_status_def)
  ultimately show ?thesis
    using Some reply(3) by (simp add: poll_status_def bind_io_def Let_def)
qed

lemma poll_once_pending_or_ready:
  assumes completes: "producer_completes client headers result_path poll_path k answer"
    and bound: "ao_bind_result_calculation_id operations \<longrightarrow>
      json_get answer ''calculation_id'' = JString accepted_id"
  shows "\<exists>s v.
    poll_once client headers operations result_path poll_path accepted_id last_status u =
      (Inr (if count_list u (Sent (get_call client headers result_path)) < k then None else Some answer, s), v) \<and>
    count_list v (Sent (get_call client headers result_path)) =
      Suc (count_list u (Sent (get_call client headers result_path)))"
proof -
  let ?ask = "Sent (get_call client headers result_path)"
  obtain s v where status: "(case poll_path of None \<Rightarrow> return_io last_status
      | Some p \<Rightarrow> poll_status client headers operations p last_status) u = (Inr s, v)"
    and count: "count_list v ?ask = count_list u ?ask"
    using status_polled [OF completes] by blast
  let ?reply = "pc_peer client (v @ [?ask])"
  have reply: "if count_list u ?ask < k
      then (\<exists>body. ?reply = Response 202 body) \<or> (\<exists>body. ?reply = Response 404 body)
      else ?reply = Response 200 (JsonBody (JObject answer))"
    using completes count unfolding producer_completes_def Let_def by metis
  show ?thesis
  proof (cases "count_list u ?ask < k")
    case True
    then obtain st body where "?reply = Response st body" "st \<in> {202, 404}"
      using reply by auto
    then have "get_result client headers operations result_path v = (Inr (st, None), v @ [?ask])"
      unfolding get_result_def by (intro execute_json_ok) (auto simp: result_parse_def)
    then show ?thesis
      using status count True \<open>st \<in> {202, 404}\<close> by (auto simp: poll_once_def bind_io_def)
  next
    case False
    then have "get_result client headers operations result_path v = (Inr (200, Some answer), v @ [?ask])"
      using reply unfolding get_result_def
      by (intro execute_json_ok)
        (auto simp: result_parse_def optional_dict_payload_def response_json_def)
    then show ?thesis
      using status count False bound
      by (auto simp: poll_once_def bind_io_def required_async_result_def)
  qed
qed

lemma poll_rounds_complete:
  assumes "producer_completes client headers result_path poll_path k answer"
    "ao_bind_result_calculation_id operations \<longrightarrow> json_get answer ''calculation_id'' = JString accepted_id"
  shows "count_list u (Sent (get_call client headers result_path)) \<le> k \<Longrightarrow>
    \<exists>s. fst (poll_rounds client headers operations result_path poll_path accepted_id n last_status u) =
      (if k < n + count_list u (Sent (get_call client headers result_path))
       then Inr answer else Inl (async_poll_timeout s operations))"
proof (induction n arbitrary: last_status u)
  case 0
  then show ?case by auto
next
  case (Suc n)
  let ?ask = "Sent (get_call client headers result_path)"
  obtain s v where once: "poll_once client headers operations result_path poll_path accepted_id last_status u =
      (Inr (if count_list u ?ask < k then None else Some answer, s), v)"
    and count: "count_list v ?ask = Suc (count_list u ?ask)"
    using poll_once_pending_or_ready [OF assms] by blast
  show ?case
  proof (cases "count_list u ?ask < k")
    case False
    then show ?thesis using once Suc.prems by (simp add: bind_io_def)
  next
    case True
    let ?v = "v @ [Paused (pc_async_poll_interval_seconds client)]"
    have "count_list ?v ?ask = Suc (count_list u ?ask)" using count by simp
    with Suc.IH [of ?v s] True once show ?thesis by (simp add: bind_io_def)
  qed
qed

text \<open>C14: polling neither gives up early nor waits beyond its budget: a result that is pending at
  \<open>k\<close> requests and then ready is returned exactly when \<open>k\<close> is below the configured number of polls,
  and otherwise the workflow ends in the time-out error.\<close>

theorem ready_result_is_returned:
  assumes submit: "pc_peer client [Sent (post_call client (downstream_authority_headers a)
      (ao_submit operations) payload)] = Response 202 (JsonBody (JObject accepted))"
    and paths: "async_accepted_paths accepted operations = Inr (result_path, poll_path)"
    and id: "accepted_calculation_id accepted operations = Inr accepted_id"
    and completes: "producer_completes client (downstream_authority_headers a) result_path poll_path k answer"
    and bound: "ao_bind_result_calculation_id operations \<longrightarrow>
      json_get answer ''calculation_id'' = JString accepted_id"
  shows "\<exists>s. fst (execute_async_workflow_request client operations payload a []) =
    (if k < pc_async_max_polls client then Inr answer else Inl (async_poll_timeout s operations))"
proof -
  let ?h = "downstream_authority_headers a"
  let ?c = "post_call client ?h (ao_submit operations) payload"
  have "execute_downstream_request_json (pc_peer client) ''lotus-performance'' (ao_submit operations)
      ?c (submit_parse operations) False [] [] = (Inr (202, accepted), [] @ [Sent ?c])"
    using submit by (intro execute_json_ok)
      (auto simp: submit_parse_def dict_payload_def response_json_def)
  moreover have "count_list [Sent ?c] (Sent (get_call client ?h result_path)) = 0"
    by (simp add: post_call_def get_call_def)
  then obtain s where "fst (poll_rounds client ?h operations result_path poll_path accepted_id
      (pc_async_max_polls client) ''pending'' [Sent ?c]) =
      (if k < pc_async_max_polls client then Inr answer else Inl (async_poll_timeout s operations))"
    using poll_rounds_complete [OF completes bound, of "[Sent ?c]"] by fastforce
  ultimately show ?thesis
    by (cases "poll_rounds client ?h operations result_path poll_path accepted_id
        (pc_async_max_polls client) ''pending'' [Sent ?c]")
      (auto simp: execute_async_workflow_request_def Let_def bind_io_def poll_async_result_def paths id
        record_upstream_request_def split: if_splits)
qed

definition sample_accepted :: json_object where
  "sample_accepted = [(''calculation_id'', JString ''c1''), (''poll_path'', JString ''/s/c1''),
     (''result_path'', JString ''/r/c1'')]"

definition sample_answer :: json_object where
  "sample_answer = [(''calculation_id'', JString ''c1'')]"

definition sample_producer :: http_peer where
  "sample_producer tr =
     (case last tr of
        Sent call \<Rightarrow>
          if hc_method call = ''POST'' then Response 202 (JsonBody (JObject sample_accepted))
          else if hc_url call = ''http://p/s/c1''
          then Response 200 (JsonBody (JObject [(''status'', JString ''running'')]))
          else if count_list (butlast tr) (last tr) < 1 then Response 404 (NotJson [])
          else Response 200 (JsonBody (JObject sample_answer))
      | _ \<Rightarrow> NoResponse TransportFailed)"

definition sample_client :: performance_client where
  "sample_client = \<lparr>pc_peer = sample_producer, pc_base_url = ''http://p'', pc_async_max_polls = 2,
     pc_async_poll_interval_seconds = 1\<rparr>"

definition sample_authority :: downstream_authority where
  "sample_authority = \<lparr>da_tenant_id = ''t1'', da_correlation_id = None\<rparr>"

theorem ready_result_is_returned_witness:
  "\<exists>s. fst (execute_async_workflow_request sample_client RETURNS_SERIES_ASYNC_OPERATIONS []
      sample_authority []) =
    (if (1::nat) < pc_async_max_polls sample_client then Inr sample_answer
     else Inl (async_poll_timeout s RETURNS_SERIES_ASYNC_OPERATIONS))"
proof (rule ready_result_is_returned)
  show "pc_peer sample_client [Sent (post_call sample_client (downstream_authority_headers sample_authority)
      (ao_submit RETURNS_SERIES_ASYNC_OPERATIONS) [])] = Response 202 (JsonBody (JObject sample_accepted))"
    by (simp add: sample_client_def sample_producer_def post_call_def)
  show "async_accepted_paths sample_accepted RETURNS_SERIES_ASYNC_OPERATIONS =
      Inr (''/r/c1'', Some ''/s/c1'')"
    by (simp add: async_accepted_paths_def sample_accepted_def json_get_def rooted_def)
  show "accepted_calculation_id sample_accepted RETURNS_SERIES_ASYNC_OPERATIONS = Inr ''c1''"
    by code_simp
  show "producer_completes sample_client (downstream_authority_headers sample_authority) ''/r/c1''
      (Some ''/s/c1'') 1 sample_answer"
    by (simp add: producer_completes_def sample_client_def sample_producer_def get_call_def
        success_status_def json_get_def)
  show "ao_bind_result_calculation_id RETURNS_SERIES_ASYNC_OPERATIONS \<longrightarrow>
      json_get sample_answer ''calculation_id'' = JString ''c1''"
    by (simp add: sample_answer_def json_get_def)
qed

theorem async_answer_is_bound_witness:
  "\<exists>status accepted.
    pc_peer sample_client [Sent (post_call sample_client (downstream_authority_headers sample_authority)
      (ao_submit RETURNS_SERIES_ASYNC_OPERATIONS) [])] = Response status (JsonBody (JObject accepted)) \<and>
    success_status status \<and>
    (if status \<noteq> 202 then sample_answer = accepted
     else \<exists>result_path accepted_id.
       rooted (json_get accepted ''result_path'') = Some result_path \<and>
       json_get accepted ''calculation_id'' = JString accepted_id \<and>
       answered_by sample_client (downstream_authority_headers sample_authority)
         RETURNS_SERIES_ASYNC_OPERATIONS result_path accepted_id sample_answer
         (snd (execute_async_workflow_request sample_client RETURNS_SERIES_ASYNC_OPERATIONS []
           sample_authority [])))"
proof -
  have "fst (execute_async_workflow_request sample_client RETURNS_SERIES_ASYNC_OPERATIONS []
      sample_authority []) = Inr sample_answer"
    by code_simp
  then have "execute_async_workflow_request sample_client RETURNS_SERIES_ASYNC_OPERATIONS []
      sample_authority [] = (Inr sample_answer, snd (execute_async_workflow_request sample_client
        RETURNS_SERIES_ASYNC_OPERATIONS [] sample_authority []))"
    by (metis prod.collapse)
  from async_answer_is_bound [OF this] show ?thesis by simp
qed

end
