(* ===== verification/Calendar.thy ===== *)
theory Calendar
  imports Main Dates
begin

text \<open>
  What the parsers of dated series use of \<open>datetime.date\<close>: days of the week, the date of an ordinal,
  date arithmetic, and \<open>date.fromisoformat\<close> of CPython 3.12, which reads the seven, eight and ten
  byte forms of calendar and week dates.  \<open>Inl\<close> is the exception: \<open>ValueError\<close> from the parser and the
  constructor, \<open>OverflowError\<close> from arithmetic that leaves the years 1 to 9999.
\<close>

section \<open>The date of an ordinal\<close>

definition year_of_ordinal :: "int \<Rightarrow> int" where
  "year_of_ordinal n =
     (let y = n * 400 div 146097 + 1 in
      if days_before_year (y + 1) < n then y + 1 else if days_before_year y < n then y else y - 1)"

fun month_of_day :: "int \<Rightarrow> int \<Rightarrow> int list \<Rightarrow> int" where
  "month_of_day y r [] = 1"
| "month_of_day y r (m # ms) = (if days_before_month y m < r then m else month_of_day y r ms)"

definition date_of_ordinal :: "int \<Rightarrow> date" where
  "date_of_ordinal n =
     (let y = year_of_ordinal n; r = n - days_before_year y;
          m = month_of_day y r [12, 11, 10, 9, 8, 7, 6, 5, 4, 3, 2]
      in Date y m (r - days_before_month y m))"

definition max_ordinal :: int where
  "max_ordinal = 3652059"

lemma days_before_year_bounds:
  "400 * days_before_year y \<le> 146097 * (y - 1) + 399"
  "146097 * (y - 1) - 1596 \<le> 400 * days_before_year y"
proof -
  have q: "k * (p div k) \<le> p \<and> p \<le> k * (p div k) + (k - 1)" if "0 < k" for k p :: int
    using that pos_mod_bound [of k p] pos_mod_sign [of k p] mult_div_mod_eq [of k p] by linarith
  have a: "4 * ((y - 1) div 4) \<le> y - 1" "y - 1 \<le> 4 * ((y - 1) div 4) + 3" using q [of 4 "y - 1"] by simp_all
  have b: "100 * ((y - 1) div 100) \<le> y - 1" "y - 1 \<le> 100 * ((y - 1) div 100) + 99"
    using q [of 100 "y - 1"] by simp_all
  have c: "400 * ((y - 1) div 400) \<le> y - 1" "y - 1 \<le> 400 * ((y - 1) div 400) + 399"
    using q [of 400 "y - 1"] by simp_all
  show "400 * days_before_year y \<le> 146097 * (y - 1) + 399"
    "146097 * (y - 1) - 1596 \<le> 400 * days_before_year y"
    using a b c unfolding days_before_year_def Let_def by (simp_all add: algebra_simps)
qed

lemma year_of_ordinal_bounds:
  "days_before_year (year_of_ordinal n) < n" "n \<le> days_before_year (year_of_ordinal n + 1)"
proof -
  define y where "y = n * 400 div 146097 + 1"
  have y: "146097 * (y - 1) \<le> 400 * n" "400 * n < 146097 * y"
    unfolding y_def using pos_mod_bound [of 146097 "n * 400"] pos_mod_sign [of 146097 "n * 400"]
      mult_div_mod_eq [of 146097 "n * 400"] by simp_all
  have hi: "n < days_before_year (y + 1 + 1)"
  proof -
    have "400 * n < 400 * D" if "146097 * (y + 1) - 1596 \<le> 400 * D" for D :: int
      using that y(2) by simp
    from this [of "days_before_year (y + 1 + 1)"] show ?thesis
      using days_before_year_bounds(2) [of "y + 1 + 1"] by (simp add: add.commute)
  qed
  have lo: "days_before_year (y - 1) < n"
    using y(1) days_before_year_bounds(1) [of "y - 1"] by simp
  have eq: "year_of_ordinal n =
      (if days_before_year (y + 1) < n then y + 1 else if days_before_year y < n then y else y - 1)"
    by (simp add: year_of_ordinal_def y_def Let_def)
  show "days_before_year (year_of_ordinal n) < n" using lo by (simp add: eq)
  show "n \<le> days_before_year (year_of_ordinal n + 1)"
    using hi by (auto simp: eq simp del: add.assoc add_2_eq_Suc')
qed

lemma month_of_day_upto:
  assumes "1 \<le> n" "n \<le> 12" "1 \<le> r" "r \<le> days_before_month y n + days_in_month y n"
  shows "1 \<le> month_of_day y r (rev [2..n]) \<and> month_of_day y r (rev [2..n]) \<le> 12 \<and>
     days_before_month y (month_of_day y r (rev [2..n])) < r \<and>
     r \<le> days_before_month y (month_of_day y r (rev [2..n])) + days_in_month y (month_of_day y r (rev [2..n]))"
  using assms
proof (induction n rule: int_ge_induct)
  case base
  then show ?case by (simp add: days_before_month_def)
next
  case (step n)
  have list: "rev [2..n + 1] = (n + 1) # rev [2..n]" using step.hyps by (simp add: upto_rec2)
  show ?case
  proof (cases "days_before_month y (n + 1) < r")
    case True
    with step.hyps step.prems show ?thesis by (simp add: list)
  next
    case False
    then have "r \<le> days_before_month y n + days_in_month y n"
      using days_before_next_month [of n y] step.hyps step.prems(1) by simp
    with step.IH step.prems False show ?thesis by (simp add: list)
  qed
qed

lemma month_of_day_bounds:
  assumes "1 \<le> r" "r \<le> (if is_leap y then 366 else 365)"
  defines "m \<equiv> month_of_day y r [12, 11, 10, 9, 8, 7, 6, 5, 4, 3, 2]"
  shows "1 \<le> m" "m \<le> 12" "days_before_month y m < r" "r \<le> days_before_month y m + days_in_month y m"
proof -
  have list: "rev [2..12] = [12, 11, 10, 9, 8, 7, 6, 5, 4, 3, 2 :: int]" by code_simp
  have "r \<le> days_before_month y 12 + days_in_month y 12"
    using assms(2) days_in_year [of y] by (simp add: days_in_month_def)
  with month_of_day_upto [of 12 r y] assms(1)
  show "1 \<le> m" "m \<le> 12" "days_before_month y m < r" "r \<le> days_before_month y m + days_in_month y m"
    by (simp_all add: list m_def)
qed

lemma date_of_ordinal:
  assumes "1 \<le> n" "n \<le> max_ordinal"
  shows "valid_date (date_of_ordinal n)" "toordinal (date_of_ordinal n) = n"
proof -
  let ?y = "year_of_ordinal n"
  let ?r = "n - days_before_year ?y"
  let ?m = "month_of_day ?y ?r [12, 11, 10, 9, 8, 7, 6, 5, 4, 3, 2]"
  note b = year_of_ordinal_bounds [of n]
  have r: "1 \<le> ?r" "?r \<le> (if is_leap ?y then 366 else 365)"
    using b days_before_next_year [of ?y] by auto
  note m = month_of_day_bounds [OF r]
  have y1: "1 \<le> ?y"
  proof (rule ccontr)
    assume "\<not> 1 \<le> ?y"
    then have "days_before_year (?y + 1) \<le> days_before_year 1"
      using days_before_year_mono [of "?y + 1" 1] days_before_next_year [of "?y + 1"]
      by (cases "?y + 1 = 1") (auto split: if_splits)
    with b(2) assms(1) show False by (simp add: days_before_year_def)
  qed
  have y2: "?y \<le> 9999"
  proof (rule ccontr)
    assume "\<not> ?y \<le> 9999"
    then have "days_before_year 10000 \<le> days_before_year ?y"
      using days_before_year_mono [of 9999 ?y] by simp
    with b(1) assms(2) show False by (simp add: days_before_year_def max_ordinal_def)
  qed
  show "valid_date (date_of_ordinal n)"
    using y1 y2 m by (simp add: valid_date_def date_of_ordinal_def Let_def)
  show "toordinal (date_of_ordinal n) = n"
    by (simp add: toordinal_def date_of_ordinal_def Let_def)
qed

lemma toordinal_inject: "valid_date a \<Longrightarrow> valid_date b \<Longrightarrow> toordinal a = toordinal b \<longleftrightarrow> a = b"
  by (metis linorder_neqE order_less_irrefl toordinal_strict_mono)

lemma toordinal_le_iff: "valid_date a \<Longrightarrow> valid_date b \<Longrightarrow> toordinal a \<le> toordinal b \<longleftrightarrow> a \<le> b"
  by (metis linorder_not_less toordinal_less_iff)

lemma toordinal_bounds:
  assumes "valid_date d"
  shows "1 \<le> toordinal d" "toordinal d \<le> max_ordinal"
proof -
  have "valid_date (Date 1 1 1)" "valid_date (Date 9999 12 31)"
    by (simp_all add: valid_date_def days_in_month_def)
  moreover have "Date 1 1 1 \<le> d" "d \<le> Date 9999 12 31"
    using assms by (auto simp: valid_date_def less_eq_date_def less_date_def days_in_month_def split: if_splits)
  ultimately have "toordinal (Date 1 1 1) \<le> toordinal d" "toordinal d \<le> toordinal (Date 9999 12 31)"
    using assms by (simp_all add: toordinal_le_iff)
  moreover have "toordinal (Date 1 1 1) = 1" "toordinal (Date 9999 12 31) = max_ordinal"
    by (simp_all add: toordinal_def days_before_year_def days_before_month_def max_ordinal_def is_leap_def)
  ultimately show "1 \<le> toordinal d" "toordinal d \<le> max_ordinal" by simp_all
qed

lemma date_of_toordinal: "valid_date d \<Longrightarrow> date_of_ordinal (toordinal d) = d"
  using toordinal_bounds [of d] date_of_ordinal [of "toordinal d"]
    toordinal_inject [of "date_of_ordinal (toordinal d)" d] by simp

text \<open>\<open>d + timedelta(days=n)\<close>; \<open>None\<close> is \<open>OverflowError\<close>.\<close>

definition add_days :: "date \<Rightarrow> int \<Rightarrow> date option" where
  "add_days d n =
     (let k = toordinal d + n in if 1 \<le> k \<and> k \<le> max_ordinal then Some (date_of_ordinal k) else None)"

definition weekday :: "date \<Rightarrow> int" where
  "weekday d = (toordinal d + 6) mod 7"

section \<open>fromisoformat\<close>

definition decimal_field :: "string \<Rightarrow> int option" where
  "decimal_field s =
     (if s \<noteq> [] \<and> list_all (\<lambda>c. CHR ''0'' \<le> c \<and> c \<le> CHR ''9'') s then Some (int (digits_value (ascii s)))
      else None)"

definition date_of_fields :: "int option \<Rightarrow> int option \<Rightarrow> int option \<Rightarrow> date option" where
  "date_of_fields y m d =
     (case (y, m, d) of
        (Some y', Some m', Some d') \<Rightarrow> if valid_date (Date y' m' d') then Some (Date y' m' d') else None
      | _ \<Rightarrow> None)"

text \<open>The Monday of the first ISO week of a year, and the number of weeks the year has.\<close>

definition iso_week1_monday :: "int \<Rightarrow> int" where
  "iso_week1_monday y =
     (let first = days_before_year y + 1; wd = (first + 6) mod 7
      in if 3 < wd then first - wd + 7 else first - wd)"

definition iso_weeks :: "int \<Rightarrow> int" where
  "iso_weeks y =
     (let wd = (days_before_year y + 7) mod 7 in if wd = 3 \<or> wd = 2 \<and> is_leap y then 53 else 52)"

definition date_of_week :: "int option \<Rightarrow> int option \<Rightarrow> int option \<Rightarrow> date option" where
  "date_of_week y w d =
     (case (y, w, d) of
        (Some y', Some w', Some d') \<Rightarrow>
          let n = iso_week1_monday y' + (w' - 1) * 7 + d' - 1 in
          if 1 \<le> y' \<and> y' \<le> 9999 \<and> 1 \<le> w' \<and> w' \<le> iso_weeks y' \<and> 1 \<le> d' \<and> d' \<le> 7 \<and>
            1 \<le> n \<and> n \<le> max_ordinal
          then Some (date_of_ordinal n) else None
      | _ \<Rightarrow> None)"

definition utf8_length :: "string \<Rightarrow> nat" where
  "utf8_length s = sum_list (map (\<lambda>c. if (of_char c :: nat) < 128 then 1 else 2) s)"

text \<open>
  The fields after the year; \<open>extended\<close> is whether a hyphen followed it.  What follows the last
  field of a ten-byte basic form is not looked at.
\<close>

definition parse_week_part :: "int option \<Rightarrow> bool \<Rightarrow> string \<Rightarrow> date option" where
  "parse_week_part y extended s =
     (let w = (if length (take 2 s) = 2 then decimal_field (take 2 s) else None); after = drop 2 s in
      if after = [] then date_of_week y w (Some 1)
      else if extended \<and> hd after \<noteq> CHR ''-'' then None
      else date_of_week y w (decimal_field (take 1 (if extended then tl after else after))))"

definition parse_calendar_part :: "int option \<Rightarrow> bool \<Rightarrow> string \<Rightarrow> date option" where
  "parse_calendar_part y extended s =
     (if extended
      then if length s < 5 \<or> s ! 2 \<noteq> CHR ''-'' then None
           else date_of_fields y (decimal_field (take 2 s)) (decimal_field (take 2 (drop 3 s)))
      else if length s < 4 then None
           else date_of_fields y (decimal_field (take 2 s)) (decimal_field (take 2 (drop 2 s))))"

definition date_fromisoformat :: "string \<Rightarrow> date option" where
  "date_fromisoformat s =
     (if utf8_length s \<notin> {7, 8, 10} \<or> length s < 5 then None
      else let y = decimal_field (take 4 s); extended = (s ! 4 = CHR ''-'');
               after = drop (if extended then 5 else 4) s
           in if after \<noteq> [] \<and> hd after = CHR ''W'' then parse_week_part y extended (tl after)
              else parse_calendar_part y extended after)"

lemma fromisoformat_examples:
  "date_fromisoformat ''2024-02-29'' = Some (Date 2024 2 29)"
  "date_fromisoformat ''20240105'' = Some (Date 2024 1 5)"
  "date_fromisoformat ''2020-W53-5'' = Some (Date 2021 1 1)"
  "date_fromisoformat ''2024W05'' = Some (Date 2024 1 29)"
  "date_fromisoformat ''2024010599'' = Some (Date 2024 1 5)"
  "date_fromisoformat ''2023-02-29'' = None" "date_fromisoformat ''2024-W051'' = None"
  "date_fromisoformat ''2021-W53-1'' = None"
  by code_simp+

lemma date_of_fields_valid: "date_of_fields y m d = Some x \<Longrightarrow> valid_date x"
  by (auto simp: date_of_fields_def split: option.splits if_splits)

lemma date_of_week_valid: "date_of_week y w d = Some x \<Longrightarrow> valid_date x"
  by (auto simp: date_of_week_def Let_def date_of_ordinal split: option.splits if_splits)

lemma fromisoformat_valid: "date_fromisoformat s = Some d \<Longrightarrow> valid_date d"
  by (auto simp: date_fromisoformat_def parse_week_part_def parse_calendar_part_def Let_def
      split: if_splits intro: date_of_fields_valid date_of_week_valid)

section \<open>Reading an ISO date back\<close>

definition digit_char :: "char \<Rightarrow> bool" where
  "digit_char c \<longleftrightarrow> CHR ''0'' \<le> c \<and> c \<le> CHR ''9''"

lemma digit_char_of: "k < 10 \<Longrightarrow> digit_char (char_of (48 + k :: nat)) \<and> (of_char (char_of (48 + k :: nat) :: char) = 48 + k)"
proof -
  assume "k < 10"
  then have "k \<in> {0, 1, 2, 3, 4, 5, 6, 7, 8, 9}" by auto
  then show ?thesis by (auto simp: digit_char_def less_eq_char_def)
qed

lemma digits_of_chars: "digits_of n \<noteq> [] \<and> list_all digit_char (digits_of n) \<and> digits_value (ascii (digits_of n)) = n"
proof (induction n rule: digits_of.induct)
  case (1 n)
  show ?case
  proof (cases "n < 10")
    case True
    then show ?thesis
      using digit_char_of [of n] by (simp add: digits_of.simps [of n] ascii_def digits_value_def)
  next
    case False
    have k: "n mod 10 < 10" by simp
    have d: "digits_of n = digits_of (n div 10) @ [char_of (48 + n mod 10)]"
      using False by (simp add: digits_of.simps [of n])
    show ?thesis
      using 1 [OF False] digit_char_of [OF k]
      by (simp add: d ascii_def digits_value_def)
  qed
qed

lemma length_digits_of: "n < 10 ^ w \<Longrightarrow> 0 < w \<Longrightarrow> length (digits_of n) \<le> w"
proof (induction w arbitrary: n)
  case 0
  then show ?case by simp
next
  case (Suc w)
  show ?case
  proof (cases "n < 10")
    case True
    then show ?thesis by (simp add: digits_of.simps [of n])
  next
    case False
    then have "0 < w" using Suc.prems by (cases w) auto
    moreover have "n div 10 < 10 ^ w" using Suc.prems by simp
    ultimately have "length (digits_of (n div 10)) \<le> w" using Suc.IH by blast
    with False show ?thesis by (simp add: digits_of.simps [of n])
  qed
qed

lemma digits_value_zeros: "digits_value (replicate k 48 @ ds) = digits_value ds"
  by (induction k) (simp_all add: digits_value_def)

lemma decimal_field_pad0:
  assumes "0 \<le> i" "i < 10 ^ w" "0 < w"
  shows "length (pad0 w (digits_of (nat i))) = w"
    "list_all digit_char (pad0 w (digits_of (nat i)))"
    "decimal_field (pad0 w (digits_of (nat i))) = Some i"
proof -
  let ?s = "digits_of (nat i)"
  have n: "nat i < 10 ^ w" using assms by (simp add: nat_less_iff)
  note c = digits_of_chars [of "nat i"]
  show len: "length (pad0 w ?s) = w" using length_digits_of [OF n assms(3)] by (simp add: pad0_def)
  show chars: "list_all digit_char (pad0 w ?s)"
    using c by (simp add: pad0_def list_all_length digit_char_def nth_append)
  have "ascii (pad0 w ?s) = replicate (w - length ?s) 48 @ ascii ?s" by (simp add: pad0_def ascii_def)
  then have "digits_value (ascii (pad0 w ?s)) = nat i" using c by (simp add: digits_value_zeros)
  moreover have "pad0 w ?s \<noteq> []" using len assms(3) by auto
  ultimately show "decimal_field (pad0 w ?s) = Some i"
    using chars assms(1) by (simp add: decimal_field_def digit_char_def [abs_def])
qed

lemma utf8_length_digits: "list_all digit_char s \<Longrightarrow> utf8_length s = length s"
proof (induction s)
  case Nil
  then show ?case by (simp add: utf8_length_def)
next
  case (Cons c s)
  then have "(of_char c :: nat) < 128" by (auto simp: digit_char_def less_eq_char_def)
  with Cons show ?case by (simp add: utf8_length_def)
qed

lemma utf8_length_append [simp]: "utf8_length (s @ t) = utf8_length s + utf8_length t"
  by (simp add: utf8_length_def)

text \<open>An ISO date reads back as the date it was written from.\<close>

lemma fromisoformat_isoformat:
  assumes "valid_date d"
  shows "date_fromisoformat (isoformat d) = Some d"
proof -
  obtain y m k where d: "d = Date y m k" by (cases d)
  let ?y = "pad0 4 (digits_of (nat y))"
  let ?m = "pad0 2 (digits_of (nat m))"
  let ?k = "pad0 2 (digits_of (nat k))"
  have v: "0 \<le> y" "y < 10 ^ 4" "0 \<le> m" "m < 10 ^ 2" "0 \<le> k" "k < 10 ^ 2"
    using assms by (auto simp: d valid_date_def days_in_month_def split: if_splits)
  note fy = decimal_field_pad0 [OF v(1,2)] and fm = decimal_field_pad0 [OF v(3,4)]
    and fk = decimal_field_pad0 [OF v(5,6)]
  have iso: "isoformat d = ?y @ CHR ''-'' # ?m @ CHR ''-'' # ?k" by (simp add: isoformat_def d)
  have hyphen: "utf8_length (CHR ''-'' # s) = Suc (utf8_length s)" for s
    by (simp add: utf8_length_def)
  have len: "utf8_length (isoformat d) = 10"
    using fy(1,2) fm(1,2) fk(1,2) by (simp add: iso hyphen utf8_length_digits)
  have mne: "?m \<noteq> []" using fm(1) by auto
  then have "digit_char (hd ?m)" using fm(2) by (cases ?m) auto
  then have hd: "hd ?m \<noteq> CHR ''W''" by (auto simp: digit_char_def less_eq_char_def)
  have "parse_calendar_part (Some y) True (?m @ CHR ''-'' # ?k) = Some d"
    using assms fm fk by (simp add: parse_calendar_part_def nth_append date_of_fields_def d)
  then show ?thesis
    using fy len hd mne fm(1)
    by (simp add: date_fromisoformat_def iso nth_append Let_def)
qed

lemma isoformat_inject: "valid_date a \<Longrightarrow> valid_date b \<Longrightarrow> isoformat a = isoformat b \<longleftrightarrow> a = b"
  by (metis fromisoformat_isoformat option.inject)

end
