(* ===== verification/Periods.thy ===== *)
theory Periods
  imports Main Calendar Upstream
begin

text \<open>
  Requested periods: \<open>RiskRequestPeriod\<close>, \<open>RiskRequestScope\<close> and \<open>ReturnPoint\<close> of
  contracts/risk_common_inputs.py with the validators every return-series request shares, the
  resolution of a period into dates (services/risk/period_resolution.py), the window asked of
  lotus-performance (services/source_window.py) and the request for it
  (services/stateful_returns_request.py).
\<close>

section \<open>The contract\<close>

record risk_period =
  rp_type :: string
  rp_name :: "string option"
  rp_from_date :: "date option"
  rp_to_date :: "date option"
  rp_year :: "int option"

datatype net_or_gross = Net | Gross

definition net_or_gross_value :: "net_or_gross \<Rightarrow> string" where
  "net_or_gross_value b = (case b of Net \<Rightarrow> ''NET'' | Gross \<Rightarrow> ''GROSS'')"

record risk_scope =
  rq_as_of_date :: date
  rq_reporting_currency :: "string option"
  rq_net_or_gross :: net_or_gross

record return_point =
  pt_date :: date
  pt_value :: f64

definition PERIOD_ALIASES :: "(string, string) dict" where
  "PERIOD_ALIASES =
     [(''ONE_YEAR'', ''1Y''), (''THREE_YEAR'', ''3Y''), (''FIVE_YEAR'', ''5Y''), (''ITD'', ''SI'')]"

definition PERIOD_TYPES :: "string list" where
  "PERIOD_TYPES =
     [''EXPLICIT'', ''YEAR'', ''MTD'', ''QTD'', ''YTD'', ''1Y'', ''3Y'', ''5Y'', ''ONE_YEAR'', ''THREE_YEAR'',
      ''FIVE_YEAR'', ''SI'']"

text \<open>The \<open>before\<close> validator, the literal of the field, the \<open>after\<close> validator.\<close>

definition normalize_period_aliases :: "risk_period \<Rightarrow> risk_period" where
  "normalize_period_aliases p = p\<lparr>rp_type := dict_get PERIOD_ALIASES (rp_type p) (rp_type p)\<rparr>"

definition validate_period_semantics :: "risk_period \<Rightarrow> (string, risk_period) result" where
  "validate_period_semantics p =
     (if rp_type p = ''EXPLICIT'' \<and> (rp_from_date p = None \<or> rp_to_date p = None)
      then Inl ''EXPLICIT period requires from/to dates''
      else if rp_type p = ''YEAR'' \<and> rp_year p = None then Inl ''YEAR period requires year''
      else Inr p)"

definition admit_period :: "risk_period \<Rightarrow> (string, risk_period) result" where
  "admit_period raw =
     (let p = normalize_period_aliases raw in
      if rp_type p \<notin> set PERIOD_TYPES then Inl ''type'' else validate_period_semantics p)"

definition period_name :: "risk_period \<Rightarrow> string" where
  "period_name p = (case rp_name p of Some (c # cs) \<Rightarrow> c # cs | _ \<Rightarrow> rp_type p)"

definition validate_unique_period_names :: "risk_period list \<Rightarrow> (string, unit) result" where
  "validate_unique_period_names periods =
     (let dups = duplicates (map period_name periods) in
      raise_if (dups \<noteq> [])
        (''Duplicate period names resolved in request: '' @ str_join '', '' dups @
         ''. Each period name (or type fallback) must be unique.''))"

fun unique_dates :: "string \<Rightarrow> date list \<Rightarrow> date list \<Rightarrow> (string, unit) result" where
  "unique_dates series_name seen [] = Inr ()"
| "unique_dates series_name seen (d # ds) =
     (if d \<in> set seen
      then Inl (''duplicate return observation date in '' @ series_name @ '': '' @ isoformat d)
      else unique_dates series_name (d # seen) ds)"

definition validate_unique_return_dates :: "return_point list \<Rightarrow> string \<Rightarrow> (string, unit) result" where
  "validate_unique_return_dates returns series_name = unique_dates series_name [] (map pt_date returns)"

section \<open>Resolution\<close>

text \<open>
  \<open>date(year, 1, 1)\<close>: a year that is no C integer overflows, any other outside 1 to 9999 is refused.
\<close>

definition new_year :: "int \<Rightarrow> (calculation_error, date) result" where
  "new_year y =
     (if y < - (2 ^ 31) \<or> 2 ^ 31 \<le> y then Inl (Escaped ''OverflowError'')
      else if y < 1 \<or> 9999 < y then Inl (PlainValueError (''year '' @ str_int y @ '' is out of range''))
      else Inr (Date y 1 1))"

definition resolve_explicit_period ::
  "date option \<Rightarrow> date option \<Rightarrow> (calculation_error, date \<times> date) result"
where
  "resolve_explicit_period from_date to_date =
     (case (from_date, to_date) of
        (Some a, Some b) \<Rightarrow> Inr (a, b)
      | _ \<Rightarrow> Inl (PlainValueError ''EXPLICIT period requires from/to dates''))"

definition resolve_year_period :: "int option \<Rightarrow> (calculation_error, date \<times> date) result" where
  "resolve_year_period year =
     (case year of
        None \<Rightarrow> Inl (PlainValueError ''YEAR period requires year'')
      | Some y \<Rightarrow> bind_result (new_year y) (\<lambda>first. Inr (first, Date y 12 31)))"

definition resolve_quarter_to_date_period :: "date \<Rightarrow> date \<times> date" where
  "resolve_quarter_to_date_period as_of =
     (Date (date_year as_of) ((date_month as_of - 1) div 3 * 3 + 1) 1, as_of)"

definition trailing_years :: "string \<Rightarrow> int" where
  "trailing_years t = dict_get [(''1Y'', 1), (''3Y'', 3), (''5Y'', 5)] t 0"

definition resolve_trailing_year_period ::
  "string \<Rightarrow> date \<Rightarrow> (calculation_error, date \<times> date) result"
where
  "resolve_trailing_year_period period_type as_of =
     (case add_days as_of (- (365 * trailing_years period_type)) of
        None \<Rightarrow> Inl (Escaped ''OverflowError'')
      | Some d \<Rightarrow>
          (case add_days d 1 of
             None \<Rightarrow> Inl (Escaped ''OverflowError'')
           | Some start \<Rightarrow> Inr (start, as_of)))"

definition resolve_period_bounds ::
  "risk_period \<Rightarrow> date \<Rightarrow> date \<Rightarrow> (calculation_error, date \<times> date) result"
where
  "resolve_period_bounds p as_of open_date =
     (let t = rp_type p in
      if t = ''EXPLICIT'' then resolve_explicit_period (rp_from_date p) (rp_to_date p)
      else if t = ''YEAR'' then resolve_year_period (rp_year p)
      else if t = ''YTD'' then Inr (Date (date_year as_of) 1 1, as_of)
      else if t = ''QTD'' then Inr (resolve_quarter_to_date_period as_of)
      else if t = ''MTD'' then Inr (Date (date_year as_of) (date_month as_of) 1, as_of)
      else if t \<in> {''1Y'', ''3Y'', ''5Y''} then resolve_trailing_year_period t as_of
      else if t = ''SI'' then Inr (open_date, as_of)
      else Inl (PlainValueError (''Unsupported period type: '' @ t)))"

definition resolve_period ::
  "risk_period \<Rightarrow> date \<Rightarrow> date \<Rightarrow> (calculation_error, date \<times> date) result"
where
  "resolve_period p as_of open_date =
     bind_result (resolve_period_bounds p as_of open_date) (\<lambda>(start, finish).
       Inr (max start open_date, finish))"

section \<open>The window and the request\<close>

definition min_date :: date where
  "min_date = Date 1 1 1"

definition build_returns_series_window ::
  "risk_period list \<Rightarrow> date \<Rightarrow> (calculation_error, json_object) result"
where
  "build_returns_series_window periods as_of_date =
     (if \<exists>p\<in>set periods. rp_type p = ''SI''
      then Inr [(''mode'', JString ''RELATIVE''), (''period'', JString ''SI'')]
      else bind_result (map_result (\<lambda>p. resolve_period p as_of_date min_date) periods)
        (\<lambda>resolved_ranges.
           case resolved_ranges of
             [] \<Rightarrow> Inl (PlainValueError ''min() iterable argument is empty'')
           | r # rs \<Rightarrow>
               Inr [(''mode'', JString ''EXPLICIT''),
                 (''from_date'', JString (isoformat (foldl min (fst r) (map fst rs)))),
                 (''to_date'', JString (isoformat (foldl max (snd r) (map snd rs))))]))"

definition series_selection_payload :: "bool \<Rightarrow> bool \<Rightarrow> json_object" where
  "series_selection_payload include_benchmark include_risk_free =
     [(''include_portfolio'', JBool True), (''include_benchmark'', JBool include_benchmark),
      (''include_risk_free'', JBool include_risk_free)]"

definition data_policy_payload :: "string \<Rightarrow> json_object" where
  "data_policy_payload missing_data_policy =
     [(''missing_data_policy'', JString missing_data_policy), (''fill_method'', JString ''NONE''),
      (''calendar_policy'', JString ''BUSINESS'')]"

definition json_of_option :: "string option \<Rightarrow> json" where
  "json_of_option s = (case s of None \<Rightarrow> JNull | Some t \<Rightarrow> JString t)"

record returns_query =
  qy_portfolio_id :: string
  qy_as_of_date :: date
  qy_periods :: "risk_period list"
  qy_frequency :: string
  qy_metric_basis :: net_or_gross
  qy_reporting_currency :: "string option"
  qy_include_benchmark :: bool
  qy_include_risk_free :: bool
  qy_missing_data_policy :: string
  qy_benchmark_id :: "string option"

definition build_stateful_returns_series_request ::
  "returns_query \<Rightarrow> (calculation_error, json_object) result"
where
  "build_stateful_returns_series_request q =
     bind_result (build_returns_series_window (qy_periods q) (qy_as_of_date q)) (\<lambda>window.
       Inr ([(''portfolio_id'', JString (qy_portfolio_id q)),
         (''as_of_date'', JString (isoformat (qy_as_of_date q))),
         (''window'', JObject window), (''frequency'', JString (qy_frequency q)),
         (''metric_basis'', JString (net_or_gross_value (qy_metric_basis q))),
         (''reporting_currency'', json_of_option (qy_reporting_currency q)),
         (''series_selection'', JObject
           (series_selection_payload (qy_include_benchmark q) (qy_include_risk_free q))),
         (''data_policy'', JObject (data_policy_payload (qy_missing_data_policy q))),
         (''input_mode'', JString ''stateful''), (''stateful_input'', JObject [])] @
         (if qy_include_benchmark q \<and> str_truthy (qy_benchmark_id q)
          then [(''benchmark'', JObject [(''benchmark_id'', json_of_option (qy_benchmark_id q)),
            (''return_source'', JString ''calculated'')])]
          else [])))"

section \<open>What a resolved period is\<close>

lemma admit_period_cases:
  assumes "admit_period raw = Inr p"
  obtains a b where "rp_type p = ''EXPLICIT''" "rp_from_date p = Some a" "rp_to_date p = Some b"
  | y where "rp_type p = ''YEAR''" "rp_year p = Some y"
  | "rp_type p \<in> {''MTD'', ''QTD'', ''YTD'', ''SI''}"
  | "rp_type p \<in> {''1Y'', ''3Y'', ''5Y''}"
proof -
  let ?q = "normalize_period_aliases raw"
  have t: "rp_type ?q \<in> set PERIOD_TYPES" and v: "validate_period_semantics ?q = Inr p"
    using assms by (simp_all add: admit_period_def Let_def split: if_splits)
  have p: "p = ?q" using v by (simp add: validate_period_semantics_def split: if_splits)
  have canonical: "rp_type ?q \<notin> {''ONE_YEAR'', ''THREE_YEAR'', ''FIVE_YEAR''}"
    by (simp add: normalize_period_aliases_def PERIOD_ALIASES_def dict_get_def)
  consider "rp_type p = ''EXPLICIT''" | "rp_type p = ''YEAR''"
    | "rp_type p \<in> {''MTD'', ''QTD'', ''YTD'', ''SI''}" | "rp_type p \<in> {''1Y'', ''3Y'', ''5Y''}"
    using t canonical by (auto simp: p PERIOD_TYPES_def)
  then show thesis
  proof cases
    case 1
    with v that(1) show thesis
      by (cases "rp_from_date p"; cases "rp_to_date p") (auto simp: p validate_period_semantics_def)
  next
    case 2
    with v that(2) show thesis by (cases "rp_year p") (auto simp: p validate_period_semantics_def)
  qed (use that in auto)
qed

text \<open>A trailing period reaches back before the first representable day.\<close>

definition trailing_underflow :: "risk_period \<Rightarrow> date \<Rightarrow> bool" where
  "trailing_underflow p as_of \<longleftrightarrow>
     rp_type p \<in> {''1Y'', ''3Y'', ''5Y''} \<and> toordinal as_of \<le> 365 * trailing_years (rp_type p)"

lemma trailing_years_pos: "t \<in> {''1Y'', ''3Y'', ''5Y''} \<Longrightarrow> 1 \<le> trailing_years t"
  by (auto simp: trailing_years_def dict_get_def)

lemma resolve_trailing:
  assumes "t \<in> {''1Y'', ''3Y'', ''5Y''}" "valid_date as_of"
  shows "resolve_trailing_year_period t as_of =
     (if toordinal as_of \<le> 365 * trailing_years t then Inl (Escaped ''OverflowError'')
      else Inr (date_of_ordinal (toordinal as_of - 365 * trailing_years t + 1), as_of))"
proof -
  note y = trailing_years_pos [OF assms(1)]
  note b = toordinal_bounds [OF assms(2)]
  let ?k = "toordinal as_of - 365 * trailing_years t"
  show ?thesis
  proof (cases "1 \<le> ?k")
    case True
    then have "toordinal (date_of_ordinal ?k) = ?k" using y b by (intro date_of_ordinal) simp_all
    with True y b show ?thesis
      by (simp add: resolve_trailing_year_period_def add_days_def Let_def)
  next
    case False
    then show ?thesis by (simp add: resolve_trailing_year_period_def add_days_def Let_def)
  qed
qed

lemma resolve_period_cases:
  assumes "admit_period raw = Inr p" "valid_date as_of"
  shows "case resolve_period p as_of open_date of
      Inl (Escaped k) \<Rightarrow> k = ''OverflowError'' \<and>
        (trailing_underflow p as_of \<or> rp_type p = ''YEAR'' \<and> \<bar>the (rp_year p)\<bar> \<ge> 2 ^ 31)
    | Inl e \<Rightarrow> rp_type p = ''YEAR'' \<and> \<not> (1 \<le> the (rp_year p) \<and> the (rp_year p) \<le> 9999) \<and>
        e = PlainValueError (''year '' @ str_int (the (rp_year p)) @ '' is out of range'')
    | Inr (start, finish) \<Rightarrow> open_date \<le> start \<and> \<not> trailing_underflow p as_of \<and>
        (rp_type p \<notin> {''EXPLICIT'', ''YEAR''} \<longrightarrow> finish = as_of \<and> start \<le> max as_of open_date)"
  using assms(1)
proof (cases rule: admit_period_cases)
  case (1 a b)
  then show ?thesis
    by (simp add: resolve_period_def resolve_period_bounds_def resolve_explicit_period_def
        trailing_underflow_def)
next
  case (2 y)
  then show ?thesis
    by (auto simp: resolve_period_def resolve_period_bounds_def resolve_year_period_def new_year_def
        trailing_underflow_def)
next
  case 3
  have le: "Date (date_year as_of) 1 1 \<le> as_of" "Date (date_year as_of) (date_month as_of) 1 \<le> as_of"
    "Date (date_year as_of) ((date_month as_of - 1) div 3 * 3 + 1) 1 \<le> as_of"
    using assms(2) by (auto simp: less_eq_date_def less_date_def valid_date_def)
  with 3 show ?thesis
    by (auto simp: resolve_period_def resolve_period_bounds_def resolve_quarter_to_date_period_def
        trailing_underflow_def le_max_iff_disj)
next
  case 4
  let ?k = "toordinal as_of - 365 * trailing_years (rp_type p) + 1"
  have b: "rp_type p \<noteq> ''EXPLICIT''" "rp_type p \<noteq> ''YEAR''" "rp_type p \<noteq> ''YTD''"
    "rp_type p \<noteq> ''QTD''" "rp_type p \<noteq> ''MTD''" using 4 by auto
  show ?thesis
  proof (cases "trailing_underflow p as_of")
    case True
    with 4 b show ?thesis
      by (simp add: resolve_period_def resolve_period_bounds_def Let_def resolve_trailing [OF 4 assms(2)]
          trailing_underflow_def)
  next
    case False
    then have "\<not> toordinal as_of \<le> 365 * trailing_years (rp_type p)" using 4 unfolding trailing_underflow_def by blast
    then have pos: "1 \<le> ?k - 1" by simp
    have "?k \<le> toordinal as_of" using trailing_years_pos [OF 4] by simp
    then have "date_of_ordinal ?k \<le> as_of"
      using date_of_ordinal [of ?k] pos toordinal_bounds [OF assms(2)] assms(2)
        toordinal_le_iff [of "date_of_ordinal ?k" as_of] by simp
    then have "max (date_of_ordinal ?k) open_date \<le> max as_of open_date" by (rule max.mono) simp
    with False 4 b show ?thesis
      by (simp add: resolve_period_def resolve_period_bounds_def Let_def resolve_trailing [OF 4 assms(2)]
          trailing_underflow_def del: max.bounded_iff)
  qed
qed

text \<open>A period an admitted request names resolves to dates, except in two cases: a YEAR outside the
  calendar, refused as bad input unless it is no C integer, and a trailing period that reaches back before
  the first day of the calendar.  The latter two raise \<open>OverflowError\<close>, which no handler answers.  A
  resolved period never starts before the open date, and ends at the as-of date unless it is EXPLICIT
  or a YEAR.\<close>

theorem admitted_period_resolution:
  assumes "admit_period raw = Inr p" "valid_date as_of"
  shows "case resolve_period p as_of open_date of
      Inl (Escaped k) \<Rightarrow> k = ''OverflowError'' \<and>
        (trailing_underflow p as_of \<or> rp_type p = ''YEAR'' \<and> \<bar>the (rp_year p)\<bar> \<ge> 2 ^ 31)
    | Inl e \<Rightarrow> rp_type p = ''YEAR'' \<and> \<not> (1 \<le> the (rp_year p) \<and> the (rp_year p) \<le> 9999) \<and>
        e = PlainValueError (''year '' @ str_int (the (rp_year p)) @ '' is out of range'')
    | Inr (start, finish) \<Rightarrow> open_date \<le> start \<and> \<not> trailing_underflow p as_of \<and>
        (rp_type p \<notin> {''EXPLICIT'', ''YEAR''} \<longrightarrow> finish = as_of \<and> start \<le> max as_of open_date)"
  by (rule resolve_period_cases [OF assms])

definition sample_period :: risk_period where
  "sample_period = \<lparr>rp_type = ''THREE_YEAR'', rp_name = None, rp_from_date = None, rp_to_date = None,
     rp_year = None\<rparr>"

lemma sample_period_admitted:
  "admit_period sample_period = Inr (sample_period\<lparr>rp_type := ''3Y''\<rparr>)"
  by (simp add: sample_period_def admit_period_def normalize_period_aliases_def PERIOD_ALIASES_def
      dict_get_def PERIOD_TYPES_def validate_period_semantics_def)

theorem admitted_period_resolution_witness:
  "trailing_underflow (sample_period\<lparr>rp_type := ''3Y''\<rparr>) (Date 3 6 1) \<and>
   resolve_period (sample_period\<lparr>rp_type := ''3Y''\<rparr>) (Date 3 6 1) (Date 1 1 1) =
     Inl (Escaped ''OverflowError'')"
proof -
  have v: "valid_date (Date 3 6 1)" by (simp add: valid_date_def days_in_month_def)
  have u: "trailing_underflow (sample_period\<lparr>rp_type := ''3Y''\<rparr>) (Date 3 6 1)"
    by (simp add: trailing_underflow_def toordinal_def days_before_year_def days_before_month_def
        is_leap_def trailing_years_def dict_get_def)
  show ?thesis
    using admitted_period_resolution [OF sample_period_admitted v, of "Date 1 1 1"] u
    by (auto simp: sample_period_def split: sum.splits calculation_error.splits)
qed

section \<open>The window covers every period\<close>

lemma validate_unique_names_iff:
  "validate_unique_period_names ps = Inr u \<longleftrightarrow> distinct (map period_name ps)"
  by (simp add: validate_unique_period_names_def Let_def result_simps duplicates_Nil_iff)

lemma map_result_Inr_set: "map_result f xs = Inr ys \<Longrightarrow> x \<in> set xs \<Longrightarrow> \<exists>y\<in>set ys. f x = Inr y"
  by (induction xs arbitrary: ys) (auto simp: result_simps)

lemma foldl_min_date_le: "foldl min a xs \<le> a \<and> (\<forall>x\<in>set xs. foldl min a xs \<le> (x :: 'a::linorder))"
proof (induction xs arbitrary: a)
  case (Cons x xs)
  from Cons.IH [of "min a x"] show ?case by auto
qed simp

lemma foldl_max_date_ge: "a \<le> foldl max a xs \<and> (\<forall>x\<in>set xs. (x :: 'a::linorder) \<le> foldl max a xs)"
proof (induction xs arbitrary: a)
  case (Cons x xs)
  from Cons.IH [of "max a x"] show ?case by auto
qed simp

lemma window_cases:
  assumes "build_returns_series_window periods as_of = Inr w"
  obtains "\<exists>q\<in>set periods. rp_type q = ''SI''" "w = [(''mode'', JString ''RELATIVE''), (''period'', JString ''SI'')]"
  | a b where "\<forall>q\<in>set periods. rp_type q \<noteq> ''SI''"
      "w = [(''mode'', JString ''EXPLICIT''), (''from_date'', JString (isoformat a)),
        (''to_date'', JString (isoformat b))]"
      "\<forall>q\<in>set periods. \<exists>s e. resolve_period q as_of min_date = Inr (s, e) \<and> a \<le> s \<and> e \<le> b"
proof (cases "\<exists>q\<in>set periods. rp_type q = ''SI''")
  case True
  with assms that(1) show thesis by (simp add: build_returns_series_window_def)
next
  case False
  define rs0 where "rs0 = map_result (\<lambda>p. resolve_period p as_of min_date) periods"
  obtain r rs where m: "map_result (\<lambda>p. resolve_period p as_of min_date) periods = Inr (r # rs)"
    and w: "w = [(''mode'', JString ''EXPLICIT''),
      (''from_date'', JString (isoformat (foldl min (fst r) (map fst rs)))),
      (''to_date'', JString (isoformat (foldl max (snd r) (map snd rs))))]"
  proof -
    have "\<exists>r rs. rs0 = Inr (r # rs)"
      using assms False
      by (cases rs0) (auto simp: build_returns_series_window_def simp flip: rs0_def split: list.splits)
    then obtain r rs where "rs0 = Inr (r # rs)" by blast
    with assms False show thesis
      by (intro that [of r rs]) (simp_all add: build_returns_series_window_def flip: rs0_def)
  qed
  have "\<exists>s e. resolve_period q as_of min_date = Inr (s, e) \<and>
      foldl min (fst r) (map fst rs) \<le> s \<and> e \<le> foldl max (snd r) (map snd rs)" if q: "q \<in> set periods" for q
  proof -
    obtain y where y: "y \<in> set (r # rs)" "resolve_period q as_of min_date = Inr y"
      using map_result_Inr_set [OF m q] by blast
    have "foldl min (fst r) (map fst rs) \<le> fst y" "snd y \<le> foldl max (snd r) (map snd rs)"
      using y(1) foldl_min_date_le [of "fst r" "map fst rs"] foldl_max_date_ge [of "snd r" "map snd rs"]
      by (auto simp del: foldl.simps)
    with y(2) show ?thesis by (cases y) simp
  qed
  with that(2) [OF _ w] False show thesis by blast
qed

lemma resolve_period_later:
  assumes "resolve_period p as_of min_date = Inr (s, e)" "resolve_period p as_of open_date = Inr (s', e')"
    and "rp_type p \<noteq> ''SI''" "min_date \<le> open_date"
  shows "s \<le> s' \<and> e' = e"
proof -
  have "resolve_period_bounds p as_of open_date = resolve_period_bounds p as_of min_date"
    using assms(3) by (simp add: resolve_period_bounds_def Let_def)
  with assms show ?thesis by (auto simp: resolve_period_def result_simps le_max_iff_disj)
qed

lemma window_covers:
  assumes "build_returns_series_window periods as_of = Inr w" "p \<in> set periods"
    and "resolve_period p as_of open_date = Inr (s, e)" "min_date \<le> open_date"
  shows "(\<exists>q\<in>set periods. rp_type q = ''SI'') \<and>
       w = [(''mode'', JString ''RELATIVE''), (''period'', JString ''SI'')] \<or>
     (\<exists>a b. w = [(''mode'', JString ''EXPLICIT''), (''from_date'', JString (isoformat a)),
        (''to_date'', JString (isoformat b))] \<and> a \<le> s \<and> e \<le> b)"
  using assms(1)
proof (cases rule: window_cases)
  case 1
  then show ?thesis by blast
next
  case (2 a b)
  then obtain s0 e0 where "resolve_period p as_of min_date = Inr (s0, e0)" "a \<le> s0" "e0 \<le> b"
    using assms(2) by blast
  moreover have "rp_type p \<noteq> ''SI''" using 2(1) assms(2) by blast
  ultimately have "a \<le> s" "e \<le> b"
    using resolve_period_later [OF _ assms(3) _ assms(4)] by (blast intro: order_trans)+
  with 2(2) show ?thesis by blast
qed

text \<open>The window asked of lotus-performance covers every requested period, whatever the first date of
  the returns turns out to be: since inception when some period is, and otherwise from a date no
  later than the start of each period to one no earlier than its end.\<close>

theorem window_covers_periods:
  assumes "build_returns_series_window periods as_of = Inr w" "p \<in> set periods"
    and "resolve_period p as_of open_date = Inr (s, e)" "min_date \<le> open_date"
  shows "(\<exists>q\<in>set periods. rp_type q = ''SI'') \<and>
       w = [(''mode'', JString ''RELATIVE''), (''period'', JString ''SI'')] \<or>
     (\<exists>a b. w = [(''mode'', JString ''EXPLICIT''), (''from_date'', JString (isoformat a)),
        (''to_date'', JString (isoformat b))] \<and> a \<le> s \<and> e \<le> b)"
  by (rule window_covers [OF assms])

definition sample_periods :: "risk_period list" where
  "sample_periods =
     [\<lparr>rp_type = ''YTD'', rp_name = None, rp_from_date = None, rp_to_date = None, rp_year = None\<rparr>,
      \<lparr>rp_type = ''YEAR'', rp_name = None, rp_from_date = None, rp_to_date = None, rp_year = Some 2024\<rparr>]"

theorem window_covers_periods_witness:
  "build_returns_series_window sample_periods (Date 2026 3 31) =
     Inr [(''mode'', JString ''EXPLICIT''), (''from_date'', JString ''2024-01-01''),
       (''to_date'', JString ''2026-03-31'')] \<and>
   (\<exists>a b. isoformat a = ''2024-01-01'' \<and> isoformat b = ''2026-03-31'' \<and> a \<le> Date 2026 2 2 \<and>
      Date 2026 3 31 \<le> b)"
proof -
  have iso: "isoformat (Date 2024 1 1) = ''2024-01-01''" "isoformat (Date 2026 3 31) = ''2026-03-31''"
    by code_simp+
  have ranges: "map_result (\<lambda>p. resolve_period p (Date 2026 3 31) min_date) sample_periods =
      Inr [(Date 2026 1 1, Date 2026 3 31), (Date 2024 1 1, Date 2024 12 31)]"
    by (simp add: sample_periods_def resolve_period_def resolve_period_bounds_def resolve_year_period_def
        new_year_def min_date_def max_def less_eq_date_def less_date_def)
  have w: "build_returns_series_window sample_periods (Date 2026 3 31) =
     Inr [(''mode'', JString ''EXPLICIT''), (''from_date'', JString ''2024-01-01''),
       (''to_date'', JString ''2026-03-31'')]"
    unfolding build_returns_series_window_def ranges
    by (simp add: sample_periods_def iso min_def max_def less_eq_date_def less_date_def)
  have r: "resolve_period (sample_periods ! 0) (Date 2026 3 31) (Date 2026 2 2) =
      Inr (Date 2026 2 2, Date 2026 3 31)"
    by (simp add: sample_periods_def resolve_period_def resolve_period_bounds_def max_def
        less_eq_date_def less_date_def)
  have p: "sample_periods ! 0 \<in> set sample_periods" by (simp add: sample_periods_def)
  have m: "min_date \<le> Date 2026 2 2" by (simp add: min_date_def less_eq_date_def less_date_def)
  from window_covers_periods [OF w p r m] obtain a b where
    "isoformat a = ''2024-01-01''" "isoformat b = ''2026-03-31''" "a \<le> Date 2026 2 2" "Date 2026 3 31 \<le> b"
    by auto
  with w show ?thesis by blast
qed

end
