(* ===== verification/Decimals.thy ===== *)
theory Decimals
  imports Main Json
begin

text \<open>
  Python decimals under the default context: the decimal of a JSON value (\<open>Decimal(str(value))\<close>, the
  text of a float being its shortest), sums, products and quotients rounded to 28 significant digits,
  ties to even, and the float of a decimal.  A decimal is the rational number it denotes.  Only
  lotus-performance's returns can overflow the largest exponent here; the other components' numbers
  are below \<open>10 ^ 999999\<close>.
\<close>

section \<open>Reading\<close>

text \<open>
  \<open>str\<close> of a float is the decimal with the fewest digits that reads back as it, and of two such
  the nearer one.
\<close>

function digit_count :: "int \<Rightarrow> int" where
  "digit_count n = (if n < 10 then 1 else 1 + digit_count (n div 10))"
  by auto
termination by (relation "measure nat") auto

declare digit_count.simps [simp del]

definition decimal_magnitude :: "rat \<Rightarrow> int" where
  "decimal_magnitude x =
     (if 1 \<le> x then digit_count \<lfloor>x\<rfloor> - 1 else - digit_count (\<lceil>1 / x\<rceil> - 1))"

definition shortest_at :: "rat \<Rightarrow> nat \<Rightarrow> rat option" where
  "shortest_at x d =
     (let u = decimal_scale (decimal_magnitude x - int d + 1);
          lo = of_int \<lfloor>x / u\<rfloor> * u; hi = lo + u
      in if rnd lo = x \<and> (rnd hi \<noteq> x \<or> x - lo \<le> hi - x) then Some lo
         else if rnd hi = x then Some hi else None)"

definition repr_value :: "f64 \<Rightarrow> rat" where
  "repr_value x =
     (if x = 0 then 0
      else let a = (case List.map_filter (shortest_at \<bar>x\<bar>) [1..<18] of [] \<Rightarrow> \<bar>x\<bar> | q # _ \<Rightarrow> q)
           in if x < 0 then - a else a)"

definition read_decimal :: "json \<Rightarrow> decimal_reading" where
  "read_decimal v = (case v of JFloat x \<Rightarrow> FiniteDecimal (repr_value x) | _ \<Rightarrow> decimal_of_json v)"

section \<open>Arithmetic\<close>

definition decimal_round28 :: "rat \<Rightarrow> rat" where
  "decimal_round28 q =
     (if q = 0 then 0
      else let u = decimal_scale (decimal_magnitude \<bar>q\<bar> - 27) in of_int (round_half_even (q / u)) * u)"

definition decimal_overflows :: "rat \<Rightarrow> bool" where
  "decimal_overflows q \<longleftrightarrow> q \<noteq> 0 \<and> 999999 < decimal_magnitude \<bar>q\<bar>"

definition dadd :: "rat \<Rightarrow> rat \<Rightarrow> rat" where
  "dadd x y = decimal_round28 (x + y)"

definition dsub :: "rat \<Rightarrow> rat \<Rightarrow> rat" where
  "dsub x y = decimal_round28 (x - y)"

definition dmul :: "rat \<Rightarrow> rat \<Rightarrow> rat" where
  "dmul x y = decimal_round28 (x * y)"

definition ddiv :: "rat \<Rightarrow> rat \<Rightarrow> rat" where
  "ddiv x y = decimal_round28 (x / y)"

definition dabs :: "rat \<Rightarrow> rat" where
  "dabs x = decimal_round28 \<bar>x\<bar>"

text \<open>\<open>float\<close> of a decimal; \<open>None\<close> is an infinity.\<close>

definition float_of_decimal :: "rat \<Rightarrow> f64 option" where
  "float_of_decimal q = (if 2 ^ 1024 - 2 ^ 970 \<le> \<bar>q\<bar> then None else Some (rnd q))"

section \<open>Decimals that need not be finite\<close>

text \<open>
  \<open>None\<close> is \<open>InvalidOperation\<close>, which is no \<open>ValueError\<close>: a signalling operand, infinities of opposite
  sign added, or an infinity divided by one.  A divisor is not zero.
\<close>

datatype xdecimal = XFinite rat | XSpecial special_number

definition read_xdecimal :: "json \<Rightarrow> xdecimal option" where
  "read_xdecimal v =
     (case read_decimal v of
        NotADecimal \<Rightarrow> None | FiniteDecimal q \<Rightarrow> Some (XFinite q) | NonFiniteDecimal n \<Rightarrow> Some (XSpecial n))"

definition xnan :: "xdecimal \<Rightarrow> xdecimal \<Rightarrow> xdecimal option option" where
  "xnan x y =
     (if x = XSpecial SignalingNaN \<or> y = XSpecial SignalingNaN then Some None
      else if x = XSpecial QuietNaN \<or> y = XSpecial QuietNaN then Some (Some (XSpecial QuietNaN))
      else None)"

definition xadd :: "xdecimal \<Rightarrow> xdecimal \<Rightarrow> xdecimal option" where
  "xadd x y =
     (case xnan x y of
        Some r \<Rightarrow> r
      | None \<Rightarrow>
          (case (x, y) of
             (XFinite a, XFinite b) \<Rightarrow> Some (XFinite (dadd a b))
           | (XSpecial m, XFinite _) \<Rightarrow> Some (XSpecial m)
           | (XFinite _, XSpecial n) \<Rightarrow> Some (XSpecial n)
           | (XSpecial m, XSpecial n) \<Rightarrow> if m = n then Some (XSpecial m) else None))"

definition xdiv :: "xdecimal \<Rightarrow> xdecimal \<Rightarrow> xdecimal option" where
  "xdiv x y =
     (case xnan x y of
        Some r \<Rightarrow> r
      | None \<Rightarrow>
          (case (x, y) of
             (XFinite a, XFinite b) \<Rightarrow> Some (XFinite (ddiv a b))
           | (XFinite _, XSpecial _) \<Rightarrow> Some (XFinite 0)
           | (XSpecial m, XFinite b) \<Rightarrow>
               Some (XSpecial (if 0 < b then m
                 else if m = PlusInfinite then MinusInfinite else PlusInfinite))
           | (XSpecial _, XSpecial _) \<Rightarrow> None))"

text \<open>\<open>float(x)\<close> when it is finite.\<close>

definition float_of_xdecimal :: "xdecimal \<Rightarrow> f64 option" where
  "float_of_xdecimal x = (case x of XFinite q \<Rightarrow> float_of_decimal q | XSpecial _ \<Rightarrow> None)"

lemma xfinite_simps [simp]:
  "xadd (XFinite a) (XFinite b) = Some (XFinite (dadd a b))"
  "xdiv (XFinite a) (XFinite b) = Some (XFinite (ddiv a b))"
  "float_of_xdecimal (XFinite q) = float_of_decimal q"
  by (simp_all add: xadd_def xdiv_def xnan_def float_of_xdecimal_def)

section \<open>Rounding\<close>

lemma decimal_scale_pos: "0 < decimal_scale e"
  by (simp add: decimal_scale_def)

lemma decimal_round28_0 [simp]: "decimal_round28 0 = 0"
  by (simp add: decimal_round28_def)

lemma dabs_nonneg: "0 \<le> dabs x"
proof (cases "x = 0")
  case False
  let ?u = "decimal_scale (decimal_magnitude \<bar>x\<bar> - 27)"
  have "0 \<le> \<bar>x\<bar> / ?u" using decimal_scale_pos [of "decimal_magnitude \<bar>x\<bar> - 27"] by simp
  then have "0 \<le> round_half_even (\<bar>x\<bar> / ?u)" using round_half_even_mono [of 0 "\<bar>x\<bar> / ?u"] by simp
  then show ?thesis
    using False decimal_scale_pos [of "decimal_magnitude \<bar>x\<bar> - 27"] by (simp add: dabs_def decimal_round28_def Let_def)
qed (simp add: dabs_def)

lemma digit_count_bounds:
  "0 < n \<Longrightarrow> 1 \<le> digit_count n \<and> 10 ^ nat (digit_count n - 1) \<le> n \<and> n < 10 ^ nat (digit_count n)"
proof (induction n rule: digit_count.induct)
  case (1 n)
  show ?case
  proof (cases "n < 10")
    case True
    then show ?thesis using 1 by (simp add: digit_count.simps [of n])
  next
    case False
    let ?d = "digit_count (n div 10)"
    from False have ih: "1 \<le> ?d" "10 ^ nat (?d - 1) \<le> n div 10" "n div 10 < 10 ^ nat ?d"
      using 1(1) by simp_all
    have n: "digit_count n = 1 + ?d" using False by (simp add: digit_count.simps [of n])
    have "nat ?d = Suc (nat (?d - 1))" "nat (1 + ?d) = Suc (nat ?d)" using ih(1) by simp_all
    moreover have "10 * 10 ^ nat (?d - 1) \<le> n" "n < 10 * 10 ^ nat ?d" using ih(2,3) by linarith+
    ultimately show ?thesis using ih(1) by (simp add: n)
  qed
qed

lemma decimal_scale_power: "decimal_scale e = 10 powi e"
  by (auto simp: decimal_scale_def power_int_def field_simps)

lemma decimal_magnitude_le:
  assumes "0 < x"
  shows "decimal_scale (decimal_magnitude x) \<le> x"
proof (cases "1 \<le> x")
  case True
  then have "0 < \<lfloor>x\<rfloor>" by simp
  note b = digit_count_bounds [OF this]
  then have "of_int (10 ^ nat (digit_count \<lfloor>x\<rfloor> - 1)) \<le> (of_int \<lfloor>x\<rfloor> :: rat)" by (simp only: of_int_le_iff)
  also have "of_int \<lfloor>x\<rfloor> \<le> x" by simp
  finally show ?thesis using True b by (simp add: decimal_magnitude_def decimal_scale_def)
next
  case False
  let ?n = "\<lceil>1 / x\<rceil> - 1"
  from False assms have "1 < 1 / x" by simp
  then have "0 < ?n" by linarith
  note b = digit_count_bounds [OF this]
  have "1 / x \<le> of_int (?n + 1)" by simp
  also have "\<dots> \<le> of_int (10 ^ nat (digit_count ?n))" using b by (simp only: of_int_le_iff) simp
  finally have "1 / x \<le> 10 ^ nat (digit_count ?n)" by simp
  then have "1 / 10 ^ nat (digit_count ?n) \<le> x" using assms by (simp add: field_simps)
  then show ?thesis using False b by (simp add: decimal_magnitude_def decimal_scale_def)
qed

text \<open>Rounding to 28 digits is off by half a unit of the last of them.\<close>

lemma decimal_round28_error: "\<bar>decimal_round28 q - q\<bar> \<le> \<bar>q\<bar> / (2 * 10 ^ 27)"
proof (cases "q = 0")
  case False
  let ?u = "decimal_scale (decimal_magnitude \<bar>q\<bar> - 27)"
  have u: "0 < ?u" by (rule decimal_scale_pos)
  have "of_int (round_half_even (q / ?u)) * ?u - q = (of_int (round_half_even (q / ?u)) - q / ?u) * ?u"
    using u by (simp add: left_diff_distrib)
  then have "\<bar>of_int (round_half_even (q / ?u)) * ?u - q\<bar> = \<bar>of_int (round_half_even (q / ?u)) - q / ?u\<bar> * ?u"
    using u by (simp only: abs_mult abs_of_pos)
  also have "\<dots> \<le> 1 / 2 * ?u"
    using round_half_even_near [of "q / ?u"] u by (intro mult_right_mono) auto
  also have "1 / 2 * ?u \<le> \<bar>q\<bar> / (2 * 10 ^ 27)"
    using decimal_magnitude_le [of "\<bar>q\<bar>"] False by (simp add: decimal_scale_power power_int_diff)
  finally show ?thesis using False unfolding decimal_round28_def Let_def by simp
qed simp

lemma decimal_round28_lower: "\<bar>q\<bar> \<le> \<bar>decimal_round28 q\<bar> * (1 + 1 / 10 ^ 27)"
proof -
  have "\<bar>q\<bar> \<le> \<bar>decimal_round28 q\<bar> + \<bar>decimal_round28 q - q\<bar>" by simp
  also note decimal_round28_error [of q]
  finally show ?thesis by (simp add: field_simps)
qed

text \<open>Two decimals whose difference is at most \<open>e\<close> as decimals are that near as numbers, up to rounding.\<close>

lemma decimal_difference_bound:
  assumes "dabs (dsub x y) \<le> e"
  shows "\<bar>x - y\<bar> \<le> e * (1 + 1 / 10 ^ 26)"
proof -
  have "\<bar>dsub x y\<bar> \<le> dabs (dsub x y) * (1 + 1 / 10 ^ 27)"
    using decimal_round28_lower [of "\<bar>dsub x y\<bar>"] dabs_nonneg [of "dsub x y"] by (simp add: dabs_def)
  then have "\<bar>dsub x y\<bar> \<le> e * (1 + 1 / 10 ^ 27)" using assms by simp
  moreover have "\<bar>x - y\<bar> \<le> \<bar>dsub x y\<bar> * (1 + 1 / 10 ^ 27)"
    using decimal_round28_lower [of "x - y"] by (simp add: dsub_def)
  moreover have "0 \<le> e" using assms dabs_nonneg [of "dsub x y"] by linarith
  ultimately show ?thesis by simp
qed

section \<open>Dictionaries of totals\<close>

text \<open>
  A dictionary that adds each value to the total of its key, \<open>d[k] = d.get(k, Decimal(0)) + v\<close>, holds for
  every key the sum of the key's values in the order they came.
\<close>

definition decimal_total :: "xdecimal list \<Rightarrow> xdecimal option" where
  "decimal_total vs = foldl (\<lambda>t v. Option.bind t (\<lambda>x. xadd x v)) (Some (XFinite 0)) vs"

definition values_of :: "'k \<Rightarrow> ('k \<times> 'v) list \<Rightarrow> 'v list" where
  "values_of k entries = map snd (filter (\<lambda>e. fst e = k) entries)"

definition tallies :: "('k, xdecimal) dict \<Rightarrow> ('k \<times> xdecimal) list \<Rightarrow> bool" where
  "tallies d entries \<longleftrightarrow>
     distinct (map fst d) \<and> fst ` set d = fst ` set entries \<and>
     (\<forall>k. decimal_total (values_of k entries) = Some (dict_get d k (XFinite 0)))"

lemma decimal_total_Nil [simp]: "decimal_total [] = Some (XFinite 0)"
  by (simp add: decimal_total_def)

lemma decimal_total_snoc: "decimal_total (vs @ [v]) = Option.bind (decimal_total vs) (\<lambda>x. xadd x v)"
  by (simp add: decimal_total_def)

lemma values_of_simps [simp]:
  "values_of k [] = []"
  "values_of k (e # es) = (if fst e = k then snd e # values_of k es else values_of k es)"
  "values_of k (xs @ ys) = values_of k xs @ values_of k ys"
  by (simp_all add: values_of_def)

lemma dict_get_update: "dict_get (AList.update k v d) k' w = (if k' = k then v else dict_get d k' w)"
  by (simp add: dict_get_def update_conv)

lemma tallies_Nil [simp]: "tallies [] []"
  by (simp add: tallies_def dict_get_def)

lemma tallies_add:
  assumes "tallies d entries" "xadd (dict_get d k (XFinite 0)) v = Some w"
  shows "tallies (AList.update k w d) (entries @ [(k, v)])"
  using assms
  by (auto simp: tallies_def distinct_update AList.dom_update decimal_total_snoc dict_get_update)

lemma talliesD:
  assumes "tallies d entries"
  shows "distinct (map fst d)" "fst ` set d = fst ` set entries"
    "decimal_total (values_of k entries) = Some (dict_get d k (XFinite 0))"
    "(k, n) \<in> set d \<Longrightarrow> dict_get d k (XFinite 0) = n"
  using assms by (auto simp: tallies_def dict_get_def)

end
