(* ===== verification/ReturnsSeries.thy ===== *)
theory ReturnsSeries
  imports Main Periods Decimals
begin

text \<open>
  Return series from lotus-performance: services/stateful_returns_series_parser.py with the evidence
  contract of contracts/stateful_returns_source_evidence.py.  What pydantic reads from a JSON value for an
  integer, a bounded float or a UUID field, the text of a value and that of its refusals are
  parameters.
\<close>

section \<open>Return points\<close>

record field_readers =
  fr_text :: "json \<Rightarrow> string"
  fr_repr :: "json \<Rightarrow> string"
  fr_refusal :: "string \<Rightarrow> string"
  fr_int :: "json \<Rightarrow> int option"
  fr_ratio :: "json \<Rightarrow> f64 option option"
  fr_uuid :: "json \<Rightarrow> string option"

definition RETURNS_SERIES_OPERATION :: string where
  "RETURNS_SERIES_OPERATION = ''/integration/returns/series''"

definition returns_payload_error :: "string \<Rightarrow> (string, json) dict \<Rightarrow> calculation_error" where
  "returns_payload_error message details =
     UpstreamFailure (invalid_upstream_payload ''lotus-performance'' RETURNS_SERIES_OPERATION message details)"

definition decimal_return_to_percentage_points ::
  "field_readers \<Rightarrow> json \<Rightarrow> (calculation_error, f64 option) result"
where
  "decimal_return_to_percentage_points readers v =
     (case read_decimal v of
        NotADecimal \<Rightarrow> Inl (returns_payload_error
          (''Invalid return value from lotus-performance: '' @ fr_text readers v) [])
      | NonFiniteDecimal _ \<Rightarrow> Inl (returns_payload_error
          (''Non-finite return value from lotus-performance: '' @ fr_text readers v) [])
      | FiniteDecimal q \<Rightarrow>
          let p = dmul q 100 in
          if decimal_overflows p then Inl (Escaped ''Overflow'') else Inr (float_of_decimal p))"

text \<open>The constructor of \<open>ReturnPoint\<close> refuses an infinite value with a \<open>ValidationError\<close>.\<close>

definition new_return_point ::
  "field_readers \<Rightarrow> date \<Rightarrow> f64 option \<Rightarrow> (calculation_error, return_point) result"
where
  "new_return_point readers d v =
     (case v of
        None \<Rightarrow> Inl (PlainValueError (fr_refusal readers ''ReturnPoint''))
      | Some x \<Rightarrow> Inr \<lparr>pt_date = d, pt_value = x\<rparr>)"

definition is_trading_day :: "date \<Rightarrow> bool" where
  "is_trading_day d \<longleftrightarrow> weekday d < 5"

definition date_matches_frequency :: "string \<Rightarrow> date \<Rightarrow> bool" where
  "date_matches_frequency frequency d =
     (if frequency = ''DAILY'' then is_trading_day d
      else if frequency = ''WEEKLY'' then weekday d = 4
      else if frequency = ''MONTHLY'' then date_day d = days_in_month (date_year d) (date_month d)
      else False)"

text \<open>One row: \<open>Inr None\<close> is a row that is skipped.\<close>

definition return_row_date ::
  "string \<Rightarrow> date list \<Rightarrow> string \<Rightarrow> (calculation_error, date option) result"
where
  "return_row_date frequency seen raw_date =
     (case date_fromisoformat raw_date of
        None \<Rightarrow> Inl (returns_payload_error ''Invalid return date from lotus-performance''
          [(''field'', JString ''date'')])
      | Some d \<Rightarrow>
          if \<not> date_matches_frequency frequency d then
            (if frequency = ''DAILY'' then Inr None
             else Inl (returns_payload_error ''Return date from lotus-performance does not match frequency''
               [(''field'', JString ''date''), (''frequency'', JString frequency)]))
          else if d \<in> set seen then
            Inl (returns_payload_error ''Duplicate return date from lotus-performance''
              [(''field'', JString ''date''), (''date'', JString (isoformat d))])
          else Inr (Some d))"

fun return_rows ::
  "field_readers \<Rightarrow> string \<Rightarrow> date list \<Rightarrow> json list \<Rightarrow> (calculation_error, return_point list) result"
where
  "return_rows readers frequency seen [] = Inr []"
| "return_rows readers frequency seen (row # rows) =
     (case row of
        JObject kvs \<Rightarrow>
          (case json_get kvs ''date'' of
             JString raw_date \<Rightarrow>
               bind_result (return_row_date frequency seen raw_date) (\<lambda>found.
                 case found of
                   None \<Rightarrow> return_rows readers frequency seen rows
                 | Some d \<Rightarrow>
                     bind_result (decimal_return_to_percentage_points readers (json_get kvs ''return_value''))
                       (\<lambda>v. bind_result (new_return_point readers d v) (\<lambda>p.
                         bind_result (return_rows readers frequency (d # seen) rows) (\<lambda>ps.
                           Inr (p # ps)))))
           | _ \<Rightarrow> return_rows readers frequency seen rows)
      | _ \<Rightarrow> return_rows readers frequency seen rows)"

definition to_return_points ::
  "field_readers \<Rightarrow> string \<Rightarrow> json \<Rightarrow> (calculation_error, return_point list) result"
where
  "to_return_points readers frequency series =
     (case series of JArray rows \<Rightarrow> return_rows readers frequency [] rows | _ \<Rightarrow> Inr [])"

definition extract_series_payload :: "json_object \<Rightarrow> (calculation_error, json_object) result" where
  "extract_series_payload source_response =
     (case json_get source_response ''series'' of
        JObject series \<Rightarrow> Inr series
      | _ \<Rightarrow> Inl (returns_payload_error
          ''lotus-performance returns-series payload missing 'series' object'' []))"

definition extract_required_portfolio_returns ::
  "field_readers \<Rightarrow> string \<Rightarrow> json_object \<Rightarrow>
     (calculation_error, json_object \<times> return_point list) result"
where
  "extract_required_portfolio_returns readers frequency source_response =
     bind_result (extract_series_payload source_response) (\<lambda>series.
     bind_result (to_return_points readers frequency (json_get series ''portfolio_returns'')) (\<lambda>points.
       if points = [] then
         Inl (UpstreamFailure (missing_upstream_data ''lotus-performance'' RETURNS_SERIES_OPERATION
           ''lotus-performance returns-series returned no portfolio returns'' []))
       else Inr (series, points)))"

section \<open>Source evidence\<close>

text \<open>
  The ratio is a float between 0 and 1 or, since neither bound refuses it, not a number
  (\<open>Some None\<close> of \<open>fr_ratio\<close>).
\<close>

record returns_evidence =
  rv_calculation_id :: string
  rv_input_fingerprint :: string
  rv_calculation_hash :: string
  rv_stale :: bool
  rv_requested_points :: int
  rv_returned_points :: int
  rv_missing_points :: int
  rv_coverage_ratio :: "f64 option"

definition mapping_or_empty :: "json \<Rightarrow> json_object" where
  "mapping_or_empty v = (case v of JObject kvs \<Rightarrow> kvs | _ \<Rightarrow> [])"

definition provenance_of :: "json_object \<Rightarrow> json_object" where
  "provenance_of source_response = mapping_or_empty (json_get source_response ''provenance'')"

definition source_evidence_payload :: "json_object \<Rightarrow> json_object" where
  "source_evidence_payload source_response =
     (let diagnostics = mapping_or_empty (json_get source_response ''diagnostics'');
          coverage = mapping_or_empty (json_get diagnostics ''coverage'');
          provenance = provenance_of source_response
      in [(''source_service'', json_get source_response ''source_service''),
          (''calculation_id'', json_get source_response ''calculation_id''),
          (''contract_version'', json_get source_response ''contract_version''),
          (''input_fingerprint'', json_get provenance ''input_fingerprint''),
          (''calculation_hash'', json_get provenance ''calculation_hash''),
          (''freshness'', json_get diagnostics ''freshness''),
          (''requested_points'', json_get coverage ''requested_points''),
          (''returned_points'', json_get coverage ''returned_points''),
          (''missing_points'', json_get coverage ''missing_points''),
          (''coverage_ratio'', json_get coverage ''coverage_ratio'')])"

definition is_hex_char :: "char \<Rightarrow> bool" where
  "is_hex_char c \<longleftrightarrow> CHR ''0'' \<le> c \<and> c \<le> CHR ''9'' \<or> CHR ''a'' \<le> c \<and> c \<le> CHR ''f''"

definition is_fingerprint :: "string \<Rightarrow> bool" where
  "is_fingerprint s \<longleftrightarrow> starts_with s ''sha256:'' \<and> length s = 71 \<and> list_all is_hex_char (drop 7 s)"

definition py_round8 :: "f64 \<Rightarrow> f64" where
  "py_round8 x = rnd (of_int (round_half_even (x * 10 ^ 8)) / 10 ^ 8)"

definition expected_ratio :: "int \<Rightarrow> int \<Rightarrow> f64" where
  "expected_ratio returned requested =
     (if requested = 0 then 1 else fdiv (of_int returned) (of_int requested))"

text \<open>A comparison with what is not a number is false, so \<open>validate_coverage\<close> lets it pass.\<close>

definition coverage_reconciles :: "returns_evidence \<Rightarrow> bool" where
  "coverage_reconciles e \<longleftrightarrow>
     rv_requested_points e = rv_returned_points e + rv_missing_points e \<and>
     (case rv_coverage_ratio e of
        None \<Rightarrow> True
      | Some ratio \<Rightarrow>
          let expected = expected_ratio (rv_returned_points e) (rv_requested_points e) in
          \<bar>fsub ratio expected\<bar> \<le> flit (1 / 10 ^ 12) \<or> ratio = py_round8 expected)"

definition evidence_fields :: "field_readers \<Rightarrow> json_object \<Rightarrow> returns_evidence option" where
  "evidence_fields readers raw =
     (case (json_get raw ''input_fingerprint'', json_get raw ''calculation_hash'',
         fr_uuid readers (json_get raw ''calculation_id''), fr_int readers (json_get raw ''requested_points''),
         fr_int readers (json_get raw ''returned_points''), fr_int readers (json_get raw ''missing_points''),
         fr_ratio readers (json_get raw ''coverage_ratio'')) of
        (JString fingerprint, JString chash, Some cid, Some requested, Some returned, Some missing, Some ratio) \<Rightarrow>
          if json_get raw ''source_service'' = JString ''lotus-performance'' \<and>
            json_get raw ''contract_version'' = JString ''v1'' \<and>
            json_get raw ''freshness'' \<in> {JString ''current'', JString ''stale''} \<and>
            is_fingerprint fingerprint \<and> is_fingerprint chash \<and>
            0 \<le> requested \<and> 0 \<le> returned \<and> 0 \<le> missing \<and>
            (case ratio of None \<Rightarrow> True | Some r \<Rightarrow> 0 \<le> r \<and> r \<le> 1)
          then Some \<lparr>rv_calculation_id = cid, rv_input_fingerprint = fingerprint,
            rv_calculation_hash = chash, rv_stale = (json_get raw ''freshness'' = JString ''stale''),
            rv_requested_points = requested, rv_returned_points = returned,
            rv_missing_points = missing, rv_coverage_ratio = ratio\<rparr>
          else None
      | _ \<Rightarrow> None)"

definition validate_returns_evidence :: "field_readers \<Rightarrow> json_object \<Rightarrow> returns_evidence option" where
  "validate_returns_evidence readers raw =
     (case evidence_fields readers raw of
        None \<Rightarrow> None
      | Some e \<Rightarrow> if coverage_reconciles e then Some e else None)"

section \<open>Identity, window and coverage of a response\<close>

record source_identity =
  si_portfolio_id :: string
  si_as_of_date :: date
  si_frequency :: string
  si_metric_basis :: string

definition identity_fields :: "source_identity \<Rightarrow> json_object" where
  "identity_fields i =
     [(''portfolio_id'', JString (si_portfolio_id i)),
      (''as_of_date'', JString (isoformat (si_as_of_date i))),
      (''frequency'', JString (si_frequency i)), (''metric_basis'', JString (si_metric_basis i))]"

definition validate_source_request_identity ::
  "json_object \<Rightarrow> source_identity \<Rightarrow> (calculation_error, unit) result"
where
  "validate_source_request_identity source_response i =
     (case filter (\<lambda>(field, expected). json_get source_response field \<noteq> expected) (identity_fields i) of
        [] \<Rightarrow> Inr ()
      | (field, _) # _ \<Rightarrow> Inl (returns_payload_error
          ''lotus-performance returns-series identity does not match request''
          [(''field'', JString field)]))"

definition validate_stateful_provenance :: "json_object \<Rightarrow> (calculation_error, unit) result" where
  "validate_stateful_provenance provenance =
     raise_if (json_get provenance ''input_mode'' \<noteq> JString ''stateful'')
       (returns_payload_error ''lotus-performance returns-series provenance does not match stateful request''
         [(''field'', JString ''provenance.input_mode'')])"

definition window_mismatch_error :: calculation_error where
  "window_mismatch_error =
     returns_payload_error ''lotus-performance returns-series resolved window does not match request''
       [(''field'', JString ''resolved_window'')]"

definition resolved_window_of :: "json_object \<Rightarrow> json_object" where
  "resolved_window_of source_response = mapping_or_empty (json_get source_response ''resolved_window'')"

definition validate_explicit_window ::
  "json_object \<Rightarrow> json_object \<Rightarrow> (calculation_error, unit) result"
where
  "validate_explicit_window resolved_window requested_window =
     raise_if (json_get resolved_window ''start_date'' \<noteq> json_get requested_window ''from_date'' \<or>
        json_get resolved_window ''end_date'' \<noteq> json_get requested_window ''to_date'' \<or>
        json_get resolved_window ''resolved_period_label'' \<noteq> JNull)
       window_mismatch_error"

definition date_field :: "json_object \<Rightarrow> string \<Rightarrow> date option" where
  "date_field obj name = (case json_get obj name of JString s \<Rightarrow> date_fromisoformat s | _ \<Rightarrow> None)"

definition validate_relative_window ::
  "json_object \<Rightarrow> json_object \<Rightarrow> date \<Rightarrow> (calculation_error, unit) result"
where
  "validate_relative_window resolved_window requested_window as_of_date =
     raise_if (json_get resolved_window ''resolved_period_label'' \<noteq> json_get requested_window ''period'' \<or>
        (case (date_field resolved_window ''start_date'', date_field resolved_window ''end_date'') of
           (Some start, Some finish) \<Rightarrow> finish \<noteq> as_of_date \<or> finish < start
         | _ \<Rightarrow> True))
       window_mismatch_error"

definition validate_resolved_window ::
  "json_object \<Rightarrow> json_object \<Rightarrow> date \<Rightarrow> (calculation_error, unit) result"
where
  "validate_resolved_window source_response requested_window as_of_date =
     (let resolved = resolved_window_of source_response; mode = json_get requested_window ''mode'' in
      if mode = JString ''EXPLICIT'' then validate_explicit_window resolved requested_window
      else if mode = JString ''RELATIVE'' then validate_relative_window resolved requested_window as_of_date
      else Inl window_mismatch_error)"

definition bucket_start :: "string \<Rightarrow> date \<Rightarrow> date" where
  "bucket_start frequency bucket_end =
     (if frequency = ''WEEKLY'' then date_of_ordinal (max (toordinal min_date) (toordinal bucket_end - 6))
      else if frequency = ''MONTHLY'' then Date (date_year bucket_end) (date_month bucket_end) 1
      else bucket_end)"

definition bucket_overlaps_window :: "string \<Rightarrow> date \<Rightarrow> date \<Rightarrow> date \<Rightarrow> bool" where
  "bucket_overlaps_window frequency start_date end_date bucket_end \<longleftrightarrow>
     bucket_start frequency bucket_end \<le> end_date \<and> start_date \<le> bucket_end"

definition validate_returned_points_within_window ::
  "json_object \<Rightarrow> return_point list \<Rightarrow> string \<Rightarrow> (calculation_error, unit) result"
where
  "validate_returned_points_within_window source_response returned_points frequency =
     (let resolved = resolved_window_of source_response in
      case (date_field resolved ''start_date'', date_field resolved ''end_date'') of
        (Some start, Some finish) \<Rightarrow>
          raise_if (\<exists>p\<in>set returned_points. \<not> bucket_overlaps_window frequency start finish (pt_date p))
            (returns_payload_error ''lotus-performance portfolio return lies outside resolved window''
              [(''field'', JString ''series.portfolio_returns.date'')])
      | _ \<Rightarrow> Inl window_mismatch_error)"

definition extract_stateful_returns_source_evidence ::
  "field_readers \<Rightarrow> json_object \<Rightarrow> source_identity \<Rightarrow> json_object option \<Rightarrow> return_point list option \<Rightarrow>
     (calculation_error, returns_evidence) result"
where
  "extract_stateful_returns_source_evidence readers source_response i requested_window returned_points =
     (case validate_returns_evidence readers (source_evidence_payload source_response) of
        None \<Rightarrow> Inl (returns_payload_error
          ''lotus-performance returns-series source qualification is invalid''
          [(''field'', JString ''source_qualification'')])
      | Some evidence \<Rightarrow>
          bind_result (validate_source_request_identity source_response i) (\<lambda>_.
          bind_result (validate_stateful_provenance (provenance_of source_response)) (\<lambda>_.
          bind_result (case returned_points of
              None \<Rightarrow> Inr ()
            | Some points \<Rightarrow> raise_if (rv_returned_points evidence \<noteq> int (length points))
                (returns_payload_error ''lotus-performance coverage does not match consumed portfolio returns''
                  [(''field'', JString ''diagnostics.coverage.returned_points'')])) (\<lambda>_.
          bind_result (case requested_window of
              None \<Rightarrow> Inr ()
            | Some window \<Rightarrow>
                bind_result (validate_resolved_window source_response window (si_as_of_date i)) (\<lambda>_.
                  case returned_points of
                    None \<Rightarrow> Inr ()
                  | Some points \<Rightarrow>
                      validate_returned_points_within_window source_response points (si_frequency i))) (\<lambda>_.
            Inr evidence)))))"

definition normalize_return_points_to_resolved_window ::
  "json_object \<Rightarrow> return_point list \<Rightarrow> string \<Rightarrow> (calculation_error, return_point list) result"
where
  "normalize_return_points_to_resolved_window source_response returned_points frequency =
     bind_result (validate_returned_points_within_window source_response returned_points frequency) (\<lambda>_.
       if frequency = ''DAILY'' then Inr returned_points
       else case date_field (resolved_window_of source_response) ''end_date'' of
         None \<Rightarrow> Inl window_mismatch_error
       | Some finish \<Rightarrow> Inr (map (\<lambda>p. p\<lparr>pt_date := min (pt_date p) finish\<rparr>) returned_points))"

section \<open>What the parser lets through\<close>

text \<open>The date a row carries, when it is one the frequency admits.\<close>

definition row_date :: "string \<Rightarrow> json \<Rightarrow> date option" where
  "row_date frequency row =
     (case row of
        JObject kvs \<Rightarrow>
          (case json_get kvs ''date'' of
             JString raw_date \<Rightarrow>
               (case date_fromisoformat raw_date of
                  Some d \<Rightarrow> if date_matches_frequency frequency d then Some d else None
                | None \<Rightarrow> None)
           | _ \<Rightarrow> None)
      | _ \<Rightarrow> None)"

definition row_value :: "field_readers \<Rightarrow> json \<Rightarrow> (calculation_error, f64 option) result" where
  "row_value readers row =
     (case row of
        JObject kvs \<Rightarrow> decimal_return_to_percentage_points readers (json_get kvs ''return_value'')
      | _ \<Rightarrow> Inr None)"

lemma return_row_date_Inr:
  assumes "return_row_date frequency seen raw = Inr found"
  obtains d where "date_fromisoformat raw = Some d" "\<not> date_matches_frequency frequency d" "found = None"
    | d where "date_fromisoformat raw = Some d" "date_matches_frequency frequency d" "d \<notin> set seen"
        "found = Some d"
  using assms by (cases "date_fromisoformat raw") (auto simp: return_row_date_def split: if_splits)

lemma return_rows_ConsE:
  assumes "return_rows readers frequency seen (row # rows) = Inr ps"
  obtains (skipped) "row_date frequency row = None" "return_rows readers frequency seen rows = Inr ps"
    | (taken) d x qs where "row_date frequency row = Some d" "d \<notin> set seen"
        "row_value readers row = Inr (Some x)" "return_rows readers frequency (d # seen) rows = Inr qs"
        "ps = \<lparr>pt_date = d, pt_value = x\<rparr> # qs"
proof (cases "\<exists>kvs raw. row = JObject kvs \<and> json_get kvs ''date'' = JString raw")
  case False
  then show thesis using assms skipped by (auto simp: row_date_def split: json.splits)
next
  case True
  then obtain kvs raw where row: "row = JObject kvs" "json_get kvs ''date'' = JString raw" by blast
  obtain found where f: "return_row_date frequency seen raw = Inr found"
    using assms row by (auto simp: result_simps)
  then show thesis
  proof (cases rule: return_row_date_Inr)
    case (1 d)
    then show thesis using assms row f skipped by (simp add: row_date_def)
  next
    case (2 d)
    have rd: "row_date frequency row = Some d" using row 2 by (simp add: row_date_def)
    obtain x qs where "row_value readers row = Inr (Some x)"
      "return_rows readers frequency (d # seen) rows = Inr qs" "ps = \<lparr>pt_date = d, pt_value = x\<rparr> # qs"
      using assms row f 2
      by (auto simp: result_simps row_value_def new_return_point_def split: option.splits)
    with rd 2 taken show thesis by blast
  qed
qed

lemma return_rows_dates:
  "return_rows readers frequency seen rows = Inr ps \<Longrightarrow> map pt_date ps = List.map_filter (row_date frequency) rows"
  by (induction rows arbitrary: seen ps) (auto simp: map_filter_simps elim!: return_rows_ConsE simp del: return_rows.simps(2))

lemma return_rows_distinct:
  "return_rows readers frequency seen rows = Inr ps \<Longrightarrow>
     distinct (map pt_date ps) \<and> set (map pt_date ps) \<inter> set seen = {}"
proof (induction rows arbitrary: seen ps)
  case (Cons row rows)
  from Cons.prems show ?case
    by (cases rule: return_rows_ConsE) (use Cons.IH in fastforce)+
qed simp

lemma return_rows_values:
  "return_rows readers frequency seen rows = Inr ps \<Longrightarrow> p \<in> set ps \<Longrightarrow>
     \<exists>row\<in>set rows. row_date frequency row = Some (pt_date p) \<and> row_value readers row = Inr (Some (pt_value p))"
proof (induction rows arbitrary: seen ps)
  case (Cons row rows)
  from Cons.prems(1) show ?case
    by (cases rule: return_rows_ConsE) (use Cons.IH Cons.prems(2) in fastforce)+
qed simp

lemma row_date_matches: "row_date frequency row = Some d \<Longrightarrow> valid_date d \<and> date_matches_frequency frequency d"
  by (auto simp: row_date_def fromisoformat_valid split: json.splits option.splits if_splits)

lemma to_return_points_dates:
  assumes "to_return_points readers frequency series = Inr ps"
  shows "distinct (map pt_date ps)"
    "\<forall>p\<in>set ps. valid_date (pt_date p) \<and> date_matches_frequency frequency (pt_date p)"
proof -
  show "distinct (map pt_date ps)"
    using assms return_rows_distinct by (cases series) (auto simp: to_return_points_def)
  show "\<forall>p\<in>set ps. valid_date (pt_date p) \<and> date_matches_frequency frequency (pt_date p)"
    using assms return_rows_values row_date_matches by (cases series) (fastforce simp: to_return_points_def)+
qed

text \<open>An accepted series has one return for every row that carries a date of the frequency, in the
  order of the rows and with no date twice; its value is that of the row in percentage points.\<close>

theorem return_points_are_the_rows:
  assumes "to_return_points readers frequency (JArray rows) = Inr ps"
  shows "map pt_date ps = List.map_filter (row_date frequency) rows \<and> distinct (map pt_date ps) \<and>
     (\<forall>p\<in>set ps. \<exists>row\<in>set rows. row_date frequency row = Some (pt_date p) \<and>
        row_value readers row = Inr (Some (pt_value p)))"
proof -
  have run: "return_rows readers frequency [] rows = Inr ps" using assms by (simp add: to_return_points_def)
  show ?thesis
    using return_rows_dates [OF run] return_rows_distinct [OF run] return_rows_values [OF run] by blast
qed

definition sample_readers :: field_readers where
  "sample_readers =
     \<lparr>fr_text = (\<lambda>_. []), fr_repr = (\<lambda>_. []), fr_refusal = (\<lambda>m. m),
      fr_int = (\<lambda>v. case v of JInt n \<Rightarrow> Some n | _ \<Rightarrow> None),
      fr_ratio = (\<lambda>v. case v of JInt n \<Rightarrow> Some (Some (of_int n)) | JFloat x \<Rightarrow> Some (Some x)
        | JNonFinite QuietNaN \<Rightarrow> Some None | _ \<Rightarrow> None),
      fr_uuid = (\<lambda>v. case v of JString s \<Rightarrow> if s = [] then None else Some s | _ \<Rightarrow> None)\<rparr>"

definition sample_row :: "string \<Rightarrow> string \<Rightarrow> json" where
  "sample_row d v = JObject [(''date'', JString d), (''return_value'', JString v)]"

lemma sample_rows_read:
  "return_row_date ''DAILY'' [] ''2026-01-02'' = Inr (Some (Date 2026 1 2))"
  "return_row_date ''DAILY'' [Date 2026 1 2] ''2026-01-03'' = Inr None"
  by code_simp+

lemma sample_value_read:
  "decimal_return_to_percentage_points sample_readers (JString ''-1'') = Inr (Some (- 100))"
proof -
  have "decimal_text ''-1'' = FiniteDecimal (- 1)" by code_simp
  moreover have "decimal_magnitude 100 = 2"
    by (simp add: decimal_magnitude_def digit_count.simps [of 100] digit_count.simps [of 10]
        digit_count.simps [of 1])
  moreover have "rnd 100 = 100" using rnd_of_int [of 100] by simp
  moreover have "round_half_even 1000000000000000000000000000 = 1000000000000000000000000000"
    using round_half_even_of_int [of 1000000000000000000000000000] by simp
  ultimately show ?thesis
    by (simp add: decimal_return_to_percentage_points_def read_decimal_def decimal_of_json_def
        dmul_def decimal_round28_def decimal_overflows_def float_of_decimal_def decimal_scale_def Let_def)
qed

theorem return_points_are_the_rows_witness:
  "to_return_points sample_readers ''DAILY'' (JArray [sample_row ''2026-01-02'' ''-1'',
      sample_row ''2026-01-03'' ''-1'']) = Inr [\<lparr>pt_date = Date 2026 1 2, pt_value = - 100\<rparr>] \<and>
   List.map_filter (row_date ''DAILY'') [sample_row ''2026-01-02'' ''-1'', sample_row ''2026-01-03'' ''-1''] =
     [Date 2026 1 2]"
proof -
  have run: "to_return_points sample_readers ''DAILY'' (JArray [sample_row ''2026-01-02'' ''-1'',
      sample_row ''2026-01-03'' ''-1'']) = Inr [\<lparr>pt_date = Date 2026 1 2, pt_value = - 100\<rparr>]"
    by (simp add: to_return_points_def sample_row_def json_get_def sample_rows_read sample_value_read
        new_return_point_def)
  from return_points_are_the_rows [OF run] run show ?thesis by simp
qed

section \<open>What accepted evidence establishes\<close>

text \<open>The dates of the resolved window of a response.\<close>

definition resolved_dates :: "json_object \<Rightarrow> date \<Rightarrow> date \<Rightarrow> bool" where
  "resolved_dates source_response start finish \<longleftrightarrow>
     date_field (resolved_window_of source_response) ''start_date'' = Some start \<and>
     date_field (resolved_window_of source_response) ''end_date'' = Some finish"

lemma within_window_Inr:
  assumes "validate_returned_points_within_window source_response points frequency = Inr u"
  obtains start finish where "resolved_dates source_response start finish"
    "\<forall>p\<in>set points. bucket_overlaps_window frequency start finish (pt_date p)"
  using assms that
  by (auto simp: validate_returned_points_within_window_def resolved_dates_def Let_def result_simps
      split: option.splits)

lemma validate_identity_Inr_iff:
  "validate_source_request_identity source_response i = Inr u \<longleftrightarrow>
     json_get source_response ''portfolio_id'' = JString (si_portfolio_id i) \<and>
     json_get source_response ''as_of_date'' = JString (isoformat (si_as_of_date i)) \<and>
     json_get source_response ''frequency'' = JString (si_frequency i) \<and>
     json_get source_response ''metric_basis'' = JString (si_metric_basis i)"
  by (auto simp: validate_source_request_identity_def identity_fields_def split: if_splits)

lemma validate_evidence_SomeD:
  assumes "validate_returns_evidence readers raw = Some e"
  shows "rv_requested_points e = rv_returned_points e + rv_missing_points e"
    "0 \<le> rv_returned_points e" "0 \<le> rv_missing_points e"
    "rv_stale e \<longleftrightarrow> json_get raw ''freshness'' = JString ''stale''"
proof -
  have f: "evidence_fields readers raw = Some e" and c: "coverage_reconciles e"
    using assms by (auto simp: validate_returns_evidence_def split: option.splits if_splits)
  show "rv_requested_points e = rv_returned_points e + rv_missing_points e"
    using c by (simp add: coverage_reconciles_def)
  show "0 \<le> rv_returned_points e" "0 \<le> rv_missing_points e"
    "rv_stale e \<longleftrightarrow> json_get raw ''freshness'' = JString ''stale''"
    using f by (auto simp: evidence_fields_def split: json.splits option.splits if_splits)
qed

lemma explicit_window_dates:
  assumes "validate_resolved_window source_response
      [(''mode'', JString ''EXPLICIT''), (''from_date'', JString (isoformat a)), (''to_date'', JString (isoformat b))]
      as_of = Inr u"
    and "resolved_dates source_response start finish" "valid_date a" "valid_date b"
  shows "start = a \<and> finish = b"
  using assms
  by (auto simp: validate_resolved_window_def validate_explicit_window_def resolved_dates_def date_field_def
      json_get_def result_simps Let_def fromisoformat_isoformat)

lemma relative_window_dates:
  assumes "validate_resolved_window source_response
      [(''mode'', JString ''RELATIVE''), (''period'', JString ''SI'')] as_of = Inr u"
    and "resolved_dates source_response start finish"
  shows "finish = as_of \<and> start \<le> finish"
  using assms
  by (auto simp: validate_resolved_window_def validate_relative_window_def resolved_dates_def Let_def
      json_get_def result_simps)

lemma evidence_Inr:
  assumes "extract_stateful_returns_source_evidence readers source_response i (Some window) (Some points) = Inr e"
  obtains start finish where "validate_source_request_identity source_response i = Inr ()"
    "json_get (provenance_of source_response) ''input_mode'' = JString ''stateful''"
    "validate_returns_evidence readers (source_evidence_payload source_response) = Some e"
    "rv_returned_points e = int (length points)"
    "validate_resolved_window source_response window (si_as_of_date i) = Inr ()"
    "resolved_dates source_response start finish"
    "\<forall>p\<in>set points. bucket_overlaps_window (si_frequency i) start finish (pt_date p)"
  using assms that
  by (auto simp: extract_stateful_returns_source_evidence_def validate_stateful_provenance_def
      result_simps split: option.splits elim!: within_window_Inr)

lemma overlap_daily:
  "bucket_overlaps_window ''DAILY'' start finish d \<longleftrightarrow> start \<le> d \<and> d \<le> finish"
  by (auto simp: bucket_overlaps_window_def bucket_start_def)

text \<open>
  A resolved window answers a requested one: an explicit window is repeated, without a label, and a relative
  one is repeated by its label and ends on the date of the calculation.
\<close>

definition window_reconciles :: "json_object \<Rightarrow> json_object \<Rightarrow> date \<Rightarrow> date \<Rightarrow> date \<Rightarrow> bool" where
  "window_reconciles source_response window as_of start finish \<longleftrightarrow>
     resolved_dates source_response start finish \<and>
     (let resolved = resolved_window_of source_response in
      json_get window ''mode'' = JString ''EXPLICIT'' \<and>
        json_get resolved ''start_date'' = json_get window ''from_date'' \<and>
        json_get resolved ''end_date'' = json_get window ''to_date'' \<and>
        json_get resolved ''resolved_period_label'' = JNull \<or>
      json_get window ''mode'' = JString ''RELATIVE'' \<and>
        json_get resolved ''resolved_period_label'' = json_get window ''period'' \<and>
        finish = as_of \<and> start \<le> finish)"

lemma window_is_reconciled:
  assumes "validate_resolved_window source_response window as_of = Inr u" "resolved_dates source_response start finish"
  shows "window_reconciles source_response window as_of start finish"
  using assms
  by (auto simp: window_reconciles_def validate_resolved_window_def validate_explicit_window_def
      validate_relative_window_def resolved_dates_def Let_def result_simps split: if_splits)

text \<open>C22: Evidence is accepted only for the calculation that was asked for: portfolio, date, frequency and
  basis are those of the request; the resolved window is the requested one, an explicit window by both its
  dates and a relative one by its label and the date of the calculation as its end; the bucket of every
  consumed return lies in that window at least in part; the consumed returns are exactly as many as the
  source says it returned, and what it was asked for is those and the ones it says are missing.\<close>

theorem evidence_is_bound:
  assumes "extract_stateful_returns_source_evidence readers source_response i (Some window) (Some points) = Inr e"
  shows "json_get source_response ''portfolio_id'' = JString (si_portfolio_id i) \<and>
     json_get source_response ''as_of_date'' = JString (isoformat (si_as_of_date i)) \<and>
     json_get source_response ''frequency'' = JString (si_frequency i) \<and>
     json_get source_response ''metric_basis'' = JString (si_metric_basis i) \<and>
     json_get (provenance_of source_response) ''input_mode'' = JString ''stateful'' \<and>
     rv_returned_points e = int (length points) \<and>
     rv_requested_points e = int (length points) + rv_missing_points e \<and> 0 \<le> rv_missing_points e \<and>
     (\<exists>start finish. window_reconciles source_response window (si_as_of_date i) start finish \<and>
        (\<forall>a b. window = [(''mode'', JString ''EXPLICIT''), (''from_date'', JString (isoformat a)),
             (''to_date'', JString (isoformat b))] \<longrightarrow> valid_date a \<longrightarrow> valid_date b \<longrightarrow> start = a \<and> finish = b) \<and>
        (\<forall>p\<in>set points. bucket_overlaps_window (si_frequency i) start finish (pt_date p)))"
  using assms
proof (cases rule: evidence_Inr)
  case (1 start finish)
  have "\<forall>a b. window = [(''mode'', JString ''EXPLICIT''), (''from_date'', JString (isoformat a)),
      (''to_date'', JString (isoformat b))] \<longrightarrow> valid_date a \<longrightarrow> valid_date b \<longrightarrow> start = a \<and> finish = b"
    using explicit_window_dates [OF _ 1(6)] 1(5) by blast
  with 1 window_is_reconciled [OF 1(5,6)] validate_evidence_SomeD [OF 1(3)] show ?thesis
    by (auto simp: validate_identity_Inr_iff)
qed

section \<open>Trailing buckets\<close>

text \<open>Of two buckets of one frequency, the later one starts after the earlier one ends.\<close>

lemma weekday_same_gap:
  assumes "weekday a = weekday b" "toordinal a < toordinal b"
  shows "toordinal a + 7 \<le> toordinal b"
proof -
  have "(toordinal b - toordinal a) mod 7 = 0"
    using assms(1) unfolding weekday_def by presburger
  with assms(2) show ?thesis by presburger
qed

lemma buckets_disjoint:
  assumes "valid_date a" "valid_date b" "a < b" "date_matches_frequency frequency a"
    "date_matches_frequency frequency b"
  shows "a < bucket_start frequency b"
proof -
  have lt: "toordinal a < toordinal b" using assms(1-3) by (rule toordinal_strict_mono)
  consider "frequency = ''DAILY''" | "frequency = ''WEEKLY''" | "frequency = ''MONTHLY''"
    using assms(4) by (auto simp: date_matches_frequency_def split: if_splits)
  then show ?thesis
  proof cases
    case 1
    then show ?thesis using assms(3) by (simp add: bucket_start_def)
  next
    case 2
    then have "weekday a = weekday b" using assms(4,5) by (simp add: date_matches_frequency_def)
    from weekday_same_gap [OF this lt] have gap: "toordinal a < toordinal b - 6" by simp
    have pos: "1 \<le> toordinal a" using assms(1) by (rule toordinal_bounds)
    have hi: "toordinal b \<le> max_ordinal" using assms(2) by (rule toordinal_bounds)
    have "toordinal min_date = 1" by (simp add: min_date_def toordinal_def days_before_year_def days_before_month_def)
    with gap pos have m: "max (toordinal min_date) (toordinal b - 6) = toordinal b - 6" by simp
    have k: "1 \<le> toordinal b - 6" "toordinal b - 6 \<le> max_ordinal" using gap pos hi by simp_all
    have "valid_date (date_of_ordinal (toordinal b - 6))"
      "toordinal (date_of_ordinal (toordinal b - 6)) = toordinal b - 6"
      using date_of_ordinal [OF k] by simp_all
    with gap assms(1) have "a < date_of_ordinal (toordinal b - 6)" by (simp flip: toordinal_less_iff)
    with 2 m show ?thesis by (simp add: bucket_start_def)
  next
    case 3
    then have "date_day a = days_in_month (date_year a) (date_month a)"
      "date_day b \<le> days_in_month (date_year b) (date_month b)"
      using assms(2,4) by (auto simp: date_matches_frequency_def valid_date_def)
    with assms(3) have "date_year a < date_year b \<or> date_year a = date_year b \<and> date_month a < date_month b"
      by (auto simp: less_date_def)
    with 3 show ?thesis by (auto simp: bucket_start_def less_date_def)
  qed
qed

lemma clamped_strict:
  assumes "valid_date a" "valid_date b" "a < b" "date_matches_frequency frequency a"
    "date_matches_frequency frequency b" "bucket_start frequency b \<le> finish"
  shows "min a finish < min b finish"
  using buckets_disjoint [OF assms(1-5)] assms(3,6) by (auto simp: min_def)

lemma normalized_points:
  assumes points: "to_return_points readers frequency series = Inr points"
    and run: "normalize_return_points_to_resolved_window source_response points frequency = Inr qs"
    and dates: "resolved_dates source_response start finish" "start \<le> finish"
  shows "map pt_value qs = map pt_value points \<and> distinct (map pt_date qs) \<and>
     (\<forall>q\<in>set qs. start \<le> pt_date q \<and> pt_date q \<le> finish) \<and>
     list_all2 (\<lambda>p q. pt_date q = min (pt_date p) finish) points qs"
proof -
  obtain u where "validate_returned_points_within_window source_response points frequency = Inr u"
    using run by (auto simp: normalize_return_points_to_resolved_window_def result_simps)
  then have within: "\<forall>p\<in>set points. bucket_overlaps_window frequency start finish (pt_date p)"
  proof (rule within_window_Inr)
    fix start' finish'
    assume rd: "resolved_dates source_response start' finish'"
      and w: "\<forall>p\<in>set points. bucket_overlaps_window frequency start' finish' (pt_date p)"
    have "start' = start" "finish' = finish" using rd dates(1) by (simp_all add: resolved_dates_def)
    with w show ?thesis by blast
  qed
  let ?clamp = "\<lambda>p. p\<lparr>pt_date := min (pt_date p) finish\<rparr>"
  note pd = to_return_points_dates [OF points]
  have qs: "qs = map ?clamp points"
  proof (cases "frequency = ''DAILY''")
    case True
    then have "\<forall>p\<in>set points. ?clamp p = p" using within by (auto simp: overlap_daily min_def)
    then have "map ?clamp points = points" by (intro map_idI) blast
    with True run show ?thesis
      by (auto simp: normalize_return_points_to_resolved_window_def result_simps)
  next
    case False
    with run dates(1) show ?thesis
      by (auto simp: normalize_return_points_to_resolved_window_def resolved_dates_def result_simps)
  qed
  have strict: "min a finish < min b finish"
    if "a \<in> pt_date ` set points" "b \<in> pt_date ` set points" "a < b" for a b
    by (rule clamped_strict) (use that pd(2) within in \<open>auto simp: bucket_overlaps_window_def\<close>)
  have "inj_on (\<lambda>d. min d finish) (set (map pt_date points))"
  proof (rule inj_onI)
    fix a b assume ab: "a \<in> set (map pt_date points)" "b \<in> set (map pt_date points)"
      and eq: "min a finish = min b finish"
    have "\<not> a < b" using strict [of a b] ab unfolding eq by auto
    moreover have "\<not> b < a" using strict [of b a] ab unfolding eq by auto
    ultimately show "a = b" by (rule antisym_conv3 [THEN iffD1, rotated])
  qed
  then have "distinct (map (\<lambda>d. min d finish) (map pt_date points))"
    using pd(1) by (simp only: distinct_map)
  then have "distinct (map pt_date qs)" by (simp add: qs comp_def)
  moreover have "\<forall>q\<in>set qs. start \<le> pt_date q \<and> pt_date q \<le> finish"
    using within dates(2) by (auto simp: qs bucket_overlaps_window_def)
  moreover have "list_all2 (\<lambda>p q. pt_date q = min (pt_date p) finish) points qs"
    by (simp add: qs list_all2_map2 list.rel_refl)
  moreover have "map pt_value qs = map pt_value points" by (simp add: qs)
  ultimately show ?thesis by blast
qed

text \<open>Using the end of the window as the date of a trailing weekly or monthly return keeps the returns,
  their order and their values, puts every date inside the window, and never gives two returns one
  date.\<close>

theorem normalized_returns_stay_distinct:
  assumes "to_return_points readers frequency series = Inr points"
    and "normalize_return_points_to_resolved_window source_response points frequency = Inr qs"
    and "resolved_dates source_response start finish" "start \<le> finish"
  shows "map pt_value qs = map pt_value points \<and> distinct (map pt_date qs) \<and>
     (\<forall>q\<in>set qs. start \<le> pt_date q \<and> pt_date q \<le> finish) \<and>
     list_all2 (\<lambda>p q. pt_date q = min (pt_date p) finish) points qs"
  by (rule normalized_points [OF assms])

definition sample_series :: json where
  "sample_series = JArray [sample_row ''2026-01-30'' ''-1'', sample_row ''2026-02-06'' ''-1'']"

definition sample_window :: json_object where
  "sample_window = [(''start_date'', JString ''2026-01-26''), (''end_date'', JString ''2026-02-03''),
     (''resolved_period_label'', JNull)]"

definition sample_response :: json_object where
  "sample_response =
     [(''source_service'', JString ''lotus-performance''), (''calculation_id'', JString ''c-1''),
      (''contract_version'', JString ''v1''), (''portfolio_id'', JString ''P1''),
      (''as_of_date'', JString ''2026-02-03''), (''frequency'', JString ''WEEKLY''),
      (''metric_basis'', JString ''NET''), (''resolved_window'', JObject sample_window),
      (''provenance'', JObject [(''input_mode'', JString ''stateful''),
        (''input_fingerprint'', JString (''sha256:'' @ replicate 64 CHR ''1'')),
        (''calculation_hash'', JString (''sha256:'' @ replicate 64 CHR ''2''))]),
      (''diagnostics'', JObject [(''freshness'', JString ''current''),
        (''coverage'', JObject [(''requested_points'', JInt 2), (''returned_points'', JInt 2),
          (''missing_points'', JInt 0), (''coverage_ratio'', JInt 1)])])]"

definition sample_points :: "return_point list" where
  "sample_points = [\<lparr>pt_date = Date 2026 1 30, pt_value = - 100\<rparr>, \<lparr>pt_date = Date 2026 2 6, pt_value = - 100\<rparr>]"

lemma sample_series_read: "to_return_points sample_readers ''WEEKLY'' sample_series = Inr sample_points"
proof -
  have "return_row_date ''WEEKLY'' [] ''2026-01-30'' = Inr (Some (Date 2026 1 30))"
    "return_row_date ''WEEKLY'' [Date 2026 1 30] ''2026-02-06'' = Inr (Some (Date 2026 2 6))"
    by code_simp+
  then show ?thesis
    by (simp add: to_return_points_def sample_series_def sample_row_def json_get_def sample_value_read
        new_return_point_def sample_points_def)
qed

lemma sample_window_dates: "resolved_dates sample_response (Date 2026 1 26) (Date 2026 2 3)"
proof -
  have "date_fromisoformat ''2026-01-26'' = Some (Date 2026 1 26)"
    "date_fromisoformat ''2026-02-03'' = Some (Date 2026 2 3)" by code_simp+
  then show ?thesis
    by (simp add: resolved_dates_def date_field_def resolved_window_of_def sample_response_def
        sample_window_def mapping_or_empty_def json_get_def)
qed

lemma sample_within:
  "validate_returned_points_within_window sample_response sample_points ''WEEKLY'' = Inr ()"
proof -
  have "bucket_overlaps_window ''WEEKLY'' (Date 2026 1 26) (Date 2026 2 3) (Date 2026 1 30)"
    "bucket_overlaps_window ''WEEKLY'' (Date 2026 1 26) (Date 2026 2 3) (Date 2026 2 6)"
    by code_simp+
  with sample_window_dates show ?thesis
    by (simp add: validate_returned_points_within_window_def resolved_dates_def sample_points_def
        raise_if_def Let_def)
qed

theorem normalized_returns_stay_distinct_witness:
  "\<exists>qs. normalize_return_points_to_resolved_window sample_response sample_points ''WEEKLY'' = Inr qs \<and>
     map pt_date qs = [Date 2026 1 30, Date 2026 2 3] \<and> distinct (map pt_date qs)"
proof -
  have end_date: "date_field (resolved_window_of sample_response) ''end_date'' = Some (Date 2026 2 3)"
    using sample_window_dates by (simp add: resolved_dates_def)
  let ?qs = "map (\<lambda>p. p\<lparr>pt_date := min (pt_date p) (Date 2026 2 3)\<rparr>) sample_points"
  have run: "normalize_return_points_to_resolved_window sample_response sample_points ''WEEKLY'' = Inr ?qs"
    by (simp add: normalize_return_points_to_resolved_window_def sample_within end_date)
  have le: "Date 2026 1 26 \<le> Date 2026 2 3" by (simp add: less_eq_date_def less_date_def)
  have "map pt_date ?qs = [Date 2026 1 30, Date 2026 2 3]"
    by (simp add: sample_points_def min_def less_eq_date_def less_date_def)
  moreover have "distinct (map pt_date ?qs)"
    using normalized_returns_stay_distinct [OF sample_series_read run sample_window_dates le] by (elim conjE)
  ultimately show ?thesis using run by (intro exI [where x = ?qs] conjI)
qed

lemma sample_evidence_accepted:
  "\<exists>e. extract_stateful_returns_source_evidence sample_readers sample_response
     \<lparr>si_portfolio_id = ''P1'', si_as_of_date = Date 2026 2 3, si_frequency = ''WEEKLY'', si_metric_basis = ''NET''\<rparr>
     (Some [(''mode'', JString ''EXPLICIT''), (''from_date'', JString (isoformat (Date 2026 1 26))),
       (''to_date'', JString (isoformat (Date 2026 2 3)))])
     (Some sample_points) = Inr e"
proof -
  have iso: "isoformat (Date 2026 1 26) = ''2026-01-26''" "isoformat (Date 2026 2 3) = ''2026-02-03''"
    by code_simp+
  have hex: "is_fingerprint (''sha256:'' @ replicate 64 CHR ''1'')" "is_fingerprint (''sha256:'' @ replicate 64 CHR ''2'')"
    by (simp_all add: is_fingerprint_def starts_with_def is_hex_char_def list_all_length less_eq_char_def)
  have "\<exists>e. validate_returns_evidence sample_readers (source_evidence_payload sample_response) = Some e \<and>
      rv_returned_points e = 2"
    using hex by (simp add: validate_returns_evidence_def evidence_fields_def source_evidence_payload_def
        sample_response_def sample_readers_def mapping_or_empty_def json_get_def provenance_of_def
        coverage_reconciles_def expected_ratio_def fdiv_def fsub_def flit_def rnd_nonneg Let_def
        del: append.simps replicate.simps)
  then show ?thesis
    using sample_within iso
    by (auto simp: extract_stateful_returns_source_evidence_def validate_source_request_identity_def
        identity_fields_def validate_stateful_provenance_def validate_resolved_window_def
        validate_explicit_window_def resolved_window_of_def sample_window_def mapping_or_empty_def
        provenance_of_def sample_points_def json_get_def sample_response_def raise_if_def Let_def)
qed

theorem evidence_is_bound_witness:
  "json_get sample_response ''portfolio_id'' = JString ''P1'' \<and>
   list_all (\<lambda>p. bucket_overlaps_window ''WEEKLY'' (Date 2026 1 26) (Date 2026 2 3) (pt_date p)) sample_points"
proof -
  obtain e where e: "extract_stateful_returns_source_evidence sample_readers sample_response
     \<lparr>si_portfolio_id = ''P1'', si_as_of_date = Date 2026 2 3, si_frequency = ''WEEKLY'', si_metric_basis = ''NET''\<rparr>
     (Some [(''mode'', JString ''EXPLICIT''), (''from_date'', JString (isoformat (Date 2026 1 26))),
       (''to_date'', JString (isoformat (Date 2026 2 3)))])
     (Some sample_points) = Inr e"
    using sample_evidence_accepted by blast
  have "valid_date (Date 2026 1 26)" "valid_date (Date 2026 2 3)"
    by (simp_all add: valid_date_def days_in_month_def)
  with evidence_is_bound [OF e] show ?thesis by (auto simp: list_all_iff)
qed

end
