(* ===== verification/AttributionInputs.thy ===== *)
theory AttributionInputs
  imports Main Periods
begin

text \<open>
  The historical-attribution request: contracts/attribution_common_inputs.py,
  attribution_stateless_inputs.py, attribution_stateful_inputs.py and attribution_request_inputs.py,
  with their validators, and the selection of evidence by the requested sets
  (services/attribution_evidence_selection.py, \<open>group_evidence_applies_to_set\<close>).
\<close>

section \<open>Vocabulary\<close>

datatype attribution_type = TotalRisk | ActiveRisk
datatype attribution_metric = VolatilityMetric | TrackingErrorMetric
datatype grouping_dimension = ByPosition | ByIssuer | BySector | ByAssetClass | ByCustom
datatype attribution_input_mode = AttributionStateless | AttributionStateful

definition dimension_value :: "grouping_dimension \<Rightarrow> string" where
  "dimension_value d =
     (case d of ByPosition \<Rightarrow> ''POSITION'' | ByIssuer \<Rightarrow> ''ISSUER'' | BySector \<Rightarrow> ''SECTOR''
      | ByAssetClass \<Rightarrow> ''ASSET_CLASS'' | ByCustom \<Rightarrow> ''CUSTOM'')"

definition dimensions :: "grouping_dimension list" where
  "dimensions = [ByPosition, ByIssuer, BySector, ByAssetClass, ByCustom]"

definition dimension_of :: "string \<Rightarrow> grouping_dimension option" where
  "dimension_of s = find (\<lambda>d. dimension_value d = s) dimensions"

lemma dimension_of_value [simp]: "dimension_of (dimension_value d) = Some d"
  by (cases d) (simp_all add: dimension_of_def dimensions_def dimension_value_def)

lemma dimension_value_inject [simp]: "dimension_value d = dimension_value e \<longleftrightarrow> d = e"
  by (metis dimension_of_value option.inject)

lemma dimension_of_SomeD: "dimension_of s = Some d \<Longrightarrow> s = dimension_value d"
  by (auto simp: dimension_of_def find_Some_iff)

text \<open>Rows are ordered by date, then by the name of the dimension, then by group.\<close>

instantiation grouping_dimension :: linorder
begin

definition less_eq_grouping_dimension :: "grouping_dimension \<Rightarrow> grouping_dimension \<Rightarrow> bool" where
  "less_eq_grouping_dimension a b \<longleftrightarrow> dimension_value a \<le> dimension_value b"

definition less_grouping_dimension :: "grouping_dimension \<Rightarrow> grouping_dimension \<Rightarrow> bool" where
  "less_grouping_dimension a b \<longleftrightarrow> dimension_value a < dimension_value b"

instance
  by standard
    (auto simp: less_eq_grouping_dimension_def less_grouping_dimension_def order.strict_iff_order)

end

record exposure_point =
  xp_date :: date
  xp_dimension :: grouping_dimension
  xp_group_key :: string
  xp_group_label :: "string option"
  xp_weight :: f64

definition exposure_key :: "exposure_point \<Rightarrow> date \<times> grouping_dimension \<times> string" where
  "exposure_key p = (xp_date p, xp_dimension p, xp_group_key p)"

record attribution_options =
  at_attribution_types :: "attribution_type list"
  at_metrics :: "attribution_metric list"
  at_grouping_dimensions :: "grouping_dimension list"
  at_annualization_basis :: int
  at_strict_observations :: bool

record attribution_stateless_input =
  al_scope :: risk_scope
  al_periods :: "risk_period list"
  al_returns :: "return_point list"
  al_benchmark_returns :: "return_point list"
  al_exposure_history :: "exposure_point list"
  al_benchmark_exposure_history :: "exposure_point list"
  al_options :: attribution_options

record attribution_stateful_input =
  af_portfolio_id :: string
  af_as_of_date :: date
  af_client_id :: "string option"
  af_reporting_currency :: "string option"
  af_net_or_gross :: net_or_gross
  af_periods :: "risk_period list"
  af_options :: attribution_options

record attribution_request =
  ar_input_mode :: attribution_input_mode
  ar_stateless_input :: "attribution_stateless_input option"
  ar_stateful_input :: "attribution_stateful_input option"

section \<open>Validators\<close>

definition validate_attribution_options :: "attribution_options \<Rightarrow> (string, unit) result" where
  "validate_attribution_options opts =
     (if at_annualization_basis opts < 1 then Inl ''annualization_basis''
      else if at_attribution_types opts = [] then Inl ''attribution_types must include at least one value''
      else if at_metrics opts = [] then Inl ''metrics must include at least one value''
      else if at_grouping_dimensions opts = [] then Inl ''grouping_dimensions must include at least one value''
      else Inr ())"

definition requires_active_attribution :: "attribution_options \<Rightarrow> bool" where
  "requires_active_attribution opts \<longleftrightarrow>
     ActiveRisk \<in> set (at_attribution_types opts) \<or> TrackingErrorMetric \<in> set (at_metrics opts)"

definition validate_active_attribution_inputs ::
  "attribution_options \<Rightarrow> return_point list \<Rightarrow> exposure_point list \<Rightarrow> (string, unit) result"
where
  "validate_active_attribution_inputs opts benchmark_returns benchmark_exposure_history =
     (if \<not> requires_active_attribution opts then Inr ()
      else if benchmark_returns = [] then
        Inl ''benchmark_returns are required when requesting ACTIVE_RISK or TRACKING_ERROR attribution''
      else raise_if (benchmark_exposure_history = [])
        ''benchmark_exposure_history are required when requesting ACTIVE_RISK or TRACKING_ERROR attribution'')"

definition validate_attribution_stateless ::
  "attribution_stateless_input \<Rightarrow> (string, unit) result"
where
  "validate_attribution_stateless payload =
     bind_result (validate_unique_period_names (al_periods payload)) (\<lambda>_.
     bind_result (validate_unique_return_dates (al_returns payload) ''returns'') (\<lambda>_.
     bind_result (validate_unique_return_dates (al_benchmark_returns payload) ''benchmark_returns'') (\<lambda>_.
       validate_active_attribution_inputs (al_options payload) (al_benchmark_returns payload)
         (al_benchmark_exposure_history payload))))"

definition validate_attribution_stateful ::
  "attribution_stateful_input \<Rightarrow> (string, unit) result"
where
  "validate_attribution_stateful payload =
     bind_result (validate_unique_period_names (af_periods payload)) (\<lambda>_.
       raise_if (ByCustom \<in> set (at_grouping_dimensions (af_options payload)))
         ''stateful historical-attribution does not support grouping_dimension=CUSTOM'')"

definition validate_attribution_request :: "attribution_request \<Rightarrow> (string, unit) result" where
  "validate_attribution_request rq =
     (if ar_input_mode rq = AttributionStateless \<and> ar_stateless_input rq = None
      then Inl ''stateless_input is required when input_mode=stateless''
      else raise_if (ar_input_mode rq = AttributionStateful \<and> ar_stateful_input rq = None)
        ''stateful_input is required when input_mode=stateful'')"

section \<open>Which evidence a request can use\<close>

definition EMPIRICAL_GROUPING_DIMENSION_FIELDS :: "(grouping_dimension \<times> string) list" where
  "EMPIRICAL_GROUPING_DIMENSION_FIELDS = [(BySector, ''sector''), (ByAssetClass, ''asset_class'')]"

definition empirical_field :: "grouping_dimension \<Rightarrow> string option" where
  "empirical_field d = map_of EMPIRICAL_GROUPING_DIMENSION_FIELDS d"

definition group_evidence_applies_to_set :: "attribution_type \<Rightarrow> attribution_metric \<Rightarrow> bool" where
  "group_evidence_applies_to_set t m \<longleftrightarrow> t = TotalRisk \<and> m = VolatilityMetric"

definition needs_total :: "attribution_options \<Rightarrow> bool" where
  "needs_total opts \<longleftrightarrow>
     TotalRisk \<in> set (at_attribution_types opts) \<and> VolatilityMetric \<in> set (at_metrics opts)"

definition needs_active :: "attribution_options \<Rightarrow> bool" where
  "needs_active opts \<longleftrightarrow>
     ActiveRisk \<in> set (at_attribution_types opts) \<and> TrackingErrorMetric \<in> set (at_metrics opts)"

definition evidence_grouping_dimensions :: "attribution_options \<Rightarrow> grouping_dimension list" where
  "evidence_grouping_dimensions opts =
     (if \<not> needs_total opts \<and> \<not> needs_active opts then []
      else filter (\<lambda>d. empirical_field d \<noteq> None) (at_grouping_dimensions opts))"

definition active_evidence_available ::
  "attribution_stateful_input \<Rightarrow> grouping_dimension \<Rightarrow> bool \<Rightarrow> bool"
where
  "active_evidence_available stateful d active \<longleftrightarrow>
     active \<and> d \<in> {BySector, ByAssetClass} \<and> af_net_or_gross stateful = Gross \<and>
     af_reporting_currency stateful \<noteq> None"

definition total_evidence_available :: "grouping_dimension \<Rightarrow> bool \<Rightarrow> bool" where
  "total_evidence_available d total_needed \<longleftrightarrow> total_needed \<and> empirical_field d \<noteq> None"

definition window_return_points :: "return_point list \<Rightarrow> date \<Rightarrow> date \<Rightarrow> return_point list" where
  "window_return_points points start_date end_date =
     filter (\<lambda>p. start_date \<le> pt_date p \<and> pt_date p \<le> end_date) points"

lemma empirical_field_iff: "empirical_field d \<noteq> None \<longleftrightarrow> d \<in> {BySector, ByAssetClass}"
  by (cases d) (simp_all add: empirical_field_def EMPIRICAL_GROUPING_DIMENSION_FIELDS_def)

lemma unique_dates_Inr_iff:
  "unique_dates series_name seen ds = Inr () \<longleftrightarrow> distinct ds \<and> set ds \<inter> set seen = {}"
  by (induction ds arbitrary: seen) (auto split: if_splits)

lemma validate_unique_return_dates_iff:
  "validate_unique_return_dates points series_name = Inr () \<longleftrightarrow> distinct (map pt_date points)"
  by (simp add: validate_unique_return_dates_def unique_dates_Inr_iff)

end
