(* ===== verification/TokenPages.thy ===== *)
theory TokenPages
  imports Main Upstream
begin

text \<open>
  Reading a listing page by page under a token the peer gives.  Two loops of the service have this
  shape (services/benchmark_exposure_history.py, services/attribution_position_timeseries.py): read a
  page and absorb it into what was read before, stop when there is no next token, refuse a token seen
  before, refuse to go on after a fixed number of pages.  A loop over \<open>page_count\<close> is a recursion on the
  pages left.
\<close>

locale token_pages =
  fixes page :: "'s \<Rightarrow> string option \<Rightarrow> ('s \<times> string option) io"
    and refuse_repeated :: "nat \<Rightarrow> 's \<Rightarrow> calculation_error"
    and refuse_more :: "nat \<Rightarrow> 's \<Rightarrow> calculation_error"
    and loop :: "nat \<Rightarrow> 's \<Rightarrow> string option \<Rightarrow> string list \<Rightarrow> 's io"
  assumes loop_0: "loop 0 s token seen = raise_io (refuse_more 0 s)"
    and loop_Suc: "loop (Suc left) s token seen =
      bind_io (page s token) (\<lambda>(s', next_token).
        case next_token of
          None \<Rightarrow> return_io s'
        | Some n \<Rightarrow>
            if n \<in> set seen \<or> token = Some n then raise_io (refuse_repeated left s')
            else if left = 0 then raise_io (refuse_more left s')
            else loop left s' (Some n) (n # seen))"
    and one_request: "at_most 1 (page s token)"
begin

lemma bounded_requests: "at_most n (loop n s token seen)"
proof (induction n arbitrary: s token seen)
  case 0
  show ?case unfolding loop_0 by (rule emits_intros)
next
  case (Suc n)
  show ?case
    unfolding loop_Suc
  proof (rule at_most_bind [where a = 1 and b = n])
    show "at_most 1 (page s token)" by (rule one_request)
    show "at_most n (case x of (s', next_token) \<Rightarrow>
        case next_token of
          None \<Rightarrow> return_io s'
        | Some m \<Rightarrow>
            if m \<in> set seen \<or> token = Some m then raise_io (refuse_repeated n s')
            else if n = 0 then raise_io (refuse_more n s')
            else loop n s' (Some m) (m # seen))" for x
      using Suc.IH by (cases x) (auto intro!: emits_intros split: option.splits)
  qed simp
qed

text \<open>What every absorbed page keeps holds of what is returned.\<close>

lemma loop_induct:
  assumes "loop n s token seen t = (Inr s', u)" "I s"
    and "\<And>s token t s' next_token u. page s token t = (Inr (s', next_token), u) \<Longrightarrow> I s \<Longrightarrow> I s'"
  shows "I s'"
  using assms(1,2)
proof (induction n arbitrary: s token seen t)
  case 0
  then show ?case by (simp add: loop_0)
next
  case (Suc n)
  from Suc.prems(1) [unfolded loop_Suc] obtain s1 next_token v where
    p: "page s token t = (Inr (s1, next_token), v)" and
    rest: "(case next_token of
          None \<Rightarrow> return_io s1
        | Some m \<Rightarrow>
            if m \<in> set seen \<or> token = Some m then raise_io (refuse_repeated n s1)
            else if n = 0 then raise_io (refuse_more n s1)
            else loop n s1 (Some m) (m # seen)) v = (Inr s', u)"
    by (auto elim!: bind_io_InrE)
  have I: "I s1" by (rule assms(3) [OF p Suc.prems(2)])
  show ?case
    using rest I Suc.IH by (auto split: option.splits if_splits)
qed

lemma emits_loop:
  assumes "\<And>s token. emits P (page s token)"
  shows "emits P (loop n s token seen)"
proof (induction n arbitrary: s token seen)
  case 0
  show ?case unfolding loop_0 by (rule emits_intros)
next
  case (Suc n)
  show ?case
    unfolding loop_Suc by (auto intro!: emits_intros assms Suc.IH split: prod.splits option.splits)
qed

end

end
