(* ===== verification/BenchmarkExposure.thy ===== *)
theory BenchmarkExposure
  imports Main "HOL-Library.Product_Lexorder" AttributionInputs Decimals ReturnsSeries PerformanceClient TokenPages
begin

text \<open>
  The benchmark's exposure history from lotus-performance (services/benchmark_exposure_history.py) and its
  alignment with the benchmark's returns (services/attribution_active_benchmark_exposure.py): the
  lineage, quality, identity and scope of every page, its rows, and the reading of the pages under
  their bounds.
\<close>

definition BENCHMARK_EXPOSURE_CONTEXT_OPERATION :: string where
  "BENCHMARK_EXPOSURE_CONTEXT_OPERATION = ''/integration/benchmarks/exposure-context''"

definition BENCHMARK_EXPOSURE_PAGE_SIZE :: nat where
  "BENCHMARK_EXPOSURE_PAGE_SIZE = 1000"

definition BENCHMARK_EXPOSURE_MAX_PAGES :: nat where
  "BENCHMARK_EXPOSURE_MAX_PAGES = 25"

definition BENCHMARK_EXPOSURE_MAX_ROWS :: nat where
  "BENCHMARK_EXPOSURE_MAX_ROWS = 10000"

record exposure_request =
  xr_portfolio_id :: string
  xr_as_of_date :: date
  xr_start_date :: date
  xr_reporting_currency :: "string option"
  xr_grouping_dimensions :: "grouping_dimension list"

definition invalid_exposure_payload :: "string \<Rightarrow> (string, json) dict \<Rightarrow> calculation_error" where
  "invalid_exposure_payload message details =
     UpstreamFailure (invalid_upstream_payload ''lotus-performance'' BENCHMARK_EXPOSURE_CONTEXT_OPERATION
       message details)"

definition invalid_benchmark_exposure_context :: "string \<Rightarrow> calculation_error" where
  "invalid_benchmark_exposure_context message =
     invalid_exposure_payload (''lotus-performance benchmark exposure context '' @ message) []"

definition invalid_benchmark_exposure_pagination :: "string \<Rightarrow> nat \<Rightarrow> nat \<Rightarrow> calculation_error" where
  "invalid_benchmark_exposure_pagination reason page_count row_count =
     invalid_exposure_payload ''lotus-performance benchmark exposure context unsafe pagination''
       [(''reason'', JString reason), (''page_count'', JInt (int page_count)),
        (''row_count'', JInt (int row_count)), (''max_pages'', JInt (int BENCHMARK_EXPOSURE_MAX_PAGES)),
        (''max_rows'', JInt (int BENCHMARK_EXPOSURE_MAX_ROWS))]"

section \<open>UUID texts\<close>

text \<open>
  \<open>UUID(text)\<close>: every \<open>urn:\<close>, then every \<open>uuid:\<close> is dropped, then braces around, then every hyphen; 32
  characters must be left that \<open>int(text, 16)\<close> reads.
\<close>

function remove_all :: "string \<Rightarrow> string \<Rightarrow> string" where
  "remove_all sub s =
     (if s = [] \<or> sub = [] then s
      else if starts_with s sub then remove_all sub (drop (length sub) s)
      else hd s # remove_all sub (tl s))"
  by auto
termination by (relation "measure (length \<circ> snd)") auto

declare remove_all.simps [simp del]

definition strip_braces :: "string \<Rightarrow> string" where
  "strip_braces s =
     (let f = dropWhile (\<lambda>c. c = CHR ''{'' \<or> c = CHR ''}'') in rev (f (rev (f s))))"

definition is_hex_digit :: "char \<Rightarrow> bool" where
  "is_hex_digit c \<longleftrightarrow> is_hex_char (char_lower c)"

fun hex_digits_ok :: "string \<Rightarrow> bool" where
  "hex_digits_ok [] = False"
| "hex_digits_ok [c] = is_hex_digit c"
| "hex_digits_ok (c # d # cs) =
     (is_hex_digit c \<and> (if d = CHR ''_'' then hex_digits_ok cs else hex_digits_ok (d # cs)))"

definition hex_int_ok :: "string \<Rightarrow> bool" where
  "hex_int_ok text =
     (let s = py_strip text; t = (if s \<noteq> [] \<and> hd s \<in> {CHR ''+'', CHR ''-''} then tl s else s);
          prefixed = py_lower (take 2 t) = ''0x'';
          u = (if prefixed then drop 2 t else t);
          v = (if prefixed \<and> u \<noteq> [] \<and> hd u = CHR ''_'' then tl u else u)
      in hex_digits_ok v)"

definition is_uuid_text :: "string \<Rightarrow> bool" where
  "is_uuid_text text =
     (let s = remove_all ''-'' (strip_braces (remove_all ''uuid:'' (remove_all ''urn:'' text)))
      in length s = 32 \<and> hex_int_ok s)"

lemma uuid_examples:
  "is_uuid_text ''00000000-0000-4000-8000-000000000001''"
  "is_uuid_text ''{urn:uuid:00000000000040008000000000000001}''"
  "\<not> is_uuid_text ''00000000-0000-4000-8000-00000000000g''"
  by code_simp+

section \<open>Lineage and quality of a page\<close>

definition require_context_value ::
  "json_object \<Rightarrow> string \<Rightarrow> string \<Rightarrow> string \<Rightarrow> (calculation_error, unit) result"
where
  "require_context_value payload field_name expected_value message =
     raise_if (json_get payload field_name \<noteq> JString expected_value)
       (invalid_benchmark_exposure_context (''missing '' @ message))"

definition metadata_object :: "json_object \<Rightarrow> (calculation_error, json_object) result" where
  "metadata_object response =
     (case json_get response ''metadata'' of
        JObject metadata \<Rightarrow> Inr metadata
      | _ \<Rightarrow> Inl (invalid_benchmark_exposure_context ''payload missing metadata object''))"

definition complete_source_quality_has_no_omissions :: "json_object \<Rightarrow> bool" where
  "complete_source_quality_has_no_omissions source_quality \<longleftrightarrow>
     json_get source_quality ''omitted_component_count'' = JInt 0 \<and>
     json_get source_quality ''omitted_point_count'' = JInt 0 \<and>
     json_get source_quality ''reason_codes'' = JArray [] \<and>
     json_get source_quality ''omissions'' = JArray [] \<and>
     json_get source_quality ''omissions_truncated'' = JBool False"

definition require_complete_exposure_source_quality ::
  "json_object \<Rightarrow> (calculation_error, unit) result"
where
  "require_complete_exposure_source_quality metadata =
     (case json_get metadata ''exposure_source_quality'' of
        JObject source_quality \<Rightarrow>
          (let status = json_get source_quality ''status'' in
           if status = JString ''incomplete'' then
             Inl (UpstreamFailure (missing_upstream_data ''lotus-performance''
               BENCHMARK_EXPOSURE_CONTEXT_OPERATION
               ''lotus-performance benchmark exposure context reports incomplete economic source evidence'' []))
           else if status \<noteq> JString ''complete'' then
             Inl (invalid_benchmark_exposure_context ''has unknown exposure_source_quality status'')
           else raise_if (\<not> complete_source_quality_has_no_omissions source_quality)
             (invalid_benchmark_exposure_context
               ''has contradictory complete exposure_source_quality omissions''))
      | _ \<Rightarrow> Inl (invalid_benchmark_exposure_context
          ''payload missing exposure_source_quality object''))"

definition require_calculation_identity ::
  "json_object \<Rightarrow> json_object \<Rightarrow> (calculation_error, unit) result"
where
  "require_calculation_identity response metadata =
     (case json_get response ''calculation_id'' of
        JString calculation_id \<Rightarrow>
          if json_get metadata ''calculation_run_id'' \<noteq> JString calculation_id
          then Inl (invalid_benchmark_exposure_context ''has conflicting calculation lineage'')
          else raise_if (\<not> is_uuid_text calculation_id)
            (invalid_benchmark_exposure_context ''has invalid calculation lineage'')
      | _ \<Rightarrow> Inl (invalid_benchmark_exposure_context ''has conflicting calculation lineage''))"

definition validate_exposure_lineage :: "json_object \<Rightarrow> (calculation_error, unit) result" where
  "validate_exposure_lineage response =
     bind_result (require_context_value response ''source_service'' ''lotus-performance''
       ''source_service=lotus-performance'') (\<lambda>_.
     bind_result (require_context_value response ''contract_version'' ''v1'' ''contract_version=v1'') (\<lambda>_.
     bind_result (metadata_object response) (\<lambda>metadata.
     bind_result (require_context_value metadata ''source_system'' ''lotus-core'' ''lotus-core lineage'') (\<lambda>_.
     bind_result (require_context_value metadata ''served_by'' ''lotus-performance''
       ''served_by=lotus-performance'') (\<lambda>_.
     bind_result (require_context_value metadata ''contract_version'' ''v1''
       ''metadata.contract_version=v1'') (\<lambda>_.
     bind_result (require_complete_exposure_source_quality metadata) (\<lambda>_.
       require_calculation_identity response metadata)))))))"

section \<open>Scope of a page\<close>

definition build_exposure_payload :: "exposure_request \<Rightarrow> string option \<Rightarrow> json_object" where
  "build_exposure_payload rq page_token =
     [(''portfolio_id'', JString (xr_portfolio_id rq)),
      (''as_of_date'', JString (isoformat (xr_as_of_date rq))),
      (''window'', JObject [(''start_date'', JString (isoformat (xr_start_date rq))),
        (''end_date'', JString (isoformat (xr_as_of_date rq)))]),
      (''frequency'', JString ''DAILY''),
      (''grouping_dimensions'', JArray (map (JString \<circ> dimension_value) (xr_grouping_dimensions rq))),
      (''page'', JObject [(''page_size'', JInt (int BENCHMARK_EXPOSURE_PAGE_SIZE)),
        (''page_token'', json_of_option page_token)])] @
     (if str_truthy (xr_reporting_currency rq)
      then [(''reporting_currency'', json_of_option (xr_reporting_currency rq))] else [])"

text \<open>Dictionaries are compared without regard to the order of their keys.\<close>

definition is_window :: "json \<Rightarrow> string \<Rightarrow> string \<Rightarrow> bool" where
  "is_window v start_date end_date \<longleftrightarrow>
     (case v of
        JObject kvs \<Rightarrow> fst ` set kvs = {''start_date'', ''end_date''} \<and>
          json_get kvs ''start_date'' = JString start_date \<and> json_get kvs ''end_date'' = JString end_date
      | _ \<Rightarrow> False)"

definition scope_checks :: "json_object \<Rightarrow> exposure_request \<Rightarrow> (string \<times> bool) list" where
  "scope_checks response rq =
     [(''portfolio_id'', json_get response ''portfolio_id'' = JString (xr_portfolio_id rq)),
      (''as_of_date'', json_get response ''as_of_date'' = JString (isoformat (xr_as_of_date rq))),
      (''window'', is_window (json_get response ''window'') (isoformat (xr_start_date rq))
        (isoformat (xr_as_of_date rq))),
      (''frequency'', json_get response ''frequency'' = JString ''DAILY''),
      (''reporting_currency'', json_get response ''reporting_currency'' =
        json_of_option (xr_reporting_currency rq))]"

definition validate_response_scope ::
  "json_object \<Rightarrow> exposure_request \<Rightarrow> (calculation_error, unit) result"
where
  "validate_response_scope response rq =
     (case filter (\<lambda>(field_name, holds). \<not> holds) (scope_checks response rq) of
        [] \<Rightarrow> Inr ()
      | (field_name, _) # _ \<Rightarrow> Inl (invalid_benchmark_exposure_context
          (''has '' @ field_name @ '' inconsistent with the admitted request'')))"

definition next_benchmark_page_token :: "json \<Rightarrow> (calculation_error, string option) result" where
  "next_benchmark_page_token page =
     (case page of
        JObject kvs \<Rightarrow>
          (case map_of kvs ''next_page_token'' of
             None \<Rightarrow> Inl (invalid_benchmark_exposure_context ''has missing pagination metadata'')
           | Some JNull \<Rightarrow> Inr None
           | Some (JString (c # cs)) \<Rightarrow> Inr (Some (c # cs))
           | Some _ \<Rightarrow> Inl (invalid_benchmark_exposure_context ''has invalid next_page_token''))
      | _ \<Rightarrow> Inl (invalid_benchmark_exposure_context ''has missing pagination metadata''))"

definition benchmark_identity :: "json_object \<Rightarrow> (calculation_error, string \<times> string) result" where
  "benchmark_identity response =
     (case (json_get response ''benchmark_id'', json_get response ''benchmark_version'') of
        (JString benchmark_id, JString benchmark_version) \<Rightarrow>
          if py_strip benchmark_id \<noteq> [] \<and> py_strip benchmark_version \<noteq> []
          then Inr (benchmark_id, benchmark_version)
          else Inl (invalid_benchmark_exposure_context ''has missing benchmark identity'')
      | _ \<Rightarrow> Inl (invalid_benchmark_exposure_context ''has missing benchmark identity''))"

section \<open>Rows\<close>

definition exposure_weight_decimal :: "field_readers \<Rightarrow> json \<Rightarrow> (calculation_error, rat) result" where
  "exposure_weight_decimal readers v =
     (case read_decimal v of
        NotADecimal \<Rightarrow> Inl (invalid_exposure_payload
          (''Invalid benchmark exposure weight from lotus-performance: '' @ fr_text readers v) [])
      | NonFiniteDecimal _ \<Rightarrow> Inl (invalid_benchmark_exposure_context ''has non-finite exposure weight'')
      | FiniteDecimal q \<Rightarrow> Inr q)"

definition invalid_row :: "string \<Rightarrow> nat \<Rightarrow> calculation_error" where
  "invalid_row what index =
     invalid_benchmark_exposure_context (''has '' @ what @ '' at index '' @ digits_of index)"

definition parse_exposure_date_weight ::
  "field_readers \<Rightarrow> string \<Rightarrow> json \<Rightarrow> nat \<Rightarrow> (calculation_error, date \<times> f64) result"
where
  "parse_exposure_date_weight readers valuation_date weight index =
     (case date_fromisoformat valuation_date of
        None \<Rightarrow> Inl (invalid_row ''invalid exposure row'' index)
      | Some d \<Rightarrow>
          if isoformat d \<noteq> valuation_date then Inl (invalid_row ''invalid exposure row'' index)
          else bind_result (exposure_weight_decimal readers weight) (\<lambda>q.
            case float_of_decimal q of
              None \<Rightarrow> Inl (invalid_row ''invalid exposure row'' index)
            | Some w \<Rightarrow> Inr (d, w)))"

definition row_to_exposure_point ::
  "field_readers \<Rightarrow> json \<Rightarrow> nat \<Rightarrow> (calculation_error, exposure_point) result"
where
  "row_to_exposure_point readers row index =
     (case row of
        JObject kvs \<Rightarrow>
          (case (json_get kvs ''valuation_date'', json_get kvs ''grouping_dimension'',
              json_get kvs ''group_key'') of
             (JString valuation_date, JString dimension, JString group_key) \<Rightarrow>
               if group_key = [] \<or> json_get kvs ''weight'' = JNull
               then Inl (invalid_row ''incomplete exposure row'' index)
               else
                 bind_result (case json_get kvs ''group_label'' of
                     JNull \<Rightarrow> Inr None
                   | JString s \<Rightarrow> Inr (Some s)
                   | _ \<Rightarrow> Inl (invalid_row ''invalid exposure label'' index)) (\<lambda>label.
                 bind_result (parse_exposure_date_weight readers valuation_date (json_get kvs ''weight'') index)
                   (\<lambda>(d, w).
                     case dimension_of dimension of
                       None \<Rightarrow> Inl (invalid_row ''invalid exposure row'' index)
                     | Some g \<Rightarrow> Inr \<lparr>xp_date = d, xp_dimension = g, xp_group_key = group_key,
                         xp_group_label = label, xp_weight = w\<rparr>))
           | _ \<Rightarrow> Inl (invalid_row ''incomplete exposure row'' index))
      | _ \<Rightarrow> Inl (invalid_row ''invalid exposure row'' index))"

definition rows_to_exposure_points ::
  "field_readers \<Rightarrow> json list \<Rightarrow> (calculation_error, exposure_point list) result"
where
  "rows_to_exposure_points readers rows =
     bind_result (map_result (\<lambda>(index, row). row_to_exposure_point readers row index) (enumerate 0 rows))
       (\<lambda>points. Inr (sort_key exposure_key points))"

definition in_exposure_scope :: "exposure_request \<Rightarrow> exposure_point \<Rightarrow> bool" where
  "in_exposure_scope rq p \<longleftrightarrow>
     xr_start_date rq \<le> xp_date p \<and> xp_date p \<le> xr_as_of_date rq \<and>
     xp_dimension p \<in> set (xr_grouping_dimensions rq)"

definition parse_exposure_page ::
  "field_readers \<Rightarrow> exposure_request \<Rightarrow> json_object \<Rightarrow>
     (calculation_error, exposure_point list \<times> string option \<times> (string \<times> string)) result"
where
  "parse_exposure_page readers rq response =
     bind_result (validate_exposure_lineage response) (\<lambda>_.
     bind_result (validate_response_scope response rq) (\<lambda>_.
     case json_get response ''rows'' of
       JArray rows \<Rightarrow>
         bind_result (next_benchmark_page_token (json_get response ''page'')) (\<lambda>next_page_token.
         bind_result (benchmark_identity response) (\<lambda>identity.
         bind_result (rows_to_exposure_points readers rows) (\<lambda>points.
           if \<exists>p\<in>set points. \<not> in_exposure_scope rq p
           then Inl (invalid_benchmark_exposure_context ''has exposure row outside requested scope'')
           else Inr (points, next_page_token, identity))))
     | _ \<Rightarrow> Inl (invalid_exposure_payload
         ''lotus-performance benchmark exposure context payload missing 'rows' list'' [])))"

definition fetch_benchmark_exposure_page ::
  "performance_client \<Rightarrow> downstream_authority \<Rightarrow> field_readers \<Rightarrow> exposure_request \<Rightarrow> string option \<Rightarrow>
     (exposure_point list \<times> string option \<times> (string \<times> string)) io"
where
  "fetch_benchmark_exposure_page client authority readers rq page_token =
     bind_io (execute_benchmark_exposure_context_request client (build_exposure_payload rq page_token) authority)
       (\<lambda>response. lift_io (parse_exposure_page readers rq response))"

section \<open>Reading the pages\<close>

text \<open>What has been read: \<open>benchmark_exposures\<close>, \<open>seen_row_keys\<close> and \<open>expected_benchmark_identity\<close>.\<close>

record exposure_state =
  es_points :: "exposure_point list"
  es_seen_row_keys :: "(date \<times> grouping_dimension \<times> string) list"
  es_identity :: "(string \<times> string) option"
  es_page_count :: nat

fun add_row_keys ::
  "(date \<times> grouping_dimension \<times> string) list \<Rightarrow> exposure_point list \<Rightarrow>
     (calculation_error, (date \<times> grouping_dimension \<times> string) list) result"
where
  "add_row_keys seen [] = Inr seen"
| "add_row_keys seen (p # ps) =
     (if exposure_key p \<in> set seen
      then Inl (invalid_benchmark_exposure_context ''has duplicate exposure row across pages'')
      else add_row_keys (exposure_key p # seen) ps)"

definition validate_page_identity_and_rows ::
  "exposure_point list \<Rightarrow> string \<times> string \<Rightarrow> exposure_state \<Rightarrow>
     (calculation_error, exposure_state) result"
where
  "validate_page_identity_and_rows points identity s =
     (if es_identity s \<noteq> None \<and> es_identity s \<noteq> Some identity
      then Inl (invalid_benchmark_exposure_context ''has changed benchmark identity across pages'')
      else bind_result (add_row_keys (es_seen_row_keys s) points) (\<lambda>seen.
        Inr (s\<lparr>es_seen_row_keys := seen, es_identity := Some identity\<rparr>)))"

definition absorb_exposure_page ::
  "exposure_state \<Rightarrow> exposure_point list \<times> string option \<times> (string \<times> string) \<Rightarrow>
     (calculation_error, exposure_state \<times> string option) result"
where
  "absorb_exposure_page s page =
     (case page of (points, next_page_token, identity) \<Rightarrow>
        let counted = s\<lparr>es_page_count := es_page_count s + 1\<rparr> in
        bind_result (validate_page_identity_and_rows points identity counted) (\<lambda>s'.
          let extended = s'\<lparr>es_points := es_points s' @ points\<rparr> in
          if BENCHMARK_EXPOSURE_MAX_ROWS < length (es_points extended)
          then Inl (invalid_benchmark_exposure_pagination ''max_rows_exceeded''
            (es_page_count extended) (length (es_points extended)))
          else Inr (extended, next_page_token)))"

definition read_exposure_page ::
  "performance_client \<Rightarrow> downstream_authority \<Rightarrow> field_readers \<Rightarrow> exposure_request \<Rightarrow>
     exposure_state \<Rightarrow> string option \<Rightarrow> (exposure_state \<times> string option) io"
where
  "read_exposure_page client authority readers rq s page_token =
     bind_io (fetch_benchmark_exposure_page client authority readers rq page_token)
       (\<lambda>page. lift_io (absorb_exposure_page s page))"

definition refuse_exposure_pages :: "string \<Rightarrow> exposure_state \<Rightarrow> calculation_error" where
  "refuse_exposure_pages reason s =
     invalid_benchmark_exposure_pagination reason (es_page_count s) (length (es_points s))"

fun read_exposure_pages ::
  "performance_client \<Rightarrow> downstream_authority \<Rightarrow> field_readers \<Rightarrow> exposure_request \<Rightarrow>
     nat \<Rightarrow> exposure_state \<Rightarrow> string option \<Rightarrow> string list \<Rightarrow> exposure_state io"
where
  "read_exposure_pages client authority readers rq 0 s page_token seen =
     raise_io (refuse_exposure_pages ''max_pages_exceeded'' s)"
| "read_exposure_pages client authority readers rq (Suc left) s page_token seen =
     bind_io (read_exposure_page client authority readers rq s page_token) (\<lambda>(s', next_page_token).
       case next_page_token of
         None \<Rightarrow> return_io s'
       | Some n \<Rightarrow>
           if n \<in> set seen \<or> page_token = Some n
           then raise_io (refuse_exposure_pages ''repeated_page_token'' s')
           else if left = 0 then raise_io (refuse_exposure_pages ''max_pages_exceeded'' s')
           else read_exposure_pages client authority readers rq left s' (Some n) (n # seen))"

definition validate_supported_grouping_dimensions ::
  "grouping_dimension list \<Rightarrow> (calculation_error, unit) result"
where
  "validate_supported_grouping_dimensions grouping_dimensions =
     raise_if (ByCustom \<in> set grouping_dimensions)
       (PlainValueError (''stateful ACTIVE_RISK/TRACKING_ERROR attribution cannot source benchmark '' @
          ''exposure history for grouping_dimensions=CUSTOM''))"

definition empty_exposure_state :: exposure_state where
  "empty_exposure_state = \<lparr>es_points = [], es_seen_row_keys = [], es_identity = None, es_page_count = 0\<rparr>"

definition finish_exposure_history ::
  "exposure_state \<Rightarrow> (calculation_error, exposure_point list \<times> (string \<times> string)) result"
where
  "finish_exposure_history s =
     (if es_points s = [] then
        Inl (UpstreamFailure (missing_upstream_data ''lotus-performance'' BENCHMARK_EXPOSURE_CONTEXT_OPERATION
          ''unable to build benchmark exposure history from lotus-performance benchmark exposure context'' []))
      else case es_identity s of
        None \<Rightarrow> Inl (invalid_benchmark_exposure_context ''missing benchmark identity'')
      | Some identity \<Rightarrow> Inr (es_points s, identity))"

definition fetch_benchmark_exposure_history_with_identity ::
  "performance_client \<Rightarrow> downstream_authority \<Rightarrow> field_readers \<Rightarrow> exposure_request \<Rightarrow>
     (exposure_point list \<times> (string \<times> string)) io"
where
  "fetch_benchmark_exposure_history_with_identity client authority readers rq =
     bind_io (lift_io (validate_supported_grouping_dimensions (xr_grouping_dimensions rq))) (\<lambda>_.
     bind_io (read_exposure_pages client authority readers rq BENCHMARK_EXPOSURE_MAX_PAGES
       empty_exposure_state None []) (\<lambda>s.
       lift_io (finish_exposure_history s)))"

section \<open>Alignment with the benchmark's returns\<close>

definition validate_benchmark_exposure_alignment ::
  "return_point list \<Rightarrow> exposure_point list \<Rightarrow> (calculation_error, unit) result"
where
  "validate_benchmark_exposure_alignment benchmark_returns history =
     (let missing_dates = sorted_diff (map pt_date benchmark_returns) (map xp_date history) in
      raise_if (missing_dates \<noteq> [])
        (UpstreamFailure (missing_upstream_data ''lotus-performance'' BENCHMARK_EXPOSURE_CONTEXT_OPERATION
          (''lotus-performance benchmark exposure context missing rows for benchmark return dates: '' @
           str_join '', '' (map isoformat (take 5 missing_dates))) [])))"

definition fetch_active_benchmark_exposure_history ::
  "performance_client \<Rightarrow> downstream_authority \<Rightarrow> field_readers \<Rightarrow> attribution_stateful_input \<Rightarrow>
     return_point list \<Rightarrow> date \<Rightarrow> grouping_dimension list \<Rightarrow>
     (exposure_point list \<times> (string \<times> string)) io"
where
  "fetch_active_benchmark_exposure_history client authority readers stateful benchmark_returns start_date
     grouping_dimensions =
     bind_io (fetch_benchmark_exposure_history_with_identity client authority readers
       \<lparr>xr_portfolio_id = af_portfolio_id stateful, xr_as_of_date = af_as_of_date stateful,
        xr_start_date = start_date, xr_reporting_currency = af_reporting_currency stateful,
        xr_grouping_dimensions = grouping_dimensions\<rparr>) (\<lambda>(history, identity).
     bind_io (lift_io (validate_benchmark_exposure_alignment benchmark_returns history)) (\<lambda>_.
       return_io (history, identity)))"

section \<open>What is accepted\<close>

lemma map_result_enumerate_Inr:
  "map_result f xs = Inr ys \<Longrightarrow> y \<in> set ys \<Longrightarrow> \<exists>x\<in>set xs. f x = Inr y"
  by (induction xs arbitrary: ys) (auto simp: result_simps)

lemma parse_exposure_page_scope:
  assumes "parse_exposure_page readers rq response = Inr (points, next_token, identity)"
  shows "\<forall>p\<in>set points. in_exposure_scope rq p"
  using assms by (auto simp: parse_exposure_page_def result_simps split: json.splits if_splits)

lemma add_row_keys_Inr:
  "add_row_keys seen ps = Inr seen' \<Longrightarrow>
     set seen' = set seen \<union> exposure_key ` set ps \<and> distinct (map exposure_key ps) \<and>
     set seen \<inter> exposure_key ` set ps = {}"
  by (induction ps arbitrary: seen) (force split: if_splits)+

definition exposure_inv :: "exposure_request \<Rightarrow> exposure_state \<Rightarrow> bool" where
  "exposure_inv rq s \<longleftrightarrow>
     set (es_seen_row_keys s) = exposure_key ` set (es_points s) \<and>
     distinct (map exposure_key (es_points s)) \<and> length (es_points s) \<le> BENCHMARK_EXPOSURE_MAX_ROWS \<and>
     (\<forall>p\<in>set (es_points s). in_exposure_scope rq p)"

lemma absorb_keeps_inv:
  assumes "absorb_exposure_page s (points, next_token, identity) = Inr (s', n)" "exposure_inv rq s"
    and "\<forall>p\<in>set points. in_exposure_scope rq p"
  shows "exposure_inv rq s' \<and> es_points s' = es_points s @ points \<and> es_identity s' = Some identity \<and>
    (es_identity s = None \<or> es_identity s = Some identity)"
  using assms
  by (auto simp: absorb_exposure_page_def validate_page_identity_and_rows_def exposure_inv_def
      result_simps Let_def split: if_splits dest!: add_row_keys_Inr)

lemma read_exposure_page_Inr:
  assumes "read_exposure_page client authority readers rq s token t = (Inr (s', n), u)"
  obtains points next_token identity where
    "absorb_exposure_page s (points, next_token, identity) = Inr (s', n)"
    "\<forall>p\<in>set points. in_exposure_scope rq p"
  using assms
  by (auto simp: read_exposure_page_def fetch_benchmark_exposure_page_def elim!: bind_io_InrE
      dest!: parse_exposure_page_scope)

lemma at_most_performance_read: "at_most 1 (execute_performance_read client operation message payload authority)"
  unfolding execute_performance_read_def by (rule at_most_execute)

lemma at_most_exposure_page: "at_most 1 (read_exposure_page client authority readers rq s token)"
  unfolding read_exposure_page_def fetch_benchmark_exposure_page_def
    execute_benchmark_exposure_context_request_def
  by (rule at_most_bind [where a = 1 and b = 0], rule at_most_bind [where a = 1 and b = 0],
      rule at_most_performance_read) (simp_all add: at_most_def)

interpretation benchmark_pages: token_pages
  "read_exposure_page client authority readers rq"
  "\<lambda>left. refuse_exposure_pages ''repeated_page_token''"
  "\<lambda>left. refuse_exposure_pages ''max_pages_exceeded''"
  "read_exposure_pages client authority readers rq"
  for client authority readers rq
  by (unfold_locales; (rule at_most_exposure_page | simp))

lemma history_Inr:
  assumes "fetch_benchmark_exposure_history_with_identity client authority readers rq t = (Inr (points, identity), u)"
  shows "points \<noteq> [] \<and> distinct (map exposure_key points) \<and> length points \<le> BENCHMARK_EXPOSURE_MAX_ROWS \<and>
     (\<forall>p\<in>set points. in_exposure_scope rq p)"
proof -
  obtain s v where s: "read_exposure_pages client authority readers rq BENCHMARK_EXPOSURE_MAX_PAGES
      empty_exposure_state None [] v = (Inr s, u)"
    and f: "finish_exposure_history s = Inr (points, identity)"
    using assms by (auto simp: fetch_benchmark_exposure_history_with_identity_def elim!: bind_io_InrE)
  have "exposure_inv rq empty_exposure_state" by (simp add: exposure_inv_def empty_exposure_state_def)
  from benchmark_pages.loop_induct [where I = "exposure_inv rq", OF s this] have "exposure_inv rq s"
    by (auto elim!: read_exposure_page_Inr dest: absorb_keeps_inv)
  with f show ?thesis
    by (auto simp: finish_exposure_history_def exposure_inv_def split: if_splits option.splits)
qed

text \<open>Whatever lotus-performance answers, reading the exposure history of a benchmark makes at most 25
  requests.\<close>

theorem exposure_history_is_bounded:
  "at_most BENCHMARK_EXPOSURE_MAX_PAGES
     (fetch_benchmark_exposure_history_with_identity client authority readers rq)"
  unfolding fetch_benchmark_exposure_history_with_identity_def
  by (rule at_most_bind [where a = 0 and b = BENCHMARK_EXPOSURE_MAX_PAGES], rule emits_intros,
      rule at_most_bind [where a = BENCHMARK_EXPOSURE_MAX_PAGES and b = 0],
      rule benchmark_pages.bounded_requests) (simp_all add: at_most_def)

text \<open>C23: An accepted exposure history is not empty and has at most 10000 rows, every row lies in the
  requested window and dimensions, and no date, dimension and group occur twice, however the rows were
  spread over pages.\<close>

theorem exposure_history_is_admissible:
  assumes "fetch_benchmark_exposure_history_with_identity client authority readers rq t = (Inr (points, identity), u)"
  shows "points \<noteq> [] \<and> distinct (map exposure_key points) \<and> length points \<le> BENCHMARK_EXPOSURE_MAX_ROWS \<and>
     (\<forall>p\<in>set points. in_exposure_scope rq p)"
  by (rule history_Inr [OF assms])

definition sample_exposure_request :: exposure_request where
  "sample_exposure_request = \<lparr>xr_portfolio_id = ''P1'', xr_as_of_date = Date 2026 1 30,
     xr_start_date = Date 2026 1 2, xr_reporting_currency = None, xr_grouping_dimensions = [BySector]\<rparr>"

definition sample_exposure_response :: json_object where
  "sample_exposure_response =
     [(''source_service'', JString ''lotus-performance''), (''contract_version'', JString ''v1''),
      (''calculation_id'', JString ''00000000-0000-4000-8000-000000000001''),
      (''metadata'', JObject [(''source_system'', JString ''lotus-core''),
        (''served_by'', JString ''lotus-performance''), (''contract_version'', JString ''v1''),
        (''calculation_run_id'', JString ''00000000-0000-4000-8000-000000000001''),
        (''exposure_source_quality'', JObject [(''status'', JString ''complete''),
          (''omitted_component_count'', JInt 0), (''omitted_point_count'', JInt 0),
          (''reason_codes'', JArray []), (''omissions'', JArray []),
          (''omissions_truncated'', JBool False)])]),
      (''portfolio_id'', JString ''P1''), (''as_of_date'', JString ''2026-01-30''),
      (''window'', JObject [(''end_date'', JString ''2026-01-30''), (''start_date'', JString ''2026-01-02'')]),
      (''frequency'', JString ''DAILY''), (''benchmark_id'', JString ''B1''),
      (''benchmark_version'', JString ''1''), (''page'', JObject [(''next_page_token'', JNull)]),
      (''rows'', JArray [JObject [(''valuation_date'', JString ''2026-01-02''),
        (''grouping_dimension'', JString ''SECTOR''), (''group_key'', JString ''SECTOR_TECH''),
        (''weight'', JInt 1)]])]"

definition sample_exposure_client :: performance_client where
  "sample_exposure_client = \<lparr>pc_peer = (\<lambda>_. Response 200 (JsonBody (JObject sample_exposure_response))),
     pc_base_url = ''http://p'', pc_async_max_polls = 2, pc_async_poll_interval_seconds = 1\<rparr>"

definition sample_exposure_point :: exposure_point where
  "sample_exposure_point = \<lparr>xp_date = Date 2026 1 2, xp_dimension = BySector,
     xp_group_key = ''SECTOR_TECH'', xp_group_label = None, xp_weight = 1\<rparr>"

lemma sample_exposure_page:
  "parse_exposure_page sample_readers sample_exposure_request sample_exposure_response =
     Inr ([sample_exposure_point], None, (''B1'', ''1''))"
proof -
  have iso: "isoformat (Date 2026 1 30) = ''2026-01-30''" "isoformat (Date 2026 1 2) = ''2026-01-02''"
    "date_fromisoformat ''2026-01-02'' = Some (Date 2026 1 2)" by code_simp+
  have uuid: "is_uuid_text ''00000000-0000-4000-8000-000000000001''" by (rule uuid_examples)
  have strip: "py_strip ''B1'' = ''B1''" "py_strip ''1'' = ''1''" by code_simp+
  have lineage: "validate_exposure_lineage sample_exposure_response = Inr ()"
    using uuid by (simp add: validate_exposure_lineage_def require_context_value_def metadata_object_def
        require_complete_exposure_source_quality_def complete_source_quality_has_no_omissions_def
        require_calculation_identity_def sample_exposure_response_def json_get_def raise_if_def)
  have scope: "validate_response_scope sample_exposure_response sample_exposure_request = Inr ()"
    by (auto simp: validate_response_scope_def scope_checks_def is_window_def sample_exposure_response_def
        sample_exposure_request_def json_get_def iso json_of_option_def)
  have row: "row_to_exposure_point sample_readers (JObject [(''valuation_date'', JString ''2026-01-02''),
        (''grouping_dimension'', JString ''SECTOR''), (''group_key'', JString ''SECTOR_TECH''),
        (''weight'', JInt 1)]) 0 = Inr sample_exposure_point"
    by (simp add: row_to_exposure_point_def parse_exposure_date_weight_def exposure_weight_decimal_def
        read_decimal_def decimal_of_json_def float_of_decimal_def iso json_get_def dimension_of_def
        dimensions_def dimension_value_def sample_exposure_point_def)
  have in_scope: "in_exposure_scope sample_exposure_request sample_exposure_point"
    by (simp add: in_exposure_scope_def sample_exposure_request_def sample_exposure_point_def
        less_eq_date_def)
  show ?thesis
    using lineage scope row in_scope strip
    by (simp add: parse_exposure_page_def rows_to_exposure_points_def next_benchmark_page_token_def
        benchmark_identity_def sample_exposure_response_def json_get_def)
qed

theorem exposure_history_is_admissible_witness:
  "\<exists>u. fetch_benchmark_exposure_history_with_identity sample_exposure_client sample_authority sample_readers
      sample_exposure_request [] = (Inr ([sample_exposure_point], (''B1'', ''1'')), u) \<and>
    in_exposure_scope sample_exposure_request sample_exposure_point"
proof -
  let ?run = "fetch_benchmark_exposure_history_with_identity sample_exposure_client sample_authority
    sample_readers sample_exposure_request []"
  have "fst ?run = Inr ([sample_exposure_point], (''B1'', ''1''))"
    by (simp add: fetch_benchmark_exposure_history_with_identity_def read_exposure_page_def
        fetch_benchmark_exposure_page_def execute_benchmark_exposure_context_request_def
        execute_performance_read_def execute_downstream_request_json_def execute_downstream_request_def
        BENCHMARK_EXPOSURE_MAX_PAGES_def numeral_eq_Suc bind_io_def sample_exposure_client_def dict_payload_def
        response_json_def record_upstream_request_def sample_exposure_page absorb_exposure_page_def
        validate_page_identity_and_rows_def empty_exposure_state_def BENCHMARK_EXPOSURE_MAX_ROWS_def
        validate_supported_grouping_dimensions_def sample_exposure_request_def raise_if_def
        finish_exposure_history_def Let_def sample_exposure_page [unfolded sample_exposure_request_def])
  then obtain u where run: "?run = (Inr ([sample_exposure_point], (''B1'', ''1'')), u)"
    by (metis prod.collapse)
  from exposure_history_is_admissible [OF run] run show ?thesis by auto
qed

end
