(* ===== verification/PositionExposure.thy ===== *)
theory PositionExposure
  imports Main "HOL-Library.Product_Lexorder" AttributionInputs Decimals ReturnsSeries CoreClient TokenPages
begin

text \<open>
  The portfolio's exposure history from lotus-core: services/attribution_position_timeseries.py,
  attribution_exposure_points.py and attribution_exposure_history.py.  Position rows are read page by
  page, market values are added per date and group in decimals, and a weight is the quotient of a group
  and the date's total.
\<close>

section \<open>Pages of position rows\<close>

definition POSITION_TIMESERIES_PAGE_SIZE :: nat where
  "POSITION_TIMESERIES_PAGE_SIZE = 5000"

definition POSITION_TIMESERIES_MAX_PAGES :: nat where
  "POSITION_TIMESERIES_MAX_PAGES = 25"

definition POSITION_TIMESERIES_MAX_ROWS :: nat where
  "POSITION_TIMESERIES_MAX_ROWS = 100000"

record position_query =
  pq_portfolio_id :: string
  pq_as_of_date :: date
  pq_start_date :: date
  pq_reporting_currency :: "string option"
  pq_grouping_dimensions :: "grouping_dimension list"

definition position_timeseries_dimensions :: "grouping_dimension list \<Rightarrow> string list" where
  "position_timeseries_dimensions grouping_dimensions =
     (if BySector \<in> set grouping_dimensions then [''sector''] else []) @
     (if ByAssetClass \<in> set grouping_dimensions then [''asset_class''] else [])"

definition position_timeseries_payload :: "position_query \<Rightarrow> string option \<Rightarrow> json_object" where
  "position_timeseries_payload q page_token =
     [(''as_of_date'', JString (isoformat (pq_as_of_date q))),
      (''window'', JObject [(''start_date'', JString (isoformat (pq_start_date q))),
        (''end_date'', JString (isoformat (pq_as_of_date q)))]),
      (''frequency'', JString ''daily''),
      (''dimensions'', JArray (map JString (position_timeseries_dimensions (pq_grouping_dimensions q)))),
      (''consumer_system'', JString ''lotus-risk''),
      (''page'', JObject [(''page_size'', JInt (int POSITION_TIMESERIES_PAGE_SIZE)),
        (''page_token'', json_of_option page_token)])] @
     (if str_truthy (pq_reporting_currency q)
      then [(''reporting_currency'', json_of_option (pq_reporting_currency q))] else [])"

definition position_timeseries_operation :: "string \<Rightarrow> string" where
  "position_timeseries_operation portfolio_id =
     ''/integration/portfolios/'' @ portfolio_id @ ''/analytics/position-timeseries''"

definition invalid_position_timeseries_pagination :: "string \<Rightarrow> string \<Rightarrow> nat \<Rightarrow> nat \<Rightarrow> calculation_error" where
  "invalid_position_timeseries_pagination portfolio_id reason page_count row_count =
     UpstreamFailure (invalid_upstream_payload ''lotus-core'' (position_timeseries_operation portfolio_id)
       ''lotus-core position-timeseries unsafe pagination''
       [(''reason'', JString reason), (''page_count'', JInt (int page_count)),
        (''row_count'', JInt (int row_count)), (''max_pages'', JInt (int POSITION_TIMESERIES_MAX_PAGES)),
        (''max_rows'', JInt (int POSITION_TIMESERIES_MAX_ROWS))])"

definition extract_position_rows_batch ::
  "json_object \<Rightarrow> string \<Rightarrow> (calculation_error, json_object list) result"
where
  "extract_position_rows_batch response portfolio_id =
     (case json_get response ''rows'' of
        JArray batch \<Rightarrow> Inr (List.map_filter (\<lambda>row. case row of JObject kvs \<Rightarrow> Some kvs | _ \<Rightarrow> None) batch)
      | _ \<Rightarrow> Inl (UpstreamFailure (invalid_upstream_payload ''lotus-core''
          (position_timeseries_operation portfolio_id)
          ''lotus-core position-timeseries payload missing 'rows' list'' [])))"

definition next_position_page_token :: "json_object \<Rightarrow> string option" where
  "next_position_page_token response =
     (case json_get response ''page'' of
        JObject page \<Rightarrow>
          (case json_get page ''next_page_token'' of JString (c # cs) \<Rightarrow> Some (c # cs) | _ \<Rightarrow> None)
      | _ \<Rightarrow> None)"

record position_state =
  ps_rows :: "json_object list"
  ps_page_count :: nat

definition refuse_position_pages :: "string \<Rightarrow> string \<Rightarrow> position_state \<Rightarrow> calculation_error" where
  "refuse_position_pages portfolio_id reason s =
     invalid_position_timeseries_pagination portfolio_id reason (ps_page_count s) (length (ps_rows s))"

definition absorb_position_page ::
  "string \<Rightarrow> position_state \<Rightarrow> json_object \<Rightarrow> (calculation_error, position_state \<times> string option) result"
where
  "absorb_position_page portfolio_id s response =
     bind_result (extract_position_rows_batch response portfolio_id) (\<lambda>batch.
       let s' = s\<lparr>ps_page_count := ps_page_count s + 1, ps_rows := ps_rows s @ batch\<rparr> in
       if POSITION_TIMESERIES_MAX_ROWS < length (ps_rows s')
       then Inl (refuse_position_pages portfolio_id ''max_rows_exceeded'' s')
       else Inr (s', next_position_page_token response))"

definition read_position_page ::
  "core_client \<Rightarrow> downstream_authority \<Rightarrow> position_query \<Rightarrow> position_state \<Rightarrow> string option \<Rightarrow>
     (position_state \<times> string option) io"
where
  "read_position_page client authority q s page_token =
     bind_io (get_position_analytics_timeseries client (pq_portfolio_id q)
       (position_timeseries_payload q page_token) authority) (\<lambda>response.
       lift_io (absorb_position_page (pq_portfolio_id q) s response))"

fun read_position_pages ::
  "core_client \<Rightarrow> downstream_authority \<Rightarrow> position_query \<Rightarrow> nat \<Rightarrow> position_state \<Rightarrow> string option \<Rightarrow>
     string list \<Rightarrow> position_state io"
where
  "read_position_pages client authority q 0 s page_token seen =
     raise_io (refuse_position_pages (pq_portfolio_id q) ''max_pages_exceeded'' s)"
| "read_position_pages client authority q (Suc left) s page_token seen =
     bind_io (read_position_page client authority q s page_token) (\<lambda>(s', next_page_token).
       case next_page_token of
         None \<Rightarrow> return_io s'
       | Some n \<Rightarrow>
           if n \<in> set seen \<or> page_token = Some n
           then raise_io (refuse_position_pages (pq_portfolio_id q) ''repeated_page_token'' s')
           else if left = 0
           then raise_io (refuse_position_pages (pq_portfolio_id q) ''max_pages_exceeded'' s')
           else read_position_pages client authority q left s' (Some n) (n # seen))"

definition fetch_position_timeseries_rows ::
  "core_client \<Rightarrow> downstream_authority \<Rightarrow> position_query \<Rightarrow> json_object list io"
where
  "fetch_position_timeseries_rows client authority q =
     bind_io (read_position_pages client authority q POSITION_TIMESERIES_MAX_PAGES
       \<lparr>ps_rows = [], ps_page_count = 0\<rparr> None []) (\<lambda>s. return_io (ps_rows s))"

section \<open>Issuers\<close>

definition text_of :: "field_readers \<Rightarrow> json \<Rightarrow> string" where
  "text_of readers v = (case v of JString s \<Rightarrow> s | _ \<Rightarrow> fr_text readers v)"

type_synonym issuer_map = "(string, string \<times> string option) dict"

definition security_ids_from_position_rows :: "field_readers \<Rightarrow> json_object list \<Rightarrow> string list" where
  "security_ids_from_position_rows readers rows =
     sorted_set (map (text_of readers) (filter json_truthy (map (\<lambda>row. json_get row ''security_id'') rows)))"

definition issuer_identity_from_record ::
  "field_readers \<Rightarrow> json_object \<Rightarrow> (string \<times> (string \<times> string option)) option"
where
  "issuer_identity_from_record readers rec =
     (let security_id_raw = json_get rec ''security_id''; issuer_id_raw = json_get rec ''issuer_id'';
          issuer_name_raw = json_get rec ''issuer_name'' in
      if \<not> json_truthy security_id_raw then None
      else let security_id = text_of readers security_id_raw in
        Some (security_id,
          (if json_truthy issuer_id_raw then text_of readers issuer_id_raw else ''ISSUER_'' @ security_id,
           if json_truthy issuer_name_raw then Some (text_of readers issuer_name_raw) else None)))"

definition issuer_map_of_records :: "field_readers \<Rightarrow> json list \<Rightarrow> issuer_map" where
  "issuer_map_of_records readers records =
     dict_of_items (List.map_filter
       (\<lambda>r. case r of JObject kvs \<Rightarrow> issuer_identity_from_record readers kvs | _ \<Rightarrow> None) records)"

definition build_issuer_map ::
  "core_client \<Rightarrow> field_readers \<Rightarrow> json_object list \<Rightarrow> string option \<Rightarrow> issuer_map io"
where
  "build_issuer_map client readers rows correlation_id =
     (let security_ids = security_ids_from_position_rows readers rows in
      if security_ids = [] then return_io []
      else bind_io (get_instrument_enrichment client security_ids correlation_id) (\<lambda>response.
        case json_get response ''records'' of
          JArray records \<Rightarrow> return_io (issuer_map_of_records readers records)
        | _ \<Rightarrow> raise_io (UpstreamFailure (invalid_upstream_payload ''lotus-core''
            ''/integration/instruments/enrichment-bulk''
            ''lotus-core enrichment payload missing 'records' list'' []))))"

section \<open>Exposure points\<close>

definition group_key_and_label ::
  "field_readers \<Rightarrow> json_object \<Rightarrow> grouping_dimension \<Rightarrow> issuer_map \<Rightarrow>
     (calculation_error, string \<times> string option) result"
where
  "group_key_and_label readers row grouping_dimension issuers =
     (let security_id_raw = json_get row ''security_id'';
          security_id = (if json_truthy security_id_raw then text_of readers security_id_raw
            else ''UNKNOWN_SECURITY'');
          dims = mapping_or_empty (json_get row ''dimensions'');
          source = (\<lambda>field. if json_truthy (json_get dims field) then text_of readers (json_get dims field)
            else ''UNKNOWN'')
      in case grouping_dimension of
           ByPosition \<Rightarrow> Inr (security_id, Some security_id)
         | BySector \<Rightarrow> Inr (''SECTOR_'' @ source ''sector'', Some (source ''sector''))
         | ByAssetClass \<Rightarrow> Inr (''ASSET_CLASS_'' @ source ''asset_class'', Some (source ''asset_class''))
         | ByIssuer \<Rightarrow> Inr (dict_get issuers security_id (''ISSUER_'' @ security_id, None))
         | ByCustom \<Rightarrow> Inl (PlainValueError ''Unsupported stateful grouping_dimension=CUSTOM''))"

type_synonym exposure_id = "date \<times> grouping_dimension \<times> string"

record exposure_aggregation =
  ea_grouped_values :: "(exposure_id, xdecimal) dict"
  ea_totals_by_date :: "(date, xdecimal) dict"
  ea_labels :: "(grouping_dimension \<times> string, string option) dict"

definition add_decimal :: "xdecimal \<Rightarrow> xdecimal \<Rightarrow> (calculation_error, xdecimal) result" where
  "add_decimal x y = (case xadd x y of None \<Rightarrow> Inl (Escaped ''InvalidOperation'') | Some z \<Rightarrow> Inr z)"

fun add_dimensions ::
  "field_readers \<Rightarrow> json_object \<Rightarrow> date \<Rightarrow> xdecimal \<Rightarrow> issuer_map \<Rightarrow> grouping_dimension list \<Rightarrow>
     exposure_aggregation \<Rightarrow> (calculation_error, exposure_aggregation) result"
where
  "add_dimensions readers row obs_date market_value issuers [] a = Inr a"
| "add_dimensions readers row obs_date market_value issuers (g # gs) a =
     bind_result (group_key_and_label readers row g issuers) (\<lambda>(group_key, label).
       let k = (obs_date, g, group_key) in
       bind_result (add_decimal (dict_get (ea_grouped_values a) k (XFinite 0)) market_value) (\<lambda>v.
         add_dimensions readers row obs_date market_value issuers gs
           (a\<lparr>ea_labels := AList.update (g, group_key) label (ea_labels a),
              ea_grouped_values := AList.update k v (ea_grouped_values a)\<rparr>)))"

definition add_row ::
  "field_readers \<Rightarrow> json_object \<Rightarrow> date \<Rightarrow> xdecimal \<Rightarrow> issuer_map \<Rightarrow> grouping_dimension list \<Rightarrow>
     exposure_aggregation \<Rightarrow> (calculation_error, exposure_aggregation) result"
where
  "add_row readers row obs_date market_value issuers grouping_dimensions a =
     bind_result (add_decimal (dict_get (ea_totals_by_date a) obs_date (XFinite 0)) market_value) (\<lambda>v.
       add_dimensions readers row obs_date market_value issuers grouping_dimensions
         (a\<lparr>ea_totals_by_date := AList.update obs_date v (ea_totals_by_date a)\<rparr>))"

definition market_value_from_position_row ::
  "field_readers \<Rightarrow> json_object \<Rightarrow> (calculation_error, xdecimal) result"
where
  "market_value_from_position_row readers row =
     (let ending_reporting = json_get row ''ending_market_value_reporting_currency'';
          v = (if ending_reporting \<noteq> JNull then ending_reporting
            else json_get row ''ending_market_value_portfolio_currency'')
      in case read_xdecimal v of
           None \<Rightarrow> Inl (PlainValueError
             (''Invalid market value from lotus-core position-timeseries: '' @ fr_text readers v))
         | Some x \<Rightarrow> Inr x)"

definition iso_date :: "field_readers \<Rightarrow> string \<Rightarrow> (calculation_error, date) result" where
  "iso_date readers s =
     (case date_fromisoformat s of
        None \<Rightarrow> Inl (PlainValueError (''Invalid isoformat string: '' @ fr_repr readers (JString s)))
      | Some d \<Rightarrow> Inr d)"

fun add_rows ::
  "field_readers \<Rightarrow> issuer_map \<Rightarrow> grouping_dimension list \<Rightarrow> json_object list \<Rightarrow>
     exposure_aggregation \<Rightarrow> (calculation_error, exposure_aggregation) result"
where
  "add_rows readers issuers grouping_dimensions [] a = Inr a"
| "add_rows readers issuers grouping_dimensions (row # rows) a =
     (case json_get row ''valuation_date'' of
        JString valuation_date \<Rightarrow>
          bind_result (iso_date readers valuation_date) (\<lambda>obs_date.
          bind_result (market_value_from_position_row readers row) (\<lambda>market_value.
          bind_result (add_row readers row obs_date market_value issuers grouping_dimensions a) (\<lambda>a'.
            add_rows readers issuers grouping_dimensions rows a')))
      | _ \<Rightarrow> add_rows readers issuers grouping_dimensions rows a)"

definition exposure_point_of ::
  "field_readers \<Rightarrow> exposure_aggregation \<Rightarrow> exposure_id \<times> xdecimal \<Rightarrow>
     (calculation_error, exposure_point option) result"
where
  "exposure_point_of readers a entry =
     (case entry of ((obs_date, g, group_key), numerator) \<Rightarrow>
        let denominator = dict_get (ea_totals_by_date a) obs_date (XFinite 0) in
        if denominator = XFinite 0 then Inr None
        else case xdiv numerator denominator of
          None \<Rightarrow> Inl (Escaped ''InvalidOperation'')
        | Some ratio \<Rightarrow>
            (case float_of_xdecimal ratio of
               None \<Rightarrow> Inl (PlainValueError (fr_refusal readers ''ExposurePoint''))
             | Some w \<Rightarrow> Inr (Some \<lparr>xp_date = obs_date, xp_dimension = g, xp_group_key = group_key,
                 xp_group_label = dict_get (ea_labels a) (g, group_key) None, xp_weight = w\<rparr>)))"

definition exposure_points_from_aggregation ::
  "field_readers \<Rightarrow> exposure_aggregation \<Rightarrow> (calculation_error, exposure_point list) result"
where
  "exposure_points_from_aggregation readers a =
     bind_result (map_result (exposure_point_of readers a) (ea_grouped_values a)) (\<lambda>points.
       Inr (sort_key exposure_key (List.map_filter (\<lambda>p. p) points)))"

definition empty_aggregation :: exposure_aggregation where
  "empty_aggregation = \<lparr>ea_grouped_values = [], ea_totals_by_date = [], ea_labels = []\<rparr>"

definition build_exposure_points ::
  "field_readers \<Rightarrow> json_object list \<Rightarrow> grouping_dimension list \<Rightarrow> issuer_map \<Rightarrow>
     (calculation_error, exposure_point list) result"
where
  "build_exposure_points readers rows grouping_dimensions issuers =
     bind_result (add_rows readers issuers grouping_dimensions rows empty_aggregation)
       (exposure_points_from_aggregation readers)"

section \<open>The history\<close>

definition missing_position_data :: "string \<Rightarrow> string \<Rightarrow> calculation_error" where
  "missing_position_data portfolio_id message =
     UpstreamFailure (missing_upstream_data ''lotus-core'' (position_timeseries_operation portfolio_id)
       message [])"

definition validated_exposure_history ::
  "field_readers \<Rightarrow> json_object list \<Rightarrow> grouping_dimension list \<Rightarrow> issuer_map \<Rightarrow> string \<Rightarrow>
     (calculation_error, exposure_point list) result"
where
  "validated_exposure_history readers rows grouping_dimensions issuers portfolio_id =
     bind_result (build_exposure_points readers rows grouping_dimensions issuers) (\<lambda>history.
       if history = [] then Inl (missing_position_data portfolio_id
         ''unable to build exposure history from lotus-core position-timeseries'')
       else Inr history)"

definition fetch_stateful_exposure_history ::
  "core_client \<Rightarrow> downstream_authority \<Rightarrow> field_readers \<Rightarrow> position_query \<Rightarrow> exposure_point list io"
where
  "fetch_stateful_exposure_history client authority readers q =
     bind_io (fetch_position_timeseries_rows client authority q) (\<lambda>rows.
     bind_io (lift_io (raise_if (rows = []) (missing_position_data (pq_portfolio_id q)
       ''lotus-core position-timeseries returned no rows''))) (\<lambda>_.
     bind_io (if ByIssuer \<in> set (pq_grouping_dimensions q)
         then build_issuer_map client readers rows (da_correlation_id authority)
         else return_io []) (\<lambda>issuers.
       lift_io (validated_exposure_history readers rows (pq_grouping_dimensions q) issuers
         (pq_portfolio_id q)))))"

section \<open>What the reading keeps\<close>

lemma at_most_position_page: "at_most 1 (read_position_page client authority q s page_token)"
  unfolding read_position_page_def
  by (rule at_most_bind [where a = 1 and b = 0], rule at_most_core_reads) (simp_all add: at_most_def)

interpretation position_pages: token_pages
  "read_position_page client authority q"
  "\<lambda>left. refuse_position_pages (pq_portfolio_id q) ''repeated_page_token''"
  "\<lambda>left. refuse_position_pages (pq_portfolio_id q) ''max_pages_exceeded''"
  "read_position_pages client authority q"
  for client authority q
  by (unfold_locales; (rule at_most_position_page | simp))

lemma read_position_page_rows:
  "read_position_page client authority q s page_token t = (Inr (s', n), u) \<Longrightarrow>
     length (ps_rows s') \<le> POSITION_TIMESERIES_MAX_ROWS"
  by (auto simp: read_position_page_def absorb_position_page_def result_simps Let_def
      split: if_splits elim!: bind_io_InrE)

lemma position_rows_bounded:
  assumes "fetch_position_timeseries_rows client authority q t = (Inr rows, u)"
  shows "length rows \<le> POSITION_TIMESERIES_MAX_ROWS"
proof -
  from assms obtain s where
    "read_position_pages client authority q POSITION_TIMESERIES_MAX_PAGES \<lparr>ps_rows = [], ps_page_count = 0\<rparr>
       None [] t = (Inr s, u)" "rows = ps_rows s"
    by (auto simp: fetch_position_timeseries_rows_def elim!: bind_io_InrE)
  with position_pages.loop_induct [where I = "\<lambda>s. length (ps_rows s) \<le> POSITION_TIMESERIES_MAX_ROWS", OF this(1)]
  show ?thesis by (auto dest: read_position_page_rows)
qed

section \<open>The entries behind an aggregation\<close>

text \<open>
  What a row adds: its market value, under its date and, for every requested dimension, under the group
  it belongs to.
\<close>

definition dated_value :: "field_readers \<Rightarrow> json_object \<Rightarrow> (date \<times> xdecimal) option" where
  "dated_value readers row =
     (case json_get row ''valuation_date'' of
        JString s \<Rightarrow>
          (case (iso_date readers s, market_value_from_position_row readers row) of
             (Inr d, Inr v) \<Rightarrow> Some (d, v) | _ \<Rightarrow> None)
      | _ \<Rightarrow> None)"

definition row_group :: "field_readers \<Rightarrow> issuer_map \<Rightarrow> grouping_dimension \<Rightarrow> json_object \<Rightarrow> string option" where
  "row_group readers issuers g row =
     (case group_key_and_label readers row g issuers of Inr (k, _) \<Rightarrow> Some k | Inl _ \<Rightarrow> None)"

definition row_entries ::
  "field_readers \<Rightarrow> issuer_map \<Rightarrow> grouping_dimension list \<Rightarrow> json_object \<Rightarrow> date \<Rightarrow> xdecimal \<Rightarrow>
     (exposure_id \<times> xdecimal) list"
where
  "row_entries readers issuers gs row d v =
     List.map_filter (\<lambda>g. map_option (\<lambda>k. ((d, g, k), v)) (row_group readers issuers g row)) gs"

definition group_entries ::
  "field_readers \<Rightarrow> issuer_map \<Rightarrow> grouping_dimension list \<Rightarrow> json_object list \<Rightarrow> (exposure_id \<times> xdecimal) list"
where
  "group_entries readers issuers gs rows =
     concat (map (\<lambda>row. case dated_value readers row of
       None \<Rightarrow> [] | Some (d, v) \<Rightarrow> row_entries readers issuers gs row d v) rows)"

definition date_entries :: "field_readers \<Rightarrow> json_object list \<Rightarrow> (date \<times> xdecimal) list" where
  "date_entries readers rows = List.map_filter (dated_value readers) rows"

text \<open>The rows of a group, and of a date.\<close>

definition in_group :: "field_readers \<Rightarrow> issuer_map \<Rightarrow> exposure_id \<Rightarrow> json_object \<Rightarrow> bool" where
  "in_group readers issuers k row =
     (case k of (d, g, group_key) \<Rightarrow>
       map_option fst (dated_value readers row) = Some d \<and> row_group readers issuers g row = Some group_key)"

definition on_date :: "field_readers \<Rightarrow> date \<Rightarrow> json_object \<Rightarrow> bool" where
  "on_date readers d row \<longleftrightarrow> map_option fst (dated_value readers row) = Some d"

definition market_values :: "field_readers \<Rightarrow> json_object list \<Rightarrow> xdecimal list" where
  "market_values readers rows = List.map_filter (\<lambda>row. map_option snd (dated_value readers row)) rows"

definition agg_inv ::
  "field_readers \<Rightarrow> issuer_map \<Rightarrow> grouping_dimension list \<Rightarrow> json_object list \<Rightarrow> exposure_aggregation \<Rightarrow> bool"
where
  "agg_inv readers issuers gs rows a \<longleftrightarrow>
     tallies (ea_grouped_values a) (group_entries readers issuers gs rows) \<and>
     tallies (ea_totals_by_date a) (date_entries readers rows)"

definition labels_inv ::
  "field_readers \<Rightarrow> issuer_map \<Rightarrow> json_object list \<Rightarrow> exposure_aggregation \<Rightarrow> bool"
where
  "labels_inv readers issuers rows a \<longleftrightarrow>
     (\<forall>g k l. map_of (ea_labels a) (g, k) = Some l \<longrightarrow>
        (\<exists>row\<in>set rows. group_key_and_label readers row g issuers = Inr (k, l))) \<and>
     (\<forall>(d, g, k) \<in> fst ` set (ea_grouped_values a). map_of (ea_labels a) (g, k) \<noteq> None)"

lemma map_filter_simps [simp]:
  "List.map_filter f [] = []"
  "List.map_filter f (x # xs) = (case f x of None \<Rightarrow> List.map_filter f xs | Some y \<Rightarrow> y # List.map_filter f xs)"
  by (simp_all add: List.map_filter_def split: option.splits)

lemma map_filter_append [simp]: "List.map_filter f (xs @ ys) = List.map_filter f xs @ List.map_filter f ys"
  by (simp add: List.map_filter_def)

lemma add_decimal_Inr_iff: "add_decimal x y = Inr z \<longleftrightarrow> xadd x y = Some z"
  by (simp add: add_decimal_def split: option.splits)

lemma add_dimensions_tallies:
  "add_dimensions readers row d v issuers gs a = Inr a' \<Longrightarrow> tallies (ea_grouped_values a) es \<Longrightarrow>
     tallies (ea_grouped_values a') (es @ row_entries readers issuers gs row d v) \<and>
     ea_totals_by_date a' = ea_totals_by_date a"
proof (induction gs arbitrary: a es)
  case Nil
  then show ?case by (simp add: row_entries_def)
next
  case (Cons g gs)
  from Cons.prems(1) obtain k l w where kl: "group_key_and_label readers row g issuers = Inr (k, l)"
    and w: "xadd (dict_get (ea_grouped_values a) (d, g, k) (XFinite 0)) v = Some w"
    and rest: "add_dimensions readers row d v issuers gs
       (a\<lparr>ea_labels := AList.update (g, k) l (ea_labels a),
          ea_grouped_values := AList.update (d, g, k) w (ea_grouped_values a)\<rparr>) = Inr a'"
    by (auto simp: result_simps add_decimal_Inr_iff Let_def)
  from Cons.IH [OF rest, of "es @ [((d, g, k), v)]"] tallies_add [OF Cons.prems(2) w] kl
  show ?case by (simp add: row_entries_def row_group_def)
qed

lemma add_dimensions_labels:
  "add_dimensions readers row d v issuers gs a = Inr a' \<Longrightarrow> row \<in> set rows \<Longrightarrow>
     labels_inv readers issuers rows a \<Longrightarrow> labels_inv readers issuers rows a'"
proof (induction gs arbitrary: a)
  case (Cons g gs)
  from Cons.prems(1) obtain k l w where kl: "group_key_and_label readers row g issuers = Inr (k, l)"
    and rest: "add_dimensions readers row d v issuers gs
       (a\<lparr>ea_labels := AList.update (g, k) l (ea_labels a),
          ea_grouped_values := AList.update (d, g, k) w (ea_grouped_values a)\<rparr>) = Inr a'"
    by (auto simp: result_simps Let_def)
  show ?case
    by (rule Cons.IH [OF rest Cons.prems(2)])
      (use Cons.prems(2,3) kl in \<open>auto simp: labels_inv_def update_conv AList.dom_update split: if_splits\<close>)
qed simp

lemma add_rows_inv:
  "add_rows readers issuers gs rows a = Inr a' \<Longrightarrow> agg_inv readers issuers gs before a \<Longrightarrow>
     labels_inv readers issuers before a \<Longrightarrow>
     agg_inv readers issuers gs (before @ rows) a' \<and> labels_inv readers issuers (before @ rows) a'"
proof (induction rows arbitrary: before a)
  case (Cons row rows)
  have grow: "labels_inv readers issuers (before @ [row]) a"
    using Cons.prems(3) by (fastforce simp: labels_inv_def)
  show ?case
  proof (cases "\<exists>s. json_get row ''valuation_date'' = JString s")
    case False
    then have none: "dated_value readers row = None"
      by (auto simp: dated_value_def split: json.splits)
    from False Cons.prems(1) have rest: "add_rows readers issuers gs rows a = Inr a'"
      by (auto split: json.splits)
    have "agg_inv readers issuers gs (before @ [row]) a"
      using Cons.prems(2) none by (simp add: agg_inv_def group_entries_def date_entries_def map_filter_append)
    from Cons.IH [OF rest this grow] show ?thesis by simp
  next
    case True
    then obtain s where s: "json_get row ''valuation_date'' = JString s" by blast
    from Cons.prems(1) s obtain d v w a1 where d: "iso_date readers s = Inr d"
      and v: "market_value_from_position_row readers row = Inr v"
      and w: "xadd (dict_get (ea_totals_by_date a) d (XFinite 0)) v = Some w"
      and dims: "add_dimensions readers row d v issuers gs
         (a\<lparr>ea_totals_by_date := AList.update d w (ea_totals_by_date a)\<rparr>) = Inr a1"
      and rest: "add_rows readers issuers gs rows a1 = Inr a'"
      by (auto simp: result_simps add_row_def add_decimal_Inr_iff)
    from s d v have some: "dated_value readers row = Some (d, v)" by (simp add: dated_value_def)
    from add_dimensions_tallies [OF dims, of "group_entries readers issuers gs before"]
      tallies_add [of "ea_totals_by_date a" _ d v w, OF _ w] Cons.prems(2) some
    have inv: "agg_inv readers issuers gs (before @ [row]) a1"
      by (simp add: agg_inv_def group_entries_def date_entries_def map_filter_append)
    have "labels_inv readers issuers (before @ [row])
        (a\<lparr>ea_totals_by_date := AList.update d w (ea_totals_by_date a)\<rparr>)"
      using grow by (simp add: labels_inv_def)
    from Cons.IH [OF rest inv add_dimensions_labels [OF dims _ this]] show ?thesis by simp
  qed
qed (simp add: agg_inv_def)

text \<open>A row counts in its group once for every time its dimension is requested.\<close>

lemma values_of_row_entries:
  "values_of (d', g, k) (row_entries readers issuers gs row d v) =
     (if d' = d \<and> row_group readers issuers g row = Some k then replicate (count_list gs g) v else [])"
  by (induction gs) (auto simp: row_entries_def split: option.splits)

definition group_values ::
  "field_readers \<Rightarrow> issuer_map \<Rightarrow> grouping_dimension list \<Rightarrow> json_object list \<Rightarrow> exposure_id \<Rightarrow> xdecimal list"
where
  "group_values readers issuers gs rows k =
     concat (map (replicate (count_list gs (fst (snd k))))
       (market_values readers (filter (in_group readers issuers k) rows)))"

lemma values_of_group:
  "values_of (d, g, k) (group_entries readers issuers gs rows) = group_values readers issuers gs rows (d, g, k)"
proof (induction rows)
  case (Cons row rows)
  have "values_of (d, g, k) (case dated_value readers row of
       None \<Rightarrow> [] | Some (d, v) \<Rightarrow> row_entries readers issuers gs row d v) =
     (if in_group readers issuers (d, g, k) row
      then replicate (count_list gs g) (snd (the (dated_value readers row))) else [])"
    by (cases "dated_value readers row") (auto simp: in_group_def values_of_row_entries)
  with Cons show ?case
    by (cases "dated_value readers row") (auto simp: group_entries_def group_values_def market_values_def in_group_def)
qed (simp add: group_entries_def group_values_def market_values_def)

lemma group_values_once:
  assumes "distinct gs" "g \<in> set gs"
  shows "group_values readers issuers gs rows (d, g, k) =
    market_values readers (filter (in_group readers issuers (d, g, k)) rows)"
proof -
  have "count_list gs g = Suc 0" using assms by (induction gs) (auto simp: count_list_0_iff)
  moreover have "concat (map (replicate (Suc 0)) xs) = xs" for xs :: "xdecimal list" by (induction xs) simp_all
  ultimately show ?thesis by (simp add: group_values_def)
qed

lemma values_of_date:
  "values_of d (date_entries readers rows) =
     market_values readers (filter (on_date readers d) rows)"
  by (induction rows) (auto simp: on_date_def date_entries_def market_values_def split: option.splits)

lemma group_entries_keys:
  "(d, g, k) \<in> fst ` set (group_entries readers issuers gs rows) \<longleftrightarrow>
     g \<in> set gs \<and> (\<exists>row\<in>set rows. in_group readers issuers (d, g, k) row)"
proof -
  have "(d, g, k) \<in> fst ` set (case dated_value readers row of
       None \<Rightarrow> [] | Some (d, v) \<Rightarrow> row_entries readers issuers gs row d v) \<longleftrightarrow>
     g \<in> set gs \<and> in_group readers issuers (d, g, k) row" for row
    by (cases "dated_value readers row")
      (auto simp: in_group_def row_entries_def set_map_filter image_iff)
  moreover have "fst ` set (concat (map F rows)) = (\<Union>row\<in>set rows. fst ` set (F row))"
    for F :: "json_object \<Rightarrow> (exposure_id \<times> xdecimal) list"
    by auto
  ultimately show ?thesis by (simp only: group_entries_def UN_iff) blast
qed

section \<open>Weights\<close>

lemma sort_key_sorted_wrt:
  assumes "distinct (map f xs)"
  shows "sorted_wrt (<) (map f (sort_key f xs))"
proof -
  have "distinct (map f (sort_key f xs))"
    using assms by (simp add: distinct_map)
  then show ?thesis by (simp add: strict_sorted_iff)
qed

lemma exposure_point_of_Some:
  assumes "exposure_point_of readers a ((d, g, k), n) = Inr (Some p)"
  shows "exposure_key p = (d, g, k) \<and> xp_group_label p = dict_get (ea_labels a) (g, k) None \<and>
    dict_get (ea_totals_by_date a) d (XFinite 0) \<noteq> XFinite 0 \<and>
    Option.bind (xdiv n (dict_get (ea_totals_by_date a) d (XFinite 0))) float_of_xdecimal = Some (xp_weight p)"
  using assms by (auto simp: exposure_point_of_def exposure_key_def Let_def split: if_splits option.splits)

lemma exposure_point_of_None:
  "exposure_point_of readers a ((d, g, k), n) = Inr None \<longleftrightarrow>
     dict_get (ea_totals_by_date a) d (XFinite 0) = XFinite 0"
  by (auto simp: exposure_point_of_def Let_def split: if_splits option.splits)

lemma map_result_Inr_iff:
  "map_result f xs = Inr ys \<longleftrightarrow> list_all2 (\<lambda>x y. f x = Inr y) xs ys"
  by (induction xs arbitrary: ys) (auto simp: result_simps list_all2_Cons1)

lemma list_all2_set1: "list_all2 P xs ys \<Longrightarrow> x \<in> set xs \<Longrightarrow> \<exists>y\<in>set ys. P x y"
  by (metis in_set_conv_nth list_all2_conv_all_nth)

lemma list_all2_set2: "list_all2 P xs ys \<Longrightarrow> y \<in> set ys \<Longrightarrow> \<exists>x\<in>set xs. P x y"
  by (metis in_set_conv_nth list_all2_conv_all_nth)

lemma points_keys:
  "list_all2 (\<lambda>x y. exposure_point_of readers a x = Inr y) entries ps \<Longrightarrow> distinct (map fst entries) \<Longrightarrow>
     distinct (map exposure_key (List.map_filter (\<lambda>p. p) ps)) \<and>
     exposure_key ` set (List.map_filter (\<lambda>p. p) ps) \<subseteq> fst ` set entries"
proof (induction rule: list_all2_induct)
  case (Cons e es p ps)
  obtain d g k n where e: "e = ((d, g, k), n)" by (cases e) auto
  show ?case
  proof (cases p)
    case None
    with Cons show ?thesis by auto
  next
    case (Some q)
    with Cons.hyps e have "exposure_key q = fst e" by (auto dest: exposure_point_of_Some)
    with Some Cons show ?thesis by auto
  qed
qed simp

definition group_total ::
  "field_readers \<Rightarrow> issuer_map \<Rightarrow> grouping_dimension list \<Rightarrow> json_object list \<Rightarrow> exposure_id \<Rightarrow> xdecimal option"
where
  "group_total readers issuers gs rows k = decimal_total (group_values readers issuers gs rows k)"

definition date_total :: "field_readers \<Rightarrow> json_object list \<Rightarrow> date \<Rightarrow> xdecimal option" where
  "date_total readers rows d = decimal_total (market_values readers (filter (on_date readers d) rows))"

definition quotient_weight :: "xdecimal option \<Rightarrow> xdecimal option \<Rightarrow> f64 option" where
  "quotient_weight n t = Option.bind n (\<lambda>x. Option.bind t (\<lambda>y. Option.bind (xdiv x y) float_of_xdecimal))"

lemma build_points_Inr:
  assumes "build_exposure_points readers rows gs issuers = Inr points"
  obtains a ps where "agg_inv readers issuers gs rows a" "labels_inv readers issuers rows a"
    "list_all2 (\<lambda>x y. exposure_point_of readers a x = Inr y) (ea_grouped_values a) ps"
    "points = sort_key exposure_key (List.map_filter (\<lambda>p. p) ps)"
proof -
  from assms obtain a ps where rows: "add_rows readers issuers gs rows empty_aggregation = Inr a"
    and ps: "map_result (exposure_point_of readers a) (ea_grouped_values a) = Inr ps"
    and points: "points = sort_key exposure_key (List.map_filter (\<lambda>p. p) ps)"
    by (auto simp: build_exposure_points_def exposure_points_from_aggregation_def result_simps)
  have "agg_inv readers issuers gs [] empty_aggregation" "labels_inv readers issuers [] empty_aggregation"
    by (simp_all add: agg_inv_def labels_inv_def empty_aggregation_def group_entries_def date_entries_def)
  from add_rows_inv [OF rows this] have "agg_inv readers issuers gs rows a" "labels_inv readers issuers rows a"
    by simp_all
  from that [OF this _ points] ps show thesis by (simp add: map_result_Inr_iff)
qed

lemma points_entry:
  assumes "list_all2 (\<lambda>x y. exposure_point_of readers a x = Inr y) (ea_grouped_values a) ps"
    and "p \<in> set (List.map_filter (\<lambda>p. p) ps)"
  obtains n where "(exposure_key p, n) \<in> set (ea_grouped_values a)"
    "exposure_point_of readers a (exposure_key p, n) = Inr (Some p)"
proof -
  from assms(2) have "Some p \<in> set ps" by (auto simp: set_map_filter)
  from list_all2_set2 [OF assms(1) this] obtain k n where
    e: "(k, n) \<in> set (ea_grouped_values a)" "exposure_point_of readers a (k, n) = Inr (Some p)"
    by auto
  moreover have "k = exposure_key p"
    using e(2) by (cases k) (auto dest: exposure_point_of_Some)
  ultimately show thesis using that by blast
qed

lemma exposure_points_weights:
  assumes b: "build_exposure_points readers rows gs issuers = Inr points" and p: "p \<in> set points"
  shows "xp_dimension p \<in> set gs \<and>
    quotient_weight (group_total readers issuers gs rows (exposure_key p)) (date_total readers rows (xp_date p)) =
      Some (xp_weight p) \<and>
    (\<exists>row\<in>set rows. group_key_and_label readers row (xp_dimension p) issuers =
      Inr (xp_group_key p, xp_group_label p))"
proof -
  from b obtain a ps where inv: "agg_inv readers issuers gs rows a" and labels: "labels_inv readers issuers rows a"
    and ps: "list_all2 (\<lambda>x y. exposure_point_of readers a x = Inr y) (ea_grouped_values a) ps"
    and points: "points = sort_key exposure_key (List.map_filter (\<lambda>p. p) ps)"
    by (rule build_points_Inr)
  obtain d g k where key: "exposure_key p = (d, g, k)" by (cases "exposure_key p") auto
  from points_entry [OF ps, of p] p points key obtain n where
    n: "((d, g, k), n) \<in> set (ea_grouped_values a)" and
    pt: "exposure_point_of readers a ((d, g, k), n) = Inr (Some p)"
    by auto
  from inv have tg: "tallies (ea_grouped_values a) (group_entries readers issuers gs rows)"
    and td: "tallies (ea_totals_by_date a) (date_entries readers rows)"
    by (simp_all add: agg_inv_def)
  have mem: "(d, g, k) \<in> fst ` set (ea_grouped_values a)" using n by force
  then have g: "g \<in> set gs" using talliesD(2) [OF tg] by (simp add: group_entries_keys)
  have "group_total readers issuers gs rows (d, g, k) = Some n"
    using talliesD(3) [OF tg, of "(d, g, k)"] talliesD(4) [OF tg n]
    by (simp add: group_total_def values_of_group)
  moreover have "date_total readers rows d = Some (dict_get (ea_totals_by_date a) d (XFinite 0))"
    using talliesD(3) [OF td, of d] by (simp add: date_total_def values_of_date)
  moreover obtain l where l: "map_of (ea_labels a) (g, k) = Some l"
    using labels mem by (fastforce simp: labels_inv_def)
  moreover have "\<exists>row\<in>set rows. group_key_and_label readers row g issuers = Inr (k, l)"
    using labels l by (simp add: labels_inv_def)
  ultimately show ?thesis
    using exposure_point_of_Some [OF pt] g key
    by (auto simp: quotient_weight_def exposure_key_def dict_get_def)
qed

lemma exposure_points_complete:
  assumes b: "build_exposure_points readers rows gs issuers = Inr points"
    and row: "row \<in> set rows" "dated_value readers row = Some (d, v)" "g \<in> set gs"
    and t: "date_total readers rows d \<noteq> Some (XFinite 0)"
    and k: "row_group readers issuers g row = Some k"
  shows "(d, g, k) \<in> exposure_key ` set points"
proof -
  from b obtain a ps where inv: "agg_inv readers issuers gs rows a"
    and ps: "list_all2 (\<lambda>x y. exposure_point_of readers a x = Inr y) (ea_grouped_values a) ps"
    and points: "points = sort_key exposure_key (List.map_filter (\<lambda>p. p) ps)"
    by (rule build_points_Inr)
  from inv have tg: "tallies (ea_grouped_values a) (group_entries readers issuers gs rows)"
    and td: "tallies (ea_totals_by_date a) (date_entries readers rows)"
    by (simp_all add: agg_inv_def)
  have "(d, g, k) \<in> fst ` set (ea_grouped_values a)"
    unfolding talliesD(2) [OF tg] group_entries_keys using row k by (auto simp: in_group_def)
  then obtain n where n: "((d, g, k), n) \<in> set (ea_grouped_values a)" by force
  from list_all2_set1 [OF ps n] obtain o' where o': "o' \<in> set ps"
    "exposure_point_of readers a ((d, g, k), n) = Inr o'" by blast
  have "dict_get (ea_totals_by_date a) d (XFinite 0) \<noteq> XFinite 0"
    using talliesD(3) [OF td, of d] t by (auto simp: date_total_def values_of_date)
  then obtain p where "o' = Some p" using o'(2) exposure_point_of_None by (cases o') auto
  with o' exposure_point_of_Some [of readers a d g k n p] show ?thesis
    by (force simp: points set_map_filter)
qed

lemma exposure_points_ordered:
  assumes "build_exposure_points readers rows gs issuers = Inr points"
  shows "sorted_wrt (<) (map exposure_key points)"
proof -
  from assms obtain a ps where "agg_inv readers issuers gs rows a"
    and ps: "list_all2 (\<lambda>x y. exposure_point_of readers a x = Inr y) (ea_grouped_values a) ps"
    and points: "points = sort_key exposure_key (List.map_filter (\<lambda>p. p) ps)"
    by (rule build_points_Inr)
  then show ?thesis
    unfolding points by (intro sort_key_sorted_wrt) (auto simp: agg_inv_def dest!: points_keys talliesD(1))
qed

text \<open>
  C24: What a position history yields is ordered by date, dimension and group without repetition; every weight
  is the quotient of the decimal total of the rows of its group on its date and the total of the date,
  whatever pages they came on, where a row counts once in the total of the date and in its group as often as
  the group's dimension is requested, so exactly once unless a request repeats a dimension; and no group of a
  dated row is lost unless the date's total is zero.
\<close>

theorem exposure_points_are_weighted_groups:
  assumes "build_exposure_points readers rows gs issuers = Inr points"
  shows "sorted_wrt (<) (map exposure_key points) \<and>
    (\<forall>p\<in>set points. xp_dimension p \<in> set gs \<and>
       quotient_weight (group_total readers issuers gs rows (exposure_key p))
         (date_total readers rows (xp_date p)) = Some (xp_weight p) \<and>
       (distinct gs \<longrightarrow> group_total readers issuers gs rows (exposure_key p) =
         decimal_total (market_values readers (filter (in_group readers issuers (exposure_key p)) rows))) \<and>
       (\<exists>row\<in>set rows. group_key_and_label readers row (xp_dimension p) issuers =
          Inr (xp_group_key p, xp_group_label p))) \<and>
    (\<forall>row\<in>set rows. \<forall>d v g k. dated_value readers row = Some (d, v) \<longrightarrow> g \<in> set gs \<longrightarrow>
       row_group readers issuers g row = Some k \<longrightarrow> date_total readers rows d \<noteq> Some (XFinite 0) \<longrightarrow>
       (d, g, k) \<in> exposure_key ` set points)"
proof (intro conjI)
  have once: "distinct gs \<longrightarrow> xp_dimension p \<in> set gs \<longrightarrow> group_total readers issuers gs rows (exposure_key p) =
      decimal_total (market_values readers (filter (in_group readers issuers (exposure_key p)) rows))" for p
    by (simp add: group_total_def exposure_key_def group_values_once)
  show "\<forall>p\<in>set points. xp_dimension p \<in> set gs \<and>
       quotient_weight (group_total readers issuers gs rows (exposure_key p))
         (date_total readers rows (xp_date p)) = Some (xp_weight p) \<and>
       (distinct gs \<longrightarrow> group_total readers issuers gs rows (exposure_key p) =
         decimal_total (market_values readers (filter (in_group readers issuers (exposure_key p)) rows))) \<and>
       (\<exists>row\<in>set rows. group_key_and_label readers row (xp_dimension p) issuers =
          Inr (xp_group_key p, xp_group_label p))"
    using exposure_points_weights [OF assms] once by blast
qed (use exposure_points_ordered [OF assms] exposure_points_complete [OF assms] in blast)+

section \<open>Bounds\<close>

lemma position_history_requests:
  "at_most (POSITION_TIMESERIES_MAX_PAGES + 1) (fetch_stateful_exposure_history client authority readers q)"
proof -
  have pages: "at_most POSITION_TIMESERIES_MAX_PAGES (fetch_position_timeseries_rows client authority q)"
    unfolding fetch_position_timeseries_rows_def
    by (rule at_most_bind [where a = POSITION_TIMESERIES_MAX_PAGES and b = 0],
        rule position_pages.bounded_requests) (simp_all add: at_most_def)
  have issuers: "at_most 1 (build_issuer_map client readers rows correlation_id)" for rows correlation_id
    unfolding build_issuer_map_def Let_def
    by (auto intro!: at_most_bind [where a = 1 and b = 0] at_most_core_reads emits_intros split: json.splits)
  show ?thesis
    unfolding fetch_stateful_exposure_history_def
    by (rule at_most_bind [OF pages, where b = 1], rule at_most_bind [where a = 0 and b = 1],
        rule emits_intros, rule at_most_bind [where a = 1 and b = 0])
      (auto intro!: issuers emits_intros simp del: One_nat_def)
qed

text \<open>
  C25: Whatever lotus-core answers, sourcing a portfolio's exposure history makes at most 25 page requests and
  one for the issuers.
\<close>

theorem position_history_is_bounded:
  "at_most (POSITION_TIMESERIES_MAX_PAGES + 1) (fetch_stateful_exposure_history client authority readers q)"
  by (rule position_history_requests)

section \<open>Examples\<close>

definition sample_position :: "string \<Rightarrow> string \<Rightarrow> int \<Rightarrow> json_object" where
  "sample_position security_id sector market_value =
     [(''security_id'', JString security_id), (''valuation_date'', JString ''2026-01-02''),
      (''dimensions'', JObject [(''sector'', JString sector)]),
      (''ending_market_value_portfolio_currency'', JInt market_value)]"

definition sample_exposure :: "string \<Rightarrow> f64 \<Rightarrow> exposure_point" where
  "sample_exposure sector weight = \<lparr>xp_date = Date 2026 1 2, xp_dimension = BySector,
     xp_group_key = ''SECTOR_'' @ sector, xp_group_label = Some sector, xp_weight = weight\<rparr>"

lemma sample_position_row:
  "dated_value readers (sample_position s c n) = Some (Date 2026 1 2, XFinite (rat_of_int n))"
  "c \<noteq> [] \<Longrightarrow> group_key_and_label readers (sample_position s c n) BySector issuers = Inr (''SECTOR_'' @ c, Some c)"
proof -
  have "date_fromisoformat ''2026-01-02'' = Some (Date 2026 1 2)" by code_simp
  then show "dated_value readers (sample_position s c n) = Some (Date 2026 1 2, XFinite (rat_of_int n))"
    by (simp add: dated_value_def sample_position_def json_get_def iso_date_def
        market_value_from_position_row_def read_xdecimal_def read_decimal_def decimal_of_json_def)
  show "c \<noteq> [] \<Longrightarrow> group_key_and_label readers (sample_position s c n) BySector issuers = Inr (''SECTOR_'' @ c, Some c)"
    by (simp add: group_key_and_label_def sample_position_def json_get_def mapping_or_empty_def text_of_def)
qed

lemma sample_sums: "dadd 0 3 = 3" "dadd 0 1 = 1" "dadd 3 1 = 4" "dadd 1 1 = 2"
  by code_simp+

lemma sample_ratios: "ddiv 3 4 = 3 / 4" "ddiv 1 4 = 1 / 4" "ddiv 2 1 = 2"
  by code_simp+

lemma sample_floats:
  "float_of_decimal (3 / 4) = Some (3 / 4)" "float_of_decimal (1 / 4) = Some (1 / 4)" "float_of_decimal 2 = Some 2"
proof -
  have "rnd (3 / 4) = 3 / 4" "rnd (1 / 4) = 1 / 4" "rnd 2 = 2" by code_simp+
  then show "float_of_decimal (3 / 4) = Some (3 / 4)" "float_of_decimal (1 / 4) = Some (1 / 4)"
    "float_of_decimal 2 = Some 2"
    by (simp_all add: float_of_decimal_def)
qed

lemma sample_add_rows:
  "add_rows readers issuers gs (sample_position s c n # rows) a =
     bind_result (add_row readers (sample_position s c n) (Date 2026 1 2) (XFinite (rat_of_int n)) issuers gs a)
       (\<lambda>a'. add_rows readers issuers gs rows a')"
proof -
  have "date_fromisoformat ''2026-01-02'' = Some (Date 2026 1 2)" by code_simp
  then show ?thesis
    by (simp add: sample_position_def json_get_def iso_date_def market_value_from_position_row_def
        read_xdecimal_def read_decimal_def decimal_of_json_def)
qed

lemmas sample_aggregation = build_exposure_points_def sample_add_rows add_row_def add_decimal_def
  sample_position_row(2) sample_sums sample_ratios sample_floats exposure_points_from_aggregation_def
  empty_aggregation_def dict_get_def exposure_point_of_def

lemma sample_order: "exposure_key (sample_exposure ''BOND'' v) < exposure_key (sample_exposure ''TECH'' w)"
proof -
  have "''SECTOR_BOND'' < (''SECTOR_TECH'' :: string)" by code_simp
  then show ?thesis by (simp add: exposure_key_def sample_exposure_def less_prod_def)
qed

lemma sample_exposure_points:
  "build_exposure_points readers [sample_position ''S1'' ''TECH'' 3, sample_position ''S2'' ''BOND'' 1] [BySector] [] =
     Inr [sample_exposure ''BOND'' (1 / 4), sample_exposure ''TECH'' (3 / 4)]"
  using sample_order [of "1 / 4" "3 / 4"]
  by (simp add: sample_aggregation exposure_key_def sample_exposure_def del: add_rows.simps(2))

theorem exposure_points_are_weighted_groups_witness:
  "map exposure_key [sample_exposure ''BOND'' (1 / 4), sample_exposure ''TECH'' (3 / 4)] =
     [(Date 2026 1 2, BySector, ''SECTOR_BOND''), (Date 2026 1 2, BySector, ''SECTOR_TECH'')] \<and>
   quotient_weight
     (group_total sample_readers [] [BySector]
        [sample_position ''S1'' ''TECH'' 3, sample_position ''S2'' ''BOND'' 1] (Date 2026 1 2, BySector, ''SECTOR_TECH''))
     (date_total sample_readers [sample_position ''S1'' ''TECH'' 3, sample_position ''S2'' ''BOND'' 1] (Date 2026 1 2)) =
     Some (3 / 4)"
proof -
  have keys: "exposure_key (sample_exposure c w) = (Date 2026 1 2, BySector, ''SECTOR_'' @ c)" for c w
    by (simp add: exposure_key_def sample_exposure_def)
  let ?rows = "[sample_position ''S1'' ''TECH'' 3, sample_position ''S2'' ''BOND'' 1]"
  let ?p = "sample_exposure ''TECH'' (3 / 4)"
  have "quotient_weight (group_total sample_readers [] [BySector] ?rows (exposure_key ?p))
      (date_total sample_readers ?rows (xp_date ?p)) = Some (xp_weight ?p)"
    by (rule exposure_points_are_weighted_groups [OF sample_exposure_points, of sample_readers,
        THEN conjunct2, THEN conjunct1, THEN bspec, THEN conjunct2, THEN conjunct1]) simp
  then have "quotient_weight (group_total sample_readers [] [BySector] ?rows (Date 2026 1 2, BySector, ''SECTOR_TECH''))
      (date_total sample_readers ?rows (Date 2026 1 2)) = Some (3 / 4)"
    unfolding keys by (simp only: sample_exposure_def exposure_point.simps append.simps)
  with keys show ?thesis by simp
qed

text \<open>
  A requested dimension that is named twice is counted twice, since the request contract does not refuse
  the repetition: the whole portfolio in one group weighs two.
\<close>

theorem repeated_dimension_doubles_weights:
  "build_exposure_points readers [sample_position ''S1'' ''TECH'' 1] [BySector, BySector] [] =
     Inr [sample_exposure ''TECH'' 2]"
  by (simp add: sample_aggregation sample_exposure_def del: add_rows.simps(2))
end
