(* ===== verification/StatefulReturns.thy ===== *)
theory StatefulReturns
  imports Main ReturnsSeries PerformanceClient Supportability ConcentrationEngine
begin

text \<open>
  What the return-based reports share: lineage digests (services/audit_lineage.py) as parameters, the
  composition of a report's posture with the evidence of its source, the admission of a route's stateful
  branch, and the sourcing of return series from lotus-performance with their evidence.
\<close>

record 'r fingerprints =
  fp_model :: "'r \<Rightarrow> string"
  fp_payload :: "json \<Rightarrow> string"

definition source_fingerprint ::
  "('r, 'm) fingerprints_scheme \<Rightarrow> string \<Rightarrow> string \<Rightarrow> json \<Rightarrow> (string, string) dict"
where
  "source_fingerprint fp service operation payload = [(service @ '':'' @ operation, fp_payload fp payload)]"

text \<open>A reason without a place in the order would be a \<open>ValueError\<close>; every reason has one.\<close>

definition lift_supportability :: "supportability option \<Rightarrow> (calculation_error, supportability) result" where
  "lift_supportability s =
     (case s of
        None \<Rightarrow> Inl (PlainValueError ''select_supportability_reason has no precedence'')
      | Some x \<Rightarrow> Inr x)"

definition source_evidence_of :: "returns_evidence \<Rightarrow> source_evidence" where
  "source_evidence_of e = \<lparr>sv_missing_points = nat (rv_missing_points e), sv_stale = rv_stale e\<rparr>"

definition composed_supportability ::
  "supportability option \<Rightarrow> returns_evidence option \<Rightarrow> (calculation_error, supportability) result"
where
  "composed_supportability calculated evidence =
     bind_result (lift_supportability calculated) (\<lambda>s.
       case evidence of
         None \<Rightarrow> Inr s
       | Some e \<Rightarrow> lift_supportability (compose_returns_source_supportability s (source_evidence_of e)))"

text \<open>
  A posture is always found; it is ready exactly when that of the calculation is and the source, where there
  is one, is current and misses no point.
\<close>

definition source_complete :: "returns_evidence option \<Rightarrow> bool" where
  "source_complete evidence \<longleftrightarrow> (\<forall>e. evidence = Some e \<longrightarrow> rv_missing_points e \<le> 0 \<and> \<not> rv_stale e)"

lemma composed_from:
  assumes "sound_supportability b"
  obtains s where "composed_supportability (Some b) evidence = Inr s"
    "su_state s = StateReady \<longleftrightarrow> su_state b = StateReady \<and> source_complete evidence"
proof (cases evidence)
  case None
  then show thesis
    by (intro that [of b]) (simp_all add: composed_supportability_def lift_supportability_def source_complete_def)
next
  case (Some e)
  obtain t where t: "compose_returns_source_supportability b (source_evidence_of e) = Some t"
    "su_state t = StateReady \<longleftrightarrow> su_state b = StateReady \<and> source_reasons (source_evidence_of e) = []"
    using compose_cases [OF assms] by blast
  have "source_reasons (source_evidence_of e) = [] \<longleftrightarrow> rv_missing_points e \<le> 0 \<and> \<not> rv_stale e"
    by (auto simp: source_reasons_def source_evidence_of_def)
  with t Some show thesis
    by (intro that [of t]) (simp_all add: composed_supportability_def lift_supportability_def source_complete_def)
qed

lemma composed_posture:
  obtains s where
    "composed_supportability (supportability_from_period_results returns as_of results) evidence = Inr s"
    "su_state s = StateReady \<longleftrightarrow> returns \<noteq> [] \<and> clean_results results \<and>
       freshness_bucket_from_returns returns as_of \<noteq> FreshStale \<and> source_complete evidence"
proof (rule period_supportability_cases [of returns as_of results])
  fix b assume b: "supportability_from_period_results returns as_of results = Some b" "sound_supportability b"
    "su_state b = StateReady \<longleftrightarrow> returns \<noteq> [] \<and> clean_results results \<and>
       freshness_bucket_from_returns returns as_of \<noteq> FreshStale"
  from composed_from [OF b(2), of evidence] b that show thesis by metis
qed

section \<open>Routes\<close>

text \<open>
  A stateful request is admitted before anything is observed or called; a client the runtime does not have
  is an error of its composition.
\<close>

definition calculation_result :: "(calculation_error, 'a) result \<Rightarrow> (route_error, 'a) result" where
  "calculation_result r = (case r of Inl e \<Rightarrow> Inl (CalculationFailure e) | Inr x \<Rightarrow> Inr x)"

definition run_calculation :: "'a io \<Rightarrow> trace \<Rightarrow> (route_error, 'a) result \<times> trace" where
  "run_calculation m t = (case m t of (r, u) \<Rightarrow> (calculation_result r, u))"

definition stateful_route ::
  "string option \<Rightarrow> string option \<Rightarrow> 'c option \<Rightarrow> ('c \<Rightarrow> downstream_authority \<Rightarrow> 'a io) \<Rightarrow> trace \<Rightarrow>
     (route_error, 'a) result \<times> trace"
where
  "stateful_route tenant_id correlation_id client calculation t =
     (case admit_downstream_authority tenant_id correlation_id of
        Inl e \<Rightarrow> (Inl (CalculationFailure (AuthorityRefused e)), t)
      | Inr authority \<Rightarrow>
          (case client of
             None \<Rightarrow> (Inl RuntimeCompositionFailure, t)
           | Some c \<Rightarrow> run_calculation (calculation c authority) t))"

lemma calculation_result_Inr_iff [result_simps]: "calculation_result r = Inr x \<longleftrightarrow> r = Inr x"
  by (cases r) (simp_all add: calculation_result_def)

lemma run_calculation_Inr_iff: "run_calculation m t = (Inr x, u) \<longleftrightarrow> m t = (Inr x, u)"
  by (cases "m t") (auto simp: run_calculation_def result_simps)

section \<open>Sourcing\<close>

record sourced_returns =
  sr_payload :: json_object
  sr_portfolio_points :: "return_point list"
  sr_benchmark_points :: "return_point list"
  sr_evidence :: returns_evidence

definition requested_window_of :: "json_object \<Rightarrow> json_object" where
  "requested_window_of payload = mapping_or_empty (json_get payload ''window'')"

lemma requested_window_of_request:
  "build_stateful_returns_series_request q = Inr payload \<Longrightarrow>
     build_returns_series_window (qy_periods q) (qy_as_of_date q) = Inr (requested_window_of payload)"
  by (auto simp: build_stateful_returns_series_request_def requested_window_of_def mapping_or_empty_def
      json_get_def result_simps)

text \<open>
  An answer is the source of some points: it repeats the identity of the request, its evidence counts
  exactly the points, and its resolved window, in which the bucket of every point lies at least in
  part, is the requested one.
\<close>

definition returns_source ::
  "json_object \<Rightarrow> source_identity \<Rightarrow> json_object \<Rightarrow> return_point list \<Rightarrow> returns_evidence \<Rightarrow> bool"
where
  "returns_source answer i window points e \<longleftrightarrow>
     json_get answer ''portfolio_id'' = JString (si_portfolio_id i) \<and>
     json_get answer ''as_of_date'' = JString (isoformat (si_as_of_date i)) \<and>
     json_get answer ''frequency'' = JString (si_frequency i) \<and>
     json_get answer ''metric_basis'' = JString (si_metric_basis i) \<and>
     rv_returned_points e = int (length points) \<and>
     (\<exists>start finish. window_reconciles answer window (si_as_of_date i) start finish \<and>
        (\<forall>p\<in>set points. bucket_overlaps_window (si_frequency i) start finish (pt_date p)))"

lemma evidence_source:
  assumes "extract_stateful_returns_source_evidence readers answer i (Some window) (Some points) = Inr e"
  shows "returns_source answer i window points e"
  using assms
proof (cases rule: evidence_Inr)
  case (1 start finish)
  with window_is_reconciled [OF 1(5,6)] show ?thesis
    unfolding returns_source_def validate_identity_Inr_iff by auto
qed

lemma required_returns_nonempty:
  "extract_required_portfolio_returns readers frequency answer = Inr (s, points) \<Longrightarrow>
     points \<noteq> [] \<and> distinct (map pt_date points)"
  by (auto simp: extract_required_portfolio_returns_def to_return_points_def result_simps
      dest: return_rows_distinct split: if_splits json.splits)

section \<open>What a stateful report sent\<close>

text \<open>
  The requests of a report built from one returns-series workflow: at most one submission and two
  requests per poll, each under the admitted authority and to the configured client.
\<close>

definition one_workflow :: "performance_client \<Rightarrow> downstream_authority \<Rightarrow> event list \<Rightarrow> bool" where
  "one_workflow client authority es \<longleftrightarrow>
     requests_in es \<le> 1 + 2 * pc_async_max_polls client \<and>
     list_all (headed_by client (downstream_authority_headers authority)) es"

lemma sourced_calculation:
  assumes "bind_io (lift_io request) (\<lambda>payload.
      bind_io (execute_returns_series_request client payload authority) (\<lambda>answer.
        lift_io (f payload answer))) t = (Inr r, u)"
  obtains payload answer es where "request = Inr payload" "f payload answer = Inr r"
    "u = t @ es" "one_workflow client authority es"
proof -
  from assms obtain payload where payload: "request = Inr payload"
    by (cases request) (simp_all add: bind_io_def lift_io_def)
  with assms obtain answer v where
    w: "execute_returns_series_request client payload authority t = (Inr answer, v)"
    and f: "f payload answer = Inr r" and u: "u = v"
    by (auto simp: bind_io_def lift_io_def split: prod.splits sum.splits)
  from async_workflow_calls [of client RETURNS_SERIES_ASYNC_OPERATIONS payload authority t] w
  obtain es where "v = t @ es" "one_workflow client authority es"
    by (auto simp: execute_returns_series_request_def one_workflow_def)
  with that payload f u show thesis by blast
qed

section \<open>An example of a source\<close>

definition example_year :: "int \<Rightarrow> risk_period" where
  "example_year y = \<lparr>rp_type = ''YEAR'', rp_name = None, rp_from_date = None, rp_to_date = None, rp_year = Some y\<rparr>"

definition example_digests :: "'r fingerprints" where
  "example_digests = \<lparr>fp_model = (\<lambda>_. ''m''), fp_payload = (\<lambda>_. ''p'')\<rparr>"

definition daily_answer :: json_object where
  "daily_answer =
     [(''source_service'', JString ''lotus-performance''), (''calculation_id'', JString ''c-1''),
      (''contract_version'', JString ''v1''), (''portfolio_id'', JString ''P1''),
      (''as_of_date'', JString ''2026-03-31''), (''frequency'', JString ''DAILY''),
      (''metric_basis'', JString ''NET''),
      (''resolved_window'', JObject [(''start_date'', JString ''2026-01-01''), (''end_date'', JString ''2026-12-31''),
         (''resolved_period_label'', JNull)]),
      (''provenance'', JObject [(''input_mode'', JString ''stateful''),
        (''input_fingerprint'', JString (''sha256:'' @ replicate 64 CHR ''1'')),
        (''calculation_hash'', JString (''sha256:'' @ replicate 64 CHR ''2''))]),
      (''diagnostics'', JObject [(''freshness'', JString ''current''),
        (''coverage'', JObject [(''requested_points'', JInt 1), (''returned_points'', JInt 1),
          (''missing_points'', JInt 0), (''coverage_ratio'', JInt 1)])]),
      (''series'', JObject [(''portfolio_returns'', JArray [sample_row ''2026-01-02'' ''-1''])])]"

definition daily_identity :: source_identity where
  "daily_identity =
     \<lparr>si_portfolio_id = ''P1'', si_as_of_date = Date 2026 3 31, si_frequency = ''DAILY'', si_metric_basis = ''NET''\<rparr>"

definition daily_point :: return_point where
  "daily_point = \<lparr>pt_date = Date 2026 1 2, pt_value = - 100\<rparr>"

definition daily_client :: performance_client where
  "daily_client = sample_client\<lparr>pc_peer := (\<lambda>_. Response 200 (JsonBody (JObject daily_answer)))\<rparr>"

lemma daily_window:
  "build_returns_series_window [example_year 2026] (Date 2026 3 31) =
     Inr [(''mode'', JString ''EXPLICIT''), (''from_date'', JString ''2026-01-01''), (''to_date'', JString ''2026-12-31'')]"
  by code_simp

lemma daily_answer_returns:
  "extract_required_portfolio_returns sample_readers ''DAILY'' daily_answer =
     Inr ([(''portfolio_returns'', JArray [sample_row ''2026-01-02'' ''-1''])], [daily_point])"
  by (simp add: extract_required_portfolio_returns_def extract_series_payload_def daily_answer_def json_get_def
      to_return_points_def sample_row_def sample_rows_read sample_value_read new_return_point_def daily_point_def
      del: append.simps replicate.simps)

lemma daily_answer_accepted:
  "\<exists>e. extract_stateful_returns_source_evidence sample_readers daily_answer daily_identity
     (Some [(''mode'', JString ''EXPLICIT''), (''from_date'', JString ''2026-01-01''), (''to_date'', JString ''2026-12-31'')])
     (Some [daily_point]) = Inr e"
proof -
  have iso: "isoformat (Date 2026 3 31) = ''2026-03-31''" by code_simp
  have hex: "is_fingerprint (''sha256:'' @ replicate 64 CHR ''1'')" "is_fingerprint (''sha256:'' @ replicate 64 CHR ''2'')"
    by (simp_all add: is_fingerprint_def starts_with_def is_hex_char_def list_all_length less_eq_char_def)
  have "\<exists>e. validate_returns_evidence sample_readers (source_evidence_payload daily_answer) = Some e \<and>
      rv_returned_points e = 1"
    using hex by (simp add: validate_returns_evidence_def evidence_fields_def source_evidence_payload_def
        daily_answer_def sample_readers_def mapping_or_empty_def json_get_def provenance_of_def
        coverage_reconciles_def expected_ratio_def fdiv_def fsub_def flit_def rnd_nonneg Let_def
        del: append.simps replicate.simps)
  moreover have "date_field (resolved_window_of daily_answer) ''start_date'' = Some (Date 2026 1 1)"
    "date_field (resolved_window_of daily_answer) ''end_date'' = Some (Date 2026 12 31)"
    by code_simp+
  then have "validate_returned_points_within_window daily_answer [daily_point] ''DAILY'' = Inr ()"
    by (simp add: validate_returned_points_within_window_def raise_if_def overlap_daily daily_point_def
        less_eq_date_def less_date_def)
  ultimately show ?thesis
    using iso
    by (auto simp: extract_stateful_returns_source_evidence_def validate_source_request_identity_def
        identity_fields_def validate_stateful_provenance_def validate_resolved_window_def
        validate_explicit_window_def resolved_window_of_def mapping_or_empty_def daily_identity_def
        provenance_of_def json_get_def daily_answer_def raise_if_def Let_def
        simp del: append.simps replicate.simps)
qed

lemma daily_client_answers:
  "\<exists>u. execute_returns_series_request daily_client payload authority t = (Inr daily_answer, u)"
  by (simp add: execute_returns_series_request_def execute_async_workflow_request_def Let_def bind_io_def
      execute_json_ok [where status = 200 and x = "(200, daily_answer)" and body = "JsonBody (JObject daily_answer)"]
      daily_client_def submit_parse_def dict_payload_def response_json_def return_io_def record_upstream_request_def
      emit_event_def)

end
