(* ===== verification/Numerics.thy ===== *)
theory Numerics
  imports Main Float64 Calendar Periods
begin

text \<open>
  Series of dated floats and the numeric library.  A pandas series is the list of its rows in index order;
  a frame is built by sorting its points by date, a boolean mask selects rows, arithmetic is element by
  element in binary64, an inner merge keeps the dates of both.  Whatever numpy and pandas compute from a
  whole array is a field of \<open>numeric_ops\<close>, an argument of the definitions that use it; \<open>numeric_laws\<close> states
  what their documentation says.  \<open>math.sqrt\<close> is the correctly rounded root.  Values stay finite: a
  product of returns that overflows is outside the model.
\<close>

section \<open>Square root\<close>

function floor_sqrt :: "int \<Rightarrow> int" where
  "floor_sqrt n =
     (if n \<le> 0 then 0
      else let r = 2 * floor_sqrt (n div 4) in if (r + 1) * (r + 1) \<le> n then r + 1 else r)"
  by auto
termination by (relation "measure nat") auto

declare floor_sqrt.simps [simp del]

lemma floor_sqrt_spec:
  "0 \<le> n \<Longrightarrow> 0 \<le> floor_sqrt n \<and> floor_sqrt n * floor_sqrt n \<le> n \<and> n < (floor_sqrt n + 1) * (floor_sqrt n + 1)"
proof (induction n rule: floor_sqrt.induct)
  case (1 n)
  show ?case
  proof (cases "n = 0")
    case True
    then show ?thesis by (simp add: floor_sqrt.simps)
  next
    case False
    with 1 have pos: "0 < n" by simp
    let ?s = "floor_sqrt (n div 4)"
    have s: "0 \<le> ?s" "?s * ?s \<le> n div 4" "n div 4 < (?s + 1) * (?s + 1)" using 1 pos by auto
    have d: "4 * (n div 4) \<le> n" "n < 4 * (n div 4) + 4" by linarith+
    have "4 * (?s * ?s) \<le> n" using s(2) d(1) by linarith
    moreover have "n < 4 * ((?s + 1) * (?s + 1))"
    proof -
      have "n div 4 + 1 \<le> (?s + 1) * (?s + 1)" using s(3) by simp
      then show ?thesis using d(2) by linarith
    qed
    ultimately show ?thesis
      using pos s(1) by (subst (1 2 3 4 5) floor_sqrt.simps) (auto simp: Let_def algebra_simps)
  qed
qed

text \<open>
  The root is found to more than 60 binary digits; half a unit stands for the digits that remain, which
  lie below every tie of the rounding.
\<close>

definition math_sqrt :: "f64 \<Rightarrow> f64" where
  "math_sqrt x =
     (if x \<le> 0 then 0
      else let k = 60 - flog2 x div 2; y = x * two_pow (2 * k); s = floor_sqrt \<lfloor>y\<rfloor>
           in rnd ((of_int s + (if of_int (s * s) = y then 0 else 1 / 2)) * two_pow (- k)))"

lemma math_sqrt_nonneg: "0 \<le> math_sqrt x"
proof -
  have "0 \<le> floor_sqrt \<lfloor>x * two_pow k\<rfloor>" if "0 < x" for k
  proof -
    have "0 \<le> x * two_pow k" using that by (intro mult_nonneg_nonneg less_imp_le [OF two_pow_pos]) simp
    then show ?thesis using floor_sqrt_spec [of "\<lfloor>x * two_pow k\<rfloor>"] by simp
  qed
  then show ?thesis by (auto simp: math_sqrt_def Let_def intro!: rnd_nonneg mult_nonneg_nonneg add_nonneg_nonneg less_imp_le [OF two_pow_pos])
qed

lemma math_sqrt_examples: "math_sqrt 4 = 2" "math_sqrt (9 / 16) = 3 / 4" "math_sqrt 2 = 6369051672525773 / 2 ^ 52"
  by code_simp+

section \<open>The numeric library\<close>

record numeric_ops =
  np_cumprod :: "f64 list \<Rightarrow> f64 list"
  np_cummax :: "f64 list \<Rightarrow> f64 list"
  np_argmin :: "f64 list \<Rightarrow> nat"
  np_mean :: "f64 list \<Rightarrow> f64"
  np_quantile :: "f64 list \<Rightarrow> f64 \<Rightarrow> f64"
  np_busday_count :: "date \<Rightarrow> date \<Rightarrow> int"

text \<open>
  The cumulative product multiplies from the first value on; the cumulative maximum is the greatest value so
  far; \<open>argmin\<close> is the position of the first least value.
\<close>

definition numeric_laws :: "numeric_ops \<Rightarrow> bool" where
  "numeric_laws ops \<longleftrightarrow>
     (\<forall>xs. length (np_cumprod ops xs) = length xs) \<and>
     (\<forall>x xs. np_cumprod ops (x # xs) ! 0 = x) \<and>
     (\<forall>xs i. Suc i < length xs \<longrightarrow> np_cumprod ops xs ! Suc i = fmul (np_cumprod ops xs ! i) (xs ! Suc i)) \<and>
     (\<forall>xs. length (np_cummax ops xs) = length xs) \<and>
     (\<forall>xs i. i < length xs \<longrightarrow> np_cummax ops xs ! i = Max (set (take (Suc i) xs))) \<and>
     (\<forall>xs. xs \<noteq> [] \<longrightarrow> np_argmin ops xs < length xs \<and>
        (\<forall>x\<in>set xs. xs ! np_argmin ops xs \<le> x) \<and>
        (\<forall>i<np_argmin ops xs. xs ! np_argmin ops xs < xs ! i))"

lemma numeric_lawsD:
  assumes "numeric_laws ops"
  shows "length (np_cumprod ops xs) = length xs"
    "np_cumprod ops (x # xs) ! 0 = x"
    "Suc i < length xs \<Longrightarrow> np_cumprod ops xs ! Suc i = fmul (np_cumprod ops xs ! i) (xs ! Suc i)"
    "length (np_cummax ops xs) = length xs"
    "i < length xs \<Longrightarrow> np_cummax ops xs ! i = Max (set (take (Suc i) xs))"
    "xs \<noteq> [] \<Longrightarrow> np_argmin ops xs < length xs"
    "y \<in> set xs \<Longrightarrow> xs ! np_argmin ops xs \<le> y"
    "xs \<noteq> [] \<Longrightarrow> j < np_argmin ops xs \<Longrightarrow> xs ! np_argmin ops xs < xs ! j"
proof -
  note laws = assms [unfolded numeric_laws_def]
  show "length (np_cumprod ops xs) = length xs" "np_cumprod ops (x # xs) ! 0 = x"
    "length (np_cummax ops xs) = length xs"
    using laws by simp_all
  show "Suc i < length xs \<Longrightarrow> np_cumprod ops xs ! Suc i = fmul (np_cumprod ops xs ! i) (xs ! Suc i)"
    "i < length xs \<Longrightarrow> np_cummax ops xs ! i = Max (set (take (Suc i) xs))"
    using laws by (elim conjE, simp)+
  have least: "xs \<noteq> [] \<Longrightarrow> np_argmin ops xs < length xs \<and> (\<forall>x\<in>set xs. xs ! np_argmin ops xs \<le> x) \<and>
      (\<forall>i<np_argmin ops xs. xs ! np_argmin ops xs < xs ! i)"
    using laws by (elim conjE) blast
  show "xs \<noteq> [] \<Longrightarrow> np_argmin ops xs < length xs" "y \<in> set xs \<Longrightarrow> xs ! np_argmin ops xs \<le> y"
    "xs \<noteq> [] \<Longrightarrow> j < np_argmin ops xs \<Longrightarrow> xs ! np_argmin ops xs < xs ! j"
    using least by (blast, cases xs, simp, force, blast)
qed

text \<open>Functions that do what the documentation says.\<close>

fun cumulate :: "(f64 \<Rightarrow> f64 \<Rightarrow> f64) \<Rightarrow> f64 \<Rightarrow> f64 list \<Rightarrow> f64 list" where
  "cumulate f a [] = []"
| "cumulate f a (x # xs) = f a x # cumulate f (f a x) xs"

definition cumulative :: "(f64 \<Rightarrow> f64 \<Rightarrow> f64) \<Rightarrow> f64 list \<Rightarrow> f64 list" where
  "cumulative f xs = (case xs of [] \<Rightarrow> [] | y # ys \<Rightarrow> y # cumulate f y ys)"

fun first_least :: "f64 list \<Rightarrow> nat" where
  "first_least [] = 0"
| "first_least (x # xs) = (if \<forall>y\<in>set xs. x \<le> y then 0 else Suc (first_least xs))"

fun weekdays_between :: "nat \<Rightarrow> int \<Rightarrow> int" where
  "weekdays_between 0 n = 0"
| "weekdays_between (Suc k) n =
     (if (n + 6) mod 7 < 5 then 1 else 0) + weekdays_between k (n + 1)"

definition reference_ops :: numeric_ops where
  "reference_ops =
     \<lparr>np_cumprod = cumulative fmul, np_cummax = cumulative max, np_argmin = first_least,
      np_mean = (\<lambda>xs. fdiv (loop_sum xs) (of_nat (length xs))),
      np_quantile = (\<lambda>xs q. hd (sort xs)),
      np_busday_count = (\<lambda>a b. weekdays_between (nat (days_between b a)) (toordinal a))\<rparr>"

lemma length_cumulate [simp]: "length (cumulate f a xs) = length xs"
  by (induction xs arbitrary: a) auto

lemma length_cumulative [simp]: "length (cumulative f xs) = length xs"
  by (cases xs) (simp_all add: cumulative_def)

lemma cumulative_Cons_0: "cumulative f (x # xs) ! 0 = x"
  by (simp add: cumulative_def)

lemma cumulate_nth:
  "i < length xs \<Longrightarrow> cumulate f a xs ! i = foldl f a (take (Suc i) xs)"
proof (induction xs arbitrary: a i)
  case (Cons x xs)
  then show ?case by (cases i) auto
qed simp

lemma cumulative_nth:
  "i < length xs \<Longrightarrow> cumulative f xs ! i = foldl f (hd xs) (take i (tl xs))"
  by (cases xs; cases i) (auto simp: cumulative_def cumulate_nth)

lemma foldl_max_Max: "foldl max a xs = Max (insert a (set xs))" for a :: "'a::linorder"
proof (induction xs arbitrary: a)
  case (Cons x xs)
  then show ?case by (cases "xs = []") (simp_all add: max.assoc)
qed simp

lemma first_least_spec:
  "xs \<noteq> [] \<Longrightarrow> first_least xs < length xs \<and> (\<forall>y\<in>set xs. xs ! first_least xs \<le> y) \<and>
     (\<forall>i<first_least xs. xs ! first_least xs < xs ! i)"
proof (induction xs)
  case (Cons x xs)
  show ?case
  proof (cases "\<forall>y\<in>set xs. x \<le> y")
    case False
    then obtain y where y: "y \<in> set xs" "y < x" by force
    then have ne: "xs \<noteq> []" by auto
    note ih = Cons.IH [OF ne]
    have lt: "xs ! first_least xs < x" using ih y by (meson le_less_trans)
    have "xs ! first_least xs < (x # xs) ! i" if "i < Suc (first_least xs)" for i
      using that ih lt by (cases i) auto
    with ih lt False show ?thesis by (auto intro: less_imp_le)
  qed auto
qed simp

lemma numeric_laws_reference: "numeric_laws reference_ops"
proof -
  have step: "cumulative fmul xs ! Suc i = fmul (cumulative fmul xs ! i) (xs ! Suc i)" if i: "Suc i < length xs" for xs i
  proof -
    obtain y ys where xs: "xs = y # ys" using i by (cases xs) auto
    with i show ?thesis by (simp add: cumulative_nth take_Suc_conv_app_nth)
  qed
  have mx: "cumulative max xs ! i = Max (set (take (Suc i) xs))" if i: "i < length xs" for xs i
  proof -
    obtain y ys where xs: "xs = y # ys" using i by (cases xs) auto
    with i show ?thesis by (simp add: cumulative_nth foldl_max_Max)
  qed
  show ?thesis
    unfolding numeric_laws_def reference_ops_def
    using step mx first_least_spec by (simp add: cumulative_Cons_0)
qed

text \<open>An integer as a float; \<open>np.isclose\<close> to zero.\<close>

definition float_of_int :: "int \<Rightarrow> (calculation_error, f64) result" where
  "float_of_int n =
     (if 2 ^ 1024 - 2 ^ 970 \<le> \<bar>n\<bar> then Inl (Escaped ''OverflowError'') else Inr (rnd (of_int n)))"

definition close_to_zero :: "f64 \<Rightarrow> bool" where
  "close_to_zero x \<longleftrightarrow> \<bar>x\<bar> \<le> flit (1 / 10 ^ 8)"

section \<open>Series\<close>

type_synonym series = "(date \<times> f64) list"

definition series_values :: "series \<Rightarrow> f64 list" where
  "series_values s = map snd s"

definition series_dates :: "series \<Rightarrow> date list" where
  "series_dates s = map fst s"

definition returns_frame :: "return_point list \<Rightarrow> series" where
  "returns_frame points = sort_key fst (map (\<lambda>p. (pt_date p, pt_value p)) points)"

definition filter_period :: "series \<Rightarrow> date \<Rightarrow> date \<Rightarrow> series" where
  "filter_period s start finish = filter (\<lambda>row. start \<le> fst row \<and> fst row \<le> finish) s"

definition merge_inner :: "series \<Rightarrow> series \<Rightarrow> (date \<times> f64 \<times> f64) list" where
  "merge_inner a b =
     List.map_filter (\<lambda>(d, x). map_option (\<lambda>y. (d, x, y)) (map_of b d)) a"

definition period_points :: "return_point list \<Rightarrow> date \<Rightarrow> date \<Rightarrow> return_point list" where
  "period_points points start finish = filter (\<lambda>p. start \<le> pt_date p \<and> pt_date p \<le> finish) points"

lemma filter_returns_frame:
  "length (filter_period (returns_frame points) start finish) = length (period_points points start finish)"
  by (simp add: filter_period_def returns_frame_def period_points_def filter_sort filter_map comp_def)

lemma sort_key_sorted_fst: "distinct (map fst xs) \<Longrightarrow> sorted_wrt (<) (map fst (sort_key fst xs))"
  for xs :: "(('a::linorder) \<times> 'b) list"
  by (simp add: strict_sorted_iff distinct_map)

lemma frame_sorted:
  "distinct (map pt_date points) \<Longrightarrow> sorted_wrt (<) (map fst (returns_frame points))"
  unfolding returns_frame_def by (intro sort_key_sorted_fst) (simp add: comp_def)

lemma period_sorted:
  "sorted_wrt (<) (map fst s) \<Longrightarrow> sorted_wrt (<) (map fst (filter_period s a b))"
  by (auto simp: filter_period_def sorted_wrt_map intro: sorted_wrt_filter)

text \<open>The date the series opens on.\<close>

definition open_date_of :: "return_point list \<Rightarrow> date" where
  "open_date_of points = Min (pt_date ` set points)"

lemma returns_frame_opens:
  assumes "points \<noteq> []"
  obtains v rest where "returns_frame points = (open_date_of points, v) # rest"
proof -
  obtain d v rest where frame: "returns_frame points = (d, v) # rest"
    using assms by (cases "returns_frame points") (auto simp: returns_frame_def dest: arg_cong [of _ _ length])
  have "sorted (map fst (returns_frame points))" by (simp add: returns_frame_def)
  moreover have "fst ` set (returns_frame points) = pt_date ` set points"
    by (force simp: returns_frame_def image_iff)
  ultimately have "d = open_date_of points"
    unfolding open_date_of_def using frame by (intro Min_eqI [symmetric]) (auto simp flip: \<open>fst ` _ = _\<close>)
  with frame that show thesis by blast
qed

section \<open>A float below another\<close>

lemma is_f64_grid:
  assumes "is_f64 x"
  obtains n where "x = of_int n * two_pow (ulp_exp x)"
  using assms unfolding is_f64_def rnd_def by (metis mult_zero_left of_int_0)

lemma two_pow_53: "two_pow k = 2 ^ 53 * two_pow (k - 53)"
proof -
  have "two_pow (53 + (k - 53)) = two_pow 53 * two_pow (k - 53)" by (rule two_pow_add)
  then show ?thesis by (simp add: two_pow_def [of 53])
qed

text \<open>The quotient of a float by a greater one, not below one, stays below one when it is rounded.\<close>

lemma fdiv_less_1:
  assumes w: "is_f64 w" and p: "is_f64 p" "1 \<le> p" "w < p"
  shows "fdiv w p \<le> 1 - 1 / 2 ^ 53"
proof -
  have "w \<le> p * (1 - 1 / 2 ^ 53)"
  proof (rule ccontr)
    assume "\<not> ?thesis"
    then have gt: "p * (1 - 1 / 2 ^ 53) < w" by simp
    define k where "k = flog2 p"
    have pk: "two_pow k \<le> p" "p < two_pow (k + 1)" using flog2_bounds [of p] p(2) by (simp_all add: k_def)
    have "two_pow 0 < two_pow (k + 1)" using pk(2) p(2) by simp
    then have k0: "0 \<le> k" by (simp only: two_pow_less_iff)
    have half: "two_pow k = 2 * two_pow (k - 1)" using two_pow_add [of 1 "k - 1"] by (simp add: two_pow_def)
    have "two_pow (k - 1) < w"
    proof -
      have "two_pow k * (1 - 1 / 2 ^ 53) \<le> p * (1 - 1 / 2 ^ 53)" using pk(1) by (intro mult_right_mono) simp_all
      moreover have "two_pow (k - 1) < two_pow k * (1 - 1 / 2 ^ 53)" unfolding half by simp
      ultimately show ?thesis using gt by linarith
    qed
    moreover have "w < two_pow (k + 1)" using p(3) pk(2) by simp
    ultimately have wpos: "0 < w" and wk: "flog2 w = k - 1 \<or> flog2 w = k"
      using flog2_unique [of "k - 1" w] flog2_unique [of k w] two_pow_pos [of "k - 1"]
      by (linarith, cases "w < two_pow k") auto
    obtain n where n: "w = of_int n * two_pow (ulp_exp w)" using is_f64_grid [OF w] .
    obtain m where m: "p = of_int m * two_pow (ulp_exp p)" using is_f64_grid [OF p(1)] .
    have up: "ulp_exp p = k - 52" using p(2) k0 by (simp add: ulp_exp_def k_def)
    show False
      using wk
    proof
      assume "flog2 w = k"
      then have uw: "ulp_exp w = k - 52" using wpos k0 by (simp add: ulp_exp_def)
      have "of_int n * two_pow (k - 52) < of_int m * two_pow (k - 52)" using p(3) n m uw up by simp
      then have "n < m" by simp
      then have "of_int n + 1 \<le> (of_int m :: rat)" by (metis of_int_1 of_int_add of_int_le_iff zless_imp_add1_zle)
      then have "(of_int n + 1) * two_pow (k - 52) \<le> of_int m * two_pow (k - 52)" by (intro mult_right_mono less_imp_le [OF two_pow_pos])
      then have "w + two_pow (k - 52) \<le> p" using n m uw up by (simp add: algebra_simps)
      moreover have "two_pow (k + 1) = 2 ^ 53 * two_pow (k - 52)"
        using two_pow_53 [of "k + 1"] by simp
      ultimately show False using gt pk(2) by (simp add: algebra_simps)
    next
      assume a: "flog2 w = k - 1"
      then have uw: "ulp_exp w = k - 53" using wpos k0 by (simp add: ulp_exp_def)
      have tk: "two_pow k = 2 ^ 53 * two_pow (k - 53)" by (rule two_pow_53)
      have "w < two_pow k" using flog2_bounds(2) [OF wpos] a by simp
      then have "of_int n * two_pow (k - 53) < of_int (2 ^ 53) * two_pow (k - 53)" using n uw tk by simp
      then have "n < 2 ^ 53" by (simp only: mult_less_cancel_right_pos two_pow_pos of_int_less_iff)
      then have "of_int n + 1 \<le> (of_int (2 ^ 53) :: rat)" by (metis of_int_1 of_int_add of_int_le_iff zless_imp_add1_zle)
      then have "(of_int n + 1) * two_pow (k - 53) \<le> of_int (2 ^ 53) * two_pow (k - 53)"
        by (intro mult_right_mono less_imp_le [OF two_pow_pos])
      then have "w + two_pow (k - 53) \<le> two_pow k" using n uw tk by (simp add: algebra_simps)
      moreover have "p * (1 - 1 / 2 ^ 53) \<ge> two_pow k * (1 - 1 / 2 ^ 53)" using pk(1) by (intro mult_right_mono) simp_all
      ultimately show False using gt tk by (simp add: algebra_simps)
    qed
  qed
  then have "w / p \<le> 1 - 1 / 2 ^ 53" using p(2) by (simp add: field_simps)
  then have "rnd (w / p) \<le> rnd (1 - 1 / 2 ^ 53)" by (rule rnd_mono)
  moreover have "rnd (1 - 1 / 2 ^ 53) = 1 - 1 / 2 ^ 53" by code_simp
  ultimately show ?thesis by (simp add: fdiv_def)
qed

lemma drop_negative_iff:
  assumes "is_f64 w" "is_f64 p" "1 \<le> p" "w \<le> p"
  shows "fsub (fdiv w p) 1 < 0 \<longleftrightarrow> w < p" "fsub (fdiv w p) 1 \<le> 0"
proof -
  have less: "fsub (fdiv w p) 1 < 0" if "w < p"
  proof -
    have "fdiv w p - 1 \<le> - (1 / 2 ^ 53)" using fdiv_less_1 [OF assms(1-3) that] by simp
    then have "fsub (fdiv w p) 1 \<le> rnd (- (1 / 2 ^ 53))" unfolding fsub_def by (rule rnd_mono)
    also have "rnd (- (1 / 2 ^ 53)) < 0" by code_simp
    finally show ?thesis .
  qed
  have "fsub (fdiv p p) 1 = 0" using assms(3) by (simp add: fdiv_def fsub_def)
  with less assms(4) show "fsub (fdiv w p) 1 < 0 \<longleftrightarrow> w < p" "fsub (fdiv w p) 1 \<le> 0"
    by (auto simp: le_less)
qed

end
