(* ===== verification/DrawdownSeries.thy ===== *)
theory DrawdownSeries
  imports Main Numerics
begin

text \<open>
  Drawdown paths, their episodes and their summary (services/drawdown_episodes.py,
  services/drawdown_series.py) and the drawdown metric of the risk report
  (services/risk/drawdown_details.py), over one path: the wealth that starts at one, its running peak, and
  the distance below it.
\<close>

section \<open>Episodes\<close>

datatype duration_unit = BusinessDays | CalendarDays

record episode_record =
  ep_peak_date :: "date option"
  ep_trough_date :: date
  ep_recovery_date :: "date option"
  ep_depth :: f64
  ep_days_to_trough :: "int option"
  ep_days_to_recovery :: "int option"
  ep_total_days :: "int option"
  ep_is_recovered :: bool

record drawdown_extreme =
  de_max_drawdown :: f64
  de_peak_date :: "date option"
  de_trough_date :: "date option"
  de_recovery_date :: "date option"
  de_is_recovered :: bool
  de_days_to_trough :: "int option"
  de_days_to_recovery :: "int option"

record episode_context =
  ec_dates :: "date list"
  ec_values :: "f64 list"
  ec_duration_unit :: duration_unit

definition duration_days :: "numeric_ops \<Rightarrow> duration_unit \<Rightarrow> date \<Rightarrow> date \<Rightarrow> int" where
  "duration_days ops unit start finish =
     (if finish < start then 0
      else case unit of
        CalendarDays \<Rightarrow> days_between finish start
      | BusinessDays \<Rightarrow> np_busday_count ops start finish)"

definition py_min :: "f64 list \<Rightarrow> f64" where
  "py_min xs = foldl min (hd xs) (tl xs)"

definition episode_peak_date :: "date list \<Rightarrow> nat \<Rightarrow> date option" where
  "episode_peak_date dates index = (if 0 < index then Some (dates ! (index - 1)) else None)"

definition segment :: "'a list \<Rightarrow> nat \<Rightarrow> nat option \<Rightarrow> 'a list" where
  "segment vs start_index recovery_index =
     (let end_index = (case recovery_index of Some r \<Rightarrow> r | None \<Rightarrow> length vs - 1)
      in drop start_index (take (end_index + 1) vs))"

definition episode_record_from_segment ::
  "numeric_ops \<Rightarrow> episode_context \<Rightarrow> nat \<Rightarrow> date option \<Rightarrow> nat option \<Rightarrow> episode_record"
where
  "episode_record_from_segment ops c start_index peak_date recovery_index =
     (let dates = ec_dates c;
          segment_values = segment (ec_values c) start_index recovery_index;
          trough_index = start_index + np_argmin ops segment_values;
          trough_date = dates ! trough_index;
          recovery_date = map_option (\<lambda>r. dates ! r) recovery_index;
          terminal_date = (case recovery_date of Some d \<Rightarrow> d | None \<Rightarrow> last dates);
          days = duration_days ops (ec_duration_unit c)
      in \<lparr>ep_peak_date = peak_date, ep_trough_date = trough_date, ep_recovery_date = recovery_date,
          ep_depth = py_min segment_values,
          ep_days_to_trough = map_option (\<lambda>p. days p trough_date) peak_date,
          ep_days_to_recovery = map_option (\<lambda>r. days trough_date r) recovery_date,
          ep_total_days = map_option (\<lambda>p. days p terminal_date) peak_date,
          ep_is_recovered = (recovery_date \<noteq> None)\<rparr>)"

text \<open>
  The loop over the values; an open episode is its start and the date of its peak.
\<close>

fun episode_loop ::
  "numeric_ops \<Rightarrow> episode_context \<Rightarrow> nat \<Rightarrow> f64 list \<Rightarrow> (nat \<times> date option) option \<Rightarrow> episode_record list \<Rightarrow>
     (nat \<times> date option) option \<times> episode_record list"
where
  "episode_loop ops c idx [] opened episodes = (opened, episodes)"
| "episode_loop ops c idx (dd_value # vs) opened episodes =
     (case opened of
        None \<Rightarrow>
          if dd_value < 0
          then episode_loop ops c (Suc idx) vs (Some (idx, episode_peak_date (ec_dates c) idx)) episodes
          else episode_loop ops c (Suc idx) vs None episodes
      | Some (start_index, peak_date) \<Rightarrow>
          if 0 \<le> dd_value
          then episode_loop ops c (Suc idx) vs None
            (episodes @ [episode_record_from_segment ops c start_index peak_date (Some idx)])
          else episode_loop ops c (Suc idx) vs opened episodes)"

definition build_episodes_from_values :: "numeric_ops \<Rightarrow> episode_context \<Rightarrow> episode_record list" where
  "build_episodes_from_values ops c =
     (case episode_loop ops c 0 (ec_values c) None [] of
        (None, episodes) \<Rightarrow> episodes
      | (Some (start_index, peak_date), episodes) \<Rightarrow>
          episodes @ [episode_record_from_segment ops c start_index peak_date None])"

fun min_episode :: "episode_record list \<Rightarrow> episode_record option" where
  "min_episode [] = None"
| "min_episode (e # es) = Some (foldl (\<lambda>m x. if ep_depth x < ep_depth m then x else m) e es)"

definition drawdown_extreme_fields :: "episode_record list \<Rightarrow> drawdown_extreme" where
  "drawdown_extreme_fields episodes =
     (case min_episode episodes of
        None \<Rightarrow> \<lparr>de_max_drawdown = 0, de_peak_date = None, de_trough_date = None, de_recovery_date = None,
          de_is_recovered = True, de_days_to_trough = Some 0, de_days_to_recovery = Some 0\<rparr>
      | Some e \<Rightarrow> \<lparr>de_max_drawdown = ep_depth e, de_peak_date = ep_peak_date e,
          de_trough_date = Some (ep_trough_date e), de_recovery_date = ep_recovery_date e,
          de_is_recovered = ep_is_recovered e, de_days_to_trough = ep_days_to_trough e,
          de_days_to_recovery = ep_days_to_recovery e\<rparr>)"

section \<open>The path and its summary\<close>

definition wealth_path :: "numeric_ops \<Rightarrow> f64 list \<Rightarrow> f64 list" where
  "wealth_path ops returns = np_cumprod ops (map (\<lambda>r. fadd 1 (fdiv r 100)) returns)"

definition running_peak :: "numeric_ops \<Rightarrow> f64 list \<Rightarrow> f64 list" where
  "running_peak ops wealth = map (\<lambda>x. max x 1) (np_cummax ops wealth)"

definition drawdown_path :: "f64 list \<Rightarrow> f64 list \<Rightarrow> f64 list" where
  "drawdown_path wealth peak = map2 (\<lambda>w p. fsub (fdiv w p) 1) wealth peak"

definition drawdown_from_returns :: "numeric_ops \<Rightarrow> series \<Rightarrow> series" where
  "drawdown_from_returns ops returns =
     (let wealth = wealth_path ops (series_values returns) in
      zip (series_dates returns) (drawdown_path wealth (running_peak ops wealth)))"

record drawdown_summary =
  ds_max_drawdown :: "f64 option"
  ds_peak_date :: "date option"
  ds_trough_date :: "date option"
  ds_recovery_date :: "date option"
  ds_is_recovered :: bool
  ds_days_to_trough :: "int option"
  ds_days_to_recovery :: "int option"
  ds_time_under_water_days :: nat
  ds_average_drawdown :: "f64 option"
  ds_ulcer_index :: "f64 option"
  ds_drawdown_at_risk :: "f64 option"
  ds_conditional_drawdown_at_risk :: "f64 option"

definition empty_drawdown_summary :: drawdown_summary where
  "empty_drawdown_summary =
     \<lparr>ds_max_drawdown = None, ds_peak_date = None, ds_trough_date = None, ds_recovery_date = None,
      ds_is_recovered = False, ds_days_to_trough = None, ds_days_to_recovery = None,
      ds_time_under_water_days = 0, ds_average_drawdown = None, ds_ulcer_index = None,
      ds_drawdown_at_risk = None, ds_conditional_drawdown_at_risk = None\<rparr>"

definition tail_drawdown_risk :: "numeric_ops \<Rightarrow> f64 list \<Rightarrow> f64 \<Rightarrow> f64 option \<times> f64 option" where
  "tail_drawdown_risk ops depths alpha =
     (if depths = [] then (None, None)
      else let dar_metric = np_quantile ops depths (fsub 1 alpha);
               worst_tail = filter (\<lambda>d. d \<le> dar_metric) depths
           in (Some dar_metric, if worst_tail = [] then None else Some (np_mean ops worst_tail)))"

definition average_drawdown :: "numeric_ops \<Rightarrow> series \<Rightarrow> f64" where
  "average_drawdown ops drawdown =
     (let underwater = filter (\<lambda>x. x < 0) (series_values drawdown) in
      if underwater = [] then 0 else np_mean ops underwater)"

definition ulcer_index :: "numeric_ops \<Rightarrow> series \<Rightarrow> f64" where
  "ulcer_index ops drawdown =
     math_sqrt (np_mean ops (map (\<lambda>x. fmul x x) (series_values drawdown)))"

definition build_episodes :: "numeric_ops \<Rightarrow> duration_unit \<Rightarrow> series \<Rightarrow> episode_record list" where
  "build_episodes ops unit drawdown =
     (if drawdown = [] then []
      else build_episodes_from_values ops \<lparr>ec_dates = series_dates drawdown,
        ec_values = series_values drawdown, ec_duration_unit = unit\<rparr>)"

definition summarize_drawdown ::
  "numeric_ops \<Rightarrow> f64 \<Rightarrow> duration_unit \<Rightarrow> series \<Rightarrow> drawdown_summary \<times> episode_record list"
where
  "summarize_drawdown ops alpha unit drawdown =
     (if drawdown = [] then (empty_drawdown_summary, [])
      else let episodes = build_episodes ops unit drawdown;
               (dar_value, cdar_value) = tail_drawdown_risk ops (map ep_depth episodes) alpha;
               extreme = drawdown_extreme_fields episodes
           in (\<lparr>ds_max_drawdown = Some (de_max_drawdown extreme), ds_peak_date = de_peak_date extreme,
                ds_trough_date = de_trough_date extreme, ds_recovery_date = de_recovery_date extreme,
                ds_is_recovered = de_is_recovered extreme, ds_days_to_trough = de_days_to_trough extreme,
                ds_days_to_recovery = de_days_to_recovery extreme,
                ds_time_under_water_days = length (filter (\<lambda>row. snd row < 0) drawdown),
                ds_average_drawdown = Some (average_drawdown ops drawdown),
                ds_ulcer_index = Some (ulcer_index ops drawdown),
                ds_drawdown_at_risk = dar_value, ds_conditional_drawdown_at_risk = cdar_value\<rparr>, episodes))"

section \<open>The drawdown metric of the risk report\<close>

record drawdown_recovery =
  dw_recovery_date :: "date option"
  dw_is_recovered :: bool
  dw_days_to_recovery :: "int option"
  dw_time_under_water_days :: "int option"

text \<open>Positions stand for the labels of the index.\<close>

definition find_recovery ::
  "date list \<Rightarrow> f64 list \<Rightarrow> nat option \<Rightarrow> nat \<Rightarrow> f64 \<Rightarrow> drawdown_recovery"
where
  "find_recovery dates wealth peak_idx trough_idx peak_value =
     (case find (\<lambda>i. peak_value \<le> wealth ! i) [trough_idx ..< length wealth] of
        None \<Rightarrow> \<lparr>dw_recovery_date = None, dw_is_recovered = False, dw_days_to_recovery = None,
          dw_time_under_water_days = map_option (\<lambda>p. days_between (last dates) (dates ! p)) peak_idx\<rparr>
      | Some r \<Rightarrow> \<lparr>dw_recovery_date = Some (dates ! r), dw_is_recovered = True,
          dw_days_to_recovery = Some (days_between (dates ! r) (dates ! trough_idx)),
          dw_time_under_water_days = map_option (\<lambda>p. days_between (dates ! r) (dates ! p)) peak_idx\<rparr>)"

record drawdown_details =
  dx_max_drawdown :: f64
  dx_peak_date :: "date option"
  dx_trough_date :: "date option"
  dx_recovery_date :: "date option"
  dx_is_recovered :: bool
  dx_days_to_trough :: "int option"
  dx_days_to_recovery :: "int option"
  dx_time_under_water_days :: "int option"

definition empty_drawdown_details :: drawdown_details where
  "empty_drawdown_details =
     \<lparr>dx_max_drawdown = 0, dx_peak_date = None, dx_trough_date = None, dx_recovery_date = None,
      dx_is_recovered = True, dx_days_to_trough = None, dx_days_to_recovery = None,
      dx_time_under_water_days = Some 0\<rparr>"

definition risk_drawdown_details :: "numeric_ops \<Rightarrow> series \<Rightarrow> drawdown_details" where
  "risk_drawdown_details ops returns =
     (let dates = series_dates returns;
          wealth = wealth_path ops (series_values returns);
          peak = running_peak ops wealth;
          drawdown = drawdown_path wealth peak
      in if drawdown = [] then empty_drawdown_details
         else let trough_idx = np_argmin ops drawdown;
                  peak_value = peak ! trough_idx;
                  peak_idx = find (\<lambda>i. peak_value \<le> wealth ! i) [0 ..< Suc trough_idx];
                  recovery = find_recovery dates wealth peak_idx trough_idx peak_value
              in \<lparr>dx_max_drawdown = fmul (drawdown ! trough_idx) 100,
                  dx_peak_date = map_option (\<lambda>p. dates ! p) peak_idx,
                  dx_trough_date = Some (dates ! trough_idx),
                  dx_recovery_date = dw_recovery_date recovery, dx_is_recovered = dw_is_recovered recovery,
                  dx_days_to_trough = map_option (\<lambda>p. days_between (dates ! trough_idx) (dates ! p)) peak_idx,
                  dx_days_to_recovery = dw_days_to_recovery recovery,
                  dx_time_under_water_days = dw_time_under_water_days recovery\<rparr>)"

section \<open>Episodes are the runs below zero\<close>

text \<open>
  A run starts below zero after a value that is not, or at the first value, and ends before the first value
  that is not below zero.
\<close>

definition is_run :: "f64 list \<Rightarrow> nat \<times> nat option \<Rightarrow> bool" where
  "is_run vs run =
     (case run of (s, r) \<Rightarrow>
        s < length vs \<and> (0 < s \<longrightarrow> 0 \<le> vs ! (s - 1)) \<and>
        (case r of
           Some e \<Rightarrow> s < e \<and> e < length vs \<and> 0 \<le> vs ! e \<and> (\<forall>i. s \<le> i \<longrightarrow> i < e \<longrightarrow> vs ! i < 0)
         | None \<Rightarrow> \<forall>i. s \<le> i \<longrightarrow> i < length vs \<longrightarrow> vs ! i < 0))"

definition run_record :: "numeric_ops \<Rightarrow> episode_context \<Rightarrow> nat \<times> nat option \<Rightarrow> episode_record" where
  "run_record ops c run =
     episode_record_from_segment ops c (fst run) (episode_peak_date (ec_dates c) (fst run)) (snd run)"

text \<open>What the loop has seen up to an index.\<close>

definition loop_inv ::
  "f64 list \<Rightarrow> nat \<Rightarrow> nat option \<Rightarrow> (nat \<times> nat option) list \<Rightarrow> bool"
where
  "loop_inv vs idx opened runs \<longleftrightarrow>
     sorted_wrt (\<lambda>a b. fst a < fst b) runs \<and>
     (\<forall>run\<in>set runs. is_run vs run \<and> fst run < idx) \<and>
     (case opened of
        None \<Rightarrow> (0 < idx \<longrightarrow> 0 \<le> vs ! (idx - 1))
      | Some s \<Rightarrow> s < idx \<and> (0 < s \<longrightarrow> 0 \<le> vs ! (s - 1)) \<and> (\<forall>i. s \<le> i \<longrightarrow> i < idx \<longrightarrow> vs ! i < 0) \<and>
          (\<forall>run\<in>set runs. fst run < s)) \<and>
     (\<forall>i<idx. vs ! i < 0 \<longrightarrow>
        (\<exists>s e. (s, Some e) \<in> set runs \<and> s \<le> i \<and> i < e) \<or> (\<exists>s. opened = Some s \<and> s \<le> i))"

lemma loop_inv_open:
  assumes "loop_inv vs idx None runs" "vs ! idx < 0"
  shows "loop_inv vs (Suc idx) (Some idx) runs"
  using assms by (auto simp: loop_inv_def less_Suc_eq dest: le_less_trans)

lemma loop_inv_skip:
  assumes "loop_inv vs idx None runs" "0 \<le> vs ! idx"
  shows "loop_inv vs (Suc idx) None runs"
  using assms by (auto simp: loop_inv_def less_Suc_eq)

lemma loop_inv_continue:
  assumes "loop_inv vs idx (Some s) runs" "vs ! idx < 0"
  shows "loop_inv vs (Suc idx) (Some s) runs"
  using assms by (auto simp: loop_inv_def less_Suc_eq)

lemma loop_inv_close:
  assumes inv: "loop_inv vs idx (Some s) runs" and v: "0 \<le> vs ! idx" and idx: "idx < length vs"
  shows "loop_inv vs (Suc idx) None (runs @ [(s, Some idx)])"
proof -
  have "is_run vs (s, Some idx)" using assms by (auto simp: loop_inv_def is_run_def)
  moreover have "sorted_wrt (\<lambda>a b. fst a < fst b) (runs @ [(s, Some idx)])"
    using inv by (auto simp: loop_inv_def sorted_wrt_append)
  moreover have "\<exists>s' e. (s', Some e) \<in> set (runs @ [(s, Some idx)]) \<and> s' \<le> i \<and> i < e"
    if i: "i < Suc idx" "vs ! i < 0" for i
  proof -
    have "i < idx" using i v by (metis less_antisym not_less)
    with inv i(2) have "(\<exists>s' e. (s', Some e) \<in> set runs \<and> s' \<le> i \<and> i < e) \<or> s \<le> i"
      by (auto simp: loop_inv_def)
    with \<open>i < idx\<close> show ?thesis by auto
  qed
  ultimately show ?thesis
    using inv v by (auto simp: loop_inv_def less_SucI)
qed

lemma episode_loop_runs:
  assumes "vs = ec_values c" "drop idx vs = rest" "idx \<le> length vs" "loop_inv vs idx opened runs"
  shows "\<exists>opened' runs'. episode_loop ops c idx rest
        (map_option (\<lambda>s. (s, episode_peak_date (ec_dates c) s)) opened) (map (run_record ops c) runs) =
      (map_option (\<lambda>s. (s, episode_peak_date (ec_dates c) s)) opened', map (run_record ops c) runs') \<and>
      loop_inv vs (length vs) opened' runs'"
  using assms(2-)
proof (induction rest arbitrary: idx opened runs)
  case Nil
  then have "idx = length vs" by simp
  with Nil show ?case by auto
next
  case (Cons v rest)
  from Cons.prems(1,2) have lt: "idx < length vs" by (cases "idx = length vs") simp_all
  from Cons.prems(1) have v: "vs ! idx = v" and rest: "drop (Suc idx) vs = rest"
    using Cons_nth_drop_Suc [OF lt] by auto
  from lt have le: "Suc idx \<le> length vs" by simp
  show ?case
  proof (cases opened)
    case None
    show ?thesis
    proof (cases "v < 0")
      case True
      with Cons.prems(3) None v have "loop_inv vs (Suc idx) (Some idx) runs" by (auto intro: loop_inv_open)
      from Cons.IH [OF rest le this] None True show ?thesis by simp
    next
      case False
      with Cons.prems(3) None v have "loop_inv vs (Suc idx) None runs" by (auto intro: loop_inv_skip)
      from Cons.IH [OF rest le this] None False show ?thesis by simp
    qed
  next
    case (Some s)
    show ?thesis
    proof (cases "0 \<le> v")
      case True
      with Cons.prems(3) Some v lt have "loop_inv vs (Suc idx) None (runs @ [(s, Some idx)])"
        by (auto intro: loop_inv_close)
      from Cons.IH [OF rest le this] Some True show ?thesis by (simp add: run_record_def)
    next
      case False
      with Cons.prems(3) Some v have "loop_inv vs (Suc idx) (Some s) runs" by (auto intro: loop_inv_continue)
      from Cons.IH [OF rest le this] Some False show ?thesis by simp
    qed
  qed
qed

text \<open>Runs that start at different places do not share an index.\<close>

lemma run_negative: "is_run vs (s, r) \<Longrightarrow> s \<le> i \<Longrightarrow> i < length vs \<Longrightarrow> (case r of None \<Rightarrow> True | Some e \<Rightarrow> i < e) \<Longrightarrow> vs ! i < 0"
  by (auto simp: is_run_def split: option.splits)

lemma run_unique:
  assumes a: "is_run vs (s, r)" and b: "is_run vs (s', r')" and i: "s \<le> i" "s' \<le> i" "i < length vs"
    "case r of None \<Rightarrow> True | Some e \<Rightarrow> i < e" "case r' of None \<Rightarrow> True | Some e \<Rightarrow> i < e"
  shows "s = s' \<and> r = r'"
proof -
  have no: False if "is_run vs (u, q)" "is_run vs (u', q')" "u < u'" "u' \<le> i" "case q of None \<Rightarrow> True | Some e \<Rightarrow> i < e"
    for u u' q q'
  proof -
    have "vs ! (u' - 1) < 0"
      using that i(3) by (intro run_negative [OF that(1)]) (auto split: option.splits)
    with that(2,3) show False by (auto simp: is_run_def)
  qed
  have s: "s = s'" using no [OF a b] no [OF b a] i by (cases s s' rule: linorder_cases) auto
  have "r = r'"
  proof (cases r; cases r')
    fix e e' assume r: "r = Some e" "r' = Some e'"
    have e: "s \<le> e" "s' \<le> e'" using i r by simp_all
    have "0 \<le> vs ! e" "\<forall>i. s \<le> i \<longrightarrow> i < e \<longrightarrow> vs ! i < 0" "0 \<le> vs ! e'" "\<forall>i. s' \<le> i \<longrightarrow> i < e' \<longrightarrow> vs ! i < 0"
      using a b r by (simp_all add: is_run_def)
    with e s have "\<not> e < e'" "\<not> e' < e" by (metis not_less)+
    with r show ?thesis by simp
  next
    fix e assume r: "r = None" "r' = Some e"
    then have "s \<le> e" "e < length vs" "0 \<le> vs ! e" "\<forall>i. s \<le> i \<longrightarrow> i < length vs \<longrightarrow> vs ! i < 0"
      using a b s i by (simp_all add: is_run_def)
    then show ?thesis by (metis not_less)
  next
    fix e assume r: "r = Some e" "r' = None"
    then have "s' \<le> e" "e < length vs" "0 \<le> vs ! e" "\<forall>i. s' \<le> i \<longrightarrow> i < length vs \<longrightarrow> vs ! i < 0"
      using a b s i by (simp_all add: is_run_def)
    then show ?thesis by (metis not_less)
  qed simp
  with s show ?thesis by simp
qed

lemma episodes_runs:
  obtains runs where "build_episodes_from_values ops c = map (run_record ops c) runs"
    "sorted_wrt (\<lambda>a b. fst a < fst b) runs" "set runs = {run. is_run (ec_values c) run}"
proof -
  let ?vs = "ec_values c"
  have "loop_inv ?vs 0 None []" by (simp add: loop_inv_def)
  from episode_loop_runs [of ?vs c 0 ?vs None "[]" ops] this obtain opened runs where
    loop: "episode_loop ops c 0 ?vs None [] =
      (map_option (\<lambda>s. (s, episode_peak_date (ec_dates c) s)) opened, map (run_record ops c) runs)"
    and inv: "loop_inv ?vs (length ?vs) opened runs"
    by auto
  define all where "all = runs @ (case opened of None \<Rightarrow> [] | Some s \<Rightarrow> [(s, None)])"
  have eq: "build_episodes_from_values ops c = map (run_record ops c) all"
    by (cases opened) (simp_all add: build_episodes_from_values_def loop all_def run_record_def)
  have sorted: "sorted_wrt (\<lambda>a b. fst a < fst b) all"
    using inv by (auto simp: all_def loop_inv_def sorted_wrt_append split: option.splits)
  have runs: "is_run ?vs run" if "run \<in> set all" for run
    using inv that by (auto simp: all_def loop_inv_def is_run_def split: option.splits)
  have cover: "\<exists>s r. (s, r) \<in> set all \<and> s \<le> i \<and> (case r of None \<Rightarrow> True | Some e \<Rightarrow> i < e)"
    if "i < length ?vs" "?vs ! i < 0" for i
  proof -
    from inv that have "(\<exists>s e. (s, Some e) \<in> set runs \<and> s \<le> i \<and> i < e) \<or> (\<exists>s. opened = Some s \<and> s \<le> i)"
      by (simp add: loop_inv_def)
    then show ?thesis
    proof
      assume "\<exists>s e. (s, Some e) \<in> set runs \<and> s \<le> i \<and> i < e"
      then obtain s e where "(s, Some e) \<in> set all" "s \<le> i" "i < e" by (auto simp: all_def)
      then show ?thesis by (intro exI [of _ s] exI [of _ "Some e"]) simp
    next
      assume "\<exists>s. opened = Some s \<and> s \<le> i"
      then obtain s where "(s, None) \<in> set all" "s \<le> i" by (auto simp: all_def)
      then show ?thesis by (intro exI [of _ s] exI [of _ None]) simp
    qed
  qed
  have "run \<in> set all" if run: "is_run ?vs run" for run
  proof -
    obtain s r where sr: "run = (s, r)" by (cases run)
    with run have s: "s < length ?vs" "?vs ! s < 0"
      by (auto simp: is_run_def split: option.splits)
    from cover [OF s] obtain s' r' where c': "(s', r') \<in> set all" "s' \<le> s"
      "case r' of None \<Rightarrow> True | Some e \<Rightarrow> s < e" by blast
    have "case r of None \<Rightarrow> True | Some e \<Rightarrow> s < e"
      using run sr by (auto simp: is_run_def split: option.splits)
    then have "s = s' \<and> r = r'"
      using run_unique [of ?vs s r s' r' s] runs [OF c'(1)] run sr s c' by simp
    with c'(1) sr show ?thesis by simp
  qed
  with runs that eq sorted show thesis by blast
qed

section \<open>What an episode records\<close>

definition run_end :: "f64 list \<Rightarrow> nat option \<Rightarrow> nat" where
  "run_end vs r = (case r of Some e \<Rightarrow> e | None \<Rightarrow> length vs)"

lemma is_run_simps:
  assumes "is_run vs (s, r)"
  shows "s < run_end vs r" "run_end vs r \<le> length vs" "s \<le> i \<Longrightarrow> i < run_end vs r \<Longrightarrow> vs ! i < 0"
    "r = Some e \<Longrightarrow> e < length vs" "r = Some e \<Longrightarrow> 0 \<le> vs ! e"
  using assms by (auto simp: is_run_def run_end_def split: option.splits)

lemma py_min_Min: "xs \<noteq> [] \<Longrightarrow> py_min xs = Min (set xs)"
proof -
  have "foldl min a xs = Min (insert a (set xs))" for a :: f64 and xs
  proof (induction xs arbitrary: a)
    case (Cons x xs)
    then show ?case by (cases "xs = []") (simp_all add: min.assoc)
  qed simp
  then show "xs \<noteq> [] \<Longrightarrow> py_min xs = Min (set xs)" by (cases xs) (simp_all add: py_min_def)
qed

lemma segment_nth:
  assumes "is_run vs (s, r)"
  shows "segment vs s r \<noteq> []" "j < length (segment vs s r) \<Longrightarrow> segment vs s r ! j = vs ! (s + j)"
    "s + j < run_end vs r \<Longrightarrow> j < length (segment vs s r)"
    "j < length (segment vs s r) \<Longrightarrow> s + j < run_end vs r \<or> r = Some (s + j)"
  using assms by (auto simp: segment_def is_run_def run_end_def min_def split: option.splits if_splits)

text \<open>The trough is the first lowest value of the run, and its value the depth.\<close>

lemma run_trough:
  assumes laws: "numeric_laws ops" and run: "is_run vs (s, r)"
  obtains t where "t = s + np_argmin ops (segment vs s r)" "s \<le> t" "t < run_end vs r"
    "py_min (segment vs s r) = vs ! t" "\<And>i. s \<le> i \<Longrightarrow> i < run_end vs r \<Longrightarrow> vs ! t \<le> vs ! i"
    "\<And>i. s \<le> i \<Longrightarrow> i < t \<Longrightarrow> vs ! t < vs ! i"
proof -
  let ?seg = "segment vs s r"
  define j where "j = np_argmin ops ?seg"
  note seg = segment_nth [OF run]
  have j: "j < length ?seg" unfolding j_def by (rule numeric_lawsD(6) [OF laws seg(1)])
  have least: "?seg ! j \<le> y" if "y \<in> set ?seg" for y
    unfolding j_def by (rule numeric_lawsD(7) [OF laws that])
  have le: "vs ! (s + j) \<le> vs ! i" if "s \<le> i" "i < run_end vs r" for i
  proof -
    from that seg(3) [of "i - s"] have i: "i - s < length ?seg" by simp
    have "?seg ! j \<le> ?seg ! (i - s)" by (rule least [OF nth_mem [OF i]])
    with seg(2) [OF j] seg(2) [OF i] that show ?thesis by simp
  qed
  have first: "vs ! (s + j) < vs ! i" if "s \<le> i" "i < s + j" for i
  proof -
    have ij: "i - s < j" "i - s < length ?seg" using that j by linarith+
    have "?seg ! j < ?seg ! (i - s)"
      using numeric_lawsD(8) [OF laws seg(1)] ij(1) by (simp add: j_def)
    with seg(2) [OF j] seg(2) [OF ij(2)] that show ?thesis by simp
  qed
  have neg: "vs ! (s + j) < 0"
    using le [of s] is_run_simps(1) [OF run] is_run_simps(3) [OF run, of s] by fastforce
  have "s + j < run_end vs r"
    using seg(4) [OF j] is_run_simps(5) [OF run, of "s + j"] neg by auto
  moreover have "py_min ?seg = vs ! (s + j)"
  proof -
    have "Min (set ?seg) = ?seg ! j" using least nth_mem [OF j] by (intro Min_eqI) auto
    then show ?thesis using py_min_Min [OF seg(1)] seg(2) [OF j] by simp
  qed
  ultimately show thesis using that [of "s + j"] le first by (simp add: j_def)
qed

text \<open>What an episode says of its run.\<close>

definition describes :: "numeric_ops \<Rightarrow> episode_context \<Rightarrow> nat \<times> nat option \<Rightarrow> episode_record \<Rightarrow> bool" where
  "describes ops c run e \<longleftrightarrow>
     (case run of (s, r) \<Rightarrow>
        ep_peak_date e = (if s = 0 then None else Some (ec_dates c ! (s - 1))) \<and>
        ep_recovery_date e = map_option (\<lambda>i. ec_dates c ! i) r \<and>
        ep_is_recovered e = (r \<noteq> None) \<and>
        (\<exists>t. s \<le> t \<and> t < run_end (ec_values c) r \<and> ep_trough_date e = ec_dates c ! t \<and>
           ep_depth e = ec_values c ! t \<and>
           (\<forall>i. s \<le> i \<longrightarrow> i < run_end (ec_values c) r \<longrightarrow> ec_values c ! t \<le> ec_values c ! i) \<and>
           (\<forall>i. s \<le> i \<longrightarrow> i < t \<longrightarrow> ec_values c ! t < ec_values c ! i)))"

lemma run_described:
  assumes "numeric_laws ops" "is_run (ec_values c) (s, r)"
  shows "describes ops c (s, r) (run_record ops c (s, r))"
proof -
  obtain t where "t = s + np_argmin ops (segment (ec_values c) s r)" "s \<le> t" "t < run_end (ec_values c) r"
    "py_min (segment (ec_values c) s r) = ec_values c ! t"
    "\<And>i. s \<le> i \<Longrightarrow> i < run_end (ec_values c) r \<Longrightarrow> ec_values c ! t \<le> ec_values c ! i"
    "\<And>i. s \<le> i \<Longrightarrow> i < t \<Longrightarrow> ec_values c ! t < ec_values c ! i"
    using run_trough [OF assms] by metis
  then show ?thesis
    by (auto simp: describes_def run_record_def episode_record_from_segment_def Let_def episode_peak_date_def
        intro!: exI [of _ t])
qed

text \<open>
  C20: The episodes are the maximal runs of values below zero, each once and in the order of time: an episode
  starts after the value that was last not below zero, recovers at the first that is not again, or stays
  open at the end; its trough is the first of the lowest values and its depth that value.
\<close>

theorem episodes_are_maximal_runs:
  assumes "numeric_laws ops"
  shows "\<exists>runs. sorted_wrt (\<lambda>a b. fst a < fst b) runs \<and> set runs = {run. is_run (ec_values c) run} \<and>
    list_all2 (describes ops c) runs (build_episodes_from_values ops c)"
proof -
  obtain runs where "build_episodes_from_values ops c = map (run_record ops c) runs"
    "sorted_wrt (\<lambda>a b. fst a < fst b) runs" "set runs = {run. is_run (ec_values c) run}"
    by (rule episodes_runs)
  moreover have "list_all2 (describes ops c) rs (map (run_record ops c) rs)"
    if "set rs \<subseteq> {run. is_run (ec_values c) run}" for rs
    using that by (induction rs) (auto intro: run_described [OF assms])
  ultimately show ?thesis by (intro exI [of _ runs]) simp
qed

section \<open>The path\<close>

lemma path_lengths:
  assumes "numeric_laws ops"
  shows "length (wealth_path ops returns) = length returns"
    "length (running_peak ops (wealth_path ops returns)) = length returns"
    "length (drawdown_path (wealth_path ops returns) (running_peak ops (wealth_path ops returns))) = length returns"
  using numeric_lawsD(1,4) [OF assms] by (simp_all add: wealth_path_def running_peak_def drawdown_path_def)

definition drawdown_run :: "numeric_ops \<Rightarrow> f64 list \<Rightarrow> f64 list \<Rightarrow> f64 list \<Rightarrow> f64 list \<Rightarrow> bool" where
  "drawdown_run ops returns wealth peak path \<longleftrightarrow>
     numeric_laws ops \<and> wealth = wealth_path ops returns \<and> peak = running_peak ops wealth \<and>
     path = drawdown_path wealth peak"

lemma run_lengths:
  assumes "drawdown_run ops returns wealth peak path"
  shows "length wealth = length returns" "length peak = length returns" "length path = length returns"
  using assms path_lengths [of ops] by (simp_all add: drawdown_run_def)

lemma wealth_f64:
  assumes "drawdown_run ops returns wealth peak path" "i < length returns"
  shows "is_f64 (wealth ! i)"
proof (cases i)
  case 0
  obtain x xs where "returns = x # xs" using assms(2) by (cases returns) auto
  with 0 assms(1) numeric_lawsD(2) [of ops] show ?thesis by (simp add: drawdown_run_def wealth_path_def)
next
  case (Suc j)
  with assms numeric_lawsD(3) [of ops j "map (\<lambda>r. fadd 1 (fdiv r 100)) returns"] show ?thesis
    by (simp add: drawdown_run_def wealth_path_def)
qed

lemma peak_nth:
  assumes "drawdown_run ops returns wealth peak path" "i < length returns"
  shows "peak ! i = max (Max (set (take (Suc i) wealth))) 1"
  using assms numeric_lawsD(4,5) [of ops] run_lengths(1) [OF assms(1)]
  by (simp add: drawdown_run_def running_peak_def)

lemma peak_step:
  assumes d: "drawdown_run ops returns wealth peak path" and i: "Suc i < length returns"
  shows "peak ! Suc i = max (peak ! i) (wealth ! Suc i)"
proof -
  have "take (Suc (Suc i)) wealth = take (Suc i) wealth @ [wealth ! Suc i]"
    using i run_lengths(1) [OF d] by (simp add: take_Suc_conv_app_nth)
  then have "set (take (Suc (Suc i)) wealth) = insert (wealth ! Suc i) (set (take (Suc i) wealth))" by auto
  moreover have "finite (set (take (Suc i) wealth))" "set (take (Suc i) wealth) \<noteq> {}"
    using i run_lengths(1) [OF d] by (cases wealth; simp)+
  ultimately show ?thesis using i by (simp add: peak_nth [OF d] max.commute max.left_commute)
qed

lemma peak_bounds:
  assumes d: "drawdown_run ops returns wealth peak path"
  shows "i < length returns \<Longrightarrow> is_f64 (peak ! i) \<and> 1 \<le> peak ! i \<and> wealth ! i \<le> peak ! i"
proof (induction i)
  case 0
  have "peak ! 0 = max (wealth ! 0) 1"
    using 0 run_lengths(1) [OF d] by (simp add: peak_nth [OF d] take_Suc_conv_app_nth)
  then show ?case using 0 wealth_f64 [OF d, of 0] by (simp add: max_def)
next
  case (Suc i)
  then show ?case using wealth_f64 [OF d, of "Suc i"] by (auto simp: peak_step [OF d] max_def)
qed

lemma path_nth:
  assumes "drawdown_run ops returns wealth peak path" "i < length returns"
  shows "path ! i = fsub (fdiv (wealth ! i) (peak ! i)) 1"
  using assms run_lengths [OF assms(1)] by (simp add: drawdown_run_def drawdown_path_def)

text \<open>A drawdown is never above zero, and below it exactly where the wealth is below its peak.\<close>

lemma path_sign:
  assumes d: "drawdown_run ops returns wealth peak path" and i: "i < length returns"
  shows "path ! i < 0 \<longleftrightarrow> wealth ! i < peak ! i" "path ! i \<le> 0"
  using drop_negative_iff [of "wealth ! i" "peak ! i"] wealth_f64 [OF d i] peak_bounds [OF d i]
  by (simp_all add: path_nth [OF d i])

lemma peak_mono:
  assumes d: "drawdown_run ops returns wealth peak path"
  shows "i \<le> j \<Longrightarrow> j < length returns \<Longrightarrow> peak ! i \<le> peak ! j"
proof (induction j)
  case (Suc j)
  then show ?case
  proof (cases "i \<le> j")
    case True
    with Suc have "peak ! i \<le> peak ! j" by simp
    with Suc.prems(2) show ?thesis by (simp add: peak_step [OF d] le_max_iff_disj)
  qed (simp add: le_Suc_eq)
qed simp

lemma peak_constant:
  assumes d: "drawdown_run ops returns wealth peak path"
  shows "i \<le> j \<Longrightarrow> j < length returns \<Longrightarrow> (\<And>k. i < k \<Longrightarrow> k \<le> j \<Longrightarrow> path ! k < 0) \<Longrightarrow> peak ! j = peak ! i"
proof (induction j)
  case (Suc j)
  show ?case
  proof (cases "i \<le> j")
    case True
    have "path ! Suc j < 0" using Suc.prems(3) [of "Suc j"] True by simp
    then have "wealth ! Suc j < peak ! Suc j" using path_sign(1) [OF d Suc.prems(2)] by simp
    then have "peak ! Suc j = peak ! j"
      using peak_step [OF d Suc.prems(2)] by (auto simp: max_def split: if_splits)
    moreover have "peak ! j = peak ! i" using Suc True by simp
    ultimately show ?thesis by simp
  next
    case False
    with Suc.prems(1) show ?thesis by (simp add: le_Suc_eq)
  qed
qed simp

text \<open>Where the wealth next reaches the peak it had at an index below it.\<close>

lemma find_append: "find P (xs @ ys) = (case find P xs of None \<Rightarrow> find P ys | Some x \<Rightarrow> Some x)"
  by (induction xs) auto

lemma recovery_index:
  assumes d: "drawdown_run ops returns wealth peak path"
    and run: "\<And>i. t \<le> i \<Longrightarrow> i < e \<Longrightarrow> path ! i < 0" and e: "t < e" "e \<le> length returns"
    and stop: "e < length returns \<Longrightarrow> 0 \<le> path ! e"
  shows "find (\<lambda>i. peak ! t \<le> wealth ! i) [t ..< length wealth] = (if e < length returns then Some e else None)"
proof -
  note len = run_lengths(1) [OF d]
  have below: "\<not> peak ! t \<le> wealth ! i" if ti: "t \<le> i" "i < e" for i
  proof -
    have i: "i < length returns" using ti e(2) by simp
    have "peak ! i = peak ! t" using ti i by (intro peak_constant [OF d]) (auto intro: run)
    moreover have "wealth ! i < peak ! i" using run [OF ti] path_sign(1) [OF d i] by simp
    ultimately show ?thesis by simp
  qed
  have "e = t + (e - t)" "length wealth = e + (length wealth - e)" using e len by simp_all
  then have split: "[t ..< length wealth] = [t ..< e] @ [e ..< length wealth]"
    by (metis e(1) le_add1 less_imp_le upt_add_eq_append)
  have none: "find (\<lambda>i. peak ! t \<le> wealth ! i) [t ..< e] = None"
    using below by (auto simp: find_None_iff)
  show ?thesis
  proof (cases "e < length returns")
    case True
    have "wealth ! e = peak ! e"
      using stop [OF True] path_sign(1) [OF d True] peak_bounds [OF d True] by simp
    then have "peak ! t \<le> wealth ! e" using peak_mono [OF d, of t e] e(1) True by simp
    with True len have "find (\<lambda>i. peak ! t \<le> wealth ! i) [e ..< length wealth] = Some e"
      by (simp add: upt_conv_Cons)
    with True show ?thesis unfolding split find_append none by simp
  next
    case False
    with e len show ?thesis unfolding split find_append none by simp
  qed
qed

section \<open>The worst drawdown\<close>

lemma min_episode_fold:
  "\<exists>pre post. e # es = pre @ foldl (\<lambda>m x. if ep_depth x < ep_depth m then x else m) e es # post \<and>
     (\<forall>x\<in>set pre. ep_depth (foldl (\<lambda>m x. if ep_depth x < ep_depth m then x else m) e es) < ep_depth x) \<and>
     (\<forall>x\<in>set post. ep_depth (foldl (\<lambda>m x. if ep_depth x < ep_depth m then x else m) e es) \<le> ep_depth x)"
proof (induction es rule: rev_induct)
  case Nil
  show ?case by (intro exI [of _ "[]"]) simp
next
  case (snoc x es)
  let ?m = "foldl (\<lambda>m x. if ep_depth x < ep_depth m then x else m) e es"
  from snoc obtain pre post where split: "e # es = pre @ ?m # post"
    and pre: "\<forall>x\<in>set pre. ep_depth ?m < ep_depth x" and post: "\<forall>x\<in>set post. ep_depth ?m \<le> ep_depth x" by blast
  show ?case
  proof (cases "ep_depth x < ep_depth ?m")
    case True
    have "e # es @ [x] = (e # es) @ x # []" by simp
    moreover have "\<forall>y\<in>set (e # es). ep_depth x < ep_depth y"
      unfolding split using pre post True by auto
    ultimately show ?thesis using True by (intro exI [of _ "e # es"] exI [of _ "[]"]) simp
  next
    case False
    have "e # es @ [x] = pre @ ?m # (post @ [x])" using split by simp
    with False pre post show ?thesis by (intro exI [of _ pre] exI [of _ "post @ [x]"]) auto
  qed
qed

lemma min_episode_split:
  assumes "es \<noteq> []"
  obtains m pre post where "min_episode es = Some m" "es = pre @ m # post"
    "\<forall>x\<in>set pre. ep_depth m < ep_depth x" "\<forall>x\<in>set post. ep_depth m \<le> ep_depth x"
proof -
  obtain e es' where "es = e # es'" using assms by (cases es) auto
  with min_episode_fold [of e es'] that show thesis by auto
qed

lemma deepest_run:
  fixes runs :: "(nat \<times> nat option) list"
  assumes sorted: "sorted_wrt (\<lambda>a b. fst a < fst b) runs" and ne: "runs \<noteq> []"
  obtains s r where "min_episode (map f runs) = Some (f (s, r))" "(s, r) \<in> set runs"
    "\<And>run. run \<in> set runs \<Longrightarrow> ep_depth (f (s, r)) \<le> ep_depth (f run)"
    "\<And>run. run \<in> set runs \<Longrightarrow> fst run < s \<Longrightarrow> ep_depth (f (s, r)) < ep_depth (f run)"
proof -
  from ne obtain m pre post where m: "min_episode (map f runs) = Some m" "map f runs = pre @ m # post"
    "\<forall>x\<in>set pre. ep_depth m < ep_depth x" "\<forall>x\<in>set post. ep_depth m \<le> ep_depth x"
    using min_episode_split [of "map f runs"] by auto
  define k where "k = length pre"
  have k: "k < length runs" using arg_cong [OF m(2), of length] by (simp add: k_def)
  obtain s r where kr: "runs ! k = (s, r)" by (cases "runs ! k")
  have "map f runs ! k = m" unfolding k_def m(2) by simp
  then have fm: "m = f (s, r)" using k kr by simp
  have "ep_depth m \<le> ep_depth (f run)" if "run \<in> set runs" for run
  proof -
    have "f run \<in> set (pre @ m # post)" using that m(2) by (metis image_eqI list.set_map)
    with m(3,4) show ?thesis by (auto intro: less_imp_le)
  qed
  moreover have "ep_depth m < ep_depth (f run)" if run: "run \<in> set runs" "fst run < s" for run
  proof -
    obtain j where j: "j < length runs" "runs ! j = run" using run(1) by (auto simp: in_set_conv_nth)
    have "j < k"
      using sorted_wrt_nth_less [OF sorted, of k j] j kr run(2) by (cases j k rule: linorder_cases) auto
    then have "f run = pre ! j"
      using arg_cong [OF m(2), of "\<lambda>l. l ! j"] j by (simp add: k_def nth_append)
    with m(3) \<open>j < k\<close> show ?thesis by (simp add: k_def)
  qed
  ultimately show thesis using that [of s r] m(1) fm nth_mem [OF k] kr by simp
qed

text \<open>Every value below zero lies in a run.\<close>

lemma first_below:
  fixes i :: nat
  assumes "P i"
  obtains s where "s \<le> i" "\<And>k. s \<le> k \<Longrightarrow> k \<le> i \<Longrightarrow> P k" "0 < s \<Longrightarrow> \<not> P (s - 1)"
  using assms
proof (induction i arbitrary: thesis)
  case 0
  then show ?case by auto
next
  case (Suc i)
  show ?case
  proof (cases "P i")
    case True
    from Suc.IH [OF _ True] obtain s where s: "s \<le> i" "\<And>k. s \<le> k \<Longrightarrow> k \<le> i \<Longrightarrow> P k" "0 < s \<Longrightarrow> \<not> P (s - 1)"
      by blast
    show ?thesis
      by (rule Suc.prems(1) [of s]) (use s Suc.prems(2) in \<open>auto simp: le_Suc_eq\<close>)
  next
    case False
    with Suc.prems(2) show ?thesis by (intro Suc.prems(1) [of "Suc i"]) (auto simp: le_Suc_eq)
  qed
qed

lemma negative_in_run:
  assumes i: "i < length vs" "vs ! i < 0"
  obtains s r where "is_run vs (s, r)" "s \<le> i" "i < run_end vs r"
proof -
  obtain s where s: "s \<le> i" "\<And>k. s \<le> k \<Longrightarrow> k \<le> i \<Longrightarrow> vs ! k < 0" "0 < s \<Longrightarrow> \<not> vs ! (s - 1) < 0"
    using first_below [of "\<lambda>k. vs ! k < 0", OF i(2)] by metis
  show thesis
  proof (cases "\<exists>e. i < e \<and> e < length vs \<and> 0 \<le> vs ! e")
    case True
    then obtain e where e: "i < e" "e < length vs" "0 \<le> vs ! e" and before: "\<forall>k<e. \<not> (i < k \<and> k < length vs \<and> 0 \<le> vs ! k)"
      using exists_least_iff [of "\<lambda>e. i < e \<and> e < length vs \<and> 0 \<le> vs ! e"] by auto
    have "vs ! k < 0" if "s \<le> k" "k < e" for k
      using that s(2) before e(2) by (cases "k \<le> i") (auto simp: not_le)
    then have "is_run vs (s, Some e)" using s e i by (auto simp: is_run_def)
    with s e that show thesis by (simp add: run_end_def)
  next
    case False
    then have "vs ! k < 0" if "s \<le> k" "k < length vs" for k
      using that s(2) by (cases "k \<le> i") (auto simp: not_le)
    then have "is_run vs (s, None)" using s i by (auto simp: is_run_def)
    with s i that show thesis by (simp add: run_end_def)
  qed
qed

lemma same_run:
  assumes "is_run vs (s, r)" "is_run vs (s', r')" "s \<le> i" "s' \<le> i" "i < run_end vs r" "i < run_end vs r'"
  shows "s = s' \<and> r = r'"
  using assms is_run_simps(2) [OF assms(1)]
  by (intro run_unique [OF assms(1,2,3,4)]) (auto simp: run_end_def split: option.splits)

text \<open>The deepest episode of a series holds its first lowest value.\<close>

lemma deepest_episode:
  assumes laws: "numeric_laws ops" and neg: "\<exists>i<length (ec_values c). ec_values c ! i < 0"
    and t_def: "t = np_argmin ops (ec_values c)"
  obtains s r m where "is_run (ec_values c) (s, r)" "min_episode (build_episodes_from_values ops c) = Some m"
    "m = run_record ops c (s, r)" "s \<le> t" "t < run_end (ec_values c) r"
    "ep_trough_date m = ec_dates c ! t" "ep_depth m = ec_values c ! t"
proof -
  let ?vs = "ec_values c"
  obtain runs where eq: "build_episodes_from_values ops c = map (run_record ops c) runs"
    and sorted: "sorted_wrt (\<lambda>a b. fst a < fst b) runs" and set: "set runs = {run. is_run ?vs run}"
    by (rule episodes_runs)
  have ne: "?vs \<noteq> []" using neg by auto
  have t: "t < length ?vs" unfolding t_def by (rule numeric_lawsD(6) [OF laws ne])
  have least: "?vs ! t \<le> v" if "v \<in> set ?vs" for v unfolding t_def by (rule numeric_lawsD(7) [OF laws that])
  have first: "?vs ! t < ?vs ! i" if "i < t" for i
    using numeric_lawsD(8) [OF laws ne] that by (simp add: t_def)
  have "?vs ! t < 0" using neg least by (meson le_less_trans nth_mem)
  then obtain s r where run: "is_run ?vs (s, r)" "s \<le> t" "t < run_end ?vs r" by (rule negative_in_run [OF t])
  then have mem: "(s, r) \<in> set runs" using set by simp
  then obtain s' r' where m: "min_episode (map (run_record ops c) runs) = Some (run_record ops c (s', r'))"
    "(s', r') \<in> set runs" "ep_depth (run_record ops c (s', r')) \<le> ep_depth (run_record ops c (s, r))"
    "s < s' \<Longrightarrow> ep_depth (run_record ops c (s', r')) < ep_depth (run_record ops c (s, r))"
    using deepest_run [OF sorted, of "run_record ops c"] by (metis empty_iff empty_set fst_conv)
  have run': "is_run ?vs (s', r')" using m(2) set by simp
  from run_described [OF laws run(1)] obtain u where u: "ep_depth (run_record ops c (s, r)) = ?vs ! u"
    "\<forall>i. s \<le> i \<longrightarrow> i < run_end ?vs r \<longrightarrow> ?vs ! u \<le> ?vs ! i"
    by (auto simp: describes_def)
  from run_described [OF laws run'] obtain t' where t': "s' \<le> t'" "t' < run_end ?vs r'"
    "ep_trough_date (run_record ops c (s', r')) = ec_dates c ! t'" "ep_depth (run_record ops c (s', r')) = ?vs ! t'"
    "\<forall>i. s' \<le> i \<longrightarrow> i < t' \<longrightarrow> ?vs ! t' < ?vs ! i"
    by (auto simp: describes_def)
  have t'len: "t' < length ?vs" using t'(2) is_run_simps(2) [OF run'] by simp
  have ut: "?vs ! u \<le> ?vs ! t" using u(2) run(2,3) by blast
  have eqd: "?vs ! t' = ?vs ! t" using m(3) u(1) t'(4) ut least [OF nth_mem [OF t'len]] by simp
  have tt': "t \<le> t'" using first [of t'] eqd by (cases "t' < t") auto
  have "s' \<le> s"
  proof (rule ccontr)
    assume "\<not> s' \<le> s"
    then have "?vs ! t' < ?vs ! u" using m(4) t'(4) u(1) by simp
    with ut eqd show False by simp
  qed
  then have s: "s' = s \<and> r' = r"
    using run t'(2) tt' by (intro same_run [OF run' run(1), of t]) auto
  then have "t' = t" using t'(5) tt' run(2) eqd by (cases "t < t'") auto
  with that [OF run(1) _ _ run(2,3)] m(1) s t'(3,4) eq show thesis by simp
qed

section \<open>The summary and the risk report\<close>

definition path_context :: "date list \<Rightarrow> f64 list \<Rightarrow> duration_unit \<Rightarrow> episode_context" where
  "path_context dates vs unit = \<lparr>ec_dates = dates, ec_values = vs, ec_duration_unit = unit\<rparr>"

lemma path_context_simps [simp]:
  "ec_dates (path_context dates vs unit) = dates" "ec_values (path_context dates vs unit) = vs"
  "ec_duration_unit (path_context dates vs unit) = unit"
  by (simp_all add: path_context_def)

lemma summary_fields:
  assumes "drawdown \<noteq> []" "summarize_drawdown ops alpha unit drawdown = (summary, episodes)"
  shows "episodes = build_episodes_from_values ops (path_context (series_dates drawdown) (series_values drawdown) unit)"
    "ds_max_drawdown summary = Some (de_max_drawdown (drawdown_extreme_fields episodes))"
    "ds_trough_date summary = de_trough_date (drawdown_extreme_fields episodes)"
    "ds_recovery_date summary = de_recovery_date (drawdown_extreme_fields episodes)"
    "ds_is_recovered summary = de_is_recovered (drawdown_extreme_fields episodes)"
    "ds_days_to_recovery summary = de_days_to_recovery (drawdown_extreme_fields episodes)"
    "ds_time_under_water_days summary = length (filter (\<lambda>x. x < 0) (series_values drawdown))"
  using assms
  by (auto simp: summarize_drawdown_def build_episodes_def path_context_def Let_def series_values_def
      filter_map comp_def split: prod.splits)

lemma no_negative_no_runs:
  assumes "\<And>i. i < length (ec_values c) \<Longrightarrow> 0 \<le> ec_values c ! i"
  shows "build_episodes_from_values ops c = []"
proof -
  obtain runs where eq: "build_episodes_from_values ops c = map (run_record ops c) runs"
    and set: "set runs = {run. is_run (ec_values c) run}"
    by (rule episodes_runs)
  have "\<not> is_run (ec_values c) run" for run
  proof
    assume r: "is_run (ec_values c) run"
    obtain s r where "run = (s, r)" by (cases run)
    with r is_run_simps(1,2,3) [of "ec_values c" s r] assms [of s] show False by force
  qed
  with set have "runs = []" by auto
  with eq show ?thesis by simp
qed

text \<open>
  The maximum drawdown of a summary is the lowest value of the series, or zero, and the time under water the
  number of values below zero; the trough is the date of the first lowest value.
\<close>

lemma summary_extremes:
  assumes laws: "numeric_laws ops" and ne: "drawdown \<noteq> []"
    and s: "summarize_drawdown ops alpha unit drawdown = (summary, episodes)"
  shows "ds_max_drawdown summary = Some (Min (insert 0 (set (series_values drawdown))))"
    "ds_trough_date summary =
       (if \<exists>v\<in>set (series_values drawdown). v < 0
        then Some (series_dates drawdown ! np_argmin ops (series_values drawdown)) else None)"
proof -
  let ?vs = "series_values drawdown" and ?c = "path_context (series_dates drawdown) (series_values drawdown) unit"
  note f = summary_fields [OF ne s]
  have vne: "?vs \<noteq> []" using ne by (simp add: series_values_def)
  have both: "de_max_drawdown (drawdown_extreme_fields episodes) = Min (insert 0 (set ?vs)) \<and>
    de_trough_date (drawdown_extreme_fields episodes) =
       (if \<exists>v\<in>set ?vs. v < 0 then Some (series_dates drawdown ! np_argmin ops ?vs) else None)"
  proof (cases "\<exists>v\<in>set ?vs. v < 0")
    case True
    then have "\<exists>i<length (ec_values ?c). ec_values ?c ! i < 0" by (auto simp: path_context_def in_set_conv_nth)
    from deepest_episode [OF laws this refl] obtain s r m where
      m: "min_episode (build_episodes_from_values ops ?c) = Some m"
      "ep_trough_date m = series_dates drawdown ! np_argmin ops ?vs" "ep_depth m = ?vs ! np_argmin ops ?vs"
      by (auto simp: path_context_def)
    have "Min (insert 0 (set ?vs)) = ?vs ! np_argmin ops ?vs"
    proof (rule Min_eqI)
      have "?vs ! np_argmin ops ?vs \<le> v" if "v \<in> set ?vs" for v by (rule numeric_lawsD(7) [OF laws that])
      with True show "?vs ! np_argmin ops ?vs \<le> y" if "y \<in> insert 0 (set ?vs)" for y
        using that by (auto intro: order_trans less_imp_le)
      show "?vs ! np_argmin ops ?vs \<in> insert 0 (set ?vs)"
        using nth_mem [OF numeric_lawsD(6) [OF laws vne]] by simp
    qed simp
    with True m f(1) show ?thesis by (simp add: drawdown_extreme_fields_def)
  next
    case False
    then have nn: "\<And>v. v \<in> set ?vs \<Longrightarrow> 0 \<le> v" by (auto simp: not_less)
    have "build_episodes_from_values ops ?c = []"
      by (rule no_negative_no_runs) (use nn nth_mem in \<open>auto simp: path_context_def\<close>)
    moreover have "Min (insert 0 (set ?vs)) = 0" using nn by (intro Min_eqI) auto
    ultimately show ?thesis using False f(1) by (simp add: drawdown_extreme_fields_def)
  qed
  with f show "ds_max_drawdown summary = Some (Min (insert 0 (set ?vs)))"
    "ds_trough_date summary = (if \<exists>v\<in>set ?vs. v < 0
        then Some (series_dates drawdown ! np_argmin ops ?vs) else None)"
    by simp_all
qed

lemma run_record_recovery:
  "ep_recovery_date (run_record ops c (s, r)) = map_option (\<lambda>i. ec_dates c ! i) r"
  "ep_is_recovered (run_record ops c (s, r)) = (r \<noteq> None)"
  "ep_days_to_recovery (run_record ops c (s, r)) =
     map_option (\<lambda>i. duration_days ops (ec_duration_unit c) (ep_trough_date (run_record ops c (s, r))) (ec_dates c ! i)) r"
  by (auto simp: run_record_def episode_record_from_segment_def Let_def option.map_comp comp_def)

text \<open>The recovery the risk report finds is the end of the run the trough lies in.\<close>

lemma recovery_of_run:
  assumes d: "drawdown_run ops returns wealth peak path" and run: "is_run path (s, r)"
    and t: "s \<le> t" "t < run_end path r"
  shows "find_recovery dates wealth p t (peak ! t) =
    (case r of
       None \<Rightarrow> \<lparr>dw_recovery_date = None, dw_is_recovered = False, dw_days_to_recovery = None,
         dw_time_under_water_days = map_option (\<lambda>q. days_between (last dates) (dates ! q)) p\<rparr>
     | Some e \<Rightarrow> \<lparr>dw_recovery_date = Some (dates ! e), dw_is_recovered = True,
         dw_days_to_recovery = Some (days_between (dates ! e) (dates ! t)),
         dw_time_under_water_days = map_option (\<lambda>q. days_between (dates ! e) (dates ! q)) p\<rparr>)"
proof -
  note simps = is_run_simps [OF run] and len = run_lengths(3) [OF d]
  have "find (\<lambda>i. peak ! t \<le> wealth ! i) [t ..< length wealth] =
      (if run_end path r < length returns then Some (run_end path r) else None)"
  proof (rule recovery_index [OF d _ t(2)])
    show "path ! i < 0" if "t \<le> i" "i < run_end path r" for i using that t(1) simps(3) by simp
    show "run_end path r \<le> length returns" using simps(2) len by simp
    show "0 \<le> path ! run_end path r" if "run_end path r < length returns"
      using that len simps(5) by (cases r) (auto simp: run_end_def)
  qed
  moreover have "run_end path r < length returns \<longleftrightarrow> r \<noteq> None"
    using simps(4) len by (cases r) (auto simp: run_end_def)
  ultimately show ?thesis by (cases r) (auto simp: find_recovery_def run_end_def)
qed

text \<open>
  C21: The drawdown of the risk report and the summary of the drawdown report speak of the same drawdown.  For
  the same returns, at least one and in the order of their dates, the maximum is the same, in percent, and
  where it is not zero so are its trough, its recovery and whether it recovered.  The days it took to recover
  are those between the two dates: calendar days in the risk report, and in the drawdown report the days of
  its duration unit, business days by default.
\<close>

theorem risk_and_drawdown_reports_agree:
  assumes laws: "numeric_laws ops" and ne: "returns \<noteq> []" and sorted: "sorted_wrt (<) (series_dates returns)"
    and s: "summarize_drawdown ops alpha unit (drawdown_from_returns ops returns) = (summary, episodes)"
  shows "map_option (\<lambda>x. fmul x 100) (ds_max_drawdown summary) =
      Some (dx_max_drawdown (risk_drawdown_details ops returns)) \<and>
    (ds_max_drawdown summary = Some 0 \<or>
      ds_trough_date summary = dx_trough_date (risk_drawdown_details ops returns) \<and>
      ds_recovery_date summary = dx_recovery_date (risk_drawdown_details ops returns) \<and>
      ds_is_recovered summary = dx_is_recovered (risk_drawdown_details ops returns) \<and>
      (case (ds_trough_date summary, ds_recovery_date summary) of
         (Some trough, Some recovery) \<Rightarrow>
           dx_days_to_recovery (risk_drawdown_details ops returns) = Some (days_between recovery trough) \<and>
           ds_days_to_recovery summary = Some (case unit of
             CalendarDays \<Rightarrow> days_between recovery trough | BusinessDays \<Rightarrow> np_busday_count ops trough recovery)
       | _ \<Rightarrow> dx_days_to_recovery (risk_drawdown_details ops returns) = None \<and> ds_days_to_recovery summary = None))"
proof -
  define vs where "vs = series_values returns"
  define wealth where "wealth = wealth_path ops vs"
  define peak where "peak = running_peak ops wealth"
  define path where "path = drawdown_path wealth peak"
  define dates where "dates = series_dates returns"
  define D where "D = drawdown_from_returns ops returns"
  define t where "t = np_argmin ops path"
  have d: "drawdown_run ops vs wealth peak path"
    by (simp add: drawdown_run_def laws wealth_def peak_def path_def)
  note len = run_lengths [OF d]
  have vlen: "length vs = length returns" "length dates = length returns"
    by (simp_all add: vs_def series_values_def dates_def series_dates_def)
  have D: "D = zip dates path"
    by (simp add: D_def drawdown_from_returns_def Let_def vs_def wealth_def peak_def path_def dates_def)
  have Dv: "series_values D = path" "series_dates D = dates"
    using len vlen by (simp_all add: D series_values_def series_dates_def)
  have pne: "path \<noteq> []" "D \<noteq> []" using ne len vlen by (auto simp: D)
  have t: "t < length path" unfolding t_def by (rule numeric_lawsD(6) [OF laws pne(1)])
  have least: "path ! t \<le> v" if "v \<in> set path" for v unfolding t_def by (rule numeric_lawsD(7) [OF laws that])
  have Min: "Min (insert 0 (set path)) = path ! t"
    using path_sign(2) [OF d, of t] t len least nth_mem [OF t] by (intro Min_eqI) auto
  have x: "risk_drawdown_details ops returns = (let p = find (\<lambda>i. peak ! t \<le> wealth ! i) [0 ..< Suc t];
      recovery = find_recovery dates wealth p t (peak ! t) in
      \<lparr>dx_max_drawdown = fmul (path ! t) 100, dx_peak_date = map_option (\<lambda>p. dates ! p) p,
       dx_trough_date = Some (dates ! t), dx_recovery_date = dw_recovery_date recovery,
       dx_is_recovered = dw_is_recovered recovery,
       dx_days_to_trough = map_option (\<lambda>p. days_between (dates ! t) (dates ! p)) p,
       dx_days_to_recovery = dw_days_to_recovery recovery,
       dx_time_under_water_days = dw_time_under_water_days recovery\<rparr>)"
    using pne(1) unfolding risk_drawdown_details_def Let_def
    by (simp add: vs_def [symmetric] wealth_def [symmetric] peak_def [symmetric] path_def [symmetric]
        dates_def [symmetric] t_def [symmetric])
  note s' = s [folded D_def]
  note f = summary_fields [OF pne(2) s', unfolded Dv]
  have max: "ds_max_drawdown summary = Some (path ! t)"
    using summary_extremes(1) [OF laws pne(2) s'] by (simp only: Dv Min)
  show ?thesis
  proof (cases "path ! t = 0")
    case True
    with max x show ?thesis by (simp add: Let_def)
  next
    case False
    then have neg: "\<exists>i<length (ec_values (path_context dates path unit)). ec_values (path_context dates path unit) ! i < 0"
      using path_sign(2) [OF d, of t] t len by (auto intro!: exI [of _ t])
    obtain s r m where m: "is_run path (s, r)"
      "min_episode (build_episodes_from_values ops (path_context dates path unit)) = Some m"
      "m = run_record ops (path_context dates path unit) (s, r)" "s \<le> t" "t < run_end path r"
      "ep_trough_date m = dates ! t"
      using deepest_episode [OF laws neg refl] unfolding path_context_simps t_def [symmetric] by metis
    note rec = run_record_recovery [of ops "path_context dates path unit" s r, folded m(3)]
    have later: "\<not> dates ! e < dates ! t" if "r = Some e" for e
      using sorted_wrt_nth_less [OF sorted [folded dates_def], of t e] is_run_simps(4) [OF m(1) that] m(5) that vlen len
      by (auto simp: run_end_def)
    show ?thesis
      using max m(2,6) f rec recovery_of_run [OF d m(1,4,5)] x later
      by (auto simp: Let_def drawdown_extreme_fields_def duration_days_def split: option.splits)
  qed
qed


lemma gains_grow:
  assumes d: "drawdown_run ops returns wealth peak path" and nn: "\<forall>r\<in>set returns. 0 \<le> r"
  shows "i < length returns \<Longrightarrow> 1 \<le> wealth ! i \<and> peak ! i = wealth ! i"
proof (induction i)
  case 0
  obtain x xs where r: "returns = x # xs" using 0 by (cases returns) auto
  have "wealth ! 0 = fadd 1 (fdiv x 100)"
    using d r numeric_lawsD(2) [of ops] by (simp add: drawdown_run_def wealth_path_def)
  moreover have "0 \<le> fdiv x 100" using nn r by (simp add: fdiv_def rnd_nonneg)
  ultimately have "1 \<le> wealth ! 0" using fadd_ge_left [of 1] by simp
  then show ?case using 0 run_lengths(1) [OF d] by (simp add: peak_nth [OF d] take_Suc_conv_app_nth)
next
  case (Suc i)
  let ?x = "fadd 1 (fdiv (returns ! Suc i) 100)"
  have step: "wealth ! Suc i = fmul (wealth ! i) ?x"
    using d Suc.prems numeric_lawsD(3) [of ops i "map (\<lambda>r. fadd 1 (fdiv r 100)) returns"]
    by (simp add: drawdown_run_def wealth_path_def)
  have "0 \<le> fdiv (returns ! Suc i) 100" using nn Suc.prems by (simp add: fdiv_def rnd_nonneg)
  then have "1 \<le> ?x" using fadd_ge_left [of 1] by simp
  moreover have w: "1 \<le> wealth ! i" "is_f64 (wealth ! i)" using Suc wealth_f64 [OF d, of i] by simp_all
  ultimately have "wealth ! i * 1 \<le> wealth ! i * ?x" by (intro mult_left_mono) simp_all
  then have "rnd (wealth ! i) \<le> fmul (wealth ! i) ?x" unfolding fmul_def by (intro rnd_mono) simp
  with w have "wealth ! i \<le> wealth ! Suc i" by (simp add: is_f64_def step)
  with Suc w show ?case using peak_step [OF d Suc.prems] by simp
qed

text \<open>
  A drawdown is never above zero, and it is zero exactly where the wealth reaches the greatest of one and
  all wealth before; returns that are not negative have none, and no episode.
\<close>

theorem drawdown_measures_the_peak:
  assumes laws: "numeric_laws ops"
    and path: "path = series_values (drawdown_from_returns ops returns)"
    and wealth: "wealth = wealth_path ops (series_values returns)"
  shows "length path = length returns \<and>
    (\<forall>i<length path. path ! i \<le> 0 \<and> (path ! i = 0 \<longleftrightarrow> wealth ! i = max (Max (set (take (Suc i) wealth))) 1)) \<and>
    ((\<exists>r\<in>set (series_values returns). r < 0) \<or> set path \<subseteq> {0} \<and> build_episodes ops unit (drawdown_from_returns ops returns) = [])"
proof -
  let ?peak = "running_peak ops wealth" and ?vs = "series_values returns"
  have d: "drawdown_run ops ?vs wealth ?peak (drawdown_path wealth ?peak)"
    by (simp add: drawdown_run_def laws wealth)
  note len = run_lengths [OF d]
  have lv: "length ?vs = length returns" "length (series_dates returns) = length returns"
    by (simp_all add: series_values_def series_dates_def)
  have p: "path = drawdown_path wealth ?peak"
    using len lv by (simp add: path drawdown_from_returns_def Let_def wealth series_values_def [of "zip _ _"])
  have sign: "path ! i \<le> 0 \<and> (path ! i = 0 \<longleftrightarrow> wealth ! i = max (Max (set (take (Suc i) wealth))) 1)"
    if i: "i < length ?vs" for i
    using path_sign [OF d i] peak_bounds [OF d i] peak_nth [OF d i] unfolding p by force
  have gains: "set path \<subseteq> {0} \<and> build_episodes ops unit (drawdown_from_returns ops returns) = []"
    if nn: "\<not> (\<exists>r\<in>set ?vs. r < 0)"
  proof -
    have "path ! i = 0" if i: "i < length ?vs" for i
      using gains_grow [OF d _ i] nn path_sign [OF d i] unfolding p by force
    then have zero: "set path \<subseteq> {0}" using len(3) p by (auto simp: in_set_conv_nth)
    then have "build_episodes_from_values ops (path_context ds path unit) = []" for ds
      by (intro no_negative_no_runs) (use nth_mem in force)
    with zero show ?thesis by (simp add: build_episodes_def path [symmetric] flip: path_context_def)
  qed
  show ?thesis using sign gains len(3) lv p by auto
qed

section \<open>Examples\<close>

definition sample_returns :: series where
  "sample_returns = [(Date 2026 1 2, -50), (Date 2026 1 5, 100), (Date 2026 1 6, -25)]"

lemma sample_path:
  "drawdown_from_returns reference_ops sample_returns =
     [(Date 2026 1 2, -1 / 2), (Date 2026 1 5, 0), (Date 2026 1 6, -1 / 4)]"
  by code_simp

theorem episodes_are_maximal_runs_witness:
  "\<exists>runs. set runs = {run. is_run [-1 / 2, 0, -1 / 4] run} \<and>
     list_all2 (describes reference_ops (path_context (series_dates sample_returns) [-1 / 2, 0, -1 / 4] BusinessDays)) runs
       (build_episodes_from_values reference_ops
          (path_context (series_dates sample_returns) [-1 / 2, 0, -1 / 4] BusinessDays)) \<and>
     map ep_depth (build_episodes_from_values reference_ops
          (path_context (series_dates sample_returns) [-1 / 2, 0, -1 / 4] BusinessDays)) = [-1 / 2, -1 / 4]"
proof -
  let ?c = "path_context (series_dates sample_returns) [-1 / 2, 0, -1 / 4] BusinessDays"
  have "map ep_depth (build_episodes_from_values reference_ops ?c) = [-1 / 2, -1 / 4]" by code_simp
  with episodes_are_maximal_runs [OF numeric_laws_reference, of ?c] show ?thesis by simp blast
qed

lemma sample_summary:
  "ds_max_drawdown (fst (summarize_drawdown reference_ops (flit (95 / 100)) CalendarDays
     (drawdown_from_returns reference_ops sample_returns))) = Some (- 1 / 2)"
  unfolding sample_path by code_simp

theorem risk_and_drawdown_reports_agree_witness:
  "dx_max_drawdown (risk_drawdown_details reference_ops sample_returns) = fmul (- 1 / 2) 100 \<and>
   dx_recovery_date (risk_drawdown_details reference_ops sample_returns) =
     ds_recovery_date (fst (summarize_drawdown reference_ops (flit (95 / 100)) CalendarDays
       (drawdown_from_returns reference_ops sample_returns)))"
proof -
  obtain summary episodes where s: "summarize_drawdown reference_ops (flit (95 / 100)) CalendarDays
     (drawdown_from_returns reference_ops sample_returns) = (summary, episodes)"
    by (cases "summarize_drawdown reference_ops (flit (95 / 100)) CalendarDays
       (drawdown_from_returns reference_ops sample_returns)")
  have ne: "sample_returns \<noteq> []" by (simp add: sample_returns_def)
  have sorted: "sorted_wrt (<) (series_dates sample_returns)" by code_simp
  from risk_and_drawdown_reports_agree [OF numeric_laws_reference ne sorted s] sample_summary s
  show ?thesis by auto
qed

theorem drawdown_measures_the_peak_witness:
  "series_values (drawdown_from_returns reference_ops sample_returns) = [-1 / 2, 0, -1 / 4] \<and>
   wealth_path reference_ops (series_values sample_returns) ! 1 =
     max (Max (set (take 2 (wealth_path reference_ops (series_values sample_returns))))) 1"
proof -
  have v: "series_values (drawdown_from_returns reference_ops sample_returns) = [-1 / 2, 0, -1 / 4]"
    by (simp add: sample_path series_values_def)
  from drawdown_measures_the_peak [OF numeric_laws_reference v [symmetric] refl] v show ?thesis
    by (auto simp: numeral_2_eq_2 dest: spec [of _ 1])
qed

end
