(* ===== verification/DrawdownEngine.thy ===== *)
theory DrawdownEngine
  imports Main StatefulReturns DrawdownSeries
begin

text \<open>
  The drawdown report: its request (contracts/drawdown_common_inputs.py, drawdown_stateless_inputs.py,
  drawdown_stateful_inputs.py, drawdown_request_inputs.py), the series of a period
  (services/drawdown_period_series.py), the comparison with a benchmark
  (services/drawdown_relative_benchmark.py), the results of the periods (services/drawdown_periods.py), the
  response (services/drawdown_engine.py), its stateful sourcing (services/drawdown_mode_adapter.py) and
  the route (routers/drawdown.py).
\<close>

section \<open>Requests\<close>

datatype report_mode = ReportStateless | ReportStateful
datatype missing_policy = MissingIgnore | MissingRequire

record benchmark_policy =
  bp_include_benchmark :: bool
  bp_missing_benchmark_policy :: missing_policy

record drawdown_options =
  do_include_underwater_series :: bool
  do_include_episode_list :: bool
  do_top_n_episodes :: int
  do_cdar_alpha :: f64
  do_minimum_episode_depth_bps :: f64
  do_duration_unit :: duration_unit

record drawdown_stateless_input =
  dl_scope :: risk_scope
  dl_periods :: "risk_period list"
  dl_returns :: "return_point list"
  dl_benchmark_returns :: "return_point list"

record drawdown_stateful_input =
  df_portfolio_id :: string
  df_as_of_date :: date
  df_client_id :: "string option"
  df_benchmark_id :: "string option"
  df_reporting_currency :: "string option"
  df_net_or_gross :: net_or_gross
  df_periods :: "risk_period list"
  df_benchmark_policy :: benchmark_policy

record drawdown_request =
  dq_input_mode :: report_mode
  dq_stateless_input :: "drawdown_stateless_input option"
  dq_stateful_input :: "drawdown_stateful_input option"
  dq_benchmark_policy :: benchmark_policy
  dq_analysis_options :: drawdown_options

definition validate_drawdown_options :: "drawdown_options \<Rightarrow> (string, unit) result" where
  "validate_drawdown_options opts =
     (if do_top_n_episodes opts < 1 \<or> 50 < do_top_n_episodes opts then Inl ''top_n_episodes''
      else if do_minimum_episode_depth_bps opts < 0 then Inl ''minimum_episode_depth_bps''
      else raise_if (do_cdar_alpha opts \<notin> {flit (90 / 100), flit (95 / 100), flit (99 / 100)})
        ''cdar_alpha must be one of 0.90, 0.95, or 0.99'')"

definition validate_drawdown_stateless :: "drawdown_stateless_input \<Rightarrow> (string, unit) result" where
  "validate_drawdown_stateless payload =
     bind_result (validate_unique_period_names (dl_periods payload)) (\<lambda>_.
     bind_result (validate_unique_return_dates (dl_returns payload) ''returns'') (\<lambda>_.
       validate_unique_return_dates (dl_benchmark_returns payload) ''benchmark_returns''))"

definition validate_drawdown_stateful :: "drawdown_stateful_input \<Rightarrow> (string, unit) result" where
  "validate_drawdown_stateful payload = validate_unique_period_names (df_periods payload)"

definition validate_drawdown_request :: "drawdown_request \<Rightarrow> (string, unit) result" where
  "validate_drawdown_request rq =
     (if dq_input_mode rq = ReportStateless \<and> dq_stateless_input rq = None
      then Inl ''stateless_input is required when input_mode=stateless''
      else if dq_input_mode rq = ReportStateful \<and> dq_stateful_input rq = None
      then Inl ''stateful_input is required when input_mode=stateful''
      else raise_if (dq_input_mode rq = ReportStateful \<and> bp_include_benchmark (dq_benchmark_policy rq))
        (''benchmark_policy is only supported for stateless drawdown requests; '' @
         ''use stateful_input.benchmark_policy for input_mode=stateful''))"

section \<open>The series of a period\<close>

record drawdown_frames =
  dm_portfolio :: series
  dm_benchmark :: series

record drawdown_period_series =
  dp_name :: string
  dp_start :: date
  dp_end :: date
  dp_portfolio_returns :: series
  dp_benchmark_returns :: series
  dp_benchmark_available :: bool

definition build_input_frames :: "drawdown_stateless_input \<Rightarrow> drawdown_frames" where
  "build_input_frames request =
     \<lparr>dm_portfolio = returns_frame (dl_returns request),
      dm_benchmark = returns_frame (dl_benchmark_returns request)\<rparr>"

definition period_series ::
  "drawdown_frames \<Rightarrow> drawdown_stateless_input \<Rightarrow> risk_period \<Rightarrow> date \<Rightarrow>
     (calculation_error, drawdown_period_series) result"
where
  "period_series frames request period open_date =
     bind_result (resolve_period period (rq_as_of_date (dl_scope request)) open_date) (\<lambda>(start, finish).
       Inr \<lparr>dp_name = period_name period, dp_start = start, dp_end = finish,
         dp_portfolio_returns = filter_period (dm_portfolio frames) start finish,
         dp_benchmark_returns = (if dm_benchmark frames \<noteq> [] then filter_period (dm_benchmark frames) start finish else []),
         dp_benchmark_available = (dm_benchmark frames \<noteq> [])\<rparr>)"

section \<open>The benchmark\<close>

datatype relative_reason = NotRequested | BenchmarkMissing | NoAlignedObservations | BenchmarkApplied

record relative_context =
  rl_requested :: bool
  rl_applied :: bool
  rl_reason :: relative_reason
  rl_aligned_observation_count :: nat

record relative_summary =
  rm_max_drawdown :: "f64 option"
  rm_peak_date :: "date option"
  rm_trough_date :: "date option"
  rm_recovery_date :: "date option"
  rm_is_recovered :: bool
  rm_days_to_trough :: "int option"
  rm_days_to_recovery :: "int option"
  rm_time_under_water_days :: nat

definition relative_benchmark_context :: "bool option \<Rightarrow> bool \<Rightarrow> nat option \<Rightarrow> relative_context" where
  "relative_benchmark_context include_benchmark benchmark_available aligned_count =
     (let requested = (include_benchmark = Some True) in
      case aligned_count of
        Some n \<Rightarrow> \<lparr>rl_requested = requested, rl_applied = (0 < n),
          rl_reason = (if 0 < n then BenchmarkApplied else NoAlignedObservations),
          rl_aligned_observation_count = n\<rparr>
      | None \<Rightarrow> \<lparr>rl_requested = requested, rl_applied = False,
          rl_reason = (if benchmark_available then NoAlignedObservations
            else if \<not> requested then NotRequested else BenchmarkMissing),
          rl_aligned_observation_count = 0\<rparr>)"

definition relative_drawdown_summary :: "drawdown_summary \<Rightarrow> relative_summary" where
  "relative_drawdown_summary s =
     \<lparr>rm_max_drawdown = ds_max_drawdown s, rm_peak_date = ds_peak_date s, rm_trough_date = ds_trough_date s,
      rm_recovery_date = ds_recovery_date s, rm_is_recovered = ds_is_recovered s,
      rm_days_to_trough = ds_days_to_trough s, rm_days_to_recovery = ds_days_to_recovery s,
      rm_time_under_water_days = ds_time_under_water_days s\<rparr>"

definition active_returns :: "(date \<times> f64 \<times> f64) list \<Rightarrow> series" where
  "active_returns aligned = map (\<lambda>(d, p, b). (d, fsub p b)) aligned"

definition relative_benchmark_result ::
  "numeric_ops \<Rightarrow> drawdown_period_series \<Rightarrow> bool option \<Rightarrow> drawdown_options \<Rightarrow>
     relative_summary option \<times> relative_context"
where
  "relative_benchmark_result ops s include_benchmark opts =
     (if dp_benchmark_returns s = []
      then (None, relative_benchmark_context include_benchmark (dp_benchmark_available s) None)
      else let aligned = merge_inner (dp_portfolio_returns s) (dp_benchmark_returns s);
               context' = relative_benchmark_context include_benchmark (dp_benchmark_available s)
                 (Some (length aligned))
           in if aligned = [] then (None, context')
              else (Some (relative_drawdown_summary (fst (summarize_drawdown ops (do_cdar_alpha opts)
                      (do_duration_unit opts) (drawdown_from_returns ops (active_returns aligned))))), context'))"

section \<open>The results of the periods\<close>

record drawdown_episode =
  dn_episode_id :: string
  dn_record :: episode_record

record drawdown_period_result =
  dz_start_date :: date
  dz_end_date :: date
  dz_portfolio_observation_count :: nat
  dz_benchmark_observation_count :: nat
  dz_summary :: "drawdown_summary option"
  dz_episodes :: "drawdown_episode list"
  dz_relative :: "relative_summary option"
  dz_relative_context :: relative_context
  dz_underwater_series :: "series option"
  dz_error :: "string option"

definition insufficient_period_result ::
  "drawdown_period_series \<Rightarrow> bool option \<Rightarrow> drawdown_period_result"
where
  "insufficient_period_result s include_benchmark =
     \<lparr>dz_start_date = dp_start s, dz_end_date = dp_end s, dz_portfolio_observation_count = 0,
      dz_benchmark_observation_count = 0, dz_summary = None, dz_episodes = [], dz_relative = None,
      dz_relative_context = \<lparr>rl_requested = (include_benchmark = Some True), rl_applied = False,
        rl_reason = (if include_benchmark = Some True then BenchmarkMissing else NotRequested),
        rl_aligned_observation_count = 0\<rparr>,
      dz_underwater_series = None, dz_error = Some ''Insufficient data''\<rparr>"

definition episode_models :: "episode_record list \<Rightarrow> drawdown_options \<Rightarrow> drawdown_episode list" where
  "episode_models episodes opts =
     (let min_depth = fdiv (do_minimum_episode_depth_bps opts) 10000;
          kept = take (nat (do_top_n_episodes opts))
            (sort_key ep_depth (filter (\<lambda>e. min_depth \<le> \<bar>ep_depth e\<bar>) episodes))
      in if \<not> do_include_episode_list opts then []
         else map (\<lambda>(index, e). \<lparr>dn_episode_id = ''dd_'' @ pad0 4 (digits_of (index + 1)), dn_record = e\<rparr>)
           (enumerate 0 kept))"

definition calculate_period_result ::
  "numeric_ops \<Rightarrow> drawdown_period_series \<Rightarrow> drawdown_options \<Rightarrow> bool option \<Rightarrow> drawdown_period_result"
where
  "calculate_period_result ops s opts include_benchmark =
     (if dp_portfolio_returns s = [] then insufficient_period_result s include_benchmark
      else let drawdown = drawdown_from_returns ops (dp_portfolio_returns s);
               (summary, episodes) = summarize_drawdown ops (do_cdar_alpha opts) (do_duration_unit opts) drawdown;
               (relative, context') = relative_benchmark_result ops s include_benchmark opts
           in \<lparr>dz_start_date = dp_start s, dz_end_date = dp_end s,
               dz_portfolio_observation_count = length (dp_portfolio_returns s),
               dz_benchmark_observation_count = length (dp_benchmark_returns s), dz_summary = Some summary,
               dz_episodes = episode_models episodes opts, dz_relative = relative,
               dz_relative_context = context',
               dz_underwater_series = (if do_include_underwater_series opts then Some drawdown else None),
               dz_error = None\<rparr>)"

fun drawdown_period_results ::
  "numeric_ops \<Rightarrow> drawdown_stateless_input \<Rightarrow> drawdown_frames \<Rightarrow> drawdown_options \<Rightarrow> bool option \<Rightarrow> date \<Rightarrow>
     risk_period list \<Rightarrow> (string, drawdown_period_result) dict \<Rightarrow>
     (calculation_error, (string, drawdown_period_result) dict) result"
where
  "drawdown_period_results ops request frames opts include_benchmark open_date [] results = Inr results"
| "drawdown_period_results ops request frames opts include_benchmark open_date (period # periods) results =
     bind_result (period_series frames request period open_date) (\<lambda>s.
       drawdown_period_results ops request frames opts include_benchmark open_date periods
         (AList.update (dp_name s) (calculate_period_result ops s opts include_benchmark) results))"

section \<open>The response\<close>

record drawdown_metadata =
  dt_request_fingerprint :: string
  dt_options :: drawdown_options
  dt_include_benchmark :: "bool option"
  dt_missing_benchmark_policy :: "missing_policy option"
  dt_supportability :: supportability
  dt_evidence :: "returns_evidence option"
  dt_source_services :: "string list"
  dt_upstream_fingerprints :: "(string, string) dict"

record drawdown_response =
  dr_input_mode :: report_mode
  dr_scope :: risk_scope
  dr_results :: "(string, drawdown_period_result) dict"
  dr_metadata :: drawdown_metadata

text \<open>What the posture reads of a result.\<close>

definition relative_reason_code :: "relative_reason \<Rightarrow> string" where
  "relative_reason_code r =
     (case r of NotRequested \<Rightarrow> ''NOT_REQUESTED'' | BenchmarkMissing \<Rightarrow> ''BENCHMARK_UNAVAILABLE''
      | NoAlignedObservations \<Rightarrow> ''NO_ALIGNED_OBSERVATIONS'' | BenchmarkApplied \<Rightarrow> ''APPLIED'')"

definition drawdown_result_view :: "drawdown_period_result \<Rightarrow> period_result" where
  "drawdown_result_view r =
     \<lparr>pd_portfolio_observation_count = Some (dz_portfolio_observation_count r), pd_series_count = None,
      pd_error = dz_error r,
      pd_relative_context = Some \<lparr>dc_requested = rl_requested (dz_relative_context r),
        dc_reason = relative_reason_code (rl_reason (dz_relative_context r)),
        dc_applied = Some (rl_applied (dz_relative_context r)), dc_available = None, dc_aligned = None\<rparr>,
      pd_benchmark_context = None, pd_risk_free_context = None, pd_attribution_sets = [], pd_metric_errors = []\<rparr>"

definition build_drawdown_response ::
  "drawdown_stateless_input fingerprints \<Rightarrow> drawdown_stateless_input \<Rightarrow> report_mode \<Rightarrow> drawdown_options \<Rightarrow>
     bool option \<Rightarrow> missing_policy option \<Rightarrow> returns_evidence option \<Rightarrow>
     (string, drawdown_period_result) dict \<Rightarrow> (calculation_error, drawdown_response) result"
where
  "build_drawdown_response fp request mode opts include_benchmark policy evidence results =
     bind_result (composed_supportability
       (supportability_from_period_results (map pt_date (dl_returns request)) (rq_as_of_date (dl_scope request))
         (map (\<lambda>(k, r). (k, drawdown_result_view r)) results)) evidence) (\<lambda>s.
       Inr \<lparr>dr_input_mode = mode, dr_scope = dl_scope request, dr_results = results,
         dr_metadata = \<lparr>dt_request_fingerprint = fp_model fp request, dt_options = opts,
           dt_include_benchmark = include_benchmark, dt_missing_benchmark_policy = policy,
           dt_supportability = s, dt_evidence = evidence, dt_source_services = [''lotus-risk''],
           dt_upstream_fingerprints = []\<rparr>\<rparr>)"

definition calculate_drawdown ::
  "numeric_ops \<Rightarrow> drawdown_stateless_input fingerprints \<Rightarrow> drawdown_stateless_input \<Rightarrow> report_mode \<Rightarrow>
     drawdown_options \<Rightarrow> bool option \<Rightarrow> missing_policy option \<Rightarrow> returns_evidence option \<Rightarrow>
     (calculation_error, drawdown_response) result"
where
  "calculate_drawdown ops fp request mode opts include_benchmark policy evidence =
     (let frames = build_input_frames request in
      case dm_portfolio frames of
        [] \<Rightarrow> build_drawdown_response fp request mode opts include_benchmark policy evidence []
      | (open_date, _) # _ \<Rightarrow>
          bind_result (drawdown_period_results ops request frames opts include_benchmark open_date
            (dl_periods request) []) (\<lambda>results.
          build_drawdown_response fp request mode opts include_benchmark policy evidence results))"

section \<open>Stateful sourcing\<close>

definition drawdown_returns_query :: "drawdown_stateful_input \<Rightarrow> returns_query" where
  "drawdown_returns_query stateful =
     \<lparr>qy_portfolio_id = df_portfolio_id stateful, qy_as_of_date = df_as_of_date stateful,
      qy_periods = df_periods stateful, qy_frequency = ''DAILY'', qy_metric_basis = df_net_or_gross stateful,
      qy_reporting_currency = df_reporting_currency stateful,
      qy_include_benchmark = bp_include_benchmark (df_benchmark_policy stateful), qy_include_risk_free = False,
      qy_missing_data_policy =
        (if bp_missing_benchmark_policy (df_benchmark_policy stateful) = MissingRequire then ''FAIL_FAST''
         else ''ALLOW_PARTIAL''),
      qy_benchmark_id = df_benchmark_id stateful\<rparr>"

definition parse_drawdown_source_series ::
  "field_readers \<Rightarrow> json_object \<Rightarrow> drawdown_stateful_input \<Rightarrow> json_object \<Rightarrow>
     (calculation_error, sourced_returns) result"
where
  "parse_drawdown_source_series readers response stateful payload =
     bind_result (extract_required_portfolio_returns readers ''DAILY'' response) (\<lambda>(series, portfolio_points).
     bind_result (to_return_points readers ''DAILY'' (json_get series ''benchmark_returns'')) (\<lambda>benchmark_points.
     bind_result (raise_if (bp_include_benchmark (df_benchmark_policy stateful) \<and> benchmark_points = [] \<and>
         bp_missing_benchmark_policy (df_benchmark_policy stateful) = MissingRequire)
       (PlainValueError
         ''lotus-performance returns-series returned no benchmark returns while benchmark was required'')) (\<lambda>_.
     bind_result (extract_stateful_returns_source_evidence readers response
         \<lparr>si_portfolio_id = df_portfolio_id stateful, si_as_of_date = df_as_of_date stateful,
          si_frequency = ''DAILY'', si_metric_basis = net_or_gross_value (df_net_or_gross stateful)\<rparr>
         (Some (requested_window_of payload)) (Some portfolio_points)) (\<lambda>evidence.
       Inr \<lparr>sr_payload = payload, sr_portfolio_points = portfolio_points,
         sr_benchmark_points = benchmark_points, sr_evidence = evidence\<rparr>))))"

definition drawdown_stateless_request ::
  "drawdown_stateful_input \<Rightarrow> sourced_returns \<Rightarrow> drawdown_stateless_input"
where
  "drawdown_stateless_request stateful source =
     \<lparr>dl_scope = \<lparr>rq_as_of_date = df_as_of_date stateful,
        rq_reporting_currency = df_reporting_currency stateful, rq_net_or_gross = df_net_or_gross stateful\<rparr>,
      dl_periods = df_periods stateful, dl_returns = sr_portfolio_points source,
      dl_benchmark_returns = sr_benchmark_points source\<rparr>"

definition drawdown_from_source ::
  "numeric_ops \<Rightarrow> drawdown_stateless_input fingerprints \<Rightarrow> field_readers \<Rightarrow> drawdown_stateful_input \<Rightarrow>
     drawdown_options \<Rightarrow> json_object \<Rightarrow> json_object \<Rightarrow> (calculation_error, drawdown_response) result"
where
  "drawdown_from_source ops fp readers stateful opts payload response =
     bind_result (parse_drawdown_source_series readers response stateful payload) (\<lambda>source.
     bind_result (calculate_drawdown ops fp (drawdown_stateless_request stateful source) ReportStateful opts
         (Some (bp_include_benchmark (df_benchmark_policy stateful)))
         (Some (bp_missing_benchmark_policy (df_benchmark_policy stateful)))
         (Some (sr_evidence source))) (\<lambda>r.
       Inr (r\<lparr>dr_metadata := (dr_metadata r)
         \<lparr>dt_source_services := ordered_source_services [''lotus-performance''],
          dt_upstream_fingerprints :=
            source_fingerprint fp ''lotus-performance'' RETURNS_SERIES_OPERATION (JObject payload)\<rparr>\<rparr>)))"

definition calculate_drawdown_stateful ::
  "numeric_ops \<Rightarrow> drawdown_stateless_input fingerprints \<Rightarrow> field_readers \<Rightarrow> drawdown_stateful_input \<Rightarrow>
     drawdown_options \<Rightarrow> performance_client \<Rightarrow> downstream_authority \<Rightarrow> drawdown_response io"
where
  "calculate_drawdown_stateful ops fp readers stateful opts client authority =
     bind_io (lift_io (build_stateful_returns_series_request (drawdown_returns_query stateful))) (\<lambda>payload.
     bind_io (execute_returns_series_request client payload authority) (\<lambda>response.
       lift_io (drawdown_from_source ops fp readers stateful opts payload response)))"

section \<open>The route\<close>

definition analytics_risk_drawdown ::
  "numeric_ops \<Rightarrow> drawdown_stateless_input fingerprints \<Rightarrow> field_readers \<Rightarrow> performance_client option \<Rightarrow>
     string option \<Rightarrow> string option \<Rightarrow> drawdown_request \<Rightarrow> trace \<Rightarrow> (route_error, drawdown_response) result \<times> trace"
where
  "analytics_risk_drawdown ops fp readers client tenant_id correlation_id rq t =
     (case dq_input_mode rq of
        ReportStateless \<Rightarrow>
          (case dq_stateless_input rq of
             None \<Rightarrow> (Inl (CalculationFailure
               (PlainValueError ''stateless_input is required when input_mode=stateless'')), t)
           | Some payload \<Rightarrow> (calculation_result (calculate_drawdown ops fp payload ReportStateless
               (dq_analysis_options rq) (Some (bp_include_benchmark (dq_benchmark_policy rq)))
               (Some (bp_missing_benchmark_policy (dq_benchmark_policy rq))) None), t))
      | ReportStateful \<Rightarrow>
          (case dq_stateful_input rq of
             None \<Rightarrow> (Inl (CalculationFailure
               (PlainValueError ''stateful_input is required when input_mode=stateful'')), t)
           | Some stateful \<Rightarrow> stateful_route tenant_id correlation_id client (\<lambda>c authority.
               calculate_drawdown_stateful ops fp readers stateful (dq_analysis_options rq) c authority) t))"

section \<open>Every period is answered\<close>

lemma period_results_Inr:
  "drawdown_period_results ops request frames opts ib open_date periods results = Inr out \<Longrightarrow>
     distinct (map fst results @ map period_name periods) \<Longrightarrow>
     \<exists>ss. list_all2 (\<lambda>p s. period_series frames request p open_date = Inr s) periods ss \<and>
       out = results @ map (\<lambda>s. (dp_name s, calculate_period_result ops s opts ib)) ss"
proof (induction periods arbitrary: results)
  case (Cons p ps)
  from Cons.prems(1) obtain s where s: "period_series frames request p open_date = Inr s"
    and rest: "drawdown_period_results ops request frames opts ib open_date ps
      (AList.update (dp_name s) (calculate_period_result ops s opts ib) results) = Inr out"
    by (auto simp: result_simps)
  have name: "dp_name s = period_name p" using s by (auto simp: period_series_def result_simps)
  with Cons.prems(2) have up: "AList.update (dp_name s) (calculate_period_result ops s opts ib) results =
      results @ [(dp_name s, calculate_period_result ops s opts ib)]"
    by (intro update_fresh) auto
  have "distinct (map fst (results @ [(dp_name s, calculate_period_result ops s opts ib)]) @ map period_name ps)"
    using Cons.prems(2) name by auto
  from Cons.IH [OF rest [unfolded up] this] obtain ss where
    "list_all2 (\<lambda>p s. period_series frames request p open_date = Inr s) ps ss"
    "out = (results @ [(dp_name s, calculate_period_result ops s opts ib)]) @
      map (\<lambda>s. (dp_name s, calculate_period_result ops s opts ib)) ss"
    by blast
  with s show ?case by (intro exI [of _ "s # ss"]) simp
qed simp

lemma period_results_Inl:
  "drawdown_period_results ops request frames opts ib open_date periods results = Inl e \<Longrightarrow>
     \<exists>p\<in>set periods. resolve_period p (rq_as_of_date (dl_scope request)) open_date = Inl e"
  by (induction periods arbitrary: results) (auto simp: period_series_def result_simps)

text \<open>
  A report answers every requested period once, under its name and in the order of the request, with the
  dates the period resolves to; the observations it counts are the returns dated in them, and a period has
  a summary, with the lowest value of its drawdown path as the maximum, exactly when it has returns, and
  the error of insufficient data otherwise.
\<close>

definition answers_period ::
  "numeric_ops \<Rightarrow> drawdown_stateless_input \<Rightarrow> date \<Rightarrow> risk_period \<Rightarrow> string \<times> drawdown_period_result \<Rightarrow> bool"
where
  "answers_period ops request open_date p entry \<longleftrightarrow>
     (let r = snd entry;
          s = filter_period (returns_frame (dl_returns request)) (dz_start_date r) (dz_end_date r);
          path = series_values (drawdown_from_returns ops s) in
      fst entry = period_name p \<and>
      resolve_period p (rq_as_of_date (dl_scope request)) open_date = Inr (dz_start_date r, dz_end_date r) \<and>
      dz_portfolio_observation_count r =
        length (period_points (dl_returns request) (dz_start_date r) (dz_end_date r)) \<and>
      dz_error r = (if dz_portfolio_observation_count r = 0 then Some ''Insufficient data'' else None) \<and>
      Option.bind (dz_summary r) ds_max_drawdown =
        (if dz_portfolio_observation_count r = 0 then None else Some (Min (insert 0 (set path)))))"

lemma period_answered:
  assumes laws: "numeric_laws ops"
    and s: "period_series (build_input_frames request) request p open_date = Inr s"
  shows "answers_period ops request open_date p (dp_name s, calculate_period_result ops s opts ib)"
proof -
  let ?f = "filter_period (returns_frame (dl_returns request)) (dp_start s) (dp_end s)"
  have fields: "dp_name s = period_name p" "dp_portfolio_returns s = ?f"
    "resolve_period p (rq_as_of_date (dl_scope request)) open_date = Inr (dp_start s, dp_end s)"
    using s by (auto simp: period_series_def build_input_frames_def result_simps)
  note len = filter_returns_frame [of "dl_returns request" "dp_start s" "dp_end s"]
  show ?thesis
  proof (cases "?f = []")
    case True
    then show ?thesis
      using fields len by (simp add: answers_period_def calculate_period_result_def insufficient_period_result_def)
  next
    case False
    then have ne: "drawdown_from_returns ops ?f \<noteq> []"
      using path_lengths(3) [OF laws, of "series_values ?f"]
      by (auto simp: drawdown_from_returns_def Let_def series_values_def series_dates_def zip_eq_Nil_iff)
    obtain summary episodes where sum: "summarize_drawdown ops (do_cdar_alpha opts) (do_duration_unit opts)
        (drawdown_from_returns ops ?f) = (summary, episodes)" by fastforce
    obtain rel ctx where rel: "relative_benchmark_result ops s ib opts = (rel, ctx)" by fastforce
    have pos: "0 < length (period_points (dl_returns request) (dp_start s) (dp_end s))"
      using len False by (metis length_greater_0_conv)
    show ?thesis
      using summary_extremes(1) [OF laws ne sum] fields len False sum rel pos
      by (simp add: answers_period_def calculate_period_result_def Let_def)
  qed
qed

lemma drawdown_response_fields:
  obtains r where
    "build_drawdown_response fp request mode opts include_benchmark policy evidence results = Inr r"
    "dr_results r = results" "dt_evidence (dr_metadata r) = evidence"
    "su_state (dt_supportability (dr_metadata r)) = StateReady \<longleftrightarrow> dl_returns request \<noteq> [] \<and>
       clean_results (map (\<lambda>(k, r). (k, drawdown_result_view r)) results) \<and>
       freshness_bucket_from_returns (map pt_date (dl_returns request)) (rq_as_of_date (dl_scope request)) \<noteq> FreshStale \<and>
       source_complete evidence"
  by (rule composed_posture [of "map pt_date (dl_returns request)" "rq_as_of_date (dl_scope request)"
      "map (\<lambda>(k, r). (k, drawdown_result_view r)) results" evidence])
    (auto simp: build_drawdown_response_def)

lemma periods_answered:
  assumes laws: "numeric_laws ops" and names: "distinct (map period_name (dl_periods request))"
    and ne: "dl_returns request \<noteq> []"
  shows "case calculate_drawdown ops fp request mode opts include_benchmark policy evidence of
      Inl e \<Rightarrow> \<exists>p\<in>set (dl_periods request).
        resolve_period p (rq_as_of_date (dl_scope request)) (open_date_of (dl_returns request)) = Inl e
    | Inr response \<Rightarrow> list_all2 (answers_period ops request (open_date_of (dl_returns request)))
        (dl_periods request) (dr_results response) \<and> dt_evidence (dr_metadata response) = evidence"
proof -
  let ?d = "open_date_of (dl_returns request)"
  let ?run = "drawdown_period_results ops request (build_input_frames request) opts include_benchmark ?d
      (dl_periods request) []"
  obtain v rest where frame: "returns_frame (dl_returns request) = (?d, v) # rest"
    using returns_frame_opens [OF ne] .
  then have calc: "calculate_drawdown ops fp request mode opts include_benchmark policy evidence =
      bind_result ?run (build_drawdown_response fp request mode opts include_benchmark policy evidence)"
    by (simp add: calculate_drawdown_def build_input_frames_def Let_def)
  show ?thesis
  proof (cases ?run)
    case (Inl e)
    with calc period_results_Inl [OF Inl] show ?thesis by simp
  next
    case (Inr results)
    from period_results_Inr [OF Inr] names obtain ss where
      ss: "list_all2 (\<lambda>p s. period_series (build_input_frames request) request p ?d = Inr s) (dl_periods request) ss"
      and eq: "results = map (\<lambda>s. (dp_name s, calculate_period_result ops s opts include_benchmark)) ss"
      by auto
    have "list_all2 (answers_period ops request ?d) (dl_periods request) results"
      unfolding eq list_all2_map2 by (rule list_all2_mono [OF ss]) (rule period_answered [OF laws])
    moreover obtain r where
      "build_drawdown_response fp request mode opts include_benchmark policy evidence results = Inr r"
      "dr_results r = results" "dt_evidence (dr_metadata r) = evidence"
      by (rule drawdown_response_fields)
    ultimately show ?thesis using calc Inr by simp
  qed
qed

lemma report_without_returns:
  assumes "dl_returns request = []"
  obtains response where
    "calculate_drawdown ops fp request mode opts include_benchmark policy evidence = Inr response"
    "dr_results response = []" "dt_evidence (dr_metadata response) = evidence"
    "su_state (dt_supportability (dr_metadata response)) \<noteq> StateReady"
proof -
  obtain r where
    r: "build_drawdown_response fp request mode opts include_benchmark policy evidence [] = Inr r"
      "dr_results r = []" "dt_evidence (dr_metadata r) = evidence"
      "su_state (dt_supportability (dr_metadata r)) = StateReady \<longleftrightarrow> dl_returns request \<noteq> [] \<and>
         clean_results (map (\<lambda>(k, r). (k, drawdown_result_view r)) []) \<and>
         freshness_bucket_from_returns (map pt_date (dl_returns request)) (rq_as_of_date (dl_scope request)) \<noteq> FreshStale \<and>
         source_complete evidence"
    by (rule drawdown_response_fields)
  with assms show thesis
    by (intro that [of r]) (simp_all add: calculate_drawdown_def build_input_frames_def returns_frame_def)
qed

text \<open>C19: A report on returns answers every requested period once, under its name and in the order of the
  request: with the dates the period resolves to, the number of returns dated in them, the lowest value of
  its drawdown path as the maximum drawdown, or the error of insufficient data when no return is dated in
  them.  A request without any returns is admitted too: its report answers no period and is not ready.  A
  report is refused only when there are returns and a period does not resolve.\<close>

theorem every_period_is_answered:
  assumes "numeric_laws ops" "validate_drawdown_stateless request = Inr ()"
  shows "case calculate_drawdown ops fp request mode opts include_benchmark policy evidence of
      Inl e \<Rightarrow> dl_returns request \<noteq> [] \<and> (\<exists>p\<in>set (dl_periods request).
        resolve_period p (rq_as_of_date (dl_scope request)) (open_date_of (dl_returns request)) = Inl e)
    | Inr response \<Rightarrow> dt_evidence (dr_metadata response) = evidence \<and>
        (if dl_returns request = []
         then dr_results response = [] \<and> su_state (dt_supportability (dr_metadata response)) \<noteq> StateReady
         else list_all2 (answers_period ops request (open_date_of (dl_returns request)))
           (dl_periods request) (dr_results response))"
proof (cases "dl_returns request = []")
  case True
  then obtain response where "calculate_drawdown ops fp request mode opts include_benchmark policy evidence = Inr response"
    "dr_results response = []" "dt_evidence (dr_metadata response) = evidence"
    "su_state (dt_supportability (dr_metadata response)) \<noteq> StateReady"
    by (rule report_without_returns)
  with True show ?thesis by simp
next
  case False
  have "distinct (map period_name (dl_periods request))"
    using assms(2) by (auto simp: validate_drawdown_stateless_def result_simps validate_unique_names_iff)
  from periods_answered [OF assms(1) this False, where fp = fp and mode = mode and opts = opts
      and include_benchmark = include_benchmark and policy = policy and evidence = evidence] False
  show ?thesis by (simp split: sum.splits)
qed

definition example_report :: drawdown_stateless_input where
  "example_report =
     \<lparr>dl_scope = \<lparr>rq_as_of_date = Date 2026 3 31, rq_reporting_currency = None, rq_net_or_gross = Net\<rparr>,
      dl_periods = [example_year 2026],
      dl_returns = map (\<lambda>(d, v). \<lparr>pt_date = d, pt_value = v\<rparr>) sample_returns, dl_benchmark_returns = []\<rparr>"

definition example_options :: drawdown_options where
  "example_options =
     \<lparr>do_include_underwater_series = False, do_include_episode_list = True, do_top_n_episodes = 10,
      do_cdar_alpha = flit (95 / 100), do_minimum_episode_depth_bps = 0, do_duration_unit = BusinessDays\<rparr>"

lemma example_year_resolved:
  "resolve_period (example_year 2026) (Date 2026 3 31) (Date 2026 1 2) = Inr (Date 2026 1 2, Date 2026 12 31)"
  by code_simp

lemma example_answered:
  assumes "answers_period reference_ops example_report (Date 2026 1 2) (example_year 2026) (k, p)"
  shows "k = ''YEAR'' \<and> dz_portfolio_observation_count p = 3 \<and>
     Option.bind (dz_summary p) ds_max_drawdown = Some (- 1 / 2)"
proof -
  have frame: "filter_period (returns_frame (dl_returns example_report)) (Date 2026 1 2) (Date 2026 12 31) = sample_returns"
    by code_simp
  have count: "length (period_points (dl_returns example_report) (Date 2026 1 2) (Date 2026 12 31)) = 3"
    by code_simp
  have fields: "rq_as_of_date (dl_scope example_report) = Date 2026 3 31" "period_name (example_year 2026) = ''YEAR''"
    by (simp_all add: example_report_def example_year_def period_name_def)
  have "dz_start_date p = Date 2026 1 2" "dz_end_date p = Date 2026 12 31"
    using assms by (simp_all add: answers_period_def Let_def fields example_year_resolved)
  with assms show ?thesis
    by (simp add: answers_period_def Let_def fields count frame sample_path series_values_def)
qed

theorem every_period_is_answered_witness:
  "case calculate_drawdown reference_ops example_digests example_report ReportStateless example_options
      (Some False) None None of
     Inl e \<Rightarrow> False
   | Inr response \<Rightarrow> map (\<lambda>(k, p). (k, dz_portfolio_observation_count p, Option.bind (dz_summary p) ds_max_drawdown))
       (dr_results response) = [(''YEAR'', 3, Some (- 1 / 2))]"
proof -
  have valid: "validate_drawdown_stateless example_report = Inr ()" by code_simp
  have ne: "dl_returns example_report \<noteq> []" by (simp add: example_report_def sample_returns_def)
  have opens: "open_date_of (dl_returns example_report) = Date 2026 1 2"
    by (simp add: open_date_of_def example_report_def sample_returns_def less_eq_date_def less_date_def min_def)
  have fields: "dl_periods example_report = [example_year 2026]"
    "rq_as_of_date (dl_scope example_report) = Date 2026 3 31"
    by (simp_all add: example_report_def)
  show ?thesis
    using every_period_is_answered [OF numeric_laws_reference valid, where fp = example_digests
        and mode = ReportStateless and opts = example_options and include_benchmark = "Some False"
        and policy = None and evidence = None]
    using ne unfolding opens fields
    by (auto simp: example_year_resolved list_all2_Cons1 dest!: example_answered split: sum.splits)
qed

section \<open>The episodes a report lists\<close>

lemma take_sorted_least:
  assumes "x \<in> set (sort_key f xs)" "x \<notin> set (take n (sort_key f xs))"
  shows "length (take n (sort_key f xs)) = n \<and> (\<forall>y\<in>set (take n (sort_key f xs)). f y \<le> f x)"
proof -
  let ?s = "sort_key f xs"
  have split: "?s = take n ?s @ drop n ?s" by simp
  then have x: "x \<in> set (drop n ?s)" using assms by (metis Un_iff set_append)
  have "sorted (map f (take n ?s @ drop n ?s))" by simp
  then have "f y \<le> f x" if "y \<in> set (take n ?s)" for y
    using x that unfolding map_append sorted_append by auto
  moreover have "n < length ?s" using x by (metis drop_all empty_iff linorder_not_le set_empty)
  ultimately show ?thesis by simp
qed

lemma enumerated_episodes:
  "map dn_record (map (\<lambda>(i, e). \<lparr>dn_episode_id = g i, dn_record = e\<rparr>) (enumerate n ks)) = ks"
  "map dn_episode_id (map (\<lambda>(i, e). \<lparr>dn_episode_id = g i, dn_record = e\<rparr>) (enumerate n ks)) =
     map g [n ..< n + length ks]"
proof -
  show "map dn_record (map (\<lambda>(i, e). \<lparr>dn_episode_id = g i, dn_record = e\<rparr>) (enumerate n ks)) = ks"
    by (induction ks arbitrary: n) simp_all
  show "map dn_episode_id (map (\<lambda>(i, e). \<lparr>dn_episode_id = g i, dn_record = e\<rparr>) (enumerate n ks)) =
     map g [n ..< n + length ks]"
  proof (induction ks arbitrary: n)
    case (Cons k ks)
    have "[n ..< n + length (k # ks)] = n # [Suc n ..< Suc n + length ks]"
      by (simp add: upt_conv_Cons del: upt_Suc)
    with Cons [of "Suc n"] show ?case by simp
  qed simp
qed

text \<open>
  The listed episodes are the deepest of those that reach the requested depth, deepest first, numbered from
  one, at most as many as were asked for; an episode is left out only for one of these reasons.
\<close>

theorem listed_episodes_are_the_deepest:
  "let listed = episode_models episodes opts; shown = map dn_record listed;
       eligible = filter (\<lambda>e. fdiv (do_minimum_episode_depth_bps opts) 10000 \<le> \<bar>ep_depth e\<bar>) episodes
   in length listed \<le> nat (do_top_n_episodes opts) \<and> set shown \<subseteq> set eligible \<and> sorted (map ep_depth shown) \<and>
      map dn_episode_id listed = map (\<lambda>i. ''dd_'' @ pad0 4 (digits_of (i + 1))) [0 ..< length listed] \<and>
      (do_include_episode_list opts \<longrightarrow>
        (\<forall>e\<in>set eligible - set shown. length listed = nat (do_top_n_episodes opts) \<and>
           (\<forall>x\<in>set shown. ep_depth x \<le> ep_depth e)))"
proof -
  let ?e = "filter (\<lambda>e. fdiv (do_minimum_episode_depth_bps opts) 10000 \<le> \<bar>ep_depth e\<bar>) episodes"
  let ?n = "nat (do_top_n_episodes opts)"
  show ?thesis
  proof (cases "do_include_episode_list opts")
    case False
    then show ?thesis by (simp add: episode_models_def Let_def)
  next
    case True
    let ?k = "take ?n (sort_key ep_depth ?e)"
    have listed: "episode_models episodes opts =
        map (\<lambda>(index, e). \<lparr>dn_episode_id = ''dd_'' @ pad0 4 (digits_of (index + 1)), dn_record = e\<rparr>) (enumerate 0 ?k)"
      using True by (simp add: episode_models_def Let_def)
    have shown: "map dn_record (episode_models episodes opts) = ?k"
      unfolding listed by (rule enumerated_episodes(1))
    have ids: "map dn_episode_id (episode_models episodes opts) =
        map (\<lambda>i. ''dd_'' @ pad0 4 (digits_of (i + 1))) [0 ..< length ?k]"
      unfolding listed enumerated_episodes(2) by simp
    have len: "length (episode_models episodes opts) = length ?k" by (simp add: listed)
    have "sorted (map ep_depth ?k)" by (metis sorted_sort_key sorted_wrt_take take_map)
    moreover have "set ?k \<subseteq> set ?e" by (metis set_sort set_take_subset)
    moreover have "length (episode_models episodes opts) = ?n \<and> (\<forall>x\<in>set ?k. ep_depth x \<le> ep_depth e)"
      if e: "e \<in> set ?e - set ?k" for e
    proof -
      from e have "e \<in> set (sort_key ep_depth ?e)" "e \<notin> set ?k" by simp_all
      from take_sorted_least [OF this] len show ?thesis by simp
    qed
    ultimately show ?thesis unfolding Let_def shown ids len by simp
  qed
qed

section \<open>The policy for a missing benchmark\<close>

text \<open>
  Given the returns, whether a missing benchmark is to be required changes nothing but the policy the
  response repeats: a stateless report without a benchmark is answered the same way under both.
\<close>

theorem missing_policy_is_only_repeated:
  "calculate_drawdown ops fp request mode opts include_benchmark (Some MissingRequire) evidence =
     (case calculate_drawdown ops fp request mode opts include_benchmark (Some MissingIgnore) evidence of
        Inl e \<Rightarrow> Inl e
      | Inr r \<Rightarrow> Inr (r\<lparr>dr_metadata := (dr_metadata r)\<lparr>dt_missing_benchmark_policy := Some MissingRequire\<rparr>\<rparr>))"
proof -
  let ?F = "\<lambda>x. case x of Inl e \<Rightarrow> Inl e
      | Inr r \<Rightarrow> Inr (r\<lparr>dr_metadata := (dr_metadata r)\<lparr>dt_missing_benchmark_policy := Some MissingRequire\<rparr>\<rparr>)"
  have step: "build_drawdown_response fp request mode opts include_benchmark (Some MissingRequire) evidence results =
     ?F (build_drawdown_response fp request mode opts include_benchmark (Some MissingIgnore) evidence results)"
    for results
    unfolding build_drawdown_response_def
    by (cases "composed_supportability
       (supportability_from_period_results (map pt_date (dl_returns request)) (rq_as_of_date (dl_scope request))
         (map (\<lambda>(k, r). (k, drawdown_result_view r)) results)) evidence") simp_all
  have bind: "bind_result m (\<lambda>x. ?F (g x)) = ?F (bind_result m g)" for m and g :: "'a \<Rightarrow> (calculation_error, drawdown_response) result"
    by (cases m) simp_all
  show ?thesis
    unfolding calculate_drawdown_def Let_def step
    by (cases "dm_portfolio (build_input_frames request)") (auto simp only: list.case prod.case bind split: prod.splits)
qed

section \<open>Stateful reports\<close>

definition drawdown_identity :: "drawdown_stateful_input \<Rightarrow> source_identity" where
  "drawdown_identity stateful =
     \<lparr>si_portfolio_id = df_portfolio_id stateful, si_as_of_date = df_as_of_date stateful,
      si_frequency = ''DAILY'', si_metric_basis = net_or_gross_value (df_net_or_gross stateful)\<rparr>"

text \<open>A stateful report is computed only from what one returns-series workflow answered, sent under the
  admitted tenant within its polling budget: the source repeats the portfolio, date and basis of the
  request, its window is the requested one and holds every return, the returns are as many as it
  says, and the report answers every period from them and carries that evidence; a required
  benchmark is there.\<close>

theorem stateful_drawdown_is_sourced:
  assumes laws: "numeric_laws ops" and valid: "validate_drawdown_stateful stateful = Inr ()"
    and run: "calculate_drawdown_stateful ops fp readers stateful opts client authority t = (Inr response, u)"
  shows "\<exists>es payload answer source e.
     u = t @ es \<and> one_workflow client authority es \<and>
     build_stateful_returns_series_request (drawdown_returns_query stateful) = Inr payload \<and>
     returns_source answer (drawdown_identity stateful) (requested_window_of payload) (sr_portfolio_points source) e \<and>
     (bp_include_benchmark (df_benchmark_policy stateful) \<and>
        bp_missing_benchmark_policy (df_benchmark_policy stateful) = MissingRequire \<longrightarrow> sr_benchmark_points source \<noteq> []) \<and>
     dt_evidence (dr_metadata response) = Some e \<and>
     list_all2 (answers_period ops (drawdown_stateless_request stateful source)
       (open_date_of (sr_portfolio_points source))) (df_periods stateful) (dr_results response)"
proof -
  from run [unfolded calculate_drawdown_stateful_def] obtain payload answer es where
    payload: "build_stateful_returns_series_request (drawdown_returns_query stateful) = Inr payload"
    and calc: "drawdown_from_source ops fp readers stateful opts payload answer = Inr response"
    and es: "u = t @ es" "one_workflow client authority es"
    by (rule sourced_calculation)
  from calc obtain source r where
    parse: "parse_drawdown_source_series readers answer stateful payload = Inr source"
    and r: "calculate_drawdown ops fp (drawdown_stateless_request stateful source) ReportStateful opts
         (Some (bp_include_benchmark (df_benchmark_policy stateful)))
         (Some (bp_missing_benchmark_policy (df_benchmark_policy stateful))) (Some (sr_evidence source)) = Inr r"
    and response: "dr_results response = dr_results r"
      "dt_evidence (dr_metadata response) = dt_evidence (dr_metadata r)"
    by (auto simp: drawdown_from_source_def result_simps)
  from parse obtain s where
    points: "extract_required_portfolio_returns readers ''DAILY'' answer = Inr (s, sr_portfolio_points source)"
    and evidence: "extract_stateful_returns_source_evidence readers answer (drawdown_identity stateful)
        (Some (requested_window_of payload)) (Some (sr_portfolio_points source)) = Inr (sr_evidence source)"
    and benchmark: "bp_include_benchmark (df_benchmark_policy stateful) \<and>
        bp_missing_benchmark_policy (df_benchmark_policy stateful) = MissingRequire \<longrightarrow> sr_benchmark_points source \<noteq> []"
    by (auto simp: parse_drawdown_source_series_def drawdown_identity_def result_simps)
  have names: "distinct (map period_name (dl_periods (drawdown_stateless_request stateful source)))"
    using valid by (simp add: validate_drawdown_stateful_def validate_unique_names_iff drawdown_stateless_request_def)
  have ne: "dl_returns (drawdown_stateless_request stateful source) \<noteq> []"
    using required_returns_nonempty [OF points] by (simp add: drawdown_stateless_request_def)
  have source: "returns_source answer (drawdown_identity stateful) (requested_window_of payload)
      (sr_portfolio_points source) (sr_evidence source)"
    by (rule evidence_source [OF evidence])
  from periods_answered [OF laws names ne, where fp = fp
      and mode = ReportStateful and opts = opts and evidence = "Some (sr_evidence source)"] r
  have answered: "list_all2 (answers_period ops (drawdown_stateless_request stateful source)
       (open_date_of (sr_portfolio_points source))) (df_periods stateful) (dr_results r)"
    "dt_evidence (dr_metadata r) = Some (sr_evidence source)"
    by (force simp: drawdown_stateless_request_def split: sum.splits)+
  show ?thesis
    by (intro exI [of _ es] exI [of _ payload] exI [of _ answer] exI [of _ source] exI [of _ "sr_evidence source"])
      (use es payload source benchmark answered response in simp)
qed

definition example_stateful :: drawdown_stateful_input where
  "example_stateful =
     \<lparr>df_portfolio_id = ''P1'', df_as_of_date = Date 2026 3 31, df_client_id = None, df_benchmark_id = None,
      df_reporting_currency = None, df_net_or_gross = Net, df_periods = [example_year 2026],
      df_benchmark_policy = \<lparr>bp_include_benchmark = False, bp_missing_benchmark_policy = MissingIgnore\<rparr>\<rparr>"

lemma example_stateful_run:
  "\<exists>response u. calculate_drawdown_stateful reference_ops example_digests sample_readers example_stateful
     example_options daily_client sample_authority [] = (Inr response, u)"
proof -
  let ?q = "drawdown_returns_query example_stateful"
  obtain payload where payload: "build_stateful_returns_series_request ?q = Inr payload"
    by (simp add: build_stateful_returns_series_request_def drawdown_returns_query_def example_stateful_def daily_window)
  have window: "requested_window_of payload = [(''mode'', JString ''EXPLICIT''),
      (''from_date'', JString ''2026-01-01''), (''to_date'', JString ''2026-12-31'')]"
    using requested_window_of_request [OF payload]
    by (simp add: drawdown_returns_query_def example_stateful_def daily_window)
  obtain e where e: "extract_stateful_returns_source_evidence sample_readers daily_answer daily_identity
     (Some (requested_window_of payload)) (Some [daily_point]) = Inr e"
    unfolding window using daily_answer_accepted by blast
  define source where "source = \<lparr>sr_payload = payload, sr_portfolio_points = [daily_point],
      sr_benchmark_points = [], sr_evidence = e\<rparr>"
  have parse: "parse_drawdown_source_series sample_readers daily_answer example_stateful payload = Inr source"
    using e by (simp add: parse_drawdown_source_series_def daily_answer_returns json_get_def to_return_points_def
        example_stateful_def source_def daily_identity_def net_or_gross_value_def raise_if_def)
  let ?rq = "drawdown_stateless_request example_stateful source"
  have opens: "open_date_of (dl_returns ?rq) = Date 2026 1 2"
    by (simp add: open_date_of_def drawdown_stateless_request_def source_def daily_point_def)
  have fields: "dl_periods ?rq = [example_year 2026]" "rq_as_of_date (dl_scope ?rq) = Date 2026 3 31"
    by (simp_all add: drawdown_stateless_request_def example_stateful_def)
  have "distinct (map period_name (dl_periods ?rq))" "dl_returns ?rq \<noteq> []"
    by (simp_all add: drawdown_stateless_request_def example_stateful_def source_def)
  from periods_answered [OF numeric_laws_reference this, where fp = example_digests and mode = ReportStateful
      and opts = example_options and include_benchmark = "Some False" and policy = "Some MissingIgnore"
      and evidence = "Some e"]
  obtain r where "calculate_drawdown reference_ops example_digests ?rq ReportStateful example_options
      (Some False) (Some MissingIgnore) (Some e) = Inr r"
    unfolding opens fields by (auto simp: example_year_resolved split: sum.splits)
  with parse have "\<exists>r. drawdown_from_source reference_ops example_digests sample_readers example_stateful
      example_options payload daily_answer = Inr r"
    by (simp add: drawdown_from_source_def example_stateful_def source_def)
  then show ?thesis
    using payload daily_client_answers [of payload sample_authority "[]"]
    by (auto simp: calculate_drawdown_stateful_def bind_io_def lift_io_def)
qed

theorem stateful_drawdown_is_sourced_witness:
  "\<exists>response u e. calculate_drawdown_stateful reference_ops example_digests sample_readers example_stateful
     example_options daily_client sample_authority [] = (Inr response, u) \<and>
     one_workflow daily_client sample_authority u \<and> dt_evidence (dr_metadata response) = Some e"
proof -
  obtain response u where run: "calculate_drawdown_stateful reference_ops example_digests sample_readers
      example_stateful example_options daily_client sample_authority [] = (Inr response, u)"
    using example_stateful_run by blast
  have "validate_drawdown_stateful example_stateful = Inr ()" by code_simp
  from stateful_drawdown_is_sourced [OF numeric_laws_reference this run] run show ?thesis by auto
qed

theorem listed_episodes_are_the_deepest_witness:
  "map dn_episode_id (episode_models
     (build_episodes_from_values reference_ops
        (path_context (series_dates sample_returns) [-1 / 2, 0, -1 / 4] BusinessDays)) example_options) =
     map (\<lambda>i. ''dd_'' @ pad0 4 (digits_of (i + 1))) [0 ..< 2]"
proof -
  let ?e = "build_episodes_from_values reference_ops
        (path_context (series_dates sample_returns) [-1 / 2, 0, -1 / 4] BusinessDays)"
  have "length (episode_models ?e example_options) = 2" by code_simp
  with listed_episodes_are_the_deepest [of ?e example_options] show ?thesis by (simp add: Let_def)
qed

end
