(* ===== verification/RiskMetrics.thy ===== *)
theory RiskMetrics
  imports Main StatefulReturns DrawdownSeries
begin

text \<open>
  The metrics of the risk report over one period: the options (contracts/risk_options.py), the return series
  a metric reads (services/risk/metric_return_series.py, services/risk/helpers.py), the metrics of the
  portfolio (services/risk/metric_calculators.py) and against a benchmark
  (services/risk/benchmark_metrics.py), and which of them a period answers
  (services/risk/benchmark_period_metrics.py, services/risk/period_metrics.py).  What numpy, pandas and the
  C library compute over floats are operations of a record; the rounding of each step is kept.
\<close>

section \<open>Options\<close>

datatype risk_metric = Volatility | Drawdown | Sharpe | Sortino | Beta | TrackingError | InformationRatio
  | ValueAtRisk

datatype return_frequency = Daily | Weekly | Monthly
datatype var_method = Historical | Gaussian | CornishFisher
datatype risk_free_mode = ZeroRate | AnnualRate

definition frequency_value :: "return_frequency \<Rightarrow> string" where
  "frequency_value f = (case f of Daily \<Rightarrow> ''DAILY'' | Weekly \<Rightarrow> ''WEEKLY'' | Monthly \<Rightarrow> ''MONTHLY'')"

definition metric_value :: "risk_metric \<Rightarrow> string" where
  "metric_value m =
     (case m of Volatility \<Rightarrow> ''VOLATILITY'' | Drawdown \<Rightarrow> ''DRAWDOWN'' | Sharpe \<Rightarrow> ''SHARPE''
      | Sortino \<Rightarrow> ''SORTINO'' | Beta \<Rightarrow> ''BETA'' | TrackingError \<Rightarrow> ''TRACKING_ERROR''
      | InformationRatio \<Rightarrow> ''INFORMATION_RATIO'' | ValueAtRisk \<Rightarrow> ''VAR'')"

definition var_method_value :: "var_method \<Rightarrow> string" where
  "var_method_value m =
     (case m of Historical \<Rightarrow> ''HISTORICAL'' | Gaussian \<Rightarrow> ''GAUSSIAN'' | CornishFisher \<Rightarrow> ''CORNISH_FISHER'')"

record var_options =
  vo_method :: var_method
  vo_confidence :: f64
  vo_horizon_days :: int
  vo_include_expected_shortfall :: bool

record risk_options =
  ro_frequency :: return_frequency
  ro_annualization_factor :: "int option"
  ro_use_log_returns :: bool
  ro_risk_free_mode :: risk_free_mode
  ro_risk_free_annual_rate :: "f64 option"
  ro_mar_annual_rate :: f64
  ro_var :: var_options

definition validate_risk_options :: "risk_options \<Rightarrow> (string, unit) result" where
  "validate_risk_options opts =
     (if \<exists>n. ro_annualization_factor opts = Some n \<and> n \<le> 0 then Inl ''annualization_factor''
      else if \<exists>r. ro_risk_free_annual_rate opts = Some r \<and> r < 0 then Inl ''risk_free_annual_rate''
      else if ro_mar_annual_rate opts < 0 then Inl ''mar_annual_rate''
      else if vo_confidence (ro_var opts) \<le> 0 \<or> 1 \<le> vo_confidence (ro_var opts) then Inl ''confidence''
      else raise_if (vo_horizon_days (ro_var opts) \<le> 0) ''horizon_days'')"

definition RISK_METRICS_REQUIRING_RISK_FREE :: "risk_metric list" where
  "RISK_METRICS_REQUIRING_RISK_FREE = [Sharpe]"

definition BENCHMARK_METRICS :: "risk_metric list" where
  "BENCHMARK_METRICS = [Beta, TrackingError, InformationRatio]"

definition requires_risk_free :: "risk_metric list \<Rightarrow> bool" where
  "requires_risk_free metrics \<longleftrightarrow> (\<exists>m\<in>set metrics. m \<in> set RISK_METRICS_REQUIRING_RISK_FREE)"

section \<open>The numeric library\<close>

text \<open>
  Beyond the operations of drawdowns: the power of two floats, which may raise or be complex (\<open>Inl\<close> is the
  exception, that of converting a complex number included), \<open>log1p\<close>, a product, the sample standard
  deviation, the covariance of two series with the variance of the second, a percentile, the inverse of
  the normal distribution, a float to a small power, skewness and kurtosis.
\<close>

record risk_ops = numeric_ops +
  rk_power :: "f64 \<Rightarrow> f64 \<Rightarrow> (calculation_error, f64) result"
  rk_log1p :: "f64 \<Rightarrow> f64"
  rk_prod :: "f64 list \<Rightarrow> f64"
  rk_std :: "f64 list \<Rightarrow> f64"
  rk_cov :: "f64 list \<Rightarrow> f64 list \<Rightarrow> f64 \<times> f64"
  rk_percentile :: "f64 list \<Rightarrow> f64 \<Rightarrow> f64"
  rk_inv_cdf :: "f64 \<Rightarrow> f64"
  rk_small_power :: "f64 \<Rightarrow> nat \<Rightarrow> f64"
  rk_skew :: "f64 list \<Rightarrow> f64"
  rk_kurt :: "f64 list \<Rightarrow> f64"

definition numeric_part :: "risk_ops \<Rightarrow> numeric_ops" where
  "numeric_part ops = numeric_ops.truncate ops"

definition annual_to_periodic :: "risk_ops \<Rightarrow> f64 \<Rightarrow> int \<Rightarrow> (calculation_error, f64) result" where
  "annual_to_periodic ops rate annual_factor =
     bind_result (float_of_int annual_factor) (\<lambda>factor.
     bind_result (rk_power ops (fadd 1 rate) (fdiv 1 factor)) (\<lambda>p.
       Inr (fsub p 1)))"

section \<open>The series of a metric\<close>

text \<open>
  The buckets of a frequency are numbered: weeks end on a Friday, months on their last day.  A series that
  cannot be formed is the text of its \<open>ValueError\<close>, which every caller catches.
\<close>

definition bucket_index :: "return_frequency \<Rightarrow> date \<Rightarrow> int" where
  "bucket_index f d =
     (case f of
        Daily \<Rightarrow> toordinal d
      | Weekly \<Rightarrow> (toordinal d + 1) div 7
      | Monthly \<Rightarrow> 12 * date_year d + date_month d - 1)"

definition bucket_end :: "return_frequency \<Rightarrow> int \<Rightarrow> date" where
  "bucket_end f i =
     (case f of
        Daily \<Rightarrow> date_of_ordinal i
      | Weekly \<Rightarrow> date_of_ordinal (7 * i + 5)
      | Monthly \<Rightarrow> Date (i div 12) (i mod 12 + 1) (days_in_month (i div 12) (i mod 12 + 1)))"

definition bucket_values :: "return_frequency \<Rightarrow> series \<Rightarrow> int \<Rightarrow> f64 list" where
  "bucket_values f s i = map snd (filter (\<lambda>row. bucket_index f (fst row) = i) s)"

definition compound_populated_bucket :: "risk_ops \<Rightarrow> f64 list \<Rightarrow> f64" where
  "compound_populated_bucket ops values' =
     fmul (fsub (rk_prod ops (map (\<lambda>v. fadd 1 (fdiv v 100)) values')) 1) 100"

definition RESAMPLING_GAP_ERROR_PREFIX :: string where
  "RESAMPLING_GAP_ERROR_PREFIX = ''Missing return observations in resampling buckets ending''"

definition LOG_RETURN_UNDEFINED_ERROR :: string where
  "LOG_RETURN_UNDEFINED_ERROR = ''Log returns are undefined for returns less than or equal to -100%''"

definition resample_returns :: "risk_ops \<Rightarrow> series \<Rightarrow> return_frequency \<Rightarrow> (string, series) result" where
  "resample_returns ops returns frequency =
     (if returns = [] \<or> frequency = Daily then Inr returns
      else let buckets = [bucket_index frequency (fst (hd returns)) .. bucket_index frequency (fst (last returns))];
               missing = filter (\<lambda>i. bucket_values frequency returns i = []) buckets
           in if missing \<noteq> [] then
                Inl (RESAMPLING_GAP_ERROR_PREFIX @ '': '' @
                  str_join '', '' (map (\<lambda>i. isoformat (bucket_end frequency i)) missing))
              else Inr (map (\<lambda>i. (bucket_end frequency i,
                compound_populated_bucket ops (bucket_values frequency returns i))) buckets))"

definition to_log_returns :: "risk_ops \<Rightarrow> series \<Rightarrow> (string, series) result" where
  "to_log_returns ops returns =
     (if \<exists>row\<in>set returns. snd row \<le> - 100 then Inl LOG_RETURN_UNDEFINED_ERROR
      else Inr (map (\<lambda>(d, v). (d, fmul (rk_log1p ops (fdiv v 100)) 100)) returns))"

definition metric_return_series ::
  "risk_ops \<Rightarrow> series \<Rightarrow> return_frequency \<Rightarrow> bool \<Rightarrow> (string, series) result"
where
  "metric_return_series ops returns frequency use_log_returns =
     bind_result (resample_returns ops returns frequency) (\<lambda>metric_series.
       if use_log_returns then to_log_returns ops metric_series else Inr metric_series)"

section \<open>Metrics of the portfolio\<close>

datatype detail = DetailText string | DetailNumber f64 | DetailCount int | DetailFlag bool | DetailNone

record risk_value =
  mv_value :: "f64 option"
  mv_details :: "(string \<times> detail) list"

definition metric_error :: "string \<Rightarrow> risk_value" where
  "metric_error message = \<lparr>mv_value = None, mv_details = [(''error'', DetailText message)]\<rparr>"

definition require_data :: "f64 list \<Rightarrow> nat \<Rightarrow> (calculation_error, unit) result" where
  "require_data values' minimum =
     raise_if (length values' < minimum) (PlainValueError ''Insufficient data'')"

definition observation_detail :: "f64 list \<Rightarrow> string \<times> detail" where
  "observation_detail values' = (''observation_count'', DetailCount (int (length values')))"

definition calculate_volatility :: "risk_ops \<Rightarrow> f64 list \<Rightarrow> int \<Rightarrow> (calculation_error, risk_value) result" where
  "calculate_volatility ops values' annual_factor =
     bind_result (require_data values' 2) (\<lambda>_.
     bind_result (float_of_int annual_factor) (\<lambda>factor.
       let standard_deviation = fdiv (rk_std ops values') 100 in
       Inr \<lparr>mv_value = Some (fmul (fmul standard_deviation (math_sqrt factor)) 100),
         mv_details = [observation_detail values', (''standard_deviation'', DetailNumber standard_deviation),
           (''annualization_factor'', DetailCount annual_factor)]\<rparr>))"

definition date_detail :: "date option \<Rightarrow> detail" where
  "date_detail d = (case d of None \<Rightarrow> DetailNone | Some x \<Rightarrow> DetailText (isoformat x))"

definition count_detail :: "int option \<Rightarrow> detail" where
  "count_detail n = (case n of None \<Rightarrow> DetailNone | Some x \<Rightarrow> DetailCount x)"

definition calculate_drawdown_metric :: "risk_ops \<Rightarrow> series \<Rightarrow> risk_value" where
  "calculate_drawdown_metric ops returns =
     (let d = risk_drawdown_details (numeric_part ops) returns in
      \<lparr>mv_value = Some (dx_max_drawdown d),
       mv_details = [(''max_drawdown'', DetailNumber (dx_max_drawdown d)),
         (''peak_date'', date_detail (dx_peak_date d)), (''trough_date'', date_detail (dx_trough_date d)),
         (''max_drawdown_date'', date_detail (dx_trough_date d)),
         (''recovery_date'', date_detail (dx_recovery_date d)),
         (''is_recovered'', DetailFlag (dx_is_recovered d)),
         (''days_to_trough'', count_detail (dx_days_to_trough d)),
         (''days_to_recovery'', count_detail (dx_days_to_recovery d)),
         (''time_under_water_days'', count_detail (dx_time_under_water_days d))]\<rparr>)"

definition calculate_sharpe ::
  "risk_ops \<Rightarrow> f64 list \<Rightarrow> f64 \<Rightarrow> int \<Rightarrow> (calculation_error, risk_value) result"
where
  "calculate_sharpe ops values' periodic_rf annual_factor =
     bind_result (require_data values' 2) (\<lambda>_.
       let denominator = rk_std ops values' in
       if close_to_zero denominator then Inl (PlainValueError ''Zero volatility'')
       else bind_result (float_of_int annual_factor) (\<lambda>factor.
         let mean_return = fdiv (np_mean ops values') 100;
             excess_return = fsub mean_return periodic_rf;
             sharpe = fmul (fdiv excess_return (fdiv denominator 100)) (math_sqrt factor)
         in Inr \<lparr>mv_value = Some sharpe,
              mv_details = [observation_detail values', (''annualization_factor'', DetailCount annual_factor),
                (''mean_return'', DetailNumber mean_return),
                (''periodic_risk_free_rate'', DetailNumber periodic_rf),
                (''excess_return'', DetailNumber excess_return),
                (''annualized_excess_return'', DetailNumber (fmul excess_return factor)),
                (''volatility'', DetailNumber (fdiv denominator 100))]\<rparr>))"

text \<open>Dividing by a downside deviation that has underflowed to zero is a \<open>ZeroDivisionError\<close>.\<close>

definition downside_returns :: "f64 list \<Rightarrow> f64 \<Rightarrow> f64 list" where
  "downside_returns values' periodic_mar =
     filter (\<lambda>x. x < 0) (map (\<lambda>v. fsub (fdiv v 100) periodic_mar) values')"

definition calculate_sortino ::
  "risk_ops \<Rightarrow> f64 list \<Rightarrow> f64 \<Rightarrow> int \<Rightarrow> f64 \<Rightarrow> (calculation_error, risk_value) result"
where
  "calculate_sortino ops values' periodic_mar annual_factor mar_annual_rate =
     bind_result (require_data values' 2) (\<lambda>_.
       let downside = downside_returns values' periodic_mar in
       if downside = [] then Inl (PlainValueError ''No downside observations'')
       else bind_result (float_of_int annual_factor) (\<lambda>factor.
         let downside_deviation = math_sqrt (np_mean ops (map (\<lambda>x. fmul x x) downside));
             mean_return = fdiv (np_mean ops values') 100;
             excess_return = fsub mean_return periodic_mar
         in if downside_deviation = 0 then Inl (Escaped ''ZeroDivisionError'')
            else Inr \<lparr>mv_value = Some (fmul (fdiv excess_return downside_deviation) (math_sqrt factor)),
              mv_details = [observation_detail values', (''annualization_factor'', DetailCount annual_factor),
                (''mar_annual_rate'', DetailNumber mar_annual_rate), (''periodic_mar'', DetailNumber periodic_mar),
                (''mean_return'', DetailNumber mean_return), (''excess_return'', DetailNumber excess_return),
                (''annualized_excess_return'', DetailNumber (fmul excess_return factor)),
                (''downside_observation_count'', DetailCount (int (length downside))),
                (''downside_deviation'', DetailNumber downside_deviation)]\<rparr>))"

section \<open>Value at risk\<close>

text \<open>The quantile of a probability that rounds to one is refused with a subclass of \<open>ValueError\<close>.\<close>

definition normal_quantile :: "risk_ops \<Rightarrow> f64 \<Rightarrow> (calculation_error, f64) result" where
  "normal_quantile ops p =
     (if p \<le> 0 \<or> 1 \<le> p then Inl (PlainValueError ''p must be in the range 0.0 < p < 1.0'')
      else Inr (rk_inv_cdf ops p))"

definition cornish_fisher_quantile :: "risk_ops \<Rightarrow> f64 \<Rightarrow> f64 \<Rightarrow> f64 \<Rightarrow> f64" where
  "cornish_fisher_quantile ops z skew kurt =
     (let z1 = fadd z (fdiv (fmul (fsub (rk_small_power ops z 2) 1) skew) 6);
          z2 = fadd z1 (fdiv (fmul (fsub (rk_small_power ops z 3) (fmul 3 z)) kurt) 24)
      in fsub z2 (fdiv (fmul (fsub (fmul 2 (rk_small_power ops z 3)) (fmul 5 z)) (rk_small_power ops skew 2)) 36))"

definition calculate_var_by_method ::
  "risk_ops \<Rightarrow> f64 list \<Rightarrow> var_method \<Rightarrow> f64 \<Rightarrow> (calculation_error, f64) result"
where
  "calculate_var_by_method ops values' method' confidence =
     (let alpha = fsub 1 confidence in
      case method' of
        Historical \<Rightarrow> Inr (rk_percentile ops values' (fmul alpha 100))
      | Gaussian \<Rightarrow> bind_result (normal_quantile ops alpha) (\<lambda>z.
          Inr (fadd (np_mean ops values') (fmul (rk_std ops values') z)))
      | CornishFisher \<Rightarrow> bind_result (require_data values' 4) (\<lambda>_.
          bind_result (normal_quantile ops alpha) (\<lambda>z.
            Inr (fadd (np_mean ops values') (fmul (rk_std ops values')
              (cornish_fisher_quantile ops z (rk_skew ops values') (rk_kurt ops values')))))))"

definition tail_returns :: "f64 list \<Rightarrow> f64 \<Rightarrow> f64 list" where
  "tail_returns values' var_value = filter (\<lambda>v. v \<le> var_value) values'"

definition expected_shortfall :: "risk_ops \<Rightarrow> f64 list \<Rightarrow> f64 \<Rightarrow> f64" where
  "expected_shortfall ops values' var_value =
     (let tail = tail_returns values' var_value in if tail = [] then var_value else np_mean ops tail)"

definition calculate_var :: "risk_ops \<Rightarrow> f64 list \<Rightarrow> var_options \<Rightarrow> (calculation_error, risk_value) result" where
  "calculate_var ops values' opts =
     bind_result (require_data values' 2) (\<lambda>_.
     bind_result (calculate_var_by_method ops values' (vo_method opts) (vo_confidence opts)) (\<lambda>base_var.
     bind_result (float_of_int (vo_horizon_days opts)) (\<lambda>horizon.
       let scale = math_sqrt horizon;
           tail_count = int (length (tail_returns values' base_var));
           base_es = expected_shortfall ops values' base_var
       in Inr \<lparr>mv_value = Some (fmul base_var scale),
            mv_details = [(''method'', DetailText (var_method_value (vo_method opts))),
              (''confidence'', DetailNumber (vo_confidence opts)),
              (''tail_probability'', DetailNumber (fsub 1 (vo_confidence opts))),
              (''base_horizon_days'', DetailCount 1), (''horizon_days'', DetailCount (vo_horizon_days opts)),
              (''sampling_frequency'', DetailText ''DAILY''), (''horizon_scale_method'', DetailText ''SQRT_TIME''),
              (''horizon_scale_factor'', DetailNumber scale),
              (''include_expected_shortfall'', DetailFlag (vo_include_expected_shortfall opts)),
              (''base_var'', DetailNumber base_var), observation_detail values',
              (''tail_observation_count'', DetailCount tail_count)] @
              (if vo_include_expected_shortfall opts
               then [(''base_expected_shortfall'', DetailNumber base_es),
                 (''expected_shortfall_observation_count'', DetailCount tail_count),
                 (''expected_shortfall'', DetailNumber (fmul base_es scale))] else [])\<rparr>)))"

section \<open>Metrics against a benchmark\<close>

definition aligned_detail :: "f64 list \<Rightarrow> string \<times> detail" where
  "aligned_detail values' = (''aligned_observation_count'', DetailCount (int (length values')))"

definition mean_details :: "risk_ops \<Rightarrow> f64 list \<Rightarrow> f64 list \<Rightarrow> (string \<times> detail) list" where
  "mean_details ops portfolio benchmark =
     [(''portfolio_mean_return'', DetailNumber (fdiv (np_mean ops portfolio) 100)),
      (''benchmark_mean_return'', DetailNumber (fdiv (np_mean ops benchmark) 100))]"

definition active_values :: "f64 list \<Rightarrow> f64 list \<Rightarrow> f64 list" where
  "active_values portfolio benchmark = map2 fsub portfolio benchmark"

definition calculate_beta :: "risk_ops \<Rightarrow> f64 list \<Rightarrow> f64 list \<Rightarrow> (calculation_error, risk_value) result" where
  "calculate_beta ops portfolio benchmark =
     (let (covariance, variance) = rk_cov ops portfolio benchmark in
      if close_to_zero variance then Inl (PlainValueError ''Benchmark variance is zero'')
      else Inr \<lparr>mv_value = Some (fdiv covariance variance),
        mv_details = aligned_detail portfolio # mean_details ops portfolio benchmark @
          [(''covariance'', DetailNumber covariance), (''benchmark_variance'', DetailNumber variance)]\<rparr>)"

definition calculate_tracking_error ::
  "risk_ops \<Rightarrow> f64 list \<Rightarrow> f64 list \<Rightarrow> int \<Rightarrow> (calculation_error, risk_value) result"
where
  "calculate_tracking_error ops portfolio benchmark annual_factor =
     bind_result (float_of_int annual_factor) (\<lambda>factor.
       let active = active_values portfolio benchmark;
           active_std = rk_std ops active;
           annualized = fmul active_std (math_sqrt factor)
       in Inr \<lparr>mv_value = Some annualized,
            mv_details = [aligned_detail active, (''annualization_factor'', DetailCount annual_factor)] @
              mean_details ops portfolio benchmark @
              [(''active_mean_return'', DetailNumber (fdiv (np_mean ops active) 100)),
               (''active_volatility'', DetailNumber (fdiv active_std 100)),
               (''annualized_tracking_error'', DetailNumber (fdiv annualized 100))]\<rparr>)"

definition calculate_information_ratio ::
  "risk_ops \<Rightarrow> f64 list \<Rightarrow> f64 list \<Rightarrow> int \<Rightarrow> (calculation_error, risk_value) result"
where
  "calculate_information_ratio ops portfolio benchmark annual_factor =
     (let active = active_values portfolio benchmark;
          tracking_err = rk_std ops active
      in if close_to_zero tracking_err then Inl (PlainValueError ''Tracking error is zero'')
         else bind_result (float_of_int annual_factor) (\<lambda>factor.
           let active_mean = fdiv (np_mean ops active) 100;
               tracking_error_value = fdiv tracking_err 100
           in Inr \<lparr>mv_value = Some (fmul (fdiv (np_mean ops active) tracking_err) (math_sqrt factor)),
                mv_details = [aligned_detail active, (''annualization_factor'', DetailCount annual_factor)] @
                  mean_details ops portfolio benchmark @
                  [(''active_mean_return'', DetailNumber active_mean),
                   (''tracking_error'', DetailNumber tracking_error_value),
                   (''annualized_active_return'', DetailNumber (fmul active_mean factor)),
                   (''annualized_tracking_error'',
                     DetailNumber (fmul tracking_error_value (math_sqrt factor)))]\<rparr>))"

definition calculate_benchmark_metric ::
  "risk_ops \<Rightarrow> risk_metric \<Rightarrow> f64 list \<Rightarrow> f64 list \<Rightarrow> int \<Rightarrow> (calculation_error, risk_value) result"
where
  "calculate_benchmark_metric ops metric portfolio benchmark annual_factor =
     (case metric of
        Beta \<Rightarrow> calculate_beta ops portfolio benchmark
      | TrackingError \<Rightarrow> calculate_tracking_error ops portfolio benchmark annual_factor
      | InformationRatio \<Rightarrow> calculate_information_ratio ops portfolio benchmark annual_factor
      | _ \<Rightarrow> Inl (PlainValueError (''Unsupported benchmark metric: '' @ metric_value metric)))"

section \<open>Resampling\<close>

lemma bucket_index_mono: "valid_date a \<Longrightarrow> valid_date b \<Longrightarrow> a \<le> b \<Longrightarrow> bucket_index f a \<le> bucket_index f b"
proof -
  assume v: "valid_date a" "valid_date b" and le: "a \<le> b"
  have ord: "toordinal a \<le> toordinal b"
    using le toordinal_le_iff [OF v] by simp
  show ?thesis
  proof (cases f)
    case Monthly
    have "1 \<le> date_month a" "date_month a \<le> 12" "1 \<le> date_month b" "date_month b \<le> 12"
      using v by (auto simp: valid_date_def)
    moreover have "date_year a < date_year b \<or> date_year a = date_year b \<and> date_month a \<le> date_month b"
      using le by (auto simp: less_eq_date_def less_date_def)
    ultimately show ?thesis using Monthly by (auto simp: bucket_index_def)
  qed (use ord in \<open>auto simp: bucket_index_def intro: zdiv_mono1\<close>)
qed

lemma buckets_concat:
  assumes "sorted (map g xs)"
  shows "concat (map (\<lambda>i. filter (\<lambda>x. g x = i) xs) [a .. b]) = filter (\<lambda>x. a \<le> g x \<and> g x \<le> (b :: int)) xs"
proof (induction "nat (b - a + 1)" arbitrary: b)
  case 0
  then have "\<not> (a \<le> g x \<and> g x \<le> b)" for x by auto
  with 0 show ?case by (simp add: filter_empty_conv)
next
  case (Suc n)
  then have ab: "a \<le> b" by simp
  then have "[a .. b] = [a .. b - 1] @ [b]" using upto_rec2 by simp
  moreover have "concat (map (\<lambda>i. filter (\<lambda>x. g x = i) xs) [a .. b - 1]) = filter (\<lambda>x. a \<le> g x \<and> g x \<le> b - 1) xs"
    using Suc(2) by (intro Suc(1)) simp
  moreover have "filter (\<lambda>x. a \<le> g x \<and> g x \<le> b - 1) xs @ filter (\<lambda>x. g x = b) xs = filter (\<lambda>x. a \<le> g x \<and> g x \<le> b) xs"
    using assms
  proof (induction xs)
    case (Cons x xs)
    have tail: "\<forall>y\<in>set xs. g x \<le> g y" using Cons.prems by auto
    show ?case
    proof (cases "g x = b")
      case True
      then have "filter (\<lambda>y. a \<le> g y \<and> g y \<le> b - 1) xs = []" using tail by (auto simp: filter_empty_conv)
      with True Cons ab show ?thesis by auto
    next
      case False
      with Cons show ?thesis by auto
    qed
  qed simp
  ultimately show ?case by simp
qed

text \<open>A date lies in its bucket, which ends on a day the frequency ends buckets on.\<close>

definition in_own_bucket :: "return_frequency \<Rightarrow> date \<Rightarrow> bool" where
  "in_own_bucket f d \<longleftrightarrow>
     (let e = bucket_end f (bucket_index f d) in
      bucket_start (frequency_value f) e \<le> d \<and> d \<le> e \<and> date_matches_frequency (frequency_value f) e)"

lemma weekly_bucket:
  assumes "valid_date d" "toordinal d \<le> max_ordinal - 6"
  shows "in_own_bucket Weekly d"
proof -
  have pos: "1 \<le> toordinal d" using assms(1) by (rule toordinal_bounds)
  let ?n = "7 * ((toordinal d + 1) div 7) + 5" and ?e = "bucket_end Weekly (bucket_index Weekly d)"
  have n: "toordinal d \<le> ?n" "?n \<le> toordinal d + 6" by linarith+
  then have r: "1 \<le> ?n" "?n \<le> max_ordinal" using pos assms(2) by linarith+
  have e: "?e = date_of_ordinal ?n" by (simp add: bucket_end_def bucket_index_def)
  have ev: "valid_date ?e" "toordinal ?e = ?n" unfolding e using date_of_ordinal [OF r] by simp_all
  have "weekday ?e = 4" unfolding weekday_def ev(2) by presburger
  moreover have "d \<le> ?e" using n(1) ev toordinal_le_iff [OF assms(1) ev(1)] by simp
  moreover have "bucket_start ''WEEKLY'' ?e \<le> d"
  proof -
    have "toordinal min_date = 1" by (simp add: min_date_def toordinal_def days_before_year_def days_before_month_def)
    then have s: "bucket_start ''WEEKLY'' ?e = date_of_ordinal (max 1 (?n - 6))"
      by (simp add: bucket_start_def ev(2))
    have b: "1 \<le> max 1 (?n - 6)" "max 1 (?n - 6) \<le> max_ordinal" using r pos n by simp_all
    have "toordinal (date_of_ordinal (max 1 (?n - 6))) \<le> toordinal d"
      using date_of_ordinal(2) [OF b] n pos by simp
    then show ?thesis unfolding s using toordinal_le_iff [OF date_of_ordinal(1) [OF b] assms(1)] by simp
  qed
  ultimately show ?thesis
    by (simp add: in_own_bucket_def Let_def frequency_value_def date_matches_frequency_def)
qed

lemma monthly_bucket:
  assumes "valid_date d"
  shows "in_own_bucket Monthly d"
proof -
  obtain y m k where d: "d = Date y m k" by (cases d)
  have v: "1 \<le> m" "m \<le> 12" "1 \<le> k" "k \<le> days_in_month y m" using assms d by (simp_all add: valid_date_def)
  have "(12 * y + m - 1) div 12 = y" "(12 * y + m - 1) mod 12 = m - 1" using v(1,2) by presburger+
  then have "bucket_end Monthly (bucket_index Monthly d) = Date y m (days_in_month y m)"
    by (simp add: bucket_end_def bucket_index_def d)
  then show ?thesis
    using v by (auto simp: in_own_bucket_def Let_def frequency_value_def date_matches_frequency_def bucket_start_def d
        less_eq_date_def less_date_def)
qed

lemma resampled:
  fixes s :: series
  assumes ne: "s \<noteq> []" and f: "f \<noteq> Daily" and sorted: "sorted (map fst s)" and valid: "\<forall>row\<in>set s. valid_date (fst row)"
    and ix: "ix = [bucket_index f (fst (hd s)) .. bucket_index f (fst (last s))]"
  shows "concat (map (bucket_values f s) ix) = map snd s"
    and "resample_returns ops s f = (if \<exists>i\<in>set ix. bucket_values f s i = []
      then Inl (RESAMPLING_GAP_ERROR_PREFIX @ '': '' @ str_join '', ''
        (map (\<lambda>i. isoformat (bucket_end f i)) (filter (\<lambda>i. bucket_values f s i = []) ix)))
      else Inr (map (\<lambda>i. (bucket_end f i, compound_populated_bucket ops (bucket_values f s i))) ix))"
proof -
  let ?g = "\<lambda>row. bucket_index f (fst row)"
  have mono: "sorted (map ?g s)"
    using sorted valid by (auto simp: sorted_iff_nth_mono intro!: bucket_index_mono)
  have "?g (hd s) \<le> ?g row \<and> ?g row \<le> ?g (last s)" if "row \<in> set s" for row
  proof -
    from that obtain i where i: "i < length s" "row = s ! i" by (auto simp: in_set_conv_nth)
    with ne mono show ?thesis
      by (auto simp: hd_conv_nth last_conv_nth sorted_iff_nth_mono)
  qed
  then have all: "filter (\<lambda>x. ?g (hd s) \<le> ?g x \<and> ?g x \<le> ?g (last s)) s = s" by (simp add: filter_id_conv)
  have "map snd (concat (map (\<lambda>i. filter (\<lambda>x. ?g x = i) s) ix)) = map snd s"
    unfolding ix buckets_concat [OF mono] all by simp
  then show "concat (map (bucket_values f s) ix) = map snd s"
    by (simp add: map_concat bucket_values_def [abs_def] comp_def)
  show "resample_returns ops s f = (if \<exists>i\<in>set ix. bucket_values f s i = []
      then Inl (RESAMPLING_GAP_ERROR_PREFIX @ '': '' @ str_join '', ''
        (map (\<lambda>i. isoformat (bucket_end f i)) (filter (\<lambda>i. bucket_values f s i = []) ix)))
      else Inr (map (\<lambda>i. (bucket_end f i, compound_populated_bucket ops (bucket_values f s i))) ix))"
    using ne f unfolding ix by (simp add: resample_returns_def Let_def filter_empty_conv)
qed

text \<open>Resampling to weeks or months compounds every return exactly once, in order, under the end of the
  bucket its date lies in, one value for each bucket from the first return to the last; when one of these
  has no return the series is refused, and the text names exactly the buckets without one.\<close>

theorem resampling_keeps_every_return:
  fixes s :: series
  assumes "s \<noteq> []" "f \<noteq> Daily" "sorted (map fst s)"
    and "\<forall>row\<in>set s. valid_date (fst row) \<and> toordinal (fst row) \<le> max_ordinal - 6"
    and "ix = [bucket_index f (fst (hd s)) .. bucket_index f (fst (last s))]"
  shows "concat (map (bucket_values f s) ix) = map snd s \<and> (\<forall>row\<in>set s. in_own_bucket f (fst row)) \<and>
    resample_returns ops s f = (if \<exists>i\<in>set ix. bucket_values f s i = []
      then Inl (RESAMPLING_GAP_ERROR_PREFIX @ '': '' @ str_join '', ''
        (map (\<lambda>i. isoformat (bucket_end f i)) (filter (\<lambda>i. bucket_values f s i = []) ix)))
      else Inr (map (\<lambda>i. (bucket_end f i, compound_populated_bucket ops (bucket_values f s i))) ix))"
proof -
  have "\<forall>row\<in>set s. valid_date (fst row)" using assms(4) by blast
  moreover have "\<forall>row\<in>set s. in_own_bucket f (fst row)"
    using assms(2,4) weekly_bucket monthly_bucket by (cases f) auto
  ultimately show ?thesis using resampled [OF assms(1-3) _ assms(5)] by simp
qed

definition weekly_sample :: series where
  "weekly_sample = [(Date 2026 1 5, 1), (Date 2026 1 9, 2), (Date 2026 1 12, 3), (Date 2026 1 26, 4)]"

lemma weekly_sample_buckets:
  "[105660 .. 105663 :: int] = [bucket_index Weekly (fst (hd weekly_sample)) .. bucket_index Weekly (fst (last weekly_sample))]"
  by code_simp

lemma weekly_sample_gap: "filter (\<lambda>i. bucket_values Weekly weekly_sample i = []) [105660 .. 105663] = [105662]"
  by code_simp

lemma weekly_gap_name: "isoformat (bucket_end Weekly 105662) = ''2026-01-23''"
  by code_simp

lemma weekly_sample_dates:
  "weekly_sample \<noteq> []" "sorted (map fst weekly_sample)"
  by code_simp+

lemma weekly_sample_valid:
  "\<forall>row\<in>set weekly_sample. valid_date (fst row) \<and> toordinal (fst row) \<le> max_ordinal - 6"
  by code_simp

lemma weekly_sample_refused:
  "resample_returns ops weekly_sample Weekly = Inl (RESAMPLING_GAP_ERROR_PREFIX @ '': 2026-01-23'')"
proof -
  have weekly: "Weekly \<noteq> Daily" by simp
  have gap: "\<exists>i\<in>set [105660 .. 105663]. bucket_values Weekly weekly_sample i = []"
  proof (rule ccontr)
    assume "\<not> (\<exists>i\<in>set [105660 .. 105663]. bucket_values Weekly weekly_sample i = [])"
    then have "filter (\<lambda>i. bucket_values Weekly weekly_sample i = []) [105660 .. 105663] = []"
      by (intro filter_False) blast
    then show False by (simp only: weekly_sample_gap list.distinct)
  qed
  have valid: "\<forall>row\<in>set weekly_sample. valid_date (fst row)" using weekly_sample_valid by blast
  note r = resampled(2) [OF weekly_sample_dates(1) weekly weekly_sample_dates(2) valid weekly_sample_buckets, of ops]
  show ?thesis
    by (simp only: r if_P [OF gap] weekly_sample_gap list.map weekly_gap_name str_join.simps append.simps)
qed

section \<open>A downside deviation of zero\<close>

text \<open>Functions that do what the documentation says, as far as the examples reach: a power is exact at
  one, and elsewhere the example takes the base.\<close>

definition reference_risk_ops :: risk_ops where
  "reference_risk_ops = numeric_ops.extend reference_ops
     \<lparr>rk_power = (\<lambda>x y. Inr (if x = 1 then 1 else x)), rk_log1p = (\<lambda>x. x), rk_prod = (\<lambda>xs. foldl fmul 1 xs),
      rk_std = (\<lambda>xs. let m = fdiv (loop_sum xs) (of_nat (length xs)) in
        math_sqrt (fdiv (loop_sum (map (\<lambda>x. fmul (fsub x m) (fsub x m)) xs)) (of_nat (length xs - 1)))),
      rk_cov = (\<lambda>xs ys. (0, 0)), rk_percentile = (\<lambda>xs q. hd (sort xs)), rk_inv_cdf = (\<lambda>p. 0),
      rk_small_power = (\<lambda>x n. foldl fmul 1 (replicate n x)), rk_skew = (\<lambda>xs. 0), rk_kurt = (\<lambda>xs. 0)\<rparr>"

theorem resampling_keeps_every_return_witness:
  "resample_returns reference_risk_ops weekly_sample Weekly = Inl (RESAMPLING_GAP_ERROR_PREFIX @ '': 2026-01-23'') \<and>
   concat (map (bucket_values Weekly weekly_sample) [105660 .. 105663]) = [1, 2, 3, 4]"
proof -
  have weekly: "Weekly \<noteq> Daily" by simp
  have "map snd weekly_sample = [1, 2, 3, 4]" by (simp add: weekly_sample_def)
  with resampling_keeps_every_return [OF weekly_sample_dates(1) weekly weekly_sample_dates(2) weekly_sample_valid weekly_sample_buckets,
      THEN conjunct1] weekly_sample_refused
  show ?thesis by (simp only: simp_thms)
qed

lemma reference_mean: "np_mean reference_risk_ops xs = fdiv (loop_sum xs) (of_nat (length xs))"
  by (simp add: reference_risk_ops_def numeric_ops.defs reference_ops_def)

lemma rnd_underflow:
  assumes "0 < y" "y < two_pow (- 1075)"
  shows "rnd y = 0"
proof -
  have "two_pow (flog2 y) < two_pow (- 1075)"
    using flog2_bounds(1) [OF assms(1)] assms(2) by (rule le_less_trans)
  then have u: "ulp_exp y = - 1074" using assms(1) by (simp add: ulp_exp_def)
  have "two_pow (- 1074) = 2 * two_pow (- 1075)" using two_pow_add [of 1 "- 1075"] by (simp add: two_pow_def)
  then have "y / two_pow (- 1074) < 1 / 2" using assms(2) by (simp add: divide_simps)
  moreover have "0 < y / two_pow (- 1074)" using assms(1) by simp
  ultimately have "\<lfloor>y / two_pow (- 1074)\<rfloor> = 0" unfolding floor_eq_iff of_int_0 by linarith
  with \<open>y / two_pow (- 1074) < 1 / 2\<close> have "round_half_even (y / two_pow (- 1074)) = 0"
    by (simp add: round_half_even_def)
  with assms(1) u show ?thesis by (simp add: rnd_def)
qed

text \<open>Losses whose squares underflow leave a downside deviation of zero, and dividing by it raises an
  exception no \<open>except ValueError\<close> catches: the whole report fails instead of the metric.\<close>

theorem tiny_losses_escape_sortino:
  "calculate_sortino reference_risk_ops [- 100 * two_pow (- 540), - 100 * two_pow (- 540)] 0 252 0 =
     Inl (Escaped ''ZeroDivisionError'')"
proof -
  let ?x = "two_pow (- 540)"
  have "flog2 ?x = - 540" by (rule flog2_unique) simp_all
  then have "rnd ?x = ?x" by (intro rnd_exact [where m = 1 and k = "- 540"]) (simp_all add: ulp_exp_def abs_of_pos)
  then have exact: "rnd (- ?x) = - ?x" by simp
  have down: "downside_returns [- 100 * ?x, - 100 * ?x] 0 = [- ?x, - ?x]"
    using exact by (simp add: downside_returns_def fdiv_def fsub_def)
  have "rnd (two_pow (- 1080)) = 0" by (rule rnd_underflow) simp_all
  then have square: "fmul (- ?x) (- ?x) = 0"
    using two_pow_add [of "- 540" "- 540"] by (simp add: fmul_def)
  have "math_sqrt (np_mean reference_risk_ops (map (\<lambda>x. fmul x x) [- ?x, - ?x])) = 0"
    unfolding reference_mean list.map square by (simp add: loop_sum_def fdiv_def math_sqrt_def fadd_def)
  moreover have "rnd (of_int 252) = of_int 252" by (rule rnd_of_int) simp
  then have "float_of_int 252 = Inr 252" by (simp add: float_of_int_def)
  ultimately show ?thesis
    unfolding calculate_sortino_def down by (simp add: require_data_def raise_if_def Let_def del: list.map)
qed

end
