(* ===== verification/RiskPeriods.thy ===== *)
theory RiskPeriods
  imports Main RiskMetrics
begin

text \<open>
  The periods of the risk report: the request (contracts/risk_stateless_inputs.py), the metrics a period
  answers for itself and against its benchmark (services/risk/period_metrics.py,
  services/risk/benchmark_period_metrics.py), the results of all periods (services/risk/period_results.py,
  services/risk/period_windows.py) and the response (services/risk/calculation_orchestrator.py,
  services/risk_engine.py).
\<close>

section \<open>Requests\<close>

record risk_stateless_input =
  rs_scope :: risk_scope
  rs_periods :: "risk_period list"
  rs_metrics :: "risk_metric list"
  rs_options :: risk_options
  rs_portfolio_open_date :: date
  rs_returns :: "return_point list"
  rs_benchmark_returns :: "return_point list"

definition validate_risk_stateless :: "risk_stateless_input \<Rightarrow> (string, unit) result" where
  "validate_risk_stateless payload =
     bind_result (validate_unique_period_names (rs_periods payload)) (\<lambda>_.
     bind_result (validate_unique_return_dates (rs_returns payload) ''returns'') (\<lambda>_.
       validate_unique_return_dates (rs_benchmark_returns payload) ''benchmark_returns''))"

section \<open>The metrics of a period\<close>

type_synonym metric_map = "(risk_metric, risk_value) dict"

record non_benchmark =
  nb_series :: series
  nb_map :: metric_map
  nb_error :: "string option"

text \<open>A \<open>ValueError\<close> of a metric becomes its result; any other exception escapes.\<close>

definition catch_metric :: "(calculation_error, risk_value) result \<Rightarrow> (calculation_error, risk_value) result" where
  "catch_metric r = (case r of Inl (PlainValueError m) \<Rightarrow> Inr (metric_error m) | _ \<Rightarrow> r)"

fun calculate_requested ::
  "risk_metric list \<Rightarrow> (risk_metric \<times> (calculation_error, risk_value) result) list \<Rightarrow>
     (calculation_error, metric_map) result"
where
  "calculate_requested metrics [] = Inr []"
| "calculate_requested metrics ((m, r) # calculators) =
     (if m \<notin> set metrics then calculate_requested metrics calculators
      else bind_result (catch_metric r) (\<lambda>v.
        bind_result (calculate_requested metrics calculators) (\<lambda>results. Inr ((m, v) # results))))"

definition non_benchmark_calculators ::
  "risk_ops \<Rightarrow> risk_options \<Rightarrow> int \<Rightarrow> f64 \<Rightarrow> f64 \<Rightarrow> series \<Rightarrow> (string, series) result \<Rightarrow> series \<Rightarrow>
     (risk_metric \<times> (calculation_error, risk_value) result) list"
where
  "non_benchmark_calculators ops opts annual_factor periodic_rf periodic_mar metric_series var_series drawdown_series =
     [(Volatility, calculate_volatility ops (series_values metric_series) annual_factor),
      (Drawdown, Inr (calculate_drawdown_metric ops drawdown_series)),
      (Sharpe, calculate_sharpe ops (series_values metric_series) periodic_rf annual_factor),
      (Sortino, calculate_sortino ops (series_values metric_series) periodic_mar annual_factor
        (ro_mar_annual_rate opts)),
      (ValueAtRisk, case var_series of
         Inl message \<Rightarrow> Inr (metric_error message)
       | Inr s \<Rightarrow> calculate_var ops (series_values s) (ro_var opts))]"

definition NON_DRAWDOWN_RETURN_METRICS :: "risk_metric list" where
  "NON_DRAWDOWN_RETURN_METRICS = [Volatility, Sharpe, Sortino, ValueAtRisk]"

definition metric_series_error_map :: "risk_metric list \<Rightarrow> string \<Rightarrow> metric_map" where
  "metric_series_error_map metrics message =
     map (\<lambda>m. (m, metric_error message)) (filter (\<lambda>m. m \<in> set metrics) NON_DRAWDOWN_RETURN_METRICS)"

definition period_non_benchmark_metrics ::
  "risk_ops \<Rightarrow> risk_stateless_input \<Rightarrow> int \<Rightarrow> f64 \<Rightarrow> f64 \<Rightarrow> series \<Rightarrow> (calculation_error, non_benchmark) result"
where
  "period_non_benchmark_metrics ops request annual_factor periodic_rf periodic_mar period_returns =
     (let opts = rs_options request; metrics = rs_metrics request;
          var_series = metric_return_series ops period_returns Daily (ro_use_log_returns opts)
      in case metric_return_series ops period_returns (ro_frequency opts) (ro_use_log_returns opts) of
           Inl message \<Rightarrow>
             Inr \<lparr>nb_series = [],
               nb_map = (if Drawdown \<in> set metrics then [(Drawdown, calculate_drawdown_metric ops period_returns)] else []) @
                 metric_series_error_map metrics message,
               nb_error = Some message\<rparr>
         | Inr metric_series \<Rightarrow>
             bind_result (calculate_requested metrics (non_benchmark_calculators ops opts annual_factor
               periodic_rf periodic_mar metric_series var_series period_returns)) (\<lambda>results.
             Inr \<lparr>nb_series = metric_series, nb_map = results, nb_error = None\<rparr>))"

section \<open>The benchmark of a period\<close>

datatype benchmark_reason = PortfolioSeriesInvalid | BenchmarkUnavailable | NotAligned | BenchmarkUsed

record benchmark_context =
  bx_available :: bool
  bx_aligned :: bool
  bx_reason :: benchmark_reason
  bx_requested_metrics :: "risk_metric list"

record benchmark_result =
  br_map :: metric_map
  br_context :: benchmark_context
  br_aligned_count :: nat
  br_observation_count :: nat

text \<open>One entry for each name, however often it was requested, in the order of the first requests.\<close>

definition distinct_metrics :: "risk_metric list \<Rightarrow> risk_metric list" where
  "distinct_metrics metrics = rev (remdups (rev metrics))"

definition benchmark_metric_errors :: "risk_metric list \<Rightarrow> string \<Rightarrow> metric_map" where
  "benchmark_metric_errors metrics message = map (\<lambda>m. (m, metric_error message)) (distinct_metrics metrics)"

definition align_and_resample_benchmark ::
  "risk_ops \<Rightarrow> series \<Rightarrow> date \<Rightarrow> date \<Rightarrow> return_frequency \<Rightarrow> bool \<Rightarrow> (string, series) result"
where
  "align_and_resample_benchmark ops benchmark start finish frequency use_log_returns =
     metric_return_series ops (filter_period benchmark start finish) frequency use_log_returns"

definition calculate_aligned_benchmark_metrics ::
  "risk_ops \<Rightarrow> series \<Rightarrow> series \<Rightarrow> risk_metric list \<Rightarrow> int \<Rightarrow> (calculation_error, metric_map \<times> nat) result"
where
  "calculate_aligned_benchmark_metrics ops metric_series benchmark_period metrics annual_factor =
     (let aligned = merge_inner metric_series benchmark_period; aligned_count = length aligned in
      if aligned_count < 2 then Inr (benchmark_metric_errors metrics ''Insufficient aligned observations'', aligned_count)
      else let portfolio = map (fst \<circ> snd) aligned; benchmark = map (snd \<circ> snd) aligned in
        bind_result (calculate_requested metrics (map (\<lambda>m. (m, calculate_benchmark_metric ops m portfolio benchmark
            annual_factor)) (distinct_metrics metrics))) (\<lambda>results.
          Inr (results, aligned_count)))"

definition benchmark_period_metrics ::
  "risk_ops \<Rightarrow> risk_options \<Rightarrow> series \<Rightarrow> date \<Rightarrow> date \<Rightarrow> series \<Rightarrow> risk_metric list \<Rightarrow> int \<Rightarrow>
     (calculation_error, metric_map \<times> nat \<times> nat) result"
where
  "benchmark_period_metrics ops opts metric_series start finish benchmark metrics annual_factor =
     (case align_and_resample_benchmark ops benchmark start finish (ro_frequency opts) (ro_use_log_returns opts) of
        Inl message \<Rightarrow> Inr (benchmark_metric_errors metrics message, 0, 0)
      | Inr benchmark_period \<Rightarrow>
          if benchmark_period = [] then
            Inr (benchmark_metric_errors metrics ''Insufficient aligned observations'', 0, 0)
          else bind_result (calculate_aligned_benchmark_metrics ops metric_series benchmark_period metrics annual_factor)
            (\<lambda>(results, aligned_count). Inr (results, aligned_count, length benchmark_period)))"

definition prepare_benchmark_context :: "bool \<Rightarrow> nat \<Rightarrow> risk_metric list \<Rightarrow> benchmark_context" where
  "prepare_benchmark_context benchmark_empty aligned_count metrics =
     \<lparr>bx_available = (\<not> benchmark_empty), bx_aligned = (0 < aligned_count),
      bx_reason = (if benchmark_empty then BenchmarkUnavailable
        else if aligned_count = 0 then NotAligned else BenchmarkUsed),
      bx_requested_metrics = metrics\<rparr>"

definition calculate_benchmark_period_metrics ::
  "risk_ops \<Rightarrow> risk_options \<Rightarrow> series \<Rightarrow> date \<Rightarrow> date \<Rightarrow> series \<Rightarrow> risk_metric list \<Rightarrow> int \<Rightarrow>
     (calculation_error, benchmark_result) result"
where
  "calculate_benchmark_period_metrics ops opts metric_series start finish benchmark metrics annual_factor =
     bind_result (if benchmark = [] then Inr (benchmark_metric_errors metrics
           ''Benchmark returns required for benchmark-dependent metric'', 0, 0)
         else benchmark_period_metrics ops opts metric_series start finish benchmark metrics annual_factor)
       (\<lambda>(results, aligned_count, observation_count).
         Inr \<lparr>br_map = results,
           br_context = prepare_benchmark_context (benchmark = []) aligned_count metrics,
           br_aligned_count = aligned_count, br_observation_count = observation_count\<rparr>)"

definition period_benchmark_metrics ::
  "risk_ops \<Rightarrow> risk_options \<Rightarrow> non_benchmark \<Rightarrow> date \<Rightarrow> date \<Rightarrow> series \<Rightarrow> risk_metric list \<Rightarrow> int \<Rightarrow>
     (calculation_error, benchmark_result option) result"
where
  "period_benchmark_metrics ops opts own start finish benchmark metrics annual_factor =
     (if metrics = [] then Inr None
      else case nb_error own of
        Some message \<Rightarrow>
          Inr (Some \<lparr>br_map = benchmark_metric_errors metrics message,
            br_context = \<lparr>bx_available = (benchmark \<noteq> []), bx_aligned = False,
              bx_reason = PortfolioSeriesInvalid, bx_requested_metrics = metrics\<rparr>,
            br_aligned_count = 0, br_observation_count = 0\<rparr>)
      | None \<Rightarrow> bind_result (calculate_benchmark_period_metrics ops opts (nb_series own) start finish benchmark
          metrics annual_factor) (\<lambda>r. Inr (Some r)))"

section \<open>The result of a period\<close>

record risk_period_result =
  rr_start_date :: date
  rr_end_date :: date
  rr_portfolio_observation_count :: nat
  rr_benchmark_observation_count :: nat
  rr_aligned_benchmark_observation_count :: nat
  rr_benchmark_context :: "benchmark_context option"
  rr_metrics :: metric_map

record periodic_rates =
  pr_annual_factor :: int
  pr_risk_free :: f64
  pr_mar :: f64

definition benchmark_metrics_requested :: "risk_metric list \<Rightarrow> risk_metric list" where
  "benchmark_metrics_requested metrics = filter (\<lambda>m. m \<in> set BENCHMARK_METRICS) metrics"

definition single_period_result ::
  "risk_ops \<Rightarrow> risk_stateless_input \<Rightarrow> periodic_rates \<Rightarrow> series \<Rightarrow> series \<Rightarrow> date \<times> date \<Rightarrow>
     (calculation_error, risk_period_result) result"
where
  "single_period_result ops request rates returns benchmark window =
     (let (start, finish) = window; period_returns = filter_period returns start finish in
      bind_result (period_non_benchmark_metrics ops request (pr_annual_factor rates) (pr_risk_free rates)
        (pr_mar rates) period_returns) (\<lambda>own.
      bind_result (period_benchmark_metrics ops (rs_options request) own start finish benchmark
        (benchmark_metrics_requested (rs_metrics request)) (pr_annual_factor rates)) (\<lambda>found.
      Inr \<lparr>rr_start_date = start, rr_end_date = finish,
        rr_portfolio_observation_count = length period_returns,
        rr_benchmark_observation_count = (case found of Some r \<Rightarrow> if benchmark \<noteq> [] then br_observation_count r else 0 | None \<Rightarrow> 0),
        rr_aligned_benchmark_observation_count = (case found of Some r \<Rightarrow> br_aligned_count r | None \<Rightarrow> 0),
        rr_benchmark_context = map_option br_context found,
        rr_metrics = (case found of Some r \<Rightarrow> dict_update (nb_map own) (br_map r) | None \<Rightarrow> nb_map own)\<rparr>)))"

fun risk_period_results ::
  "risk_ops \<Rightarrow> risk_stateless_input \<Rightarrow> periodic_rates \<Rightarrow> series \<Rightarrow> series \<Rightarrow> risk_period list \<Rightarrow>
     (string, risk_period_result) dict \<Rightarrow> (calculation_error, (string, risk_period_result) dict) result"
where
  "risk_period_results ops request rates returns benchmark [] results = Inr results"
| "risk_period_results ops request rates returns benchmark (period # periods) results =
     bind_result (resolve_period period (rq_as_of_date (rs_scope request)) (rs_portfolio_open_date request)) (\<lambda>window.
     bind_result (single_period_result ops request rates returns benchmark window) (\<lambda>r.
       risk_period_results ops request rates returns benchmark periods
         (AList.update (period_name period) r results)))"

section \<open>The response\<close>

datatype risk_free_reason = RiskFreeNotRequested | RiskFreeZero | RiskFreeApplied

record risk_metadata =
  rt_request_fingerprint :: string
  rt_options :: risk_options
  rt_annualization_factor :: int
  rt_risk_free_requested :: bool
  rt_risk_free_reason :: risk_free_reason
  rt_risk_free_periodic_rate :: f64
  rt_benchmark_metrics :: "risk_metric list"
  rt_supportability :: supportability
  rt_evidence :: "returns_evidence option"
  rt_source_services :: "string list"
  rt_upstream_fingerprints :: "(string, string) dict"

record risk_response =
  re_scope :: risk_scope
  re_results :: "(string, risk_period_result) dict"
  re_metadata :: risk_metadata

definition annualization_factor_for_options :: "risk_options \<Rightarrow> int" where
  "annualization_factor_for_options opts =
     (case ro_annualization_factor opts of
        Some n \<Rightarrow> n
      | None \<Rightarrow> (case ro_frequency opts of Daily \<Rightarrow> 252 | Weekly \<Rightarrow> 52 | Monthly \<Rightarrow> 12))"

definition annual_rate_applies :: "risk_options \<Rightarrow> bool" where
  "annual_rate_applies opts \<longleftrightarrow> ro_risk_free_mode opts = AnnualRate \<and> ro_risk_free_annual_rate opts \<noteq> None"

definition resolve_periodic_rates :: "risk_ops \<Rightarrow> risk_options \<Rightarrow> int \<Rightarrow> (calculation_error, periodic_rates) result" where
  "resolve_periodic_rates ops opts annual_factor =
     bind_result (if annual_rate_applies opts
         then annual_to_periodic ops (the (ro_risk_free_annual_rate opts)) annual_factor else Inr 0) (\<lambda>rf.
     bind_result (annual_to_periodic ops (ro_mar_annual_rate opts) annual_factor) (\<lambda>mar.
       Inr \<lparr>pr_annual_factor = annual_factor, pr_risk_free = rf, pr_mar = mar\<rparr>))"

definition risk_free_context_reason :: "risk_stateless_input \<Rightarrow> risk_free_reason" where
  "risk_free_context_reason request =
     (if \<not> requires_risk_free (rs_metrics request) then RiskFreeNotRequested
      else if annual_rate_applies (rs_options request) then RiskFreeApplied else RiskFreeZero)"

definition metric_error_text :: "risk_value \<Rightarrow> string option" where
  "metric_error_text v =
     (case map_of (mv_details v) ''error'' of Some (DetailText m) \<Rightarrow> Some m | _ \<Rightarrow> None)"

definition risk_result_view :: "risk_period_result \<Rightarrow> period_result" where
  "risk_result_view r =
     \<lparr>pd_portfolio_observation_count = Some (rr_portfolio_observation_count r), pd_series_count = None,
      pd_error = None, pd_relative_context = None, pd_benchmark_context = None, pd_risk_free_context = None,
      pd_attribution_sets = [], pd_metric_errors = map (metric_error_text \<circ> snd) (rr_metrics r)\<rparr>"

definition result_views :: "(string, risk_period_result) dict \<Rightarrow> period_results" where
  "result_views results = map (\<lambda>(k, r). (k, risk_result_view r)) results"

definition build_risk_response ::
  "risk_stateless_input fingerprints \<Rightarrow> risk_stateless_input \<Rightarrow> f64 \<Rightarrow> returns_evidence option \<Rightarrow>
     (string, risk_period_result) dict \<Rightarrow> (calculation_error, risk_response) result"
where
  "build_risk_response fp request periodic_rf evidence results =
     bind_result (composed_supportability (supportability_from_risk_metric_results
       (map pt_date (rs_returns request)) (rq_as_of_date (rs_scope request)) (result_views results)) evidence) (\<lambda>s.
     let requested = requires_risk_free (rs_metrics request) in
     Inr \<lparr>re_scope = rs_scope request, re_results = results,
       re_metadata = \<lparr>rt_request_fingerprint = fp_model fp request, rt_options = rs_options request,
         rt_annualization_factor = annualization_factor_for_options (rs_options request),
         rt_risk_free_requested = requested, rt_risk_free_reason = risk_free_context_reason request,
         rt_risk_free_periodic_rate = (if requested then periodic_rf else 0),
         rt_benchmark_metrics = benchmark_metrics_requested (rs_metrics request), rt_supportability = s,
         rt_evidence = evidence, rt_source_services = [''lotus-risk''], rt_upstream_fingerprints = []\<rparr>\<rparr>)"

definition calculate_risk ::
  "risk_ops \<Rightarrow> risk_stateless_input fingerprints \<Rightarrow> risk_stateless_input \<Rightarrow> returns_evidence option \<Rightarrow>
     (calculation_error, risk_response) result"
where
  "calculate_risk ops fp request evidence =
     (let annual_factor = annualization_factor_for_options (rs_options request) in
      if rs_returns request = [] then build_risk_response fp request 0 evidence []
      else bind_result (resolve_periodic_rates ops (rs_options request) annual_factor) (\<lambda>rates.
        bind_result (risk_period_results ops request rates (returns_frame (rs_returns request))
          (returns_frame (rs_benchmark_returns request)) (rs_periods request) []) (\<lambda>results.
        build_risk_response fp request (pr_risk_free rates) evidence results)))"

section \<open>Every requested metric is answered\<close>

definition answered :: "risk_value \<Rightarrow> bool" where
  "answered v \<longleftrightarrow> (mv_value v = None) = (metric_error_text v \<noteq> None)"

lemma answered_error [simp]: "answered (metric_error m)" "mv_value (metric_error m) = None"
  "metric_error_text (metric_error m) = Some m"
  by (simp_all add: answered_def metric_error_def metric_error_text_def)

text \<open>
  What may leave a metric: a value that is answered, a \<open>ValueError\<close>, or one of the two arithmetic errors
  no handler catches.
\<close>

definition arithmetic_failure :: "calculation_error \<Rightarrow> bool" where
  "arithmetic_failure e \<longleftrightarrow> e \<in> {Escaped ''OverflowError'', Escaped ''ZeroDivisionError''}"

definition metric_outcome :: "(calculation_error, risk_value) result \<Rightarrow> bool" where
  "metric_outcome r \<longleftrightarrow>
     (case r of
        Inr v \<Rightarrow> mv_value v \<noteq> None \<and> metric_error_text v = None
      | Inl (PlainValueError m) \<Rightarrow> True
      | Inl e \<Rightarrow> arithmetic_failure e)"

lemma metric_outcome_simps [simp]:
  "metric_outcome (Inl (PlainValueError m))"
  "metric_outcome (Inl (Escaped x)) \<longleftrightarrow> x = ''OverflowError'' \<or> x = ''ZeroDivisionError''"
  "metric_outcome (Inr v) \<longleftrightarrow> mv_value v \<noteq> None \<and> metric_error_text v = None"
  by (simp_all add: metric_outcome_def arithmetic_failure_def)

lemma metric_outcome_bind:
  "(\<And>e. m = Inl e \<Longrightarrow> metric_outcome (Inl e)) \<Longrightarrow> (\<And>x. m = Inr x \<Longrightarrow> metric_outcome (f x)) \<Longrightarrow>
     metric_outcome (bind_result m f)"
  by (cases m) simp_all

lemma step_outcome [simp]:
  "require_data xs n = Inl e \<Longrightarrow> metric_outcome (Inl e)"
  "float_of_int k = Inl e \<Longrightarrow> metric_outcome (Inl e)"
  "normal_quantile ops x = Inl e \<Longrightarrow> metric_outcome (Inl e)"
  by (auto simp: require_data_def float_of_int_def normal_quantile_def raise_if_def split: if_splits)

lemma var_method_outcome [simp]:
  "calculate_var_by_method ops xs m c = Inl e \<Longrightarrow> metric_outcome (Inl e)"
  by (cases m) (auto simp: calculate_var_by_method_def Let_def result_simps)

lemma metric_outcomes [simp]:
  "metric_outcome (calculate_volatility ops xs af)"
  "metric_outcome (Inr (calculate_drawdown_metric ops s))"
  "metric_outcome (calculate_sharpe ops xs rf af)"
  "metric_outcome (calculate_sortino ops xs mar af mr)"
  "metric_outcome (calculate_var ops xs vo)"
  "metric_outcome (calculate_beta ops xs ys)"
  "metric_outcome (calculate_tracking_error ops xs ys af)"
  "metric_outcome (calculate_information_ratio ops xs ys af)"
  "metric_outcome (calculate_benchmark_metric ops k xs ys af)"
proof -
  show vol: "metric_outcome (calculate_volatility ops xs af)"
    unfolding calculate_volatility_def
    by (intro metric_outcome_bind) (auto simp: Let_def metric_error_text_def observation_detail_def)
  show "metric_outcome (Inr (calculate_drawdown_metric ops s))"
    by (simp add: calculate_drawdown_metric_def Let_def metric_error_text_def)
  show "metric_outcome (calculate_sharpe ops xs rf af)"
    unfolding calculate_sharpe_def Let_def
    by (intro metric_outcome_bind) (auto simp: Let_def metric_error_text_def observation_detail_def intro!: metric_outcome_bind)
  show "metric_outcome (calculate_sortino ops xs mar af mr)"
    unfolding calculate_sortino_def Let_def
    by (intro metric_outcome_bind) (auto simp: Let_def metric_error_text_def observation_detail_def intro!: metric_outcome_bind)
  show "metric_outcome (calculate_var ops xs vo)"
    unfolding calculate_var_def Let_def
    by (intro metric_outcome_bind) (auto simp: Let_def metric_error_text_def observation_detail_def)
  show b: "metric_outcome (calculate_beta ops xs ys)"
    by (simp add: calculate_beta_def Let_def metric_error_text_def aligned_detail_def mean_details_def split: prod.splits)
  show t: "metric_outcome (calculate_tracking_error ops xs ys af)"
    unfolding calculate_tracking_error_def Let_def
    by (intro metric_outcome_bind) (auto simp: metric_error_text_def aligned_detail_def mean_details_def)
  show i: "metric_outcome (calculate_information_ratio ops xs ys af)"
    unfolding calculate_information_ratio_def Let_def
    by (auto simp: metric_error_text_def aligned_detail_def mean_details_def intro!: metric_outcome_bind)
  show "metric_outcome (calculate_benchmark_metric ops k xs ys af)"
    using b t i by (simp add: calculate_benchmark_metric_def split: risk_metric.splits)
qed

text \<open>Results with one answered value for each of some metrics.\<close>

definition answers :: "risk_metric set \<Rightarrow> metric_map \<Rightarrow> bool" where
  "answers names results \<longleftrightarrow>
     distinct (map fst results) \<and> fst ` set results = names \<and> list_all (answered \<circ> snd) results"

lemma calculate_requested_answers:
  assumes "\<forall>(m, r)\<in>set cs. metric_outcome r \<or> (\<exists>x. r = Inr (metric_error x))" "distinct (map fst cs)"
  shows "case calculate_requested metrics cs of
      Inl e \<Rightarrow> arithmetic_failure e
    | Inr results \<Rightarrow> answers (fst ` set cs \<inter> set metrics) results"
  using assms
proof (induction cs)
  case Nil
  then show ?case by (simp add: answers_def)
next
  case (Cons c cs)
  obtain m r where c: "c = (m, r)" by fastforce
  have r: "metric_outcome r \<or> (\<exists>x. r = Inr (metric_error x))" using Cons.prems(1) c by auto
  have fresh: "m \<notin> fst ` set cs" using Cons.prems(2) c by auto
  have ih: "case calculate_requested metrics cs of
      Inl e \<Rightarrow> arithmetic_failure e
    | Inr results \<Rightarrow> answers (fst ` set cs \<inter> set metrics) results"
    using Cons.IH Cons.prems by simp
  show ?case
  proof (cases "m \<in> set metrics")
    case False
    with ih c show ?thesis by (simp split: sum.splits)
  next
    case True
    consider e where "catch_metric r = Inl e" "arithmetic_failure e" | v where "catch_metric r = Inr v" "answered v"
      using r by (cases r rule: sum.exhaust)
        (auto simp: metric_outcome_def arithmetic_failure_def catch_metric_def answered_def split: calculation_error.splits)
    then show ?thesis
      using True fresh ih c by cases (auto simp: answers_def split: sum.splits)
  qed
qed

lemma answers_errors [simp]:
  "answers (set metrics) (benchmark_metric_errors metrics m)"
  "answers (set (filter (\<lambda>k. k \<in> set metrics) NON_DRAWDOWN_RETURN_METRICS)) (metric_series_error_map metrics m)"
  by (auto simp: answers_def benchmark_metric_errors_def distinct_metrics_def metric_series_error_map_def comp_def
      NON_DRAWDOWN_RETURN_METRICS_def image_image list_all_iff)

lemma answers_append:
  "answers A xs \<Longrightarrow> answers B ys \<Longrightarrow> A \<inter> B = {} \<Longrightarrow> answers (A \<union> B) (xs @ ys)"
  by (auto simp: answers_def)

lemma own_answers:
  "case period_non_benchmark_metrics ops request af rf mar s of
      Inl e \<Rightarrow> arithmetic_failure e
    | Inr own \<Rightarrow> answers (set (rs_metrics request) - set BENCHMARK_METRICS) (nb_map own)"
proof -
  let ?ms = "rs_metrics request" and ?o = "rs_options request"
  let ?var = "metric_return_series ops s Daily (ro_use_log_returns ?o)"
  show ?thesis
  proof (cases "metric_return_series ops s (ro_frequency ?o) (ro_use_log_returns ?o)")
    case (Inl m)
    let ?d = "if Drawdown \<in> set ?ms then [(Drawdown, calculate_drawdown_metric ops s)] else []"
    let ?D = "if Drawdown \<in> set ?ms then {Drawdown} else {}"
    let ?N = "set (filter (\<lambda>k. k \<in> set ?ms) NON_DRAWDOWN_RETURN_METRICS)"
    have "answered (calculate_drawdown_metric ops s)"
      using metric_outcomes(2) [of ops s] by (simp add: answered_def)
    then have "answers ?D ?d" by (simp add: answers_def)
    moreover have "?D \<inter> ?N = {}" by (simp add: NON_DRAWDOWN_RETURN_METRICS_def)
    ultimately have "answers (?D \<union> ?N) (?d @ metric_series_error_map ?ms m)"
      by (rule answers_append [OF _ answers_errors(2)])
    moreover have "x \<in> ?D \<union> ?N \<longleftrightarrow> x \<in> set ?ms - set BENCHMARK_METRICS" for x
      by (cases x) (simp_all add: BENCHMARK_METRICS_def NON_DRAWDOWN_RETURN_METRICS_def)
    then have "?D \<union> ?N = set ?ms - set BENCHMARK_METRICS" by blast
    ultimately have "answers (set ?ms - set BENCHMARK_METRICS) (?d @ metric_series_error_map ?ms m)" by simp
    with Inl show ?thesis by (simp add: period_non_benchmark_metrics_def Let_def)
  next
    case (Inr ser)
    let ?cs = "non_benchmark_calculators ops ?o af rf mar ser ?var s"
    have "\<forall>(m, r)\<in>set ?cs. metric_outcome r \<or> (\<exists>x. r = Inr (metric_error x))"
    proof -
      have "metric_outcome (calculate_var ops xs v)" for xs v by simp
      then have "metric_outcome (case ?var of Inl m \<Rightarrow> Inr (metric_error m) | Inr t \<Rightarrow> calculate_var ops (series_values t) (ro_var ?o)) \<or>
          (\<exists>x. (case ?var of Inl m \<Rightarrow> Inr (metric_error m) | Inr t \<Rightarrow> calculate_var ops (series_values t) (ro_var ?o)) = Inr (metric_error x))"
        by (cases ?var) auto
      then show ?thesis
        unfolding non_benchmark_calculators_def
        by (simp only: list.set ball_simps prod.case metric_outcomes simp_thms)
    qed
    moreover have keys: "map fst ?cs = [Volatility, Drawdown, Sharpe, Sortino, ValueAtRisk]"
      by (simp add: non_benchmark_calculators_def)
    ultimately have run: "case calculate_requested ?ms ?cs of
        Inl e \<Rightarrow> arithmetic_failure e
      | Inr results \<Rightarrow> answers (fst ` set ?cs \<inter> set ?ms) results"
      by (intro calculate_requested_answers) simp_all
    have other: "x \<in> {Volatility, Drawdown, Sharpe, Sortino, ValueAtRisk} \<longleftrightarrow> x \<notin> set BENCHMARK_METRICS" for x
      by (cases x) (simp_all add: BENCHMARK_METRICS_def)
    have "fst ` set ?cs = {Volatility, Drawdown, Sharpe, Sortino, ValueAtRisk}"
      using arg_cong [OF keys, of set] by simp
    then have "fst ` set ?cs \<inter> set ?ms = set ?ms - set BENCHMARK_METRICS"
      using other by blast
    with run Inr show ?thesis
      unfolding period_non_benchmark_metrics_def Let_def
      by (cases "calculate_requested ?ms ?cs") simp_all
  qed
qed

lemma benchmark_answers:
  "case calculate_aligned_benchmark_metrics ops ser b ms af of
      Inl e \<Rightarrow> arithmetic_failure e
    | Inr (results, n) \<Rightarrow> answers (set ms) results \<and> n = length (merge_inner ser b)"
  "case benchmark_period_metrics ops opts ser start finish bench ms af of
      Inl e \<Rightarrow> arithmetic_failure e
    | Inr (results, n, k) \<Rightarrow> answers (set ms) results"
  "case calculate_benchmark_period_metrics ops opts ser start finish bench ms af of
      Inl e \<Rightarrow> arithmetic_failure e
    | Inr r \<Rightarrow> answers (set ms) (br_map r)"
  "case period_benchmark_metrics ops opts own start finish bench ms af of
      Inl e \<Rightarrow> arithmetic_failure e
    | Inr found \<Rightarrow> (case found of None \<Rightarrow> ms = [] | Some r \<Rightarrow> answers (set ms) (br_map r))"
proof -
  have aligned: "case calculate_aligned_benchmark_metrics ops ser b ms af of
      Inl e \<Rightarrow> arithmetic_failure e
    | Inr (results, n) \<Rightarrow> answers (set ms) results \<and> n = length (merge_inner ser b)" for ser b
  proof -
    let ?al = "merge_inner ser b"
    let ?cs = "map (\<lambda>m. (m, calculate_benchmark_metric ops m (map (fst \<circ> snd) ?al) (map (snd \<circ> snd) ?al) af)) (distinct_metrics ms)"
    have cs: "fst ` set ?cs \<inter> set ms = set ms" "distinct (map fst ?cs)"
      by (auto simp: distinct_metrics_def comp_def image_image)
    have "case calculate_requested ms ?cs of
        Inl e \<Rightarrow> arithmetic_failure e
      | Inr results \<Rightarrow> answers (fst ` set ?cs \<inter> set ms) results"
      by (rule calculate_requested_answers) (use cs in auto)
    then show ?thesis
      unfolding cs(1) by (auto simp: calculate_aligned_benchmark_metrics_def Let_def split: sum.splits)
  qed
  show "case calculate_aligned_benchmark_metrics ops ser b ms af of
      Inl e \<Rightarrow> arithmetic_failure e
    | Inr (results, n) \<Rightarrow> answers (set ms) results \<and> n = length (merge_inner ser b)"
    by (rule aligned)
  have period: "case benchmark_period_metrics ops opts ser start finish bench ms af of
      Inl e \<Rightarrow> arithmetic_failure e
    | Inr (results, n, k) \<Rightarrow> answers (set ms) results" for ser
  proof (cases "align_and_resample_benchmark ops bench start finish (ro_frequency opts) (ro_use_log_returns opts)")
    case (Inl m)
    then show ?thesis by (simp add: benchmark_period_metrics_def)
  next
    case (Inr b)
    with aligned [of ser b] show ?thesis
      by (auto simp: benchmark_period_metrics_def split: sum.splits)
  qed
  show "case benchmark_period_metrics ops opts ser start finish bench ms af of
      Inl e \<Rightarrow> arithmetic_failure e
    | Inr (results, n, k) \<Rightarrow> answers (set ms) results"
    by (rule period)
  have whole: "case calculate_benchmark_period_metrics ops opts ser start finish bench ms af of
      Inl e \<Rightarrow> arithmetic_failure e
    | Inr r \<Rightarrow> answers (set ms) (br_map r)" for ser
    using period [of ser] by (auto simp: calculate_benchmark_period_metrics_def split: sum.splits)
  show "case calculate_benchmark_period_metrics ops opts ser start finish bench ms af of
      Inl e \<Rightarrow> arithmetic_failure e
    | Inr r \<Rightarrow> answers (set ms) (br_map r)"
    by (rule whole)
  show "case period_benchmark_metrics ops opts own start finish bench ms af of
      Inl e \<Rightarrow> arithmetic_failure e
    | Inr found \<Rightarrow> (case found of None \<Rightarrow> ms = [] | Some r \<Rightarrow> answers (set ms) (br_map r))"
    using whole [of "nb_series own"] by (auto simp: period_benchmark_metrics_def split: sum.splits option.splits)
qed

lemma dict_update_disjoint:
  "distinct (map fst other) \<Longrightarrow> fst ` set d \<inter> fst ` set other = {} \<Longrightarrow> dict_update d other = d @ other"
proof (induction other arbitrary: d)
  case (Cons kv other)
  obtain k v where kv: "kv = (k, v)" by fastforce
  have "AList.update k v d = d @ [(k, v)]" using Cons.prems kv by (intro update_fresh) auto
  moreover have "dict_update (d @ [(k, v)]) other = (d @ [(k, v)]) @ other"
    using Cons.prems kv by (intro Cons.IH) auto
  ultimately show ?case by (simp add: dict_update_def kv)
qed (simp add: dict_update_def)

lemma answers_union:
  assumes "answers A xs" "answers B ys" "A \<inter> B = {}"
  shows "answers (A \<union> B) (dict_update xs ys)"
proof -
  have "dict_update xs ys = xs @ ys"
    using assms by (intro dict_update_disjoint) (auto simp: answers_def)
  with answers_append [OF assms] show ?thesis by simp
qed

lemma single_period_answers:
  "case single_period_result ops request rates returns bench (start, finish) of
      Inl e \<Rightarrow> arithmetic_failure e
    | Inr r \<Rightarrow> rr_start_date r = start \<and> rr_end_date r = finish \<and>
        rr_portfolio_observation_count r = length (filter_period returns start finish) \<and>
        answers (set (rs_metrics request)) (rr_metrics r)"
proof -
  let ?own = "period_non_benchmark_metrics ops request (pr_annual_factor rates) (pr_risk_free rates) (pr_mar rates)
      (filter_period returns start finish)"
  let ?ms = "benchmark_metrics_requested (rs_metrics request)"
  have sets: "(set (rs_metrics request) - set BENCHMARK_METRICS) \<union> set ?ms = set (rs_metrics request)"
    "(set (rs_metrics request) - set BENCHMARK_METRICS) \<inter> set ?ms = {}"
    "?ms = [] \<Longrightarrow> set (rs_metrics request) - set BENCHMARK_METRICS = set (rs_metrics request)"
    by (auto simp: benchmark_metrics_requested_def filter_empty_conv)
  show ?thesis
  proof (cases ?own)
    case (Inl e)
    with own_answers [where ops = ops and request = request and af = "pr_annual_factor rates" and rf = "pr_risk_free rates"
        and mar = "pr_mar rates" and s = "filter_period returns start finish"] show ?thesis by (simp add: single_period_result_def Let_def)
  next
    case own: (Inr own)
    have o: "answers (set (rs_metrics request) - set BENCHMARK_METRICS) (nb_map own)"
      using own_answers [where ops = ops and request = request and af = "pr_annual_factor rates" and rf = "pr_risk_free rates"
        and mar = "pr_mar rates" and s = "filter_period returns start finish"] own by simp
    let ?b = "period_benchmark_metrics ops (rs_options request) own start finish bench ?ms (pr_annual_factor rates)"
    note b = benchmark_answers(4) [where ops = ops and opts = "rs_options request" and own = own and start = start
      and finish = finish and bench = bench and ms = ?ms and af = "pr_annual_factor rates"]
    show ?thesis
    proof (cases ?b)
      case (Inl e)
      with own b show ?thesis by (simp add: single_period_result_def Let_def)
    next
      case (Inr found)
      show ?thesis
      proof (cases found)
        case None
        with own Inr b o sets(3) show ?thesis by (simp add: single_period_result_def Let_def)
      next
        case (Some r)
        with Inr b have "answers (set ?ms) (br_map r)" by simp
        from answers_union [OF o this sets(2)] own Inr Some show ?thesis
          by (simp add: single_period_result_def Let_def sets(1))
      qed
    qed
  qed
qed

lemma risk_results_cases:
  assumes "distinct (map fst results @ map period_name periods)"
  shows "case risk_period_results ops request rates returns bench periods results of
      Inl e \<Rightarrow> (\<exists>p\<in>set periods. resolve_period p (rq_as_of_date (rs_scope request)) (rs_portfolio_open_date request) = Inl e) \<or>
        arithmetic_failure e
    | Inr out \<Rightarrow> \<exists>new. out = results @ new \<and> list_all2 (\<lambda>p (k, r). k = period_name p \<and>
        resolve_period p (rq_as_of_date (rs_scope request)) (rs_portfolio_open_date request) =
          Inr (rr_start_date r, rr_end_date r) \<and>
        rr_portfolio_observation_count r = length (filter_period returns (rr_start_date r) (rr_end_date r)) \<and>
        answers (set (rs_metrics request)) (rr_metrics r)) periods new"
  using assms
proof (induction periods arbitrary: results)
  case (Cons p ps)
  show ?case
  proof (cases "resolve_period p (rq_as_of_date (rs_scope request)) (rs_portfolio_open_date request)")
    case (Inl e)
    then show ?thesis by simp
  next
    case (Inr w)
    obtain a b where w: "w = (a, b)" by fastforce
    note one = single_period_answers [where ops = ops and request = request and rates = rates and returns = returns
        and bench = bench and start = a and finish = b]
    show ?thesis
    proof (cases "single_period_result ops request rates returns bench (a, b)")
      case l: (Inl e)
      with one Inr w show ?thesis by simp
    next
      case r: (Inr r)
      have up: "AList.update (period_name p) r results = results @ [(period_name p, r)]"
        using Cons.prems by (intro update_fresh) auto
      have "distinct (map fst (results @ [(period_name p, r)]) @ map period_name ps)"
        using Cons.prems by auto
      from Cons.IH [OF this] show ?thesis
        using one Inr w r by (auto simp: up split: sum.splits)
    qed
  qed
qed simp

definition answers_risk_period :: "risk_stateless_input \<Rightarrow> risk_period \<Rightarrow> string \<times> risk_period_result \<Rightarrow> bool" where
  "answers_risk_period request p entry \<longleftrightarrow>
     (let r = snd entry in
      fst entry = period_name p \<and>
      resolve_period p (rq_as_of_date (rs_scope request)) (rs_portfolio_open_date request) =
        Inr (rr_start_date r, rr_end_date r) \<and>
      rr_portfolio_observation_count r =
        length (period_points (rs_returns request) (rr_start_date r) (rr_end_date r)) \<and>
      answers (set (rs_metrics request)) (rr_metrics r))"

text \<open>A property of every value of a dictionary.\<close>

definition each :: "('v \<Rightarrow> bool) \<Rightarrow> ('k, 'v) dict \<Rightarrow> bool" where
  "each P d \<longleftrightarrow> list_all (\<lambda>kv. P (snd kv)) d"

lemma each_iff: "each P d \<longleftrightarrow> (\<forall>k v. (k, v) \<in> set d \<longrightarrow> P v)"
  by (force simp: each_def list_all_iff)

lemma each_cong: "(\<And>k v. (k, v) \<in> set d \<Longrightarrow> P v = Q v) \<Longrightarrow> each P d = each Q d"
  by (simp add: each_iff)

lemma each_conj: "each (\<lambda>v. P v \<and> Q v) d \<longleftrightarrow> each P d \<and> each Q d"
  by (auto simp: each_iff)

lemma each_list_all2: "list_all2 R xs d \<Longrightarrow> (\<And>x kv. R x kv \<Longrightarrow> P (snd kv)) \<Longrightarrow> each P d"
  by (induction rule: list_all2_induct) (auto simp: each_def)

text \<open>The posture of a report is ready exactly when every period has returns and every metric a value.\<close>

definition all_values :: "(string, risk_period_result) dict \<Rightarrow> bool" where
  "all_values results \<longleftrightarrow>
     each (\<lambda>r. 0 < rr_portfolio_observation_count r \<and> each (\<lambda>v. mv_value v \<noteq> None) (rr_metrics r)) results"

lemma clean_views:
  "clean_results (result_views results) \<longleftrightarrow> each (\<lambda>r. 0 < rr_portfolio_observation_count r) results"
  by (auto simp: clean_results_def result_views_def risk_result_view_def each_def list_all_iff period_degradation_def
      dependency_degradation_reason_def observation_count_def)

lemma scan_views:
  "ms_degraded_metric_count (scan_risk_metric_supportability (result_views results)) = 0 \<longleftrightarrow>
     each (\<lambda>r. each (\<lambda>v. metric_error_text v = None) (rr_metrics r)) results"
  "CalculationComplete \<notin> set (ms_degraded_reasons (scan_risk_metric_supportability (result_views results)))"
  "ms_degraded_reasons (scan_risk_metric_supportability (result_views results)) = [] \<longleftrightarrow>
     ms_degraded_metric_count (scan_risk_metric_supportability (result_views results)) = 0"
proof -
  let ?errors = "concat (map (\<lambda>kp. List.map_filter id (pd_metric_errors (snd kp))) (result_views results))"
  have "?errors = [] \<longleftrightarrow> each (\<lambda>r. each (\<lambda>v. metric_error_text v = None) (rr_metrics r)) results"
  proof -
    have "List.map_filter id (map (metric_error_text \<circ> snd) m) = [] \<longleftrightarrow> each (\<lambda>v. metric_error_text v = None) m" for m :: metric_map
      by (induction m) (auto simp: each_def List.map_filter_simps split: option.splits)
    then show ?thesis
      by (induction results) (auto simp: each_def result_views_def risk_result_view_def)
  qed
  then show "ms_degraded_metric_count (scan_risk_metric_supportability (result_views results)) = 0 \<longleftrightarrow>
     each (\<lambda>r. each (\<lambda>v. metric_error_text v = None) (rr_metrics r)) results"
    by (simp add: scan_risk_metric_supportability_def Let_def)
  show "CalculationComplete \<notin> set (ms_degraded_reasons (scan_risk_metric_supportability (result_views results)))"
    "ms_degraded_reasons (scan_risk_metric_supportability (result_views results)) = [] \<longleftrightarrow>
     ms_degraded_metric_count (scan_risk_metric_supportability (result_views results)) = 0"
    by (auto simp: scan_risk_metric_supportability_def Let_def dest: error_reason_ranked [THEN notE, OF sym])
qed

lemma risk_posture:
  assumes "each (\<lambda>r. each answered (rr_metrics r)) results"
  obtains s where "supportability_from_risk_metric_results returns as_of (result_views results) = Some s"
    "sound_supportability s"
    "su_state s = StateReady \<longleftrightarrow> returns \<noteq> [] \<and> all_values results \<and>
       freshness_bucket_from_returns returns as_of \<noteq> FreshStale"
proof (rule period_supportability_cases [of returns as_of "result_views results"])
  fix b assume b: "supportability_from_period_results returns as_of (result_views results) = Some b"
    "sound_supportability b"
    "su_state b = StateReady \<longleftrightarrow> returns \<noteq> [] \<and> clean_results (result_views results) \<and>
       freshness_bucket_from_returns returns as_of \<noteq> FreshStale"
  let ?scan = "scan_risk_metric_supportability (result_views results)"
  have vals: "all_values results \<longleftrightarrow> clean_results (result_views results) \<and> ms_degraded_metric_count ?scan = 0"
  proof -
    have "each (\<lambda>r. each (\<lambda>v. mv_value v \<noteq> None) (rr_metrics r)) results =
        each (\<lambda>r. each (\<lambda>v. metric_error_text v = None) (rr_metrics r)) results"
      by (intro each_cong) (use assms in \<open>simp add: each_iff answered_def; blast\<close>)
    then show ?thesis unfolding clean_views scan_views(1) all_values_def each_conj by simp
  qed
  consider "su_state b = StateEmpty" | "su_state b \<noteq> StateEmpty" "ms_degraded_metric_count ?scan = 0"
    | "su_state b \<noteq> StateEmpty" "ms_degraded_metric_count ?scan \<noteq> 0" by blast
  then show thesis
  proof cases
    case 1
    with b vals show ?thesis by (intro that [of b]) (auto simp: supportability_from_risk_metric_results_def)
  next
    case 2
    with b vals show ?thesis
      by (intro that [of b]) (auto simp: supportability_from_risk_metric_results_def Let_def)
  next
    case 3
    obtain q where "select_supportability_reason (ms_degraded_reasons ?scan) = Some q" "q \<noteq> CalculationComplete"
      using select_period_reasons [OF _ scan_views(2)] scan_views(3) 3(2) by metis
    with 3 b vals show ?thesis
      by (intro that [of "\<lparr>su_state = StateDegraded, su_reason = q,
          su_freshness_bucket = freshness_bucket_from_returns returns as_of,
          su_degraded_metric_count = ms_degraded_metric_count ?scan,
          su_empty_period_count = ms_empty_period_count ?scan,
          su_evaluated_period_count = length (result_views results)\<rparr>"])
        (simp_all add: supportability_from_risk_metric_results_def Let_def sound_supportability_def)
  qed
qed

lemma build_risk_response_ready:
  assumes "each (\<lambda>r. each answered (rr_metrics r)) results"
  obtains response where "build_risk_response fp request rf evidence results = Inr response"
    "re_results response = results" "rt_evidence (re_metadata response) = evidence"
    "su_state (rt_supportability (re_metadata response)) = StateReady \<longleftrightarrow> rs_returns request \<noteq> [] \<and>
       all_values results \<and> source_complete evidence \<and>
       freshness_bucket_from_returns (map pt_date (rs_returns request)) (rq_as_of_date (rs_scope request)) \<noteq> FreshStale"
proof (rule risk_posture [OF assms, of "map pt_date (rs_returns request)" "rq_as_of_date (rs_scope request)"])
  fix b assume b: "supportability_from_risk_metric_results (map pt_date (rs_returns request))
      (rq_as_of_date (rs_scope request)) (result_views results) = Some b" "sound_supportability b"
    "su_state b = StateReady \<longleftrightarrow> map pt_date (rs_returns request) \<noteq> [] \<and> all_values results \<and>
       freshness_bucket_from_returns (map pt_date (rs_returns request)) (rq_as_of_date (rs_scope request)) \<noteq> FreshStale"
  show thesis
    by (rule composed_from [OF b(2), of evidence]) (use b that in \<open>auto simp: build_risk_response_def Let_def\<close>)
qed

lemma rates_outcome:
  "resolve_periodic_rates ops opts af = Inl e \<Longrightarrow> arithmetic_failure e \<or> (\<exists>x y. rk_power ops x y = Inl e)"
  by (auto simp: resolve_periodic_rates_def annual_to_periodic_def float_of_int_def arithmetic_failure_def result_simps
      split: if_splits)

lemma metrics_answered:
  assumes names: "distinct (map period_name (rs_periods request))" and ne: "rs_returns request \<noteq> []"
  shows "case calculate_risk ops fp request evidence of
      Inl e \<Rightarrow> (\<exists>p\<in>set (rs_periods request). resolve_period p (rq_as_of_date (rs_scope request))
          (rs_portfolio_open_date request) = Inl e) \<or> arithmetic_failure e \<or> (\<exists>x y. rk_power ops x y = Inl e)
    | Inr response \<Rightarrow> list_all2 (answers_risk_period request) (rs_periods request) (re_results response) \<and>
        rt_evidence (re_metadata response) = evidence \<and>
        (su_state (rt_supportability (re_metadata response)) = StateReady \<longleftrightarrow>
           all_values (re_results response) \<and> source_complete evidence \<and>
           freshness_bucket_from_returns (map pt_date (rs_returns request)) (rq_as_of_date (rs_scope request)) \<noteq> FreshStale)"
proof (cases "resolve_periodic_rates ops (rs_options request) (annualization_factor_for_options (rs_options request))")
  case (Inl e)
  with ne rates_outcome [OF Inl] show ?thesis by (auto simp: calculate_risk_def Let_def)
next
  case (Inr rates)
  let ?R = "returns_frame (rs_returns request)" and ?B = "returns_frame (rs_benchmark_returns request)"
  let ?run = "risk_period_results ops request rates ?R ?B (rs_periods request) []"
  have cases': "case ?run of
      Inl e \<Rightarrow> (\<exists>p\<in>set (rs_periods request). resolve_period p (rq_as_of_date (rs_scope request)) (rs_portfolio_open_date request) = Inl e) \<or>
        arithmetic_failure e
    | Inr out \<Rightarrow> list_all2 (answers_risk_period request) (rs_periods request) out"
    using risk_results_cases [where results = "[]" and periods = "rs_periods request" and ops = ops and request = request
        and rates = rates and returns = ?R and bench = ?B] names
    by (auto simp: answers_risk_period_def filter_returns_frame Let_def split: sum.splits
        elim!: list_all2_mono)
  show ?thesis
  proof (cases ?run)
    case l: (Inl e)
    with cases' Inr ne show ?thesis by (auto simp: calculate_risk_def Let_def)
  next
    case r: (Inr results)
    with cases' have all: "list_all2 (answers_risk_period request) (rs_periods request) results" by simp
    then have "each (\<lambda>r. each answered (rr_metrics r)) results"
      by (rule each_list_all2) (simp add: answers_risk_period_def answers_def each_def Let_def comp_def)
    then obtain response where "build_risk_response fp request (pr_risk_free rates) evidence results = Inr response"
      "re_results response = results" "rt_evidence (re_metadata response) = evidence"
      "su_state (rt_supportability (re_metadata response)) = StateReady \<longleftrightarrow> rs_returns request \<noteq> [] \<and>
         all_values results \<and> source_complete evidence \<and>
         freshness_bucket_from_returns (map pt_date (rs_returns request)) (rq_as_of_date (rs_scope request)) \<noteq> FreshStale"
      by (rule build_risk_response_ready)
    with all r Inr ne show ?thesis by (simp add: calculate_risk_def Let_def)
  qed
qed

lemma report_without_risk_returns:
  assumes "rs_returns request = []"
  obtains response where "calculate_risk ops fp request evidence = Inr response"
    "re_results response = []" "rt_evidence (re_metadata response) = evidence"
    "su_state (rt_supportability (re_metadata response)) \<noteq> StateReady"
  by (rule build_risk_response_ready [of "[]" fp request 0 evidence])
    (use assms that in \<open>auto simp: calculate_risk_def Let_def each_def\<close>)

text \<open>C27: A report on returns answers every requested period once, under its name and in order, with the dates it
  resolves to and the number of returns dated in them, and in every period each requested metric once: a
  value, or the text of an error.  Its posture is ready exactly when every period has returns, every metric a
  value, the returns are not stale and the source is complete.  A request without any returns is admitted
  too: its report answers no period and is not ready.  A \<open>ValueError\<close> of a metric never fails a report; it
  fails, and only when there are returns, with the error of a period that does not resolve, an overflow, a
  division by zero, or the error the numeric library raises for a power.\<close>

theorem every_metric_is_answered:
  assumes "validate_risk_stateless request = Inr ()"
  shows "case calculate_risk ops fp request evidence of
      Inl e \<Rightarrow> rs_returns request \<noteq> [] \<and>
        ((\<exists>p\<in>set (rs_periods request). resolve_period p (rq_as_of_date (rs_scope request))
          (rs_portfolio_open_date request) = Inl e) \<or> arithmetic_failure e \<or> (\<exists>x y. rk_power ops x y = Inl e))
    | Inr response \<Rightarrow> rt_evidence (re_metadata response) = evidence \<and>
        (if rs_returns request = []
         then re_results response = [] \<and> su_state (rt_supportability (re_metadata response)) \<noteq> StateReady
         else list_all2 (answers_risk_period request) (rs_periods request) (re_results response) \<and>
           (su_state (rt_supportability (re_metadata response)) = StateReady \<longleftrightarrow>
             all_values (re_results response) \<and> source_complete evidence \<and>
             freshness_bucket_from_returns (map pt_date (rs_returns request)) (rq_as_of_date (rs_scope request)) \<noteq> FreshStale))"
proof (cases "rs_returns request = []")
  case True
  then obtain response where "calculate_risk ops fp request evidence = Inr response"
    "re_results response = []" "rt_evidence (re_metadata response) = evidence"
    "su_state (rt_supportability (re_metadata response)) \<noteq> StateReady"
    by (rule report_without_risk_returns)
  with True show ?thesis by simp
next
  case False
  have "distinct (map period_name (rs_periods request))"
    using assms by (auto simp: validate_risk_stateless_def result_simps validate_unique_names_iff)
  from metrics_answered [OF this False, where ops = ops and fp = fp and evidence = evidence] False
  show ?thesis by (simp split: sum.splits)
qed

section \<open>Value at risk reads the daily returns\<close>

lemma calculate_requested_entry:
  assumes "calculate_requested metrics cs = Inr results" "distinct (map fst cs)" "(m, r) \<in> set cs" "m \<in> set metrics"
  shows "\<exists>v. catch_metric r = Inr v \<and> map_of results m = Some v"
  using assms
proof (induction cs arbitrary: results)
  case (Cons c cs)
  obtain k q where c: "c = (k, q)" by fastforce
  show ?case
  proof (cases "k = m")
    case True
    then have "q = r" using Cons.prems(2,3) c by force
    with True Cons.prems c show ?thesis by (auto simp: result_simps)
  next
    case False
    with Cons.prems(3) c have mem: "(m, r) \<in> set cs" by auto
    show ?thesis
    proof (cases "k \<in> set metrics")
      case True
      with Cons.prems(1) c obtain w rest where "calculate_requested metrics cs = Inr rest" "results = (k, w) # rest"
        by (auto simp: result_simps)
      with Cons.IH [of rest] Cons.prems mem c False show ?thesis by auto
    next
      case k: False
      with Cons.IH [of results] Cons.prems mem c show ?thesis by auto
    qed
  qed
qed simp

definition daily_var :: "risk_ops \<Rightarrow> risk_options \<Rightarrow> series \<Rightarrow> (calculation_error, risk_value) result" where
  "daily_var ops opts returns =
     (case metric_return_series ops returns Daily (ro_use_log_returns opts) of
        Inl message \<Rightarrow> Inr (metric_error message)
      | Inr s \<Rightarrow> calculate_var ops (series_values s) (ro_var opts))"

text \<open>Whatever the frequency, the value at risk is computed from the daily returns of the period, and its
  text says so; only where the series of that frequency cannot be formed is it refused with the others,
  for a gap between weekly or monthly buckets although the daily returns are there.\<close>

theorem var_reads_daily_returns:
  assumes "period_non_benchmark_metrics ops request annual_factor rf mar returns = Inr own"
    and "ValueAtRisk \<in> set (rs_metrics request)"
  shows "case metric_return_series ops returns (ro_frequency (rs_options request)) (ro_use_log_returns (rs_options request)) of
      Inl message \<Rightarrow> map_of (nb_map own) ValueAtRisk = Some (metric_error message)
    | Inr s \<Rightarrow> \<exists>v. catch_metric (daily_var ops (rs_options request) returns) = Inr v \<and>
        map_of (nb_map own) ValueAtRisk = Some v"
proof (cases "metric_return_series ops returns (ro_frequency (rs_options request)) (ro_use_log_returns (rs_options request))")
  case (Inl m)
  with assms show ?thesis
    by (auto simp: period_non_benchmark_metrics_def Let_def metric_series_error_map_def NON_DRAWDOWN_RETURN_METRICS_def)
next
  case (Inr s)
  let ?cs = "non_benchmark_calculators ops (rs_options request) annual_factor rf mar s
      (metric_return_series ops returns Daily (ro_use_log_returns (rs_options request))) returns"
  have run: "calculate_requested (rs_metrics request) ?cs = Inr (nb_map own)"
    using assms(1) Inr by (auto simp: period_non_benchmark_metrics_def Let_def result_simps)
  have "distinct (map fst ?cs)" "(ValueAtRisk, daily_var ops (rs_options request) returns) \<in> set ?cs"
    by (simp_all add: non_benchmark_calculators_def daily_var_def)
  from calculate_requested_entry [OF run this assms(2)] Inr show ?thesis by simp
qed

section \<open>An example\<close>

definition example_risk_options :: risk_options where
  "example_risk_options =
     \<lparr>ro_frequency = Weekly, ro_annualization_factor = None, ro_use_log_returns = False,
      ro_risk_free_mode = ZeroRate, ro_risk_free_annual_rate = None, ro_mar_annual_rate = 0,
      ro_var = \<lparr>vo_method = Historical, vo_confidence = flit (95 / 100), vo_horizon_days = 1,
        vo_include_expected_shortfall = False\<rparr>\<rparr>"

definition example_risk_request :: risk_stateless_input where
  "example_risk_request =
     \<lparr>rs_scope = \<lparr>rq_as_of_date = Date 2026 3 31, rq_reporting_currency = None, rq_net_or_gross = Net\<rparr>,
      rs_periods = [example_year 2026], rs_metrics = [Drawdown, Beta],
      rs_options = example_risk_options, rs_portfolio_open_date = Date 2026 1 2,
      rs_returns = map (\<lambda>(d, v). \<lparr>pt_date = d, pt_value = v\<rparr>) sample_returns, rs_benchmark_returns = []\<rparr>"

text \<open>The example's functions never raise.\<close>

lemma reference_power: "rk_power reference_risk_ops x y \<noteq> Inl e"
  by (simp add: reference_risk_ops_def numeric_ops.defs)

lemma example_rates:
  "resolve_periodic_rates reference_risk_ops example_risk_options 52 = Inr \<lparr>pr_annual_factor = 52, pr_risk_free = 0, pr_mar = 0\<rparr>"
proof -
  have "rnd (of_int 52) = of_int 52" by (rule rnd_of_int) simp
  then have "float_of_int 52 = Inr 52" by (simp add: float_of_int_def)
  moreover have "rk_power reference_risk_ops (fadd 1 0) x = Inr 1" for x
    by (simp add: reference_risk_ops_def numeric_ops.defs)
  ultimately have "annual_to_periodic reference_risk_ops 0 52 = Inr 0"
    by (simp add: annual_to_periodic_def fsub_def)
  then show ?thesis by (simp add: resolve_periodic_rates_def example_risk_options_def annual_rate_applies_def)
qed

lemma example_period_answered:
  "\<exists>r. single_period_result reference_risk_ops example_risk_request rates returns [] window = Inr r"
proof -
  obtain a b where w: "window = (a, b)" by fastforce
  obtain own where own: "period_non_benchmark_metrics reference_risk_ops example_risk_request (pr_annual_factor rates)
      (pr_risk_free rates) (pr_mar rates) (filter_period returns a b) = Inr own"
    by (cases "metric_return_series reference_risk_ops (filter_period returns a b) Weekly False")
      (simp_all add: period_non_benchmark_metrics_def Let_def non_benchmark_calculators_def example_risk_request_def
        example_risk_options_def catch_metric_def)
  have ms: "benchmark_metrics_requested (rs_metrics example_risk_request) = [Beta]"
    by (simp add: benchmark_metrics_requested_def BENCHMARK_METRICS_def example_risk_request_def)
  have "\<exists>found. period_benchmark_metrics reference_risk_ops (rs_options example_risk_request) own a b []
      (benchmark_metrics_requested (rs_metrics example_risk_request)) (pr_annual_factor rates) = Inr found"
    unfolding ms by (cases "nb_error own") (simp_all add: period_benchmark_metrics_def calculate_benchmark_period_metrics_def)
  then obtain found where "period_benchmark_metrics reference_risk_ops (rs_options example_risk_request) own a b []
      (benchmark_metrics_requested (rs_metrics example_risk_request)) (pr_annual_factor rates) = Inr found"
    by blast
  with own w show ?thesis by (simp add: single_period_result_def Let_def)
qed

theorem every_metric_is_answered_witness:
  "\<exists>response r. calculate_risk reference_risk_ops example_digests example_risk_request None = Inr response \<and>
     re_results response = [(''YEAR'', r)] \<and> answers {Drawdown, Beta} (rr_metrics r)"
proof -
  let ?c = "calculate_risk reference_risk_ops example_digests example_risk_request None"
  have valid: "validate_risk_stateless example_risk_request = Inr ()" by code_simp
  have ne: "rs_returns example_risk_request \<noteq> []" by (simp add: example_risk_request_def sample_returns_def)
  have fields: "rs_periods example_risk_request = [example_year 2026]"
    "rq_as_of_date (rs_scope example_risk_request) = Date 2026 3 31" "period_name (example_year 2026) = ''YEAR''"
    "rs_portfolio_open_date example_risk_request = Date 2026 1 2" "rs_options example_risk_request = example_risk_options"
    "set (rs_metrics example_risk_request) = {Drawdown, Beta}" "rs_benchmark_returns example_risk_request = []"
    "annualization_factor_for_options example_risk_options = 52"
    by (simp_all add: example_risk_request_def period_name_def example_year_def example_risk_options_def
        annualization_factor_for_options_def)
  have window: "resolve_period (example_year 2026) (Date 2026 3 31) (Date 2026 1 2) = Inr (Date 2026 1 2, Date 2026 12 31)"
    by code_simp
  obtain r where r: "single_period_result reference_risk_ops example_risk_request
      \<lparr>pr_annual_factor = 52, pr_risk_free = 0, pr_mar = 0\<rparr> (returns_frame (rs_returns example_risk_request)) []
      (Date 2026 1 2, Date 2026 12 31) = Inr r"
    using example_period_answered by blast
  then have "risk_period_results reference_risk_ops example_risk_request
      \<lparr>pr_annual_factor = 52, pr_risk_free = 0, pr_mar = 0\<rparr> (returns_frame (rs_returns example_risk_request)) []
      [example_year 2026] [] = Inr [(''YEAR'', r)]"
    by (simp add: fields window)
  moreover have "each (\<lambda>r. each answered (rr_metrics r)) [(''YEAR'', r)]"
    using single_period_answers [where ops = reference_risk_ops and request = example_risk_request
        and rates = "\<lparr>pr_annual_factor = 52, pr_risk_free = 0, pr_mar = 0\<rparr>"
        and returns = "returns_frame (rs_returns example_risk_request)" and bench = "[]"
        and start = "Date 2026 1 2" and finish = "Date 2026 12 31"] r
    by (simp add: each_def answers_def comp_def)
  then obtain response where "build_risk_response example_digests example_risk_request 0 None [(''YEAR'', r)] = Inr response"
    by (rule build_risk_response_ready)
  ultimately have run: "?c = Inr response"
    using ne by (simp add: calculate_risk_def fields example_rates Let_def returns_frame_def)
  from every_metric_is_answered [OF valid, where ops = reference_risk_ops and fp = example_digests and evidence = None]
  have "list_all2 (answers_risk_period example_risk_request) [example_year 2026] (re_results response)"
    using ne by (simp add: run fields)
  with run show ?thesis
    by (auto simp: list_all2_Cons1 answers_risk_period_def Let_def fields)
qed

theorem var_reads_daily_returns_witness:
  "\<exists>own. period_non_benchmark_metrics reference_risk_ops (example_risk_request\<lparr>rs_metrics := [ValueAtRisk]\<rparr>) 52 0 0
       weekly_sample = Inr own \<and>
     map_of (nb_map own) ValueAtRisk = Some (metric_error (RESAMPLING_GAP_ERROR_PREFIX @ '': 2026-01-23''))"
proof -
  let ?request = "example_risk_request\<lparr>rs_metrics := [ValueAtRisk]\<rparr>"
  let ?m = "RESAMPLING_GAP_ERROR_PREFIX @ '': 2026-01-23''"
  have opts: "rs_options ?request = example_risk_options" by (simp add: example_risk_request_def)
  have gap: "metric_return_series reference_risk_ops weekly_sample (ro_frequency (rs_options ?request))
      (ro_use_log_returns (rs_options ?request)) = Inl ?m"
    unfolding opts by (simp add: metric_return_series_def example_risk_options_def weekly_sample_refused)
  then obtain own where own: "period_non_benchmark_metrics reference_risk_ops ?request 52 0 0 weekly_sample = Inr own"
    by (simp add: period_non_benchmark_metrics_def Let_def)
  have mem: "ValueAtRisk \<in> set (rs_metrics ?request)" by simp
  from var_reads_daily_returns [OF own mem, unfolded gap sum.case] own show ?thesis by blast
qed

end
