(* ===== verification/RiskSourcing.thy ===== *)
theory RiskSourcing
  imports Main RiskPeriods CoreClient
begin

text \<open>
  The stateful branch of the risk report: the currency of a portfolio
  (services/core_portfolio_currency.py), the risk-free series of lotus-core (services/core_risk_free_series.py),
  the sourcing and the lineage of the report (services/risk_mode_adapter.py), its request
  (contracts/risk_stateful_inputs.py, contracts/risk_request_inputs.py) and the route
  (routers/risk_calculation.py).
\<close>

section \<open>Requests\<close>

record risk_stateful_input =
  rf_portfolio_id :: string
  rf_as_of_date :: date
  rf_reporting_currency :: "string option"
  rf_client_id :: "string option"
  rf_benchmark_id :: "string option"
  rf_net_or_gross :: net_or_gross
  rf_periods :: "risk_period list"
  rf_metrics :: "risk_metric list"
  rf_options :: risk_options

datatype risk_mode = RiskStateless | RiskStateful

record risk_request =
  rq_input_mode :: risk_mode
  rq_stateless_input :: "risk_stateless_input option"
  rq_stateful_input :: "risk_stateful_input option"

definition validate_risk_stateful :: "risk_stateful_input \<Rightarrow> (string, unit) result" where
  "validate_risk_stateful payload = validate_unique_period_names (rf_periods payload)"

definition validate_risk_request :: "risk_request \<Rightarrow> (string, unit) result" where
  "validate_risk_request rq =
     (if rq_input_mode rq = RiskStateless \<and> rq_stateless_input rq = None
      then Inl ''stateless_input is required when input_mode=stateless''
      else raise_if (rq_input_mode rq = RiskStateful \<and> rq_stateful_input rq = None)
        ''stateful_input is required when input_mode=stateful'')"

section \<open>The currency of a portfolio\<close>

record resolved_currency =
  rx_reporting_currency :: "string option"
  rx_snapshot_request :: "json_object option"

definition currency_of :: "json \<Rightarrow> string option" where
  "currency_of v =
     (case v of
        JString s \<Rightarrow> (if py_strip s = [] then None else Some (py_strip s))
      | _ \<Rightarrow> None)"

definition currency_snapshot_request :: "date \<Rightarrow> json_object" where
  "currency_snapshot_request as_of_date =
     [(''snapshot_mode'', JString ''BASELINE''), (''as_of_date'', JString (isoformat as_of_date)),
      (''sections'', JArray [JString ''portfolio_totals''])]"

definition snapshot_error :: "string \<Rightarrow> calculation_error" where
  "snapshot_error message =
     UpstreamFailure (invalid_upstream_payload ''lotus-core'' LOTUS_CORE_SNAPSHOT_OPERATION message [])"

definition snapshot_currency :: "json_object \<Rightarrow> (calculation_error, string) result" where
  "snapshot_currency snapshot =
     (case json_get snapshot ''valuation_context'' of
        JObject kvs \<Rightarrow>
          (case currency_of (json_get kvs ''reporting_currency'') of
             Some c \<Rightarrow> Inr c
           | None \<Rightarrow> (case currency_of (json_get kvs ''portfolio_currency'') of
               Some c \<Rightarrow> Inr c
             | None \<Rightarrow> Inl (snapshot_error ''lotus-core core-snapshot missing portfolio/reporting currency'')))
      | _ \<Rightarrow> Inl (snapshot_error ''lotus-core core-snapshot missing valuation context for risk-free currency''))"

definition resolve_portfolio_reporting_currency ::
  "string \<Rightarrow> date \<Rightarrow> string option \<Rightarrow> bool \<Rightarrow> core_client option \<Rightarrow> downstream_authority \<Rightarrow> resolved_currency io"
where
  "resolve_portfolio_reporting_currency portfolio_id as_of_date requested risk_free core_client authority =
     (if str_truthy requested \<or> \<not> risk_free
      then return_io \<lparr>rx_reporting_currency = requested, rx_snapshot_request = None\<rparr>
      else case core_client of
        None \<Rightarrow> raise_io (PlainValueError ''lotus-core client is required for stateful risk-free sourcing'')
      | Some client \<Rightarrow>
          let request = currency_snapshot_request as_of_date in
          bind_io (get_core_snapshot client portfolio_id request authority) (\<lambda>snapshot.
          bind_io (lift_io (snapshot_currency snapshot)) (\<lambda>c.
            return_io \<lparr>rx_reporting_currency = Some c, rx_snapshot_request = Some request\<rparr>)))"

section \<open>The risk-free series\<close>

definition build_risk_free_series_request :: "string \<Rightarrow> date \<Rightarrow> date \<Rightarrow> date \<Rightarrow> json_object" where
  "build_risk_free_series_request currency as_of_date start_date end_date =
     [(''currency'', JString currency), (''as_of_date'', JString (isoformat as_of_date)),
      (''series_mode'', JString ''annualized_rate_series''),
      (''window'', JObject [(''start_date'', JString (isoformat start_date)),
        (''end_date'', JString (isoformat end_date))]),
      (''frequency'', JString ''daily'')]"

definition risk_free_error :: "string \<Rightarrow> calculation_error" where
  "risk_free_error message = UpstreamFailure (invalid_upstream_payload ''lotus-core''
     ''/integration/reference/risk-free-series'' message [])"

definition PERIODIC_VALUE_CONVENTIONS :: "string list" where
  "PERIODIC_VALUE_CONVENTIONS = [''period_return'', ''periodic_return'', ''daily_return'', ''return_series'']"

definition ANNUALIZED_VALUE_CONVENTIONS :: "string list" where
  "ANNUALIZED_VALUE_CONVENTIONS = [''annualized_rate'', ''annual_rate'']"

definition value_convention :: "field_readers \<Rightarrow> json \<Rightarrow> string" where
  "value_convention readers v =
     (case v of
        JString s \<Rightarrow> py_lower (py_strip s)
      | _ \<Rightarrow> if json_truthy v then py_lower (py_strip (fr_text readers v)) else [])"

text \<open>
  A decimal in percentage points as a float, \<open>None\<close> being one that is not finite.  A signalling number is
  an \<open>InvalidOperation\<close> of the product, and a \<open>ValueError\<close> of the conversion to a float.
\<close>

definition percentage_points :: "rat \<Rightarrow> (calculation_error, f64 option) result" where
  "percentage_points q =
     (let p = dmul q 100 in if decimal_overflows p then Inl (Escaped ''Overflow'') else Inr (float_of_decimal p))"

definition periodic_of_annual :: "risk_ops \<Rightarrow> rat \<Rightarrow> int \<Rightarrow> (calculation_error, f64 option) result" where
  "periodic_of_annual ops q basis =
     bind_result (float_of_int basis) (\<lambda>_.
       case float_of_decimal q of
         None \<Rightarrow> Inr None
       | Some rate \<Rightarrow> bind_result (annual_to_periodic ops rate basis) percentage_points)"

definition parse_periodic_return ::
  "risk_ops \<Rightarrow> field_readers \<Rightarrow> json_object \<Rightarrow> int \<Rightarrow> (calculation_error, f64 option) result"
where
  "parse_periodic_return ops readers row basis =
     (let v = json_get row ''value''; convention = value_convention readers (json_get row ''value_convention'') in
      case read_decimal v of
        NotADecimal \<Rightarrow> Inl (risk_free_error (''Invalid risk-free value from lotus-core: '' @ fr_text readers v))
      | reading \<Rightarrow>
          if convention \<in> set PERIODIC_VALUE_CONVENTIONS then
            (case reading of
               FiniteDecimal q \<Rightarrow> percentage_points q
             | NonFiniteDecimal SignalingNaN \<Rightarrow> Inl (Escaped ''InvalidOperation'')
             | _ \<Rightarrow> Inr None)
          else if convention \<in> set ANNUALIZED_VALUE_CONVENTIONS then
            (case reading of
               FiniteDecimal q \<Rightarrow> periodic_of_annual ops q basis
             | NonFiniteDecimal SignalingNaN \<Rightarrow> Inl (PlainValueError ''cannot convert signaling NaN to float'')
             | _ \<Rightarrow> Inr None)
          else Inl (risk_free_error (''Unsupported risk-free value_convention from lotus-core: '' @
            fr_text readers (json_get row ''value_convention''))))"

text \<open>Dates are read with \<open>date.fromisoformat\<close>, whose \<open>ValueError\<close> is not caught here.\<close>

fun risk_free_rows ::
  "risk_ops \<Rightarrow> field_readers \<Rightarrow> int \<Rightarrow> json list \<Rightarrow> (calculation_error, return_point list) result"
where
  "risk_free_rows ops readers basis [] = Inr []"
| "risk_free_rows ops readers basis (row # rows) =
     (case row of
        JObject kvs \<Rightarrow>
          (case json_get kvs ''series_date'' of
             JString raw_date \<Rightarrow>
               (case date_fromisoformat raw_date of
                  None \<Rightarrow> Inl (PlainValueError (fr_refusal readers raw_date))
                | Some d \<Rightarrow>
                    bind_result (parse_periodic_return ops readers kvs basis) (\<lambda>v.
                    bind_result (new_return_point readers d v) (\<lambda>p.
                    bind_result (risk_free_rows ops readers basis rows) (\<lambda>ps. Inr (p # ps)))))
           | _ \<Rightarrow> risk_free_rows ops readers basis rows)
      | _ \<Rightarrow> risk_free_rows ops readers basis rows)"

definition to_risk_free_return_points ::
  "risk_ops \<Rightarrow> field_readers \<Rightarrow> json_object \<Rightarrow> int \<Rightarrow> (calculation_error, return_point list) result"
where
  "to_risk_free_return_points ops readers payload basis =
     (case json_get payload ''points'' of
        JArray rows \<Rightarrow> risk_free_rows ops readers basis rows
      | _ \<Rightarrow> Inl (risk_free_error ''lotus-core risk-free-series payload missing 'points' list''))"

section \<open>Sourcing\<close>

record risk_source =
  rc_source_payload :: json_object
  rc_core_snapshot_request :: "json_object option"
  rc_risk_free_request :: "json_object option"
  rc_reporting_currency :: "string option"
  rc_portfolio_points :: "return_point list"
  rc_benchmark_points :: "return_point list"
  rc_risk_free_points :: "return_point list"
  rc_evidence :: returns_evidence

definition requires_benchmark :: "risk_stateful_input \<Rightarrow> bool" where
  "requires_benchmark stateful \<longleftrightarrow> (\<exists>m\<in>set (rf_metrics stateful). m \<in> set BENCHMARK_METRICS)"

definition risk_frequency :: "risk_stateful_input \<Rightarrow> string" where
  "risk_frequency stateful = frequency_value (ro_frequency (rf_options stateful))"

definition risk_returns_query :: "risk_stateful_input \<Rightarrow> returns_query" where
  "risk_returns_query stateful =
     \<lparr>qy_portfolio_id = rf_portfolio_id stateful, qy_as_of_date = rf_as_of_date stateful,
      qy_periods = rf_periods stateful, qy_frequency = risk_frequency stateful,
      qy_metric_basis = rf_net_or_gross stateful, qy_reporting_currency = rf_reporting_currency stateful,
      qy_include_benchmark = requires_benchmark stateful, qy_include_risk_free = False,
      qy_missing_data_policy = ''ALLOW_PARTIAL'', qy_benchmark_id = rf_benchmark_id stateful\<rparr>"

definition point_dates :: "return_point list \<Rightarrow> date list" where
  "point_dates points = map pt_date points"

definition build_stateful_risk_free_request ::
  "risk_stateful_input \<Rightarrow> return_point list \<Rightarrow> (calculation_error, json_object option) result"
where
  "build_stateful_risk_free_request stateful portfolio_points =
     (if \<not> requires_risk_free (rf_metrics stateful) then Inr None
      else case rf_reporting_currency stateful of
        None \<Rightarrow> Inl (PlainValueError ''reporting currency is required for stateful risk-free sourcing'')
      | Some currency \<Rightarrow>
          (case point_dates portfolio_points of
             [] \<Rightarrow> Inl (PlainValueError ''min() arg is an empty sequence'')
           | d # ds \<Rightarrow> Inr (Some (build_risk_free_series_request currency (rf_as_of_date stateful)
               (foldl min d ds) (foldl max d ds)))))"

definition fetch_risk_free_payload ::
  "json_object option \<Rightarrow> core_client option \<Rightarrow> downstream_authority \<Rightarrow> json_object option io"
where
  "fetch_risk_free_payload request core_client authority =
     (case request of
        None \<Rightarrow> return_io None
      | Some r \<Rightarrow>
          (case core_client of
             None \<Rightarrow> raise_io (PlainValueError ''lotus-core client is required for stateful Sharpe risk-free sourcing'')
           | Some client \<Rightarrow> bind_io (get_risk_free_series client r authority) (\<lambda>payload. return_io (Some payload))))"

text \<open>What a series answer gives before anything else is asked: the points, evidence and risk-free request.\<close>

definition read_portfolio_returns ::
  "field_readers \<Rightarrow> risk_stateful_input \<Rightarrow> json_object \<Rightarrow> json_object \<Rightarrow>
     (calculation_error, json_object \<times> return_point list \<times> returns_evidence \<times> json_object option) result"
where
  "read_portfolio_returns readers stateful payload answer =
     bind_result (extract_required_portfolio_returns readers (risk_frequency stateful) answer) (\<lambda>(series, points).
     bind_result (extract_stateful_returns_source_evidence readers answer
         \<lparr>si_portfolio_id = rf_portfolio_id stateful, si_as_of_date = rf_as_of_date stateful,
          si_frequency = risk_frequency stateful,
          si_metric_basis = net_or_gross_value (rf_net_or_gross stateful)\<rparr>
         (Some (requested_window_of payload)) (Some points)) (\<lambda>evidence.
     bind_result (normalize_return_points_to_resolved_window answer points (risk_frequency stateful)) (\<lambda>normalized.
     bind_result (build_stateful_risk_free_request stateful normalized) (\<lambda>risk_free_request.
       Inr (series, normalized, evidence, risk_free_request)))))"

definition read_benchmark_returns ::
  "field_readers \<Rightarrow> risk_stateful_input \<Rightarrow> json_object \<Rightarrow> json_object \<Rightarrow> (calculation_error, return_point list) result"
where
  "read_benchmark_returns readers stateful series answer =
     (if requires_benchmark stateful then
        bind_result (to_return_points readers (risk_frequency stateful) (json_get series ''benchmark_returns'')) (\<lambda>points.
          normalize_return_points_to_resolved_window answer points (risk_frequency stateful))
      else Inr [])"

definition read_risk_free_returns ::
  "risk_ops \<Rightarrow> field_readers \<Rightarrow> risk_stateful_input \<Rightarrow> json_object option \<Rightarrow> (calculation_error, return_point list) result"
where
  "read_risk_free_returns ops readers stateful risk_free_response =
     (case risk_free_response of
        None \<Rightarrow> Inr []
      | Some payload \<Rightarrow>
          bind_result (to_risk_free_return_points ops readers payload
              (annualization_factor_for_options (rf_options stateful))) (\<lambda>points.
            if points = [] then Inl (UpstreamFailure (missing_upstream_data ''lotus-core''
              ''/integration/reference/risk-free-series''
              ''lotus-core returned no usable risk-free returns for stateful Sharpe'' []))
            else Inr points))"

definition fetch_stateful_risk_source ::
  "risk_ops \<Rightarrow> field_readers \<Rightarrow> risk_stateful_input \<Rightarrow> performance_client \<Rightarrow> core_client option \<Rightarrow>
     json_object option \<Rightarrow> downstream_authority \<Rightarrow> risk_source io"
where
  "fetch_stateful_risk_source ops readers stateful performance_client core_client snapshot_request authority =
     bind_io (lift_io (build_stateful_returns_series_request (risk_returns_query stateful))) (\<lambda>payload.
     bind_io (execute_returns_series_request performance_client payload authority) (\<lambda>answer.
     bind_io (lift_io (read_portfolio_returns readers stateful payload answer))
       (\<lambda>(series, points, evidence, risk_free_request).
     bind_io (fetch_risk_free_payload risk_free_request core_client authority) (\<lambda>risk_free_response.
     bind_io (lift_io (read_benchmark_returns readers stateful series answer)) (\<lambda>benchmark_points.
     bind_io (lift_io (read_risk_free_returns ops readers stateful risk_free_response)) (\<lambda>risk_free_points.
       return_io \<lparr>rc_source_payload = payload, rc_core_snapshot_request = snapshot_request,
         rc_risk_free_request = risk_free_request, rc_reporting_currency = rf_reporting_currency stateful,
         rc_portfolio_points = points, rc_benchmark_points = benchmark_points,
         rc_risk_free_points = risk_free_points, rc_evidence = evidence\<rparr>))))))"

section \<open>The calculation\<close>

definition annualized_rate_from_risk_free_returns ::
  "risk_ops \<Rightarrow> return_point list \<Rightarrow> int \<Rightarrow> (calculation_error, f64 option) result"
where
  "annualized_rate_from_risk_free_returns ops points annualization_factor =
     (if points = [] then Inr None
      else let mean = fdiv (py_sum (map (\<lambda>p. fdiv (pt_value p) 100) points)) (of_nat (length points)) in
        bind_result (float_of_int annualization_factor) (\<lambda>factor.
        bind_result (rk_power ops (fadd 1 mean) factor) (\<lambda>x. Inr (Some (fsub x 1)))))"

definition options_with_sourced_risk_free ::
  "risk_ops \<Rightarrow> risk_options \<Rightarrow> return_point list \<Rightarrow> (calculation_error, risk_options) result"
where
  "options_with_sourced_risk_free ops opts points =
     bind_result (annualized_rate_from_risk_free_returns ops points (annualization_factor_for_options opts)) (\<lambda>rate.
       case rate of
         None \<Rightarrow> Inr opts
       | Some r \<Rightarrow> Inr (opts\<lparr>ro_risk_free_mode := AnnualRate, ro_risk_free_annual_rate := Some r\<rparr>))"

definition portfolio_open_date :: "return_point list \<Rightarrow> date \<Rightarrow> date" where
  "portfolio_open_date points as_of_date =
     (case point_dates points of [] \<Rightarrow> as_of_date | d # ds \<Rightarrow> foldl min d ds)"

text \<open>The stateless request is validated as it is constructed.\<close>

definition stateless_risk_input ::
  "risk_ops \<Rightarrow> field_readers \<Rightarrow> risk_stateful_input \<Rightarrow> risk_source \<Rightarrow> (calculation_error, risk_stateless_input) result"
where
  "stateless_risk_input ops readers stateful source =
     bind_result (options_with_sourced_risk_free ops (rf_options stateful) (rc_risk_free_points source)) (\<lambda>opts.
     let request = \<lparr>rs_scope = \<lparr>rq_as_of_date = rf_as_of_date stateful,
            rq_reporting_currency = rc_reporting_currency source, rq_net_or_gross = rf_net_or_gross stateful\<rparr>,
          rs_periods = rf_periods stateful, rs_metrics = rf_metrics stateful, rs_options = opts,
          rs_portfolio_open_date = portfolio_open_date (rc_portfolio_points source) (rf_as_of_date stateful),
          rs_returns = rc_portfolio_points source, rs_benchmark_returns = rc_benchmark_points source\<rparr>
     in case validate_risk_stateless request of
          Inl m \<Rightarrow> Inl (PlainValueError (fr_refusal readers m))
        | Inr _ \<Rightarrow> Inr request)"

definition attach_stateful_risk_lineage ::
  "risk_stateless_input fingerprints \<Rightarrow> risk_response \<Rightarrow> risk_source \<Rightarrow> string \<Rightarrow> risk_response"
where
  "attach_stateful_risk_lineage fp response source portfolio_id =
     (let performance = source_fingerprint fp ''lotus-performance'' RETURNS_SERIES_OPERATION
            (JObject (rc_source_payload source));
          snapshot = (case rc_core_snapshot_request source of
              None \<Rightarrow> []
            | Some r \<Rightarrow> source_fingerprint fp ''lotus-core'' LOTUS_CORE_SNAPSHOT_OPERATION
                (JObject [(''portfolio_id'', JString portfolio_id), (''request_payload'', JObject r)]));
          risk_free = (case rc_risk_free_request source of
              None \<Rightarrow> []
            | Some r \<Rightarrow> source_fingerprint fp ''lotus-core'' ''/integration/reference/risk-free-series'' (JObject r))
      in response\<lparr>re_metadata := (re_metadata response)
           \<lparr>rt_source_services := ordered_source_services (''lotus-performance'' #
              (if rc_risk_free_request source \<noteq> None then [''lotus-core''] else [])),
            rt_upstream_fingerprints := dict_update (dict_update performance snapshot) risk_free\<rparr>\<rparr>)"

definition calculate_risk_from_source ::
  "risk_ops \<Rightarrow> risk_stateless_input fingerprints \<Rightarrow> field_readers \<Rightarrow> risk_stateful_input \<Rightarrow> risk_source \<Rightarrow>
     (calculation_error, risk_response) result"
where
  "calculate_risk_from_source ops fp readers stateful source =
     bind_result (stateless_risk_input ops readers stateful source) (\<lambda>request.
     bind_result (calculate_risk ops fp request (Some (rc_evidence source))) (\<lambda>response.
       Inr (attach_stateful_risk_lineage fp response source (rf_portfolio_id stateful))))"

definition calculate_risk_stateful ::
  "risk_ops \<Rightarrow> risk_stateless_input fingerprints \<Rightarrow> field_readers \<Rightarrow> risk_stateful_input \<Rightarrow> performance_client \<Rightarrow>
     core_client option \<Rightarrow> downstream_authority \<Rightarrow> risk_response io"
where
  "calculate_risk_stateful ops fp readers stateful performance_client core_client authority =
     bind_io (resolve_portfolio_reporting_currency (rf_portfolio_id stateful) (rf_as_of_date stateful)
       (rf_reporting_currency stateful) (requires_risk_free (rf_metrics stateful)) core_client authority) (\<lambda>resolved.
     let priced = stateful\<lparr>rf_reporting_currency := rx_reporting_currency resolved\<rparr> in
     bind_io (fetch_stateful_risk_source ops readers priced performance_client core_client
       (rx_snapshot_request resolved) authority) (\<lambda>source.
       lift_io (calculate_risk_from_source ops fp readers priced source)))"

section \<open>The route\<close>

definition analytics_risk_calculate ::
  "risk_ops \<Rightarrow> risk_stateless_input fingerprints \<Rightarrow> field_readers \<Rightarrow> performance_client option \<Rightarrow> core_client option \<Rightarrow>
     string option \<Rightarrow> string option \<Rightarrow> risk_request \<Rightarrow> trace \<Rightarrow> (route_error, risk_response) result \<times> trace"
where
  "analytics_risk_calculate ops fp readers performance_client core_client tenant_id correlation_id rq t =
     (case rq_input_mode rq of
        RiskStateless \<Rightarrow>
          (case rq_stateless_input rq of
             None \<Rightarrow> (Inl (CalculationFailure
               (PlainValueError ''stateless_input is required when input_mode=stateless'')), t)
           | Some payload \<Rightarrow> (calculation_result (calculate_risk ops fp payload None), t))
      | RiskStateful \<Rightarrow>
          (case rq_stateful_input rq of
             None \<Rightarrow> (Inl (CalculationFailure
               (PlainValueError ''stateful_input is required when input_mode=stateful'')), t)
           | Some stateful \<Rightarrow>
               if requires_risk_free (rf_metrics stateful)
               then stateful_route tenant_id correlation_id
                 (Option.bind performance_client (\<lambda>p. map_option (\<lambda>c. (p, c)) core_client))
                 (\<lambda>(p, c). calculate_risk_stateful ops fp readers stateful p (Some c)) t
               else stateful_route tenant_id correlation_id performance_client
                 (\<lambda>p. calculate_risk_stateful ops fp readers stateful p None) t))"

section \<open>What a stateful report sends\<close>

lemma headed_under_authority:
  "headed_by client (downstream_authority_headers a) ev \<Longrightarrow> under_authority a ev"
  by (auto simp: headed_by_def under_authority_def downstream_authority_headers_def TENANT_ID_HEADER_def
      CORRELATION_ID_HEADER_def Let_def split: event.splits option.splits)

lemma returns_series_calls [emits_intros]:
  "emits (under_authority a) (execute_returns_series_request client payload a)"
proof -
  have "\<exists>es. snd (execute_returns_series_request client payload a t) = t @ es \<and> list_all (under_authority a) es" for t
    using async_workflow_calls [of client RETURNS_SERIES_ASYNC_OPERATIONS payload a t]
    by (auto simp: execute_returns_series_request_def intro!: headed_under_authority elim!: list.pred_mono_strong)
  then show ?thesis by (simp add: emits_def)
qed

lemma at_most_returns_series:
  "at_most (1 + 2 * pc_async_max_polls client) (execute_returns_series_request client payload a)"
  unfolding at_most_def execute_returns_series_request_def
  by (metis async_workflow_calls add_le_cancel_left requests_in_simps(5))

lemma risk_free_calls [emits_intros]:
  "emits (under_authority a) (get_risk_free_series client payload a)"
  "emits (under_authority a) (fetch_risk_free_payload request core a)"
proof -
  show rf: "emits (under_authority a) (get_risk_free_series client payload a)" for client payload
    unfolding get_risk_free_series_def execute_lotus_core_json_request_def option.case
    by (intro emits_client) (simp_all add: tenant_scoped_under_authority, simp add: under_authority_def)
  show "emits (under_authority a) (fetch_risk_free_payload request core a)"
    unfolding fetch_risk_free_payload_def by (auto split: option.splits intro!: emits_intros rf)
qed

lemma at_most_core:
  "at_most 1 (get_core_snapshot client portfolio_id payload a)"
  "at_most 1 (get_risk_free_series client payload a)"
  "at_most 1 (fetch_risk_free_payload request core a)"
proof -
  show "at_most 1 (get_core_snapshot client portfolio_id payload a)"
    unfolding get_core_snapshot_def execute_lotus_core_tenant_scoped_request_def
    by (rule at_most_bind [where a = 0 and b = 1]) (auto intro: emits_intros at_most_client simp del: One_nat_def)
  show rf: "at_most 1 (get_risk_free_series client payload a)" for client payload
    unfolding get_risk_free_series_def execute_lotus_core_json_request_def by (rule at_most_client)
  show "at_most 1 (fetch_risk_free_payload request core a)"
    unfolding fetch_risk_free_payload_def
    by (auto split: option.splits intro!: emits_intros at_most_bind [where a = 1 and b = 0, OF rf])
qed

lemma currency_calls:
  "emits (under_authority a) (resolve_portfolio_reporting_currency p d c rf core a)"
  "at_most 1 (resolve_portfolio_reporting_currency p d c rf core a)"
  unfolding resolve_portfolio_reporting_currency_def Let_def
  by (auto split: option.splits intro!: emits_intros at_most_bind [where a = 1 and b = 0, OF at_most_core(1)]
      at_most_bind [where a = 0 and b = 0 and n = 0])

lemma source_calls:
  "emits (under_authority a) (fetch_stateful_risk_source ops readers stateful client core snapshot a)"
  "at_most (2 + 2 * pc_async_max_polls client) (fetch_stateful_risk_source ops readers stateful client core snapshot a)"
proof -
  show "emits (under_authority a) (fetch_stateful_risk_source ops readers stateful client core snapshot a)"
    unfolding fetch_stateful_risk_source_def by (auto split: prod.splits intro!: emits_intros)
  have "at_most 0 (bind_io (lift_io (read_benchmark_returns readers stateful series answer)) (\<lambda>b.
      bind_io (lift_io (read_risk_free_returns ops readers stateful r)) (\<lambda>f. return_io (g b f))))" for series answer r and g :: "_ \<Rightarrow> _ \<Rightarrow> risk_source"
    by (rule at_most_bind [where a = 0 and b = 0], rule emits_intros,
        rule at_most_bind [where a = 0 and b = 0]) (auto intro: emits_intros)
  then have tail: "at_most 1 (bind_io (fetch_risk_free_payload request core a) (\<lambda>r.
      bind_io (lift_io (read_benchmark_returns readers stateful series answer)) (\<lambda>b.
      bind_io (lift_io (read_risk_free_returns ops readers stateful r)) (\<lambda>f. return_io (g b f)))))" for request series answer and g :: "_ \<Rightarrow> _ \<Rightarrow> risk_source"
    by (intro at_most_bind [where a = 1 and b = 0, OF at_most_core(3)]) simp_all
  show "at_most (2 + 2 * pc_async_max_polls client) (fetch_stateful_risk_source ops readers stateful client core snapshot a)"
    unfolding fetch_stateful_risk_source_def
    by (rule at_most_bind [where a = 0 and b = "2 + 2 * pc_async_max_polls client"], rule emits_intros,
        rule at_most_bind [where a = "1 + 2 * pc_async_max_polls client" and b = 1, OF at_most_returns_series],
        rule at_most_bind [where a = 0 and b = 1], rule emits_intros)
      (auto split: prod.splits intro!: tail simp del: One_nat_def)
qed

lemma risk_stateful_calls:
  "emits (under_authority a) (calculate_risk_stateful ops fp readers stateful client core a)"
  "at_most (3 + 2 * pc_async_max_polls client) (calculate_risk_stateful ops fp readers stateful client core a)"
proof -
  show "emits (under_authority a) (calculate_risk_stateful ops fp readers stateful client core a)"
    unfolding calculate_risk_stateful_def Let_def by (intro emits_intros currency_calls(1) source_calls(1))
  have "at_most (2 + 2 * pc_async_max_polls client) (bind_io (fetch_stateful_risk_source ops readers s client core n a)
      (\<lambda>source. lift_io (calculate_risk_from_source ops fp readers s source)))" for s n
    by (rule at_most_bind [where a = "2 + 2 * pc_async_max_polls client" and b = 0, OF source_calls(2)])
      (auto intro: emits_intros)
  then show "at_most (3 + 2 * pc_async_max_polls client) (calculate_risk_stateful ops fp readers stateful client core a)"
    unfolding calculate_risk_stateful_def Let_def
    by (intro at_most_bind [where a = 1 and b = "2 + 2 * pc_async_max_polls client", OF currency_calls(2)]) simp_all
qed


section \<open>What a stateful report rests on\<close>

definition risk_identity :: "risk_stateful_input \<Rightarrow> source_identity" where
  "risk_identity stateful =
     \<lparr>si_portfolio_id = rf_portfolio_id stateful, si_as_of_date = rf_as_of_date stateful,
      si_frequency = risk_frequency stateful, si_metric_basis = net_or_gross_value (rf_net_or_gross stateful)\<rparr>"

text \<open>
  What each part of a run was answered: the currency, which is read from the portfolio's snapshot only where
  a risk-free rate is needed and none was requested; the returns, which are the answer of one workflow; and
  the risk-free rates, which are read from one series for the dates of the returns.
\<close>

definition currency_call :: "core_client \<Rightarrow> string \<Rightarrow> date \<Rightarrow> downstream_authority \<Rightarrow> http_call" where
  "currency_call client portfolio_id as_of_date a =
     core_post client (snapshot_path portfolio_id)
       (AList.update ''tenant_id'' (JString (da_tenant_id a))
         (AList.update ''consumer_system'' (JString RISK_CONSUMER_SYSTEM) (currency_snapshot_request as_of_date))) a []"

definition currency_sourced ::
  "core_client option \<Rightarrow> string \<Rightarrow> date \<Rightarrow> downstream_authority \<Rightarrow> bool \<Rightarrow> string option \<Rightarrow> trace \<Rightarrow> event list \<Rightarrow>
     string option \<Rightarrow> bool"
where
  "currency_sourced core portfolio_id as_of_date a risk_free requested t events currency \<longleftrightarrow>
     (if str_truthy requested \<or> \<not> risk_free then events = [] \<and> currency = requested
      else \<exists>client snapshot c. core = Some client \<and> snapshot_currency snapshot = Inr c \<and> currency = Some c \<and>
        call_answered (cc_peer client) t (currency_call client portfolio_id as_of_date a) snapshot events)"

definition returns_answered ::
  "performance_client \<Rightarrow> downstream_authority \<Rightarrow> json_object \<Rightarrow> trace \<Rightarrow> json_object \<Rightarrow> event list \<Rightarrow> bool"
where
  "returns_answered client a payload t answer events \<longleftrightarrow>
     one_workflow client a events \<and>
     workflow_answer client RETURNS_SERIES_ASYNC_OPERATIONS payload a t answer (t @ events)"

definition risk_free_call :: "core_client \<Rightarrow> downstream_authority \<Rightarrow> json_object \<Rightarrow> http_call" where
  "risk_free_call client a payload = core_post client ''/integration/reference/risk-free-series'' payload a []"

definition rates_sourced ::
  "risk_ops \<Rightarrow> field_readers \<Rightarrow> risk_stateful_input \<Rightarrow> string option \<Rightarrow> return_point list \<Rightarrow> core_client option \<Rightarrow>
     downstream_authority \<Rightarrow> trace \<Rightarrow> event list \<Rightarrow> return_point list \<Rightarrow> bool"
where
  "rates_sourced ops readers stateful currency returns core a t events rates \<longleftrightarrow>
     (if requires_risk_free (rf_metrics stateful)
      then \<exists>client c answer. core = Some client \<and> currency = Some c \<and>
        call_answered (cc_peer client) t (risk_free_call client a (build_risk_free_series_request c
          (rf_as_of_date stateful) (Min (pt_date ` set returns)) (Max (pt_date ` set returns)))) answer events \<and>
        to_risk_free_return_points ops readers answer (annualization_factor_for_options (rf_options stateful)) =
          Inr rates \<and> rates \<noteq> []
      else events = [] \<and> rates = [])"

text \<open>
  The request a stateful report is computed from: its returns and benchmark returns are those of an answer
  that is the source of the stateful request, clipped to the resolved window, and its options apply the rate
  of the sourced risk-free returns.
\<close>

definition sourced_request ::
  "risk_ops \<Rightarrow> field_readers \<Rightarrow> risk_stateful_input \<Rightarrow> json_object \<Rightarrow> return_point list \<Rightarrow> returns_evidence \<Rightarrow>
     risk_stateless_input \<Rightarrow> bool"
where
  "sourced_request ops readers stateful answer rates e request \<longleftrightarrow>
     rs_periods request = rf_periods stateful \<and> rs_metrics request = rf_metrics stateful \<and>
     rq_as_of_date (rs_scope request) = rf_as_of_date stateful \<and>
     rq_net_or_gross (rs_scope request) = rf_net_or_gross stateful \<and>
     rs_portfolio_open_date request \<in> pt_date ` set (rs_returns request) \<and>
     options_with_sourced_risk_free ops (rf_options stateful) rates = Inr (rs_options request) \<and>
     (rates \<noteq> [] \<longrightarrow> annual_rate_applies (rs_options request)) \<and>
     (\<exists>window series points.
        build_returns_series_window (rf_periods stateful) (rf_as_of_date stateful) = Inr window \<and>
        extract_required_portfolio_returns readers (risk_frequency stateful) answer = Inr (series, points) \<and>
        returns_source answer (risk_identity stateful) window points e \<and>
        validate_returns_evidence readers (source_evidence_payload answer) = Some e \<and>
        normalize_return_points_to_resolved_window answer points (risk_frequency stateful) = Inr (rs_returns request) \<and>
        read_benchmark_returns readers stateful series answer = Inr (rs_benchmark_returns request))"

lemma resolved_currency:
  assumes "resolve_portfolio_reporting_currency p d requested risk_free core a t = (Inr resolved, u)"
  shows "\<exists>events. u = t @ events \<and>
    currency_sourced core p d a risk_free requested t events (rx_reporting_currency resolved)"
proof (cases "str_truthy requested \<or> \<not> risk_free")
  case True
  with assms show ?thesis by (auto simp: resolve_portfolio_reporting_currency_def currency_sourced_def)
next
  case False
  with assms obtain client snapshot c where core: "core = Some client"
    and snapshot: "get_core_snapshot client p (currency_snapshot_request d) a t = (Inr snapshot, u)"
    and c: "snapshot_currency snapshot = Inr c" "rx_reporting_currency resolved = Some c"
    by (auto simp: resolve_portfolio_reporting_currency_def Let_def split: option.splits elim!: bind_io_InrE)
  have "map_of (currency_snapshot_request d) ''tenant_id'' = None"
    "map_of (currency_snapshot_request d) ''consumer_system'' = None"
    by (simp_all add: currency_snapshot_request_def)
  with snapshot have "\<exists>events. u = t @ events \<and> call_answered (cc_peer client) t (currency_call client p d a) snapshot events"
    by (auto simp: get_core_snapshot_def currency_call_def result_simps risk_core_snapshot_payload_iff
        elim!: bind_io_InrE dest!: tenant_scoped_answered)
  with core c False show ?thesis by (auto simp: currency_sourced_def)
qed

lemma returns_series_answered:
  assumes "execute_returns_series_request client payload a t = (Inr answer, u)"
  shows "\<exists>events. u = t @ events \<and> returns_answered client a payload t answer events"
proof -
  from async_workflow_calls [of client RETURNS_SERIES_ASYNC_OPERATIONS payload a t] assms
  obtain events where "u = t @ events" "one_workflow client a events"
    by (auto simp: execute_returns_series_request_def one_workflow_def)
  moreover from workflow_answered [OF assms [unfolded execute_returns_series_request_def]]
  have "workflow_answer client RETURNS_SERIES_ASYNC_OPERATIONS payload a t answer u" .
  ultimately show ?thesis by (auto simp: returns_answered_def)
qed

lemma risk_free_series_answered:
  assumes "get_risk_free_series client payload a t = (Inr answer, u)"
  shows "\<exists>events. u = t @ events \<and> call_answered (cc_peer client) t (risk_free_call client a payload) answer events"
  using execute_call_answered [OF assms [unfolded get_risk_free_series_def execute_lotus_core_json_request_def
      execute_with_client_def option.case]]
  by (simp add: risk_free_call_def core_post_def)

lemma foldl_min_is_Min: "foldl min d ds = Min (set (d # ds))" for d :: date
proof (induction ds arbitrary: d)
  case (Cons x ds)
  from Cons [of "min d x"] show ?case by (cases "ds = []") (simp_all add: min.assoc)
qed simp

lemma foldl_max_is_Max: "foldl max d ds = Max (set (d # ds))" for d :: date
proof (induction ds arbitrary: d)
  case (Cons x ds)
  from Cons [of "max d x"] show ?case by (cases "ds = []") (simp_all add: max.assoc)
qed simp

lemma foldl_min_mem: "foldl min d ds \<in> set (d # ds)" for d :: date
proof (induction ds arbitrary: d)
  case (Cons x ds)
  from Cons [of "min d x"] show ?case by (auto simp: min_def)
qed simp

lemma open_date_mem: "points \<noteq> [] \<Longrightarrow> portfolio_open_date points d \<in> pt_date ` set points"
  using foldl_min_mem [of "pt_date (hd points)" "map pt_date (tl points)"]
  by (cases points) (auto simp: portfolio_open_date_def point_dates_def)

lemma normalized_nonempty:
  "normalize_return_points_to_resolved_window answer points frequency = Inr qs \<Longrightarrow> points \<noteq> [] \<Longrightarrow> qs \<noteq> []"
  by (auto simp: normalize_return_points_to_resolved_window_def result_simps split: if_splits option.splits)

lemma sourced_options:
  assumes "options_with_sourced_risk_free ops opts points = Inr out" "points \<noteq> []"
  shows "annual_rate_applies out"
  using assms
  by (auto simp: options_with_sourced_risk_free_def annualized_rate_from_risk_free_returns_def annual_rate_applies_def
      Let_def result_simps)

lemma validated_Inr_iff:
  "(case r of Inl m \<Rightarrow> Inl (f m) | Inr _ \<Rightarrow> Inr y) = Inr z \<longleftrightarrow> (\<exists>v. r = Inr v) \<and> z = y"
  by (cases r) auto

lemma requested_risk_free:
  assumes "build_stateful_risk_free_request stateful returns = Inr request"
  shows "if requires_risk_free (rf_metrics stateful)
    then \<exists>c. rf_reporting_currency stateful = Some c \<and> request = Some (build_risk_free_series_request c
      (rf_as_of_date stateful) (Min (pt_date ` set returns)) (Max (pt_date ` set returns)))
    else request = None"
proof (cases "requires_risk_free (rf_metrics stateful)")
  case True
  with assms obtain c d ds where "rf_reporting_currency stateful = Some c" "point_dates returns = d # ds"
    "request = Some (build_risk_free_series_request c (rf_as_of_date stateful) (foldl min d ds) (foldl max d ds))"
    by (auto simp: build_stateful_risk_free_request_def split: option.splits list.splits)
  moreover from this(2) have "pt_date ` set returns = set (d # ds)" by (metis point_dates_def set_map)
  ultimately show ?thesis using True by (simp add: foldl_min_is_Min foldl_max_is_Max)
next
  case False
  with assms show ?thesis by (simp add: build_stateful_risk_free_request_def)
qed

lemma fetched_rates:
  assumes request: "build_stateful_risk_free_request stateful returns = Inr request"
    and fetch: "fetch_risk_free_payload request core a t = (Inr response, u)"
    and read: "read_risk_free_returns ops readers stateful response = Inr rates"
  shows "\<exists>events. u = t @ events \<and>
    rates_sourced ops readers stateful (rf_reporting_currency stateful) returns core a t events rates"
proof (cases "requires_risk_free (rf_metrics stateful)")
  case False
  with requested_risk_free [OF request] fetch read show ?thesis
    by (auto simp: fetch_risk_free_payload_def read_risk_free_returns_def rates_sourced_def)
next
  case True
  with requested_risk_free [OF request] obtain c payload where c: "rf_reporting_currency stateful = Some c"
    "request = Some payload" "payload = build_risk_free_series_request c (rf_as_of_date stateful)
      (Min (pt_date ` set returns)) (Max (pt_date ` set returns))" by auto
  with fetch obtain client answer where client: "core = Some client" "response = Some answer"
    "get_risk_free_series client payload a t = (Inr answer, u)"
    by (auto simp: fetch_risk_free_payload_def split: option.splits elim!: bind_io_InrE)
  from read client(2) have "to_risk_free_return_points ops readers answer
      (annualization_factor_for_options (rf_options stateful)) = Inr rates" "rates \<noteq> []"
    by (auto simp: read_risk_free_returns_def result_simps split: if_splits)
  with risk_free_series_answered [OF client(3)] c client(1) True show ?thesis
    by (auto simp: rates_sourced_def)
qed

lemma fetched_source:
  assumes run: "fetch_stateful_risk_source ops readers stateful client core snapshot authority t = (Inr source, u)"
  obtains payload answer ws rs series points where
    "u = t @ ws @ rs" "build_stateful_returns_series_request (risk_returns_query stateful) = Inr payload"
    "returns_answered client authority payload t answer ws"
    "rates_sourced ops readers stateful (rf_reporting_currency stateful) (rc_portfolio_points source) core authority
       (t @ ws) rs (rc_risk_free_points source)"
    "extract_required_portfolio_returns readers (risk_frequency stateful) answer = Inr (series, points)"
    "extract_stateful_returns_source_evidence readers answer (risk_identity stateful)
       (Some (requested_window_of payload)) (Some points) = Inr (rc_evidence source)"
    "normalize_return_points_to_resolved_window answer points (risk_frequency stateful) = Inr (rc_portfolio_points source)"
    "read_benchmark_returns readers stateful series answer = Inr (rc_benchmark_points source)"
    "rc_reporting_currency source = rf_reporting_currency stateful"
proof -
  from run obtain payload answer series points e request response bench rates v where
    payload: "build_stateful_returns_series_request (risk_returns_query stateful) = Inr payload"
    and answered: "execute_returns_series_request client payload authority t = (Inr answer, v)"
    and read: "read_portfolio_returns readers stateful payload answer = Inr (series, points, e, request)"
    and response: "fetch_risk_free_payload request core authority v = (Inr response, u)"
    and bench: "read_benchmark_returns readers stateful series answer = Inr bench"
    and rates: "read_risk_free_returns ops readers stateful response = Inr rates"
    and source: "rc_evidence source = e" "rc_portfolio_points source = points" "rc_benchmark_points source = bench"
      "rc_risk_free_points source = rates" "rc_reporting_currency source = rf_reporting_currency stateful"
    by (auto simp: fetch_stateful_risk_source_def elim!: bind_io_InrE)
  from read obtain raw where raw: "extract_required_portfolio_returns readers (risk_frequency stateful) answer = Inr (series, raw)"
    "extract_stateful_returns_source_evidence readers answer (risk_identity stateful)
       (Some (requested_window_of payload)) (Some raw) = Inr e"
    "normalize_return_points_to_resolved_window answer raw (risk_frequency stateful) = Inr points"
    and request: "build_stateful_risk_free_request stateful points = Inr request"
    by (auto simp: read_portfolio_returns_def risk_identity_def result_simps)
  from returns_series_answered [OF answered] obtain ws where
    ws: "v = t @ ws" "returns_answered client authority payload t answer ws" by blast
  from fetched_rates [OF request response rates] obtain rs where
    "u = v @ rs" "rates_sourced ops readers stateful (rf_reporting_currency stateful) points core authority v rs rates"
    by blast
  with payload ws raw bench source show thesis by (intro that) auto
qed



definition sourced_options_example :: risk_options where
  "sourced_options_example = example_risk_options\<lparr>ro_frequency := Daily, ro_annualization_factor := Some 52\<rparr>"

definition example_risk_stateful :: risk_stateful_input where
  "example_risk_stateful =
     \<lparr>rf_portfolio_id = ''P1'', rf_as_of_date = Date 2026 3 31, rf_reporting_currency = None, rf_client_id = None,
      rf_benchmark_id = None, rf_net_or_gross = Net, rf_periods = [example_year 2026], rf_metrics = [Drawdown],
      rf_options = sourced_options_example\<rparr>"

lemma drawdown_period_answered:
  assumes "rs_metrics request = [Drawdown]" "rs_options request = sourced_options_example"
  shows "\<exists>r. single_period_result reference_risk_ops request rates returns [] window = Inr r"
proof -
  obtain a b where w: "window = (a, b)" by fastforce
  obtain own where own: "period_non_benchmark_metrics reference_risk_ops request (pr_annual_factor rates)
      (pr_risk_free rates) (pr_mar rates) (filter_period returns a b) = Inr own"
    using assms by (cases "metric_return_series reference_risk_ops (filter_period returns a b) Daily False")
     (simp_all add: period_non_benchmark_metrics_def Let_def non_benchmark_calculators_def
        sourced_options_example_def example_risk_options_def catch_metric_def)
  have "benchmark_metrics_requested (rs_metrics request) = []"
    by (simp add: assms benchmark_metrics_requested_def BENCHMARK_METRICS_def)
  then have "\<exists>found. period_benchmark_metrics reference_risk_ops (rs_options request) own a b []
      (benchmark_metrics_requested (rs_metrics request)) (pr_annual_factor rates) = Inr found"
    by (cases "nb_error own") (simp_all add: period_benchmark_metrics_def calculate_benchmark_period_metrics_def)
  then obtain found where "period_benchmark_metrics reference_risk_ops (rs_options request) own a b []
      (benchmark_metrics_requested (rs_metrics request)) (pr_annual_factor rates) = Inr found"
    by blast
  with own w show ?thesis by (simp add: single_period_result_def Let_def)
qed

lemma example_risk_calculation:
  assumes "rc_portfolio_points source = [daily_point]" "rc_benchmark_points source = []" "rc_risk_free_points source = []"
  shows "\<exists>response. calculate_risk_from_source reference_risk_ops example_digests sample_readers example_risk_stateful source =
    Inr response"
proof -
  define request where "request = \<lparr>rs_scope = \<lparr>rq_as_of_date = Date 2026 3 31,
      rq_reporting_currency = rc_reporting_currency source, rq_net_or_gross = Net\<rparr>,
    rs_periods = [example_year 2026], rs_metrics = [Drawdown], rs_options = sourced_options_example,
    rs_portfolio_open_date = Date 2026 1 2, rs_returns = [daily_point], rs_benchmark_returns = []\<rparr>"
  have "validate_unique_period_names [example_year 2026] = Inr ()"
    "validate_unique_return_dates [daily_point] ''returns'' = Inr ()"
    "validate_unique_return_dates [] ''benchmark_returns'' = Inr ()"
    by code_simp+
  then have valid: "validate_risk_stateless request = Inr ()"
    by (simp add: validate_risk_stateless_def request_def)
  have input: "stateless_risk_input reference_risk_ops sample_readers example_risk_stateful source = Inr request"
    using assms valid
    by (simp add: stateless_risk_input_def options_with_sourced_risk_free_def annualized_rate_from_risk_free_returns_def
        portfolio_open_date_def point_dates_def example_risk_stateful_def daily_point_def request_def)
  have window: "resolve_period (example_year 2026) (Date 2026 3 31) (Date 2026 1 2) = Inr (Date 2026 1 2, Date 2026 12 31)"
    by code_simp
  obtain r where r: "single_period_result reference_risk_ops request
      \<lparr>pr_annual_factor = 52, pr_risk_free = 0, pr_mar = 0\<rparr> (returns_frame [daily_point]) []
      (Date 2026 1 2, Date 2026 12 31) = Inr r"
    using drawdown_period_answered [of request] by (force simp: request_def)
  have rates: "resolve_periodic_rates reference_risk_ops sourced_options_example 52 =
      Inr \<lparr>pr_annual_factor = 52, pr_risk_free = 0, pr_mar = 0\<rparr>"
    using example_rates by (simp add: resolve_periodic_rates_def sourced_options_example_def annual_rate_applies_def
        example_risk_options_def)
  have results: "risk_period_results reference_risk_ops request \<lparr>pr_annual_factor = 52, pr_risk_free = 0, pr_mar = 0\<rparr>
      (returns_frame [daily_point]) [] [example_year 2026] [] = Inr [(''YEAR'', r)]"
    using r window by (simp add: request_def period_name_def example_year_def)
  have "each (\<lambda>r. each answered (rr_metrics r)) [(''YEAR'', r)]"
    using single_period_answers [where ops = reference_risk_ops and request = request
        and rates = "\<lparr>pr_annual_factor = 52, pr_risk_free = 0, pr_mar = 0\<rparr>"
        and returns = "returns_frame [daily_point]" and bench = "[]"
        and start = "Date 2026 1 2" and finish = "Date 2026 12 31"] r
    by (simp add: each_def answers_def comp_def)
  then obtain response where "build_risk_response example_digests request 0 (Some (rc_evidence source)) [(''YEAR'', r)] = Inr response"
    by (rule build_risk_response_ready)
  then have "calculate_risk reference_risk_ops example_digests request (Some (rc_evidence source)) = Inr response"
    using rates results by (simp add: calculate_risk_def request_def sourced_options_example_def
        annualization_factor_for_options_def returns_frame_def Let_def)
  with input show ?thesis by (simp add: calculate_risk_from_source_def)
qed

lemma example_risk_run:
  "\<exists>response u. calculate_risk_stateful reference_risk_ops example_digests sample_readers example_risk_stateful
     daily_client None sample_authority [] = (Inr response, u)"
proof -
  let ?s = example_risk_stateful
  have fields: "rf_metrics ?s = [Drawdown]" "risk_frequency ?s = ''DAILY''" "rf_reporting_currency ?s = None"
    by (simp_all add: example_risk_stateful_def risk_frequency_def sourced_options_example_def frequency_value_def)
  have identity: "risk_identity ?s = daily_identity"
    by (simp add: risk_identity_def daily_identity_def fields)
      (simp add: example_risk_stateful_def net_or_gross_value_def)
  have none: "\<not> requires_risk_free [Drawdown]" "\<not> requires_benchmark ?s"
    by (simp_all add: requires_risk_free_def requires_benchmark_def RISK_METRICS_REQUIRING_RISK_FREE_def
        BENCHMARK_METRICS_def fields)
  have same: "?s\<lparr>rf_reporting_currency := None\<rparr> = ?s" by (simp add: example_risk_stateful_def)
  obtain payload where payload: "build_stateful_returns_series_request (risk_returns_query ?s) = Inr payload"
    by (simp add: build_stateful_returns_series_request_def risk_returns_query_def example_risk_stateful_def daily_window)
  have window: "requested_window_of payload = [(''mode'', JString ''EXPLICIT''),
      (''from_date'', JString ''2026-01-01''), (''to_date'', JString ''2026-12-31'')]"
    using requested_window_of_request [OF payload]
    by (simp add: risk_returns_query_def example_risk_stateful_def daily_window)
  obtain e where e: "extract_stateful_returns_source_evidence sample_readers daily_answer daily_identity
     (Some (requested_window_of payload)) (Some [daily_point]) = Inr e"
    unfolding window using daily_answer_accepted by blast
  then have "validate_returned_points_within_window daily_answer [daily_point] ''DAILY'' = Inr ()"
    by (auto simp: extract_stateful_returns_source_evidence_def daily_identity_def Let_def result_simps split: option.splits)
  then have read: "\<exists>series. read_portfolio_returns sample_readers ?s payload daily_answer = Inr (series, [daily_point], e, None)"
    using e none unfolding read_portfolio_returns_def risk_identity_def [symmetric] identity
    by (simp add: daily_answer_returns fields normalize_return_points_to_resolved_window_def
        build_stateful_risk_free_request_def)
  obtain u where answer: "execute_returns_series_request daily_client payload sample_authority [] = (Inr daily_answer, u)"
    using daily_client_answers by blast
  from read answer payload none
  obtain source where "fetch_stateful_risk_source reference_risk_ops sample_readers ?s daily_client None None
      sample_authority [] = (Inr source, u)"
    "rc_portfolio_points source = [daily_point]" "rc_benchmark_points source = []" "rc_risk_free_points source = []"
    by (force simp: fetch_stateful_risk_source_def bind_io_def lift_io_def fetch_risk_free_payload_def
        read_benchmark_returns_def read_risk_free_returns_def)
  moreover from example_risk_calculation [OF this(2-4)] obtain response where
    "calculate_risk_from_source reference_risk_ops example_digests sample_readers ?s source = Inr response" by blast
  moreover have "resolve_portfolio_reporting_currency p d (rf_reporting_currency ?s) (requires_risk_free (rf_metrics ?s)) None a =
      return_io \<lparr>rx_reporting_currency = None, rx_snapshot_request = None\<rparr>" for p d a
    using none by (simp add: resolve_portfolio_reporting_currency_def fields)
  ultimately show ?thesis
    by (simp add: calculate_risk_stateful_def same bind_io_def)
qed


end
