(* ===== verification/ActiveEvidence.thy ===== *)
theory ActiveEvidence
  imports Main AttributionInputs PositionExposure
begin

text \<open>
  The evidence of active attribution: services/attribution_active_group_evidence.py, which admits one
  answer of lotus-performance about the groups of a portfolio and its benchmark only when its scope,
  calendar, lineage and daily arithmetic agree with what was requested and with the returns already
  admitted.  Arithmetic is that of decimals with 28 digits; an overflow of it is raised.
\<close>

section \<open>Reading\<close>

definition GROUP_EVIDENCE_OPERATION :: string where
  "GROUP_EVIDENCE_OPERATION = ''/integration/attribution/group-return-evidence/v1''"

definition ACTIVE_TOLERANCE :: rat where
  "ACTIVE_TOLERANCE = 1 / 1000000"

definition ACTIVE_RETURN_BASIS :: string where
  "ACTIVE_RETURN_BASIS = ''SOURCE_POSITION_AND_BENCHMARK_COMPONENT_GROSS_TWR''"

definition ACTIVE_VALUATION_BASIS :: string where
  "ACTIVE_VALUATION_BASIS = ''SOURCE_REPORTED_BEGINNING_AND_ENDING_MARKET_VALUES''"

definition ACTIVE_WEIGHT_BASIS :: string where
  "ACTIVE_WEIGHT_BASIS = ''SIGNED_BEGINNING_CAPITAL_AND_BENCHMARK_BOP_WEIGHT''"

definition invalid_evidence :: "string \<Rightarrow> calculation_error" where
  "invalid_evidence message = UpstreamFailure (invalid_upstream_payload ''lotus-performance''
     GROUP_EVIDENCE_OPERATION (''group-return evidence: '' @ message) [])"

definition missing_evidence :: "string \<Rightarrow> calculation_error" where
  "missing_evidence message = UpstreamFailure (missing_upstream_data ''lotus-performance''
     GROUP_EVIDENCE_OPERATION message [])"

definition evidence_decimal :: "json \<Rightarrow> string \<Rightarrow> (calculation_error, rat) result" where
  "evidence_decimal v field =
     (case v of
        JBool _ \<Rightarrow> Inl (invalid_evidence (''missing or invalid '' @ field))
      | JNull \<Rightarrow> Inl (invalid_evidence (''missing or invalid '' @ field))
      | _ \<Rightarrow> (case read_decimal v of
          NotADecimal \<Rightarrow> Inl (invalid_evidence (''invalid '' @ field))
        | NonFiniteDecimal _ \<Rightarrow> Inl (invalid_evidence (''non-finite '' @ field))
        | FiniteDecimal q \<Rightarrow> Inr q))"

definition evidence_date :: "json \<Rightarrow> string \<Rightarrow> (calculation_error, date) result" where
  "evidence_date v field =
     (case v of
        JString s \<Rightarrow> (case date_fromisoformat s of
            None \<Rightarrow> Inl (invalid_evidence (''invalid '' @ field)) | Some d \<Rightarrow> Inr d)
      | _ \<Rightarrow> Inl (invalid_evidence (''invalid '' @ field)))"

definition evidence_mapping :: "json \<Rightarrow> string \<Rightarrow> (calculation_error, json_object) result" where
  "evidence_mapping v field =
     (case v of JObject kvs \<Rightarrow> Inr kvs | _ \<Rightarrow> Inl (invalid_evidence (''missing '' @ field @ '' object'')))"

definition evidence_rows :: "json \<Rightarrow> string \<Rightarrow> (calculation_error, json list) result" where
  "evidence_rows v field =
     (case v of
        JArray (x # xs) \<Rightarrow> Inr (x # xs)
      | _ \<Rightarrow> Inl (invalid_evidence (''missing '' @ field @ '' rows'')))"

text \<open>The result of decimal arithmetic, or its overflow.\<close>

definition decimal_result :: "rat \<Rightarrow> (calculation_error, rat) result" where
  "decimal_result q = (if decimal_overflows q then Inl (Escaped ''Overflow'') else Inr q)"

text \<open>Whether the difference of two decimals is within the tolerance.\<close>

definition evidence_agrees :: "rat \<Rightarrow> rat \<Rightarrow> bool" where
  "evidence_agrees x y \<longleftrightarrow> dabs (dsub x y) \<le> ACTIVE_TOLERANCE"

definition require_agreement :: "rat \<Rightarrow> rat \<Rightarrow> string \<Rightarrow> (calculation_error, unit) result" where
  "require_agreement x y message =
     bind_result (decimal_result (dsub x y)) (\<lambda>_.
       raise_if (\<not> evidence_agrees x y) (invalid_evidence message))"

section \<open>Groups\<close>

text \<open>\<open>str.split()\<close>: the words between white space.\<close>

function py_words :: "string \<Rightarrow> string list" where
  "py_words s =
     (let t = py_lstrip s in
      if t = [] then []
      else takeWhile (\<lambda>c. \<not> py_isspace c) t # py_words (dropWhile (\<lambda>c. \<not> py_isspace c) t))"
  by auto

termination
proof (relation "measure length")
  fix s t :: string
  assume t: "t = py_lstrip s" and ne: "t \<noteq> []"
  have "length (dropWhile (\<lambda>c. \<not> py_isspace c) t) < length t"
  proof (cases t)
    case (Cons c cs)
    with ne hd_py_lstrip [of s] t have "\<not> py_isspace c" by (metis list.sel(1))
    with Cons show ?thesis by (simp add: less_Suc_eq_le length_dropWhile_le)
  qed (use ne in simp)
  also have "length t \<le> length s" using t by (simp add: py_lstrip_def length_dropWhile_le)
  finally show "(dropWhile (\<lambda>c. \<not> py_isspace c) t, s) \<in> measure length" by simp
qed simp

declare py_words.simps [simp del]

definition source_group_identity :: "grouping_dimension \<Rightarrow> string \<Rightarrow> string" where
  "source_group_identity d label =
     dimension_value d @ '':'' @ str_join ''_'' (py_words (py_lower label))"

fun active_group_keys ::
  "grouping_dimension \<Rightarrow> date \<Rightarrow> date \<Rightarrow> exposure_point list \<Rightarrow> (string, string) dict \<Rightarrow>
     (calculation_error, (string, string) dict) result"
where
  "active_group_keys d start finish [] keys = Inr keys"
| "active_group_keys d start finish (p # ps) keys =
     (if xp_dimension p \<noteq> d \<or> \<not> (start \<le> xp_date p \<and> xp_date p \<le> finish)
      then active_group_keys d start finish ps keys
      else case xp_group_label p of
        None \<Rightarrow> Inl (invalid_evidence ''active exposure group lacks a source classification label'')
      | Some label \<Rightarrow>
          if py_strip label = []
          then Inl (invalid_evidence ''active exposure group lacks a source classification label'')
          else let source_id = source_group_identity d label in
            (case map_of keys source_id of
               None \<Rightarrow> active_group_keys d start finish ps (keys @ [(source_id, xp_group_key p)])
             | Some k \<Rightarrow>
                 if k \<noteq> xp_group_key p
                 then Inl (invalid_evidence ''active exposure group source identity is ambiguous'')
                 else active_group_keys d start finish ps keys))"

definition active_group_key_by_source_id ::
  "exposure_point list \<Rightarrow> exposure_point list \<Rightarrow> grouping_dimension \<Rightarrow> date \<Rightarrow> date \<Rightarrow>
     (calculation_error, (string, string) dict) result"
where
  "active_group_key_by_source_id exposures benchmark_exposures d start finish =
     active_group_keys d start finish (exposures @ benchmark_exposures) []"

section \<open>Scope\<close>

record active_request =
  aq_calculation_id :: string
  aq_portfolio_id :: string
  aq_as_of_date :: date
  aq_start_date :: date
  aq_end_date :: date
  aq_dimension :: grouping_dimension
  aq_reporting_currency :: string

definition active_request_payload :: "active_request \<Rightarrow> json_object" where
  "active_request_payload rq =
     [(''calculation_id'', JString (aq_calculation_id rq)), (''portfolio_id'', JString (aq_portfolio_id rq)),
      (''as_of_date'', JString (isoformat (aq_as_of_date rq))),
      (''window'', JObject [(''start_date'', JString (isoformat (aq_start_date rq))),
        (''end_date'', JString (isoformat (aq_end_date rq)))]),
      (''grouping_dimension'', JString (dimension_value (aq_dimension rq))),
      (''reporting_currency'', JString (aq_reporting_currency rq))]"

text \<open>Objects are equal when they have the same keys with equal values.\<close>

definition same_window :: "json \<Rightarrow> active_request \<Rightarrow> bool" where
  "same_window v rq \<longleftrightarrow>
     (case v of
        JObject kvs \<Rightarrow>
          set (map fst kvs) = {''start_date'', ''end_date''} \<and>
          json_get kvs ''start_date'' = JString (isoformat (aq_start_date rq)) \<and>
          json_get kvs ''end_date'' = JString (isoformat (aq_end_date rq))
      | _ \<Rightarrow> False)"

definition scope_mismatches :: "json_object \<Rightarrow> active_request \<Rightarrow> grouping_dimension \<Rightarrow> (string \<times> bool) list" where
  "scope_mismatches answer rq d =
     (let differs = (\<lambda>name expected. (name, json_get answer name \<noteq> JString expected)) in
      [differs ''contract_version'' ''v1'', differs ''calculation_id'' (aq_calculation_id rq),
       differs ''portfolio_id'' (aq_portfolio_id rq), differs ''as_of_date'' (isoformat (aq_as_of_date rq)),
       (''window'', \<not> same_window (json_get answer ''window'') rq),
       differs ''grouping_dimension'' (dimension_value d),
       differs ''reporting_currency'' (aq_reporting_currency rq),
       differs ''return_basis'' ACTIVE_RETURN_BASIS, differs ''valuation_basis'' ACTIVE_VALUATION_BASIS,
       differs ''weight_basis'' ACTIVE_WEIGHT_BASIS])"

definition validated_scope ::
  "json_object \<Rightarrow> active_request \<Rightarrow> grouping_dimension \<Rightarrow> string option \<Rightarrow> (calculation_error, string) result"
where
  "validated_scope answer rq d expected_benchmark_id =
     (case find snd (scope_mismatches answer rq d) of
        Some (name, _) \<Rightarrow>
          Inl (invalid_evidence (name @ '' does not match the admitted request or v1 contract''))
      | None \<Rightarrow>
          (case json_get answer ''benchmark_id'' of
             JString b \<Rightarrow>
               if py_strip b = [] then Inl (invalid_evidence ''missing benchmark_id'')
               else if expected_benchmark_id \<noteq> Some b
               then Inl (invalid_evidence ''group-return benchmark_id differs from admitted exposure source'')
               else Inr b
           | _ \<Rightarrow> Inl (invalid_evidence ''missing benchmark_id'')))"

definition validated_coverage ::
  "json_object \<Rightarrow> active_request \<Rightarrow> (calculation_error, date list) result"
where
  "validated_coverage answer rq =
     bind_result (evidence_mapping (json_get answer ''coverage'') ''coverage'') (\<lambda>coverage.
       if json_get coverage ''status'' \<noteq> JString ''COMPLETE''
       then Inl (missing_evidence ''group-return evidence reports incomplete coverage'')
       else bind_result (evidence_decimal (json_get coverage ''reconciliation_tolerance'')
              ''reconciliation_tolerance'') (\<lambda>tolerance.
         if json_get coverage ''reason_codes'' \<noteq> JArray [] \<or> \<not> (0 \<le> tolerance \<and> tolerance \<le> ACTIVE_TOLERANCE)
         then Inl (invalid_evidence ''coverage contradicts the complete v1 contract'')
         else bind_result (evidence_rows (json_get coverage ''observed_dates'') ''observed_dates'') (\<lambda>raw.
           bind_result (map_result (\<lambda>v. evidence_date v ''observed_dates'') raw) (\<lambda>observed.
             if \<not> distinct observed \<or> \<not> sorted observed
             then Inl (invalid_evidence ''duplicate or unordered coverage dates'')
             else if \<exists>d\<in>set observed. d < aq_start_date rq \<or> aq_end_date rq < d
             then Inl (invalid_evidence ''coverage date outside request window'')
             else Inr observed))))"

section \<open>Lineage\<close>

definition is_hex :: "char \<Rightarrow> bool" where
  "is_hex c \<longleftrightarrow> (let n = of_char c :: nat in 48 \<le> n \<and> n \<le> 57 \<or> 65 \<le> n \<and> n \<le> 70 \<or> 97 \<le> n \<and> n \<le> 102)"

definition is_ascii_space :: "char \<Rightarrow> bool" where
  "is_ascii_space c \<longleftrightarrow> (let n = of_char c :: nat in n = 32 \<or> 9 \<le> n \<and> n \<le> 13)"

text \<open>\<open>bytes.fromhex\<close> accepts pairs of hexadecimal digits, with white space between the bytes.\<close>

fun fromhex :: "string \<Rightarrow> bool" where
  "fromhex [] = True"
| "fromhex [c] = is_ascii_space c"
| "fromhex (c # d # cs) = (if is_ascii_space c then fromhex (d # cs) else is_hex c \<and> is_hex d \<and> fromhex cs)"

definition validate_snapshot :: "json \<Rightarrow> (calculation_error, unit) result" where
  "validate_snapshot snapshot =
     bind_result (evidence_mapping snapshot ''source snapshot'') (\<lambda>item.
       let text_at = (\<lambda>k. case json_get item k of JString s \<Rightarrow> s | _ \<Rightarrow> []) in
       if \<exists>k\<in>set [''upstream_endpoint'', ''source_identifier'', ''as_of_date'', ''request_fingerprint'',
           ''response_fingerprint'', ''retrieval_status'']. text_at k = []
       then Inl (invalid_evidence ''incomplete source snapshot'')
       else raise_if (\<not> starts_with (text_at ''retrieval_status'') ''2'')
         (invalid_evidence ''failed source snapshot''))"

definition validated_lineage ::
  "json_object \<Rightarrow> active_request \<Rightarrow> (calculation_error, string) result"
where
  "validated_lineage answer rq =
     bind_result (evidence_mapping (json_get answer ''source_lineage'') ''source_lineage'') (\<lambda>lineage.
       if json_get lineage ''tenant_scope'' \<noteq> JString ''ADMITTED_TENANT'' \<or>
          json_get lineage ''upstream_revision_status'' \<noteq> JString ''NOT_PROVIDED_BY_SOURCE''
       then Inl (invalid_evidence ''unsupported source lineage'')
       else if json_get lineage ''execution_id'' \<noteq> JString (aq_calculation_id rq)
       then Inl (invalid_evidence ''execution lineage does not match request'')
       else case json_get lineage ''source_cut_id'' of
         JString cut_id \<Rightarrow>
           if length cut_id \<noteq> 71 \<or> \<not> starts_with cut_id ''sha256:''
           then Inl (invalid_evidence ''missing source-cut identity'')
           else if \<not> fromhex (drop 7 cut_id) then Inl (invalid_evidence ''invalid source-cut identity'')
           else bind_result (evidence_rows (json_get lineage ''snapshots'') ''source snapshots'') (\<lambda>snapshots.
             bind_result (map_result validate_snapshot snapshots) (\<lambda>_. Inr cut_id))
       | _ \<Rightarrow> Inl (invalid_evidence ''missing source-cut identity''))"

section \<open>Daily evidence\<close>

text \<open>The returns of the series as decimal ratios, keyed by date.\<close>

definition return_path :: "return_point list \<Rightarrow> (date, rat) dict" where
  "return_path points =
     dict_of_items (map (\<lambda>p. (pt_date p, ddiv (repr_value (pt_value p)) 100)) points)"

definition validated_return_paths ::
  "return_point list \<Rightarrow> return_point list \<Rightarrow> date list \<Rightarrow>
     (calculation_error, (date, rat) dict \<times> (date, rat) dict) result"
where
  "validated_return_paths portfolio_returns benchmark_returns observed =
     (let portfolio = return_path portfolio_returns; benchmark = return_path benchmark_returns in
      if set (dict_keys portfolio) \<noteq> set (dict_keys benchmark)
      then Inl (missing_evidence ''portfolio and benchmark return calendars differ for active attribution'')
      else if portfolio = [] \<or> \<not> set (dict_keys portfolio) \<subseteq> set observed
      then Inl (invalid_evidence ''coverage omits a requested return date'')
      else Inr (portfolio, benchmark))"

fun aggregate_days ::
  "json list \<Rightarrow> (date, json_object) dict \<Rightarrow> (calculation_error, (date, json_object) dict) result"
where
  "aggregate_days [] days = Inr days"
| "aggregate_days (raw # rows) days =
     bind_result (evidence_mapping raw ''aggregate return'') (\<lambda>item.
     bind_result (evidence_date (json_get item ''date'') ''aggregate date'') (\<lambda>day.
       if day \<in> set (dict_keys days) then Inl (invalid_evidence ''duplicate aggregate date'')
       else aggregate_days rows (days @ [(day, item)])))"

definition validated_aggregates ::
  "json_object \<Rightarrow> date list \<Rightarrow> (calculation_error, (date, json_object) dict) result"
where
  "validated_aggregates answer observed =
     bind_result (evidence_rows (json_get answer ''aggregate_returns'') ''aggregate_returns'') (\<lambda>rows.
     bind_result (aggregate_days rows []) (\<lambda>days.
       if set (dict_keys days) \<noteq> set observed
       then Inl (invalid_evidence ''aggregate calendar differs from declared coverage'')
       else Inr days))"

record active_observation =
  ab_date :: date
  ab_contribution :: rat
  ab_weight :: rat

record group_row =
  gw_day :: date
  gw_source_id :: string
  gw_label :: string
  gw_group_key :: string

definition group_row_identity ::
  "json_object \<Rightarrow> (date, json_object) dict \<Rightarrow> grouping_dimension \<Rightarrow> (string, string) dict \<Rightarrow>
     (calculation_error, group_row) result"
where
  "group_row_identity item aggregates d expected =
     bind_result (evidence_date (json_get item ''date'') ''group date'') (\<lambda>day.
       case (json_get item ''group_id'', json_get item ''group_label'') of
         (JString source_id, JString label) \<Rightarrow>
           if day \<notin> set (dict_keys aggregates) \<or> py_strip label = []
           then Inl (invalid_evidence ''group row outside coverage or missing identity'')
           else if source_id \<noteq> source_group_identity d label
           then Inl (invalid_evidence ''group identity and label disagree'')
           else (case map_of expected source_id of
               None \<Rightarrow> Inl (invalid_evidence ''group outside the admitted exposure universe'')
             | Some k \<Rightarrow> Inr \<lparr>gw_day = day, gw_source_id = source_id, gw_label = label, gw_group_key = k\<rparr>)
       | _ \<Rightarrow> Inl (invalid_evidence ''group row outside coverage or missing identity''))"

record group_economics =
  ge_active :: rat
  ge_portfolio :: rat
  ge_benchmark :: rat
  ge_weight :: rat

text \<open>The economics of a row: its active contribution is that of its two legs.\<close>

definition row_economics :: "json_object \<Rightarrow> (calculation_error, group_economics) result" where
  "row_economics item =
     bind_result (evidence_decimal (json_get item ''portfolio_group_return'') ''portfolio_group_return'') (\<lambda>p_return.
     bind_result (evidence_decimal (json_get item ''benchmark_group_return'') ''benchmark_group_return'') (\<lambda>b_return.
     bind_result (evidence_decimal (json_get item ''portfolio_weight'') ''portfolio_weight'') (\<lambda>p_weight.
     bind_result (evidence_decimal (json_get item ''benchmark_weight'') ''benchmark_weight'') (\<lambda>b_weight.
     bind_result (evidence_decimal (json_get item ''active_contribution'') ''active_contribution'') (\<lambda>active.
     bind_result (decimal_result (dmul p_weight p_return)) (\<lambda>p_leg.
     bind_result (decimal_result (dmul b_weight b_return)) (\<lambda>b_leg.
     bind_result (decimal_result (dsub p_leg b_leg)) (\<lambda>legs.
     bind_result (require_agreement active legs ''active contribution does not match group economics'') (\<lambda>_.
     bind_result (decimal_result (dsub p_weight b_weight)) (\<lambda>weight.
       Inr \<lparr>ge_active = active, ge_portfolio = p_leg, ge_benchmark = b_leg, ge_weight = weight\<rparr>))))))))))"

text \<open>The tables the rows fill: observations of a group by day, and the sums of each day.\<close>

record group_tables =
  gt_by_group :: "(string, (date, active_observation) dict) dict"
  gt_active_sums :: "(date, rat) dict"
  gt_portfolio_sums :: "(date, rat) dict"
  gt_benchmark_sums :: "(date, rat) dict"
  gt_seen :: "(date \<times> string) list"
  gt_labels :: "(string, string) dict"

definition add_sum :: "(date, rat) dict \<Rightarrow> date \<Rightarrow> rat \<Rightarrow> (calculation_error, (date, rat) dict) result" where
  "add_sum table day x =
     bind_result (decimal_result (dadd (dict_get table day 0) x)) (\<lambda>s. Inr (AList.update day s table))"

definition add_group_row ::
  "group_row \<Rightarrow> group_economics \<Rightarrow> group_tables \<Rightarrow> (calculation_error, group_tables) result"
where
  "add_group_row r g t =
     (let day = gw_day r; k = gw_group_key r;
          o' = \<lparr>ab_date = day, ab_contribution = ge_active g, ab_weight = ge_weight g\<rparr> in
      bind_result (add_sum (gt_active_sums t) day (ge_active g)) (\<lambda>active.
      bind_result (add_sum (gt_portfolio_sums t) day (ge_portfolio g)) (\<lambda>portfolio.
      bind_result (add_sum (gt_benchmark_sums t) day (ge_benchmark g)) (\<lambda>benchmark.
        Inr (t\<lparr>gt_by_group := AList.update k (AList.update day o' (dict_get (gt_by_group t) k [])) (gt_by_group t),
          gt_active_sums := active, gt_portfolio_sums := portfolio, gt_benchmark_sums := benchmark\<rparr>)))))"

definition admit_group_row :: "group_row \<Rightarrow> group_tables \<Rightarrow> (calculation_error, group_tables) result" where
  "admit_group_row r t =
     (let prior = dict_get (gt_labels t) (gw_source_id r) (gw_label r) in
      if prior \<noteq> gw_label r then Inl (invalid_evidence ''conflicting labels for one group identity'')
      else if (gw_day r, gw_source_id r) \<in> set (gt_seen t)
      then Inl (invalid_evidence ''duplicate group observation'')
      else Inr (t\<lparr>gt_labels := AList.update (gw_source_id r) prior (gt_labels t),
        gt_seen := (gw_day r, gw_source_id r) # gt_seen t\<rparr>))"

fun group_rows ::
  "(date, json_object) dict \<Rightarrow> grouping_dimension \<Rightarrow> (string, string) dict \<Rightarrow> json list \<Rightarrow> group_tables \<Rightarrow>
     (calculation_error, group_tables) result"
where
  "group_rows aggregates d expected [] t = Inr t"
| "group_rows aggregates d expected (raw # rows) t =
     bind_result (evidence_mapping raw ''group evidence row'') (\<lambda>item.
     bind_result (group_row_identity item aggregates d expected) (\<lambda>r.
     bind_result (admit_group_row r t) (\<lambda>admitted.
     bind_result (row_economics item) (\<lambda>g.
     bind_result (add_group_row r g admitted) (\<lambda>t'.
       group_rows aggregates d expected rows t')))))"

definition empty_tables :: group_tables where
  "empty_tables = \<lparr>gt_by_group = [], gt_active_sums = [], gt_portfolio_sums = [], gt_benchmark_sums = [],
     gt_seen = [], gt_labels = []\<rparr>"

definition validated_group_rows ::
  "json_object \<Rightarrow> (date, json_object) dict \<Rightarrow> grouping_dimension \<Rightarrow> (string, string) dict \<Rightarrow>
     (calculation_error, group_tables) result"
where
  "validated_group_rows answer aggregates d expected =
     bind_result (evidence_rows (json_get answer ''rows'') ''group evidence'') (\<lambda>rows.
     bind_result (group_rows aggregates d expected rows empty_tables) (\<lambda>t.
       if set (dict_keys (gt_by_group t)) \<noteq> snd ` set expected
       then Inl (invalid_evidence ''group evidence omits an admitted exposure group'')
       else Inr t))"

section \<open>Daily reconciliation\<close>

text \<open>
  The checks of one day.  A chain of comparisons is evaluated in order, each with the subtractions it
  needs; the sums of a day without rows are zero.
\<close>

definition validate_legs ::
  "group_tables \<Rightarrow> date \<times> json_object \<Rightarrow> (calculation_error, unit) result"
where
  "validate_legs t entry =
     (case entry of (day, item) \<Rightarrow>
        let m = ''group portfolio or benchmark returns do not reconcile'' in
        bind_result (evidence_decimal (json_get item ''weighted_portfolio_return'') ''weighted_portfolio_return'') (\<lambda>weighted.
        bind_result (evidence_decimal (json_get item ''portfolio_return'') ''aggregate portfolio_return'') (\<lambda>portfolio.
        bind_result (evidence_decimal (json_get item ''benchmark_return'') ''aggregate benchmark_return'') (\<lambda>benchmark.
        bind_result (require_agreement (dict_get (gt_portfolio_sums t) day 0) weighted m) (\<lambda>_.
        bind_result (require_agreement weighted portfolio m) (\<lambda>_.
        bind_result (require_agreement (dict_get (gt_benchmark_sums t) day 0) benchmark m) (\<lambda>_.
        bind_result (evidence_decimal (json_get item ''portfolio_reconciliation_delta'')
          ''portfolio_reconciliation_delta'') (\<lambda>declared.
        bind_result (decimal_result (dsub weighted portfolio)) (\<lambda>delta.
          require_agreement declared delta
            ''declared portfolio reconciliation delta disagrees with economics'')))))))))"

definition require_small_delta :: "json_object \<Rightarrow> string \<Rightarrow> (calculation_error, unit) result" where
  "require_small_delta item field =
     bind_result (evidence_decimal (json_get item field) field) (\<lambda>x.
       bind_result (decimal_result (dabs x)) (\<lambda>a.
         raise_if (ACTIVE_TOLERANCE < a) (invalid_evidence (field @ '' exceeds tolerance''))))"

definition validate_day ::
  "group_tables \<Rightarrow> (date, rat) dict \<Rightarrow> (date, rat) dict \<Rightarrow> date \<times> json_object \<Rightarrow> (calculation_error, unit) result"
where
  "validate_day t portfolio benchmark entry =
     (case entry of (day, item) \<Rightarrow>
        let m = ''group active contributions do not reconcile'';
            s = ''source returns do not match Risk's admitted return series'' in
        bind_result (evidence_decimal (json_get item ''portfolio_return'') ''aggregate portfolio_return'') (\<lambda>p_return.
        bind_result (evidence_decimal (json_get item ''benchmark_return'') ''aggregate benchmark_return'') (\<lambda>b_return.
        bind_result (evidence_decimal (json_get item ''active_return'') ''aggregate active_return'') (\<lambda>active.
        bind_result (decimal_result (dsub p_return b_return)) (\<lambda>spread.
        bind_result (require_agreement active spread m) (\<lambda>_.
        bind_result (require_agreement (dict_get (gt_active_sums t) day 0) active m) (\<lambda>_.
        bind_result (require_small_delta item ''portfolio_reconciliation_delta'') (\<lambda>_.
        bind_result (require_small_delta item ''group_active_contribution_delta'') (\<lambda>_.
          case map_of portfolio day of
            None \<Rightarrow> Inr ()
          | Some p \<Rightarrow>
              bind_result (require_agreement p_return p s) (\<lambda>_.
                require_agreement b_return (dict_get benchmark day 0) s))))))))))"

section \<open>The evidence\<close>

record active_evidence =
  ag_observations :: "(string, active_observation list) dict"
  ag_source_cut_id :: string
  ag_benchmark_id :: string
  ag_reporting_currency :: string

definition evidence_observations ::
  "group_tables \<Rightarrow> date list \<Rightarrow> (string, active_observation list) dict"
where
  "evidence_observations t days =
     map (\<lambda>k. (k, map (\<lambda>day. dict_get (dict_get (gt_by_group t) k []) day
         \<lparr>ab_date = day, ab_contribution = 0, ab_weight = 0\<rparr>) days))
       (sorted_set (dict_keys (gt_by_group t)))"

definition parse_active_group_evidence ::
  "json_object \<Rightarrow> active_request \<Rightarrow> string option \<Rightarrow> grouping_dimension \<Rightarrow> (string, string) dict \<Rightarrow>
     return_point list \<Rightarrow> return_point list \<Rightarrow> (calculation_error, active_evidence) result"
where
  "parse_active_group_evidence answer rq expected_benchmark_id d expected portfolio_returns benchmark_returns =
     bind_result (validated_scope answer rq d expected_benchmark_id) (\<lambda>benchmark_id.
     bind_result (validated_coverage answer rq) (\<lambda>observed.
     bind_result (validated_lineage answer rq) (\<lambda>cut_id.
     bind_result (validated_return_paths portfolio_returns benchmark_returns observed) (\<lambda>(portfolio, benchmark).
     bind_result (validated_aggregates answer observed) (\<lambda>aggregates.
     bind_result (validated_group_rows answer aggregates d expected) (\<lambda>t.
     bind_result (map_result (validate_legs t) aggregates) (\<lambda>_.
     bind_result (map_result (validate_day t portfolio benchmark) aggregates) (\<lambda>_.
       Inr \<lparr>ag_observations = evidence_observations t (sorted_set (dict_keys portfolio)),
         ag_source_cut_id = cut_id, ag_benchmark_id = benchmark_id,
         ag_reporting_currency = aq_reporting_currency rq\<rparr>))))))))"


section \<open>What admitted evidence establishes\<close>

definition read_group_row ::
  "(date, json_object) dict \<Rightarrow> grouping_dimension \<Rightarrow> (string, string) dict \<Rightarrow> json \<Rightarrow>
     (calculation_error, group_row \<times> group_economics) result"
where
  "read_group_row aggregates d expected raw =
     bind_result (evidence_mapping raw ''group evidence row'') (\<lambda>item.
     bind_result (group_row_identity item aggregates d expected) (\<lambda>r.
     bind_result (row_economics item) (\<lambda>g. Inr (r, g))))"

type_synonym read_rows = "(group_row \<times> group_economics) list"

definition rows_of :: "read_rows \<Rightarrow> string \<Rightarrow> date \<Rightarrow> group_economics list" where
  "rows_of rs k day = map snd (filter (\<lambda>(r, g). gw_group_key r = k \<and> gw_day r = day) rs)"

definition day_sum :: "(group_economics \<Rightarrow> rat) \<Rightarrow> read_rows \<Rightarrow> date \<Rightarrow> rat" where
  "day_sum f rs day = foldl dadd 0 (map (f \<circ> snd) (filter (\<lambda>(r, g). gw_day r = day) rs))"

text \<open>The observation of a group is its last row of the day, and zero when there is none.\<close>

definition observed_in :: "read_rows \<Rightarrow> string \<Rightarrow> active_observation \<Rightarrow> bool" where
  "observed_in rs k o' \<longleftrightarrow>
     (case rev (rows_of rs k (ab_date o')) of
        [] \<Rightarrow> ab_contribution o' = 0 \<and> ab_weight o' = 0
      | g # _ \<Rightarrow> ab_contribution o' = ge_active g \<and> ab_weight o' = ge_weight g)"

text \<open>
  A day reconciles with a portfolio return and a benchmark return through the aggregate that the answer
  declares for the day: its rows sum to the figures of the aggregate, and these agree with each other
  and with the two returns.
\<close>

definition day_reconciles :: "(date, json_object) dict \<Rightarrow> read_rows \<Rightarrow> date \<Rightarrow> rat \<Rightarrow> rat \<Rightarrow> bool" where
  "day_reconciles aggregates rs day p b \<longleftrightarrow>
     (\<exists>item p_return b_return active weighted.
        map_of aggregates day = Some item \<and>
        evidence_decimal (json_get item ''portfolio_return'') ''aggregate portfolio_return'' = Inr p_return \<and>
        evidence_decimal (json_get item ''benchmark_return'') ''aggregate benchmark_return'' = Inr b_return \<and>
        evidence_decimal (json_get item ''active_return'') ''aggregate active_return'' = Inr active \<and>
        evidence_decimal (json_get item ''weighted_portfolio_return'') ''weighted_portfolio_return'' = Inr weighted \<and>
        evidence_agrees p_return p \<and> evidence_agrees b_return b \<and>
        evidence_agrees active (dsub p_return b_return) \<and> evidence_agrees (day_sum ge_active rs day) active \<and>
        evidence_agrees (day_sum ge_portfolio rs day) weighted \<and> evidence_agrees weighted p_return \<and>
        evidence_agrees (day_sum ge_benchmark rs day) b_return)"

text \<open>
  What the chain of comparisons leaves between the rows of a day and the two returns: three tolerances for
  the portfolio, two for the benchmark and four for the active return, with the rounding of the differences.
\<close>

definition ROUNDED_TOLERANCE :: rat where
  "ROUNDED_TOLERANCE = ACTIVE_TOLERANCE * (1 + 1 / 10 ^ 25)"

definition rows_near_returns :: "read_rows \<Rightarrow> date \<Rightarrow> rat \<Rightarrow> rat \<Rightarrow> bool" where
  "rows_near_returns rs day p b \<longleftrightarrow>
     \<bar>day_sum ge_portfolio rs day - p\<bar> \<le> 3 * ROUNDED_TOLERANCE \<and>
     \<bar>day_sum ge_benchmark rs day - b\<bar> \<le> 2 * ROUNDED_TOLERANCE \<and>
     \<bar>day_sum ge_active rs day - (p - b)\<bar> \<le> 4 * ROUNDED_TOLERANCE + \<bar>p - b\<bar> / 10 ^ 27"

lemma agreement_bound:
  "evidence_agrees x y \<Longrightarrow> \<bar>x - y\<bar> \<le> ACTIVE_TOLERANCE * (1 + 1 / 10 ^ 26)"
  unfolding evidence_agrees_def by (rule decimal_difference_bound)

lemma reconciled_rows_near:
  assumes "day_reconciles aggregates rs day p b"
  shows "rows_near_returns rs day p b"
proof -
  from assms obtain p_return b_return active weighted where
    near: "evidence_agrees p_return p" "evidence_agrees b_return b"
      "evidence_agrees active (dsub p_return b_return)" "evidence_agrees (day_sum ge_active rs day) active"
      "evidence_agrees (day_sum ge_portfolio rs day) weighted" "evidence_agrees weighted p_return"
      "evidence_agrees (day_sum ge_benchmark rs day) b_return"
    by (auto simp: day_reconciles_def)
  define slack where "slack = ACTIVE_TOLERANCE * (1 + 1 / 10 ^ 26)"
  note bounds = near [THEN agreement_bound, folded slack_def]
  have wide: "slack \<le> ROUNDED_TOLERANCE" "4 * slack + slack / 10 ^ 27 \<le> 4 * ROUNDED_TOLERANCE"
    by (simp_all add: slack_def ROUNDED_TOLERANCE_def ACTIVE_TOLERANCE_def)
  have spread: "\<bar>dsub p_return b_return - (p_return - b_return)\<bar> \<le> \<bar>p_return - b_return\<bar> / (2 * 10 ^ 27)"
    unfolding dsub_def by (rule decimal_round28_error)
  have "\<bar>day_sum ge_portfolio rs day - p\<bar> \<le> 3 * ROUNDED_TOLERANCE"
    using bounds(1,5,6) wide(1) by linarith
  moreover have "\<bar>day_sum ge_benchmark rs day - b\<bar> \<le> 2 * ROUNDED_TOLERANCE"
    using bounds(2,7) wide(1) by linarith
  moreover have "\<bar>day_sum ge_active rs day - (p - b)\<bar> \<le> 4 * ROUNDED_TOLERANCE + \<bar>p - b\<bar> / 10 ^ 27"
  proof -
    have gap: "\<bar>(p_return - b_return) - (p - b)\<bar> \<le> 2 * slack" using bounds(1,2) by linarith
    then have "\<bar>p_return - b_return\<bar> / (2 * 10 ^ 27) \<le> (\<bar>p - b\<bar> + 2 * slack) / (2 * 10 ^ 27)"
      by (intro divide_right_mono) auto
    also have "\<dots> \<le> \<bar>p - b\<bar> / 10 ^ 27 + slack / 10 ^ 27" by (simp add: field_simps)
    finally have "\<bar>dsub p_return b_return - (p_return - b_return)\<bar> \<le> \<bar>p - b\<bar> / 10 ^ 27 + slack / 10 ^ 27"
      using spread by linarith
    moreover have "\<bar>day_sum ge_active rs day - dsub p_return b_return\<bar> \<le> 2 * slack"
      using bounds(3,4) by linarith
    ultimately show ?thesis using gap wide(2) by linarith
  qed
  ultimately show ?thesis by (simp add: rows_near_returns_def)
qed

definition tables_hold :: "read_rows \<Rightarrow> group_tables \<Rightarrow> bool" where
  "tables_hold rs t \<longleftrightarrow>
     set (dict_keys (gt_by_group t)) = gw_group_key ` fst ` set rs \<and>
     (\<forall>k day. case map_of (dict_get (gt_by_group t) k []) day of
        None \<Rightarrow> rows_of rs k day = []
      | Some o' \<Rightarrow> ab_date o' = day \<and> rows_of rs k day \<noteq> [] \<and> observed_in rs k o') \<and>
     (\<forall>day. dict_get (gt_active_sums t) day 0 = day_sum ge_active rs day \<and>
        dict_get (gt_portfolio_sums t) day 0 = day_sum ge_portfolio rs day \<and>
        dict_get (gt_benchmark_sums t) day 0 = day_sum ge_benchmark rs day) \<and>
     set (gt_seen t) = (\<lambda>(r, g). (gw_day r, gw_source_id r)) ` set rs \<and>
     distinct (map (\<lambda>(r, g). (gw_day r, gw_source_id r)) rs)"

lemma rows_of_simps [simp]:
  "rows_of [] k day = []"
  "rows_of (rs @ [(r, g)]) k day = rows_of rs k day @ (if gw_group_key r = k \<and> gw_day r = day then [g] else [])"
  by (simp_all add: rows_of_def)

lemma day_sum_simps [simp]:
  "day_sum f [] day = 0"
  "day_sum f (rs @ [(r, g)]) day = (if gw_day r = day then dadd (day_sum f rs day) (f g) else day_sum f rs day)"
  by (simp_all add: day_sum_def)

lemma tables_hold_empty: "tables_hold [] empty_tables"
  by (simp add: tables_hold_def empty_tables_def dict_keys_def dict_get_def)

lemma add_sum_Inr_iff:
  "add_sum table day x = Inr out \<longleftrightarrow>
     \<not> decimal_overflows (dadd (dict_get table day 0) x) \<and>
     out = AList.update day (dadd (dict_get table day 0) x) table"
  by (auto simp: add_sum_def decimal_result_def)

lemma tables_hold_step:
  assumes "tables_hold rs t" "admit_group_row r t = Inr a" "add_group_row r g a = Inr t'"
  shows "tables_hold (rs @ [(r, g)]) t'"
proof -
  from assms(2) have fresh: "(gw_day r, gw_source_id r) \<notin> set (gt_seen t)"
    and a: "gt_by_group a = gt_by_group t" "gt_active_sums a = gt_active_sums t"
      "gt_portfolio_sums a = gt_portfolio_sums t" "gt_benchmark_sums a = gt_benchmark_sums t"
      "gt_seen a = (gw_day r, gw_source_id r) # gt_seen t"
    by (auto simp: admit_group_row_def Let_def split: if_splits)
  let ?o = "\<lparr>ab_date = gw_day r, ab_contribution = ge_active g, ab_weight = ge_weight g\<rparr>"
  from assms(3) have t': "gt_by_group t' = AList.update (gw_group_key r)
        (AList.update (gw_day r) ?o (dict_get (gt_by_group t) (gw_group_key r) [])) (gt_by_group t)"
      "gt_seen t' = (gw_day r, gw_source_id r) # gt_seen t"
    and sums: "\<And>day. dict_get (gt_active_sums t') day 0 = (if day = gw_day r
          then dadd (dict_get (gt_active_sums t) day 0) (ge_active g) else dict_get (gt_active_sums t) day 0)"
      "\<And>day. dict_get (gt_portfolio_sums t') day 0 = (if day = gw_day r
          then dadd (dict_get (gt_portfolio_sums t) day 0) (ge_portfolio g) else dict_get (gt_portfolio_sums t) day 0)"
      "\<And>day. dict_get (gt_benchmark_sums t') day 0 = (if day = gw_day r
          then dadd (dict_get (gt_benchmark_sums t) day 0) (ge_benchmark g) else dict_get (gt_benchmark_sums t) day 0)"
    by (auto simp: add_group_row_def a Let_def result_simps add_sum_Inr_iff dict_get_update)
  have obs: "case map_of (dict_get (gt_by_group t') k []) day of
        None \<Rightarrow> rows_of (rs @ [(r, g)]) k day = []
      | Some o' \<Rightarrow> ab_date o' = day \<and> rows_of (rs @ [(r, g)]) k day \<noteq> [] \<and> observed_in (rs @ [(r, g)]) k o'" for k day
  proof (cases "k = gw_group_key r \<and> day = gw_day r")
    case True
    then show ?thesis by (simp add: t' dict_get_update update_conv' observed_in_def)
  next
    case False
    then have m: "map_of (dict_get (gt_by_group t') k []) day = map_of (dict_get (gt_by_group t) k []) day"
      by (auto simp: t' dict_get_update update_conv')
    have r: "rows_of (rs @ [(r, g)]) k day = rows_of rs k day" using False by auto
    have inv: "case map_of (dict_get (gt_by_group t) k []) day of
        None \<Rightarrow> rows_of rs k day = []
      | Some o' \<Rightarrow> ab_date o' = day \<and> rows_of rs k day \<noteq> [] \<and> observed_in rs k o'"
      using assms(1) unfolding tables_hold_def by blast
    show ?thesis
    proof (cases "map_of (dict_get (gt_by_group t) k []) day")
      case None
      with m r inv show ?thesis by simp
    next
      case (Some o')
      with m inv r show ?thesis by (auto simp del: rows_of_simps simp: observed_in_def)
    qed
  qed
  show ?thesis
    unfolding tables_hold_def
  proof (intro conjI allI)
    show "set (dict_keys (gt_by_group t')) = gw_group_key ` fst ` set (rs @ [(r, g)])"
      using assms(1) by (simp add: t' tables_hold_def dict_keys_def dom_update [symmetric] dom_map_of_conv_image_fst [symmetric] update_conv')
    show "set (gt_seen t') = (\<lambda>(r, g). (gw_day r, gw_source_id r)) ` set (rs @ [(r, g)])"
      "distinct (map (\<lambda>(r, g). (gw_day r, gw_source_id r)) (rs @ [(r, g)]))"
      using assms(1) fresh by (auto simp: t' tables_hold_def)
  qed (use obs assms(1) in \<open>simp_all add: sums tables_hold_def\<close>)
qed

lemma group_rows_read:
  assumes "group_rows aggregates d expected rows t = Inr t'" "tables_hold rs0 t"
  shows "\<exists>rs. map_result (read_group_row aggregates d expected) rows = Inr rs \<and> tables_hold (rs0 @ rs) t'"
  using assms
proof (induction rows arbitrary: t rs0)
  case (Cons raw rows)
  from Cons.prems(1) obtain item r a g u where
    "evidence_mapping raw ''group evidence row'' = Inr item"
    "group_row_identity item aggregates d expected = Inr r" "row_economics item = Inr g"
    and step: "admit_group_row r t = Inr a" "add_group_row r g a = Inr u"
    and rest: "group_rows aggregates d expected rows u = Inr t'"
    by (auto simp: result_simps)
  then have "read_group_row aggregates d expected raw = Inr (r, g)" by (simp add: read_group_row_def)
  moreover from Cons.IH [OF rest tables_hold_step [OF Cons.prems(2) step]]
  obtain rs where "map_result (read_group_row aggregates d expected) rows = Inr rs"
    "tables_hold (rs0 @ (r, g) # rs) t'"
    by auto
  ultimately show ?case by (intro exI [of _ "(r, g) # rs"]) simp
qed auto


lemma require_agreement_Inr_iff [result_simps]:
  "require_agreement x y m = Inr u \<longleftrightarrow> \<not> decimal_overflows (dsub x y) \<and> evidence_agrees x y"
  by (cases u) (simp add: require_agreement_def decimal_result_def result_simps)

lemma decimal_result_Inr_iff [result_simps]:
  "decimal_result q = Inr r \<longleftrightarrow> \<not> decimal_overflows q \<and> r = q"
  by (auto simp: decimal_result_def)

lemma map_result_member:
  "map_result f xs = Inr ys \<Longrightarrow> x \<in> set xs \<Longrightarrow> \<exists>y. f x = Inr y"
  by (induction xs arbitrary: ys) (auto simp: result_simps)

text \<open>Of a day, every check reads the same aggregate, so its figures are the same.\<close>

lemma checked_day:
  assumes "validate_legs t (day, item) = Inr ()" "validate_day t portfolio benchmark (day, item) = Inr ()"
    and "tables_hold rs t" "map_of portfolio day = Some p" "map_of aggregates day = Some item"
  shows "day_reconciles aggregates rs day p (dict_get benchmark day 0)"
proof -
  have sums: "dict_get (gt_active_sums t) day 0 = day_sum ge_active rs day"
    "dict_get (gt_portfolio_sums t) day 0 = day_sum ge_portfolio rs day"
    "dict_get (gt_benchmark_sums t) day 0 = day_sum ge_benchmark rs day"
    using assms(3) by (simp_all add: tables_hold_def)
  show ?thesis
    using assms(1,2,4,5) unfolding day_reconciles_def validate_legs_def validate_day_def prod.case Let_def sums
    by (clarsimp simp: result_simps)
qed

lemma set_return_path: "set (dict_keys (return_path points)) = pt_date ` set points"
  by (simp add: return_path_def dict_keys_def keys_dict_of_items image_image)

lemma group_row_identity_Inr:
  assumes "group_row_identity item aggregates d expected = Inr r"
  shows "map_of expected (gw_source_id r) = Some (gw_group_key r) \<and> gw_day r \<in> set (dict_keys aggregates)"
proof -
  from assms obtain day where "evidence_date (json_get item ''date'') ''group date'' = Inr day"
    by (auto simp: group_row_identity_def result_simps)
  with assms show ?thesis
    by (cases "json_get item ''group_id''"; cases "json_get item ''group_label''")
      (auto simp: group_row_identity_def split: if_splits option.splits)
qed

lemma row_identity_key:
  "read_group_row aggregates d expected raw = Inr (r, g) \<Longrightarrow> (gw_source_id r, gw_group_key r) \<in> set expected"
  by (auto simp: read_group_row_def result_simps dest!: group_row_identity_Inr map_of_SomeD)

text \<open>Where no two sources name one group, a group has one row a day.\<close>

lemma distinct_constant:
  assumes "distinct (map f xs)" "\<And>x y. x \<in> set xs \<Longrightarrow> y \<in> set xs \<Longrightarrow> f x = f y"
  shows "length xs \<le> 1"
proof (cases "\<exists>x y zs. xs = x # y # zs")
  case True
  then obtain x y zs where xs: "xs = x # y # zs" by blast
  with assms(2) [of x y] assms(1) show ?thesis by simp
next
  case False
  then show ?thesis by (cases xs; cases "tl xs") simp_all
qed

lemma one_row_a_day:
  assumes rs: "map_result (read_group_row aggregates d expected) rows = Inr rs"
    and dist: "distinct (map (\<lambda>(r, g). (gw_day r, gw_source_id r)) rs)" and inj: "distinct (map snd expected)"
  shows "length (rows_of rs k day) \<le> 1"
proof -
  have src: "(gw_source_id r, gw_group_key r) \<in> set expected" if mem: "(r, g) \<in> set rs" for r g
  proof -
    from list_all2_set2 [OF rs [unfolded map_result_Inr_iff] mem]
    obtain raw where "read_group_row aggregates d expected raw = Inr (r, g)" by blast
    then show ?thesis by (rule row_identity_key)
  qed
  have one: "gw_source_id r = gw_source_id r'"
    if "(r, g) \<in> set rs" "(r', g') \<in> set rs" "gw_group_key r = gw_group_key r'" for r g r' g'
    using inj inj_onD [of snd "set expected", OF _ _ src [OF that(1)] src [OF that(2)]] that(3)
    by (simp add: distinct_map)
  have "length (filter (\<lambda>(r, g). gw_group_key r = k \<and> gw_day r = day) rs) \<le> 1"
  proof (rule distinct_constant)
    show "distinct (map (\<lambda>(r, g). (gw_day r, gw_source_id r)) (filter (\<lambda>(r, g). gw_group_key r = k \<and> gw_day r = day) rs))"
      using dist by (rule distinct_map_filter)
  qed (auto intro: one)
  then show ?thesis by (simp add: rows_of_def)
qed


lemma aggregate_days_distinct:
  "aggregate_days rows days = Inr out \<Longrightarrow> distinct (dict_keys days) \<Longrightarrow> distinct (dict_keys out)"
  by (induction rows arbitrary: days) (auto simp: dict_keys_def result_simps split: if_splits)

lemma accepted_evidenceE:
  assumes "parse_active_group_evidence answer rq b d expected portfolio_returns benchmark_returns = Inr e"
  obtains observed aggregates legs t where
    "b = Some (ag_benchmark_id e)" "ag_reporting_currency e = aq_reporting_currency rq"
    "validated_coverage answer rq = Inr observed" "validated_aggregates answer observed = Inr aggregates"
    "distinct (dict_keys aggregates)"
    "ag_observations e = evidence_observations t (sorted_set (dict_keys (return_path portfolio_returns)))"
    "set (dict_keys (return_path portfolio_returns)) = set (dict_keys (return_path benchmark_returns))"
    "set (dict_keys (return_path portfolio_returns)) \<subseteq> set (dict_keys aggregates)"
    "validated_group_rows answer aggregates d expected = Inr t"
    "map_result (validate_legs t) aggregates = Inr legs"
    "\<And>entry. entry \<in> set aggregates \<Longrightarrow>
       validate_day t (return_path portfolio_returns) (return_path benchmark_returns) entry = Inr ()"
proof -
  from assms obtain observed cut_id portfolio benchmark aggregates t legs days where
    scope: "validated_scope answer rq d b = Inr (ag_benchmark_id e)"
    and cover: "validated_coverage answer rq = Inr observed"
    and paths: "validated_return_paths portfolio_returns benchmark_returns observed = Inr (portfolio, benchmark)"
    and agg: "validated_aggregates answer observed = Inr aggregates"
    and rows: "validated_group_rows answer aggregates d expected = Inr t"
    and legs: "map_result (validate_legs t) aggregates = Inr legs"
    and days: "map_result (validate_day t portfolio benchmark) aggregates = Inr days"
    and e: "ag_observations e = evidence_observations t (sorted_set (dict_keys portfolio))"
      "ag_reporting_currency e = aq_reporting_currency rq"
    by (auto simp: parse_active_group_evidence_def result_simps)
  from paths have p: "portfolio = return_path portfolio_returns" "benchmark = return_path benchmark_returns"
    "set (dict_keys portfolio) = set (dict_keys benchmark)" "set (dict_keys portfolio) \<subseteq> set observed"
    by (auto simp: validated_return_paths_def Let_def split: if_splits)
  from agg have "set (dict_keys aggregates) = set observed \<and> distinct (dict_keys aggregates)"
    by (auto simp: validated_aggregates_def result_simps dict_keys_def dest: aggregate_days_distinct split: if_splits)
  moreover from scope have "b = Some (ag_benchmark_id e)"
    by (auto simp: validated_scope_def split: option.splits json.splits if_splits)
  ultimately show thesis
    using p e cover agg rows legs map_result_member [OF days] by (intro that) auto
qed

lemma histories_hold:
  assumes "tables_hold rs t"
  shows "\<forall>(k, history) \<in> set (evidence_observations t days). list_all (observed_in rs k) history \<and> map ab_date history = days"
proof -
  have one: "ab_date o' = day \<and> observed_in rs k o'"
    if "o' = dict_get (dict_get (gt_by_group t) k []) day \<lparr>ab_date = day, ab_contribution = 0, ab_weight = 0\<rparr>" for k day o'
  proof -
    have "case map_of (dict_get (gt_by_group t) k []) day of
        None \<Rightarrow> rows_of rs k day = []
      | Some o' \<Rightarrow> ab_date o' = day \<and> rows_of rs k day \<noteq> [] \<and> observed_in rs k o'"
      using assms unfolding tables_hold_def by blast
    with that show ?thesis
      by (cases "map_of (dict_get (gt_by_group t) k []) day") (auto simp: dict_get_def observed_in_def)
  qed
  then show ?thesis by (auto simp: evidence_observations_def list_all_iff comp_def intro!: map_idI)
qed

lemma active_history_dates:
  assumes "parse_active_group_evidence answer rq b d expected portfolio_returns benchmark_returns = Inr e"
    and "(k, history) \<in> set (ag_observations e)"
  shows "map ab_date history = sorted_set (map pt_date portfolio_returns)"
  using assms(1)
proof (rule accepted_evidenceE)
  fix observed aggregates legs t
  assume e: "ag_observations e = evidence_observations t (sorted_set (dict_keys (return_path portfolio_returns)))"
    and rows: "validated_group_rows answer aggregates d expected = Inr t"
  from rows obtain raw where "group_rows aggregates d expected raw empty_tables = Inr t"
    by (auto simp: validated_group_rows_def result_simps split: if_splits)
  from group_rows_read [OF this tables_hold_empty] obtain rs where hold: "tables_hold rs t" by auto
  have "sorted_set (dict_keys (return_path portfolio_returns)) = sorted_set (map pt_date portfolio_returns)"
    by (rule sorted_distinct_set_unique) (simp_all add: set_return_path)
  with histories_hold [OF hold] assms(2) show ?thesis unfolding e by fastforce
qed

text \<open>C33: Admitted active evidence names the admitted benchmark; it has one history for each group of the
  exposure universe, with exactly the dates of the portfolio's returns, which are also the benchmark's;
  and every observation is that of a row of the answer, or zero where the group has none.  On each date
  the rows reconcile through the aggregate the answer declares for it: their active and benchmark sums
  agree with the aggregate's returns, their portfolio sum with its weighted return and that with its
  portfolio return, its active return with its spread, and its two returns with those already admitted,
  each within the tolerance.  So the sums are within three tolerances of the admitted portfolio return,
  two of the benchmark return and four of their difference, up to the rounding of 28 digits.  Where no two
  source names stand for one group, a group has at most one row a date.\<close>

theorem active_evidence_reconciles:
  assumes "parse_active_group_evidence answer rq b d expected portfolio_returns benchmark_returns = Inr e"
  shows "\<exists>observed aggregates rows rs. b = Some (ag_benchmark_id e) \<and>
     validated_coverage answer rq = Inr observed \<and> validated_aggregates answer observed = Inr aggregates \<and>
     json_get answer ''rows'' = JArray rows \<and> map_result (read_group_row aggregates d expected) rows = Inr rs \<and>
     map fst (ag_observations e) = sorted_set (map snd expected) \<and>
     pt_date ` set portfolio_returns = pt_date ` set benchmark_returns \<and>
     (\<forall>(k, history) \<in> set (ag_observations e). list_all (observed_in rs k) history \<and>
        map ab_date history = sorted_set (map pt_date portfolio_returns)) \<and>
     (\<forall>(day, p) \<in> set (return_path portfolio_returns).
        day_reconciles aggregates rs day p (dict_get (return_path benchmark_returns) day 0) \<and>
        rows_near_returns rs day p (dict_get (return_path benchmark_returns) day 0)) \<and>
     (distinct (map snd expected) \<longrightarrow> (\<forall>k day. length (rows_of rs k day) \<le> 1))"
  using assms
proof (rule accepted_evidenceE)
  fix observed aggregates legs t
  assume b: "b = Some (ag_benchmark_id e)"
    and declared: "validated_coverage answer rq = Inr observed" "validated_aggregates answer observed = Inr aggregates"
    and dist: "distinct (dict_keys aggregates)"
    and e: "ag_observations e = evidence_observations t (sorted_set (dict_keys (return_path portfolio_returns)))"
    and keys: "set (dict_keys (return_path portfolio_returns)) = set (dict_keys (return_path benchmark_returns))"
      "set (dict_keys (return_path portfolio_returns)) \<subseteq> set (dict_keys aggregates)"
    and rows: "validated_group_rows answer aggregates d expected = Inr t"
    and legs: "map_result (validate_legs t) aggregates = Inr legs"
    and days: "\<And>entry. entry \<in> set aggregates \<Longrightarrow>
       validate_day t (return_path portfolio_returns) (return_path benchmark_returns) entry = Inr ()"
  from rows obtain raw where raw: "json_get answer ''rows'' = JArray raw"
    and run: "group_rows aggregates d expected raw empty_tables = Inr t"
    and groups: "set (dict_keys (gt_by_group t)) = snd ` set expected"
    by (auto simp: validated_group_rows_def evidence_rows_def result_simps split: if_splits json.splits list.splits)
  from group_rows_read [OF run tables_hold_empty] obtain rs where
    rs: "map_result (read_group_row aggregates d expected) raw = Inr rs" and hold: "tables_hold rs t"
    by auto
  have dates: "sorted_set (dict_keys (return_path portfolio_returns)) = sorted_set (map pt_date portfolio_returns)"
    by (rule sorted_distinct_set_unique) (simp_all add: set_return_path)
  have "map fst (ag_observations e) = sorted_set (map snd expected)"
    unfolding e evidence_observations_def
    by (simp add: comp_def) (rule sorted_distinct_set_unique, simp_all add: groups)
  moreover have "\<forall>(k, history) \<in> set (ag_observations e). list_all (observed_in rs k) history \<and>
      map ab_date history = sorted_set (map pt_date portfolio_returns)"
    unfolding e dates by (rule histories_hold [OF hold])
  moreover have "\<forall>(day, p) \<in> set (return_path portfolio_returns).
      day_reconciles aggregates rs day p (dict_get (return_path benchmark_returns) day 0) \<and>
      rows_near_returns rs day p (dict_get (return_path benchmark_returns) day 0)"
  proof clarify
    fix day p assume p: "(day, p) \<in> set (return_path portfolio_returns)"
    then have "map_of (return_path portfolio_returns) day = Some p" by (simp add: return_path_def)
    moreover from p keys(2) obtain item where item: "(day, item) \<in> set aggregates"
      by (force simp: dict_keys_def)
    moreover from map_result_member [OF legs item] have "validate_legs t (day, item) = Inr ()" by auto
    moreover from item dist have "map_of aggregates day = Some item" by (simp add: dict_keys_def)
    ultimately have "day_reconciles aggregates rs day p (dict_get (return_path benchmark_returns) day 0)"
      using days [OF item] hold by (intro checked_day)
    then show "day_reconciles aggregates rs day p (dict_get (return_path benchmark_returns) day 0) \<and>
        rows_near_returns rs day p (dict_get (return_path benchmark_returns) day 0)"
      using reconciled_rows_near by blast
  qed
  moreover have "distinct (map (\<lambda>(r, g). (gw_day r, gw_source_id r)) rs)" using hold by (simp add: tables_hold_def)
  ultimately show ?thesis
    using b declared raw rs keys(1) one_row_a_day [OF rs]
    by (intro exI [of _ observed] exI [of _ aggregates] exI [of _ raw] exI [of _ rs])
      (simp add: set_return_path)
qed


section \<open>An example\<close>

definition sample_active_request :: active_request where
  "sample_active_request =
     \<lparr>aq_calculation_id = ''c-1'', aq_portfolio_id = ''P1'', aq_as_of_date = Date 2026 1 31,
      aq_start_date = Date 2026 1 1, aq_end_date = Date 2026 1 31, aq_dimension = BySector,
      aq_reporting_currency = ''USD''\<rparr>"

definition sample_lineage :: json where
  "sample_lineage = JObject [(''tenant_scope'', JString ''ADMITTED_TENANT''),
     (''upstream_revision_status'', JString ''NOT_PROVIDED_BY_SOURCE''), (''execution_id'', JString ''c-1''),
     (''source_cut_id'', JString (''sha256:'' @ replicate 64 CHR ''a'')),
     (''snapshots'', JArray [JObject [(''upstream_endpoint'', JString ''/e''), (''source_identifier'', JString ''s''),
        (''as_of_date'', JString ''2026-01-31''), (''request_fingerprint'', JString ''f''),
        (''response_fingerprint'', JString ''g''), (''retrieval_status'', JString ''200'')]])]"

definition sample_group_row :: json where
  "sample_group_row = JObject [(''date'', JString ''2026-01-02''), (''group_id'', JString ''SECTOR:tech''),
     (''group_label'', JString ''Tech''), (''portfolio_group_return'', JInt 0), (''benchmark_group_return'', JInt 0),
     (''portfolio_weight'', JInt 1), (''benchmark_weight'', JInt 1), (''active_contribution'', JInt 0)]"

definition sample_aggregate :: json_object where
  "sample_aggregate = [(''date'', JString ''2026-01-02''), (''weighted_portfolio_return'', JInt 0),
     (''portfolio_return'', JInt 0), (''benchmark_return'', JInt 0), (''active_return'', JInt 0),
     (''portfolio_reconciliation_delta'', JInt 0), (''group_active_contribution_delta'', JInt 0)]"

definition sample_active_answer :: json_object where
  "sample_active_answer =
     [(''contract_version'', JString ''v1''), (''calculation_id'', JString ''c-1''), (''portfolio_id'', JString ''P1''),
      (''as_of_date'', JString ''2026-01-31''),
      (''window'', JObject [(''start_date'', JString ''2026-01-01''), (''end_date'', JString ''2026-01-31'')]),
      (''grouping_dimension'', JString ''SECTOR''), (''reporting_currency'', JString ''USD''),
      (''return_basis'', JString ACTIVE_RETURN_BASIS), (''valuation_basis'', JString ACTIVE_VALUATION_BASIS),
      (''weight_basis'', JString ACTIVE_WEIGHT_BASIS), (''benchmark_id'', JString ''B1''),
      (''coverage'', JObject [(''status'', JString ''COMPLETE''), (''reconciliation_tolerance'', JInt 0),
         (''reason_codes'', JArray []), (''observed_dates'', JArray [JString ''2026-01-02''])]),
      (''source_lineage'', sample_lineage), (''aggregate_returns'', JArray [JObject sample_aggregate]),
      (''rows'', JArray [sample_group_row])]"

definition flat_return :: return_point where
  "flat_return = \<lparr>pt_date = Date 2026 1 2, pt_value = 0\<rparr>"

lemma sample_scope_accepted:
  "validated_scope sample_active_answer sample_active_request BySector (Some ''B1'') = Inr ''B1''"
  "validated_coverage sample_active_answer sample_active_request = Inr [Date 2026 1 2]"
  "validated_lineage sample_active_answer sample_active_request = Inr (''sha256:'' @ replicate 64 CHR ''a'')"
  by code_simp+

lemma sample_rows_accepted:
  "validated_return_paths [flat_return] [flat_return] [Date 2026 1 2] = Inr ([(Date 2026 1 2, 0)], [(Date 2026 1 2, 0)])"
  "validated_aggregates sample_active_answer [Date 2026 1 2] = Inr [(Date 2026 1 2, sample_aggregate)]"
  "validated_group_rows sample_active_answer [(Date 2026 1 2, sample_aggregate)] BySector [(''SECTOR:tech'', ''SECTOR_TECH'')] =
     Inr \<lparr>gt_by_group = [(''SECTOR_TECH'', [(Date 2026 1 2, \<lparr>ab_date = Date 2026 1 2, ab_contribution = 0, ab_weight = 0\<rparr>)])],
       gt_active_sums = [(Date 2026 1 2, 0)], gt_portfolio_sums = [(Date 2026 1 2, 0)],
       gt_benchmark_sums = [(Date 2026 1 2, 0)], gt_seen = [(Date 2026 1 2, ''SECTOR:tech'')],
       gt_labels = [(''SECTOR:tech'', ''Tech'')]\<rparr>"
  by code_simp+

lemma sample_day_accepted:
  "validate_legs t (Date 2026 1 2, sample_aggregate) = Inr ()"
  "validate_day t [(Date 2026 1 2, 0)] [(Date 2026 1 2, 0)] (Date 2026 1 2, sample_aggregate) = Inr ()"
  if "gt_active_sums t = [(Date 2026 1 2, 0)]" "gt_portfolio_sums t = [(Date 2026 1 2, 0)]"
    "gt_benchmark_sums t = [(Date 2026 1 2, 0)]"
  using that by (simp_all add: validate_legs_def validate_day_def require_small_delta_def require_agreement_def
      evidence_agrees_def decimal_result_def decimal_overflows_def dsub_def dabs_def ACTIVE_TOLERANCE_def
      evidence_decimal_def read_decimal_def decimal_of_json_def sample_aggregate_def json_get_def raise_if_def dict_get_def)

theorem active_evidence_reconciles_witness:
  "\<exists>e. parse_active_group_evidence sample_active_answer sample_active_request (Some ''B1'') BySector
      [(''SECTOR:tech'', ''SECTOR_TECH'')] [flat_return] [flat_return] = Inr e \<and>
    map fst (ag_observations e) = [''SECTOR_TECH''] \<and> ag_benchmark_id e = ''B1''"
proof -
  have "\<exists>e. parse_active_group_evidence sample_active_answer sample_active_request (Some ''B1'') BySector
      [(''SECTOR:tech'', ''SECTOR_TECH'')] [flat_return] [flat_return] = Inr e"
    unfolding parse_active_group_evidence_def sample_scope_accepted sample_rows_accepted
    by (simp add: sample_scope_accepted sample_rows_accepted sample_day_accepted)
  then obtain e where e: "parse_active_group_evidence sample_active_answer sample_active_request (Some ''B1'') BySector
      [(''SECTOR:tech'', ''SECTOR_TECH'')] [flat_return] [flat_return] = Inr e" by blast
  with active_evidence_reconciles [OF e] show ?thesis by (auto simp: sorted_set_def)
qed

end
