(* ===== verification/GroupEvidence.thy ===== *)
theory GroupEvidence
  imports Main AttributionInputs ReturnsSeries PositionExposure Numerics ActiveEvidence
begin

text \<open>
  The evidence of total-risk attribution: services/attribution_group_evidence.py with the envelope of
  services/attribution_contribution_response.py.  An answer of lotus-performance gives a series of
  returns and weights for each group; a malformed one is refused, a declared absence degrades the set,
  and a set is empirical only when every group of the exposure universe has an observation on every
  date of the portfolio's returns and the observations reconcile with them.
\<close>

section \<open>Vocabulary\<close>

definition CONTRIBUTION_OPERATION :: string where
  "CONTRIBUTION_OPERATION = ''/performance/contribution''"

definition RECONCILIATION_TOLERANCE_PP :: f64 where
  "RECONCILIATION_TOLERANCE_PP = flit (1 / 100)"

definition FLAG_TRUNCATED :: string where
  "FLAG_TRUNCATED = ''group_return_evidence:truncated''"

definition FLAG_PERIOD_MISSING :: string where
  "FLAG_PERIOD_MISSING = ''group_return_evidence:period_missing''"

definition FLAG_RECONCILIATION_BREACH :: string where
  "FLAG_RECONCILIATION_BREACH = ''group_return_evidence:reconciliation_breach''"

definition FLAG_GROUP_UNIVERSE_INCOMPLETE :: string where
  "FLAG_GROUP_UNIVERSE_INCOMPLETE = ''group_return_evidence:group_universe_incomplete''"

definition FLAG_UNAVAILABLE :: string where
  "FLAG_UNAVAILABLE = ''group_return_evidence:unavailable''"

definition FLAG_CALENDAR_INCOMPLETE :: string where
  "FLAG_CALENDAR_INCOMPLETE = ''group_return_evidence:calendar_incomplete''"

definition GROUP_RETURN_BASIS :: string where
  "GROUP_RETURN_BASIS = ''SOURCE_POSITION_VALUATION_TWR''"

definition GROUP_WEIGHT_BASIS :: string where
  "GROUP_WEIGHT_BASIS = ''BEGINNING_CAPITAL_RATIO''"

record group_observation =
  gp_date :: date
  gp_return_pp :: f64
  gp_weight_ratio :: f64

record group_series =
  gq_group_key :: string
  gq_currency :: string
  gq_observations :: "group_observation list"

record evidence_pack =
  pk_dimension :: grouping_dimension
  pk_series :: "(string, group_series) dict"
  pk_flags :: "string list"
  pk_expected_keys :: "string list"
  pk_active :: "active_evidence option"

definition pack_empirical :: "evidence_pack \<Rightarrow> bool" where
  "pack_empirical pack \<longleftrightarrow> pk_flags pack = [] \<and> pk_series pack \<noteq> []"

definition malformed_evidence :: "string \<Rightarrow> calculation_error" where
  "malformed_evidence message = UpstreamFailure (invalid_upstream_payload ''lotus-performance''
     CONTRIBUTION_OPERATION (''lotus-performance contribution group evidence: '' @ message) [])"

section \<open>The envelope\<close>

definition explicit_levels :: "json_object \<Rightarrow> (calculation_error, json list option) result" where
  "explicit_levels answer =
     (case map_of answer ''results_by_period'' of
        None \<Rightarrow> Inl (malformed_evidence ''payload missing results_by_period mapping'')
      | Some (JObject results) \<Rightarrow>
          (case map_of results ''EXPLICIT'' of
             None \<Rightarrow> Inr None
           | Some (JObject period) \<Rightarrow>
               (case json_get period ''levels'' of
                  JArray levels \<Rightarrow> Inr (Some levels)
                | _ \<Rightarrow> Inl (malformed_evidence ''results_by_period.EXPLICIT.levels is not a list''))
           | Some _ \<Rightarrow> Inl (malformed_evidence ''results_by_period.EXPLICIT is not a mapping''))
      | Some _ \<Rightarrow> Inl (malformed_evidence ''results_by_period is not a mapping''))"

definition level_name :: "json \<Rightarrow> (calculation_error, string) result" where
  "level_name level =
     (case level of
        JObject kvs \<Rightarrow>
          (case json_get kvs ''name'' of
             JString s \<Rightarrow> Inr s
           | _ \<Rightarrow> Inl (malformed_evidence ''results_by_period.EXPLICIT.levels contains a level without a name''))
      | _ \<Rightarrow> Inl (malformed_evidence ''results_by_period.EXPLICIT.levels contains a non-mapping level''))"

text \<open>The rows of a level whose name was read, which is an object.\<close>

definition level_rows :: "field_readers \<Rightarrow> json \<Rightarrow> string \<Rightarrow> (calculation_error, json_object list) result" where
  "level_rows readers level dimension_field =
     (case level of
        JObject kvs \<Rightarrow>
          (case json_get kvs ''rows'' of
             JArray rows \<Rightarrow>
               if \<exists>row\<in>set rows. (case row of JObject _ \<Rightarrow> False | _ \<Rightarrow> True)
               then Inl (malformed_evidence (''hierarchy level '' @ fr_repr readers (JString dimension_field) @
                 '' contains a non-mapping row''))
               else Inr (List.map_filter (\<lambda>row. case row of JObject r \<Rightarrow> Some r | _ \<Rightarrow> None) rows)
           | _ \<Rightarrow> Inl (malformed_evidence (''hierarchy level '' @ fr_repr readers (JString dimension_field) @
               '' rows is not a list'')))
      | _ \<Rightarrow> Inl (Escaped ''AssertionError''))"

fun rows_at_level ::
  "field_readers \<Rightarrow> string \<Rightarrow> json list \<Rightarrow> (calculation_error, json_object list) result"
where
  "rows_at_level readers dimension_field [] =
     Inl (malformed_evidence (''results_by_period.EXPLICIT.levels missing requested hierarchy '' @
       fr_repr readers (JString dimension_field)))"
| "rows_at_level readers dimension_field (level # levels) =
     bind_result (level_name level) (\<lambda>name.
       if name = dimension_field then level_rows readers level dimension_field
       else rows_at_level readers dimension_field levels)"

definition extract_period_rows ::
  "field_readers \<Rightarrow> json_object \<Rightarrow> string \<Rightarrow> (calculation_error, json_object list option) result"
where
  "extract_period_rows readers answer dimension_field =
     bind_result (explicit_levels answer) (\<lambda>levels.
       case levels of
         None \<Rightarrow> Inr None
       | Some ls \<Rightarrow> bind_result (rows_at_level readers dimension_field ls) (\<lambda>rows. Inr (Some rows)))"

section \<open>Observations\<close>

text \<open>\<open>float(raw)\<close>; an integer beyond the range of floats raises \<open>OverflowError\<close>, which is not caught.\<close>

definition finite_field ::
  "field_readers \<Rightarrow> parse_float \<Rightarrow> json \<Rightarrow> string \<Rightarrow> string \<Rightarrow> (calculation_error, f64) result"
where
  "finite_field readers floats raw field group_key =
     (let group = fr_repr readers (JString group_key);
          non_numeric = Inl (malformed_evidence (''non-numeric '' @ field @ '' for group '' @ group));
          non_finite = Inl (malformed_evidence (''non-finite '' @ field @ '' for group '' @ group)) in
      case raw of
        JBool b \<Rightarrow> Inr (if b then 1 else 0)
      | JInt n \<Rightarrow> float_of_int n
      | JFloat x \<Rightarrow> Inr x
      | JNonFinite _ \<Rightarrow> non_finite
      | JString s \<Rightarrow> (case floats s of NotAFloat \<Rightarrow> non_numeric | NotFiniteFloat \<Rightarrow> non_finite | FiniteFloat x \<Rightarrow> Inr x)
      | _ \<Rightarrow> non_numeric)"

definition observation_date :: "field_readers \<Rightarrow> json \<Rightarrow> string \<Rightarrow> (calculation_error, date) result" where
  "observation_date readers v group_key =
     (let refused = Inl (malformed_evidence (''invalid observation date for group '' @
          fr_repr readers (JString group_key) @ '': '' @ fr_repr readers v)) in
      case v of
        JString s \<Rightarrow> (case date_fromisoformat s of None \<Rightarrow> refused | Some d \<Rightarrow> Inr d)
      | _ \<Rightarrow> refused)"

text \<open>What the observations of a period are read against.\<close>

record evidence_window =
  ew_dates :: "date list"
  ew_start :: date
  ew_end :: date

definition parse_observation ::
  "field_readers \<Rightarrow> parse_float \<Rightarrow> string \<Rightarrow> evidence_window \<Rightarrow> date list \<Rightarrow> json \<Rightarrow>
     (calculation_error, group_observation) result"
where
  "parse_observation readers floats group_key w seen raw =
     (let group = fr_repr readers (JString group_key) in
      case raw of
        JObject point \<Rightarrow>
          bind_result (observation_date readers (json_get point ''date'') group_key) (\<lambda>day.
            if day \<in> set seen
            then Inl (malformed_evidence (''duplicate observation date '' @ isoformat day @ '' for group '' @ group))
            else if day \<notin> set (ew_dates w) \<and> \<not> (ew_start w \<le> day \<and> day \<le> ew_end w \<and> 5 \<le> weekday day)
            then Inl (malformed_evidence (''observation outside the analysed window for group '' @ group @ '': '' @
              isoformat day))
            else bind_result (finite_field readers floats (json_get point ''return_pct'') ''return_pct'' group_key) (\<lambda>r.
              bind_result (finite_field readers floats (json_get point ''portfolio_weight_pct'')
                  ''portfolio_weight_pct'' group_key) (\<lambda>v.
                Inr \<lparr>gp_date = day, gp_return_pp = r, gp_weight_ratio = fdiv v 100\<rparr>)))
      | _ \<Rightarrow> Inl (malformed_evidence (''non-mapping series point for group '' @ group)))"

fun parse_observations ::
  "field_readers \<Rightarrow> parse_float \<Rightarrow> string \<Rightarrow> evidence_window \<Rightarrow> date list \<Rightarrow> json list \<Rightarrow>
     (calculation_error, group_observation list) result"
where
  "parse_observations readers floats group_key w seen [] = Inr []"
| "parse_observations readers floats group_key w seen (raw # raws) =
     bind_result (parse_observation readers floats group_key w seen raw) (\<lambda>ob.
     bind_result (parse_observations readers floats group_key w (gp_date ob # seen) raws) (\<lambda>obs.
       Inr (ob # obs)))"

definition series_currency ::
  "field_readers \<Rightarrow> json_object \<Rightarrow> string \<Rightarrow> string option \<Rightarrow> (calculation_error, string) result"
where
  "series_currency readers row_evidence group_key expected_currency =
     (let group = fr_repr readers (JString group_key) in
      case json_get row_evidence ''currency'' of
        JString c \<Rightarrow>
          if py_strip c = []
          then Inl (malformed_evidence (''READY evidence without a currency for group '' @ group))
          else (case expected_currency of
              None \<Rightarrow> Inr c
            | Some x \<Rightarrow>
                if c \<noteq> x
                then Inl (malformed_evidence (''READY evidence for group '' @ group @ '' is in '' @ c @ '', requested '' @ x))
                else Inr c)
      | _ \<Rightarrow> Inl (malformed_evidence (''READY evidence without a currency for group '' @ group)))"

definition parse_ready_series ::
  "field_readers \<Rightarrow> parse_float \<Rightarrow> json_object \<Rightarrow> string \<Rightarrow> string option \<Rightarrow> evidence_window \<Rightarrow>
     (calculation_error, group_series) result"
where
  "parse_ready_series readers floats row_evidence group_key expected_currency w =
     (let group = fr_repr readers (JString group_key) in
      if json_get row_evidence ''return_basis'' \<noteq> JString GROUP_RETURN_BASIS
      then Inl (malformed_evidence (''READY evidence has unsupported return_basis for group '' @ group))
      else if json_get row_evidence ''weight_basis'' \<noteq> JString GROUP_WEIGHT_BASIS
      then Inl (malformed_evidence (''READY evidence has unsupported weight_basis for group '' @ group))
      else bind_result (series_currency readers row_evidence group_key expected_currency) (\<lambda>currency.
        case json_get row_evidence ''series'' of
          JArray (raw # raws) \<Rightarrow>
            if ew_dates w = []
            then Inl (malformed_evidence (''READY evidence without portfolio return dates for group '' @ group))
            else bind_result (parse_observations readers floats group_key w [] (raw # raws)) (\<lambda>obs.
              Inr \<lparr>gq_group_key = group_key, gq_currency = currency,
                gq_observations = sort_key gp_date (filter (\<lambda>ob. gp_date ob \<in> set (ew_dates w)) obs)\<rparr>)
        | _ \<Rightarrow> Inl (malformed_evidence (''READY evidence without a series for group '' @ group))))"

section \<open>Rows\<close>

definition row_group_key :: "field_readers \<Rightarrow> json_object \<Rightarrow> string \<Rightarrow> (calculation_error, string) result" where
  "row_group_key readers row dimension_field =
     (case json_get row ''key'' of
        JObject key \<Rightarrow>
          let v = json_get key dimension_field in
          if v = JNull \<or> py_strip (text_of readers v) = []
          then Inl (malformed_evidence (''hierarchy row without a '' @ fr_repr readers (JString dimension_field) @ '' key value''))
          else Inr (text_of readers v)
      | _ \<Rightarrow> Inl (malformed_evidence ''hierarchy row without a key mapping''))"

record row_tables =
  rw_series :: "(string, group_series) dict"
  rw_flags :: "string list"
  rw_source_keys :: "string list"
  rw_calculation_keys :: "string list"

definition row_status ::
  "field_readers \<Rightarrow> parse_float \<Rightarrow> json_object \<Rightarrow> string \<Rightarrow> string \<Rightarrow> string option \<Rightarrow> evidence_window \<Rightarrow>
     (calculation_error, group_series option) result"
where
  "row_status readers floats row source_key calculation_key expected_currency w =
     (let source = fr_repr readers (JString source_key) in
      case json_get row ''group_return'' of
        JObject row_evidence \<Rightarrow>
          let status = json_get row_evidence ''status'' in
          if status = JString ''UNAVAILABLE'' then Inr None
          else if status \<noteq> JString ''READY''
          then Inl (malformed_evidence (''unknown group_return status '' @ fr_repr readers status @ '' for group '' @ source))
          else bind_result (parse_ready_series readers floats row_evidence calculation_key expected_currency w)
            (\<lambda>s. Inr (Some s))
      | _ \<Rightarrow> Inl (malformed_evidence (''hierarchy row without group_return evidence for '' @ source)))"

definition collect_row ::
  "field_readers \<Rightarrow> parse_float \<Rightarrow> string \<Rightarrow> string option \<Rightarrow> evidence_window \<Rightarrow> (string, string) dict \<Rightarrow>
     json_object \<Rightarrow> row_tables \<Rightarrow> (calculation_error, row_tables) result"
where
  "collect_row readers floats dimension_field expected_currency w expected row t =
     (if json_truthy (json_get row ''is_other'') then Inr (t\<lparr>rw_flags := rw_flags t @ [FLAG_TRUNCATED]\<rparr>)
      else bind_result (row_group_key readers row dimension_field) (\<lambda>source_key.
        let source = fr_repr readers (JString source_key) in
        if source_key \<in> set (rw_source_keys t)
        then Inl (malformed_evidence (''duplicate hierarchy rows for group '' @ source))
        else (case map_of expected source_key of
            None \<Rightarrow> Inl (malformed_evidence (''hierarchy row group '' @ source @ '' is outside the Core group universe''))
          | Some k \<Rightarrow>
              if k \<in> set (rw_calculation_keys t)
              then Inl (malformed_evidence (''multiple hierarchy rows resolve to one Core group identity '' @
                fr_repr readers (JString k)))
              else bind_result (row_status readers floats row source_key k expected_currency w) (\<lambda>found.
                let seen = t\<lparr>rw_source_keys := source_key # rw_source_keys t,
                      rw_calculation_keys := k # rw_calculation_keys t\<rparr> in
                case found of
                  None \<Rightarrow> Inr (seen\<lparr>rw_flags := rw_flags t @ [FLAG_UNAVAILABLE]\<rparr>)
                | Some s \<Rightarrow> Inr (seen\<lparr>rw_series := rw_series t @ [(k, s)]\<rparr>)))))"

fun collect_rows ::
  "field_readers \<Rightarrow> parse_float \<Rightarrow> string \<Rightarrow> string option \<Rightarrow> evidence_window \<Rightarrow> (string, string) dict \<Rightarrow>
     json_object list \<Rightarrow> row_tables \<Rightarrow> (calculation_error, row_tables) result"
where
  "collect_rows readers floats dimension_field expected_currency w expected [] t = Inr t"
| "collect_rows readers floats dimension_field expected_currency w expected (row # rows) t =
     bind_result (collect_row readers floats dimension_field expected_currency w expected row t) (\<lambda>t'.
       collect_rows readers floats dimension_field expected_currency w expected rows t')"

definition empty_row_tables :: row_tables where
  "empty_row_tables = \<lparr>rw_series = [], rw_flags = [], rw_source_keys = [], rw_calculation_keys = []\<rparr>"

definition collect_row_evidence ::
  "field_readers \<Rightarrow> parse_float \<Rightarrow> json_object list \<Rightarrow> string \<Rightarrow> string option \<Rightarrow> evidence_window \<Rightarrow>
     (string, string) dict \<Rightarrow> (calculation_error, (string, group_series) dict \<times> string list) result"
where
  "collect_row_evidence readers floats rows dimension_field expected_currency w expected =
     bind_result (collect_rows readers floats dimension_field expected_currency w expected rows empty_row_tables) (\<lambda>t.
       Inr (rw_series t, rw_flags t @
         (if set (map snd expected) \<subseteq> set (rw_calculation_keys t) then [] else [FLAG_GROUP_UNIVERSE_INCOMPLETE])))"

section \<open>The evidence of a dimension\<close>

definition observed_dates :: "group_series \<Rightarrow> date list" where
  "observed_dates s = map gp_date (gq_observations s)"

definition calendar_flags :: "(string, group_series) dict \<Rightarrow> date list \<Rightarrow> string list" where
  "calendar_flags series dates =
     List.map_filter (\<lambda>k. case map_of series k of
         None \<Rightarrow> None
       | Some s \<Rightarrow> if set dates \<subseteq> set (observed_dates s) then None else Some FLAG_CALENDAR_INCOMPLETE)
       (sorted_set (dict_keys series))"

definition observation_on :: "group_series \<Rightarrow> date \<Rightarrow> group_observation option" where
  "observation_on s day = find (\<lambda>ob. gp_date ob = day) (gq_observations s)"

text \<open>What the groups contribute on a date on which each has an observation.\<close>

definition decomposed_return :: "(string, group_series) dict \<Rightarrow> date \<Rightarrow> f64" where
  "decomposed_return series day =
     py_sum (List.map_filter (\<lambda>(k, s). map_option (\<lambda>ob. fmul (gp_weight_ratio ob) (gp_return_pp ob)) (observation_on s day))
       series)"

definition reconciles :: "(string, group_series) dict \<Rightarrow> return_point \<Rightarrow> bool" where
  "reconciles series p \<longleftrightarrow>
     \<bar>fsub (decomposed_return series (pt_date p)) (pt_value p)\<bar> \<le> RECONCILIATION_TOLERANCE_PP"

definition reconciliation_flags :: "(string, group_series) dict \<Rightarrow> return_point list \<Rightarrow> string list" where
  "reconciliation_flags series portfolio_returns =
     (if list_all (reconciles series) portfolio_returns then [] else [FLAG_RECONCILIATION_BREACH])"

text \<open>The first occurrences, in order.\<close>

definition unique_flags :: "string list \<Rightarrow> string list" where
  "unique_flags flags = dict_keys (dict_of_items (map (\<lambda>f. (f, ())) flags))"

definition window_of_returns :: "return_point list \<Rightarrow> date \<Rightarrow> date \<Rightarrow> evidence_window" where
  "window_of_returns portfolio_returns start finish =
     \<lparr>ew_dates = map pt_date portfolio_returns, ew_start = start, ew_end = finish\<rparr>"

definition parse_group_evidence ::
  "field_readers \<Rightarrow> parse_float \<Rightarrow> json_object \<Rightarrow> grouping_dimension \<Rightarrow> string \<Rightarrow> string option \<Rightarrow>
     return_point list \<Rightarrow> date \<Rightarrow> date \<Rightarrow> (string, string) dict \<Rightarrow> (calculation_error, evidence_pack) result"
where
  "parse_group_evidence readers floats answer d dimension_field expected_currency portfolio_returns start finish expected =
     (let expected_keys = sorted_set (map snd expected);
          dates = map pt_date portfolio_returns in
      bind_result (extract_period_rows readers answer dimension_field) (\<lambda>found.
        case found of
          None \<Rightarrow> Inr \<lparr>pk_dimension = d, pk_series = [], pk_flags = [FLAG_PERIOD_MISSING],
            pk_expected_keys = expected_keys, pk_active = None\<rparr>
        | Some rows \<Rightarrow>
            bind_result (collect_row_evidence readers floats rows dimension_field expected_currency
                (window_of_returns portfolio_returns start finish) expected) (\<lambda>(series, flags).
              let noted = (if series = [] \<and> flags = [] then [FLAG_PERIOD_MISSING] else flags);
                  currencies = sorted_set (map (gq_currency \<circ> snd) series) in
              if 1 < length currencies
              then Inl (malformed_evidence (''mixed group evidence currencies '' @
                fr_repr readers (JArray (map JString currencies))))
              else let dated = noted @ calendar_flags series dates;
                       checked = (if dated = [] then reconciliation_flags series portfolio_returns else dated) in
                Inr \<lparr>pk_dimension = d, pk_series = series, pk_flags = unique_flags checked,
                  pk_expected_keys = expected_keys, pk_active = None\<rparr>)))"


section \<open>What empirical evidence establishes\<close>

lemma observations_distinct:
  "parse_observations readers floats k w seen raws = Inr obs \<Longrightarrow>
     distinct (map gp_date obs) \<and> gp_date ` set obs \<inter> set seen = {}"
proof (induction raws arbitrary: seen obs)
  case (Cons raw raws)
  then obtain ob rest where ob: "parse_observation readers floats k w seen raw = Inr ob"
    and rest: "parse_observations readers floats k w (gp_date ob # seen) raws = Inr rest" and obs: "obs = ob # rest"
    by (auto simp: result_simps)
  from ob have "gp_date ob \<notin> set seen"
    by (auto simp: parse_observation_def Let_def result_simps split: json.splits if_splits)
  with Cons.IH [OF rest] obs show ?case by auto
qed auto

text \<open>A series in order, within the dates, in the currency that was asked for.\<close>

definition ready_series :: "evidence_window \<Rightarrow> string option \<Rightarrow> group_series \<Rightarrow> bool" where
  "ready_series w expected_currency s \<longleftrightarrow>
     sorted_wrt (<) (observed_dates s) \<and> set (observed_dates s) \<subseteq> set (ew_dates w) \<and>
     (\<forall>x. expected_currency = Some x \<longrightarrow> gq_currency s = x)"

lemma series_currency_Inr:
  "series_currency readers ev k expected_currency = Inr c \<Longrightarrow> expected_currency = Some x \<Longrightarrow> c = x"
  by (auto simp: series_currency_def Let_def split: json.splits if_splits)

lemma parse_ready_series_Inr:
  assumes "parse_ready_series readers floats ev k expected_currency w = Inr s"
  shows "ready_series w expected_currency s"
proof -
  have "\<exists>raws. json_get ev ''series'' = JArray raws \<and> raws \<noteq> []"
    using assms by (cases "json_get ev ''series''"; cases "json_get ev ''series'' = JArray []")
      (auto simp: parse_ready_series_def Let_def result_simps split: if_splits)
  then obtain raw raws where raws: "json_get ev ''series'' = JArray (raw # raws)" by (auto simp: neq_Nil_conv)
  with assms obtain c obs where c: "series_currency readers ev k expected_currency = Inr c"
    and obs: "parse_observations readers floats k w [] (raw # raws) = Inr obs"
    and s: "gq_currency s = c" "gq_observations s = sort_key gp_date (filter (\<lambda>ob. gp_date ob \<in> set (ew_dates w)) obs)"
    by (auto simp: parse_ready_series_def Let_def result_simps simp del: parse_observations.simps split: if_splits)
  from observations_distinct [OF obs] have "distinct (map gp_date (filter (\<lambda>ob. gp_date ob \<in> set (ew_dates w)) obs))"
    by (intro distinct_map_filter) simp
  then have "distinct (observed_dates s)"
    by (simp add: observed_dates_def s distinct_map)
  moreover have "sorted (observed_dates s)" by (simp add: observed_dates_def s)
  ultimately have "sorted_wrt (<) (observed_dates s)" by (simp add: strict_sorted_iff)
  moreover have "set (observed_dates s) \<subseteq> set (ew_dates w)" by (auto simp: observed_dates_def s)
  ultimately show ?thesis using series_currency_Inr [OF c] s by (simp add: ready_series_def)
qed

lemma row_status_Inr:
  "row_status readers floats row source k expected_currency w = Inr (Some s) \<Longrightarrow> ready_series w expected_currency s"
  by (auto simp: row_status_def Let_def result_simps split: json.splits if_splits intro: parse_ready_series_Inr)

definition row_tables_ok :: "evidence_window \<Rightarrow> string option \<Rightarrow> (string, string) dict \<Rightarrow> row_tables \<Rightarrow> bool" where
  "row_tables_ok w expected_currency expected t \<longleftrightarrow>
     distinct (dict_keys (rw_series t)) \<and> set (dict_keys (rw_series t)) \<subseteq> set (rw_calculation_keys t) \<and>
     set (rw_calculation_keys t) \<subseteq> snd ` set expected \<and>
     (rw_flags t = [] \<longrightarrow> set (rw_calculation_keys t) = set (dict_keys (rw_series t))) \<and>
     (\<forall>(k, s) \<in> set (rw_series t). ready_series w expected_currency s)"

lemma collect_row_ok:
  assumes "collect_row readers floats field expected_currency w expected row t = Inr t'"
    and "row_tables_ok w expected_currency expected t"
  shows "row_tables_ok w expected_currency expected t'"
proof (cases "json_truthy (json_get row ''is_other'')")
  case True
  with assms show ?thesis by (auto simp: collect_row_def row_tables_ok_def)
next
  case False
  with assms(1) obtain source k found where k: "map_of expected source = Some k" "k \<notin> set (rw_calculation_keys t)"
    and found: "row_status readers floats row source k expected_currency w = Inr found"
    and t': "t' = (case found of
          None \<Rightarrow> t\<lparr>rw_source_keys := source # rw_source_keys t, rw_calculation_keys := k # rw_calculation_keys t,
            rw_flags := rw_flags t @ [FLAG_UNAVAILABLE]\<rparr>
        | Some s \<Rightarrow> t\<lparr>rw_source_keys := source # rw_source_keys t, rw_calculation_keys := k # rw_calculation_keys t,
            rw_series := rw_series t @ [(k, s)]\<rparr>)"
    by (auto simp: collect_row_def Let_def result_simps split: if_splits option.splits)
  have key: "k \<in> snd ` set expected" using k(1) by (force dest: map_of_SomeD)
  show ?thesis
  proof (cases found)
    case None
    with t' assms(2) key show ?thesis by (auto simp: row_tables_ok_def)
  next
    case (Some s)
    with found have "ready_series w expected_currency s" by (auto intro: row_status_Inr)
    with Some t' assms(2) key k(2) show ?thesis by (auto simp: row_tables_ok_def dict_keys_def)
  qed
qed

lemma collect_rows_ok:
  "collect_rows readers floats field expected_currency w expected rows t = Inr t' \<Longrightarrow>
     row_tables_ok w expected_currency expected t \<Longrightarrow> row_tables_ok w expected_currency expected t'"
  by (induction rows arbitrary: t) (auto simp: result_simps dest: collect_row_ok)

lemma calendar_flags_Nil:
  assumes "calendar_flags series dates = []" "(k, s) \<in> set series" "distinct (dict_keys series)"
  shows "set dates \<subseteq> set (observed_dates s)"
proof -
  have "map_of series k = Some s" using assms(2,3) by (simp add: dict_keys_def)
  moreover have "k \<in> set (dict_keys series)" using assms(2) by (force simp: dict_keys_def)
  ultimately show ?thesis
    using assms(1) by (auto simp: calendar_flags_def map_filter_Nil_iff split: option.splits if_splits)
qed

lemma unique_flags_Nil_iff [simp]: "unique_flags fs = [] \<longleftrightarrow> fs = []"
proof -
  have "set (unique_flags fs) = set fs" by (simp add: unique_flags_def dict_keys_def keys_dict_of_items image_image)
  then show ?thesis by (metis set_empty)
qed

lemma one_currency:
  assumes "\<not> 1 < length (sorted_set (map (gq_currency \<circ> snd) series))"
  shows "\<exists>c. \<forall>(k, s) \<in> set series. gq_currency s = c"
proof -
  let ?cs = "sorted_set (map (gq_currency \<circ> snd) series)"
  have mem: "gq_currency s \<in> set ?cs" if "(k, s) \<in> set series" for k s
    using that by (force simp: image_iff)
  from assms have "?cs = [] \<or> (\<exists>c. ?cs = [c])" by (cases ?cs; cases "tl ?cs") auto
  then show ?thesis
  proof
    assume "?cs = []"
    with mem show ?thesis by fastforce
  next
    assume "\<exists>c. ?cs = [c]"
    then obtain c where "?cs = [c]" ..
    with mem show ?thesis by fastforce
  qed
qed

lemma unflagged_evidence:
  assumes "parse_group_evidence readers floats answer d field expected_currency portfolio_returns start finish expected = Inr pack"
    and True: "pk_flags pack = []"
  shows "pk_series pack \<noteq> [] \<and> distinct (dict_keys (pk_series pack)) \<and> set (dict_keys (pk_series pack)) = snd ` set expected \<and>
       (\<forall>(k, s) \<in> set (pk_series pack). observed_dates s = sorted_set (map pt_date portfolio_returns) \<and>
          (\<forall>x. expected_currency = Some x \<longrightarrow> gq_currency s = x)) \<and>
       (\<exists>c. \<forall>(k, s) \<in> set (pk_series pack). gq_currency s = c) \<and>
       list_all (reconciles (pk_series pack)) portfolio_returns"
proof -
  let ?w = "window_of_returns portfolio_returns start finish"
  from assms(1) obtain found where found: "extract_period_rows readers answer field = Inr found"
    by (auto simp: parse_group_evidence_def Let_def result_simps)
  with assms(1) True obtain rows where rows: "found = Some rows"
    by (cases found) (auto simp: parse_group_evidence_def Let_def)
  with assms(1) found obtain t where
    t: "collect_rows readers floats field expected_currency ?w expected rows empty_row_tables = Inr t"
    by (auto simp: parse_group_evidence_def collect_row_evidence_def Let_def result_simps)
  let ?universe = "if set (map snd expected) \<subseteq> set (rw_calculation_keys t) then [] else [FLAG_GROUP_UNIVERSE_INCOMPLETE]"
  let ?noted = "if rw_series t = [] \<and> rw_flags t @ ?universe = [] then [FLAG_PERIOD_MISSING] else rw_flags t @ ?universe"
  let ?dated = "?noted @ calendar_flags (rw_series t) (map pt_date portfolio_returns)"
  from assms(1) found rows t have currencies: "\<not> 1 < length (sorted_set (map (gq_currency \<circ> snd) (rw_series t)))"
    and pack: "pk_series pack = rw_series t"
    and all: "pk_flags pack = unique_flags (if ?dated = [] then reconciliation_flags (rw_series t) portfolio_returns else ?dated)"
    by (auto simp: parse_group_evidence_def collect_row_evidence_def Let_def split: if_splits)
  from True have "(if ?dated = [] then reconciliation_flags (rw_series t) portfolio_returns else ?dated) = []"
    unfolding all unique_flags_Nil_iff .
  then have dated: "?dated = []" and sums: "reconciliation_flags (rw_series t) portfolio_returns = []"
    by (metis (full_types))+
  from dated have dates: "calendar_flags (rw_series t) (map pt_date portfolio_returns) = []"
    and flags: "rw_flags t = []" "set (map snd expected) \<subseteq> set (rw_calculation_keys t)" "rw_series t \<noteq> []"
    by (auto split: if_splits)
  have ok: "row_tables_ok ?w expected_currency expected t"
    by (rule collect_rows_ok [OF t]) (simp add: row_tables_ok_def empty_row_tables_def dict_keys_def)
  have keys: "set (dict_keys (rw_series t)) = snd ` set expected" "distinct (dict_keys (rw_series t))"
    using ok flags by (auto simp: row_tables_ok_def)
  have "observed_dates s = sorted_set (map pt_date portfolio_returns) \<and>
      (\<forall>x. expected_currency = Some x \<longrightarrow> gq_currency s = x)" if s: "(k, s) \<in> set (rw_series t)" for k s
  proof -
    have ready: "ready_series ?w expected_currency s" using ok s by (auto simp: row_tables_ok_def)
    moreover have "set (map pt_date portfolio_returns) \<subseteq> set (observed_dates s)"
      by (rule calendar_flags_Nil [OF dates s keys(2)])
    ultimately show ?thesis
      by (auto simp: ready_series_def window_of_returns_def strict_sorted_iff intro!: sorted_distinct_set_unique)
  qed
  with keys flags sums one_currency [OF currencies] show ?thesis
    by (auto simp: pack_empirical_def pack True reconciliation_flags_def split: if_splits)
qed

text \<open>C34: The evidence of a dimension is empirical exactly when it carries no flag.  Then its groups are those of
  the exposure universe, each once; every one has, in order, exactly one observation on each date of the
  portfolio's returns and on no other; all are in one currency, the requested one; and on every date the
  weighted returns sum to the portfolio's within the tolerance.\<close>

theorem empirical_evidence_is_complete:
  assumes "parse_group_evidence readers floats answer d field expected_currency portfolio_returns start finish expected = Inr pack"
  shows "(pack_empirical pack \<longleftrightarrow> pk_flags pack = []) \<and>
    (pack_empirical pack \<longrightarrow>
       distinct (dict_keys (pk_series pack)) \<and> set (dict_keys (pk_series pack)) = snd ` set expected \<and>
       (\<forall>(k, s) \<in> set (pk_series pack). observed_dates s = sorted_set (map pt_date portfolio_returns) \<and>
          (\<forall>x. expected_currency = Some x \<longrightarrow> gq_currency s = x)) \<and>
       (\<exists>c. \<forall>(k, s) \<in> set (pk_series pack). gq_currency s = c) \<and>
       list_all (reconciles (pk_series pack)) portfolio_returns)"
  using unflagged_evidence [OF assms] by (auto simp: pack_empirical_def)


section \<open>An example\<close>

definition sample_point_evidence :: json where
  "sample_point_evidence = JObject [(''date'', JString ''2026-01-02''), (''return_pct'', JInt 0), (''portfolio_weight_pct'', JInt 0)]"

definition sample_evidence_row :: json_object where
  "sample_evidence_row = [(''key'', JObject [(''sector'', JString ''Tech'')]),
     (''group_return'', JObject [(''status'', JString ''READY''), (''return_basis'', JString GROUP_RETURN_BASIS),
        (''weight_basis'', JString GROUP_WEIGHT_BASIS), (''currency'', JString ''USD''),
        (''series'', JArray [sample_point_evidence])])]"

definition sample_contribution :: json_object where
  "sample_contribution = [(''results_by_period'', JObject [(''EXPLICIT'', JObject [(''levels'', JArray
     [JObject [(''name'', JString ''sector''), (''rows'', JArray [JObject sample_evidence_row])]])])])]"

definition no_float_texts :: parse_float where
  "no_float_texts = (\<lambda>_. NotAFloat)"

lemma sample_observation:
  "parse_observation sample_readers no_float_texts k (window_of_returns [flat_return] a b) [] sample_point_evidence =
     Inr \<lparr>gp_date = Date 2026 1 2, gp_return_pp = 0, gp_weight_ratio = 0\<rparr>"
proof -
  have "date_fromisoformat ''2026-01-02'' = Some (Date 2026 1 2)" by code_simp
  then show ?thesis
    by (simp add: parse_observation_def sample_point_evidence_def json_get_def observation_date_def
        window_of_returns_def flat_return_def finite_field_def float_of_int_def fdiv_def Let_def)
qed

lemma sample_row_collected:
  "collect_rows sample_readers no_float_texts ''sector'' (Some ''USD'') (window_of_returns [flat_return] a b)
     [(''Tech'', ''SECTOR_TECH'')] [sample_evidence_row] empty_row_tables =
   Inr \<lparr>rw_series = [(''SECTOR_TECH'', \<lparr>gq_group_key = ''SECTOR_TECH'', gq_currency = ''USD'',
       gq_observations = [\<lparr>gp_date = Date 2026 1 2, gp_return_pp = 0, gp_weight_ratio = 0\<rparr>]\<rparr>)],
     rw_flags = [], rw_source_keys = [''Tech''], rw_calculation_keys = [''SECTOR_TECH'']\<rparr>"
proof -
  have "py_strip ''Tech'' \<noteq> []" "py_strip ''USD'' \<noteq> []" by code_simp+
  then show ?thesis
    by (simp add: collect_row_def sample_evidence_row_def json_get_def row_group_key_def text_of_def row_status_def
        parse_ready_series_def series_currency_def sample_observation empty_row_tables_def Let_def)
      (simp add: window_of_returns_def flat_return_def)
qed

theorem empirical_evidence_is_complete_witness:
  "\<exists>pack. parse_group_evidence sample_readers no_float_texts sample_contribution BySector ''sector'' (Some ''USD'')
      [flat_return] (Date 2026 1 1) (Date 2026 1 31) [(''Tech'', ''SECTOR_TECH'')] = Inr pack \<and>
    pack_empirical pack \<and> set (dict_keys (pk_series pack)) = {''SECTOR_TECH''}"
proof -
  have rows: "extract_period_rows sample_readers sample_contribution ''sector'' = Inr (Some [sample_evidence_row])"
    by (simp add: extract_period_rows_def explicit_levels_def sample_contribution_def level_name_def level_rows_def
        json_get_def map_filter_simps)
  have found: "collect_row_evidence sample_readers no_float_texts [sample_evidence_row] ''sector'' (Some ''USD'')
      (window_of_returns [flat_return] a b) [(''Tech'', ''SECTOR_TECH'')] =
     Inr ([(''SECTOR_TECH'', \<lparr>gq_group_key = ''SECTOR_TECH'', gq_currency = ''USD'',
       gq_observations = [\<lparr>gp_date = Date 2026 1 2, gp_return_pp = 0, gp_weight_ratio = 0\<rparr>]\<rparr>)], [])" for a b
    unfolding collect_row_evidence_def sample_row_collected by simp
  have flat: "pt_date flat_return = Date 2026 1 2" "pt_value flat_return = 0" by (simp_all add: flat_return_def)
  have sums: "RECONCILIATION_TOLERANCE_PP \<ge> 0"
    by (simp add: RECONCILIATION_TOLERANCE_PP_def flit_def rnd_nonneg)
  have "\<exists>pack. parse_group_evidence sample_readers no_float_texts sample_contribution BySector ''sector'' (Some ''USD'')
      [flat_return] (Date 2026 1 1) (Date 2026 1 31) [(''Tech'', ''SECTOR_TECH'')] = Inr pack \<and> pk_flags pack = []"
    using sums by (simp add: parse_group_evidence_def rows found flat
        calendar_flags_def sorted_set_def dict_keys_def observed_dates_def map_filter_simps
        reconciliation_flags_def reconciles_def decomposed_return_def observation_on_def fsub_def Let_def)
  then obtain pack where pack: "parse_group_evidence sample_readers no_float_texts sample_contribution BySector ''sector''
      (Some ''USD'') [flat_return] (Date 2026 1 1) (Date 2026 1 31) [(''Tech'', ''SECTOR_TECH'')] = Inr pack"
    "pk_flags pack = []" by blast
  with empirical_evidence_is_complete [OF pack(1)] show ?thesis by auto
qed

end
