(* ===== verification/AttributionEngine.thy ===== *)
theory AttributionEngine
  imports Main "HOL-Library.Multiset" RiskMetrics DrawdownEngine GroupEvidence
begin

text \<open>
  The historical-attribution calculation: the frames of a request (services/attribution_source_frames.py),
  the inputs of a decomposition and its rows (services/attribution_calculation.py), the sets and which evidence
  each rests on (services/attribution_decomposition.py, attribution_set_results.py,
  attribution_period_sets.py), the results of the periods (services/attribution_period_results.py), the
  response (services/attribution_engine.py) and its contracts (contracts/attribution_result_outputs.py,
  attribution_metadata_outputs.py, attribution_response_outputs.py).  A frame of weights is its index of
  dates and, for each column, the values in the order of the index; where a value may be missing it is
  an option.
\<close>

section \<open>The frames of a request\<close>

text \<open>Beyond the numeric operations of the risk metrics: pandas' sort of rows by date, whose order among equal
  dates is not fixed, the mean of the values that fall into one cell of a pivot table, and the sum of a
  row.\<close>

record attribution_ops = risk_ops +
  rk_sort_dates :: "exposure_point list \<Rightarrow> exposure_point list"
  rk_cell_mean :: "f64 list \<Rightarrow> f64"
  rk_row_sum :: "f64 list \<Rightarrow> f64"

definition attribution_laws :: "attribution_ops \<Rightarrow> bool" where
  "attribution_laws ops \<longleftrightarrow>
     (\<forall>ps. mset (rk_sort_dates ops ps) = mset ps \<and> sorted (map xp_date (rk_sort_dates ops ps))) \<and>
     (\<forall>w. rk_cell_mean ops [w] = w)"

record source_frames =
  sf_returns :: series
  sf_benchmark :: series
  sf_exposure :: "exposure_point list"
  sf_benchmark_exposure :: "exposure_point list"

definition build_source_frames :: "attribution_ops \<Rightarrow> attribution_stateless_input \<Rightarrow> source_frames" where
  "build_source_frames ops request =
     \<lparr>sf_returns = returns_frame (al_returns request),
      sf_benchmark = returns_frame (al_benchmark_returns request),
      sf_exposure = rk_sort_dates ops (al_exposure_history request),
      sf_benchmark_exposure = rk_sort_dates ops (al_benchmark_exposure_history request)\<rparr>"

record weight_frame =
  wf_index :: "date list"
  wf_columns :: "(string \<times> f64 list) list"

definition empty_frame :: weight_frame where
  "empty_frame = \<lparr>wf_index = [], wf_columns = []\<rparr>"

text \<open>The rows of a window, the weights of a cell, the cells with more than one weight, the last label of a group.\<close>

definition scoped_exposure ::
  "exposure_point list \<Rightarrow> date \<Rightarrow> date \<Rightarrow> grouping_dimension \<Rightarrow> exposure_point list"
where
  "scoped_exposure df start finish d =
     filter (\<lambda>p. start \<le> xp_date p \<and> xp_date p \<le> finish \<and> xp_dimension p = d) df"

definition cell_weights :: "exposure_point list \<Rightarrow> date \<Rightarrow> string \<Rightarrow> f64 list" where
  "cell_weights scoped day k = map xp_weight (filter (\<lambda>p. xp_date p = day \<and> xp_group_key p = k) scoped)"

definition conflicting_cells :: "exposure_point list \<Rightarrow> (date \<times> string) list" where
  "conflicting_cells scoped =
     filter (\<lambda>(day, k). 1 < length (remdups (cell_weights scoped day k)))
       (List.product (sorted_set (map xp_date scoped)) (sorted_set (map xp_group_key scoped)))"

definition last_label :: "exposure_point list \<Rightarrow> string \<Rightarrow> string option" where
  "last_label scoped k =
     (case rev (List.map_filter xp_group_label (filter (\<lambda>p. xp_group_key p = k) scoped)) of
        [] \<Rightarrow> None
      | label # _ \<Rightarrow> Some label)"

definition weight_cell :: "attribution_ops \<Rightarrow> exposure_point list \<Rightarrow> string \<Rightarrow> date \<Rightarrow> f64" where
  "weight_cell ops scoped k day =
     (case cell_weights scoped day k of [] \<Rightarrow> 0 | w # ws \<Rightarrow> rk_cell_mean ops (w # ws))"

definition row_values :: "weight_frame \<Rightarrow> nat \<Rightarrow> f64 list" where
  "row_values frame i = map (\<lambda>(k, xs). xs ! i) (wf_columns frame)"

definition weights_off_one :: "attribution_ops \<Rightarrow> weight_frame \<Rightarrow> bool" where
  "weights_off_one ops frame \<longleftrightarrow>
     list_ex (\<lambda>i. flit (2 / 100) < \<bar>fsub (rk_row_sum ops (row_values frame i)) 1\<bar>) [0 ..< length (wf_index frame)]"

definition pivot_exposure ::
  "attribution_ops \<Rightarrow> exposure_point list \<Rightarrow> date \<Rightarrow> date \<Rightarrow> grouping_dimension \<Rightarrow>
     (calculation_error, weight_frame \<times> (string, string option) dict \<times> string list) result"
where
  "pivot_exposure ops df start finish d =
     (let scoped = scoped_exposure df start finish d;
          keys = sorted_set (map xp_group_key scoped);
          days = sorted_set (map xp_date scoped);
          weights = \<lparr>wf_index = days, wf_columns = map (\<lambda>k. (k, map (weight_cell ops scoped k) days)) keys\<rparr>
      in if scoped = [] then Inr (empty_frame, [], [''grouping:'' @ dimension_value d @ '':no_exposure_data''])
         else case conflicting_cells scoped of
           (day, k) # _ \<Rightarrow> Inl (PlainValueError (''conflicting duplicate exposure weights for '' @
             dimension_value d @ '':'' @ k @ '' on '' @ isoformat day))
         | [] \<Rightarrow> Inr (weights, map (\<lambda>k. (k, last_label scoped k)) keys,
             if weights_off_one ops weights then [''grouping:'' @ dimension_value d @ '':weight_not_sum_to_one''] else []))"

section \<open>The inputs of a decomposition\<close>

record calculation_inputs =
  ci_metric_series :: series
  ci_group_matrix :: "(string \<times> f64 list) list"
  ci_weight_matrix :: "(string \<times> f64 option list) list"
  ci_risk_total :: f64

definition annualized_deviation :: "attribution_ops \<Rightarrow> f64 list \<Rightarrow> int \<Rightarrow> (calculation_error, f64) result" where
  "annualized_deviation ops xs basis =
     bind_result (float_of_int basis) (\<lambda>b. Inr (fmul (rk_std ops xs) (math_sqrt b)))"

text \<open>A column over other dates: the value of the date, or the fill.\<close>

definition reindexed :: "date list \<Rightarrow> 'a list \<Rightarrow> 'a \<Rightarrow> date list \<Rightarrow> 'a list" where
  "reindexed index xs fill days = map (\<lambda>day. dict_get (zip index xs) day fill) days"

definition total_risk_inputs ::
  "attribution_ops \<Rightarrow> series \<Rightarrow> weight_frame \<Rightarrow> int \<Rightarrow> (calculation_error, calculation_inputs) result"
where
  "total_risk_inputs ops returns exposure basis =
     bind_result (annualized_deviation ops (series_values returns) basis) (\<lambda>total.
       Inr \<lparr>ci_metric_series = returns,
         ci_group_matrix = map (\<lambda>(k, xs).
           (k, map2 fmul (reindexed (wf_index exposure) xs 0 (series_dates returns)) (series_values returns)))
           (wf_columns exposure),
         ci_weight_matrix = map (\<lambda>(k, xs). (k, map Some xs)) (wf_columns exposure),
         ci_risk_total = total\<rparr>)"

definition column_of :: "weight_frame \<Rightarrow> string \<Rightarrow> f64 list" where
  "column_of frame k = dict_get (wf_columns frame) k (replicate (length (wf_index frame)) 0)"

definition observed_difference :: "weight_frame \<Rightarrow> weight_frame \<Rightarrow> string \<Rightarrow> date \<Rightarrow> f64 option" where
  "observed_difference p b k day =
     (case (map_of (zip (wf_index p) (column_of p k)) day, map_of (zip (wf_index b) (column_of b k)) day) of
        (Some x, Some y) \<Rightarrow> Some (fsub x y)
      | _ \<Rightarrow> None)"

definition active_risk_inputs ::
  "attribution_ops \<Rightarrow> series \<Rightarrow> series \<Rightarrow> weight_frame \<Rightarrow> weight_frame \<Rightarrow> int \<Rightarrow>
     (calculation_error, calculation_inputs option) result"
where
  "active_risk_inputs ops returns benchmark exposure benchmark_exposure basis =
     (let metric = map (\<lambda>(d, p, b). (d, fsub p b)) (merge_inner returns benchmark);
          days = series_dates metric;
          columns = sorted_set (map fst (wf_columns exposure) @ map fst (wf_columns benchmark_exposure));
          union = sorted_set (wf_index exposure @ wf_index benchmark_exposure);
          on_days = (\<lambda>frame k. reindexed (wf_index frame) (column_of frame k) 0 days)
      in if metric = [] then Inr None
         else bind_result (annualized_deviation ops (series_values metric) basis) (\<lambda>total.
           Inr (Some \<lparr>ci_metric_series = metric,
             ci_group_matrix = map (\<lambda>k. (k, map2 fmul (map2 fsub (on_days exposure k) (on_days benchmark_exposure k))
               (series_values metric))) columns,
             ci_weight_matrix = map (\<lambda>k. (k, map (observed_difference exposure benchmark_exposure k) union)) columns,
             ci_risk_total = total\<rparr>)))"

definition attribution_calculation_inputs ::
  "attribution_ops \<Rightarrow> attribution_type \<Rightarrow> series \<Rightarrow> series \<Rightarrow> weight_frame \<Rightarrow> weight_frame \<Rightarrow> int \<Rightarrow>
     (calculation_error, calculation_inputs option) result"
where
  "attribution_calculation_inputs ops t returns benchmark exposure benchmark_exposure basis =
     (if t = TotalRisk then bind_result (total_risk_inputs ops returns exposure basis) (\<lambda>i. Inr (Some i))
      else active_risk_inputs ops returns benchmark exposure benchmark_exposure basis)"

text \<open>From evidence: every date of the series is looked up in each group's observations.\<close>

definition empirical_cells ::
  "(date, 'o) dict \<Rightarrow> ('o \<Rightarrow> f64) \<Rightarrow> date list \<Rightarrow> (calculation_error, f64 list) result"
where
  "empirical_cells per_date cell days =
     map_result (\<lambda>day. case map_of per_date day of
       Some ob \<Rightarrow> Inr (cell ob) | None \<Rightarrow> Inl (Escaped ''KeyError'')) days"

definition empirical_matrix ::
  "(string, (date, 'o) dict) dict \<Rightarrow> ('o \<Rightarrow> f64) \<Rightarrow> date list \<Rightarrow>
     (calculation_error, (string \<times> f64 list) list) result"
where
  "empirical_matrix observations cell days =
     map_result (\<lambda>(k, per_date). bind_result (empirical_cells per_date cell days) (\<lambda>xs. Inr (k, xs)))
       (sort_key fst observations)"

definition observed_matrix :: "(string \<times> f64 list) list \<Rightarrow> (string \<times> f64 option list) list" where
  "observed_matrix m = map (\<lambda>(k, xs). (k, map Some xs)) m"

definition empirical_total_risk_inputs ::
  "attribution_ops \<Rightarrow> series \<Rightarrow> evidence_pack \<Rightarrow> int \<Rightarrow> (calculation_error, calculation_inputs) result"
where
  "empirical_total_risk_inputs ops returns pack basis =
     (let observations = map (\<lambda>(k, s). (k, dict_of_items (map (\<lambda>ob. (gp_date ob, ob)) (gq_observations s)))) (pk_series pack);
          days = series_dates returns
      in bind_result (empirical_matrix observations (\<lambda>ob. fmul (gp_weight_ratio ob) (fdiv (gp_return_pp ob) 100)) days) (\<lambda>groups.
         bind_result (empirical_matrix observations gp_weight_ratio days) (\<lambda>weights.
         bind_result (annualized_deviation ops (series_values returns) basis) (\<lambda>total.
           Inr \<lparr>ci_metric_series = returns, ci_group_matrix = groups, ci_weight_matrix = observed_matrix weights,
             ci_risk_total = total\<rparr>))))"

definition empirical_active_risk_inputs ::
  "attribution_ops \<Rightarrow> series \<Rightarrow> series \<Rightarrow> active_evidence \<Rightarrow> int \<Rightarrow>
     (calculation_error, calculation_inputs option) result"
where
  "empirical_active_risk_inputs ops returns benchmark evidence basis =
     (let metric = map (\<lambda>(d, p, b). (d, fsub p b)) (merge_inner returns benchmark);
          days = series_dates metric;
          observations = map (\<lambda>(k, obs). (k, dict_of_items (map (\<lambda>ob. (ab_date ob, ob)) obs))) (ag_observations evidence)
      in if metric = [] then Inr None
         else bind_result (empirical_matrix observations (\<lambda>ob. rnd (ab_contribution ob)) days) (\<lambda>groups.
           bind_result (empirical_matrix observations (\<lambda>ob. rnd (ab_weight ob)) days) (\<lambda>weights.
           bind_result (annualized_deviation ops (series_values metric) basis) (\<lambda>total.
             Inr (Some \<lparr>ci_metric_series = metric, ci_group_matrix = groups,
               ci_weight_matrix = observed_matrix weights, ci_risk_total = total\<rparr>)))))"

section \<open>The rows\<close>

record decomposition_row =
  dw_group_key :: string
  dw_weight_average :: "f64 option"
  dw_marginal :: "f64 option"
  dw_component :: f64
  dw_percent :: "f64 option"

definition observed_mean :: "attribution_ops \<Rightarrow> f64 option list \<Rightarrow> f64 option" where
  "observed_mean ops cells =
     (case List.map_filter id cells of [] \<Rightarrow> None | x # xs \<Rightarrow> Some (np_mean ops (x # xs)))"

definition observed_means ::
  "attribution_ops \<Rightarrow> (string \<times> f64 option list) list \<Rightarrow> (string, f64 option) dict"
where
  "observed_means ops m = map (\<lambda>(k, cells). (k, observed_mean ops cells)) m"

definition component_row ::
  "attribution_ops \<Rightarrow> string \<Rightarrow> f64 list \<Rightarrow> f64 option \<Rightarrow> f64 list \<Rightarrow> f64 \<Rightarrow> int \<Rightarrow> f64 \<Rightarrow>
     (calculation_error, decomposition_row) result"
where
  "component_row ops k group_series average metric denominator basis deviation =
     bind_result (float_of_int basis) (\<lambda>b.
       let component = fmul (fdiv (fst (rk_cov ops group_series metric)) deviation) (math_sqrt b)
       in Inr \<lparr>dw_group_key = k, dw_weight_average = average,
         dw_marginal = (case average of
            Some w \<Rightarrow> if close_to_zero w then None else Some (fdiv component w)
          | None \<Rightarrow> None),
         dw_component = component,
         dw_percent = (if close_to_zero denominator then None else Some (fdiv component denominator))\<rparr>)"

definition component_decomposition ::
  "attribution_ops \<Rightarrow> calculation_inputs \<Rightarrow> int \<Rightarrow> (calculation_error, decomposition_row list) result"
where
  "component_decomposition ops inputs basis =
     (let metric = series_values (ci_metric_series inputs);
          deviation = rk_std ops metric;
          means = observed_means ops (ci_weight_matrix inputs)
      in if ci_group_matrix inputs = [] \<or> metric = [] \<or> close_to_zero deviation then Inr []
         else map_result (\<lambda>(k, xs). component_row ops k xs (dict_get means k None) metric
           (ci_risk_total inputs) basis deviation) (ci_group_matrix inputs))"

section \<open>The sets\<close>

datatype risk_basis = EmpiricalGroupReturns | WeightProxy

record attribution_contributor =
  ac_group_key :: string
  ac_group_label :: "string option"
  ac_weight_average :: "f64 option"
  ac_marginal :: "f64 option"
  ac_component :: "f64 option"
  ac_percent :: "f64 option"

record attribution_set_result =
  ars_type :: attribution_type
  ars_metric :: attribution_metric
  ars_dimension :: grouping_dimension
  ars_total_value :: "f64 option"
  ars_reconciled_sum :: "f64 option"
  ars_residual :: "f64 option"
  ars_contributors :: "attribution_contributor list"
  ars_quality_flags :: "string list"
  ars_risk_basis :: risk_basis

definition empty_attribution_set ::
  "attribution_type \<Rightarrow> attribution_metric \<Rightarrow> grouping_dimension \<Rightarrow> string list \<Rightarrow> attribution_set_result"
where
  "empty_attribution_set t m d flags =
     \<lparr>ars_type = t, ars_metric = m, ars_dimension = d, ars_total_value = None, ars_reconciled_sum = None,
      ars_residual = None, ars_contributors = [], ars_quality_flags = flags, ars_risk_basis = WeightProxy\<rparr>"

definition attribution_contributors ::
  "decomposition_row list \<Rightarrow> (string, string option) dict \<Rightarrow> attribution_contributor list"
where
  "attribution_contributors rows labels =
     map (\<lambda>row. \<lparr>ac_group_key = dw_group_key row, ac_group_label = dict_get labels (dw_group_key row) None,
       ac_weight_average = dw_weight_average row, ac_marginal = dw_marginal row,
       ac_component = Some (dw_component row), ac_percent = dw_percent row\<rparr>) rows"

definition component_or_zero :: "attribution_contributor \<Rightarrow> f64" where
  "component_or_zero c = (case ac_component c of Some x \<Rightarrow> x | None \<Rightarrow> 0)"

definition reconciled_attribution_set ::
  "attribution_type \<Rightarrow> attribution_metric \<Rightarrow> grouping_dimension \<Rightarrow> f64 \<Rightarrow> attribution_contributor list \<Rightarrow>
     string list \<Rightarrow> risk_basis \<Rightarrow> attribution_set_result"
where
  "reconciled_attribution_set t m d risk contributors flags basis =
     (let reconciled = py_sum (map component_or_zero contributors)
      in \<lparr>ars_type = t, ars_metric = m, ars_dimension = d, ars_total_value = Some risk,
          ars_reconciled_sum = Some reconciled, ars_residual = Some (fsub risk reconciled),
          ars_contributors = contributors, ars_quality_flags = flags, ars_risk_basis = basis\<rparr>)"

definition calculated_attribution_set ::
  "attribution_ops \<Rightarrow> attribution_type \<Rightarrow> attribution_metric \<Rightarrow> grouping_dimension \<Rightarrow> calculation_inputs \<Rightarrow>
     (string, string option) dict \<Rightarrow> int \<Rightarrow> string list \<Rightarrow> risk_basis \<Rightarrow>
     (calculation_error, attribution_set_result) result"
where
  "calculated_attribution_set ops t m d inputs labels annualization flags basis =
     bind_result (component_decomposition ops inputs annualization) (\<lambda>rows.
       Inr (reconciled_attribution_set t m d (ci_risk_total inputs) (attribution_contributors rows labels) flags basis))"

text \<open>The request of a set.\<close>

record set_request =
  bs_type :: attribution_type
  bs_metric :: attribution_metric
  bs_dimension :: grouping_dimension
  bs_returns :: series
  bs_benchmark :: series
  bs_exposure :: weight_frame
  bs_benchmark_exposure :: weight_frame
  bs_labels :: "(string, string option) dict"
  bs_annualization :: int
  bs_flags :: "string list"
  bs_evidence :: "evidence_pack option"

datatype precalculation =
  EarlyResult attribution_set_result
| Calculate calculation_inputs risk_basis "string list"

definition metric_name :: "attribution_metric \<Rightarrow> string" where
  "metric_name m = (case m of VolatilityMetric \<Rightarrow> ''VOLATILITY'' | TrackingErrorMetric \<Rightarrow> ''TRACKING_ERROR'')"

definition unsupported_metric_set ::
  "attribution_type \<Rightarrow> attribution_metric \<Rightarrow> grouping_dimension \<Rightarrow> string list \<Rightarrow> attribution_set_result option"
where
  "unsupported_metric_set t m d flags =
     (if t = TotalRisk \<and> m \<noteq> VolatilityMetric
      then Some (empty_attribution_set t m d (flags @ [''metric:'' @ metric_name m @ '':unsupported_for_total_risk'']))
      else if t = ActiveRisk \<and> m \<noteq> TrackingErrorMetric
      then Some (empty_attribution_set t m d (flags @ [''metric:'' @ metric_name m @ '':unsupported_for_active_risk'']))
      else None)"

definition precalculation_result ::
  "set_request \<Rightarrow> calculation_inputs option \<Rightarrow> string list \<Rightarrow> risk_basis \<Rightarrow> precalculation"
where
  "precalculation_result rq inputs flags basis =
     (case inputs of
        None \<Rightarrow> EarlyResult (empty_attribution_set (bs_type rq) (bs_metric rq) (bs_dimension rq)
          (flags @ [''active_risk:alignment_empty'']))
      | Some i \<Rightarrow> if length (ci_metric_series i) < 2
          then EarlyResult (empty_attribution_set (bs_type rq) (bs_metric rq) (bs_dimension rq)
            (flags @ [''series:insufficient_observations'']))
          else Calculate i basis flags)"

definition set_evidence :: "set_request \<Rightarrow> evidence_pack option" where
  "set_evidence rq = (if group_evidence_applies_to_set (bs_type rq) (bs_metric rq) then bs_evidence rq else None)"

definition set_active_evidence :: "set_request \<Rightarrow> active_evidence option" where
  "set_active_evidence rq =
     (if bs_type rq = ActiveRisk \<and> bs_metric rq = TrackingErrorMetric
      then (case bs_evidence rq of Some pack \<Rightarrow> pk_active pack | None \<Rightarrow> None) else None)"

definition calculation_precalculation ::
  "attribution_ops \<Rightarrow> set_request \<Rightarrow> (calculation_error, precalculation) result"
where
  "calculation_precalculation ops rq =
     (let proxy = (\<lambda>flags. bind_result (attribution_calculation_inputs ops (bs_type rq) (bs_returns rq) (bs_benchmark rq)
            (bs_exposure rq) (bs_benchmark_exposure rq) (bs_annualization rq)) (\<lambda>inputs.
            Inr (precalculation_result rq inputs flags WeightProxy)))
      in case set_active_evidence rq of
        Some active \<Rightarrow>
          bind_result (empirical_active_risk_inputs ops (bs_returns rq) (bs_benchmark rq) active (bs_annualization rq)) (\<lambda>inputs.
            Inr (precalculation_result rq inputs (bs_flags rq) EmpiricalGroupReturns))
      | None \<Rightarrow>
          (case set_evidence rq of
             None \<Rightarrow> proxy (bs_flags rq)
           | Some pack \<Rightarrow>
               if pack_empirical pack
               then bind_result (empirical_total_risk_inputs ops (bs_returns rq) pack (bs_annualization rq)) (\<lambda>inputs.
                 Inr (precalculation_result rq (Some inputs) (bs_flags rq) EmpiricalGroupReturns))
               else proxy (bs_flags rq @ pk_flags pack)))"

definition build_attribution_set ::
  "attribution_ops \<Rightarrow> set_request \<Rightarrow> (calculation_error, attribution_set_result) result"
where
  "build_attribution_set ops rq =
     (case unsupported_metric_set (bs_type rq) (bs_metric rq) (bs_dimension rq) (bs_flags rq) of
        Some early \<Rightarrow> Inr early
      | None \<Rightarrow> bind_result (calculation_precalculation ops rq) (\<lambda>p.
          case p of
            EarlyResult early \<Rightarrow> Inr early
          | Calculate inputs basis flags \<Rightarrow>
              calculated_attribution_set ops (bs_type rq) (bs_metric rq) (bs_dimension rq) inputs (bs_labels rq)
                (bs_annualization rq) flags basis))"

section \<open>The sets of a period\<close>

record period_exposure =
  pe_weights :: weight_frame
  pe_benchmark_weights :: weight_frame
  pe_labels :: "(string, string option) dict"
  pe_flags :: "string list"

definition period_exposure_inputs ::
  "attribution_ops \<Rightarrow> source_frames \<Rightarrow> grouping_dimension \<Rightarrow> date \<Rightarrow> date \<Rightarrow> bool \<Rightarrow>
     (calculation_error, period_exposure) result"
where
  "period_exposure_inputs ops frames d start finish benchmark_required =
     bind_result (pivot_exposure ops (sf_exposure frames) start finish d) (\<lambda>(weights, labels, flags).
       if \<not> benchmark_required
       then Inr \<lparr>pe_weights = weights, pe_benchmark_weights = empty_frame, pe_labels = labels, pe_flags = flags\<rparr>
       else bind_result (pivot_exposure ops (sf_benchmark_exposure frames) start finish d) (\<lambda>(bweights, blabels, bflags).
         Inr \<lparr>pe_weights = weights, pe_benchmark_weights = bweights, pe_labels = dict_update labels blabels,
           pe_flags = flags @ bflags\<rparr>))"

definition grouping_attribution_sets ::
  "attribution_ops \<Rightarrow> attribution_options \<Rightarrow> grouping_dimension \<Rightarrow> period_exposure \<Rightarrow> series \<Rightarrow> series \<Rightarrow>
     evidence_pack option \<Rightarrow> (calculation_error, attribution_set_result list) result"
where
  "grouping_attribution_sets ops opts d exposure returns benchmark evidence =
     map_result (\<lambda>(t, m). build_attribution_set ops
       \<lparr>bs_type = t, bs_metric = m, bs_dimension = d, bs_returns = returns, bs_benchmark = benchmark,
        bs_exposure = pe_weights exposure, bs_benchmark_exposure = pe_benchmark_weights exposure,
        bs_labels = pe_labels exposure, bs_annualization = at_annualization_basis opts,
        bs_flags = pe_flags exposure, bs_evidence = evidence\<rparr>)
       (List.product (at_attribution_types opts) (at_metrics opts))"

type_synonym period_evidence = "(grouping_dimension, evidence_pack) dict"

definition dimension_sets ::
  "attribution_ops \<Rightarrow> attribution_options \<Rightarrow> source_frames \<Rightarrow> series \<Rightarrow> series \<Rightarrow> date \<Rightarrow> date \<Rightarrow>
     period_evidence option \<Rightarrow> grouping_dimension \<Rightarrow> (calculation_error, attribution_set_result list) result"
where
  "dimension_sets ops opts frames returns benchmark start finish evidence d =
     bind_result (period_exposure_inputs ops frames d start finish (requires_active_attribution opts)) (\<lambda>exposure.
       grouping_attribution_sets ops opts d exposure returns benchmark
         (case evidence of Some packs \<Rightarrow> map_of packs d | None \<Rightarrow> None))"

definition build_period_attribution_sets ::
  "attribution_ops \<Rightarrow> attribution_options \<Rightarrow> source_frames \<Rightarrow> series \<Rightarrow> series \<Rightarrow> date \<Rightarrow> date \<Rightarrow>
     period_evidence option \<Rightarrow> (calculation_error, attribution_set_result list) result"
where
  "build_period_attribution_sets ops opts frames returns benchmark start finish evidence =
     bind_result (map_result (dimension_sets ops opts frames returns benchmark start finish evidence)
       (at_grouping_dimensions opts)) (\<lambda>sets. Inr (concat sets))"

section \<open>The results of the periods\<close>

record attribution_period_result =
  apr_start_date :: date
  apr_end_date :: date
  apr_sets :: "attribution_set_result list"
  apr_error :: "string option"

definition scaled_window :: "series \<Rightarrow> date \<Rightarrow> date \<Rightarrow> series" where
  "scaled_window s start finish = map (\<lambda>(d, x). (d, fdiv x 100)) (filter_period s start finish)"

definition calculate_period_attribution ::
  "attribution_ops \<Rightarrow> attribution_stateless_input \<Rightarrow> source_frames \<Rightarrow> date \<Rightarrow> period_evidence option \<Rightarrow>
     risk_period \<Rightarrow> (calculation_error, attribution_period_result) result"
where
  "calculate_period_attribution ops request frames open_date evidence period =
     bind_result (resolve_period period (rq_as_of_date (al_scope request)) open_date) (\<lambda>(start, finish).
       let returns = scaled_window (sf_returns frames) start finish;
           benchmark = scaled_window (sf_benchmark frames) start finish
       in if length returns < 2
          then Inr \<lparr>apr_start_date = start, apr_end_date = finish, apr_sets = [], apr_error = Some ''Insufficient data''\<rparr>
          else bind_result (build_period_attribution_sets ops (al_options request) frames returns benchmark start finish evidence) (\<lambda>sets.
            Inr \<lparr>apr_start_date = start, apr_end_date = finish, apr_sets = sets, apr_error = None\<rparr>))"

type_synonym evidence_by_period = "(string, period_evidence) dict"

fun attribution_period_results ::
  "attribution_ops \<Rightarrow> attribution_stateless_input \<Rightarrow> source_frames \<Rightarrow> date \<Rightarrow> evidence_by_period option \<Rightarrow>
     risk_period list \<Rightarrow> (string, attribution_period_result) dict \<Rightarrow>
     (calculation_error, (string, attribution_period_result) dict) result"
where
  "attribution_period_results ops request frames open_date evidence [] results = Inr results"
| "attribution_period_results ops request frames open_date evidence (period # periods) results =
     bind_result (calculate_period_attribution ops request frames open_date
       (case evidence of Some by_period \<Rightarrow> map_of by_period (period_name period) | None \<Rightarrow> None) period) (\<lambda>r.
       attribution_period_results ops request frames open_date evidence periods
         (AList.update (period_name period) r results))"

section \<open>The response\<close>

record attribution_metadata =
  am_request_fingerprint :: string
  am_annualization_basis :: int
  am_metric_units :: "(string, string) dict"
  am_attribution_types :: "attribution_type list"
  am_metrics :: "attribution_metric list"
  am_grouping_dimensions :: "grouping_dimension list"
  am_strict_observations :: bool
  am_supportability :: supportability
  am_source_services :: "string list"
  am_upstream_fingerprints :: "(string, string) dict"

record attribution_response =
  ap_input_mode :: attribution_input_mode
  ap_scope :: risk_scope
  ap_results :: "(string, attribution_period_result) dict"
  ap_metadata :: attribution_metadata

definition ATTRIBUTION_METRIC_UNIT_SEMANTICS :: "(string \<times> string) list" where
  "ATTRIBUTION_METRIC_UNIT_SEMANTICS =
     [(''VOLATILITY'', ''decimal_ratio''), (''TRACKING_ERROR'', ''decimal_ratio'')]"

definition attribution_metadata_of ::
  "attribution_stateless_input fingerprints \<Rightarrow> attribution_stateless_input \<Rightarrow> supportability \<Rightarrow> attribution_metadata"
where
  "attribution_metadata_of fp request s =
     (let opts = al_options request in
      \<lparr>am_request_fingerprint = fp_model fp request, am_annualization_basis = at_annualization_basis opts,
       am_metric_units = dict_of_items (map (\<lambda>m. (metric_name m,
         dict_get ATTRIBUTION_METRIC_UNIT_SEMANTICS (metric_name m) [])) (at_metrics opts)),
       am_attribution_types = at_attribution_types opts, am_metrics = at_metrics opts,
       am_grouping_dimensions = at_grouping_dimensions opts, am_strict_observations = at_strict_observations opts,
       am_supportability = s, am_source_services = [''lotus-risk''], am_upstream_fingerprints = []\<rparr>)"

text \<open>What the posture reads of a result.\<close>

definition attribution_result_view :: "attribution_period_result \<Rightarrow> period_result" where
  "attribution_result_view r =
     \<lparr>pd_portfolio_observation_count = None, pd_series_count = None, pd_error = apr_error r,
      pd_relative_context = None, pd_benchmark_context = None, pd_risk_free_context = None,
      pd_attribution_sets = map (\<lambda>s. \<lparr>as_total_value_present = (ars_total_value s \<noteq> None),
        as_empirical = (ars_risk_basis s = EmpiricalGroupReturns)\<rparr>) (apr_sets r),
      pd_metric_errors = []\<rparr>"

definition attribution_response_of ::
  "attribution_stateless_input fingerprints \<Rightarrow> attribution_stateless_input \<Rightarrow> attribution_input_mode \<Rightarrow>
     supportability option \<Rightarrow> (string, attribution_period_result) dict \<Rightarrow>
     (calculation_error, attribution_response) result"
where
  "attribution_response_of fp request mode posture results =
     bind_result (lift_supportability posture) (\<lambda>s.
       Inr \<lparr>ap_input_mode = mode, ap_scope = al_scope request, ap_results = results,
         ap_metadata = attribution_metadata_of fp request s\<rparr>)"

definition calculate_historical_attribution ::
  "attribution_ops \<Rightarrow> attribution_stateless_input fingerprints \<Rightarrow> attribution_stateless_input \<Rightarrow>
     attribution_input_mode \<Rightarrow> evidence_by_period option \<Rightarrow> (calculation_error, attribution_response) result"
where
  "calculate_historical_attribution ops fp request mode evidence =
     (let frames = build_source_frames ops request;
          days = map pt_date (al_returns request);
          as_of = rq_as_of_date (al_scope request)
      in case sf_returns frames of
        [] \<Rightarrow> attribution_response_of fp request mode (supportability_from_period_results days as_of []) []
      | (open_date, _) # _ \<Rightarrow>
          bind_result (attribution_period_results ops request frames open_date evidence (al_periods request) []) (\<lambda>results.
            attribution_response_of fp request mode
              (supportability_from_attribution_results days as_of
                (map (\<lambda>(k, r). (k, attribution_result_view r)) results)) results))"

section \<open>The frames\<close>

lemma cell_weights_iff: "w \<in> set (cell_weights scoped day k) \<longleftrightarrow>
    (\<exists>p\<in>set scoped. xp_date p = day \<and> xp_group_key p = k \<and> xp_weight p = w)"
  by (auto simp: cell_weights_def)

lemma one_value_iff: "length (remdups xs) \<le> 1 \<longleftrightarrow> (\<forall>x\<in>set xs. \<forall>y\<in>set xs. x = y)"
proof -
  have "length (remdups xs) \<le> 1 \<longleftrightarrow> card (set xs) \<le> 1" by (simp add: length_remdups_card_conv)
  also have "\<dots> \<longleftrightarrow> (\<forall>x\<in>set xs. \<forall>y\<in>set xs. x = y)"
    using card_le_Suc0_iff_eq [of "set xs"] by (auto simp del: card_le_Suc0_iff_eq)
  finally show ?thesis .
qed

definition unambiguous :: "exposure_point list \<Rightarrow> bool" where
  "unambiguous scoped \<longleftrightarrow> (\<forall>p\<in>set scoped. \<forall>q\<in>set scoped. exposure_key p = exposure_key q \<longrightarrow> xp_weight p = xp_weight q)"

lemma conflicting_cells_Nil_iff:
  assumes dims: "\<And>p. p \<in> set scoped \<Longrightarrow> xp_dimension p = d"
  shows "conflicting_cells scoped = [] \<longleftrightarrow> unambiguous scoped"
proof -
  have single: "conflicting_cells scoped = [] \<longleftrightarrow>
      (\<forall>day\<in>xp_date ` set scoped. \<forall>k\<in>xp_group_key ` set scoped. length (remdups (cell_weights scoped day k)) \<le> 1)"
    by (simp add: conflicting_cells_def filter_empty_conv not_less)
  have same: "exposure_key p = exposure_key q \<longleftrightarrow> xp_date p = xp_date q \<and> xp_group_key p = xp_group_key q"
    if "p \<in> set scoped" "q \<in> set scoped" for p q
    using dims [OF that(1)] dims [OF that(2)] by (simp add: exposure_key_def)
  show ?thesis
  proof
    assume "conflicting_cells scoped = []"
    then have one: "length (remdups (cell_weights scoped (xp_date p) (xp_group_key p))) \<le> 1" if "p \<in> set scoped" for p
      using single that by blast
    show "unambiguous scoped"
      unfolding unambiguous_def
    proof (intro ballI impI)
      fix p q assume p: "p \<in> set scoped" and q: "q \<in> set scoped" and "exposure_key p = exposure_key q"
      then have "xp_weight p \<in> set (cell_weights scoped (xp_date p) (xp_group_key p))"
        "xp_weight q \<in> set (cell_weights scoped (xp_date p) (xp_group_key p))"
        by (auto simp: cell_weights_iff same)
      with one [OF p] show "xp_weight p = xp_weight q" unfolding one_value_iff by blast
    qed
  next
    assume unique: "unambiguous scoped"
    have "length (remdups (cell_weights scoped day k)) \<le> 1" for day k
      unfolding one_value_iff
    proof (intro ballI)
      fix x y assume "x \<in> set (cell_weights scoped day k)" "y \<in> set (cell_weights scoped day k)"
      then obtain p q where "p \<in> set scoped" "q \<in> set scoped" "xp_date p = day" "xp_date q = day"
        "xp_group_key p = k" "xp_group_key q = k" and [simp]: "xp_weight p = x" "xp_weight q = y"
        unfolding cell_weights_iff by blast
      then show "x = y" using unique same unfolding unambiguous_def by metis
    qed
    with single show "conflicting_cells scoped = []" by blast
  qed
qed

lemma scoped_dimension: "p \<in> set (scoped_exposure df start finish d) \<Longrightarrow> xp_dimension p = d"
  by (simp add: scoped_exposure_def)

lemma sorted_set_cong: "set xs = set ys \<Longrightarrow> sorted_set xs = sorted_set ys"
  by (intro sorted_distinct_set_unique) simp_all

definition same_cell :: "exposure_point list \<Rightarrow> exposure_point \<Rightarrow> exposure_point list" where
  "same_cell points p = filter (\<lambda>q. exposure_key q = exposure_key p) points"

lemma cell_weights_replicate:
  assumes unique: "unambiguous scoped"
    and dims: "\<And>q. q \<in> set scoped \<Longrightarrow> xp_dimension q = d" and p: "p \<in> set scoped"
  shows "cell_weights scoped (xp_date p) (xp_group_key p) = replicate (length (same_cell scoped p)) (xp_weight p)"
proof -
  have same: "filter (\<lambda>q. xp_date q = xp_date p \<and> xp_group_key q = xp_group_key p) scoped = same_cell scoped p"
    unfolding same_cell_def using dims [OF p] by (intro filter_cong) (auto simp: exposure_key_def dims)
  have "map xp_weight (same_cell scoped p) = map (\<lambda>_. xp_weight p) (same_cell scoped p)"
  proof (rule map_cong [OF refl])
    fix q assume "q \<in> set (same_cell scoped p)"
    then have "q \<in> set scoped" "exposure_key q = exposure_key p" by (simp_all add: same_cell_def)
    with unique p show "xp_weight q = xp_weight p" unfolding unambiguous_def by blast
  qed
  then show ?thesis by (simp add: cell_weights_def same map_replicate_const)
qed

lemma weight_cell_of:
  assumes unique: "unambiguous scoped"
    and dims: "\<And>q. q \<in> set scoped \<Longrightarrow> xp_dimension q = d" and p: "p \<in> set scoped"
  shows "weight_cell ops scoped (xp_group_key p) (xp_date p) =
    rk_cell_mean ops (replicate (length (same_cell scoped p)) (xp_weight p))"
proof -
  have "p \<in> set (same_cell scoped p)" using p by (simp add: same_cell_def)
  then obtain n where n: "length (same_cell scoped p) = Suc n" by (cases "same_cell scoped p") auto
  show ?thesis by (simp add: weight_cell_def cell_weights_replicate [OF assms] n)
qed

lemma weight_cell_unobserved:
  "(\<And>p. p \<in> set scoped \<Longrightarrow> \<not> (xp_date p = day \<and> xp_group_key p = k)) \<Longrightarrow> weight_cell ops scoped k day = 0"
  by (simp add: weight_cell_def cell_weights_def filter_empty_conv)

lemma pivot_exposure_Inr:
  "pivot_exposure ops df start finish d = Inr (frame, labels, flags) \<Longrightarrow>
    scoped = scoped_exposure df start finish d \<Longrightarrow>
    (scoped = [] \<longrightarrow> frame = empty_frame) \<and> conflicting_cells scoped = [] \<and>
    wf_index frame = sorted_set (map xp_date scoped) \<and>
    wf_columns frame = map (\<lambda>k. (k, map (weight_cell ops scoped k) (wf_index frame))) (sorted_set (map xp_group_key scoped))"
  by (cases "conflicting_cells scoped")
    (auto simp: pivot_exposure_def Let_def empty_frame_def conflicting_cells_def sorted_set_def split: if_splits)

text \<open>What a frame says of the rows it was built from.\<close>

definition frame_states :: "attribution_ops \<Rightarrow> exposure_point list \<Rightarrow> weight_frame \<Rightarrow> bool" where
  "frame_states ops scoped frame \<longleftrightarrow>
     wf_index frame = sorted_set (map xp_date scoped) \<and>
     map fst (wf_columns frame) = sorted_set (map xp_group_key scoped) \<and>
     (\<forall>(k, xs) \<in> set (wf_columns frame). length xs = length (wf_index frame) \<and>
        (\<forall>(day, x) \<in> set (zip (wf_index frame) xs).
           (\<forall>p\<in>set scoped. xp_date p = day \<and> xp_group_key p = k \<longrightarrow>
              x = rk_cell_mean ops (replicate (length (same_cell scoped p)) (xp_weight p)) \<and>
              (same_cell scoped p = [p] \<longrightarrow> x = xp_weight p)) \<and>
           (x \<noteq> 0 \<longrightarrow> (\<exists>p\<in>set scoped. xp_date p = day \<and> xp_group_key p = k))))"

text \<open>C35: The exposure of a window is refused exactly when it states two weights for one group on one date.  The frame of
  an accepted window has a row for every date and a column for every group observed in it, both in order;
  a cell holds the mean of the rows of its group and date, which all state the same weight --- that very
  weight where it is one row --- and zero where there is none.\<close>

theorem conflicting_weights_are_refused:
  assumes "attribution_laws ops"
  shows "(is_ok (pivot_exposure ops (rk_sort_dates ops points) start finish d) \<longleftrightarrow>
       unambiguous (scoped_exposure points start finish d)) \<and>
     (\<forall>frame labels flags. pivot_exposure ops (rk_sort_dates ops points) start finish d = Inr (frame, labels, flags) \<longrightarrow>
       frame_states ops (scoped_exposure points start finish d) frame)"
proof -
  let ?df = "rk_sort_dates ops points" and ?p = "scoped_exposure points start finish d"
  let ?s = "scoped_exposure ?df start finish d"
  have mset_s: "mset ?s = mset ?p"
    using assms by (simp add: attribution_laws_def scoped_exposure_def)
  then have set_s: "set ?s = set ?p" by (rule mset_eq_setD)
  have cell_s: "length (same_cell ?s q) = length (same_cell ?p q)" for q
    unfolding same_cell_def by (metis mset_filter mset_s size_mset)
  have dims: "q \<in> set ?s \<Longrightarrow> xp_dimension q = d" for q by (rule scoped_dimension)
  have clear: "unambiguous ?s = unambiguous ?p" by (simp add: unambiguous_def set_s)
  note conflict = conflicting_cells_Nil_iff [OF dims]
  have single: "rk_cell_mean ops [w] = w" for w using assms by (simp add: attribution_laws_def)
  have ok: "is_ok (pivot_exposure ops ?df start finish d) \<longleftrightarrow> conflicting_cells ?s = []"
    by (cases "conflicting_cells ?s")
      (auto simp: pivot_exposure_def Let_def is_ok_def conflicting_cells_def sorted_set_def split: if_splits)
  have "frame_states ops ?p frame"
    if r: "pivot_exposure ops ?df start finish d = Inr (frame, labels, flags)" for frame labels flags
  proof -
    note parts = pivot_exposure_Inr [OF r refl]
    then have unique: "unambiguous ?s" using conflict by blast
    have cell: "weight_cell ops ?s (xp_group_key q) (xp_date q) =
        rk_cell_mean ops (replicate (length (same_cell ?p q)) (xp_weight q))" if "q \<in> set ?p" for q
      using weight_cell_of [OF unique dims, of q ops] that set_s by (simp add: cell_s)
    have zero: "weight_cell ops ?s k day \<noteq> 0 \<Longrightarrow> \<exists>q\<in>set ?p. xp_date q = day \<and> xp_group_key q = k" for k day
      using weight_cell_unobserved [of ?s day k ops] set_s by blast
    have "wf_index frame = sorted_set (map xp_date ?p)" "map fst (wf_columns frame) = sorted_set (map xp_group_key ?p)"
      using parts set_s by (auto simp: comp_def intro!: sorted_set_cong)
    moreover have "(k, xs) \<in> set (wf_columns frame) \<Longrightarrow> xs = map (weight_cell ops ?s k) (wf_index frame)" for k xs
      using parts by auto
    ultimately show ?thesis
      using cell zero by (fastforce simp: frame_states_def set_zip single)
  qed
  with ok conflict clear show ?thesis by blast
qed

section \<open>What a set says\<close>

text \<open>A contributor: its component, the component per unit of its average weight where that is observed and not
  zero, its share of the whole where that is not zero.\<close>

definition contributor_states :: "f64 \<Rightarrow> attribution_contributor \<Rightarrow> bool" where
  "contributor_states risk c \<longleftrightarrow>
     (case ac_component c of None \<Rightarrow> False | Some x \<Rightarrow>
       ac_marginal c = (case ac_weight_average c of None \<Rightarrow> None
         | Some w \<Rightarrow> if close_to_zero w then None else Some (fdiv x w)) \<and>
       ac_percent c = (if close_to_zero risk then None else Some (fdiv x risk)))"

definition evidence_supports :: "evidence_pack option \<Rightarrow> attribution_type \<Rightarrow> bool" where
  "evidence_supports evidence t \<longleftrightarrow>
     (\<exists>p. evidence = Some p \<and> (if t = TotalRisk then pack_empirical p else pk_active p \<noteq> None))"

definition metric_of_type :: "attribution_type \<Rightarrow> attribution_metric" where
  "metric_of_type t = (case t of TotalRisk \<Rightarrow> VolatilityMetric | ActiveRisk \<Rightarrow> TrackingErrorMetric)"

definition set_answers ::
  "evidence_pack option \<Rightarrow> grouping_dimension \<times> attribution_type \<times> attribution_metric \<Rightarrow> attribution_set_result \<Rightarrow> bool"
where
  "set_answers evidence key s \<longleftrightarrow>
     (ars_dimension s, ars_type s, ars_metric s) = key \<and>
     (case ars_total_value s of
        None \<Rightarrow> ars_reconciled_sum s = None \<and> ars_residual s = None \<and> ars_contributors s = [] \<and>
          ars_quality_flags s \<noteq> [] \<and> ars_risk_basis s = WeightProxy
      | Some risk \<Rightarrow> ars_metric s = metric_of_type (ars_type s) \<and>
          list_all (contributor_states risk) (ars_contributors s) \<and>
          ars_reconciled_sum s = Some (py_sum (map component_or_zero (ars_contributors s))) \<and>
          ars_residual s = Some (fsub risk (py_sum (map component_or_zero (ars_contributors s)))) \<and>
          (ars_risk_basis s = EmpiricalGroupReturns \<longleftrightarrow> evidence_supports evidence (ars_type s)) \<and>
          (ars_type s = TotalRisk \<and> ars_risk_basis s = WeightProxy \<longrightarrow>
             set (case evidence of Some p \<Rightarrow> pk_flags p | None \<Rightarrow> []) \<subseteq> set (ars_quality_flags s)))"

lemma component_row_states:
  assumes "component_row ops k xs average metric risk basis deviation = Inr r"
  shows "contributor_states risk \<lparr>ac_group_key = dw_group_key r, ac_group_label = l,
    ac_weight_average = dw_weight_average r, ac_marginal = dw_marginal r, ac_component = Some (dw_component r),
    ac_percent = dw_percent r\<rparr>"
proof -
  from assms obtain b where "float_of_int basis = Inr b" unfolding component_row_def bind_result_Inr_iff by blast
  with assms show ?thesis
    by (cases average) (auto simp: component_row_def Let_def contributor_states_def)
qed

lemma decomposition_rows:
  assumes "component_decomposition ops inputs basis = Inr rows" and r: "r \<in> set rows"
  obtains k xs average deviation where
    "component_row ops k xs average (series_values (ci_metric_series inputs)) (ci_risk_total inputs) basis deviation = Inr r"
proof -
  let ?row = "\<lambda>(k, xs). component_row ops k xs (dict_get (observed_means ops (ci_weight_matrix inputs)) k None)
    (series_values (ci_metric_series inputs)) (ci_risk_total inputs) basis
    (rk_std ops (series_values (ci_metric_series inputs)))"
  have "map_result ?row (ci_group_matrix inputs) = Inr rows"
    using assms by (simp add: component_decomposition_def Let_def split: if_splits)
  then have "list_all2 (\<lambda>g r. ?row g = Inr r) (ci_group_matrix inputs) rows" unfolding map_result_Inr_iff .
  from list_all2_set2 [OF this r] obtain g where "?row g = Inr r" by blast
  then show thesis by (cases g) (simp only: prod.case, rule that)
qed

lemma decomposition_states:
  assumes "component_decomposition ops inputs basis = Inr rows"
  shows "list_all (contributor_states (ci_risk_total inputs)) (attribution_contributors rows labels)"
proof -
  have "contributor_states (ci_risk_total inputs)
      \<lparr>ac_group_key = dw_group_key r, ac_group_label = l, ac_weight_average = dw_weight_average r,
       ac_marginal = dw_marginal r, ac_component = Some (dw_component r), ac_percent = dw_percent r\<rparr>"
    if "r \<in> set rows" for r l
    using decomposition_rows [OF assms that] component_row_states by metis
  then show ?thesis by (simp add: attribution_contributors_def list_all_iff)
qed

lemma calculated_set_answers:
  assumes "calculated_attribution_set ops t m d inputs labels annualization flags basis = Inr s"
    and "m = metric_of_type t" "basis = EmpiricalGroupReturns \<longleftrightarrow> evidence_supports evidence t"
    and "t = TotalRisk \<and> basis = WeightProxy \<Longrightarrow>
      set (case evidence of Some p \<Rightarrow> pk_flags p | None \<Rightarrow> []) \<subseteq> set flags"
  shows "set_answers evidence (d, t, m) s"
  using assms decomposition_states [of ops inputs annualization _ labels]
  by (auto simp: calculated_attribution_set_def reconciled_attribution_set_def set_answers_def Let_def result_simps)

lemma empty_set_answers: "flags \<noteq> [] \<Longrightarrow> set_answers evidence (d, t, m) (empty_attribution_set t m d flags)"
  by (simp add: empty_attribution_set_def set_answers_def)

lemma unsupported_None_iff:
  "unsupported_metric_set t m d flags = None \<longleftrightarrow> m = metric_of_type t"
  by (cases t; cases m) (simp_all add: unsupported_metric_set_def metric_of_type_def)

lemma unsupported_answers:
  "unsupported_metric_set t m d flags = Some s \<Longrightarrow> set_answers evidence (d, t, m) s"
  by (auto simp: unsupported_metric_set_def intro!: empty_set_answers split: if_splits)

lemma precalculation_cases:
  "precalculation_result rq inputs flags basis = EarlyResult s \<Longrightarrow>
     set_answers evidence (bs_dimension rq, bs_type rq, bs_metric rq) s"
  "precalculation_result rq inputs flags basis = Calculate i b fs \<Longrightarrow> inputs = Some i \<and> b = basis \<and> fs = flags"
  by (auto simp: precalculation_result_def intro!: empty_set_answers split: option.splits if_splits)

lemma calculation_cases:
  assumes p: "calculation_precalculation ops rq = Inr p" and m: "bs_metric rq = metric_of_type (bs_type rq)"
  obtains inputs flags basis where "p = precalculation_result rq inputs flags basis"
    "basis = EmpiricalGroupReturns \<longleftrightarrow> evidence_supports (bs_evidence rq) (bs_type rq)"
    "bs_type rq = TotalRisk \<and> basis = WeightProxy \<Longrightarrow>
      set (case bs_evidence rq of Some p \<Rightarrow> pk_flags p | None \<Rightarrow> []) \<subseteq> set flags"
proof (cases "bs_type rq")
  case TotalRisk
  with m have e: "set_evidence rq = bs_evidence rq" "set_active_evidence rq = None"
    by (simp_all add: set_evidence_def set_active_evidence_def group_evidence_applies_to_set_def metric_of_type_def)
  show thesis
  proof (cases "bs_evidence rq")
    case None
    with p e that show thesis
      by (auto simp: calculation_precalculation_def evidence_supports_def result_simps)
  next
    case (Some pack)
    with p e TotalRisk that show thesis
      by (cases "pack_empirical pack") (auto simp: calculation_precalculation_def evidence_supports_def result_simps)
  qed
next
  case ActiveRisk
  with m have e: "set_evidence rq = None"
    "set_active_evidence rq = (case bs_evidence rq of Some pack \<Rightarrow> pk_active pack | None \<Rightarrow> None)"
    by (simp_all add: set_evidence_def set_active_evidence_def group_evidence_applies_to_set_def metric_of_type_def)
  show thesis
  proof (cases "set_active_evidence rq")
    case None
    with p e ActiveRisk that show thesis
      by (auto simp: calculation_precalculation_def evidence_supports_def result_simps split: option.splits)
  next
    case (Some active)
    with p e ActiveRisk that show thesis
      by (auto simp: calculation_precalculation_def evidence_supports_def result_simps split: option.splits)
  qed
qed

lemma built_set_answers:
  assumes "build_attribution_set ops rq = Inr s"
  shows "set_answers (bs_evidence rq) (bs_dimension rq, bs_type rq, bs_metric rq) s"
proof (cases "unsupported_metric_set (bs_type rq) (bs_metric rq) (bs_dimension rq) (bs_flags rq)")
  case (Some early)
  with assms show ?thesis by (auto simp: build_attribution_set_def intro: unsupported_answers)
next
  case None
  then have m: "bs_metric rq = metric_of_type (bs_type rq)" by (simp add: unsupported_None_iff)
  from assms None obtain p where p: "calculation_precalculation ops rq = Inr p"
    and s: "(case p of EarlyResult early \<Rightarrow> Inr early
      | Calculate inputs basis flags \<Rightarrow> calculated_attribution_set ops (bs_type rq) (bs_metric rq) (bs_dimension rq)
          inputs (bs_labels rq) (bs_annualization rq) flags basis) = Inr s"
    by (auto simp: build_attribution_set_def result_simps)
  from calculation_cases [OF p m] obtain inputs flags basis where
    pre: "p = precalculation_result rq inputs flags basis"
    and basis: "basis = EmpiricalGroupReturns \<longleftrightarrow> evidence_supports (bs_evidence rq) (bs_type rq)"
    and flags: "bs_type rq = TotalRisk \<and> basis = WeightProxy \<Longrightarrow>
      set (case bs_evidence rq of Some p \<Rightarrow> pk_flags p | None \<Rightarrow> []) \<subseteq> set flags" by blast
  show ?thesis
  proof (cases p)
    case (EarlyResult early)
    then have "precalculation_result rq inputs flags basis = EarlyResult s" using s pre by simp
    then show ?thesis by (rule precalculation_cases(1))
  next
    case (Calculate i b fs)
    with pre precalculation_cases(2) [of rq inputs flags basis i b fs] have "b = basis" "fs = flags" by auto
    with s Calculate have "calculated_attribution_set ops (bs_type rq) (bs_metric rq) (bs_dimension rq) i (bs_labels rq)
      (bs_annualization rq) flags basis = Inr s" by simp
    then show ?thesis by (rule calculated_set_answers [OF _ m basis flags])
  qed
qed

section \<open>Every set is answered\<close>

definition requested_sets ::
  "attribution_options \<Rightarrow> (grouping_dimension \<times> attribution_type \<times> attribution_metric) list"
where
  "requested_sets opts = List.product (at_grouping_dimensions opts)
     (List.product (at_attribution_types opts) (at_metrics opts))"

lemma list_all2_concat: "list_all2 (list_all2 P) xss yss \<Longrightarrow> list_all2 P (concat xss) (concat yss)"
  by (induction rule: list_all2_induct) (auto intro: list_all2_appendI)

lemma dimension_sets_answer:
  assumes "dimension_sets ops opts frames returns benchmark start finish evidence d = Inr sets"
  shows "list_all2 (set_answers (case evidence of Some packs \<Rightarrow> map_of packs d | None \<Rightarrow> None))
    (map (Pair d) (List.product (at_attribution_types opts) (at_metrics opts))) sets"
proof -
  let ?pack = "case evidence of Some packs \<Rightarrow> map_of packs d | None \<Rightarrow> None"
  from assms obtain exposure where
    "grouping_attribution_sets ops opts d exposure returns benchmark ?pack = Inr sets"
    unfolding dimension_sets_def bind_result_Inr_iff by blast
  then have "list_all2 (\<lambda>(t, m) s. build_attribution_set ops
       \<lparr>bs_type = t, bs_metric = m, bs_dimension = d, bs_returns = returns, bs_benchmark = benchmark,
        bs_exposure = pe_weights exposure, bs_benchmark_exposure = pe_benchmark_weights exposure,
        bs_labels = pe_labels exposure, bs_annualization = at_annualization_basis opts,
        bs_flags = pe_flags exposure, bs_evidence = ?pack\<rparr> = Inr s)
      (List.product (at_attribution_types opts) (at_metrics opts)) sets"
    by (simp only: grouping_attribution_sets_def map_result_Inr_iff case_prod_unfold)
  then show ?thesis
    unfolding list_all2_map1 by (rule list_all2_mono) (auto dest: built_set_answers)
qed

definition sets_answer ::
  "attribution_options \<Rightarrow> period_evidence option \<Rightarrow> attribution_set_result list \<Rightarrow> bool"
where
  "sets_answer opts evidence sets \<longleftrightarrow>
     list_all2 (\<lambda>key. set_answers (case evidence of Some packs \<Rightarrow> map_of packs (fst key) | None \<Rightarrow> None) key)
       (requested_sets opts) sets"

lemma product_concat: "List.product xs ys = concat (map (\<lambda>x. map (Pair x) ys) xs)"
  by (induction xs) auto

lemma period_sets_answer:
  assumes "build_period_attribution_sets ops opts frames returns benchmark start finish evidence = Inr sets"
  shows "sets_answer opts evidence sets"
proof -
  from assms obtain parts where
    parts: "list_all2 (\<lambda>d part. dimension_sets ops opts frames returns benchmark start finish evidence d = Inr part)
      (at_grouping_dimensions opts) parts" and sets: "sets = concat parts"
    unfolding build_period_attribution_sets_def bind_result_Inr_iff map_result_Inr_iff by auto
  let ?pairs = "List.product (at_attribution_types opts) (at_metrics opts)"
  let ?ok = "\<lambda>key. set_answers (case evidence of Some packs \<Rightarrow> map_of packs (fst key) | None \<Rightarrow> None) key"
  have "list_all2 ?ok (map (Pair d) ?pairs) part"
    if "dimension_sets ops opts frames returns benchmark start finish evidence d = Inr part" for d part
    using dimension_sets_answer [OF that] by (simp add: list_all2_map1 cong: option.case_cong)
  then have "list_all2 (list_all2 ?ok) (map (\<lambda>d. map (Pair d) ?pairs) (at_grouping_dimensions opts)) parts"
    unfolding list_all2_map1 [of _ "\<lambda>d. map (Pair d) ?pairs"] using parts by (rule list_all2_mono [rotated])
  then show ?thesis
    unfolding sets_answer_def requested_sets_def product_concat [of "at_grouping_dimensions opts"] sets
    by (rule list_all2_concat)
qed

text \<open>The answer to a period: the dates it resolves to; no set and the error of insufficient data when fewer than
  two returns are dated in them; otherwise an answer to every requested set, in the order of the request.\<close>

definition answers_attribution ::
  "attribution_stateless_input \<Rightarrow> evidence_by_period option \<Rightarrow> risk_period \<Rightarrow>
     string \<times> attribution_period_result \<Rightarrow> bool"
where
  "answers_attribution request evidence p entry \<longleftrightarrow>
     (let r = snd entry; packs = (case evidence of Some by_period \<Rightarrow> map_of by_period (period_name p) | None \<Rightarrow> None) in
      fst entry = period_name p \<and>
      resolve_period p (rq_as_of_date (al_scope request)) (open_date_of (al_returns request)) =
        Inr (apr_start_date r, apr_end_date r) \<and>
      (if length (period_points (al_returns request) (apr_start_date r) (apr_end_date r)) < 2
       then apr_sets r = [] \<and> apr_error r = Some ''Insufficient data''
       else apr_error r = None \<and> sets_answer (al_options request) packs (apr_sets r)))"

lemma calculated_period_answers:
  assumes "calculate_period_attribution ops request (build_source_frames ops request) (open_date_of (al_returns request))
      packs p = Inr r"
    and "packs = (case evidence of Some by_period \<Rightarrow> map_of by_period (period_name p) | None \<Rightarrow> None)"
  shows "answers_attribution request evidence p (period_name p, r)"
  using assms filter_returns_frame [of "al_returns request"]
  by (auto simp: calculate_period_attribution_def answers_attribution_def Let_def result_simps scaled_window_def
      build_source_frames_def intro: period_sets_answer split: if_splits)

lemma attribution_results_Inr:
  "attribution_period_results ops request frames open_date evidence periods results = Inr out \<Longrightarrow>
     distinct (map fst results @ map period_name periods) \<Longrightarrow>
     \<exists>rs. out = results @ rs \<and> list_all2 (\<lambda>p entry. fst entry = period_name p \<and>
       calculate_period_attribution ops request frames open_date
         (case evidence of Some by_period \<Rightarrow> map_of by_period (period_name p) | None \<Rightarrow> None) p = Inr (snd entry)) periods rs"
proof (induction periods arbitrary: results)
  case (Cons p ps)
  let ?packs = "case evidence of Some by_period \<Rightarrow> map_of by_period (period_name p) | None \<Rightarrow> None"
  from Cons.prems(1) obtain r where r: "calculate_period_attribution ops request frames open_date ?packs p = Inr r"
    and rest: "attribution_period_results ops request frames open_date evidence ps
      (AList.update (period_name p) r results) = Inr out"
    unfolding attribution_period_results.simps bind_result_Inr_iff by blast
  have up: "AList.update (period_name p) r results = results @ [(period_name p, r)]"
    using Cons.prems(2) by (intro update_fresh) auto
  have "distinct (map fst (results @ [(period_name p, r)]) @ map period_name ps)" using Cons.prems(2) by auto
  from Cons.IH [OF rest [unfolded up] this] obtain rs where "out = (results @ [(period_name p, r)]) @ rs"
    "list_all2 (\<lambda>p entry. fst entry = period_name p \<and>
       calculate_period_attribution ops request frames open_date
         (case evidence of Some by_period \<Rightarrow> map_of by_period (period_name p) | None \<Rightarrow> None) p = Inr (snd entry)) ps rs"
    by blast
  with r show ?case by (intro exI [of _ "(period_name p, r) # rs"]) simp
qed simp

lemma attribution_response_fields:
  assumes "attribution_response_of fp request mode posture results = Inr response"
  shows "ap_results response = results" "posture = Some (am_supportability (ap_metadata response))"
  using assms by (auto simp: attribution_response_of_def lift_supportability_def attribution_metadata_of_def
      Let_def result_simps split: option.splits)

lemma calculated_response:
  assumes "calculate_historical_attribution ops fp request mode evidence = Inr response" and ne: "al_returns request \<noteq> []"
  obtains results where
    "attribution_period_results ops request (build_source_frames ops request) (open_date_of (al_returns request))
       evidence (al_periods request) [] = Inr results"
    "ap_results response = results"
    "supportability_from_attribution_results (map pt_date (al_returns request)) (rq_as_of_date (al_scope request))
       (map (\<lambda>(k, r). (k, attribution_result_view r)) results) = Some (am_supportability (ap_metadata response))"
proof -
  obtain v rest where frame: "returns_frame (al_returns request) = (open_date_of (al_returns request), v) # rest"
    using returns_frame_opens [OF ne] .
  then have "sf_returns (build_source_frames ops request) = (open_date_of (al_returns request), v) # rest"
    by (simp add: build_source_frames_def)
  with assms(1) obtain results where
    "attribution_period_results ops request (build_source_frames ops request) (open_date_of (al_returns request))
       evidence (al_periods request) [] = Inr results"
    and r: "attribution_response_of fp request mode (supportability_from_attribution_results
      (map pt_date (al_returns request)) (rq_as_of_date (al_scope request))
      (map (\<lambda>(k, r). (k, attribution_result_view r)) results)) results = Inr response"
    by (auto simp: calculate_historical_attribution_def Let_def result_simps)
  with attribution_response_fields [OF r] show thesis by (intro that [of results])
qed

lemma unique_period_names:
  "validate_attribution_stateless request = Inr () \<Longrightarrow> distinct (map period_name (al_periods request))"
  by (auto simp: validate_attribution_stateless_def result_simps validate_unique_names_iff)

lemma attribution_answers:
  assumes "calculate_historical_attribution ops fp request mode evidence = Inr response"
    and "validate_attribution_stateless request = Inr ()" "al_returns request \<noteq> []"
  shows "list_all2 (answers_attribution request evidence) (al_periods request) (ap_results response)"
proof -
  from calculated_response [OF assms(1,3)] obtain results where
    run: "attribution_period_results ops request (build_source_frames ops request) (open_date_of (al_returns request))
      evidence (al_periods request) [] = Inr results" and results: "ap_results response = results" by blast
  from attribution_results_Inr [OF run] unique_period_names [OF assms(2)]
  have "list_all2 (\<lambda>p entry. fst entry = period_name p \<and>
      calculate_period_attribution ops request (build_source_frames ops request) (open_date_of (al_returns request))
        (case evidence of Some by_period \<Rightarrow> map_of by_period (period_name p) | None \<Rightarrow> None) p = Inr (snd entry))
    (al_periods request) results" by simp
  then have "list_all2 (answers_attribution request evidence) (al_periods request) results"
    by (rule list_all2_mono) (metis calculated_period_answers prod.collapse)
  then show ?thesis by (simp add: results)
qed

lemma attribution_without_returns:
  assumes "al_returns request = []"
  obtains response where "calculate_historical_attribution ops fp request mode evidence = Inr response"
    "ap_results response = []" "su_state (am_supportability (ap_metadata response)) = StateEmpty"
proof -
  have "sf_returns (build_source_frames ops request) = []"
    using assms by (simp add: build_source_frames_def returns_frame_def)
  with assms that show thesis
    by (simp add: calculate_historical_attribution_def attribution_response_of_def lift_supportability_def
        supportability_from_period_results_def attribution_metadata_of_def Let_def)
qed

text \<open>C36: A report on returns answers every requested period once, under its name and in the order of the request:
  with no set and the error of insufficient data when fewer than two returns are dated in it, and otherwise
  with an answer to every requested dimension, type and metric, in that order.  An answered set states its
  total, each contributor's component, quotients and share, their sum and the residual; it is said to be
  empirical exactly when the evidence handed to the calculation supports it, and a proxy set of total risk
  repeats every flag of its evidence; a set that is not calculated states no number and says why.  A request
  without any returns is admitted too: it is never refused, and its report answers no period and is empty.\<close>

theorem every_attribution_set_is_answered:
  assumes "validate_attribution_stateless request = Inr ()"
  shows "case calculate_historical_attribution ops fp request mode evidence of
      Inl e \<Rightarrow> al_returns request \<noteq> []
    | Inr response \<Rightarrow>
        if al_returns request = []
        then ap_results response = [] \<and> su_state (am_supportability (ap_metadata response)) = StateEmpty
        else list_all2 (answers_attribution request evidence) (al_periods request) (ap_results response)"
proof (cases "al_returns request = []")
  case True
  then obtain response where "calculate_historical_attribution ops fp request mode evidence = Inr response"
    "ap_results response = []" "su_state (am_supportability (ap_metadata response)) = StateEmpty"
    by (rule attribution_without_returns)
  with True show ?thesis by simp
next
  case False
  with attribution_answers [OF _ assms False, of ops fp mode evidence] show ?thesis by (simp split: sum.split)
qed

definition calculated_sets :: "attribution_response \<Rightarrow> attribution_set_result list" where
  "calculated_sets response =
     filter (\<lambda>s. ars_total_value s \<noteq> None) (concat (map (\<lambda>(k, r). apr_sets r) (ap_results response)))"

lemma viewed_sets:
  "filter as_total_value_present (concat (map (\<lambda>kp. pd_attribution_sets (snd kp))
     (map (\<lambda>(k, r). (k, attribution_result_view r)) results))) =
   map (\<lambda>s. \<lparr>as_total_value_present = True, as_empirical = (ars_risk_basis s = EmpiricalGroupReturns)\<rparr>)
     (filter (\<lambda>s. ars_total_value s \<noteq> None) (concat (map (\<lambda>(k, r). apr_sets r) results)))"
  by (induction results) (auto simp: attribution_result_view_def filter_map comp_def)

lemma view_degradation: "period_degradation (attribution_result_view r) = None \<Longrightarrow> apr_error r = None"
  by (cases "apr_error r") (auto simp: period_degradation_def attribution_result_view_def split: if_splits)

text \<open>C37: A report says it is ready only when every set that states a number rests on group returns, there is such a
  set, and no period failed.\<close>

theorem ready_attribution_is_empirical:
  assumes "calculate_historical_attribution ops fp request mode evidence = Inr response" "al_returns request \<noteq> []"
    and "su_state (am_supportability (ap_metadata response)) = StateReady"
  shows "calculated_sets response \<noteq> [] \<and>
    list_all (\<lambda>s. ars_risk_basis s = EmpiricalGroupReturns) (calculated_sets response) \<and>
    list_all (\<lambda>(k, r). apr_error r = None) (ap_results response)"
proof -
  from calculated_response [OF assms(1,2)] obtain results where results: "ap_results response = results"
    and posture: "supportability_from_attribution_results (map pt_date (al_returns request)) (rq_as_of_date (al_scope request))
       (map (\<lambda>(k, r). (k, attribution_result_view r)) results) = Some (am_supportability (ap_metadata response))" by blast
  let ?views = "map (\<lambda>(k, r). (k, attribution_result_view r)) results"
  from attribution_ready_needs_empirical_sets [of "map pt_date (al_returns request)" "rq_as_of_date (al_scope request)" ?views]
    posture assms(3)
  have ready: "all_calculated_sets_are_empirical ?views" and clean: "clean_results ?views" by auto
  have "calculated_sets response \<noteq> [] \<and>
      list_all (\<lambda>s. ars_risk_basis s = EmpiricalGroupReturns) (calculated_sets response)"
    using ready unfolding all_calculated_sets_are_empirical_def viewed_sets Let_def
    by (simp add: calculated_sets_def results list_all_iff)
  moreover have "list_all (\<lambda>(k, r). apr_error r = None) results"
    using clean by (simp add: clean_results_def list_all_iff split_def view_degradation)
  ultimately show ?thesis by (simp add: results)
qed

section \<open>What can fail\<close>

lemma map_result_Inl: "map_result f xs = Inl e \<Longrightarrow> \<exists>x\<in>set xs. f x = Inl e"
  by (induction xs) (auto simp: result_simps)

lemma empirical_matrix_covered:
  assumes "\<And>k per_date. (k, per_date) \<in> set observations \<Longrightarrow> set days \<subseteq> fst ` set per_date"
  shows "empirical_matrix observations cell days \<noteq> Inl e"
proof
  assume "empirical_matrix observations cell days = Inl e"
  then obtain k per_date where mem: "(k, per_date) \<in> set observations" and e: "empirical_cells per_date cell days = Inl e"
    unfolding empirical_matrix_def by (auto simp: result_simps dest!: map_result_Inl)
  then obtain day where "day \<in> set days" "map_of per_date day = None"
    unfolding empirical_cells_def by (auto dest!: map_result_Inl split: option.splits)
  with assms [OF mem] show False by (auto simp: map_of_eq_None_iff)
qed

definition pack_covers :: "date list \<Rightarrow> evidence_pack \<Rightarrow> bool" where
  "pack_covers days pack \<longleftrightarrow>
     (pack_empirical pack \<longrightarrow> (\<forall>(k, s) \<in> set (pk_series pack). set days \<subseteq> gp_date ` set (gq_observations s))) \<and>
     (\<forall>active. pk_active pack = Some active \<longrightarrow>
        (\<forall>(k, obs) \<in> set (ag_observations active). set days \<subseteq> ab_date ` set obs))"

lemma annualized_deviation_fails: "annualized_deviation ops xs basis = Inl e \<Longrightarrow> e = Escaped ''OverflowError''"
  by (auto simp: annualized_deviation_def float_of_int_def result_simps split: if_splits)

lemma merged_dates: "set (series_dates (map (\<lambda>(d, p, b). (d, f p b)) (merge_inner a b))) \<subseteq> set (series_dates a)"
  by (force simp: series_dates_def merge_inner_def set_map_filter)

lemma total_inputs_covered:
  assumes "empirical_total_risk_inputs ops returns pack basis = Inl e" "pack_empirical pack"
    and covers: "pack_covers (series_dates returns) pack"
  shows "e = Escaped ''OverflowError''"
proof -
  let ?obs = "map (\<lambda>(k, s). (k, dict_of_items (map (\<lambda>ob. (gp_date ob, ob)) (gq_observations s)))) (pk_series pack)"
  have "set (series_dates returns) \<subseteq> fst ` set per_date" if "(k, per_date) \<in> set ?obs" for k per_date
    using that covers assms(2) by (force simp: pack_covers_def keys_dict_of_items image_image)
  then have "empirical_matrix ?obs cell (series_dates returns) \<noteq> Inl e'" for cell e'
    by (rule empirical_matrix_covered)
  with assms(1) show ?thesis
    by (auto simp: empirical_total_risk_inputs_def Let_def result_simps dest: annualized_deviation_fails)
qed

lemma active_inputs_covered:
  assumes "empirical_active_risk_inputs ops returns benchmark active basis = Inl e" "pk_active pack = Some active"
    and covers: "pack_covers (series_dates returns) pack"
  shows "e = Escaped ''OverflowError''"
proof -
  let ?obs = "map (\<lambda>(k, obs). (k, dict_of_items (map (\<lambda>ob. (ab_date ob, ob)) obs))) (ag_observations active)"
  let ?days = "series_dates (map (\<lambda>(d, p, b). (d, fsub p b)) (merge_inner returns benchmark))"
  have "set (series_dates returns) \<subseteq> fst ` set per_date" if "(k, per_date) \<in> set ?obs" for k per_date
    using that covers assms(2) by (force simp: pack_covers_def keys_dict_of_items image_image)
  then have "set ?days \<subseteq> fst ` set per_date" if "(k, per_date) \<in> set ?obs" for k per_date
    using that merged_dates [of fsub returns benchmark] by blast
  then have "empirical_matrix ?obs cell ?days \<noteq> Inl e'" for cell e'
    by (rule empirical_matrix_covered)
  with assms(1) show ?thesis
    by (auto simp: empirical_active_risk_inputs_def Let_def result_simps dest: annualized_deviation_fails split: if_splits)
qed

lemma proxy_inputs_fail:
  "attribution_calculation_inputs ops t returns benchmark exposure bexposure basis = Inl e \<Longrightarrow> e = Escaped ''OverflowError''"
  by (auto simp: attribution_calculation_inputs_def total_risk_inputs_def active_risk_inputs_def Let_def result_simps
      dest: annualized_deviation_fails split: if_splits)

lemma calculated_set_fails:
  assumes "calculated_attribution_set ops t m d inputs labels basis flags rb = Inl e"
  shows "e = Escaped ''OverflowError''"
proof -
  from assms have "component_decomposition ops inputs basis = Inl e"
    by (auto simp: calculated_attribution_set_def result_simps)
  then obtain k xs avg dev where
    "component_row ops k xs avg (series_values (ci_metric_series inputs)) (ci_risk_total inputs) basis dev = Inl e"
    by (auto simp: component_decomposition_def Let_def dest!: map_result_Inl split: if_splits)
  then show ?thesis by (auto simp: component_row_def float_of_int_def Let_def result_simps split: if_splits)
qed

lemma built_set_fails:
  assumes "build_attribution_set ops rq = Inl e"
    and covers: "\<And>pack. bs_evidence rq = Some pack \<Longrightarrow> pack_covers (series_dates (bs_returns rq)) pack"
  shows "e = Escaped ''OverflowError''"
proof -
  have pre: "e' = Escaped ''OverflowError''" if "calculation_precalculation ops rq = Inl e'" for e'
    using that total_inputs_covered [OF _ _ covers] active_inputs_covered [OF _ _ covers] proxy_inputs_fail
    by (auto simp: calculation_precalculation_def set_active_evidence_def set_evidence_def Let_def result_simps
        split: option.splits if_splits)
  have "e' = Escaped ''OverflowError''" if "(case p of EarlyResult early \<Rightarrow> Inr early
      | Calculate inputs basis flags \<Rightarrow> calculated_attribution_set ops (bs_type rq) (bs_metric rq) (bs_dimension rq)
          inputs (bs_labels rq) (bs_annualization rq) flags basis) = Inl e'" for p e'
    using that by (cases p) (auto dest: calculated_set_fails)
  with assms(1) pre show ?thesis
    by (auto simp: build_attribution_set_def result_simps split: option.splits)
qed

text \<open>The evidence handed to a calculation covers its periods: every group of every pack has an observation on each
  date the calculation reads.\<close>

definition window_days :: "return_point list \<Rightarrow> date \<Rightarrow> date \<Rightarrow> date list" where
  "window_days points start finish = series_dates (filter_period (returns_frame points) start finish)"

definition evidence_covers :: "attribution_stateless_input \<Rightarrow> evidence_by_period option \<Rightarrow> bool" where
  "evidence_covers request evidence \<longleftrightarrow>
     (\<forall>p\<in>set (al_periods request). \<forall>start finish by_period packs d pack.
        resolve_period p (rq_as_of_date (al_scope request)) (open_date_of (al_returns request)) = Inr (start, finish) \<and>
        2 \<le> length (period_points (al_returns request) start finish) \<and>
        evidence = Some by_period \<and> map_of by_period (period_name p) = Some packs \<and> map_of packs d = Some pack \<longrightarrow>
        pack_covers (window_days (al_returns request) start finish) pack)"

definition attribution_failure :: "attribution_stateless_input \<Rightarrow> calculation_error \<Rightarrow> bool" where
  "attribution_failure request e \<longleftrightarrow>
     (\<exists>p\<in>set (al_periods request).
        resolve_period p (rq_as_of_date (al_scope request)) (open_date_of (al_returns request)) = Inl e) \<or>
     (\<exists>message. e = PlainValueError message) \<and>
       \<not> (unambiguous (al_exposure_history request) \<and> unambiguous (al_benchmark_exposure_history request)) \<or>
     e = Escaped ''OverflowError''"

lemma series_dates_scaled [simp]: "series_dates (scaled_window s a b) = series_dates (filter_period s a b)"
  by (simp add: series_dates_def scaled_window_def comp_def split_def)

lemma pivot_exposure_Inl:
  assumes laws: "attribution_laws ops" and r: "pivot_exposure ops (rk_sort_dates ops points) start finish d = Inl e"
  shows "(\<exists>message. e = PlainValueError message) \<and> \<not> unambiguous points"
proof -
  let ?s = "scoped_exposure (rk_sort_dates ops points) start finish d"
  have "mset (rk_sort_dates ops points) = mset points" using laws by (simp add: attribution_laws_def)
  then have "set (rk_sort_dates ops points) = set points" by (rule mset_eq_setD)
  then have "set ?s \<subseteq> set points" by (auto simp: scoped_exposure_def)
  moreover from r obtain c cs where "conflicting_cells ?s = c # cs" "\<exists>message. e = PlainValueError message"
    by (cases "conflicting_cells ?s") (auto simp: pivot_exposure_def Let_def split: if_splits)
  moreover have "conflicting_cells ?s = [] \<longleftrightarrow> unambiguous ?s"
    by (rule conflicting_cells_Nil_iff [of _ d]) (rule scoped_dimension)
  ultimately show ?thesis unfolding unambiguous_def by auto
qed

lemma dimension_sets_fail:
  assumes laws: "attribution_laws ops" and frames: "frames = build_source_frames ops request"
    and "dimension_sets ops opts frames returns benchmark start finish evidence d = Inl e"
    and covers: "\<And>packs pack. evidence = Some packs \<Longrightarrow> map_of packs d = Some pack \<Longrightarrow> pack_covers (series_dates returns) pack"
  shows "(\<exists>message. e = PlainValueError message) \<and>
      \<not> (unambiguous (al_exposure_history request) \<and> unambiguous (al_benchmark_exposure_history request)) \<or>
    e = Escaped ''OverflowError''"
proof -
  have pivot: "(\<exists>message. e' = PlainValueError message) \<and> \<not> unambiguous points"
    if r: "pivot_exposure ops (rk_sort_dates ops points) start finish d = Inl e'" for points e'
    using pivot_exposure_Inl [OF laws r] .
  have built: "e' = Escaped ''OverflowError''" if "grouping_attribution_sets ops opts d exposure returns benchmark
      (case evidence of Some packs \<Rightarrow> map_of packs d | None \<Rightarrow> None) = Inl e'" for exposure e'
    using that covers unfolding grouping_attribution_sets_def
    by (auto dest!: map_result_Inl intro!: built_set_fails split: option.splits)
  from assms(3) consider
      "period_exposure_inputs ops frames d start finish (requires_active_attribution opts) = Inl e"
    | exposure where "grouping_attribution_sets ops opts d exposure returns benchmark
        (case evidence of Some packs \<Rightarrow> map_of packs d | None \<Rightarrow> None) = Inl e"
    unfolding dimension_sets_def bind_result_Inl_iff by blast
  then show ?thesis
  proof cases
    case 1
    then show ?thesis
      by (auto simp: period_exposure_inputs_def frames build_source_frames_def result_simps dest: pivot split: if_splits)
  next
    case 2
    then show ?thesis by (auto dest: built)
  qed
qed

lemma attribution_results_Inl:
  "attribution_period_results ops request frames open_date evidence periods results = Inl e \<Longrightarrow>
     \<exists>p\<in>set periods. calculate_period_attribution ops request frames open_date
       (case evidence of Some by_period \<Rightarrow> map_of by_period (period_name p) | None \<Rightarrow> None) p = Inl e"
  by (induction periods arbitrary: results) (auto simp: result_simps)

lemma period_attribution_fails:
  assumes "calculate_period_attribution ops request (build_source_frames ops request) (open_date_of (al_returns request))
      (case evidence of Some by_period \<Rightarrow> map_of by_period (period_name p) | None \<Rightarrow> None) p = Inl e"
    and laws: "attribution_laws ops" and covers: "evidence_covers request evidence" and p: "p \<in> set (al_periods request)"
  shows "attribution_failure request e"
proof (cases "resolve_period p (rq_as_of_date (al_scope request)) (open_date_of (al_returns request))")
  case (Inl e')
  with assms(1) p show ?thesis by (auto simp: calculate_period_attribution_def attribution_failure_def)
next
  case (Inr window)
  obtain start finish where w: "window = (start, finish)" by fastforce
  let ?packs = "case evidence of Some by_period \<Rightarrow> map_of by_period (period_name p) | None \<Rightarrow> None"
  let ?returns = "scaled_window (returns_frame (al_returns request)) start finish"
  have len: "length ?returns = length (period_points (al_returns request) start finish)"
    using filter_returns_frame [of "al_returns request" start finish] by (simp add: scaled_window_def)
  from assms(1) Inr w have two: "2 \<le> length (period_points (al_returns request) start finish)"
    and sets: "build_period_attribution_sets ops (al_options request) (build_source_frames ops request) ?returns
      (scaled_window (sf_benchmark (build_source_frames ops request)) start finish) start finish ?packs = Inl e"
    by (auto simp: calculate_period_attribution_def Let_def result_simps len build_source_frames_def split: if_splits)
  from sets obtain d where "dimension_sets ops (al_options request) (build_source_frames ops request) ?returns
      (scaled_window (sf_benchmark (build_source_frames ops request)) start finish) start finish ?packs d = Inl e"
    by (auto simp: build_period_attribution_sets_def result_simps dest!: map_result_Inl)
  then have "(\<exists>message. e = PlainValueError message) \<and>
      \<not> (unambiguous (al_exposure_history request) \<and> unambiguous (al_benchmark_exposure_history request)) \<or>
    e = Escaped ''OverflowError''"
  proof (rule dimension_sets_fail [OF laws refl])
    fix packs pack assume packs: "?packs = Some packs" and pack: "map_of packs d = Some pack"
    then obtain by_period where by_period: "evidence = Some by_period" "map_of by_period (period_name p) = Some packs"
      by (cases evidence) auto
    from covers p Inr two by_period pack have "pack_covers (window_days (al_returns request) start finish) pack"
      unfolding evidence_covers_def w by blast
    then show "pack_covers (series_dates ?returns) pack" by (simp add: window_days_def)
  qed
  then show ?thesis by (simp add: attribution_failure_def)
qed

lemma attribution_supportability_found:
  obtains s where "lift_supportability (supportability_from_attribution_results returns as_of results) = Inr s"
  using attribution_ready_needs_empirical_sets [of returns as_of results]
  by (auto simp: lift_supportability_def)

lemma calculation_fails:
  assumes "calculate_historical_attribution ops fp request mode evidence = Inl e"
    and "al_returns request \<noteq> []" and laws: "attribution_laws ops" and covers: "evidence_covers request evidence"
  shows "attribution_failure request e"
proof -
  obtain v rest where frame: "returns_frame (al_returns request) = (open_date_of (al_returns request), v) # rest"
    using returns_frame_opens [OF assms(2)] .
  then have "sf_returns (build_source_frames ops request) = (open_date_of (al_returns request), v) # rest"
    by (simp add: build_source_frames_def)
  moreover have "attribution_response_of fp request mode
      (supportability_from_attribution_results returns as_of results) out \<noteq> Inl e" for returns as_of results out
    by (rule attribution_supportability_found [of returns as_of results]) (simp add: attribution_response_of_def)
  ultimately have "attribution_period_results ops request (build_source_frames ops request) (open_date_of (al_returns request))
      evidence (al_periods request) [] = Inl e"
    using assms(1) by (auto simp: calculate_historical_attribution_def Let_def result_simps)
  then show ?thesis using period_attribution_fails [OF _ laws covers] by (blast dest: attribution_results_Inl)
qed

section \<open>Examples\<close>

definition sample_mean :: "f64 list \<Rightarrow> f64" where
  "sample_mean xs = fdiv (loop_sum xs) (of_nat (length xs))"

fun product_about :: "f64 \<Rightarrow> f64 \<Rightarrow> f64 \<times> f64 \<Rightarrow> f64" where
  "product_about mx my (x, y) = fmul (fsub x mx) (fsub y my)"

definition covariance_about :: "f64 \<Rightarrow> f64 \<Rightarrow> f64 list \<Rightarrow> f64 list \<Rightarrow> f64" where
  "covariance_about mx my xs ys =
     fdiv (loop_sum (map (product_about mx my) (zip xs ys))) (of_nat (length xs - 1))"

definition sample_covariance :: "f64 list \<Rightarrow> f64 list \<Rightarrow> f64" where
  "sample_covariance xs ys = covariance_about (sample_mean xs) (sample_mean ys) xs ys"

definition sample_deviation :: "f64 list \<Rightarrow> f64" where
  "sample_deviation xs = math_sqrt (sample_covariance xs xs)"

definition paired_covariance :: "f64 list \<Rightarrow> f64 list \<Rightarrow> f64 \<times> f64" where
  "paired_covariance xs ys = (sample_covariance xs ys, sample_covariance ys ys)"

definition reference_attribution_ops :: attribution_ops where
  "reference_attribution_ops = risk_ops.extend (reference_risk_ops\<lparr>np_mean := sample_mean,
       rk_std := sample_deviation, rk_cov := paired_covariance\<rparr>)
     \<lparr>rk_sort_dates = sort_key xp_date,
      rk_cell_mean = (\<lambda>ws. if length ws = 1 then hd ws else sample_mean ws), rk_row_sum = loop_sum\<rparr>"

lemma reference_attribution_fields:
  "rk_sort_dates reference_attribution_ops = sort_key xp_date" "rk_std reference_attribution_ops = sample_deviation"
  "rk_cov reference_attribution_ops = paired_covariance" "np_mean reference_attribution_ops = sample_mean"
  "rk_row_sum reference_attribution_ops = loop_sum"
  "rk_cell_mean reference_attribution_ops = (\<lambda>ws. if length ws = 1 then hd ws else sample_mean ws)"
  by (simp_all add: reference_attribution_ops_def risk_ops.defs reference_risk_ops_def numeric_ops.defs)

lemma reference_attribution_laws: "attribution_laws reference_attribution_ops"
  by (simp add: attribution_laws_def reference_attribution_ops_def risk_ops.defs)

definition sector_weight :: "nat \<Rightarrow> string \<Rightarrow> f64 \<Rightarrow> exposure_point" where
  "sector_weight n k w =
     \<lparr>xp_date = Date 2026 1 n, xp_dimension = BySector, xp_group_key = k, xp_group_label = None, xp_weight = w\<rparr>"

theorem conflicting_weights_are_refused_witness:
  "\<not> is_ok (pivot_exposure reference_attribution_ops
      (rk_sort_dates reference_attribution_ops [sector_weight 5 ''TECH'' (1 / 2), sector_weight 5 ''TECH'' (1 / 4)])
      (Date 2026 1 1) (Date 2026 1 31) BySector) \<and>
   is_ok (pivot_exposure reference_attribution_ops
      (rk_sort_dates reference_attribution_ops [sector_weight 5 ''TECH'' (1 / 2), sector_weight 6 ''TECH'' (1 / 4)])
      (Date 2026 1 1) (Date 2026 1 31) BySector)"
proof -
  have "\<not> unambiguous (scoped_exposure [sector_weight 5 ''TECH'' (1 / 2), sector_weight 5 ''TECH'' (1 / 4)]
      (Date 2026 1 1) (Date 2026 1 31) BySector)"
    "unambiguous (scoped_exposure [sector_weight 5 ''TECH'' (1 / 2), sector_weight 6 ''TECH'' (1 / 4)]
      (Date 2026 1 1) (Date 2026 1 31) BySector)"
    by code_simp+
  then show ?thesis
    using conflicting_weights_are_refused [OF reference_attribution_laws, THEN conjunct1] by blast
qed

definition example_attribution :: attribution_stateless_input where
  "example_attribution =
     \<lparr>al_scope = \<lparr>rq_as_of_date = Date 2026 1 7, rq_reporting_currency = None, rq_net_or_gross = Net\<rparr>,
      al_periods = [example_year 2026],
      al_returns = map (\<lambda>(n, v). \<lparr>pt_date = Date 2026 1 n, pt_value = v\<rparr>) [(5, 100), (6, 200), (7, 300)],
      al_benchmark_returns = [],
      al_exposure_history = map (\<lambda>n. sector_weight n ''TECH'' 1) [5, 6, 7],
      al_benchmark_exposure_history = [],
      al_options = \<lparr>at_attribution_types = [TotalRisk], at_metrics = [VolatilityMetric],
        at_grouping_dimensions = [BySector], at_annualization_basis = 1, at_strict_observations = True\<rparr>\<rparr>"

lemma example_values:
  "sample_deviation [1, 2, 3] = 1" "paired_covariance [1, 2, 3] [1, 2, 3] = (1, 1)" "sample_mean [1, 1, 1] = 1"
  "math_sqrt 1 = 1" "float_of_int 1 = Inr 1" "\<not> close_to_zero 1" "fmul 1 1 = 1" "fmul 1 2 = 2" "fmul 1 3 = 3"
  "fdiv 1 1 = 1" "fsub 1 1 = 0" "py_sum [1] = 1"
  by code_simp+

lemma example_opens: "open_date_of (al_returns example_attribution) = Date 2026 1 5"
  by (simp add: open_date_of_def example_attribution_def less_eq_date_def less_date_def min_def)

lemma example_resolved:
  "resolve_period (example_year 2026) (Date 2026 1 7) (Date 2026 1 5) = Inr (Date 2026 1 5, Date 2026 12 31)"
  by code_simp

lemma example_series:
  "scaled_window (returns_frame (al_returns example_attribution)) (Date 2026 1 5) (Date 2026 12 31) =
     [(Date 2026 1 5, 1), (Date 2026 1 6, 2), (Date 2026 1 7, 3)]"
  by code_simp

lemma example_pivot:
  "pivot_exposure reference_attribution_ops (sort_key xp_date (al_exposure_history example_attribution))
     (Date 2026 1 5) (Date 2026 12 31) BySector =
   Inr (\<lparr>wf_index = [Date 2026 1 5, Date 2026 1 6, Date 2026 1 7], wf_columns = [(''TECH'', [1, 1, 1])]\<rparr>,
     [(''TECH'', None)], [])"
  by code_simp

definition example_set :: "risk_basis \<Rightarrow> attribution_set_result" where
  "example_set basis =
     \<lparr>ars_type = TotalRisk, ars_metric = VolatilityMetric, ars_dimension = BySector, ars_total_value = Some 1,
      ars_reconciled_sum = Some 1, ars_residual = Some 0,
      ars_contributors = [\<lparr>ac_group_key = ''TECH'', ac_group_label = None, ac_weight_average = Some 1,
        ac_marginal = Some 1, ac_component = Some 1, ac_percent = Some 1\<rparr>],
      ars_quality_flags = [], ars_risk_basis = basis\<rparr>"

definition example_pack :: evidence_pack where
  "example_pack =
     \<lparr>pk_dimension = BySector,
      pk_series = [(''TECH'', \<lparr>gq_group_key = ''TECH'', gq_currency = ''USD'',
        gq_observations = map (\<lambda>(n, x). \<lparr>gp_date = Date 2026 1 n, gp_return_pp = x, gp_weight_ratio = 1\<rparr>)
          [(5, 100), (6, 200), (7, 300)]\<rparr>)],
      pk_flags = [], pk_expected_keys = [''TECH''], pk_active = None\<rparr>"

definition example_evidence :: evidence_by_period where
  "example_evidence = [(''YEAR'', [(BySector, example_pack)])]"

lemma example_empirical_inputs:
  "empirical_total_risk_inputs reference_attribution_ops [(Date 2026 1 5, 1), (Date 2026 1 6, 2), (Date 2026 1 7, 3)] example_pack 1 =
   Inr \<lparr>ci_metric_series = [(Date 2026 1 5, 1), (Date 2026 1 6, 2), (Date 2026 1 7, 3)],
     ci_group_matrix = [(''TECH'', [1, 2, 3])], ci_weight_matrix = [(''TECH'', [Some 1, Some 1, Some 1])],
     ci_risk_total = 1\<rparr>"
proof -
  have "fdiv 100 100 = 1" "fdiv 200 100 = 2" "fdiv 300 100 = 3" by code_simp+
  then show ?thesis
    by (simp add: empirical_total_risk_inputs_def example_pack_def empirical_matrix_def empirical_cells_def
        dict_of_items_def series_dates_def series_values_def observed_matrix_def annualized_deviation_def
        reference_attribution_fields example_values Let_def)
qed

lemma example_sets:
  "build_period_attribution_sets reference_attribution_ops (al_options example_attribution)
     (build_source_frames reference_attribution_ops example_attribution)
     [(Date 2026 1 5, 1), (Date 2026 1 6, 2), (Date 2026 1 7, 3)] [] (Date 2026 1 5) (Date 2026 12 31) None =
   Inr [example_set WeightProxy]"
  "build_period_attribution_sets reference_attribution_ops (al_options example_attribution)
     (build_source_frames reference_attribution_ops example_attribution)
     [(Date 2026 1 5, 1), (Date 2026 1 6, 2), (Date 2026 1 7, 3)] [] (Date 2026 1 5) (Date 2026 12 31)
     (Some [(BySector, example_pack)]) =
   Inr [example_set EmpiricalGroupReturns]"
proof -
  have opts: "at_attribution_types (al_options example_attribution) = [TotalRisk]"
    "at_metrics (al_options example_attribution) = [VolatilityMetric]"
    "at_grouping_dimensions (al_options example_attribution) = [BySector]"
    "at_annualization_basis (al_options example_attribution) = 1"
    by (simp_all add: example_attribution_def)
  have "\<not> requires_active_attribution (al_options example_attribution)"
    by (simp add: requires_active_attribution_def opts)
  moreover have "Date 2026 1 5 \<noteq> Date 2026 1 6" "Date 2026 1 6 \<noteq> Date 2026 1 7" by simp_all
  moreover have "pack_empirical example_pack" "group_evidence_applies_to_set TotalRisk VolatilityMetric"
    by (simp_all add: pack_empirical_def example_pack_def group_evidence_applies_to_set_def)
  ultimately show
    "build_period_attribution_sets reference_attribution_ops (al_options example_attribution)
       (build_source_frames reference_attribution_ops example_attribution)
       [(Date 2026 1 5, 1), (Date 2026 1 6, 2), (Date 2026 1 7, 3)] [] (Date 2026 1 5) (Date 2026 12 31) None =
     Inr [example_set WeightProxy]"
    "build_period_attribution_sets reference_attribution_ops (al_options example_attribution)
       (build_source_frames reference_attribution_ops example_attribution)
       [(Date 2026 1 5, 1), (Date 2026 1 6, 2), (Date 2026 1 7, 3)] [] (Date 2026 1 5) (Date 2026 12 31)
       (Some [(BySector, example_pack)]) =
     Inr [example_set EmpiricalGroupReturns]"
    by (simp_all add: build_period_attribution_sets_def example_empirical_inputs dimension_sets_def period_exposure_inputs_def
        build_source_frames_def reference_attribution_fields example_pivot grouping_attribution_sets_def opts
        build_attribution_set_def unsupported_metric_set_def calculation_precalculation_def set_active_evidence_def
        set_evidence_def attribution_calculation_inputs_def total_risk_inputs_def annualized_deviation_def
        series_values_def series_dates_def reindexed_def dict_get_def precalculation_result_def
        calculated_attribution_set_def component_decomposition_def component_row_def observed_means_def
        observed_mean_def List.map_filter_simps reconciled_attribution_set_def attribution_contributors_def
        component_or_zero_def Let_def example_values example_set_def)
qed

lemma example_attributed:
  assumes "build_period_attribution_sets reference_attribution_ops (al_options example_attribution)
     (build_source_frames reference_attribution_ops example_attribution)
     [(Date 2026 1 5, 1), (Date 2026 1 6, 2), (Date 2026 1 7, 3)] [] (Date 2026 1 5) (Date 2026 12 31)
     (case evidence of Some by_period \<Rightarrow> map_of by_period ''YEAR'' | None \<Rightarrow> None) = Inr [example_set basis]"
  obtains response where
    "calculate_historical_attribution reference_attribution_ops example_digests example_attribution AttributionStateless evidence =
       Inr response"
    "ap_results response = [(''YEAR'', \<lparr>apr_start_date = Date 2026 1 5, apr_end_date = Date 2026 12 31,
      apr_sets = [example_set basis], apr_error = None\<rparr>)]"
proof -
  let ?frames = "build_source_frames reference_attribution_ops example_attribution"
  let ?r = "\<lparr>apr_start_date = Date 2026 1 5, apr_end_date = Date 2026 12 31, apr_sets = [example_set basis], apr_error = None\<rparr>"
  have ne: "al_returns example_attribution \<noteq> []" by (simp add: example_attribution_def)
  obtain v rest where "returns_frame (al_returns example_attribution) = (open_date_of (al_returns example_attribution), v) # rest"
    using returns_frame_opens [OF ne] .
  then have opens: "sf_returns ?frames = (Date 2026 1 5, v) # rest"
    by (simp add: build_source_frames_def example_opens)
  have fields: "rq_as_of_date (al_scope example_attribution) = Date 2026 1 7"
    "sf_returns ?frames = returns_frame (al_returns example_attribution)" "sf_benchmark ?frames = []"
    "al_periods example_attribution = [example_year 2026]" "period_name (example_year 2026) = ''YEAR''"
    "scaled_window [] (Date 2026 1 5) (Date 2026 12 31) = []"
    by (simp_all add: example_attribution_def build_source_frames_def returns_frame_def example_year_def period_name_def
        scaled_window_def filter_period_def)
  have "calculate_period_attribution reference_attribution_ops example_attribution ?frames (Date 2026 1 5)
      (case evidence of Some by_period \<Rightarrow> map_of by_period ''YEAR'' | None \<Rightarrow> None) (example_year 2026) = Inr ?r"
    by (simp add: calculate_period_attribution_def fields example_resolved example_series assms)
  then have "attribution_period_results reference_attribution_ops example_attribution ?frames (Date 2026 1 5) evidence
      (al_periods example_attribution) [] = Inr [(''YEAR'', ?r)]"
    by (simp add: fields cong: option.case_cong)
  moreover obtain s where "lift_supportability (supportability_from_attribution_results
      (map pt_date (al_returns example_attribution)) (rq_as_of_date (al_scope example_attribution))
      (map (\<lambda>(k, r). (k, attribution_result_view r)) [(''YEAR'', ?r)])) = Inr s"
    by (rule attribution_supportability_found)
  ultimately have "calculate_historical_attribution reference_attribution_ops example_digests example_attribution
      AttributionStateless evidence = Inr \<lparr>ap_input_mode = AttributionStateless, ap_scope = al_scope example_attribution,
        ap_results = [(''YEAR'', ?r)], ap_metadata = attribution_metadata_of example_digests example_attribution s\<rparr>"
    using opens by (simp add: calculate_historical_attribution_def attribution_response_of_def)
  then show thesis by (rule that) simp
qed

theorem every_attribution_set_is_answered_witness:
  "\<exists>response. calculate_historical_attribution reference_attribution_ops example_digests example_attribution
       AttributionStateless None = Inr response \<and>
     map (\<lambda>(k, r). (k, map ars_residual (apr_sets r))) (ap_results response) = [(''YEAR'', [Some 0])] \<and>
     list_all2 (answers_attribution example_attribution None) [example_year 2026] (ap_results response)"
proof -
  obtain response where run: "calculate_historical_attribution reference_attribution_ops example_digests example_attribution
      AttributionStateless None = Inr response"
    and results: "ap_results response = [(''YEAR'', \<lparr>apr_start_date = Date 2026 1 5, apr_end_date = Date 2026 12 31,
      apr_sets = [example_set WeightProxy], apr_error = None\<rparr>)]"
    by (rule example_attributed [of None WeightProxy]) (simp_all add: example_sets)
  have valid: "validate_attribution_stateless example_attribution = Inr ()" by code_simp
  have ne: "al_returns example_attribution \<noteq> []" by (simp add: example_attribution_def)
  have periods: "al_periods example_attribution = [example_year 2026]" by (simp add: example_attribution_def)
  have "map (\<lambda>(k, r). (k, map ars_residual (apr_sets r))) (ap_results response) = [(''YEAR'', [Some 0])]"
    by (simp add: results example_set_def)
  then show ?thesis
    using run ne every_attribution_set_is_answered [OF valid, where ops = reference_attribution_ops
        and fp = example_digests and mode = AttributionStateless and evidence = None]
    by (intro exI [of _ response]) (simp add: periods)
qed

theorem ready_attribution_is_empirical_witness:
  "\<exists>response. calculate_historical_attribution reference_attribution_ops example_digests example_attribution
       AttributionStateless (Some example_evidence) = Inr response \<and>
     su_state (am_supportability (ap_metadata response)) = StateReady \<and>
     list_all (\<lambda>s. ars_risk_basis s = EmpiricalGroupReturns) (calculated_sets response)"
proof -
  obtain response where run: "calculate_historical_attribution reference_attribution_ops example_digests example_attribution
      AttributionStateless (Some example_evidence) = Inr response"
    and results: "ap_results response = [(''YEAR'', \<lparr>apr_start_date = Date 2026 1 5, apr_end_date = Date 2026 12 31,
      apr_sets = [example_set EmpiricalGroupReturns], apr_error = None\<rparr>)]"
    by (rule example_attributed [of "Some example_evidence" EmpiricalGroupReturns])
      (simp_all add: example_sets example_evidence_def)
  have ne: "al_returns example_attribution \<noteq> []" by (simp add: example_attribution_def)
  have "supportability_from_attribution_results (map pt_date (al_returns example_attribution))
      (rq_as_of_date (al_scope example_attribution)) (map (\<lambda>(k, r). (k, attribution_result_view r)) (ap_results response)) =
    Some (am_supportability (ap_metadata response))"
    by (rule calculated_response [OF run ne]) simp
  moreover have "all_calculated_sets_are_empirical (map (\<lambda>(k, r). (k, attribution_result_view r)) (ap_results response))"
    "clean_results (map (\<lambda>(k, r). (k, attribution_result_view r)) (ap_results response))"
    by (simp_all add: results all_calculated_sets_are_empirical_def clean_results_def attribution_result_view_def
        example_set_def period_degradation_def dependency_degradation_reason_def observation_count_def)
  moreover have "freshness_bucket_from_returns (map pt_date (al_returns example_attribution))
      (rq_as_of_date (al_scope example_attribution)) \<noteq> FreshStale" by code_simp
  ultimately have ready: "su_state (am_supportability (ap_metadata response)) = StateReady"
    using attribution_ready_needs_empirical_sets [of "map pt_date (al_returns example_attribution)"
      "rq_as_of_date (al_scope example_attribution)"
      "map (\<lambda>(k, r). (k, attribution_result_view r)) (ap_results response)"] ne by auto
  with run ready_attribution_is_empirical [OF run ne ready] show ?thesis by blast
qed

end
