(* ===== verification/AttributionSourcing.thy ===== *)
theory AttributionSourcing
  imports Main AttributionEngine BenchmarkExposure RiskSourcing
begin

text \<open>
  Where a stateful historical attribution comes from: the return series (services/attribution_stateful_returns.py),
  the exposure histories, the group evidence of every period and dimension
  (services/attribution_stateful_inputs.py, attribution_contribution_request.py,
  attribution_active_group_fetch.py), the lineage of the response (services/attribution_mode_adapter.py,
  attribution_group_evidence_lineage.py) and the route (routers/historical_attribution.py).  A random
  calculation id is a function of the trace before the call.
\<close>

section \<open>The return series\<close>

definition attribution_returns_query :: "attribution_stateful_input \<Rightarrow> returns_query" where
  "attribution_returns_query stateful =
     \<lparr>qy_portfolio_id = af_portfolio_id stateful, qy_as_of_date = af_as_of_date stateful,
      qy_periods = af_periods stateful, qy_frequency = ''DAILY'', qy_metric_basis = af_net_or_gross stateful,
      qy_reporting_currency = af_reporting_currency stateful,
      qy_include_benchmark = requires_active_attribution (af_options stateful), qy_include_risk_free = False,
      qy_missing_data_policy = ''ALLOW_PARTIAL'', qy_benchmark_id = None\<rparr>"

record returns_context =
  rx_returns_request :: json_object
  rx_portfolio_returns :: "return_point list"
  rx_benchmark_returns :: "return_point list"
  rx_start_date :: date

definition read_returns_context ::
  "field_readers \<Rightarrow> attribution_stateful_input \<Rightarrow> json_object \<Rightarrow> json_object \<Rightarrow>
     (calculation_error, returns_context) result"
where
  "read_returns_context readers stateful payload answer =
     bind_result (extract_required_portfolio_returns readers ''DAILY'' answer) (\<lambda>(series, portfolio_returns).
     bind_result (to_return_points readers ''DAILY'' (json_get series ''benchmark_returns'')) (\<lambda>benchmark_returns.
     bind_result (raise_if (requires_active_attribution (af_options stateful) \<and> benchmark_returns = [])
       (UpstreamFailure (missing_upstream_data ''lotus-performance'' RETURNS_SERIES_OPERATION
         (''lotus-performance returns-series returned no benchmark returns for '' @
          ''requested stateful active-risk attribution'') []))) (\<lambda>_.
       Inr \<lparr>rx_returns_request = payload, rx_portfolio_returns = portfolio_returns,
         rx_benchmark_returns = benchmark_returns, rx_start_date = open_date_of portfolio_returns\<rparr>)))"

definition fetch_stateful_returns_context ::
  "field_readers \<Rightarrow> attribution_stateful_input \<Rightarrow> performance_client \<Rightarrow> downstream_authority \<Rightarrow> returns_context io"
where
  "fetch_stateful_returns_context readers stateful client authority =
     bind_io (lift_io (build_stateful_returns_series_request (attribution_returns_query stateful))) (\<lambda>payload.
     bind_io (execute_returns_series_request client payload authority) (\<lambda>answer.
       lift_io (read_returns_context readers stateful payload answer)))"

section \<open>The exposure histories\<close>

record exposure_histories =
  eh_exposure :: "exposure_point list"
  eh_benchmark_exposure :: "exposure_point list"
  eh_benchmark_identity :: "(string \<times> string) option"

definition stateful_exposure_histories ::
  "field_readers \<Rightarrow> attribution_stateful_input \<Rightarrow> core_client \<Rightarrow> performance_client \<Rightarrow> downstream_authority \<Rightarrow>
     returns_context \<Rightarrow> exposure_histories io"
where
  "stateful_exposure_histories readers stateful core client authority context =
     bind_io (fetch_stateful_exposure_history core authority readers
       \<lparr>pq_portfolio_id = af_portfolio_id stateful, pq_as_of_date = af_as_of_date stateful,
        pq_start_date = rx_start_date context, pq_reporting_currency = af_reporting_currency stateful,
        pq_grouping_dimensions = at_grouping_dimensions (af_options stateful)\<rparr>) (\<lambda>exposure.
     if \<not> requires_active_attribution (af_options stateful)
     then return_io \<lparr>eh_exposure = exposure, eh_benchmark_exposure = [], eh_benchmark_identity = None\<rparr>
     else bind_io (fetch_active_benchmark_exposure_history client authority readers stateful
         (rx_benchmark_returns context) (rx_start_date context) (at_grouping_dimensions (af_options stateful)))
       (\<lambda>(history, identity).
         return_io \<lparr>eh_exposure = exposure, eh_benchmark_exposure = history, eh_benchmark_identity = Some identity\<rparr>))"

section \<open>The groups that are expected\<close>

definition PERFORMANCE_UNCLASSIFIED_GROUP_LABEL :: string where
  "PERFORMANCE_UNCLASSIFIED_GROUP_LABEL = ''Unclassified''"

definition source_key_of :: "exposure_point \<Rightarrow> string" where
  "source_key_of p = (case xp_group_label p of Some label \<Rightarrow> if label = [] then ''UNKNOWN'' else label | None \<Rightarrow> ''UNKNOWN'')"

fun expected_keys ::
  "grouping_dimension \<Rightarrow> exposure_point list \<Rightarrow> (string, string) dict \<Rightarrow> (calculation_error, (string, string) dict) result"
where
  "expected_keys d [] found = Inr found"
| "expected_keys d (p # ps) found =
     (case map_of found (source_key_of p) of
        None \<Rightarrow> expected_keys d ps (AList.update (source_key_of p) (xp_group_key p) found)
      | Some existing \<Rightarrow>
          if existing \<noteq> xp_group_key p
          then Inl (PlainValueError (''lotus-core exposure history has ambiguous source group identity for '' @
            dimension_value d @ '':'' @ source_key_of p))
          else expected_keys d ps found)"

definition add_performance_unclassified_alias ::
  "field_readers \<Rightarrow> grouping_dimension \<Rightarrow> (string, string) dict \<Rightarrow> (calculation_error, (string, string) dict) result"
where
  "add_performance_unclassified_alias readers d found =
     (case map_of found ''UNKNOWN'' of
        None \<Rightarrow> Inr found
      | Some unknown \<Rightarrow>
          (case map_of found PERFORMANCE_UNCLASSIFIED_GROUP_LABEL of
             Some existing \<Rightarrow>
               if existing \<noteq> unknown
               then Inl (UpstreamFailure (invalid_upstream_payload ''lotus-core'' LOTUS_CORE_POSITION_TIMESERIES_OPERATION
                 (''lotus-core exposure universe cannot distinguish its UNKNOWN group from a literal '' @
                  fr_repr readers (JString PERFORMANCE_UNCLASSIFIED_GROUP_LABEL) @ '' '' @ dimension_value d @ '' group'') []))
               else Inr found
           | None \<Rightarrow> Inr (AList.update PERFORMANCE_UNCLASSIFIED_GROUP_LABEL unknown found)))"

definition expected_group_key_by_source_key ::
  "field_readers \<Rightarrow> exposure_point list \<Rightarrow> grouping_dimension \<Rightarrow> date \<Rightarrow> date \<Rightarrow>
     (calculation_error, (string, string) dict) result"
where
  "expected_group_key_by_source_key readers exposures d start finish =
     bind_result (expected_keys d (scoped_exposure exposures start finish d) []) (add_performance_unclassified_alias readers d)"

section \<open>The evidence of a dimension\<close>

definition CONTRIBUTION_TOP_N_PER_LEVEL :: int where
  "CONTRIBUTION_TOP_N_PER_LEVEL = 1000"

definition build_contribution_request ::
  "string \<Rightarrow> date \<Rightarrow> date \<Rightarrow> string \<Rightarrow> string \<Rightarrow> string option \<Rightarrow> json_object"
where
  "build_contribution_request portfolio_id start finish field metric_basis currency =
     [(''portfolio_id'', JString portfolio_id), (''report_start_date'', JString (isoformat start)),
      (''report_end_date'', JString (isoformat finish)),
      (''analyses'', JArray [JObject [(''period'', JString ''EXPLICIT''), (''frequencies'', JArray [JString ''daily''])]]),
      (''hierarchy'', JArray [JString field]), (''input_mode'', JString ''stateful''),
      (''stateful_input'', JObject [(''metric_basis'', JString metric_basis),
        (''dimensions'', JArray (if field \<in> {''sector'', ''asset_class''} then [JString field] else []))]),
      (''emit'', JObject [(''by_level'', JBool True), (''threshold_weight'', JFloat 0),
        (''top_n_per_level'', JInt CONTRIBUTION_TOP_N_PER_LEVEL), (''include_other'', JBool True),
        (''include_unclassified'', JBool True)])] @
     (case currency of
        Some c \<Rightarrow> if c = [] then [] else [(''report_ccy'', JString c), (''currency_mode'', JString ''BASE_ONLY'')]
      | None \<Rightarrow> [])"

text \<open>What every dimension of a period is sourced from.\<close>

record evidence_sources =
  es_stateful :: attribution_stateful_input
  es_portfolio_returns :: "return_point list"
  es_benchmark_returns :: "return_point list"
  es_histories :: exposure_histories

record external_readers =
  xt_readers :: field_readers
  xt_floats :: parse_float
  xt_new_id :: "trace \<Rightarrow> string"

definition read_new_id :: "external_readers \<Rightarrow> string io" where
  "read_new_id ext t = (Inr (xt_new_id ext t), t)"

definition fetch_total_evidence ::
  "external_readers \<Rightarrow> performance_client \<Rightarrow> downstream_authority \<Rightarrow> evidence_sources \<Rightarrow> date \<Rightarrow> date \<Rightarrow>
     grouping_dimension \<Rightarrow> string \<Rightarrow> (evidence_pack \<times> json_object) io"
where
  "fetch_total_evidence ext client authority src start finish d field =
     (let stateful = es_stateful src;
          request = build_contribution_request (af_portfolio_id stateful) start finish field
            (net_or_gross_value (af_net_or_gross stateful)) (af_reporting_currency stateful) in
      bind_io (lift_io (expected_group_key_by_source_key (xt_readers ext) (eh_exposure (es_histories src)) d start finish)) (\<lambda>expected.
      bind_io (execute_contribution_request client request authority) (\<lambda>answer.
      bind_io (lift_io (parse_group_evidence (xt_readers ext) (xt_floats ext) answer d field (af_reporting_currency stateful)
          (window_return_points (es_portfolio_returns src) start finish) start finish expected)) (\<lambda>pack.
        return_io (pack, request)))))"

definition fetch_active_group_evidence ::
  "external_readers \<Rightarrow> performance_client \<Rightarrow> downstream_authority \<Rightarrow> evidence_sources \<Rightarrow> date \<Rightarrow> date \<Rightarrow>
     grouping_dimension \<Rightarrow> (active_evidence \<times> json_object) io"
where
  "fetch_active_group_evidence ext client authority src start finish d =
     (let stateful = es_stateful src in
      case af_reporting_currency stateful of
        None \<Rightarrow> raise_io (PlainValueError ''v1 active group evidence requires gross basis and explicit currency'')
      | Some currency \<Rightarrow>
          if af_net_or_gross stateful \<noteq> Gross
          then raise_io (PlainValueError ''v1 active group evidence requires gross basis and explicit currency'')
          else bind_io (read_new_id ext) (\<lambda>id.
            let rq = \<lparr>aq_calculation_id = id, aq_portfolio_id = af_portfolio_id stateful,
                  aq_as_of_date = af_as_of_date stateful, aq_start_date = start, aq_end_date = finish,
                  aq_dimension = d, aq_reporting_currency = currency\<rparr> in
            bind_io (execute_group_return_evidence_request client (active_request_payload rq) authority) (\<lambda>answer.
            bind_io (lift_io (active_group_key_by_source_id (eh_exposure (es_histories src))
                (eh_benchmark_exposure (es_histories src)) d start finish)) (\<lambda>expected.
            bind_io (lift_io (parse_active_group_evidence answer rq (map_option fst (eh_benchmark_identity (es_histories src))) d
                expected (window_return_points (es_portfolio_returns src) start finish)
                (window_return_points (es_benchmark_returns src) start finish))) (\<lambda>e.
              return_io (e, active_request_payload rq))))))"

record resolved_evidence =
  rg_evidence :: evidence_by_period
  rg_contribution_requests :: "json_object list"
  rg_active_requests :: "json_object list"

definition empty_pack :: "grouping_dimension \<Rightarrow> evidence_pack" where
  "empty_pack d = \<lparr>pk_dimension = d, pk_series = [], pk_flags = [], pk_expected_keys = [], pk_active = None\<rparr>"

definition dimension_evidence ::
  "external_readers \<Rightarrow> performance_client \<Rightarrow> downstream_authority \<Rightarrow> evidence_sources \<Rightarrow> date \<Rightarrow> date \<Rightarrow>
     grouping_dimension \<Rightarrow> (evidence_pack \<times> json_object list \<times> json_object list) io"
where
  "dimension_evidence ext client authority src start finish d =
     (let opts = af_options (es_stateful src) in
      bind_io (if total_evidence_available d (needs_total opts)
          then (case empirical_field d of
              Some field \<Rightarrow> bind_io (fetch_total_evidence ext client authority src start finish d field)
                (\<lambda>(pack, request). return_io (pack, [request]))
            | None \<Rightarrow> raise_io (Escaped ''KeyError''))
          else return_io (empty_pack d, [])) (\<lambda>(pack, contributions).
        if active_evidence_available (es_stateful src) d (needs_active opts)
        then bind_io (fetch_active_group_evidence ext client authority src start finish d) (\<lambda>(active, request).
          return_io (pack\<lparr>pk_active := Some active\<rparr>, contributions, [request]))
        else return_io (pack, contributions, [])))"

fun dimensions_evidence ::
  "external_readers \<Rightarrow> performance_client \<Rightarrow> downstream_authority \<Rightarrow> evidence_sources \<Rightarrow> date \<Rightarrow> date \<Rightarrow>
     grouping_dimension list \<Rightarrow> period_evidence \<Rightarrow> json_object list \<Rightarrow> json_object list \<Rightarrow>
     (period_evidence \<times> json_object list \<times> json_object list) io"
where
  "dimensions_evidence ext client authority src start finish [] packs cs as = return_io (packs, cs, as)"
| "dimensions_evidence ext client authority src start finish (d # ds) packs cs as =
     bind_io (dimension_evidence ext client authority src start finish d) (\<lambda>(pack, c, a).
       dimensions_evidence ext client authority src start finish ds (AList.update d pack packs) (cs @ c) (as @ a))"

fun periods_evidence ::
  "external_readers \<Rightarrow> performance_client \<Rightarrow> downstream_authority \<Rightarrow> evidence_sources \<Rightarrow> grouping_dimension list \<Rightarrow>
     risk_period list \<Rightarrow> resolved_evidence \<Rightarrow> resolved_evidence io"
where
  "periods_evidence ext client authority src ds [] found = return_io found"
| "periods_evidence ext client authority src ds (p # ps) found =
     bind_io (lift_io (resolve_period p (af_as_of_date (es_stateful src)) (open_date_of (es_portfolio_returns src)))) (\<lambda>(start, finish).
       if length (window_return_points (es_portfolio_returns src) start finish) < 2
       then periods_evidence ext client authority src ds ps found
       else bind_io (dimensions_evidence ext client authority src start finish ds [] [] []) (\<lambda>(packs, cs, as).
         periods_evidence ext client authority src ds ps
           \<lparr>rg_evidence = AList.update (period_name p) packs (rg_evidence found),
            rg_contribution_requests = rg_contribution_requests found @ cs,
            rg_active_requests = rg_active_requests found @ as\<rparr>))"

definition fetch_group_evidence ::
  "external_readers \<Rightarrow> performance_client \<Rightarrow> downstream_authority \<Rightarrow> evidence_sources \<Rightarrow> grouping_dimension list \<Rightarrow>
     resolved_evidence io"
where
  "fetch_group_evidence ext client authority src ds =
     periods_evidence ext client authority src ds (af_periods (es_stateful src))
       \<lparr>rg_evidence = [], rg_contribution_requests = [], rg_active_requests = []\<rparr>"

section \<open>The inputs of the calculation\<close>

record resolved_inputs =
  rn_stateless_input :: attribution_stateless_input
  rn_returns_request :: json_object
  rn_group_evidence :: "evidence_by_period option"
  rn_contribution_requests :: "json_object list"
  rn_active_requests :: "json_object list"

text \<open>The stateless request is validated as it is constructed.\<close>

definition build_stateful_stateless_input ::
  "field_readers \<Rightarrow> attribution_stateful_input \<Rightarrow> returns_context \<Rightarrow> exposure_histories \<Rightarrow>
     (calculation_error, attribution_stateless_input) result"
where
  "build_stateful_stateless_input readers stateful context histories =
     (let request = \<lparr>al_scope = \<lparr>rq_as_of_date = af_as_of_date stateful,
            rq_reporting_currency = af_reporting_currency stateful, rq_net_or_gross = af_net_or_gross stateful\<rparr>,
          al_periods = af_periods stateful, al_returns = rx_portfolio_returns context,
          al_benchmark_returns = rx_benchmark_returns context, al_exposure_history = eh_exposure histories,
          al_benchmark_exposure_history = eh_benchmark_exposure histories, al_options = af_options stateful\<rparr>
      in case validate_attribution_stateless request of
           Inl m \<Rightarrow> Inl (PlainValueError (fr_refusal readers m))
         | Inr _ \<Rightarrow> Inr request)"

definition validate_stateful_groupings :: "grouping_dimension list \<Rightarrow> (calculation_error, unit) result" where
  "validate_stateful_groupings ds =
     raise_if (ByCustom \<in> set ds)
       (PlainValueError ''stateful historical-attribution does not support grouping_dimension=CUSTOM'')"

definition resolve_stateful_attribution_inputs ::
  "external_readers \<Rightarrow> attribution_stateful_input \<Rightarrow> performance_client \<Rightarrow> core_client \<Rightarrow> downstream_authority \<Rightarrow>
     resolved_inputs io"
where
  "resolve_stateful_attribution_inputs ext stateful client core authority =
     bind_io (lift_io (validate_stateful_groupings (at_grouping_dimensions (af_options stateful)))) (\<lambda>_.
     bind_io (fetch_stateful_returns_context (xt_readers ext) stateful client authority) (\<lambda>context.
     bind_io (stateful_exposure_histories (xt_readers ext) stateful core client authority context) (\<lambda>histories.
     let ds = evidence_grouping_dimensions (af_options stateful);
         src = \<lparr>es_stateful = stateful, es_portfolio_returns = rx_portfolio_returns context,
           es_benchmark_returns = rx_benchmark_returns context, es_histories = histories\<rparr> in
     bind_io (if ds = [] then return_io None
         else bind_io (fetch_group_evidence ext client authority src ds) (\<lambda>found. return_io (Some found))) (\<lambda>found.
     bind_io (lift_io (build_stateful_stateless_input (xt_readers ext) stateful context histories)) (\<lambda>request.
       return_io \<lparr>rn_stateless_input = request, rn_returns_request = rx_returns_request context,
         rn_group_evidence = map_option rg_evidence found,
         rn_contribution_requests = (case found of Some f \<Rightarrow> rg_contribution_requests f | None \<Rightarrow> []),
         rn_active_requests = (case found of Some f \<Rightarrow> rg_active_requests f | None \<Rightarrow> [])\<rparr>)))))"

section \<open>Lineage\<close>

text \<open>The evidence that reached the covariance, in the order of its names.\<close>

record canonical_evidence_pack =
  cp_expected_keys :: "string list"
  cp_flags :: "string list"
  cp_series :: "(string \<times> group_series) list"
  cp_active :: "active_evidence option"

definition has_supported_empirical_set :: "attribution_options \<Rightarrow> bool" where
  "has_supported_empirical_set opts \<longleftrightarrow>
     list_ex (\<lambda>(t, m). group_evidence_applies_to_set t m)
       (List.product (at_attribution_types opts) (at_metrics opts)) \<or> needs_active opts"

definition canonical_active :: "active_evidence \<Rightarrow> active_evidence" where
  "canonical_active e = e\<lparr>ag_observations := sort_key fst (ag_observations e)\<rparr>"

definition canonical_evidence_pack_of :: "evidence_pack \<Rightarrow> canonical_evidence_pack" where
  "canonical_evidence_pack_of pack =
     \<lparr>cp_expected_keys = pk_expected_keys pack, cp_flags = pk_flags pack,
      cp_series = (if pack_empirical pack then sort_key fst (pk_series pack) else []),
      cp_active = map_option canonical_active (pk_active pack)\<rparr>"

definition canonical_group_evidence ::
  "evidence_by_period option \<Rightarrow> attribution_options \<Rightarrow> (string \<times> (grouping_dimension \<times> canonical_evidence_pack) list) list"
where
  "canonical_group_evidence evidence opts =
     (case evidence of
        None \<Rightarrow> []
      | Some by_period \<Rightarrow>
          if \<not> has_supported_empirical_set opts then []
          else map (\<lambda>(name, packs). (name, map (\<lambda>(d, pack). (d, canonical_evidence_pack_of pack)) (sort_key fst packs)))
            (sort_key fst by_period))"

text \<open>Digests are parameters: of a model, of a payload, and of the inputs that reached the calculation.\<close>

record attribution_digests = "attribution_stateless_input fingerprints" +
  fp_calculation :: "attribution_stateless_input \<Rightarrow> (string \<times> (grouping_dimension \<times> canonical_evidence_pack) list) list \<Rightarrow> string"

definition CONTRIBUTION_REQUEST_SET_OPERATION :: string where
  "CONTRIBUTION_REQUEST_SET_OPERATION = ''/performance/contribution''"

definition ACTIVE_EVIDENCE_REQUEST_SET_OPERATION :: string where
  "ACTIVE_EVIDENCE_REQUEST_SET_OPERATION = ''/integration/attribution/group-return-evidence/v1''"

definition request_set_fingerprint ::
  "attribution_digests \<Rightarrow> string \<Rightarrow> json_object list \<Rightarrow> (string, string) dict"
where
  "request_set_fingerprint fp operation requests =
     (if requests = [] then []
      else source_fingerprint fp ''lotus-performance'' operation
        (JObject [(''requests'', JArray (sort_key (fp_payload fp) (map JObject requests)))]))"

definition without_calculation_id :: "json_object \<Rightarrow> json_object" where
  "without_calculation_id request = filter (\<lambda>(k, v). k \<noteq> ''calculation_id'') request"

definition attach_stateful_lineage ::
  "attribution_digests \<Rightarrow> attribution_response \<Rightarrow> resolved_inputs \<Rightarrow> attribution_response"
where
  "attach_stateful_lineage fp response inputs =
     response\<lparr>ap_metadata := (ap_metadata response)
       \<lparr>am_source_services := ordered_source_services [''lotus-performance'', ''lotus-core''],
        am_upstream_fingerprints :=
          source_fingerprint fp ''lotus-performance'' RETURNS_SERIES_OPERATION (JObject (rn_returns_request inputs)) @
          request_set_fingerprint fp CONTRIBUTION_REQUEST_SET_OPERATION (rn_contribution_requests inputs) @
          request_set_fingerprint fp ACTIVE_EVIDENCE_REQUEST_SET_OPERATION
            (map without_calculation_id (rn_active_requests inputs)),
        am_request_fingerprint := fp_calculation fp (rn_stateless_input inputs)
          (canonical_group_evidence (rn_group_evidence inputs) (al_options (rn_stateless_input inputs)))\<rparr>\<rparr>"

definition attribution_from_inputs ::
  "attribution_ops \<Rightarrow> attribution_digests \<Rightarrow> resolved_inputs \<Rightarrow> (calculation_error, attribution_response) result"
where
  "attribution_from_inputs ops fp inputs =
     bind_result (calculate_historical_attribution ops (fingerprints.truncate fp) (rn_stateless_input inputs)
       AttributionStateful (rn_group_evidence inputs)) (\<lambda>response.
       Inr (attach_stateful_lineage fp response inputs))"

definition calculate_historical_attribution_stateful ::
  "attribution_ops \<Rightarrow> attribution_digests \<Rightarrow> external_readers \<Rightarrow> attribution_stateful_input \<Rightarrow> performance_client \<Rightarrow>
     core_client \<Rightarrow> downstream_authority \<Rightarrow> attribution_response io"
where
  "calculate_historical_attribution_stateful ops fp ext stateful client core authority =
     bind_io (resolve_stateful_attribution_inputs ext stateful client core authority) (\<lambda>inputs.
       lift_io (attribution_from_inputs ops fp inputs))"

section \<open>The route\<close>

definition analytics_risk_historical_attribution ::
  "attribution_ops \<Rightarrow> attribution_digests \<Rightarrow> external_readers \<Rightarrow> performance_client option \<Rightarrow> core_client option \<Rightarrow>
     string option \<Rightarrow> string option \<Rightarrow> attribution_request \<Rightarrow> trace \<Rightarrow>
     (route_error, attribution_response) result \<times> trace"
where
  "analytics_risk_historical_attribution ops fp ext performance_client core_client tenant_id correlation_id rq t =
     (case ar_input_mode rq of
        AttributionStateless \<Rightarrow>
          (case ar_stateless_input rq of
             None \<Rightarrow> (Inl (CalculationFailure
               (PlainValueError ''stateless_input is required when input_mode=stateless'')), t)
           | Some payload \<Rightarrow> (calculation_result (calculate_historical_attribution ops (fingerprints.truncate fp) payload
               AttributionStateless None), t))
      | AttributionStateful \<Rightarrow>
          (case ar_stateful_input rq of
             None \<Rightarrow> (Inl (CalculationFailure
               (PlainValueError ''stateful_input is required when input_mode=stateful'')), t)
           | Some stateful \<Rightarrow>
               stateful_route tenant_id correlation_id
                 (Option.bind performance_client (\<lambda>p. map_option (\<lambda>c. (p, c)) core_client))
                 (\<lambda>(p, c). calculate_historical_attribution_stateful ops fp ext stateful p c) t))"

section \<open>What a stateful report sends\<close>

text \<open>Every request carries the admitted authority, but for the reference read of instruments, which names no
  tenant.\<close>

definition reference_read :: "event \<Rightarrow> bool" where
  "reference_read ev \<longleftrightarrow>
     (\<exists>call base. ev = Sent call \<and> hc_url call = base @ LOTUS_CORE_INSTRUMENT_ENRICHMENT_OPERATION \<and>
        map_of (hc_headers call) TENANT_ID_HEADER = None)"

definition attribution_call :: "downstream_authority \<Rightarrow> event \<Rightarrow> bool" where
  "attribution_call a ev \<longleftrightarrow> under_authority a ev \<or> reference_read ev"

context token_pages
begin

lemma loop_emits:
  assumes "\<And>s token. emits P (page s token)"
  shows "emits P (loop n s token seen)"
proof (induction n arbitrary: s token seen)
  case 0
  show ?case unfolding loop_0 by (rule emits_intros)
next
  case (Suc n)
  show ?case
    unfolding loop_Suc using assms Suc.IH
    by (auto split: prod.splits intro!: emits_intros)
qed

end

lemma attribution_callI: "emits (under_authority a) m \<Longrightarrow> emits (attribution_call a) m"
  by (erule emits_mono) (simp add: attribution_call_def)

lemma performance_read_calls:
  "emits (attribution_call a) (execute_performance_read client operation message payload a)"
  unfolding execute_performance_read_def
  by (intro emits_execute)
    (auto simp: attribution_call_def intro!: headed_under_authority [of client])

lemma workflow_calls:
  "emits (attribution_call a) (execute_async_workflow_request client operations payload a)"
proof -
  have "\<exists>es. snd (execute_async_workflow_request client operations payload a t) = t @ es \<and> list_all (attribution_call a) es" for t
    using async_workflow_calls [of client operations payload a t]
    by (auto simp: attribution_call_def intro!: headed_under_authority elim!: list.pred_mono_strong)
  then show ?thesis by (simp add: emits_def)
qed

lemma at_most_workflow:
  "at_most (1 + 2 * pc_async_max_polls client) (execute_async_workflow_request client operations payload a)"
  unfolding at_most_def by (metis async_workflow_calls add_le_cancel_left requests_in_simps(5))

lemma position_history_calls:
  "emits (attribution_call a) (fetch_stateful_exposure_history core a readers q)"
proof -
  have page: "emits (attribution_call a) (read_position_page core a q s token)" for s token
    unfolding read_position_page_def by (intro emits_intros attribution_callI)
  have enrich: "emits (attribution_call a) (get_instrument_enrichment core ids correlation_id)" for ids correlation_id
    unfolding get_instrument_enrichment_def execute_lotus_core_json_request_def
    by (intro emits_client)
      (auto simp: attribution_call_def reference_read_def LOTUS_CORE_INSTRUMENT_ENRICHMENT_OPERATION_def
        TENANT_ID_HEADER_def under_authority_def)
  have issuers: "emits (attribution_call a) (build_issuer_map core readers rows correlation_id)" for rows correlation_id
    unfolding build_issuer_map_def Let_def by (auto intro!: emits_intros enrich split: json.splits)
  show ?thesis
    unfolding fetch_stateful_exposure_history_def fetch_position_timeseries_rows_def
    by (intro emits_intros position_pages.loop_emits page issuers)
qed

lemma benchmark_history_calls:
  "emits (attribution_call a) (fetch_active_benchmark_exposure_history client a readers stateful returns start ds)"
  "at_most BENCHMARK_EXPOSURE_MAX_PAGES (fetch_active_benchmark_exposure_history client a readers stateful returns start ds)"
proof -
  have page: "emits (attribution_call a) (read_exposure_page client a readers rq s token)" for rq s token
    unfolding read_exposure_page_def fetch_benchmark_exposure_page_def execute_benchmark_exposure_context_request_def
    by (intro emits_intros performance_read_calls)
  show "emits (attribution_call a) (fetch_active_benchmark_exposure_history client a readers stateful returns start ds)"
    unfolding fetch_active_benchmark_exposure_history_def fetch_benchmark_exposure_history_with_identity_def
    by (auto split: prod.splits intro!: emits_intros benchmark_pages.loop_emits page)
  show "at_most BENCHMARK_EXPOSURE_MAX_PAGES (fetch_active_benchmark_exposure_history client a readers stateful returns start ds)"
    unfolding fetch_active_benchmark_exposure_history_def
    by (rule at_most_bind [where a = BENCHMARK_EXPOSURE_MAX_PAGES and b = 0, OF exposure_history_is_bounded])
      (auto split: prod.splits intro!: at_most_bind [where a = 0 and b = 0] emits_intros)
qed

definition evidence_bound :: "performance_client \<Rightarrow> nat" where
  "evidence_bound client = 2 + 2 * pc_async_max_polls client"

lemma dimension_evidence_calls:
  "emits (attribution_call a) (dimension_evidence ext client a src start finish d)"
  "at_most (evidence_bound client) (dimension_evidence ext client a src start finish d)"
proof -
  have total: "emits (attribution_call a) (fetch_total_evidence ext client a src start finish d field)"
    "at_most (1 + 2 * pc_async_max_polls client) (fetch_total_evidence ext client a src start finish d field)" for field
  proof -
    show "emits (attribution_call a) (fetch_total_evidence ext client a src start finish d field)"
      unfolding fetch_total_evidence_def Let_def execute_contribution_request_def by (intro emits_intros workflow_calls)
    show "at_most (1 + 2 * pc_async_max_polls client) (fetch_total_evidence ext client a src start finish d field)"
      unfolding fetch_total_evidence_def Let_def execute_contribution_request_def
      by (rule at_most_bind [where a = 0 and b = "1 + 2 * pc_async_max_polls client"], rule emits_intros,
          rule at_most_bind [where a = "1 + 2 * pc_async_max_polls client" and b = 0, OF at_most_workflow])
        (auto intro!: at_most_bind [where a = 0 and b = 0] emits_intros)
  qed
  have id: "emits P (read_new_id ext)" "at_most 0 (read_new_id ext)" for P
    by (simp_all add: emits_def at_most_def read_new_id_def)
  have active: "emits (attribution_call a) (fetch_active_group_evidence ext client a src start finish d)"
    "at_most 1 (fetch_active_group_evidence ext client a src start finish d)"
  proof -
    show "emits (attribution_call a) (fetch_active_group_evidence ext client a src start finish d)"
      unfolding fetch_active_group_evidence_def Let_def execute_group_return_evidence_request_def
      by (intro emits_intros id performance_read_calls)
    show "at_most 1 (fetch_active_group_evidence ext client a src start finish d)"
      unfolding fetch_active_group_evidence_def Let_def execute_group_return_evidence_request_def
      by (auto split: option.splits intro!: emits_intros at_most_bind [where a = 0 and b = 1, OF id(2)]
          at_most_bind [where a = 1 and b = 0, OF at_most_performance_read] at_most_bind [where a = 0 and b = 0]
          simp del: One_nat_def)
  qed
  show "emits (attribution_call a) (dimension_evidence ext client a src start finish d)"
    unfolding dimension_evidence_def Let_def
    by (auto split: prod.splits option.splits intro!: emits_intros total active)
  have first: "at_most (1 + 2 * pc_async_max_polls client)
      (if total_evidence_available d n then (case empirical_field d of
          Some field \<Rightarrow> bind_io (fetch_total_evidence ext client a src start finish d field)
            (\<lambda>(pack, request). return_io (pack, [request]))
        | None \<Rightarrow> raise_io (Escaped ''KeyError''))
      else return_io (empty_pack d, []))" for n
    by (auto split: option.splits prod.splits
        intro!: emits_intros at_most_bind [where a = "1 + 2 * pc_async_max_polls client" and b = 0, OF total(2)])
  show "at_most (evidence_bound client) (dimension_evidence ext client a src start finish d)"
    unfolding dimension_evidence_def Let_def evidence_bound_def
    by (rule at_most_bind [where a = "1 + 2 * pc_async_max_polls client" and b = 1, OF first])
      (auto split: prod.splits intro!: emits_intros at_most_bind [where a = 1 and b = 0, OF active(2)] simp del: One_nat_def)
qed

lemma dimensions_evidence_calls:
  "emits (attribution_call a) (dimensions_evidence ext client a src start finish ds packs cs as)"
  "at_most (length ds * evidence_bound client) (dimensions_evidence ext client a src start finish ds packs cs as)"
proof (induction ds arbitrary: packs cs as)
  case Nil
  show "emits (attribution_call a) (dimensions_evidence ext client a src start finish [] packs cs as)"
    "at_most (length [] * evidence_bound client) (dimensions_evidence ext client a src start finish [] packs cs as)" for packs cs as
    by (auto intro: emits_intros)
next
  case (Cons d ds)
  show "emits (attribution_call a) (dimensions_evidence ext client a src start finish (d # ds) packs cs as)" for packs cs as
    using Cons.IH(1) by (auto split: prod.splits intro!: emits_intros dimension_evidence_calls(1))
  show "at_most (length (d # ds) * evidence_bound client)
      (dimensions_evidence ext client a src start finish (d # ds) packs cs as)" for packs cs as
    using Cons.IH(2)
    by (auto split: prod.splits intro!: at_most_bind [where a = "evidence_bound client" and b = "length ds * evidence_bound client",
          OF dimension_evidence_calls(2)])
qed

lemma periods_evidence_calls:
  "emits (attribution_call a) (periods_evidence ext client a src ds ps found)"
  "at_most (length ps * (length ds * evidence_bound client)) (periods_evidence ext client a src ds ps found)"
proof (induction ps arbitrary: found)
  case Nil
  show "emits (attribution_call a) (periods_evidence ext client a src ds [] found)"
    "at_most (length [] * (length ds * evidence_bound client)) (periods_evidence ext client a src ds [] found)" for found
    by (auto intro: emits_intros)
next
  case (Cons p ps)
  let ?each = "length ds * evidence_bound client"
  show "emits (attribution_call a) (periods_evidence ext client a src ds (p # ps) found)" for found
    using Cons.IH(1) by (auto split: prod.splits intro!: emits_intros dimensions_evidence_calls(1))
  have one: "at_most (?each + length ps * ?each)
      (bind_io (dimensions_evidence ext client a src start finish ds [] [] []) (\<lambda>(packs, cs, as).
        periods_evidence ext client a src ds ps (f packs cs as)))" for start finish f
    using Cons.IH(2)
    by (intro at_most_bind [where a = ?each and b = "length ps * ?each", OF dimensions_evidence_calls(2)])
      (auto split: prod.splits)
  have skip: "at_most (?each + length ps * ?each) (periods_evidence ext client a src ds ps found)" for found
    by (rule at_most_mono [OF Cons.IH(2)]) simp
  show "at_most (length (p # ps) * ?each) (periods_evidence ext client a src ds (p # ps) found)" for found
    unfolding periods_evidence.simps
    by (rule at_most_bind [where a = 0 and b = "?each + length ps * ?each"], rule emits_intros)
      (auto split: prod.splits intro!: one skip)
qed

definition attribution_request_bound :: "performance_client \<Rightarrow> attribution_stateful_input \<Rightarrow> nat" where
  "attribution_request_bound client stateful =
     1 + 2 * pc_async_max_polls client + (POSITION_TIMESERIES_MAX_PAGES + 1) + BENCHMARK_EXPOSURE_MAX_PAGES +
     length (af_periods stateful) * (length (at_grouping_dimensions (af_options stateful)) * evidence_bound client)"

lemma histories_calls:
  "emits (attribution_call a) (stateful_exposure_histories readers stateful core client a context')"
  "at_most (POSITION_TIMESERIES_MAX_PAGES + 1 + BENCHMARK_EXPOSURE_MAX_PAGES)
     (stateful_exposure_histories readers stateful core client a context')"
proof -
  show "emits (attribution_call a) (stateful_exposure_histories readers stateful core client a context')"
    unfolding stateful_exposure_histories_def
    by (auto split: prod.splits intro!: emits_intros position_history_calls benchmark_history_calls(1))
  show "at_most (POSITION_TIMESERIES_MAX_PAGES + 1 + BENCHMARK_EXPOSURE_MAX_PAGES)
     (stateful_exposure_histories readers stateful core client a context')"
    unfolding stateful_exposure_histories_def
    by (rule at_most_bind [OF position_history_requests, where b = BENCHMARK_EXPOSURE_MAX_PAGES])
      (auto split: prod.splits intro!: emits_intros
        at_most_bind [where a = BENCHMARK_EXPOSURE_MAX_PAGES and b = 0, OF benchmark_history_calls(2)])
qed

lemma returns_context_calls:
  "emits (attribution_call a) (fetch_stateful_returns_context readers stateful client a)"
  "at_most (1 + 2 * pc_async_max_polls client) (fetch_stateful_returns_context readers stateful client a)"
  unfolding fetch_stateful_returns_context_def execute_returns_series_request_def
  by (intro emits_intros workflow_calls,
      rule at_most_bind [where a = 0 and b = "1 + 2 * pc_async_max_polls client"], rule emits_intros,
      rule at_most_bind [where a = "1 + 2 * pc_async_max_polls client" and b = 0, OF at_most_workflow])
    (auto intro: emits_intros)

lemma group_evidence_calls:
  "emits (attribution_call a) (if ds = [] then return_io None
     else bind_io (fetch_group_evidence ext client a src ds) (\<lambda>found. return_io (Some found)))"
  "length ds \<le> n \<Longrightarrow> at_most (length (af_periods (es_stateful src)) * (n * evidence_bound client)) (if ds = [] then return_io None
     else bind_io (fetch_group_evidence ext client a src ds) (\<lambda>found. return_io (Some found)))"
proof -
  show "emits (attribution_call a) (if ds = [] then return_io None
     else bind_io (fetch_group_evidence ext client a src ds) (\<lambda>found. return_io (Some found)))"
    unfolding fetch_group_evidence_def by (auto intro!: emits_intros periods_evidence_calls(1))
  assume n: "length ds \<le> n"
  let ?b = "length (af_periods (es_stateful src)) * (length ds * evidence_bound client)"
  have "at_most ?b (if ds = [] then return_io None
      else bind_io (fetch_group_evidence ext client a src ds) (\<lambda>found. return_io (Some found)))"
    unfolding fetch_group_evidence_def
    by (auto intro!: emits_intros at_most_bind [where a = ?b and b = 0, OF periods_evidence_calls(2)])
  then show "at_most (length (af_periods (es_stateful src)) * (n * evidence_bound client)) (if ds = [] then return_io None
      else bind_io (fetch_group_evidence ext client a src ds) (\<lambda>found. return_io (Some found)))"
    by (rule at_most_mono) (use n in \<open>simp add: mult_le_mono\<close>)
qed

lemma resolve_inputs_calls:
  "emits (attribution_call a) (resolve_stateful_attribution_inputs ext stateful client core a)"
  "at_most (attribution_request_bound client stateful) (resolve_stateful_attribution_inputs ext stateful client core a)"
proof -
  show "emits (attribution_call a) (resolve_stateful_attribution_inputs ext stateful client core a)"
    unfolding resolve_stateful_attribution_inputs_def Let_def
    by (intro emits_intros returns_context_calls(1) histories_calls(1) group_evidence_calls(1))
  let ?r = "1 + 2 * pc_async_max_polls client" and ?h = "POSITION_TIMESERIES_MAX_PAGES + 1 + BENCHMARK_EXPOSURE_MAX_PAGES"
  let ?ds = "evidence_grouping_dimensions (af_options stateful)"
  let ?e = "length (af_periods stateful) * (length (at_grouping_dimensions (af_options stateful)) * evidence_bound client)"
  have "length ?ds \<le> length (at_grouping_dimensions (af_options stateful))"
    by (auto simp: evidence_grouping_dimensions_def)
  note evidence = group_evidence_calls(2) [OF this]
  have evidence': "at_most ?e (bind_io (if ?ds = [] then return_io None
      else bind_io (fetch_group_evidence ext client a \<lparr>es_stateful = stateful, es_portfolio_returns = pr,
        es_benchmark_returns = br, es_histories = h\<rparr> ?ds) (\<lambda>found. return_io (Some found))) (\<lambda>found.
      bind_io (lift_io (build_stateful_stateless_input readers stateful c h)) (\<lambda>request. return_io (f found request))))"
    for pr br h readers c and f :: "_ \<Rightarrow> _ \<Rightarrow> resolved_inputs"
  proof (rule at_most_bind [where a = ?e and b = 0])
    show "at_most ?e (if ?ds = [] then return_io None
      else bind_io (fetch_group_evidence ext client a \<lparr>es_stateful = stateful, es_portfolio_returns = pr,
        es_benchmark_returns = br, es_histories = h\<rparr> ?ds) (\<lambda>found. return_io (Some found)))"
      using evidence [where src = "\<lparr>es_stateful = stateful, es_portfolio_returns = pr, es_benchmark_returns = br, es_histories = h\<rparr>"]
      by simp
    show "at_most 0 (bind_io (lift_io (build_stateful_stateless_input readers stateful c h)) (\<lambda>request. return_io (f found request)))" for found
      by (auto intro!: at_most_bind [where a = 0 and b = 0] emits_intros)
  qed simp
  show "at_most (attribution_request_bound client stateful) (resolve_stateful_attribution_inputs ext stateful client core a)"
    unfolding resolve_stateful_attribution_inputs_def Let_def attribution_request_bound_def
    by (rule at_most_bind [where a = 0 and b = "?r + (?h + ?e)"], rule emits_intros,
        rule at_most_bind [where a = ?r and b = "?h + ?e", OF returns_context_calls(2)],
        rule at_most_bind [where a = ?h and b = ?e, OF histories_calls(2)], rule evidence') simp_all
qed

lemma stateful_attribution_calls:
  "\<exists>es. snd (calculate_historical_attribution_stateful ops fp ext stateful client core a t) = t @ es \<and>
     list_all (attribution_call a) es \<and> requests_in es \<le> attribution_request_bound client stateful"
proof -
  let ?m = "calculate_historical_attribution_stateful ops fp ext stateful client core a"
  have "emits (attribution_call a) ?m"
    unfolding calculate_historical_attribution_stateful_def by (intro emits_intros resolve_inputs_calls(1))
  then obtain es where es: "snd (?m t) = t @ es" "list_all (attribution_call a) es" by (rule emitsE)
  have "at_most (attribution_request_bound client stateful) ?m"
    unfolding calculate_historical_attribution_stateful_def
    by (rule at_most_bind [where b = 0, OF resolve_inputs_calls(2)]) (auto intro: emits_intros)
  then have "requests_in (t @ es) \<le> requests_in t + attribution_request_bound client stateful"
    unfolding at_most_def es(1) [symmetric] by blast
  then have "requests_in es \<le> attribution_request_bound client stateful" by simp
  with es show ?thesis by blast
qed

text \<open>C38: Nothing is sent for a stateless report, nor before the caller's tenant is admitted.  Every request of a stateful
  report carries the admitted authority --- only the reference read of instruments names no tenant ---
  and their number is bounded by the polls of one returns workflow, the pages of the two exposure
  histories, and one workflow and one read for every period and dimension.\<close>

theorem stateful_attribution_is_admitted:
  "\<exists>es. snd (analytics_risk_historical_attribution ops fp ext performance core tenant_id correlation_id rq t) = t @ es \<and>
     (es = [] \<or> (\<exists>a stateful client. ar_input_mode rq = AttributionStateful \<and> ar_stateful_input rq = Some stateful \<and>
        admit_downstream_authority tenant_id correlation_id = Inr a \<and> performance = Some client \<and>
        list_all (attribution_call a) es \<and> requests_in es \<le> attribution_request_bound client stateful))"
proof (cases "ar_input_mode rq")
  case AttributionStateless
  then show ?thesis by (auto simp: analytics_risk_historical_attribution_def split: option.splits)
next
  case AttributionStateful
  show ?thesis
  proof (cases "ar_stateful_input rq")
    case None
    with AttributionStateful show ?thesis by (simp add: analytics_risk_historical_attribution_def)
  next
    case (Some stateful)
    show ?thesis
    proof (cases "admit_downstream_authority tenant_id correlation_id")
      case (Inl e)
      with AttributionStateful Some show ?thesis
        by (simp add: analytics_risk_historical_attribution_def stateful_route_def)
    next
      case (Inr a)
      show ?thesis
      proof (cases "Option.bind performance (\<lambda>p. map_option (\<lambda>c. (p, c)) core)")
        case None
        with AttributionStateful Some Inr show ?thesis
          by (simp add: analytics_risk_historical_attribution_def stateful_route_def)
      next
        case (Some clients)
        then obtain p c where p: "performance = Some p" "clients = (p, c)"
          by (auto simp: bind_eq_Some_conv)
        have "snd (analytics_risk_historical_attribution ops fp ext performance core tenant_id correlation_id rq t) =
            snd (calculate_historical_attribution_stateful ops fp ext stateful p c a t)"
          using AttributionStateful \<open>ar_stateful_input rq = Some stateful\<close> Inr Some p
          by (simp add: analytics_risk_historical_attribution_def stateful_route_def run_calculation_def split: prod.splits)
        with stateful_attribution_calls [of ops fp ext stateful p c a t] AttributionStateful
          \<open>ar_stateful_input rq = Some stateful\<close> Inr p show ?thesis by metis
      qed
    qed
  qed
qed

section \<open>Admitted evidence covers the calculation\<close>

lemma pack_covers_cong: "set days = set days' \<Longrightarrow> pack_covers days pack = pack_covers days' pack"
  by (simp add: pack_covers_def)

lemma pack_coversI:
  assumes "\<And>k s. pack_empirical pack \<Longrightarrow> (k, s) \<in> set (pk_series pack) \<Longrightarrow> set days \<subseteq> gp_date ` set (gq_observations s)"
    and "\<And>active k history. pk_active pack = Some active \<Longrightarrow> (k, history) \<in> set (ag_observations active) \<Longrightarrow>
      set days \<subseteq> ab_date ` set history"
  shows "pack_covers days pack"
  unfolding pack_covers_def using assms by blast

lemma empty_pack_covers: "pack_covers days (empty_pack d)"
  by (simp add: pack_covers_def empty_pack_def pack_empirical_def)

lemma total_evidence_covers:
  assumes "fetch_total_evidence ext client authority src start finish d field t = (Inr (pack, request), u)"
  shows "pack_covers (map pt_date (window_return_points (es_portfolio_returns src) start finish)) pack"
proof -
  let ?points = "window_return_points (es_portfolio_returns src) start finish"
  from assms obtain answer expected where
    parsed: "parse_group_evidence (xt_readers ext) (xt_floats ext) answer d field (af_reporting_currency (es_stateful src))
      ?points start finish expected = Inr pack"
    by (auto simp: fetch_total_evidence_def Let_def lift_io_def return_io_def elim!: bind_io_InrE)
  have "set (map pt_date ?points) \<subseteq> gp_date ` set (gq_observations s)"
    if "pack_empirical pack" "(k, s) \<in> set (pk_series pack)" for k s
  proof -
    from that(1) have flags: "pk_flags pack = []" by (simp add: pack_empirical_def)
    from unflagged_evidence [OF parsed flags] that(2) have "observed_dates s = sorted_set (map pt_date ?points)" by blast
    then have "set (observed_dates s) = set (map pt_date ?points)" by simp
    then show ?thesis by (simp add: observed_dates_def)
  qed
  moreover have "pk_active pack = None"
    using parsed by (auto simp: parse_group_evidence_def Let_def result_simps split: option.splits if_splits)
  ultimately show ?thesis by (intro pack_coversI) simp_all
qed

lemma active_evidence_covers:
  assumes "fetch_active_group_evidence ext client authority src start finish d t = (Inr (active, request), u)"
    and "(k, history) \<in> set (ag_observations active)"
  shows "set (map pt_date (window_return_points (es_portfolio_returns src) start finish)) = ab_date ` set history"
proof -
  let ?points = "window_return_points (es_portfolio_returns src) start finish"
  from assms(1) obtain answer rq b expected bpoints where
    parsed: "parse_active_group_evidence answer rq b d expected ?points bpoints = Inr active"
    by (auto simp: fetch_active_group_evidence_def Let_def lift_io_def return_io_def raise_io_def
        elim!: bind_io_InrE split: option.splits if_splits)
  from active_history_dates [OF parsed assms(2)] have "set (map ab_date history) = set (map pt_date ?points)" by simp
  then show ?thesis by simp
qed

lemma dimension_evidence_covers:
  assumes "dimension_evidence ext client authority src start finish d t = (Inr (pack, cs, as), u)"
  shows "pack_covers (map pt_date (window_return_points (es_portfolio_returns src) start finish)) pack"
proof -
  let ?days = "map pt_date (window_return_points (es_portfolio_returns src) start finish)"
  let ?total = "if total_evidence_available d (needs_total (af_options (es_stateful src)))
    then (case empirical_field d of
        Some field \<Rightarrow> bind_io (fetch_total_evidence ext client authority src start finish d field)
          (\<lambda>(pack, request). return_io (pack, [request]))
      | None \<Rightarrow> raise_io (Escaped ''KeyError''))
    else return_io (empty_pack d, [])"
  have total: "pack_covers ?days p" if "?total v = (Inr (p, c), w)" for p c v w
    using that by (auto simp: return_io_def raise_io_def elim!: bind_io_InrE split: if_splits option.splits
        intro: total_evidence_covers empty_pack_covers)
  from assms obtain p c v where first: "?total t = (Inr (p, c), v)"
    and rest: "(if active_evidence_available (es_stateful src) d (needs_active (af_options (es_stateful src)))
        then bind_io (fetch_active_group_evidence ext client authority src start finish d) (\<lambda>(active, request).
          return_io (p\<lparr>pk_active := Some active\<rparr>, c, [request]))
        else return_io (p, c, [])) v = (Inr (pack, cs, as), u)"
    unfolding dimension_evidence_def Let_def by (auto elim!: bind_io_InrE)
  note covers = total [OF first]
  from rest show ?thesis
  proof (cases "active_evidence_available (es_stateful src) d (needs_active (af_options (es_stateful src)))")
    case True
    with rest obtain active request w where
      active: "fetch_active_group_evidence ext client authority src start finish d v = (Inr (active, request), w)"
      and pack: "pack = p\<lparr>pk_active := Some active\<rparr>"
      by (auto simp: return_io_def elim!: bind_io_InrE)
    show ?thesis
    proof (rule pack_coversI)
      fix k s assume "pack_empirical pack" "(k, s) \<in> set (pk_series pack)"
      with covers show "set ?days \<subseteq> gp_date ` set (gq_observations s)"
        by (fastforce simp: pack_covers_def pack pack_empirical_def)
    next
      fix a k history assume "pk_active pack = Some a" "(k, history) \<in> set (ag_observations a)"
      with active_evidence_covers [OF active] show "set ?days \<subseteq> ab_date ` set history" by (simp add: pack)
    qed
  qed (use rest covers in \<open>auto simp: return_io_def\<close>)
qed

definition packs_cover :: "return_point list \<Rightarrow> date \<Rightarrow> date \<Rightarrow> period_evidence \<Rightarrow> bool" where
  "packs_cover points start finish packs \<longleftrightarrow>
     (\<forall>(d, pack) \<in> set packs. pack_covers (map pt_date (window_return_points points start finish)) pack)"

lemma update_subset: "set (AList.update k v d) \<subseteq> insert (k, v) (set d)"
  by (induction d) auto

lemma dimensions_evidence_cover:
  "dimensions_evidence ext client authority src start finish ds packs cs as t = (Inr (packs', cs', as'), u) \<Longrightarrow>
     packs_cover (es_portfolio_returns src) start finish packs \<Longrightarrow>
     packs_cover (es_portfolio_returns src) start finish packs'"
proof (induction ds arbitrary: packs cs as t)
  case (Cons d ds)
  from Cons.prems(1) obtain pack c a v where
    pack: "dimension_evidence ext client authority src start finish d t = (Inr (pack, c, a), v)"
    and rest: "dimensions_evidence ext client authority src start finish ds (AList.update d pack packs) (cs @ c) (as @ a) v =
      (Inr (packs', cs', as'), u)"
    by (auto elim!: bind_io_InrE)
  have "packs_cover (es_portfolio_returns src) start finish (AList.update d pack packs)"
    using dimension_evidence_covers [OF pack] Cons.prems(2) update_subset [of d pack packs]
    by (auto simp: packs_cover_def)
  with rest show ?case by (rule Cons.IH)
qed (simp add: return_io_def)

definition period_covered :: "evidence_sources \<Rightarrow> risk_period \<Rightarrow> period_evidence \<Rightarrow> bool" where
  "period_covered src p packs \<longleftrightarrow>
     (\<exists>start finish. resolve_period p (af_as_of_date (es_stateful src)) (open_date_of (es_portfolio_returns src)) =
        Inr (start, finish) \<and> packs_cover (es_portfolio_returns src) start finish packs)"

definition found_covers :: "evidence_sources \<Rightarrow> risk_period list \<Rightarrow> evidence_by_period \<Rightarrow> bool" where
  "found_covers src ps found \<longleftrightarrow>
     (\<forall>(name, packs) \<in> set found. \<exists>p\<in>set ps. period_name p = name \<and> period_covered src p packs)"

lemma periods_evidence_cover:
  "periods_evidence ext client authority src ds ps found t = (Inr found', u) \<Longrightarrow>
     found_covers src done (rg_evidence found) \<Longrightarrow> set (done @ ps) \<subseteq> set all \<Longrightarrow>
     found_covers src all (rg_evidence found')"
proof (induction ps arbitrary: found t "done")
  case Nil
  then show ?case by (fastforce simp: return_io_def found_covers_def)
next
  case (Cons p ps)
  from Cons.prems(1) obtain start finish where
    window: "resolve_period p (af_as_of_date (es_stateful src)) (open_date_of (es_portfolio_returns src)) = Inr (start, finish)"
    by (auto simp: lift_io_def elim!: bind_io_InrE)
  show ?case
  proof (cases "length (window_return_points (es_portfolio_returns src) start finish) < 2")
    case True
    with Cons.prems(1) window have "periods_evidence ext client authority src ds ps found t = (Inr found', u)"
      by (simp add: bind_io_def lift_io_def)
    from Cons.IH [OF this Cons.prems(2)] Cons.prems(3) show ?thesis by auto
  next
    case False
    from Cons.prems(1) window False obtain packs cs as v where
      packs: "dimensions_evidence ext client authority src start finish ds [] [] [] t = (Inr (packs, cs, as), v)"
      and rest: "periods_evidence ext client authority src ds ps
           \<lparr>rg_evidence = AList.update (period_name p) packs (rg_evidence found),
            rg_contribution_requests = rg_contribution_requests found @ cs,
            rg_active_requests = rg_active_requests found @ as\<rparr> v = (Inr found', u)"
      by (auto simp: bind_io_def lift_io_def split: prod.splits sum.splits)
    have "packs_cover (es_portfolio_returns src) start finish packs"
      by (rule dimensions_evidence_cover [OF packs]) (simp add: packs_cover_def)
    then have "period_covered src p packs" using window by (auto simp: period_covered_def)
    then have "found_covers src (p # done) (AList.update (period_name p) packs (rg_evidence found))"
      using Cons.prems(2) update_subset [of "period_name p" packs "rg_evidence found"]
      by (fastforce simp: found_covers_def)
    with Cons.IH [OF rest, of "p # done"] Cons.prems(3) show ?thesis by auto
  qed
qed

lemma window_days_set:
  "set (window_days points start finish) = set (map pt_date (window_return_points points start finish))"
  by (force simp: window_days_def series_dates_def filter_period_def returns_frame_def window_return_points_def image_iff)

lemma distinct_unambiguous:
  assumes "distinct (map exposure_key points)"
  shows "unambiguous points"
  unfolding unambiguous_def using assms by (metis distinct_map inj_on_def)

lemma group_evidence_covers:
  assumes "fetch_group_evidence ext client authority src ds t = (Inr found, u)"
    and "distinct (map period_name (af_periods (es_stateful src)))"
    and "al_periods request = af_periods (es_stateful src)" "al_returns request = es_portfolio_returns src"
    and "rq_as_of_date (al_scope request) = af_as_of_date (es_stateful src)"
  shows "evidence_covers request (Some (rg_evidence found))"
  unfolding evidence_covers_def
proof (intro ballI allI impI, elim conjE)
  fix p start finish by_period packs d pack
  assume p: "p \<in> set (al_periods request)"
    and window: "resolve_period p (rq_as_of_date (al_scope request)) (open_date_of (al_returns request)) = Inr (start, finish)"
    and found: "Some (rg_evidence found) = Some by_period" "map_of by_period (period_name p) = Some packs"
      "map_of packs d = Some pack"
  have "found_covers src (af_periods (es_stateful src)) (rg_evidence found)"
    using periods_evidence_cover [OF assms(1) [unfolded fetch_group_evidence_def], of "[]"] by (simp add: found_covers_def)
  moreover have "(period_name p, packs) \<in> set (rg_evidence found)" using found by (auto dest: map_of_SomeD)
  ultimately obtain q where q: "q \<in> set (af_periods (es_stateful src))" "period_name q = period_name p" "period_covered src q packs"
    unfolding found_covers_def by blast
  have "q = p" using assms(2,3) p q(1,2) by (auto simp: distinct_map dest: inj_onD)
  with q(3) window have "packs_cover (es_portfolio_returns src) start finish packs"
    by (auto simp: period_covered_def assms(4,5))
  with found(3) have "pack_covers (map pt_date (window_return_points (es_portfolio_returns src) start finish)) pack"
    by (auto simp: packs_cover_def dest: map_of_SomeD)
  then show "pack_covers (window_days (al_returns request) start finish) pack"
    using pack_covers_cong [OF window_days_set] by (simp add: assms(4))
qed

lemma context_returns:
  assumes "fetch_stateful_returns_context readers stateful client authority t = (Inr context', u)"
  shows "rx_portfolio_returns context' \<noteq> []"
  using assms
  by (auto simp: fetch_stateful_returns_context_def read_returns_context_def lift_io_def result_simps
      elim!: bind_io_InrE dest: required_returns_nonempty)

lemma histories_unambiguous:
  assumes "stateful_exposure_histories readers stateful core client authority context' t = (Inr h, u)"
  shows "unambiguous (eh_exposure h) \<and> unambiguous (eh_benchmark_exposure h)"
proof -
  from assms obtain exposure v where
    e: "fetch_stateful_exposure_history core authority readers
      \<lparr>pq_portfolio_id = af_portfolio_id stateful, pq_as_of_date = af_as_of_date stateful,
       pq_start_date = rx_start_date context', pq_reporting_currency = af_reporting_currency stateful,
       pq_grouping_dimensions = at_grouping_dimensions (af_options stateful)\<rparr> t = (Inr exposure, v)"
    and rest: "(if \<not> requires_active_attribution (af_options stateful)
      then return_io \<lparr>eh_exposure = exposure, eh_benchmark_exposure = [], eh_benchmark_identity = None\<rparr>
      else bind_io (fetch_active_benchmark_exposure_history client authority readers stateful
          (rx_benchmark_returns context') (rx_start_date context') (at_grouping_dimensions (af_options stateful)))
        (\<lambda>(history, identity). return_io \<lparr>eh_exposure = exposure, eh_benchmark_exposure = history,
          eh_benchmark_identity = Some identity\<rparr>)) v = (Inr h, u)"
    unfolding stateful_exposure_histories_def by (auto elim!: bind_io_InrE)
  from e obtain rows gs issuers where "build_exposure_points readers rows gs issuers = Inr exposure"
    by (auto simp: fetch_stateful_exposure_history_def validated_exposure_history_def lift_io_def result_simps
        elim!: bind_io_InrE split: if_splits)
  from exposure_points_ordered [OF this] have "unambiguous exposure"
    by (intro distinct_unambiguous) (simp add: strict_sorted_iff)
  moreover have "unambiguous []" by (simp add: unambiguous_def)
  moreover have "unambiguous history"
    if "fetch_active_benchmark_exposure_history client authority readers stateful returns start ds w = (Inr (history, identity), x)"
    for returns start ds w history identity x
    using that by (auto simp: fetch_active_benchmark_exposure_history_def return_io_def
        elim!: bind_io_InrE intro!: distinct_unambiguous dest!: history_Inr)
  ultimately show ?thesis
    using rest by (auto simp: return_io_def elim!: bind_io_InrE split: if_splits)
qed

lemma resolved_inputsE:
  assumes "resolve_stateful_attribution_inputs ext stateful client core authority t = (Inr inputs, u)"
  obtains "al_periods (rn_stateless_input inputs) = af_periods stateful"
    "rq_as_of_date (al_scope (rn_stateless_input inputs)) = af_as_of_date stateful"
    "al_options (rn_stateless_input inputs) = af_options stateful"
    "validate_attribution_stateless (rn_stateless_input inputs) = Inr ()" "al_returns (rn_stateless_input inputs) \<noteq> []"
    "unambiguous (al_exposure_history (rn_stateless_input inputs))"
    "unambiguous (al_benchmark_exposure_history (rn_stateless_input inputs))"
    "evidence_covers (rn_stateless_input inputs) (rn_group_evidence inputs)"
proof -
  let ?ds = "evidence_grouping_dimensions (af_options stateful)"
  from assms obtain context' t1 t2 t3 t4 histories found request where
    returns: "fetch_stateful_returns_context (xt_readers ext) stateful client authority t1 = (Inr context', t2)"
    and histories: "stateful_exposure_histories (xt_readers ext) stateful core client authority context' t2 = (Inr histories, t3)"
    and found: "(if ?ds = [] then return_io None
         else bind_io (fetch_group_evidence ext client authority \<lparr>es_stateful = stateful,
           es_portfolio_returns = rx_portfolio_returns context', es_benchmark_returns = rx_benchmark_returns context',
           es_histories = histories\<rparr> ?ds) (\<lambda>found. return_io (Some found))) t3 = (Inr found, t4)"
    and request: "build_stateful_stateless_input (xt_readers ext) stateful context' histories = Inr request"
    and inputs: "rn_stateless_input inputs = request" "rn_group_evidence inputs = map_option rg_evidence found"
    unfolding resolve_stateful_attribution_inputs_def Let_def
    by (auto simp: lift_io_def return_io_def elim!: bind_io_InrE)
  from request have fields: "al_periods request = af_periods stateful" "rq_as_of_date (al_scope request) = af_as_of_date stateful"
    "al_options request = af_options stateful" "al_returns request = rx_portfolio_returns context'"
    "al_exposure_history request = eh_exposure histories" "al_benchmark_exposure_history request = eh_benchmark_exposure histories"
    and valid: "validate_attribution_stateless request = Inr ()"
    by (auto simp: build_stateful_stateless_input_def Let_def validated_Inr_iff)
  have names: "distinct (map period_name (af_periods stateful))" using unique_period_names [OF valid] fields by simp
  have "evidence_covers request (rn_group_evidence inputs)"
  proof (cases "?ds = []")
    case True
    with found show ?thesis by (auto simp: inputs return_io_def evidence_covers_def)
  next
    case False
    with found obtain f where f: "fetch_group_evidence ext client authority \<lparr>es_stateful = stateful,
           es_portfolio_returns = rx_portfolio_returns context', es_benchmark_returns = rx_benchmark_returns context',
           es_histories = histories\<rparr> ?ds t3 = (Inr f, t4)" and "found = Some f"
      by (auto simp: return_io_def elim!: bind_io_InrE)
    with group_evidence_covers [OF f] names fields show ?thesis by (simp add: inputs)
  qed
  with that fields valid context_returns [OF returns] histories_unambiguous [OF histories] show thesis by (simp add: inputs)
qed

text \<open>C39: The inputs a stateful report has resolved always suffice.  No weight in them is contradictory, and the
  evidence admitted for a period and dimension has an observation of every group on every date the
  calculation reads, whatever the peers answered: the calculation is refused only when a requested period
  does not resolve or the annualization basis is no float.  Otherwise every requested period and set is
  answered, on the basis the evidence supports.\<close>

theorem resolved_inputs_suffice:
  assumes "attribution_laws ops"
    and "resolve_stateful_attribution_inputs ext stateful client core authority t = (Inr inputs, u)"
  shows "case attribution_from_inputs ops fp inputs of
      Inl e \<Rightarrow> e = Escaped ''OverflowError'' \<or>
        (\<exists>p\<in>set (af_periods stateful).
          resolve_period p (af_as_of_date stateful) (open_date_of (al_returns (rn_stateless_input inputs))) = Inl e)
    | Inr response \<Rightarrow> list_all2 (answers_attribution (rn_stateless_input inputs) (rn_group_evidence inputs))
        (af_periods stateful) (ap_results response)"
  using assms(2)
proof (rule resolved_inputsE)
  let ?request = "rn_stateless_input inputs"
  let ?run = "calculate_historical_attribution ops (fingerprints.truncate fp) ?request AttributionStateful (rn_group_evidence inputs)"
  assume fields: "al_periods ?request = af_periods stateful" "rq_as_of_date (al_scope ?request) = af_as_of_date stateful"
    and valid: "validate_attribution_stateless ?request = Inr ()" and ne: "al_returns ?request \<noteq> []"
    and clear: "unambiguous (al_exposure_history ?request)" "unambiguous (al_benchmark_exposure_history ?request)"
    and covers: "evidence_covers ?request (rn_group_evidence inputs)"
  show ?thesis
  proof (cases ?run)
    case (Inl e)
    from calculation_fails [OF Inl ne assms(1) covers] clear fields show ?thesis
      by (auto simp: attribution_from_inputs_def Inl attribution_failure_def)
  next
    case (Inr response)
    from attribution_answers [OF Inr valid ne] fields show ?thesis
      by (simp add: attribution_from_inputs_def Inr attach_stateful_lineage_def)
  qed
qed

section \<open>An example\<close>

definition example_core :: core_client where
  "example_core = \<lparr>cc_peer = (\<lambda>_. Response 200 (JsonBody (JObject [(''rows'', JArray
       [JObject (sample_position ''S1'' ''TECH'' 3), JObject (sample_position ''S2'' ''BOND'' 1)])]))), cc_base_url = []\<rparr>"

definition example_attribution_stateful :: attribution_stateful_input where
  "example_attribution_stateful =
     \<lparr>af_portfolio_id = ''P1'', af_as_of_date = Date 2026 3 31, af_client_id = None, af_reporting_currency = None,
      af_net_or_gross = Net, af_periods = [example_year 2026],
      af_options = \<lparr>at_attribution_types = [TotalRisk], at_metrics = [VolatilityMetric],
        at_grouping_dimensions = [BySector], at_annualization_basis = 252, at_strict_observations = True\<rparr>\<rparr>"

definition example_external :: external_readers where
  "example_external = \<lparr>xt_readers = sample_readers, xt_floats = no_float_texts, xt_new_id = (\<lambda>t. ''id'')\<rparr>"

lemma example_context:
  "\<exists>payload u. fetch_stateful_returns_context sample_readers example_attribution_stateful daily_client authority t =
     (Inr \<lparr>rx_returns_request = payload, rx_portfolio_returns = [daily_point], rx_benchmark_returns = [],
       rx_start_date = Date 2026 1 2\<rparr>, u)"
proof -
  obtain payload where payload: "build_stateful_returns_series_request (attribution_returns_query example_attribution_stateful) = Inr payload"
    by (simp add: build_stateful_returns_series_request_def attribution_returns_query_def example_attribution_stateful_def daily_window)
  obtain u where "execute_returns_series_request daily_client payload authority t = (Inr daily_answer, u)"
    using daily_client_answers by blast
  moreover have "\<not> requires_active_attribution (af_options example_attribution_stateful)"
    by (simp add: requires_active_attribution_def example_attribution_stateful_def)
  ultimately show ?thesis
    using payload by (intro exI [of _ payload] exI [of _ u])
      (simp add: fetch_stateful_returns_context_def bind_io_def lift_io_def read_returns_context_def daily_answer_returns
        json_get_def to_return_points_def open_date_of_def daily_point_def raise_if_def)
qed

lemma example_histories:
  "\<exists>u. stateful_exposure_histories sample_readers example_attribution_stateful example_core client authority
     \<lparr>rx_returns_request = payload, rx_portfolio_returns = [daily_point], rx_benchmark_returns = [],
       rx_start_date = Date 2026 1 2\<rparr> t =
     (Inr \<lparr>eh_exposure = [sample_exposure ''BOND'' (1 / 4), sample_exposure ''TECH'' (3 / 4)],
       eh_benchmark_exposure = [], eh_benchmark_identity = None\<rparr>, u)"
proof -
  let ?q = "\<lparr>pq_portfolio_id = ''P1'', pq_as_of_date = Date 2026 3 31, pq_start_date = Date 2026 1 2,
    pq_reporting_currency = None, pq_grouping_dimensions = [BySector]\<rparr>"
  let ?rows = "[sample_position ''S1'' ''TECH'' 3, sample_position ''S2'' ''BOND'' 1]"
  let ?answer = "[(''rows'', JArray [JObject (sample_position ''S1'' ''TECH'' 3), JObject (sample_position ''S2'' ''BOND'' 1)])]"
  obtain payload where payload: "risk_core_payload (position_timeseries_payload ?q None) = Inr payload"
    by (simp add: risk_core_payload_def position_timeseries_payload_def RISK_CONSUMER_SYSTEM_def)
  have "\<exists>u. execute_with_client example_core ''POST'' path operation payload headers t = (Inr ?answer, u)" for path operation headers
    by (simp add: execute_with_client_def execute_downstream_request_json_def execute_downstream_request_def bind_io_def
        return_io_def record_upstream_request_def emit_event_def example_core_def dict_payload_def response_json_def)
  then obtain u where "get_position_analytics_timeseries example_core ''P1'' (position_timeseries_payload ?q None) authority t =
      (Inr ?answer, u)"
    using payload unfolding get_position_analytics_timeseries_def execute_lotus_core_tenant_scoped_request_def bind_io_def lift_io_def
    by fastforce
  moreover have "absorb_position_page ''P1'' \<lparr>ps_rows = [], ps_page_count = 0\<rparr> ?answer =
      Inr (\<lparr>ps_rows = ?rows, ps_page_count = 1\<rparr>, None)"
    by (simp add: absorb_position_page_def extract_position_rows_batch_def json_get_def POSITION_TIMESERIES_MAX_ROWS_def
        next_position_page_token_def Let_def)
  ultimately have page: "read_position_page example_core authority ?q \<lparr>ps_rows = [], ps_page_count = 0\<rparr> None t =
      (Inr (\<lparr>ps_rows = ?rows, ps_page_count = 1\<rparr>, None), u)"
    by (simp add: read_position_page_def bind_io_def lift_io_def)
  obtain n where n: "POSITION_TIMESERIES_MAX_PAGES = Suc n"
    by (simp add: POSITION_TIMESERIES_MAX_PAGES_def eval_nat_numeral)
  have "fetch_position_timeseries_rows example_core authority ?q t = (Inr ?rows, u)"
    unfolding fetch_position_timeseries_rows_def n read_position_pages.simps
    using page by (simp add: bind_io_def return_io_def)
  then have "fetch_stateful_exposure_history example_core authority sample_readers ?q t =
      (Inr [sample_exposure ''BOND'' (1 / 4), sample_exposure ''TECH'' (3 / 4)], u)"
    by (simp add: fetch_stateful_exposure_history_def bind_io_def lift_io_def return_io_def raise_if_def
        validated_exposure_history_def sample_exposure_points)
  then show ?thesis
    by (auto simp: stateful_exposure_histories_def example_attribution_stateful_def bind_io_def return_io_def requires_active_attribution_def)
qed

lemma example_resolution:
  "\<exists>inputs u. resolve_stateful_attribution_inputs example_external example_attribution_stateful daily_client example_core
     sample_authority [] = (Inr inputs, u)"
proof -
  obtain payload u where context': "fetch_stateful_returns_context sample_readers example_attribution_stateful daily_client sample_authority [] =
     (Inr \<lparr>rx_returns_request = payload, rx_portfolio_returns = [daily_point], rx_benchmark_returns = [],
       rx_start_date = Date 2026 1 2\<rparr>, u)"
    using example_context by blast
  obtain v where histories: "stateful_exposure_histories sample_readers example_attribution_stateful example_core daily_client sample_authority
     \<lparr>rx_returns_request = payload, rx_portfolio_returns = [daily_point], rx_benchmark_returns = [],
       rx_start_date = Date 2026 1 2\<rparr> u =
     (Inr \<lparr>eh_exposure = [sample_exposure ''BOND'' (1 / 4), sample_exposure ''TECH'' (3 / 4)],
       eh_benchmark_exposure = [], eh_benchmark_identity = None\<rparr>, v)"
    using example_histories by blast
  have window: "resolve_period (example_year 2026) (Date 2026 3 31) (Date 2026 1 2) = Inr (Date 2026 1 2, Date 2026 12 31)"
    by (rule example_year_resolved)
  have "open_date_of [daily_point] = Date 2026 1 2" "length (window_return_points [daily_point] a b) < 2" for a b
    by (simp_all add: open_date_of_def daily_point_def window_return_points_def)
  with window have evidence: "fetch_group_evidence example_external daily_client sample_authority
      \<lparr>es_stateful = example_attribution_stateful, es_portfolio_returns = [daily_point], es_benchmark_returns = [],
       es_histories = h\<rparr> ds t =
      (Inr \<lparr>rg_evidence = [], rg_contribution_requests = [], rg_active_requests = []\<rparr>, t)" for h ds t
    by (simp add: fetch_group_evidence_def example_attribution_stateful_def bind_io_def lift_io_def return_io_def)
  have "validate_unique_period_names [example_year 2026] = Inr ()"
    "validate_unique_return_dates [daily_point] ''returns'' = Inr ()"
    "validate_unique_return_dates [] ''benchmark_returns'' = Inr ()"
    by code_simp+
  then have valid: "\<exists>request. build_stateful_stateless_input sample_readers example_attribution_stateful
      \<lparr>rx_returns_request = payload, rx_portfolio_returns = [daily_point], rx_benchmark_returns = [], rx_start_date = Date 2026 1 2\<rparr>
      histories = Inr request" for histories
    by (simp add: build_stateful_stateless_input_def example_attribution_stateful_def validate_attribution_stateless_def
        validate_active_attribution_inputs_def requires_active_attribution_def Let_def)
  have "validate_stateful_groupings (at_grouping_dimensions (af_options example_attribution_stateful)) = Inr ()"
    by (simp add: validate_stateful_groupings_def example_attribution_stateful_def raise_if_def)
  moreover obtain request where "build_stateful_stateless_input sample_readers example_attribution_stateful
      \<lparr>rx_returns_request = payload, rx_portfolio_returns = [daily_point], rx_benchmark_returns = [], rx_start_date = Date 2026 1 2\<rparr>
      \<lparr>eh_exposure = [sample_exposure ''BOND'' (1 / 4), sample_exposure ''TECH'' (3 / 4)],
       eh_benchmark_exposure = [], eh_benchmark_identity = None\<rparr> = Inr request"
    using valid by blast
  moreover have "xt_readers example_external = sample_readers" by (simp add: example_external_def)
  ultimately show ?thesis
    using context' histories evidence
    by (simp add: resolve_stateful_attribution_inputs_def Let_def bind_io_def lift_io_def return_io_def)
qed

theorem resolved_inputs_suffice_witness:
  "\<exists>inputs u. resolve_stateful_attribution_inputs example_external example_attribution_stateful daily_client example_core
       sample_authority [] = (Inr inputs, u) \<and>
     (case attribution_from_inputs reference_attribution_ops
         (fingerprints.extend example_digests \<lparr>fp_calculation = (\<lambda>request evidence. ''c'')\<rparr>) inputs of
        Inl e \<Rightarrow> e = Escaped ''OverflowError'' \<or>
          (\<exists>p\<in>{example_year 2026}.
            resolve_period p (Date 2026 3 31) (open_date_of (al_returns (rn_stateless_input inputs))) = Inl e)
      | Inr response \<Rightarrow> list_all2 (answers_attribution (rn_stateless_input inputs) (rn_group_evidence inputs))
          [example_year 2026] (ap_results response))"
proof -
  obtain inputs u where run: "resolve_stateful_attribution_inputs example_external example_attribution_stateful daily_client
      example_core sample_authority [] = (Inr inputs, u)"
    using example_resolution by blast
  have fields: "af_periods example_attribution_stateful = [example_year 2026]"
    "af_as_of_date example_attribution_stateful = Date 2026 3 31"
    by (simp_all add: example_attribution_stateful_def)
  show ?thesis
    using run resolved_inputs_suffice [OF reference_attribution_laws run, unfolded fields list.set] by (intro exI conjI)
qed

end
