(* ===== verification/RollingMetrics.thy ===== *)
theory RollingMetrics
  imports Main RiskPeriods
begin

text \<open>
  Rolling metrics of one period: the request (contracts/rolling_common_inputs.py,
  contracts/rolling_stateless_inputs.py), the series of a metric (services/rolling_metric_series.py,
  services/rolling_benchmark_metric_series.py, services/rolling_max_drawdown_series.py), its summary and
  points (services/rolling_metric_outputs.py) and the results of the windows
  (services/rolling_window_calculation.py).  A value of a series is \<open>None\<close> where pandas has NaN.
\<close>

section \<open>Requests\<close>

datatype rolling_metric =
  RollingVolatility | RollingSharpe | RollingBeta | RollingTrackingError | RollingInformationRatio
| RollingMaxDrawdown

definition ROLLING_MAX_PERIODS :: nat where "ROLLING_MAX_PERIODS = 12"

definition ROLLING_MAX_STATELESS_OBSERVATIONS :: nat where "ROLLING_MAX_STATELESS_OBSERVATIONS = 2500"

definition ROLLING_MAX_TIME_SERIES_POINTS :: nat where "ROLLING_MAX_TIME_SERIES_POINTS = 10000"

definition ROLLING_MAX_WINDOW_COUNT :: nat where "ROLLING_MAX_WINDOW_COUNT = 8"

definition ROLLING_MAX_WINDOW_LENGTH :: int where "ROLLING_MAX_WINDOW_LENGTH = 756"

definition ROLLING_BENCHMARK_METRICS :: "rolling_metric list" where
  "ROLLING_BENCHMARK_METRICS = [RollingBeta, RollingTrackingError, RollingInformationRatio]"

definition ROLLING_METRIC_UNIT_SEMANTICS :: "(rolling_metric \<times> string) list" where
  "ROLLING_METRIC_UNIT_SEMANTICS =
     [(RollingVolatility, ''decimal_ratio''), (RollingSharpe, ''unitless''), (RollingBeta, ''unitless''),
      (RollingTrackingError, ''decimal_ratio''), (RollingInformationRatio, ''unitless''),
      (RollingMaxDrawdown, ''decimal_ratio'')]"

definition rolling_metric_name :: "rolling_metric \<Rightarrow> string" where
  "rolling_metric_name m =
     (case m of
        RollingVolatility \<Rightarrow> ''ROLLING_VOLATILITY'' | RollingSharpe \<Rightarrow> ''ROLLING_SHARPE''
      | RollingBeta \<Rightarrow> ''ROLLING_BETA'' | RollingTrackingError \<Rightarrow> ''ROLLING_TRACKING_ERROR''
      | RollingInformationRatio \<Rightarrow> ''ROLLING_INFORMATION_RATIO'' | RollingMaxDrawdown \<Rightarrow> ''ROLLING_MAX_DRAWDOWN'')"

record rolling_options =
  lo_window_lengths :: "int list"
  lo_metrics :: "rolling_metric list"
  lo_annualization_basis :: int
  lo_strict_observations :: bool
  lo_include_time_series :: bool

record rolling_stateless_input =
  li_scope :: risk_scope
  li_periods :: "risk_period list"
  li_returns :: "return_point list"
  li_benchmark_returns :: "return_point list"
  li_risk_free_returns :: "return_point list"
  li_options :: rolling_options

definition validate_window_lengths :: "rolling_options \<Rightarrow> (string, unit) result" where
  "validate_window_lengths opts =
     (let windows = lo_window_lengths opts in
      if windows = [] then Inl ''window_lengths must contain at least one window''
      else if \<exists>w\<in>set windows. w \<le> 1 then Inl ''window_lengths must be greater than 1''
      else if \<exists>w\<in>set windows. ROLLING_MAX_WINDOW_LENGTH < w
        then Inl (''window_lengths must be less than or equal to '' @ str_int ROLLING_MAX_WINDOW_LENGTH)
      else raise_if (\<not> distinct windows) ''window_lengths must be unique'')"

definition validate_rolling_time_series_workload :: "nat \<Rightarrow> nat \<Rightarrow> nat \<Rightarrow> bool \<Rightarrow> (string, unit) result" where
  "validate_rolling_time_series_workload periods windows observations include_time_series =
     raise_if (include_time_series \<and>
         ROLLING_MAX_TIME_SERIES_POINTS < periods * windows * observations)
       (''include_time_series workload exceeds supported maximum '' @
        str_int (int ROLLING_MAX_TIME_SERIES_POINTS) @ '' emitted points'')"

definition validate_rolling_stateless_dependencies ::
  "rolling_metric list \<Rightarrow> return_point list \<Rightarrow> return_point list \<Rightarrow> (string, unit) result"
where
  "validate_rolling_stateless_dependencies requested benchmark_returns risk_free_returns =
     (if (\<exists>m\<in>set requested. m \<in> set ROLLING_BENCHMARK_METRICS) \<and> benchmark_returns = []
      then Inl ''benchmark_returns are required when requesting rolling benchmark-dependent metrics''
      else raise_if (RollingSharpe \<in> set requested \<and> risk_free_returns = [])
        ''risk_free_returns are required when requesting ROLLING_SHARPE'')"

text \<open>The lengths and ranges of the fields; then the validators, those of the options first.\<close>

definition rolling_option_fields :: "rolling_options \<Rightarrow> bool" where
  "rolling_option_fields opts \<longleftrightarrow>
     length (lo_window_lengths opts) \<le> ROLLING_MAX_WINDOW_COUNT \<and> 1 \<le> lo_annualization_basis opts"

definition rolling_stateless_fields :: "rolling_stateless_input \<Rightarrow> bool" where
  "rolling_stateless_fields payload \<longleftrightarrow>
     length (li_periods payload) \<le> ROLLING_MAX_PERIODS \<and>
     length (li_returns payload) \<le> ROLLING_MAX_STATELESS_OBSERVATIONS \<and>
     length (li_benchmark_returns payload) \<le> ROLLING_MAX_STATELESS_OBSERVATIONS \<and>
     length (li_risk_free_returns payload) \<le> ROLLING_MAX_STATELESS_OBSERVATIONS"

definition validate_rolling_stateless :: "rolling_stateless_input \<Rightarrow> (string, unit) result" where
  "validate_rolling_stateless payload =
     bind_result (validate_unique_period_names (li_periods payload)) (\<lambda>_.
     bind_result (validate_unique_return_dates (li_returns payload) ''returns'') (\<lambda>_.
     bind_result (validate_unique_return_dates (li_benchmark_returns payload) ''benchmark_returns'') (\<lambda>_.
     bind_result (validate_unique_return_dates (li_risk_free_returns payload) ''risk_free_returns'') (\<lambda>_.
     bind_result (validate_rolling_time_series_workload (length (li_periods payload))
       (length (lo_window_lengths (li_options payload))) (length (li_returns payload))
       (lo_include_time_series (li_options payload))) (\<lambda>_.
       validate_rolling_stateless_dependencies (lo_metrics (li_options payload))
         (li_benchmark_returns payload) (li_risk_free_returns payload))))))"

section \<open>Windows\<close>

text \<open>
  What pandas computes over the trailing windows of a series, given the length of the window and the
  observations it needs: sample deviation, mean, sample variance and the covariance of two series, the
  mean and a quantile of a series.  Pandas gives a value exactly where the window, cut at the start of the
  series, has enough observations.
\<close>

record rolling_ops = risk_ops +
  lx_std :: "nat \<Rightarrow> nat \<Rightarrow> f64 list \<Rightarrow> f64 option list"
  lx_mean :: "nat \<Rightarrow> nat \<Rightarrow> f64 list \<Rightarrow> f64 option list"
  lx_var :: "nat \<Rightarrow> nat \<Rightarrow> f64 list \<Rightarrow> f64 option list"
  lx_cov :: "nat \<Rightarrow> nat \<Rightarrow> f64 list \<Rightarrow> f64 list \<Rightarrow> f64 option list"
  lx_average :: "f64 list \<Rightarrow> f64"
  lx_quantile :: "f64 list \<Rightarrow> f64 \<Rightarrow> f64"

definition windowed :: "nat \<Rightarrow> nat \<Rightarrow> 'a option list \<Rightarrow> bool" where
  "windowed n min_obs ys \<longleftrightarrow> length ys = n \<and> (\<forall>i<n. ys ! i = None \<longleftrightarrow> Suc i < min_obs)"

definition rolling_laws :: "rolling_ops \<Rightarrow> bool" where
  "rolling_laws ops \<longleftrightarrow>
     (\<forall>w m xs. 2 \<le> m \<longrightarrow> m \<le> w \<longrightarrow>
        windowed (length xs) m (lx_std ops w m xs) \<and> windowed (length xs) m (lx_mean ops w m xs) \<and>
        windowed (length xs) m (lx_var ops w m xs) \<and>
        (\<forall>ys. length ys = length xs \<longrightarrow> windowed (length xs) m (lx_cov ops w m xs ys)))"

lemma rolling_lawsD:
  assumes "rolling_laws ops" "2 \<le> m" "m \<le> w" "length xs = n"
  shows "windowed n m (lx_std ops w m xs)" "windowed n m (lx_mean ops w m xs)" "windowed n m (lx_var ops w m xs)"
    "length ys = n \<Longrightarrow> windowed n m (lx_cov ops w m xs ys)"
proof -
  note at_xs = assms(1) [unfolded rolling_laws_def, THEN spec, of w, THEN spec, of m, THEN spec, of xs,
      THEN mp, OF assms(2), THEN mp, OF assms(3), unfolded assms(4)]
  from at_xs show "windowed n m (lx_std ops w m xs)" "windowed n m (lx_mean ops w m xs)" "windowed n m (lx_var ops w m xs)"
    by simp_all
  from at_xs show "length ys = n \<Longrightarrow> windowed n m (lx_cov ops w m xs ys)" by simp
qed

definition rolling_numeric :: "rolling_ops \<Rightarrow> numeric_ops" where
  "rolling_numeric ops = numeric_ops.truncate ops"

definition trailing :: "nat \<Rightarrow> 'a list \<Rightarrow> nat \<Rightarrow> 'a list" where
  "trailing w xs i = drop (Suc i - w) (take (Suc i) xs)"

section \<open>The series of a metric\<close>

type_synonym metric_series = "(date \<times> f64 option) list"

record rolling_calculation =
  lc_values :: metric_series
  lc_flags :: "string list"
  lc_aligned_benchmark :: nat
  lc_aligned_risk_free :: nat

definition min_observations :: "nat \<Rightarrow> bool \<Rightarrow> nat" where
  "min_observations window_length strict = (if strict then window_length else 2)"

text \<open>The root of the annualization basis times the values; quotients without their infinities.\<close>

definition annualized :: "int \<Rightarrow> f64 option list \<Rightarrow> (calculation_error, f64 option list) result" where
  "annualized basis ys =
     bind_result (float_of_int basis) (\<lambda>b. Inr (map (map_option (\<lambda>y. fmul y (math_sqrt b))) ys))"

definition finite_quotient :: "f64 option \<Rightarrow> f64 option \<Rightarrow> f64 option" where
  "finite_quotient x y =
     (case (x, y) of (Some p, Some q) \<Rightarrow> if q = 0 then None else Some (fdiv p q) | _ \<Rightarrow> None)"

definition quotients :: "f64 option list \<Rightarrow> f64 option list \<Rightarrow> f64 option list" where
  "quotients xs ys = map2 finite_quotient xs ys"

definition differences :: "(date \<times> f64 \<times> f64) list \<Rightarrow> f64 list" where
  "differences aligned = map (\<lambda>(d, x, y). fsub x y) aligned"

definition rolling_volatility ::
  "rolling_ops \<Rightarrow> nat \<Rightarrow> int \<Rightarrow> nat \<Rightarrow> series \<Rightarrow> (calculation_error, metric_series) result"
where
  "rolling_volatility ops w basis min_obs s =
     bind_result (annualized basis (lx_std ops w min_obs (series_values s))) (\<lambda>ys.
       Inr (zip (series_dates s) ys))"

text \<open>A mean over a deviation of the differences, with a flag for the windows whose deviation is zero.\<close>

definition ratio_of_differences ::
  "rolling_ops \<Rightarrow> nat \<Rightarrow> int \<Rightarrow> nat \<Rightarrow> string \<Rightarrow> (date \<times> f64 \<times> f64) list \<Rightarrow>
     (calculation_error, metric_series \<times> string list) result"
where
  "ratio_of_differences ops w basis min_obs zero_flag aligned =
     (let active = differences aligned; deviation = lx_std ops w min_obs active in
      bind_result (annualized basis (quotients (lx_mean ops w min_obs active) deviation)) (\<lambda>ys.
        Inr (zip (map fst aligned) ys, if Some 0 \<in> set deviation then [zero_flag] else [])))"

definition rolling_sharpe ::
  "rolling_ops \<Rightarrow> nat \<Rightarrow> int \<Rightarrow> nat \<Rightarrow> series \<Rightarrow> series \<Rightarrow>
     (calculation_error, metric_series \<times> string list \<times> nat) result"
where
  "rolling_sharpe ops w basis min_obs portfolio risk_free =
     (let aligned = merge_inner portfolio risk_free in
      if aligned = [] then Inr ([], [''metric:ROLLING_SHARPE:alignment_empty''], 0)
      else bind_result (ratio_of_differences ops w basis min_obs ''metric:ROLLING_SHARPE:zero_volatility_window'' aligned)
        (\<lambda>(ys, flags). Inr (ys, flags, length aligned)))"

definition rolling_tracking_error ::
  "rolling_ops \<Rightarrow> nat \<Rightarrow> int \<Rightarrow> nat \<Rightarrow> (date \<times> f64 \<times> f64) list \<Rightarrow>
     (calculation_error, metric_series \<times> string list) result"
where
  "rolling_tracking_error ops w basis min_obs aligned =
     bind_result (annualized basis (lx_std ops w min_obs (differences aligned))) (\<lambda>ys.
       Inr (zip (map fst aligned) ys, []))"

definition rolling_information_ratio ::
  "rolling_ops \<Rightarrow> nat \<Rightarrow> int \<Rightarrow> nat \<Rightarrow> (date \<times> f64 \<times> f64) list \<Rightarrow>
     (calculation_error, metric_series \<times> string list) result"
where
  "rolling_information_ratio ops w basis min_obs aligned =
     ratio_of_differences ops w basis min_obs ''metric:ROLLING_INFORMATION_RATIO:zero_tracking_error_window'' aligned"

definition rolling_beta ::
  "rolling_ops \<Rightarrow> nat \<Rightarrow> nat \<Rightarrow> (date \<times> f64 \<times> f64) list \<Rightarrow> metric_series \<times> string list"
where
  "rolling_beta ops w min_obs aligned =
     (let portfolio = map (fst \<circ> snd) aligned; benchmark = map (snd \<circ> snd) aligned;
          variance = lx_var ops w min_obs benchmark
      in (zip (map fst aligned) (quotients (lx_cov ops w min_obs portfolio benchmark) variance),
          if Some 0 \<in> set variance then [''metric:ROLLING_BETA:benchmark_variance_zero''] else []))"

definition rolling_benchmark_metric ::
  "rolling_ops \<Rightarrow> rolling_metric \<Rightarrow> nat \<Rightarrow> int \<Rightarrow> nat \<Rightarrow> series \<Rightarrow> series \<Rightarrow>
     (calculation_error, metric_series \<times> string list \<times> nat) result"
where
  "rolling_benchmark_metric ops m w basis min_obs portfolio benchmark =
     (let aligned = merge_inner portfolio benchmark in
      if aligned = [] then Inr ([], [''metric:'' @ rolling_metric_name m @ '':alignment_empty''], 0)
      else bind_result
        (case m of
           RollingTrackingError \<Rightarrow> rolling_tracking_error ops w basis min_obs aligned
         | RollingInformationRatio \<Rightarrow> rolling_information_ratio ops w basis min_obs aligned
         | RollingBeta \<Rightarrow> Inr (rolling_beta ops w min_obs aligned)
         | _ \<Rightarrow> Inl (PlainValueError (''Unsupported rolling benchmark metric: '' @ rolling_metric_name m)))
        (\<lambda>(ys, flags). Inr (ys, flags, length aligned)))"

definition rolling_max_drawdown :: "numeric_ops \<Rightarrow> f64 list \<Rightarrow> f64" where
  "rolling_max_drawdown ops window_returns =
     (let wealth = np_cumprod ops (map (fadd 1) window_returns);
          peak = np_cummax ops (map (\<lambda>x. max x 1) wealth)
      in py_min (drawdown_path wealth peak))"

definition rolling_max_drawdown_metric :: "numeric_ops \<Rightarrow> nat \<Rightarrow> nat \<Rightarrow> series \<Rightarrow> metric_series" where
  "rolling_max_drawdown_metric ops w min_obs s =
     map (\<lambda>i. let window = trailing w (series_values s) i in
       (series_dates s ! i, if length window < min_obs then None else Some (rolling_max_drawdown ops window)))
       [0 ..< length s]"

record rolling_inputs =
  ln_portfolio :: series
  ln_benchmark :: series
  ln_risk_free :: series

definition calculate_rolling_metric_values ::
  "rolling_ops \<Rightarrow> rolling_inputs \<Rightarrow> nat \<Rightarrow> int \<Rightarrow> nat \<Rightarrow> rolling_metric \<Rightarrow>
     (calculation_error, rolling_calculation) result"
where
  "calculate_rolling_metric_values ops inputs w basis min_obs m =
     (let p = ln_portfolio inputs in
      case m of
        RollingVolatility \<Rightarrow> bind_result (rolling_volatility ops w basis min_obs p) (\<lambda>ys.
          Inr \<lparr>lc_values = ys, lc_flags = [], lc_aligned_benchmark = 0, lc_aligned_risk_free = 0\<rparr>)
      | RollingSharpe \<Rightarrow> bind_result (rolling_sharpe ops w basis min_obs p (ln_risk_free inputs)) (\<lambda>(ys, flags, n).
          Inr \<lparr>lc_values = ys, lc_flags = flags, lc_aligned_benchmark = 0, lc_aligned_risk_free = n\<rparr>)
      | RollingMaxDrawdown \<Rightarrow> Inr \<lparr>lc_values = rolling_max_drawdown_metric (rolling_numeric ops) w min_obs p,
          lc_flags = [], lc_aligned_benchmark = 0, lc_aligned_risk_free = 0\<rparr>
      | _ \<Rightarrow> bind_result (rolling_benchmark_metric ops m w basis min_obs p (ln_benchmark inputs)) (\<lambda>(ys, flags, n).
          Inr \<lparr>lc_values = ys, lc_flags = flags, lc_aligned_benchmark = n, lc_aligned_risk_free = 0\<rparr>))"

section \<open>Summaries and points\<close>

record metric_summary =
  lm_total_points :: nat
  lm_computed_points :: nat
  lm_coverage_ratio :: f64
  lm_min_observations :: nat
  lm_warmup_points :: nat
  lm_non_computed_points :: nat
  lm_gap_points :: nat
  lm_latest_date :: "date option"
  lm_latest :: "f64 option"
  lm_average :: "f64 option"
  lm_minimum :: "f64 option"
  lm_maximum :: "f64 option"
  lm_p05 :: "f64 option"
  lm_p50 :: "f64 option"
  lm_p95 :: "f64 option"

definition computed_points :: "metric_series \<Rightarrow> series" where
  "computed_points ys = List.map_filter (\<lambda>(d, y). map_option (Pair d) y) ys"

definition series_maximum :: "f64 list \<Rightarrow> f64" where
  "series_maximum xs = foldl max (hd xs) (tl xs)"

definition rolling_metric_summary :: "rolling_ops \<Rightarrow> nat \<Rightarrow> metric_series \<Rightarrow> metric_summary" where
  "rolling_metric_summary ops min_obs ys =
     (let clean = computed_points ys; vs = series_values clean;
          total' = length ys; computed = length clean;
          warmup = min total' (min_obs - 1); non_computed = total' - computed;
          shown = (\<lambda>x :: f64. if clean = [] then None else Some x)
      in \<lparr>lm_total_points = total', lm_computed_points = computed,
          lm_coverage_ratio = (if clean = [] then 0 else fdiv (of_nat computed) (of_nat total')),
          lm_min_observations = min_obs, lm_warmup_points = warmup, lm_non_computed_points = non_computed,
          lm_gap_points = non_computed - warmup,
          lm_latest_date = (if clean = [] then None else Some (fst (last clean))), lm_latest = shown (snd (last clean)),
          lm_average = shown (lx_average ops vs), lm_minimum = shown (py_min vs), lm_maximum = shown (series_maximum vs),
          lm_p05 = shown (lx_quantile ops vs (flit (5 / 100))), lm_p50 = shown (lx_quantile ops vs (flit (50 / 100))),
          lm_p95 = shown (lx_quantile ops vs (flit (95 / 100)))\<rparr>)"

type_synonym metric_points = "(date, (rolling_metric, f64 option) dict) dict"

definition add_observation :: "rolling_metric \<Rightarrow> date \<times> f64 option \<Rightarrow> metric_points \<Rightarrow> metric_points" where
  "add_observation m row points =
     AList.update (fst row) (AList.update m (snd row) (dict_get points (fst row) [])) points"

definition rolling_metric_series_points :: "(rolling_metric, metric_series) dict \<Rightarrow> metric_points" where
  "rolling_metric_series_points metric_series_map =
     (let points = fold (\<lambda>(m, ys). fold (add_observation m) ys) metric_series_map []
      in map (\<lambda>d. (d, dict_get points d [])) (sort (dict_keys points)))"

datatype series_reason = SeriesIncluded | SeriesOmitted | SeriesNone

record series_context =
  lk_requested :: bool
  lk_included :: bool
  lk_emitted_points :: nat
  lk_reason :: series_reason

definition rolling_metric_series_context :: "bool \<Rightarrow> metric_points option \<Rightarrow> series_context" where
  "rolling_metric_series_context include_time_series metric_points =
     (let emitted = length (case metric_points of None \<Rightarrow> [] | Some ps \<Rightarrow> ps) in
      if \<not> include_time_series
      then \<lparr>lk_requested = False, lk_included = False, lk_emitted_points = 0, lk_reason = SeriesOmitted\<rparr>
      else if emitted = 0
      then \<lparr>lk_requested = True, lk_included = False, lk_emitted_points = 0, lk_reason = SeriesNone\<rparr>
      else \<lparr>lk_requested = True, lk_included = True, lk_emitted_points = emitted, lk_reason = SeriesIncluded\<rparr>)"

section \<open>The windows of a period\<close>

record window_result =
  lw_window_length :: int
  lw_summaries :: "(rolling_metric, metric_summary) dict"
  lw_series :: "metric_points option"
  lw_series_context :: series_context

record window_aggregate =
  lg_series_map :: "(rolling_metric, metric_series) dict"
  lg_flags :: "string list"
  lg_aligned_benchmark :: nat
  lg_aligned_risk_free :: nat

definition empty_aggregate :: window_aggregate where
  "empty_aggregate = \<lparr>lg_series_map = [], lg_flags = [], lg_aligned_benchmark = 0, lg_aligned_risk_free = 0\<rparr>"

definition add_metric :: "rolling_metric \<Rightarrow> rolling_calculation \<Rightarrow> window_aggregate \<Rightarrow> window_aggregate" where
  "add_metric m c a =
     \<lparr>lg_series_map = AList.update m (lc_values c) (lg_series_map a), lg_flags = lg_flags a @ lc_flags c,
      lg_aligned_benchmark = max (lg_aligned_benchmark a) (lc_aligned_benchmark c),
      lg_aligned_risk_free = max (lg_aligned_risk_free a) (lc_aligned_risk_free c)\<rparr>"

fun window_metric_aggregate ::
  "rolling_ops \<Rightarrow> rolling_inputs \<Rightarrow> nat \<Rightarrow> int \<Rightarrow> nat \<Rightarrow> rolling_metric list \<Rightarrow> window_aggregate \<Rightarrow>
     (calculation_error, window_aggregate) result"
where
  "window_metric_aggregate ops inputs w basis min_obs [] a = Inr a"
| "window_metric_aggregate ops inputs w basis min_obs (m # ms) a =
     bind_result (calculate_rolling_metric_values ops inputs w basis min_obs m) (\<lambda>c.
       window_metric_aggregate ops inputs w basis min_obs ms (add_metric m c a))"

definition rolling_window_result :: "rolling_ops \<Rightarrow> rolling_options \<Rightarrow> int \<Rightarrow> nat \<Rightarrow> window_aggregate \<Rightarrow> window_result" where
  "rolling_window_result ops opts window_length min_obs a =
     (let points = (if lo_include_time_series opts then Some (rolling_metric_series_points (lg_series_map a)) else None)
      in \<lparr>lw_window_length = window_length,
          lw_summaries = map (\<lambda>(m, ys). (m, rolling_metric_summary ops min_obs ys)) (lg_series_map a),
          lw_series = points,
          lw_series_context = rolling_metric_series_context (lo_include_time_series opts) points\<rparr>)"

definition calculate_window_result ::
  "rolling_ops \<Rightarrow> rolling_inputs \<Rightarrow> rolling_options \<Rightarrow> rolling_metric list \<Rightarrow> int \<Rightarrow>
     (calculation_error, window_result \<times> window_aggregate) result"
where
  "calculate_window_result ops inputs opts requested window_length =
     (let min_obs = min_observations (nat window_length) (lo_strict_observations opts) in
      bind_result (window_metric_aggregate ops inputs (nat window_length) (lo_annualization_basis opts) min_obs
        requested empty_aggregate) (\<lambda>a. Inr (rolling_window_result ops opts window_length min_obs a, a)))"

record period_windows =
  lv_results :: "window_result list"
  lv_flags :: "string list"
  lv_aligned_benchmark :: nat
  lv_aligned_risk_free :: nat

text \<open>The sets of flags are kept as lists; they are read as sets only.\<close>

fun rolling_period_windows ::
  "rolling_ops \<Rightarrow> rolling_inputs \<Rightarrow> rolling_options \<Rightarrow> rolling_metric list \<Rightarrow> int list \<Rightarrow> period_windows \<Rightarrow>
     (calculation_error, period_windows) result"
where
  "rolling_period_windows ops inputs opts requested [] v = Inr v"
| "rolling_period_windows ops inputs opts requested (w # ws) v =
     bind_result (calculate_window_result ops inputs opts requested w) (\<lambda>(r, a).
       rolling_period_windows ops inputs opts requested ws
         \<lparr>lv_results = lv_results v @ [r], lv_flags = lv_flags v @ lg_flags a,
          lv_aligned_benchmark = max (lv_aligned_benchmark v) (lg_aligned_benchmark a),
          lv_aligned_risk_free = max (lv_aligned_risk_free v) (lg_aligned_risk_free a)\<rparr>)"

definition rolling_period_window_aggregate ::
  "rolling_ops \<Rightarrow> rolling_inputs \<Rightarrow> rolling_options \<Rightarrow> rolling_metric list \<Rightarrow> (calculation_error, period_windows) result"
where
  "rolling_period_window_aggregate ops inputs opts requested =
     rolling_period_windows ops inputs opts requested (lo_window_lengths opts)
       \<lparr>lv_results = [], lv_flags = [], lv_aligned_benchmark = 0, lv_aligned_risk_free = 0\<rparr>"

section \<open>Which values are missing\<close>

text \<open>
  A metric is defined on the dates its series have in common.  Its first values are missing, and beyond
  those only the ones a zero deviation or variance divides, which a flag of the metric announces.
\<close>

definition metric_dates :: "rolling_inputs \<Rightarrow> rolling_metric \<Rightarrow> date list" where
  "metric_dates inputs m =
     (if m = RollingSharpe then map fst (merge_inner (ln_portfolio inputs) (ln_risk_free inputs))
      else if m \<in> set ROLLING_BENCHMARK_METRICS then map fst (merge_inner (ln_portfolio inputs) (ln_benchmark inputs))
      else series_dates (ln_portfolio inputs))"

definition zero_flag :: "rolling_metric \<Rightarrow> string option" where
  "zero_flag m =
     (case m of
        RollingSharpe \<Rightarrow> Some ''metric:ROLLING_SHARPE:zero_volatility_window''
      | RollingInformationRatio \<Rightarrow> Some ''metric:ROLLING_INFORMATION_RATIO:zero_tracking_error_window''
      | RollingBeta \<Rightarrow> Some ''metric:ROLLING_BETA:benchmark_variance_zero''
      | _ \<Rightarrow> None)"

definition warmed :: "nat \<Rightarrow> nat \<Rightarrow> 'a option list \<Rightarrow> bool" where
  "warmed n min_obs ys \<longleftrightarrow> length ys = n \<and> (\<forall>i<n. Suc i < min_obs \<longrightarrow> ys ! i = None)"

definition gaps :: "nat \<Rightarrow> 'a option list \<Rightarrow> bool" where
  "gaps min_obs ys \<longleftrightarrow> (\<exists>i<length ys. min_obs \<le> Suc i \<and> ys ! i = None)"

lemma windowed_warmed: "windowed n mo ys \<Longrightarrow> warmed n mo ys \<and> \<not> gaps mo ys"
  by (auto simp: windowed_def warmed_def gaps_def)

lemma warmed_map [simp]: "warmed n mo (map (map_option f) ys) \<longleftrightarrow> warmed n mo ys"
  "gaps mo (map (map_option f) ys) \<longleftrightarrow> gaps mo ys"
  by (auto simp: warmed_def gaps_def)

lemma quotients_gaps:
  assumes "windowed n mo xs" "windowed n mo ys"
  shows "warmed n mo (quotients xs ys)" "gaps mo (quotients xs ys) \<longleftrightarrow> Some 0 \<in> set ys"
proof -
  have len: "length xs = n" "length ys = n" using assms by (simp_all add: windowed_def)
  have at_nth: "quotients xs ys ! i = finite_quotient (xs ! i) (ys ! i)" if "i < n" for i
    using that len by (simp add: quotients_def)
  have missing: "finite_quotient (xs ! i) (ys ! i) = None \<longleftrightarrow> Suc i < mo \<or> ys ! i = Some 0" if "i < n" for i
    using that assms by (auto simp: windowed_def finite_quotient_def split: option.splits)
  show "warmed n mo (quotients xs ys)"
    using at_nth missing len by (auto simp: warmed_def quotients_def)
  have "mo \<le> Suc i" if "i < n" "ys ! i = Some 0" for i
    using that assms(2) by (force simp: windowed_def)
  moreover have "length (quotients xs ys) = n" using len by (simp add: quotients_def)
  ultimately show "gaps mo (quotients xs ys) \<longleftrightarrow> Some 0 \<in> set ys"
    using at_nth missing len unfolding gaps_def in_set_conv_nth by (metis not_less)
qed

lemma annualized_gaps:
  "annualized basis ys = Inr zs \<Longrightarrow> (warmed n mo zs \<longleftrightarrow> warmed n mo ys) \<and> (gaps mo zs \<longleftrightarrow> gaps mo ys)"
  by (auto simp: annualized_def result_simps)

lemma annualized_length: "annualized basis ys = Inr zs \<Longrightarrow> length zs = length ys"
  by (auto simp: annualized_def result_simps)

lemma length_trailing [simp]: "i < length xs \<Longrightarrow> length (trailing w xs i) = min (Suc i) w"
  by (simp add: trailing_def)

lemma drawdown_metric_windowed:
  "mo \<le> w \<Longrightarrow> windowed (length s) mo (map snd (rolling_max_drawdown_metric ops w mo s))"
  by (auto simp: windowed_def rolling_max_drawdown_metric_def series_values_def Let_def)

lemma drawdown_metric_dates [simp]: "map fst (rolling_max_drawdown_metric ops w mo s) = series_dates s"
  by (rule nth_equalityI) (auto simp: rolling_max_drawdown_metric_def series_dates_def Let_def)


text \<open>What the calculation of one metric gives.\<close>

definition describes_metric :: "rolling_inputs \<Rightarrow> nat \<Rightarrow> rolling_metric \<Rightarrow> rolling_calculation \<Rightarrow> bool" where
  "describes_metric inputs min_obs m c \<longleftrightarrow>
     map fst (lc_values c) = metric_dates inputs m \<and>
     warmed (length (metric_dates inputs m)) min_obs (map snd (lc_values c)) \<and>
     (\<forall>m' f. zero_flag m' = Some f \<longrightarrow> (f \<in> set (lc_flags c) \<longleftrightarrow> m' = m \<and> gaps min_obs (map snd (lc_values c)))) \<and>
     (zero_flag m = None \<longrightarrow> \<not> gaps min_obs (map snd (lc_values c))) \<and>
     lc_aligned_benchmark c = (if m \<in> set ROLLING_BENCHMARK_METRICS then length (metric_dates inputs m) else 0) \<and>
     lc_aligned_risk_free c = (if m = RollingSharpe then length (metric_dates inputs m) else 0)"

lemma zero_flags_differ: "zero_flag m = Some f \<Longrightarrow> zero_flag m' = Some f \<Longrightarrow> m' = m"
  by (cases m; cases m') (auto simp: zero_flag_def)

lemma no_zero_flag:
  "zero_flag m \<noteq> Some (''metric:'' @ rolling_metric_name m' @ '':alignment_empty'')"
  "zero_flag m \<noteq> Some ''metric:ROLLING_SHARPE:alignment_empty''"
  by (cases m; cases m'; simp add: zero_flag_def rolling_metric_name_def)+

lemma empty_series [simp]: "warmed 0 mo []" "\<not> gaps mo []"
  by (simp_all add: warmed_def gaps_def)

lemma ratio_gaps:
  assumes "ratio_of_differences ops w basis mo flag aligned = Inr (ys, flags)"
    and "rolling_laws ops" "2 \<le> mo" "mo \<le> w"
  shows "map fst ys = map fst aligned" "warmed (length aligned) mo (map snd ys)"
    "flags = (if gaps mo (map snd ys) then [flag] else [])"
proof -
  let ?n = "length aligned" and ?a = "differences aligned"
  have laws: "windowed ?n mo (lx_mean ops w mo ?a)" "windowed ?n mo (lx_std ops w mo ?a)"
    using assms(2-4) by (auto intro!: rolling_lawsD simp: differences_def)
  from assms(1) obtain zs where zs: "annualized basis (quotients (lx_mean ops w mo ?a) (lx_std ops w mo ?a)) = Inr zs"
    and ys: "ys = zip (map fst aligned) zs"
    and flags: "flags = (if Some 0 \<in> set (lx_std ops w mo ?a) then [flag] else [])"
    by (auto simp: ratio_of_differences_def Let_def result_simps)
  note q = quotients_gaps [OF laws] and a = annualized_gaps [OF zs]
  have len: "length zs = ?n" using q(1) annualized_length [OF zs] by (simp add: warmed_def)
  then have "map fst ys = map fst aligned" "map snd ys = zs" by (simp_all add: ys)
  then show "map fst ys = map fst aligned" "warmed ?n mo (map snd ys)"
    "flags = (if gaps mo (map snd ys) then [flag] else [])"
    using q a flags by simp_all
qed


lemma deviation_gaps:
  assumes "annualized basis (lx_std ops w mo xs) = Inr zs" "length xs = n"
    and "rolling_laws ops" "2 \<le> mo" "mo \<le> w"
  shows "length zs = n" "warmed n mo zs" "\<not> gaps mo zs"
  using windowed_warmed [OF rolling_lawsD(1) [OF assms(3-5,2)]] annualized_gaps [OF assms(1), of n mo]
  by (auto simp: warmed_def)

lemma beta_gaps:
  assumes "rolling_laws ops" "2 \<le> mo" "mo \<le> w" "rolling_beta ops w mo aligned = (ys, flags)"
  shows "map fst ys = map fst aligned" "warmed (length aligned) mo (map snd ys)"
    "flags = (if gaps mo (map snd ys) then [''metric:ROLLING_BETA:benchmark_variance_zero''] else [])"
proof -
  let ?p = "map (fst \<circ> snd) aligned" and ?b = "map (snd \<circ> snd) aligned"
  have q: "warmed (length aligned) mo (quotients (lx_cov ops w mo ?p ?b) (lx_var ops w mo ?b))"
    "gaps mo (quotients (lx_cov ops w mo ?p ?b) (lx_var ops w mo ?b)) \<longleftrightarrow> Some 0 \<in> set (lx_var ops w mo ?b)"
    by (intro quotients_gaps [where n = "length aligned"] rolling_lawsD [OF assms(1-3)]; simp)+
  then have len: "length (quotients (lx_cov ops w mo ?p ?b) (lx_var ops w mo ?b)) = length aligned"
    by (simp add: warmed_def)
  with assms(4) have "map fst ys = map fst aligned" "map snd ys = quotients (lx_cov ops w mo ?p ?b) (lx_var ops w mo ?b)"
    by (auto simp: rolling_beta_def Let_def)
  with assms(4) q show "map fst ys = map fst aligned" "warmed (length aligned) mo (map snd ys)"
    "flags = (if gaps mo (map snd ys) then [''metric:ROLLING_BETA:benchmark_variance_zero''] else [])"
    by (auto simp: rolling_beta_def Let_def)
qed

text \<open>The calculations of one series and of two, whose parts the lemma above needs.\<close>

lemma describes_one:
  assumes "map fst ys = metric_dates inputs m" "warmed (length ys) mo (map snd ys)" "\<not> gaps mo (map snd ys)"
    and "m \<notin> set ROLLING_BENCHMARK_METRICS" "m \<noteq> RollingSharpe"
  shows "describes_metric inputs mo m
    \<lparr>lc_values = ys, lc_flags = [], lc_aligned_benchmark = 0, lc_aligned_risk_free = 0\<rparr>"
  using assms map_eq_imp_length_eq [of fst ys id "metric_dates inputs m"] by (auto simp: describes_metric_def)

lemma describes_aligned:
  assumes "metric_dates inputs m = map fst aligned" "m \<in> set ROLLING_BENCHMARK_METRICS \<or> m = RollingSharpe"
    and "aligned = [] \<Longrightarrow> ys = [] \<and> (\<forall>m'. zero_flag m' \<notin> Some ` set flags)"
    and "aligned \<noteq> [] \<Longrightarrow> map fst ys = map fst aligned \<and> warmed (length aligned) mo (map snd ys) \<and>
       flags = (if gaps mo (map snd ys) then [the (zero_flag m)] else []) \<and> (zero_flag m = None \<longrightarrow> \<not> gaps mo (map snd ys))"
    and "b = (if m \<in> set ROLLING_BENCHMARK_METRICS then length aligned else 0)"
      "r = (if m = RollingSharpe then length aligned else 0)"
  shows "describes_metric inputs mo m
    \<lparr>lc_values = ys, lc_flags = flags, lc_aligned_benchmark = b, lc_aligned_risk_free = r\<rparr>"
proof (cases "aligned = []")
  case True
  with assms show ?thesis by (auto simp: describes_metric_def image_iff)
next
  case False
  note parts = assms(4) [OF this]
  then have flags: "flags = (if gaps mo (map snd ys) then [the (zero_flag m)] else [])"
    and none: "zero_flag m = None \<longrightarrow> \<not> gaps mo (map snd ys)" by simp_all
  have "f \<in> set flags \<longleftrightarrow> m' = m \<and> gaps mo (map snd ys)" if "zero_flag m' = Some f" for m' f
    using that none zero_flags_differ [of m f m'] by (cases "zero_flag m") (auto simp: flags)
  with parts none assms(1,5,6) show ?thesis unfolding describes_metric_def
    by (cases "m = RollingSharpe") simp_all
qed

lemma sharpe_described:
  assumes run: "calculate_rolling_metric_values ops inputs w basis mo RollingSharpe = Inr c"
    and laws: "rolling_laws ops" "2 \<le> mo" "mo \<le> w"
  shows "describes_metric inputs mo RollingSharpe c"
proof -
  let ?a = "merge_inner (ln_portfolio inputs) (ln_risk_free inputs)"
  from run obtain ys flags n where r: "rolling_sharpe ops w basis mo (ln_portfolio inputs) (ln_risk_free inputs) = Inr (ys, flags, n)"
    and c: "c = \<lparr>lc_values = ys, lc_flags = flags, lc_aligned_benchmark = 0, lc_aligned_risk_free = n\<rparr>"
    by (auto simp: calculate_rolling_metric_values_def Let_def result_simps)
  have n: "n = length ?a" using r by (auto simp: rolling_sharpe_def Let_def result_simps split: if_splits)
  have ratio: "ratio_of_differences ops w basis mo ''metric:ROLLING_SHARPE:zero_volatility_window'' ?a = Inr (ys, flags)"
    if "?a \<noteq> []"
    using r that by (auto simp: rolling_sharpe_def Let_def result_simps)
  show ?thesis
    unfolding c
  proof (rule describes_aligned [where aligned = ?a])
    show "?a = [] \<Longrightarrow> ys = [] \<and> (\<forall>m'. zero_flag m' \<notin> Some ` set flags)"
      using r no_zero_flag(2) by (auto simp: rolling_sharpe_def image_iff eq_commute [of "Some _"])
    show "?a \<noteq> [] \<Longrightarrow> map fst ys = map fst ?a \<and> warmed (length ?a) mo (map snd ys) \<and>
       flags = (if gaps mo (map snd ys) then [the (zero_flag RollingSharpe)] else []) \<and>
       (zero_flag RollingSharpe = None \<longrightarrow> \<not> gaps mo (map snd ys))"
      using ratio_gaps [OF ratio laws] by (simp add: zero_flag_def)
  qed (simp_all add: metric_dates_def ROLLING_BENCHMARK_METRICS_def n)
qed

lemma benchmark_described:
  assumes run: "calculate_rolling_metric_values ops inputs w basis mo m = Inr c"
    and laws: "rolling_laws ops" "2 \<le> mo" "mo \<le> w" and m: "m \<in> set ROLLING_BENCHMARK_METRICS"
  shows "describes_metric inputs mo m c"
proof -
  let ?a = "merge_inner (ln_portfolio inputs) (ln_benchmark inputs)"
  have cases: "m = RollingBeta \<or> m = RollingTrackingError \<or> m = RollingInformationRatio"
    using m by (simp add: ROLLING_BENCHMARK_METRICS_def)
  from run cases obtain ys flags n where r: "rolling_benchmark_metric ops m w basis mo (ln_portfolio inputs) (ln_benchmark inputs) =
      Inr (ys, flags, n)"
    and c: "c = \<lparr>lc_values = ys, lc_flags = flags, lc_aligned_benchmark = n, lc_aligned_risk_free = 0\<rparr>"
    by (auto simp: calculate_rolling_metric_values_def Let_def result_simps)
  have n: "n = length ?a" using r by (auto simp: rolling_benchmark_metric_def Let_def result_simps split: if_splits)
  have parts: "map fst ys = map fst ?a \<and> warmed (length ?a) mo (map snd ys) \<and>
       flags = (if gaps mo (map snd ys) then [the (zero_flag m)] else []) \<and> (zero_flag m = None \<longrightarrow> \<not> gaps mo (map snd ys))"
    if ne: "?a \<noteq> []"
    using cases
  proof (elim disjE)
    assume "m = RollingBeta"
    then show ?thesis
      using r ne beta_gaps [OF laws, of ?a ys flags]
      by (cases "rolling_beta ops w mo ?a") (simp add: rolling_benchmark_metric_def Let_def zero_flag_def)
  next
    assume m: "m = RollingTrackingError"
    with r ne obtain zs where "annualized basis (lx_std ops w mo (differences ?a)) = Inr zs"
      "ys = zip (map fst ?a) zs" "flags = []"
      by (auto simp: rolling_benchmark_metric_def rolling_tracking_error_def Let_def result_simps)
    with m deviation_gaps [OF this(1) _ laws, of "length ?a"] show ?thesis
      by (simp add: zero_flag_def differences_def)
  next
    assume "m = RollingInformationRatio"
    moreover from this r ne have "ratio_of_differences ops w basis mo
        ''metric:ROLLING_INFORMATION_RATIO:zero_tracking_error_window'' ?a = Inr (ys, flags)"
      by (auto simp: rolling_benchmark_metric_def rolling_information_ratio_def Let_def result_simps)
    ultimately show ?thesis using ratio_gaps [OF _ laws] by (simp add: zero_flag_def)
  qed
  show ?thesis
    unfolding c
  proof (rule describes_aligned [where aligned = ?a])
    show "?a = [] \<Longrightarrow> ys = [] \<and> (\<forall>m'. zero_flag m' \<notin> Some ` set flags)"
      using r no_zero_flag(1) by (auto simp: rolling_benchmark_metric_def)
  qed (use m cases parts n in \<open>auto simp: metric_dates_def ROLLING_BENCHMARK_METRICS_def\<close>)
qed

lemma metric_described:
  assumes run: "calculate_rolling_metric_values ops inputs w basis mo m = Inr c"
    and laws: "rolling_laws ops" "2 \<le> mo" "mo \<le> w"
  shows "describes_metric inputs mo m c"
proof (cases "m = RollingSharpe \<or> m \<in> set ROLLING_BENCHMARK_METRICS")
  case True
  with sharpe_described [OF _ laws] benchmark_described [OF run laws] run show ?thesis by auto
next
  case False
  then consider "m = RollingVolatility" | "m = RollingMaxDrawdown"
    by (cases m) (auto simp: ROLLING_BENCHMARK_METRICS_def)
  then show ?thesis
  proof cases
    case 1
    with run obtain zs where "annualized basis (lx_std ops w mo (series_values (ln_portfolio inputs))) = Inr zs"
      and c: "c = \<lparr>lc_values = zip (series_dates (ln_portfolio inputs)) zs, lc_flags = [],
        lc_aligned_benchmark = 0, lc_aligned_risk_free = 0\<rparr>"
      by (auto simp: calculate_rolling_metric_values_def rolling_volatility_def Let_def result_simps)
    note zs = deviation_gaps [OF this(1) _ laws, of "length (ln_portfolio inputs)"]
    show ?thesis unfolding c
      using zs False 1 by (intro describes_one) (simp_all add: metric_dates_def series_dates_def series_values_def)
  next
    case 2
    note d = windowed_warmed [OF drawdown_metric_windowed [OF laws(3), of "ln_portfolio inputs" "rolling_numeric ops"]]
    from 2 run have c: "c = \<lparr>lc_values = rolling_max_drawdown_metric (rolling_numeric ops) w mo (ln_portfolio inputs),
        lc_flags = [], lc_aligned_benchmark = 0, lc_aligned_risk_free = 0\<rparr>"
      by (simp add: calculate_rolling_metric_values_def Let_def)
    have "length (rolling_max_drawdown_metric (rolling_numeric ops) w mo (ln_portfolio inputs)) = length (ln_portfolio inputs)"
      by (simp add: rolling_max_drawdown_metric_def)
    with d False 2 show ?thesis unfolding c by (intro describes_one) (simp_all add: metric_dates_def)
  qed
qed

section \<open>What a window reports\<close>

lemma length_computed: "length (computed_points ys) = length (filter (\<lambda>y. y \<noteq> None) (map snd ys))"
  by (induction ys) (auto simp: computed_points_def map_filter_simps split: option.splits)

lemma missing_values:
  "warmed n mo ys \<Longrightarrow> \<exists>k. length (filter (\<lambda>y. y \<noteq> None) ys) + min n (mo - 1) + k = n \<and> (0 < k \<longleftrightarrow> gaps mo ys)"
proof -
  assume w: "warmed n mo ys"
  let ?k = "length (filter (\<lambda>y. y = None) (drop (mo - 1) ys))"
  have "set (take (mo - 1) ys) \<subseteq> {None}"
    using w by (auto simp: warmed_def in_set_conv_nth)
  then have "filter (\<lambda>y. y \<noteq> None) (take (mo - 1) ys) = []" by (auto simp: filter_empty_conv)
  moreover have "filter (\<lambda>y. y \<noteq> None) ys =
      filter (\<lambda>y. y \<noteq> None) (take (mo - 1) ys) @ filter (\<lambda>y. y \<noteq> None) (drop (mo - 1) ys)"
    by (simp flip: filter_append)
  ultimately have "length (filter (\<lambda>y. y \<noteq> None) ys) = length (filter (\<lambda>y. y \<noteq> None) (drop (mo - 1) ys))" by simp
  moreover have "length (filter (\<lambda>y. y \<noteq> None) (drop (mo - 1) ys)) + ?k = n - (mo - 1)"
    using sum_length_filter_compl [of "\<lambda>y. y \<noteq> None" "drop (mo - 1) ys"] w by (simp add: warmed_def)
  moreover have "0 < ?k \<longleftrightarrow> None \<in> set (drop (mo - 1) ys)"
    by (auto simp: filter_empty_conv)
  moreover have "None \<in> set (drop (mo - 1) ys) \<longleftrightarrow> gaps mo ys"
  proof
    assume "None \<in> set (drop (mo - 1) ys)"
    then obtain j where "j < length ys - (mo - 1)" "ys ! (mo - 1 + j) = None" by (auto simp: in_set_conv_nth)
    then show "gaps mo ys" unfolding gaps_def by (intro exI [of _ "mo - 1 + j"]) auto
  next
    assume "gaps mo ys"
    then obtain i where i: "i < length ys" "mo \<le> Suc i" "ys ! i = None" by (auto simp: gaps_def)
    then have "drop (mo - 1) ys ! (i - (mo - 1)) = None" "i - (mo - 1) < length (drop (mo - 1) ys)" by auto
    then show "None \<in> set (drop (mo - 1) ys)" by (metis nth_mem)
  qed
  ultimately show ?thesis by (intro exI [of _ ?k]) auto
qed

lemma summary_points:
  assumes "warmed (length ys) mo (map snd ys)"
  shows "lm_computed_points (rolling_metric_summary ops mo ys) + lm_warmup_points (rolling_metric_summary ops mo ys) +
      lm_gap_points (rolling_metric_summary ops mo ys) = length ys"
    "0 < lm_gap_points (rolling_metric_summary ops mo ys) \<longleftrightarrow> gaps mo (map snd ys)"
  using missing_values [OF assms] by (auto simp: rolling_metric_summary_def Let_def length_computed)

text \<open>The dates of the points are those of the series, in order and once each.\<close>

lemma add_observation_keys:
  "distinct (dict_keys points) \<Longrightarrow> distinct (dict_keys (add_observation m row points))"
  "set (dict_keys (add_observation m row points)) = insert (fst row) (set (dict_keys points))"
  by (simp_all add: add_observation_def dict_keys_def distinct_update dom_update)

lemma fold_observations:
  "distinct (dict_keys points) \<Longrightarrow> distinct (dict_keys (fold (add_observation m) ys points)) \<and>
     set (dict_keys (fold (add_observation m) ys points)) = set (dict_keys points) \<union> fst ` set ys"
  by (induction ys arbitrary: points) (simp_all add: add_observation_keys)

lemma fold_series:
  "distinct (dict_keys points) \<Longrightarrow>
     distinct (dict_keys (fold (\<lambda>(m, ys). fold (add_observation m) ys) series_map points)) \<and>
     set (dict_keys (fold (\<lambda>(m, ys). fold (add_observation m) ys) series_map points)) =
       set (dict_keys points) \<union> (\<Union>e\<in>set series_map. fst ` set (snd e))"
  by (induction series_map arbitrary: points) (simp_all add: fold_observations split_def Un_assoc)

lemma points_dates:
  "map fst (rolling_metric_series_points series_map) = sorted_set (concat (map (map fst \<circ> snd) series_map))"
proof -
  let ?points = "fold (\<lambda>(m, ys). fold (add_observation m) ys) series_map []"
  have "distinct (dict_keys ?points)"
    "set (dict_keys ?points) = set (concat (map (map fst \<circ> snd) series_map))"
    using fold_series [of "[]" series_map] by (auto simp: dict_keys_def)
  then have "sort (dict_keys ?points) = sorted_set (concat (map (map fst \<circ> snd) series_map))"
    by (intro sorted_distinct_set_unique) simp_all
  then show ?thesis by (simp add: rolling_metric_series_points_def Let_def comp_def)
qed

text \<open>
  A window answers every requested metric once.  The points of a metric are the dates it is defined on:
  those still warming up, the gaps a flag announces, and the values.
\<close>

definition answers_metric :: "nat \<Rightarrow> nat \<Rightarrow> metric_summary \<Rightarrow> bool" where
  "answers_metric n min_obs s \<longleftrightarrow>
     lm_total_points s = n \<and> lm_min_observations s = min_obs \<and> lm_warmup_points s = min n (min_obs - 1) \<and>
     lm_computed_points s + lm_warmup_points s + lm_gap_points s = n \<and>
     (lm_latest s = None \<longleftrightarrow> lm_computed_points s = 0)"

definition answers_window ::
  "rolling_inputs \<Rightarrow> rolling_options \<Rightarrow> rolling_metric list \<Rightarrow> int \<Rightarrow> window_result \<Rightarrow> bool"
where
  "answers_window inputs opts requested w r \<longleftrightarrow>
     lw_window_length r = w \<and> distinct (map fst (lw_summaries r)) \<and> fst ` set (lw_summaries r) = set requested \<and>
     list_all (\<lambda>(m, s). answers_metric (length (metric_dates inputs m))
        (min_observations (nat w) (lo_strict_observations opts)) s) (lw_summaries r) \<and>
     map_option (map fst) (lw_series r) =
       (if lo_include_time_series opts then Some (sorted_set (concat (map (metric_dates inputs) requested))) else None) \<and>
     lk_emitted_points (lw_series_context r) = (case lw_series r of None \<Rightarrow> 0 | Some ps \<Rightarrow> length ps)"

definition gap_in :: "rolling_metric \<Rightarrow> window_result \<Rightarrow> bool" where
  "gap_in m r \<longleftrightarrow> (\<exists>s. (m, s) \<in> set (lw_summaries r) \<and> 0 < lm_gap_points s)"

definition calculated ::
  "(rolling_metric \<Rightarrow> (calculation_error, rolling_calculation) result) \<Rightarrow> rolling_metric list \<Rightarrow> window_aggregate \<Rightarrow> bool"
where
  "calculated calculate requested a \<longleftrightarrow>
     (\<exists>c. (\<forall>m\<in>set requested. calculate m = Inr (c m)) \<and>
       distinct (map fst (lg_series_map a)) \<and> fst ` set (lg_series_map a) = set requested \<and>
       (\<forall>(m, ys)\<in>set (lg_series_map a). ys = lc_values (c m)) \<and>
       set (lg_flags a) = (\<Union>m\<in>set requested. set (lc_flags (c m))) \<and>
       lg_aligned_benchmark a = Max (insert 0 ((\<lambda>m. lc_aligned_benchmark (c m)) ` set requested)) \<and>
       lg_aligned_risk_free a = Max (insert 0 ((\<lambda>m. lc_aligned_risk_free (c m)) ` set requested)))"

lemma add_calculated:
  assumes "calculated calculate requested a" "calculate m = Inr d"
  shows "calculated calculate (requested @ [m]) (add_metric m d a)"
proof -
  from assms(1) obtain c where c: "\<forall>m\<in>set requested. calculate m = Inr (c m)"
    "distinct (map fst (lg_series_map a))" "fst ` set (lg_series_map a) = set requested"
    "\<forall>(m, ys)\<in>set (lg_series_map a). ys = lc_values (c m)"
    "set (lg_flags a) = (\<Union>m\<in>set requested. set (lc_flags (c m)))"
    "lg_aligned_benchmark a = Max (insert 0 ((\<lambda>m. lc_aligned_benchmark (c m)) ` set requested))"
    "lg_aligned_risk_free a = Max (insert 0 ((\<lambda>m. lc_aligned_risk_free (c m)) ` set requested))"
    unfolding calculated_def by blast
  let ?c = "c(m := d)"
  have same: "?c k = c k" if "k \<in> set requested" for k using that c(1) assms(2) by auto
  let ?map = "AList.update m (lc_values d) (lg_series_map a)"
  have keys: "distinct (map fst ?map)" "fst ` set ?map = set (requested @ [m])"
    using c(2,3) by (auto simp: distinct_update dom_update)
  have "ys = lc_values (?c k)" if "(k, ys) \<in> set ?map" for k ys
  proof -
    have "map_of ?map k = Some ys" using that keys(1) by (simp add: map_of_eq_Some_iff)
    then have "if k = m then ys = lc_values d else (k, ys) \<in> set (lg_series_map a)"
      using c(2) by (auto simp: update_conv' map_of_eq_Some_iff split: if_splits)
    with c(4) show ?thesis by (auto split: if_splits)
  qed
  then have entries: "\<forall>(k, ys)\<in>set ?map. ys = lc_values (?c k)" by blast
  have aligned: "max (Max (insert 0 ((\<lambda>m. f (c m)) ` set requested))) (f d) =
      Max (insert 0 ((\<lambda>m. f (?c m)) ` set (requested @ [m])))" for f :: "rolling_calculation \<Rightarrow> nat"
  proof -
    have "(\<lambda>m. f (?c m)) ` set (requested @ [m]) = insert (f d) ((\<lambda>m. f (c m)) ` set requested)"
      using same by (auto simp: image_iff)
    moreover have "Max (insert 0 (insert (f d) X)) = max (Max (insert 0 X)) (f d)" if "finite X" for X
      using Max_insert [of "insert 0 X" "f d"] that by (simp only: insert_commute [of 0] finite_insert max.commute) blast
    ultimately show ?thesis by (metis finite_imageI finite_set)
  qed
  have flags: "set (lg_flags a) \<union> set (lc_flags d) = (\<Union>m\<in>set (requested @ [m]). set (lc_flags (?c m)))"
    using c(5) same by auto
  have all: "\<forall>k\<in>set (requested @ [m]). calculate k = Inr (?c k)" using c(1) assms(2) by auto
  show ?thesis
    unfolding calculated_def add_metric_def
    by (intro exI [of _ ?c] conjI) (use all keys entries flags aligned c(6,7) in simp_all)
qed

lemma aggregate_calculated:
  "window_metric_aggregate ops inputs w basis mo ms a = Inr b \<Longrightarrow>
     calculated (calculate_rolling_metric_values ops inputs w basis mo) requested a \<Longrightarrow>
     calculated (calculate_rolling_metric_values ops inputs w basis mo) (requested @ ms) b"
proof (induction ms arbitrary: a requested)
  case (Cons m ms)
  from Cons.prems obtain c where c: "calculate_rolling_metric_values ops inputs w basis mo m = Inr c"
    and rest: "window_metric_aggregate ops inputs w basis mo ms (add_metric m c a) = Inr b"
    by (auto simp: result_simps)
  from Cons.IH [OF rest add_calculated [OF Cons.prems(2) c]] show ?case by simp
qed simp

definition window_of ::
  "rolling_inputs \<Rightarrow> nat \<Rightarrow> rolling_metric list \<Rightarrow> (rolling_metric \<Rightarrow> rolling_calculation) \<Rightarrow> window_aggregate \<Rightarrow> bool"
where
  "window_of inputs mo requested c a \<longleftrightarrow>
     (\<forall>m\<in>set requested. describes_metric inputs mo m (c m)) \<and>
     distinct (map fst (lg_series_map a)) \<and> fst ` set (lg_series_map a) = set requested \<and>
     (\<forall>(m, ys)\<in>set (lg_series_map a). ys = lc_values (c m)) \<and>
     set (lg_flags a) = (\<Union>m\<in>set requested. set (lc_flags (c m))) \<and>
     lg_aligned_benchmark a = Max (insert 0 ((\<lambda>m. lc_aligned_benchmark (c m)) ` set requested)) \<and>
     lg_aligned_risk_free a = Max (insert 0 ((\<lambda>m. lc_aligned_risk_free (c m)) ` set requested))"

lemma window_parts:
  assumes run: "calculate_window_result ops inputs opts requested w = Inr (r, a)"
    and laws: "rolling_laws ops" and w: "1 < w"
    and mo: "mo = min_observations (nat w) (lo_strict_observations opts)"
  obtains c where "r = rolling_window_result ops opts w mo a" "window_of inputs mo requested c a"
proof -
  let ?calc = "calculate_rolling_metric_values ops inputs (nat w) (lo_annualization_basis opts) mo"
  have bounds: "2 \<le> mo" "mo \<le> nat w" using w by (auto simp: mo min_observations_def)
  from run have agg: "window_metric_aggregate ops inputs (nat w) (lo_annualization_basis opts) mo requested empty_aggregate = Inr a"
    and r: "r = rolling_window_result ops opts w mo a"
    by (auto simp: calculate_window_result_def Let_def result_simps mo)
  have "calculated ?calc [] empty_aggregate" by (simp add: calculated_def empty_aggregate_def)
  from aggregate_calculated [OF agg this] have "calculated ?calc requested a" by simp
  then obtain c where c: "\<forall>m\<in>set requested. ?calc m = Inr (c m)"
    and rest: "distinct (map fst (lg_series_map a)) \<and> fst ` set (lg_series_map a) = set requested \<and>
     (\<forall>(m, ys)\<in>set (lg_series_map a). ys = lc_values (c m)) \<and>
     set (lg_flags a) = (\<Union>m\<in>set requested. set (lc_flags (c m))) \<and>
     lg_aligned_benchmark a = Max (insert 0 ((\<lambda>m. lc_aligned_benchmark (c m)) ` set requested)) \<and>
     lg_aligned_risk_free a = Max (insert 0 ((\<lambda>m. lc_aligned_risk_free (c m)) ` set requested))"
    unfolding calculated_def by blast
  have "\<forall>m\<in>set requested. describes_metric inputs mo m (c m)"
    using metric_described [OF _ laws bounds] c by blast
  with rest show thesis by (intro that [OF r, of c]) (simp add: window_of_def)
qed

lemma window_series:
  assumes "window_of inputs mo requested c a" "(m, ys) \<in> set (lg_series_map a)"
  shows "ys = lc_values (c m)" "m \<in> set requested" "map fst ys = metric_dates inputs m"
    "length ys = length (metric_dates inputs m)" "warmed (length ys) mo (map snd ys)"
proof -
  show ys: "ys = lc_values (c m)" using assms by (auto simp: window_of_def)
  show m: "m \<in> set requested" using assms imageI [OF assms(2), of fst] by (simp add: window_of_def)
  from m assms(1) have "describes_metric inputs mo m (c m)" by (simp add: window_of_def)
  then show "map fst ys = metric_dates inputs m" "length ys = length (metric_dates inputs m)"
    "warmed (length ys) mo (map snd ys)"
    by (auto simp: ys describes_metric_def warmed_def)
qed

lemma window_gap:
  assumes of: "window_of inputs mo requested c a" and r: "r = rolling_window_result ops opts w mo a"
  shows "gap_in m r \<longleftrightarrow> m \<in> set requested \<and> gaps mo (map snd (lc_values (c m)))"
proof
  assume "gap_in m r"
  then obtain ys where "(m, ys) \<in> set (lg_series_map a)" "0 < lm_gap_points (rolling_metric_summary ops mo ys)"
    by (auto simp: gap_in_def r rolling_window_result_def Let_def)
  with window_series [OF of] summary_points(2) show "m \<in> set requested \<and> gaps mo (map snd (lc_values (c m)))" by blast
next
  assume m: "m \<in> set requested \<and> gaps mo (map snd (lc_values (c m)))"
  then have "m \<in> fst ` set (lg_series_map a)" using of by (simp add: window_of_def)
  then obtain ys where ys: "(m, ys) \<in> set (lg_series_map a)" by auto
  with window_series [OF of ys] summary_points(2) m have "0 < lm_gap_points (rolling_metric_summary ops mo ys)" by blast
  with ys show "gap_in m r" by (force simp: gap_in_def r rolling_window_result_def Let_def)
qed

text \<open>A gap of a metric is flagged under its own name, and nothing else is.\<close>

lemma window_flags:
  assumes "window_of inputs mo requested c a" "r = rolling_window_result ops opts w mo a"
  shows "zero_flag m = Some f \<Longrightarrow> f \<in> set (lg_flags a) \<longleftrightarrow> gap_in m r" "zero_flag m = None \<Longrightarrow> \<not> gap_in m r"
  using assms(1) unfolding window_gap [OF assms] window_of_def describes_metric_def by auto

lemma aligned_image:
  "insert (0 :: nat) ((\<lambda>m. if m \<in> B then f m else 0) ` A) = insert 0 (f ` (A \<inter> B))"
  by auto

definition aligned_dates :: "rolling_inputs \<Rightarrow> rolling_metric list \<Rightarrow> rolling_metric list \<Rightarrow> nat" where
  "aligned_dates inputs requested metrics =
     Max (insert 0 ((\<lambda>m. length (metric_dates inputs m)) ` (set requested \<inter> set metrics)))"

lemma window_aligned:
  assumes "window_of inputs mo requested c a"
  shows "lg_aligned_benchmark a = aligned_dates inputs requested ROLLING_BENCHMARK_METRICS"
    "lg_aligned_risk_free a = aligned_dates inputs requested [RollingSharpe]"
proof -
  have "(\<lambda>m. lc_aligned_benchmark (c m)) ` set requested =
      (\<lambda>m. if m \<in> set ROLLING_BENCHMARK_METRICS then length (metric_dates inputs m) else 0) ` set requested"
    "(\<lambda>m. lc_aligned_risk_free (c m)) ` set requested =
      (\<lambda>m. if m \<in> set [RollingSharpe] then length (metric_dates inputs m) else 0) ` set requested"
    using assms by (intro image_cong; auto simp: window_of_def describes_metric_def)+
  then show "lg_aligned_benchmark a = aligned_dates inputs requested ROLLING_BENCHMARK_METRICS"
    "lg_aligned_risk_free a = aligned_dates inputs requested [RollingSharpe]"
    using assms unfolding window_of_def aligned_dates_def by (simp_all only: aligned_image)
qed

lemma window_answers:
  assumes of: "window_of inputs mo requested c a" and r: "r = rolling_window_result ops opts w mo a"
    and mo: "mo = min_observations (nat w) (lo_strict_observations opts)"
  shows "answers_window inputs opts requested w r"
  unfolding answers_window_def mo [symmetric]
proof (intro conjI)
  have keys: "distinct (map fst (lg_series_map a))" "fst ` set (lg_series_map a) = set requested"
    using of by (simp_all add: window_of_def)
  then show "lw_window_length r = w" "distinct (map fst (lw_summaries r))" "fst ` set (lw_summaries r) = set requested"
    by (simp_all add: r rolling_window_result_def Let_def comp_def split_def image_image)
  show "list_all (\<lambda>(m, s). answers_metric (length (metric_dates inputs m)) mo s) (lw_summaries r)"
    unfolding list_all_iff
  proof (clarify)
    fix m s assume "(m, s) \<in> set (lw_summaries r)"
    then obtain ys where ys: "(m, ys) \<in> set (lg_series_map a)" and s: "s = rolling_metric_summary ops mo ys"
      by (auto simp: r rolling_window_result_def Let_def)
    note facts = window_series [OF of ys]
    from summary_points(1) [OF facts(5), of ops] facts(4)
    show "answers_metric (length (metric_dates inputs m)) mo s"
      by (auto simp: answers_metric_def s) (auto simp: rolling_metric_summary_def Let_def split: if_splits)
  qed
  have "map (map fst \<circ> snd) (lg_series_map a) = map (metric_dates inputs) (map fst (lg_series_map a))"
    using window_series(3) [OF of] by auto
  then have "set (concat (map (map fst \<circ> snd) (lg_series_map a))) = set (concat (map (metric_dates inputs) requested))"
    by (simp flip: keys(2))
  then have "sorted_set (concat (map (map fst \<circ> snd) (lg_series_map a))) = sorted_set (concat (map (metric_dates inputs) requested))"
    unfolding sorted_set_def by (metis sorted_list_of_set_sort_remdups)
  then show "map_option (map fst) (lw_series r) =
      (if lo_include_time_series opts then Some (sorted_set (concat (map (metric_dates inputs) requested))) else None)"
    using points_dates [of "lg_series_map a"] by (simp add: r rolling_window_result_def Let_def)
  show "lk_emitted_points (lw_series_context r) = (case lw_series r of None \<Rightarrow> 0 | Some ps \<Rightarrow> length ps)"
    by (simp add: r rolling_window_result_def Let_def rolling_metric_series_context_def)
qed

section \<open>The windows of a period\<close>

lemma period_windows_answered:
  assumes "rolling_period_windows ops inputs opts requested ws v = Inr u" "rolling_laws ops" "\<forall>w\<in>set ws. 1 < w"
  shows "\<exists>rs. lv_results u = lv_results v @ rs \<and> list_all2 (answers_window inputs opts requested) ws rs \<and>
     (\<forall>m f. zero_flag m = Some f \<longrightarrow> (f \<in> set (lv_flags u) \<longleftrightarrow> f \<in> set (lv_flags v) \<or> (\<exists>r\<in>set rs. gap_in m r))) \<and>
     (\<forall>m. zero_flag m = None \<longrightarrow> (\<forall>r\<in>set rs. \<not> gap_in m r)) \<and>
     lv_aligned_benchmark u = (if ws = [] then lv_aligned_benchmark v
       else max (lv_aligned_benchmark v) (aligned_dates inputs requested ROLLING_BENCHMARK_METRICS)) \<and>
     lv_aligned_risk_free u = (if ws = [] then lv_aligned_risk_free v
       else max (lv_aligned_risk_free v) (aligned_dates inputs requested [RollingSharpe]))"
  using assms(1,3)
proof (induction ws arbitrary: v)
  case (Cons w ws)
  from Cons.prems(1) obtain r a where win: "calculate_window_result ops inputs opts requested w = Inr (r, a)"
    and rest: "rolling_period_windows ops inputs opts requested ws
         \<lparr>lv_results = lv_results v @ [r], lv_flags = lv_flags v @ lg_flags a,
          lv_aligned_benchmark = max (lv_aligned_benchmark v) (lg_aligned_benchmark a),
          lv_aligned_risk_free = max (lv_aligned_risk_free v) (lg_aligned_risk_free a)\<rparr> = Inr u"
    by (auto simp: result_simps)
  define mo where mo: "mo = min_observations (nat w) (lo_strict_observations opts)"
  obtain c where r: "r = rolling_window_result ops opts w mo a" and of: "window_of inputs mo requested c a"
    using window_parts [OF win assms(2) _ mo] Cons.prems(2) by auto
  from Cons.IH [OF rest] Cons.prems(2) obtain rs where ih:
    "lv_results u = lv_results v @ r # rs" "list_all2 (answers_window inputs opts requested) ws rs"
    "\<forall>m f. zero_flag m = Some f \<longrightarrow>
       (f \<in> set (lv_flags u) \<longleftrightarrow> f \<in> set (lv_flags v @ lg_flags a) \<or> (\<exists>r\<in>set rs. gap_in m r))"
    "\<forall>m. zero_flag m = None \<longrightarrow> (\<forall>r\<in>set rs. \<not> gap_in m r)"
    "lv_aligned_benchmark u = (if ws = [] then max (lv_aligned_benchmark v) (lg_aligned_benchmark a)
       else max (max (lv_aligned_benchmark v) (lg_aligned_benchmark a)) (aligned_dates inputs requested ROLLING_BENCHMARK_METRICS))"
    "lv_aligned_risk_free u = (if ws = [] then max (lv_aligned_risk_free v) (lg_aligned_risk_free a)
       else max (max (lv_aligned_risk_free v) (lg_aligned_risk_free a)) (aligned_dates inputs requested [RollingSharpe]))"
    by auto
  show ?case
  proof (intro exI [of _ "r # rs"] conjI)
    show "list_all2 (answers_window inputs opts requested) (w # ws) (r # rs)"
      using ih(2) window_answers [OF of r mo] by simp
    show "\<forall>m f. zero_flag m = Some f \<longrightarrow>
        (f \<in> set (lv_flags u) \<longleftrightarrow> f \<in> set (lv_flags v) \<or> (\<exists>r'\<in>set (r # rs). gap_in m r'))"
      using ih(3) window_flags(1) [OF of r] by auto
    show "\<forall>m. zero_flag m = None \<longrightarrow> (\<forall>r'\<in>set (r # rs). \<not> gap_in m r')"
      using ih(4) window_flags(2) [OF of r] by auto
  qed (use ih(1,5,6) window_aligned [OF of] in \<open>simp_all\<close>)
qed simp

section \<open>The drawdown of a window\<close>

definition decimal_series :: "series \<Rightarrow> series" where
  "decimal_series s = map (\<lambda>(d, v). (d, fdiv v 100)) s"

lemma decimal_series_simps [simp]:
  "series_dates (decimal_series s) = series_dates s" "length (decimal_series s) = length s"
  "series_values (decimal_series s) = map (\<lambda>v. fdiv v 100) (series_values s)"
  by (simp_all add: decimal_series_def series_dates_def series_values_def comp_def split_def)

lemma trailing_map: "trailing w (map f xs) i = map f (trailing w xs i)"
  by (simp add: trailing_def take_map drop_map)

lemma peak_of_clipped:
  assumes laws: "numeric_laws ops"
  shows "np_cummax ops (map (\<lambda>x. max x 1) wealth) = running_peak ops wealth"
proof (rule nth_equalityI)
  fix i assume "i < length (np_cummax ops (map (\<lambda>x. max x 1) wealth))"
  then have i: "i < length wealth" using numeric_lawsD(4) [OF laws] by simp
  then have ne: "finite (set (take (Suc i) wealth))" "set (take (Suc i) wealth) \<noteq> {}" by (cases wealth; simp)+
  have "Max ((\<lambda>x. max x 1) ` set (take (Suc i) wealth)) = max (Max (set (take (Suc i) wealth))) 1"
    using ne by (intro mono_Max_commute [symmetric]) (auto intro: monoI)
  then show "np_cummax ops (map (\<lambda>x. max x 1) wealth) ! i = running_peak ops wealth ! i"
    using i numeric_lawsD(4,5) [OF laws] by (simp add: running_peak_def take_map)
qed (simp add: numeric_lawsD(4) [OF laws] running_peak_def)

lemma rolling_drawdown_path:
  assumes "numeric_laws ops"
  shows "rolling_max_drawdown ops (map (\<lambda>v. fdiv v 100) vs) =
    py_min (drawdown_path (wealth_path ops vs) (running_peak ops (wealth_path ops vs)))"
proof -
  have "map (fadd 1) (map (\<lambda>v. fdiv v 100) vs) = map (\<lambda>r. fadd 1 (fdiv r 100)) vs" by simp
  then show ?thesis
    by (simp only: rolling_max_drawdown_def Let_def peak_of_clipped [OF assms] flip: wealth_path_def)
qed

text \<open>
  C32: The rolling drawdown of a date is the maximum drawdown that the drawdown report states for the trailing
  returns of that date alone.
\<close>

theorem rolling_drawdown_is_the_report:
  assumes laws: "numeric_laws ops" and i: "i < length s" and w: "0 < w" "mo \<le> w" "mo \<le> Suc i"
  shows "rolling_max_drawdown_metric ops w mo (decimal_series s) ! i =
    (series_dates s ! i, ds_max_drawdown (fst (summarize_drawdown ops alpha unit
       (drawdown_from_returns ops (trailing w s i)))))"
proof -
  let ?vs = "series_values (trailing w s i)"
  let ?wealth = "wealth_path ops ?vs"
  let ?path = "drawdown_path ?wealth (running_peak ops ?wealth)"
  have d: "drawdown_run ops ?vs ?wealth (running_peak ops ?wealth) ?path" by (simp add: drawdown_run_def laws)
  note len = run_lengths [OF d]
  have window: "trailing w (series_values (decimal_series s)) i = map (\<lambda>v. fdiv v 100) ?vs"
    by (simp add: trailing_map) (simp add: series_values_def trailing_map)
  have n: "length ?vs = min (Suc i) w" "length (series_dates (trailing w s i)) = min (Suc i) w"
    using i by (simp_all add: series_values_def series_dates_def)
  then have pne: "?path \<noteq> []" using len(3) w by auto
  have report: "series_values (drawdown_from_returns ops (trailing w s i)) = ?path"
    using n len by (simp add: drawdown_from_returns_def Let_def series_values_def [of "zip _ _"])
  then have dne: "drawdown_from_returns ops (trailing w s i) \<noteq> []" using pne by (auto simp: series_values_def)
  have "py_min ?path = Min (insert 0 (set ?path))"
  proof -
    have "\<forall>x\<in>set ?path. x \<le> 0" using path_sign(2) [OF d] len(3) by (auto simp: in_set_conv_nth)
    then have "Min (set ?path) \<le> 0" using pne by (auto simp: Min_le_iff intro: bexI [OF _ hd_in_set])
    moreover have "Min (insert 0 (set ?path)) = min 0 (Min (set ?path))" using pne by (intro Min_insert) simp_all
    ultimately show ?thesis by (simp only: py_min_Min [OF pne] min_absorb2)
  qed
  moreover have "ds_max_drawdown (fst (summarize_drawdown ops alpha unit (drawdown_from_returns ops (trailing w s i)))) =
      Some (Min (insert 0 (set ?path)))"
    using summary_extremes(1) [OF laws dne prod.collapse [symmetric]] report by simp
  ultimately show ?thesis
    using i n w rolling_drawdown_path [OF laws, of ?vs]
    by (simp add: rolling_max_drawdown_metric_def window Let_def del: decimal_series_simps(3))
qed

theorem rolling_drawdown_is_the_report_witness:
  "rolling_max_drawdown_metric reference_ops 2 2 (decimal_series sample_returns) ! 1 =
     (Date 2026 1 5, ds_max_drawdown (fst (summarize_drawdown reference_ops (flit (95 / 100)) CalendarDays
       (drawdown_from_returns reference_ops (trailing 2 sample_returns 1))))) \<and>
   snd (rolling_max_drawdown_metric reference_ops 2 2 (decimal_series sample_returns) ! 1) = Some (- 1 / 2)"
proof -
  have "1 < length sample_returns" "series_dates sample_returns ! 1 = Date 2026 1 5"
    by (simp_all add: sample_returns_def series_dates_def)
  moreover have "snd (rolling_max_drawdown_metric reference_ops 2 2 (decimal_series sample_returns) ! 1) = Some (- 1 / 2)"
    by code_simp
  ultimately show ?thesis
    using rolling_drawdown_is_the_report [OF numeric_laws_reference, of 1 sample_returns 2 2] by simp
qed

end
