(* ===== verification/RollingEngine.thy ===== *)
theory RollingEngine
  imports Main RollingMetrics StatefulReturns
begin

text \<open>
  The rolling report: the series of a period (services/rolling_period_series.py), what it depends on
  (services/rolling_dependency_context.py), the results of the periods
  (services/rolling_period_results.py) and the response with its metadata (services/rolling_engine.py,
  contracts/rolling_metadata_outputs.py).
\<close>

section \<open>The series of a period\<close>

record rolling_frames =
  lb_portfolio :: series
  lb_benchmark :: series
  lb_risk_free :: series

record rolling_series_data =
  ls_name :: string
  ls_start :: date
  ls_end :: date
  ls_portfolio_pp :: series
  ls_inputs :: rolling_inputs

definition build_rolling_input_frames :: "rolling_stateless_input \<Rightarrow> rolling_frames" where
  "build_rolling_input_frames request =
     \<lparr>lb_portfolio = returns_frame (li_returns request), lb_benchmark = returns_frame (li_benchmark_returns request),
      lb_risk_free = returns_frame (li_risk_free_returns request)\<rparr>"

definition rolling_period_series ::
  "rolling_frames \<Rightarrow> rolling_stateless_input \<Rightarrow> risk_period \<Rightarrow> date \<Rightarrow> (calculation_error, rolling_series_data) result"
where
  "rolling_period_series frames request period open_date =
     bind_result (resolve_period period (rq_as_of_date (li_scope request)) open_date) (\<lambda>(start, finish).
       let portfolio_pp = filter_period (lb_portfolio frames) start finish in
       Inr \<lparr>ls_name = period_name period, ls_start = start, ls_end = finish, ls_portfolio_pp = portfolio_pp,
         ls_inputs = \<lparr>ln_portfolio = decimal_series portfolio_pp,
           ln_benchmark = decimal_series (filter_period (lb_benchmark frames) start finish),
           ln_risk_free = decimal_series (filter_period (lb_risk_free frames) start finish)\<rparr>\<rparr>)"

section \<open>Dependencies\<close>

definition dependency_decision :: "bool \<Rightarrow> nat \<Rightarrow> nat \<Rightarrow> string \<Rightarrow> dependency_context" where
  "dependency_decision requested source_series_count aligned_series_count unavailable_reason =
     (if \<not> requested then \<lparr>dc_requested = False, dc_reason = ''NOT_REQUESTED'', dc_applied = None,
        dc_available = Some False, dc_aligned = Some False\<rparr>
      else if source_series_count = 0 then \<lparr>dc_requested = True, dc_reason = unavailable_reason, dc_applied = None,
        dc_available = Some False, dc_aligned = Some False\<rparr>
      else if aligned_series_count = 0 then \<lparr>dc_requested = True, dc_reason = ''NO_ALIGNED_OBSERVATIONS'',
        dc_applied = None, dc_available = Some True, dc_aligned = Some False\<rparr>
      else \<lparr>dc_requested = True, dc_reason = ''APPLIED'', dc_applied = None,
        dc_available = Some True, dc_aligned = Some True\<rparr>)"

definition rolling_benchmark_context :: "rolling_metric list \<Rightarrow> nat \<Rightarrow> nat \<Rightarrow> dependency_context" where
  "rolling_benchmark_context requested source_series_count aligned_series_count =
     dependency_decision (\<exists>m\<in>set requested. m \<in> set ROLLING_BENCHMARK_METRICS) source_series_count
       aligned_series_count ''BENCHMARK_UNAVAILABLE''"

definition rolling_risk_free_context :: "rolling_metric list \<Rightarrow> nat \<Rightarrow> nat \<Rightarrow> dependency_context" where
  "rolling_risk_free_context requested source_series_count aligned_series_count =
     dependency_decision (RollingSharpe \<in> set requested) source_series_count aligned_series_count
       ''RISK_FREE_UNAVAILABLE''"

section \<open>The results of the periods\<close>

record rolling_result =
  lp_start_date :: date
  lp_end_date :: date
  lp_series_count :: nat
  lp_benchmark_series_count :: nat
  lp_aligned_benchmark_series_count :: nat
  lp_risk_free_series_count :: nat
  lp_aligned_risk_free_series_count :: nat
  lp_window_lengths_requested :: "int list"
  lp_window_lengths_emitted :: "int list"
  lp_benchmark_context :: dependency_context
  lp_risk_free_context :: dependency_context
  lp_window_results :: "window_result list"
  lp_quality_flags :: "string list"
  lp_error :: "string option"

definition insufficient_rolling_result ::
  "rolling_series_data \<Rightarrow> rolling_options \<Rightarrow> rolling_metric list \<Rightarrow> rolling_result"
where
  "insufficient_rolling_result s opts requested =
     \<lparr>lp_start_date = ls_start s, lp_end_date = ls_end s, lp_series_count = length (ls_portfolio_pp s),
      lp_benchmark_series_count = 0, lp_aligned_benchmark_series_count = 0, lp_risk_free_series_count = 0,
      lp_aligned_risk_free_series_count = 0, lp_window_lengths_requested = lo_window_lengths opts,
      lp_window_lengths_emitted = [], lp_benchmark_context = rolling_benchmark_context requested 0 0,
      lp_risk_free_context = rolling_risk_free_context requested 0 0, lp_window_results = [],
      lp_quality_flags = [], lp_error = Some ''Insufficient data''\<rparr>"

definition calculated_rolling_result ::
  "rolling_series_data \<Rightarrow> period_windows \<Rightarrow> rolling_options \<Rightarrow> rolling_metric list \<Rightarrow> rolling_result"
where
  "calculated_rolling_result s v opts requested =
     (let benchmark_count = length (ln_benchmark (ls_inputs s)); risk_free_count = length (ln_risk_free (ls_inputs s)) in
      \<lparr>lp_start_date = ls_start s, lp_end_date = ls_end s, lp_series_count = length (ln_portfolio (ls_inputs s)),
       lp_benchmark_series_count = benchmark_count, lp_aligned_benchmark_series_count = lv_aligned_benchmark v,
       lp_risk_free_series_count = risk_free_count, lp_aligned_risk_free_series_count = lv_aligned_risk_free v,
       lp_window_lengths_requested = lo_window_lengths opts,
       lp_window_lengths_emitted = map lw_window_length (lv_results v),
       lp_benchmark_context = rolling_benchmark_context requested benchmark_count (lv_aligned_benchmark v),
       lp_risk_free_context = rolling_risk_free_context requested risk_free_count (lv_aligned_risk_free v),
       lp_window_results = lv_results v, lp_quality_flags = sorted_set (lv_flags v), lp_error = None\<rparr>)"

definition rolling_period_result ::
  "rolling_ops \<Rightarrow> rolling_series_data \<Rightarrow> rolling_options \<Rightarrow> rolling_metric list \<Rightarrow>
     (calculation_error, rolling_result) result"
where
  "rolling_period_result ops s opts requested =
     (if length (ls_portfolio_pp s) < 2 then Inr (insufficient_rolling_result s opts requested)
      else bind_result (rolling_period_window_aggregate ops (ls_inputs s) opts requested) (\<lambda>v.
        Inr (calculated_rolling_result s v opts requested)))"

fun rolling_period_results ::
  "rolling_ops \<Rightarrow> rolling_stateless_input \<Rightarrow> rolling_frames \<Rightarrow> date \<Rightarrow> risk_period list \<Rightarrow>
     (string, rolling_result) dict \<Rightarrow> (calculation_error, (string, rolling_result) dict) result"
where
  "rolling_period_results ops request frames open_date [] results = Inr results"
| "rolling_period_results ops request frames open_date (period # periods) results =
     bind_result (rolling_period_series frames request period open_date) (\<lambda>s.
     bind_result (rolling_period_result ops s (li_options request) (lo_metrics (li_options request))) (\<lambda>r.
       rolling_period_results ops request frames open_date periods (AList.update (ls_name s) r results)))"

section \<open>The response\<close>

datatype rolling_mode = RollingStateless | RollingStateful

record request_dependency =
  le_requested :: bool
  le_metrics :: "rolling_metric list"

record rolling_metadata =
  lt_request_fingerprint :: string
  lt_options :: rolling_options
  lt_unit_semantics :: "(rolling_metric, string) dict"
  lt_requested_metrics :: "rolling_metric list"
  lt_benchmark_context :: request_dependency
  lt_risk_free_context :: request_dependency
  lt_supportability :: supportability
  lt_evidence :: "returns_evidence option"
  lt_source_services :: "string list"
  lt_upstream_fingerprints :: "(string, string) dict"

record rolling_response =
  lr_input_mode :: rolling_mode
  lr_scope :: risk_scope
  lr_results :: "(string, rolling_result) dict"
  lr_metadata :: rolling_metadata

definition request_dependency_context :: "rolling_metric list \<Rightarrow> rolling_metric list \<Rightarrow> request_dependency" where
  "request_dependency_context requested_metrics dependency_metrics =
     (let requested = filter (\<lambda>m. m \<in> set dependency_metrics) requested_metrics in
      \<lparr>le_requested = (requested \<noteq> []), le_metrics = requested\<rparr>)"

text \<open>
  The metadata are validated as they are constructed: units are stated, for exactly the requested metrics,
  and they are the canonical ones.
\<close>

definition validate_unit_semantics :: "rolling_metadata \<Rightarrow> (string, unit) result" where
  "validate_unit_semantics m =
     (let stated = lt_unit_semantics m; requested = lt_requested_metrics m in
      if stated = [] then Inl ''metric_unit_semantics should have at least 1 item''
      else if set (dict_keys stated) \<noteq> set requested
        then Inl ''metric_unit_semantics must state exactly the requested metrics''
      else raise_if (\<exists>(k, u)\<in>set stated. map_of ROLLING_METRIC_UNIT_SEMANTICS k \<noteq> Some u)
        ''metric_unit_semantics contradicts the canonical source-owned units'')"

definition rolling_response_metadata ::
  "rolling_stateless_input fingerprints \<Rightarrow> field_readers \<Rightarrow> rolling_stateless_input \<Rightarrow> supportability \<Rightarrow>
     returns_evidence option \<Rightarrow> (calculation_error, rolling_metadata) result"
where
  "rolling_response_metadata fp readers request s evidence =
     (let opts = li_options request; requested = lo_metrics opts;
          m = \<lparr>lt_request_fingerprint = fp_model fp request, lt_options = opts,
            lt_unit_semantics = dict_of_items (map (\<lambda>m. (m, dict_get ROLLING_METRIC_UNIT_SEMANTICS m [])) requested),
            lt_requested_metrics = requested,
            lt_benchmark_context = request_dependency_context requested ROLLING_BENCHMARK_METRICS,
            lt_risk_free_context = request_dependency_context requested [RollingSharpe],
            lt_supportability = s, lt_evidence = evidence, lt_source_services = [''lotus-risk''],
            lt_upstream_fingerprints = []\<rparr>
      in case validate_unit_semantics m of
           Inl e \<Rightarrow> Inl (PlainValueError (fr_refusal readers e))
         | Inr _ \<Rightarrow> Inr m)"

text \<open>What the posture reads of a result.\<close>

definition rolling_result_view :: "rolling_result \<Rightarrow> period_result" where
  "rolling_result_view r =
     \<lparr>pd_portfolio_observation_count = None, pd_series_count = Some (lp_series_count r), pd_error = lp_error r,
      pd_relative_context = None, pd_benchmark_context = Some (lp_benchmark_context r),
      pd_risk_free_context = Some (lp_risk_free_context r), pd_attribution_sets = [], pd_metric_errors = []\<rparr>"

definition build_rolling_response ::
  "rolling_stateless_input fingerprints \<Rightarrow> field_readers \<Rightarrow> rolling_stateless_input \<Rightarrow> rolling_mode \<Rightarrow>
     returns_evidence option \<Rightarrow> (string, rolling_result) dict \<Rightarrow> (calculation_error, rolling_response) result"
where
  "build_rolling_response fp readers request mode evidence results =
     bind_result (composed_supportability
       (supportability_from_period_results (map pt_date (li_returns request)) (rq_as_of_date (li_scope request))
         (map (\<lambda>(k, r). (k, rolling_result_view r)) results)) evidence) (\<lambda>s.
     bind_result (rolling_response_metadata fp readers request s evidence) (\<lambda>m.
       Inr \<lparr>lr_input_mode = mode, lr_scope = li_scope request, lr_results = results, lr_metadata = m\<rparr>))"

definition calculate_rolling_metrics ::
  "rolling_ops \<Rightarrow> rolling_stateless_input fingerprints \<Rightarrow> field_readers \<Rightarrow> rolling_stateless_input \<Rightarrow> rolling_mode \<Rightarrow>
     returns_evidence option \<Rightarrow> (calculation_error, rolling_response) result"
where
  "calculate_rolling_metrics ops fp readers request mode evidence =
     (let frames = build_rolling_input_frames request in
      case lb_portfolio frames of
        [] \<Rightarrow> build_rolling_response fp readers request mode evidence []
      | (open_date, _) # _ \<Rightarrow>
          bind_result (rolling_period_results ops request frames open_date (li_periods request) []) (\<lambda>results.
            build_rolling_response fp readers request mode evidence results))"

section \<open>What can fail\<close>

lemma float_of_int_Inl: "float_of_int n = Inl e \<Longrightarrow> e = Escaped ''OverflowError''"
  by (auto simp: float_of_int_def split: if_splits)

lemma annualized_Inl: "annualized basis ys = Inl e \<Longrightarrow> e = Escaped ''OverflowError''"
  by (auto simp: annualized_def result_simps dest: float_of_int_Inl)

lemma metric_Inl:
  "calculate_rolling_metric_values ops inputs w basis mo m = Inl e \<Longrightarrow> e = Escaped ''OverflowError''"
  by (cases m)
    (auto simp: calculate_rolling_metric_values_def rolling_volatility_def rolling_sharpe_def ratio_of_differences_def
      rolling_benchmark_metric_def rolling_tracking_error_def rolling_information_ratio_def Let_def result_simps
      split: if_splits prod.splits dest!: annualized_Inl)

lemma windows_Inl:
  "rolling_period_windows ops inputs opts requested ws v = Inl e \<Longrightarrow> e = Escaped ''OverflowError''"
proof (induction ws arbitrary: v)
  case (Cons w ws)
  have "window_metric_aggregate ops inputs n basis mo ms a = Inl e \<Longrightarrow> e = Escaped ''OverflowError''" for n basis mo ms a
    by (induction ms arbitrary: a) (auto simp: result_simps dest: metric_Inl)
  with Cons show ?case by (auto simp: calculate_window_result_def Let_def result_simps)
qed simp

lemma rolling_period_results_Inl:
  "rolling_period_results ops request frames open_date periods results = Inl e \<Longrightarrow>
     e = Escaped ''OverflowError'' \<or> (\<exists>p\<in>set periods. resolve_period p (rq_as_of_date (li_scope request)) open_date = Inl e)"
  by (induction periods arbitrary: results)
    (auto simp: rolling_period_series_def rolling_period_result_def rolling_period_window_aggregate_def Let_def
      result_simps split: if_splits dest: windows_Inl)

section \<open>Every window is answered\<close>

definition period_inputs :: "rolling_stateless_input \<Rightarrow> date \<Rightarrow> date \<Rightarrow> rolling_inputs" where
  "period_inputs request start finish =
     (let cut' = (\<lambda>points. decimal_series (filter_period (returns_frame points) start finish)) in
      \<lparr>ln_portfolio = cut' (li_returns request), ln_benchmark = cut' (li_benchmark_returns request),
       ln_risk_free = cut' (li_risk_free_returns request)\<rparr>)"

text \<open>
  A period is answered under its name with the dates it resolves to and the returns dated in them: with the
  error of insufficient data when they are fewer than two, and otherwise with an answer to every window and
  metric, the flag of a metric standing exactly for gaps in one of its windows.
\<close>

definition answers_rolling_period ::
  "rolling_stateless_input \<Rightarrow> risk_period \<Rightarrow> string \<times> rolling_result \<Rightarrow> bool"
where
  "answers_rolling_period request p entry \<longleftrightarrow>
     (let r = snd entry; opts = li_options request; requested = lo_metrics opts;
          inputs = period_inputs request (lp_start_date r) (lp_end_date r) in
      fst entry = period_name p \<and>
      resolve_period p (rq_as_of_date (li_scope request)) (open_date_of (li_returns request)) =
        Inr (lp_start_date r, lp_end_date r) \<and>
      lp_series_count r = length (period_points (li_returns request) (lp_start_date r) (lp_end_date r)) \<and>
      (if lp_series_count r < 2 then lp_error r = Some ''Insufficient data'' \<and> lp_window_results r = []
       else lp_error r = None \<and>
         list_all2 (answers_window inputs opts requested) (lo_window_lengths opts) (lp_window_results r) \<and>
         (\<forall>m. case zero_flag m of
             Some f \<Rightarrow> f \<in> set (lp_quality_flags r) \<longleftrightarrow> list_ex (gap_in m) (lp_window_results r)
           | None \<Rightarrow> \<not> list_ex (gap_in m) (lp_window_results r)) \<and>
         lp_aligned_benchmark_series_count r = aligned_dates inputs requested ROLLING_BENCHMARK_METRICS \<and>
         lp_aligned_risk_free_series_count r = aligned_dates inputs requested [RollingSharpe]))"

lemma frames_inputs:
  assumes "rolling_period_series (build_rolling_input_frames request) request p d = Inr s"
  shows "ls_name s = period_name p" "resolve_period p (rq_as_of_date (li_scope request)) d = Inr (ls_start s, ls_end s)"
    "length (ls_portfolio_pp s) = length (period_points (li_returns request) (ls_start s) (ls_end s))"
    "ls_inputs s = period_inputs request (ls_start s) (ls_end s)"
    "length (ln_portfolio (ls_inputs s)) = length (ls_portfolio_pp s)"
  using assms
  by (auto simp: rolling_period_series_def build_rolling_input_frames_def period_inputs_def Let_def result_simps
      filter_returns_frame)

lemma rolling_period_answered:
  assumes s: "rolling_period_series (build_rolling_input_frames request) request p (open_date_of (li_returns request)) = Inr s"
    and r: "rolling_period_result ops s (li_options request) (lo_metrics (li_options request)) = Inr r"
    and laws: "rolling_laws ops" and windows: "validate_window_lengths (li_options request) = Inr ()"
  shows "answers_rolling_period request p (ls_name s, r)"
proof (cases "length (ls_portfolio_pp s) < 2")
  case True
  with r frames_inputs [OF s] show ?thesis
    by (auto simp: rolling_period_result_def insufficient_rolling_result_def answers_rolling_period_def Let_def)
next
  case False
  let ?opts = "li_options request"
  from False r obtain v where v: "rolling_period_window_aggregate ops (ls_inputs s) ?opts (lo_metrics ?opts) = Inr v"
    and r: "r = calculated_rolling_result s v ?opts (lo_metrics ?opts)"
    by (auto simp: rolling_period_result_def result_simps)
  from windows have ws: "\<forall>w\<in>set (lo_window_lengths ?opts). 1 < w" "lo_window_lengths ?opts \<noteq> []"
    by (auto simp: validate_window_lengths_def Let_def result_simps split: if_splits)
  from period_windows_answered [OF v [unfolded rolling_period_window_aggregate_def] laws ws(1)] ws(2)
  have "list_all2 (answers_window (ls_inputs s) ?opts (lo_metrics ?opts)) (lo_window_lengths ?opts) (lv_results v)"
    "\<forall>m f. zero_flag m = Some f \<longrightarrow> (f \<in> set (lv_flags v) \<longleftrightarrow> (\<exists>r\<in>set (lv_results v). gap_in m r))"
    "\<forall>m. zero_flag m = None \<longrightarrow> (\<forall>r\<in>set (lv_results v). \<not> gap_in m r)"
    "lv_aligned_benchmark v = aligned_dates (ls_inputs s) (lo_metrics ?opts) ROLLING_BENCHMARK_METRICS"
    "lv_aligned_risk_free v = aligned_dates (ls_inputs s) (lo_metrics ?opts) [RollingSharpe]"
    by auto
  with False frames_inputs [OF s] show ?thesis
    by (simp add: r calculated_rolling_result_def answers_rolling_period_def Let_def list_ex_iff split: option.split)
qed

lemma rolling_results_Inr:
  "rolling_period_results ops request (build_rolling_input_frames request) (open_date_of (li_returns request)) periods results = Inr out \<Longrightarrow>
     distinct (map fst results @ map period_name periods) \<Longrightarrow> rolling_laws ops \<Longrightarrow>
     validate_window_lengths (li_options request) = Inr () \<Longrightarrow>
     \<exists>rs. out = results @ rs \<and> list_all2 (answers_rolling_period request) periods rs"
proof (induction periods arbitrary: results)
  case (Cons p ps)
  from Cons.prems(1) obtain s r where
    s: "rolling_period_series (build_rolling_input_frames request) request p (open_date_of (li_returns request)) = Inr s"
    and r: "rolling_period_result ops s (li_options request) (lo_metrics (li_options request)) = Inr r"
    and rest: "rolling_period_results ops request (build_rolling_input_frames request) (open_date_of (li_returns request)) ps
      (AList.update (ls_name s) r results) = Inr out"
    by (auto simp: result_simps)
  note name = frames_inputs(1) [OF s]
  from Cons.prems(2) name have up: "AList.update (ls_name s) r results = results @ [(ls_name s, r)]"
    by (intro update_fresh) auto
  have "distinct (map fst (results @ [(ls_name s, r)]) @ map period_name ps)" using Cons.prems(2) name by auto
  from Cons.IH [OF rest [unfolded up] this Cons.prems(3,4)] obtain rs where
    "out = (results @ [(ls_name s, r)]) @ rs" "list_all2 (answers_rolling_period request) ps rs" by blast
  with rolling_period_answered [OF s r Cons.prems(3,4)] show ?case by (intro exI [of _ "(ls_name s, r) # rs"]) simp
qed simp

lemma entries_of_items: "(k, v) \<in> set (dict_of_items kvs) \<Longrightarrow> (k, v) \<in> set kvs"
proof -
  have up: "(k, v) \<in> set (AList.update a b d) \<Longrightarrow> (k, v) = (a, b) \<or> (k, v) \<in> set d" for a b and d :: "('a, 'b) dict"
    by (induction d) (auto split: if_splits)
  have "(k, v) \<in> set (fold (\<lambda>(k, v) d. AList.update k v d) kvs d) \<Longrightarrow> (k, v) \<in> set kvs \<or> (k, v) \<in> set d" for d
  proof (induction kvs arbitrary: d)
    case (Cons kv kvs)
    obtain a b where kv: "kv = (a, b)" by force
    with Cons.prems Cons.IH [of "AList.update a b d"] up [of a b d] show ?case by auto
  qed simp
  then show "(k, v) \<in> set (dict_of_items kvs) \<Longrightarrow> (k, v) \<in> set kvs" by (force simp: dict_of_items_def)
qed

text \<open>A response is refused exactly when no metric is requested: its units would then be an empty mapping.\<close>

lemma units_valid:
  assumes "lt_unit_semantics m = dict_of_items (map (\<lambda>k. (k, dict_get ROLLING_METRIC_UNIT_SEMANTICS k [])) ms)"
    and "lt_requested_metrics m = ms"
  shows "validate_unit_semantics m = Inr () \<longleftrightarrow> ms \<noteq> []"
proof (cases "ms = []")
  case True
  with assms show ?thesis by (simp add: validate_unit_semantics_def dict_of_items_def)
next
  case False
  let ?d = "dict_of_items (map (\<lambda>k. (k, dict_get ROLLING_METRIC_UNIT_SEMANTICS k [])) ms)"
  have keys: "set (dict_keys ?d) = set ms" by (simp add: dict_keys_def keys_dict_of_items image_image)
  then have "?d \<noteq> []" using False by (auto simp: dict_keys_def)
  moreover have "map_of ROLLING_METRIC_UNIT_SEMANTICS k = Some u" if "(k, u) \<in> set ?d" for k u
    using entries_of_items [OF that] by (cases k) (auto simp: dict_get_def ROLLING_METRIC_UNIT_SEMANTICS_def)
  ultimately show ?thesis using assms keys False by (auto simp: validate_unit_semantics_def Let_def result_simps)
qed

lemma units_accepted:
  "ms \<noteq> [] \<Longrightarrow> validate_unit_semantics \<lparr>lt_request_fingerprint = a, lt_options = b,
     lt_unit_semantics = dict_of_items (map (\<lambda>k. (k, dict_get ROLLING_METRIC_UNIT_SEMANTICS k [])) ms),
     lt_requested_metrics = ms, lt_benchmark_context = c, lt_risk_free_context = d, lt_supportability = e,
     lt_evidence = f, lt_source_services = g, lt_upstream_fingerprints = h\<rparr> = Inr ()"
  by (subst units_valid) simp_all

lemma rolling_response_fields:
  assumes "lo_metrics (li_options request) \<noteq> []"
  obtains r where "build_rolling_response fp readers request mode evidence results = Inr r"
    "lr_results r = results" "lt_evidence (lr_metadata r) = evidence"
    "su_state (lt_supportability (lr_metadata r)) = StateReady \<longrightarrow> li_returns request \<noteq> []"
proof -
  obtain s where s: "composed_supportability
       (supportability_from_period_results (map pt_date (li_returns request)) (rq_as_of_date (li_scope request))
         (map (\<lambda>(k, r). (k, rolling_result_view r)) results)) evidence = Inr s"
    and posture: "su_state s = StateReady \<longrightarrow> li_returns request \<noteq> []"
    using composed_posture [of "map pt_date (li_returns request)" "rq_as_of_date (li_scope request)"
        "map (\<lambda>(k, r). (k, rolling_result_view r)) results" evidence] by (metis list.map_disc_iff)
  obtain m :: rolling_metadata where m: "rolling_response_metadata fp readers request s evidence = Inr m" "lt_evidence m = evidence"
      "lt_supportability m = s"
    using assms by (simp add: rolling_response_metadata_def Let_def units_accepted)
  have "build_rolling_response fp readers request mode evidence results =
      Inr \<lparr>lr_input_mode = mode, lr_scope = li_scope request, lr_results = results, lr_metadata = m\<rparr>"
    by (simp add: build_rolling_response_def s m)
  from that [OF this] m(2,3) posture show thesis by simp
qed

lemma no_metric_refused:
  assumes "lo_metrics (li_options request) = []"
  shows "\<exists>e. build_rolling_response fp readers request mode evidence results = Inl e"
proof (cases "build_rolling_response fp readers request mode evidence results")
  case (Inr r)
  then have "\<exists>s m. rolling_response_metadata fp readers request s evidence = Inr m"
    by (auto simp: build_rolling_response_def result_simps)
  with assms show ?thesis
    by (auto simp: rolling_response_metadata_def validate_unit_semantics_def Let_def dict_of_items_def)
qed simp

lemma rolling_answers:
  assumes laws: "rolling_laws ops" and windows: "validate_window_lengths (li_options request) = Inr ()"
    and names: "distinct (map period_name (li_periods request))" and ne: "li_returns request \<noteq> []"
  shows "case calculate_rolling_metrics ops fp readers request mode evidence of
      Inl e \<Rightarrow> e = Escaped ''OverflowError'' \<or> lo_metrics (li_options request) = [] \<or>
        (\<exists>p\<in>set (li_periods request).
          resolve_period p (rq_as_of_date (li_scope request)) (open_date_of (li_returns request)) = Inl e)
    | Inr response \<Rightarrow> lo_metrics (li_options request) \<noteq> [] \<and> lt_evidence (lr_metadata response) = evidence \<and>
        list_all2 (answers_rolling_period request) (li_periods request) (lr_results response)"
proof -
  let ?d = "open_date_of (li_returns request)"
  let ?run = "rolling_period_results ops request (build_rolling_input_frames request) ?d (li_periods request) []"
  obtain v rest where frame: "returns_frame (li_returns request) = (?d, v) # rest"
    using returns_frame_opens [OF ne] .
  then have calc: "calculate_rolling_metrics ops fp readers request mode evidence =
      bind_result ?run (build_rolling_response fp readers request mode evidence)"
    by (simp add: calculate_rolling_metrics_def build_rolling_input_frames_def Let_def)
  show ?thesis
  proof (cases ?run)
    case (Inl e)
    with calc rolling_period_results_Inl [OF Inl] show ?thesis by auto
  next
    case (Inr results)
    from rolling_results_Inr [OF Inr _ laws windows] names
    have answered: "list_all2 (answers_rolling_period request) (li_periods request) results" by simp
    show ?thesis
    proof (cases "lo_metrics (li_options request) = []")
      case True
      obtain e where "build_rolling_response fp readers request mode evidence results = Inl e"
        using no_metric_refused [OF True] by blast
      with calc Inr True show ?thesis by simp
    next
      case False
      obtain r :: rolling_response where "build_rolling_response fp readers request mode evidence results = Inr r"
        "lr_results r = results" "lt_evidence (lr_metadata r) = evidence"
        by (rule rolling_response_fields [OF False])
      with calc Inr answered False show ?thesis by simp
    qed
  qed
qed

text \<open>C30: A rolling report on returns answers every requested period once and in order: with the error of
  insufficient data and no window when fewer than two returns are dated in the period, and otherwise with
  every window and metric, the points of a metric being the dates its series have in common, split into those
  still warming up, gaps and values; such a period carries the quality flag of a metric exactly when one of
  its windows has a gap in that metric, and the other metrics have none.  A request without any returns is
  admitted too: its report answers no period and is not ready.  A report is refused only when no metric is
  requested, or there are returns and a period does not resolve or the annualization basis is no float.\<close>

theorem every_window_is_answered:
  assumes "rolling_laws ops" "validate_window_lengths (li_options request) = Inr ()"
    and "validate_rolling_stateless request = Inr ()"
  shows "case calculate_rolling_metrics ops fp readers request mode evidence of
      Inl e \<Rightarrow> lo_metrics (li_options request) = [] \<or> li_returns request \<noteq> [] \<and>
        (e = Escaped ''OverflowError'' \<or> (\<exists>p\<in>set (li_periods request).
          resolve_period p (rq_as_of_date (li_scope request)) (open_date_of (li_returns request)) = Inl e))
    | Inr response \<Rightarrow> lo_metrics (li_options request) \<noteq> [] \<and> lt_evidence (lr_metadata response) = evidence \<and>
        (if li_returns request = []
         then lr_results response = [] \<and> su_state (lt_supportability (lr_metadata response)) \<noteq> StateReady
         else list_all2 (answers_rolling_period request) (li_periods request) (lr_results response))"
proof (cases "li_returns request = []")
  case False
  have "distinct (map period_name (li_periods request))"
    using assms(3) by (auto simp: validate_rolling_stateless_def result_simps validate_unique_names_iff)
  from rolling_answers [OF assms(1,2) this False, where fp = fp and readers = readers and mode = mode
      and evidence = evidence] False
  show ?thesis by (auto split: sum.splits)
next
  case True
  then have calc: "calculate_rolling_metrics ops fp readers request mode evidence =
      build_rolling_response fp readers request mode evidence []"
    by (simp add: calculate_rolling_metrics_def build_rolling_input_frames_def returns_frame_def)
  show ?thesis
  proof (cases "lo_metrics (li_options request) = []")
    case none: True
    obtain e where "build_rolling_response fp readers request mode evidence [] = Inl e"
      using no_metric_refused [OF none] by blast
    with calc none show ?thesis by simp
  next
    case False
    obtain r where "build_rolling_response fp readers request mode evidence [] = Inr r" "lr_results r = []"
      "lt_evidence (lr_metadata r) = evidence"
      "su_state (lt_supportability (lr_metadata r)) = StateReady \<longrightarrow> li_returns request \<noteq> []"
      by (rule rolling_response_fields [OF False])
    with calc True False show ?thesis by auto
  qed
qed

section \<open>The points of a report\<close>

definition emitted_points :: "rolling_response \<Rightarrow> nat" where
  "emitted_points response =
     sum_list (map (\<lambda>(k, r). sum_list (map (\<lambda>w. lk_emitted_points (lw_series_context w)) (lp_window_results r)))
       (lr_results response))"

lemma metric_dates_subset: "set (metric_dates inputs m) \<subseteq> set (series_dates (ln_portfolio inputs))"
  by (auto simp: metric_dates_def series_dates_def merge_inner_def set_map_filter image_iff split: prod.splits intro!: bexI [rotated])

definition point_bound :: "rolling_stateless_input \<Rightarrow> nat" where
  "point_bound request = (if lo_include_time_series (li_options request) then length (li_returns request) else 0)"

lemma window_points_bound:
  assumes "answers_window (period_inputs request start finish) (li_options request) requested w r"
  shows "lk_emitted_points (lw_series_context r) \<le> point_bound request"
proof (cases "lw_series r")
  case None
  with assms show ?thesis by (simp add: answers_window_def)
next
  case (Some ps)
  let ?inputs = "period_inputs request start finish"
  from assms Some have ps: "map fst ps = sorted_set (concat (map (metric_dates ?inputs) requested))"
    "lk_emitted_points (lw_series_context r) = length ps" "lo_include_time_series (li_options request)"
    by (auto simp: answers_window_def split: if_splits)
  have "length (map fst ps) = card (set (concat (map (metric_dates ?inputs) requested)))"
    unfolding ps by (metis distinct_card distinct_sorted_set set_sorted_set)
  also have "\<dots> \<le> card (set (series_dates (ln_portfolio ?inputs)))"
    using metric_dates_subset [of ?inputs] by (intro card_mono) auto
  also have "\<dots> \<le> length (series_dates (ln_portfolio ?inputs))" by (rule card_length)
  also have "\<dots> \<le> length (li_returns request)"
    by (simp add: period_inputs_def series_dates_def) (simp add: filter_period_def returns_frame_def le_trans [OF length_filter_le])
  finally show ?thesis using ps(2,3) by (simp add: point_bound_def)
qed

lemma sum_list_bound: "(\<And>x. x \<in> set xs \<Longrightarrow> f x \<le> (b :: nat)) \<Longrightarrow> sum_list (map f xs) \<le> length xs * b"
  by (induction xs) (auto intro: add_mono)

lemma period_points_bound:
  assumes "answers_rolling_period request p (k, r)"
  shows "sum_list (map (\<lambda>w. lk_emitted_points (lw_series_context w)) (lp_window_results r)) \<le>
    length (lo_window_lengths (li_options request)) * point_bound request"
proof (cases "lp_series_count r < 2")
  case True
  with assms show ?thesis by (simp add: answers_rolling_period_def)
next
  case False
  from False assms have w: "list_all2 (answers_window (period_inputs request (lp_start_date r) (lp_end_date r))
      (li_options request) (lo_metrics (li_options request))) (lo_window_lengths (li_options request)) (lp_window_results r)"
    by (simp add: answers_rolling_period_def Let_def)
  have "lk_emitted_points (lw_series_context x) \<le> point_bound request" if "x \<in> set (lp_window_results r)" for x
    using w that by (auto simp: list_all2_conv_all_nth in_set_conv_nth intro: window_points_bound)
  then have "sum_list (map (\<lambda>w. lk_emitted_points (lw_series_context w)) (lp_window_results r)) \<le>
      length (lp_window_results r) * point_bound request"
    by (rule sum_list_bound)
  then show ?thesis using list_all2_lengthD [OF w] by simp
qed

lemma report_points_bound:
  assumes "list_all2 (answers_rolling_period request) periods results"
  shows "sum_list (map (\<lambda>(k, r). sum_list (map (\<lambda>w. lk_emitted_points (lw_series_context w)) (lp_window_results r))) results)
    \<le> length periods * (length (lo_window_lengths (li_options request)) * point_bound request)"
  using assms
proof (induction rule: list_all2_induct)
  case (Cons p periods entry results)
  with period_points_bound [of request p "fst entry" "snd entry"] show ?case
    by (simp add: split_def add_mono)
qed simp

text \<open>C31: No admitted request, stateless or resolved, makes a report that emits more points than the supported maximum.\<close>

theorem emitted_points_are_bounded:
  assumes "rolling_laws ops" "validate_window_lengths (li_options request) = Inr ()"
    and "validate_rolling_stateless request = Inr ()" "li_returns request \<noteq> []"
    and "calculate_rolling_metrics ops fp readers request mode evidence = Inr response"
  shows "emitted_points response \<le> ROLLING_MAX_TIME_SERIES_POINTS"
proof -
  have names: "distinct (map period_name (li_periods request))"
    and load: "length (li_periods request) * (length (lo_window_lengths (li_options request)) * point_bound request)
      \<le> ROLLING_MAX_TIME_SERIES_POINTS"
    using assms(3) by (auto simp: validate_rolling_stateless_def validate_rolling_time_series_workload_def
      point_bound_def result_simps validate_unique_names_iff mult.assoc)
  from rolling_answers [OF assms(1,2) names assms(4), where fp = fp and readers = readers and mode = mode
      and evidence = evidence] assms(5)
  have "list_all2 (answers_rolling_period request) (li_periods request) (lr_results response)" by simp
  from report_points_bound [OF this] load show ?thesis by (simp add: emitted_points_def)
qed

section \<open>Examples\<close>

definition over_windows :: "(f64 list \<Rightarrow> f64) \<Rightarrow> nat \<Rightarrow> nat \<Rightarrow> f64 list \<Rightarrow> f64 option list" where
  "over_windows f w m xs =
     map (\<lambda>i. let window = trailing w xs i in if length window < m then None else Some (f window)) [0 ..< length xs]"

definition reference_rolling_ops :: rolling_ops where
  "reference_rolling_ops = risk_ops.extend reference_risk_ops
     \<lparr>lx_std = over_windows (rk_std reference_risk_ops), lx_mean = over_windows (np_mean reference_risk_ops),
      lx_var = over_windows (\<lambda>xs. snd (rk_cov reference_risk_ops xs xs)),
      lx_cov = (\<lambda>w m xs ys. over_windows (\<lambda>zs. fst (rk_cov reference_risk_ops zs zs)) w m xs),
      lx_average = np_mean reference_risk_ops, lx_quantile = (\<lambda>xs q. hd xs)\<rparr>"

lemma over_windows_windowed: "m \<le> w \<Longrightarrow> windowed (length xs) m (over_windows f w m xs)"
  by (auto simp: windowed_def over_windows_def Let_def)

lemma rolling_laws_reference: "rolling_laws reference_rolling_ops"
  by (simp add: rolling_laws_def reference_rolling_ops_def risk_ops.extend_def over_windows_windowed)

definition example_rolling :: rolling_stateless_input where
  "example_rolling =
     \<lparr>li_scope = \<lparr>rq_as_of_date = Date 2026 3 31, rq_reporting_currency = None, rq_net_or_gross = Net\<rparr>,
      li_periods = [example_year 2026],
      li_returns = map (\<lambda>(d, v). \<lparr>pt_date = d, pt_value = v\<rparr>) sample_returns,
      li_benchmark_returns = [], li_risk_free_returns = [],
      li_options = \<lparr>lo_window_lengths = [2], lo_metrics = [RollingMaxDrawdown], lo_annualization_basis = 252,
        lo_strict_observations = True, lo_include_time_series = True\<rparr>\<rparr>"

lemma example_rolling_valid:
  "validate_window_lengths (li_options example_rolling) = Inr ()" "validate_rolling_stateless example_rolling = Inr ()"
  "li_returns example_rolling \<noteq> []"
proof -
  show "validate_window_lengths (li_options example_rolling) = Inr ()"
    by (simp add: validate_window_lengths_def example_rolling_def ROLLING_MAX_WINDOW_LENGTH_def raise_if_def)
  have "validate_unique_period_names (li_periods example_rolling) = Inr ()"
    "validate_unique_return_dates (li_returns example_rolling) ''returns'' = Inr ()"
    "validate_unique_return_dates [] ''benchmark_returns'' = Inr ()" "validate_unique_return_dates [] ''risk_free_returns'' = Inr ()"
    by code_simp+
  then show "validate_rolling_stateless example_rolling = Inr ()"
    by (simp add: validate_rolling_stateless_def validate_rolling_time_series_workload_def raise_if_def
        validate_rolling_stateless_dependencies_def ROLLING_BENCHMARK_METRICS_def ROLLING_MAX_TIME_SERIES_POINTS_def)
      (simp add: example_rolling_def sample_returns_def)
  show "li_returns example_rolling \<noteq> []" by (simp add: example_rolling_def sample_returns_def)
qed

lemma example_rolling_fields:
  "rq_as_of_date (li_scope example_rolling) = Date 2026 3 31" "li_periods example_rolling = [example_year 2026]"
  "lo_metrics (li_options example_rolling) = [RollingMaxDrawdown]" "lo_window_lengths (li_options example_rolling) = [2]"
  by (simp_all add: example_rolling_def)

lemma example_rolling_period:
  "open_date_of (li_returns example_rolling) = Date 2026 1 2"
  "resolve_period (example_year 2026) (Date 2026 3 31) (Date 2026 1 2) = Inr (Date 2026 1 2, Date 2026 12 31)"
  "period_name (example_year 2026) = ''YEAR''"
proof -
  show "open_date_of (li_returns example_rolling) = Date 2026 1 2"
    by (simp add: open_date_of_def example_rolling_def sample_returns_def less_eq_date_def less_date_def min_def)
  show "resolve_period (example_year 2026) (Date 2026 3 31) (Date 2026 1 2) = Inr (Date 2026 1 2, Date 2026 12 31)"
    by code_simp
  show "period_name (example_year 2026) = ''YEAR''" by (simp add: period_name_def example_year_def)
qed

lemma example_rolling_points:
  "length (period_points (li_returns example_rolling) (Date 2026 1 2) (Date 2026 12 31)) = 3"
  "length (metric_dates (period_inputs example_rolling (Date 2026 1 2) (Date 2026 12 31)) RollingMaxDrawdown) = 3"
proof -
  show three: "length (period_points (li_returns example_rolling) (Date 2026 1 2) (Date 2026 12 31)) = 3" by code_simp
  show "length (metric_dates (period_inputs example_rolling (Date 2026 1 2) (Date 2026 12 31)) RollingMaxDrawdown) = 3"
    unfolding three [symmetric] filter_returns_frame [symmetric]
    by (simp add: metric_dates_def ROLLING_BENCHMARK_METRICS_def period_inputs_def series_dates_def decimal_series_def)
qed

lemma example_rolling_answered:
  assumes "answers_rolling_period example_rolling (example_year 2026) (k, r)"
  shows "k = ''YEAR'' \<and> lp_error r = None \<and> map lw_window_length (lp_window_results r) = [2] \<and>
    list_all (\<lambda>w. list_all (\<lambda>(m, s). lm_total_points s = 3 \<and> lm_warmup_points s = 1) (lw_summaries w)) (lp_window_results r)"
proof -
  from assms have dates: "lp_start_date r = Date 2026 1 2" "lp_end_date r = Date 2026 12 31" and k: "k = ''YEAR''"
    by (auto simp: answers_rolling_period_def Let_def example_rolling_fields example_rolling_period)
  with assms have r: "lp_error r = None" "list_all2 (answers_window (period_inputs example_rolling (Date 2026 1 2) (Date 2026 12 31))
      (li_options example_rolling) [RollingMaxDrawdown]) [2] (lp_window_results r)"
    by (auto simp: answers_rolling_period_def Let_def example_rolling_fields example_rolling_points)
  then obtain w where w: "lp_window_results r = [w]" "answers_window (period_inputs example_rolling (Date 2026 1 2) (Date 2026 12 31))
      (li_options example_rolling) [RollingMaxDrawdown] 2 w"
    by (auto simp: list_all2_Cons1)
  have "min_observations (nat 2) (lo_strict_observations (li_options example_rolling)) = 2"
    by (simp add: min_observations_def example_rolling_def)
  with w(2) have "lw_window_length w = 2" "list_all (\<lambda>(m, s). answers_metric
      (length (metric_dates (period_inputs example_rolling (Date 2026 1 2) (Date 2026 12 31)) m)) 2 s) (lw_summaries w)"
    "fst ` set (lw_summaries w) = {RollingMaxDrawdown}"
    by (simp_all add: answers_window_def)
  moreover have "m = RollingMaxDrawdown" if "(m, s) \<in> set (lw_summaries w)" for m s
    using calculation(3) imageI [OF that, of fst] by simp
  ultimately have "list_all (\<lambda>(m, s). lm_total_points s = 3 \<and> lm_warmup_points s = 1) (lw_summaries w)"
    unfolding list_all_iff using example_rolling_points(2) by (fastforce simp: answers_metric_def)
  with \<open>lw_window_length w = 2\<close> show ?thesis using k r(1) w(1) by simp
qed

lemma drawdown_windows:
  "\<exists>u. rolling_period_windows ops inputs opts [RollingMaxDrawdown] ws v = Inr u"
  by (induction ws arbitrary: v) (simp_all add: calculate_window_result_def calculate_rolling_metric_values_def Let_def)

lemma drawdown_period:
  "\<exists>r. rolling_period_result ops s opts [RollingMaxDrawdown] = Inr r"
proof -
  obtain u where "rolling_period_window_aggregate ops (ls_inputs s) opts [RollingMaxDrawdown] = Inr u"
    unfolding rolling_period_window_aggregate_def using drawdown_windows by blast
  then show ?thesis by (simp add: rolling_period_result_def)
qed

lemma example_rolling_run:
  "\<exists>response. calculate_rolling_metrics reference_rolling_ops example_digests sample_readers example_rolling
     RollingStateless evidence = Inr response"
proof -
  obtain v rest where frame: "returns_frame (li_returns example_rolling) = (Date 2026 1 2, v) # rest"
    using returns_frame_opens [OF example_rolling_valid(3)] example_rolling_period(1) by metis
  obtain s where s: "rolling_period_series (build_rolling_input_frames example_rolling) example_rolling (example_year 2026)
      (Date 2026 1 2) = Inr s"
    by (simp add: rolling_period_series_def example_rolling_fields example_rolling_period Let_def)
  obtain r where r: "rolling_period_result reference_rolling_ops s (li_options example_rolling) [RollingMaxDrawdown] = Inr r"
    using drawdown_period by blast
  obtain response :: rolling_response where
    "build_rolling_response example_digests sample_readers example_rolling RollingStateless evidence [(ls_name s, r)] = Inr response"
    by (rule rolling_response_fields [of example_rolling]) (simp_all add: example_rolling_fields)
  moreover have "lb_portfolio (build_rolling_input_frames example_rolling) = (Date 2026 1 2, v) # rest"
    by (simp add: build_rolling_input_frames_def frame)
  ultimately show ?thesis
    using s r by (simp add: calculate_rolling_metrics_def Let_def example_rolling_fields)
qed

theorem every_window_is_answered_witness:
  "\<exists>response. calculate_rolling_metrics reference_rolling_ops example_digests sample_readers example_rolling
      RollingStateless None = Inr response \<and>
    list_all (\<lambda>(k, r). k = ''YEAR'' \<and> lp_error r = None \<and> map lw_window_length (lp_window_results r) = [2] \<and>
       list_all (\<lambda>w. list_all (\<lambda>(m, s). lm_total_points s = 3 \<and> lm_warmup_points s = 1) (lw_summaries w))
         (lp_window_results r)) (lr_results response)"
proof -
  obtain response where run: "calculate_rolling_metrics reference_rolling_ops example_digests sample_readers
      example_rolling RollingStateless None = Inr response"
    using example_rolling_run by blast
  from every_window_is_answered [OF rolling_laws_reference example_rolling_valid(1,2), where fp = example_digests
      and readers = sample_readers and mode = RollingStateless and evidence = None] run example_rolling_valid(3)
  have "list_all2 (answers_rolling_period example_rolling) [example_year 2026] (lr_results response)"
    by (simp add: example_rolling_fields)
  then show ?thesis using run by (auto simp: list_all2_Cons1 dest!: example_rolling_answered)
qed

theorem emitted_points_are_bounded_witness:
  "\<exists>response. calculate_rolling_metrics reference_rolling_ops example_digests sample_readers example_rolling
      RollingStateless None = Inr response \<and> emitted_points response \<le> 10000"
proof -
  obtain response where run: "calculate_rolling_metrics reference_rolling_ops example_digests sample_readers
      example_rolling RollingStateless None = Inr response"
    using example_rolling_run by blast
  from emitted_points_are_bounded [OF rolling_laws_reference example_rolling_valid run] run
  show ?thesis by (auto simp: ROLLING_MAX_TIME_SERIES_POINTS_def)
qed

end
