(* ===== verification/RollingSourcing.thy ===== *)
theory RollingSourcing
  imports Main RollingEngine RiskSourcing
begin

text \<open>
  The stateful branch of the rolling report: what it depends on
  (services/rolling_stateful_dependency_selection.py), the requests it sends
  (services/rolling_stateful_source_responses.py), the risk-free series with its coverage diagnostics
  (services/rolling_risk_free_dependency.py, services/rolling_risk_free_coverage.py), the resolved inputs
  (services/rolling_stateful_inputs.py), the report with its lineage (services/rolling_mode_adapter.py), the
  requests (contracts/rolling_stateful_request_inputs.py, contracts/rolling_request_inputs.py) and the route
  (routers/rolling.py).
\<close>

section \<open>Requests\<close>

record rolling_stateful_input =
  lf_portfolio_id :: string
  lf_as_of_date :: date
  lf_client_id :: "string option"
  lf_reporting_currency :: "string option"
  lf_net_or_gross :: net_or_gross
  lf_periods :: "risk_period list"
  lf_options :: rolling_options

record rolling_request =
  lq_input_mode :: rolling_mode
  lq_stateless_input :: "rolling_stateless_input option"
  lq_stateful_input :: "rolling_stateful_input option"

definition validate_rolling_stateful :: "rolling_stateful_input \<Rightarrow> (string, unit) result" where
  "validate_rolling_stateful payload = validate_unique_period_names (lf_periods payload)"

definition validate_rolling_request :: "rolling_request \<Rightarrow> (string, unit) result" where
  "validate_rolling_request rq =
     (if lq_input_mode rq = RollingStateless \<and> lq_stateless_input rq = None
      then Inl ''stateless_input is required when input_mode=stateless''
      else raise_if (lq_input_mode rq = RollingStateful \<and> lq_stateful_input rq = None)
        ''stateful_input is required when input_mode=stateful'')"

definition rolling_requires_risk_free :: "rolling_stateful_input \<Rightarrow> bool" where
  "rolling_requires_risk_free stateful \<longleftrightarrow> RollingSharpe \<in> set (lo_metrics (lf_options stateful))"

definition rolling_requires_benchmark :: "rolling_stateful_input \<Rightarrow> bool" where
  "rolling_requires_benchmark stateful \<longleftrightarrow>
     (\<exists>m\<in>set (lo_metrics (lf_options stateful)). m \<in> set ROLLING_BENCHMARK_METRICS)"

section \<open>Selection and source requests\<close>

record dependency_selection =
  lh_stateful :: rolling_stateful_input
  lh_include_risk_free :: bool
  lh_reporting_currency :: "string option"
  lh_core_snapshot_request :: "json_object option"

definition resolve_stateful_dependency_selection ::
  "rolling_stateful_input \<Rightarrow> core_client option \<Rightarrow> downstream_authority \<Rightarrow> dependency_selection io"
where
  "resolve_stateful_dependency_selection stateful core authority =
     bind_io (resolve_portfolio_reporting_currency (lf_portfolio_id stateful) (lf_as_of_date stateful)
       (lf_reporting_currency stateful) (rolling_requires_risk_free stateful) core authority) (\<lambda>resolved.
       return_io \<lparr>lh_stateful = stateful\<lparr>lf_reporting_currency := rx_reporting_currency resolved\<rparr>,
         lh_include_risk_free = rolling_requires_risk_free stateful,
         lh_reporting_currency = rx_reporting_currency resolved,
         lh_core_snapshot_request = rx_snapshot_request resolved\<rparr>)"

definition rolling_returns_query :: "rolling_stateful_input \<Rightarrow> returns_query" where
  "rolling_returns_query stateful =
     \<lparr>qy_portfolio_id = lf_portfolio_id stateful, qy_as_of_date = lf_as_of_date stateful,
      qy_periods = lf_periods stateful, qy_frequency = ''DAILY'', qy_metric_basis = lf_net_or_gross stateful,
      qy_reporting_currency = lf_reporting_currency stateful,
      qy_include_benchmark = rolling_requires_benchmark stateful, qy_include_risk_free = False,
      qy_missing_data_policy = ''ALLOW_PARTIAL'', qy_benchmark_id = None\<rparr>"

definition explicit_window_bounds :: "field_readers \<Rightarrow> json_object \<Rightarrow> (calculation_error, (date \<times> date) option) result" where
  "explicit_window_bounds readers payload =
     (case json_get payload ''window'' of
        JObject window \<Rightarrow>
          if json_get window ''mode'' \<noteq> JString ''EXPLICIT'' then Inr None
          else (case (json_get window ''from_date'', json_get window ''to_date'') of
              (JString raw_start, JString raw_end) \<Rightarrow>
                (case (date_fromisoformat raw_start, date_fromisoformat raw_end) of
                   (Some start, Some finish) \<Rightarrow> Inr (Some (start, finish))
                 | _ \<Rightarrow> Inl (PlainValueError (fr_refusal readers raw_start)))
            | _ \<Rightarrow> Inr None)
      | _ \<Rightarrow> Inr None)"

definition explicit_risk_free_request ::
  "rolling_stateful_input \<Rightarrow> core_client option \<Rightarrow> bool \<Rightarrow> (date \<times> date) option \<Rightarrow> string option \<Rightarrow>
     (calculation_error, json_object option \<times> core_client option) result"
where
  "explicit_risk_free_request stateful core include_risk_free window currency =
     (if \<not> include_risk_free then Inr (None, None)
      else case core of
        None \<Rightarrow> Inl (PlainValueError ''lotus-core client is required for rolling Sharpe stateful risk-free sourcing'')
      | Some client \<Rightarrow>
          (case window of
             None \<Rightarrow> Inr (None, Some client)
           | Some (start, finish) \<Rightarrow>
               (case currency of
                  None \<Rightarrow> Inl (PlainValueError ''reporting currency is required for rolling risk-free sourcing'')
                | Some c \<Rightarrow> Inr (Some (build_risk_free_series_request c (lf_as_of_date stateful) start finish), Some client))))"

text \<open>
  \<open>asyncio.gather\<close> starts both computations; both run to their end whatever becomes of the other, and the
  first failure in time is raised.  As every peer answers with the whole trace in view, one of them is run
  after the other here, in the order that \<open>second_first\<close> chooses.
\<close>

definition gather_io :: "bool \<Rightarrow> 'a io \<Rightarrow> 'b io \<Rightarrow> ('a \<times> 'b) io" where
  "gather_io second_first a b t =
     (if second_first
      then case b t of (rb, u) \<Rightarrow> (case a u of (ra, v) \<Rightarrow> (bind_result rb (\<lambda>y. bind_result ra (\<lambda>x. Inr (x, y))), v))
      else case a t of (ra, u) \<Rightarrow> (case b u of (rb, v) \<Rightarrow> (bind_result ra (\<lambda>x. bind_result rb (\<lambda>y. Inr (x, y))), v)))"

record source_responses =
  lj_source_payload :: json_object
  lj_source_response :: json_object
  lj_risk_free_request :: "json_object option"
  lj_risk_free_response :: "json_object option"

definition fetch_returns_and_risk_free ::
  "bool \<Rightarrow> json_object \<Rightarrow> json_object option \<Rightarrow> performance_client \<Rightarrow> core_client option \<Rightarrow>
     downstream_authority \<Rightarrow> (json_object \<times> json_object option) io"
where
  "fetch_returns_and_risk_free core_first payload risk_free_request performance core authority =
     (case (risk_free_request, core) of
        (Some request, Some client) \<Rightarrow>
          bind_io (gather_io core_first (execute_returns_series_request performance payload authority)
            (get_risk_free_series client request authority)) (\<lambda>(answer, risk_free). return_io (answer, Some risk_free))
      | _ \<Rightarrow> bind_io (execute_returns_series_request performance payload authority) (\<lambda>answer. return_io (answer, None)))"

definition fetch_stateful_source_responses ::
  "bool \<Rightarrow> field_readers \<Rightarrow> rolling_stateful_input \<Rightarrow> performance_client \<Rightarrow> core_client option \<Rightarrow>
     downstream_authority \<Rightarrow> bool \<Rightarrow> string option \<Rightarrow> source_responses io"
where
  "fetch_stateful_source_responses core_first readers stateful performance core authority include_risk_free currency =
     bind_io (lift_io (build_stateful_returns_series_request (rolling_returns_query stateful))) (\<lambda>payload.
     bind_io (lift_io (explicit_window_bounds readers payload)) (\<lambda>window.
     bind_io (lift_io (explicit_risk_free_request stateful core include_risk_free window currency))
       (\<lambda>(risk_free_request, checked_core).
     bind_io (fetch_returns_and_risk_free core_first payload risk_free_request performance checked_core authority)
       (\<lambda>(answer, risk_free).
       return_io \<lparr>lj_source_payload = payload, lj_source_response = answer,
         lj_risk_free_request = risk_free_request, lj_risk_free_response = risk_free\<rparr>))))"

section \<open>The source series\<close>

record rolling_source_series =
  ly_portfolio_points :: "return_point list"
  ly_benchmark_points :: "return_point list"
  ly_evidence :: returns_evidence

definition benchmark_points_or_raise ::
  "field_readers \<Rightarrow> json_object \<Rightarrow> bool \<Rightarrow> (calculation_error, return_point list) result"
where
  "benchmark_points_or_raise readers series include_benchmark =
     bind_result (to_return_points readers ''DAILY'' (json_get series ''benchmark_returns'')) (\<lambda>points.
       if include_benchmark \<and> points = []
       then Inl (UpstreamFailure (missing_upstream_data ''lotus-performance'' ''/integration/returns/series''
         ''lotus-performance returns-series returned no benchmark returns for requested rolling benchmark metrics'' []))
       else Inr points)"

definition rolling_identity :: "rolling_stateful_input \<Rightarrow> source_identity" where
  "rolling_identity stateful =
     \<lparr>si_portfolio_id = lf_portfolio_id stateful, si_as_of_date = lf_as_of_date stateful,
      si_frequency = ''DAILY'', si_metric_basis = net_or_gross_value (lf_net_or_gross stateful)\<rparr>"

definition parse_stateful_source_series ::
  "field_readers \<Rightarrow> rolling_stateful_input \<Rightarrow> json_object \<Rightarrow> json_object \<Rightarrow>
     (calculation_error, rolling_source_series) result"
where
  "parse_stateful_source_series readers stateful payload answer =
     bind_result (extract_required_portfolio_returns readers ''DAILY'' answer) (\<lambda>(series, points).
     bind_result (benchmark_points_or_raise readers series (rolling_requires_benchmark stateful)) (\<lambda>benchmark.
     bind_result (extract_stateful_returns_source_evidence readers answer (rolling_identity stateful)
         (Some (requested_window_of payload)) (Some points)) (\<lambda>evidence.
       Inr \<lparr>ly_portfolio_points = points, ly_benchmark_points = benchmark, ly_evidence = evidence\<rparr>)))"

section \<open>The risk-free series\<close>

definition coverage_request_payload :: "date \<Rightarrow> date \<Rightarrow> json_object" where
  "coverage_request_payload start finish =
     [(''window'', JObject [(''start_date'', JString (isoformat start)), (''end_date'', JString (isoformat finish))])]"

text \<open>A Boolean is an \<open>int\<close>.\<close>

definition copy_int_detail :: "json_object \<Rightarrow> string \<Rightarrow> string \<Rightarrow> json_object \<Rightarrow> json_object" where
  "copy_int_detail source source_key target_key details =
     (case json_get source source_key of
        JInt n \<Rightarrow> AList.update target_key (JInt n) details
      | JBool b \<Rightarrow> AList.update target_key (JBool b) details
      | _ \<Rightarrow> details)"

definition copy_str_detail :: "json_object \<Rightarrow> string \<Rightarrow> string \<Rightarrow> json_object \<Rightarrow> json_object" where
  "copy_str_detail source source_key target_key details =
     (case json_get source source_key of
        JString s \<Rightarrow> if s = [] then details else AList.update target_key (JString s) details
      | _ \<Rightarrow> details)"

definition is_json_string :: "json \<Rightarrow> bool" where
  "is_json_string v = (case v of JString _ \<Rightarrow> True | _ \<Rightarrow> False)"

definition copy_missing_dates_sample :: "json_object \<Rightarrow> json_object \<Rightarrow> json_object" where
  "copy_missing_dates_sample source details =
     (case json_get source ''missing_dates_sample'' of
        JArray sample \<Rightarrow> if sample = [] then details
          else AList.update ''risk_free_missing_dates_sample'' (JArray (filter is_json_string sample)) details
      | _ \<Rightarrow> details)"

definition copy_risk_free_coverage_details :: "json_object \<Rightarrow> json_object \<Rightarrow> json_object" where
  "copy_risk_free_coverage_details coverage =
     copy_missing_dates_sample coverage
     \<circ> copy_str_detail coverage ''request_fingerprint'' ''risk_free_coverage_request_fingerprint''
     \<circ> copy_str_detail coverage ''observed_end_date'' ''risk_free_observed_end_date''
     \<circ> copy_str_detail coverage ''observed_start_date'' ''risk_free_observed_start_date''
     \<circ> copy_int_detail coverage ''missing_dates_count'' ''risk_free_missing_dates_count''
     \<circ> copy_int_detail coverage ''total_points'' ''risk_free_total_points''"

definition get_risk_free_coverage_details ::
  "core_client \<Rightarrow> string \<Rightarrow> date \<Rightarrow> date \<Rightarrow> downstream_authority \<Rightarrow> json_object io"
where
  "get_risk_free_coverage_details client currency start finish authority t =
     (let details = [(''risk_free_currency'', JString currency)] in
      case get_risk_free_coverage client currency (coverage_request_payload start finish) authority t of
        (Inl (UpstreamFailure _), u) \<Rightarrow> (Inr details, u)
      | (Inl e, u) \<Rightarrow> (Inl e, u)
      | (Inr coverage, u) \<Rightarrow> (Inr (copy_risk_free_coverage_details coverage details), u))"

definition point_bounds :: "return_point list \<Rightarrow> (calculation_error, date \<times> date) result" where
  "point_bounds points =
     (case map pt_date points of
        [] \<Rightarrow> Inl (PlainValueError ''min() iterable argument is empty'')
      | d # ds \<Rightarrow> Inr (foldl min d ds, foldl max d ds))"

definition risk_free_response_or_none ::
  "bool \<Rightarrow> json_object option \<Rightarrow> core_client option \<Rightarrow> string option \<Rightarrow> rolling_stateful_input \<Rightarrow>
     return_point list \<Rightarrow> downstream_authority \<Rightarrow> (json_object option \<times> json_object option) io"
where
  "risk_free_response_or_none include_risk_free response core currency stateful points authority =
     (if \<not> include_risk_free \<or> response \<noteq> None then return_io (response, None)
      else case core of
        None \<Rightarrow> raise_io (PlainValueError ''lotus-core client is required for rolling risk-free sourcing'')
      | Some client \<Rightarrow>
          (case currency of
             None \<Rightarrow> raise_io (PlainValueError ''reporting currency is required for rolling risk-free sourcing'')
           | Some c \<Rightarrow>
               bind_io (lift_io (point_bounds points)) (\<lambda>(start, finish).
               let request = build_risk_free_series_request c (lf_as_of_date stateful) start finish in
               bind_io (get_risk_free_series client request authority) (\<lambda>fetched. return_io (Some fetched, Some request)))))"

definition risk_free_points_from_response ::
  "rolling_ops \<Rightarrow> field_readers \<Rightarrow> bool \<Rightarrow> json_object option \<Rightarrow> int \<Rightarrow> (calculation_error, return_point list) result"
where
  "risk_free_points_from_response ops readers include_risk_free response basis =
     (if \<not> include_risk_free then Inr []
      else case response of
        None \<Rightarrow> Inr []
      | Some payload \<Rightarrow> to_risk_free_return_points (risk_ops.truncate ops) readers payload basis)"

definition raise_missing_risk_free_points :: "json_object \<Rightarrow> calculation_error" where
  "raise_missing_risk_free_points details =
     UpstreamFailure (missing_upstream_data ''lotus-core'' ''/integration/reference/risk-free-series''
       ''lotus-core risk-free-series returned no usable risk-free returns for requested rolling Sharpe'' details)"

definition risk_free_points_or_raise ::
  "rolling_ops \<Rightarrow> field_readers \<Rightarrow> bool \<Rightarrow> json_object option \<Rightarrow> core_client option \<Rightarrow> string option \<Rightarrow> int \<Rightarrow>
     return_point list \<Rightarrow> downstream_authority \<Rightarrow> return_point list io"
where
  "risk_free_points_or_raise ops readers include_risk_free response core currency basis points authority =
     bind_io (lift_io (risk_free_points_from_response ops readers include_risk_free response basis)) (\<lambda>risk_free_points.
       if \<not> include_risk_free \<or> risk_free_points \<noteq> [] then return_io risk_free_points
       else case core of
         None \<Rightarrow> raise_io (PlainValueError ''lotus-core client is required for rolling risk-free sourcing'')
       | Some client \<Rightarrow>
           (case currency of
              None \<Rightarrow> raise_io (PlainValueError ''reporting currency is required for rolling risk-free sourcing'')
            | Some c \<Rightarrow>
                bind_io (lift_io (point_bounds points)) (\<lambda>(start, finish).
                bind_io (get_risk_free_coverage_details client c start finish authority) (\<lambda>details.
                  raise_io (raise_missing_risk_free_points details)))))"

record risk_free_dependency =
  lu_request :: "json_object option"
  lu_points :: "return_point list"

definition resolve_risk_free_dependency ::
  "rolling_ops \<Rightarrow> field_readers \<Rightarrow> bool \<Rightarrow> source_responses \<Rightarrow> core_client option \<Rightarrow> string option \<Rightarrow>
     rolling_stateful_input \<Rightarrow> return_point list \<Rightarrow> downstream_authority \<Rightarrow> risk_free_dependency io"
where
  "resolve_risk_free_dependency ops readers include_risk_free responses core currency stateful points authority =
     bind_io (risk_free_response_or_none include_risk_free (lj_risk_free_response responses) core currency stateful
       points authority) (\<lambda>(response, fallback).
     bind_io (risk_free_points_or_raise ops readers include_risk_free response core currency
       (lo_annualization_basis (lf_options stateful)) points authority) (\<lambda>risk_free_points.
       return_io \<lparr>lu_request = (case lj_risk_free_request responses of None \<Rightarrow> fallback | Some r \<Rightarrow> Some r),
         lu_points = risk_free_points\<rparr>))"

section \<open>The resolved inputs\<close>

record resolved_rolling_inputs =
  lz_stateful :: rolling_stateful_input
  lz_include_risk_free :: bool
  lz_source_payload :: json_object
  lz_core_snapshot_request :: "json_object option"
  lz_risk_free_request :: "json_object option"
  lz_portfolio_points :: "return_point list"
  lz_benchmark_points :: "return_point list"
  lz_risk_free_points :: "return_point list"
  lz_evidence :: returns_evidence

definition resolve_stateful_rolling_inputs ::
  "bool \<Rightarrow> rolling_ops \<Rightarrow> field_readers \<Rightarrow> rolling_stateful_input \<Rightarrow> performance_client \<Rightarrow> core_client option \<Rightarrow>
     downstream_authority \<Rightarrow> resolved_rolling_inputs io"
where
  "resolve_stateful_rolling_inputs core_first ops readers stateful performance core authority =
     bind_io (resolve_stateful_dependency_selection stateful core authority) (\<lambda>selection.
     bind_io (fetch_stateful_source_responses core_first readers (lh_stateful selection) performance core authority
       (lh_include_risk_free selection) (lh_reporting_currency selection)) (\<lambda>responses.
     bind_io (lift_io (parse_stateful_source_series readers (lh_stateful selection) (lj_source_payload responses)
       (lj_source_response responses))) (\<lambda>parsed.
     bind_io (resolve_risk_free_dependency ops readers (lh_include_risk_free selection) responses core
       (lh_reporting_currency selection) (lh_stateful selection) (ly_portfolio_points parsed) authority) (\<lambda>dependency.
       return_io \<lparr>lz_stateful = lh_stateful selection, lz_include_risk_free = lh_include_risk_free selection,
         lz_source_payload = lj_source_payload responses,
         lz_core_snapshot_request = lh_core_snapshot_request selection,
         lz_risk_free_request = lj_risk_free_request responses, lz_portfolio_points = ly_portfolio_points parsed,
         lz_benchmark_points = ly_benchmark_points parsed, lz_risk_free_points = lu_points dependency,
         lz_evidence = ly_evidence parsed\<rparr>))))"

section \<open>The report\<close>

definition validate_stateful_workload :: "resolved_rolling_inputs \<Rightarrow> (string, unit) result" where
  "validate_stateful_workload inputs =
     (let stateful = lz_stateful inputs;
          sourced = max (length (lz_portfolio_points inputs))
            (max (length (lz_benchmark_points inputs)) (length (lz_risk_free_points inputs)))
      in if ROLLING_MAX_STATELESS_OBSERVATIONS < sourced
         then Inl (''stateful rolling sourced return observations exceed supported maximum '' @
           str_int (int ROLLING_MAX_STATELESS_OBSERVATIONS))
         else validate_rolling_time_series_workload (length (lf_periods stateful))
           (length (lo_window_lengths (lf_options stateful))) (length (lz_portfolio_points inputs))
           (lo_include_time_series (lf_options stateful)))"

text \<open>The stateless request is validated as it is constructed.\<close>

definition build_stateless_rolling_request ::
  "field_readers \<Rightarrow> resolved_rolling_inputs \<Rightarrow> (calculation_error, rolling_stateless_input) result"
where
  "build_stateless_rolling_request readers inputs =
     (let stateful = lz_stateful inputs;
          request = \<lparr>li_scope = \<lparr>rq_as_of_date = lf_as_of_date stateful,
              rq_reporting_currency = lf_reporting_currency stateful, rq_net_or_gross = lf_net_or_gross stateful\<rparr>,
            li_periods = lf_periods stateful, li_returns = lz_portfolio_points inputs,
            li_benchmark_returns = lz_benchmark_points inputs, li_risk_free_returns = lz_risk_free_points inputs,
            li_options = lf_options stateful\<rparr>
      in case validate_stateful_workload inputs of
           Inl m \<Rightarrow> Inl (PlainValueError m)
         | Inr _ \<Rightarrow>
             if \<not> rolling_stateless_fields request then Inl (PlainValueError (fr_refusal readers ''too_long''))
             else case validate_rolling_stateless request of
                Inl m \<Rightarrow> Inl (PlainValueError (fr_refusal readers m))
              | Inr _ \<Rightarrow> Inr request)"

definition attach_rolling_lineage ::
  "rolling_stateless_input fingerprints \<Rightarrow> resolved_rolling_inputs \<Rightarrow> rolling_response \<Rightarrow> rolling_response"
where
  "attach_rolling_lineage fp inputs response =
     (let performance = source_fingerprint fp ''lotus-performance'' RETURNS_SERIES_OPERATION
            (JObject (lz_source_payload inputs));
          snapshot = (case lz_core_snapshot_request inputs of
              None \<Rightarrow> []
            | Some r \<Rightarrow> source_fingerprint fp ''lotus-core'' LOTUS_CORE_SNAPSHOT_OPERATION
                (JObject [(''portfolio_id'', JString (lf_portfolio_id (lz_stateful inputs))), (''request_payload'', JObject r)]));
          risk_free = (case lz_risk_free_request inputs of
              None \<Rightarrow> []
            | Some r \<Rightarrow> source_fingerprint fp ''lotus-core'' ''/integration/reference/risk-free-series'' (JObject r))
      in response\<lparr>lr_metadata := (lr_metadata response)
           \<lparr>lt_source_services := ordered_source_services (''lotus-performance'' #
              (if lz_include_risk_free inputs then [''lotus-core''] else [])),
            lt_upstream_fingerprints := dict_update (dict_update performance snapshot) risk_free\<rparr>\<rparr>)"

definition rolling_from_inputs ::
  "rolling_ops \<Rightarrow> rolling_stateless_input fingerprints \<Rightarrow> field_readers \<Rightarrow> resolved_rolling_inputs \<Rightarrow>
     (calculation_error, rolling_response) result"
where
  "rolling_from_inputs ops fp readers inputs =
     bind_result (build_stateless_rolling_request readers inputs) (\<lambda>request.
     bind_result (calculate_rolling_metrics ops fp readers request RollingStateful (Some (lz_evidence inputs)))
       (\<lambda>response. Inr (attach_rolling_lineage fp inputs response)))"

definition calculate_rolling_metrics_stateful ::
  "bool \<Rightarrow> rolling_ops \<Rightarrow> rolling_stateless_input fingerprints \<Rightarrow> field_readers \<Rightarrow> rolling_stateful_input \<Rightarrow>
     performance_client \<Rightarrow> core_client option \<Rightarrow> downstream_authority \<Rightarrow> rolling_response io"
where
  "calculate_rolling_metrics_stateful core_first ops fp readers stateful performance core authority =
     bind_io (resolve_stateful_rolling_inputs core_first ops readers stateful performance core authority) (\<lambda>inputs.
       lift_io (rolling_from_inputs ops fp readers inputs))"

section \<open>The route\<close>

definition analytics_risk_rolling_metrics ::
  "bool \<Rightarrow> rolling_ops \<Rightarrow> rolling_stateless_input fingerprints \<Rightarrow> field_readers \<Rightarrow> performance_client option \<Rightarrow>
     core_client option \<Rightarrow> string option \<Rightarrow> string option \<Rightarrow> rolling_request \<Rightarrow> trace \<Rightarrow>
     (route_error, rolling_response) result \<times> trace"
where
  "analytics_risk_rolling_metrics core_first ops fp readers performance core tenant_id correlation_id rq t =
     (case lq_input_mode rq of
        RollingStateless \<Rightarrow>
          (case lq_stateless_input rq of
             None \<Rightarrow> (Inl (CalculationFailure
               (PlainValueError ''stateless_input is required when input_mode=stateless'')), t)
           | Some payload \<Rightarrow>
               (calculation_result (calculate_rolling_metrics ops fp readers payload RollingStateless None), t))
      | RollingStateful \<Rightarrow>
          (case lq_stateful_input rq of
             None \<Rightarrow> (Inl (CalculationFailure
               (PlainValueError ''stateful_input is required when input_mode=stateful'')), t)
           | Some stateful \<Rightarrow>
               if rolling_requires_risk_free stateful
               then stateful_route tenant_id correlation_id
                 (Option.bind performance (\<lambda>p. map_option (\<lambda>c. (p, c)) core))
                 (\<lambda>(p, c). calculate_rolling_metrics_stateful core_first ops fp readers stateful p (Some c)) t
               else stateful_route tenant_id correlation_id performance
                 (\<lambda>p. calculate_rolling_metrics_stateful core_first ops fp readers stateful p None) t))"

section \<open>What a stateful report sends\<close>

lemma emits_gather [emits_intros]:
  assumes "emits P a" "emits P b"
  shows "emits P (gather_io second_first a b)"
proof -
  have "\<exists>es. snd (gather_io second_first a b t) = t @ es \<and> list_all P es" for t
  proof (cases second_first)
    case True
    obtain es where es: "snd (b t) = t @ es" "list_all P es" by (rule emitsE [OF assms(2)])
    obtain fs where "snd (a (t @ es)) = (t @ es) @ fs" "list_all P fs" by (rule emitsE [OF assms(1)])
    with es True show ?thesis by (auto simp: gather_io_def split: prod.splits intro!: exI [of _ "es @ fs"])
  next
    case False
    obtain es where es: "snd (a t) = t @ es" "list_all P es" by (rule emitsE [OF assms(1)])
    obtain fs where "snd (b (t @ es)) = (t @ es) @ fs" "list_all P fs" by (rule emitsE [OF assms(2)])
    with es False show ?thesis by (auto simp: gather_io_def split: prod.splits intro!: exI [of _ "es @ fs"])
  qed
  then show ?thesis by (simp add: emits_def)
qed

lemma at_most_gather:
  assumes "at_most m a" "at_most n b"
  shows "at_most (m + n) (gather_io second_first a b)"
proof -
  have "requests_in (snd (a t)) \<le> requests_in t + m" "requests_in (snd (b t)) \<le> requests_in t + n" for t
    using assms by (simp_all add: at_most_def)
  note bound = this
  have "requests_in (snd (gather_io second_first a b t)) \<le> requests_in t + (m + n)" for t
    using bound(1) [of t] bound(2) [of "snd (a t)"] bound(2) [of t] bound(1) [of "snd (b t)"]
    by (simp add: gather_io_def split_def)
  then show ?thesis by (simp add: at_most_def)
qed

lemma gathered:
  assumes "gather_io second_first a b t = (Inr (x, y), u)"
  shows "if second_first then \<exists>v. b t = (Inr y, v) \<and> a v = (Inr x, u) else \<exists>v. a t = (Inr x, v) \<and> b v = (Inr y, u)"
  using assms by (auto simp: gather_io_def result_simps split: prod.splits if_splits)

lemma coverage_trace:
  "snd (get_risk_free_coverage_details client c start finish a t) =
     snd (get_risk_free_coverage client c (coverage_request_payload start finish) a t)"
  by (simp add: get_risk_free_coverage_details_def Let_def split: prod.split sum.split calculation_error.split)

lemma coverage_calls [emits_intros]:
  "emits (under_authority a) (get_risk_free_coverage_details client c start finish a)"
proof -
  have "emits (under_authority a) (get_risk_free_coverage client c payload a)" for payload
    unfolding get_risk_free_coverage_def execute_lotus_core_json_request_def option.case
    by (intro emits_client) (simp_all add: tenant_scoped_under_authority, simp add: under_authority_def)
  then show ?thesis by (simp add: emits_def coverage_trace)
qed

lemma fetch_calls [emits_intros]:
  "emits (under_authority a) (fetch_stateful_source_responses core_first readers stateful performance core a rf currency)"
  unfolding fetch_stateful_source_responses_def fetch_returns_and_risk_free_def
  by (auto split: prod.splits option.splits intro!: emits_intros)

lemma dependency_calls [emits_intros]:
  "emits (under_authority a) (resolve_risk_free_dependency ops readers rf responses core currency stateful points a)"
  unfolding resolve_risk_free_dependency_def risk_free_response_or_none_def risk_free_points_or_raise_def Let_def
  by (auto split: prod.splits option.splits intro!: emits_intros)

lemma rolling_stateful_calls:
  "emits (under_authority a) (calculate_rolling_metrics_stateful core_first ops fp readers stateful performance core a)"
  unfolding calculate_rolling_metrics_stateful_def resolve_stateful_rolling_inputs_def resolve_stateful_dependency_selection_def
  by (intro emits_intros currency_calls(1))

text \<open>A run that succeeds reads the risk-free series at most once, before or after the returns are known.\<close>

lemma at_mostD: "at_most n m \<Longrightarrow> m t = (r, u) \<Longrightarrow> requests_in u \<le> requests_in t + n"
  unfolding at_most_def by (metis snd_conv)

lemma fetched_requests:
  assumes "fetch_stateful_source_responses core_first readers stateful performance core a rf currency t = (Inr responses, u)"
  shows "requests_in u \<le> requests_in t + (1 + 2 * pc_async_max_polls performance) +
    (if lj_risk_free_response responses = None then 0 else 1)"
proof -
  note returns = at_mostD [OF at_most_returns_series]
  note both = at_mostD [OF at_most_gather [OF at_most_returns_series at_most_core(2)]]
  from assms obtain payload request client answer response where
    fetch: "fetch_returns_and_risk_free core_first payload request performance client a t = (Inr (answer, response), u)"
    and fields: "lj_risk_free_response responses = response"
    by (auto simp: fetch_stateful_source_responses_def elim!: bind_io_InrE)
  show ?thesis
  proof (cases "\<exists>r c. request = Some r \<and> client = Some c")
    case True
    then obtain r c where "request = Some r" "client = Some c" by blast
    with fetch fields show ?thesis
      by (auto simp: fetch_returns_and_risk_free_def elim!: bind_io_InrE dest!: both)
  next
    case False
    then have "fetch_returns_and_risk_free core_first payload request performance client a =
        bind_io (execute_returns_series_request performance payload a) (\<lambda>answer. return_io (answer, None))"
      by (auto simp: fetch_returns_and_risk_free_def split: option.splits)
    with fetch fields show ?thesis by (auto elim!: bind_io_InrE dest!: returns)
  qed
qed

lemma dependency_resolved:
  assumes "resolve_risk_free_dependency ops readers rf responses core currency stateful points a t = (Inr d, u)"
  shows "requests_in u \<le> requests_in t + (if lj_risk_free_response responses = None then 1 else 0)"
    "rf \<Longrightarrow> lu_points d \<noteq> []"
proof -
  note series = at_mostD [OF at_most_core(2)]
  from assms obtain response fallback v where
    first: "risk_free_response_or_none rf (lj_risk_free_response responses) core currency stateful points a t =
      (Inr (response, fallback), v)"
    and rest: "risk_free_points_or_raise ops readers rf response core currency
      (lo_annualization_basis (lf_options stateful)) points a v = (Inr (lu_points d), u)"
    by (auto simp: resolve_risk_free_dependency_def elim!: bind_io_InrE)
  from rest have rest': "u = v" "rf \<longrightarrow> lu_points d \<noteq> []"
    by (auto simp: risk_free_points_or_raise_def elim!: bind_io_InrE split: if_splits option.splits)
  from first have "requests_in v \<le> requests_in t + (if lj_risk_free_response responses = None then 1 else 0)"
    by (auto simp: risk_free_response_or_none_def Let_def elim!: bind_io_InrE dest: series split: if_splits option.splits)
  with rest' show "requests_in u \<le> requests_in t + (if lj_risk_free_response responses = None then 1 else 0)"
    "rf \<Longrightarrow> lu_points d \<noteq> []" by auto
qed

section \<open>What a stateful report rests on\<close>

text \<open>
  What a rolling report was answered about the risk-free series: one read, for the explicit window that was
  requested or, where the window is relative, for the dates of the returns.
\<close>

definition rolling_risk_free_dates ::
  "field_readers \<Rightarrow> json_object \<Rightarrow> return_point list \<Rightarrow> date \<Rightarrow> date \<Rightarrow> bool"
where
  "rolling_risk_free_dates readers payload returns start finish \<longleftrightarrow>
     explicit_window_bounds readers payload = Inr (Some (start, finish)) \<or>
     explicit_window_bounds readers payload = Inr None \<and>
       start = Min (pt_date ` set returns) \<and> finish = Max (pt_date ` set returns)"

definition rolling_rates_sourced ::
  "rolling_ops \<Rightarrow> field_readers \<Rightarrow> rolling_stateful_input \<Rightarrow> string option \<Rightarrow> json_object \<Rightarrow> return_point list \<Rightarrow>
     core_client option \<Rightarrow> downstream_authority \<Rightarrow> trace \<Rightarrow> event list \<Rightarrow> return_point list \<Rightarrow> bool"
where
  "rolling_rates_sourced ops readers stateful currency payload returns core a t events rates \<longleftrightarrow>
     (if rolling_requires_risk_free stateful
      then \<exists>client c start finish answer. core = Some client \<and> currency = Some c \<and>
        rolling_risk_free_dates readers payload returns start finish \<and>
        call_answered (cc_peer client) t (risk_free_call client a
          (build_risk_free_series_request c (lf_as_of_date stateful) start finish)) answer events \<and>
        to_risk_free_return_points (risk_ops.truncate ops) readers answer
          (lo_annualization_basis (lf_options stateful)) = Inr rates \<and> rates \<noteq> []
      else events = [] \<and> rates = [])"

text \<open>
  The request a stateful report is computed from: an admitted stateless one whose returns and benchmark
  returns are those of an answer that is the source of the stateful request, with the sourced risk-free
  returns, and with the benchmark returns its metrics need.
\<close>

definition sourced_rolling_request ::
  "field_readers \<Rightarrow> rolling_stateful_input \<Rightarrow> json_object \<Rightarrow> return_point list \<Rightarrow> returns_evidence \<Rightarrow>
     rolling_stateless_input \<Rightarrow> bool"
where
  "sourced_rolling_request readers stateful answer rates e request \<longleftrightarrow>
     li_periods request = lf_periods stateful \<and> li_options request = lf_options stateful \<and>
     rq_as_of_date (li_scope request) = lf_as_of_date stateful \<and>
     validate_rolling_stateless request = Inr () \<and>
     (rolling_requires_benchmark stateful \<longrightarrow> li_benchmark_returns request \<noteq> []) \<and>
     li_returns request \<noteq> [] \<and> li_risk_free_returns request = rates \<and>
     (\<exists>window series.
        build_returns_series_window (lf_periods stateful) (lf_as_of_date stateful) = Inr window \<and>
        extract_required_portfolio_returns readers ''DAILY'' answer = Inr (series, li_returns request) \<and>
        to_return_points readers ''DAILY'' (json_get series ''benchmark_returns'') = Inr (li_benchmark_returns request) \<and>
        returns_source answer (rolling_identity stateful) window (li_returns request) e \<and>
        validate_returns_evidence readers (source_evidence_payload answer) = Some e)"

lemma same_source [simp]:
  "rolling_requires_risk_free (stateful\<lparr>lf_reporting_currency := c\<rparr>) = rolling_requires_risk_free stateful"
  "rolling_requires_benchmark (stateful\<lparr>lf_reporting_currency := c\<rparr>) = rolling_requires_benchmark stateful"
  "rolling_identity (stateful\<lparr>lf_reporting_currency := c\<rparr>) = rolling_identity stateful"
  "rolling_rates_sourced ops readers (stateful\<lparr>lf_reporting_currency := c\<rparr>) = rolling_rates_sourced ops readers stateful"
  by (simp_all add: rolling_requires_risk_free_def rolling_requires_benchmark_def rolling_identity_def
      rolling_rates_sourced_def fun_eq_iff)

lemma selected_currency:
  assumes "resolve_stateful_dependency_selection stateful core a t = (Inr selection, u)"
  shows "\<exists>events. u = t @ events \<and> currency_sourced core (lf_portfolio_id stateful) (lf_as_of_date stateful) a
    (rolling_requires_risk_free stateful) (lf_reporting_currency stateful) t events (lh_reporting_currency selection)"
  using assms
  by (auto simp: resolve_stateful_dependency_selection_def elim!: bind_io_InrE dest!: resolved_currency)

text \<open>
  The gathered reads: of the returns alone, or of the returns and the series of an explicit window, in
  either order.
\<close>

definition gathered_reads ::
  "bool \<Rightarrow> field_readers \<Rightarrow> rolling_stateful_input \<Rightarrow> string option \<Rightarrow> performance_client \<Rightarrow> core_client option \<Rightarrow>
     downstream_authority \<Rightarrow> trace \<Rightarrow> event list \<Rightarrow> event list \<Rightarrow> source_responses \<Rightarrow> bool"
where
  "gathered_reads core_first readers stateful currency performance core a t ws rs responses \<longleftrightarrow>
     (case lj_risk_free_response responses of
        None \<Rightarrow> rs = [] \<and> returns_answered performance a (lj_source_payload responses) t (lj_source_response responses) ws
      | Some answer \<Rightarrow> \<exists>client c start finish. core = Some client \<and> currency = Some c \<and>
          explicit_window_bounds readers (lj_source_payload responses) = Inr (Some (start, finish)) \<and>
          returns_answered performance a (lj_source_payload responses) (if core_first then t @ rs else t)
            (lj_source_response responses) ws \<and>
          call_answered (cc_peer client) (if core_first then t else t @ ws) (risk_free_call client a
            (build_risk_free_series_request c (lf_as_of_date stateful) start finish)) answer rs)"

lemma fetched_reads:
  assumes "fetch_stateful_source_responses core_first readers stateful performance core a include_risk_free currency t =
    (Inr responses, u)"
  shows "\<exists>ws rs. u = t @ (if core_first then rs @ ws else ws @ rs) \<and>
      gathered_reads core_first readers stateful currency performance core a t ws rs responses"
    "lj_risk_free_response responses = None \<Longrightarrow> include_risk_free \<Longrightarrow>
      explicit_window_bounds readers (lj_source_payload responses) = Inr None"
    "\<not> include_risk_free \<Longrightarrow> lj_risk_free_response responses = None"
proof -
  from assms obtain payload window request checked answer response where
    window: "explicit_window_bounds readers payload = Inr window"
    and request: "explicit_risk_free_request stateful core include_risk_free window currency = Inr (request, checked)"
    and fetch: "fetch_returns_and_risk_free core_first payload request performance checked a t = (Inr (answer, response), u)"
    and fields: "lj_source_payload responses = payload" "lj_source_response responses = answer"
      "lj_risk_free_response responses = response"
    by (auto simp: fetch_stateful_source_responses_def elim!: bind_io_InrE)
  have "(\<exists>ws rs. u = t @ (if core_first then rs @ ws else ws @ rs) \<and>
      gathered_reads core_first readers stateful currency performance core a t ws rs responses) \<and>
    (response = None \<longrightarrow> include_risk_free \<longrightarrow> window = None) \<and> (\<not> include_risk_free \<longrightarrow> response = None)"
  proof (cases request)
    case None
    then have alone: "execute_returns_series_request performance payload a t = (Inr answer, u)" "response = None"
      using fetch by (auto simp: fetch_returns_and_risk_free_def elim!: bind_io_InrE)
    moreover have "include_risk_free \<longrightarrow> window = None"
      using request None by (auto simp: explicit_risk_free_request_def split: option.splits if_splits)
    ultimately show ?thesis
      using returns_series_answered [OF alone(1)] by (auto simp: gathered_reads_def fields)
  next
    case (Some r)
    with request obtain client c start finish where read: "include_risk_free" "core = Some client" "checked = Some client"
      "currency = Some c" "window = Some (start, finish)"
      "r = build_risk_free_series_request c (lf_as_of_date stateful) start finish"
      by (auto simp: explicit_risk_free_request_def split: option.splits if_splits)
    with fetch Some obtain series where response: "response = Some series" and
      both: "gather_io core_first (execute_returns_series_request performance payload a) (get_risk_free_series client r a) t =
        (Inr (answer, series), u)"
      by (auto simp: fetch_returns_and_risk_free_def elim!: bind_io_InrE)
    have "\<exists>ws rs. u = t @ (if core_first then rs @ ws else ws @ rs) \<and>
        returns_answered performance a payload (if core_first then t @ rs else t) answer ws \<and>
        call_answered (cc_peer client) (if core_first then t else t @ ws) (risk_free_call client a r) series rs"
      using gathered [OF both]
      by (cases core_first) (auto dest!: returns_series_answered risk_free_series_answered, blast+)
    with read response window show ?thesis by (auto simp: gathered_reads_def fields)
  qed
  with window fields show "\<exists>ws rs. u = t @ (if core_first then rs @ ws else ws @ rs) \<and>
      gathered_reads core_first readers stateful currency performance core a t ws rs responses"
    "lj_risk_free_response responses = None \<Longrightarrow> include_risk_free \<Longrightarrow>
      explicit_window_bounds readers (lj_source_payload responses) = Inr None"
    "\<not> include_risk_free \<Longrightarrow> lj_risk_free_response responses = None"
    by auto
qed

lemma point_bounds_Inr:
  assumes "point_bounds points = Inr (start, finish)"
  shows "start = Min (pt_date ` set points)" "finish = Max (pt_date ` set points)"
proof -
  from assms obtain d ds where points: "map pt_date points = d # ds" "start = foldl min d ds" "finish = foldl max d ds"
    by (auto simp: point_bounds_def split: list.splits)
  from points(1) have "pt_date ` set points = set (d # ds)" by (metis set_map)
  with points show "start = Min (pt_date ` set points)" "finish = Max (pt_date ` set points)"
    by (simp_all add: foldl_min_is_Min foldl_max_is_Max)
qed

lemma dependency_read:
  assumes "resolve_risk_free_dependency ops readers include_risk_free responses core currency stateful points a t = (Inr d, u)"
  shows "if include_risk_free
    then \<exists>answer events. u = t @ events \<and> lu_points d \<noteq> [] \<and>
      to_risk_free_return_points (risk_ops.truncate ops) readers answer
        (lo_annualization_basis (lf_options stateful)) = Inr (lu_points d) \<and>
      (case lj_risk_free_response responses of
         Some r \<Rightarrow> answer = r \<and> events = []
       | None \<Rightarrow> \<exists>client c. core = Some client \<and> currency = Some c \<and>
           call_answered (cc_peer client) t (risk_free_call client a (build_risk_free_series_request c
             (lf_as_of_date stateful) (Min (pt_date ` set points)) (Max (pt_date ` set points)))) answer events)
    else u = t \<and> lu_points d = []"
proof -
  from assms obtain response fallback v where
    first: "risk_free_response_or_none include_risk_free (lj_risk_free_response responses) core currency stateful points a t =
      (Inr (response, fallback), v)"
    and rest: "risk_free_points_or_raise ops readers include_risk_free response core currency
      (lo_annualization_basis (lf_options stateful)) points a v = (Inr (lu_points d), u)"
    by (auto simp: resolve_risk_free_dependency_def elim!: bind_io_InrE)
  from rest have u: "u = v" "include_risk_free \<longrightarrow> lu_points d \<noteq> []"
    and rates: "risk_free_points_from_response ops readers include_risk_free response
      (lo_annualization_basis (lf_options stateful)) = Inr (lu_points d)"
    by (auto simp: risk_free_points_or_raise_def elim!: bind_io_InrE split: if_splits option.splits)
  show ?thesis
  proof (cases "include_risk_free")
    case False
    with first rates u show ?thesis
      by (auto simp: risk_free_response_or_none_def risk_free_points_from_response_def)
  next
    case True
    with rates u obtain answer where answer: "response = Some answer" "lu_points d \<noteq> []"
      "to_risk_free_return_points (risk_ops.truncate ops) readers answer
        (lo_annualization_basis (lf_options stateful)) = Inr (lu_points d)"
      by (auto simp: risk_free_points_from_response_def split: option.splits)
    show ?thesis
    proof (cases "lj_risk_free_response responses")
      case (Some r)
      with first answer True u show ?thesis by (auto simp: risk_free_response_or_none_def)
    next
      case None
      with first answer True obtain client c start finish where client: "core = Some client" "currency = Some c"
        "point_bounds points = Inr (start, finish)"
        "get_risk_free_series client (build_risk_free_series_request c (lf_as_of_date stateful) start finish) a t =
          (Inr answer, v)"
        by (auto simp: risk_free_response_or_none_def Let_def split: option.splits elim!: bind_io_InrE)
      note point_bounds_Inr [OF client(3)]
      with risk_free_series_answered [OF client(4)] client answer True None u show ?thesis by auto
    qed
  qed
qed

lemma currency_requests:
  assumes "resolve_stateful_dependency_selection stateful core a t = (Inr selection, u)"
  shows "requests_in u \<le> requests_in t + 1" "lh_include_risk_free selection = rolling_requires_risk_free stateful"
    "lh_stateful selection = stateful\<lparr>lf_reporting_currency := lh_reporting_currency selection\<rparr>"
  using assms at_mostD [OF currency_calls(2)]
  by (auto simp: resolve_stateful_dependency_selection_def elim!: bind_io_InrE simp del: One_nat_def)

lemma fetched_source_payload:
  assumes "fetch_stateful_source_responses core_first readers stateful performance core a rf currency t = (Inr responses, u)"
  shows "build_stateful_returns_series_request (rolling_returns_query stateful) = Inr (lj_source_payload responses)"
  using assms by (auto simp: fetch_stateful_source_responses_def elim!: bind_io_InrE)

lemma parsed_series:
  assumes "parse_stateful_source_series readers stateful payload answer = Inr parsed"
    and "build_stateful_returns_series_request (rolling_returns_query stateful) = Inr payload"
  shows "ly_portfolio_points parsed \<noteq> []"
    "rolling_requires_benchmark stateful \<Longrightarrow> ly_benchmark_points parsed \<noteq> []"
    "\<exists>window series. build_returns_series_window (lf_periods stateful) (lf_as_of_date stateful) = Inr window \<and>
       extract_required_portfolio_returns readers ''DAILY'' answer = Inr (series, ly_portfolio_points parsed) \<and>
       to_return_points readers ''DAILY'' (json_get series ''benchmark_returns'') = Inr (ly_benchmark_points parsed) \<and>
       returns_source answer (rolling_identity stateful) window (ly_portfolio_points parsed) (ly_evidence parsed) \<and>
       validate_returns_evidence readers (source_evidence_payload answer) = Some (ly_evidence parsed)"
proof -
  from assms(1) obtain series where
    points: "extract_required_portfolio_returns readers ''DAILY'' answer = Inr (series, ly_portfolio_points parsed)"
    and bench: "benchmark_points_or_raise readers series (rolling_requires_benchmark stateful) = Inr (ly_benchmark_points parsed)"
    and evidence: "extract_stateful_returns_source_evidence readers answer (rolling_identity stateful)
         (Some (requested_window_of payload)) (Some (ly_portfolio_points parsed)) = Inr (ly_evidence parsed)"
    by (auto simp: parse_stateful_source_series_def result_simps)
  show "ly_portfolio_points parsed \<noteq> []" using required_returns_nonempty [OF points] by simp
  from bench have read: "to_return_points readers ''DAILY'' (json_get series ''benchmark_returns'') = Inr (ly_benchmark_points parsed)"
    and "rolling_requires_benchmark stateful \<longrightarrow> ly_benchmark_points parsed \<noteq> []"
    by (auto simp: benchmark_points_or_raise_def result_simps split: if_splits)
  then show "rolling_requires_benchmark stateful \<Longrightarrow> ly_benchmark_points parsed \<noteq> []" by simp
  have "validate_returns_evidence readers (source_evidence_payload answer) = Some (ly_evidence parsed)"
    using evidence by (rule evidence_Inr)
  with points read requested_window_of_request [OF assms(2)] evidence_source [OF evidence]
  show "\<exists>window series. build_returns_series_window (lf_periods stateful) (lf_as_of_date stateful) = Inr window \<and>
       extract_required_portfolio_returns readers ''DAILY'' answer = Inr (series, ly_portfolio_points parsed) \<and>
       to_return_points readers ''DAILY'' (json_get series ''benchmark_returns'') = Inr (ly_benchmark_points parsed) \<and>
       returns_source answer (rolling_identity stateful) window (ly_portfolio_points parsed) (ly_evidence parsed) \<and>
       validate_returns_evidence readers (source_evidence_payload answer) = Some (ly_evidence parsed)"
    by (auto simp: rolling_returns_query_def)
qed

text \<open>
  The reads of a report, between the currency and the calculation: the returns and the risk-free series, the
  series first only where the gathered reads are answered in that order.
\<close>

definition rolling_reads ::
  "bool \<Rightarrow> rolling_ops \<Rightarrow> field_readers \<Rightarrow> rolling_stateful_input \<Rightarrow> string option \<Rightarrow> performance_client \<Rightarrow>
     core_client option \<Rightarrow> downstream_authority \<Rightarrow> json_object \<Rightarrow> return_point list \<Rightarrow> trace \<Rightarrow> event list \<Rightarrow>
     json_object \<Rightarrow> return_point list \<Rightarrow> bool"
where
  "rolling_reads core_first ops readers stateful currency performance core a payload returns t events answer rates \<longleftrightarrow>
     (\<exists>ws rs.
        events = ws @ rs \<and> returns_answered performance a payload t answer ws \<and>
          rolling_rates_sourced ops readers stateful currency payload returns core a (t @ ws) rs rates \<or>
        core_first \<and> events = rs @ ws \<and>
          rolling_rates_sourced ops readers stateful currency payload returns core a t rs rates \<and>
          returns_answered performance a payload (t @ rs) answer ws)"

lemma sourced_reads:
  assumes fetch: "fetch_stateful_source_responses core_first readers stateful performance core a
      (rolling_requires_risk_free stateful) currency t = (Inr responses, v)"
    and dependency: "resolve_risk_free_dependency ops readers (rolling_requires_risk_free stateful) responses core
      currency stateful returns a v = (Inr d, u)"
  shows "\<exists>events. u = t @ events \<and> rolling_reads core_first ops readers stateful currency performance core a
    (lj_source_payload responses) returns t events (lj_source_response responses) (lu_points d)"
proof -
  from fetched_reads(1) [OF fetch] obtain ws rs where v: "v = t @ (if core_first then rs @ ws else ws @ rs)"
    and reads: "gathered_reads core_first readers stateful currency performance core a t ws rs responses" by blast
  note alone = fetched_reads(2,3) [OF fetch]
  note read = dependency_read [OF dependency]
  show ?thesis
  proof (cases "lj_risk_free_response responses")
    case (Some r)
    with alone(2) have rf: "rolling_requires_risk_free stateful" by auto
    with read Some have u: "u = v" "lu_points d \<noteq> []" "to_risk_free_return_points (risk_ops.truncate ops) readers r
        (lo_annualization_basis (lf_options stateful)) = Inr (lu_points d)" by auto
    from reads Some have returns: "returns_answered performance a (lj_source_payload responses)
        (if core_first then t @ rs else t) (lj_source_response responses) ws"
      and "rolling_rates_sourced ops readers stateful currency (lj_source_payload responses) returns core a
        (if core_first then t else t @ ws) rs (lu_points d)"
      using rf u by (auto simp: gathered_reads_def rolling_rates_sourced_def rolling_risk_free_dates_def)
    then show ?thesis using v u(1) by (cases core_first) (auto simp: rolling_reads_def)
  next
    case None
    with reads v have ws: "v = t @ ws" "returns_answered performance a (lj_source_payload responses) t
        (lj_source_response responses) ws" by (auto simp: gathered_reads_def)
    have "\<exists>rs. u = v @ rs \<and> rolling_rates_sourced ops readers stateful currency (lj_source_payload responses) returns
        core a v rs (lu_points d)"
      using read None alone(1) by (auto simp: rolling_rates_sourced_def rolling_risk_free_dates_def split: if_splits)
    then show ?thesis using ws by (auto simp: rolling_reads_def)
  qed
qed

lemma resolved_rolling_source:
  assumes "resolve_stateful_rolling_inputs core_first ops readers stateful performance core a t = (Inr inputs, u)"
  shows "requests_in u \<le> requests_in t + (3 + 2 * pc_async_max_polls performance)"
    "\<exists>c. lz_stateful inputs = stateful\<lparr>lf_reporting_currency := c\<rparr>"
    "lz_portfolio_points inputs \<noteq> []"
    "rolling_requires_benchmark stateful \<Longrightarrow> lz_benchmark_points inputs \<noteq> []"
    "rolling_requires_risk_free stateful \<Longrightarrow> lz_risk_free_points inputs \<noteq> []"
    "\<exists>cs events currency payload answer. u = t @ cs @ events \<and>
       currency_sourced core (lf_portfolio_id stateful) (lf_as_of_date stateful) a (rolling_requires_risk_free stateful)
         (lf_reporting_currency stateful) t cs currency \<and>
       lz_stateful inputs = stateful\<lparr>lf_reporting_currency := currency\<rparr> \<and>
       build_stateful_returns_series_request (rolling_returns_query (lz_stateful inputs)) = Inr payload \<and>
       rolling_reads core_first ops readers stateful currency performance core a payload (lz_portfolio_points inputs)
         (t @ cs) events answer (lz_risk_free_points inputs) \<and>
       (\<exists>window series. build_returns_series_window (lf_periods stateful) (lf_as_of_date stateful) = Inr window \<and>
         extract_required_portfolio_returns readers ''DAILY'' answer = Inr (series, lz_portfolio_points inputs) \<and>
         to_return_points readers ''DAILY'' (json_get series ''benchmark_returns'') = Inr (lz_benchmark_points inputs) \<and>
         returns_source answer (rolling_identity stateful) window (lz_portfolio_points inputs) (lz_evidence inputs) \<and>
         validate_returns_evidence readers (source_evidence_payload answer) = Some (lz_evidence inputs))"
proof -
  from assms obtain selection responses parsed d t1 t2 where
    selection: "resolve_stateful_dependency_selection stateful core a t = (Inr selection, t1)"
    and fetch: "fetch_stateful_source_responses core_first readers (lh_stateful selection) performance core a
       (lh_include_risk_free selection) (lh_reporting_currency selection) t1 = (Inr responses, t2)"
    and parsed: "parse_stateful_source_series readers (lh_stateful selection) (lj_source_payload responses)
       (lj_source_response responses) = Inr parsed"
    and d: "resolve_risk_free_dependency ops readers (lh_include_risk_free selection) responses core
       (lh_reporting_currency selection) (lh_stateful selection) (ly_portfolio_points parsed) a t2 = (Inr d, u)"
    and inputs: "lz_stateful inputs = lh_stateful selection" "lz_portfolio_points inputs = ly_portfolio_points parsed"
      "lz_benchmark_points inputs = ly_benchmark_points parsed" "lz_risk_free_points inputs = lu_points d"
      "lz_evidence inputs = ly_evidence parsed"
    by (auto simp: resolve_stateful_rolling_inputs_def elim!: bind_io_InrE)
  note c = currency_requests(3) [OF selection]
  show "requests_in u \<le> requests_in t + (3 + 2 * pc_async_max_polls performance)"
    using currency_requests(1) [OF selection] fetched_requests [OF fetch] dependency_resolved(1) [OF d]
    by (auto split: if_splits)
  show "\<exists>c. lz_stateful inputs = stateful\<lparr>lf_reporting_currency := c\<rparr>" using c inputs(1) by metis
  note series = parsed_series [OF parsed fetched_source_payload [OF fetch]]
  show "lz_portfolio_points inputs \<noteq> []" using series(1) inputs by simp
  show "rolling_requires_benchmark stateful \<Longrightarrow> lz_benchmark_points inputs \<noteq> []" using series(2) inputs c by simp
  show "rolling_requires_risk_free stateful \<Longrightarrow> lz_risk_free_points inputs \<noteq> []"
    using dependency_resolved(2) [OF d] currency_requests(2) [OF selection] inputs by simp
  from selected_currency [OF selection] obtain cs where cs: "t1 = t @ cs"
    "currency_sourced core (lf_portfolio_id stateful) (lf_as_of_date stateful) a (rolling_requires_risk_free stateful)
      (lf_reporting_currency stateful) t cs (lh_reporting_currency selection)" by blast
  have reads: "rolling_reads core_first ops readers (lh_stateful selection) = rolling_reads core_first ops readers stateful"
    by (simp add: c rolling_reads_def fun_eq_iff)
  have "lh_include_risk_free selection = rolling_requires_risk_free (lh_stateful selection)"
    using currency_requests(2) [OF selection] c by simp
  from sourced_reads [OF fetch [unfolded this] d [unfolded this], unfolded reads] obtain events where events: "u = t1 @ events"
    "rolling_reads core_first ops readers stateful (lh_reporting_currency selection) performance core a
       (lj_source_payload responses) (ly_portfolio_points parsed) t1 events (lj_source_response responses) (lu_points d)"
    by blast
  show "\<exists>cs events currency payload answer. u = t @ cs @ events \<and>
       currency_sourced core (lf_portfolio_id stateful) (lf_as_of_date stateful) a (rolling_requires_risk_free stateful)
         (lf_reporting_currency stateful) t cs currency \<and>
       lz_stateful inputs = stateful\<lparr>lf_reporting_currency := currency\<rparr> \<and>
       build_stateful_returns_series_request (rolling_returns_query (lz_stateful inputs)) = Inr payload \<and>
       rolling_reads core_first ops readers stateful currency performance core a payload (lz_portfolio_points inputs)
         (t @ cs) events answer (lz_risk_free_points inputs) \<and>
       (\<exists>window series. build_returns_series_window (lf_periods stateful) (lf_as_of_date stateful) = Inr window \<and>
         extract_required_portfolio_returns readers ''DAILY'' answer = Inr (series, lz_portfolio_points inputs) \<and>
         to_return_points readers ''DAILY'' (json_get series ''benchmark_returns'') = Inr (lz_benchmark_points inputs) \<and>
         returns_source answer (rolling_identity stateful) window (lz_portfolio_points inputs) (lz_evidence inputs) \<and>
         validate_returns_evidence readers (source_evidence_payload answer) = Some (lz_evidence inputs))"
    using cs events c inputs fetched_source_payload [OF fetch] series(3)
    by - (rule exI [of _ cs], rule exI [of _ events], rule exI [of _ "lh_reporting_currency selection"],
        rule exI [of _ "lj_source_payload responses"], rule exI [of _ "lj_source_response responses"], simp)
qed

text \<open>
  Since inception the window is relative, so the risk-free series is requested for the dates of the returns:
  that request is dropped, and the lineage of a report that rests on the series does not mention it.
\<close>

lemma inception_risk_free_unrecorded:
  assumes "\<exists>p\<in>set (lf_periods stateful). rp_type p = ''SI''" "rolling_requires_risk_free stateful"
    and run: "resolve_stateful_rolling_inputs core_first ops readers stateful performance core a t = (Inr inputs, u)"
  shows "lz_risk_free_request inputs = None" "lz_risk_free_points inputs \<noteq> []"
proof -
  show "lz_risk_free_points inputs \<noteq> []" using resolved_rolling_source(5) [OF run assms(2)] .
  from run obtain selection responses t1 t2 where
    selection: "resolve_stateful_dependency_selection stateful core a t = (Inr selection, t1)"
    and fetch: "fetch_stateful_source_responses core_first readers (lh_stateful selection) performance core a
       (lh_include_risk_free selection) (lh_reporting_currency selection) t1 = (Inr responses, t2)"
    and inputs: "lz_risk_free_request inputs = lj_risk_free_request responses"
    by (auto simp: resolve_stateful_rolling_inputs_def elim!: bind_io_InrE)
  from currency_requests(3) [OF selection] obtain c where c: "lh_stateful selection = stateful\<lparr>lf_reporting_currency := c\<rparr>" ..
  have "explicit_window_bounds readers payload = Inr None"
    if "build_stateful_returns_series_request (rolling_returns_query (lh_stateful selection)) = Inr payload" for payload
    using that assms(1) by (auto simp: build_stateful_returns_series_request_def rolling_returns_query_def c
        build_returns_series_window_def explicit_window_bounds_def json_get_def result_simps)
  with fetch show "lz_risk_free_request inputs = None"
    by (auto simp: inputs fetch_stateful_source_responses_def explicit_risk_free_request_def result_simps
        elim!: bind_io_InrE split: if_splits option.splits)
qed

lemma built_rolling_request:
  assumes "build_stateless_rolling_request readers inputs = Inr request"
  shows "li_periods request = lf_periods (lz_stateful inputs)" "li_options request = lf_options (lz_stateful inputs)"
    "rq_as_of_date (li_scope request) = lf_as_of_date (lz_stateful inputs)"
    "li_returns request = lz_portfolio_points inputs" "li_benchmark_returns request = lz_benchmark_points inputs"
    "li_risk_free_returns request = lz_risk_free_points inputs" "validate_rolling_stateless request = Inr ()"
    "rq_reporting_currency (li_scope request) = lf_reporting_currency (lz_stateful inputs)"
  using assms
  by (auto simp: build_stateless_rolling_request_def Let_def validated_Inr_iff split: sum.splits if_splits)


section \<open>An example\<close>

definition example_rolling_stateful :: rolling_stateful_input where
  "example_rolling_stateful =
     \<lparr>lf_portfolio_id = ''P1'', lf_as_of_date = Date 2026 3 31, lf_client_id = None, lf_reporting_currency = None,
      lf_net_or_gross = Net, lf_periods = [example_year 2026], lf_options = li_options example_rolling\<rparr>"

lemma example_rolling_stateful_fields:
  "lf_periods example_rolling_stateful = [example_year 2026]" "lf_reporting_currency example_rolling_stateful = None"
  "lf_options example_rolling_stateful = li_options example_rolling"
  "\<not> rolling_requires_risk_free example_rolling_stateful" "\<not> rolling_requires_benchmark example_rolling_stateful"
  "rolling_identity example_rolling_stateful = daily_identity"
  "example_rolling_stateful\<lparr>lf_reporting_currency := None\<rparr> = example_rolling_stateful"
  by (simp_all add: rolling_requires_risk_free_def rolling_requires_benchmark_def ROLLING_BENCHMARK_METRICS_def
      rolling_identity_def daily_identity_def example_rolling_stateful_def example_rolling_def net_or_gross_value_def)

lemma example_rolling_source:
  "\<exists>inputs u. resolve_stateful_rolling_inputs False reference_rolling_ops sample_readers example_rolling_stateful
     daily_client None sample_authority [] = (Inr inputs, u) \<and>
     lz_stateful inputs = example_rolling_stateful \<and> lz_portfolio_points inputs = [daily_point] \<and>
     lz_benchmark_points inputs = [] \<and> lz_risk_free_points inputs = []"
proof -
  let ?s = example_rolling_stateful
  note fields = example_rolling_stateful_fields
  obtain payload where payload: "build_stateful_returns_series_request (rolling_returns_query ?s) = Inr payload"
    by (simp add: build_stateful_returns_series_request_def rolling_returns_query_def example_rolling_stateful_def daily_window)
  have window: "requested_window_of payload = [(''mode'', JString ''EXPLICIT''),
      (''from_date'', JString ''2026-01-01''), (''to_date'', JString ''2026-12-31'')]"
    using requested_window_of_request [OF payload]
    by (simp add: rolling_returns_query_def example_rolling_stateful_def daily_window)
  obtain e where e: "extract_stateful_returns_source_evidence sample_readers daily_answer daily_identity
     (Some (requested_window_of payload)) (Some [daily_point]) = Inr e"
    unfolding window using daily_answer_accepted by blast
  obtain u where answer: "execute_returns_series_request daily_client payload sample_authority [] = (Inr daily_answer, u)"
    using daily_client_answers by blast
  have bench: "benchmark_points_or_raise sample_readers [(''portfolio_returns'', JArray [sample_row ''2026-01-02'' ''-1''])] False = Inr []"
    by (simp add: benchmark_points_or_raise_def to_return_points_def json_get_def)
  have iso: "date_fromisoformat ''2026-01-01'' = Some (Date 2026 1 1)" "date_fromisoformat ''2026-12-31'' = Some (Date 2026 12 31)"
    by code_simp+
  have "json_get payload ''window'' = JObject (requested_window_of payload)"
    using payload by (auto simp: build_stateful_returns_series_request_def requested_window_of_def mapping_or_empty_def
      json_get_def result_simps)
  then obtain w where bounds: "explicit_window_bounds sample_readers payload = Inr w"
    by (simp add: explicit_window_bounds_def window json_get_def iso)
  have series: "parse_stateful_source_series sample_readers ?s payload daily_answer =
      Inr \<lparr>ly_portfolio_points = [daily_point], ly_benchmark_points = [], ly_evidence = e\<rparr>"
    using e by (simp add: parse_stateful_source_series_def daily_answer_returns bench fields)
  have selected: "resolve_stateful_dependency_selection ?s None sample_authority t = (Inr \<lparr>lh_stateful = ?s,
      lh_include_risk_free = False, lh_reporting_currency = None, lh_core_snapshot_request = None\<rparr>, t)" for t
    by (simp add: resolve_stateful_dependency_selection_def resolve_portfolio_reporting_currency_def fields)
  have fetched: "fetch_stateful_source_responses False sample_readers ?s daily_client None sample_authority False None [] =
      (Inr \<lparr>lj_source_payload = payload, lj_source_response = daily_answer, lj_risk_free_request = None,
        lj_risk_free_response = None\<rparr>, u)"
    by (simp add: fetch_stateful_source_responses_def payload bounds explicit_risk_free_request_def
        fetch_returns_and_risk_free_def bind_io_def answer)
  show ?thesis
    by (simp add: resolve_stateful_rolling_inputs_def selected bind_io_def fetched series resolve_risk_free_dependency_def
        risk_free_response_or_none_def risk_free_points_or_raise_def risk_free_points_from_response_def)
qed

lemma example_rolling_report:
  assumes "lz_stateful inputs = example_rolling_stateful" "lz_portfolio_points inputs = [daily_point]"
    "lz_benchmark_points inputs = []" "lz_risk_free_points inputs = []"
  shows "\<exists>response. rolling_from_inputs reference_rolling_ops example_digests sample_readers inputs = Inr response"
proof -
  define request where "request = \<lparr>li_scope = \<lparr>rq_as_of_date = Date 2026 3 31, rq_reporting_currency = None, rq_net_or_gross = Net\<rparr>,
    li_periods = [example_year 2026], li_returns = [daily_point], li_benchmark_returns = [], li_risk_free_returns = [],
    li_options = li_options example_rolling\<rparr>"
  have names: "validate_unique_period_names [example_year 2026] = Inr ()"
    "validate_unique_return_dates [daily_point] ''returns'' = Inr ()"
    "validate_unique_return_dates [] ''benchmark_returns'' = Inr ()" "validate_unique_return_dates [] ''risk_free_returns'' = Inr ()"
    by code_simp+
  have metrics: "lo_metrics (li_options example_rolling) = [RollingMaxDrawdown]"
    "lo_window_lengths (li_options example_rolling) = [2]" by (simp_all add: example_rolling_def)
  have load: "validate_rolling_time_series_workload 1 1 1 b = Inr ()" for b
    by (simp add: validate_rolling_time_series_workload_def raise_if_def ROLLING_MAX_TIME_SERIES_POINTS_def)
  have fields: "rolling_stateless_fields request"
    by (simp add: rolling_stateless_fields_def request_def ROLLING_MAX_STATELESS_OBSERVATIONS_def ROLLING_MAX_PERIODS_def)
  have valid: "validate_rolling_stateless request = Inr ()"
    using names load by (simp add: validate_rolling_stateless_def request_def metrics
        validate_rolling_stateless_dependencies_def ROLLING_BENCHMARK_METRICS_def raise_if_def)
  have built: "build_stateless_rolling_request sample_readers inputs = Inr request"
    using assms fields valid load
    by (simp add: build_stateless_rolling_request_def validate_stateful_workload_def Let_def example_rolling_stateful_def
        request_def metrics ROLLING_MAX_STATELESS_OBSERVATIONS_def)
  obtain s where s: "rolling_period_series (build_rolling_input_frames request) request (example_year 2026)
      (Date 2026 1 2) = Inr s"
    by (simp add: rolling_period_series_def request_def example_rolling_period Let_def)
  obtain r where r: "rolling_period_result reference_rolling_ops s (li_options request) [RollingMaxDrawdown] = Inr r"
    using drawdown_period by blast
  obtain response :: rolling_response where
    "build_rolling_response example_digests sample_readers request RollingStateful (Some (lz_evidence inputs)) [(ls_name s, r)] = Inr response"
    by (rule rolling_response_fields [of request]) (simp_all add: request_def metrics)
  moreover have "lb_portfolio (build_rolling_input_frames request) = [(Date 2026 1 2, - 100)]"
    by (simp add: build_rolling_input_frames_def returns_frame_def request_def daily_point_def)
  moreover have "li_periods request = [example_year 2026]" "lo_metrics (li_options request) = [RollingMaxDrawdown]"
    by (simp_all add: request_def metrics)
  ultimately have "calculate_rolling_metrics reference_rolling_ops example_digests sample_readers request RollingStateful
      (Some (lz_evidence inputs)) = Inr response"
    using s r by (simp add: calculate_rolling_metrics_def Let_def)
  with built show ?thesis by (simp add: rolling_from_inputs_def)
qed


end
