(* ===== verification/MandateHealth.thy ===== *)
theory MandateHealth
  imports Main RiskPeriods
begin

text \<open>
  The mandate risk health context: the request (contracts/mandate_health_inputs.py), the tracking error it
  asks of the risk report, the posture against the attention threshold
  (services/mandate_health_context.py) and the response (contracts/mandate_health_metric_outputs.py,
  contracts/mandate_health_response_outputs.py), whose fields of one fixed value are left out.  A decimal is
  a rational, and \<open>Decimal(str(value))\<close> of a float is the shortest decimal that reads back as it.
\<close>

section \<open>Requests\<close>

record mandate_request =
  mq_portfolio_id :: string
  mq_scope :: risk_scope
  mq_period :: risk_period
  mq_portfolio_open_date :: date
  mq_returns :: "return_point list"
  mq_benchmark_returns :: "return_point list"
  mq_attention_threshold :: rat

definition validate_mandate_request :: "mandate_request \<Rightarrow> (string, unit) result" where
  "validate_mandate_request request =
     (if mq_attention_threshold request < 0 then Inl ''tracking_error_attention_threshold''
      else bind_result (validate_unique_return_dates (mq_returns request) ''returns'') (\<lambda>_.
        validate_unique_return_dates (mq_benchmark_returns request) ''benchmark_returns''))"

definition default_risk_options :: risk_options where
  "default_risk_options =
     \<lparr>ro_frequency = Daily, ro_annualization_factor = None, ro_use_log_returns = False,
      ro_risk_free_mode = ZeroRate, ro_risk_free_annual_rate = None, ro_mar_annual_rate = 0,
      ro_var = \<lparr>vo_method = Historical, vo_confidence = flit (99 / 100), vo_horizon_days = 1,
        vo_include_expected_shortfall = True\<rparr>\<rparr>"

text \<open>The risk request is validated as it is constructed.\<close>

definition tracking_error_risk_request ::
  "field_readers \<Rightarrow> mandate_request \<Rightarrow> (calculation_error, risk_stateless_input) result"
where
  "tracking_error_risk_request readers request =
     (let rq = \<lparr>rs_scope = mq_scope request, rs_periods = [mq_period request], rs_metrics = [TrackingError],
          rs_options = default_risk_options, rs_portfolio_open_date = mq_portfolio_open_date request,
          rs_returns = mq_returns request, rs_benchmark_returns = mq_benchmark_returns request\<rparr>
      in case validate_risk_stateless rq of
           Inl m \<Rightarrow> Inl (PlainValueError (fr_refusal readers m))
         | Inr _ \<Rightarrow> Inr rq)"

section \<open>The source metric\<close>

record source_metric =
  sm_annualized_tracking_error :: "rat option"
  sm_aligned_observation_count :: int

text \<open>\<open>Decimal(str(value))\<close>, and \<open>int(value or 0)\<close>; a text or Boolean that is no number raises.\<close>

definition detail_to_decimal :: "detail option \<Rightarrow> (calculation_error, rat option) result" where
  "detail_to_decimal v =
     (case v of
        Some (DetailNumber x) \<Rightarrow> Inr (Some (repr_value x))
      | Some (DetailCount n) \<Rightarrow> Inr (Some (of_int n))
      | Some (DetailText s) \<Rightarrow>
          (case read_decimal (JString s) of FiniteDecimal q \<Rightarrow> Inr (Some q) | _ \<Rightarrow> Inl (Escaped ''InvalidOperation''))
      | Some (DetailFlag b) \<Rightarrow> Inl (Escaped ''InvalidOperation'')
      | _ \<Rightarrow> Inr None)"

definition detail_to_count :: "detail option \<Rightarrow> (calculation_error, int) result" where
  "detail_to_count v =
     (case v of
        Some (DetailCount n) \<Rightarrow> Inr n
      | Some (DetailNumber x) \<Rightarrow> Inr (if x < 0 then - \<lfloor>- x\<rfloor> else \<lfloor>x\<rfloor>)
      | Some (DetailFlag b) \<Rightarrow> Inr (if b then 1 else 0)
      | Some (DetailText (c # cs)) \<Rightarrow>
          (case py_int (c # cs) of
             Some n \<Rightarrow> Inr n
           | None \<Rightarrow> Inl (PlainValueError (''invalid literal for int() with base 10: '' @ c # cs)))
      | _ \<Rightarrow> Inr 0)"

definition tracking_error_source_metric :: "(string \<times> detail) list \<Rightarrow> (calculation_error, source_metric) result" where
  "tracking_error_source_metric details =
     bind_result (detail_to_decimal (map_of details ''annualized_tracking_error'')) (\<lambda>value.
     bind_result (detail_to_count (map_of details ''aligned_observation_count'')) (\<lambda>count.
       Inr \<lparr>sm_annualized_tracking_error = value, sm_aligned_observation_count = count\<rparr>))"

section \<open>The posture\<close>

datatype mandate_state = MandateReady | MandateAttention | MandateUnavailable

record mandate_posture =
  mp_state :: mandate_state
  mp_breached :: "bool option"
  mp_reason_codes :: "string list"

definition tracking_error_health :: "rat option \<Rightarrow> rat \<Rightarrow> string option \<Rightarrow> mandate_posture" where
  "tracking_error_health tracking_error threshold unavailable_reason =
     (case tracking_error of
        None \<Rightarrow> \<lparr>mp_state = MandateUnavailable, mp_breached = None,
          mp_reason_codes = [''RISK_METHODOLOGY_SOURCE_OWNED'', ''MANDATE_RISK_HEALTH_TRACKING_ERROR_UNAVAILABLE''] @
            (case unavailable_reason of None \<Rightarrow> [] | Some r \<Rightarrow> [r])\<rparr>
      | Some v \<Rightarrow> \<lparr>mp_state = (if threshold < v then MandateAttention else MandateReady),
          mp_breached = Some (threshold < v),
          mp_reason_codes = [''RISK_METHODOLOGY_SOURCE_OWNED'', ''MANDATE_RISK_HEALTH_TRACKING_ERROR_SOURCE_READY''] @
            (if threshold < v then [''MANDATE_RISK_HEALTH_TRACKING_ERROR_THRESHOLD_BREACHED''] else [])\<rparr>)"

record mandate_response =
  mo_portfolio_id :: string
  mo_as_of_date :: date
  mo_period_name :: string
  mo_posture :: mandate_posture
  mo_attention_threshold :: rat
  mo_source_metric :: source_metric
  mo_request_fingerprint :: string
  mo_source_request_fingerprint :: string

definition tracking_error_details ::
  "risk_period_result option \<Rightarrow> (calculation_error, (string \<times> detail) list) result"
where
  "tracking_error_details period =
     (case period of
        None \<Rightarrow> Inr []
      | Some r \<Rightarrow> (case map_of (rr_metrics r) TrackingError of
          None \<Rightarrow> Inl (Escaped ''KeyError'') | Some v \<Rightarrow> Inr (mv_details v)))"

definition evaluate_mandate_risk_health_context ::
  "risk_ops \<Rightarrow> (mandate_request \<Rightarrow> string) \<Rightarrow> risk_stateless_input fingerprints \<Rightarrow> field_readers \<Rightarrow>
     mandate_request \<Rightarrow> (calculation_error, mandate_response) result"
where
  "evaluate_mandate_risk_health_context ops fingerprint fp readers request =
     bind_result (tracking_error_risk_request readers request) (\<lambda>risk_request.
     bind_result (calculate_risk ops fp risk_request None) (\<lambda>risk_response.
     let name = period_name (mq_period request); period = map_of (re_results risk_response) name in
     bind_result (tracking_error_details period) (\<lambda>details.
     bind_result (tracking_error_source_metric details) (\<lambda>metric.
       if sm_aligned_observation_count metric < 0
       then Inl (PlainValueError (fr_refusal readers ''aligned_observation_count''))
       else Inr \<lparr>mo_portfolio_id = mq_portfolio_id request,
         mo_as_of_date = rq_as_of_date (mq_scope request), mo_period_name = name,
         mo_posture = tracking_error_health (sm_annualized_tracking_error metric) (mq_attention_threshold request)
           (if period = None then Some ''MANDATE_RISK_HEALTH_PORTFOLIO_HISTORY_UNAVAILABLE'' else None),
         mo_attention_threshold = mq_attention_threshold request, mo_source_metric = metric,
         mo_request_fingerprint = fingerprint request,
         mo_source_request_fingerprint = rt_request_fingerprint (re_metadata risk_response)\<rparr>))))"

definition analytics_risk_mandate_health_context ::
  "risk_ops \<Rightarrow> (mandate_request \<Rightarrow> string) \<Rightarrow> risk_stateless_input fingerprints \<Rightarrow> field_readers \<Rightarrow>
     mandate_request \<Rightarrow> (route_error, mandate_response) result"
where
  "analytics_risk_mandate_health_context ops fingerprint fp readers request =
     calculation_result (evaluate_mandate_risk_health_context ops fingerprint fp readers request)"

section \<open>Decimals of floats\<close>

lemma repr_value_reads_back: "is_f64 x \<Longrightarrow> rnd (repr_value x) = x"
proof -
  assume x: "is_f64 x"
  have found: "rnd q = \<bar>x\<bar>" if "shortest_at \<bar>x\<bar> d = Some q" for q d
    using that by (auto simp: shortest_at_def Let_def split: if_splits)
  have abs: "rnd \<bar>x\<bar> = \<bar>x\<bar>" using x by (simp add: is_f64_def abs_if)
  have "rnd (case List.map_filter (shortest_at \<bar>x\<bar>) [1..<18] of [] \<Rightarrow> \<bar>x\<bar> | q # _ \<Rightarrow> q) = \<bar>x\<bar>"
  proof (cases "List.map_filter (shortest_at \<bar>x\<bar>) [1..<18]")
    case (Cons q qs)
    then have "q \<in> set (List.map_filter (shortest_at \<bar>x\<bar>) [1..<18])" by simp
    then obtain d where "shortest_at \<bar>x\<bar> d = Some q" by (auto simp: set_map_filter)
    from found [OF this] Cons show ?thesis by simp
  qed (simp add: abs)
  then show ?thesis by (auto simp: repr_value_def Let_def)
qed

text \<open>A float above the float of a decimal has a decimal above it, and so below.\<close>

lemma repr_value_compare:
  assumes "is_f64 x"
  shows "rnd q < x \<Longrightarrow> q < repr_value x" "x < rnd q \<Longrightarrow> repr_value x < q"
  using rnd_mono [of "repr_value x" q] rnd_mono [of q "repr_value x"] repr_value_reads_back [OF assms]
  by (fastforce simp: not_less [symmetric])+

section \<open>What the posture rests on\<close>

definition mandate_active_returns :: "mandate_request \<Rightarrow> date \<Rightarrow> date \<Rightarrow> f64 list" where
  "mandate_active_returns request start finish =
     map (\<lambda>(d, x, y). fsub x y) (merge_inner (filter_period (returns_frame (mq_returns request)) start finish)
       (filter_period (returns_frame (mq_benchmark_returns request)) start finish))"

definition annualized_active_risk :: "risk_ops \<Rightarrow> f64 list \<Rightarrow> f64" where
  "annualized_active_risk ops active = fdiv (fmul (rk_std ops active) (math_sqrt 252)) 100"

text \<open>
  The posture of a mandate: unavailable without a history or with fewer than two aligned returns, and
  otherwise decided by the annualized deviation of the active returns.
\<close>

definition answers_mandate :: "risk_ops \<Rightarrow> mandate_request \<Rightarrow> mandate_response \<Rightarrow> bool" where
  "answers_mandate ops request response \<longleftrightarrow>
     (let posture = mo_posture response; metric = mo_source_metric response; threshold = mq_attention_threshold request in
      mo_portfolio_id response = mq_portfolio_id request \<and> mo_attention_threshold response = threshold \<and>
      (if mq_returns request = []
       then posture = tracking_error_health None threshold (Some ''MANDATE_RISK_HEALTH_PORTFOLIO_HISTORY_UNAVAILABLE'') \<and>
         metric = \<lparr>sm_annualized_tracking_error = None, sm_aligned_observation_count = 0\<rparr>
       else \<exists>start finish.
         resolve_period (mq_period request) (rq_as_of_date (mq_scope request)) (mq_portfolio_open_date request) =
           Inr (start, finish) \<and>
         (let active = mandate_active_returns request start finish; risk = annualized_active_risk ops active in
          if length active < 2
          then posture = tracking_error_health None threshold None \<and>
            metric = \<lparr>sm_annualized_tracking_error = None, sm_aligned_observation_count = 0\<rparr>
          else metric = \<lparr>sm_annualized_tracking_error = Some (repr_value risk),
              sm_aligned_observation_count = int (length active)\<rparr> \<and>
            mp_breached posture = Some (threshold < repr_value risk) \<and>
            mp_state posture = (if threshold < repr_value risk then MandateAttention else MandateReady) \<and>
            (rnd threshold < risk \<longrightarrow> mp_state posture = MandateAttention) \<and>
            (risk < rnd threshold \<longrightarrow> mp_state posture = MandateReady))))"

lemma daily_series [simp]: "metric_return_series ops s Daily False = Inr s"
  by (simp add: metric_return_series_def resample_returns_def)

lemma merge_inner_Nil [simp]: "merge_inner s [] = []"
  by (simp add: merge_inner_def map_filter_def)

lemma active_of_aligned:
  "active_values (map (fst \<circ> snd) al) (map (snd \<circ> snd) al) = map (\<lambda>(d, x, y). fsub x y) al"
  by (induction al) (auto simp: active_values_def)

lemma tracking_error_period:
  assumes run: "single_period_result ops rq rates returns bench (a, b) = Inr r"
    and fields: "rs_metrics rq = [TrackingError]" "rs_options rq = default_risk_options"
  shows "\<exists>v. map_of (rr_metrics r) TrackingError = Some v \<and>
    (let al = merge_inner (filter_period returns a b) (filter_period bench a b) in
     if length al < 2 then \<exists>m. v = metric_error m
     else calculate_tracking_error ops (map (fst \<circ> snd) al) (map (snd \<circ> snd) al) (pr_annual_factor rates) = Inr v)"
proof -
  let ?own = "\<lparr>nb_series = filter_period returns a b, nb_map = [], nb_error = None\<rparr>"
  let ?al = "merge_inner (filter_period returns a b) (filter_period bench a b)"
  let ?te = "calculate_tracking_error ops (map (fst \<circ> snd) ?al) (map (snd \<circ> snd) ?al) (pr_annual_factor rates)"
  have own: "period_non_benchmark_metrics ops rq af rf mar (filter_period returns a b) = Inr ?own" for af rf mar
    by (simp add: period_non_benchmark_metrics_def fields default_risk_options_def non_benchmark_calculators_def)
  have requested: "benchmark_metrics_requested [TrackingError] = [TrackingError]"
    by (simp add: benchmark_metrics_requested_def BENCHMARK_METRICS_def)
  from run obtain found where found: "period_benchmark_metrics ops default_risk_options ?own a b bench [TrackingError]
      (pr_annual_factor rates) = Inr (Some found)" and metrics: "rr_metrics r = dict_update [] (br_map found)"
    by (auto simp: single_period_result_def Let_def own fields requested period_benchmark_metrics_def result_simps)
  have update: "dict_update [] [(k, v)] = [(k, v)]" for k :: risk_metric and v :: risk_value
    by (simp add: dict_update_def)
  have te: "catch_metric ?te = ?te"
    by (simp add: catch_metric_def calculate_tracking_error_def float_of_int_def Let_def)
  show ?thesis
  proof (cases "length ?al < 2")
    case True
    with found metrics show ?thesis
      by (auto simp: period_benchmark_metrics_def calculate_benchmark_period_metrics_def benchmark_period_metrics_def
          align_and_resample_benchmark_def default_risk_options_def calculate_aligned_benchmark_metrics_def
          benchmark_metric_errors_def distinct_metrics_def update Let_def result_simps split: if_splits)
  next
    case False
    then have ne: "bench \<noteq> []" "filter_period bench a b \<noteq> []" by (auto simp: filter_period_def)
    with False found metrics te show ?thesis
      by (auto simp: period_benchmark_metrics_def calculate_benchmark_period_metrics_def benchmark_period_metrics_def
          align_and_resample_benchmark_def default_risk_options_def calculate_aligned_benchmark_metrics_def
          distinct_metrics_def update Let_def calculate_benchmark_metric_def result_simps split: if_splits)
  qed
qed

lemma tracking_error_detail_values:
  assumes "calculate_tracking_error ops xs ys 252 = Inr v"
  shows "map_of (mv_details v) ''annualized_tracking_error'' = Some (DetailNumber (annualized_active_risk ops (active_values xs ys)))"
    "map_of (mv_details v) ''aligned_observation_count'' = Some (DetailCount (int (length (active_values xs ys))))"
proof -
  have "rnd (of_int 252) = of_int 252" by (rule rnd_of_int) simp
  then have "float_of_int 252 = Inr 252" by (simp add: float_of_int_def)
  with assms show "map_of (mv_details v) ''annualized_tracking_error'' = Some (DetailNumber (annualized_active_risk ops (active_values xs ys)))"
    "map_of (mv_details v) ''aligned_observation_count'' = Some (DetailCount (int (length (active_values xs ys))))"
    by (auto simp: calculate_tracking_error_def Let_def aligned_detail_def mean_details_def annualized_active_risk_def)
qed

lemma risk_request_built:
  assumes "validate_mandate_request request = Inr ()"
  obtains rq where "tracking_error_risk_request readers request = Inr rq" "rs_metrics rq = [TrackingError]"
    "rs_options rq = default_risk_options" "rs_periods rq = [mq_period request]" "rs_scope rq = mq_scope request"
    "rs_portfolio_open_date rq = mq_portfolio_open_date request" "rs_returns rq = mq_returns request"
    "rs_benchmark_returns rq = mq_benchmark_returns request"
proof -
  let ?rq = "\<lparr>rs_scope = mq_scope request, rs_periods = [mq_period request], rs_metrics = [TrackingError],
    rs_options = default_risk_options, rs_portfolio_open_date = mq_portfolio_open_date request,
    rs_returns = mq_returns request, rs_benchmark_returns = mq_benchmark_returns request\<rparr>"
  have "validate_unique_period_names [mq_period request] = Inr ()"
    by (simp add: validate_unique_names_iff)
  then have "validate_risk_stateless ?rq = Inr ()"
    using assms by (simp add: validate_mandate_request_def validate_risk_stateless_def result_simps split: if_splits)
  then have "tracking_error_risk_request readers request = Inr ?rq"
    by (simp add: tracking_error_risk_request_def)
  from that [OF this] show thesis by simp
qed

lemma risk_result_of_period:
  assumes ne: "rs_returns rq \<noteq> []" and p: "rs_periods rq = [p]"
  shows "case calculate_risk ops fp rq None of
      Inl e \<Rightarrow> resolve_period p (rq_as_of_date (rs_scope rq)) (rs_portfolio_open_date rq) = Inl e \<or>
        arithmetic_failure e \<or> (\<exists>x y. rk_power ops x y = Inl e)
    | Inr response \<Rightarrow> \<exists>rates start finish r. pr_annual_factor rates = annualization_factor_for_options (rs_options rq) \<and>
        resolve_period p (rq_as_of_date (rs_scope rq)) (rs_portfolio_open_date rq) = Inr (start, finish) \<and>
        single_period_result ops rq rates (returns_frame (rs_returns rq)) (returns_frame (rs_benchmark_returns rq))
          (start, finish) = Inr r \<and> re_results response = [(period_name p, r)]"
proof (cases "calculate_risk ops fp rq None")
  case (Inl e)
  with metrics_answered [where request = rq and ops = ops and fp = fp and evidence = None] ne p show ?thesis by simp
next
  case (Inr response)
  then obtain rates where rates: "resolve_periodic_rates ops (rs_options rq)
      (annualization_factor_for_options (rs_options rq)) = Inr rates"
    and results: "risk_period_results ops rq rates (returns_frame (rs_returns rq)) (returns_frame (rs_benchmark_returns rq))
      [p] [] = Inr (re_results response)"
    using ne p by (auto simp: calculate_risk_def build_risk_response_def Let_def result_simps)
  from rates have "pr_annual_factor rates = annualization_factor_for_options (rs_options rq)"
    by (auto simp: resolve_periodic_rates_def result_simps)
  with results Inr show ?thesis by (force simp: result_simps)
qed

lemma empty_risk_report:
  assumes "rs_returns rq = []"
  obtains response where "calculate_risk ops fp rq None = Inr response" "re_results response = []"
  by (rule build_risk_response_ready [of "[]" fp rq 0 None])
    (use assms that in \<open>auto simp: calculate_risk_def Let_def each_def\<close>)

lemma mandate_answered:
  assumes rq: "tracking_error_risk_request readers request = Inr rq" "rs_metrics rq = [TrackingError]"
    "rs_options rq = default_risk_options" "rs_periods rq = [mq_period request]" "rs_scope rq = mq_scope request"
    "rs_portfolio_open_date rq = mq_portfolio_open_date request" "rs_returns rq = mq_returns request"
    "rs_benchmark_returns rq = mq_benchmark_returns request"
    and report: "calculate_risk ops fp rq None = Inr report"
  shows "\<exists>response. evaluate_mandate_risk_health_context ops fingerprint fp readers request = Inr response \<and>
    answers_mandate ops request response"
proof (cases "mq_returns request = []")
  case True
  then have "re_results report = []"
    using report rq empty_risk_report [of rq ops fp] by (metis sum.inject(2))
  with True rq(1) report show ?thesis
    by (simp add: evaluate_mandate_risk_health_context_def tracking_error_details_def tracking_error_source_metric_def
        detail_to_decimal_def detail_to_count_def answers_mandate_def Let_def)
next
  case False
  from risk_result_of_period [where rq = rq and p = "mq_period request" and ops = ops and fp = fp] False rq report
  obtain rates start finish r where
    window: "pr_annual_factor rates = 252"
      "resolve_period (mq_period request) (rq_as_of_date (mq_scope request)) (mq_portfolio_open_date request) = Inr (start, finish)"
    and single: "single_period_result ops rq rates (returns_frame (mq_returns request))
      (returns_frame (mq_benchmark_returns request)) (start, finish) = Inr r"
    and results: "re_results report = [(period_name (mq_period request), r)]"
    by (auto simp: annualization_factor_for_options_def default_risk_options_def)
  let ?al = "merge_inner (filter_period (returns_frame (mq_returns request)) start finish)
    (filter_period (returns_frame (mq_benchmark_returns request)) start finish)"
  let ?active = "mandate_active_returns request start finish"
  have active: "active_values (map (fst \<circ> snd) ?al) (map (snd \<circ> snd) ?al) = ?active"
    "length ?al = length ?active"
    by (simp_all add: active_of_aligned mandate_active_returns_def)
  from tracking_error_period [OF single rq(2,3)] obtain v where v: "map_of (rr_metrics r) TrackingError = Some v"
    and found: "if length ?active < 2 then \<exists>m. v = metric_error m
      else calculate_tracking_error ops (map (fst \<circ> snd) ?al) (map (snd \<circ> snd) ?al) 252 = Inr v"
    unfolding window(1) active(2) [symmetric] Let_def by blast
  note eval = evaluate_mandate_risk_health_context_def tracking_error_details_def tracking_error_source_metric_def
    detail_to_decimal_def detail_to_count_def answers_mandate_def Let_def
  show ?thesis
  proof (cases "length ?active < 2")
    case True
    with found obtain m where "v = metric_error m" by auto
    with v True False rq(1) report results window show ?thesis
      by (simp add: eval metric_error_def)
  next
    case many: False
    with found have "calculate_tracking_error ops (map (fst \<circ> snd) ?al) (map (snd \<circ> snd) ?al) 252 = Inr v" by simp
    note details = tracking_error_detail_values [OF this, unfolded active(1)]
    have "is_f64 (annualized_active_risk ops ?active)" by (simp add: annualized_active_risk_def)
    note compare = repr_value_compare [OF this, of "mq_attention_threshold request"]
    from v many False rq(1) report results window details show ?thesis
      using compare by (auto simp: eval tracking_error_health_def)
  qed
qed

lemma tracking_error_total:
  assumes "rs_metrics rq = [TrackingError]" "rs_options rq = default_risk_options" "pr_annual_factor rates = 252"
  shows "\<exists>r. single_period_result ops rq rates returns bench (a, b) = Inr r"
proof -
  have "rnd (of_int 252) = of_int 252" by (rule rnd_of_int) simp
  then have factor: "float_of_int 252 = Inr 252" by (simp add: float_of_int_def)
  have requested: "benchmark_metrics_requested [TrackingError] = [TrackingError]"
    by (simp add: benchmark_metrics_requested_def BENCHMARK_METRICS_def)
  show ?thesis
    by (simp add: single_period_result_def Let_def assms requested period_non_benchmark_metrics_def default_risk_options_def
        non_benchmark_calculators_def period_benchmark_metrics_def calculate_benchmark_period_metrics_def
        benchmark_period_metrics_def align_and_resample_benchmark_def calculate_aligned_benchmark_metrics_def
        distinct_metrics_def calculate_benchmark_metric_def calculate_tracking_error_def factor catch_metric_def)
qed

lemma zero_rate_power:
  "annual_to_periodic ops 0 252 = bind_result (rk_power ops 1 (fdiv 1 252)) (\<lambda>p. Inr (fsub p 1))"
proof -
  have "rnd (of_int 252) = of_int 252" "rnd (of_int 1) = of_int 1" by (rule rnd_of_int; simp)+
  then show ?thesis by (simp add: annual_to_periodic_def float_of_int_def fadd_def)
qed

text \<open>
  The risk report of a mandate is refused only when its period does not resolve or the periodic rate of zero
  that every report computes is refused: the tracking error itself never fails.
\<close>

lemma refused_risk_report:
  assumes "rs_metrics rq = [TrackingError]" "rs_options rq = default_risk_options" "rs_periods rq = [p]"
    and ne: "rs_returns rq \<noteq> []" and refused: "calculate_risk ops fp rq None = Inl e"
  shows "resolve_period p (rq_as_of_date (rs_scope rq)) (rs_portfolio_open_date rq) = Inl e \<or>
    annual_to_periodic ops 0 252 = Inl e"
proof (cases "resolve_periodic_rates ops default_risk_options 252")
  case (Inl e')
  then have "annual_to_periodic ops 0 252 = Inl e'"
    by (auto simp: resolve_periodic_rates_def default_risk_options_def annual_rate_applies_def result_simps)
  with Inl refused ne assms(2) show ?thesis
    by (simp add: calculate_risk_def annualization_factor_for_options_def) (simp add: default_risk_options_def)
next
  case (Inr rates)
  then have rate: "pr_annual_factor rates = 252" by (auto simp: resolve_periodic_rates_def result_simps)
  have basis: "annualization_factor_for_options default_risk_options = 252"
    by (simp add: annualization_factor_for_options_def default_risk_options_def)
  show ?thesis
  proof (cases "resolve_period p (rq_as_of_date (rs_scope rq)) (rs_portfolio_open_date rq)")
    case l: (Inl e')
    with Inr refused ne assms(2,3) basis show ?thesis by (simp add: calculate_risk_def Let_def)
  next
    case r: (Inr window)
    obtain start finish where w: "window = (start, finish)" by fastforce
    let ?R = "returns_frame (rs_returns rq)" and ?B = "returns_frame (rs_benchmark_returns rq)"
    from tracking_error_total [OF assms(1,2) rate, where ops = ops and returns = ?R and bench = ?B and a = start and b = finish]
    obtain result where single: "single_period_result ops rq rates ?R ?B (start, finish) = Inr result" by blast
    have "each (\<lambda>r. each answered (rr_metrics r)) [(period_name p, result)]"
      using single_period_answers [where ops = ops and request = rq and rates = rates and returns = ?R
          and bench = ?B and start = start and finish = finish] single
      by (simp add: each_def answers_def comp_def)
    then obtain report where "build_risk_response fp rq (pr_risk_free rates) None [(period_name p, result)] = Inr report"
      by (rule build_risk_response_ready)
    with Inr r w single refused ne assms(2,3) basis show ?thesis by (simp add: calculate_risk_def Let_def)
  qed
qed

text \<open>C28: A mandate is called ready or in attention exactly by whether the annualized deviation of at least two
  aligned active returns of the period lies above the threshold, with no error of rounding between the
  float and the decimal; without them it is unavailable, with the reason when there is no history at all.
  An evaluation fails only when there is a history and its period does not resolve, or the numeric library
  refuses the power by which the report turns its zero annual rate into a daily one: a period that resolves
  always has a tracking error to read.\<close>

theorem mandate_posture_follows_active_risk:
  assumes "validate_mandate_request request = Inr ()"
  shows "case evaluate_mandate_risk_health_context ops fingerprint fp readers request of
      Inl e \<Rightarrow> mq_returns request \<noteq> [] \<and>
        (resolve_period (mq_period request) (rq_as_of_date (mq_scope request)) (mq_portfolio_open_date request) = Inl e \<or>
         rk_power ops 1 (fdiv 1 252) = Inl e)
    | Inr response \<Rightarrow> answers_mandate ops request response"
proof -
  obtain rq where rq: "tracking_error_risk_request readers request = Inr rq" "rs_metrics rq = [TrackingError]"
    "rs_options rq = default_risk_options" "rs_periods rq = [mq_period request]" "rs_scope rq = mq_scope request"
    "rs_portfolio_open_date rq = mq_portfolio_open_date request" "rs_returns rq = mq_returns request"
    "rs_benchmark_returns rq = mq_benchmark_returns request"
    using risk_request_built [OF assms, of readers] by blast
  show ?thesis
  proof (cases "calculate_risk ops fp rq None")
    case (Inl e)
    then have ne: "mq_returns request \<noteq> []" using empty_risk_report [of rq ops fp] rq by fastforce
    from refused_risk_report [OF rq(2,3,4) _ Inl] ne rq zero_rate_power [of ops]
    have "resolve_period (mq_period request) (rq_as_of_date (mq_scope request)) (mq_portfolio_open_date request) = Inl e \<or>
        rk_power ops 1 (fdiv 1 252) = Inl e"
      by (auto simp: result_simps)
    with ne Inl rq show ?thesis by (simp add: evaluate_mandate_risk_health_context_def)
  next
    case (Inr report)
    from mandate_answered [OF rq this, of fingerprint] show ?thesis by auto
  qed
qed

section \<open>An example\<close>

definition example_mandate :: mandate_request where
  "example_mandate =
     \<lparr>mq_portfolio_id = ''P1'',
      mq_scope = \<lparr>rq_as_of_date = Date 2026 3 31, rq_reporting_currency = None, rq_net_or_gross = Net\<rparr>,
      mq_period = example_year 2026, mq_portfolio_open_date = Date 2026 1 2,
      mq_returns = map (\<lambda>(d, v). \<lparr>pt_date = d, pt_value = v\<rparr>) sample_returns,
      mq_benchmark_returns = map (\<lambda>(d, v). \<lparr>pt_date = d, pt_value = v\<rparr>) sample_returns,
      mq_attention_threshold = 1 / 20\<rparr>"

lemma example_mandate_runs:
  "\<exists>response. evaluate_mandate_risk_health_context reference_risk_ops (\<lambda>_. ''m'') example_digests sample_readers
     example_mandate = Inr response"
proof -
  have valid: "validate_mandate_request example_mandate = Inr ()" by code_simp
  obtain rq where rq: "tracking_error_risk_request sample_readers example_mandate = Inr rq" "rs_metrics rq = [TrackingError]"
    "rs_options rq = default_risk_options" "rs_periods rq = [mq_period example_mandate]" "rs_scope rq = mq_scope example_mandate"
    "rs_portfolio_open_date rq = mq_portfolio_open_date example_mandate" "rs_returns rq = mq_returns example_mandate"
    "rs_benchmark_returns rq = mq_benchmark_returns example_mandate"
    using risk_request_built [OF valid, of sample_readers] by blast
  have "rnd (of_int 252) = of_int 252" by (rule rnd_of_int) simp
  then have factor: "float_of_int 252 = Inr 252" by (simp add: float_of_int_def)
  have "rk_power reference_risk_ops (fadd 1 0) x = Inr 1" for x
    by (simp add: reference_risk_ops_def numeric_ops.defs)
  then have "annual_to_periodic reference_risk_ops 0 252 = Inr 0"
    using factor by (simp add: annual_to_periodic_def fsub_def)
  then have rates: "resolve_periodic_rates reference_risk_ops default_risk_options 252 =
      Inr \<lparr>pr_annual_factor = 252, pr_risk_free = 0, pr_mar = 0\<rparr>"
    by (simp add: resolve_periodic_rates_def default_risk_options_def annual_rate_applies_def)
  have window: "resolve_period (example_year 2026) (Date 2026 3 31) (Date 2026 1 2) = Inr (Date 2026 1 2, Date 2026 12 31)"
    by code_simp
  let ?R = "returns_frame (mq_returns example_mandate)" and ?B = "returns_frame (mq_benchmark_returns example_mandate)"
  let ?rates = "\<lparr>pr_annual_factor = 252, pr_risk_free = 0, pr_mar = 0\<rparr>"
  obtain r where r: "single_period_result reference_risk_ops rq ?rates ?R ?B (Date 2026 1 2, Date 2026 12 31) = Inr r"
    using tracking_error_total [OF rq(2,3), where rates = ?rates and ops = reference_risk_ops and returns = ?R and bench = ?B
      and a = "Date 2026 1 2" and b = "Date 2026 12 31"] by auto
  have fields: "mq_returns example_mandate \<noteq> []" "mq_period example_mandate = example_year 2026"
    "rq_as_of_date (mq_scope example_mandate) = Date 2026 3 31" "mq_portfolio_open_date example_mandate = Date 2026 1 2"
    by (simp_all add: example_mandate_def sample_returns_def)
  have "each (\<lambda>r. each answered (rr_metrics r)) [(period_name (example_year 2026), r)]"
    using single_period_answers [where ops = reference_risk_ops and request = rq and rates = ?rates and returns = ?R
        and bench = ?B and start = "Date 2026 1 2" and finish = "Date 2026 12 31"] r
    by (simp add: each_def answers_def comp_def)
  then obtain report where "build_risk_response example_digests rq 0 None [(period_name (example_year 2026), r)] = Inr report"
    by (rule build_risk_response_ready)
  then have "calculate_risk reference_risk_ops example_digests rq None = Inr report"
    using rq fields rates r window
    by (simp add: calculate_risk_def annualization_factor_for_options_def) (simp add: default_risk_options_def)
  from mandate_answered [OF rq this] show ?thesis by blast
qed

theorem mandate_posture_follows_active_risk_witness:
  "\<exists>response. evaluate_mandate_risk_health_context reference_risk_ops (\<lambda>_. ''m'') example_digests sample_readers
     example_mandate = Inr response \<and> mp_state (mo_posture response) = MandateReady \<and>
     sm_aligned_observation_count (mo_source_metric response) = 3"
proof -
  obtain response where run: "evaluate_mandate_risk_health_context reference_risk_ops (\<lambda>_. ''m'') example_digests
      sample_readers example_mandate = Inr response"
    using example_mandate_runs by blast
  have valid: "validate_mandate_request example_mandate = Inr ()" by code_simp
  have window: "resolve_period (example_year 2026) (Date 2026 3 31) (Date 2026 1 2) = Inr (Date 2026 1 2, Date 2026 12 31)"
    by code_simp
  have active: "mandate_active_returns example_mandate (Date 2026 1 2) (Date 2026 12 31) = [0, 0, 0]" by code_simp
  have "rk_std reference_risk_ops [0, 0, 0] = 0" by code_simp
  then have risk: "annualized_active_risk reference_risk_ops [0, 0, 0] = 0"
    by (simp add: annualized_active_risk_def fmul_def fdiv_def)
  from mandate_posture_follows_active_risk [OF valid, where ops = reference_risk_ops and fingerprint = "\<lambda>_. ''m''"
      and fp = example_digests and readers = sample_readers] run
  have "answers_mandate reference_risk_ops example_mandate response" by simp
  moreover have "mq_returns example_mandate \<noteq> []" "mq_period example_mandate = example_year 2026"
    "rq_as_of_date (mq_scope example_mandate) = Date 2026 3 31" "mq_portfolio_open_date example_mandate = Date 2026 1 2"
    "mq_attention_threshold example_mandate = 1 / 20"
    by (simp_all add: example_mandate_def sample_returns_def)
  ultimately show ?thesis using run window active risk by (simp add: answers_mandate_def Let_def repr_value_def)
qed

end
