(* ===== verification/SourceProducts.thy ===== *)
theory SourceProducts
  imports Main MandateHealth ScenarioEngine RiskEventCohort
begin

text \<open>
  The routes of the source products with their portfolio scope (routers/source_products.py), and the
  capabilities the service publishes (services/capability_workflows.py, contracts/capabilities.py,
  routers/operational.py).  The recording of observability metrics is left out.
\<close>

section \<open>Source products\<close>

datatype source_product_error =
  ScopeRefused int string | PackFailure engine_error | CohortFailure cohort_error

text \<open>What a route reads of its request: the configured posture and the resolved principal.\<close>

record product_caller =
  pl_posture :: "string option"
  pl_principal :: "resolved_principal option"

definition require_scope :: "product_caller \<Rightarrow> string list \<Rightarrow> (source_product_error, unit) result" where
  "require_scope caller portfolio_ids =
     (case fst (require_portfolio_scope (pl_posture caller) (pl_principal caller) portfolio_ids) of
        Inl (status, reason) \<Rightarrow> Inl (ScopeRefused status reason)
      | Inr _ \<Rightarrow> Inr ())"

definition pack_portfolios :: "scenario_request \<Rightarrow> string list" where
  "pack_portfolios r = (case sr_portfolio_id r of Some (c # cs) \<Rightarrow> [c # cs] | _ \<Rightarrow> [])"

definition analytics_risk_regime_scenario_pack ::
  "(scenario_request \<Rightarrow> string) \<Rightarrow> product_caller \<Rightarrow> scenario_request \<Rightarrow> (source_product_error, pack_response) result"
where
  "analytics_risk_regime_scenario_pack fingerprint caller r =
     bind_result (require_scope caller (pack_portfolios r)) (\<lambda>_.
       case evaluate_regime_scenario_pack fingerprint r of
         Inl e \<Rightarrow> Inl (PackFailure e)
       | Inr response \<Rightarrow> Inr response)"

definition analytics_risk_event_affected_cohort ::
  "(cohort_request \<Rightarrow> string) \<Rightarrow> product_caller \<Rightarrow> cohort_request \<Rightarrow> (source_product_error, cohort_response) result"
where
  "analytics_risk_event_affected_cohort fingerprint caller r =
     bind_result (require_scope caller (map px_portfolio_id (cq_portfolios r))) (\<lambda>_.
       case evaluate_risk_event_affected_cohort fingerprint r of
         Inl e \<Rightarrow> Inl (CohortFailure e)
       | Inr response \<Rightarrow> Inr response)"

text \<open>A caller reaches some portfolios: its grants hold them, or it needs none because no identity is verified.\<close>

definition reaches :: "product_caller \<Rightarrow> string list \<Rightarrow> bool" where
  "reaches caller portfolio_ids \<longleftrightarrow>
     (case pl_principal caller of
        Some p \<Rightarrow> set portfolio_ids \<subseteq> gs_portfolio_ids (rp_grants p)
      | None \<Rightarrow> pl_posture caller \<noteq> Some ''verified'')"

lemma require_scope_iff: "require_scope caller ids = Inr () \<longleftrightarrow> reaches caller ids"
  by (auto simp: require_scope_def reaches_def require_portfolio_scope_def request_principal_def require_portfolios_def
      raise_if_def split: option.splits sum.splits prod.splits if_splits)

text \<open>
  A scenario pack or a cohort is evaluated only for a caller that reaches every portfolio named by the
  request; in the verified posture that is a principal whose grants hold them all.  Otherwise the answer
  is the refusal, whatever the evaluation would have said.\<close>

theorem source_products_stay_in_scope:
  "case (analytics_risk_regime_scenario_pack digest caller r, analytics_risk_event_affected_cohort digest' caller q) of
     (pack, cohort) \<Rightarrow>
       (case pack of
          Inr response \<Rightarrow> reaches caller (pack_portfolios r) \<and> evaluate_regime_scenario_pack digest r = Inr response
        | Inl (ScopeRefused status reason) \<Rightarrow> \<not> reaches caller (pack_portfolios r) \<and> status \<in> {403, 503}
        | Inl (PackFailure e) \<Rightarrow> reaches caller (pack_portfolios r) \<and> evaluate_regime_scenario_pack digest r = Inl e
        | Inl (CohortFailure e) \<Rightarrow> False) \<and>
       (case cohort of
          Inr response \<Rightarrow> reaches caller (map px_portfolio_id (cq_portfolios q)) \<and>
            evaluate_risk_event_affected_cohort digest' q = Inr response
        | Inl (ScopeRefused status reason) \<Rightarrow>
            \<not> reaches caller (map px_portfolio_id (cq_portfolios q)) \<and> status \<in> {403, 503}
        | Inl (CohortFailure e) \<Rightarrow> reaches caller (map px_portfolio_id (cq_portfolios q)) \<and>
            evaluate_risk_event_affected_cohort digest' q = Inl e
        | Inl (PackFailure e) \<Rightarrow> False)"
proof -
  have scope: "case require_scope caller ids of
      Inr _ \<Rightarrow> reaches caller ids
    | Inl e \<Rightarrow> \<not> reaches caller ids \<and> (\<exists>status reason. e = ScopeRefused status reason \<and> status \<in> {403, 503})" for ids
    using require_scope_iff [of caller ids]
    by (auto simp: require_scope_def require_portfolio_scope_def request_principal_def require_portfolios_def
        raise_if_def split: option.splits sum.splits prod.splits if_splits)
  show ?thesis
    using scope [of "pack_portfolios r"] scope [of "map px_portfolio_id (cq_portfolios q)"]
    by (auto simp: analytics_risk_regime_scenario_pack_def analytics_risk_event_affected_cohort_def
        split: sum.splits)
qed

section \<open>Capabilities\<close>

datatype supported_input_mode = StatelessMode | StatefulMode | SimulationMode
datatype support_status = FullSupport | PartialSupport

definition SUPPORTED_INPUT_MODES :: "supported_input_mode list" where
  "SUPPORTED_INPUT_MODES = [StatelessMode, StatefulMode, SimulationMode]"

definition CAPABILITY_FEATURE_KEYS :: "string list" where
  "CAPABILITY_FEATURE_KEYS =
     [''risk.analytics.risk_analytics'', ''risk.analytics.concentration'', ''risk.analytics.drawdown'',
      ''risk.analytics.rolling_metrics'', ''risk.analytics.historical_attribution'',
      ''risk.analytics.mandate_risk_health_context'', ''risk.analytics.regime_scenario_pack'',
      ''risk.analytics.risk_event_affected_cohort'', ''risk.analytics.metrics'',
      ''risk.observability.calculation_supportability'']"

definition CAPABILITY_WORKFLOW_KEYS :: "string list" where
  "CAPABILITY_WORKFLOW_KEYS =
     [''risk_snapshot'', ''concentration_risk'', ''drawdown_analytics'', ''rolling_risk_analytics'',
      ''historical_risk_attribution'', ''mandate_risk_health_context'', ''regime_scenario_pack_evaluation'',
      ''risk_event_affected_cohort'']"

record capability_workflow_spec =
  cw_workflow_key :: string
  cw_endpoint_path :: string
  cw_supported_input_modes :: "supported_input_mode list"
  cw_support_status :: support_status
  cw_notes :: "string list"

record capability_workflow = capability_workflow_spec +
  cw_enabled :: bool

definition CAPABILITY_WORKFLOW_SPECS :: "capability_workflow_spec list" where
  "CAPABILITY_WORKFLOW_SPECS =
     [
      \<lparr>cw_workflow_key = ''risk_snapshot'', cw_endpoint_path = ''/analytics/risk/calculate'',
       cw_supported_input_modes = [StatelessMode, StatefulMode], cw_support_status = FullSupport,
       cw_notes =
         [''simulation is intentionally unsupported'',
          ''benchmark-dependent metrics require benchmark returns'',
          ''VaR and expected shortfall are signed return-threshold metrics'']\<rparr>,
      \<lparr>cw_workflow_key = ''concentration_risk'', cw_endpoint_path = ''/analytics/risk/concentration'',
       cw_supported_input_modes = [StatelessMode, StatefulMode, SimulationMode], cw_support_status = FullSupport,
       cw_notes =
         [''simulation is supported only for concentration risk'',
          ''issuer concentration includes coverage diagnostics'']\<rparr>,
      \<lparr>cw_workflow_key = ''drawdown_analytics'', cw_endpoint_path = ''/analytics/risk/drawdown'',
       cw_supported_input_modes = [StatelessMode, StatefulMode], cw_support_status = FullSupport,
       cw_notes =
         [''simulation is intentionally unsupported'']\<rparr>,
      \<lparr>cw_workflow_key = ''rolling_risk_analytics'', cw_endpoint_path = ''/analytics/risk/rolling-metrics'',
       cw_supported_input_modes = [StatelessMode, StatefulMode], cw_support_status = FullSupport,
       cw_notes =
         [''simulation is intentionally unsupported'',
          ''stateful rolling Sharpe depends on risk-free series availability from lotus-core'']\<rparr>,
      \<lparr>cw_workflow_key = ''historical_risk_attribution'', cw_endpoint_path = ''/analytics/risk/historical-attribution'',
       cw_supported_input_modes = [StatelessMode, StatefulMode], cw_support_status = PartialSupport,
       cw_notes =
         [''simulation is intentionally unsupported'',
          ''stateful active-risk supports POSITION, SECTOR, ASSET_CLASS, and ISSUER'',
          ''issuer active-risk consumes lotus-performance benchmark exposure context issuer groups'',
          ''historical-attribution response metadata is the authoritative active-risk support contract'',
          ''attribution residual, reconciled_sum, and metadata.metric_unit_semantics must be preserved with contributors'']\<rparr>,
      \<lparr>cw_workflow_key = ''mandate_risk_health_context'', cw_endpoint_path = ''/analytics/risk/mandate-health-context'',
       cw_supported_input_modes = [StatelessMode], cw_support_status = PartialSupport,
       cw_notes =
         [''derives bounded mandate risk health from source-owned tracking-error methodology'',
          ''returns threshold posture, lineage, and non-claim reason codes for Manage consumption'',
          ''does not create mandate actions, rebalance waves, or client communication'']\<rparr>,
      \<lparr>cw_workflow_key = ''regime_scenario_pack_evaluation'', cw_endpoint_path = ''/analytics/risk/regime-scenario-pack/evaluate'',
       cw_supported_input_modes = [StatelessMode], cw_support_status = FullSupport,
       cw_notes =
         [''evaluates caller-supplied exposure weights against governed CIO scenario packs'',
          ''returns source-owned worst-case loss, per-security contribution rows when supplied, CIO approval/effective-period/applicability posture, policy breach posture, and lineage'',
          ''does not forecast market states or accept browser-owned scenario methodology'']\<rparr>,
      \<lparr>cw_workflow_key = ''risk_event_affected_cohort'', cw_endpoint_path = ''/analytics/risk/risk-event-cohorts/evaluate'',
       cw_supported_input_modes = [StatelessMode], cw_support_status = PartialSupport,
       cw_notes =
         [''evaluates candidate portfolios against governed risk-event definitions'',
          ''returns affected membership, exclusions, impact scores, source refs, and supportability'',
          ''does not create rebalance waves or own campaign approval workflow'']\<rparr>
     ]"

definition build_capability_workflows :: "capability_workflow list" where
  "build_capability_workflows =
     map (\<lambda>spec. capability_workflow_spec.extend spec \<lparr>cw_enabled = True\<rparr>) CAPABILITY_WORKFLOW_SPECS"

definition aggregate_supported_input_modes :: "capability_workflow list \<Rightarrow> supported_input_mode list" where
  "aggregate_supported_input_modes workflows =
     (let observed = concat (map cw_supported_input_modes (filter cw_enabled workflows)) in
      filter (\<lambda>m. m \<in> set observed) SUPPORTED_INPUT_MODES)"

record capabilities_response =
  ic_source_service :: string
  ic_policy_version :: string
  ic_supported_input_modes :: "supported_input_mode list"
  ic_features :: "(string \<times> bool) list"
  ic_workflows :: "capability_workflow list"

definition integration_capabilities :: capabilities_response where
  "integration_capabilities =
     (let workflows = build_capability_workflows in
      \<lparr>ic_source_service = ''lotus-risk'', ic_policy_version = ''risk.v1'',
       ic_supported_input_modes = aggregate_supported_input_modes workflows,
       ic_features = map (\<lambda>key. (key, True)) CAPABILITY_FEATURE_KEYS, ic_workflows = workflows\<rparr>)"

text \<open>The aggregate is the modes of the enabled workflows, each once and in the canonical order.\<close>

lemma aggregated_modes:
  "distinct (aggregate_supported_input_modes workflows)"
  "set (aggregate_supported_input_modes workflows) =
     (\<Union>w\<in>set (filter cw_enabled workflows). set (cw_supported_input_modes w))"
proof -
  have "set SUPPORTED_INPUT_MODES = UNIV" by (auto simp: SUPPORTED_INPUT_MODES_def intro: supported_input_mode.exhaust)
  then show "set (aggregate_supported_input_modes workflows) =
      (\<Union>w\<in>set (filter cw_enabled workflows). set (cw_supported_input_modes w))"
    by (auto simp: aggregate_supported_input_modes_def Let_def)
  show "distinct (aggregate_supported_input_modes workflows)"
    unfolding aggregate_supported_input_modes_def Let_def
    by (rule distinct_filter) (simp add: SUPPORTED_INPUT_MODES_def)
qed

text \<open>What is published: the declared workflows in order, one endpoint each, and simulation for concentration alone.\<close>

lemma published_capabilities:
  "map cw_workflow_key (ic_workflows integration_capabilities) = CAPABILITY_WORKFLOW_KEYS"
  "distinct (map cw_endpoint_path (ic_workflows integration_capabilities))"
  "map cw_workflow_key (filter (\<lambda>w. SimulationMode \<in> set (cw_supported_input_modes w)) (ic_workflows integration_capabilities)) =
     [''concentration_risk'']"
  by code_simp+

end
