(* ===== verification/Operations.thy ===== *)
theory Operations
  imports Main Json
begin

text \<open>
  The lifetime of the application: the clients it owns and releases (app_lifecycle.py), the readiness it
  reports (ops_runtime.py), and the identifiers every request and response carries
  (middleware/correlation.py).  HTTP pools are numbered; base URLs are validated by code that rests on
  urllib and arrive as a result, \<open>Inl\<close> being the text of the \<open>ValueError\<close>.
\<close>

section \<open>The lifetime of the clients\<close>

datatype client_attribute = CoreAttribute | PerformanceAttribute

record runtime_client =
  uc_base_url :: string
  uc_pool :: "nat option"

text \<open>
  An attribute of the application's state may be missing (\<open>None\<close>), be \<open>None\<close> (\<open>Some None\<close>) or hold a
  client.  Opened pools are counted, and those not closed are listed in the order of their opening.
\<close>

record app_runtime =
  ar_is_draining :: "bool option"
  ar_client :: "client_attribute \<Rightarrow> runtime_client option option"
  ar_pools :: nat
  ar_open :: "nat list"
  ar_log :: "client_attribute list"

type_synonym owned_clients = "(client_attribute \<times> nat) list"

definition make_client :: "app_runtime \<Rightarrow> nat \<times> app_runtime" where
  "make_client s = (ar_pools s, s\<lparr>ar_pools := Suc (ar_pools s), ar_open := ar_open s @ [ar_pools s]\<rparr>)"

definition start_client ::
  "client_attribute \<Rightarrow> (string, string) result \<Rightarrow> app_runtime \<Rightarrow> owned_clients \<Rightarrow>
     (string, unit) result \<times> app_runtime \<times> owned_clients"
where
  "start_client a base_url s owned =
     (if ar_client s a \<noteq> None then (Inr (), s, owned)
      else let (p, u) = make_client s in
        case base_url of
          Inl e \<Rightarrow> (Inl e, u, owned)
        | Inr url \<Rightarrow> (Inr (), u\<lparr>ar_client := (ar_client u)(a := Some (Some \<lparr>uc_base_url = url, uc_pool = Some p\<rparr>))\<rparr>,
            owned @ [(a, p)]))"

definition start_application ::
  "(client_attribute \<Rightarrow> (string, string) result) \<Rightarrow> app_runtime \<Rightarrow> (string, unit) result \<times> app_runtime \<times> owned_clients"
where
  "start_application base_url s =
     (case start_client CoreAttribute (base_url CoreAttribute) (s\<lparr>ar_is_draining := Some False\<rparr>) [] of
        (Inl e, u, owned) \<Rightarrow> (Inl e, u, owned)
      | (Inr _, u, owned) \<Rightarrow> start_client PerformanceAttribute (base_url PerformanceAttribute) u owned)"

text \<open>
  Closing a pool may fail; the failure is logged, and the attribute is removed all the same.  A failure is
  an \<open>Exception\<close>: a cancellation, which the code does not catch, is not modelled.
\<close>

definition close_owned_client :: "(nat \<Rightarrow> bool) \<Rightarrow> client_attribute \<times> nat \<Rightarrow> app_runtime \<Rightarrow> app_runtime" where
  "close_owned_client close_fails owned s =
     (case owned of (a, p) \<Rightarrow>
        (let u = (if close_fails p then s\<lparr>ar_log := ar_log s @ [a]\<rparr>
              else s\<lparr>ar_open := filter (\<lambda>q. q \<noteq> p) (ar_open s)\<rparr>)
         in u\<lparr>ar_client := (ar_client u)(a := None)\<rparr>))"

definition close_owned_http_clients :: "(nat \<Rightarrow> bool) \<Rightarrow> owned_clients \<Rightarrow> app_runtime \<Rightarrow> app_runtime" where
  "close_owned_http_clients close_fails owned s = fold (close_owned_client close_fails) (rev owned) s"

definition stop_application :: "(nat \<Rightarrow> bool) \<Rightarrow> owned_clients \<Rightarrow> app_runtime \<Rightarrow> app_runtime" where
  "stop_application close_fails owned s =
     close_owned_http_clients close_fails owned (s\<lparr>ar_is_draining := Some True\<rparr>)"

text \<open>
  The lifespan of the application: it serves only when both clients were made, and is stopped in either
  case.  Serving does not touch the clients' attributes and opens no pool of its own.
\<close>

definition application_lifespan ::
  "(client_attribute \<Rightarrow> (string, string) result) \<Rightarrow> (nat \<Rightarrow> bool) \<Rightarrow> app_runtime \<Rightarrow> (string, unit) result \<times> app_runtime"
where
  "application_lifespan base_url close_fails s =
     (case start_application base_url s of (r, u, owned) \<Rightarrow> (r, stop_application close_fails owned u))"

text \<open>What a route gets of the clients (runtime/downstream_clients.py): a missing one is an error of the composition.\<close>

datatype composition_error = RuntimeCompositionError string string

definition attribute_names :: "client_attribute \<Rightarrow> string \<times> string" where
  "attribute_names a =
     (case a of CoreAttribute \<Rightarrow> (''lotus-core'', ''lotus_core_client'')
      | PerformanceAttribute \<Rightarrow> (''lotus-performance'', ''lotus_performance_client''))"

definition required_client :: "app_runtime \<Rightarrow> client_attribute \<Rightarrow> (composition_error, runtime_client) result" where
  "required_client s a =
     (case ar_client s a of
        Some (Some c) \<Rightarrow> Inr c
      | _ \<Rightarrow> (case attribute_names a of (service, attribute) \<Rightarrow> Inl (RuntimeCompositionError service attribute)))"

definition lotus_core_optional :: "app_runtime \<Rightarrow> runtime_client option" where
  "lotus_core_optional s = (case ar_client s CoreAttribute of Some c \<Rightarrow> c | None \<Rightarrow> None)"

section \<open>Readiness\<close>

record dependency_view =
  dv_service :: string
  dv_base_url :: string
  dv_status :: string
  dv_detail :: "string option"
  dv_category :: "string option"
  dv_issue_code :: "string option"

definition dependency_status_override :: "json option \<Rightarrow> string \<Rightarrow> json_object option" where
  "dependency_status_override overrides service =
     (case overrides of
        Some (JObject kvs) \<Rightarrow> (case json_get kvs service of JObject o' \<Rightarrow> Some o' | _ \<Rightarrow> None)
      | _ \<Rightarrow> None)"

definition configured_view :: "string \<Rightarrow> string \<Rightarrow> dependency_view" where
  "configured_view service base_url =
     \<lparr>dv_service = service, dv_base_url = base_url, dv_status = ''configured'',
      dv_detail = Some ''configured_only_no_probe'', dv_category = None, dv_issue_code = None\<rparr>"

definition json_text :: "json \<Rightarrow> string option" where
  "json_text v = (case v of JString s \<Rightarrow> Some s | _ \<Rightarrow> None)"

definition dependency_view_with_override :: "dependency_view \<Rightarrow> json_object option \<Rightarrow> dependency_view" where
  "dependency_view_with_override view override =
     (case override of
        None \<Rightarrow> view
      | Some kvs \<Rightarrow>
          view\<lparr>dv_status := (case json_text (json_get kvs ''status'') of Some s \<Rightarrow> s | None \<Rightarrow> dv_status view),
            dv_detail := (case json_text (json_get kvs ''detail'') of Some s \<Rightarrow> Some s | None \<Rightarrow> dv_detail view),
            dv_category := json_text (json_get kvs ''category''),
            dv_issue_code := json_text (json_get kvs ''issue_code'')\<rparr>)"

text \<open>A client that the state does not have is made for its base URL alone, the one of lotus-performance first.\<close>

definition client_base_url :: "(string, string) result \<Rightarrow> runtime_client option option \<Rightarrow> (string, string) result" where
  "client_base_url base_url client =
     (case client of Some (Some c) \<Rightarrow> Inr (uc_base_url c) | _ \<Rightarrow> base_url)"

definition resolve_dependency_runtime_views ::
  "(client_attribute \<Rightarrow> (string, string) result) \<Rightarrow> json option \<Rightarrow> app_runtime \<Rightarrow> (string, dependency_view list) result"
where
  "resolve_dependency_runtime_views base_url overrides s =
     bind_result (client_base_url (base_url PerformanceAttribute) (ar_client s PerformanceAttribute)) (\<lambda>performance.
     bind_result (client_base_url (base_url CoreAttribute) (ar_client s CoreAttribute)) (\<lambda>core.
       Inr (map (\<lambda>v. dependency_view_with_override v (dependency_status_override overrides (dv_service v)))
         [configured_view ''lotus-core'' core, configured_view ''lotus-performance'' performance])))"

definition is_draining :: "app_runtime \<Rightarrow> bool" where
  "is_draining s \<longleftrightarrow> ar_is_draining s = Some True"

definition resolve_readiness_status ::
  "(client_attribute \<Rightarrow> (string, string) result) \<Rightarrow> json option \<Rightarrow> app_runtime \<Rightarrow>
     (string, int \<times> string \<times> dependency_view list) result"
where
  "resolve_readiness_status base_url overrides s =
     bind_result (resolve_dependency_runtime_views base_url overrides s) (\<lambda>dependencies.
       Inr (if is_draining s then (503, ''draining'', dependencies)
         else if \<exists>d\<in>set dependencies. dv_status d = ''unavailable'' then (503, ''dependency_unavailable'', dependencies)
         else if \<exists>d\<in>set dependencies. dv_status d = ''degraded'' then (200, ''degraded'', dependencies)
         else (200, ''ready'', dependencies)))"

definition resolve_ops_status ::
  "(client_attribute \<Rightarrow> (string, string) result) \<Rightarrow> json option \<Rightarrow> app_runtime \<Rightarrow>
     (string, string \<times> dependency_view list) result"
where
  "resolve_ops_status base_url overrides s =
     bind_result (resolve_dependency_runtime_views base_url overrides s) (\<lambda>dependencies.
       Inr (if is_draining s \<or> (\<exists>d\<in>set dependencies. dv_status d \<in> {''degraded'', ''unavailable''})
         then (''degraded'', dependencies) else (''ok'', dependencies)))"

record ops_checks =
  oc_status :: string
  oc_live :: bool
  oc_ready :: bool
  oc_draining :: bool
  oc_dependencies :: "dependency_view list"

definition ops ::
  "(client_attribute \<Rightarrow> (string, string) result) \<Rightarrow> json option \<Rightarrow> app_runtime \<Rightarrow> (string, ops_checks) result"
where
  "ops base_url overrides s =
     bind_result (resolve_readiness_status base_url overrides s) (\<lambda>(status_code, _, dependencies).
     bind_result (resolve_ops_status base_url overrides s) (\<lambda>(ops_status, _).
       Inr \<lparr>oc_status = ops_status, oc_live = True, oc_ready = (status_code = 200),
         oc_draining = is_draining s, oc_dependencies = dependencies\<rparr>))"

section \<open>Correlation\<close>

text \<open>
  The patterns of the middleware, all matched against the whole text; a traceparent is its parts, joined by
  dashes.  Fresh identifiers, \<open>str\<close> and \<open>hex\<close> of random UUIDs, are arguments.
\<close>

definition safe_correlation_char :: "char \<Rightarrow> bool" where
  "safe_correlation_char c \<longleftrightarrow>
     (CHR ''A'' \<le> c \<and> c \<le> CHR ''Z'') \<or> (CHR ''a'' \<le> c \<and> c \<le> CHR ''z'') \<or> (CHR ''0'' \<le> c \<and> c \<le> CHR ''9'') \<or>
     c \<in> set ''._:/-''"

definition is_safe_correlation_id :: "string \<Rightarrow> bool" where
  "is_safe_correlation_id s \<longleftrightarrow> 1 \<le> length s \<and> length s \<le> 128 \<and> list_all safe_correlation_char s"

definition lower_hex_char :: "char \<Rightarrow> bool" where
  "lower_hex_char c \<longleftrightarrow> (CHR ''0'' \<le> c \<and> c \<le> CHR ''9'') \<or> (CHR ''a'' \<le> c \<and> c \<le> CHR ''f'')"

definition is_lower_hex :: "nat \<Rightarrow> string \<Rightarrow> bool" where
  "is_lower_hex n s \<longleftrightarrow> length s = n \<and> list_all lower_hex_char s"

definition is_valid_trace_id :: "string \<Rightarrow> bool" where
  "is_valid_trace_id s \<longleftrightarrow> is_lower_hex 32 s \<and> s \<noteq> replicate 32 CHR ''0''"

definition traceparent_trace_id :: "string \<Rightarrow> string option" where
  "traceparent_trace_id s =
     (let trace = take 32 (drop 3 s); parent = take 16 (drop 36 s); flags = drop 53 s in
      if s = ''00-'' @ trace @ ''-'' @ parent @ ''-'' @ flags \<and>
        is_lower_hex 32 trace \<and> is_lower_hex 16 parent \<and> is_lower_hex 2 flags
      then Some trace else None)"

definition resolve_trace_id :: "string \<Rightarrow> string option \<Rightarrow> string option \<Rightarrow> string" where
  "resolve_trace_id fresh inbound traceparent =
     (let given = traceparent_trace_id (case traceparent of None \<Rightarrow> [] | Some t \<Rightarrow> t) in
      if \<exists>t. inbound = Some t \<and> is_valid_trace_id t then the inbound
      else case given of
        Some t \<Rightarrow> if is_valid_trace_id t then t else fresh
      | None \<Rightarrow> fresh)"

definition resolve_traceparent :: "string \<Rightarrow> string option \<Rightarrow> string \<Rightarrow> string" where
  "resolve_traceparent fresh traceparent trace_id =
     (case traceparent of
        Some t \<Rightarrow> if traceparent_trace_id t = Some trace_id then t
          else ''00-'' @ trace_id @ ''-'' @ take 16 fresh @ ''-01''
      | None \<Rightarrow> ''00-'' @ trace_id @ ''-'' @ take 16 fresh @ ''-01'')"

definition resolved_correlation_id :: "string \<Rightarrow> string option \<Rightarrow> string" where
  "resolved_correlation_id fresh inbound =
     (case inbound of Some s \<Rightarrow> if is_safe_correlation_id s then s else fresh | None \<Rightarrow> fresh)"

record fresh_identifiers =
  fi_correlation :: string
  fi_trace :: string
  fi_span :: string

definition uuid_texts :: "fresh_identifiers \<Rightarrow> bool" where
  "uuid_texts f \<longleftrightarrow>
     length (fi_correlation f) = 36 \<and> list_all (\<lambda>c. lower_hex_char c \<or> c = CHR ''-'') (fi_correlation f) \<and>
     is_lower_hex 32 (fi_trace f) \<and> fi_trace f ! 12 = CHR ''4'' \<and> is_lower_hex 32 (fi_span f)"

record inbound_headers =
  ih_correlation :: "string option"
  ih_trace :: "string option"
  ih_traceparent :: "string option"

record resolved_identifiers =
  ri_correlation :: string
  ri_trace :: string
  ri_traceparent :: string

definition resolve_identifiers :: "fresh_identifiers \<Rightarrow> inbound_headers \<Rightarrow> resolved_identifiers" where
  "resolve_identifiers f h =
     (let trace_id = resolve_trace_id (fi_trace f) (ih_trace h) (ih_traceparent h) in
      \<lparr>ri_correlation = resolved_correlation_id (fi_correlation f) (ih_correlation h), ri_trace = trace_id,
       ri_traceparent = resolve_traceparent (fi_span f) (ih_traceparent h) trace_id\<rparr>)"

text \<open>
  The response of the application gets the identifiers its request was handled under.  Header names are in
  lower case, as they are compared; the duration is a text.
\<close>

definition dispatch ::
  "string \<Rightarrow> fresh_identifiers \<Rightarrow> string \<Rightarrow> inbound_headers \<Rightarrow>
     (string \<Rightarrow> string \<Rightarrow> int \<times> (string, string) dict) \<Rightarrow> int \<times> (string, string) dict"
where
  "dispatch service_name f duration h call_next =
     (let ids = resolve_identifiers f h; (status, headers) = call_next (ri_correlation ids) (ri_trace ids) in
      (status, dict_update headers
        [(''x-correlation-id'', ri_correlation ids), (''x-trace-id'', ri_trace ids),
         (''traceparent'', ri_traceparent ids), (''x-service-name'', service_name),
         (''x-request-duration-ms'', duration)]))"

section \<open>Pools are released\<close>

lemma fresh_pool: "list_all (\<lambda>p. p < n) xs \<Longrightarrow> n \<le> q \<Longrightarrow> filter (\<lambda>p. p \<noteq> q) xs = xs" for n :: nat
  by (intro filter_True) (auto simp: list_all_iff)

lemma restored_clients [simp]:
  "f a = None \<Longrightarrow> f(a := None) = f"
  "f a = None \<Longrightarrow> f b = None \<Longrightarrow> f(a := None, b := None) = f"
  by (auto simp: fun_eq_iff)

lemmas lifespan_defs =
  application_lifespan_def start_application_def start_client_def make_client_def stop_application_def
  close_owned_http_clients_def close_owned_client_def Let_def

text \<open>While it serves, every client the application owns is there, for the base URL it was made with.\<close>

lemma owned_clients_serve:
  assumes "start_application base_url s = (Inr (), u, owned)" "ar_client s a = None"
  shows "\<exists>url p. base_url a = Inr url \<and> required_client u a = Inr \<lparr>uc_base_url = url, uc_pool = Some p\<rparr> \<and>
    p \<in> set (ar_open u)"
  using assms by (cases a) (auto simp: lifespan_defs required_client_def split: if_splits sum.splits)

text \<open>
  C40: Whatever fails, a lifespan leaves the application draining and its client attributes as they were; every
  pool it owns is closed, the last opened first, and a failure to close one is logged and does not keep
  the other open.  Only a client that is refused for its base URL leaves the pool opened for it behind,
  for which nothing is responsible yet.\<close>

theorem lifespan_releases_its_pools:
  assumes "list_all (\<lambda>p. p < ar_pools s) (ar_open s)"
  shows "case (start_application base_url s, application_lifespan base_url close_fails s) of
    ((_, _, owned), (r, u)) \<Rightarrow>
      ar_client u = ar_client s \<and> ar_is_draining u = Some True \<and>
      ar_open u = ar_open s @ filter close_fails (map snd owned) @
        (case r of Inl _ \<Rightarrow> [ar_pools s + length owned] | Inr _ \<Rightarrow> []) \<and>
      ar_log u = ar_log s @ map fst (rev (filter (\<lambda>(a, p). close_fails p) owned)) \<and>
      (case r of Inl _ \<Rightarrow> True
       | Inr _ \<Rightarrow> map fst owned = filter (\<lambda>a. ar_client s a = None) [CoreAttribute, PerformanceAttribute])"
proof -
  let ?n = "ar_pools s"
  note fresh = fresh_pool [OF assms, of ?n] fresh_pool [OF assms, of "Suc ?n"]
  show ?thesis
    by (cases "ar_client s CoreAttribute"; cases "ar_client s PerformanceAttribute";
        cases "base_url CoreAttribute"; cases "base_url PerformanceAttribute";
        cases "close_fails ?n"; cases "close_fails (Suc ?n)")
      (simp_all add: lifespan_defs fresh fun_upd_twist)
qed

section \<open>Readiness\<close>

text \<open>
  Traffic is refused exactly while the application drains or a dependency is unavailable, and the
  diagnostics call the application well exactly when readiness calls it ready.\<close>

theorem readiness_agrees_with_operations:
  "case (resolve_readiness_status base_url overrides s, ops base_url overrides s) of
     (Inl e, c) \<Rightarrow> c = Inl e
   | (Inr (code, status, ds), Inl e) \<Rightarrow> False
   | (Inr (code, status, ds), Inr c) \<Rightarrow>
       oc_dependencies c = ds \<and> oc_draining c = is_draining s \<and> oc_ready c = (code = 200) \<and>
       (code = 503 \<longleftrightarrow> is_draining s \<or> list_ex (\<lambda>d. dv_status d = ''unavailable'') ds) \<and> code \<in> {200, 503} \<and>
       (oc_status c = ''ok'' \<longleftrightarrow> status = ''ready'') \<and> oc_status c \<in> {''ok'', ''degraded''}"
  by (cases "resolve_dependency_runtime_views base_url overrides s")
    (auto simp: resolve_readiness_status_def resolve_ops_status_def ops_def list_ex_iff)

section \<open>Identifiers\<close>

lemma lower_hex_is_safe: "lower_hex_char c \<Longrightarrow> safe_correlation_char c"
  "safe_correlation_char CHR ''-''"
  by (auto simp: lower_hex_char_def safe_correlation_char_def less_eq_char_def)

lemma traceparent_of_parts:
  assumes "is_lower_hex 32 trace" "is_lower_hex 16 parent" "is_lower_hex 2 flags"
  shows "traceparent_trace_id (''00-'' @ trace @ ''-'' @ parent @ ''-'' @ flags) = Some trace"
proof -
  have len: "length trace = 32" "length parent = 16" using assms by (simp_all add: is_lower_hex_def)
  then have "take 32 (drop 3 (''00-'' @ trace @ ''-'' @ parent @ ''-'' @ flags)) = trace"
    "take 16 (drop 36 (''00-'' @ trace @ ''-'' @ parent @ ''-'' @ flags)) = parent"
    "drop 53 (''00-'' @ trace @ ''-'' @ parent @ ''-'' @ flags) = flags"
    by (simp_all add: drop_Cons' len)
  with assms show ?thesis by (simp only: traceparent_trace_id_def Let_def if_True simp_thms)
qed

lemma fresh_trace_valid: "uuid_texts f \<Longrightarrow> is_valid_trace_id (fi_trace f)"
  by (auto simp: uuid_texts_def is_valid_trace_id_def)

lemma resolved_correlation:
  "is_safe_correlation_id fresh \<Longrightarrow> is_safe_correlation_id (resolved_correlation_id fresh inbound)"
  "is_safe_correlation_id c \<Longrightarrow> resolved_correlation_id fresh (Some c) = c"
  by (simp_all add: resolved_correlation_id_def split: option.split)

lemma resolved_trace:
  "is_valid_trace_id fresh \<Longrightarrow> is_valid_trace_id (resolve_trace_id fresh inbound traceparent)"
  "is_valid_trace_id t \<Longrightarrow> resolve_trace_id fresh (Some t) traceparent = t"
proof -
  show "is_valid_trace_id t \<Longrightarrow> resolve_trace_id fresh (Some t) traceparent = t"
    by (simp add: resolve_trace_id_def Let_def)
  show "is_valid_trace_id fresh \<Longrightarrow> is_valid_trace_id (resolve_trace_id fresh inbound traceparent)"
    by (cases inbound; cases "traceparent_trace_id (case traceparent of None \<Rightarrow> [] | Some t \<Rightarrow> t)")
      (simp_all add: resolve_trace_id_def Let_def)
qed

lemma resolved_traceparent:
  assumes "is_lower_hex 32 trace_id" "is_lower_hex 16 (take 16 fresh)"
  shows "traceparent_trace_id (resolve_traceparent fresh traceparent trace_id) = Some trace_id"
proof -
  have flags: "is_lower_hex 2 ''01''" by code_simp
  have "traceparent_trace_id (''00-'' @ trace_id @ ''-'' @ take 16 fresh @ ''-01'') = Some trace_id"
    using traceparent_of_parts [OF assms flags] by (simp only: append.simps)
  then show ?thesis by (simp only: resolve_traceparent_def split: option.split if_split) simp
qed

text \<open>
  Whatever a caller sends, the identifiers of a request are safe to log and consistent: the correlation
  identifier has at most 128 characters of a fixed alphabet, the trace identifier is 32 hexadecimal
  digits, not all zero, and the traceparent answered carries it.  What the caller sent is kept when it is
  admissible.\<close>

theorem identifiers_are_safe:
  assumes "uuid_texts f"
  shows "let ids = resolve_identifiers f h in
    is_safe_correlation_id (ri_correlation ids) \<and> is_valid_trace_id (ri_trace ids) \<and>
    traceparent_trace_id (ri_traceparent ids) = Some (ri_trace ids) \<and>
    (case ih_correlation h of Some c \<Rightarrow> is_safe_correlation_id c \<longrightarrow> ri_correlation ids = c | None \<Rightarrow> True) \<and>
    (case ih_trace h of Some t \<Rightarrow> is_valid_trace_id t \<longrightarrow> ri_trace ids = t | None \<Rightarrow> True) \<and>
    (case ih_traceparent h of
       Some p \<Rightarrow> traceparent_trace_id p = Some (ri_trace ids) \<longrightarrow> ri_traceparent ids = p | None \<Rightarrow> True)"
proof -
  let ?ids = "resolve_identifiers f h"
  have "list_all (\<lambda>c. lower_hex_char c \<or> c = CHR ''-'') (fi_correlation f)"
    using assms by (simp only: uuid_texts_def)
  then have "list_all safe_correlation_char (fi_correlation f)"
    by (rule list.pred_mono_strong) (metis lower_hex_is_safe)
  then have "is_safe_correlation_id (fi_correlation f)"
    using assms by (simp add: uuid_texts_def is_safe_correlation_id_def)
  moreover have "is_lower_hex 16 (take 16 (fi_span f))"
    using assms by (simp add: uuid_texts_def is_lower_hex_def list_all_length)
  ultimately have fresh: "is_safe_correlation_id (fi_correlation f)" "is_valid_trace_id (fi_trace f)"
    "is_lower_hex 16 (take 16 (fi_span f))"
    using fresh_trace_valid [OF assms] by simp_all
  have trace: "is_valid_trace_id (ri_trace ?ids)"
    by (simp only: resolve_identifiers_def Let_def resolved_identifiers.simps resolved_trace(1) [OF fresh(2)])
  then have "traceparent_trace_id (ri_traceparent ?ids) = Some (ri_trace ?ids)"
    by (simp only: resolve_identifiers_def Let_def resolved_identifiers.simps is_valid_trace_id_def
        resolved_traceparent [OF _ fresh(3)])
  with fresh(1) trace show ?thesis
    by (simp only: Let_def, simp only: resolve_identifiers_def Let_def resolved_identifiers.simps
        resolved_correlation resolved_trace resolve_traceparent_def split: option.split)
      (simp add: resolved_correlation(2) resolved_trace(2))
qed

section \<open>Examples\<close>

definition example_runtime :: app_runtime where
  "example_runtime = \<lparr>ar_is_draining = None, ar_client = (\<lambda>_. None), ar_pools = 0, ar_open = [], ar_log = []\<rparr>"

definition refused_performance_url :: "client_attribute \<Rightarrow> (string, string) result" where
  "refused_performance_url a =
     (case a of CoreAttribute \<Rightarrow> Inr ''http://core'' | PerformanceAttribute \<Rightarrow> Inl ''must use http or https'')"

theorem lifespan_releases_its_pools_witness:
  "case application_lifespan refused_performance_url (\<lambda>_. False) example_runtime of (r, u) \<Rightarrow>
     r = Inl ''must use http or https'' \<and> ar_open u = [1] \<and> ar_is_draining u = Some True"
proof -
  have start: "start_application refused_performance_url example_runtime =
      (Inl ''must use http or https'', serving, [(CoreAttribute, 0)])"
    if "serving = fst (snd (start_application refused_performance_url example_runtime))" for serving
    using that by (simp add: lifespan_defs refused_performance_url_def example_runtime_def)
  have "list_all (\<lambda>p. p < ar_pools example_runtime) (ar_open example_runtime)"
    by (simp add: example_runtime_def)
  from lifespan_releases_its_pools [OF this, where base_url = refused_performance_url and close_fails = "\<lambda>_. False"] start [OF refl]
  show ?thesis
    by (auto simp: application_lifespan_def example_runtime_def split: prod.splits)
qed

definition example_identifiers :: fresh_identifiers where
  "example_identifiers =
     \<lparr>fi_correlation = ''0f8fad5b-d9cb-469f-a165-70867728950e'', fi_trace = ''0f8fad5bd9cb469fa16570867728950e'',
      fi_span = ''7c9e6679742540de944be07fc1f90ae7''\<rparr>"

definition example_headers :: inbound_headers where
  "example_headers =
     \<lparr>ih_correlation = Some ''x y'', ih_trace = Some (replicate 32 CHR ''0''), ih_traceparent = None\<rparr>"

theorem identifiers_are_safe_witness:
  "ri_correlation (resolve_identifiers example_identifiers example_headers) = ''0f8fad5b-d9cb-469f-a165-70867728950e'' \<and>
   is_valid_trace_id (ri_trace (resolve_identifiers example_identifiers example_headers))"
proof -
  have "uuid_texts example_identifiers" by code_simp
  moreover have "\<not> is_safe_correlation_id ''x y''" by code_simp
  ultimately show ?thesis
    using identifiers_are_safe [of example_identifiers example_headers]
    by (simp add: resolve_identifiers_def resolved_correlation_id_def example_headers_def example_identifiers_def Let_def)
qed

end
