(* ===== verification/Spec2Isabelle.thy ===== *)
theory Spec2Isabelle
  imports Main JobSystem JobService Supportability RiskEventCohort ApiErrors PerformanceClient
    ReturnsSeries BenchmarkExposure PositionExposure DrawdownEngine RiskSourcing AttributionSourcing RollingSourcing SourceProducts Operations
begin

text \<open>
  A verification library of lotus-risk, the risk analytics service under \<open>src/src/app\<close>.

  \<^bold>\<open>What the program does.\<close>  Callers ask for risk calculations over HTTP.  A request passes the
  admission middleware (posture, trusted ingress, payload limit, authorization), reaches a route
  handler, and is answered by an engine.  Governed scenario packs are evaluated synchronously or as
  durable jobs: submission admits a job under the tenant's replay key, a worker claims it under a
  fenced lease, evaluates it and publishes result and rows, and status and contribution pages read
  them until retention removes them.  Every calculation is qualified by a bounded supportability
  posture.

  \<^bold>\<open>Which theory models what.\<close>
  \<^item> \<^verbatim>\<open>Prelude\<close>: results of code that may raise, Python strings, \<open>int(text)\<close>, ordered dictionaries,
    \<open>sorted(set(xs))\<close>.  \<^verbatim>\<open>Float64\<close>: binary64 arithmetic as rounded rationals, \<open>sum\<close> of CPython, \<open>round\<close>.
    \<^verbatim>\<open>Dates\<close>: the proleptic calendar.  \<^verbatim>\<open>Severity\<close>: locales for joins of postures and for
    precedence lists.  \<^verbatim>\<open>Paging\<close>: a locale for listings read page by page after a key.
  \<^item> \<^verbatim>\<open>ScenarioCatalog\<close>, \<^verbatim>\<open>ScenarioInputs\<close>, \<^verbatim>\<open>ScenarioEngine\<close>: scenario_pack_catalog.py,
    scenario_governance.py, contracts/scenario_inputs.py, the validators of scenario_jobs/contracts.py,
    scenario_engine.py.
  \<^item> \<^verbatim>\<open>JobStore\<close>: scenario_jobs/store.py over an explicit database \<open>job_db\<close> of job rows and contribution
    rows; \<^verbatim>\<open>JobWorker\<close>: scenario_jobs/worker.py; \<^verbatim>\<open>JobSystem\<close>: all operations interleaved, a step relation
    with reachable states; \<^verbatim>\<open>Authority\<close>, \<^verbatim>\<open>Cursor\<close>, \<^verbatim>\<open>JobService\<close>: header admission, the page cursor,
    scenario_jobs/schema.py, service.py and routers/scenario_jobs.py.
  \<^item> \<^verbatim>\<open>Supportability\<close>: supportability_periods.py and calculation_supportability.py.
    \<^verbatim>\<open>RiskEventCohort\<close>: risk_event_cohort_engine.py and its contracts.
  \<^item> \<^verbatim>\<open>Principal\<close>: security/ and dependencies/request_context.py; \<^verbatim>\<open>Enterprise\<close>: capability rules, write
    authorization, trusted ingress, start-up validation; \<^verbatim>\<open>Admission\<close>: the middleware of
    enterprise_readiness.py, audit events, redaction, error bodies.
  \<^item> \<^verbatim>\<open>Json\<close>: JSON values, \<open>Decimal(str(value))\<close>.  \<^verbatim>\<open>Upstream\<close>: downstream requests as computations
    over a trace of events, their execution and classification (upstream_errors.py,
    integrations/upstream_error_classification.py, downstream_request_execution.py);
    \<^verbatim>\<open>CoreClient\<close>: lotus_core_client.py, lotus_core_operations.py, lotus_core_transport.py;
    \<^verbatim>\<open>PerformanceClient\<close>: lotus_performance_transport.py and performance_async_execution.py.
  \<^item> \<^verbatim>\<open>ConcentrationInputs\<close>, \<^verbatim>\<open>ConcentrationMath\<close>, \<^verbatim>\<open>ConcentrationIssuers\<close>, \<^verbatim>\<open>ConcentrationSession\<close>,
    \<^verbatim>\<open>ConcentrationResolvers\<close>, \<^verbatim>\<open>ConcentrationEngine\<close>: the request contracts, measures, issuer
    authority, simulation sessions, the three modes and the response with its route
    (services/concentration/, concentration_engine.py, routers/concentration.py); \<^verbatim>\<open>ApiErrors\<close>:
    api_errors.py.

  \<^item> \<^verbatim>\<open>Calendar\<close>, \<^verbatim>\<open>Periods\<close>: pandas offsets as the source uses them, contracts/risk_common_inputs.py,
    period_resolution.py, source_window.py, stateful_returns_request.py.  \<^verbatim>\<open>Decimals\<close>: the decimal
    context of Python with its rounding and traps.  \<^verbatim>\<open>ReturnsSeries\<close>: stateful_returns_series_parser.py
    and contracts/stateful_returns_source_evidence.py; \<^verbatim>\<open>StatefulReturns\<close>: the returns-series workflow.
    \<^verbatim>\<open>TokenPages\<close>: a locale for listings read by continuation token under a page bound.
  \<^item> \<^verbatim>\<open>Numerics\<close>: the reductions numpy and pandas compute, as a record of operations with named laws;
    \<^verbatim>\<open>DrawdownSeries\<close>, \<^verbatim>\<open>DrawdownEngine\<close>: services/drawdown_*.py, contracts/drawdown_*.py,
    routers/drawdown.py; \<^verbatim>\<open>RiskMetrics\<close>, \<^verbatim>\<open>RiskPeriods\<close>, \<^verbatim>\<open>RiskSourcing\<close>: services/risk/, risk_engine.py,
    risk_mode_adapter.py, the currency and risk-free reads, routers/risk_calculation.py.
  \<^item> \<^verbatim>\<open>AttributionInputs\<close>: the attribution contracts and attribution_evidence_selection.py;
    \<^verbatim>\<open>BenchmarkExposure\<close>, \<^verbatim>\<open>PositionExposure\<close>: the two exposure histories; \<^verbatim>\<open>ActiveEvidence\<close>,
    \<^verbatim>\<open>GroupEvidence\<close>: attribution_active_group_evidence.py and attribution_group_evidence.py;
    \<^verbatim>\<open>AttributionEngine\<close>: frames, decomposition, sets and periods; \<^verbatim>\<open>AttributionSourcing\<close>:
    attribution_stateful_inputs.py, attribution_mode_adapter.py, routers/historical_attribution.py.
  \<^item> \<^verbatim>\<open>RollingMetrics\<close>: the rolling contracts, rolling_metric_series.py,
    rolling_benchmark_metric_series.py, rolling_max_drawdown_series.py, rolling_metric_outputs.py and
    rolling_window_calculation.py; \<^verbatim>\<open>RollingEngine\<close>: rolling_period_series.py, rolling_period_results.py,
    rolling_dependency_context.py, rolling_engine.py; \<^verbatim>\<open>RollingSourcing\<close>: rolling_stateful_*.py,
    rolling_risk_free_*.py, rolling_mode_adapter.py, routers/rolling.py.
  \<^item> \<^verbatim>\<open>MandateHealth\<close>: mandate_health_context.py and its contracts; \<^verbatim>\<open>SourceProducts\<close>:
    routers/source_products.py with its portfolio scope, capability_workflows.py and
    contracts/capabilities.py; \<^verbatim>\<open>Operations\<close>: app_lifecycle.py, ops_runtime.py,
    middleware/correlation.py and runtime/downstream_clients.py.

  \<^bold>\<open>What the lemmas show.\<close>  The store keeps its invariant under every interleaving, publishes a job at
  most once and only under the current claim, serves the oldest claimable job first, separates
  tenants, and loses no job to a crash; paging returns every row exactly once; the synchronous and the
  job evaluation agree; the posture of a response is ready exactly when nothing qualifies it; a
  principal is resolved exactly when every authority answered for it; behind an accepted bank
  configuration a write reaches the application only with every proof.  Downstream, every call is made
  under the admitted tenant, a refused request makes none, polling is bounded and returns a result that
  becomes ready in time, and an answer belongs to the execution it was accepted for; a property that
  speaks of an answer ties it to the trace, as what the peer gave to that request at that point
  (\<open>json_reply\<close>, \<open>call_answered\<close>, \<open>workflow_answer\<close>).  A simulation works on the session its creation
  answered, a projection never rewrites the baseline of a concentration report, and its issuer groups partition the portfolio.  Of the
  return reports (drawdown, risk, attribution, rolling metrics): the source window covers every requested
  period, accepted source evidence is bound to the request and its window, a stateful risk or rolling report
  rests on what one workflow and the currency and risk-free reads answered, every requested period, metric
  and set is answered where there are returns and none where there are not, episodes are the maximal runs below the peak, the two drawdown reports agree, resampling
  keeps every return, exposure histories are admissible or refused, evidence is called empirical only
  when it is complete and reconciles, and the inputs a stateful attribution resolves suffice for it.  A
  rolling report answers every window and metric, with gaps only where a flag announces them, emits no
  more points than its limit, and its drawdown of a window is the maximum drawdown of the drawdown report.  A mandate is in attention
  exactly when its active risk lies above the threshold; the scenario and cohort routes stay in the caller's
  scope; a lifespan of the application closes every pool it owns, but not one whose client was refused;
  and the identifiers of a request are safe to log.

  \<^bold>\<open>Parameters.\<close>  Code that is not in the repository is an argument of the definitions that use it:
  digests and JSON codecs, the identity providers, the environment, \<open>json.loads\<close>, the parsing of
  floating-point texts and of dates with times, pydantic's readers of single fields, clocks and fresh
  identifiers (functions of the trace), and the peer of an HTTP client, which answers each request with
  everything sent before it in view.  What numpy and pandas reduce (products, means, deviations,
  covariances, quantiles, sorting by date) are records of operations, \<open>numeric_ops\<close>, \<open>risk_ops\<close>,
  \<open>rolling_ops\<close> and \<open>attribution_ops\<close>; a property names the laws it uses, and reference operations satisfy them.  Strings
  are lists of characters below code point 256; case mapping is ASCII's.

  \<^bold>\<open>Bounds and fuel.\<close>  A page walk takes as fuel a number of requests, and any number above that of the
  rows is enough; a worker run takes a number of invocations, and as many as there are claimable jobs
  drain the queue.  Polling recurs on the configured number of polls, and the token listings on the page
  bound of the source, as the loops do.  Everything else recurs structurally.

  \<^bold>\<open>Not modelled.\<close>  Interleavings within a gathered pair of requests, which runs one after the
  other in either order; floats that are not finite, where an operation would produce them, and the
  refusal of httpx to encode one; the cancellation of a task; the recording of observability metrics, the validation of base URLs, telemetry snapshots, the JWT
  verifier, FastAPI and Alembic wiring, examples of the contracts, and the repository's scripts.
\<close>

end
